(* ===== verification/Prelude.thy ===== *)
theory Prelude
  imports Main "HOL-Library.Word" "HOL-Library.List_Lexorder" "HOL-Library.Char_ord"
    "HOL-Library.Product_Lexorder"
begin

text \<open>
  Vocabulary shared by every component: Rust's \<open>Result\<close> as a sum type, the machine
  integers and their checked and saturating arithmetic, UTF-8 strings as byte lists with
  \<open>str::trim\<close>, decimal formatting, and the list functions behind Rust's iterator
  adaptors. The collections at the top are extended by the component theories.
\<close>

named_theorems result_simps \<open>unfolding of the \<open>Result\<close> combinators\<close>
named_theorems trim_simps \<open>evaluation of \<open>str::trim\<close> on closed strings\<close>
named_theorems codec_simps \<open>decode-after-encode equations of the column codecs\<close>

subsection \<open>Result\<close>

text \<open>
  \<open>Result<T, E>\<close> is \<open>'e + 'a\<close>, \<open>Inl\<close> the error. \<open>and_then\<close> is the \<open>?\<close>
  operator: it stops at the first error.
\<close>

definition and_then :: "'e + 'a \<Rightarrow> ('a \<Rightarrow> 'e + 'b) \<Rightarrow> 'e + 'b" where
  "and_then m k = (case m of Inl e \<Rightarrow> Inl e | Inr x \<Rightarrow> k x)"

definition map_err :: "('e \<Rightarrow> 'f) \<Rightarrow> 'e + 'a \<Rightarrow> 'f + 'a" where
  "map_err f m = (case m of Inl e \<Rightarrow> Inl (f e) | Inr x \<Rightarrow> Inr x)"

definition ok_or :: "'e \<Rightarrow> 'a option \<Rightarrow> 'e + 'a" where
  "ok_or e x = (case x of None \<Rightarrow> Inl e | Some y \<Rightarrow> Inr y)"

text \<open>\<open>if c { return Err(e) }\<close>\<close>

definition reject_if :: "bool \<Rightarrow> 'e \<Rightarrow> 'e + unit" where
  "reject_if c e = (if c then Inl e else Inr ())"

text \<open>\<open>value.map(f).transpose()?\<close>\<close>

definition traverse_opt :: "('a \<Rightarrow> 'e + 'b) \<Rightarrow> 'a option \<Rightarrow> 'e + 'b option" where
  "traverse_opt f x =
     (case x of None \<Rightarrow> Inr None | Some a \<Rightarrow> and_then (f a) (\<lambda>b. Inr (Some b)))"

text \<open>\<open>for x in xs { f(x)?; }\<close>\<close>

fun for_each :: "('a \<Rightarrow> 'e + unit) \<Rightarrow> 'a list \<Rightarrow> 'e + unit" where
  "for_each f [] = Inr ()"
| "for_each f (x # xs) = and_then (f x) (\<lambda>_. for_each f xs)"

definition is_ok :: "'e + 'a \<Rightarrow> bool" where
  "is_ok m = (case m of Inl _ \<Rightarrow> False | Inr _ \<Rightarrow> True)"

lemma and_then_simps [simp, result_simps]:
  "and_then (Inl e) k = Inl e"
  "and_then (Inr x) k = k x"
  by (simp_all add: and_then_def)

lemma and_then_Inr_iff: "and_then m k = Inr y \<longleftrightarrow> (\<exists>x. m = Inr x \<and> k x = Inr y)"
  by (cases m) auto

lemma and_then_InrE [elim!]:
  assumes "and_then m k = Inr y"
  obtains x where "m = Inr x" and "k x = Inr y"
  using assms by (cases m) auto

lemma and_then_assoc: "and_then (and_then m f) g = and_then m (\<lambda>x. and_then (f x) g)"
  by (cases m) auto

lemma map_err_simps [simp, result_simps]:
  "map_err f (Inl e) = Inl (f e)"
  "map_err f (Inr x) = Inr x"
  by (simp_all add: map_err_def)

lemma map_err_Inr_iff [simp]: "map_err f m = Inr x \<longleftrightarrow> m = Inr x"
  by (cases m) auto

lemma ok_or_simps [simp, result_simps]:
  "ok_or e None = Inl e"
  "ok_or e (Some x) = Inr x"
  by (simp_all add: ok_or_def)

lemma ok_or_Inr_iff [simp]: "ok_or e x = Inr y \<longleftrightarrow> x = Some y"
  by (cases x) auto

lemma reject_if_simps [simp, result_simps]:
  "reject_if True e = Inl e"
  "reject_if False e = Inr ()"
  by (simp_all add: reject_if_def)

lemma reject_if_Inr_iff [simp]: "reject_if c e = Inr u \<longleftrightarrow> \<not> c"
  by (simp add: reject_if_def)

lemma traverse_opt_simps [simp, result_simps]:
  "traverse_opt f None = Inr None"
  "traverse_opt f (Some a) = and_then (f a) (\<lambda>b. Inr (Some b))"
  by (simp_all add: traverse_opt_def)

lemma traverse_opt_Inr_iff:
  "traverse_opt f x = Inr y \<longleftrightarrow>
     (x = None \<and> y = None) \<or> (\<exists>a b. x = Some a \<and> f a = Inr b \<and> y = Some b)"
  by (cases x) (auto simp: and_then_Inr_iff)

lemma is_ok_simps [simp, result_simps]:
  "is_ok (Inl e) = False"
  "is_ok (Inr x) = True"
  by (simp_all add: is_ok_def)

lemma is_ok_iff: "is_ok m \<longleftrightarrow> (\<exists>x. m = Inr x)"
  by (cases m) auto

lemma unit_ok_iff [simp]: "is_ok m \<longleftrightarrow> m = Inr ()" for m :: "'e + unit"
  by (cases m) auto

lemma for_each_Inr_iff: "for_each f xs = Inr u \<longleftrightarrow> (\<forall>x \<in> set xs. f x = Inr ())"
  by (induction xs) (auto simp: and_then_Inr_iff)

subsection \<open>Machine integers\<close>

type_synonym u8 = "8 word"
type_synonym u16 = "16 word"
type_synonym u32 = "32 word"
type_synonym u64 = "64 word"
type_synonym i32 = "32 word"

text \<open>A value of type \<open>i64\<close> crosses the SQLite boundary only; it is kept as an \<open>int\<close>.\<close>

definition i64_max :: int where
  "i64_max = 9223372036854775807"

definition u32_max :: int where
  "u32_max = 4294967295"

definition checked_add :: "'w::len word \<Rightarrow> 'w word \<Rightarrow> 'w word option" where
  "checked_add a b = (if uint a + uint b < 2 ^ LENGTH('w) then Some (a + b) else None)"

definition saturating_add :: "'w::len word \<Rightarrow> 'w word \<Rightarrow> 'w word" where
  "saturating_add a b = (if uint a + uint b < 2 ^ LENGTH('w) then a + b else - 1)"

definition saturating_mul :: "'w::len word \<Rightarrow> 'w word \<Rightarrow> 'w word" where
  "saturating_mul a b = (if uint a * uint b < 2 ^ LENGTH('w) then a * b else - 1)"

text \<open>\<open>i64::try_from(u64)\<close> and \<open>u64::try_from(i64)\<close>\<close>

definition i64_try_from :: "u64 \<Rightarrow> int option" where
  "i64_try_from v = (if uint v \<le> i64_max then Some (uint v) else None)"

definition u64_try_from :: "int \<Rightarrow> u64 option" where
  "u64_try_from v = (if 0 \<le> v then Some (word_of_int v) else None)"

lemma uint_checked_add: "checked_add a b = Some c \<Longrightarrow> uint c = uint a + uint b"
  by (auto simp: checked_add_def uint_word_ariths split: if_splits)

lemma checked_add_less_eq: "checked_add a b = Some c \<Longrightarrow> a \<le> c"
  by (drule uint_checked_add) (simp add: word_le_def)

lemma uint_max_word: "uint (- 1 :: 'w::len word) = 2 ^ LENGTH('w) - 1"
  by (simp add: unsigned_minus_1_eq_mask mask_eq_exp_minus_1)

lemma uint_saturating_add:
  "uint (saturating_add (a :: 'w::len word) b) = min (uint a + uint b) (2 ^ LENGTH('w) - 1)"
  by (auto simp: saturating_add_def uint_word_ariths(1) uint_max_word)

lemma uint_saturating_mul:
  "uint (saturating_mul (a :: 'w::len word) b) = min (uint a * uint b) (2 ^ LENGTH('w) - 1)"
  by (auto simp: saturating_mul_def uint_word_ariths(3) uint_max_word)

lemma i64_try_from_Some [simp]:
  "i64_try_from v = Some i \<longleftrightarrow> uint v \<le> i64_max \<and> i = uint v"
  by (auto simp: i64_try_from_def)

lemma u64_try_from_uint [simp, codec_simps]: "u64_try_from (uint v) = Some v"
  by (simp add: u64_try_from_def)

lemma u64_try_from_Some: "u64_try_from i = Some v \<Longrightarrow> i < 2 ^ 64 \<Longrightarrow> uint v = i"
  by (auto simp: u64_try_from_def take_bit_int_eq_self uint_word_of_int split: if_splits)

text \<open>An \<open>f64\<close> is its IEEE 754 bit pattern.\<close>

type_synonym f64 = "64 word"

definition f64_is_finite :: "f64 \<Rightarrow> bool" where
  "f64_is_finite x \<longleftrightarrow> take_bit 63 x < 0x7FF0000000000000"

text \<open>
  \<open>(0.0..=1.0).contains(&x)\<close>: bit patterns of non-negative numbers are ordered like the
  numbers, \<open>1.0\<close> is \<open>0x3FF0000000000000\<close>, and \<open>-0.0\<close> equals \<open>0.0\<close>.
\<close>

definition f64_in_unit :: "f64 \<Rightarrow> bool" where
  "f64_in_unit x \<longleftrightarrow> x \<le> 0x3FF0000000000000 \<or> x = 0x8000000000000000"

subsection \<open>Strings\<close>

text \<open>
  A \<open>String\<close> is the list of its UTF-8 bytes. \<open>str::trim\<close> removes the code points with
  the Unicode property White_Space; their encodings have one, two or three bytes. Since
  no encoding of one code point is a suffix of another's, trimming the end is trimming
  the start of the reversed bytes.
\<close>

definition ws1 :: "char \<Rightarrow> bool" where
  "ws1 a \<longleftrightarrow> a \<in> {CHR 0x09, CHR 0x0A, CHR 0x0B, CHR 0x0C, CHR 0x0D, CHR 0x20}"

definition ws2 :: "char \<Rightarrow> char \<Rightarrow> bool" where
  "ws2 a b \<longleftrightarrow> a = CHR 0xC2 \<and> b \<in> {CHR 0x85, CHR 0xA0}"

definition ws3 :: "char \<Rightarrow> char \<Rightarrow> char \<Rightarrow> bool" where
  "ws3 a b c \<longleftrightarrow>
     (a = CHR 0xE1 \<and> b = CHR 0x9A \<and> c = CHR 0x80) \<or>
     (a = CHR 0xE2 \<and> b = CHR 0x80 \<and>
       c \<in> {CHR 0x80, CHR 0x81, CHR 0x82, CHR 0x83, CHR 0x84, CHR 0x85, CHR 0x86, CHR 0x87,
            CHR 0x88, CHR 0x89, CHR 0x8A, CHR 0xA8, CHR 0xA9, CHR 0xAF}) \<or>
     (a = CHR 0xE2 \<and> b = CHR 0x81 \<and> c = CHR 0x9F) \<or>
     (a = CHR 0xE3 \<and> b = CHR 0x80 \<and> c = CHR 0x80)"

fun strip_start ::
  "(char \<Rightarrow> bool) \<Rightarrow> (char \<Rightarrow> char \<Rightarrow> bool) \<Rightarrow> (char \<Rightarrow> char \<Rightarrow> char \<Rightarrow> bool) \<Rightarrow> string \<Rightarrow> string"
where
  "strip_start p q r [] = []"
| "strip_start p q r [a] = (if p a then [] else [a])"
| "strip_start p q r [a, b] =
     (if p a then strip_start p q r [b] else if q a b then [] else [a, b])"
| "strip_start p q r (a # b # c # s) =
     (if p a then strip_start p q r (b # c # s)
      else if q a b then strip_start p q r (c # s)
      else if r a b c then strip_start p q r s
      else a # b # c # s)"

definition trim_start :: "string \<Rightarrow> string" where
  "trim_start s = strip_start ws1 ws2 ws3 s"

definition trim_end :: "string \<Rightarrow> string" where
  "trim_end s = rev (strip_start ws1 (\<lambda>a b. ws2 b a) (\<lambda>a b c. ws3 c b a) (rev s))"

definition str_trim :: "string \<Rightarrow> string" where
  "str_trim s = trim_end (trim_start s)"

definition is_blank :: "string \<Rightarrow> bool" where
  "is_blank s \<longleftrightarrow> str_trim s = []"

definition contains_nul :: "string \<Rightarrow> bool" where
  "contains_nul s \<longleftrightarrow> CHR 0x00 \<in> set s"

definition non_empty :: "string \<Rightarrow> string option" where
  "non_empty v = (let t = str_trim v in if t = [] then None else Some t)"

lemmas trim_eval [trim_simps] =
  str_trim_def trim_start_def trim_end_def is_blank_def contains_nul_def non_empty_def
  ws1_def ws2_def ws3_def Let_def

lemma is_blank_Nil [simp]: "is_blank []"
  by (simp add: trim_simps)

lemma contains_nul_Nil [simp]: "\<not> contains_nul []"
  by (simp add: contains_nul_def)

lemma strip_start_suffix: "\<exists>u. s = u @ strip_start p q r s"
proof (induction p q r s rule: strip_start.induct)
  case (4 p q r a b c s)
  show ?case
  proof (cases "p a \<or> q a b \<or> r a b c")
    case True
    with 4 show ?thesis
      by (auto intro: exI [where x = "a # _"] exI [where x = "a # b # _"]
          exI [where x = "a # b # c # _"]) (metis append_Cons)+
  next
    case False
    then show ?thesis by simp
  qed
qed (auto intro: exI [where x = "[_, _]"])

lemma set_strip_start: "set (strip_start p q r s) \<subseteq> set s"
  using strip_start_suffix [of s p q r] by (metis set_append sup_ge2)

lemma set_str_trim: "set (str_trim s) \<subseteq> set s"
  using set_strip_start [of ws1 ws2 ws3 s]
    set_strip_start [of ws1 "\<lambda>a b. ws2 b a" "\<lambda>a b c. ws3 c b a" "rev (strip_start ws1 ws2 ws3 s)"]
  by (auto simp: str_trim_def trim_start_def trim_end_def)

lemma contains_nul_str_trim: "\<not> contains_nul s \<Longrightarrow> \<not> contains_nul (str_trim s)"
  using set_str_trim [of s] by (auto simp: contains_nul_def)

lemma strip_start_idem: "strip_start p q r (strip_start p q r s) = strip_start p q r s"
  by (induction p q r s rule: strip_start.induct) auto

lemma strip_start_drop: "p a \<Longrightarrow> strip_start p q r (a # u) = strip_start p q r u"
proof (cases u)
  case (Cons b v)
  assume "p a"
  with Cons show ?thesis by (cases v) simp_all
qed simp

lemma strip_start_fixed_prefix:
  assumes "strip_start p q r (t @ u) = t @ u"
  shows "strip_start p q r t = t"
proof -
  have len: "length (strip_start p q r s) \<le> length s" for s
    using strip_start_suffix [of s p q r] by (metis le_add2 length_append)
  consider "t = []" | a where "t = [a]" | a b where "t = [a, b]" | a b c s where "t = a # b # c # s"
    by (rule strip_start.cases [of "(p, q, r, t)"]) auto
  then show ?thesis
  proof cases
    case 2
    have "\<not> p a"
    proof
      assume "p a"
      with assms have "a # u = strip_start p q r u"
        unfolding 2 by (simp add: strip_start_drop)
      with len [of u] show False by (metis impossible_Cons)
    qed
    with 2 show ?thesis by simp
  next
    case 3
    have "a # b # u \<noteq> strip_start p q r (b # u)" "a # b # u \<noteq> strip_start p q r u"
      using len [of "b # u"] len [of u] by (metis impossible_Cons, metis le_SucI impossible_Cons length_Cons)
    with assms have "\<not> p a \<and> \<not> q a b"
      unfolding 3 by (cases u) (auto split: if_splits)
    with 3 show ?thesis by simp
  next
    case 4
    have "a # b # c # s @ u \<noteq> strip_start p q r (b # c # s @ u)"
      "a # b # c # s @ u \<noteq> strip_start p q r (c # s @ u)"
      "a # b # c # s @ u \<noteq> strip_start p q r (s @ u)"
      using len [of "b # c # s @ u"] len [of "c # s @ u"] len [of "s @ u"]
      by (auto dest!: arg_cong [where f = length])
    with assms have "\<not> p a \<and> \<not> q a b \<and> \<not> r a b c"
      unfolding 4 by (auto split: if_splits)
    with 4 show ?thesis by simp
  qed simp
qed

lemma str_trim_idem [simp]: "str_trim (str_trim s) = str_trim s"
proof -
  let ?r = "strip_start ws1 (\<lambda>a b. ws2 b a) (\<lambda>a b c. ws3 c b a)"
  define x where "x = trim_start s"
  obtain v where v: "rev x = v @ ?r (rev x)"
    using strip_start_suffix by blast
  have "x = trim_end x @ rev v"
    unfolding trim_end_def by (metis v rev_append rev_rev_ident)
  moreover have "strip_start ws1 ws2 ws3 x = x"
    by (simp add: x_def trim_start_def strip_start_idem)
  ultimately have "trim_start (trim_end x) = trim_end x"
    unfolding trim_start_def by (metis strip_start_fixed_prefix)
  then show ?thesis
    unfolding str_trim_def x_def [symmetric] by (simp add: trim_end_def strip_start_idem)
qed

lemma is_blank_str_trim [simp]: "is_blank (str_trim s) \<longleftrightarrow> is_blank s"
  by (simp add: is_blank_def)

lemma non_empty_Some: "non_empty v = Some t \<longleftrightarrow> \<not> is_blank v \<and> t = str_trim v"
  by (auto simp: non_empty_def is_blank_def Let_def)

lemma non_empty_eq: "non_empty v = (if is_blank v then None else Some (str_trim v))"
  by (simp add: non_empty_def is_blank_def Let_def)

lemma non_empty_None [simp]: "non_empty v = None \<longleftrightarrow> is_blank v"
  by (auto simp: non_empty_def is_blank_def Let_def)

text \<open>Decimal and two-digit formatting: \<open>{}\<close> and \<open>{:02}\<close> of an unsigned number.\<close>

definition digit_char :: "nat \<Rightarrow> char" where
  "digit_char d = char_of (48 + d)"

fun decimal :: "nat \<Rightarrow> string" where
  "decimal n = (if n < 10 then [digit_char n] else decimal (n div 10) @ [digit_char (n mod 10)])"

declare decimal.simps [simp del]

definition decimal02 :: "nat \<Rightarrow> string" where
  "decimal02 n = (if n < 10 then CHR ''0'' # decimal n else decimal n)"

definition is_digit :: "char \<Rightarrow> bool" where
  "is_digit c \<longleftrightarrow> CHR ''0'' \<le> c \<and> c \<le> CHR ''9''"

lemma decimal_nonempty [simp]: "decimal n \<noteq> []"
  by (subst decimal.simps) simp

definition is_alpha :: "char \<Rightarrow> bool" where
  "is_alpha c \<longleftrightarrow> (CHR ''a'' \<le> c \<and> c \<le> CHR ''z'') \<or> (CHR ''A'' \<le> c \<and> c \<le> CHR ''Z'')"

definition is_alphanumeric :: "char \<Rightarrow> bool" where
  "is_alphanumeric c \<longleftrightarrow> is_alpha c \<or> is_digit c"

definition is_hexdigit :: "char \<Rightarrow> bool" where
  "is_hexdigit c \<longleftrightarrow> is_digit c \<or> (CHR ''a'' \<le> c \<and> c \<le> CHR ''f'') \<or>
     (CHR ''A'' \<le> c \<and> c \<le> CHR ''F'')"

definition to_lower :: "char \<Rightarrow> char" where
  "to_lower c = (if CHR ''A'' \<le> c \<and> c \<le> CHR ''Z'' then char_of (of_char c + (32 :: nat)) else c)"

definition to_ascii_lowercase :: "string \<Rightarrow> string" where
  "to_ascii_lowercase s = map to_lower s"

text \<open>\<open>{byte:02x}\<close> and the hexadecimal rendering of a digest.\<close>

definition hex_digit :: "nat \<Rightarrow> char" where
  "hex_digit d = (if d < 10 then char_of (48 + d) else char_of (87 + d))"

definition hex02 :: "char \<Rightarrow> string" where
  "hex02 c = (let n = of_char c :: nat in [hex_digit (n div 16), hex_digit (n mod 16)])"

definition hex_bytes :: "string \<Rightarrow> string" where
  "hex_bytes s = concat (map hex02 s)"

text \<open>
  \<open>{:?}\<close> of a string: quotes, the named escapes, \<open>\u{..}\<close> for the other ASCII
  control characters; bytes outside ASCII are printed as they are, as Rust does for
  printable code points.
\<close>

definition debug_char :: "char \<Rightarrow> string" where
  "debug_char c =
     (if c = CHR 0x22 then [CHR 0x5C, CHR 0x22]
      else if c = CHR 0x5C then [CHR 0x5C, CHR 0x5C]
      else if c = CHR 0x00 then [CHR 0x5C, CHR ''0'']
      else if c = CHR 0x09 then [CHR 0x5C, CHR ''t'']
      else if c = CHR 0x0A then [CHR 0x5C, CHR ''n'']
      else if c = CHR 0x0D then [CHR 0x5C, CHR ''r'']
      else if c < CHR 0x10 then [CHR 0x5C, CHR ''u'', CHR 0x7B, hex_digit (of_char c), CHR 0x7D]
      else if c < CHR 0x20 \<or> c = CHR 0x7F then [CHR 0x5C, CHR ''u'', CHR 0x7B] @ hex02 c @ [CHR 0x7D]
      else [c])"

definition rust_debug :: "string \<Rightarrow> string" where
  "rust_debug s = CHR 0x22 # concat (map debug_char s) @ [CHR 0x22]"

subsection \<open>Lists\<close>

text \<open>The elements of a \<open>BTreeSet\<close> in iteration order.\<close>

definition btree_list :: "'a::linorder list \<Rightarrow> 'a list" where
  "btree_list xs = remdups (sort xs)"

lemma set_btree_list [simp]: "set (btree_list xs) = set xs"
  by (simp add: btree_list_def)

lemma distinct_btree_list [simp]: "distinct (btree_list xs)"
  by (simp add: btree_list_def)

lemma sorted_btree_list [simp]: "sorted (btree_list xs)"
  by (simp add: btree_list_def)

lemma btree_list_eqI: "set xs = set ys \<Longrightarrow> btree_list xs = btree_list ys"
  by (rule sorted_distinct_set_unique) simp_all

text \<open>
  \<open>if !seen.insert(x) { return Err(e) }\<close> over a sequence: \<open>first_duplicate\<close> is the
  first element already inserted.
\<close>

fun first_duplicate :: "'a list \<Rightarrow> 'a list \<Rightarrow> 'a option" where
  "first_duplicate seen [] = None"
| "first_duplicate seen (x # xs) =
     (if x \<in> set seen then Some x else first_duplicate (x # seen) xs)"

lemma first_duplicate_None:
  "first_duplicate seen xs = None \<longleftrightarrow> distinct xs \<and> set seen \<inter> set xs = {}"
  by (induction seen xs rule: first_duplicate.induct) auto

text \<open>
  Replace the first element with the same key or append: the merge of
  \<open>merge_download_updates\<close> and \<open>merge_link_updates\<close>.
\<close>

fun upsert :: "('a \<Rightarrow> 'k) \<Rightarrow> 'a \<Rightarrow> 'a list \<Rightarrow> 'a list" where
  "upsert k u [] = [u]"
| "upsert k u (x # xs) = (if k x = k u then u # xs else x # upsert k u xs)"

lemma set_map_upsert [simp]: "set (map k (upsert k u xs)) = insert (k u) (set (map k xs))"
  by (induction xs) auto

lemma distinct_map_upsert: "distinct (map k xs) \<Longrightarrow> distinct (map k (upsert k u xs))"
proof (induction xs)
  case Nil
  then show ?case by simp
next
  case (Cons x xs)
  then show ?case using set_map_upsert [of k u xs] by (auto simp del: set_map_upsert)
qed

lemma in_upsert [simp]: "u \<in> set (upsert k u xs)"
  by (induction xs) auto

lemma upsert_other: "x \<in> set xs \<Longrightarrow> k x \<noteq> k u \<Longrightarrow> x \<in> set (upsert k u xs)"
  by (induction xs) auto

lemma set_upsert_subset: "set (upsert k u xs) \<subseteq> insert u (set xs)"
  by (induction xs) auto

lemma upsert_idem: "upsert k u (upsert k u xs) = upsert k u xs"
  by (induction xs) auto

lemma upsert_present: "u \<in> set xs \<Longrightarrow> distinct (map k xs) \<Longrightarrow> upsert k u xs = xs"
  by (induction xs) (auto simp: rev_image_eqI)

lemma find_Some_upsert: "find (\<lambda>x. k x = k u) (upsert k u xs) = Some u"
  by (induction xs) auto

lemma find_upsert_other: "a \<noteq> k u \<Longrightarrow> find (\<lambda>x. k x = a) (upsert k u xs) = find (\<lambda>x. k x = a) xs"
  by (induction xs) auto

end
