(* ===== verification/Domain_Model.thy ===== *)
theory Domain_Model
  imports Prelude
begin

text \<open>
  The subscription vocabulary of \<open>src/subscription/model.rs\<close>: lifecycle and execution
  states, attention tags with the order \<open>derive(Ord)\<close> gives them, media kinds, and the
  labels under which they are persisted.
\<close>

datatype lifecycle_state = Queued | Meta | Searching | Downloading | Linking | Completed

fun lifecycle_as_str :: "lifecycle_state \<Rightarrow> string" where
  "lifecycle_as_str Queued = ''queued''"
| "lifecycle_as_str Meta = ''meta''"
| "lifecycle_as_str Searching = ''searching''"
| "lifecycle_as_str Downloading = ''downloading''"
| "lifecycle_as_str Linking = ''linking''"
| "lifecycle_as_str Completed = ''completed''"

datatype execution_state = Idle | Running

datatype attention_tag =
  WaitingRelease | NeedsConfirmation | Failed | RetryBlocked | Skipped | NeedsReconciliation

datatype media_kind = Movie | Tv

fun media_kind_as_str :: "media_kind \<Rightarrow> string" where
  "media_kind_as_str Movie = ''movie''"
| "media_kind_as_str Tv = ''tv''"

text \<open>The Chinese tags \<open>ju ji\<close>, \<open>dian shi ju\<close> and \<open>fan ju\<close> in UTF-8.\<close>

definition tv_tags :: "string list" where
  "tv_tags =
     [''tv'',
      [CHR 0xE5, CHR 0x89, CHR 0xA7, CHR 0xE9, CHR 0x9B, CHR 0x86],
      [CHR 0xE7, CHR 0x94, CHR 0xB5, CHR 0xE8, CHR 0xA7, CHR 0x86, CHR 0xE5, CHR 0x89, CHR 0xA7],
      [CHR 0xE7, CHR 0x95, CHR 0xAA, CHR 0xE5, CHR 0x89, CHR 0xA7]]"

definition media_kind_from_tags :: "string list \<Rightarrow> media_kind" where
  "media_kind_from_tags tags =
     (if list_ex (\<lambda>tag. to_ascii_lowercase (str_trim tag) \<in> set tv_tags) tags then Tv else Movie)"

subsection \<open>The order of attention tags\<close>

fun tag_rank :: "attention_tag \<Rightarrow> nat" where
  "tag_rank WaitingRelease = 0"
| "tag_rank NeedsConfirmation = 1"
| "tag_rank Failed = 2"
| "tag_rank RetryBlocked = 3"
| "tag_rank Skipped = 4"
| "tag_rank NeedsReconciliation = 5"

lemma tag_rank_inj: "tag_rank a = tag_rank b \<longleftrightarrow> a = b"
  by (cases a; cases b) simp_all

instantiation attention_tag :: linorder
begin

definition less_eq_attention_tag :: "attention_tag \<Rightarrow> attention_tag \<Rightarrow> bool" where
  "less_eq_attention_tag a b \<longleftrightarrow> tag_rank a \<le> tag_rank b"

definition less_attention_tag :: "attention_tag \<Rightarrow> attention_tag \<Rightarrow> bool" where
  "less_attention_tag a b \<longleftrightarrow> tag_rank a < tag_rank b"

instance
  by standard (auto simp: less_eq_attention_tag_def less_attention_tag_def tag_rank_inj)

end

text \<open>The persisted labels are distinct, so a label determines its state.\<close>

lemma lifecycle_as_str_inj [simp]: "lifecycle_as_str a = lifecycle_as_str b \<longleftrightarrow> a = b"
  by (cases a; cases b) simp_all

lemma media_kind_as_str_inj [simp]: "media_kind_as_str a = media_kind_as_str b \<longleftrightarrow> a = b"
  by (cases a; cases b) simp_all

lemma media_kind_from_tags_Tv:
  "media_kind_from_tags tags = Tv \<longleftrightarrow>
     (\<exists>tag \<in> set tags. to_ascii_lowercase (str_trim tag) \<in> set tv_tags)"
  by (simp add: media_kind_from_tags_def list_ex_iff)

end
