(* ===== verification/Repository_Core.thy ===== *)
theory Repository_Core
  imports Domain_Model
begin

text \<open>
  The identities, newtypes, tokens and the error type of
  \<open>src/subscription/repository.rs\<close>, with the text validators every constructor uses.
  A newtype with a private field is a datatype with one constructor; the code builds it
  through its \<open>try_new\<close> only.
\<close>

record subscription_key =
  account_key :: string
  subject_id :: string

datatype revision = Revision (revision_value: u64)
datatype poll_generation = PollGeneration (generation_value: u64)
datatype snapshot_id = SnapshotId (snapshot_id_str: string)
datatype blocked_reason = BlockedReason (blocked_reason_str: string)

datatype execution_operation = OpMeta | OpSearch | OpProgress | OpLink

datatype execution_attempt_id = ExecutionAttemptId (attempt_id_str: string)

record execution_attempt_token =
  token_key :: subscription_key
  token_attempt_id :: execution_attempt_id
  token_operation :: execution_operation

record poll_attempt_token =
  poll_generation :: poll_generation
  poll_snapshot_id :: snapshot_id

text \<open>\<open>CurrentExecutionAttempt\<close> and \<open>ExpiredAttempt\<close> have the same fields.\<close>

record current_execution_attempt =
  current_token :: execution_attempt_token
  current_lease_until :: u64

record expired_attempt =
  expired_token :: execution_attempt_token
  expired_lease_until :: u64

datatype repository_error =
    InvalidInput (invalid_field: string) (invalid_message: string)
  | NotFound subscription_key
  | RevisionConflict subscription_key revision revision
  | ExecutionGateConflict subscription_key
  | StaleAttempt execution_attempt_token "execution_attempt_token option"
  | LeaseExpired execution_attempt_token u64
  | LeaseNotExtended execution_attempt_token u64 u64
  | StalePoll string poll_attempt_token "poll_attempt_token option"
  | UnsupportedSchema u32 u32
  | Unavailable string
  | CorruptData string
  | Internal string

type_synonym 'a repository_result = "repository_error + 'a"

abbreviation corrupt :: "string \<Rightarrow> repository_error" where
  "corrupt \<equiv> CorruptData"

subsection \<open>Operation labels\<close>

fun operation_as_str :: "execution_operation \<Rightarrow> string" where
  "operation_as_str OpMeta = ''movie_meta''"
| "operation_as_str OpSearch = ''movie_search''"
| "operation_as_str OpProgress = ''movie_progress''"
| "operation_as_str OpLink = ''movie_link''"

definition operation_try_from_persisted :: "string \<Rightarrow> execution_operation repository_result" where
  "operation_try_from_persisted value =
     (if value = ''movie_meta'' then Inr OpMeta
      else if value = ''movie_search'' then Inr OpSearch
      else if value = ''movie_progress'' then Inr OpProgress
      else if value = ''movie_link'' then Inr OpLink
      else Inl (CorruptData (''unknown claimed_operation '' @ rust_debug value)))"

fun operation_for_lifecycle :: "lifecycle_state \<Rightarrow> execution_operation option" where
  "operation_for_lifecycle Queued = Some OpMeta"
| "operation_for_lifecycle Meta = Some OpMeta"
| "operation_for_lifecycle Searching = Some OpSearch"
| "operation_for_lifecycle Downloading = Some OpProgress"
| "operation_for_lifecycle Linking = Some OpLink"
| "operation_for_lifecycle Completed = None"

subsection \<open>Text validation and the constructors\<close>

definition validated_text :: "string \<Rightarrow> string \<Rightarrow> string repository_result" where
  "validated_text field value =
     (if is_blank value then Inl (InvalidInput field ''value must not be blank'')
      else if contains_nul value then Inl (InvalidInput field ''value must not contain a NUL byte'')
      else Inr value)"

definition validate_text_bytes :: "string \<Rightarrow> string \<Rightarrow> unit repository_result" where
  "validate_text_bytes field value =
     reject_if (contains_nul value) (InvalidInput field ''value must not contain a NUL byte'')"

definition subscription_key_try_new :: "string \<Rightarrow> string \<Rightarrow> subscription_key repository_result" where
  "subscription_key_try_new account subject =
     and_then (validated_text ''account_key'' account) (\<lambda>a.
     and_then (validated_text ''subject_id'' subject) (\<lambda>s.
     Inr \<lparr>account_key = a, subject_id = s\<rparr>))"

definition revision_try_new :: "u64 \<Rightarrow> revision repository_result" where
  "revision_try_new value =
     (if value = 0 then Inl (InvalidInput ''revision'' ''revision must be greater than zero'')
      else Inr (Revision value))"

definition poll_generation_try_new :: "u64 \<Rightarrow> poll_generation repository_result" where
  "poll_generation_try_new value =
     (if value = 0
      then Inl (InvalidInput ''poll_generation'' ''poll generation must be greater than zero'')
      else Inr (PollGeneration value))"

definition snapshot_id_try_new :: "string \<Rightarrow> snapshot_id repository_result" where
  "snapshot_id_try_new value =
     and_then (validated_text ''snapshot_id'' value) (\<lambda>v. Inr (SnapshotId v))"

definition blocked_reason_try_new :: "string \<Rightarrow> blocked_reason repository_result" where
  "blocked_reason_try_new value =
     and_then (validated_text ''blocked_reason'' value) (\<lambda>v. Inr (BlockedReason v))"

definition max_execution_attempt_id_bytes :: nat where
  "max_execution_attempt_id_bytes = 256"

definition attempt_id_try_new :: "string \<Rightarrow> execution_attempt_id repository_result" where
  "attempt_id_try_new value =
     and_then (validated_text ''attempt_id'' value) (\<lambda>v.
     if max_execution_attempt_id_bytes < length v
     then Inl (InvalidInput ''attempt_id''
            (''attempt ID must be at most '' @ decimal max_execution_attempt_id_bytes
             @ '' UTF-8 bytes''))
     else Inr (ExecutionAttemptId v))"

definition attempt_token_new ::
  "subscription_key \<Rightarrow> execution_attempt_id \<Rightarrow> execution_operation \<Rightarrow> execution_attempt_token" where
  "attempt_token_new key attempt operation =
     \<lparr>token_key = key, token_attempt_id = attempt, token_operation = operation\<rparr>"

subsection \<open>Display\<close>

definition u64_str :: "u64 \<Rightarrow> string" where
  "u64_str v = decimal (unat v)"

definition key_str :: "subscription_key \<Rightarrow> string" where
  "key_str key = account_key key @ ''/'' @ subject_id key"

definition attempt_str :: "execution_attempt_token \<Rightarrow> string" where
  "attempt_str t =
     attempt_id_str (token_attempt_id t) @ '' ('' @ operation_as_str (token_operation t) @ '')''"

fun display_error :: "repository_error \<Rightarrow> string" where
  "display_error (InvalidInput field message) = ''invalid '' @ field @ '': '' @ message"
| "display_error (NotFound key) = ''subscription '' @ key_str key @ '' was not found''"
| "display_error (RevisionConflict key expected actual) =
     ''subscription '' @ key_str key @ '' revision conflict: expected ''
     @ u64_str (revision_value expected) @ '', actual '' @ u64_str (revision_value actual)"
| "display_error (ExecutionGateConflict key) =
     ''subscription '' @ key_str key @ '' scheduler gates cannot change during running execution''"
| "display_error (StaleAttempt attempted current) =
     ''execution attempt '' @ attempt_str attempted @ '' is stale for subscription ''
     @ key_str (token_key attempted)
     @ (case current of None \<Rightarrow> [] | Some c \<Rightarrow> ''; current attempt is '' @ attempt_str c)"
| "display_error (LeaseExpired attempt lease_until) =
     ''execution attempt '' @ attempt_str attempt @ '' for subscription ''
     @ key_str (token_key attempt) @ '' expired at '' @ u64_str lease_until"
| "display_error (LeaseNotExtended attempt current requested) =
     ''execution attempt '' @ attempt_str attempt @ '' for subscription ''
     @ key_str (token_key attempt) @ '' keeps lease '' @ u64_str current
     @ '' because requested boundary '' @ u64_str requested @ '' is not later''"
| "display_error (StalePoll account attempted current) =
     ''poll generation '' @ u64_str (generation_value (poll_generation attempted)) @ '' snapshot ''
     @ snapshot_id_str (poll_snapshot_id attempted) @ '' is stale for account '' @ account
     @ (case current of None \<Rightarrow> [] | Some c \<Rightarrow>
          ''; current generation '' @ u64_str (generation_value (poll_generation c))
          @ '' snapshot '' @ snapshot_id_str (poll_snapshot_id c))"
| "display_error (UnsupportedSchema found maximum) =
     ''subscription schema version '' @ decimal (unat found)
     @ '' is unsupported; supported runtime version is '' @ decimal (unat maximum)"
| "display_error (Unavailable message) = ''subscription repository unavailable: '' @ message"
| "display_error (CorruptData message) = ''subscription repository data is corrupt: '' @ message"
| "display_error (Internal message) = ''subscription repository failed: '' @ message"

text \<open>\<open>persisted_validation\<close> of \<open>src/storage/subscription_repo.rs\<close>\<close>

definition persisted_validation :: "string \<Rightarrow> repository_error \<Rightarrow> repository_error" where
  "persisted_validation context error = CorruptData (context @ '': '' @ display_error error)"

subsection \<open>Facts\<close>

definition valid_text :: "string \<Rightarrow> bool" where
  "valid_text s \<longleftrightarrow> \<not> is_blank s \<and> \<not> contains_nul s"

lemma validated_text_Inr [simp]: "validated_text f v = Inr w \<longleftrightarrow> valid_text v \<and> w = v"
  by (auto simp: validated_text_def valid_text_def)

lemma validated_text_ok: "valid_text v \<Longrightarrow> validated_text f v = Inr v"
  by simp

lemma subscription_key_try_new_Inr [simp]:
  "subscription_key_try_new a s = Inr k \<longleftrightarrow>
     valid_text a \<and> valid_text s \<and> k = \<lparr>account_key = a, subject_id = s\<rparr>"
  by (auto simp: subscription_key_try_new_def and_then_Inr_iff)

lemma revision_try_new_Inr [simp]: "revision_try_new v = Inr r \<longleftrightarrow> v \<noteq> 0 \<and> r = Revision v"
  by (auto simp: revision_try_new_def)

lemma poll_generation_try_new_Inr [simp]:
  "poll_generation_try_new v = Inr g \<longleftrightarrow> v \<noteq> 0 \<and> g = PollGeneration v"
  by (auto simp: poll_generation_try_new_def)

lemma snapshot_id_try_new_Inr [simp]:
  "snapshot_id_try_new v = Inr i \<longleftrightarrow> valid_text v \<and> i = SnapshotId v"
  by (auto simp: snapshot_id_try_new_def and_then_Inr_iff)

lemma blocked_reason_try_new_Inr [simp]:
  "blocked_reason_try_new v = Inr b \<longleftrightarrow> valid_text v \<and> b = BlockedReason v"
  by (auto simp: blocked_reason_try_new_def and_then_Inr_iff)

lemma attempt_id_try_new_Inr [simp]:
  "attempt_id_try_new v = Inr i \<longleftrightarrow> valid_text v \<and> length v \<le> 256 \<and> i = ExecutionAttemptId v"
  by (auto simp: attempt_id_try_new_def max_execution_attempt_id_bytes_def and_then_Inr_iff)

lemma operation_as_str_inj [simp]: "operation_as_str a = operation_as_str b \<longleftrightarrow> a = b"
  by (cases a; cases b) simp_all

lemma operation_roundtrip [simp, codec_simps]:
  "operation_try_from_persisted (operation_as_str op) = Inr op"
  by (cases op) (simp_all add: operation_try_from_persisted_def)

lemma operation_try_from_persisted_Inr [simp]:
  "operation_try_from_persisted v = Inr op \<longleftrightarrow> v = operation_as_str op"
  by (cases op) (auto simp: operation_try_from_persisted_def)

lemma operation_for_lifecycle_None [simp]: "operation_for_lifecycle l = None \<longleftrightarrow> l = Completed"
  by (cases l) simp_all

lemma valid_text_operation [simp]: "valid_text (operation_as_str op)"
  by (cases op) (simp_all add: valid_text_def trim_simps)

end
