(* ===== verification/Effects_Domain.thy ===== *)
theory Effects_Domain
  imports Repository_Core
begin

text \<open>
  The retry rules for external effects of \<open>src/subscription/effects.rs\<close>: the stable
  effect keys, the reconciliation of a qBittorrent task before an add, and the plan of a
  hardlink retry. SHA-256 is the \<open>ring\<close> crate's: the definitions take it as the
  argument \<open>sha\<close>, from bytes to the 32 bytes of the digest.
\<close>

subsection \<open>Stable effect keys\<close>

datatype external_effect_operation = QbAddTorrent | HardlinkFiles

fun effect_operation_as_str :: "external_effect_operation \<Rightarrow> string" where
  "effect_operation_as_str QbAddTorrent = ''qb_add_torrent''"
| "effect_operation_as_str HardlinkFiles = ''hardlink_files''"

definition download_effect_key_prefix :: string where
  "download_effect_key_prefix = ''download:v1:''"

definition link_effect_key_prefix :: string where
  "link_effect_key_prefix = ''link:v1:''"

fun effect_key_prefix :: "external_effect_operation \<Rightarrow> string" where
  "effect_key_prefix QbAddTorrent = download_effect_key_prefix"
| "effect_key_prefix HardlinkFiles = link_effect_key_prefix"

datatype effect_identity_error =
    Blank string
  | ContainsNul string
  | InvalidQbHash string
  | ConflictingQbHashes (stored_qb_hash: string) (expected_qb_hash: string)

datatype effect_idempotency_key = EffectIdempotencyKey (effect_key_str: string)

definition effect_key_domain :: string where
  "effect_key_domain = ''tmdb-mteam-hub/external-effect/v1'' @ [CHR 0x00]"

text \<open>\<open>u64::to_be_bytes\<close>\<close>

definition be64 :: "nat \<Rightarrow> string" where
  "be64 n = map (\<lambda>i. char_of (n div 256 ^ i mod 256)) [7, 6, 5, 4, 3, 2, 1, 0]"

text \<open>One framed component, and the digest input of a list of components.\<close>

definition framed :: "string \<Rightarrow> string" where
  "framed c = be64 (length c) @ c"

definition framed_all :: "string list \<Rightarrow> string" where
  "framed_all cs = concat (map framed cs)"

definition stable_effect_key ::
  "(string \<Rightarrow> string) \<Rightarrow> string \<Rightarrow> string \<Rightarrow> string \<Rightarrow> external_effect_operation
    \<Rightarrow> effect_idempotency_key" where
  "stable_effect_key sha account subject torrent operation =
     EffectIdempotencyKey (effect_key_prefix operation
       @ hex_bytes (sha (effect_key_domain
           @ framed_all [account, subject, torrent, effect_operation_as_str operation])))"

definition stable_qb_idempotency_key ::
  "(string \<Rightarrow> string) \<Rightarrow> string \<Rightarrow> string \<Rightarrow> string \<Rightarrow> string" where
  "stable_qb_idempotency_key sha account subject torrent =
     effect_key_str (stable_effect_key sha account subject torrent QbAddTorrent)"

definition validated_identity_component :: "string \<Rightarrow> string \<Rightarrow> effect_identity_error + string" where
  "validated_identity_component field value =
     (if is_blank value then Inl (Blank field)
      else if contains_nul value then Inl (ContainsNul field)
      else Inr value)"

definition effect_key_try_new ::
  "(string \<Rightarrow> string) \<Rightarrow> string \<Rightarrow> string \<Rightarrow> string \<Rightarrow> external_effect_operation
    \<Rightarrow> effect_identity_error + effect_idempotency_key" where
  "effect_key_try_new sha account subject torrent operation =
     and_then (validated_identity_component ''account_key'' account) (\<lambda>a.
     and_then (validated_identity_component ''subject_id'' subject) (\<lambda>s.
     and_then (validated_identity_component ''selected_torrent_id'' torrent) (\<lambda>t.
     Inr (stable_effect_key sha a s t operation))))"

fun display_identity_error :: "effect_identity_error \<Rightarrow> string" where
  "display_identity_error (Blank field) = field @ '' must not be blank''"
| "display_identity_error (ContainsNul field) = field @ '' must not contain a NUL byte''"
| "display_identity_error (InvalidQbHash field) =
     field @ '' must be a 40- or 64-character hexadecimal qB hash''"
| "display_identity_error (ConflictingQbHashes stored expected) =
     ''stored qB hash '' @ stored @ '' disagrees with selected torrent hash '' @ expected"

subsection \<open>Reconciliation of a qB task\<close>

datatype qb_hash_source = StoredArtifact | SelectedTorrent

record qb_reconcile_request =
  request_key :: effect_idempotency_key
  request_torrent_id :: string
  authoritative_hash :: "string option"
  hash_source :: "qb_hash_source option"

definition normalized_qb_hash ::
  "string \<Rightarrow> string option \<Rightarrow> effect_identity_error + string option" where
  "normalized_qb_hash field value =
     (case value of None \<Rightarrow> Inr None
      | Some v \<Rightarrow>
          (let t = str_trim v in
           if length t \<notin> {40, 64} \<or> \<not> list_all is_hexdigit t then Inl (InvalidQbHash field)
           else Inr (Some (to_ascii_lowercase t))))"

definition qb_reconcile_request_try_new ::
  "(string \<Rightarrow> string) \<Rightarrow> string \<Rightarrow> string \<Rightarrow> string \<Rightarrow> string option \<Rightarrow> string option
    \<Rightarrow> effect_identity_error + qb_reconcile_request" where
  "qb_reconcile_request_try_new sha account subject torrent stored_hash selected_hash =
     and_then (effect_key_try_new sha account subject torrent QbAddTorrent) (\<lambda>key.
     and_then (normalized_qb_hash ''stored_hash'' stored_hash) (\<lambda>stored.
     and_then (normalized_qb_hash ''selected_torrent_hash'' selected_hash) (\<lambda>selected.
     case (stored, selected) of
       (Some s, Some e) \<Rightarrow>
         if s \<noteq> e then Inl (ConflictingQbHashes s e)
         else Inr \<lparr>request_key = key, request_torrent_id = torrent,
                   authoritative_hash = Some s, hash_source = Some StoredArtifact\<rparr>
     | (Some s, None) \<Rightarrow>
         Inr \<lparr>request_key = key, request_torrent_id = torrent,
              authoritative_hash = Some s, hash_source = Some StoredArtifact\<rparr>
     | (None, Some e) \<Rightarrow>
         Inr \<lparr>request_key = key, request_torrent_id = torrent,
              authoritative_hash = Some e, hash_source = Some SelectedTorrent\<rparr>
     | (None, None) \<Rightarrow>
         Inr \<lparr>request_key = key, request_torrent_id = torrent,
              authoritative_hash = None, hash_source = None\<rparr>)))"

record qb_torrent_observation =
  obs_hash :: string
  obs_name :: string
  obs_tags :: "string list"

definition qb_observation_try_new ::
  "string \<Rightarrow> string \<Rightarrow> string list \<Rightarrow> effect_identity_error + qb_torrent_observation" where
  "qb_observation_try_new hash name tags =
     and_then (normalized_qb_hash ''observed_hash'' (Some hash)) (\<lambda>h.
     Inr \<lparr>obs_hash = the h, obs_name = name,
          obs_tags = btree_list (filter (\<lambda>t. t \<noteq> []) (map str_trim tags))\<rparr>)"

definition has_exact_tag :: "qb_torrent_observation \<Rightarrow> string \<Rightarrow> bool" where
  "has_exact_tag ob tag \<longleftrightarrow> tag \<in> set (obs_tags ob)"

datatype qb_reconciled_by = StoredHash | SelectedTorrentHash | StableTag | HashAndStableTag

datatype qb_reconciliation_conflict =
    DuplicateStableTag "string list"
  | HashAndTagDisagree string string

datatype qb_reconciliation_decision =
    UseExisting qb_torrent_observation qb_reconciled_by
  | Add
  | Conflict qb_reconciliation_conflict

text \<open>
  \<open>observations_by_hash\<close> keeps the first observation of a hash
  (\<open>entry().or_insert()\<close>); \<open>tagged_hashes\<close> is a \<open>BTreeSet\<close>.
\<close>

definition observation_by_hash ::
  "qb_torrent_observation list \<Rightarrow> string \<Rightarrow> qb_torrent_observation option" where
  "observation_by_hash obs h = find (\<lambda>ob. obs_hash ob = h) obs"

definition tagged_hashes :: "string \<Rightarrow> qb_torrent_observation list \<Rightarrow> string list" where
  "tagged_hashes tag obs = btree_list (map obs_hash (filter (\<lambda>ob. has_exact_tag ob tag) obs))"

text \<open>
  The \<open>expect\<close> and \<open>unreachable!\<close> of the source are the \<open>None\<close> cases below; lemma
  \<open>reconcile_no_panic\<close> shows that a request built by \<open>try_new\<close> reaches none of them.
\<close>

definition reconcile_qb_torrent_checked ::
  "qb_reconcile_request \<Rightarrow> qb_torrent_observation list \<Rightarrow> qb_reconciliation_decision option" where
  "reconcile_qb_torrent_checked request obs =
     (let stable_tag = effect_key_str (request_key request);
          tagged = tagged_hashes stable_tag obs in
      case tagged of
        h1 # h2 # hs \<Rightarrow> Some (Conflict (DuplicateStableTag (h1 # h2 # hs)))
      | _ \<Rightarrow>
          (let tagged_hash = (case tagged of h # _ \<Rightarrow> Some h | [] \<Rightarrow> None) in
           case authoritative_hash request of
             Some auth \<Rightarrow>
               (if tagged_hash \<noteq> None \<and> tagged_hash \<noteq> Some auth
                then Some (Conflict (HashAndTagDisagree auth (the tagged_hash)))
                else (case observation_by_hash obs auth of
                        Some torrent \<Rightarrow>
                          (if tagged_hash = Some auth
                           then Some (UseExisting torrent HashAndStableTag)
                           else (case hash_source request of
                                   Some StoredArtifact \<Rightarrow> Some (UseExisting torrent StoredHash)
                                 | Some SelectedTorrent \<Rightarrow>
                                     Some (UseExisting torrent SelectedTorrentHash)
                                 | None \<Rightarrow> None))
                      | None \<Rightarrow> Some Add))
           | None \<Rightarrow>
               (case tagged_hash of
                  Some h \<Rightarrow> map_option (\<lambda>torrent. UseExisting torrent StableTag)
                              (observation_by_hash obs h)
                | None \<Rightarrow> Some Add)))"

definition reconcile_qb_torrent ::
  "qb_reconcile_request \<Rightarrow> qb_torrent_observation list \<Rightarrow> qb_reconciliation_decision" where
  "reconcile_qb_torrent request obs = the (reconcile_qb_torrent_checked request obs)"

subsection \<open>The qB port and the at-most-one add\<close>

record qb_add_request =
  add_key :: effect_idempotency_key
  add_torrent_id :: string
  add_torrent_hash :: "string option"

definition qb_add_request_of :: "qb_reconcile_request \<Rightarrow> qb_add_request" where
  "qb_add_request_of request =
     \<lparr>add_key = request_key request, add_torrent_id = request_torrent_id request,
      add_torrent_hash = authoritative_hash request\<rparr>"

datatype ensure_qb_torrent_outcome =
    Added effect_idempotency_key
  | Reconciled qb_torrent_observation qb_reconciled_by

datatype 'e ensure_qb_torrent_error = Port 'e | EnsureConflict qb_reconciliation_conflict

text \<open>
  The trait \<open>QbEffectPort\<close>: its two methods act on the port's own state \<open>'p\<close>.
\<close>

record ('p, 'e) qb_effect_port =
  port_inspect :: "'p \<Rightarrow> string \<Rightarrow> string option \<Rightarrow> ('e + qb_torrent_observation list) \<times> 'p"
  port_add :: "'p \<Rightarrow> qb_add_request \<Rightarrow> ('e + unit) \<times> 'p"

definition ensure_qb_torrent ::
  "('p, 'e) qb_effect_port \<Rightarrow> 'p \<Rightarrow> qb_reconcile_request
    \<Rightarrow> ('e ensure_qb_torrent_error + ensure_qb_torrent_outcome) \<times> 'p" where
  "ensure_qb_torrent port p request =
     (case port_inspect port p (effect_key_str (request_key request)) (authoritative_hash request) of
        (Inl e, p1) \<Rightarrow> (Inl (Port e), p1)
      | (Inr obs, p1) \<Rightarrow>
          (case reconcile_qb_torrent request obs of
             UseExisting torrent by_what \<Rightarrow> (Inr (Reconciled torrent by_what), p1)
           | Add \<Rightarrow>
               (case port_add port p1 (qb_add_request_of request) of
                  (Inl e, p2) \<Rightarrow> (Inl (Port e), p2)
                | (Inr _, p2) \<Rightarrow> (Inr (Added (request_key request)), p2))
           | Conflict c \<Rightarrow> (Inl (EnsureConflict c), p1)))"

subsection \<open>Hardlink retries\<close>

datatype link_file_outcome = LinkPending | LinkLinked | LinkFailed | LinkMissing | LinkConflict

record file_identity =
  identity_namespace :: u64
  identity_object :: u64

text \<open>
  \<open>PathBuf\<close> equality and order compare components: a leading root, then the names, with
  repeated separators and inner \<open>.\<close> components dropped (Unix rules).
\<close>

fun split_on :: "char \<Rightarrow> string \<Rightarrow> string \<Rightarrow> string list" where
  "split_on sep acc [] = [rev acc]"
| "split_on sep acc (c # cs) =
     (if c = sep then rev acc # split_on sep [] cs else split_on sep (c # acc) cs)"

definition path_components :: "string \<Rightarrow> bool \<times> string list" where
  "path_components s =
     (let absolute = (case s of c # _ \<Rightarrow> c = CHR ''/'' | [] \<Rightarrow> False);
          parts = split_on (CHR ''/'') [] s;
          keep = filter (\<lambda>p. p \<noteq> [] \<and> p \<noteq> ''.'') in
      (absolute,
       (case parts of
          [] \<Rightarrow> []
        | p # ps \<Rightarrow> (if \<not> absolute \<and> p = ''.'' then p # keep ps else keep (p # ps)))))"

definition path_eq :: "string \<Rightarrow> string \<Rightarrow> bool" where
  "path_eq a b \<longleftrightarrow> path_components a = path_components b"

datatype link_plan_error =
    EmptySourcePath
  | EmptyTargetPath
  | SourceEqualsTarget
  | ObservationCountMismatch nat nat
  | DuplicateTarget string

record link_file_effect =
  effect_source_path :: string
  effect_target_path :: string
  effect_persisted_outcome :: link_file_outcome

definition link_file_effect_try_new ::
  "string \<Rightarrow> string \<Rightarrow> link_file_outcome \<Rightarrow> link_plan_error + link_file_effect" where
  "link_file_effect_try_new source target outcome =
     (if source = [] then Inl EmptySourcePath
      else if target = [] then Inl EmptyTargetPath
      else if path_eq source target then Inl SourceEqualsTarget
      else Inr \<lparr>effect_source_path = source, effect_target_path = target,
                effect_persisted_outcome = outcome\<rparr>)"

record link_file_probe =
  probe_source :: "file_identity option"
  probe_target :: "file_identity option"

datatype link_file_failure = SourceMissing | TargetConflict file_identity file_identity

datatype link_file_action = SkipVerified | AcceptExisting | Create | Fail link_file_failure

record planned_link_file =
  planned_source_path :: string
  planned_target_path :: string
  planned_action :: link_file_action

fun action_outcome :: "link_file_action \<Rightarrow> link_file_outcome" where
  "action_outcome SkipVerified = LinkLinked"
| "action_outcome AcceptExisting = LinkLinked"
| "action_outcome Create = LinkPending"
| "action_outcome (Fail SourceMissing) = LinkMissing"
| "action_outcome (Fail (TargetConflict _ _)) = LinkConflict"

definition resulting_outcome :: "planned_link_file \<Rightarrow> link_file_outcome" where
  "resulting_outcome p = action_outcome (planned_action p)"

definition link_action :: "link_file_effect \<Rightarrow> link_file_probe \<Rightarrow> link_file_action" where
  "link_action f probe =
     (case (probe_source probe, probe_target probe) of
        (None, _) \<Rightarrow> Fail SourceMissing
      | (Some _, None) \<Rightarrow> Create
      | (Some s, Some t) \<Rightarrow>
          (if s = t
           then (if effect_persisted_outcome f = LinkLinked then SkipVerified else AcceptExisting)
           else Fail (TargetConflict s t)))"

fun plan_link_files ::
  "(bool \<times> string list) list \<Rightarrow> (link_file_effect \<times> link_file_probe) list
    \<Rightarrow> link_plan_error + planned_link_file list" where
  "plan_link_files targets [] = Inr []"
| "plan_link_files targets ((f, probe) # rest) =
     (if path_components (effect_target_path f) \<in> set targets
      then Inl (DuplicateTarget (effect_target_path f))
      else and_then (plan_link_files (path_components (effect_target_path f) # targets) rest)
             (\<lambda>planned. Inr (\<lparr>planned_source_path = effect_source_path f,
                               planned_target_path = effect_target_path f,
                               planned_action = link_action f probe\<rparr> # planned)))"

definition plan_link_retry ::
  "link_file_effect list \<Rightarrow> link_file_probe list \<Rightarrow> link_plan_error + planned_link_file list" where
  "plan_link_retry files probes =
     (if length files \<noteq> length probes
      then Inl (ObservationCountMismatch (length files) (length probes))
      else plan_link_files [] (zip files probes))"

end
