(* ===== verification/Payload_Model.thy ===== *)
theory Payload_Model
  imports Effects_Domain
begin

text \<open>
  The JSON payload of one subscription row (\<open>src/subscription/repository/payload.rs\<close>):
  its records field by field, the validators that guard every write, the derived state of
  a link artifact and the stable artifact keys. A record prefix stands for the struct
  (\<open>src_\<close>, \<open>obv_\<close>, \<open>cand_\<close>, \<open>dl_\<close>, \<open>lk_\<close>, ...).
\<close>

subsection \<open>Data\<close>

record wanted_source_payload =
  src_title :: string
  src_detail_title :: "string option"
  src_release_year :: "u16 option"
  src_poster_url :: string
  src_cover_url :: string
  src_original_title :: "string option"
  src_aka :: "string list"
  src_languages :: "string list"
  src_countries :: "string list"
  src_genres :: "string list"
  src_directors :: "string list"
  src_actors :: "string list"
  src_date_published :: "string option"
  src_duration :: "string option"
  src_summary :: "string option"
  src_rating_value :: "f64 option"
  src_rating_count :: "u64 option"
  src_category_text :: "string option"
  src_tags :: "string list"
  src_douban_date :: "string option"
  src_douban_sort_time :: "u64 option"
  src_douban_return_order :: "u32 option"

record observation_payload =
  obv_created_at :: u64
  obv_first_seen_at :: u64
  obv_last_seen_at :: u64

datatype artifact_kind_payload = ArtifactDownload | ArtifactLink

datatype tv_lane_payload = LaneSearch | LaneProgress | LaneLink

datatype issue_owner_payload =
    OwnerParent
  | OwnerArtifact artifact_kind_payload string
  | OwnerTvLane tv_lane_payload
  | OwnerTvEpisode u32 u32

record issue_payload =
  issue_owner :: issue_owner_payload
  issue_operation :: "string option"
  issue_error_type :: "string option"
  issue_message :: string
  issue_occurred_at :: "u64 option"

record candidate_payload =
  cand_torrent_id :: string
  cand_title :: string
  cand_subtitle :: string
  cand_source :: string
  cand_search_query :: string
  cand_size :: "string option"
  cand_seeders :: "u64 option"
  cand_leechers :: "u64 option"
  cand_uploaded_at :: "string option"

record candidate_rule_evaluation_payload =
  eval_rule_name :: string
  eval_priority :: i32
  eval_mode :: string
  eval_matched :: bool
  eval_matched_keywords :: "string list"
  eval_missing_keywords :: "string list"
  eval_excluded_reason :: "string option"

record candidate_match_payload =
  match_candidate :: candidate_payload
  match_selected :: bool
  match_user_confirmed :: bool
  match_matched_rule_name :: "string option"
  match_matched_priority :: "i32 option"
  match_matched_keywords :: "string list"
  match_excluded_reason :: "string option"
  match_rule_evaluations :: "candidate_rule_evaluation_payload list"

definition download_authorized :: "candidate_match_payload \<Rightarrow> bool" where
  "download_authorized m \<longleftrightarrow>
     match_user_confirmed m \<or> cand_source (match_candidate m) \<in> {''douban'', ''imdb''}"

datatype tv_episode_intent_payload = IntentTarget | IntentSkipped

record tv_episode_detail_payload =
  ep_season_number :: u32
  ep_episode_number :: u32
  ep_label :: string
  ep_intent :: tv_episode_intent_payload

record tv_detail_payload =
  tv_localized_title :: string
  tv_season_number :: u32
  tv_episode_total :: u32
  tv_target_start_episode :: u32
  tv_target_end_episode :: u32
  tv_episodes :: "tv_episode_detail_payload list"

text \<open>\<open>priority\<close> is an \<open>i64\<close> the program only stores.\<close>

record download_file_payload =
  dlf_name :: string
  dlf_size :: u64
  dlf_progress :: f64
  dlf_priority :: int
  dlf_season_number :: "u32 option"
  dlf_episode_number :: "u32 option"
  dlf_episode_end_number :: "u32 option"
  dlf_episode_label :: "string option"

datatype download_artifact_state =
    DlPushed | DlDownloading | DlDownloaded | DlMissing | DlFailed | DlIgnored | DlSuperseded

record download_artifact_payload =
  dl_idempotency_key :: string
  dl_torrent_id :: string
  dl_torrent_title :: string
  dl_qb_server_id :: string
  dl_qb_server_name :: "string option"
  dl_qb_category :: string
  dl_qb_save_dir_name :: string
  dl_qb_identifier :: "string option"
  dl_qb_hash :: "string option"
  dl_qb_name :: "string option"
  dl_qb_state :: "string option"
  dl_torrent_download_url :: "string option"
  dl_mteam_torrent_url :: "string option"
  dl_state :: download_artifact_state
  dl_progress :: "f64 option"
  dl_total_size :: "u64 option"
  dl_files :: "download_file_payload list"
  dl_pushed_at :: "u64 option"
  dl_checked_at :: "u64 option"
  dl_completed_at :: "u64 option"

record link_file_payload =
  lkf_source_path :: string
  lkf_target_path :: string
  lkf_size :: u64
  lkf_outcome :: link_file_outcome
  lkf_season_number :: "u32 option"
  lkf_episode_number :: "u32 option"
  lkf_episode_end_number :: "u32 option"
  lkf_episode_label :: "string option"
  lkf_error :: "string option"

datatype link_artifact_state = StPlanned | StPartial | StCompleted | StFailed

record link_download_ref_payload =
  ref_artifact_id :: string

record link_artifact_payload =
  lk_idempotency_key :: string
  lk_download :: link_download_ref_payload
  lk_state :: link_artifact_state
  lk_source_path :: "string option"
  lk_target_dir :: "string option"
  lk_checked_at :: u64
  lk_completed_at :: "u64 option"
  lk_files :: "link_file_payload list"

record artifact_payload =
  art_downloads :: "download_artifact_payload list"
  art_links :: "link_artifact_payload list"

record subscription_payload =
  pl_replacement_pending :: bool
  pl_replacement_prepared :: bool
  pl_source :: wanted_source_payload
  pl_observation :: observation_payload
  pl_issues :: "issue_payload list"
  pl_skip_reason :: "string option"
  pl_candidates :: "candidate_match_payload list"
  pl_tv :: "tv_detail_payload option"
  pl_artifacts :: artifact_payload

subsection \<open>Validators\<close>

definition source_validate :: "wanted_source_payload \<Rightarrow> unit repository_result" where
  "source_validate s =
     and_then (validated_text ''source.title'' (src_title s)) (\<lambda>_.
     reject_if (case src_rating_value s of None \<Rightarrow> False | Some r \<Rightarrow> \<not> f64_is_finite r)
       (InvalidInput ''source.rating_value'' ''rating must be finite''))"

definition validate_observation :: "observation_payload \<Rightarrow> unit repository_result" where
  "validate_observation ob =
     reject_if (obv_created_at ob = 0 \<or> obv_first_seen_at ob = 0 \<or> obv_last_seen_at ob = 0
         \<or> obv_created_at ob > obv_first_seen_at ob \<or> obv_first_seen_at ob > obv_last_seen_at ob)
       (InvalidInput ''payload.observation''
         ''observation timestamps must be non-zero and ordered created <= first_seen <= last_seen'')"

definition opt_text :: "string \<Rightarrow> string option \<Rightarrow> unit repository_result" where
  "opt_text field v =
     (case v of None \<Rightarrow> Inr () | Some t \<Rightarrow> and_then (validated_text field t) (\<lambda>_. Inr ()))"

definition validate_candidate :: "candidate_match_payload \<Rightarrow> unit repository_result" where
  "validate_candidate c =
     and_then (validated_text ''payload.candidates.candidate.torrent_id''
                 (cand_torrent_id (match_candidate c))) (\<lambda>_.
     and_then (validated_text ''payload.candidates.candidate.title''
                 (cand_title (match_candidate c))) (\<lambda>_. Inr ()))"

fun validate_tv_episodes ::
  "tv_detail_payload \<Rightarrow> (u32 \<times> u32) list \<Rightarrow> tv_episode_detail_payload list
    \<Rightarrow> unit repository_result" where
  "validate_tv_episodes tv seen [] = Inr ()"
| "validate_tv_episodes tv seen (e # es) =
     (if ep_season_number e \<noteq> tv_season_number tv \<or> ep_episode_number e = 0
         \<or> ep_episode_number e > tv_episode_total tv
      then Inl (InvalidInput ''payload.tv.episodes''
             ''TV episode identity must use the detail season and remain within episode_total'')
      else if (ep_season_number e, ep_episode_number e) \<in> set seen
      then Inl (InvalidInput ''payload.tv.episodes'' ''TV episode identities must be unique'')
      else and_then (validated_text ''payload.tv.episodes.label'' (ep_label e)) (\<lambda>_.
           validate_tv_episodes tv ((ep_season_number e, ep_episode_number e) # seen) es))"

definition validate_tv_detail :: "tv_detail_payload \<Rightarrow> unit repository_result" where
  "validate_tv_detail tv =
     (if tv_season_number tv = 0 \<or> tv_episode_total tv = 0 \<or> tv_target_start_episode tv = 0
         \<or> tv_target_end_episode tv < tv_target_start_episode tv
         \<or> tv_target_end_episode tv > tv_episode_total tv
      then Inl (InvalidInput ''payload.tv''
             ''TV season and target range must be positive and ordered'')
      else validate_tv_episodes tv [] (tv_episodes tv))"

definition validate_progress :: "string \<Rightarrow> f64 option \<Rightarrow> unit repository_result" where
  "validate_progress field progress =
     reject_if (case progress of None \<Rightarrow> False | Some v \<Rightarrow> \<not> f64_is_finite v \<or> \<not> f64_in_unit v)
       (InvalidInput field ''progress must be finite and between zero and one'')"

definition validate_file_episode_range ::
  "string \<Rightarrow> u32 option \<Rightarrow> u32 option \<Rightarrow> u32 option \<Rightarrow> string option
    \<Rightarrow> unit repository_result" where
  "validate_file_episode_range field season episode episode_end label =
     (if season = Some 0 \<or> episode = Some 0 \<or> episode_end = Some 0
         \<or> (episode_end \<noteq> None \<and> episode = None)
         \<or> (case (episode, episode_end) of (Some s, Some e) \<Rightarrow> e < s | _ \<Rightarrow> False)
      then Inl (InvalidInput field
             ''file episode identity must be positive and its end must not precede its start'')
      else opt_text field label)"

definition is_failed_outcome :: "link_file_outcome \<Rightarrow> bool" where
  "is_failed_outcome out \<longleftrightarrow> out \<in> {LinkFailed, LinkMissing, LinkConflict}"

definition derive_link_state :: "link_file_payload list \<Rightarrow> link_artifact_state" where
  "derive_link_state files =
     (let linked = length (filter (\<lambda>f. lkf_outcome f = LinkLinked) files);
          failed = list_ex (\<lambda>f. is_failed_outcome (lkf_outcome f)) files in
      if linked = length files then StCompleted
      else if 0 < linked then StPartial
      else if failed then StFailed
      else StPlanned)"

definition validate_download_file :: "download_file_payload \<Rightarrow> unit repository_result" where
  "validate_download_file f =
     and_then (validated_text ''payload.artifacts.downloads.files.name'' (dlf_name f)) (\<lambda>_.
     and_then (validate_progress ''payload.artifacts.downloads.files.progress''
                 (Some (dlf_progress f))) (\<lambda>_.
     validate_file_episode_range ''payload.artifacts.downloads.files'' (dlf_season_number f)
       (dlf_episode_number f) (dlf_episode_end_number f) (dlf_episode_label f)))"

fun validate_downloads ::
  "string list \<Rightarrow> download_artifact_payload list \<Rightarrow> string list repository_result" where
  "validate_downloads ids [] = Inr ids"
| "validate_downloads ids (d # ds) =
     and_then (validated_text ''payload.artifacts.downloads.idempotency_key'' (dl_idempotency_key d)) (\<lambda>_.
     and_then (validated_text ''payload.artifacts.downloads.torrent_id'' (dl_torrent_id d)) (\<lambda>_.
     and_then (validated_text ''payload.artifacts.downloads.qb_server_id'' (dl_qb_server_id d)) (\<lambda>_.
     and_then (validated_text ''payload.artifacts.downloads.qb_category'' (dl_qb_category d)) (\<lambda>_.
     and_then (validated_text ''payload.artifacts.downloads.qb_save_dir_name'' (dl_qb_save_dir_name d)) (\<lambda>_.
     if dl_idempotency_key d \<in> set ids
     then Inl (InvalidInput ''payload.artifacts.downloads''
            ''download artifact idempotency keys must be unique'')
     else
     and_then (validate_progress ''payload.artifacts.downloads.progress'' (dl_progress d)) (\<lambda>_.
     and_then (for_each validate_download_file (dl_files d)) (\<lambda>_.
     validate_downloads (dl_idempotency_key d # ids) ds)))))))"

definition validate_link_file :: "link_file_payload \<Rightarrow> unit repository_result" where
  "validate_link_file f =
     and_then (validated_text ''payload.artifacts.links.files.source_path'' (lkf_source_path f)) (\<lambda>_.
     and_then (validated_text ''payload.artifacts.links.files.target_path'' (lkf_target_path f)) (\<lambda>_.
     validate_file_episode_range ''payload.artifacts.links.files'' (lkf_season_number f)
       (lkf_episode_number f) (lkf_episode_end_number f) (lkf_episode_label f)))"

fun validate_links ::
  "string list \<Rightarrow> string list \<Rightarrow> link_artifact_payload list \<Rightarrow> string list repository_result" where
  "validate_links download_ids ids [] = Inr ids"
| "validate_links download_ids ids (l # ls) =
     and_then (validated_text ''payload.artifacts.links.idempotency_key'' (lk_idempotency_key l)) (\<lambda>_.
     if lk_idempotency_key l \<in> set ids
     then Inl (InvalidInput ''payload.artifacts.links''
            ''link artifact idempotency keys must be unique'')
     else
     and_then (validated_text ''payload.artifacts.links.download.artifact_id''
                 (ref_artifact_id (lk_download l))) (\<lambda>_.
     if ref_artifact_id (lk_download l) \<notin> set download_ids
     then Inl (InvalidInput ''payload.artifacts.links.download.artifact_id''
            ''link artifact must reference an existing download artifact'')
     else
     and_then (for_each validate_link_file (lk_files l)) (\<lambda>_.
     if lk_files l \<noteq> [] \<and> lk_state l \<noteq> derive_link_state (lk_files l)
     then Inl (InvalidInput ''payload.artifacts.links.state''
            ''link artifact state must be derived from its per-file outcomes'')
     else validate_links download_ids (lk_idempotency_key l # ids) ls)))"

definition validate_artifacts ::
  "artifact_payload \<Rightarrow> (string list \<times> string list) repository_result" where
  "validate_artifacts a =
     and_then (validate_downloads [] (art_downloads a)) (\<lambda>download_ids.
     and_then (validate_links download_ids [] (art_links a)) (\<lambda>link_ids.
     Inr (download_ids, link_ids)))"

definition validate_issue ::
  "tv_detail_payload option \<Rightarrow> string list \<Rightarrow> string list \<Rightarrow> issue_payload
    \<Rightarrow> unit repository_result" where
  "validate_issue tv download_ids link_ids issue =
     and_then (validated_text ''payload.issues.message'' (issue_message issue)) (\<lambda>_.
     and_then (opt_text ''payload.issues.operation'' (issue_operation issue)) (\<lambda>_.
     and_then (opt_text ''payload.issues.error_type'' (issue_error_type issue)) (\<lambda>_.
     case issue_owner issue of
       OwnerParent \<Rightarrow> Inr ()
     | OwnerArtifact kind artifact \<Rightarrow>
         reject_if (artifact \<notin>
             set (case kind of ArtifactDownload \<Rightarrow> download_ids | ArtifactLink \<Rightarrow> link_ids))
           (InvalidInput ''payload.issues.owner.artifact_id''
             ''artifact issue must reference an artifact in the same payload'')
     | OwnerTvLane lane \<Rightarrow>
         reject_if (tv = None)
           (InvalidInput ''payload.issues.owner'' ''TV lane issue requires TV detail'')
     | OwnerTvEpisode season episode \<Rightarrow>
         reject_if (\<not> (case tv of None \<Rightarrow> False | Some t \<Rightarrow>
              list_ex (\<lambda>e. ep_season_number e = season \<and> ep_episode_number e = episode)
                (tv_episodes t)))
           (InvalidInput ''payload.issues.owner''
             ''TV episode issue must reference an episode in the same payload''))))"

definition payload_validate :: "subscription_payload \<Rightarrow> unit repository_result" where
  "payload_validate p =
     and_then (source_validate (pl_source p)) (\<lambda>_.
     and_then (validate_observation (pl_observation p)) (\<lambda>_.
     and_then (opt_text ''payload.skip_reason'' (pl_skip_reason p)) (\<lambda>_.
     and_then (for_each validate_candidate (pl_candidates p)) (\<lambda>_.
     and_then (case pl_tv p of None \<Rightarrow> Inr () | Some tv \<Rightarrow> validate_tv_detail tv) (\<lambda>_.
     and_then (validate_artifacts (pl_artifacts p)) (\<lambda>(download_ids, link_ids).
     for_each (validate_issue (pl_tv p) download_ids link_ids) (pl_issues p)))))))"

subsection \<open>Stable artifact keys\<close>

definition stable_artifact_key ::
  "(string \<Rightarrow> string) \<Rightarrow> string \<Rightarrow> string \<Rightarrow> string list \<Rightarrow> string" where
  "stable_artifact_key sha domain prefix components =
     prefix @ hex_bytes (sha (domain @ framed_all components))"

definition stable_download_artifact_key ::
  "(string \<Rightarrow> string) \<Rightarrow> string \<Rightarrow> string \<Rightarrow> string \<Rightarrow> string" where
  "stable_download_artifact_key sha account subject torrent =
     stable_qb_idempotency_key sha account subject torrent"

definition link_artifact_key_prefix :: string where
  "link_artifact_key_prefix = ''link:v1:''"

definition stable_resolved_link_artifact_key ::
  "(string \<Rightarrow> string) \<Rightarrow> string \<Rightarrow> string \<Rightarrow> string \<Rightarrow> string" where
  "stable_resolved_link_artifact_key sha account subject download_artifact_id =
     stable_artifact_key sha (''tmdb-mteam-hub/link-artifact/v1'' @ [CHR 0x00])
       link_artifact_key_prefix [account, subject, ''resolved'', download_artifact_id]"

definition payload_validate_for ::
  "(string \<Rightarrow> string) \<Rightarrow> string \<Rightarrow> string \<Rightarrow> subscription_payload \<Rightarrow> unit repository_result" where
  "payload_validate_for sha account subject p =
     and_then (validated_text ''account_key'' account) (\<lambda>_.
     and_then (validated_text ''subject_id'' subject) (\<lambda>_.
     and_then (payload_validate p) (\<lambda>_.
     and_then (for_each (\<lambda>d.
         reject_if (dl_idempotency_key d
                      \<noteq> stable_download_artifact_key sha account subject (dl_torrent_id d))
           (InvalidInput ''payload.artifacts.downloads.idempotency_key''
             ''download artifact idempotency key does not match its stable identity''))
         (art_downloads (pl_artifacts p))) (\<lambda>_.
     for_each (\<lambda>l.
         reject_if (lk_idempotency_key l
                      \<noteq> stable_resolved_link_artifact_key sha account subject
                           (ref_artifact_id (lk_download l)))
           (InvalidInput ''payload.artifacts.links.idempotency_key''
             ''link artifact idempotency key does not match its subscription identity''))
         (art_links (pl_artifacts p))))))"

subsection \<open>Equality of payloads\<close>

text \<open>
  \<open>derive(PartialEq)\<close> compares the \<open>f64\<close> fields as numbers: the two zeros are equal and
  a NaN equals nothing. \<open>payload_eq\<close> compares the payloads with every negative zero
  replaced, and is false when a NaN occurs.
\<close>

definition f64_is_nan :: "f64 \<Rightarrow> bool" where
  "f64_is_nan x \<longleftrightarrow> 0x7FF0000000000000 < take_bit 63 x"

definition f64_canon :: "f64 \<Rightarrow> f64" where
  "f64_canon x = (if x = 0x8000000000000000 then 0 else x)"

definition map_payload_f64 :: "(f64 \<Rightarrow> f64) \<Rightarrow> subscription_payload \<Rightarrow> subscription_payload" where
  "map_payload_f64 g p =
     p\<lparr>pl_source := (pl_source p)\<lparr>src_rating_value := map_option g (src_rating_value (pl_source p))\<rparr>,
       pl_artifacts := (pl_artifacts p)\<lparr>art_downloads :=
         map (\<lambda>d. d\<lparr>dl_progress := map_option g (dl_progress d),
                    dl_files := map (\<lambda>f. f\<lparr>dlf_progress := g (dlf_progress f)\<rparr>) (dl_files d)\<rparr>)
           (art_downloads (pl_artifacts p))\<rparr>\<rparr>"

definition payload_f64s :: "subscription_payload \<Rightarrow> f64 list" where
  "payload_f64s p =
     (case src_rating_value (pl_source p) of None \<Rightarrow> [] | Some r \<Rightarrow> [r])
     @ concat (map (\<lambda>d. (case dl_progress d of None \<Rightarrow> [] | Some v \<Rightarrow> [v])
                          @ map dlf_progress (dl_files d)) (art_downloads (pl_artifacts p)))"

definition payload_eq :: "subscription_payload \<Rightarrow> subscription_payload \<Rightarrow> bool" where
  "payload_eq p q \<longleftrightarrow>
     map_payload_f64 f64_canon p = map_payload_f64 f64_canon q
     \<and> list_all (\<lambda>x. \<not> f64_is_nan x) (payload_f64s p)"

subsection \<open>What the validators accept\<close>

text \<open>
  The well-formedness a validated payload has, stated without the order of the checks:
  identities are unique, links and issues refer to what the payload holds, a link's state
  is the one its files give, progress lies in the unit interval.
\<close>

definition opt_valid :: "string option \<Rightarrow> bool" where
  "opt_valid v \<longleftrightarrow> (\<forall>t \<in> set_option v. valid_text t)"

definition file_range_wf :: "u32 option \<Rightarrow> u32 option \<Rightarrow> u32 option \<Rightarrow> string option \<Rightarrow> bool" where
  "file_range_wf season start finish label \<longleftrightarrow>
     season \<noteq> Some 0 \<and> start \<noteq> Some 0 \<and> finish \<noteq> Some 0 \<and> opt_valid label \<and>
     (\<forall>e \<in> set_option finish. \<exists>s \<in> set_option start. s \<le> e)"

definition progress_wf :: "f64 option \<Rightarrow> bool" where
  "progress_wf v \<longleftrightarrow> (\<forall>x \<in> set_option v. f64_in_unit x)"

definition download_wf :: "download_artifact_payload \<Rightarrow> bool" where
  "download_wf d \<longleftrightarrow>
     (\<forall>t \<in> {dl_idempotency_key d, dl_torrent_id d, dl_qb_server_id d, dl_qb_category d,
             dl_qb_save_dir_name d}. valid_text t) \<and>
     progress_wf (dl_progress d) \<and>
     (\<forall>f \<in> set (dl_files d). valid_text (dlf_name f) \<and> progress_wf (Some (dlf_progress f)) \<and>
        file_range_wf (dlf_season_number f) (dlf_episode_number f) (dlf_episode_end_number f)
          (dlf_episode_label f))"

definition link_wf :: "link_artifact_payload \<Rightarrow> bool" where
  "link_wf l \<longleftrightarrow>
     valid_text (lk_idempotency_key l) \<and> valid_text (ref_artifact_id (lk_download l)) \<and>
     (\<forall>f \<in> set (lk_files l). valid_text (lkf_source_path f) \<and> valid_text (lkf_target_path f) \<and>
        file_range_wf (lkf_season_number f) (lkf_episode_number f) (lkf_episode_end_number f)
          (lkf_episode_label f)) \<and>
     (lk_files l = [] \<or> lk_state l = derive_link_state (lk_files l))"

definition artifacts_wf :: "artifact_payload \<Rightarrow> bool" where
  "artifacts_wf a \<longleftrightarrow>
     (\<forall>d \<in> set (art_downloads a). download_wf d) \<and>
     distinct (map dl_idempotency_key (art_downloads a)) \<and>
     (\<forall>l \<in> set (art_links a). link_wf l \<and>
        ref_artifact_id (lk_download l) \<in> dl_idempotency_key ` set (art_downloads a)) \<and>
     distinct (map lk_idempotency_key (art_links a))"

definition tv_wf :: "tv_detail_payload \<Rightarrow> bool" where
  "tv_wf tv \<longleftrightarrow>
     0 < tv_season_number tv \<and> 0 < tv_episode_total tv \<and> 0 < tv_target_start_episode tv \<and>
     tv_target_start_episode tv \<le> tv_target_end_episode tv \<and>
     tv_target_end_episode tv \<le> tv_episode_total tv \<and>
     (\<forall>e \<in> set (tv_episodes tv). ep_season_number e = tv_season_number tv \<and>
        0 < ep_episode_number e \<and> ep_episode_number e \<le> tv_episode_total tv \<and>
        valid_text (ep_label e)) \<and>
     distinct (map ep_episode_number (tv_episodes tv))"

fun owner_wf :: "subscription_payload \<Rightarrow> issue_owner_payload \<Rightarrow> bool" where
  "owner_wf p OwnerParent = True"
| "owner_wf p (OwnerArtifact ArtifactDownload i) =
     (i \<in> dl_idempotency_key ` set (art_downloads (pl_artifacts p)))"
| "owner_wf p (OwnerArtifact ArtifactLink i) =
     (i \<in> lk_idempotency_key ` set (art_links (pl_artifacts p)))"
| "owner_wf p (OwnerTvLane lane) = (pl_tv p \<noteq> None)"
| "owner_wf p (OwnerTvEpisode season episode) =
     (\<exists>tv e. pl_tv p = Some tv \<and> e \<in> set (tv_episodes tv) \<and>
        ep_season_number e = season \<and> ep_episode_number e = episode)"

definition issue_wf :: "subscription_payload \<Rightarrow> issue_payload \<Rightarrow> bool" where
  "issue_wf p i \<longleftrightarrow> valid_text (issue_message i) \<and> opt_valid (issue_operation i) \<and>
     opt_valid (issue_error_type i) \<and> owner_wf p (issue_owner i)"

definition payload_wf :: "subscription_payload \<Rightarrow> bool" where
  "payload_wf p \<longleftrightarrow>
     valid_text (src_title (pl_source p)) \<and>
     (\<forall>r \<in> set_option (src_rating_value (pl_source p)). f64_is_finite r) \<and>
     0 < obv_created_at (pl_observation p) \<and>
     obv_created_at (pl_observation p) \<le> obv_first_seen_at (pl_observation p) \<and>
     obv_first_seen_at (pl_observation p) \<le> obv_last_seen_at (pl_observation p) \<and>
     opt_valid (pl_skip_reason p) \<and>
     (\<forall>c \<in> set (pl_candidates p). valid_text (cand_torrent_id (match_candidate c)) \<and>
        valid_text (cand_title (match_candidate c))) \<and>
     (\<forall>tv \<in> set_option (pl_tv p). tv_wf tv) \<and>
     artifacts_wf (pl_artifacts p) \<and>
     (\<forall>i \<in> set (pl_issues p). issue_wf p i)"

lemma f64_unit_finite: "f64_in_unit x \<Longrightarrow> f64_is_finite x"
proof -
  assume "f64_in_unit x"
  then consider "x \<le> 0x3FF0000000000000" | "x = 0x8000000000000000"
    by (auto simp: f64_in_unit_def)
  then show ?thesis
  proof cases
    case 1
    have "take_bit 63 x \<le> x"
      by (simp add: word_le_nat_alt unsigned_take_bit_eq take_bit_nat_less_eq_self)
    with 1 have "take_bit 63 x \<le> 0x3FF0000000000000" by (rule order_trans [rotated])
    then show ?thesis
      by (auto simp: f64_is_finite_def intro: le_less_trans)
  qed (simp add: f64_is_finite_def)
qed

lemma opt_text_Inr [simp]: "opt_text f v = Inr u \<longleftrightarrow> opt_valid v"
  by (cases v) (auto simp: opt_text_def opt_valid_def and_then_Inr_iff)

lemma validate_progress_Inr [simp]: "validate_progress f v = Inr u \<longleftrightarrow> progress_wf v"
  by (cases v) (auto simp: validate_progress_def progress_wf_def f64_unit_finite)

lemma validate_file_episode_range_Inr [simp]:
  "validate_file_episode_range f a b c l = Inr u \<longleftrightarrow> file_range_wf a b c l"
  by (cases b; cases c)
    (auto simp: validate_file_episode_range_def file_range_wf_def not_less)

lemma validate_downloads_Inr:
  "validate_downloads ids ds = Inr r \<longleftrightarrow>
     (\<forall>d \<in> set ds. download_wf d) \<and> distinct (map dl_idempotency_key ds) \<and>
     dl_idempotency_key ` set ds \<inter> set ids = {} \<and> r = rev (map dl_idempotency_key ds) @ ids"
proof (induction ds arbitrary: ids)
  case Nil
  then show ?case by auto
next
  case (Cons d ds)
  have per_file: "validate_download_file f = Inr () \<longleftrightarrow>
      valid_text (dlf_name f) \<and> progress_wf (Some (dlf_progress f)) \<and>
      file_range_wf (dlf_season_number f) (dlf_episode_number f) (dlf_episode_end_number f)
        (dlf_episode_label f)" for f
    by (auto simp: validate_download_file_def and_then_Inr_iff)
  show ?case
    by (auto simp: and_then_Inr_iff for_each_Inr_iff per_file download_wf_def Cons.IH)
qed

lemma validate_links_Inr:
  "validate_links dls ids ls = Inr r \<longleftrightarrow>
     (\<forall>l \<in> set ls. link_wf l \<and> ref_artifact_id (lk_download l) \<in> set dls) \<and>
     distinct (map lk_idempotency_key ls) \<and>
     lk_idempotency_key ` set ls \<inter> set ids = {} \<and> r = rev (map lk_idempotency_key ls) @ ids"
proof (induction ls arbitrary: ids)
  case Nil
  then show ?case by auto
next
  case (Cons l ls)
  have per_file: "validate_link_file f = Inr () \<longleftrightarrow>
      valid_text (lkf_source_path f) \<and> valid_text (lkf_target_path f) \<and>
      file_range_wf (lkf_season_number f) (lkf_episode_number f) (lkf_episode_end_number f)
        (lkf_episode_label f)" for f
    by (auto simp: validate_link_file_def and_then_Inr_iff)
  show ?case
    by (auto simp: and_then_Inr_iff for_each_Inr_iff per_file link_wf_def Cons.IH)
qed

lemma validate_artifacts_Inr:
  "validate_artifacts a = Inr (dls, lks) \<longleftrightarrow>
     artifacts_wf a \<and> dls = rev (map dl_idempotency_key (art_downloads a)) \<and>
     lks = rev (map lk_idempotency_key (art_links a))"
  by (auto simp: validate_artifacts_def and_then_Inr_iff validate_downloads_Inr
      validate_links_Inr artifacts_wf_def)

lemma validate_tv_episodes_Inr:
  "validate_tv_episodes tv seen es = Inr () \<longleftrightarrow>
     (\<forall>e \<in> set es. ep_season_number e = tv_season_number tv \<and> 0 < ep_episode_number e \<and>
        ep_episode_number e \<le> tv_episode_total tv \<and> valid_text (ep_label e)) \<and>
     distinct (map (\<lambda>e. (ep_season_number e, ep_episode_number e)) es) \<and>
     (\<lambda>e. (ep_season_number e, ep_episode_number e)) ` set es \<inter> set seen = {}"
  by (induction tv seen es rule: validate_tv_episodes.induct)
    (auto simp: and_then_Inr_iff word_gt_0 not_less)

lemma validate_tv_detail_Inr: "validate_tv_detail tv = Inr () \<longleftrightarrow> tv_wf tv"
proof -
  have "distinct (map (\<lambda>e. (ep_season_number e, ep_episode_number e)) es) \<longleftrightarrow>
      distinct (map ep_episode_number es)"
    if "\<forall>e \<in> set es. ep_season_number e = tv_season_number tv" for es
    using that by (induction es) (auto simp: image_iff)
  then show ?thesis
    by (auto simp: validate_tv_detail_def tv_wf_def validate_tv_episodes_Inr word_gt_0 not_less)
qed

lemma validate_issue_Inr:
  assumes "dls = rev (map dl_idempotency_key (art_downloads (pl_artifacts p)))"
    and "lks = rev (map lk_idempotency_key (art_links (pl_artifacts p)))"
  shows "validate_issue (pl_tv p) dls lks i = Inr () \<longleftrightarrow> issue_wf p i"
  using assms
  by (cases "issue_owner i")
    (auto simp: validate_issue_def issue_wf_def and_then_Inr_iff list_ex_iff
      split: option.splits artifact_kind_payload.splits)

lemma payload_validate_Inr: "payload_validate p = Inr () \<longleftrightarrow> payload_wf p"
proof -
  have obs: "validate_observation ob = Inr () \<longleftrightarrow> 0 < obv_created_at ob \<and>
      obv_created_at ob \<le> obv_first_seen_at ob \<and> obv_first_seen_at ob \<le> obv_last_seen_at ob" for ob
    by (auto simp: validate_observation_def word_gt_0 not_less
        dest: order_trans [where y = 0] simp flip: word_le_0_iff)
  have tv: "(case pl_tv p of None \<Rightarrow> Inr () | Some tv \<Rightarrow> validate_tv_detail tv) = Inr () \<longleftrightarrow>
      (\<forall>tv \<in> set_option (pl_tv p). tv_wf tv)"
    by (cases "pl_tv p") (simp_all add: validate_tv_detail_Inr)
  have rating: "source_validate (pl_source p) = Inr () \<longleftrightarrow> valid_text (src_title (pl_source p)) \<and>
      (\<forall>r \<in> set_option (src_rating_value (pl_source p)). f64_is_finite r)"
    by (cases "src_rating_value (pl_source p)") (auto simp: source_validate_def and_then_Inr_iff)
  show ?thesis
    by (auto simp: payload_validate_def payload_wf_def rating obs tv validate_candidate_def
        for_each_Inr_iff and_then_Inr_iff validate_artifacts_Inr validate_issue_Inr)
qed

definition keys_stable ::
  "(string \<Rightarrow> string) \<Rightarrow> string \<Rightarrow> string \<Rightarrow> subscription_payload \<Rightarrow> bool" where
  "keys_stable sha account subject p \<longleftrightarrow>
     (\<forall>d \<in> set (art_downloads (pl_artifacts p)).
        dl_idempotency_key d = stable_download_artifact_key sha account subject (dl_torrent_id d)) \<and>
     (\<forall>l \<in> set (art_links (pl_artifacts p)).
        lk_idempotency_key l = stable_resolved_link_artifact_key sha account subject
          (ref_artifact_id (lk_download l)))"

lemma payload_validate_for_Inr:
  "payload_validate_for sha account subject p = Inr () \<longleftrightarrow>
     valid_text account \<and> valid_text subject \<and> payload_wf p \<and> keys_stable sha account subject p"
  by (auto simp: payload_validate_for_def and_then_Inr_iff for_each_Inr_iff payload_validate_Inr
      keys_stable_def)

lemma length_filter_eq_length: "length (filter P xs) = length xs \<longleftrightarrow> (\<forall>x \<in> set xs. P x)"
  by (metis filter_id_conv filter_True length_filter_less less_irrefl)

lemma derive_link_state_cases:
  "derive_link_state files = StCompleted \<longleftrightarrow> (\<forall>f \<in> set files. lkf_outcome f = LinkLinked)"
  "derive_link_state files = StPartial \<longleftrightarrow>
     (\<exists>f \<in> set files. lkf_outcome f = LinkLinked) \<and> (\<exists>f \<in> set files. lkf_outcome f \<noteq> LinkLinked)"
  "derive_link_state files = StPlanned \<longleftrightarrow>
     files \<noteq> [] \<and> (\<forall>f \<in> set files. lkf_outcome f = LinkPending)"
    apply (auto simp: derive_link_state_def Let_def length_filter_eq_length list_ex_iff
      is_failed_outcome_def filter_empty_conv)
  apply (metis link_file_outcome.exhaust)
  done

end
