(* ===== verification/Repository_Domain.thy ===== *)
theory Repository_Domain
  imports Payload_Model
begin

text \<open>
  The domain contract of \<open>src/subscription/repository.rs\<close>: the head, projection and
  detail of a subscription with their validators, the merge of an upstream observation,
  the execution commands with the payload deltas and dispositions they carry, and the poll
  commands with their retry policy. Commands are built by their \<open>try_new\<close>, as in the
  code. The prefixes are \<open>prj_\<close>, \<open>head_\<close>, \<open>sum_\<close>, \<open>det_\<close> for the row types and the
  command's name for the commands.
\<close>

subsection \<open>Projection and the merge of a source observation\<close>

record subscription_projection =
  prj_title :: string
  prj_release_year :: "u16 option"
  prj_poster_url :: string
  prj_category_text :: "string option"
  prj_douban_sort_time :: "u64 option"

definition projection_title :: "wanted_source_payload \<Rightarrow> string" where
  "projection_title s =
     (case src_detail_title s of
        None \<Rightarrow> src_title s
      | Some detail_title \<Rightarrow>
          (case Option.bind (src_original_title s) non_empty of
             Some title \<Rightarrow> title
           | None \<Rightarrow> detail_title))"

definition projection_from_source ::
  "wanted_source_payload \<Rightarrow> subscription_projection repository_result" where
  "projection_from_source s =
     and_then (source_validate s) (\<lambda>_.
     and_then (reject_if (case src_release_year s of None \<Rightarrow> False
                            | Some year \<Rightarrow> \<not> (1 \<le> year \<and> year \<le> 9999))
                 (InvalidInput ''source.release_year'' ''release year must be between 1 and 9999'')) (\<lambda>_.
     and_then (validate_text_bytes ''source.poster_url'' (src_poster_url s)) (\<lambda>_.
     and_then (case src_category_text s of None \<Rightarrow> Inr ()
               | Some c \<Rightarrow> validate_text_bytes ''source.category_text'' c) (\<lambda>_.
     Inr \<lparr>prj_title = projection_title s, prj_release_year = src_release_year s,
          prj_poster_url = src_poster_url s, prj_category_text = src_category_text s,
          prj_douban_sort_time = src_douban_sort_time s\<rparr>))))"

definition projection_validate_against ::
  "subscription_projection \<Rightarrow> subscription_payload \<Rightarrow> unit repository_result" where
  "projection_validate_against projection p =
     and_then (projection_from_source (pl_source p)) (\<lambda>expected.
     reject_if (projection \<noteq> expected)
       (CorruptData ''subscription projection does not match record_json payload''))"

text \<open>\<open>POSTER_PREFIX\<close> of \<open>src/subscription/posters.rs\<close>\<close>

definition poster_prefix :: string where
  "poster_prefix = ''/api/subscriptions/posters/''"

definition starts_with :: "string \<Rightarrow> string \<Rightarrow> bool" where
  "starts_with p s \<longleftrightarrow> take (length p) s = p"

definition replace_text_if_observed :: "string \<Rightarrow> string \<Rightarrow> string" where
  "replace_text_if_observed current observed =
     (case non_empty observed of None \<Rightarrow> current | Some t \<Rightarrow> t)"

definition replace_optional_text_if_observed ::
  "string option \<Rightarrow> string option \<Rightarrow> string option" where
  "replace_optional_text_if_observed current observed =
     (case Option.bind observed non_empty of None \<Rightarrow> current | Some t \<Rightarrow> Some t)"

definition replace_values_if_observed :: "string list \<Rightarrow> string list \<Rightarrow> string list" where
  "replace_values_if_observed current observed =
     (let vs = filter (\<lambda>v. v \<noteq> []) (map str_trim observed) in if vs \<noteq> [] then vs else current)"

definition push_unique :: "string list \<Rightarrow> string \<Rightarrow> string list" where
  "push_unique acc v =
     (let t = str_trim v in if t \<noteq> [] \<and> t \<notin> set acc then acc @ [t] else acc)"

definition normalized_unique_values :: "string list \<Rightarrow> string list" where
  "normalized_unique_values values = foldl push_unique [] values"

text \<open>\<open>Option::or\<close>\<close>

definition opt_or :: "'a option \<Rightarrow> 'a option \<Rightarrow> 'a option" where
  "opt_or a b = (case a of None \<Rightarrow> b | Some x \<Rightarrow> Some x)"

definition merge_poster :: "string \<Rightarrow> string \<Rightarrow> string" where
  "merge_poster current observed =
     (if starts_with poster_prefix current then current
      else replace_text_if_observed current observed)"

definition merge_source_observation ::
  "wanted_source_payload \<Rightarrow> wanted_source_payload \<Rightarrow> wanted_source_payload" where
  "merge_source_observation current observed =
     (let detail = replace_optional_text_if_observed (src_detail_title current)
                     (src_detail_title observed) in
      \<lparr>src_title = str_trim (case detail of None \<Rightarrow> src_title observed | Some t \<Rightarrow> t),
       src_detail_title = detail,
       src_release_year = opt_or (src_release_year observed) (src_release_year current),
       src_poster_url = merge_poster (src_poster_url current) (src_poster_url observed),
       src_cover_url = merge_poster (src_cover_url current) (src_cover_url observed),
       src_original_title = replace_optional_text_if_observed (src_original_title current)
         (src_original_title observed),
       src_aka = replace_values_if_observed (src_aka current) (src_aka observed),
       src_languages = replace_values_if_observed (src_languages current) (src_languages observed),
       src_countries = replace_values_if_observed (src_countries current) (src_countries observed),
       src_genres = replace_values_if_observed (src_genres current) (src_genres observed),
       src_directors = replace_values_if_observed (src_directors current) (src_directors observed),
       src_actors = replace_values_if_observed (src_actors current) (src_actors observed),
       src_date_published = replace_optional_text_if_observed (src_date_published current)
         (src_date_published observed),
       src_duration = replace_optional_text_if_observed (src_duration current)
         (src_duration observed),
       src_summary = replace_optional_text_if_observed (src_summary current)
         (src_summary observed),
       src_rating_value = opt_or (src_rating_value observed) (src_rating_value current),
       src_rating_count = opt_or (src_rating_count observed) (src_rating_count current),
       src_category_text = replace_optional_text_if_observed (src_category_text current)
         (src_category_text observed),
       src_tags = normalized_unique_values (src_tags observed),
       src_douban_date = replace_optional_text_if_observed (src_douban_date current)
         (src_douban_date observed),
       src_douban_sort_time = opt_or (src_douban_sort_time observed) (src_douban_sort_time current),
       src_douban_return_order = opt_or (src_douban_return_order observed)
         (src_douban_return_order current)\<rparr>)"

text \<open>
  Both validations of the payload run: before the merge and on the merged payload. On an
  error the code may have updated the caller's copy; every caller drops it.
\<close>

definition merge_snapshot_observation ::
  "subscription_payload \<Rightarrow> wanted_source_payload \<Rightarrow> u64 \<Rightarrow> subscription_payload repository_result"
where
  "merge_snapshot_observation p observed_source observed_at =
     and_then (payload_validate p) (\<lambda>_.
     and_then (projection_from_source observed_source) (\<lambda>_.
     and_then (reject_if (observed_at < obv_last_seen_at (pl_observation p))
                 (InvalidInput ''observed_at''
                   ''snapshot observation cannot precede the existing last observation'')) (\<lambda>_.
     let merged = merge_source_observation (pl_source p) observed_source in
     and_then (projection_from_source merged) (\<lambda>_.
     let q = p\<lparr>pl_source := merged,
               pl_observation := (pl_observation p)\<lparr>obv_last_seen_at := observed_at\<rparr>\<rparr> in
     and_then (payload_validate q) (\<lambda>_. Inr q)))))"

subsection \<open>Head, summary, detail\<close>

record subscription_head =
  head_key :: subscription_key
  head_revision :: revision
  head_active :: bool
  head_inactive_at :: "u64 option"
  head_last_seen_snapshot_id :: "snapshot_id option"
  head_media_kind :: media_kind
  head_schedulable :: bool
  head_blocked_reason :: "blocked_reason option"
  head_lifecycle_state :: lifecycle_state
  head_execution_state :: execution_state
  head_next_attempt_at :: "u64 option"
  head_retry_count :: u32
  head_max_retries :: u32
  head_retry_blocked :: bool
  head_force_eligible_once :: bool
  head_updated_at :: u64

definition head_validate :: "subscription_head \<Rightarrow> unit repository_result" where
  "head_validate h =
     (if head_active h = (head_inactive_at h \<noteq> None)
      then Inl (corrupt ''active and inactive_at columns disagree'')
      else if head_schedulable h = (head_blocked_reason h \<noteq> None)
      then Inl (corrupt ''schedulable and blocked_reason columns disagree'')
      else if \<not> head_active h \<and> (head_execution_state h \<noteq> Idle \<or> head_next_attempt_at h \<noteq> None)
      then Inl (corrupt ''an inactive subscription must be idle with no next attempt'')
      else if \<not> head_schedulable h \<and> head_next_attempt_at h \<noteq> None
      then Inl (corrupt ''an unschedulable subscription cannot have a next attempt'')
      else if head_lifecycle_state h = Completed \<and> head_next_attempt_at h \<noteq> None
      then Inl (corrupt ''a completed subscription cannot have a next attempt'')
      else if head_execution_state h = Running
          \<and> (\<not> head_active h \<or> \<not> head_schedulable h \<or> head_lifecycle_state h = Completed)
      then Inl (corrupt ''a running subscription must be active, schedulable and non-completed'')
      else if head_retry_blocked h
          \<noteq> (head_max_retries h > 0 \<and> head_retry_count h \<ge> head_max_retries h)
      then Inl (corrupt ''retry_blocked does not match retry_count/max_retries'')
      else if head_force_eligible_once h
          \<and> (\<not> head_active h \<or> \<not> head_schedulable h \<or> head_lifecycle_state h = Completed
             \<or> head_next_attempt_at h = None)
      then Inl (corrupt ''force_eligible_once requires an active schedulable due record'')
      else Inr ())"

definition validate_attention_tags :: "attention_tag list \<Rightarrow> unit repository_result" where
  "validate_attention_tags tags =
     reject_if (length (btree_list tags) \<noteq> length tags)
       (InvalidInput ''attention_tags'' ''attention tags must not contain duplicates'')"

definition validate_payload_media_kind ::
  "media_kind \<Rightarrow> subscription_payload \<Rightarrow> unit repository_result" where
  "validate_payload_media_kind kind p =
     reject_if (kind = Movie \<and> pl_tv p \<noteq> None)
       (InvalidInput ''payload.tv'' ''a movie subscription cannot carry TV detail'')"

record subscription_summary =
  sum_head :: subscription_head
  sum_projection :: subscription_projection
  sum_attention_tags :: "attention_tag list"

definition summary_validate :: "subscription_summary \<Rightarrow> unit repository_result" where
  "summary_validate s =
     and_then (head_validate (sum_head s)) (\<lambda>_. validate_attention_tags (sum_attention_tags s))"

record subscription_detail =
  det_summary :: subscription_summary
  det_payload :: subscription_payload

abbreviation det_head :: "subscription_detail \<Rightarrow> subscription_head" where
  "det_head d \<equiv> sum_head (det_summary d)"

definition detail_try_new ::
  "(string \<Rightarrow> string) \<Rightarrow> subscription_summary \<Rightarrow> subscription_payload
    \<Rightarrow> subscription_detail repository_result" where
  "detail_try_new sha summary p =
     and_then (summary_validate summary) (\<lambda>_.
     and_then (payload_validate_for sha (account_key (head_key (sum_head summary)))
                 (subject_id (head_key (sum_head summary))) p) (\<lambda>_.
     and_then (validate_payload_media_kind (head_media_kind (sum_head summary)) p) (\<lambda>_.
     and_then (projection_validate_against (sum_projection summary) p) (\<lambda>_.
     Inr \<lparr>det_summary = summary, det_payload = p\<rparr>))))"

subsection \<open>Claim commands and results\<close>

definition execution_lease_ttl_try_new :: "u64 \<Rightarrow> u64 repository_result" where
  "execution_lease_ttl_try_new seconds =
     (if seconds = 0
      then Inl (InvalidInput ''lease_ttl_secs'' ''execution lease TTL must be greater than zero'')
      else if i64_max < uint seconds
      then Inl (InvalidInput ''lease_ttl_secs''
             ''execution lease TTL must fit the schema-v5 SQLite integer range'')
      else Inr seconds)"

definition initial_claim_due_limit :: u32 where
  "initial_claim_due_limit = 1"

record claim_due_command =
  cdue_account_key :: string
  cdue_lease_ttl :: u64
  cdue_limit :: u32
  cdue_metadata_only :: bool

definition claim_due_command_try_new ::
  "string \<Rightarrow> u64 \<Rightarrow> u32 \<Rightarrow> claim_due_command repository_result" where
  "claim_due_command_try_new account ttl limit =
     (if limit \<noteq> initial_claim_due_limit
      then Inl (InvalidInput ''limit''
             ''the initial claim_due contract supports exactly one record'')
      else
      and_then (validated_text ''account_key'' account) (\<lambda>a.
      and_then (execution_lease_ttl_try_new ttl) (\<lambda>t.
      Inr \<lparr>cdue_account_key = a, cdue_lease_ttl = t, cdue_limit = limit,
           cdue_metadata_only = False\<rparr>)))"

definition metadata_only :: "claim_due_command \<Rightarrow> claim_due_command" where
  "metadata_only c = c\<lparr>cdue_metadata_only := True\<rparr>"

record claim_one_command =
  cone_key :: subscription_key
  cone_lease_ttl :: u64

definition claim_one_command_try_new ::
  "subscription_key \<Rightarrow> u64 \<Rightarrow> claim_one_command repository_result" where
  "claim_one_command_try_new key ttl =
     and_then (execution_lease_ttl_try_new ttl) (\<lambda>t.
     Inr \<lparr>cone_key = key, cone_lease_ttl = t\<rparr>)"

record claimed_subscription =
  claimed_detail :: subscription_detail
  claimed_attempt :: current_execution_attempt
  claimed_replaced :: "expired_attempt option"

definition claimed_subscription_try_new ::
  "subscription_detail \<Rightarrow> current_execution_attempt \<Rightarrow> expired_attempt option
    \<Rightarrow> claimed_subscription repository_result" where
  "claimed_subscription_try_new detail attempt replaced =
     (let head = det_head detail; token = current_token attempt in
      if head_key head \<noteq> token_key token
      then Inl (corrupt ''claimed detail key does not match the current attempt token'')
      else if head_execution_state head \<noteq> Running
      then Inl (corrupt ''a claimed subscription must expose running execution state'')
      else
      and_then (ok_or (corrupt ''a completed subscription cannot carry an execution attempt'')
                  (operation_for_lifecycle (head_lifecycle_state head))) (\<lambda>expected.
      if token_operation token \<noteq> expected
      then Inl (corrupt (''claimed operation '' @ operation_as_str (token_operation token)
             @ '' does not match lifecycle '' @ lifecycle_as_str (head_lifecycle_state head)))
      else
      and_then (case replaced of None \<Rightarrow> Inr () | Some expired \<Rightarrow>
          (if token_key (expired_token expired) \<noteq> head_key head
           then Inl (corrupt ''replaced expired attempt belongs to another subscription'')
           else if token_attempt_id (expired_token expired) = token_attempt_id token
           then Inl (corrupt ''an expired reclaim must allocate a new attempt ID'')
           else if token_operation (expired_token expired) \<noteq> token_operation token
           then Inl (corrupt ''an expired reclaim must preserve the claimed operation'')
           else Inr ())) (\<lambda>_.
      Inr \<lparr>claimed_detail = detail, claimed_attempt = attempt, claimed_replaced = replaced\<rparr>)))"

text \<open>\<open>ClaimDueResult\<close> is the optional claim itself.\<close>

type_synonym claim_due_result = "claimed_subscription option"

datatype claim_rejection =
    RejInactive
  | RejUnschedulable blocked_reason
  | RejCompleted
  | RejLiveAttempt current_execution_attempt
  | RejNotDue "u64 option"
  | RejRetryBlocked
  | RejSkipped

datatype claim_one_result = Claimed claimed_subscription | Rejected claim_rejection

subsection \<open>Facts about validators\<close>

text \<open>What a source must satisfy to be projected, and the projection it then has.\<close>

definition source_wf :: "wanted_source_payload \<Rightarrow> bool" where
  "source_wf s \<longleftrightarrow>
     valid_text (src_title s) \<and> (\<forall>r \<in> set_option (src_rating_value s). f64_is_finite r) \<and>
     (\<forall>y \<in> set_option (src_release_year s). 1 \<le> y \<and> y \<le> 9999) \<and>
     \<not> contains_nul (src_poster_url s) \<and>
     (\<forall>c \<in> set_option (src_category_text s). \<not> contains_nul c)"

definition projection_of :: "wanted_source_payload \<Rightarrow> subscription_projection" where
  "projection_of s =
     \<lparr>prj_title = projection_title s, prj_release_year = src_release_year s,
      prj_poster_url = src_poster_url s, prj_category_text = src_category_text s,
      prj_douban_sort_time = src_douban_sort_time s\<rparr>"

lemma source_validate_Inr:
  "source_validate s = Inr () \<longleftrightarrow> valid_text (src_title s) \<and>
     (\<forall>r \<in> set_option (src_rating_value s). f64_is_finite r)"
  by (cases "src_rating_value s") (auto simp: source_validate_def and_then_Inr_iff)

lemma projection_from_source_Inr [simp]:
  "projection_from_source s = Inr prj \<longleftrightarrow> source_wf s \<and> prj = projection_of s"
  by (cases "src_release_year s"; cases "src_category_text s")
    (auto simp: projection_from_source_def source_wf_def projection_of_def source_validate_Inr
      validate_text_bytes_def and_then_Inr_iff)

text \<open>The consistency of the scheduling columns, as one predicate.\<close>

definition head_wf :: "subscription_head \<Rightarrow> bool" where
  "head_wf h \<longleftrightarrow>
     (head_active h \<longleftrightarrow> head_inactive_at h = None) \<and>
     (head_schedulable h \<longleftrightarrow> head_blocked_reason h = None) \<and>
     (head_next_attempt_at h \<noteq> None \<longrightarrow>
        head_active h \<and> head_schedulable h \<and> head_lifecycle_state h \<noteq> Completed) \<and>
     (head_execution_state h = Running \<longrightarrow>
        head_active h \<and> head_schedulable h \<and> head_lifecycle_state h \<noteq> Completed) \<and>
     (head_retry_blocked h \<longleftrightarrow> 0 < head_max_retries h \<and> head_max_retries h \<le> head_retry_count h) \<and>
     (head_force_eligible_once h \<longrightarrow> head_next_attempt_at h \<noteq> None)"

lemma execution_state_not_Idle [simp]: "e \<noteq> Idle \<longleftrightarrow> e = Running"
  by (cases e) simp_all

lemma head_validate_Inr [simp]: "head_validate h = Inr () \<longleftrightarrow> head_wf h"
  unfolding head_validate_def head_wf_def
  by (cases "head_execution_state h") (auto simp: not_less word_gt_0)

lemma length_btree_list: "length (btree_list xs) = length xs \<longleftrightarrow> distinct xs"
  by (metis distinct_btree_list distinct_card card_distinct set_btree_list)

lemma validate_attention_tags_Inr [simp]:
  "validate_attention_tags tags = Inr () \<longleftrightarrow> distinct tags"
  by (simp add: validate_attention_tags_def length_btree_list)

lemma summary_validate_Inr [simp]:
  "summary_validate s = Inr () \<longleftrightarrow> head_wf (sum_head s) \<and> distinct (sum_attention_tags s)"
  by (auto simp: summary_validate_def and_then_Inr_iff)

text \<open>A detail the code can build: the invariant of every value a client receives.\<close>

definition detail_wf :: "(string \<Rightarrow> string) \<Rightarrow> subscription_detail \<Rightarrow> bool" where
  "detail_wf sha d \<longleftrightarrow>
     head_wf (det_head d) \<and> distinct (sum_attention_tags (det_summary d)) \<and>
     valid_text (account_key (head_key (det_head d))) \<and>
     valid_text (subject_id (head_key (det_head d))) \<and>
     payload_wf (det_payload d) \<and>
     keys_stable sha (account_key (head_key (det_head d))) (subject_id (head_key (det_head d)))
       (det_payload d) \<and>
     (head_media_kind (det_head d) = Movie \<longrightarrow> pl_tv (det_payload d) = None) \<and>
     source_wf (pl_source (det_payload d)) \<and>
     sum_projection (det_summary d) = projection_of (pl_source (det_payload d))"

lemma detail_try_new_Inr:
  "detail_try_new sha s p = Inr d \<longleftrightarrow> d = \<lparr>det_summary = s, det_payload = p\<rparr> \<and> detail_wf sha d"
  by (auto simp: detail_try_new_def detail_wf_def and_then_Inr_iff payload_validate_for_Inr
      validate_payload_media_kind_def projection_validate_against_def)


lemma claimed_subscription_try_new_Inr:
  "claimed_subscription_try_new d a r = Inr c \<longleftrightarrow>
     c = \<lparr>claimed_detail = d, claimed_attempt = a, claimed_replaced = r\<rparr> \<and>
     token_key (current_token a) = head_key (det_head d) \<and>
     head_execution_state (det_head d) = Running \<and>
     operation_for_lifecycle (head_lifecycle_state (det_head d))
       = Some (token_operation (current_token a)) \<and>
     (\<forall>x \<in> set_option r. token_key (expired_token x) = head_key (det_head d) \<and>
        token_attempt_id (expired_token x) \<noteq> token_attempt_id (current_token a) \<and>
        token_operation (expired_token x) = token_operation (current_token a))"
  by (cases r) (auto simp: claimed_subscription_try_new_def Let_def and_then_Inr_iff)

subsection \<open>Facts about the source merge\<close>

lemma opt_or_simps [simp]: "opt_or None b = b" "opt_or (Some x) b = Some x"
  by (simp_all add: opt_or_def)

lemma opt_or_idem [simp]: "opt_or a (opt_or a b) = opt_or a b"
  by (cases a) simp_all

lemma set_opt_or: "set_option (opt_or a b) \<subseteq> set_option a \<union> set_option b"
  by (cases a) simp_all

lemma replace_optional_idem [simp]:
  "replace_optional_text_if_observed (replace_optional_text_if_observed c ob) ob
     = replace_optional_text_if_observed c ob"
  by (simp add: replace_optional_text_if_observed_def split: option.split)

lemma replace_values_idem [simp]:
  "replace_values_if_observed (replace_values_if_observed c ob) ob
     = replace_values_if_observed c ob"
  by (simp add: replace_values_if_observed_def Let_def)

lemma merge_poster_idem [simp]: "merge_poster (merge_poster c ob) ob = merge_poster c ob"
  by (simp add: merge_poster_def replace_text_if_observed_def non_empty_eq)

lemma merge_source_idem:
  "merge_source_observation (merge_source_observation c ob) ob = merge_source_observation c ob"
  by (simp add: merge_source_observation_def Let_def)

lemma replace_optional_None [simp]: "replace_optional_text_if_observed c None = c"
  by (simp add: replace_optional_text_if_observed_def)

lemma replace_optional_Some:
  "replace_optional_text_if_observed c ob = Some t \<Longrightarrow>
     c = Some t \<or> (\<exists>v. ob = Some v \<and> \<not> is_blank v \<and> t = str_trim v)"
  by (auto simp: replace_optional_text_if_observed_def non_empty_Some Option.bind_eq_Some_conv
      split: option.splits)

lemma merge_poster_cases: "merge_poster c ob = c \<or> merge_poster c ob = str_trim ob"
  by (simp add: merge_poster_def replace_text_if_observed_def non_empty_eq)

text \<open>
  A snapshot merge keeps a projectable source projectable, provided the stored detail title
  is a real title: the code stores no other (its observers trim it and drop it when empty).
\<close>

lemma source_wf_merge:
  assumes c: "source_wf c" and ob: "source_wf ob"
    and detail: "\<forall>t \<in> set_option (src_detail_title c). valid_text t"
      "\<forall>t \<in> set_option (src_detail_title ob). \<not> contains_nul t"
  shows "source_wf (merge_source_observation c ob)"
proof -
  let ?d = "replace_optional_text_if_observed (src_detail_title c) (src_detail_title ob)"
  have d: "valid_text (str_trim t)" if "?d = Some t" for t
    using replace_optional_Some [OF that] detail
    by (auto simp: valid_text_def contains_nul_str_trim)
  have t: "valid_text (str_trim (src_title ob))"
    using ob by (simp add: source_wf_def valid_text_def contains_nul_str_trim)
  have title: "valid_text (src_title (merge_source_observation c ob))"
    using d t by (simp add: merge_source_observation_def Let_def split: option.split)
  have poster: "\<not> contains_nul (merge_poster (src_poster_url c) (src_poster_url ob))"
    using merge_poster_cases [of "src_poster_url c" "src_poster_url ob"] c ob
    by (auto simp: source_wf_def contains_nul_str_trim)
  have category: "\<not> contains_nul x"
    if "replace_optional_text_if_observed (src_category_text c) (src_category_text ob) = Some x" for x
    using replace_optional_Some [OF that] c ob
    by (auto simp: source_wf_def contains_nul_str_trim)
  show ?thesis
    using title poster category c ob
      set_opt_or [of "src_rating_value ob" "src_rating_value c"]
      set_opt_or [of "src_release_year ob" "src_release_year c"]
    by (fastforce simp: source_wf_def merge_source_observation_def Let_def)
qed

end
