(* ===== verification/Schema_Rows.thy ===== *)
theory Schema_Rows
  imports Repository_Domain
begin

text \<open>
  The tables of \<open>src/storage/schema_v5.rs\<close> with their CHECK constraints, and the column
  codecs of \<open>src/storage/subscription_repo.rs\<close> that turn a row into a head, a summary
  or a detail. An INTEGER column is an \<open>int\<close>, a TEXT column its UTF-8 bytes, NULL is
  \<open>None\<close>; the STRICT tables admit nothing else.
\<close>

subsection \<open>JSON columns\<close>

text \<open>
  A JSON column is known by what reading it gives: the value \<open>serde_json\<close> decodes, or its
  decoding error together with the strings an SQL query over the document finds (the values
  of \<open>json_each\<close> for the tag array, the paths that \<open>json_extract\<close> finds for the record).
\<close>

datatype 'a json_text = Json 'a | Undecodable string "string list"

definition decode_json :: "string \<Rightarrow> 'a json_text \<Rightarrow> 'a repository_result" where
  "decode_json context t =
     (case t of Json v \<Rightarrow> Inr v
      | Undecodable e _ \<Rightarrow> Inl (CorruptData (context @ '': '' @ e)))"

text \<open>The documents \<open>serde_json::json!\<close> builds for the audit log.\<close>

datatype json =
    JNull
  | JBool bool
  | JNumber int
  | JString string
  | JArray "json list"
  | JObject "(string \<times> json) list"

subsection \<open>Rows\<close>

record wanted_row =
  col_account_key :: string
  col_subject_id :: string
  col_revision :: int
  col_active :: int
  col_inactive_at :: "int option"
  col_last_seen_snapshot_id :: "string option"
  col_media_kind :: string
  col_schedulable :: int
  col_blocked_reason :: "string option"
  col_lifecycle_state :: string
  col_execution_state :: string
  col_next_attempt_at :: "int option"
  col_retry_count :: int
  col_max_retries :: int
  col_retry_blocked :: int
  col_force_eligible_once :: int
  col_claimed_operation :: "string option"
  col_attempt_id :: "string option"
  col_lease_until :: "int option"
  col_title :: string
  col_release_year :: "int option"
  col_poster_url :: string
  col_category_text :: "string option"
  col_douban_sort_time :: "int option"
  col_attention_tags_json :: "attention_tag list json_text"
  col_updated_at :: int
  col_record_json :: "subscription_payload json_text"

text \<open>\<open>length(trim(x)) > 0\<close>: SQLite trims spaces and counts characters before a NUL.\<close>

definition sql_not_blank :: "string \<Rightarrow> bool" where
  "sql_not_blank s =
     (case dropWhile (\<lambda>c. c = CHR '' '') s of [] \<Rightarrow> False | c # _ \<Rightarrow> c \<noteq> CHR 0x00)"

text \<open>A CHECK passes unless its value is 0: \<open>IS NULL OR\<close> is the \<open>None\<close> case.\<close>

definition opt_all :: "('a \<Rightarrow> bool) \<Rightarrow> 'a option \<Rightarrow> bool" where
  "opt_all p v = (case v of None \<Rightarrow> True | Some x \<Rightarrow> p x)"

lemma opt_all_simps [simp]: "opt_all p None" "opt_all p (Some x) \<longleftrightarrow> p x"
  by (simp_all add: opt_all_def)

fun operation_label_of_lifecycle :: "string \<Rightarrow> string option" where
  "operation_label_of_lifecycle l =
     (if l = ''queued'' \<or> l = ''meta'' then Some ''movie_meta''
      else if l = ''searching'' then Some ''movie_search''
      else if l = ''downloading'' then Some ''movie_progress''
      else if l = ''linking'' then Some ''movie_link''
      else None)"

definition column_checks :: "wanted_row \<Rightarrow> bool" where
  "column_checks r \<longleftrightarrow>
     sql_not_blank (col_account_key r) \<and> sql_not_blank (col_subject_id r) \<and>
     0 < col_revision r \<and> col_active r \<in> {0, 1} \<and>
     opt_all (\<lambda>v. 0 \<le> v) (col_inactive_at r) \<and>
     opt_all sql_not_blank (col_last_seen_snapshot_id r) \<and>
     col_media_kind r \<in> {''movie'', ''tv''} \<and> col_schedulable r \<in> {0, 1} \<and>
     opt_all sql_not_blank (col_blocked_reason r) \<and>
     col_lifecycle_state r
       \<in> {''queued'', ''meta'', ''searching'', ''downloading'', ''linking'', ''completed''} \<and>
     col_execution_state r \<in> {''idle'', ''running''} \<and>
     opt_all (\<lambda>v. 0 \<le> v) (col_next_attempt_at r) \<and>
     0 \<le> col_retry_count r \<and> 0 \<le> col_max_retries r \<and>
     col_retry_blocked r \<in> {0, 1} \<and> col_force_eligible_once r \<in> {0, 1} \<and>
     opt_all (\<lambda>v. v \<in> {''movie_meta'', ''movie_search'', ''movie_progress'', ''movie_link''})
       (col_claimed_operation r) \<and>
     opt_all (\<lambda>v. sql_not_blank v \<and> length v \<le> 256) (col_attempt_id r) \<and>
     opt_all (\<lambda>v. 0 \<le> v) (col_lease_until r) \<and>
     sql_not_blank (col_title r) \<and>
     opt_all (\<lambda>v. 1 \<le> v \<and> v \<le> 9999) (col_release_year r) \<and>
     opt_all (\<lambda>v. 0 \<le> v) (col_douban_sort_time r) \<and> 0 \<le> col_updated_at r"

definition table_checks :: "wanted_row \<Rightarrow> bool" where
  "table_checks r \<longleftrightarrow>
     ((col_active r = 1 \<and> col_inactive_at r = None)
        \<or> (col_active r = 0 \<and> col_inactive_at r \<noteq> None)) \<and>
     opt_all (\<lambda>v. v \<le> col_updated_at r) (col_inactive_at r) \<and>
     ((col_schedulable r = 1 \<and> col_blocked_reason r = None)
        \<or> (col_schedulable r = 0 \<and> col_blocked_reason r \<noteq> None)) \<and>
     ((col_execution_state r = ''idle'' \<and> col_claimed_operation r = None
         \<and> col_attempt_id r = None \<and> col_lease_until r = None)
        \<or> (col_execution_state r = ''running'' \<and> col_claimed_operation r \<noteq> None
         \<and> col_attempt_id r \<noteq> None \<and> col_lease_until r \<noteq> None)) \<and>
     (col_execution_state r = ''running'' \<longrightarrow>
        col_active r = 1 \<and> col_schedulable r = 1 \<and> col_lifecycle_state r \<noteq> ''completed'') \<and>
     (col_execution_state r = ''running'' \<longrightarrow>
        (case (col_claimed_operation r, operation_label_of_lifecycle (col_lifecycle_state r)) of
           (Some op, Some expected) \<Rightarrow> op = expected | _ \<Rightarrow> True)) \<and>
     (col_active r = 1 \<or> (col_execution_state r = ''idle'' \<and> col_next_attempt_at r = None)) \<and>
     (col_active r = 1 \<or> col_schedulable r = 0) \<and>
     (col_schedulable r = 1 \<or> col_next_attempt_at r = None) \<and>
     (col_lifecycle_state r \<noteq> ''completed'' \<or> col_next_attempt_at r = None) \<and>
     col_retry_blocked r
       = (if 0 < col_max_retries r \<and> col_max_retries r \<le> col_retry_count r then 1 else 0) \<and>
     (col_force_eligible_once r = 0
        \<or> (col_active r = 1 \<and> col_schedulable r = 1 \<and> col_lifecycle_state r \<noteq> ''completed''
           \<and> col_next_attempt_at r \<noteq> None))"

text \<open>
  An INTEGER of a STRICT table is a signed 64-bit value: a statement whose arithmetic leaves
  the range stores a REAL, which the table refuses like a failed CHECK.
\<close>

definition integer_columns :: "wanted_row \<Rightarrow> bool" where
  "integer_columns r \<longleftrightarrow>
     col_revision r \<le> i64_max \<and> col_retry_count r \<le> i64_max \<and> col_max_retries r \<le> i64_max \<and>
     col_updated_at r \<le> i64_max \<and> opt_all (\<lambda>v. v \<le> i64_max) (col_inactive_at r) \<and>
     opt_all (\<lambda>v. v \<le> i64_max) (col_next_attempt_at r) \<and>
     opt_all (\<lambda>v. v \<le> i64_max) (col_lease_until r) \<and>
     opt_all (\<lambda>v. v \<le> i64_max) (col_douban_sort_time r)"

definition row_ok :: "wanted_row \<Rightarrow> bool" where
  "row_ok r \<longleftrightarrow> integer_columns r \<and> column_checks r \<and> table_checks r"

subsection \<open>Account rows\<close>

record meta_row =
  meta_account_key :: string
  meta_state_version :: int
  meta_bootstrap_completed :: int
  meta_created_at :: int
  meta_updated_at :: int
  meta_last_poll_attempt_at :: "int option"
  meta_last_poll_success_at :: "int option"
  meta_poll_failure_count :: int
  meta_next_poll_at :: int
  meta_last_poll_error :: "string option"
  meta_poll_generation :: int
  meta_open_poll_generation :: "int option"
  meta_open_snapshot_id :: "string option"
  meta_last_incomplete_at :: "int option"
  meta_last_incomplete_reason :: "string option"
  meta_last_incomplete_fetched_pages :: "int option"
  meta_last_incomplete_truncated :: "int option"
  meta_last_incomplete_end_observed :: "int option"
  meta_last_complete_snapshot_id :: "string option"

definition meta_integers :: "meta_row \<Rightarrow> bool" where
  "meta_integers m \<longleftrightarrow>
     meta_state_version m \<le> i64_max \<and> meta_created_at m \<le> i64_max \<and>
     meta_updated_at m \<le> i64_max \<and> opt_all (\<lambda>v. v \<le> i64_max) (meta_last_poll_attempt_at m) \<and>
     opt_all (\<lambda>v. v \<le> i64_max) (meta_last_poll_success_at m) \<and>
     meta_poll_failure_count m \<le> i64_max \<and> meta_next_poll_at m \<le> i64_max \<and>
     meta_poll_generation m \<le> i64_max \<and>
     opt_all (\<lambda>v. v \<le> i64_max) (meta_last_incomplete_at m) \<and>
     opt_all (\<lambda>v. v \<le> i64_max) (meta_last_incomplete_fetched_pages m)"

definition meta_ok :: "meta_row \<Rightarrow> bool" where
  "meta_ok m \<longleftrightarrow>
     meta_integers m \<and> sql_not_blank (meta_account_key m) \<and> 0 < meta_state_version m \<and>
     meta_bootstrap_completed m \<in> {0, 1} \<and> 0 \<le> meta_created_at m \<and> 0 \<le> meta_updated_at m \<and>
     opt_all (\<lambda>v. 0 \<le> v) (meta_last_poll_attempt_at m) \<and>
     opt_all (\<lambda>v. 0 \<le> v) (meta_last_poll_success_at m) \<and>
     0 \<le> meta_poll_failure_count m \<and> 0 \<le> meta_next_poll_at m \<and>
     0 \<le> meta_poll_generation m \<and> opt_all (\<lambda>v. 0 < v) (meta_open_poll_generation m) \<and>
     opt_all sql_not_blank (meta_open_snapshot_id m) \<and>
     opt_all (\<lambda>v. 0 \<le> v) (meta_last_incomplete_at m) \<and>
     opt_all sql_not_blank (meta_last_incomplete_reason m) \<and>
     opt_all (\<lambda>v. 0 \<le> v) (meta_last_incomplete_fetched_pages m) \<and>
     opt_all (\<lambda>v. v \<in> {0, 1}) (meta_last_incomplete_truncated m) \<and>
     opt_all (\<lambda>v. v \<in> {0, 1}) (meta_last_incomplete_end_observed m) \<and>
     opt_all sql_not_blank (meta_last_complete_snapshot_id m) \<and>
     meta_created_at m \<le> meta_updated_at m \<and>
     opt_all (\<lambda>v. meta_created_at m \<le> v \<and> v \<le> meta_updated_at m) (meta_last_poll_attempt_at m) \<and>
     opt_all (\<lambda>v. meta_created_at m \<le> v \<and> v \<le> meta_updated_at m) (meta_last_poll_success_at m) \<and>
     (case (meta_last_poll_attempt_at m, meta_last_poll_success_at m, meta_open_poll_generation m) of
        (Some attempt, Some success, None) \<Rightarrow>
          (meta_poll_failure_count m = 0 \<and> attempt \<le> success)
          \<or> (0 < meta_poll_failure_count m \<and> success \<le> attempt)
      | _ \<Rightarrow> True) \<and>
     (meta_open_poll_generation m = None) = (meta_open_snapshot_id m = None) \<and>
     opt_all (\<lambda>v. v = meta_poll_generation m) (meta_open_poll_generation m) \<and>
     ((meta_poll_failure_count m = 0 \<and> meta_last_poll_error m = None)
       \<or> (0 < meta_poll_failure_count m \<and>
          (case meta_last_poll_error m of None \<Rightarrow> False | Some e \<Rightarrow> sql_not_blank e))) \<and>
     ((meta_last_incomplete_at m = None \<and> meta_last_incomplete_reason m = None \<and>
       meta_last_incomplete_fetched_pages m = None \<and> meta_last_incomplete_truncated m = None \<and>
       meta_last_incomplete_end_observed m = None)
      \<or> (meta_last_incomplete_at m \<noteq> None \<and> meta_last_incomplete_reason m \<noteq> None \<and>
       meta_last_incomplete_fetched_pages m \<noteq> None \<and> meta_last_incomplete_truncated m \<noteq> None \<and>
       meta_last_incomplete_end_observed m \<noteq> None))"

text \<open>One row of \<open>operation_logs\<close>; \<open>error\<close> is NULL in every audit entry.\<close>

record log_row =
  log_id :: int
  log_account_key :: string
  log_created_at :: int
  log_category :: string
  log_action :: string
  log_target_type :: string
  log_target_id :: "string option"
  log_target_title :: "string option"
  log_status :: string
  log_summary :: string
  log_error :: "string option"
  log_related :: json

subsection \<open>Column codecs\<close>

definition checked_bool :: "string \<Rightarrow> int \<Rightarrow> bool repository_result" where
  "checked_bool field v =
     (if v = 0 then Inr False else if v = 1 then Inr True
      else Inl (corrupt (field @ '' must be stored as integer 0 or 1'')))"

definition checked_u64 :: "string \<Rightarrow> int \<Rightarrow> u64 repository_result" where
  "checked_u64 field v = ok_or (corrupt (field @ '' must not be negative'')) (u64_try_from v)"

definition checked_u32 :: "string \<Rightarrow> int \<Rightarrow> u32 repository_result" where
  "checked_u32 field v =
     and_then (checked_u64 field v) (\<lambda>w.
     if u32_max < uint w then Inl (corrupt (field @ '' exceeds u32 range''))
     else Inr (word_of_int (uint w)))"

definition checked_optional_u64 :: "string \<Rightarrow> int option \<Rightarrow> u64 option repository_result" where
  "checked_optional_u64 field v = traverse_opt (checked_u64 field) v"

definition command_integer :: "string \<Rightarrow> u64 \<Rightarrow> int repository_result" where
  "command_integer field v =
     ok_or (InvalidInput field ''value exceeds SQLite INTEGER range'') (i64_try_from v)"

definition checked_text :: "string \<Rightarrow> string \<Rightarrow> string repository_result" where
  "checked_text field v =
     (if contains_nul v then Inl (corrupt (field @ '' must not contain a NUL byte'')) else Inr v)"

definition checked_required_text :: "string \<Rightarrow> string \<Rightarrow> string repository_result" where
  "checked_required_text field v =
     (if is_blank v then Inl (corrupt (field @ '' must not be blank'')) else checked_text field v)"

definition parse_media_kind :: "string \<Rightarrow> media_kind repository_result" where
  "parse_media_kind v =
     (if v = ''movie'' then Inr Movie
      else if v = ''tv'' then Inr Tv
      else Inl (corrupt (''unsupported media_kind '' @ rust_debug v)))"

definition parse_lifecycle_state :: "string \<Rightarrow> lifecycle_state repository_result" where
  "parse_lifecycle_state v =
     (if v = ''queued'' then Inr Queued
      else if v = ''meta'' then Inr Meta
      else if v = ''searching'' then Inr Searching
      else if v = ''downloading'' then Inr Downloading
      else if v = ''linking'' then Inr Linking
      else if v = ''completed'' then Inr Completed
      else Inl (corrupt (''unsupported lifecycle_state '' @ rust_debug v)))"

definition parse_execution_state :: "string \<Rightarrow> execution_state repository_result" where
  "parse_execution_state v =
     (if v = ''idle'' then Inr Idle
      else if v = ''running'' then Inr Running
      else Inl (corrupt (''unsupported execution_state '' @ rust_debug v)))"

definition parse_attention_tags :: "attention_tag list json_text \<Rightarrow> attention_tag list repository_result"
where
  "parse_attention_tags t =
     and_then (decode_json ''decode attention_tags_json'' t) (\<lambda>tags.
     if length (btree_list tags) \<noteq> length tags
     then Inl (corrupt ''attention_tags_json contains duplicate tags'')
     else Inr tags)"

fun attention_tag_label :: "attention_tag \<Rightarrow> string" where
  "attention_tag_label WaitingRelease = ''waiting_release''"
| "attention_tag_label NeedsConfirmation = ''needs_confirmation''"
| "attention_tag_label Failed = ''failed''"
| "attention_tag_label RetryBlocked = ''retry_blocked''"
| "attention_tag_label Skipped = ''skipped''"
| "attention_tag_label NeedsReconciliation = ''needs_reconciliation''"

subsection \<open>Decoding a row\<close>

definition try_into_head :: "wanted_row \<Rightarrow> subscription_head repository_result" where
  "try_into_head r =
     and_then (map_err (persisted_validation ''decode subscription key'')
                 (subscription_key_try_new (col_account_key r) (col_subject_id r))) (\<lambda>key.
     and_then (and_then (checked_u64 ''revision'' (col_revision r)) (\<lambda>v.
                 map_err (persisted_validation ''decode revision'') (revision_try_new v))) (\<lambda>revision.
     and_then (checked_optional_u64 ''inactive_at'' (col_inactive_at r)) (\<lambda>inactive_at.
     and_then (map_err (persisted_validation ''decode last_seen_snapshot_id'')
                 (traverse_opt snapshot_id_try_new (col_last_seen_snapshot_id r))) (\<lambda>last_seen.
     and_then (map_err (persisted_validation ''decode blocked_reason'')
                 (traverse_opt blocked_reason_try_new (col_blocked_reason r))) (\<lambda>blocked.
     and_then (checked_bool ''active'' (col_active r)) (\<lambda>active.
     and_then (parse_media_kind (col_media_kind r)) (\<lambda>kind.
     and_then (checked_bool ''schedulable'' (col_schedulable r)) (\<lambda>schedulable.
     and_then (parse_lifecycle_state (col_lifecycle_state r)) (\<lambda>lifecycle.
     and_then (parse_execution_state (col_execution_state r)) (\<lambda>execution.
     and_then (checked_optional_u64 ''next_attempt_at'' (col_next_attempt_at r)) (\<lambda>next_attempt.
     and_then (checked_u32 ''retry_count'' (col_retry_count r)) (\<lambda>retry_count.
     and_then (checked_u32 ''max_retries'' (col_max_retries r)) (\<lambda>max_retries.
     and_then (checked_bool ''retry_blocked'' (col_retry_blocked r)) (\<lambda>retry_blocked.
     and_then (checked_bool ''force_eligible_once'' (col_force_eligible_once r)) (\<lambda>force.
     and_then (checked_u64 ''updated_at'' (col_updated_at r)) (\<lambda>updated_at.
     let head = \<lparr>head_key = key, head_revision = revision, head_active = active,
                 head_inactive_at = inactive_at, head_last_seen_snapshot_id = last_seen,
                 head_media_kind = kind, head_schedulable = schedulable,
                 head_blocked_reason = blocked, head_lifecycle_state = lifecycle,
                 head_execution_state = execution, head_next_attempt_at = next_attempt,
                 head_retry_count = retry_count, head_max_retries = max_retries,
                 head_retry_blocked = retry_blocked, head_force_eligible_once = force,
                 head_updated_at = updated_at\<rparr> in
     and_then (map_err (persisted_validation ''validate subscription head'') (head_validate head)) (\<lambda>_.
     Inr head)))))))))))))))))"

definition checked_release_year :: "int \<Rightarrow> u16 repository_result" where
  "checked_release_year v =
     and_then (checked_u64 ''release_year'' v) (\<lambda>w.
     if \<not> (1 \<le> w \<and> w \<le> 9999) then Inl (corrupt ''release_year must be between 1 and 9999'')
     else if 65535 < uint w then Inl (corrupt ''release_year cannot be represented as u16'')
     else Inr (word_of_int (uint w)))"

definition try_into_summary :: "wanted_row \<Rightarrow> subscription_summary repository_result" where
  "try_into_summary r =
     and_then (checked_required_text ''title'' (col_title r)) (\<lambda>title.
     and_then (checked_text ''poster_url'' (col_poster_url r)) (\<lambda>poster_url.
     and_then (traverse_opt (checked_text ''category_text'') (col_category_text r)) (\<lambda>category.
     and_then (traverse_opt checked_release_year (col_release_year r)) (\<lambda>release_year.
     and_then (try_into_head r) (\<lambda>head.
     and_then (checked_optional_u64 ''douban_sort_time'' (col_douban_sort_time r)) (\<lambda>sort_time.
     and_then (parse_attention_tags (col_attention_tags_json r)) (\<lambda>tags.
     let summary = \<lparr>sum_head = head,
                    sum_projection = \<lparr>prj_title = title, prj_release_year = release_year,
                      prj_poster_url = poster_url, prj_category_text = category,
                      prj_douban_sort_time = sort_time\<rparr>,
                    sum_attention_tags = tags\<rparr> in
     and_then (map_err (persisted_validation ''validate subscription summary'')
                 (summary_validate summary)) (\<lambda>_.
     Inr summary))))))))"

definition try_into_detail ::
  "(string \<Rightarrow> string) \<Rightarrow> wanted_row \<Rightarrow> subscription_detail repository_result" where
  "try_into_detail sha r =
     and_then (try_into_summary r) (\<lambda>summary.
     and_then (decode_json ''decode record_json payload'' (col_record_json r)) (\<lambda>payload.
     map_err (persisted_validation ''validate subscription detail'')
       (detail_try_new sha summary payload)))"

end
