(* ===== verification/Row_Codec.thy ===== *)
theory Row_Codec
  imports Schema_Rows
begin

text \<open>
  What a decoded row says about its columns. \<open>head_columns r h\<close> and
  \<open>detail_columns r d\<close> state that the columns of \<open>r\<close> are the encodings of the typed
  value; decoding succeeds exactly when that holds and the value satisfies its invariant.
  The store's proofs use these equivalences instead of the codecs.
\<close>

fun execution_as_str :: "execution_state \<Rightarrow> string" where
  "execution_as_str Idle = ''idle''"
| "execution_as_str Running = ''running''"

lemma execution_as_str_inj [simp]: "execution_as_str a = execution_as_str b \<longleftrightarrow> a = b"
  by (cases a; cases b) simp_all

subsection \<open>Columns\<close>

lemma checked_bool_Inr [simp]: "checked_bool f v = Inr b \<longleftrightarrow> v = of_bool b"
  by (auto simp: checked_bool_def)

lemma checked_u64_Inr:
  "v \<le> i64_max \<Longrightarrow> checked_u64 f v = Inr w \<longleftrightarrow> v = uint w"
  by (auto simp: checked_u64_def u64_try_from_def i64_max_def uint_word_of_int)

lemma checked_u32_Inr:
  assumes "v \<le> i64_max"
  shows "checked_u32 f v = Inr w \<longleftrightarrow> v = uint w"
proof -
  have small: "uint (word_of_int (uint x) :: u32) = uint x" if "\<not> u32_max < uint (x :: u64)" for x
    using that by (simp add: unsigned_ucast_eq take_bit_int_eq_self u32_max_def)
  have bound: "uint w < 2 ^ 32" using uint_lt2p [of w] by simp
  have widened: "uint (ucast w :: u64) = uint w"
    by (rule uint_up_ucast) (simp add: is_up)
  have narrowed: "(ucast (ucast w :: u64) :: u32) = w"
    by (rule ucast_up_ucast_id) (simp add: is_up)
  show ?thesis
  proof
    assume "checked_u32 f v = Inr w"
    then show "v = uint w"
      using assms small by (auto simp: checked_u32_def checked_u64_Inr split: if_splits)
  next
    assume v: "v = uint w"
    with assms widened have "checked_u64 f v = Inr (ucast w)"
      by (simp add: checked_u64_Inr)
    then show "checked_u32 f v = Inr w"
      using bound by (simp add: checked_u32_def widened narrowed u32_max_def)
  qed
qed

lemma checked_optional_u64_Inr:
  "opt_all (\<lambda>v. v \<le> i64_max) v \<Longrightarrow>
     checked_optional_u64 f v = Inr w \<longleftrightarrow> v = map_option uint w"
  by (cases v; cases w)
    (auto simp: checked_optional_u64_def checked_u64_Inr and_then_Inr_iff)

lemma checked_text_Inr [simp]: "checked_text f v = Inr w \<longleftrightarrow> \<not> contains_nul v \<and> w = v"
  by (auto simp: checked_text_def)

lemma checked_required_text_Inr [simp]:
  "checked_required_text f v = Inr w \<longleftrightarrow> valid_text v \<and> w = v"
  by (auto simp: checked_required_text_def valid_text_def)

lemma parse_media_kind_Inr [simp]: "parse_media_kind v = Inr k \<longleftrightarrow> v = media_kind_as_str k"
  by (cases k) (auto simp: parse_media_kind_def)

lemma parse_lifecycle_state_Inr [simp]:
  "parse_lifecycle_state v = Inr l \<longleftrightarrow> v = lifecycle_as_str l"
  by (cases l) (auto simp: parse_lifecycle_state_def)

lemma parse_execution_state_Inr [simp]:
  "parse_execution_state v = Inr e \<longleftrightarrow> v = execution_as_str e"
  by (cases e) (auto simp: parse_execution_state_def)

lemma parse_attention_tags_Inr [simp]:
  "parse_attention_tags t = Inr tags \<longleftrightarrow> t = Json tags \<and> distinct tags"
  by (cases t) (auto simp: parse_attention_tags_def decode_json_def length_btree_list)

lemma decode_json_Inr [simp]: "decode_json c t = Inr v \<longleftrightarrow> t = Json v"
  by (cases t) (auto simp: decode_json_def)

lemma traverse_snapshot_Inr:
  "traverse_opt snapshot_id_try_new v = Inr x \<longleftrightarrow>
     v = map_option snapshot_id_str x \<and> opt_valid v"
  by (cases v; cases x) (auto simp: and_then_Inr_iff opt_valid_def)

lemma traverse_blocked_Inr:
  "traverse_opt blocked_reason_try_new v = Inr x \<longleftrightarrow>
     v = map_option blocked_reason_str x \<and> opt_valid v"
  by (cases v; cases x) (auto simp: and_then_Inr_iff opt_valid_def)

lemma traverse_text_Inr:
  "traverse_opt (checked_text f) v = Inr x \<longleftrightarrow> x = v \<and> opt_all (\<lambda>t. \<not> contains_nul t) v"
  by (cases v; cases x) (auto simp: and_then_Inr_iff)

lemma checked_release_year_Inr:
  assumes "v \<le> 9999"
  shows "checked_release_year v = Inr y \<longleftrightarrow> v = uint y \<and> 1 \<le> v"
proof -
  have v: "v \<le> i64_max" using assms by (simp add: i64_max_def)
  have y16: "uint (word_of_int (uint y) :: u64) = uint y"
    using uint_lt2p [of y] by (simp add: unsigned_ucast_eq take_bit_int_eq_self)
  have w: "uint (word_of_int (uint x) :: u16) = uint x" if "x \<le> 9999" for x :: u64
    using that by (simp add: unsigned_ucast_eq take_bit_int_eq_self word_le_def)
  show ?thesis
  proof
    assume "checked_release_year v = Inr y"
    then show "v = uint y \<and> 1 \<le> v"
      using v w by (auto simp: checked_release_year_def checked_u64_Inr word_le_def split: if_splits)
  next
    assume "v = uint y \<and> 1 \<le> v"
    moreover from this v y16 have "checked_u64 ''release_year'' v = Inr (word_of_int (uint y))"
      by (simp add: checked_u64_Inr)
    ultimately show "checked_release_year v = Inr y"
      using assms y16 by (auto simp: checked_release_year_def word_le_def)
  qed
qed

lemma traverse_year_Inr:
  "opt_all (\<lambda>v. v \<le> 9999) v \<Longrightarrow>
     traverse_opt checked_release_year v = Inr y \<longleftrightarrow>
       v = map_option uint y \<and> opt_all (\<lambda>v. 1 \<le> v) v"
  by (cases v; cases y) (auto simp: and_then_Inr_iff checked_release_year_Inr)

subsection \<open>Rows\<close>

definition head_columns :: "wanted_row \<Rightarrow> subscription_head \<Rightarrow> bool" where
  "head_columns r h \<longleftrightarrow>
     col_account_key r = account_key (head_key h) \<and> col_subject_id r = subject_id (head_key h) \<and>
     col_revision r = uint (revision_value (head_revision h)) \<and>
     col_active r = of_bool (head_active h) \<and>
     col_inactive_at r = map_option uint (head_inactive_at h) \<and>
     col_last_seen_snapshot_id r = map_option snapshot_id_str (head_last_seen_snapshot_id h) \<and>
     col_media_kind r = media_kind_as_str (head_media_kind h) \<and>
     col_schedulable r = of_bool (head_schedulable h) \<and>
     col_blocked_reason r = map_option blocked_reason_str (head_blocked_reason h) \<and>
     col_lifecycle_state r = lifecycle_as_str (head_lifecycle_state h) \<and>
     col_execution_state r = execution_as_str (head_execution_state h) \<and>
     col_next_attempt_at r = map_option uint (head_next_attempt_at h) \<and>
     col_retry_count r = uint (head_retry_count h) \<and>
     col_max_retries r = uint (head_max_retries h) \<and>
     col_retry_blocked r = of_bool (head_retry_blocked h) \<and>
     col_force_eligible_once r = of_bool (head_force_eligible_once h) \<and>
     col_updated_at r = uint (head_updated_at h)"

text \<open>The validated newtypes inside a head.\<close>

definition head_texts :: "subscription_head \<Rightarrow> bool" where
  "head_texts h \<longleftrightarrow>
     valid_text (account_key (head_key h)) \<and> valid_text (subject_id (head_key h)) \<and>
     revision_value (head_revision h) \<noteq> 0 \<and>
     opt_valid (map_option snapshot_id_str (head_last_seen_snapshot_id h)) \<and>
     opt_valid (map_option blocked_reason_str (head_blocked_reason h))"

lemma revision_column: "revision_try_new v = Inr x \<longleftrightarrow> v \<noteq> 0 \<and> v = revision_value x"
  by (cases x) auto

lemma key_column:
  "subscription_key_try_new a s = Inr k \<longleftrightarrow>
     valid_text a \<and> valid_text s \<and> a = account_key k \<and> s = subject_id k"
  by (cases k) auto

lemma try_into_head_Inr:
  assumes "integer_columns r"
  shows "try_into_head r = Inr h \<longleftrightarrow> head_columns r h \<and> head_texts h \<and> head_wf h"
proof -
  have "col_revision r \<le> i64_max" "col_updated_at r \<le> i64_max" "col_retry_count r \<le> i64_max"
    "col_max_retries r \<le> i64_max" "opt_all (\<lambda>v. v \<le> i64_max) (col_inactive_at r)"
    "opt_all (\<lambda>v. v \<le> i64_max) (col_next_attempt_at r)"
    using assms by (simp_all add: integer_columns_def)
  note dec = checked_u64_Inr [OF this(1)] checked_u64_Inr [OF this(2)] checked_u32_Inr [OF this(3)]
    checked_u32_Inr [OF this(4)] checked_optional_u64_Inr [OF this(5)]
    checked_optional_u64_Inr [OF this(6)] revision_column key_column traverse_snapshot_Inr
    traverse_blocked_Inr
  show ?thesis
  proof
    assume "try_into_head r = Inr h"
    then show "head_columns r h \<and> head_texts h \<and> head_wf h"
      unfolding try_into_head_def Let_def map_err_Inr_iff
      apply (elim and_then_InrE)
      apply (simp only: dec map_err_Inr_iff checked_bool_Inr parse_media_kind_Inr
          parse_lifecycle_state_Inr parse_execution_state_Inr head_validate_Inr sum.inject)
      apply (elim conjE, hypsubst)
      apply (simp add: head_columns_def head_texts_def)
      done
  next
    assume h: "head_columns r h \<and> head_texts h \<and> head_wf h"
    note cols = h [unfolded head_columns_def head_texts_def]
    have "subscription_key_try_new (col_account_key r) (col_subject_id r) = Inr (head_key h)"
      "checked_u64 ''revision'' (col_revision r) = Inr (revision_value (head_revision h))"
      "revision_try_new (revision_value (head_revision h)) = Inr (head_revision h)"
      "checked_optional_u64 ''inactive_at'' (col_inactive_at r) = Inr (head_inactive_at h)"
      "traverse_opt snapshot_id_try_new (col_last_seen_snapshot_id r)
         = Inr (head_last_seen_snapshot_id h)"
      "traverse_opt blocked_reason_try_new (col_blocked_reason r) = Inr (head_blocked_reason h)"
      "checked_bool ''active'' (col_active r) = Inr (head_active h)"
      "parse_media_kind (col_media_kind r) = Inr (head_media_kind h)"
      "checked_bool ''schedulable'' (col_schedulable r) = Inr (head_schedulable h)"
      "parse_lifecycle_state (col_lifecycle_state r) = Inr (head_lifecycle_state h)"
      "parse_execution_state (col_execution_state r) = Inr (head_execution_state h)"
      "checked_optional_u64 ''next_attempt_at'' (col_next_attempt_at r)
         = Inr (head_next_attempt_at h)"
      "checked_u32 ''retry_count'' (col_retry_count r) = Inr (head_retry_count h)"
      "checked_u32 ''max_retries'' (col_max_retries r) = Inr (head_max_retries h)"
      "checked_bool ''retry_blocked'' (col_retry_blocked r) = Inr (head_retry_blocked h)"
      "checked_bool ''force_eligible_once'' (col_force_eligible_once r)
         = Inr (head_force_eligible_once h)"
      "checked_u64 ''updated_at'' (col_updated_at r) = Inr (head_updated_at h)"
      "head_validate h = Inr ()"
      unfolding dec checked_bool_Inr parse_media_kind_Inr parse_lifecycle_state_Inr
        parse_execution_state_Inr head_validate_Inr
      using cols by simp_all
    note decoded = this
    have "\<lparr>head_key = head_key h, head_revision = head_revision h, head_active = head_active h,
        head_inactive_at = head_inactive_at h,
        head_last_seen_snapshot_id = head_last_seen_snapshot_id h,
        head_media_kind = head_media_kind h, head_schedulable = head_schedulable h,
        head_blocked_reason = head_blocked_reason h,
        head_lifecycle_state = head_lifecycle_state h,
        head_execution_state = head_execution_state h,
        head_next_attempt_at = head_next_attempt_at h, head_retry_count = head_retry_count h,
        head_max_retries = head_max_retries h, head_retry_blocked = head_retry_blocked h,
        head_force_eligible_once = head_force_eligible_once h,
        head_updated_at = head_updated_at h\<rparr> = h"
      by (cases h) simp
    then show "try_into_head r = Inr h"
      unfolding try_into_head_def Let_def
      by (simp only: decoded and_then_simps map_err_simps)
  qed
qed

definition summary_columns :: "wanted_row \<Rightarrow> subscription_summary \<Rightarrow> bool" where
  "summary_columns r s \<longleftrightarrow>
     head_columns r (sum_head s) \<and>
     col_title r = prj_title (sum_projection s) \<and>
     col_release_year r = map_option uint (prj_release_year (sum_projection s)) \<and>
     col_poster_url r = prj_poster_url (sum_projection s) \<and>
     col_category_text r = prj_category_text (sum_projection s) \<and>
     col_douban_sort_time r = map_option uint (prj_douban_sort_time (sum_projection s)) \<and>
     col_attention_tags_json r = Json (sum_attention_tags s)"

definition detail_columns :: "wanted_row \<Rightarrow> subscription_detail \<Rightarrow> bool" where
  "detail_columns r d \<longleftrightarrow>
     summary_columns r (det_summary d) \<and> col_record_json r = Json (det_payload d)"

definition projection_texts :: "subscription_projection \<Rightarrow> bool" where
  "projection_texts p \<longleftrightarrow>
     valid_text (prj_title p) \<and> \<not> contains_nul (prj_poster_url p) \<and>
     opt_all (\<lambda>t. \<not> contains_nul t) (prj_category_text p)"

lemma try_into_summary_Inr:
  assumes "row_ok r"
  shows "try_into_summary r = Inr s \<longleftrightarrow>
    summary_columns r s \<and> head_texts (sum_head s) \<and> head_wf (sum_head s) \<and>
    projection_texts (sum_projection s) \<and> distinct (sum_attention_tags s)"
proof -
  have ints: "integer_columns r" and cols: "column_checks r"
    using assms by (simp_all add: row_ok_def)
  have year: "opt_all (\<lambda>v. v \<le> 9999) (col_release_year r)" "opt_all (\<lambda>v. 1 \<le> v) (col_release_year r)"
    using cols by (cases "col_release_year r"; simp add: column_checks_def)+
  have sort: "opt_all (\<lambda>v. v \<le> i64_max) (col_douban_sort_time r)"
    using ints by (simp add: integer_columns_def)
  show ?thesis
    unfolding try_into_summary_def and_then_Inr_iff map_err_Inr_iff Let_def
    by (cases s; cases "sum_projection s")
      (auto simp: try_into_head_Inr [OF ints] checked_optional_u64_Inr [OF sort]
        traverse_year_Inr [OF year(1)] year(2) traverse_text_Inr summary_columns_def
        projection_texts_def)
qed

text \<open>Everything a detail satisfies once it has been read from a row.\<close>

definition detail_read :: "(string \<Rightarrow> string) \<Rightarrow> subscription_detail \<Rightarrow> bool" where
  "detail_read sha d \<longleftrightarrow>
     detail_wf sha d \<and> head_texts (det_head d) \<and> projection_texts (sum_projection (det_summary d))"

lemma try_into_detail_Inr:
  assumes "row_ok r"
  shows "try_into_detail sha r = Inr d \<longleftrightarrow> detail_columns r d \<and> detail_read sha d"
  unfolding try_into_detail_def and_then_Inr_iff map_err_Inr_iff decode_json_Inr
    try_into_summary_Inr [OF assms] detail_try_new_Inr
  by (cases d) (auto simp: detail_columns_def detail_read_def detail_wf_def)

lemma detail_columns_head:
  "detail_columns r d \<Longrightarrow> head_columns r (det_head d)"
  by (simp add: detail_columns_def summary_columns_def)

text \<open>The columns determine the head.\<close>

lemma map_option_uint_eq [simp]: "map_option uint x = map_option uint y \<longleftrightarrow> x = y"
  for x y :: "'w::len word option"
  by (cases x; cases y) (simp_all add: word_uint_eq_iff)

lemma map_option_snapshot_eq [simp]:
  "map_option snapshot_id_str x = map_option snapshot_id_str y \<longleftrightarrow> x = y"
  by (cases x; cases y) (auto intro: snapshot_id.expand)

lemma map_option_blocked_eq [simp]:
  "map_option blocked_reason_str x = map_option blocked_reason_str y \<longleftrightarrow> x = y"
  by (cases x; cases y) (auto intro: blocked_reason.expand)

lemma head_columns_inj: "head_columns r h \<Longrightarrow> head_columns r h' \<Longrightarrow> h = h'"
  unfolding head_columns_def
  by (cases h; cases h') (auto intro: revision.expand subscription_key.equality simp: word_uint_eq_iff)

end
