(* ===== verification/Sql_Store.thy ===== *)
theory Sql_Store
  imports Row_Codec
begin

text \<open>
  The database the repository works on: its tables as lists, the statements it executes
  (keyed UPDATE, ORDER BY with LIMIT 1, INSERT of an audit entry), transactions as state
  passing that keeps the old state on an error, and the reads of a head or a detail
  (\<open>src/storage/subscription_repo.rs\<close>, \<open>execution_audit.rs\<close>, \<open>sqlite.rs\<close>).
  What is not this program's code is a field of \<open>repo_env\<close>: the wall clock, the random
  attempt identifiers, SHA-256, the outcome of each SQLite call, SQLite's message for a
  violated constraint, and the number \<open>serde_json\<close> reads back for a number it wrote.
\<close>

subsection \<open>Database and environment\<close>

record database =
  db_rows :: "wanted_row list"
  db_meta :: "meta_row list"
  db_logs :: "log_row list"
  db_log_sequence :: int

datatype sql_constraint = CheckFailed | AttemptNotUnique | DuplicateKey | MissingParent

text \<open>
  \<open>env_fault n context\<close> is the error of the \<open>n\<close>-th call with that context, as
  \<open>map_read_error\<close> or \<open>map_write_error\<close> classifies it.
\<close>

record repo_env =
  env_sha :: "string \<Rightarrow> string"
  env_f64_reparse :: "f64 \<Rightarrow> f64"
  env_clock :: "u64 repository_result"
  env_attempt_id :: "nat \<Rightarrow> execution_attempt_id repository_result"
  env_fault :: "nat \<Rightarrow> string \<Rightarrow> repository_error option"
  env_constraint_text :: "sql_constraint \<Rightarrow> string"

definition sql_call :: "repo_env \<Rightarrow> nat \<Rightarrow> string \<Rightarrow> unit repository_result" where
  "sql_call env n context =
     (case env_fault env n context of None \<Rightarrow> Inr () | Some e \<Rightarrow> Inl e)"

text \<open>\<open>map_write_error\<close> of a constraint violation is \<open>CorruptData\<close>.\<close>

definition constraint_error :: "repo_env \<Rightarrow> string \<Rightarrow> sql_constraint \<Rightarrow> repository_error" where
  "constraint_error env context c = CorruptData (context @ '': '' @ env_constraint_text env c)"

definition sql_execute ::
  "repo_env \<Rightarrow> nat \<Rightarrow> string \<Rightarrow> sql_constraint + 'a \<Rightarrow> 'a repository_result" where
  "sql_execute env n context result =
     and_then (sql_call env n context) (\<lambda>_. map_err (constraint_error env context) result)"

definition run_transaction ::
  "(database \<Rightarrow> ('a \<times> database) repository_result) \<Rightarrow> database \<Rightarrow> 'a repository_result \<times> database"
where
  "run_transaction body db =
     (case body db of Inl e \<Rightarrow> (Inl e, db) | Inr (x, db') \<Rightarrow> (Inr x, db'))"

subsection \<open>Statements\<close>

definition row_key :: "wanted_row \<Rightarrow> subscription_key" where
  "row_key r = \<lparr>account_key = col_account_key r, subject_id = col_subject_id r\<rparr>"

definition find_row :: "database \<Rightarrow> subscription_key \<Rightarrow> wanted_row option" where
  "find_row db key = find (\<lambda>r. row_key r = key) (db_rows db)"

definition attempt_ids :: "wanted_row list \<Rightarrow> string list" where
  "attempt_ids rows = concat (map (\<lambda>r. case col_attempt_id r of None \<Rightarrow> [] | Some a \<Rightarrow> [a]) rows)"

text \<open>
  \<open>UPDATE ... SET f WHERE key AND p\<close>: every CHECK of a changed row is tested, then the
  unique index on \<open>attempt_id\<close>; the result is the number of changed rows.
\<close>

definition keyed_update ::
  "subscription_key \<Rightarrow> (wanted_row \<Rightarrow> bool) \<Rightarrow> (wanted_row \<Rightarrow> wanted_row) \<Rightarrow> database
    \<Rightarrow> sql_constraint + (nat \<times> database)" where
  "keyed_update key p f db =
     (let hit = (\<lambda>r. row_key r = key \<and> p r);
          rows = map (\<lambda>r. if hit r then f r else r) (db_rows db) in
      if list_ex (\<lambda>r. hit r \<and> \<not> row_ok (f r)) (db_rows db) then Inl CheckFailed
      else if \<not> distinct (attempt_ids rows) then Inl AttemptNotUnique
      else Inr (length (filter hit (db_rows db)), db\<lparr>db_rows := rows\<rparr>))"

text \<open>\<open>SELECT ... WHERE p ORDER BY k LIMIT 1\<close>\<close>

definition select_first :: "(wanted_row \<Rightarrow> 'k::linorder) \<Rightarrow> (wanted_row \<Rightarrow> bool) \<Rightarrow> database
    \<Rightarrow> wanted_row option" where
  "select_first k p db =
     (case sort_key k (filter p (db_rows db)) of [] \<Rightarrow> None | r # _ \<Rightarrow> Some r)"

subsection \<open>Audit entries\<close>

record execution_audit_entry =
  entry_account_key :: string
  entry_created_at :: u64
  entry_action :: string
  entry_target_id :: string
  entry_target_title :: string
  entry_summary :: string
  entry_related :: json

definition append_execution_audit ::
  "repo_env \<Rightarrow> execution_audit_entry \<Rightarrow> database \<Rightarrow> database repository_result" where
  "append_execution_audit env entry db =
     and_then (command_integer ''execution_audit.created_at'' (entry_created_at entry)) (\<lambda>created.
     and_then (sql_call env 0 ''append execution fencing audit'') (\<lambda>_.
     let next_id = db_log_sequence db + 1 in
     Inr (db\<lparr>db_log_sequence := next_id,
             db_logs := db_logs db @
               [\<lparr>log_id = next_id, log_account_key = entry_account_key entry,
                 log_created_at = created, log_category = ''subscription_scheduler'',
                 log_action = entry_action entry, log_target_type = ''subscription'',
                 log_target_id = Some (entry_target_id entry),
                 log_target_title = Some (entry_target_title entry), log_status = ''success'',
                 log_summary = entry_summary entry, log_error = None,
                 log_related = entry_related entry\<rparr>]\<rparr>)))"

subsection \<open>Reads\<close>

definition get_head ::
  "repo_env \<Rightarrow> database \<Rightarrow> subscription_key \<Rightarrow> subscription_head repository_result" where
  "get_head env db key =
     and_then (sql_call env 0 ''read subscription head by primary key'') (\<lambda>_.
     and_then (ok_or (NotFound key) (find_row db key)) try_into_head)"

definition load_detail ::
  "repo_env \<Rightarrow> nat \<Rightarrow> database \<Rightarrow> subscription_key \<Rightarrow> subscription_detail repository_result" where
  "load_detail env n db key =
     and_then (sql_call env n ''read subscription detail by primary key'') (\<lambda>_.
     and_then (ok_or (NotFound key) (find_row db key)) (try_into_detail (env_sha env)))"

text \<open>\<open>serde_json::to_string\<close> of a validated payload, known by what reading it gives.\<close>

definition encode_payload :: "repo_env \<Rightarrow> subscription_payload \<Rightarrow> subscription_payload json_text" where
  "encode_payload env p = Json (map_payload_f64 (env_f64_reparse env) p)"

subsection \<open>The table as an interface\<close>

text \<open>
  What the operations rely on: a keyed update touches the row of its key only, counts it,
  and keeps the table's invariant.
\<close>

locale keyed_table =
  fixes lookup :: "'db \<Rightarrow> 'k \<Rightarrow> 'r option"
    and update :: "'k \<Rightarrow> ('r \<Rightarrow> bool) \<Rightarrow> ('r \<Rightarrow> 'r) \<Rightarrow> 'db \<Rightarrow> 'e + (nat \<times> 'db)"
    and key_of :: "'r \<Rightarrow> 'k"
    and ok :: "'db \<Rightarrow> bool"
    and row_valid :: "'r \<Rightarrow> bool"
  assumes lookup_key: "lookup db k = Some r \<Longrightarrow> key_of r = k"
    and lookup_valid: "ok db \<Longrightarrow> lookup db k = Some r \<Longrightarrow> row_valid r"
    and update_ok: "ok db \<Longrightarrow> (\<And>r. key_of (f r) = key_of r) \<Longrightarrow>
      update k p f db = Inr (n, db') \<Longrightarrow> ok db'"
    and update_hit: "ok db \<Longrightarrow> (\<And>r. key_of (f r) = key_of r) \<Longrightarrow>
      update k p f db = Inr (n, db') \<Longrightarrow> lookup db k = Some r \<Longrightarrow>
      n = of_bool (p r) \<and> lookup db' k = Some (if p r then f r else r)"
    and update_miss: "update k p f db = Inr (n, db') \<Longrightarrow> lookup db k = None \<Longrightarrow> n = 0"
    and update_other: "(\<And>r. key_of (f r) = key_of r) \<Longrightarrow>
      update k p f db = Inr (n, db') \<Longrightarrow> j \<noteq> k \<Longrightarrow> lookup db' j = lookup db j"
begin

text \<open>A count of one pins down the row before and after the statement.\<close>

lemma one_changed:
  assumes "ok db" and "\<And>r. key_of (f r) = key_of r" and "update k p f db = Inr (Suc 0, db')"
  obtains r where "lookup db k = Some r" and "p r" and "lookup db' k = Some (f r)"
    and "row_valid (f r)" and "ok db'"
proof -
  obtain r where r: "lookup db k = Some r"
    using update_miss [OF assms(3)] by (cases "lookup db k") auto
  with update_hit [OF assms r] have p: "p r" and "lookup db' k = Some (f r)"
    by (auto split: if_splits)
  moreover have "ok db'" using assms by (rule update_ok)
  ultimately show ?thesis using that [OF r] lookup_valid by blast
qed

end

definition db_ok :: "database \<Rightarrow> bool" where
  "db_ok db \<longleftrightarrow> (\<forall>r \<in> set (db_rows db). row_ok r) \<and> distinct (map row_key (db_rows db)) \<and>
     distinct (attempt_ids (db_rows db))"

lemma find_row_Some: "find_row db key = Some r \<Longrightarrow> r \<in> set (db_rows db) \<and> row_key r = key"
  by (auto simp: find_row_def find_Some_iff)

lemma find_row_unique:
  "db_ok db \<Longrightarrow> r \<in> set (db_rows db) \<Longrightarrow> find_row db (row_key r) = Some r"
proof -
  assume ok: "db_ok db" and r: "r \<in> set (db_rows db)"
  then obtain r' where r': "find_row db (row_key r) = Some r'"
    by (cases "find_row db (row_key r)") (auto simp: find_row_def find_None_iff)
  from find_row_Some [OF this] r ok have "r' = r"
    by (auto simp: db_ok_def distinct_map inj_on_def)
  with r' show ?thesis by simp
qed

lemma find_row_None: "find_row db key = None \<longleftrightarrow> (\<forall>r \<in> set (db_rows db). row_key r \<noteq> key)"
  by (auto simp: find_row_def find_None_iff)

lemma find_map_same_key:
  "(\<And>r. row_key (g r) = row_key r) \<Longrightarrow>
     find (\<lambda>r. row_key r = key) (map g rows) = map_option g (find (\<lambda>r. row_key r = key) rows)"
  by (induction rows) auto

lemma keyed_update_Inr:
  assumes "keyed_update key p f db = Inr (n, db')"
  shows "db' = db\<lparr>db_rows := map (\<lambda>r. if row_key r = key \<and> p r then f r else r) (db_rows db)\<rparr>"
    and "n = length (filter (\<lambda>r. row_key r = key \<and> p r) (db_rows db))"
    and "\<forall>r \<in> set (db_rows db). row_key r = key \<and> p r \<longrightarrow> row_ok (f r)"
    and "distinct (attempt_ids (db_rows db'))"
  using assms by (auto simp: keyed_update_def Let_def list_ex_iff split: if_splits)

lemma find_row_update:
  assumes "\<And>r. row_key (f r) = row_key r" and "keyed_update key p f db = Inr (n, db')"
  shows "find_row db' j
    = map_option (\<lambda>r. if row_key r = key \<and> p r then f r else r) (find_row db j)"
  using keyed_update_Inr(1) [OF assms(2)] assms(1)
  by (simp add: find_row_def find_map_same_key)

lemma length_filter_key:
  "distinct (map row_key rows) \<Longrightarrow> r \<in> set rows \<Longrightarrow>
     length (filter (\<lambda>x. row_key x = row_key r \<and> p x) rows) = of_bool (p r)"
proof (induction rows)
  case (Cons x xs)
  show ?case
  proof (cases "x = r")
    case True
    have "filter (\<lambda>y. row_key y = row_key r \<and> p y) xs = []"
      using Cons.prems True by (auto simp: filter_empty_conv) (metis imageI)
    with True show ?thesis by simp
  next
    case False
    with Cons show ?thesis by auto
  qed
qed simp

interpretation rows: keyed_table find_row keyed_update row_key db_ok row_ok
proof unfold_locales
  fix db k p f n db' r j
  show "find_row db k = Some r \<Longrightarrow> row_key r = k"
    by (simp add: find_row_Some)
  show "db_ok db \<Longrightarrow> find_row db k = Some r \<Longrightarrow> row_ok r"
    by (drule find_row_Some) (simp add: db_ok_def)
  show "keyed_update k p f db = Inr (n, db') \<Longrightarrow> find_row db k = None \<Longrightarrow> n = 0"
    by (drule keyed_update_Inr(2)) (auto simp: find_row_None filter_empty_conv)
next
  fix db k p f n db'
  assume ok: "db_ok db" and key: "\<And>r. row_key (f r) = row_key r"
    and upd: "keyed_update k p f db = Inr (n, db')"
  have keys: "map row_key (map (\<lambda>r. if row_key r = k \<and> p r then f r else r) rs) = map row_key rs" for rs
    using key by (induction rs) simp_all
  have valid: "\<forall>r \<in> set (db_rows db'). row_ok r"
    using ok keyed_update_Inr(1,3) [OF upd] by (auto simp: db_ok_def)
  show "db_ok db'"
    using ok valid keyed_update_Inr(1,4) [OF upd] keys [of "db_rows db"]
    by (simp add: db_ok_def del: map_map)
next
  fix db k p f n db' r
  assume ok: "db_ok db" and key: "\<And>r. row_key (f r) = row_key r"
    and upd: "keyed_update k p f db = Inr (n, db')" and r: "find_row db k = Some r"
  then show "n = of_bool (p r) \<and> find_row db' k = Some (if p r then f r else r)"
    using find_row_Some [OF r] keyed_update_Inr(2) [OF upd] find_row_update [OF key upd, of k]
      length_filter_key [of "db_rows db" r p]
    by (auto simp: db_ok_def)
next
  fix f k p db n db' j
  assume key: "\<And>r. row_key (f r) = row_key r" and upd: "keyed_update k p f db = Inr (n, db')"
    and j: "j \<noteq> k"
  then show "find_row db' j = find_row db j"
    using find_row_update [OF key upd, of j] find_row_Some [of db j]
    by (cases "find_row db j") auto
qed

end
