(* ===== verification/Execution_Contract.thy ===== *)
theory Execution_Contract
  imports Repository_Domain
begin

text \<open>
  What one execution attempt may write (\<open>src/subscription/repository.rs\<close>): the
  operation-owned payload deltas and their merge into the latest payload, the lifecycle
  dispositions, and the extend, finish, fail, release and detail-update commands.
\<close>

subsection \<open>Keyed merges\<close>

fun merge_download_updates ::
  "download_artifact_payload list \<Rightarrow> download_artifact_payload list
    \<Rightarrow> download_artifact_payload list" where
  "merge_download_updates current [] = current"
| "merge_download_updates current (u # us) =
     merge_download_updates (upsert dl_idempotency_key u current) us"

fun merge_link_updates ::
  "link_artifact_payload list \<Rightarrow> link_artifact_payload list \<Rightarrow> link_artifact_payload list" where
  "merge_link_updates current [] = current"
| "merge_link_updates current (u # us) =
     merge_link_updates (upsert lk_idempotency_key u current) us"

text \<open>
  Both merges promise the same: the merged list has the keys of both arguments, keeps
  unique keys unique, leaves what no update names, and shows the last update of each key.
\<close>

locale keyed_merge =
  fixes key :: "'a \<Rightarrow> 'k"
    and merge :: "'a list \<Rightarrow> 'a list \<Rightarrow> 'a list"
  assumes merge_Nil: "merge xs [] = xs"
    and merge_Cons: "merge xs (u # us) = merge (upsert key u xs) us"
begin

lemma keys_merge: "key ` set (merge xs us) = key ` set xs \<union> key ` set us"
proof (induction us arbitrary: xs)
  case (Cons u us)
  then show ?case using set_map_upsert [of key u xs] by (auto simp: merge_Cons)
qed (simp add: merge_Nil)

lemma distinct_merge: "distinct (map key xs) \<Longrightarrow> distinct (map key (merge xs us))"
  by (induction us arbitrary: xs) (simp_all add: merge_Nil merge_Cons distinct_map_upsert)

lemma merge_untouched: "x \<in> set xs \<Longrightarrow> key x \<notin> key ` set us \<Longrightarrow> x \<in> set (merge xs us)"
  by (induction us arbitrary: xs) (auto simp: merge_Nil merge_Cons intro: upsert_other)

lemma merge_subset: "set (merge xs us) \<subseteq> set xs \<union> set us"
proof (induction us arbitrary: xs)
  case (Cons u us)
  then show ?case using set_upsert_subset [of key u xs] by (fastforce simp: merge_Cons)
qed (simp add: merge_Nil)

lemma merge_applied:
  "distinct (map key us) \<Longrightarrow> u \<in> set us \<Longrightarrow> u \<in> set (merge xs us)"
proof (induction us arbitrary: xs)
  case (Cons v us)
  show ?case
  proof (cases "u = v")
    case True
    with Cons.prems have "key u \<notin> key ` set us" by simp
    then show ?thesis unfolding True merge_Cons by (intro merge_untouched) simp_all
  next
    case False
    with Cons show ?thesis by (simp add: merge_Cons)
  qed
qed simp

lemma merge_present:
  "set us \<subseteq> set xs \<Longrightarrow> distinct (map key xs) \<Longrightarrow> merge xs us = xs"
  by (induction us) (simp_all add: merge_Nil merge_Cons upsert_present)

lemma merge_idempotent:
  assumes "distinct (map key xs)" and "distinct (map key us)"
  shows "merge (merge xs us) us = merge xs us"
  using assms by (intro merge_present subsetI merge_applied distinct_merge)

end

interpretation downloads: keyed_merge dl_idempotency_key merge_download_updates
  by unfold_locales simp_all

interpretation links: keyed_merge lk_idempotency_key merge_link_updates
  by unfold_locales simp_all

subsection \<open>Schedule delays and payload deltas\<close>

definition execution_schedule_delay_try_new :: "u64 \<Rightarrow> u64 repository_result" where
  "execution_schedule_delay_try_new seconds =
     (if i64_max < uint seconds
      then Inl (InvalidInput ''schedule_delay_secs''
             ''execution schedule delay must fit the schema-v5 SQLite integer range'')
      else Inr seconds)"

datatype execution_payload_delta =
    DeltaReplacementCleaned
  | DeltaReplacementPrepared "download_artifact_payload list"
  | DeltaMeta
  | DeltaMovieMeta wanted_source_payload
  | DeltaTvMeta tv_detail_payload "wanted_source_payload option"
  | DeltaSearch "candidate_match_payload list option" "download_artifact_payload list"
  | DeltaProgress "download_artifact_payload list"
  | DeltaLink "download_artifact_payload list" "link_artifact_payload list"

fun delta_operation :: "execution_payload_delta \<Rightarrow> execution_operation" where
  "delta_operation DeltaMeta = OpMeta"
| "delta_operation (DeltaMovieMeta _) = OpMeta"
| "delta_operation (DeltaTvMeta _ _) = OpMeta"
| "delta_operation (DeltaSearch _ _) = OpSearch"
| "delta_operation DeltaReplacementCleaned = OpSearch"
| "delta_operation (DeltaReplacementPrepared _) = OpSearch"
| "delta_operation (DeltaProgress _) = OpProgress"
| "delta_operation (DeltaLink _ _) = OpLink"

fun validate_unique_updates ::
  "string \<Rightarrow> string list \<Rightarrow> string list \<Rightarrow> unit repository_result" where
  "validate_unique_updates field seen [] = Inr ()"
| "validate_unique_updates field seen (v # vs) =
     and_then (validated_text field v) (\<lambda>_.
     if v \<in> set seen
     then Inl (InvalidInput field ''execution payload updates must use unique idempotency keys'')
     else validate_unique_updates field (v # seen) vs)"

definition validate_unique_execution_updates ::
  "string \<Rightarrow> string list \<Rightarrow> unit repository_result" where
  "validate_unique_execution_updates field values = validate_unique_updates field [] values"

definition validate_download_keys ::
  "download_artifact_payload list \<Rightarrow> unit repository_result" where
  "validate_download_keys updates =
     validate_unique_execution_updates ''payload_delta.download_updates''
       (map dl_idempotency_key updates)"

fun delta_validate_shape :: "execution_payload_delta \<Rightarrow> unit repository_result" where
  "delta_validate_shape DeltaMeta = Inr ()"
| "delta_validate_shape (DeltaTvMeta _ _) = Inr ()"
| "delta_validate_shape DeltaReplacementCleaned = Inr ()"
| "delta_validate_shape (DeltaMovieMeta source) = source_validate source"
| "delta_validate_shape (DeltaSearch _ ds) = validate_download_keys ds"
| "delta_validate_shape (DeltaReplacementPrepared ds) = validate_download_keys ds"
| "delta_validate_shape (DeltaProgress ds) = validate_download_keys ds"
| "delta_validate_shape (DeltaLink ds ls) =
     and_then (validate_download_keys ds) (\<lambda>_.
     validate_unique_execution_updates ''payload_delta.link_updates'' (map lk_idempotency_key ls))"

abbreviation merge_payload_downloads ::
  "download_artifact_payload list \<Rightarrow> subscription_payload \<Rightarrow> subscription_payload" where
  "merge_payload_downloads ds p \<equiv>
     p\<lparr>pl_artifacts := (pl_artifacts p)\<lparr>art_downloads :=
         merge_download_updates (art_downloads (pl_artifacts p)) ds\<rparr>\<rparr>"

abbreviation merge_payload_links ::
  "link_artifact_payload list \<Rightarrow> subscription_payload \<Rightarrow> subscription_payload" where
  "merge_payload_links ls p \<equiv>
     p\<lparr>pl_artifacts := (pl_artifacts p)\<lparr>art_links :=
         merge_link_updates (art_links (pl_artifacts p)) ls\<rparr>\<rparr>"

definition no_replacement :: "subscription_payload \<Rightarrow> unit repository_result" where
  "no_replacement p =
     reject_if (\<not> pl_replacement_pending p)
       (InvalidInput ''replacement'' ''no replacement pending'')"

fun delta_merge ::
  "execution_payload_delta \<Rightarrow> subscription_payload \<Rightarrow> subscription_payload repository_result" where
  "delta_merge DeltaMeta p = Inr p"
| "delta_merge (DeltaReplacementPrepared ds) p =
     and_then (no_replacement p) (\<lambda>_.
     Inr ((merge_payload_downloads ds p)\<lparr>pl_replacement_prepared := True\<rparr>))"
| "delta_merge DeltaReplacementCleaned p =
     and_then (no_replacement p) (\<lambda>_.
     Inr (p\<lparr>pl_artifacts := \<lparr>art_downloads = [], art_links = []\<rparr>, pl_issues := [],
            pl_skip_reason := None, pl_replacement_pending := False,
            pl_replacement_prepared := False\<rparr>))"
| "delta_merge (DeltaMovieMeta source) p =
     Inr (p\<lparr>pl_source := merge_source_observation (pl_source p) source\<rparr>)"
| "delta_merge (DeltaTvMeta tv source) p =
     Inr ((case source of None \<Rightarrow> p
           | Some s \<Rightarrow> p\<lparr>pl_source := merge_source_observation (pl_source p) s\<rparr>)
          \<lparr>pl_tv := Some tv\<rparr>)"
| "delta_merge (DeltaSearch candidates ds) p =
     Inr (merge_payload_downloads ds
           (case candidates of None \<Rightarrow> p | Some cs \<Rightarrow> p\<lparr>pl_candidates := cs\<rparr>))"
| "delta_merge (DeltaProgress ds) p = Inr (merge_payload_downloads ds p)"
| "delta_merge (DeltaLink ds ls) p = Inr (merge_payload_links ls (merge_payload_downloads ds p))"

definition apply_to_latest ::
  "(string \<Rightarrow> string) \<Rightarrow> execution_payload_delta \<Rightarrow> subscription_key \<Rightarrow> subscription_payload
    \<Rightarrow> subscription_payload repository_result" where
  "apply_to_latest sha delta key latest =
     and_then (delta_validate_shape delta) (\<lambda>_.
     and_then (delta_merge delta latest) (\<lambda>p.
     and_then (payload_validate_for sha (account_key key) (subject_id key) p) (\<lambda>_.
     Inr p)))"

subsection \<open>Dispositions\<close>

datatype finish_execution_disposition =
    MetaReady
  | SearchWaiting u64
  | SearchPushed
  | ProgressPending u64
  | ProgressDownloaded
  | LinkPendingDownload u64
  | LinkPlanned u64
  | LinkMoreRequired
  | LinkCompleted

fun disposition_operation :: "finish_execution_disposition \<Rightarrow> execution_operation" where
  "disposition_operation MetaReady = OpMeta"
| "disposition_operation (SearchWaiting _) = OpSearch"
| "disposition_operation SearchPushed = OpSearch"
| "disposition_operation (ProgressPending _) = OpProgress"
| "disposition_operation ProgressDownloaded = OpProgress"
| "disposition_operation (LinkPendingDownload _) = OpLink"
| "disposition_operation (LinkPlanned _) = OpLink"
| "disposition_operation LinkMoreRequired = OpLink"
| "disposition_operation LinkCompleted = OpLink"

fun next_lifecycle :: "finish_execution_disposition \<Rightarrow> lifecycle_state" where
  "next_lifecycle MetaReady = Searching"
| "next_lifecycle (SearchWaiting _) = Searching"
| "next_lifecycle LinkMoreRequired = Searching"
| "next_lifecycle SearchPushed = Downloading"
| "next_lifecycle (ProgressPending _) = Downloading"
| "next_lifecycle (LinkPendingDownload _) = Downloading"
| "next_lifecycle ProgressDownloaded = Linking"
| "next_lifecycle (LinkPlanned _) = Linking"
| "next_lifecycle LinkCompleted = Completed"

fun next_delay :: "finish_execution_disposition \<Rightarrow> u64 option" where
  "next_delay MetaReady = Some 0"
| "next_delay SearchPushed = Some 0"
| "next_delay ProgressDownloaded = Some 0"
| "next_delay LinkMoreRequired = Some 0"
| "next_delay (SearchWaiting retry_after) = Some retry_after"
| "next_delay (ProgressPending retry_after) = Some retry_after"
| "next_delay (LinkPendingDownload retry_after) = Some retry_after"
| "next_delay (LinkPlanned retry_after) = Some retry_after"
| "next_delay LinkCompleted = None"

fun waits_for_release :: "finish_execution_disposition \<Rightarrow> bool" where
  "waits_for_release (SearchWaiting _) = True"
| "waits_for_release _ = False"

fun disposition_as_str :: "finish_execution_disposition \<Rightarrow> string" where
  "disposition_as_str MetaReady = ''meta_ready''"
| "disposition_as_str (SearchWaiting _) = ''search_waiting''"
| "disposition_as_str SearchPushed = ''search_pushed''"
| "disposition_as_str (ProgressPending _) = ''progress_pending''"
| "disposition_as_str ProgressDownloaded = ''progress_downloaded''"
| "disposition_as_str (LinkPendingDownload _) = ''link_pending_download''"
| "disposition_as_str (LinkPlanned _) = ''link_planned''"
| "disposition_as_str LinkMoreRequired = ''link_more_required''"
| "disposition_as_str LinkCompleted = ''link_completed''"

subsection \<open>Commands\<close>

definition validate_execution_result_operation ::
  "execution_attempt_token \<Rightarrow> execution_operation \<Rightarrow> execution_payload_delta
    \<Rightarrow> unit repository_result" where
  "validate_execution_result_operation token disposition_op delta =
     (if token_operation token \<noteq> disposition_op
      then Inl (InvalidInput ''execution_disposition''
             (operation_as_str (token_operation token) @ '' attempt cannot persist a ''
              @ operation_as_str disposition_op @ '' disposition''))
      else if token_operation token \<noteq> delta_operation delta
      then Inl (InvalidInput ''payload_delta''
             (operation_as_str (token_operation token) @ '' attempt cannot persist a ''
              @ operation_as_str (delta_operation delta) @ '' payload delta''))
      else delta_validate_shape delta)"

record extend_execution_lease_command =
  extend_token :: execution_attempt_token
  extend_lease_ttl :: u64

definition extend_command_try_new ::
  "execution_attempt_token \<Rightarrow> u64 \<Rightarrow> extend_execution_lease_command repository_result" where
  "extend_command_try_new token ttl =
     and_then (execution_lease_ttl_try_new ttl) (\<lambda>t.
     Inr \<lparr>extend_token = token, extend_lease_ttl = t\<rparr>)"

record extend_execution_lease_result =
  extended_revision :: revision
  extended_attempt :: current_execution_attempt

record finish_execution_command =
  finish_token :: execution_attempt_token
  finish_disposition :: finish_execution_disposition
  finish_delta :: execution_payload_delta

definition finish_command_try_new ::
  "execution_attempt_token \<Rightarrow> finish_execution_disposition \<Rightarrow> execution_payload_delta
    \<Rightarrow> finish_execution_command repository_result" where
  "finish_command_try_new token disposition delta =
     and_then (validate_execution_result_operation token (disposition_operation disposition) delta) (\<lambda>_.
     Inr \<lparr>finish_token = token, finish_disposition = disposition, finish_delta = delta\<rparr>)"

record finish_execution_result =
  finished_detail :: subscription_detail
  finished_attempt :: execution_attempt_token
  finished_at :: u64

record fail_execution_command =
  fail_token :: execution_attempt_token
  fail_error_type :: string
  fail_message :: string
  fail_retry_after :: u64
  fail_delta :: execution_payload_delta

definition fail_command_try_new ::
  "execution_attempt_token \<Rightarrow> string \<Rightarrow> string \<Rightarrow> u64 \<Rightarrow> execution_payload_delta
    \<Rightarrow> fail_execution_command repository_result" where
  "fail_command_try_new token error_type message retry_after delta =
     and_then (validate_execution_result_operation token (token_operation token) delta) (\<lambda>_.
     and_then (validated_text ''execution_failure.error_type'' error_type) (\<lambda>et.
     and_then (validated_text ''execution_failure.message'' message) (\<lambda>msg.
     and_then (execution_schedule_delay_try_new retry_after) (\<lambda>delay.
     Inr \<lparr>fail_token = token, fail_error_type = et, fail_message = msg,
          fail_retry_after = delay, fail_delta = delta\<rparr>))))"

record fail_execution_result =
  failed_detail :: subscription_detail
  failed_attempt :: execution_attempt_token
  failed_at :: u64

record release_execution_command =
  release_token :: execution_attempt_token

record release_execution_result =
  released_detail :: subscription_detail
  released_attempt :: execution_attempt_token
  released_at :: u64

record update_subscription_detail_command =
  upd_key :: subscription_key
  upd_expected_revision :: revision
  upd_updated_at :: u64
  upd_attention_tags :: "attention_tag list"
  upd_payload :: subscription_payload

definition update_detail_command_try_new ::
  "(string \<Rightarrow> string) \<Rightarrow> subscription_key \<Rightarrow> revision \<Rightarrow> u64 \<Rightarrow> attention_tag list
    \<Rightarrow> subscription_payload \<Rightarrow> update_subscription_detail_command repository_result" where
  "update_detail_command_try_new sha key expected updated_at tags p =
     and_then (payload_validate_for sha (account_key key) (subject_id key) p) (\<lambda>_.
     and_then (reject_if (updated_at < obv_last_seen_at (pl_observation p))
                 (InvalidInput ''updated_at''
                   (''detail update time cannot precede the payload'' @ [CHR 0x27]
                    @ ''s last observation''))) (\<lambda>_.
     and_then (projection_from_source (pl_source p)) (\<lambda>_.
     and_then (validate_attention_tags tags) (\<lambda>_.
     Inr \<lparr>upd_key = key, upd_expected_revision = expected, upd_updated_at = updated_at,
          upd_attention_tags = tags, upd_payload = p\<rparr>))))"

subsection \<open>Facts about deltas\<close>

lemma validate_unique_updates_Inr:
  "validate_unique_updates f seen vs = Inr () \<longleftrightarrow>
     (\<forall>v \<in> set vs. valid_text v) \<and> distinct vs \<and> set vs \<inter> set seen = {}"
  by (induction f seen vs rule: validate_unique_updates.induct) (auto simp: and_then_Inr_iff)

lemma validate_unique_execution_updates_Inr [simp]:
  "validate_unique_execution_updates f vs = Inr () \<longleftrightarrow> (\<forall>v \<in> set vs. valid_text v) \<and> distinct vs"
  by (simp add: validate_unique_execution_updates_def validate_unique_updates_Inr)

lemma validate_download_keys_Inr [simp]:
  "validate_download_keys ds = Inr () \<longleftrightarrow>
     (\<forall>d \<in> set ds. valid_text (dl_idempotency_key d)) \<and> distinct (map dl_idempotency_key ds)"
  by (simp add: validate_download_keys_def)

lemma no_replacement_Inr [simp]: "no_replacement p = Inr () \<longleftrightarrow> pl_replacement_pending p"
  by (simp add: no_replacement_def)

lemma apply_to_latest_Inr:
  "apply_to_latest sha delta key latest = Inr q \<longleftrightarrow>
     delta_validate_shape delta = Inr () \<and> delta_merge delta latest = Inr q \<and>
     valid_text (account_key key) \<and> valid_text (subject_id key) \<and>
     payload_wf q \<and> keys_stable sha (account_key key) (subject_id key) q"
  by (auto simp: apply_to_latest_def and_then_Inr_iff payload_validate_for_Inr)

text \<open>The parts of the payload a delta of each operation may change.\<close>

fun delta_downloads :: "execution_payload_delta \<Rightarrow> download_artifact_payload list" where
  "delta_downloads (DeltaSearch _ ds) = ds"
| "delta_downloads (DeltaReplacementPrepared ds) = ds"
| "delta_downloads (DeltaProgress ds) = ds"
| "delta_downloads (DeltaLink ds _) = ds"
| "delta_downloads _ = []"

fun delta_links :: "execution_payload_delta \<Rightarrow> link_artifact_payload list" where
  "delta_links (DeltaLink _ ls) = ls"
| "delta_links _ = []"

lemma delta_merge_artifacts:
  assumes "delta_merge delta p = Inr q" and "delta \<noteq> DeltaReplacementCleaned"
  shows "art_downloads (pl_artifacts q)
           = merge_download_updates (art_downloads (pl_artifacts p)) (delta_downloads delta)"
    and "art_links (pl_artifacts q)
           = merge_link_updates (art_links (pl_artifacts p)) (delta_links delta)"
  using assms by (cases delta; auto split: option.splits)+

lemma delta_merge_frame:
  assumes "delta_merge delta p = Inr q"
  shows "pl_observation q = pl_observation p"
    and "delta_operation delta \<noteq> OpMeta \<Longrightarrow> pl_source q = pl_source p \<and> pl_tv q = pl_tv p"
    and "delta_operation delta \<noteq> OpSearch \<Longrightarrow>
           pl_candidates q = pl_candidates p \<and>
           pl_replacement_pending q = pl_replacement_pending p \<and>
           pl_replacement_prepared q = pl_replacement_prepared p"
    and "delta \<noteq> DeltaReplacementCleaned \<Longrightarrow>
           pl_issues q = pl_issues p \<and> pl_skip_reason q = pl_skip_reason p"
    and "delta_operation delta = OpMeta \<Longrightarrow> pl_artifacts q = pl_artifacts p"
  using assms by (cases delta; auto split: option.splits)+

lemma delta_merge_media:
  "delta_merge delta p = Inr q \<Longrightarrow> pl_tv q \<noteq> pl_tv p \<Longrightarrow> \<exists>tv source. delta = DeltaTvMeta tv source"
  by (cases delta) (auto split: option.splits)

text \<open>
  Applying a delta to a payload that already carries it changes nothing: an attempt that
  reports its result again after a lost acknowledgement does no harm to the artifacts. The
  cleanup of a replacement is the exception, it can run once only.
\<close>

lemma delta_merge_again:
  assumes shape: "delta_validate_shape delta = Inr ()" and d: "delta \<noteq> DeltaReplacementCleaned"
    and merged: "delta_merge delta p = Inr q"
    and wf: "distinct (map dl_idempotency_key (art_downloads (pl_artifacts q)))"
      "distinct (map lk_idempotency_key (art_links (pl_artifacts q)))"
  shows "delta_merge delta q = Inr q"
proof -
  have dls: "distinct (map dl_idempotency_key (delta_downloads delta))"
    and lks: "distinct (map lk_idempotency_key (delta_links delta))"
    using shape by (cases delta; auto)+
  have "merge_download_updates (art_downloads (pl_artifacts q)) (delta_downloads delta)
        = art_downloads (pl_artifacts q)"
    using dls wf(1) delta_merge_artifacts(1) [OF merged d]
    by (intro downloads.merge_present) (auto simp: downloads.merge_applied)
  moreover have "merge_link_updates (art_links (pl_artifacts q)) (delta_links delta)
        = art_links (pl_artifacts q)"
    using lks wf(2) delta_merge_artifacts(2) [OF merged d]
    by (intro links.merge_present) (auto simp: links.merge_applied)
  ultimately show ?thesis
    using merged d
    by (cases delta) (auto simp: merge_source_idem no_replacement_def split: option.splits)
qed

end
