(* ===== verification/Claim_Store.thy ===== *)
theory Claim_Store
  imports Sql_Store Execution_Contract
begin

text \<open>
  The execution store of \<open>src/storage/subscription_repo/claim.rs\<close>: claiming due work,
  the lease of an attempt, and the four operations that only the exact live attempt may
  run (extend, finish, fail, release). Each operation is one immediate transaction: it
  loads the row, checks the fence, executes one statement, reads the row back, verifies
  it, appends an audit entry and commits.
\<close>

subsection \<open>Attempts and controls\<close>

definition max_attempt_id_attempts :: nat where
  "max_attempt_id_attempts = 8"

record persisted_attempt =
  persisted_token :: execution_attempt_token
  persisted_lease_until :: u64

datatype execution_controls = ControlsIdle | ControlsRunning persisted_attempt

record stored_subscription =
  stored_detail :: subscription_detail
  stored_controls :: execution_controls

abbreviation stored_head :: "stored_subscription \<Rightarrow> subscription_head" where
  "stored_head s \<equiv> det_head (stored_detail s)"

definition repository_integer :: "string \<Rightarrow> u64 \<Rightarrow> int repository_result" where
  "repository_integer context v =
     ok_or (Unavailable (context @ '' exceeds SQLite INTEGER range'')) (i64_try_from v)"

text \<open>The identifier the system source derives from 16 random bytes.\<close>

definition system_attempt_id :: "string \<Rightarrow> execution_attempt_id repository_result" where
  "system_attempt_id nonce = attempt_id_try_new (''exec-v1-'' @ hex_bytes nonce)"

definition decode_controls ::
  "subscription_key \<Rightarrow> subscription_detail \<Rightarrow> wanted_row \<Rightarrow> execution_controls repository_result"
where
  "decode_controls key detail r =
     (case (head_execution_state (det_head detail), col_claimed_operation r, col_attempt_id r,
            col_lease_until r) of
        (Idle, None, None, None) \<Rightarrow> Inr ControlsIdle
      | (Running, Some operation, Some attempt, Some lease) \<Rightarrow>
          and_then (checked_required_text ''claimed_operation'' operation) (\<lambda>op_text.
          and_then (operation_try_from_persisted op_text) (\<lambda>op.
          and_then (checked_required_text ''attempt_id'' attempt) (\<lambda>attempt_text.
          and_then (map_err (persisted_validation ''decode execution attempt ID'')
                      (attempt_id_try_new attempt_text)) (\<lambda>attempt_id.
          and_then (checked_u64 ''lease_until'' lease) (\<lambda>lease_until.
          and_then (ok_or (corrupt ''completed subscription retained a running attempt'')
                      (operation_for_lifecycle (head_lifecycle_state (det_head detail)))) (\<lambda>expected.
          if op \<noteq> expected
          then Inl (corrupt (''persisted operation '' @ operation_as_str op
                 @ '' does not match lifecycle ''
                 @ lifecycle_as_str (head_lifecycle_state (det_head detail))))
          else if head_next_attempt_at (det_head detail) = None
          then Inl (corrupt ''running execution attempt lost its preserved next_attempt_at'')
          else Inr (ControlsRunning \<lparr>persisted_token = attempt_token_new key attempt_id op,
                                    persisted_lease_until = lease_until\<rparr>)))))))
      | (Idle, _, _, _) \<Rightarrow> Inl (corrupt ''idle subscription retained execution attempt controls'')
      | (Running, _, _, _) \<Rightarrow>
          Inl (corrupt ''running subscription has incomplete execution attempt controls''))"

definition load_stored_subscription ::
  "repo_env \<Rightarrow> nat \<Rightarrow> database \<Rightarrow> subscription_key \<Rightarrow> stored_subscription repository_result" where
  "load_stored_subscription env n db key =
     and_then (load_detail env n db key) (\<lambda>detail.
     and_then (sql_call env n ''read execution attempt controls'') (\<lambda>_.
     and_then (ok_or (Internal (''subscription '' @ key_str key
                 @ '' disappeared inside an immediate transaction'')) (find_row db key)) (\<lambda>r.
     and_then (decode_controls key detail r) (\<lambda>controls.
     Inr \<lparr>stored_detail = detail, stored_controls = controls\<rparr>))))"

subsection \<open>Classification\<close>

datatype claim_eligibility =
    EligExpired persisted_attempt
  | EligForced execution_operation
  | EligNormal execution_operation

fun eligibility_operation :: "claim_eligibility \<Rightarrow> execution_operation" where
  "eligibility_operation (EligExpired previous) = token_operation (persisted_token previous)"
| "eligibility_operation (EligForced op) = op"
| "eligibility_operation (EligNormal op) = op"

fun eligibility_previous :: "claim_eligibility \<Rightarrow> persisted_attempt option" where
  "eligibility_previous (EligExpired previous) = Some previous"
| "eligibility_previous _ = None"

fun eligibility_label :: "claim_eligibility \<Rightarrow> string" where
  "eligibility_label (EligExpired _) = ''expired_lease''"
| "eligibility_label (EligForced _) = ''force_once''"
| "eligibility_label (EligNormal _) = ''normal_due''"

datatype classification = Eligible claim_eligibility | ClassRejected claim_rejection

definition classify :: "stored_subscription \<Rightarrow> u64 \<Rightarrow> classification repository_result" where
  "classify stored now =
     (let summary = det_summary (stored_detail stored); head = sum_head summary in
      if \<not> head_active head then Inr (ClassRejected RejInactive)
      else if head_lifecycle_state head = Completed then Inr (ClassRejected RejCompleted)
      else if \<not> head_schedulable head
      then and_then (ok_or (corrupt ''unschedulable subscription has no blocked reason'')
                       (head_blocked_reason head)) (\<lambda>reason.
           Inr (ClassRejected (RejUnschedulable reason)))
      else
      and_then (ok_or (corrupt ''claimable lifecycle has no execution operation'')
                  (operation_for_lifecycle (head_lifecycle_state head))) (\<lambda>operation.
      case stored_controls stored of
        ControlsRunning previous \<Rightarrow>
          (if token_operation (persisted_token previous) \<noteq> operation
           then Inl (corrupt ''running attempt operation changed during classification'')
           else if persisted_lease_until previous > now
           then Inr (ClassRejected (RejLiveAttempt
                  \<lparr>current_token = persisted_token previous,
                   current_lease_until = persisted_lease_until previous\<rparr>))
           else Inr (Eligible (EligExpired previous)))
      | ControlsIdle \<Rightarrow>
          (if head_force_eligible_once head then Inr (Eligible (EligForced operation))
           else if head_retry_blocked head then Inr (ClassRejected RejRetryBlocked)
           else if Skipped \<in> set (sum_attention_tags summary)
              \<or> pl_skip_reason (det_payload (stored_detail stored)) \<noteq> None
           then Inr (ClassRejected RejSkipped)
           else if (case head_next_attempt_at head of None \<Rightarrow> True | Some due \<Rightarrow> due > now)
           then Inr (ClassRejected (RejNotDue (head_next_attempt_at head)))
           else Inr (Eligible (EligNormal operation)))))"

subsection \<open>Candidate queries\<close>

definition opt_le :: "int option \<Rightarrow> int \<Rightarrow> bool" where
  "opt_le v n = (case v of None \<Rightarrow> False | Some x \<Rightarrow> x \<le> n)"

definition coalesce :: "int option \<Rightarrow> int \<Rightarrow> int" where
  "coalesce v d = (case v of None \<Rightarrow> d | Some x \<Rightarrow> x)"

text \<open>\<open>EXISTS (SELECT 1 FROM json_each(attention_tags_json) WHERE value = label)\<close>\<close>

definition tags_contain :: "string \<Rightarrow> attention_tag list json_text \<Rightarrow> bool" where
  "tags_contain label t =
     (case t of Json tags \<Rightarrow> label \<in> set (map attention_tag_label tags)
      | Undecodable _ hits \<Rightarrow> label \<in> set hits)"

text \<open>\<open>json_extract(record_json, '$.skip_reason') IS NULL\<close>\<close>

definition skip_reason_is_null :: "subscription_payload json_text \<Rightarrow> bool" where
  "skip_reason_is_null t =
     (case t of Json p \<Rightarrow> pl_skip_reason p = None
      | Undecodable _ hits \<Rightarrow> ''$.skip_reason'' \<notin> set hits)"

text \<open>The WHERE clauses of the four candidate queries.\<close>

definition expired_where :: "string \<Rightarrow> int \<Rightarrow> wanted_row \<Rightarrow> bool" where
  "expired_where account now r \<longleftrightarrow>
     col_account_key r = account \<and> col_execution_state r = ''running'' \<and>
     opt_le (col_lease_until r) now"

definition force_where :: "string \<Rightarrow> wanted_row \<Rightarrow> bool" where
  "force_where account r \<longleftrightarrow>
     col_account_key r = account \<and> col_active r = 1 \<and> col_schedulable r = 1 \<and>
     col_blocked_reason r = None \<and> col_lifecycle_state r \<noteq> ''completed'' \<and>
     col_execution_state r = ''idle'' \<and> col_force_eligible_once r = 1 \<and>
     col_next_attempt_at r \<noteq> None"

definition due_where :: "string \<Rightarrow> int \<Rightarrow> wanted_row \<Rightarrow> bool" where
  "due_where account now r \<longleftrightarrow>
     col_account_key r = account \<and> col_active r = 1 \<and> col_schedulable r = 1 \<and>
     col_blocked_reason r = None \<and> col_lifecycle_state r \<noteq> ''completed'' \<and>
     col_execution_state r = ''idle'' \<and> col_force_eligible_once r = 0 \<and>
     col_retry_blocked r = 0 \<and> \<not> tags_contain ''skipped'' (col_attention_tags_json r) \<and>
     skip_reason_is_null (col_record_json r) \<and> opt_le (col_next_attempt_at r) now"

definition metadata_where :: "string \<Rightarrow> int \<Rightarrow> wanted_row \<Rightarrow> bool" where
  "metadata_where account now r \<longleftrightarrow>
     col_account_key r = account \<and> col_active r = 1 \<and> col_schedulable r = 1 \<and>
     col_blocked_reason r = None \<and> col_lifecycle_state r \<in> {''queued'', ''meta''} \<and>
     ((col_execution_state r = ''idle'' \<and> col_retry_blocked r = 0 \<and>
       (col_next_attempt_at r = None \<or> opt_le (col_next_attempt_at r) now))
      \<or> (col_execution_state r = ''running'' \<and> col_claimed_operation r = Some ''movie_meta'' \<and>
       opt_le (col_lease_until r) now))"

text \<open>\<open>ORDER BY next_attempt_at, updated_at, subject_id\<close>, and by lease for expired attempts.\<close>

definition due_order :: "wanted_row \<Rightarrow> int \<times> int \<times> string" where
  "due_order r = (coalesce (col_next_attempt_at r) 0, col_updated_at r, col_subject_id r)"

definition lease_order :: "wanted_row \<Rightarrow> int \<times> string" where
  "lease_order r = (coalesce (col_lease_until r) 0, col_subject_id r)"

definition expired_candidate :: "string \<Rightarrow> int \<Rightarrow> database \<Rightarrow> wanted_row option" where
  "expired_candidate account now = select_first lease_order (expired_where account now)"

definition force_candidate :: "string \<Rightarrow> database \<Rightarrow> wanted_row option" where
  "force_candidate account = select_first due_order (force_where account)"

definition due_candidate :: "string \<Rightarrow> int \<Rightarrow> database \<Rightarrow> wanted_row option" where
  "due_candidate account now = select_first due_order (due_where account now)"

definition metadata_candidate :: "string \<Rightarrow> int \<Rightarrow> database \<Rightarrow> wanted_row option" where
  "metadata_candidate account now = select_first due_order (metadata_where account now)"

datatype candidate_branch = BranchExpired | BranchForced | BranchNormal

fun branch_label :: "candidate_branch \<Rightarrow> string" where
  "branch_label BranchExpired = ''expired-lease''"
| "branch_label BranchForced = ''force-once''"
| "branch_label BranchNormal = ''normal-due''"

fun branch_read_context :: "candidate_branch \<Rightarrow> string" where
  "branch_read_context BranchExpired = ''select one expired execution lease''"
| "branch_read_context BranchForced = ''select one forced idle subscription''"
| "branch_read_context BranchNormal = ''select one normally due subscription''"

fun branch_matches :: "candidate_branch \<Rightarrow> claim_eligibility \<Rightarrow> bool" where
  "branch_matches BranchExpired (EligExpired _) = True"
| "branch_matches BranchForced (EligForced _) = True"
| "branch_matches BranchNormal (EligNormal _) = True"
| "branch_matches _ _ = False"

fun branch_candidate :: "candidate_branch \<Rightarrow> string \<Rightarrow> int \<Rightarrow> database \<Rightarrow> wanted_row option" where
  "branch_candidate BranchExpired account now db = expired_candidate account now db"
| "branch_candidate BranchForced account now db = force_candidate account db"
| "branch_candidate BranchNormal account now db = due_candidate account now db"

fun select_branches ::
  "repo_env \<Rightarrow> database \<Rightarrow> string \<Rightarrow> u64 \<Rightarrow> int \<Rightarrow> candidate_branch list
    \<Rightarrow> (stored_subscription \<times> claim_eligibility) option repository_result" where
  "select_branches env db account now now_sql [] = Inr None"
| "select_branches env db account now now_sql (branch # branches) =
     and_then (sql_call env 0 (branch_read_context branch)) (\<lambda>_.
     case branch_candidate branch account now_sql db of
       None \<Rightarrow> select_branches env db account now now_sql branches
     | Some r \<Rightarrow>
         and_then (map_err (persisted_validation ''decode due candidate key'')
                     (subscription_key_try_new account (col_subject_id r))) (\<lambda>key.
         and_then (load_stored_subscription env 0 db key) (\<lambda>stored.
         and_then (classify stored now) (\<lambda>classification.
         case classification of
           ClassRejected _ \<Rightarrow>
             Inl (corrupt (branch_label branch
               @ '' index selected a subscription rejected by the typed claim contract''))
         | Eligible eligibility \<Rightarrow>
             (if \<not> branch_matches branch eligibility
              then Inl (corrupt (branch_label branch
                     @ '' index selected a subscription classified as ''
                     @ eligibility_label eligibility))
              else Inr (Some (stored, eligibility)))))))"

definition select_due_candidate ::
  "repo_env \<Rightarrow> database \<Rightarrow> string \<Rightarrow> u64 \<Rightarrow> int
    \<Rightarrow> (stored_subscription \<times> claim_eligibility) option repository_result" where
  "select_due_candidate env db account now now_sql =
     select_branches env db account now now_sql [BranchExpired, BranchForced, BranchNormal]"

definition select_metadata_candidate ::
  "repo_env \<Rightarrow> database \<Rightarrow> string \<Rightarrow> int
    \<Rightarrow> (stored_subscription \<times> claim_eligibility) option repository_result" where
  "select_metadata_candidate env db account now_sql =
     and_then (sql_call env 0 ''select metadata node'') (\<lambda>_.
     traverse_opt (\<lambda>r.
       and_then (subscription_key_try_new account (col_subject_id r)) (\<lambda>key.
       and_then (load_stored_subscription env 0 db key) (\<lambda>stored.
       Inr (stored,
            (case stored_controls stored of
               ControlsRunning previous \<Rightarrow> EligExpired previous
             | ControlsIdle \<Rightarrow> EligNormal OpMeta)))))
       (metadata_candidate account now_sql db))"

end
