(* ===== verification/Claim_Operations.thy ===== *)
theory Claim_Operations
  imports Claim_Store
begin

text \<open>
  The transactions of \<open>src/storage/subscription_repo/claim.rs\<close>: \<open>claim_due\<close>,
  \<open>claim_one\<close>, \<open>extend_lease\<close>, \<open>finish\<close>, \<open>fail\<close>, \<open>release\<close>, with the
  statements they execute, their verification of the written row and their audit entries.
\<close>

subsection \<open>Statements of a claim\<close>

definition claim_idle_guard :: "int \<Rightarrow> wanted_row \<Rightarrow> bool" where
  "claim_idle_guard revision r \<longleftrightarrow>
     col_revision r = revision \<and> col_execution_state r = ''idle'' \<and>
     col_claimed_operation r = None \<and> col_attempt_id r = None \<and> col_lease_until r = None"

definition claim_idle_set :: "string \<Rightarrow> string \<Rightarrow> int \<Rightarrow> int \<Rightarrow> wanted_row \<Rightarrow> wanted_row" where
  "claim_idle_set operation attempt lease now r =
     r\<lparr>col_revision := col_revision r + 1,
       col_lifecycle_state := (if operation = ''movie_meta'' then ''meta'' else col_lifecycle_state r),
       col_next_attempt_at :=
         (if operation = ''movie_meta'' then Some (coalesce (col_next_attempt_at r) now)
          else col_next_attempt_at r),
       col_execution_state := ''running'', col_claimed_operation := Some operation,
       col_attempt_id := Some attempt, col_lease_until := Some lease,
       col_updated_at := max (col_updated_at r) now\<rparr>"

definition reclaim_guard :: "int \<Rightarrow> string \<Rightarrow> string \<Rightarrow> int \<Rightarrow> int \<Rightarrow> wanted_row \<Rightarrow> bool" where
  "reclaim_guard revision operation attempt lease now r \<longleftrightarrow>
     col_revision r = revision \<and> col_execution_state r = ''running'' \<and>
     col_claimed_operation r = Some operation \<and> col_attempt_id r = Some attempt \<and>
     col_lease_until r = Some lease \<and> lease \<le> now"

definition reclaim_set :: "string \<Rightarrow> string \<Rightarrow> int \<Rightarrow> int \<Rightarrow> wanted_row \<Rightarrow> wanted_row" where
  "reclaim_set operation attempt lease now r =
     r\<lparr>col_revision := col_revision r + 1,
       col_lifecycle_state := (if operation = ''movie_meta'' then ''meta'' else col_lifecycle_state r),
       col_claimed_operation := Some operation, col_attempt_id := Some attempt,
       col_lease_until := Some lease, col_updated_at := max (col_updated_at r) now\<rparr>"

text \<open>
  \<open>CLAIM_IDLE_SQL\<close> or \<open>RECLAIM_EXPIRED_SQL\<close> with an allocated identifier; the outer
  result is the error of the parameter conversion.
\<close>

definition claim_statement ::
  "subscription_key \<Rightarrow> int \<Rightarrow> execution_operation \<Rightarrow> persisted_attempt option \<Rightarrow> int \<Rightarrow> int
    \<Rightarrow> execution_attempt_id \<Rightarrow> database
    \<Rightarrow> (sql_constraint + (nat \<times> database)) repository_result" where
  "claim_statement key revision operation previous lease now attempt db =
     (let op = operation_as_str operation; a = attempt_id_str attempt in
      case previous of
        None \<Rightarrow> Inr (keyed_update key (claim_idle_guard revision) (claim_idle_set op a lease now) db)
      | Some prev \<Rightarrow>
          and_then (repository_integer ''expired execution lease'' (persisted_lease_until prev)) (\<lambda>old.
          Inr (keyed_update key
                (reclaim_guard revision (operation_as_str (token_operation (persisted_token prev)))
                  (attempt_id_str (token_attempt_id (persisted_token prev))) old now)
                (reclaim_set op a lease now) db)))"

text \<open>
  The loop over \<open>0..MAX_ATTEMPT_ID_ATTEMPTS\<close>: an identifier equal to the replaced one or
  refused by the unique index is dropped and the next is drawn; \<open>None\<close> when the last was
  dropped.
\<close>

fun allocate_attempt ::
  "repo_env \<Rightarrow> execution_attempt_id option
    \<Rightarrow> (execution_attempt_id \<Rightarrow> database \<Rightarrow> (sql_constraint + (nat \<times> database)) repository_result)
    \<Rightarrow> database \<Rightarrow> nat list \<Rightarrow> (execution_attempt_id \<times> database) option repository_result" where
  "allocate_attempt env previous statement db [] = Inr None"
| "allocate_attempt env previous statement db (k # ks) =
     and_then (env_attempt_id env k) (\<lambda>attempt.
     if previous = Some attempt then allocate_attempt env previous statement db ks
     else
     and_then (statement attempt db) (\<lambda>result.
     and_then (sql_call env k ''persist execution claim'') (\<lambda>_.
     case result of
       Inr (changed, db') \<Rightarrow>
         (if changed = 1 then Inr (Some (attempt, db'))
          else Inl (Internal (''execution claim changed '' @ decimal changed
                 @ '' rows for a selected composite primary key'')))
     | Inl AttemptNotUnique \<Rightarrow> allocate_attempt env previous statement db ks
     | Inl c \<Rightarrow> Inl (constraint_error env ''persist execution claim'' c))))"

definition json_opt :: "u64 option \<Rightarrow> json" where
  "json_opt v = (case v of None \<Rightarrow> JNull | Some x \<Rightarrow> JNumber (uint x))"

definition json_attempt :: "execution_attempt_token \<Rightarrow> u64 \<Rightarrow> json" where
  "json_attempt token lease =
     JObject [(''attempt_id'', JString (attempt_id_str (token_attempt_id token))),
              (''operation'', JString (operation_as_str (token_operation token))),
              (''lease_until'', JNumber (uint lease))]"

datatype claim_trigger = DueScan | Manual

fun trigger_as_str :: "claim_trigger \<Rightarrow> string" where
  "trigger_as_str DueScan = ''claim_due''"
| "trigger_as_str Manual = ''claim_one''"

definition audit_entry ::
  "subscription_detail \<Rightarrow> u64 \<Rightarrow> string \<Rightarrow> string \<Rightarrow> json \<Rightarrow> execution_audit_entry" where
  "audit_entry detail now action summary related =
     \<lparr>entry_account_key = account_key (head_key (det_head detail)), entry_created_at = now,
      entry_action = action, entry_target_id = subject_id (head_key (det_head detail)),
      entry_target_title = prj_title (sum_projection (det_summary detail)),
      entry_summary = summary, entry_related = related\<rparr>"

definition append_claim_audit ::
  "repo_env \<Rightarrow> claimed_subscription \<Rightarrow> persisted_attempt option \<Rightarrow> claim_trigger \<Rightarrow> string \<Rightarrow> u64
    \<Rightarrow> database \<Rightarrow> database repository_result" where
  "append_claim_audit env claimed previous trigger eligibility now db =
     (let head = det_head (claimed_detail claimed); attempt = claimed_attempt claimed;
          previous_json = (case previous of None \<Rightarrow> JNull
            | Some p \<Rightarrow> json_attempt (persisted_token p) (persisted_lease_until p)) in
      append_execution_audit env
        (audit_entry (claimed_detail claimed) now
          (if previous = None then ''claim_attempt'' else ''reclaim_attempt'')
          (if previous = None then ''claimed a subscription execution attempt''
           else ''reclaimed an expired subscription execution attempt'')
          (JObject [(''schema_version'', JNumber 1),
                    (''trigger'', JString (trigger_as_str trigger)),
                    (''eligibility'', JString eligibility),
                    (''new_attempt'', json_attempt (current_token attempt) (current_lease_until attempt)),
                    (''previous_attempt'', previous_json),
                    (''row_revision'', JNumber (uint (revision_value (head_revision head)))),
                    (''force_eligible_once'', JBool (head_force_eligible_once head))])) db)"

text \<open>\<open>now.checked_add(ttl).filter(|v| *v <= i64::MAX)\<close>\<close>

definition lease_boundary :: "u64 \<Rightarrow> u64 \<Rightarrow> u64 repository_result" where
  "lease_boundary now ttl =
     ok_or (Unavailable ''repository clock plus execution lease TTL exceeds SQLite INTEGER range'')
       (case checked_add now ttl of
          Some v \<Rightarrow> (if uint v \<le> i64_max then Some v else None)
        | None \<Rightarrow> None)"

subsection \<open>Persisting a claim\<close>

definition persist_claim ::
  "repo_env \<Rightarrow> stored_subscription \<Rightarrow> claim_eligibility \<Rightarrow> claim_trigger \<Rightarrow> u64 \<Rightarrow> u64
    \<Rightarrow> database \<Rightarrow> (claimed_subscription \<times> database) repository_result" where
  "persist_claim env stored eligibility trigger now lease_ttl db =
     (let head = stored_head stored;
          key = head_key head;
          operation = eligibility_operation eligibility;
          previous = eligibility_previous eligibility;
          expected_next = (if operation = OpMeta then opt_or (head_next_attempt_at head) (Some now)
                           else head_next_attempt_at head);
          expected_updated_at = max (head_updated_at head) now;
          expected_lifecycle = (if operation = OpMeta then Meta else head_lifecycle_state head) in
     and_then (repository_integer ''persisted revision'' (revision_value (head_revision head))) (\<lambda>revision_sql.
     if revision_sql = i64_max
     then Inl (corrupt (''subscription '' @ key_str key
            @ '' revision is exhausted at SQLite INTEGER max''))
     else
     and_then (lease_boundary now lease_ttl) (\<lambda>lease_until.
     and_then (repository_integer ''execution lease'' lease_until) (\<lambda>lease_sql.
     and_then (repository_integer ''repository clock'' now) (\<lambda>now_sql.
     and_then (allocate_attempt env
                 (map_option (\<lambda>p. token_attempt_id (persisted_token p)) previous)
                 (claim_statement key revision_sql operation previous lease_sql now_sql) db
                 [0..<max_attempt_id_attempts]) (\<lambda>selected.
     and_then (ok_or (Unavailable (''could not allocate a unique execution attempt ID after ''
                        @ decimal max_attempt_id_attempts @ '' attempts'')) selected) (\<lambda>(attempt, db1).
     and_then (map_err (persisted_validation ''build post-claim revision'')
                 (revision_try_new (revision_value (head_revision head) + 1))) (\<lambda>expected_revision.
     and_then (load_stored_subscription env 1 db1 key) (\<lambda>post.
     let post_head = stored_head post; post_summary = det_summary (stored_detail post) in
     if head_revision post_head \<noteq> expected_revision
     then Inl (corrupt ''execution claim did not increment revision exactly once'')
     else if head_next_attempt_at post_head \<noteq> expected_next
         \<or> head_force_eligible_once post_head \<noteq> head_force_eligible_once head
         \<or> head_updated_at post_head \<noteq> expected_updated_at
         \<or> head_lifecycle_state post_head \<noteq> expected_lifecycle
     then Inl (corrupt ''execution claim persisted unexpected lifecycle, due, force, or updated-time controls'')
     else if \<not> payload_eq (det_payload (stored_detail post)) (det_payload (stored_detail stored))
         \<or> sum_projection post_summary \<noteq> sum_projection (det_summary (stored_detail stored))
         \<or> sum_attention_tags post_summary \<noteq> sum_attention_tags (det_summary (stored_detail stored))
     then Inl (corrupt ''execution claim changed JSON-owned subscription detail'')
     else
     case stored_controls post of
       ControlsIdle \<Rightarrow> Inl (corrupt ''execution claim committed without running controls'')
     | ControlsRunning persisted \<Rightarrow>
         (if token_attempt_id (persisted_token persisted) \<noteq> attempt
             \<or> token_operation (persisted_token persisted) \<noteq> operation
             \<or> persisted_lease_until persisted \<noteq> lease_until
          then Inl (corrupt ''execution claim controls do not match the allocated attempt'')
          else
          and_then (claimed_subscription_try_new (stored_detail post)
                     \<lparr>current_token = persisted_token persisted,
                      current_lease_until = persisted_lease_until persisted\<rparr>
                     (map_option (\<lambda>p. \<lparr>expired_token = persisted_token p,
                                        expired_lease_until = persisted_lease_until p\<rparr>) previous)) (\<lambda>claimed.
          and_then (append_claim_audit env claimed previous trigger (eligibility_label eligibility)
                      now db1) (\<lambda>db2.
          Inr (claimed, db2)))))))))))))"

definition claim_due_body ::
  "repo_env \<Rightarrow> claim_due_command \<Rightarrow> database \<Rightarrow> (claim_due_result \<times> database) repository_result" where
  "claim_due_body env command db =
     and_then (sql_call env 0 ''begin bounded due claim'') (\<lambda>_.
     and_then (env_clock env) (\<lambda>now.
     and_then (repository_integer ''repository clock'' now) (\<lambda>now_sql.
     and_then (if cdue_metadata_only command
               then select_metadata_candidate env db (cdue_account_key command) now_sql
               else select_due_candidate env db (cdue_account_key command) now now_sql) (\<lambda>selected.
     case selected of
       None \<Rightarrow> and_then (sql_call env 0 ''commit empty bounded due claim'') (\<lambda>_. Inr (None, db))
     | Some (stored, eligibility) \<Rightarrow>
         and_then (persist_claim env stored eligibility DueScan now (cdue_lease_ttl command) db)
           (\<lambda>(claimed, db1).
         and_then (sql_call env 0 ''commit bounded due claim'') (\<lambda>_.
         Inr (Some claimed, db1)))))))"

definition claim_due ::
  "repo_env \<Rightarrow> claim_due_command \<Rightarrow> database \<Rightarrow> claim_due_result repository_result \<times> database" where
  "claim_due env command = run_transaction (claim_due_body env command)"

definition claim_one_body ::
  "repo_env \<Rightarrow> claim_one_command \<Rightarrow> database \<Rightarrow> (claim_one_result \<times> database) repository_result" where
  "claim_one_body env command db =
     and_then (sql_call env 0 ''begin manual subscription claim'') (\<lambda>_.
     and_then (env_clock env) (\<lambda>now.
     and_then (repository_integer ''repository clock'' now) (\<lambda>_.
     and_then (load_stored_subscription env 0 db (cone_key command)) (\<lambda>stored.
     and_then (classify stored now) (\<lambda>classification.
     case classification of
       ClassRejected rejection \<Rightarrow>
         and_then (sql_call env 0 ''commit rejected manual claim'') (\<lambda>_. Inr (Rejected rejection, db))
     | Eligible eligibility \<Rightarrow>
         and_then (persist_claim env stored eligibility Manual now (cone_lease_ttl command) db)
           (\<lambda>(claimed, db1).
         and_then (sql_call env 0 ''commit manual subscription claim'') (\<lambda>_.
         Inr (Claimed claimed, db1))))))))"

definition claim_one ::
  "repo_env \<Rightarrow> claim_one_command \<Rightarrow> database \<Rightarrow> claim_one_result repository_result \<times> database" where
  "claim_one env command = run_transaction (claim_one_body env command)"

subsection \<open>The fence\<close>

definition require_live_attempt ::
  "stored_subscription \<Rightarrow> execution_attempt_token \<Rightarrow> u64 \<Rightarrow> persisted_attempt repository_result" where
  "require_live_attempt stored attempted now =
     (case stored_controls stored of
        ControlsIdle \<Rightarrow> Inl (StaleAttempt attempted None)
      | ControlsRunning current \<Rightarrow>
          (if persisted_token current \<noteq> attempted
           then Inl (StaleAttempt attempted (Some (persisted_token current)))
           else if persisted_lease_until current \<le> now
           then Inl (LeaseExpired attempted (persisted_lease_until current))
           else Inr current))"

definition next_revision :: "revision \<Rightarrow> revision repository_result" where
  "next_revision current =
     and_then (ok_or (corrupt ''subscription revision is exhausted at SQLite INTEGER max'')
                 (case checked_add (revision_value current) 1 of
                    Some v \<Rightarrow> (if uint v \<le> i64_max then Some v else None)
                  | None \<Rightarrow> None)) (\<lambda>value.
     map_err (persisted_validation ''build post-execution revision'') (revision_try_new value))"

definition schedule_from_repository_now :: "u64 \<Rightarrow> u64 option \<Rightarrow> u64 option repository_result" where
  "schedule_from_repository_now now delay =
     traverse_opt (\<lambda>d.
       ok_or (Unavailable ''repository clock plus execution schedule delay exceeds SQLite INTEGER range'')
         (case checked_add now d of
            Some v \<Rightarrow> (if uint v \<le> i64_max then Some v else None)
          | None \<Rightarrow> None)) delay"

definition expect_exact_attempt_update :: "nat \<Rightarrow> string \<Rightarrow> unit repository_result" where
  "expect_exact_attempt_update changed context =
     reject_if (changed \<noteq> 1) (Internal (context @ '' changed '' @ decimal changed
       @ '' rows, expected one exact attempt''))"

text \<open>The WHERE clause the exact-attempt statements share, besides the key.\<close>

definition live_attempt_guard :: "string \<Rightarrow> string \<Rightarrow> int \<Rightarrow> int \<Rightarrow> wanted_row \<Rightarrow> bool" where
  "live_attempt_guard operation attempt lease now r \<longleftrightarrow>
     col_execution_state r = ''running'' \<and> col_claimed_operation r = Some operation \<and>
     col_attempt_id r = Some attempt \<and> col_lease_until r = Some lease \<and> now < lease"

definition live_guard_of :: "execution_attempt_token \<Rightarrow> int \<Rightarrow> int \<Rightarrow> wanted_row \<Rightarrow> bool" where
  "live_guard_of token lease now =
     live_attempt_guard (operation_as_str (token_operation token))
       (attempt_id_str (token_attempt_id token)) lease now"

definition verify_preserved_detail ::
  "subscription_detail \<Rightarrow> subscription_detail \<Rightarrow> unit repository_result" where
  "verify_preserved_detail before after =
     reject_if (\<not> payload_eq (det_payload before) (det_payload after)
         \<or> sum_projection (det_summary before) \<noteq> sum_projection (det_summary after)
         \<or> sum_attention_tags (det_summary before) \<noteq> sum_attention_tags (det_summary after))
       (corrupt ''execution control update changed JSON-owned subscription detail'')"

definition verify_immutable_subscription_head_fields ::
  "subscription_detail \<Rightarrow> subscription_detail \<Rightarrow> unit repository_result" where
  "verify_immutable_subscription_head_fields before after =
     (let b = det_head before; a = det_head after in
      reject_if (head_key b \<noteq> head_key a \<or> head_active b \<noteq> head_active a
          \<or> head_inactive_at b \<noteq> head_inactive_at a
          \<or> head_last_seen_snapshot_id b \<noteq> head_last_seen_snapshot_id a
          \<or> head_media_kind b \<noteq> head_media_kind a \<or> head_schedulable b \<noteq> head_schedulable a
          \<or> head_blocked_reason b \<noteq> head_blocked_reason a
          \<or> head_max_retries b \<noteq> head_max_retries a)
        (corrupt ''execution update changed subscription fields outside its ownership''))"

definition verify_immutable_subscription_fields ::
  "subscription_detail \<Rightarrow> subscription_detail \<Rightarrow> unit repository_result" where
  "verify_immutable_subscription_fields before after =
     and_then (verify_immutable_subscription_head_fields before after) (\<lambda>_.
     reject_if (sum_projection (det_summary before) \<noteq> sum_projection (det_summary after))
       (corrupt ''execution update changed subscription projection outside terminal payload merge''))"

subsection \<open>Extend and release\<close>

definition extend_set :: "int \<Rightarrow> int \<Rightarrow> wanted_row \<Rightarrow> wanted_row" where
  "extend_set lease now r =
     r\<lparr>col_revision := col_revision r + 1, col_lease_until := Some lease,
       col_updated_at := max (col_updated_at r) now\<rparr>"

definition extend_lease_body ::
  "repo_env \<Rightarrow> extend_execution_lease_command \<Rightarrow> database
    \<Rightarrow> (extend_execution_lease_result \<times> database) repository_result" where
  "extend_lease_body env command db =
     (let token = extend_token command; key = token_key token in
     and_then (sql_call env 0 ''begin execution lease extension'') (\<lambda>_.
     and_then (env_clock env) (\<lambda>now.
     and_then (repository_integer ''repository clock'' now) (\<lambda>now_sql.
     and_then (load_stored_subscription env 0 db key) (\<lambda>stored.
     and_then (require_live_attempt stored token now) (\<lambda>current.
     and_then (lease_boundary now (extend_lease_ttl command)) (\<lambda>requested.
     if requested \<le> persisted_lease_until current
     then Inl (LeaseNotExtended token (persisted_lease_until current) requested)
     else
     and_then (next_revision (head_revision (stored_head stored))) (\<lambda>expected_revision.
     and_then (repository_integer ''current execution lease'' (persisted_lease_until current)) (\<lambda>current_sql.
     and_then (repository_integer ''extended execution lease'' requested) (\<lambda>requested_sql.
     and_then (sql_execute env 0 ''extend execution lease''
                 (keyed_update key (live_guard_of token current_sql now_sql)
                   (extend_set requested_sql now_sql) db)) (\<lambda>(changed, db1).
     and_then (expect_exact_attempt_update changed ''execution lease extension'') (\<lambda>_.
     and_then (load_stored_subscription env 1 db1 key) (\<lambda>post.
     and_then (verify_preserved_detail (stored_detail stored) (stored_detail post)) (\<lambda>_.
     and_then (verify_immutable_subscription_fields (stored_detail stored) (stored_detail post)) (\<lambda>_.
     case stored_controls post of
       ControlsIdle \<Rightarrow> Inl (corrupt ''execution lease extension unexpectedly consumed the attempt'')
     | ControlsRunning persisted \<Rightarrow>
       (let b = stored_head stored; a = stored_head post in
        if persisted_token persisted \<noteq> token \<or> persisted_lease_until persisted \<noteq> requested
           \<or> head_revision a \<noteq> expected_revision
           \<or> head_updated_at a \<noteq> max (head_updated_at b) now
           \<or> head_lifecycle_state a \<noteq> head_lifecycle_state b
           \<or> head_next_attempt_at a \<noteq> head_next_attempt_at b
           \<or> head_retry_count a \<noteq> head_retry_count b
           \<or> head_retry_blocked a \<noteq> head_retry_blocked b
           \<or> head_force_eligible_once a \<noteq> head_force_eligible_once b
        then Inl (corrupt ''execution lease extension post-write controls do not match the exact attempt'')
        else
        and_then (append_execution_audit env
          (audit_entry (stored_detail post) now ''extend_attempt''
            ''extended a live subscription execution lease''
            (JObject [(''schema_version'', JNumber 1),
                      (''attempt_id'', JString (attempt_id_str (token_attempt_id (persisted_token persisted)))),
                      (''operation'', JString (operation_as_str (token_operation (persisted_token persisted)))),
                      (''previous_lease_until'', JNumber (uint (persisted_lease_until current))),
                      (''lease_until'', JNumber (uint (persisted_lease_until persisted))),
                      (''row_revision'', JNumber (uint (revision_value (head_revision a))))])) db1) (\<lambda>db2.
        and_then (sql_call env 0 ''commit execution lease extension'') (\<lambda>_.
        Inr (\<lparr>extended_revision = expected_revision,
              extended_attempt = \<lparr>current_token = persisted_token persisted,
                                  current_lease_until = persisted_lease_until persisted\<rparr>\<rparr>,
             db2)))))))))))))))))))"

definition extend_lease ::
  "repo_env \<Rightarrow> extend_execution_lease_command \<Rightarrow> database
    \<Rightarrow> extend_execution_lease_result repository_result \<times> database" where
  "extend_lease env command = run_transaction (extend_lease_body env command)"

definition release_set :: "int \<Rightarrow> wanted_row \<Rightarrow> wanted_row" where
  "release_set now r =
     r\<lparr>col_revision := col_revision r + 1, col_execution_state := ''idle'',
       col_claimed_operation := None, col_attempt_id := None, col_lease_until := None,
       col_updated_at := max (col_updated_at r) now\<rparr>"

definition release_body ::
  "repo_env \<Rightarrow> release_execution_command \<Rightarrow> database
    \<Rightarrow> (release_execution_result \<times> database) repository_result" where
  "release_body env command db =
     (let token = release_token command; key = token_key token in
     and_then (sql_call env 0 ''begin exact execution release'') (\<lambda>_.
     and_then (env_clock env) (\<lambda>now.
     and_then (repository_integer ''repository clock'' now) (\<lambda>now_sql.
     and_then (load_stored_subscription env 0 db key) (\<lambda>stored.
     and_then (require_live_attempt stored token now) (\<lambda>current.
     and_then (next_revision (head_revision (stored_head stored))) (\<lambda>expected_revision.
     and_then (repository_integer ''current execution lease'' (persisted_lease_until current)) (\<lambda>current_sql.
     and_then (sql_execute env 0 ''release exact execution attempt''
                 (keyed_update key (live_guard_of token current_sql now_sql) (release_set now_sql) db))
       (\<lambda>(changed, db1).
     and_then (expect_exact_attempt_update changed ''execution release'') (\<lambda>_.
     and_then (load_stored_subscription env 1 db1 key) (\<lambda>post.
     let b = stored_head stored; a = stored_head post in
     if stored_controls post \<noteq> ControlsIdle
        \<or> head_revision a \<noteq> expected_revision
        \<or> head_updated_at a \<noteq> max (head_updated_at b) now
        \<or> head_lifecycle_state a \<noteq> head_lifecycle_state b
        \<or> head_next_attempt_at a \<noteq> head_next_attempt_at b
        \<or> head_retry_count a \<noteq> head_retry_count b
        \<or> head_max_retries a \<noteq> head_max_retries b
        \<or> head_retry_blocked a \<noteq> head_retry_blocked b
        \<or> head_force_eligible_once a \<noteq> head_force_eligible_once b
     then Inl (corrupt ''execution release changed controls beyond attempt ownership'')
     else
     and_then (verify_preserved_detail (stored_detail stored) (stored_detail post)) (\<lambda>_.
     and_then (verify_immutable_subscription_fields (stored_detail stored) (stored_detail post)) (\<lambda>_.
     and_then (append_execution_audit env
       (audit_entry (stored_detail post) now ''release_attempt''
         ''released a live subscription execution attempt before side effects''
         (JObject [(''schema_version'', JNumber 1),
                   (''attempt_id'', JString (attempt_id_str (token_attempt_id token))),
                   (''operation'', JString (operation_as_str (token_operation token))),
                   (''lease_until'', JNumber (uint (persisted_lease_until current))),
                   (''external_effect'', JString ''not_started''),
                   (''row_revision'', JNumber (uint (revision_value (head_revision a)))),
                   (''force_eligible_once_preserved'', JBool (head_force_eligible_once a)),
                   (''next_attempt_at'', json_opt (head_next_attempt_at a))])) db1) (\<lambda>db2.
     and_then (sql_call env 0 ''commit exact execution release'') (\<lambda>_.
     Inr (\<lparr>released_detail = stored_detail post, released_attempt = token, released_at = now\<rparr>,
          db2))))))))))))))))"

definition release ::
  "repo_env \<Rightarrow> release_execution_command \<Rightarrow> database
    \<Rightarrow> release_execution_result repository_result \<times> database" where
  "release env command = run_transaction (release_body env command)"

end
