(* ===== verification/Claim_Terminal.thy ===== *)
theory Claim_Terminal
  imports Claim_Operations
begin

text \<open>
  The terminal transactions \<open>finish\<close> and \<open>fail\<close> of
  \<open>src/storage/subscription_repo/claim.rs\<close>: they merge the attempt's delta into the
  latest payload, move the lifecycle or count the retry, and consume the attempt.
\<close>

definition is_terminal_tag :: "attention_tag \<Rightarrow> bool" where
  "is_terminal_tag t \<longleftrightarrow>
     t \<in> {WaitingRelease, NeedsConfirmation, Failed, RetryBlocked, NeedsReconciliation}"

definition terminal_attention_tags ::
  "attention_tag list \<Rightarrow> bool \<Rightarrow> bool \<Rightarrow> bool \<Rightarrow> attention_tag list" where
  "terminal_attention_tags current waiting_release failed retry_blocked =
     btree_list (filter (\<lambda>t. \<not> is_terminal_tag t) current
       @ (if waiting_release then [WaitingRelease] else [])
       @ (if failed then [Failed] else [])
       @ (if retry_blocked then [RetryBlocked] else []))"

definition execution_issue_matches :: "execution_operation \<Rightarrow> string \<Rightarrow> bool" where
  "execution_issue_matches operation value \<longleftrightarrow>
     value = operation_as_str operation \<or>
     (operation, value) \<in> {(OpMeta, ''meta''), (OpSearch, ''search''), (OpProgress, ''progress''),
                          (OpLink, ''link'')}"

definition clear_execution_issue ::
  "execution_operation \<Rightarrow> subscription_payload \<Rightarrow> subscription_payload" where
  "clear_execution_issue operation p =
     p\<lparr>pl_issues := filter (\<lambda>i. issue_owner i \<noteq> OwnerParent \<or>
         \<not> (case issue_operation i of None \<Rightarrow> False | Some v \<Rightarrow> execution_issue_matches operation v))
       (pl_issues p)\<rparr>"

definition replace_execution_issue ::
  "execution_operation \<Rightarrow> string \<Rightarrow> string \<Rightarrow> u64 \<Rightarrow> subscription_payload \<Rightarrow> subscription_payload" where
  "replace_execution_issue operation error_type message occurred_at p =
     (let q = clear_execution_issue operation p in
      q\<lparr>pl_issues := pl_issues q @
          [\<lparr>issue_owner = OwnerParent, issue_operation = Some (operation_as_str operation),
            issue_error_type = Some error_type, issue_message = message,
            issue_occurred_at = Some occurred_at\<rparr>]\<rparr>)"

text \<open>\<open>CONSUME_ATTEMPT_SQL\<close>\<close>

definition consume_set ::
  "lifecycle_state \<Rightarrow> int option \<Rightarrow> int \<Rightarrow> int \<Rightarrow> attention_tag list json_text \<Rightarrow> int
    \<Rightarrow> subscription_payload json_text \<Rightarrow> subscription_projection \<Rightarrow> int option
    \<Rightarrow> wanted_row \<Rightarrow> wanted_row" where
  "consume_set lifecycle next_attempt retry_count retry_blocked tags now record prj sort_time r =
     r\<lparr>col_revision := col_revision r + 1,
       col_lifecycle_state := lifecycle_as_str lifecycle, col_execution_state := ''idle'',
       col_next_attempt_at := next_attempt, col_retry_count := retry_count,
       col_retry_blocked := retry_blocked, col_force_eligible_once := 0,
       col_claimed_operation := None, col_attempt_id := None, col_lease_until := None,
       col_attention_tags_json := tags, col_updated_at := max (col_updated_at r) now,
       col_record_json := record, col_title := prj_title prj,
       col_release_year := map_option uint (prj_release_year prj),
       col_poster_url := prj_poster_url prj, col_category_text := prj_category_text prj,
       col_douban_sort_time := sort_time\<rparr>"

definition verify_terminal_post_write ::
  "stored_subscription \<Rightarrow> subscription_detail \<Rightarrow> revision \<Rightarrow> u64 \<Rightarrow> lifecycle_state \<Rightarrow> u64 option
    \<Rightarrow> u32 \<Rightarrow> bool \<Rightarrow> attention_tag list \<Rightarrow> subscription_payload \<Rightarrow> subscription_projection
    \<Rightarrow> unit repository_result" where
  "verify_terminal_post_write post before revision updated_at lifecycle next_attempt retry_count
     retry_blocked tags p prj =
     and_then (verify_immutable_subscription_head_fields before (stored_detail post)) (\<lambda>_.
     let head = stored_head post; summary = det_summary (stored_detail post) in
     reject_if (stored_controls post \<noteq> ControlsIdle \<or> head_execution_state head \<noteq> Idle
         \<or> head_revision head \<noteq> revision \<or> head_updated_at head \<noteq> updated_at
         \<or> head_lifecycle_state head \<noteq> lifecycle \<or> head_next_attempt_at head \<noteq> next_attempt
         \<or> head_retry_count head \<noteq> retry_count \<or> head_retry_blocked head \<noteq> retry_blocked
         \<or> head_force_eligible_once head \<or> sum_attention_tags summary \<noteq> tags
         \<or> sum_projection summary \<noteq> prj \<or> \<not> payload_eq (det_payload (stored_detail post)) p)
       (corrupt ''execution terminal post-write state does not match the exact result''))"

definition is_replacement_step :: "execution_payload_delta \<Rightarrow> bool" where
  "is_replacement_step delta \<longleftrightarrow>
     (case delta of DeltaReplacementPrepared _ \<Rightarrow> True | DeltaReplacementCleaned \<Rightarrow> True | _ \<Rightarrow> False)"

text \<open>The attention tags a finished attempt leaves.\<close>

definition finish_attention_tags ::
  "attention_tag list \<Rightarrow> finish_execution_disposition \<Rightarrow> execution_payload_delta
    \<Rightarrow> subscription_payload \<Rightarrow> attention_tag list" where
  "finish_attention_tags current disposition delta p =
     (let waiting = waits_for_release disposition \<and> \<not> is_replacement_step delta;
          tags = terminal_attention_tags current waiting False False in
      if waiting \<and> list_ex (\<lambda>c. \<not> download_authorized c \<and> cand_torrent_id (match_candidate c) \<noteq> [])
                     (pl_candidates p)
      then filter (\<lambda>t. t \<noteq> WaitingRelease) tags @ [NeedsConfirmation]
      else tags)"

definition finish_body ::
  "repo_env \<Rightarrow> finish_execution_command \<Rightarrow> database
    \<Rightarrow> (finish_execution_result \<times> database) repository_result" where
  "finish_body env command db =
     (let token = finish_token command; key = token_key token; disposition = finish_disposition command in
     and_then (sql_call env 0 ''begin exact execution finish'') (\<lambda>_.
     and_then (env_clock env) (\<lambda>now.
     and_then (repository_integer ''repository clock'' now) (\<lambda>now_sql.
     and_then (load_stored_subscription env 0 db key) (\<lambda>stored.
     and_then (require_live_attempt stored token now) (\<lambda>current.
     and_then (next_revision (head_revision (stored_head stored))) (\<lambda>expected_revision.
     let expected_updated_at = max (head_updated_at (stored_head stored)) now;
         previous_force = head_force_eligible_once (stored_head stored) in
     and_then (apply_to_latest (env_sha env) (finish_delta command) key
                 (det_payload (stored_detail stored))) (\<lambda>merged.
     let p = clear_execution_issue (token_operation token) merged in
     and_then (payload_validate_for (env_sha env) (account_key key) (subject_id key) p) (\<lambda>_.
     and_then (projection_from_source (pl_source p)) (\<lambda>prj.
     let tags = finish_attention_tags (sum_attention_tags (det_summary (stored_detail stored)))
                  disposition (finish_delta command) p in
     and_then (schedule_from_repository_now now (next_delay disposition)) (\<lambda>next_attempt.
     and_then (traverse_opt (repository_integer ''next execution attempt'') next_attempt) (\<lambda>next_sql.
     and_then (repository_integer ''current execution lease'' (persisted_lease_until current)) (\<lambda>current_sql.
     and_then (traverse_opt (repository_integer ''payload.source.douban_sort_time'')
                 (prj_douban_sort_time prj)) (\<lambda>sort_sql.
     and_then (sql_execute env 0 ''consume exact successful execution attempt''
                 (keyed_update key (live_guard_of token current_sql now_sql)
                   (consume_set (next_lifecycle disposition) next_sql 0 0 (Json tags) now_sql
                     (encode_payload env p) prj sort_sql) db)) (\<lambda>(changed, db1).
     and_then (expect_exact_attempt_update changed ''successful execution finish'') (\<lambda>_.
     and_then (load_stored_subscription env 1 db1 key) (\<lambda>post.
     and_then (verify_terminal_post_write post (stored_detail stored) expected_revision
                 expected_updated_at (next_lifecycle disposition) next_attempt 0 False tags p prj) (\<lambda>_.
     and_then (append_execution_audit env
       (audit_entry (stored_detail post) now ''finish_attempt''
         ''finished a live subscription execution attempt''
         (JObject [(''schema_version'', JNumber 1),
                   (''attempt_id'', JString (attempt_id_str (token_attempt_id token))),
                   (''operation'', JString (operation_as_str (token_operation token))),
                   (''lease_until'', JNumber (uint (persisted_lease_until current))),
                   (''disposition'', JString (disposition_as_str disposition)),
                   (''next_lifecycle_state'',
                     JString (lifecycle_as_str (head_lifecycle_state (stored_head post)))),
                   (''next_attempt_at'', json_opt (head_next_attempt_at (stored_head post))),
                   (''row_revision'',
                     JNumber (uint (revision_value (head_revision (stored_head post))))),
                   (''force_eligible_once_consumed'', JBool previous_force)])) db1) (\<lambda>db2.
     and_then (sql_call env 0 ''commit exact execution finish'') (\<lambda>_.
     Inr (\<lparr>finished_detail = stored_detail post, finished_attempt = token, finished_at = now\<rparr>,
          db2)))))))))))))))))))))"

definition finish ::
  "repo_env \<Rightarrow> finish_execution_command \<Rightarrow> database
    \<Rightarrow> finish_execution_result repository_result \<times> database" where
  "finish env command = run_transaction (finish_body env command)"

definition fail_body ::
  "repo_env \<Rightarrow> fail_execution_command \<Rightarrow> database
    \<Rightarrow> (fail_execution_result \<times> database) repository_result" where
  "fail_body env command db =
     (let token = fail_token command; key = token_key token in
     and_then (sql_call env 0 ''begin exact execution failure'') (\<lambda>_.
     and_then (env_clock env) (\<lambda>now.
     and_then (repository_integer ''repository clock'' now) (\<lambda>now_sql.
     and_then (load_stored_subscription env 0 db key) (\<lambda>stored.
     and_then (require_live_attempt stored token now) (\<lambda>current.
     let head = stored_head stored in
     and_then (next_revision (head_revision head)) (\<lambda>expected_revision.
     let expected_updated_at = max (head_updated_at head) now;
         previous_force = head_force_eligible_once head in
     and_then (ok_or (corrupt ''execution retry_count overflowed u32'')
                 (checked_add (head_retry_count head) 1)) (\<lambda>retry_count.
     let retry_blocked = head_max_retries head > 0 \<and> retry_count \<ge> head_max_retries head in
     and_then (if retry_blocked then Inr None
               else schedule_from_repository_now now (Some (fail_retry_after command))) (\<lambda>next_attempt.
     and_then (apply_to_latest (env_sha env) (fail_delta command) key
                 (det_payload (stored_detail stored))) (\<lambda>merged.
     let p = replace_execution_issue (token_operation token) (fail_error_type command)
               (fail_message command) now merged in
     and_then (payload_validate_for (env_sha env) (account_key key) (subject_id key) p) (\<lambda>_.
     and_then (projection_from_source (pl_source p)) (\<lambda>prj.
     let tags = terminal_attention_tags (sum_attention_tags (det_summary (stored_detail stored)))
                  False True retry_blocked in
     and_then (traverse_opt (repository_integer ''next execution retry'') next_attempt) (\<lambda>next_sql.
     and_then (repository_integer ''current execution lease'' (persisted_lease_until current)) (\<lambda>current_sql.
     and_then (traverse_opt (repository_integer ''payload.source.douban_sort_time'')
                 (prj_douban_sort_time prj)) (\<lambda>sort_sql.
     and_then (sql_execute env 0 ''consume exact failed execution attempt''
                 (keyed_update key (live_guard_of token current_sql now_sql)
                   (consume_set (head_lifecycle_state head) next_sql (uint retry_count)
                     (of_bool retry_blocked) (Json tags) now_sql (encode_payload env p) prj sort_sql) db))
       (\<lambda>(changed, db1).
     and_then (expect_exact_attempt_update changed ''failed execution finish'') (\<lambda>_.
     and_then (load_stored_subscription env 1 db1 key) (\<lambda>post.
     and_then (verify_terminal_post_write post (stored_detail stored) expected_revision
                 expected_updated_at (head_lifecycle_state head) next_attempt retry_count
                 retry_blocked tags p prj) (\<lambda>_.
     and_then (append_execution_audit env
       (audit_entry (stored_detail post) now ''fail_attempt''
         ''recorded a failed live subscription execution attempt''
         (JObject [(''schema_version'', JNumber 1),
                   (''attempt_id'', JString (attempt_id_str (token_attempt_id token))),
                   (''operation'', JString (operation_as_str (token_operation token))),
                   (''lease_until'', JNumber (uint (persisted_lease_until current))),
                   (''error_type'', JString (fail_error_type command)),
                   (''retry_count'', JNumber (uint (head_retry_count (stored_head post)))),
                   (''retry_blocked'', JBool (head_retry_blocked (stored_head post))),
                   (''next_attempt_at'', json_opt (head_next_attempt_at (stored_head post))),
                   (''row_revision'',
                     JNumber (uint (revision_value (head_revision (stored_head post))))),
                   (''force_eligible_once_consumed'', JBool previous_force)])) db1) (\<lambda>db2.
     and_then (sql_call env 0 ''commit exact execution failure'') (\<lambda>_.
     Inr (\<lparr>failed_detail = stored_detail post, failed_attempt = token, failed_at = now\<rparr>,
          db2))))))))))))))))))))))"

definition fail_execution ::
  "repo_env \<Rightarrow> fail_execution_command \<Rightarrow> database
    \<Rightarrow> fail_execution_result repository_result \<times> database" where
  "fail_execution env command = run_transaction (fail_body env command)"

end
