(* ===== verification/Claim_Facts.thy ===== *)
theory Claim_Facts
  imports Claim_Terminal
begin

text \<open>
  Proofs about the execution store. \<open>readable\<close> is a row the code can load; the locale
  \<open>fenced_operation\<close> states what extend, finish, fail and release have in common, and
  \<open>terminal_operation\<close> adds that the attempt is consumed. Both are interpreted on the
  model's operations.
\<close>

subsection \<open>Readable rows\<close>

definition readable ::
  "(string \<Rightarrow> string) \<Rightarrow> database \<Rightarrow> subscription_key \<Rightarrow> stored_subscription \<Rightarrow> bool" where
  "readable sha db key st \<longleftrightarrow>
     (\<exists>r. find_row db key = Some r \<and> try_into_detail sha r = Inr (stored_detail st) \<and>
          decode_controls key (stored_detail st) r = Inr (stored_controls st))"

definition fault_free :: "repo_env \<Rightarrow> bool" where
  "fault_free env \<longleftrightarrow> (\<forall>n context. env_fault env n context = None)"

lemma sql_call_Inr: "sql_call env n context = Inr () \<longleftrightarrow> env_fault env n context = None"
  by (simp add: sql_call_def split: option.split)

lemma fault_free_call [simp]: "fault_free env \<Longrightarrow> sql_call env n context = Inr ()"
  by (simp add: sql_call_Inr fault_free_def)

lemma load_stored_readable:
  "load_stored_subscription env n db key = Inr st \<Longrightarrow> readable (env_sha env) db key st"
  unfolding load_stored_subscription_def load_detail_def readable_def
  by (auto simp: and_then_Inr_iff)

lemma readable_load:
  assumes "fault_free env" and "readable (env_sha env) db key st"
  shows "load_stored_subscription env n db key = Inr st"
  using assms by (auto simp: readable_def load_stored_subscription_def load_detail_def)

lemma readable_unique: "readable sha db key st \<Longrightarrow> readable sha db key st' \<Longrightarrow> st = st'"
  by (auto simp: readable_def intro: stored_subscription.equality)

text \<open>The columns that hold an attempt.\<close>

definition controls_columns :: "wanted_row \<Rightarrow> subscription_key \<Rightarrow> stored_subscription \<Rightarrow> bool" where
  "controls_columns r key st \<longleftrightarrow>
     (case stored_controls st of
        ControlsIdle \<Rightarrow> head_execution_state (stored_head st) = Idle \<and>
          col_claimed_operation r = None \<and> col_attempt_id r = None \<and> col_lease_until r = None
      | ControlsRunning p \<Rightarrow> head_execution_state (stored_head st) = Running \<and>
          token_key (persisted_token p) = key \<and>
          col_claimed_operation r = Some (operation_as_str (token_operation (persisted_token p))) \<and>
          col_attempt_id r = Some (attempt_id_str (token_attempt_id (persisted_token p))) \<and>
          valid_text (attempt_id_str (token_attempt_id (persisted_token p))) \<and>
          length (attempt_id_str (token_attempt_id (persisted_token p))) \<le> 256 \<and>
          col_lease_until r = Some (uint (persisted_lease_until p)) \<and>
          operation_for_lifecycle (head_lifecycle_state (stored_head st))
            = Some (token_operation (persisted_token p)) \<and>
          head_next_attempt_at (stored_head st) \<noteq> None)"

lemma decode_controls_Inr:
  assumes "integer_columns r"
  shows "decode_controls key (stored_detail st) r = Inr (stored_controls st)
    \<longleftrightarrow> controls_columns r key st"
proof -
  have lease: "v \<le> i64_max" if "col_lease_until r = Some v" for v
    using assms that by (simp add: integer_columns_def)
  show ?thesis
  proof (cases "stored_controls st")
    case ControlsIdle
    then show ?thesis
      by (auto simp: decode_controls_def controls_columns_def and_then_Inr_iff
          split: execution_state.splits option.splits if_splits)
  next
    case (ControlsRunning p)
    show ?thesis
      using ControlsRunning lease
      by (cases p; cases "persisted_token p"; cases "token_attempt_id (persisted_token p)")
        (auto simp: decode_controls_def controls_columns_def and_then_Inr_iff checked_u64_Inr
          attempt_token_new_def
          split: execution_state.splits option.splits if_splits)
  qed
qed

lemma readable_columns:
  assumes "db_ok db"
  shows "readable sha db key st \<longleftrightarrow>
    (\<exists>r. find_row db key = Some r \<and> row_ok r \<and> detail_columns r (stored_detail st) \<and>
         detail_read sha (stored_detail st) \<and> controls_columns r key st)"
proof -
  have "row_ok r" if "find_row db key = Some r" for r
    using rows.lookup_valid [OF assms that] .
  moreover from this have "integer_columns r" if "find_row db key = Some r" for r
    using that by (simp add: row_ok_def)
  ultimately show ?thesis
    unfolding readable_def by (auto simp: try_into_detail_Inr decode_controls_Inr)
qed

lemma readable_key:
  assumes "db_ok db" and "readable sha db key st"
  shows "head_key (stored_head st) = key"
proof -
  obtain r where "find_row db key = Some r" and "head_columns r (stored_head st)"
    using assms readable_columns detail_columns_head by blast
  then show ?thesis
    using rows.lookup_key [of db key r]
    by (auto simp: head_columns_def row_key_def intro: subscription_key.equality)
qed

subsection \<open>Steps that leave the rows alone\<close>

lemma db_ok_rows: "db_rows db' = db_rows db \<Longrightarrow> db_ok db' = db_ok db"
  by (simp add: db_ok_def)

lemma find_row_rows: "db_rows db' = db_rows db \<Longrightarrow> find_row db' key = find_row db key"
  by (simp add: find_row_def)

lemma readable_rows: "db_rows db' = db_rows db \<Longrightarrow> readable sha db' key st = readable sha db key st"
  by (simp add: readable_def find_row_def)

lemma append_audit_Inr:
  assumes "append_execution_audit env entry db = Inr db'"
  shows "db_rows db' = db_rows db"
    and "\<exists>e. db_logs db' = db_logs db @ [e] \<and> log_action e = entry_action entry \<and>
           log_account_key e = entry_account_key entry \<and>
           log_target_id e = Some (entry_target_id entry) \<and> log_related e = entry_related entry"
  using assms by (auto simp: append_execution_audit_def Let_def and_then_Inr_iff)

lemma run_transaction_Inr:
  "run_transaction body db = (Inr x, db') \<longleftrightarrow> body db = Inr (x, db')"
  by (auto simp: run_transaction_def split: sum.splits)

lemma run_transaction_Inl:
  "run_transaction body db = (Inl e, db') \<longleftrightarrow> body db = Inl e \<and> db' = db"
  by (auto simp: run_transaction_def split: sum.splits)

lemma require_live_Inr:
  "require_live_attempt st token now = Inr cur \<longleftrightarrow>
     stored_controls st = ControlsRunning cur \<and> persisted_token cur = token \<and>
     now < persisted_lease_until cur"
  by (auto simp: require_live_attempt_def not_le split: execution_controls.splits)

lemma sql_execute_Inr:
  "sql_execute env n context result = Inr x \<longleftrightarrow> env_fault env n context = None \<and> result = Inr x"
  by (cases result) (auto simp: sql_execute_def and_then_Inr_iff sql_call_Inr)

lemma expect_exact_Inr [simp]: "expect_exact_attempt_update n c = Inr u \<longleftrightarrow> n = Suc 0"
  by (simp add: expect_exact_attempt_update_def)

lemma repository_integer_Inr [simp]:
  "repository_integer c v = Inr i \<longleftrightarrow> uint v \<le> i64_max \<and> i = uint v"
  by (simp add: repository_integer_def)

subsection \<open>One fenced step\<close>

text \<open>
  What a successful extend, finish, fail or release did: at the clock's \<open>now\<close> the row of
  the token's key was running exactly this attempt with a live lease; afterwards it is
  readable as \<open>post\<close> with the next revision, every other row is untouched, the table
  invariant holds, and one audit entry for the subject was appended.
\<close>

definition fenced_step ::
  "repo_env \<Rightarrow> execution_attempt_token \<Rightarrow> database \<Rightarrow> database \<Rightarrow> u64 \<Rightarrow> stored_subscription
    \<Rightarrow> persisted_attempt \<Rightarrow> stored_subscription \<Rightarrow> bool" where
  "fenced_step env token db db' now st cur post \<longleftrightarrow>
     env_clock env = Inr now \<and>
     readable (env_sha env) db (token_key token) st \<and>
     stored_controls st = ControlsRunning cur \<and> persisted_token cur = token \<and>
     now < persisted_lease_until cur \<and>
     readable (env_sha env) db' (token_key token) post \<and> db_ok db' \<and>
     (\<forall>j. j \<noteq> token_key token \<longrightarrow> find_row db' j = find_row db j) \<and>
     uint (revision_value (head_revision (stored_head post)))
       = uint (revision_value (head_revision (stored_head st))) + 1 \<and>
     (\<exists>e. db_logs db' = db_logs db @ [e] \<and> log_target_id e = Some (subject_id (token_key token)))"

lemma next_revision_Inr:
  "next_revision rv = Inr rv' \<Longrightarrow> uint (revision_value rv') = uint (revision_value rv) + 1"
  by (auto simp: next_revision_def and_then_Inr_iff split: option.splits if_splits
      dest: uint_checked_add)

lemma guarded_update:
  assumes "db_ok db" and "\<And>r. row_key (f r) = row_key r"
    and "keyed_update key p f db = Inr (Suc 0, db')"
  obtains r where "find_row db key = Some r" and "p r" and "find_row db' key = Some (f r)"
    and "row_ok (f r)" and "db_ok db'" and "\<forall>j. j \<noteq> key \<longrightarrow> find_row db' j = find_row db j"
    and "db_logs db' = db_logs db"
proof -
  obtain r where "find_row db key = Some r" "p r" "find_row db' key = Some (f r)" "row_ok (f r)"
      "db_ok db'"
    using rows.one_changed [OF assms] .
  moreover have "\<forall>j. j \<noteq> key \<longrightarrow> find_row db' j = find_row db j"
    using rows.update_other [OF assms(2,3)] by blast
  moreover have "db_logs db' = db_logs db"
    using keyed_update_Inr(1) [OF assms(3)] by simp
  ultimately show ?thesis by (rule that)
qed

lemma set_keeps_key [simp]:
  "row_key (claim_idle_set op a l n r) = row_key r"
  "row_key (reclaim_set op a l n r) = row_key r"
  "row_key (extend_set l n r) = row_key r"
  "row_key (release_set n r) = row_key r"
  "row_key (consume_set lc na rc rb tg n rec prj st r) = row_key r"
  by (simp_all add: row_key_def claim_idle_set_def reclaim_set_def extend_set_def release_set_def
      consume_set_def)

lemma fenced_stepI:
  assumes ok: "db_ok db" and clock: "env_clock env = Inr now"
    and load: "load_stored_subscription env 0 db (token_key token) = Inr st"
    and live: "require_live_attempt st token now = Inr cur"
    and upd: "keyed_update (token_key token) p f db = Inr (Suc 0, db1)"
    and key: "\<And>r. row_key (f r) = row_key r"
    and reload: "load_stored_subscription env (Suc 0) db1 (token_key token) = Inr post"
    and rev: "next_revision (head_revision (stored_head st)) = Inr (head_revision (stored_head post))"
    and audit: "append_execution_audit env (audit_entry (stored_detail post) now action text rel) db1 = Inr db'"
  shows "fenced_step env token db db' now st cur post"
proof -
  obtain r where r: "db_ok db1" "\<forall>j. j \<noteq> token_key token \<longrightarrow> find_row db1 j = find_row db j"
      "db_logs db1 = db_logs db"
    using guarded_update [OF ok key upd] by blast
  note logs = append_audit_Inr [OF audit]
  have post: "readable (env_sha env) db' (token_key token) post"
    using load_stored_readable [OF reload] readable_rows [OF logs(1)] by blast
  moreover have ok': "db_ok db'" using r(1) db_ok_rows [OF logs(1)] by blast
  moreover have "head_key (stored_head post) = token_key token"
    by (rule readable_key [OF ok' post])
  ultimately show ?thesis
    using clock load_stored_readable [OF load] live [unfolded require_live_Inr] r logs
      next_revision_Inr [OF rev] find_row_rows [OF logs(1)]
    by (auto simp: fenced_step_def audit_entry_def)
qed

lemma extend_lease_body_Inr:
  assumes "db_ok db" and "extend_lease_body env c db = Inr (x, db')"
  obtains now st cur post where "fenced_step env (extend_token c) db db' now st cur post"
    and "lease_boundary now (extend_lease_ttl c) = Inr (current_lease_until (extended_attempt x))"
    and "current_token (extended_attempt x) = extend_token c"
    and "persisted_lease_until cur < current_lease_until (extended_attempt x)"
    and "stored_controls post = ControlsRunning \<lparr>persisted_token = extend_token c,
           persisted_lease_until = current_lease_until (extended_attempt x)\<rparr>"
    and "head_lifecycle_state (stored_head post) = head_lifecycle_state (stored_head st)"
    and "verify_preserved_detail (stored_detail st) (stored_detail post) = Inr ()"
  using assms(2) unfolding extend_lease_body_def Let_def
  apply (clarsimp simp: sql_execute_Inr split: prod.splits if_splits execution_controls.splits)
  apply (rule that)
        apply (rule fenced_stepI [OF assms(1)], assumption+, simp, assumption+)
       apply (simp_all add: not_le persisted_attempt.equality)
  done

lemma release_body_Inr:
  assumes "db_ok db" and "release_body env c db = Inr (x, db')"
  obtains now st cur post where "fenced_step env (release_token c) db db' now st cur post"
    and "x = \<lparr>released_detail = stored_detail post, released_attempt = release_token c,
              released_at = now\<rparr>"
    and "stored_controls post = ControlsIdle"
    and "head_lifecycle_state (stored_head post) = head_lifecycle_state (stored_head st)"
    and "head_next_attempt_at (stored_head post) = head_next_attempt_at (stored_head st)"
    and "head_retry_count (stored_head post) = head_retry_count (stored_head st)"
    and "head_force_eligible_once (stored_head post) = head_force_eligible_once (stored_head st)"
    and "verify_preserved_detail (stored_detail st) (stored_detail post) = Inr ()"
  using assms(2) unfolding release_body_def Let_def
  apply (clarsimp simp: sql_execute_Inr split: prod.splits if_splits)
  apply (rule that)
         apply (rule fenced_stepI [OF assms(1)], assumption+, simp, assumption+)
  done

lemma finish_body_Inr:
  assumes "db_ok db" and "finish_body env c db = Inr (x, db')"
  obtains now st cur post merged p prj next_attempt where
    "fenced_step env (finish_token c) db db' now st cur post"
    and "x = \<lparr>finished_detail = stored_detail post, finished_attempt = finish_token c,
              finished_at = now\<rparr>"
    and "stored_controls post = ControlsIdle"
    and "apply_to_latest (env_sha env) (finish_delta c) (token_key (finish_token c))
           (det_payload (stored_detail st)) = Inr merged"
    and "p = clear_execution_issue (token_operation (finish_token c)) merged"
    and "payload_eq (det_payload (stored_detail post)) p"
    and "schedule_from_repository_now now (next_delay (finish_disposition c))
           = Inr (head_next_attempt_at (stored_head post))"
    and "head_lifecycle_state (stored_head post) = next_lifecycle (finish_disposition c)"
    and "head_retry_count (stored_head post) = 0"
    and "\<not> head_force_eligible_once (stored_head post)"
    and "sum_attention_tags (det_summary (stored_detail post))
           = finish_attention_tags (sum_attention_tags (det_summary (stored_detail st)))
               (finish_disposition c) (finish_delta c) p"
  using assms(2) unfolding finish_body_def Let_def
  apply (clarsimp simp: sql_execute_Inr verify_terminal_post_write_def Let_def
      split: prod.splits if_splits)
  apply (rule that)
            apply (rule fenced_stepI [OF assms(1)], assumption+, simp, assumption+)
          apply simp_all
  done

lemma fail_body_Inr:
  assumes "db_ok db" and "fail_body env c db = Inr (x, db')"
  obtains now st cur post merged p where
    "fenced_step env (fail_token c) db db' now st cur post"
    and "x = \<lparr>failed_detail = stored_detail post, failed_attempt = fail_token c, failed_at = now\<rparr>"
    and "stored_controls post = ControlsIdle"
    and "apply_to_latest (env_sha env) (fail_delta c) (token_key (fail_token c))
           (det_payload (stored_detail st)) = Inr merged"
    and "p = replace_execution_issue (token_operation (fail_token c)) (fail_error_type c)
               (fail_message c) now merged"
    and "payload_eq (det_payload (stored_detail post)) p"
    and "checked_add (head_retry_count (stored_head st)) 1
           = Some (head_retry_count (stored_head post))"
    and "head_max_retries (stored_head post) = head_max_retries (stored_head st)"
    and "head_lifecycle_state (stored_head post) = head_lifecycle_state (stored_head st)"
    and "(if head_retry_blocked (stored_head post) then Inr None
            else schedule_from_repository_now now (Some (fail_retry_after c)))
           = Inr (head_next_attempt_at (stored_head post))"
    and "\<not> head_force_eligible_once (stored_head post)"
    and "sum_attention_tags (det_summary (stored_detail post))
           = terminal_attention_tags (sum_attention_tags (det_summary (stored_detail st)))
               False True (head_retry_blocked (stored_head post))"
  using assms(2) unfolding fail_body_def Let_def
  apply (clarsimp simp: sql_execute_Inr verify_terminal_post_write_def Let_def
      verify_immutable_subscription_head_fields_def split: prod.splits split del: if_split)
  apply (rule that)
              apply (rule fenced_stepI [OF assms(1)], assumption+, simp, assumption+)
  apply (simp_all split del: if_split)
  done

section \<open>Fenced operations\<close>

text \<open>
  The attempt fence as an interface: what extend, finish, fail and release promise, what
  follows from the promise alone, and the interpretations on the model's operations.
\<close>

definition clock_in_range :: "repo_env \<Rightarrow> u64 \<Rightarrow> bool" where
  "clock_in_range env now \<longleftrightarrow> env_clock env = Inr now \<and> uint now \<le> i64_max"

lemma repository_integer_ok: "uint v \<le> i64_max \<Longrightarrow> repository_integer c v = Inr (uint v)"
  by simp

subsection \<open>The interface\<close>

locale fenced_operation =
  fixes operation :: "repo_env \<Rightarrow> 'c \<Rightarrow> database \<Rightarrow> 'r repository_result \<times> database"
    and token_of :: "'c \<Rightarrow> execution_attempt_token"
  assumes success: "db_ok db \<Longrightarrow> operation env c db = (Inr x, db') \<Longrightarrow>
      \<exists>now st cur post. fenced_step env (token_of c) db db' now st cur post"
    and rollback: "operation env c db = (Inl e, db') \<Longrightarrow> db' = db"
    and refused: "fault_free env \<Longrightarrow> clock_in_range env now \<Longrightarrow>
      readable (env_sha env) db (token_key (token_of c)) st \<Longrightarrow>
      require_live_attempt st (token_of c) now = Inl e \<Longrightarrow> operation env c db = (Inl e, db)"
begin

lemma preserves_ok: "db_ok db \<Longrightarrow> operation env c db = (y, db') \<Longrightarrow> db_ok db'"
  by (cases y) (auto simp: fenced_step_def dest!: rollback dest: success)

lemma frame:
  assumes "db_ok db" and "operation env c db = (y, db')" and "j \<noteq> token_key (token_of c)"
  shows "find_row db' j = find_row db j"
  using assms success [of db env c _ db'] rollback [of env c db _ db']
  by (cases y) (auto simp: fenced_step_def)

text \<open>Only the attempt the row holds, and only while its lease lasts.\<close>

lemma requires_live_owner:
  assumes "db_ok db" and "operation env c db = (Inr x, db')"
    and "readable (env_sha env) db (token_key (token_of c)) st" and "env_clock env = Inr now"
  shows "\<exists>cur. stored_controls st = ControlsRunning cur \<and> persisted_token cur = token_of c \<and>
           now < persisted_lease_until cur"
  using success [OF assms(1,2)] assms(3,4)
  by (auto simp: fenced_step_def dest: readable_unique)

lemma not_owner_stale:
  assumes "fault_free env" and "clock_in_range env now"
    and "readable (env_sha env) db (token_key (token_of c)) st"
    and "stored_controls st = ControlsRunning cur" and "persisted_token cur \<noteq> token_of c"
  shows "operation env c db = (Inl (StaleAttempt (token_of c) (Some (persisted_token cur))), db)"
  using assms by (intro refused) (auto simp: require_live_attempt_def)

lemma lease_over_expired:
  assumes "fault_free env" and "clock_in_range env now"
    and "readable (env_sha env) db (token_key (token_of c)) st"
    and "stored_controls st = ControlsRunning cur" and "persisted_token cur = token_of c"
    and "persisted_lease_until cur \<le> now"
  shows "operation env c db = (Inl (LeaseExpired (token_of c) (persisted_lease_until cur)), db)"
  using assms by (intro refused) (auto simp: require_live_attempt_def)

lemma idle_stale:
  assumes "fault_free env" and "clock_in_range env now"
    and "readable (env_sha env) db (token_key (token_of c)) st" and "stored_controls st = ControlsIdle"
  shows "operation env c db = (Inl (StaleAttempt (token_of c) None), db)"
  using assms by (intro refused) (auto simp: require_live_attempt_def)

end

text \<open>A terminal operation also consumes the attempt.\<close>

locale terminal_operation = fenced_operation +
  assumes consumed: "db_ok db \<Longrightarrow> operation env c db = (Inr x, db') \<Longrightarrow>
      \<exists>post. readable (env_sha env) db' (token_key (token_of c)) post \<and>
             stored_controls post = ControlsIdle"

interpretation extend: fenced_operation extend_lease extend_token
proof unfold_locales
  fix db env x db' and c :: extend_execution_lease_command
  assume "db_ok db" "extend_lease env c db = (Inr x, db')"
  then show "\<exists>now st cur post. fenced_step env (extend_token c) db db' now st cur post"
    unfolding extend_lease_def run_transaction_Inr by (elim extend_lease_body_Inr) blast+
next
  fix env db e db' and c :: extend_execution_lease_command
  show "extend_lease env c db = (Inl e, db') \<Longrightarrow> db' = db"
    by (simp add: extend_lease_def run_transaction_Inl)
next
  fix env now db st e and c :: extend_execution_lease_command
  assume "fault_free env" "clock_in_range env now"
    "readable (env_sha env) db (token_key (extend_token c)) st"
    "require_live_attempt st (extend_token c) now = Inl e"
  then show "extend_lease env c db = (Inl e, db)"
    by (simp add: extend_lease_def run_transaction_Inl extend_lease_body_def Let_def
        clock_in_range_def repository_integer_ok readable_load)
qed

interpretation release: terminal_operation release release_token
proof unfold_locales
  fix db env x db' and c :: release_execution_command
  assume *: "db_ok db" "release env c db = (Inr x, db')"
  then show "\<exists>now st cur post. fenced_step env (release_token c) db db' now st cur post"
    unfolding release_def run_transaction_Inr by (elim release_body_Inr) blast+
  from * show "\<exists>post. readable (env_sha env) db' (token_key (release_token c)) post \<and>
      stored_controls post = ControlsIdle"
    unfolding release_def run_transaction_Inr
    by (elim release_body_Inr) (auto simp: fenced_step_def)
next
  fix env db e db' and c :: release_execution_command
  show "release env c db = (Inl e, db') \<Longrightarrow> db' = db"
    by (simp add: release_def run_transaction_Inl)
next
  fix env now db st e and c :: release_execution_command
  assume "fault_free env" "clock_in_range env now"
    "readable (env_sha env) db (token_key (release_token c)) st"
    "require_live_attempt st (release_token c) now = Inl e"
  then show "release env c db = (Inl e, db)"
    by (simp add: release_def run_transaction_Inl release_body_def Let_def
        clock_in_range_def repository_integer_ok readable_load)
qed

interpretation finish: terminal_operation finish finish_token
proof unfold_locales
  fix db env x db' and c :: finish_execution_command
  assume *: "db_ok db" "finish env c db = (Inr x, db')"
  then show "\<exists>now st cur post. fenced_step env (finish_token c) db db' now st cur post"
    unfolding finish_def run_transaction_Inr by (elim finish_body_Inr) blast+
  from * show "\<exists>post. readable (env_sha env) db' (token_key (finish_token c)) post \<and>
      stored_controls post = ControlsIdle"
    unfolding finish_def run_transaction_Inr
    by (elim finish_body_Inr) (auto simp: fenced_step_def)
next
  fix env db e db' and c :: finish_execution_command
  show "finish env c db = (Inl e, db') \<Longrightarrow> db' = db"
    by (simp add: finish_def run_transaction_Inl)
next
  fix env now db st e and c :: finish_execution_command
  assume "fault_free env" "clock_in_range env now"
    "readable (env_sha env) db (token_key (finish_token c)) st"
    "require_live_attempt st (finish_token c) now = Inl e"
  then show "finish env c db = (Inl e, db)"
    by (simp add: finish_def run_transaction_Inl finish_body_def Let_def
        clock_in_range_def repository_integer_ok readable_load)
qed

interpretation failure: terminal_operation fail_execution fail_token
proof unfold_locales
  fix db env x db' and c :: fail_execution_command
  assume *: "db_ok db" "fail_execution env c db = (Inr x, db')"
  then show "\<exists>now st cur post. fenced_step env (fail_token c) db db' now st cur post"
    unfolding fail_execution_def run_transaction_Inr by (elim fail_body_Inr) blast+
  from * show "\<exists>post. readable (env_sha env) db' (token_key (fail_token c)) post \<and>
      stored_controls post = ControlsIdle"
    unfolding fail_execution_def run_transaction_Inr
    by (elim fail_body_Inr) (auto simp: fenced_step_def)
next
  fix env db e db' and c :: fail_execution_command
  show "fail_execution env c db = (Inl e, db') \<Longrightarrow> db' = db"
    by (simp add: fail_execution_def run_transaction_Inl)
next
  fix env now db st e and c :: fail_execution_command
  assume "fault_free env" "clock_in_range env now"
    "readable (env_sha env) db (token_key (fail_token c)) st"
    "require_live_attempt st (fail_token c) now = Inl e"
  then show "fail_execution env c db = (Inl e, db)"
    by (simp add: fail_execution_def run_transaction_Inl fail_body_def Let_def
        clock_in_range_def repository_integer_ok readable_load)
qed

end
