(* ===== verification/Claim_Properties.thy ===== *)
theory Claim_Properties
  imports Claim_Facts
begin

text \<open>
  Proofs about claiming: the allocation of an attempt identifier, what a persisted claim
  looks like, the agreement of the SQL candidate queries with the typed classification, and
  the completeness of a due scan.
\<close>

subsection \<open>Attempt identifiers\<close>

lemma set_attempt_ids: "a \<in> set (attempt_ids rows) \<longleftrightarrow> (\<exists>r \<in> set rows. col_attempt_id r = Some a)"
  by (induction rows) (auto simp: attempt_ids_def split: option.splits)

lemma attempt_ids_unique:
  "distinct (attempt_ids rows) \<Longrightarrow> r \<in> set rows \<Longrightarrow> r' \<in> set rows \<Longrightarrow>
     col_attempt_id r = Some a \<Longrightarrow> col_attempt_id r' = Some a \<Longrightarrow> r = r'"
proof (induction rows)
  case (Cons x xs)
  have "a \<notin> set (attempt_ids xs)" if "col_attempt_id x = Some a"
    using Cons.prems(1) that by (auto simp: attempt_ids_def)
  moreover have "distinct (attempt_ids xs)"
    using Cons.prems(1) by (auto simp: attempt_ids_def)
  ultimately show ?case
    using Cons by (auto simp: set_attempt_ids)
qed simp

lemma allocate_attempt_Some:
  "allocate_attempt env previous statement db ks = Inr (Some (a, db')) \<Longrightarrow>
     previous \<noteq> Some a \<and> statement a db = Inr (Inr (Suc 0, db'))"
proof (induction ks)
  case (Cons j ks)
  from Cons.prems obtain b where b: "env_attempt_id env j = Inr b"
    by auto
  show ?case
  proof (cases "previous = Some b")
    case True
    with Cons b show ?thesis by auto
  next
    case False
    with Cons.prems b obtain result where "statement b db = Inr result"
      and "result = Inr (Suc 0, db') \<and> a = b
           \<or> allocate_attempt env previous statement db ks = Inr (Some (a, db'))"
      by (auto split: if_splits sum.splits sql_constraint.splits)
    with Cons.IH False show ?thesis by auto
  qed
qed simp

lemma allocate_attempt_None:
  "allocate_attempt env previous statement db ks = Inr None \<Longrightarrow> k \<in> set ks \<Longrightarrow>
     \<exists>a. env_attempt_id env k = Inr a \<and>
         (previous = Some a \<or> statement a db = Inr (Inl AttemptNotUnique))"
proof (induction ks)
  case (Cons j ks)
  from Cons.prems(1) obtain a where a: "env_attempt_id env j = Inr a"
    by auto
  show ?case
  proof (cases "previous = Some a")
    case True
    with Cons a show ?thesis by auto
  next
    case False
    with Cons.prems(1) a have "statement a db = Inr (Inl AttemptNotUnique)"
      and "allocate_attempt env previous statement db ks = Inr None"
      by (auto split: if_splits sum.splits sql_constraint.splits)
    with Cons a show ?thesis by auto
  qed
qed simp

text \<open>A claim's statement, when it changed one row, used an identifier no row held.\<close>

lemma fresh_attempt:
  assumes ok: "db_ok db" and upd: "keyed_update key p f db = Inr (Suc 0, db')"
    and key: "\<And>r. row_key (f r) = row_key r" and new: "\<And>r. col_attempt_id (f r) = Some a"
    and old: "\<And>r. find_row db key = Some r \<Longrightarrow> p r \<Longrightarrow> col_attempt_id r \<noteq> Some a"
  shows "a \<notin> set (attempt_ids (db_rows db))"
proof
  assume "a \<in> set (attempt_ids (db_rows db))"
  then obtain r1 where r1: "r1 \<in> set (db_rows db)" "col_attempt_id r1 = Some a"
    by (auto simp: set_attempt_ids)
  obtain r where r: "find_row db key = Some r" "p r" "find_row db' key = Some (f r)" "db_ok db'"
      "\<forall>j. j \<noteq> key \<longrightarrow> find_row db' j = find_row db j"
    using guarded_update [OF ok key upd] by blast
  have "row_key r1 \<noteq> key"
    using find_row_unique [OF ok r1(1)] r old r1(2) by auto
  then have "find_row db' (row_key r1) = Some r1"
    using r(5) find_row_unique [OF ok r1(1)] by simp
  then have "r1 = f r"
    using attempt_ids_unique [of "db_rows db'" r1 "f r" a] r(3,4) r1(2) new
    by (auto simp: db_ok_def dest: find_row_Some)
  then have "row_key r1 = key"
    using key find_row_Some [OF r(1)] by simp
  with \<open>row_key r1 \<noteq> key\<close> show False by simp
qed

lemma lease_boundary_Inr:
  "lease_boundary now ttl = Inr lease \<Longrightarrow> uint lease = uint now + uint ttl \<and> uint lease \<le> i64_max"
  by (auto simp: lease_boundary_def split: option.splits if_splits dest: uint_checked_add)

lemma claim_statement_Inr:
  assumes ok: "db_ok db"
    and st: "claim_statement key rv op previous lease now attempt db = Inr (Inr (Suc 0, db'))"
    and fresh: "map_option (\<lambda>p. token_attempt_id (persisted_token p)) previous \<noteq> Some attempt"
  shows "db_ok db' \<and> (\<forall>j. j \<noteq> key \<longrightarrow> find_row db' j = find_row db j) \<and> db_logs db' = db_logs db \<and>
    attempt_id_str attempt \<notin> set (attempt_ids (db_rows db))"
proof (cases previous)
  case None
  with st have upd: "keyed_update key (claim_idle_guard rv)
      (claim_idle_set (operation_as_str op) (attempt_id_str attempt) lease now) db = Inr (Suc 0, db')"
    by (simp add: claim_statement_def Let_def)
  have "attempt_id_str attempt \<notin> set (attempt_ids (db_rows db))"
    by (rule fresh_attempt [OF ok upd]) (auto simp: claim_idle_set_def claim_idle_guard_def row_key_def)
  with guarded_update [OF ok _ upd] show ?thesis by auto
next
  case (Some prev)
  with st have upd: "keyed_update key
      (reclaim_guard rv (operation_as_str (token_operation (persisted_token prev)))
        (attempt_id_str (token_attempt_id (persisted_token prev))) (uint (persisted_lease_until prev)) now)
      (reclaim_set (operation_as_str op) (attempt_id_str attempt) lease now) db = Inr (Suc 0, db')"
    by (auto simp: claim_statement_def Let_def and_then_Inr_iff)
  have "attempt_id_str attempt \<notin> set (attempt_ids (db_rows db))"
    using fresh Some
    by (intro fresh_attempt [OF ok upd])
      (auto simp: reclaim_set_def reclaim_guard_def row_key_def dest: execution_attempt_id.expand)
  with guarded_update [OF ok _ upd] show ?thesis by auto
qed

subsection \<open>A persisted claim\<close>

text \<open>
  What a successful claim did: the claimed row is readable with a running attempt that
  carries the token the caller got, the identifier was held by no row before, the lease
  ends \<open>ttl\<close> after \<open>now\<close>, the payload is the stored one, and nothing else changed.
\<close>

definition claim_step ::
  "repo_env \<Rightarrow> database \<Rightarrow> database \<Rightarrow> u64 \<Rightarrow> u64 \<Rightarrow> stored_subscription \<Rightarrow> claim_eligibility
    \<Rightarrow> claimed_subscription \<Rightarrow> bool" where
  "claim_step env db db' now ttl st eligibility claimed \<longleftrightarrow>
     (let key = head_key (stored_head st); token = current_token (claimed_attempt claimed) in
      readable (env_sha env) db' key
        \<lparr>stored_detail = claimed_detail claimed,
         stored_controls = ControlsRunning
           \<lparr>persisted_token = token,
            persisted_lease_until = current_lease_until (claimed_attempt claimed)\<rparr>\<rparr> \<and>
      token_key token = key \<and> token_operation token = eligibility_operation eligibility \<and>
      attempt_id_str (token_attempt_id token) \<notin> set (attempt_ids (db_rows db)) \<and>
      uint (current_lease_until (claimed_attempt claimed)) = uint now + uint ttl \<and>
      revision_value (head_revision (det_head (claimed_detail claimed)))
        = revision_value (head_revision (stored_head st)) + 1 \<and>
      payload_eq (det_payload (claimed_detail claimed)) (det_payload (stored_detail st)) \<and>
      claimed_replaced claimed
        = map_option (\<lambda>p. \<lparr>expired_token = persisted_token p,
                           expired_lease_until = persisted_lease_until p\<rparr>)
            (eligibility_previous eligibility) \<and>
      db_ok db' \<and> (\<forall>j. j \<noteq> key \<longrightarrow> find_row db' j = find_row db j) \<and>
      (\<exists>e. db_logs db' = db_logs db @ [e] \<and> log_target_id e = Some (subject_id key)))"

lemma persist_claim_Inr:
  assumes ok: "db_ok db"
    and pc: "persist_claim env st eligibility trigger now ttl db = Inr (claimed, db')"
  shows "claim_step env db db' now ttl st eligibility claimed"
proof -
  let ?key = "head_key (stored_head st)"
  obtain lease attempt db1 post persisted where
      lease: "lease_boundary now ttl = Inr lease"
    and alloc: "allocate_attempt env
        (map_option (\<lambda>p. token_attempt_id (persisted_token p)) (eligibility_previous eligibility))
        (claim_statement ?key (uint (revision_value (head_revision (stored_head st))))
          (eligibility_operation eligibility) (eligibility_previous eligibility) (uint lease) (uint now))
        db [0..<max_attempt_id_attempts] = Inr (Some (attempt, db1))"
    and post: "load_stored_subscription env 1 db1 ?key = Inr post"
    and rv: "revision_value (head_revision (stored_head post))
        = revision_value (head_revision (stored_head st)) + 1"
    and pl: "payload_eq (det_payload (stored_detail post)) (det_payload (stored_detail st))"
    and ctl: "stored_controls post = ControlsRunning persisted"
    and aid: "token_attempt_id (persisted_token persisted) = attempt"
    and op: "token_operation (persisted_token persisted) = eligibility_operation eligibility"
    and lu: "persisted_lease_until persisted = lease"
    and new: "claimed_subscription_try_new (stored_detail post)
        \<lparr>current_token = persisted_token persisted, current_lease_until = lease\<rparr>
        (map_option (\<lambda>p. \<lparr>expired_token = persisted_token p,
           expired_lease_until = persisted_lease_until p\<rparr>) (eligibility_previous eligibility))
        = Inr claimed"
    and audit: "append_claim_audit env claimed (eligibility_previous eligibility) trigger
        (eligibility_label eligibility) now db1 = Inr db'"
    using pc unfolding persist_claim_def Let_def
    by (clarsimp split: prod.splits if_split_asm execution_controls.splits)
  note stmt = allocate_attempt_Some [OF alloc]
  have db1: "db_ok db1" "\<forall>j. j \<noteq> ?key \<longrightarrow> find_row db1 j = find_row db j"
      "db_logs db1 = db_logs db" "attempt_id_str attempt \<notin> set (attempt_ids (db_rows db))"
    using claim_statement_Inr [OF ok] stmt by blast+
  note log = append_audit_Inr [OF audit [unfolded append_claim_audit_def Let_def]]
  have c: "claimed_detail claimed = stored_detail post"
      "current_token (claimed_attempt claimed) = persisted_token persisted"
      "current_lease_until (claimed_attempt claimed) = lease"
      "claimed_replaced claimed
        = map_option (\<lambda>p. \<lparr>expired_token = persisted_token p,
             expired_lease_until = persisted_lease_until p\<rparr>) (eligibility_previous eligibility)"
      "token_key (persisted_token persisted) = head_key (stored_head post)"
    using new by (auto simp: claimed_subscription_try_new_Inr)
  have r1: "readable (env_sha env) db1 ?key post" by (rule load_stored_readable [OF post])
  have hk: "head_key (stored_head post) = ?key" by (rule readable_key [OF db1(1) r1])
  have pers: "\<lparr>persisted_token = persisted_token persisted, persisted_lease_until = lease\<rparr> = persisted"
    using lu by (cases persisted) simp
  have eq: "\<lparr>stored_detail = stored_detail post, stored_controls = ControlsRunning persisted\<rparr> = post"
    using ctl by (cases post) simp
  show ?thesis
    unfolding claim_step_def Let_def c pers eq
    using r1 readable_rows [OF log(1)] hk op aid db1 lease_boundary_Inr [OF lease] rv pl c log
      db_ok_rows [OF log(1)] find_row_rows [OF log(1)]
    by (auto simp: audit_entry_def)
qed

subsection \<open>The SQL queries and the typed classification\<close>

lemma select_first_Some:
  assumes "select_first k p db = Some r"
  shows "r \<in> set (db_rows db)" and "p r" and "r' \<in> set (db_rows db) \<Longrightarrow> p r' \<Longrightarrow> k r \<le> k r'"
proof -
  obtain rs where rs: "sort_key k (filter p (db_rows db)) = r # rs"
    using assms by (auto simp: select_first_def split: list.splits)
  then have members: "set (r # rs) = {r \<in> set (db_rows db). p r}"
    by (metis set_sort set_filter)
  then show "r \<in> set (db_rows db)" and "p r" by auto
  have "sorted (map k (r # rs))"
    using rs by (metis sorted_sort_key)
  then show "k r \<le> k r'" if "r' \<in> set (db_rows db)" "p r'"
    using that members by auto
qed

lemma select_first_None: "select_first k p db = None \<longleftrightarrow> (\<forall>r \<in> set (db_rows db). \<not> p r)"
proof -
  have "sort_key k (filter p (db_rows db)) = [] \<longleftrightarrow> (\<forall>r \<in> set (db_rows db). \<not> p r)"
    by (metis filter_empty_conv set_empty set_sort)
  then show ?thesis
    by (auto simp: select_first_def split: list.splits)
qed

fun branch_where :: "candidate_branch \<Rightarrow> string \<Rightarrow> int \<Rightarrow> wanted_row \<Rightarrow> bool" where
  "branch_where BranchExpired account now r = expired_where account now r"
| "branch_where BranchForced account now r = force_where account r"
| "branch_where BranchNormal account now r = due_where account now r"

lemma branch_candidate_Some:
  "branch_candidate b account now db = Some r \<Longrightarrow>
     r \<in> set (db_rows db) \<and> branch_where b account now r"
  by (cases b) (auto simp: expired_candidate_def force_candidate_def due_candidate_def
      dest: select_first_Some)

lemma branch_candidate_None:
  "branch_candidate b account now db = None \<longleftrightarrow>
     (\<forall>r \<in> set (db_rows db). \<not> branch_where b account now r)"
  by (cases b) (simp_all add: expired_candidate_def force_candidate_def due_candidate_def
      select_first_None)

lemma attention_tag_label_inj [simp]: "attention_tag_label a = attention_tag_label b \<longleftrightarrow> a = b"
  by (cases a; cases b) simp_all

lemma skipped_label: "''skipped'' = attention_tag_label t \<longleftrightarrow> t = Skipped"
  by (cases t) simp_all

lemma tags_contain_Json [simp]: "tags_contain ''skipped'' (Json tags) \<longleftrightarrow> Skipped \<in> set tags"
  by (auto simp: tags_contain_def skipped_label)

lemma skip_reason_Json [simp]: "skip_reason_is_null (Json p) \<longleftrightarrow> pl_skip_reason p = None"
  by (simp add: skip_reason_is_null_def)

lemma opt_le_uint: "opt_le (map_option uint v) (uint n) \<longleftrightarrow> (\<exists>w. v = Some w \<and> w \<le> n)"
  by (cases v) (simp_all add: opt_le_def word_le_def)

lemma label_literals [simp]:
  "execution_as_str e = ''running'' \<longleftrightarrow> e = Running" "execution_as_str e = ''idle'' \<longleftrightarrow> e = Idle"
  "lifecycle_as_str l = ''completed'' \<longleftrightarrow> l = Completed"
  by ((cases e; simp), (cases e; simp), (cases l; simp))

lemma classify_readable:
  assumes "db_ok db" and "readable sha db key st" and "find_row db key = Some r"
  shows classify_total: "\<exists>c. classify st now = Inr c"
    and branch_agrees: "branch_where b (account_key key) (uint now) r \<longleftrightarrow>
           (\<exists>e. classify st now = Inr (Eligible e) \<and> branch_matches b e)"
proof -
  let ?h = "stored_head st"
  have cols: "detail_columns r (stored_detail st)" and wf: "head_wf ?h"
    and ctl: "controls_columns r key st"
    using assms(2,3) unfolding readable_columns [OF assms(1)]
    by (auto simp: detail_read_def detail_wf_def)
  have acct: "col_account_key r = account_key key"
    using find_row_Some [OF assms(3)] by (auto simp: row_key_def)
  have col: "col_active r = of_bool (head_active ?h)"
      "col_schedulable r = of_bool (head_schedulable ?h)"
      "col_blocked_reason r = map_option blocked_reason_str (head_blocked_reason ?h)"
      "col_lifecycle_state r = lifecycle_as_str (head_lifecycle_state ?h)"
      "col_execution_state r = execution_as_str (head_execution_state ?h)"
      "col_next_attempt_at r = map_option uint (head_next_attempt_at ?h)"
      "col_retry_blocked r = of_bool (head_retry_blocked ?h)"
      "col_force_eligible_once r = of_bool (head_force_eligible_once ?h)"
      "col_attention_tags_json r = Json (sum_attention_tags (det_summary (stored_detail st)))"
      "col_record_json r = Json (det_payload (stored_detail st))"
    using cols by (simp_all add: detail_columns_def summary_columns_def head_columns_def)
  have blocked: "head_schedulable ?h \<longleftrightarrow> head_blocked_reason ?h = None"
    and running: "head_execution_state ?h = Running \<Longrightarrow>
        head_active ?h \<and> head_schedulable ?h \<and> head_lifecycle_state ?h \<noteq> Completed"
    and due: "head_next_attempt_at ?h \<noteq> None \<Longrightarrow>
        head_active ?h \<and> head_schedulable ?h \<and> head_lifecycle_state ?h \<noteq> Completed"
    and force: "head_force_eligible_once ?h \<Longrightarrow> head_next_attempt_at ?h \<noteq> None"
    using wf by (auto simp: head_wf_def)
  obtain op where op: "head_lifecycle_state ?h \<noteq> Completed \<Longrightarrow>
      operation_for_lifecycle (head_lifecycle_state ?h) = Some op"
    by (cases "operation_for_lifecycle (head_lifecycle_state ?h)") auto
  have "(\<exists>c. classify st now = Inr c) \<and> (branch_where b (account_key key) (uint now) r \<longleftrightarrow>
      (\<exists>e. classify st now = Inr (Eligible e) \<and> branch_matches b e))"
  proof (cases "stored_controls st")
    case ControlsIdle
    then have idle: "head_execution_state ?h = Idle"
      using ctl by (simp add: controls_columns_def)
    show ?thesis
    proof (cases "head_active ?h \<and> head_schedulable ?h \<and> head_lifecycle_state ?h \<noteq> Completed")
      case True
      then show ?thesis
        using idle ControlsIdle op blocked force
        by (cases b; cases "head_next_attempt_at ?h")
          (auto simp: classify_def Let_def expired_where_def force_where_def due_where_def col acct
            opt_le_uint not_less, simp_all add: opt_le_def word_le_def word_less_def)
    next
      case False
      then have "head_next_attempt_at ?h = None" using due by blast
      with False show ?thesis
        using idle ControlsIdle blocked force
        by (cases b; cases "head_blocked_reason ?h")
          (auto simp: classify_def Let_def expired_where_def force_where_def due_where_def col acct
            opt_le_def)
    qed
  next
    case (ControlsRunning p)
    then have run: "head_execution_state ?h = Running"
        "col_lease_until r = Some (uint (persisted_lease_until p))"
        "operation_for_lifecycle (head_lifecycle_state ?h) = Some (token_operation (persisted_token p))"
      using ctl by (simp_all add: controls_columns_def)
    with running show ?thesis
      using ControlsRunning
      by (cases b) (auto simp: classify_def Let_def expired_where_def force_where_def due_where_def
          col acct opt_le_def word_le_def word_less_def)
  qed
  then show "\<exists>c. classify st now = Inr c"
    and "branch_where b (account_key key) (uint now) r \<longleftrightarrow>
      (\<exists>e. classify st now = Inr (Eligible e) \<and> branch_matches b e)"
    by blast+
qed

subsection \<open>The due scan\<close>

lemma find_row_key:
  "db_ok db \<Longrightarrow> r \<in> set (db_rows db) \<Longrightarrow> col_account_key r = account \<Longrightarrow>
     find_row db \<lparr>account_key = account, subject_id = col_subject_id r\<rparr> = Some r"
  using find_row_unique [of db r] by (simp add: row_key_def)

lemma branch_where_account: "branch_where b account now r \<Longrightarrow> col_account_key r = account"
  by (cases b) (simp_all add: expired_where_def force_where_def due_where_def)

text \<open>The branches before the one an eligibility belongs to.\<close>

fun earlier_branches :: "claim_eligibility \<Rightarrow> candidate_branch list" where
  "earlier_branches (EligExpired _) = []"
| "earlier_branches (EligForced _) = [BranchExpired]"
| "earlier_branches (EligNormal _) = [BranchExpired, BranchForced]"

lemma select_branches_Some:
  assumes "select_branches env db account now now_sql bs = Inr (Some (st, e))"
  obtains pre b post r key where "bs = pre @ b # post"
    and "\<forall>b' \<in> set pre. branch_candidate b' account now_sql db = None"
    and "branch_candidate b account now_sql db = Some r"
    and "subscription_key_try_new account (col_subject_id r) = Inr key"
    and "load_stored_subscription env 0 db key = Inr st"
    and "classify st now = Inr (Eligible e)" and "branch_matches b e"
  using assms
proof (induction bs arbitrary: thesis)
  case (Cons b bs)
  show ?case
  proof (cases "branch_candidate b account now_sql db")
    case None
    with Cons.prems(2) have "select_branches env db account now now_sql bs = Inr (Some (st, e))"
      by auto
    from Cons.IH [OF _ this] obtain pre b' post r key where
      "bs = pre @ b' # post" "\<forall>b' \<in> set pre. branch_candidate b' account now_sql db = None"
      "branch_candidate b' account now_sql db = Some r"
      "subscription_key_try_new account (col_subject_id r) = Inr key"
      "load_stored_subscription env 0 db key = Inr st"
      "classify st now = Inr (Eligible e)" "branch_matches b' e"
      by blast
    with None show ?thesis by (intro Cons.prems(1) [of "b # pre" b' post r key]) auto
  next
    case (Some r)
    with Cons.prems(2) show ?thesis
      by (auto split: classification.splits if_splits intro!: Cons.prems(1) [of "[]" b bs r])
  qed
qed simp

lemma select_branches_None:
  "select_branches env db account now now_sql bs = Inr None \<Longrightarrow> b \<in> set bs \<Longrightarrow>
     branch_candidate b account now_sql db = None"
  by (induction bs)
    (auto split: option.splits classification.splits if_splits)

lemma three_branches:
  assumes "[BranchExpired, BranchForced, BranchNormal] = pre @ b # post" and "branch_matches b e"
  shows "pre = earlier_branches e"
  using assms by (cases pre; cases e; cases b) (auto simp: Cons_eq_append_conv)

lemma select_due_Some:
  assumes ok: "db_ok db" and sel: "select_due_candidate env db account now (uint now) = Inr (Some (st, e))"
  obtains b r where "readable (env_sha env) db (head_key (stored_head st)) st"
    and "account_key (head_key (stored_head st)) = account"
    and "classify st now = Inr (Eligible e)" and "branch_matches b e"
    and "find_row db (head_key (stored_head st)) = Some r"
    and "branch_candidate b account (uint now) db = Some r"
    and "\<forall>b' \<in> set (earlier_branches e). \<forall>x \<in> set (db_rows db). \<not> branch_where b' account (uint now) x"
proof -
  obtain pre b post r key where sb:
      "[BranchExpired, BranchForced, BranchNormal] = pre @ b # post"
      "\<forall>b' \<in> set pre. branch_candidate b' account (uint now) db = None"
      "branch_candidate b account (uint now) db = Some r"
      "subscription_key_try_new account (col_subject_id r) = Inr key"
      "load_stored_subscription env 0 db key = Inr st"
      "classify st now = Inr (Eligible e)" "branch_matches b e"
    using select_branches_Some [OF sel [unfolded select_due_candidate_def]] by metis
  note rd = load_stored_readable [OF sb(5)]
  have key: "head_key (stored_head st) = key" by (rule readable_key [OF ok rd])
  note r = branch_candidate_Some [OF sb(3)]
  have "find_row db key = Some r"
    using find_row_key [OF ok _ branch_where_account] r sb(4) by auto
  with that [of b r] rd key sb three_branches [OF sb(1,7)] show ?thesis
    by (auto simp: branch_candidate_None)
qed

text \<open>
  When every row of the account is readable and no call faults, the scan cannot fail: the
  branches of the code that report an index and a row at odds are never taken.
\<close>

lemma select_branches_total:
  assumes ok: "db_ok db" and ff: "fault_free env"
    and all: "\<And>r. r \<in> set (db_rows db) \<Longrightarrow> col_account_key r = account \<Longrightarrow>
       \<exists>st. readable (env_sha env) db (row_key r) st"
  shows "\<exists>x. select_branches env db account now (uint now) bs = Inr x"
proof (induction bs)
  case (Cons b bs)
  show ?case
  proof (cases "branch_candidate b account (uint now) db")
    case None
    with Cons ff show ?thesis by simp
  next
    case (Some r)
    note r = branch_candidate_Some [OF Some]
    then have acct: "col_account_key r = account" by (auto dest: branch_where_account)
    then obtain st where st: "readable (env_sha env) db (row_key r) st" using all r by blast
    have key: "row_key r = \<lparr>account_key = account, subject_id = col_subject_id r\<rparr>"
      using acct by (simp add: row_key_def)
    have found: "find_row db (row_key r) = Some r" using find_row_unique [OF ok] r by blast
    have "valid_text account \<and> valid_text (col_subject_id r)"
      using st found acct unfolding readable_columns [OF ok]
      by (auto simp: detail_read_def detail_wf_def detail_columns_def summary_columns_def
          head_columns_def)
    then have key_ok: "subscription_key_try_new account (col_subject_id r) = Inr (row_key r)"
      by (simp add: key)
    obtain e where "classify st now = Inr (Eligible e)" "branch_matches b e"
      using branch_agrees [OF ok st found, of b now] r by (auto simp: key)
    then show ?thesis
      using Some ff by (simp add: key_ok readable_load [OF ff st] del: subscription_key_try_new_Inr)
  qed
qed simp

end
