(* ===== verification/Claim_History.thy ===== *)
theory Claim_History
  imports Claim_Properties
begin

text \<open>
  Histories of the execution store: the six transactions as one step relation over the
  database, what any step does to any row, and what holds along every sequence of steps,
  whatever clock, identifiers and faults each step meets.
\<close>

datatype store_operation =
    ClaimDue claim_due_command
  | ClaimOne claim_one_command
  | ExtendLease extend_execution_lease_command
  | FinishAttempt finish_execution_command
  | FailAttempt fail_execution_command
  | ReleaseAttempt release_execution_command

fun run_operation :: "repo_env \<Rightarrow> store_operation \<Rightarrow> database \<Rightarrow> database" where
  "run_operation env (ClaimDue c) db = snd (claim_due env c db)"
| "run_operation env (ClaimOne c) db = snd (claim_one env c db)"
| "run_operation env (ExtendLease c) db = snd (extend_lease env c db)"
| "run_operation env (FinishAttempt c) db = snd (finish env c db)"
| "run_operation env (FailAttempt c) db = snd (fail_execution env c db)"
| "run_operation env (ReleaseAttempt c) db = snd (release env c db)"

text \<open>The token an operation presents; a claim presents none.\<close>

fun presented_token :: "store_operation \<Rightarrow> execution_attempt_token option" where
  "presented_token (ClaimDue c) = None"
| "presented_token (ClaimOne c) = None"
| "presented_token (ExtendLease c) = Some (extend_token c)"
| "presented_token (FinishAttempt c) = Some (finish_token c)"
| "presented_token (FailAttempt c) = Some (fail_token c)"
| "presented_token (ReleaseAttempt c) = Some (release_token c)"

inductive store_step :: "database \<Rightarrow> database \<Rightarrow> bool" where
  operation: "store_step db (run_operation env op db)"

inductive_cases store_stepE: "store_step db db'"

subsection \<open>What a step does to a row\<close>

definition row_step :: "subscription_key \<Rightarrow> database \<Rightarrow> database \<Rightarrow> bool" where
  "row_step key db db' \<longleftrightarrow>
     db_ok db' \<and>
     (\<exists>r r'. find_row db key = Some r \<and> find_row db' key = Some r' \<and>
        col_revision r' = col_revision r + 1) \<and>
     (\<forall>j. j \<noteq> key \<longrightarrow> find_row db' j = find_row db j) \<and>
     (\<exists>e. db_logs db' = db_logs db @ [e] \<and> log_target_id e = Some (subject_id key))"

lemma readable_row:
  assumes "db_ok db" and "readable sha db key st"
  obtains r where "find_row db key = Some r" and "row_ok r"
    and "col_revision r = uint (revision_value (head_revision (stored_head st)))"
  using assms unfolding readable_columns [OF assms(1)]
  by (auto simp: detail_columns_def summary_columns_def head_columns_def)

lemma fenced_row_step:
  assumes ok: "db_ok db" and step: "fenced_step env token db db' now st cur post"
  shows "row_step (token_key token) db db'"
proof -
  from step have st: "readable (env_sha env) db (token_key token) st"
    and post: "readable (env_sha env) db' (token_key token) post" and ok': "db_ok db'"
    by (simp_all add: fenced_step_def)
  obtain r where r: "find_row db (token_key token) = Some r"
      "col_revision r = uint (revision_value (head_revision (stored_head st)))"
    by (rule readable_row [OF ok st])
  obtain r' where r': "find_row db' (token_key token) = Some r'"
      "col_revision r' = uint (revision_value (head_revision (stored_head post)))"
    by (rule readable_row [OF ok' post])
  show ?thesis
    using step r r' ok' unfolding row_step_def fenced_step_def by auto
qed

lemma uint_word_succ: "uint w \<le> i64_max \<Longrightarrow> uint (w + 1 :: u64) = uint w + 1"
  by (simp add: uint_word_ariths i64_max_def)

lemma claim_row_step:
  assumes ok: "db_ok db" and st: "readable sha db (head_key (stored_head st)) st"
    and step: "claim_step env db db' now ttl st e claimed"
  shows "row_step (head_key (stored_head st)) db db'"
proof -
  let ?key = "head_key (stored_head st)"
  from step obtain post where post: "readable (env_sha env) db' ?key post"
      and rv: "revision_value (head_revision (stored_head post))
        = revision_value (head_revision (stored_head st)) + 1"
      and ok': "db_ok db'"
    by (fastforce simp: claim_step_def Let_def)
  obtain r where r: "find_row db ?key = Some r" "row_ok r"
      "col_revision r = uint (revision_value (head_revision (stored_head st)))"
    by (rule readable_row [OF ok st])
  obtain r' where r': "find_row db' ?key = Some r'"
      "col_revision r' = uint (revision_value (head_revision (stored_head post)))"
    by (rule readable_row [OF ok' post])
  have "col_revision r' = col_revision r + 1"
    using r r' rv uint_word_succ by (simp add: row_ok_def integer_columns_def)
  with step r r' ok' show ?thesis
    unfolding row_step_def claim_step_def Let_def by auto
qed

subsection \<open>Claims\<close>

lemma select_metadata_Some:
  assumes ok: "db_ok db" and sel: "select_metadata_candidate env db account now_sql = Inr (Some (st, e))"
  obtains r where "readable (env_sha env) db (head_key (stored_head st)) st"
    and "metadata_candidate account now_sql db = Some r"
    and "find_row db (head_key (stored_head st)) = Some r"
    and "e = (case stored_controls st of ControlsRunning previous \<Rightarrow> EligExpired previous
              | ControlsIdle \<Rightarrow> EligNormal OpMeta)"
proof -
  obtain r where r: "metadata_candidate account now_sql db = Some r"
      "load_stored_subscription env 0 db \<lparr>account_key = account, subject_id = col_subject_id r\<rparr> = Inr st"
      "e = (case stored_controls st of ControlsRunning previous \<Rightarrow> EligExpired previous
            | ControlsIdle \<Rightarrow> EligNormal OpMeta)"
    using sel by (auto simp: select_metadata_candidate_def traverse_opt_Inr_iff and_then_Inr_iff)
  let ?key = "\<lparr>account_key = account, subject_id = col_subject_id r\<rparr>"
  note rd = load_stored_readable [OF r(2)]
  have key: "head_key (stored_head st) = ?key" by (rule readable_key [OF ok rd])
  have "r \<in> set (db_rows db)" "metadata_where account now_sql r"
    using select_first_Some [of due_order "metadata_where account now_sql" db r] r(1)
    by (simp_all add: metadata_candidate_def)
  then have "find_row db ?key = Some r"
    by (intro find_row_key [OF ok]) (simp_all add: metadata_where_def)
  with that [of r] rd key r show ?thesis by simp
qed

text \<open>A successful claim is a \<open>claim_step\<close> on the selected row.\<close>

lemma claim_due_Inr:
  assumes ok: "db_ok db" and run: "claim_due env c db = (Inr (Some claimed), db')"
  obtains now st e where "env_clock env = Inr now"
    and "if cdue_metadata_only c
         then select_metadata_candidate env db (cdue_account_key c) (uint now) = Inr (Some (st, e))
         else select_due_candidate env db (cdue_account_key c) now (uint now) = Inr (Some (st, e))"
    and "readable (env_sha env) db (head_key (stored_head st)) st"
    and "claim_step env db db' now (cdue_lease_ttl c) st e claimed"
proof -
  obtain now st e where *: "env_clock env = Inr now"
      "if cdue_metadata_only c
         then select_metadata_candidate env db (cdue_account_key c) (uint now) = Inr (Some (st, e))
         else select_due_candidate env db (cdue_account_key c) now (uint now) = Inr (Some (st, e))"
      "persist_claim env st e DueScan now (cdue_lease_ttl c) db = Inr (claimed, db')"
    using run unfolding claim_due_def run_transaction_Inr claim_due_body_def
    by (auto split: option.splits if_splits)
  have "readable (env_sha env) db (head_key (stored_head st)) st"
    using *(2) by (auto elim: select_metadata_Some [OF ok] select_due_Some [OF ok] split: if_splits)
  with that * persist_claim_Inr [OF ok *(3)] show ?thesis by blast
qed

lemma claim_due_None: "claim_due env c db = (Inr None, db') \<Longrightarrow> db' = db"
  unfolding claim_due_def run_transaction_Inr claim_due_body_def
  by (auto split: option.splits)

lemma claim_one_Inr:
  assumes ok: "db_ok db" and run: "claim_one env c db = (Inr (Claimed claimed), db')"
  obtains now st e where "env_clock env = Inr now"
    and "readable (env_sha env) db (cone_key c) st" and "head_key (stored_head st) = cone_key c"
    and "classify st now = Inr (Eligible e)"
    and "claim_step env db db' now (cone_lease_ttl c) st e claimed"
proof -
  obtain now st e where *: "env_clock env = Inr now"
      "load_stored_subscription env 0 db (cone_key c) = Inr st" "classify st now = Inr (Eligible e)"
      "persist_claim env st e Manual now (cone_lease_ttl c) db = Inr (claimed, db')"
    using run unfolding claim_one_def run_transaction_Inr claim_one_body_def
    by (auto split: classification.splits)
  note rd = load_stored_readable [OF *(2)]
  from that * rd readable_key [OF ok rd] persist_claim_Inr [OF ok *(4)] show ?thesis by blast
qed

lemma claim_one_Rejected: "claim_one env c db = (Inr (Rejected x), db') \<Longrightarrow> db' = db"
  unfolding claim_one_def run_transaction_Inr claim_one_body_def
  by (auto split: classification.splits)

lemma claim_rollback:
  "claim_due env c db = (Inl e, db') \<Longrightarrow> db' = db"
  "claim_one env d db = (Inl e, db') \<Longrightarrow> db' = db"
  by (simp_all add: claim_due_def claim_one_def run_transaction_Inl)

lemma claim_one_row_step:
  assumes ok: "db_ok db" and run: "claim_one env c db = (Inr (Claimed claimed), db')"
  shows "row_step (cone_key c) db db'"
  by (rule claim_one_Inr [OF ok run]) (metis claim_row_step [OF ok])

lemma operation_effect:
  assumes ok: "db_ok db"
  shows "run_operation env op db = db \<or> (\<exists>key. row_step key db (run_operation env op db))"
proof (cases op)
  case (ClaimDue c)
  obtain y db' where run: "claim_due env c db = (y, db')" by fastforce
  show ?thesis
  proof (cases y)
    case (Inl e)
    with run ClaimDue claim_rollback(1) show ?thesis by simp
  next
    case (Inr x)
    with run ClaimDue show ?thesis
      by (cases x) (auto dest: claim_due_None elim!: claim_due_Inr [OF ok] dest: claim_row_step [OF ok])
  qed
next
  case (ClaimOne c)
  obtain y db' where run: "claim_one env c db = (y, db')" by fastforce
  show ?thesis
  proof (cases y)
    case (Inl e)
    with run ClaimOne claim_rollback(2) show ?thesis by simp
  next
    case (Inr x)
    with run ClaimOne show ?thesis
      by (cases x) (auto dest: claim_one_Rejected claim_one_row_step [OF ok])
  qed
next
  case (ExtendLease c)
  obtain y db' where "extend_lease env c db = (y, db')" by fastforce
  with ExtendLease show ?thesis
    by (cases y) (auto dest!: extend.rollback extend.success [OF ok] dest: fenced_row_step [OF ok])
next
  case (FinishAttempt c)
  obtain y db' where "finish env c db = (y, db')" by fastforce
  with FinishAttempt show ?thesis
    by (cases y) (auto dest!: finish.rollback finish.success [OF ok] dest: fenced_row_step [OF ok])
next
  case (FailAttempt c)
  obtain y db' where "fail_execution env c db = (y, db')" by fastforce
  with FailAttempt show ?thesis
    by (cases y) (auto dest!: failure.rollback failure.success [OF ok] dest: fenced_row_step [OF ok])
next
  case (ReleaseAttempt c)
  obtain y db' where "release env c db = (y, db')" by fastforce
  with ReleaseAttempt show ?thesis
    by (cases y) (auto dest!: release.rollback release.success [OF ok] dest: fenced_row_step [OF ok])
qed

subsection \<open>Along a history\<close>

text \<open>A row's revision names its content: it never decreases, and it moves whenever the row does.\<close>

definition later_row :: "wanted_row \<Rightarrow> wanted_row \<Rightarrow> bool" where
  "later_row r r' \<longleftrightarrow> r' = r \<or> col_revision r < col_revision r'"

definition later_database :: "database \<Rightarrow> database \<Rightarrow> bool" where
  "later_database db db' \<longleftrightarrow>
     (\<forall>key. rel_option later_row (find_row db key) (find_row db' key)) \<and>
     (\<exists>es. db_logs db' = db_logs db @ es)"

lemma later_row_trans: "later_row a b \<Longrightarrow> later_row b c \<Longrightarrow> later_row a c"
  by (auto simp: later_row_def)

lemma later_database_refl: "later_database db db"
  by (auto simp: later_database_def later_row_def option.rel_refl)

lemma later_database_trans: "later_database a b \<Longrightarrow> later_database b c \<Longrightarrow> later_database a c"
proof -
  assume *: "later_database a b" "later_database b c"
  have "rel_option later_row (find_row a key) (find_row c key)" for key
    using * transpD [OF option.rel_transp, of later_row "find_row a key" "find_row b key"]
    by (auto simp: later_database_def transp_def intro: later_row_trans)
  moreover have "\<exists>es. db_logs c = db_logs a @ es"
    using * by (auto simp: later_database_def)
  ultimately show ?thesis by (simp add: later_database_def)
qed

lemma row_step_later: "row_step key db db' \<Longrightarrow> later_database db db'"
proof -
  assume step: "row_step key db db'"
  have "rel_option later_row (find_row db j) (find_row db' j)" for j
    using step by (cases "j = key") (auto simp: row_step_def later_row_def option.rel_refl)
  with step show ?thesis by (auto simp: later_database_def row_step_def)
qed

lemma store_step_later: "store_step db db' \<Longrightarrow> db_ok db \<Longrightarrow> db_ok db' \<and> later_database db db'"
  using operation_effect later_database_refl row_step_later
  by (elim store_stepE) (metis row_step_def)

lemma history_later:
  assumes "store_step\<^sup>*\<^sup>* db db'" and "db_ok db"
  shows "db_ok db' \<and> later_database db db'"
  using assms
proof (induction rule: rtranclp_induct)
  case base
  then show ?case by (simp add: later_database_refl)
next
  case (step y z)
  then show ?case using store_step_later later_database_trans by blast
qed

subsection \<open>A live lease is exclusive\<close>

lemma live_not_eligible:
  "stored_controls st = ControlsRunning cur \<Longrightarrow> now < persisted_lease_until cur \<Longrightarrow>
     classify st now \<noteq> Inr (Eligible e)"
  by (auto simp: classify_def Let_def and_then_Inr_iff split: if_splits)

lemma live_not_metadata:
  assumes "db_ok db" and "readable sha db key st" and "find_row db key = Some r"
    and "stored_controls st = ControlsRunning cur" and "now < persisted_lease_until cur"
  shows "\<not> metadata_where account (uint now) r"
  using assms unfolding readable_columns [OF assms(1)]
  by (auto simp: metadata_where_def controls_columns_def opt_le_def word_less_def
      detail_columns_def summary_columns_def head_columns_def)

lemma due_not_live:
  assumes ok: "db_ok db" and run: "claim_due env c db = (Inr (Some claimed), db')"
    and st: "readable (env_sha env) db key st" "stored_controls st = ControlsRunning cur"
    and now: "env_clock env = Inr now" "now < persisted_lease_until cur"
  shows "find_row db' key = find_row db key"
proof (rule claim_due_Inr [OF ok run])
  fix now' st' e
  assume *: "env_clock env = Inr now'" "readable (env_sha env) db (head_key (stored_head st')) st'"
    "claim_step env db db' now' (cdue_lease_ttl c) st' e claimed"
    and sel: "if cdue_metadata_only c
      then select_metadata_candidate env db (cdue_account_key c) (uint now') = Inr (Some (st', e))
      else select_due_candidate env db (cdue_account_key c) now' (uint now') = Inr (Some (st', e))"
  have "head_key (stored_head st') \<noteq> key"
  proof
    assume key: "head_key (stored_head st') = key"
    then have "st' = st" using *(2) st(1) by (auto dest: readable_unique)
    show False
    proof (cases "cdue_metadata_only c")
      case True
      with sel obtain r where "metadata_candidate (cdue_account_key c) (uint now') db = Some r"
          "find_row db key = Some r"
        using select_metadata_Some [OF ok] key by (metis (mono_tags, lifting))
      then show False
        using live_not_metadata [OF ok st(1) _ st(2) now(2)] *(1) now(1)
          select_first_Some(2) [of due_order "metadata_where (cdue_account_key c) (uint now')"]
        by (auto simp: metadata_candidate_def)
    next
      case False
      with sel have "classify st' now' = Inr (Eligible e)"
        by (auto elim: select_due_Some [OF ok])
      with live_not_eligible [OF st(2)] now \<open>st' = st\<close> *(1) show False by simp
    qed
  qed
  with *(3) show ?thesis by (simp add: claim_step_def Let_def)
qed

lemma one_not_live:
  assumes ok: "db_ok db" and run: "claim_one env c db = (Inr (Claimed claimed), db')"
    and st: "readable (env_sha env) db key st" "stored_controls st = ControlsRunning cur"
    and now: "env_clock env = Inr now" "now < persisted_lease_until cur"
  shows "find_row db' key = find_row db key"
proof (rule claim_one_Inr [OF ok run])
  fix now' st' e
  assume *: "env_clock env = Inr now'" "readable (env_sha env) db (cone_key c) st'"
    "head_key (stored_head st') = cone_key c" "classify st' now' = Inr (Eligible e)"
    "claim_step env db db' now' (cone_lease_ttl c) st' e claimed"
  have "cone_key c \<noteq> key"
    using * st now live_not_eligible [OF st(2)] by (auto dest: readable_unique)
  with * show ?thesis by (simp add: claim_step_def Let_def)
qed

lemma fenced_not_owner:
  assumes "fenced_step env token db db' now st' cur' post"
    and "readable (env_sha env) db key st" and "stored_controls st = ControlsRunning cur"
    and "token \<noteq> persisted_token cur"
  shows "find_row db' key = find_row db key"
  using assms by (cases "token_key token = key") (auto simp: fenced_step_def dest: readable_unique)

lemma live_lease_exclusive:
  assumes ok: "db_ok db" and st: "readable (env_sha env) db key st" "stored_controls st = ControlsRunning cur"
    and now: "env_clock env = Inr now" "now < persisted_lease_until cur"
    and stranger: "presented_token op \<noteq> Some (persisted_token cur)"
  shows "find_row (run_operation env op db) key = find_row db key"
proof (cases op)
  case (ClaimDue c)
  obtain y db' where run: "claim_due env c db = (y, db')" by fastforce
  with ClaimDue show ?thesis
    using due_not_live [OF ok _ st now]
    by (cases y) (auto dest: claim_rollback(1), metis claim_due_None option.exhaust)
next
  case (ClaimOne c)
  obtain y db' where run: "claim_one env c db = (y, db')" by fastforce
  with ClaimOne show ?thesis
    using one_not_live [OF ok _ st now]
    by (cases y) (auto dest: claim_rollback(2), metis claim_one_Rejected claim_one_result.exhaust)
next
  case (ExtendLease c)
  obtain y db' where "extend_lease env c db = (y, db')" by fastforce
  with ExtendLease stranger st show ?thesis
    by (cases y) (auto dest!: extend.rollback extend.success [OF ok] intro: fenced_not_owner)
next
  case (FinishAttempt c)
  obtain y db' where "finish env c db = (y, db')" by fastforce
  with FinishAttempt stranger st show ?thesis
    by (cases y) (auto dest!: finish.rollback finish.success [OF ok] intro: fenced_not_owner)
next
  case (FailAttempt c)
  obtain y db' where "fail_execution env c db = (y, db')" by fastforce
  with FailAttempt stranger st show ?thesis
    by (cases y) (auto dest!: failure.rollback failure.success [OF ok] intro: fenced_not_owner)
next
  case (ReleaseAttempt c)
  obtain y db' where "release env c db = (y, db')" by fastforce
  with ReleaseAttempt stranger st show ?thesis
    by (cases y) (auto dest!: release.rollback release.success [OF ok] intro: fenced_not_owner)
qed

subsection \<open>The fence, for every operation that presents a token\<close>

definition error_of :: "'a repository_result \<Rightarrow> repository_error option" where
  "error_of r = (case r of Inl e \<Rightarrow> Some e | Inr _ \<Rightarrow> None)"

lemma error_of_simps [simp]: "error_of (Inl e) = Some e" "error_of (Inr x) = None"
  by (simp_all add: error_of_def)

lemma error_of_None: "error_of r = None \<longleftrightarrow> (\<exists>x. r = Inr x)"
  by (cases r) simp_all

fun operation_error :: "repo_env \<Rightarrow> store_operation \<Rightarrow> database \<Rightarrow> repository_error option" where
  "operation_error env (ClaimDue c) db = error_of (fst (claim_due env c db))"
| "operation_error env (ClaimOne c) db = error_of (fst (claim_one env c db))"
| "operation_error env (ExtendLease c) db = error_of (fst (extend_lease env c db))"
| "operation_error env (FinishAttempt c) db = error_of (fst (finish env c db))"
| "operation_error env (FailAttempt c) db = error_of (fst (fail_execution env c db))"
| "operation_error env (ReleaseAttempt c) db = error_of (fst (release env c db))"

definition is_terminal :: "store_operation \<Rightarrow> bool" where
  "is_terminal op \<longleftrightarrow> (case op of FinishAttempt _ \<Rightarrow> True | FailAttempt _ \<Rightarrow> True | ReleaseAttempt _ \<Rightarrow> True | _ \<Rightarrow> False)"

lemma fence_refuses:
  assumes ff: "fault_free env" and clock: "clock_in_range env now"
    and token: "presented_token op = Some t" and st: "readable (env_sha env) db (token_key t) st"
    and live: "require_live_attempt st t now = Inl e"
  shows "operation_error env op db = Some e \<and> run_operation env op db = db"
  using token st live
  by (cases op) (auto simp: extend.refused [OF ff clock] finish.refused [OF ff clock]
      failure.refused [OF ff clock] release.refused [OF ff clock])

lemma fence_passed:
  assumes ok: "db_ok db" and token: "presented_token op = Some t"
    and success: "operation_error env op db = None"
  shows "\<exists>now st cur post. fenced_step env t db (run_operation env op db) now st cur post"
proof (cases op)
  case (ExtendLease c)
  with success obtain x where "extend_lease env c db = (Inr x, run_operation env op db)"
    by (cases "extend_lease env c db") (auto simp: error_of_None)
  with ExtendLease token extend.success [OF ok] show ?thesis by auto
next
  case (FinishAttempt c)
  with success obtain x where "finish env c db = (Inr x, run_operation env op db)"
    by (cases "finish env c db") (auto simp: error_of_None)
  with FinishAttempt token finish.success [OF ok] show ?thesis by auto
next
  case (FailAttempt c)
  with success obtain x where "fail_execution env c db = (Inr x, run_operation env op db)"
    by (cases "fail_execution env c db") (auto simp: error_of_None)
  with FailAttempt token failure.success [OF ok] show ?thesis by auto
next
  case (ReleaseAttempt c)
  with success obtain x where "release env c db = (Inr x, run_operation env op db)"
    by (cases "release env c db") (auto simp: error_of_None)
  with ReleaseAttempt token release.success [OF ok] show ?thesis by auto
qed (use token in simp_all)

lemma terminal_consumes:
  assumes ok: "db_ok db" and token: "presented_token op = Some t" and op: "is_terminal op"
    and success: "operation_error env op db = None"
  shows "\<exists>post. readable (env_sha env) (run_operation env op db) (token_key t) post \<and>
           stored_controls post = ControlsIdle"
proof (cases op)
  case (FinishAttempt c)
  with success obtain x where "finish env c db = (Inr x, run_operation env op db)"
    by (cases "finish env c db") (auto simp: error_of_None)
  with FinishAttempt token finish.consumed [OF ok] show ?thesis by auto
next
  case (FailAttempt c)
  with success obtain x where "fail_execution env c db = (Inr x, run_operation env op db)"
    by (cases "fail_execution env c db") (auto simp: error_of_None)
  with FailAttempt token failure.consumed [OF ok] show ?thesis by auto
next
  case (ReleaseAttempt c)
  with success obtain x where "release env c db = (Inr x, run_operation env op db)"
    by (cases "release env c db") (auto simp: error_of_None)
  with ReleaseAttempt token release.consumed [OF ok] show ?thesis by auto
qed (use op in \<open>simp_all add: is_terminal_def\<close>)

end
