(* ===== verification/Claim_Liveness.thy ===== *)
theory Claim_Liveness
  imports Claim_Properties
begin

text \<open>
  The terminal operations succeed: when the attempt is live, the delta applies and the
  numbers are in range, the UPDATE passes every CHECK and the unique index, the row decodes
  to exactly the detail the operation meant to write, and none of the code's post-write
  checks can fail. The one thing they rely on outside this program is that
  \<open>serde_json\<close> reads a float back as it was written.
\<close>

subsection \<open>Payload equality\<close>

lemma f64_nan_finite: "f64_is_finite x \<Longrightarrow> \<not> f64_is_nan x"
  by (auto simp: f64_is_finite_def f64_is_nan_def)

lemma map_option_fixed: "(\<forall>x \<in> set_option v. g x = x) \<Longrightarrow> map_option g v = v"
  by (cases v) simp_all

lemma map_payload_f64_fixed:
  assumes "\<forall>x \<in> set (payload_f64s p). g x = x"
  shows "map_payload_f64 g p = p"
proof -
  have files: "map (\<lambda>f. f\<lparr>dlf_progress := g (dlf_progress f)\<rparr>) fs = fs"
    if "\<forall>f \<in> set fs. g (dlf_progress f) = dlf_progress f" for fs :: "download_file_payload list"
    using that by (induction fs) auto
  have downloads: "map (\<lambda>d. d\<lparr>dl_progress := map_option g (dl_progress d),
          dl_files := map (\<lambda>f. f\<lparr>dlf_progress := g (dlf_progress f)\<rparr>) (dl_files d)\<rparr>) ds = ds"
    if "\<forall>d \<in> set ds. (\<forall>x \<in> set_option (dl_progress d). g x = x) \<and>
          (\<forall>f \<in> set (dl_files d). g (dlf_progress f) = dlf_progress f)" for ds
    using that by (induction ds) (auto simp: files map_option_fixed)
  have fixed: "\<forall>d \<in> set (art_downloads (pl_artifacts p)).
      (\<forall>x \<in> set_option (dl_progress d). g x = x) \<and>
      (\<forall>f \<in> set (dl_files d). g (dlf_progress f) = dlf_progress f)"
    using assms by (fastforce simp: payload_f64s_def)
  have rating: "map_option g (src_rating_value (pl_source p)) = src_rating_value (pl_source p)"
    using assms by (intro map_option_fixed) (auto simp: payload_f64s_def)
  show ?thesis
    by (simp add: map_payload_f64_def downloads [OF fixed] rating)
qed

lemma payload_wf_finite:
  assumes "payload_wf p" and "x \<in> set (payload_f64s p)"
  shows "f64_is_finite x"
  using assms
  by (fastforce simp: payload_f64s_def payload_wf_def artifacts_wf_def download_wf_def
      progress_wf_def f64_unit_finite split: option.splits)

lemma payload_eq_refl: "payload_wf p \<Longrightarrow> payload_eq p p"
  by (auto simp: payload_eq_def list_all_iff dest: payload_wf_finite f64_nan_finite)

subsection \<open>Updating one row\<close>

lemma sql_not_blank_text: "valid_text s \<Longrightarrow> sql_not_blank s"
proof -
  have spaces: "strip_start ws1 ws2 ws3 u = []" if "set u \<subseteq> {CHR '' ''}" for u
    using that by (induction u) (auto simp: strip_start_drop ws1_def)
  assume valid: "valid_text s"
  show ?thesis
  proof (cases "dropWhile (\<lambda>c. c = CHR '' '') s")
    case Nil
    then have "set s \<subseteq> {CHR '' ''}"
      by (auto simp: dropWhile_eq_Nil_conv)
    then have "is_blank s"
      using spaces by (simp add: is_blank_def str_trim_def trim_start_def trim_end_def)
    with valid show ?thesis by (simp add: valid_text_def)
  next
    case (Cons c cs)
    then have "c \<in> set s" by (metis list.set_intros(1) set_dropWhileD)
    with Cons valid show ?thesis
      by (auto simp: sql_not_blank_def valid_text_def contains_nul_def)
  qed
qed

lemma attempt_ids_Cons: "attempt_ids (r # rs) =
    (case col_attempt_id r of None \<Rightarrow> [] | Some a \<Rightarrow> [a]) @ attempt_ids rs"
  by (simp add: attempt_ids_def)

lemma attempt_ids_released:
  assumes "\<And>r. col_attempt_id (g r) = col_attempt_id r \<or> col_attempt_id (g r) = None"
    and "distinct (attempt_ids rows)"
  shows "distinct (attempt_ids (map g rows)) \<and> set (attempt_ids (map g rows)) \<subseteq> set (attempt_ids rows)"
  using assms(2)
proof (induction rows)
  case (Cons r rs)
  have "col_attempt_id (g r) = col_attempt_id r \<or> col_attempt_id (g r) = None" by (rule assms(1))
  with Cons show ?case by (auto simp: attempt_ids_Cons split: option.splits)
qed (simp add: attempt_ids_def)

text \<open>A statement that releases or keeps the attempt of one valid row succeeds.\<close>

lemma keyed_update_succeeds:
  assumes ok: "db_ok db" and r: "find_row db key = Some r" "p r" and valid: "row_ok (f r)"
    and key: "\<And>r. row_key (f r) = row_key r"
    and ids: "\<And>r. col_attempt_id (f r) = col_attempt_id r \<or> col_attempt_id (f r) = None"
  obtains db' where "keyed_update key p f db = Inr (Suc 0, db')" and "find_row db' key = Some (f r)"
    and "db_ok db'" and "db_logs db' = db_logs db"
proof -
  let ?g = "\<lambda>r. if row_key r = key \<and> p r then f r else r"
  have only: "x = r" if "x \<in> set (db_rows db)" "row_key x = key" for x
    using find_row_unique [OF ok that(1)] that(2) r(1) by simp
  have "distinct (attempt_ids (map ?g (db_rows db)))"
    using attempt_ids_released [of ?g "db_rows db"] ids ok by (simp add: db_ok_def)
  moreover have "\<not> list_ex (\<lambda>x. (row_key x = key \<and> p x) \<and> \<not> row_ok (f x)) (db_rows db)"
    using only valid by (auto simp: list_ex_iff)
  ultimately have "keyed_update key p f db = Inr
      (length (filter (\<lambda>r. row_key r = key \<and> p r) (db_rows db)), db\<lparr>db_rows := map ?g (db_rows db)\<rparr>)"
    unfolding keyed_update_def Let_def by simp
  then obtain n db' where upd: "keyed_update key p f db = Inr (n, db')" by blast
  with rows.update_hit [OF ok key upd r(1)] rows.update_ok [OF ok key upd] keyed_update_Inr(1) [OF upd] r(2)
  show ?thesis by (intro that [of db']) auto
qed

subsection \<open>The row a terminal statement writes\<close>

definition consumed_detail ::
  "subscription_detail \<Rightarrow> revision \<Rightarrow> u64 \<Rightarrow> lifecycle_state \<Rightarrow> u64 option \<Rightarrow> u32 \<Rightarrow> bool
    \<Rightarrow> attention_tag list \<Rightarrow> subscription_payload \<Rightarrow> subscription_detail" where
  "consumed_detail d rv now lifecycle next retry_count blocked tags p =
     \<lparr>det_summary =
        \<lparr>sum_head = (det_head d)
           \<lparr>head_revision := rv, head_lifecycle_state := lifecycle, head_execution_state := Idle,
            head_next_attempt_at := next, head_retry_count := retry_count,
            head_retry_blocked := blocked, head_force_eligible_once := False,
            head_updated_at := max (head_updated_at (det_head d)) now\<rparr>,
         sum_projection = projection_of (pl_source p), sum_attention_tags = tags\<rparr>,
      det_payload = p\<rparr>"

lemma max_uint: "max (uint a) (uint b) = uint (max a b)"
  by (simp add: max_def word_le_def)

lemma lifecycle_check:
  "lifecycle_as_str l \<in> {''queued'', ''meta'', ''searching'', ''downloading'', ''linking'', ''completed''}"
  by (cases l) simp_all

lemma lifecycle_completed [simp]: "lifecycle_as_str l = ''completed'' \<longleftrightarrow> l = Completed"
  by (cases l) simp_all

text \<open>What the written values must satisfy.\<close>

definition terminal_values ::
  "(string \<Rightarrow> string) \<Rightarrow> subscription_detail \<Rightarrow> revision \<Rightarrow> u64 \<Rightarrow> lifecycle_state \<Rightarrow> u64 option
    \<Rightarrow> u32 \<Rightarrow> bool \<Rightarrow> attention_tag list \<Rightarrow> subscription_payload \<Rightarrow> bool" where
  "terminal_values sha d rv now lifecycle next retry_count blocked tags p \<longleftrightarrow>
     uint (revision_value rv) = uint (revision_value (head_revision (det_head d))) + 1 \<and>
     uint (revision_value rv) \<le> i64_max \<and> uint now \<le> i64_max \<and>
     opt_all (\<lambda>v. uint v \<le> i64_max) next \<and> (lifecycle = Completed \<longrightarrow> next = None) \<and>
     (blocked \<longleftrightarrow> 0 < head_max_retries (det_head d) \<and> head_max_retries (det_head d) \<le> retry_count) \<and>
     distinct tags \<and> payload_wf p \<and>
     keys_stable sha (account_key (head_key (det_head d))) (subject_id (head_key (det_head d))) p \<and>
     (head_media_kind (det_head d) = Movie \<longrightarrow> pl_tv p = None) \<and>
     source_wf (pl_source p) \<and> projection_texts (projection_of (pl_source p)) \<and>
     opt_all (\<lambda>v. uint v \<le> i64_max) (src_douban_sort_time (pl_source p))"

abbreviation consume_row where
  "consume_row lifecycle next retry_count blocked tags now p \<equiv>
     consume_set lifecycle (map_option uint next) (uint (retry_count :: u32)) (of_bool blocked)
       (Json tags) (uint (now :: u64)) (Json p) (projection_of (pl_source p))
       (map_option uint (src_douban_sort_time (pl_source p)))"

lemma consume_columns:
  assumes "detail_columns r d"
    and "uint (revision_value rv) = uint (revision_value (head_revision (det_head d))) + 1"
  shows "detail_columns (consume_row lc next rc blocked tags now p r)
    (consumed_detail d rv now lc next rc blocked tags p)"
  using assms
  by (simp add: detail_columns_def summary_columns_def head_columns_def consume_set_def
      consumed_detail_def max_uint projection_of_def)

lemma consume_read:
  assumes "detail_read sha d" and "head_execution_state (det_head d) = Running"
    and "terminal_values sha d rv now lc next rc blocked tags p"
  shows "detail_read sha (consumed_detail d rv now lc next rc blocked tags p)"
proof -
  have "uint (revision_value rv) \<noteq> 0"
    using assms(3) uint_ge_0 [of "revision_value (head_revision (det_head d))"]
    unfolding terminal_values_def by linarith
  then have "revision_value rv \<noteq> 0" by auto
  with assms show ?thesis
    by (auto simp: detail_read_def detail_wf_def head_wf_def head_texts_def terminal_values_def
        consumed_detail_def)
qed

lemma uint_u32_i64: "uint (w :: u32) \<le> i64_max"
  using uint_lt2p [of w] by (simp add: i64_max_def)

lemma consume_row_ok:
  assumes ok: "row_ok r" and cols: "detail_columns r d"
    and run: "head_execution_state (det_head d) = Running" and wf: "head_wf (det_head d)"
    and v: "terminal_values sha d rv now lc next rc blocked tags p"
  shows "row_ok (consume_row lc next rc blocked tags now p r)"
proof -
  let ?r = "consume_row lc next rc blocked tags now p r"
  have c: "col_revision r = uint (revision_value (head_revision (det_head d)))"
      "col_active r = 1" "col_schedulable r = 1" "col_inactive_at r = None" "col_blocked_reason r = None"
      "col_max_retries r = uint (head_max_retries (det_head d))"
    using cols run wf
    by (auto simp: detail_columns_def summary_columns_def head_columns_def head_wf_def)
  have bounds: "opt_all (\<lambda>v. v \<le> i64_max \<and> 0 \<le> v) (map_option uint next)"
      "opt_all (\<lambda>v. v \<le> i64_max \<and> 0 \<le> v) (map_option uint (src_douban_sort_time (pl_source p)))"
    using v by (auto simp: terminal_values_def split: option.splits simp: opt_all_def)
  have ints: "integer_columns ?r"
    using ok v c bounds uint_u32_i64 [of rc]
    by (auto simp: row_ok_def integer_columns_def consume_set_def terminal_values_def opt_all_def
        split: option.splits)
  have year: "opt_all (\<lambda>v. 1 \<le> v \<and> v \<le> 9999) (map_option uint (prj_release_year (projection_of (pl_source p))))"
    using v by (auto simp: terminal_values_def source_wf_def projection_of_def opt_all_def word_le_def
        split: option.splits)
  have title: "sql_not_blank (prj_title (projection_of (pl_source p)))"
    using v by (auto simp: terminal_values_def projection_texts_def intro: sql_not_blank_text)
  have "column_checks ?r"
    using ok lifecycle_check [of lc] bounds year title
    by (auto simp: row_ok_def column_checks_def consume_set_def opt_all_def max_def split: option.splits)
  moreover have "table_checks ?r"
    using ok v c
    by (auto simp: row_ok_def table_checks_def consume_set_def terminal_values_def word_le_def
        word_less_def)
  ultimately show ?thesis using ints by (simp add: row_ok_def)
qed

subsection \<open>The write and its verification\<close>

lemma live_guard_columns:
  assumes "controls_columns r (token_key (persisted_token cur)) st"
    and "stored_controls st = ControlsRunning cur" and "now < persisted_lease_until cur"
    and "detail_columns r (stored_detail st)"
  shows "live_guard_of (persisted_token cur) (uint (persisted_lease_until cur)) (uint now) r"
  using assms
  by (auto simp: live_guard_of_def live_attempt_guard_def controls_columns_def word_less_def
      detail_columns_def summary_columns_def head_columns_def)

lemma terminal_write:
  assumes ok: "db_ok db" and st: "readable (env_sha env) db key st"
    and live: "stored_controls st = ControlsRunning cur" "token_key (persisted_token cur) = key"
      "now < persisted_lease_until cur"
    and v: "terminal_values (env_sha env) (stored_detail st) rv now lc next rc blocked tags p"
    and stored: "encode_payload env p = Json p"
  obtains db' where
    "keyed_update key (live_guard_of (persisted_token cur) (uint (persisted_lease_until cur)) (uint now))
       (consume_set lc (map_option uint next) (uint rc) (of_bool blocked) (Json tags) (uint now)
         (encode_payload env p) (projection_of (pl_source p))
         (map_option uint (src_douban_sort_time (pl_source p)))) db = Inr (Suc 0, db')"
    and "readable (env_sha env) db' key
       \<lparr>stored_detail = consumed_detail (stored_detail st) rv now lc next rc blocked tags p,
        stored_controls = ControlsIdle\<rparr>"
proof -
  let ?set = "consume_row lc next rc blocked tags now p"
  let ?post = "\<lparr>stored_detail = consumed_detail (stored_detail st) rv now lc next rc blocked tags p,
    stored_controls = ControlsIdle\<rparr>"
  obtain r where r: "find_row db key = Some r" "row_ok r" "detail_columns r (stored_detail st)"
      "detail_read (env_sha env) (stored_detail st)" "controls_columns r key st"
    using st unfolding readable_columns [OF ok] by blast
  have run: "head_execution_state (stored_head st) = Running"
    using r(5) live(1) by (simp add: controls_columns_def)
  have guard: "live_guard_of (persisted_token cur) (uint (persisted_lease_until cur)) (uint now) r"
    using live_guard_columns [OF _ live(1,3) r(3)] r(5) live(2) by simp
  have valid: "row_ok (?set r)"
    using consume_row_ok [OF r(2,3) run _ v] r(4) by (simp add: detail_read_def detail_wf_def)
  obtain db' where upd: "keyed_update key
       (live_guard_of (persisted_token cur) (uint (persisted_lease_until cur)) (uint now)) ?set db
         = Inr (Suc 0, db')"
      and post: "find_row db' key = Some (?set r)" "db_ok db'"
    by (rule keyed_update_succeeds [of db key r
        "live_guard_of (persisted_token cur) (uint (persisted_lease_until cur)) (uint now)" ?set])
      (use ok r(1) guard valid in \<open>auto simp: consume_set_def row_key_def\<close>)
  have "readable (env_sha env) db' key ?post"
    unfolding readable_columns [OF post(2)]
    using post(1) valid consume_columns [OF r(3)] consume_read [OF r(4) run v] v
    by (auto simp: controls_columns_def terminal_values_def consumed_detail_def consume_set_def)
  with upd that show ?thesis unfolding stored by blast
qed

lemma next_revision_ok:
  assumes "uint (revision_value rv) + 1 \<le> i64_max"
  obtains rv' where "next_revision rv = Inr rv'"
    and "uint (revision_value rv') = uint (revision_value rv) + 1"
proof -
  obtain w where w: "checked_add (revision_value rv) 1 = Some w"
    using assms by (auto simp: checked_add_def i64_max_def)
  have u: "uint w = uint (revision_value rv) + 1" using uint_checked_add [OF w] by simp
  then have "w \<noteq> 0" using uint_ge_0 [of "revision_value rv"] by (metis add_nonneg_eq_0_iff
        uint_0_eq zero_le_one zero_neq_one)
  with w u assms that [of "Revision w"] show ?thesis
    by (simp add: next_revision_def revision_column)
qed

lemma append_audit_ok:
  "fault_free env \<Longrightarrow> uint (entry_created_at entry) \<le> i64_max \<Longrightarrow>
     \<exists>db'. append_execution_audit env entry db = Inr db'"
  by (simp add: append_execution_audit_def Let_def command_integer_def i64_try_from_def)

lemma schedule_now_ok:
  assumes "opt_all (\<lambda>d. uint now + uint d \<le> i64_max) delay"
  obtains n where "schedule_from_repository_now now delay = Inr n"
    and "opt_all (\<lambda>v. uint v \<le> i64_max) n" and "delay = None \<longleftrightarrow> n = None"
proof (cases delay)
  case (Some d)
  with assms obtain w where w: "checked_add now d = Some w"
    by (auto simp: checked_add_def i64_max_def)
  with uint_checked_add [OF w] Some assms that [of "Some w"] show ?thesis
    by (simp add: schedule_from_repository_now_def)
qed (use that in \<open>simp add: schedule_from_repository_now_def\<close>)

subsection \<open>Finishing and failing\<close>

text \<open>
  What is left to the caller: the merged payload can be projected and written, and the row's
  and the schedule's numbers stay within SQLite's INTEGER.
\<close>

definition writable ::
  "repo_env \<Rightarrow> stored_subscription \<Rightarrow> u64 \<Rightarrow> u64 option \<Rightarrow> subscription_payload \<Rightarrow> bool" where
  "writable env st now delay p \<longleftrightarrow>
     source_wf (pl_source p) \<and> projection_texts (projection_of (pl_source p)) \<and>
     opt_all (\<lambda>v. uint v \<le> i64_max) (src_douban_sort_time (pl_source p)) \<and>
     (head_media_kind (stored_head st) = Movie \<longrightarrow> pl_tv p = None) \<and>
     uint (revision_value (head_revision (stored_head st))) + 1 \<le> i64_max \<and>
     opt_all (\<lambda>d. uint now + uint d \<le> i64_max) delay \<and>
     (\<forall>x \<in> set (payload_f64s p). env_f64_reparse env x = x)"

lemma clear_issue_payload:
  "pl_source (clear_execution_issue op p) = pl_source p"
  "pl_tv (clear_execution_issue op p) = pl_tv p"
  "payload_f64s (clear_execution_issue op p) = payload_f64s p"
  "keys_stable sha a s (clear_execution_issue op p) = keys_stable sha a s p"
  by (simp_all add: clear_execution_issue_def payload_f64s_def keys_stable_def)

lemma replace_issue_payload:
  "pl_source (replace_execution_issue op t m at p) = pl_source p"
  "pl_tv (replace_execution_issue op t m at p) = pl_tv p"
  "payload_f64s (replace_execution_issue op t m at p) = payload_f64s p"
  "keys_stable sha a s (replace_execution_issue op t m at p) = keys_stable sha a s p"
  by (simp_all add: replace_execution_issue_def clear_execution_issue_def Let_def payload_f64s_def
      keys_stable_def)

lemma owner_wf_cong:
  "pl_artifacts q = pl_artifacts p \<Longrightarrow> pl_tv q = pl_tv p \<Longrightarrow> owner_wf q o1 = owner_wf p o1"
  by (cases "(q, o1)" rule: owner_wf.cases) simp_all

lemma payload_wf_issues:
  assumes "payload_wf p" and "q = p\<lparr>pl_issues := is\<rparr>"
    and "\<forall>i \<in> set is. i \<in> set (pl_issues p) \<or> issue_wf p i"
  shows "payload_wf q"
proof -
  have "issue_wf q i = issue_wf p i" for i
    using assms(2) owner_wf_cong [of q p] by (simp add: issue_wf_def)
  with assms show ?thesis by (auto simp: payload_wf_def)
qed

lemma clear_issue_wf: "payload_wf p \<Longrightarrow> payload_wf (clear_execution_issue op p)"
  by (erule payload_wf_issues) (auto simp: clear_execution_issue_def)

lemma operation_valid_text: "valid_text (operation_as_str op)"
  by (cases op) (simp_all add: valid_text_def trim_simps)

lemma replace_issue_wf:
  assumes "payload_wf p" and "valid_text error_type" and "valid_text message"
  shows "payload_wf (replace_execution_issue op error_type message at p)"
  using assms
  by (intro payload_wf_issues [OF assms(1)])
    (auto simp: replace_execution_issue_def clear_execution_issue_def Let_def issue_wf_def
      opt_valid_def operation_valid_text)

lemma encode_fixed:
  "\<forall>x \<in> set (payload_f64s p). env_f64_reparse env x = x \<Longrightarrow> encode_payload env p = Json p"
  by (simp add: encode_payload_def map_payload_f64_fixed)

lemma terminal_tags_distinct [simp]: "distinct (terminal_attention_tags current w f b)"
  by (simp add: terminal_attention_tags_def)

lemma finish_tags_distinct [simp]: "distinct (finish_attention_tags current d delta p)"
proof -
  have "NeedsConfirmation \<notin> set (terminal_attention_tags current w False False)" for w
    by (auto simp: terminal_attention_tags_def is_terminal_tag_def)
  then show ?thesis by (auto simp: finish_attention_tags_def Let_def)
qed

lemma lease_in_range:
  assumes "db_ok db" and "readable sha db key st" and "stored_controls st = ControlsRunning cur"
  shows "uint (persisted_lease_until cur) \<le> i64_max" and "token_key (persisted_token cur) = key"
proof -
  obtain r where r: "row_ok r" "controls_columns r key st"
    using assms(2) unfolding readable_columns [OF assms(1)] by blast
  then show "uint (persisted_lease_until cur) \<le> i64_max" "token_key (persisted_token cur) = key"
    using assms(3) by (auto simp: controls_columns_def row_ok_def integer_columns_def)
qed

lemma traverse_integer:
  "opt_all (\<lambda>v. uint v \<le> i64_max) v \<Longrightarrow>
     traverse_opt (repository_integer c) v = Inr (map_option uint v)"
  by (cases v) (simp_all add: repository_integer_ok)

lemma terminal_verified:
  assumes "payload_wf p"
    and "head_key (stored_head st) = key"
  shows "verify_terminal_post_write
    \<lparr>stored_detail = consumed_detail (stored_detail st) rv now lc next rc blocked tags p,
     stored_controls = ControlsIdle\<rparr>
    (stored_detail st) rv (max (head_updated_at (stored_head st)) now) lc next rc blocked tags p
    (projection_of (pl_source p)) = Inr ()"
  using assms
  by (simp add: verify_terminal_post_write_def verify_immutable_subscription_head_fields_def
      consumed_detail_def payload_eq_refl Let_def)

lemma finish_succeeds:
  assumes ok: "db_ok db" and ff: "fault_free env" and clock: "clock_in_range env now"
    and st: "readable (env_sha env) db (token_key (finish_token c)) st"
    and live: "require_live_attempt st (finish_token c) now = Inr cur"
    and merged: "apply_to_latest (env_sha env) (finish_delta c) (token_key (finish_token c))
          (det_payload (stored_detail st)) = Inr merged"
    and w: "writable env st now (next_delay (finish_disposition c)) merged"
  shows "\<exists>x db'. finish env c db = (Inr x, db')"
proof -
  let ?key = "token_key (finish_token c)"
  define p where "p = clear_execution_issue (token_operation (finish_token c)) merged"
  define tags where "tags = finish_attention_tags (sum_attention_tags (det_summary (stored_detail st)))
    (finish_disposition c) (finish_delta c) p"
  note live' = live [unfolded require_live_Inr]
  have hk: "head_key (stored_head st) = ?key" by (rule readable_key [OF ok st])
  have wf: "payload_wf p" and stable: "keys_stable (env_sha env) (account_key ?key) (subject_id ?key) p"
      and texts: "valid_text (account_key ?key)" "valid_text (subject_id ?key)"
    using merged by (auto simp: apply_to_latest_Inr p_def clear_issue_payload clear_issue_wf)
  have clk: "env_clock env = Inr now" "uint now \<le> i64_max"
    using clock by (simp_all add: clock_in_range_def)
  obtain rv where rv: "next_revision (head_revision (stored_head st)) = Inr rv"
      "uint (revision_value rv) = uint (revision_value (head_revision (stored_head st))) + 1"
    using next_revision_ok w unfolding writable_def by blast
  obtain n where n: "schedule_from_repository_now now (next_delay (finish_disposition c)) = Inr n"
      "opt_all (\<lambda>v. uint v \<le> i64_max) n" "next_delay (finish_disposition c) = None \<longleftrightarrow> n = None"
    using schedule_now_ok w unfolding writable_def by blast
  have over: "next_lifecycle (finish_disposition c) = Completed \<longrightarrow> n = None"
    using n(3) by (cases "finish_disposition c") auto
  have v: "terminal_values (env_sha env) (stored_detail st) rv now
      (next_lifecycle (finish_disposition c)) n 0 False tags p"
    using rv(2) w clk n over wf stable hk
    by (auto simp: terminal_values_def writable_def p_def tags_def clear_issue_payload)
  have enc: "encode_payload env p = Json p"
    using w by (intro encode_fixed) (simp add: writable_def p_def clear_issue_payload)
  have sort: "traverse_opt (repository_integer ''payload.source.douban_sort_time'')
      (prj_douban_sort_time (projection_of (pl_source p))) = Inr (map_option uint (src_douban_sort_time (pl_source p)))"
    using w by (simp add: traverse_integer projection_of_def writable_def p_def clear_issue_payload)
  have src: "projection_from_source (pl_source p) = Inr (projection_of (pl_source p))"
    using w by (simp add: writable_def p_def clear_issue_payload)
  have validated: "payload_validate_for (env_sha env) (account_key ?key) (subject_id ?key) p = Inr ()"
    using wf stable texts by (simp add: payload_validate_for_Inr)
  from live' have cur: "stored_controls st = ControlsRunning cur" "persisted_token cur = finish_token c"
      "now < persisted_lease_until cur" by auto
  obtain db1 where upd: "keyed_update ?key
       (live_guard_of (finish_token c) (uint (persisted_lease_until cur)) (uint now))
       (consume_set (next_lifecycle (finish_disposition c)) (map_option uint n) 0 0 (Json tags) (uint now)
         (encode_payload env p) (projection_of (pl_source p))
         (map_option uint (src_douban_sort_time (pl_source p)))) db = Inr (Suc 0, db1)"
      and post: "readable (env_sha env) db1 ?key
       \<lparr>stored_detail = consumed_detail (stored_detail st) rv now
          (next_lifecycle (finish_disposition c)) n 0 False tags p, stored_controls = ControlsIdle\<rparr>"
    using terminal_write [OF ok st cur(1) _ cur(3) v enc] cur(2) by auto
  have audit: "\<exists>db'. append_execution_audit env (audit_entry d now a s j) db1 = Inr db'" for d a s j
    by (rule append_audit_ok [OF ff]) (simp add: audit_entry_def clk)
  have lease: "repository_integer ''current execution lease'' (persisted_lease_until cur)
      = Inr (uint (persisted_lease_until cur))"
    using lease_in_range(1) [OF ok st cur(1)] by simp
  show ?thesis
    unfolding finish_def run_transaction_Inr finish_body_def Let_def
    using audit
    by (simp add: ff clk readable_load [OF ff st] live merged rv(1) p_def [symmetric] validated src
        tags_def [symmetric] n(1) traverse_integer [OF n(2)] lease sort sql_execute_def upd
        readable_load [OF ff post] terminal_verified [OF wf hk] repository_integer_ok
        and_then_Inr_iff)
qed

lemma fail_succeeds:
  assumes ok: "db_ok db" and ff: "fault_free env" and clock: "clock_in_range env now"
    and st: "readable (env_sha env) db (token_key (fail_token c)) st"
    and live: "require_live_attempt st (fail_token c) now = Inr cur"
    and merged: "apply_to_latest (env_sha env) (fail_delta c) (token_key (fail_token c))
          (det_payload (stored_detail st)) = Inr merged"
    and texts: "valid_text (fail_error_type c)" "valid_text (fail_message c)"
    and retries: "checked_add (head_retry_count (stored_head st)) 1 = Some rc"
    and w: "writable env st now (Some (fail_retry_after c)) merged"
  shows "\<exists>x db'. fail_execution env c db = (Inr x, db')"
proof -
  let ?key = "token_key (fail_token c)"
  define p where "p = replace_execution_issue (token_operation (fail_token c)) (fail_error_type c)
    (fail_message c) now merged"
  define blocked where "blocked \<longleftrightarrow> head_max_retries (stored_head st) > 0 \<and> rc \<ge> head_max_retries (stored_head st)"
  define tags where "tags = terminal_attention_tags (sum_attention_tags (det_summary (stored_detail st)))
    False True blocked"
  have hk: "head_key (stored_head st) = ?key" by (rule readable_key [OF ok st])
  have wf: "payload_wf p" and stable: "keys_stable (env_sha env) (account_key ?key) (subject_id ?key) p"
      and key_texts: "valid_text (account_key ?key)" "valid_text (subject_id ?key)"
    using merged texts by (auto simp: apply_to_latest_Inr p_def replace_issue_payload replace_issue_wf)
  have clk: "env_clock env = Inr now" "uint now \<le> i64_max"
    using clock by (simp_all add: clock_in_range_def)
  obtain rv where rv: "next_revision (head_revision (stored_head st)) = Inr rv"
      "uint (revision_value rv) = uint (revision_value (head_revision (stored_head st))) + 1"
    using next_revision_ok w unfolding writable_def by blast
  obtain m where m: "schedule_from_repository_now now (Some (fail_retry_after c)) = Inr m"
      "opt_all (\<lambda>v. uint v \<le> i64_max) m"
    using schedule_now_ok w unfolding writable_def by blast
  define n where "n = (if blocked then None else m)"
  have n: "(if blocked then Inr None else schedule_from_repository_now now (Some (fail_retry_after c))) = Inr n"
      "opt_all (\<lambda>v. uint v \<le> i64_max) n"
    using m by (auto simp: n_def)
  have cur: "stored_controls st = ControlsRunning cur" "persisted_token cur = fail_token c"
      "now < persisted_lease_until cur"
    using live by (auto simp: require_live_Inr)
  have open_lifecycle: "head_lifecycle_state (stored_head st) \<noteq> Completed"
    using st cur unfolding readable_columns [OF ok] by (auto simp: controls_columns_def)
  have v: "terminal_values (env_sha env) (stored_detail st) rv now
      (head_lifecycle_state (stored_head st)) n rc blocked tags p"
    using rv(2) w clk n(2) open_lifecycle wf stable hk
    by (auto simp: terminal_values_def writable_def p_def tags_def blocked_def replace_issue_payload)
  have enc: "encode_payload env p = Json p"
    using w by (intro encode_fixed) (simp add: writable_def p_def replace_issue_payload)
  have sort: "traverse_opt (repository_integer ''payload.source.douban_sort_time'')
      (prj_douban_sort_time (projection_of (pl_source p))) = Inr (map_option uint (src_douban_sort_time (pl_source p)))"
    using w by (simp add: traverse_integer projection_of_def writable_def p_def replace_issue_payload)
  have src: "projection_from_source (pl_source p) = Inr (projection_of (pl_source p))"
    using w by (simp add: writable_def p_def replace_issue_payload)
  have validated: "payload_validate_for (env_sha env) (account_key ?key) (subject_id ?key) p = Inr ()"
    using wf stable key_texts by (simp add: payload_validate_for_Inr)
  obtain db1 where upd: "keyed_update ?key
       (live_guard_of (fail_token c) (uint (persisted_lease_until cur)) (uint now))
       (consume_set (head_lifecycle_state (stored_head st)) (map_option uint n) (uint rc)
         (of_bool blocked) (Json tags) (uint now) (encode_payload env p) (projection_of (pl_source p))
         (map_option uint (src_douban_sort_time (pl_source p)))) db = Inr (Suc 0, db1)"
      and post: "readable (env_sha env) db1 ?key
       \<lparr>stored_detail = consumed_detail (stored_detail st) rv now
          (head_lifecycle_state (stored_head st)) n rc blocked tags p, stored_controls = ControlsIdle\<rparr>"
    using terminal_write [OF ok st cur(1) _ cur(3) v enc] cur(2) by auto
  have audit: "\<exists>db'. append_execution_audit env (audit_entry d now a s j) db1 = Inr db'" for d a s j
    by (rule append_audit_ok [OF ff]) (simp add: audit_entry_def clk)
  have lease: "repository_integer ''current execution lease'' (persisted_lease_until cur)
      = Inr (uint (persisted_lease_until cur))"
    using lease_in_range(1) [OF ok st cur(1)] by simp
  show ?thesis
    unfolding fail_execution_def run_transaction_Inr fail_body_def Let_def
    using audit
    by (simp add: ff clk readable_load [OF ff st] live merged rv(1) retries blocked_def [symmetric]
        n(1) p_def [symmetric] validated src tags_def [symmetric] traverse_integer [OF n(2)] lease sort
        sql_execute_def upd readable_load [OF ff post] terminal_verified [OF wf hk]
        repository_integer_ok and_then_Inr_iff del: traverse_opt_simps split del: if_split)
qed

end
