(* ===== verification/Example_Data.thy ===== *)
theory Example_Data
  imports Claim_History Claim_Liveness
begin

text \<open>
  A small concrete database and environment on which the properties are instantiated: one
  account with a movie that is due for its search and, in \<open>running_db\<close>, the same movie
  with a live attempt.
\<close>

definition sample_source :: wanted_source_payload where
  "sample_source =
     \<lparr>src_title = ''Film'', src_detail_title = None, src_release_year = Some 2026,
      src_poster_url = ''p'', src_cover_url = [], src_original_title = None, src_aka = [],
      src_languages = [], src_countries = [], src_genres = [], src_directors = [],
      src_actors = [], src_date_published = None, src_duration = None, src_summary = None,
      src_rating_value = None, src_rating_count = None, src_category_text = None,
      src_tags = [], src_douban_date = None, src_douban_sort_time = Some 7,
      src_douban_return_order = None\<rparr>"

definition sample_payload :: subscription_payload where
  "sample_payload =
     \<lparr>pl_replacement_pending = False, pl_replacement_prepared = False,
      pl_source = sample_source,
      pl_observation = \<lparr>obv_created_at = 1, obv_first_seen_at = 1, obv_last_seen_at = 1\<rparr>,
      pl_issues = [], pl_skip_reason = None, pl_candidates = [], pl_tv = None,
      pl_artifacts = \<lparr>art_downloads = [], art_links = []\<rparr>\<rparr>"

definition sample_key :: subscription_key where
  "sample_key = \<lparr>account_key = ''acc'', subject_id = ''s1''\<rparr>"

definition idle_row :: wanted_row where
  "idle_row =
     \<lparr>col_account_key = ''acc'', col_subject_id = ''s1'', col_revision = 1, col_active = 1,
      col_inactive_at = None, col_last_seen_snapshot_id = None, col_media_kind = ''movie'',
      col_schedulable = 1, col_blocked_reason = None, col_lifecycle_state = ''searching'',
      col_execution_state = ''idle'', col_next_attempt_at = Some 900, col_retry_count = 0,
      col_max_retries = 3, col_retry_blocked = 0, col_force_eligible_once = 0,
      col_claimed_operation = None, col_attempt_id = None, col_lease_until = None,
      col_title = ''Film'', col_release_year = Some 2026, col_poster_url = ''p'',
      col_category_text = None, col_douban_sort_time = Some 7, col_attention_tags_json = Json [],
      col_updated_at = 900, col_record_json = Json sample_payload\<rparr>"

definition running_row :: wanted_row where
  "running_row = idle_row\<lparr>col_execution_state := ''running'', col_claimed_operation := Some ''movie_search'',
     col_attempt_id := Some ''a1'', col_lease_until := Some 2000\<rparr>"

definition database_of :: "wanted_row \<Rightarrow> database" where
  "database_of r = \<lparr>db_rows = [r], db_meta = [], db_logs = [], db_log_sequence = 0\<rparr>"

definition idle_db :: database where
  "idle_db = database_of idle_row"

definition running_db :: database where
  "running_db = database_of running_row"

definition sample_env :: repo_env where
  "sample_env =
     \<lparr>env_sha = (\<lambda>_. ''d''), env_f64_reparse = (\<lambda>x. x), env_clock = Inr 1000,
      env_attempt_id = (\<lambda>_. Inr (ExecutionAttemptId ''a2'')), env_fault = (\<lambda>_ _. None),
      env_constraint_text = (\<lambda>_. ''constraint'')\<rparr>"

definition sample_token :: execution_attempt_token where
  "sample_token = \<lparr>token_key = sample_key, token_attempt_id = ExecutionAttemptId ''a1'',
     token_operation = OpSearch\<rparr>"

definition sample_head :: subscription_head where
  "sample_head =
     \<lparr>head_key = sample_key, head_revision = Revision 1, head_active = True,
      head_inactive_at = None, head_last_seen_snapshot_id = None, head_media_kind = Movie,
      head_schedulable = True, head_blocked_reason = None, head_lifecycle_state = Searching,
      head_execution_state = Idle, head_next_attempt_at = Some 900, head_retry_count = 0,
      head_max_retries = 3, head_retry_blocked = False, head_force_eligible_once = False,
      head_updated_at = 900\<rparr>"

definition sample_detail :: "subscription_head \<Rightarrow> subscription_detail" where
  "sample_detail h =
     \<lparr>det_summary = \<lparr>sum_head = h,
        sum_projection = \<lparr>prj_title = ''Film'', prj_release_year = Some 2026,
          prj_poster_url = ''p'', prj_category_text = None, prj_douban_sort_time = Some 7\<rparr>,
        sum_attention_tags = []\<rparr>,
      det_payload = sample_payload\<rparr>"

definition sample_attempt :: persisted_attempt where
  "sample_attempt = \<lparr>persisted_token = sample_token, persisted_lease_until = 2000\<rparr>"

definition idle_stored :: stored_subscription where
  "idle_stored = \<lparr>stored_detail = sample_detail sample_head, stored_controls = ControlsIdle\<rparr>"

definition running_stored :: stored_subscription where
  "running_stored =
     \<lparr>stored_detail = sample_detail (sample_head\<lparr>head_execution_state := Running\<rparr>),
      stored_controls = ControlsRunning sample_attempt\<rparr>"

definition due_command :: claim_due_command where
  "due_command = \<lparr>cdue_account_key = ''acc'', cdue_lease_ttl = 60, cdue_limit = 1,
     cdue_metadata_only = False\<rparr>"

definition one_command :: claim_one_command where
  "one_command = \<lparr>cone_key = sample_key, cone_lease_ttl = 60\<rparr>"

definition finish_sample :: finish_execution_command where
  "finish_sample = \<lparr>finish_token = sample_token, finish_disposition = SearchPushed,
     finish_delta = DeltaSearch None []\<rparr>"

definition fail_sample :: fail_execution_command where
  "fail_sample = \<lparr>fail_token = sample_token, fail_error_type = ''net'', fail_message = ''down'',
     fail_retry_after = 60, fail_delta = DeltaSearch None []\<rparr>"

text \<open>A later environment, at which the sample lease is over.\<close>

definition late_env :: repo_env where
  "late_env = sample_env\<lparr>env_clock := Inr 5000\<rparr>"

definition other_token :: execution_attempt_token where
  "other_token = sample_token\<lparr>token_attempt_id := ExecutionAttemptId ''a0''\<rparr>"

lemma sample_dbs_ok: "db_ok idle_db" "db_ok running_db"
  by code_simp+

lemma sample_envs:
  "fault_free sample_env" "fault_free late_env"
  "clock_in_range sample_env 1000" "clock_in_range late_env 5000"
  by (simp_all add: fault_free_def clock_in_range_def sample_env_def late_env_def i64_max_def)

lemma load_readable:
  "load_stored_subscription env 0 db key = Inr st \<Longrightarrow> env_sha env = sha \<Longrightarrow> readable sha db key st"
  using load_stored_readable by blast

lemma sample_readable:
  "readable (env_sha sample_env) idle_db sample_key idle_stored"
  "readable (env_sha sample_env) running_db sample_key running_stored"
  "readable (env_sha late_env) running_db sample_key running_stored"
  by (rule load_readable [of sample_env], code_simp, simp add: late_env_def)+

lemma sample_token_key [simp]: "token_key sample_token = sample_key" "token_key other_token = sample_key"
  by (simp_all add: sample_token_def other_token_def)

end
