(* ===== verification/Claim_Theorems.thy ===== *)
theory Claim_Theorems
  imports Example_Data
begin

text \<open>
  The properties of the execution store, each with an instance on the sample database.
\<close>

subsection \<open>The fence\<close>

text \<open>C14. A stale token is powerless: when the row runs another attempt, every operation that
  presents the old token (extend, finish, fail, release) answers \<open>StaleAttempt\<close> with the
  attempt that replaced it, and the database is unchanged.\<close>

theorem stale_token_refused:
  assumes "fault_free env" and "clock_in_range env now"
    and "presented_token op = Some t" and "readable (env_sha env) db (token_key t) st"
    and "stored_controls st = ControlsRunning cur" and "persisted_token cur \<noteq> t"
  shows "operation_error env op db = Some (StaleAttempt t (Some (persisted_token cur))) \<and>
         run_operation env op db = db"
  using assms by (intro fence_refuses) (auto simp: require_live_attempt_def)

theorem stale_token_refused_witness:
  "operation_error sample_env (FinishAttempt (finish_sample\<lparr>finish_token := other_token\<rparr>)) running_db
     = Some (StaleAttempt other_token (Some sample_token)) \<and>
   run_operation sample_env (FinishAttempt (finish_sample\<lparr>finish_token := other_token\<rparr>)) running_db
     = running_db"
  using stale_token_refused [of sample_env 1000
      "FinishAttempt (finish_sample\<lparr>finish_token := other_token\<rparr>)" other_token running_db
      running_stored sample_attempt] sample_envs sample_readable
  by (simp add: running_stored_def sample_attempt_def other_token_def sample_token_def)

text \<open>A lease that is over cannot be used: from the second \<open>lease_until\<close> on, the owner's own
  token is answered \<open>LeaseExpired\<close> and nothing changes, whatever the operation.\<close>

theorem expired_lease_refused:
  assumes "fault_free env" and "clock_in_range env now"
    and "presented_token op = Some t" and "readable (env_sha env) db (token_key t) st"
    and "stored_controls st = ControlsRunning cur" and "persisted_token cur = t"
    and "persisted_lease_until cur \<le> now"
  shows "operation_error env op db = Some (LeaseExpired t (persisted_lease_until cur)) \<and>
         run_operation env op db = db"
  using assms by (intro fence_refuses) (auto simp: require_live_attempt_def)

theorem expired_lease_refused_witness:
  "operation_error late_env (FinishAttempt finish_sample) running_db = Some (LeaseExpired sample_token 2000) \<and>
   run_operation late_env (FinishAttempt finish_sample) running_db = running_db"
  using expired_lease_refused [of late_env 5000 "FinishAttempt finish_sample" sample_token running_db
      running_stored sample_attempt] sample_envs sample_readable
  by (simp add: running_stored_def sample_attempt_def finish_sample_def)

text \<open>C3. Success needs the live lease: an operation that presents a token and succeeds found
  exactly that attempt on the row, with a lease beyond the clock of its transaction. It raised
  the row's revision by one, left every other row alone, kept every CHECK and index of the
  table, and logged one entry for the subject.\<close>

theorem success_needs_live_owner:
  assumes "db_ok db" and "presented_token op = Some t" and "operation_error env op db = None"
  shows "\<exists>now st cur. env_clock env = Inr now \<and> readable (env_sha env) db (token_key t) st \<and>
           stored_controls st = ControlsRunning cur \<and> persisted_token cur = t \<and>
           now < persisted_lease_until cur \<and>
           row_step (token_key t) db (run_operation env op db)"
  using fence_passed [OF assms] fenced_row_step [OF assms(1)]
  unfolding fenced_step_def by blast

theorem success_needs_live_owner_witness:
  "\<exists>now st cur. env_clock sample_env = Inr now \<and>
     readable (env_sha sample_env) running_db (token_key sample_token) st \<and>
     stored_controls st = ControlsRunning cur \<and> persisted_token cur = sample_token \<and>
     now < persisted_lease_until cur \<and>
     row_step (token_key sample_token) running_db
       (run_operation sample_env (FinishAttempt finish_sample) running_db)"
proof (rule success_needs_live_owner)
  show "db_ok running_db" by (rule sample_dbs_ok)
  show "presented_token (FinishAttempt finish_sample) = Some sample_token"
    by (simp add: finish_sample_def)
  show "operation_error sample_env (FinishAttempt finish_sample) running_db = None" by code_simp
qed

text \<open>C2. A live lease is exclusive: as long as the lease of a row's attempt is not over, no due
  scan, no manual claim, no metadata claim and no operation with another token changes that
  row.\<close>

theorem live_lease_protects_row:
  assumes "db_ok db" and "readable (env_sha env) db key st"
    and "stored_controls st = ControlsRunning cur" and "env_clock env = Inr now"
    and "now < persisted_lease_until cur" and "presented_token op \<noteq> Some (persisted_token cur)"
  shows "find_row (run_operation env op db) key = find_row db key"
  by (rule live_lease_exclusive [OF assms])

theorem live_lease_protects_row_witness:
  "find_row (run_operation sample_env (ClaimDue due_command) running_db) sample_key
     = find_row running_db sample_key"
  using live_lease_protects_row [of running_db sample_env sample_key running_stored sample_attempt 1000
      "ClaimDue due_command"] sample_dbs_ok sample_readable
  by (simp add: running_stored_def sample_attempt_def sample_env_def)

text \<open>Along every sequence of transactions, with any clock, identifiers and faults, the table's
  invariant holds, no row appears or disappears, the log only grows, and a row whose revision
  is the same is the same row: the revision a client holds names the content it read.\<close>

theorem revision_names_content:
  assumes "store_step\<^sup>*\<^sup>* db db'" and "db_ok db"
  shows "db_ok db' \<and> later_database db db'"
  by (rule history_later [OF assms])

theorem revision_names_content_witness:
  "db_ok (run_operation sample_env (FinishAttempt finish_sample) running_db) \<and>
   later_database running_db (run_operation sample_env (FinishAttempt finish_sample) running_db)"
  using revision_names_content [of running_db
      "run_operation sample_env (FinishAttempt finish_sample) running_db"] sample_dbs_ok(2)
    store_step.operation [of running_db sample_env "FinishAttempt finish_sample"]
  by blast

subsection \<open>Claims\<close>

text \<open>The row a branch's query selects: its WHERE clause holds and no such row sorts before it.\<close>

definition branch_first :: "candidate_branch \<Rightarrow> string \<Rightarrow> int \<Rightarrow> database \<Rightarrow> wanted_row \<Rightarrow> bool" where
  "branch_first b account now db r \<longleftrightarrow>
     r \<in> set (db_rows db) \<and> branch_where b account now r \<and>
     (\<forall>x \<in> set (db_rows db). branch_where b account now x \<longrightarrow>
        (if b = BranchExpired then lease_order r \<le> lease_order x else due_order r \<le> due_order x))"

lemma branch_candidate_first: "branch_candidate b account now db = Some r \<Longrightarrow> branch_first b account now db r"
  by (cases b) (auto simp: branch_first_def expired_candidate_def force_candidate_def due_candidate_def
      dest: select_first_Some)

text \<open>C10. What a due scan hands out: the claimed row belongs to the account, its typed
  classification at the transaction's clock is an eligibility, no row is in a branch of higher
  priority (expired leases before forced rows before normally due ones), within its branch the
  row is the first by schedule, update time and subject, and the claim is a \<open>claim_step\<close>: a
  running attempt with an identifier no row held, the asked lease, the next revision and the
  same payload.\<close>

theorem claim_due_selects_first_eligible:
  assumes "db_ok db" and "claim_due env c db = (Inr (Some claimed), db')"
    and "\<not> cdue_metadata_only c"
  shows "\<exists>now st e b r. env_clock env = Inr now \<and>
    readable (env_sha env) db (head_key (stored_head st)) st \<and>
    account_key (head_key (stored_head st)) = cdue_account_key c \<and>
    classify st now = Inr (Eligible e) \<and> branch_matches b e \<and>
    find_row db (head_key (stored_head st)) = Some r \<and>
    branch_first b (cdue_account_key c) (uint now) db r \<and>
    (\<forall>b' \<in> set (earlier_branches e). \<forall>x \<in> set (db_rows db).
       \<not> branch_where b' (cdue_account_key c) (uint now) x) \<and>
    claim_step env db db' now (cdue_lease_ttl c) st e claimed"
proof (rule claim_due_Inr [OF assms(1,2)])
  fix now st e
  assume clock: "env_clock env = Inr now"
    and step: "claim_step env db db' now (cdue_lease_ttl c) st e claimed"
    and "if cdue_metadata_only c
      then select_metadata_candidate env db (cdue_account_key c) (uint now) = Inr (Some (st, e))
      else select_due_candidate env db (cdue_account_key c) now (uint now) = Inr (Some (st, e))"
  with assms(3) have "select_due_candidate env db (cdue_account_key c) now (uint now) = Inr (Some (st, e))"
    by simp
  then show ?thesis
    by (rule select_due_Some [OF assms(1)]) (use clock step branch_candidate_first in blast)
qed

theorem claim_due_selects_first_eligible_witness:
  "\<exists>claimed db'. claim_due sample_env due_command idle_db = (Inr (Some claimed), db') \<and>
    (\<exists>now st e b r. env_clock sample_env = Inr now \<and>
      readable (env_sha sample_env) idle_db (head_key (stored_head st)) st \<and>
      account_key (head_key (stored_head st)) = cdue_account_key due_command \<and>
      classify st now = Inr (Eligible e) \<and> branch_matches b e \<and>
      find_row idle_db (head_key (stored_head st)) = Some r \<and>
      branch_first b (cdue_account_key due_command) (uint now) idle_db r \<and>
      (\<forall>b' \<in> set (earlier_branches e). \<forall>x \<in> set (db_rows idle_db).
         \<not> branch_where b' (cdue_account_key due_command) (uint now) x) \<and>
      claim_step sample_env idle_db db' now (cdue_lease_ttl due_command) st e claimed)"
proof -
  have "\<not> (case fst (claim_due sample_env due_command idle_db) of Inr (Some _) \<Rightarrow> False | _ \<Rightarrow> True)"
    by code_simp
  then obtain claimed db' where "claim_due sample_env due_command idle_db = (Inr (Some claimed), db')"
    by (cases "claim_due sample_env due_command idle_db") (auto split: sum.splits option.splits)
  moreover have "\<not> cdue_metadata_only due_command" by (simp add: due_command_def)
  ultimately show ?thesis
    using claim_due_selects_first_eligible [OF sample_dbs_ok(1)] by blast
qed

text \<open>C11. A scan that hands out nothing missed nothing: every readable subscription of the account
  is rejected by the typed classification at that clock, and the database is unchanged.\<close>

theorem claim_due_misses_nothing:
  assumes "db_ok db" and "claim_due env c db = (Inr None, db')" and "\<not> cdue_metadata_only c"
    and "env_clock env = Inr now" and "readable (env_sha env) db key st"
    and "account_key key = cdue_account_key c"
  shows "(\<exists>x. classify st now = Inr (ClassRejected x)) \<and> db' = db"
proof -
  have sel: "select_due_candidate env db (cdue_account_key c) now (uint now) = Inr None"
    using assms(2,3,4) unfolding claim_due_def run_transaction_Inr claim_due_body_def
    by (auto split: option.splits)
  obtain r where r: "find_row db key = Some r" by (rule readable_row [OF assms(1,5)])
  have "\<not> branch_where b (cdue_account_key c) (uint now) r" for b
    using select_branches_None [OF sel [unfolded select_due_candidate_def], of b] find_row_Some [OF r]
    by (cases b) (auto simp: branch_candidate_None simp del: branch_candidate.simps branch_where.simps)
  then have "\<not> (classify st now = Inr (Eligible e) \<and> branch_matches b e)" for e b
    using branch_agrees [OF assms(1,5) r] assms(6) by metis
  then have "classify st now \<noteq> Inr (Eligible e)" for e
    by (cases e) (metis branch_matches.simps)+
  moreover obtain k where "classify st now = Inr k"
    using classify_total [OF assms(1,5) r] by blast
  ultimately show ?thesis
    using claim_due_None [OF assms(2)] by (cases k) auto
qed

theorem claim_due_misses_nothing_witness:
  "(\<exists>x. classify running_stored 1000 = Inr (ClassRejected x)) \<and>
   snd (claim_due sample_env due_command running_db) = running_db"
proof -
  have "(case fst (claim_due sample_env due_command running_db) of Inr None \<Rightarrow> True | _ \<Rightarrow> False)"
    by code_simp
  then obtain db' where "claim_due sample_env due_command running_db = (Inr None, db')"
    by (cases "claim_due sample_env due_command running_db") (auto split: sum.splits option.splits)
  with claim_due_misses_nothing [OF sample_dbs_ok(2) this _ _ sample_readable(2), of 1000] show ?thesis
    by (simp add: due_command_def sample_env_def sample_key_def)
qed

text \<open>The three candidate queries are the typed classification in SQL: for every row the code can
  load, the WHERE clause of a branch holds exactly when the loaded subscription is classified
  as eligible for that branch, so the scan never meets the index corruption it checks for.\<close>

theorem candidate_query_is_classification:
  assumes "db_ok db" and "readable sha db key st" and "find_row db key = Some r"
  shows "branch_where b (account_key key) (uint now) r \<longleftrightarrow>
    (\<exists>e. classify st now = Inr (Eligible e) \<and> branch_matches b e)"
  by (rule branch_agrees [OF assms])

theorem candidate_query_is_classification_witness:
  "branch_where BranchNormal ''acc'' (uint (1000 :: u64)) idle_row \<longleftrightarrow>
    (\<exists>e. classify idle_stored 1000 = Inr (Eligible e) \<and> branch_matches BranchNormal e)"
proof -
  have "find_row idle_db sample_key = Some idle_row" by code_simp
  from candidate_query_is_classification [OF sample_dbs_ok(1) sample_readable(1) this, of BranchNormal 1000]
  show ?thesis by (simp add: sample_key_def del: branch_where.simps)
qed

text \<open>The due scan always has an answer: when no call faults and every row of the account can be
  loaded, selecting a candidate succeeds, whatever the rows are.\<close>

theorem due_scan_never_fails:
  assumes "db_ok db" and "fault_free env"
    and "\<forall>r \<in> set (db_rows db). col_account_key r = account \<longrightarrow>
           (\<exists>st. readable (env_sha env) db (row_key r) st)"
  shows "\<exists>x. select_due_candidate env db account now (uint now) = Inr x"
  unfolding select_due_candidate_def using assms(3)
  by (intro select_branches_total [OF assms(1,2)]) blast

theorem due_scan_never_fails_witness:
  "\<exists>x. select_due_candidate sample_env running_db ''acc'' 1000 (uint (1000 :: u64)) = Inr x"
proof (rule due_scan_never_fails [OF sample_dbs_ok(2) sample_envs(1)])
  have "row_key running_row = sample_key" by code_simp
  then show "\<forall>r \<in> set (db_rows running_db). col_account_key r = ''acc'' \<longrightarrow>
      (\<exists>st. readable (env_sha sample_env) running_db (row_key r) st)"
    using sample_readable(2) by (auto simp: running_db_def database_of_def)
qed

text \<open>A manual claim does what the classification of the row says: a rejected subscription is
  reported with the reason and left untouched, an eligible one is claimed.\<close>

theorem claim_one_follows_classification:
  assumes "db_ok db" and "claim_one env c db = (Inr y, db')"
  shows "\<exists>now st. env_clock env = Inr now \<and> readable (env_sha env) db (cone_key c) st \<and>
    (case y of Rejected x \<Rightarrow> classify st now = Inr (ClassRejected x) \<and> db' = db
     | Claimed claimed \<Rightarrow> \<exists>e. classify st now = Inr (Eligible e) \<and>
         claim_step env db db' now (cone_lease_ttl c) st e claimed)"
proof (cases y)
  case (Claimed claimed)
  with assms claim_one_Inr [OF assms(1), of env c claimed db'] show ?thesis by fastforce
next
  case (Rejected x)
  then obtain now st where "env_clock env = Inr now"
      "load_stored_subscription env 0 db (cone_key c) = Inr st" "classify st now = Inr (ClassRejected x)"
    using assms(2) unfolding claim_one_def run_transaction_Inr claim_one_body_def
    by (auto split: classification.splits)
  with Rejected assms(2) load_stored_readable claim_one_Rejected show ?thesis by fastforce
qed

theorem claim_one_follows_classification_witness:
  "\<exists>y db'. claim_one sample_env one_command running_db = (Inr y, db') \<and>
    (\<exists>now st. env_clock sample_env = Inr now \<and>
      readable (env_sha sample_env) running_db (cone_key one_command) st \<and>
      (case y of Rejected x \<Rightarrow> classify st now = Inr (ClassRejected x) \<and> db' = running_db
       | Claimed claimed \<Rightarrow> \<exists>e. classify st now = Inr (Eligible e) \<and>
           claim_step sample_env running_db db' now (cone_lease_ttl one_command) st e claimed))"
proof -
  have "is_ok (fst (claim_one sample_env one_command running_db))" by code_simp
  then obtain y db' where "claim_one sample_env one_command running_db = (Inr y, db')"
    by (cases "claim_one sample_env one_command running_db") (auto simp: is_ok_iff)
  with claim_one_follows_classification [OF sample_dbs_ok(2)] show ?thesis by blast
qed

text \<open>A metadata-only scan claims metadata work only: the row was queued or in metadata, active
  and schedulable, the attempt's operation is \<open>movie_meta\<close>, and an attempt it replaced had
  outlived its lease.\<close>

theorem metadata_claim_is_metadata:
  assumes "db_ok db" and "claim_due env c db = (Inr (Some claimed), db')" and "cdue_metadata_only c"
  shows "\<exists>now st. env_clock env = Inr now \<and>
    readable (env_sha env) db (head_key (stored_head st)) st \<and>
    head_lifecycle_state (stored_head st) \<in> {Queued, Meta} \<and>
    head_active (stored_head st) \<and> head_schedulable (stored_head st) \<and>
    token_operation (current_token (claimed_attempt claimed)) = OpMeta \<and>
    (\<forall>p. stored_controls st = ControlsRunning p \<longrightarrow> persisted_lease_until p \<le> now)"
proof (rule claim_due_Inr [OF assms(1,2)])
  fix now st e
  assume clock: "env_clock env = Inr now" and rd: "readable (env_sha env) db (head_key (stored_head st)) st"
    and step: "claim_step env db db' now (cdue_lease_ttl c) st e claimed"
    and "if cdue_metadata_only c
      then select_metadata_candidate env db (cdue_account_key c) (uint now) = Inr (Some (st, e))
      else select_due_candidate env db (cdue_account_key c) now (uint now) = Inr (Some (st, e))"
  with assms(3) have "select_metadata_candidate env db (cdue_account_key c) (uint now) = Inr (Some (st, e))"
    by simp
  then obtain r where r: "metadata_candidate (cdue_account_key c) (uint now) db = Some r"
      "find_row db (head_key (stored_head st)) = Some r"
      "e = (case stored_controls st of ControlsRunning previous \<Rightarrow> EligExpired previous
            | ControlsIdle \<Rightarrow> EligNormal OpMeta)"
    by (rule select_metadata_Some [OF assms(1)])
  have w: "metadata_where (cdue_account_key c) (uint now) r"
    using select_first_Some(2) r(1) unfolding metadata_candidate_def by blast
  have cols: "head_columns r (stored_head st)" "controls_columns r (head_key (stored_head st)) st"
    using rd r(2) unfolding readable_columns [OF assms(1)] by (auto dest: detail_columns_head)
  have queued: "head_lifecycle_state (stored_head st) \<in> {Queued, Meta}"
    using cols(1) w by (cases "head_lifecycle_state (stored_head st)")
      (auto simp: head_columns_def metadata_where_def)
  then have meta: "operation_for_lifecycle (head_lifecycle_state (stored_head st)) = Some OpMeta"
    by auto
  have op: "eligibility_operation e = OpMeta"
    using r(3) cols(2) meta by (auto simp: controls_columns_def split: execution_controls.splits)
  have over: "persisted_lease_until p \<le> now" if "stored_controls st = ControlsRunning p" for p
    using that cols w by (auto simp: controls_columns_def metadata_where_def head_columns_def
        opt_le_def word_le_def)
  have "head_active (stored_head st)" "head_schedulable (stored_head st)"
    using cols(1) w by (auto simp: head_columns_def metadata_where_def)
  moreover have "token_operation (current_token (claimed_attempt claimed)) = OpMeta"
    using step op by (simp add: claim_step_def Let_def)
  ultimately show ?thesis
    using clock rd queued over by blast
qed

definition queued_db :: database where
  "queued_db = database_of (idle_row\<lparr>col_lifecycle_state := ''queued''\<rparr>)"

theorem metadata_claim_is_metadata_witness:
  "\<exists>claimed db'. claim_due sample_env (metadata_only due_command) queued_db = (Inr (Some claimed), db') \<and>
    token_operation (current_token (claimed_attempt claimed)) = OpMeta"
proof -
  have "(case fst (claim_due sample_env (metadata_only due_command) queued_db) of
      Inr (Some _) \<Rightarrow> True | _ \<Rightarrow> False)"
    by code_simp
  then obtain claimed db' where run: "claim_due sample_env (metadata_only due_command) queued_db
      = (Inr (Some claimed), db')"
    by (cases "claim_due sample_env (metadata_only due_command) queued_db")
      (auto split: sum.splits option.splits)
  have "db_ok queued_db" by code_simp
  from metadata_claim_is_metadata [OF this run] run show ?thesis
    by (auto simp: metadata_only_def)
qed

text \<open>Eight identifiers: a claim that ends without an attempt identifier drew all eight, and each
  was the identifier it replaces or refused by the unique index; no draw is skipped.\<close>

theorem eight_identifiers_drawn:
  assumes "allocate_attempt env previous statement db [0..<max_attempt_id_attempts] = Inr None"
    and "k < 8"
  shows "\<exists>a. env_attempt_id env k = Inr a \<and>
    (previous = Some a \<or> statement a db = Inr (Inl AttemptNotUnique))"
  using assms by (intro allocate_attempt_None) (auto simp: max_attempt_id_attempts_def)

theorem eight_identifiers_drawn_witness:
  "\<exists>a. env_attempt_id sample_env 7 = Inr a \<and>
    (Some (ExecutionAttemptId ''a2'') = Some a \<or> Inr (Inr (1, idle_db)) = Inr (Inl AttemptNotUnique))"
  using eight_identifiers_drawn [of sample_env "Some (ExecutionAttemptId ''a2'')"
      "\<lambda>_ _. Inr (Inr (1, idle_db))" idle_db 7]
  by (simp add: sample_env_def max_attempt_id_attempts_def)

end
