(* ===== verification/Poll_Contract.thy ===== *)
theory Poll_Contract
  imports Repository_Domain
begin

text \<open>
  The poll half of \<open>src/subscription/repository.rs\<close>: the commands that open and end one
  poll of an account's wanted list, the records of a snapshot, and the backoff of
  \<open>PollRetryPolicy\<close>.
\<close>

record begin_poll_command =
  bpoll_account_key :: string
  bpoll_attempted_at :: u64

definition begin_poll_command_try_new :: "string \<Rightarrow> u64 \<Rightarrow> begin_poll_command repository_result" where
  "begin_poll_command_try_new account attempted_at =
     and_then (validated_text ''account_key'' account) (\<lambda>a.
     Inr \<lparr>bpoll_account_key = a, bpoll_attempted_at = attempted_at\<rparr>)"

record begin_poll_result =
  bpollr_token :: poll_attempt_token
  bpollr_attempted_at :: u64

definition validate_schedulability :: "bool \<Rightarrow> blocked_reason option \<Rightarrow> unit repository_result" where
  "validate_schedulability schedulable reason =
     (case (schedulable, reason) of
        (True, None) \<Rightarrow> Inr ()
      | (False, Some _) \<Rightarrow> Inr ()
      | (True, Some _) \<Rightarrow> Inl (InvalidInput ''blocked_reason''
          ''a schedulable subscription cannot have a blocked reason'')
      | (False, None) \<Rightarrow> Inl (InvalidInput ''blocked_reason''
          ''an unschedulable subscription must have a blocked reason''))"

record snapshot_record =
  snap_subject_id :: string
  snap_media_kind :: media_kind
  snap_schedulable :: bool
  snap_blocked_reason :: "blocked_reason option"
  snap_source :: wanted_source_payload

definition validate_snapshot_schedulability ::
  "media_kind \<Rightarrow> bool \<Rightarrow> blocked_reason option \<Rightarrow> unit repository_result" where
  "validate_snapshot_schedulability _ schedulable reason = validate_schedulability schedulable reason"

definition snapshot_record_validate :: "snapshot_record \<Rightarrow> unit repository_result" where
  "snapshot_record_validate r =
     and_then (validated_text ''subject_id'' (snap_subject_id r)) (\<lambda>_.
     and_then (projection_from_source (snap_source r)) (\<lambda>_.
     validate_snapshot_schedulability (snap_media_kind r) (snap_schedulable r)
       (snap_blocked_reason r)))"

definition snapshot_record_try_new ::
  "string \<Rightarrow> media_kind \<Rightarrow> bool \<Rightarrow> blocked_reason option \<Rightarrow> wanted_source_payload
    \<Rightarrow> snapshot_record repository_result" where
  "snapshot_record_try_new subject kind schedulable reason source =
     and_then (validated_text ''subject_id'' subject) (\<lambda>s.
     let r = \<lparr>snap_subject_id = s, snap_media_kind = kind, snap_schedulable = schedulable,
              snap_blocked_reason = reason, snap_source = source\<rparr> in
     and_then (snapshot_record_validate r) (\<lambda>_. Inr r))"

fun validate_records_from ::
  "string \<Rightarrow> string list \<Rightarrow> snapshot_record list \<Rightarrow> unit repository_result" where
  "validate_records_from kind seen [] = Inr ()"
| "validate_records_from kind seen (r # rs) =
     and_then (snapshot_record_validate r) (\<lambda>_.
     if snap_subject_id r \<in> set seen
     then Inl (InvalidInput ''records''
            (kind @ '' snapshot contains duplicate subject '' @ snap_subject_id r))
     else validate_records_from kind (snap_subject_id r # seen) rs)"

definition validate_snapshot_records :: "string \<Rightarrow> snapshot_record list \<Rightarrow> unit repository_result" where
  "validate_snapshot_records kind records = validate_records_from kind [] records"

record new_record_policy =
  policy_max_retries :: u32
  policy_bootstrap_existing_as_skipped :: bool

definition new_record_policy_try_new :: "u32 \<Rightarrow> bool \<Rightarrow> new_record_policy repository_result" where
  "new_record_policy_try_new max_retries bootstrap =
     (if max_retries = 0
      then Inl (InvalidInput ''max_retries''
             ''new subscription max retries must be greater than zero'')
      else Inr \<lparr>policy_max_retries = max_retries,
                policy_bootstrap_existing_as_skipped = bootstrap\<rparr>)"

definition validate_next_poll_at :: "string \<Rightarrow> u64 \<Rightarrow> u64 \<Rightarrow> unit repository_result" where
  "validate_next_poll_at field terminal_at next_poll_at =
     reject_if (next_poll_at < terminal_at)
       (InvalidInput ''next_poll_at'' (''next poll time cannot precede '' @ field))"

record apply_complete_snapshot_command =
  acs_account_key :: string
  acs_token :: poll_attempt_token
  acs_completed_at :: u64
  acs_next_poll_at :: u64
  acs_new_record_policy :: new_record_policy
  acs_records :: "snapshot_record list"

definition apply_complete_command_try_new ::
  "string \<Rightarrow> poll_attempt_token \<Rightarrow> u64 \<Rightarrow> u64 \<Rightarrow> new_record_policy \<Rightarrow> snapshot_record list
    \<Rightarrow> apply_complete_snapshot_command repository_result" where
  "apply_complete_command_try_new account token completed_at next_poll_at policy records =
     and_then (validate_next_poll_at ''completed_at'' completed_at next_poll_at) (\<lambda>_.
     and_then (validate_snapshot_records ''complete'' records) (\<lambda>_.
     and_then (validated_text ''account_key'' account) (\<lambda>a.
     Inr \<lparr>acs_account_key = a, acs_token = token, acs_completed_at = completed_at,
          acs_next_poll_at = next_poll_at, acs_new_record_policy = policy,
          acs_records = records\<rparr>)))"

record apply_complete_snapshot_result =
  acsr_token :: poll_attempt_token
  acsr_inserted :: nat
  acsr_updated :: nat
  acsr_unchanged :: nat
  acsr_reactivated :: nat
  acsr_deactivated :: nat
  acsr_completed_at :: u64
  acsr_next_poll_at :: u64

subsection \<open>Backoff\<close>

record poll_retry_policy =
  retry_initial_delay_secs :: u64
  retry_max_delay_secs :: u64

definition poll_retry_policy_try_new :: "u64 \<Rightarrow> u64 \<Rightarrow> poll_retry_policy repository_result" where
  "poll_retry_policy_try_new initial maximum =
     (if initial = 0
      then Inl (InvalidInput ''initial_delay_secs''
             ''initial retry delay must be greater than zero'')
      else if maximum < initial
      then Inl (InvalidInput ''max_delay_secs''
             ''maximum retry delay cannot be less than the initial delay'')
      else Inr \<lparr>retry_initial_delay_secs = initial, retry_max_delay_secs = maximum\<rparr>)"

text \<open>The loop \<open>for _ in 1..failure_count\<close> with its early exit; the counter is the fuel.\<close>

fun delay_loop :: "nat \<Rightarrow> u64 \<Rightarrow> u64 \<Rightarrow> u64" where
  "delay_loop 0 maximum delay = delay"
| "delay_loop (Suc n) maximum delay =
     (let doubled = min (saturating_mul delay 2) maximum in
      if doubled = maximum then doubled else delay_loop n maximum doubled)"

definition delay_secs :: "poll_retry_policy \<Rightarrow> u32 \<Rightarrow> u64" where
  "delay_secs policy failure_count =
     delay_loop (unat failure_count - 1) (retry_max_delay_secs policy)
       (retry_initial_delay_secs policy)"

definition retry_next_poll_at :: "poll_retry_policy \<Rightarrow> u64 \<Rightarrow> u32 \<Rightarrow> u64" where
  "retry_next_poll_at policy terminal_at failure_count =
     saturating_add terminal_at (delay_secs policy failure_count)"

subsection \<open>Incomplete and failed polls\<close>

datatype incomplete_snapshot_reason =
    ItemLimitReached
  | MaximumPageCountReached
  | RepeatedPage
  | EndNotObserved

record incomplete_snapshot_observation =
  inc_fetched_pages :: u32
  inc_truncated_by_limit :: bool
  inc_end_observed :: bool
  inc_reason :: incomplete_snapshot_reason

definition incomplete_observation_try_new ::
  "u32 \<Rightarrow> bool \<Rightarrow> bool \<Rightarrow> incomplete_snapshot_reason
    \<Rightarrow> incomplete_snapshot_observation repository_result" where
  "incomplete_observation_try_new pages truncated end_observed reason =
     (if end_observed
      then Inl (InvalidInput ''end_observed''
             ''an incomplete snapshot cannot have observed the source end'')
      else if reason = ItemLimitReached \<and> \<not> truncated
      then Inl (InvalidInput ''truncated_by_limit''
             ''an item-limit reason requires limit truncation metadata'')
      else Inr \<lparr>inc_fetched_pages = pages, inc_truncated_by_limit = truncated,
                inc_end_observed = end_observed, inc_reason = reason\<rparr>)"

record record_incomplete_snapshot_command =
  ris_account_key :: string
  ris_token :: poll_attempt_token
  ris_incomplete_at :: u64
  ris_fetched_pages :: u32
  ris_truncated_by_limit :: bool
  ris_end_observed :: bool
  ris_reason :: incomplete_snapshot_reason
  ris_new_record_policy :: new_record_policy
  ris_records :: "snapshot_record list"
  ris_retry_policy :: poll_retry_policy

definition record_incomplete_command_try_new ::
  "string \<Rightarrow> poll_attempt_token \<Rightarrow> u64 \<Rightarrow> incomplete_snapshot_observation \<Rightarrow> new_record_policy
    \<Rightarrow> snapshot_record list \<Rightarrow> poll_retry_policy
    \<Rightarrow> record_incomplete_snapshot_command repository_result" where
  "record_incomplete_command_try_new account token incomplete_at ob policy records retry =
     and_then (validate_snapshot_records ''incomplete'' records) (\<lambda>_.
     and_then (validated_text ''account_key'' account) (\<lambda>a.
     Inr \<lparr>ris_account_key = a, ris_token = token, ris_incomplete_at = incomplete_at,
          ris_fetched_pages = inc_fetched_pages ob,
          ris_truncated_by_limit = inc_truncated_by_limit ob,
          ris_end_observed = inc_end_observed ob, ris_reason = inc_reason ob,
          ris_new_record_policy = policy, ris_records = records, ris_retry_policy = retry\<rparr>))"

record record_incomplete_snapshot_result =
  risr_token :: poll_attempt_token
  risr_inserted :: nat
  risr_updated :: nat
  risr_unchanged :: nat
  risr_reactivated :: nat
  risr_incomplete_at :: u64
  risr_failure_count :: u32
  risr_next_poll_at :: u64

record record_poll_failure_command =
  rpf_account_key :: string
  rpf_token :: poll_attempt_token
  rpf_failed_at :: u64
  rpf_message :: string
  rpf_retry_policy :: poll_retry_policy

definition record_poll_failure_command_try_new ::
  "string \<Rightarrow> poll_attempt_token \<Rightarrow> u64 \<Rightarrow> string \<Rightarrow> poll_retry_policy
    \<Rightarrow> record_poll_failure_command repository_result" where
  "record_poll_failure_command_try_new account token failed_at message retry =
     and_then (validated_text ''account_key'' account) (\<lambda>a.
     and_then (validated_text ''message'' message) (\<lambda>m.
     Inr \<lparr>rpf_account_key = a, rpf_token = token, rpf_failed_at = failed_at, rpf_message = m,
          rpf_retry_policy = retry\<rparr>))"

record record_poll_failure_result =
  rpfr_token :: poll_attempt_token
  rpfr_failure_count :: u32
  rpfr_next_poll_at :: u64

subsection \<open>Facts\<close>

lemma validate_schedulability_Inr [simp]:
  "validate_schedulability b r = Inr () \<longleftrightarrow> (b \<longleftrightarrow> r = None)"
  by (cases b; cases r) (simp_all add: validate_schedulability_def)

definition snapshot_record_wf :: "snapshot_record \<Rightarrow> bool" where
  "snapshot_record_wf r \<longleftrightarrow> valid_text (snap_subject_id r) \<and> source_wf (snap_source r) \<and>
     (snap_schedulable r \<longleftrightarrow> snap_blocked_reason r = None)"

lemma snapshot_record_validate_Inr [simp]:
  "snapshot_record_validate r = Inr () \<longleftrightarrow> snapshot_record_wf r"
  by (auto simp: snapshot_record_validate_def snapshot_record_wf_def and_then_Inr_iff
      validate_snapshot_schedulability_def)

lemma validate_records_from_Inr:
  "validate_records_from kind seen rs = Inr () \<longleftrightarrow>
     (\<forall>r \<in> set rs. snapshot_record_wf r) \<and> distinct (map snap_subject_id rs) \<and>
     snap_subject_id ` set rs \<inter> set seen = {}"
  by (induction kind seen rs rule: validate_records_from.induct) (auto simp: and_then_Inr_iff)

lemma validate_snapshot_records_Inr [simp]:
  "validate_snapshot_records kind rs = Inr () \<longleftrightarrow>
     (\<forall>r \<in> set rs. snapshot_record_wf r) \<and> distinct (map snap_subject_id rs)"
  by (simp add: validate_snapshot_records_def validate_records_from_Inr)

lemma uint_doubled:
  "uint (min (saturating_mul d 2) m) = min (2 * uint d) (uint (m :: u64))"
proof -
  have "uint m < 2 ^ 64"
    using uint_lt2p [of m] by simp
  then show ?thesis
    by (auto simp: min_def word_le_def uint_saturating_mul)
qed

lemma uint_delay_loop:
  "d \<le> m \<Longrightarrow> uint (delay_loop n m d) = min (uint d * 2 ^ n) (uint m)"
proof (induction n arbitrary: d)
  case 0
  then show ?case by (simp add: word_le_def)
next
  case (Suc n)
  show ?case
  proof (cases "min (saturating_mul d 2) m = m")
    case True
    then have "uint m \<le> 2 * uint d"
      by (metis uint_doubled min.cobounded1)
    moreover have "2 * uint d * 1 \<le> 2 * uint d * 2 ^ n"
      by (intro mult_left_mono) simp_all
    ultimately have "uint m \<le> uint d * 2 ^ Suc n" by simp
    with True show ?thesis by (simp add: Let_def)
  next
    case False
    then have "uint (min (saturating_mul d 2) m) \<noteq> uint m"
      unfolding word_uint_eq_iff .
    then have "uint (min (saturating_mul d 2) m) = 2 * uint d"
      unfolding uint_doubled by (simp add: min_def split: if_splits)
    with Suc.IH [of "min (saturating_mul d 2) m"] False show ?thesis
      by (simp add: Let_def mult.commute mult.left_commute)
  qed
qed

text \<open>The retry delay of a valid policy after \<open>n\<close> consecutive failures is the initial
  delay doubled \<open>n - 1\<close> times and capped at the maximum: the saturating loop with its
  early exit computes \<open>min (initial * 2 ^ (n - 1)) maximum\<close> exactly, for every 32-bit
  failure count and without overflow.
\<close>

theorem delay_secs_closed_form:
  assumes "poll_retry_policy_try_new initial maximum = Inr policy"
  shows "uint (delay_secs policy n) = min (uint initial * 2 ^ (unat n - 1)) (uint maximum)"
proof -
  have "policy = \<lparr>retry_initial_delay_secs = initial, retry_max_delay_secs = maximum\<rparr>"
    and "initial \<le> maximum"
    using assms by (auto simp: poll_retry_policy_try_new_def split: if_splits)
  then show ?thesis
    by (simp add: delay_secs_def uint_delay_loop)
qed

theorem delay_secs_closed_form_witness:
  "uint (delay_secs \<lparr>retry_initial_delay_secs = 5, retry_max_delay_secs = 20\<rparr> 3) = 20"
  using delay_secs_closed_form [of 5 20 "\<lparr>retry_initial_delay_secs = 5, retry_max_delay_secs = 20\<rparr>" 3]
  by (simp add: poll_retry_policy_try_new_def)

end
