(* ===== verification/Poll_Store.thy ===== *)
theory Poll_Store
  imports Claim_Store Poll_Contract
begin

text \<open>
  The poll store of \<open>src/storage/subscription_repo/poll.rs\<close>. A poll of an account's
  wanted list is opened with a token (generation and snapshot identifier) and ended by one
  of three transactions that consume the token: a complete snapshot, an incomplete one or
  a failure. This theory holds the account row, the token and the row reads; the merge of
  a snapshot follows in \<open>Poll_Merge\<close> and the transactions in \<open>Poll_Operations\<close>.
\<close>

subsection \<open>Statements on the account row\<close>

definition find_meta :: "database \<Rightarrow> string \<Rightarrow> meta_row option" where
  "find_meta db account = find (\<lambda>m. meta_account_key m = account) (db_meta db)"

definition meta_update ::
  "string \<Rightarrow> (meta_row \<Rightarrow> bool) \<Rightarrow> (meta_row \<Rightarrow> meta_row) \<Rightarrow> database
    \<Rightarrow> sql_constraint + (nat \<times> database)" where
  "meta_update account p f db =
     (let hit = (\<lambda>m. meta_account_key m = account \<and> p m) in
      if list_ex (\<lambda>m. hit m \<and> \<not> meta_ok (f m)) (db_meta db) then Inl CheckFailed
      else Inr (length (filter hit (db_meta db)),
                db\<lparr>db_meta := map (\<lambda>m. if hit m then f m else m) (db_meta db)\<rparr>))"

definition meta_insert :: "meta_row \<Rightarrow> database \<Rightarrow> sql_constraint + (nat \<times> database)" where
  "meta_insert m db =
     (if \<not> meta_ok m then Inl CheckFailed
      else if find_meta db (meta_account_key m) \<noteq> None then Inl DuplicateKey
      else Inr (1, db\<lparr>db_meta := db_meta db @ [m]\<rparr>))"

subsection \<open>Tokens\<close>

definition state_version :: int where
  "state_version = 1"

definition snapshot_id_prefix :: string where
  "snapshot_id_prefix = ''wanted-poll-v1-''"

definition snapshot_id_domain :: string where
  "snapshot_id_domain = ''tmdb-mteam-hub/wanted-poll-snapshot/v1'' @ [CHR 0x00]"

text \<open>\<open>u64::to_be_bytes\<close>\<close>

definition be_bytes :: "u64 \<Rightarrow> string" where
  "be_bytes v = map (\<lambda>i. char_of (unat (drop_bit (8 * i) v) mod 256)) [7, 6, 5, 4, 3, 2, 1, 0]"

definition stable_snapshot_id ::
  "(string \<Rightarrow> string) \<Rightarrow> string \<Rightarrow> u64 \<Rightarrow> snapshot_id repository_result" where
  "stable_snapshot_id sha account generation =
     snapshot_id_try_new (snapshot_id_prefix @ hex_bytes
       (sha (snapshot_id_domain @ be_bytes (word_of_nat (length account)) @ account
             @ be_bytes generation)))"

definition int_str :: "int \<Rightarrow> string" where
  "int_str v = (if v < 0 then CHR ''-'' # decimal (nat (- v)) else decimal (nat v))"

definition validate_state_version :: "int \<Rightarrow> unit repository_result" where
  "validate_state_version v =
     (if v = state_version then Inr ()
      else Inl (corrupt (''subscription state_version is '' @ int_str v @ '', expected ''
             @ int_str state_version)))"

definition meta_current_token :: "meta_row \<Rightarrow> poll_attempt_token option repository_result" where
  "meta_current_token m =
     and_then (checked_u64 ''poll_generation'' (meta_poll_generation m)) (\<lambda>generation.
     case (meta_open_poll_generation m, meta_open_snapshot_id m) of
       (None, None) \<Rightarrow> Inr None
     | (Some open_generation, Some snapshot) \<Rightarrow>
         and_then (checked_u64 ''open_poll_generation'' open_generation) (\<lambda>open_g.
         if open_g \<noteq> generation
         then Inl (corrupt ''open_poll_generation does not equal poll_generation'')
         else
         and_then (map_err (persisted_validation ''decode open poll generation'')
                     (poll_generation_try_new open_g)) (\<lambda>g.
         and_then (map_err (persisted_validation ''decode open poll snapshot ID'')
                     (snapshot_id_try_new snapshot)) (\<lambda>s.
         Inr (Some \<lparr>poll_generation = g, poll_snapshot_id = s\<rparr>))))
     | _ \<Rightarrow> Inl (corrupt
         ''open_poll_generation and open_snapshot_id must both be NULL or both be present''))"

definition stale_poll ::
  "string \<Rightarrow> poll_attempt_token \<Rightarrow> poll_attempt_token option \<Rightarrow> repository_error" where
  "stale_poll account attempted current = StalePoll account attempted current"

record terminal_meta =
  tm_created_at :: u64
  tm_updated_at :: u64
  tm_last_poll_attempt_at :: u64
  tm_failure_count :: u32
  tm_bootstrap_completed :: bool

definition require_current_poll ::
  "repo_env \<Rightarrow> database \<Rightarrow> string \<Rightarrow> poll_attempt_token \<Rightarrow> terminal_meta repository_result" where
  "require_current_poll env db account attempted =
     and_then (sql_call env 0 ''read current poll token'') (\<lambda>_.
     case find_meta db account of
       None \<Rightarrow> Inl (stale_poll account attempted None)
     | Some m \<Rightarrow>
         and_then (validate_state_version (meta_state_version m)) (\<lambda>_.
         and_then (meta_current_token m) (\<lambda>current.
         if current \<noteq> Some attempted then Inl (stale_poll account attempted current)
         else
         and_then (ok_or (corrupt ''an open poll token has no last_poll_attempt_at'')
                     (meta_last_poll_attempt_at m)) (\<lambda>last_attempt.
         and_then (checked_u64 ''created_at'' (meta_created_at m)) (\<lambda>created_at.
         and_then (checked_u64 ''updated_at'' (meta_updated_at m)) (\<lambda>updated_at.
         and_then (checked_u64 ''last_poll_attempt_at'' last_attempt) (\<lambda>attempt_at.
         and_then (checked_u32 ''poll_failure_count'' (meta_poll_failure_count m)) (\<lambda>failures.
         and_then (checked_bool ''bootstrap_completed'' (meta_bootstrap_completed m)) (\<lambda>bootstrap.
         Inr \<lparr>tm_created_at = created_at, tm_updated_at = updated_at,
              tm_last_poll_attempt_at = attempt_at, tm_failure_count = failures,
              tm_bootstrap_completed = bootstrap\<rparr>)))))))))"

definition validate_terminal_time :: "terminal_meta \<Rightarrow> string \<Rightarrow> u64 \<Rightarrow> unit repository_result" where
  "validate_terminal_time m field terminal_at =
     (let lower_bound = max (max (tm_created_at m) (tm_updated_at m)) (tm_last_poll_attempt_at m) in
      reject_if (terminal_at < lower_bound)
        (InvalidInput field (''poll terminal time '' @ u64_str terminal_at
           @ '' precedes persisted open-attempt time '' @ u64_str lower_bound)))"

definition read_current_token ::
  "repo_env \<Rightarrow> database \<Rightarrow> string \<Rightarrow> poll_attempt_token option repository_result" where
  "read_current_token env db account =
     and_then (sql_call env 0 ''resolve current poll token'') (\<lambda>_.
     case find_meta db account of None \<Rightarrow> Inr None | Some m \<Rightarrow> meta_current_token m)"

definition require_consumed ::
  "repo_env \<Rightarrow> database \<Rightarrow> nat \<Rightarrow> string \<Rightarrow> poll_attempt_token \<Rightarrow> unit repository_result" where
  "require_consumed env db changed account attempted =
     (if changed = 1 then Inr ()
      else if changed > 1
      then Inl (Internal (''poll terminal metadata update changed '' @ decimal changed
             @ '' primary-key rows''))
      else
      and_then (read_current_token env db account) (\<lambda>current.
      if current = Some attempted
      then Inl (Internal
        ''exact poll token update matched no row even though the token remained current'')
      else Inl (stale_poll account attempted current)))"

definition require_single_write :: "nat \<Rightarrow> string \<Rightarrow> unit repository_result" where
  "require_single_write changed context =
     (if changed = 1 then Inr ()
      else Inl (Internal (context @ '' changed '' @ decimal changed
             @ '' rows, expected exactly one'')))"

text \<open>The token's part of a WHERE clause\<close>

definition token_matches :: "poll_attempt_token \<Rightarrow> meta_row \<Rightarrow> bool" where
  "token_matches token m \<longleftrightarrow>
     meta_open_poll_generation m = Some (uint (generation_value (poll_generation token))) \<and>
     meta_open_snapshot_id m = Some (snapshot_id_str (poll_snapshot_id token))"

subsection \<open>Reading a row before the merge\<close>

record existing_record =
  ex_detail :: subscription_detail
  ex_claimed_operation :: "execution_operation option"
  ex_attempt_id :: "execution_attempt_id option"
  ex_lease_until :: "u64 option"

record stored_execution_attempt =
  sea_operation :: execution_operation
  sea_attempt_id :: execution_attempt_id
  sea_lease_until :: u64

definition running_attempt :: "existing_record \<Rightarrow> stored_execution_attempt option repository_result" where
  "running_attempt ex =
     (case head_execution_state (det_head (ex_detail ex)) of
        Idle \<Rightarrow> Inr None
      | Running \<Rightarrow>
          and_then (ok_or (corrupt ''running row has no typed claimed operation'')
                      (ex_claimed_operation ex)) (\<lambda>operation.
          and_then (ok_or (corrupt ''running row has no typed attempt ID'') (ex_attempt_id ex)) (\<lambda>attempt.
          and_then (ok_or (corrupt ''running row has no typed lease'') (ex_lease_until ex)) (\<lambda>lease.
          Inr (Some \<lparr>sea_operation = operation, sea_attempt_id = attempt, sea_lease_until = lease\<rparr>)))))"

definition existing_release_year :: "int \<Rightarrow> u16 repository_result" where
  "existing_release_year v =
     and_then (checked_u64 ''release_year'' v) (\<lambda>w.
     if 65535 < uint w then Inl (corrupt ''release_year exceeds u16 range'')
     else Inr (word_of_int (uint w)))"

text \<open>The claim columns and their agreement with the lifecycle\<close>

definition existing_controls ::
  "wanted_row \<Rightarrow> lifecycle_state \<Rightarrow> execution_state
    \<Rightarrow> (execution_operation option \<times> execution_attempt_id option \<times> u64 option) repository_result" where
  "existing_controls r lifecycle execution =
     and_then (traverse_opt (\<lambda>v. and_then (checked_required_text ''claimed_operation'' v)
                 operation_try_from_persisted) (col_claimed_operation r)) (\<lambda>operation.
     and_then (traverse_opt (\<lambda>v. and_then (checked_required_text ''attempt_id'' v) (\<lambda>t.
                 map_err (persisted_validation ''decode poll execution attempt ID'')
                   (attempt_id_try_new t))) (col_attempt_id r)) (\<lambda>attempt.
     and_then (checked_optional_u64 ''lease_until'' (col_lease_until r)) (\<lambda>lease.
     and_then (reject_if (execution = Idle \<and> (operation \<noteq> None \<or> attempt \<noteq> None \<or> lease \<noteq> None))
                 (corrupt ''idle row retains claim or lease controls'')) (\<lambda>_.
     and_then (reject_if (execution = Running \<and> (operation = None \<or> attempt = None \<or> lease = None))
                 (corrupt ''running row has incomplete claim or lease controls'')) (\<lambda>_.
     and_then (if execution = Running then
                 and_then (ok_or (corrupt ''completed row retained a running execution attempt'')
                             (operation_for_lifecycle lifecycle)) (\<lambda>expected.
                 reject_if (operation \<noteq> Some expected)
                   (corrupt (''persisted claimed operation does not match lifecycle ''
                      @ lifecycle_as_str lifecycle)))
               else Inr ()) (\<lambda>_.
     Inr (operation, attempt, lease)))))))"

definition try_into_existing ::
  "(string \<Rightarrow> string) \<Rightarrow> wanted_row \<Rightarrow> existing_record repository_result" where
  "try_into_existing sha r =
     and_then (map_err (persisted_validation ''decode snapshot merge key'')
                 (subscription_key_try_new (col_account_key r) (col_subject_id r))) (\<lambda>key.
     and_then (and_then (checked_u64 ''revision'' (col_revision r)) (\<lambda>v.
                 map_err (persisted_validation ''decode snapshot merge revision'')
                   (revision_try_new v))) (\<lambda>revision.
     and_then (parse_media_kind (col_media_kind r)) (\<lambda>kind.
     and_then (parse_lifecycle_state (col_lifecycle_state r)) (\<lambda>lifecycle.
     and_then (parse_execution_state (col_execution_state r)) (\<lambda>execution.
     and_then (existing_controls r lifecycle execution) (\<lambda>(operation, attempt, lease).
     and_then (traverse_opt existing_release_year (col_release_year r)) (\<lambda>release_year.
     and_then (checked_optional_u64 ''douban_sort_time'' (col_douban_sort_time r)) (\<lambda>sort_time.
     and_then (checked_bool ''active'' (col_active r)) (\<lambda>active.
     and_then (checked_optional_u64 ''inactive_at'' (col_inactive_at r)) (\<lambda>inactive_at.
     and_then (map_err (persisted_validation ''decode last seen snapshot ID'')
                 (traverse_opt snapshot_id_try_new (col_last_seen_snapshot_id r))) (\<lambda>last_seen.
     and_then (checked_bool ''schedulable'' (col_schedulable r)) (\<lambda>schedulable.
     and_then (map_err (persisted_validation ''decode blocked reason'')
                 (traverse_opt blocked_reason_try_new (col_blocked_reason r))) (\<lambda>blocked.
     and_then (checked_optional_u64 ''next_attempt_at'' (col_next_attempt_at r)) (\<lambda>next_attempt.
     and_then (checked_u32 ''retry_count'' (col_retry_count r)) (\<lambda>retry_count.
     and_then (checked_u32 ''max_retries'' (col_max_retries r)) (\<lambda>max_retries.
     and_then (checked_bool ''retry_blocked'' (col_retry_blocked r)) (\<lambda>retry_blocked.
     and_then (checked_bool ''force_eligible_once'' (col_force_eligible_once r)) (\<lambda>force.
     and_then (checked_u64 ''updated_at'' (col_updated_at r)) (\<lambda>updated_at.
     and_then (parse_attention_tags (col_attention_tags_json r)) (\<lambda>tags.
     and_then (decode_json ''decode snapshot merge record_json payload'' (col_record_json r)) (\<lambda>payload.
     let summary = \<lparr>sum_head = \<lparr>head_key = key, head_revision = revision, head_active = active,
                      head_inactive_at = inactive_at, head_last_seen_snapshot_id = last_seen,
                      head_media_kind = kind, head_schedulable = schedulable,
                      head_blocked_reason = blocked, head_lifecycle_state = lifecycle,
                      head_execution_state = execution, head_next_attempt_at = next_attempt,
                      head_retry_count = retry_count, head_max_retries = max_retries,
                      head_retry_blocked = retry_blocked, head_force_eligible_once = force,
                      head_updated_at = updated_at\<rparr>,
                    sum_projection = \<lparr>prj_title = col_title r, prj_release_year = release_year,
                      prj_poster_url = col_poster_url r, prj_category_text = col_category_text r,
                      prj_douban_sort_time = sort_time\<rparr>,
                    sum_attention_tags = tags\<rparr> in
     and_then (map_err (persisted_validation ''validate snapshot merge detail'')
                 (detail_try_new sha summary payload)) (\<lambda>detail.
     Inr \<lparr>ex_detail = detail, ex_claimed_operation = operation, ex_attempt_id = attempt,
          ex_lease_until = lease\<rparr>))))))))))))))))))))))"

definition read_existing ::
  "repo_env \<Rightarrow> nat \<Rightarrow> database \<Rightarrow> subscription_key \<Rightarrow> existing_record option repository_result" where
  "read_existing env n db key =
     and_then (sql_call env n ''read subscription before snapshot merge'') (\<lambda>_.
     traverse_opt (try_into_existing (env_sha env)) (find_row db key))"

text \<open>\<open>i64::MAX as u64\<close> is the last revision a row can hold.\<close>

definition increment_revision :: "revision \<Rightarrow> revision repository_result" where
  "increment_revision current =
     (if i64_max \<le> uint (revision_value current)
      then Inl (corrupt ''persisted subscription revision is exhausted at SQLite INTEGER max'')
      else revision_try_new (revision_value current + 1))"

end
