(* ===== verification/Poll_Merge.thy ===== *)
theory Poll_Merge
  imports Poll_Store
begin

text \<open>
  The merge of a snapshot's records into an account's rows
  (\<open>src/storage/subscription_repo/poll.rs\<close>): refreshing or reactivating a row that exists,
  inserting one that does not, and the audit of an attempt that a changed media kind or a
  deactivation supersedes.
\<close>

subsection \<open>Statements\<close>

definition update_where ::
  "(wanted_row \<Rightarrow> bool) \<Rightarrow> (wanted_row \<Rightarrow> wanted_row) \<Rightarrow> database \<Rightarrow> sql_constraint + (nat \<times> database)"
where
  "update_where p f db =
     (let rows = map (\<lambda>r. if p r then f r else r) (db_rows db) in
      if list_ex (\<lambda>r. p r \<and> \<not> row_ok (f r)) (db_rows db) then Inl CheckFailed
      else if \<not> distinct (attempt_ids rows) then Inl AttemptNotUnique
      else Inr (length (filter p (db_rows db)), db\<lparr>db_rows := rows\<rparr>))"

text \<open>The key is unique, and the account must have its \<open>subscription_meta\<close> row.\<close>

definition row_insert :: "wanted_row \<Rightarrow> database \<Rightarrow> sql_constraint + (nat \<times> database)" where
  "row_insert r db =
     (if \<not> row_ok r then Inl CheckFailed
      else if find_row db (row_key r) \<noteq> None then Inl DuplicateKey
      else if \<not> distinct (attempt_ids (db_rows db @ [r])) then Inl AttemptNotUnique
      else if find_meta db (col_account_key r) = None then Inl MissingParent
      else Inr (1, db\<lparr>db_rows := db_rows db @ [r]\<rparr>))"

subsection \<open>Context of a snapshot\<close>

datatype poll_snapshot_kind = CompleteSnapshot | IncompleteSnapshot

fun snapshot_kind_as_str :: "poll_snapshot_kind \<Rightarrow> string" where
  "snapshot_kind_as_str CompleteSnapshot = ''complete''"
| "snapshot_kind_as_str IncompleteSnapshot = ''incomplete''"

record poll_fence_context =
  fence_token :: poll_attempt_token
  fence_snapshot_kind :: poll_snapshot_kind
  fence_fenced_at :: u64

record seen_effects =
  eff_inserted :: nat
  eff_updated :: nat
  eff_unchanged :: nat
  eff_reactivated :: nat

definition no_effects :: seen_effects where
  "no_effects = \<lparr>eff_inserted = 0, eff_updated = 0, eff_unchanged = 0, eff_reactivated = 0\<rparr>"

definition initial_bootstrap_skip_reason :: string where
  "initial_bootstrap_skip_reason = ''initial_bootstrap_existing_wish''"

definition inactive_subscription_reason :: string where
  "inactive_subscription_reason = ''subscription_inactive''"

subsection \<open>Superseded attempts\<close>

datatype poll_supersede_reason = MissingFromCompleteSnapshot | MediaKindChanged

fun supersede_reason_as_str :: "poll_supersede_reason \<Rightarrow> string" where
  "supersede_reason_as_str MissingFromCompleteSnapshot = ''missing_from_complete_snapshot''"
| "supersede_reason_as_str MediaKindChanged = ''media_kind_changed''"

record supersede_after =
  after_revision :: revision
  after_active :: bool
  after_execution_state :: execution_state
  after_media_kind :: media_kind
  after_blocked_reason :: "string option"
  after_target_title :: string

definition json_text_opt :: "string option \<Rightarrow> json" where
  "json_text_opt v = (case v of None \<Rightarrow> JNull | Some s \<Rightarrow> JString s)"

definition append_poll_supersede_audit ::
  "repo_env \<Rightarrow> existing_record \<Rightarrow> stored_execution_attempt \<Rightarrow> poll_fence_context
    \<Rightarrow> poll_supersede_reason \<Rightarrow> supersede_after \<Rightarrow> database \<Rightarrow> database repository_result" where
  "append_poll_supersede_audit env ex attempt fence reason after db =
     (let head = det_head (ex_detail ex) in
      if head_execution_state head \<noteq> Running
      then Inl (corrupt ''poll supersede audit requires a previously running subscription'')
      else
      and_then (increment_revision (head_revision head)) (\<lambda>next.
      if next \<noteq> after_revision after
      then Inl (corrupt ''poll supersede audit revision does not match the row update'')
      else if after_execution_state after \<noteq> Idle
      then Inl (corrupt ''poll supersede audit replacement must clear execution to idle'')
      else
      append_execution_audit env
        \<lparr>entry_account_key = account_key (head_key head),
         entry_created_at = fence_fenced_at fence, entry_action = ''supersede_attempt'',
         entry_target_id = subject_id (head_key head), entry_target_title = after_target_title after,
         entry_summary = ''superseded an execution attempt during wanted poll persistence'',
         entry_related = JObject
           [(''schema'', JString ''subscription_attempt_superseded.v1''),
            (''disposition'', JString ''superseded''),
            (''reason'', JString (supersede_reason_as_str reason)),
            (''attempt_id'', JString (attempt_id_str (sea_attempt_id attempt))),
            (''claimed_operation'', JString (operation_as_str (sea_operation attempt))),
            (''lease_until'', JNumber (uint (sea_lease_until attempt))),
            (''lease_state_at_fence'',
              JString (if sea_lease_until attempt > fence_fenced_at fence then ''live'' else ''expired'')),
            (''fenced_at'', JNumber (uint (fence_fenced_at fence))),
            (''fenced_by'', JString ''wanted_poll''),
            (''poll_generation'',
              JNumber (uint (generation_value (poll_generation (fence_token fence))))),
            (''poll_snapshot_id'',
              JString (snapshot_id_str (poll_snapshot_id (fence_token fence)))),
            (''poll_snapshot_kind'', JString (snapshot_kind_as_str (fence_snapshot_kind fence))),
            (''revision_before'', JNumber (uint (revision_value (head_revision head)))),
            (''revision_after'', JNumber (uint (revision_value (after_revision after)))),
            (''execution_state_before'', JString (execution_as_str (head_execution_state head))),
            (''execution_state_after'', JString (execution_as_str (after_execution_state after))),
            (''active_before'', JBool (head_active head)),
            (''active_after'', JBool (after_active after)),
            (''media_kind_before'', JString (media_kind_as_str (head_media_kind head))),
            (''media_kind_after'', JString (media_kind_as_str (after_media_kind after))),
            (''blocked_reason_before'',
              json_text_opt (map_option blocked_reason_str (head_blocked_reason head))),
            (''blocked_reason_after'', json_text_opt (after_blocked_reason after)),
            (''replacement_attempt_id'', JNull)]\<rparr> db))"

subsection \<open>A record that exists\<close>

text \<open>What the refresh decides for the row, the values of \<open>final_head\<close> first.\<close>

record seen_plan =
  plan_media_kind :: media_kind
  plan_schedulable :: bool
  plan_blocked_reason :: "blocked_reason option"
  plan_lifecycle_state :: lifecycle_state
  plan_execution_state :: execution_state
  plan_next_attempt_at :: "u64 option"
  plan_retry_count :: u32
  plan_retry_blocked :: bool
  plan_force_eligible_once :: bool
  plan_claimed_operation :: "execution_operation option"
  plan_attempt_id :: "execution_attempt_id option"
  plan_lease_until :: "u64 option"

text \<open>Once a series, always a series.\<close>

definition merged_media_kind :: "media_kind \<Rightarrow> media_kind \<Rightarrow> media_kind" where
  "merged_media_kind stored observed = (if stored = Tv \<or> observed = Tv then Tv else Movie)"

definition kind_changes :: "existing_record \<Rightarrow> snapshot_record \<Rightarrow> bool" where
  "kind_changes ex ob \<longleftrightarrow>
     head_media_kind (det_head (ex_detail ex))
       \<noteq> merged_media_kind (head_media_kind (det_head (ex_detail ex))) (snap_media_kind ob)"

definition merge_seen_payload ::
  "existing_record \<Rightarrow> snapshot_record \<Rightarrow> u64 \<Rightarrow> subscription_payload repository_result" where
  "merge_seen_payload ex ob observed_at =
     and_then (merge_snapshot_observation (det_payload (ex_detail ex)) (snap_source ob) observed_at) (\<lambda>p.
     Inr (if kind_changes ex ob
          then p\<lparr>pl_issues := [], pl_candidates := [], pl_tv := None,
                 pl_artifacts := \<lparr>art_downloads = [], art_links = []\<rparr>\<rparr>
          else p))"

text \<open>\<open>value.then_some(x)\<close>\<close>

definition then_some :: "bool \<Rightarrow> 'a \<Rightarrow> 'a option" where
  "then_some b x = (if b then Some x else None)"

definition seen_plan_of ::
  "existing_record \<Rightarrow> snapshot_record \<Rightarrow> subscription_payload \<Rightarrow> u64 \<Rightarrow> seen_plan" where
  "seen_plan_of ex ob p observed_at =
     (let summary = det_summary (ex_detail ex);
          head = sum_head summary;
          skipped = (pl_skip_reason p \<noteq> None \<or> Skipped \<in> set (sum_attention_tags summary));
          kind = merged_media_kind (head_media_kind head) (snap_media_kind ob) in
      if kind_changes ex ob
      then \<lparr>plan_media_kind = kind, plan_schedulable = snap_schedulable ob,
            plan_blocked_reason = snap_blocked_reason ob, plan_lifecycle_state = Queued,
            plan_execution_state = Idle,
            plan_next_attempt_at = then_some (snap_schedulable ob \<and> \<not> skipped) observed_at,
            plan_retry_count = 0, plan_retry_blocked = False, plan_force_eligible_once = False,
            plan_claimed_operation = None, plan_attempt_id = None, plan_lease_until = None\<rparr>
      else if \<not> head_active head
      then \<lparr>plan_media_kind = kind, plan_schedulable = snap_schedulable ob,
            plan_blocked_reason = snap_blocked_reason ob,
            plan_lifecycle_state = head_lifecycle_state head, plan_execution_state = Idle,
            plan_next_attempt_at =
              then_some (snap_schedulable ob \<and> head_lifecycle_state head \<noteq> Completed \<and>
                \<not> head_retry_blocked head \<and> \<not> skipped) observed_at,
            plan_retry_count = head_retry_count head,
            plan_retry_blocked = head_retry_blocked head, plan_force_eligible_once = False,
            plan_claimed_operation = None, plan_attempt_id = None, plan_lease_until = None\<rparr>
      else \<lparr>plan_media_kind = kind, plan_schedulable = head_schedulable head,
            plan_blocked_reason = head_blocked_reason head,
            plan_lifecycle_state = head_lifecycle_state head,
            plan_execution_state = head_execution_state head,
            plan_next_attempt_at = head_next_attempt_at head,
            plan_retry_count = head_retry_count head,
            plan_retry_blocked = head_retry_blocked head,
            plan_force_eligible_once = head_force_eligible_once head,
            plan_claimed_operation = ex_claimed_operation ex,
            plan_attempt_id = ex_attempt_id ex, plan_lease_until = ex_lease_until ex\<rparr>)"

definition seen_changed ::
  "existing_record \<Rightarrow> snapshot_id \<Rightarrow> seen_plan \<Rightarrow> subscription_projection \<Rightarrow> subscription_payload \<Rightarrow> bool"
where
  "seen_changed ex snapshot plan prj p \<longleftrightarrow>
     (let head = det_head (ex_detail ex) in
      \<not> head_active head \<or> head_inactive_at head \<noteq> None \<or>
      head_last_seen_snapshot_id head \<noteq> Some snapshot \<or>
      head_media_kind head \<noteq> plan_media_kind plan \<or>
      head_schedulable head \<noteq> plan_schedulable plan \<or>
      head_blocked_reason head \<noteq> plan_blocked_reason plan \<or>
      head_lifecycle_state head \<noteq> plan_lifecycle_state plan \<or>
      head_execution_state head \<noteq> plan_execution_state plan \<or>
      head_next_attempt_at head \<noteq> plan_next_attempt_at plan \<or>
      head_retry_count head \<noteq> plan_retry_count plan \<or>
      head_retry_blocked head \<noteq> plan_retry_blocked plan \<or>
      head_force_eligible_once head \<noteq> plan_force_eligible_once plan \<or>
      ex_claimed_operation ex \<noteq> plan_claimed_operation plan \<or>
      ex_attempt_id ex \<noteq> plan_attempt_id plan \<or>
      ex_lease_until ex \<noteq> plan_lease_until plan \<or>
      sum_projection (det_summary (ex_detail ex)) \<noteq> prj \<or>
      \<not> payload_eq (det_payload (ex_detail ex)) p)"

text \<open>\<open>head.updated_at.saturating_add(1).min(i64::MAX as u64).max(observed_at)\<close>\<close>

definition seen_updated_at :: "u64 \<Rightarrow> u64 \<Rightarrow> u64" where
  "seen_updated_at updated_at observed_at =
     max (min (saturating_add updated_at 1) (word_of_int i64_max)) observed_at"

definition seen_head ::
  "existing_record \<Rightarrow> snapshot_id \<Rightarrow> seen_plan \<Rightarrow> revision \<Rightarrow> u64 \<Rightarrow> subscription_head" where
  "seen_head ex snapshot plan revision updated_at =
     (det_head (ex_detail ex))
       \<lparr>head_revision := revision, head_active := True, head_inactive_at := None,
        head_last_seen_snapshot_id := Some snapshot, head_media_kind := plan_media_kind plan,
        head_schedulable := plan_schedulable plan, head_blocked_reason := plan_blocked_reason plan,
        head_lifecycle_state := plan_lifecycle_state plan,
        head_execution_state := plan_execution_state plan,
        head_next_attempt_at := plan_next_attempt_at plan,
        head_retry_count := plan_retry_count plan, head_retry_blocked := plan_retry_blocked plan,
        head_force_eligible_once := plan_force_eligible_once plan,
        head_updated_at := updated_at\<rparr>"

text \<open>\<open>UPDATE_SEEN_SQL\<close>; \<open>max_retries\<close> and \<open>attention_tags_json\<close> are not in it.\<close>

definition seen_set ::
  "subscription_head \<Rightarrow> seen_plan \<Rightarrow> subscription_projection \<Rightarrow> subscription_payload json_text
    \<Rightarrow> wanted_row \<Rightarrow> wanted_row" where
  "seen_set head plan prj record r =
     r\<lparr>col_revision := uint (revision_value (head_revision head)), col_active := 1,
       col_inactive_at := None,
       col_last_seen_snapshot_id := map_option snapshot_id_str (head_last_seen_snapshot_id head),
       col_media_kind := media_kind_as_str (plan_media_kind plan),
       col_schedulable := of_bool (plan_schedulable plan),
       col_blocked_reason := map_option blocked_reason_str (plan_blocked_reason plan),
       col_lifecycle_state := lifecycle_as_str (plan_lifecycle_state plan),
       col_execution_state := execution_as_str (plan_execution_state plan),
       col_next_attempt_at := map_option uint (plan_next_attempt_at plan),
       col_retry_count := uint (plan_retry_count plan),
       col_retry_blocked := of_bool (plan_retry_blocked plan),
       col_force_eligible_once := of_bool (plan_force_eligible_once plan),
       col_claimed_operation := map_option operation_as_str (plan_claimed_operation plan),
       col_attempt_id := map_option attempt_id_str (plan_attempt_id plan),
       col_lease_until := map_option uint (plan_lease_until plan),
       col_title := prj_title prj, col_release_year := map_option uint (prj_release_year prj),
       col_poster_url := prj_poster_url prj, col_category_text := prj_category_text prj,
       col_douban_sort_time := map_option uint (prj_douban_sort_time prj),
       col_updated_at := uint (head_updated_at head), col_record_json := record\<rparr>"

text \<open>The conversions of the statement's parameters, in their order.\<close>

definition seen_parameters ::
  "existing_record \<Rightarrow> subscription_head \<Rightarrow> seen_plan \<Rightarrow> unit repository_result" where
  "seen_parameters ex head plan =
     and_then (command_integer ''expected_revision''
                 (revision_value (head_revision (det_head (ex_detail ex))))) (\<lambda>_.
     and_then (command_integer ''revision'' (revision_value (head_revision head))) (\<lambda>_.
     and_then (traverse_opt (command_integer ''next_attempt_at'') (plan_next_attempt_at plan)) (\<lambda>_.
     and_then (traverse_opt (command_integer ''lease_until'') (plan_lease_until plan)) (\<lambda>_.
     and_then (command_integer ''updated_at'' (head_updated_at head)) (\<lambda>_. Inr ())))))"

definition update_existing_seen ::
  "repo_env \<Rightarrow> nat \<Rightarrow> string \<Rightarrow> poll_fence_context \<Rightarrow> u64 \<Rightarrow> snapshot_record \<Rightarrow> existing_record
    \<Rightarrow> database \<Rightarrow> (bool \<times> database) repository_result" where
  "update_existing_seen env n account fence observed_at ob ex db =
     (let snapshot = poll_snapshot_id (fence_token fence);
          summary = det_summary (ex_detail ex); head = sum_head summary in
      and_then (if kind_changes ex ob then running_attempt ex else Inr None) (\<lambda>superseded.
      and_then (merge_seen_payload ex ob observed_at) (\<lambda>p.
      and_then (payload_validate_for (env_sha env) account (snap_subject_id ob) p) (\<lambda>_.
      and_then (projection_from_source (pl_source p)) (\<lambda>prj.
      let plan = seen_plan_of ex ob p observed_at in
      and_then (traverse_opt (\<lambda>b. blocked_reason_try_new (blocked_reason_str b))
                  (plan_blocked_reason plan)) (\<lambda>_.
      if \<not> seen_changed ex snapshot plan prj p then Inr (False, db)
      else
      and_then (increment_revision (head_revision head)) (\<lambda>revision.
      let final_head = seen_head ex snapshot plan revision
            (seen_updated_at (head_updated_at head) observed_at) in
      and_then (detail_try_new (env_sha env)
                 \<lparr>sum_head = final_head, sum_projection = prj,
                  sum_attention_tags = sum_attention_tags summary\<rparr> p) (\<lambda>_.
      and_then (traverse_opt (command_integer ''payload.source.douban_sort_time'')
                  (prj_douban_sort_time prj)) (\<lambda>_.
      and_then (seen_parameters ex final_head plan) (\<lambda>_.
      and_then (sql_execute env n ''update seen subscription record''
                 (keyed_update \<lparr>account_key = account, subject_id = snap_subject_id ob\<rparr>
                   (\<lambda>r. col_revision r = uint (revision_value (head_revision head)))
                   (seen_set final_head plan prj (encode_payload env p)) db)) (\<lambda>(changed, db1).
      and_then (require_single_write changed ''update seen subscription record'') (\<lambda>_.
      and_then (case superseded of
                  None \<Rightarrow> Inr db1
                | Some attempt \<Rightarrow>
                    append_poll_supersede_audit env ex attempt fence MediaKindChanged
                      \<lparr>after_revision = revision, after_active = True, after_execution_state = Idle,
                       after_media_kind = plan_media_kind plan,
                       after_blocked_reason = map_option blocked_reason_str (plan_blocked_reason plan),
                       after_target_title = prj_title prj\<rparr> db1) (\<lambda>db2.
      Inr (True, db2))))))))))))))"

subsection \<open>A record that does not\<close>

definition new_payload :: "snapshot_record \<Rightarrow> u64 \<Rightarrow> bool \<Rightarrow> subscription_payload" where
  "new_payload ob observed_at skipped =
     \<lparr>pl_replacement_pending = False, pl_replacement_prepared = False, pl_source = snap_source ob,
      pl_observation = \<lparr>obv_created_at = observed_at, obv_first_seen_at = observed_at,
        obv_last_seen_at = observed_at\<rparr>,
      pl_issues = [],
      pl_skip_reason = (if skipped then Some initial_bootstrap_skip_reason else None),
      pl_candidates = [], pl_tv = None, pl_artifacts = \<lparr>art_downloads = [], art_links = []\<rparr>\<rparr>"

definition new_row ::
  "string \<Rightarrow> snapshot_id \<Rightarrow> int \<Rightarrow> new_record_policy \<Rightarrow> attention_tag list \<Rightarrow> snapshot_record
    \<Rightarrow> subscription_projection \<Rightarrow> subscription_payload json_text \<Rightarrow> wanted_row" where
  "new_row account snapshot observed_sql policy tags ob prj record =
     \<lparr>col_account_key = account, col_subject_id = snap_subject_id ob, col_revision = 1,
      col_active = 1, col_inactive_at = None,
      col_last_seen_snapshot_id = Some (snapshot_id_str snapshot),
      col_media_kind = media_kind_as_str (snap_media_kind ob),
      col_schedulable = of_bool (snap_schedulable ob),
      col_blocked_reason = map_option blocked_reason_str (snap_blocked_reason ob),
      col_lifecycle_state = ''queued'', col_execution_state = ''idle'',
      col_next_attempt_at = then_some (snap_schedulable ob) observed_sql, col_retry_count = 0,
      col_max_retries = uint (policy_max_retries policy), col_retry_blocked = 0,
      col_force_eligible_once = 0, col_claimed_operation = None, col_attempt_id = None,
      col_lease_until = None, col_title = prj_title prj,
      col_release_year = map_option uint (prj_release_year prj),
      col_poster_url = prj_poster_url prj, col_category_text = prj_category_text prj,
      col_douban_sort_time = map_option uint (prj_douban_sort_time prj),
      col_attention_tags_json = Json tags, col_updated_at = observed_sql,
      col_record_json = record\<rparr>"

definition new_head ::
  "subscription_key \<Rightarrow> snapshot_id \<Rightarrow> u64 \<Rightarrow> new_record_policy \<Rightarrow> snapshot_record \<Rightarrow> subscription_head"
where
  "new_head key snapshot observed_at policy ob =
     \<lparr>head_key = key, head_revision = Revision 1, head_active = True, head_inactive_at = None,
      head_last_seen_snapshot_id = Some snapshot, head_media_kind = snap_media_kind ob,
      head_schedulable = snap_schedulable ob, head_blocked_reason = snap_blocked_reason ob,
      head_lifecycle_state = Queued, head_execution_state = Idle,
      head_next_attempt_at = then_some (snap_schedulable ob) observed_at, head_retry_count = 0,
      head_max_retries = policy_max_retries policy, head_retry_blocked = False,
      head_force_eligible_once = False, head_updated_at = observed_at\<rparr>"

definition insert_new_seen ::
  "repo_env \<Rightarrow> nat \<Rightarrow> string \<Rightarrow> snapshot_id \<Rightarrow> u64 \<Rightarrow> int \<Rightarrow> bool \<Rightarrow> new_record_policy
    \<Rightarrow> snapshot_record \<Rightarrow> database \<Rightarrow> database repository_result" where
  "insert_new_seen env n account snapshot observed_at observed_sql bootstrap_mode policy ob db =
     (let skipped = bootstrap_mode \<and> policy_bootstrap_existing_as_skipped policy;
          p = new_payload ob observed_at skipped;
          tags = (if skipped then [Skipped] else []) in
      and_then (payload_validate_for (env_sha env) account (snap_subject_id ob) p) (\<lambda>_.
      and_then (projection_from_source (pl_source p)) (\<lambda>prj.
      and_then (subscription_key_try_new account (snap_subject_id ob)) (\<lambda>key.
      and_then (traverse_opt (\<lambda>b. blocked_reason_try_new (blocked_reason_str b))
                  (snap_blocked_reason ob)) (\<lambda>_.
      and_then (detail_try_new (env_sha env)
                 \<lparr>sum_head = new_head key snapshot observed_at policy ob, sum_projection = prj,
                  sum_attention_tags = tags\<rparr> p) (\<lambda>_.
      and_then (traverse_opt (command_integer ''payload.source.douban_sort_time'')
                  (prj_douban_sort_time prj)) (\<lambda>_.
      and_then (traverse_opt (command_integer ''next_attempt_at'')
                  (then_some (snap_schedulable ob) observed_at)) (\<lambda>_.
      and_then (sql_execute env n ''insert seen subscription record''
                 (row_insert (new_row account snapshot observed_sql policy tags ob prj
                    (encode_payload env p)) db)) (\<lambda>(changed, db1).
      and_then (require_single_write changed ''insert seen subscription record'') (\<lambda>_.
      Inr db1))))))))))"

subsection \<open>All records of a snapshot\<close>

record seen_context =
  seen_account :: string
  seen_fence :: poll_fence_context
  seen_observed_at :: u64
  seen_observed_sql :: int
  seen_bootstrap_completed :: bool
  seen_policy :: new_record_policy

definition apply_seen_record ::
  "repo_env \<Rightarrow> nat \<Rightarrow> seen_context \<Rightarrow> snapshot_record \<Rightarrow> seen_effects \<times> database
    \<Rightarrow> (seen_effects \<times> database) repository_result" where
  "apply_seen_record env n cx ob state =
     (let (effects, db) = state in
      and_then (read_existing env n db
                 \<lparr>account_key = seen_account cx, subject_id = snap_subject_id ob\<rparr>) (\<lambda>existing.
      case existing of
        Some ex \<Rightarrow>
          and_then (update_existing_seen env n (seen_account cx) (seen_fence cx)
                     (seen_observed_at cx) ob ex db) (\<lambda>(changed, db1).
          Inr (if changed
               then effects\<lparr>eff_updated := eff_updated effects + 1,
                      eff_reactivated := eff_reactivated effects
                        + of_bool (\<not> head_active (det_head (ex_detail ex)))\<rparr>
               else effects\<lparr>eff_unchanged := eff_unchanged effects + 1\<rparr>, db1))
      | None \<Rightarrow>
          and_then (insert_new_seen env n (seen_account cx)
                     (poll_snapshot_id (fence_token (seen_fence cx))) (seen_observed_at cx)
                     (seen_observed_sql cx) (\<not> seen_bootstrap_completed cx) (seen_policy cx) ob db)
            (\<lambda>db1. Inr (effects\<lparr>eff_inserted := eff_inserted effects + 1\<rparr>, db1))))"

fun apply_seen_records ::
  "repo_env \<Rightarrow> nat \<Rightarrow> seen_context \<Rightarrow> snapshot_record list \<Rightarrow> seen_effects \<times> database
    \<Rightarrow> (seen_effects \<times> database) repository_result" where
  "apply_seen_records env n cx [] state = Inr state"
| "apply_seen_records env n cx (ob # obs) state =
     and_then (apply_seen_record env n cx ob state) (apply_seen_records env (Suc n) cx obs)"

end
