(* ===== verification/Poll_Operations.thy ===== *)
theory Poll_Operations
  imports Poll_Merge
begin

text \<open>
  The transactions of \<open>src/storage/subscription_repo/poll.rs\<close>: \<open>begin_poll\<close> opens a
  generation, and \<open>apply_complete_snapshot\<close>, \<open>record_incomplete_snapshot\<close> and
  \<open>record_poll_failure\<close> end it, each consuming the exact token in its last statement.
\<close>

subsection \<open>Schedule and begin\<close>

definition load_poll_schedule :: "repo_env \<Rightarrow> string \<Rightarrow> database \<Rightarrow> u64 option repository_result" where
  "load_poll_schedule env account db =
     and_then (sql_call env 0 ''read persisted Poll schedule'') (\<lambda>_.
     traverse_opt (checked_u64 ''next_poll_at'') (map_option meta_next_poll_at (find_meta db account)))"

definition opt_max :: "u64 \<Rightarrow> u64 option \<Rightarrow> u64" where
  "opt_max a v = (case v of None \<Rightarrow> a | Some b \<Rightarrow> max a b)"

definition validate_command_time :: "meta_row \<Rightarrow> u64 \<Rightarrow> unit repository_result" where
  "validate_command_time m attempted_at =
     and_then (validate_state_version (meta_state_version m)) (\<lambda>_.
     and_then (checked_u64 ''created_at'' (meta_created_at m)) (\<lambda>created_at.
     and_then (checked_u64 ''updated_at'' (meta_updated_at m)) (\<lambda>updated_at.
     and_then (checked_optional_u64 ''last_poll_attempt_at'' (meta_last_poll_attempt_at m)) (\<lambda>attempt.
     and_then (checked_optional_u64 ''last_poll_success_at'' (meta_last_poll_success_at m)) (\<lambda>success.
     let lower_bound = opt_max (opt_max (max created_at updated_at) attempt) success in
     reject_if (attempted_at < lower_bound)
       (InvalidInput ''attempted_at'' (''poll begin time '' @ u64_str attempted_at
          @ '' precedes persisted account time '' @ u64_str lower_bound)))))))"

definition begin_set :: "int \<Rightarrow> int \<Rightarrow> string \<Rightarrow> meta_row \<Rightarrow> meta_row" where
  "begin_set attempted_at generation snapshot m =
     m\<lparr>meta_updated_at := max (meta_updated_at m) attempted_at,
       meta_last_poll_attempt_at := Some attempted_at, meta_poll_generation := generation,
       meta_open_poll_generation := Some generation, meta_open_snapshot_id := Some snapshot\<rparr>"

definition fresh_meta :: "string \<Rightarrow> int \<Rightarrow> string \<Rightarrow> meta_row" where
  "fresh_meta account attempted_at snapshot =
     \<lparr>meta_account_key = account, meta_state_version = state_version, meta_bootstrap_completed = 0,
      meta_created_at = attempted_at, meta_updated_at = attempted_at,
      meta_last_poll_attempt_at = Some attempted_at, meta_last_poll_success_at = None,
      meta_poll_failure_count = 0, meta_next_poll_at = attempted_at, meta_last_poll_error = None,
      meta_poll_generation = 1, meta_open_poll_generation = Some 1,
      meta_open_snapshot_id = Some snapshot, meta_last_incomplete_at = None,
      meta_last_incomplete_reason = None, meta_last_incomplete_fetched_pages = None,
      meta_last_incomplete_truncated = None, meta_last_incomplete_end_observed = None,
      meta_last_complete_snapshot_id = None\<rparr>"

definition begin_existing ::
  "repo_env \<Rightarrow> begin_poll_command \<Rightarrow> int \<Rightarrow> meta_row \<Rightarrow> database
    \<Rightarrow> ((u64 \<times> snapshot_id) \<times> database) repository_result" where
  "begin_existing env c attempted_at m db =
     and_then (validate_command_time m (bpoll_attempted_at c)) (\<lambda>_.
     and_then (checked_u64 ''poll_generation'' (meta_poll_generation m)) (\<lambda>current.
     if i64_max \<le> uint current
     then Inl (CorruptData ''persisted poll generation is exhausted at SQLite INTEGER max'')
     else
     let generation = current + 1 in
     and_then (stable_snapshot_id (env_sha env) (bpoll_account_key c) generation) (\<lambda>snapshot.
     and_then (sql_execute env 0 ''persist existing account poll begin''
                 (meta_update (bpoll_account_key c)
                   (\<lambda>x. meta_poll_generation x = meta_poll_generation m)
                   (begin_set attempted_at (uint generation) (snapshot_id_str snapshot)) db))
       (\<lambda>(changed, db1).
     and_then (require_single_write changed ''persist existing account poll begin'') (\<lambda>_.
     Inr ((generation, snapshot), db1))))))"

definition begin_new ::
  "repo_env \<Rightarrow> begin_poll_command \<Rightarrow> int \<Rightarrow> database
    \<Rightarrow> ((u64 \<times> snapshot_id) \<times> database) repository_result" where
  "begin_new env c attempted_at db =
     and_then (stable_snapshot_id (env_sha env) (bpoll_account_key c) 1) (\<lambda>snapshot.
     and_then (sql_execute env 0 ''persist new account poll begin''
                 (meta_insert (fresh_meta (bpoll_account_key c) attempted_at (snapshot_id_str snapshot)) db))
       (\<lambda>(changed, db1).
     and_then (require_single_write changed ''persist new account poll begin'') (\<lambda>_.
     Inr ((1, snapshot), db1))))"

definition begin_poll_body ::
  "repo_env \<Rightarrow> begin_poll_command \<Rightarrow> database \<Rightarrow> (begin_poll_result \<times> database) repository_result"
where
  "begin_poll_body env c db =
     and_then (command_integer ''attempted_at'' (bpoll_attempted_at c)) (\<lambda>attempted_at.
     and_then (sql_call env 0 ''begin poll attempt'') (\<lambda>_.
     and_then (sql_call env 0 ''read account metadata before poll begin'') (\<lambda>_.
     and_then (case find_meta db (bpoll_account_key c) of
                 Some m \<Rightarrow> begin_existing env c attempted_at m db
               | None \<Rightarrow> begin_new env c attempted_at db) (\<lambda>((generation, snapshot), db1).
     and_then (poll_generation_try_new generation) (\<lambda>g.
     and_then (sql_call env 0 ''commit poll begin'') (\<lambda>_.
     Inr (\<lparr>bpollr_token = \<lparr>poll_generation = g, poll_snapshot_id = snapshot\<rparr>,
           bpollr_attempted_at = bpoll_attempted_at c\<rparr>, db1)))))))"

definition begin_poll ::
  "repo_env \<Rightarrow> begin_poll_command \<Rightarrow> database \<Rightarrow> begin_poll_result repository_result \<times> database" where
  "begin_poll env c = run_transaction (begin_poll_body env c)"

subsection \<open>Failure\<close>

text \<open>\<open>SqlToken::try_from\<close>\<close>

definition sql_token :: "poll_attempt_token \<Rightarrow> (int \<times> string) repository_result" where
  "sql_token token =
     and_then (command_integer ''poll_generation'' (generation_value (poll_generation token))) (\<lambda>g.
     Inr (g, snapshot_id_str (poll_snapshot_id token)))"

definition close_poll :: "int \<Rightarrow> meta_row \<Rightarrow> meta_row" where
  "close_poll terminal_at m =
     m\<lparr>meta_updated_at := max (meta_updated_at m) terminal_at,
       meta_open_poll_generation := None, meta_open_snapshot_id := None\<rparr>"

definition failure_set :: "int \<Rightarrow> int \<Rightarrow> int \<Rightarrow> string \<Rightarrow> meta_row \<Rightarrow> meta_row" where
  "failure_set failed_sql failures next_poll message m =
     (close_poll failed_sql m)
       \<lparr>meta_poll_failure_count := failures, meta_next_poll_at := next_poll,
        meta_last_poll_error := Some message\<rparr>"

definition record_poll_failure_body ::
  "repo_env \<Rightarrow> record_poll_failure_command \<Rightarrow> database
    \<Rightarrow> (record_poll_failure_result \<times> database) repository_result" where
  "record_poll_failure_body env c db =
     (let account = rpf_account_key c; token = rpf_token c in
      and_then (command_integer ''failed_at'' (rpf_failed_at c)) (\<lambda>failed_sql.
      and_then (sql_token token) (\<lambda>_.
      and_then (sql_call env 0 ''record poll failure'') (\<lambda>_.
      and_then (require_current_poll env db account token) (\<lambda>meta.
      and_then (validate_terminal_time meta ''failed_at'' (rpf_failed_at c)) (\<lambda>_.
      let failures = saturating_add (tm_failure_count meta) 1;
          next_poll = retry_next_poll_at (rpf_retry_policy c) (rpf_failed_at c) failures in
      and_then (command_integer ''next_poll_at'' next_poll) (\<lambda>next_sql.
      and_then (sql_execute env 0 ''consume failed poll token''
                  (meta_update account (token_matches token)
                    (failure_set failed_sql (uint failures) next_sql (rpf_message c)) db))
        (\<lambda>(changed, db1).
      and_then (require_consumed env db1 changed account token) (\<lambda>_.
      and_then (sql_call env 0 ''commit poll failure'') (\<lambda>_.
      Inr (\<lparr>rpfr_token = token, rpfr_failure_count = failures, rpfr_next_poll_at = next_poll\<rparr>,
           db1)))))))))))"

definition record_poll_failure ::
  "repo_env \<Rightarrow> record_poll_failure_command \<Rightarrow> database
    \<Rightarrow> record_poll_failure_result repository_result \<times> database" where
  "record_poll_failure env c = run_transaction (record_poll_failure_body env c)"

subsection \<open>Incomplete snapshot\<close>

fun incomplete_reason_label :: "incomplete_snapshot_reason \<Rightarrow> string" where
  "incomplete_reason_label ItemLimitReached = ''item_limit_reached''"
| "incomplete_reason_label MaximumPageCountReached = ''maximum_page_count_reached''"
| "incomplete_reason_label RepeatedPage = ''repeated_page''"
| "incomplete_reason_label EndNotObserved = ''end_not_observed''"

definition incomplete_set ::
  "int \<Rightarrow> int \<Rightarrow> int \<Rightarrow> record_incomplete_snapshot_command \<Rightarrow> meta_row \<Rightarrow> meta_row" where
  "incomplete_set incomplete_at failures next_poll c m =
     (failure_set incomplete_at failures next_poll
        (''incomplete snapshot: '' @ incomplete_reason_label (ris_reason c)) m)
       \<lparr>meta_last_incomplete_at := Some incomplete_at,
        meta_last_incomplete_reason := Some (incomplete_reason_label (ris_reason c)),
        meta_last_incomplete_fetched_pages := Some (uint (ris_fetched_pages c)),
        meta_last_incomplete_truncated := Some (of_bool (ris_truncated_by_limit c)),
        meta_last_incomplete_end_observed := Some (of_bool (ris_end_observed c))\<rparr>"

definition record_incomplete_body ::
  "repo_env \<Rightarrow> record_incomplete_snapshot_command \<Rightarrow> database
    \<Rightarrow> (record_incomplete_snapshot_result \<times> database) repository_result" where
  "record_incomplete_body env c db =
     (let account = ris_account_key c; token = ris_token c in
      and_then (command_integer ''incomplete_at'' (ris_incomplete_at c)) (\<lambda>incomplete_at.
      and_then (sql_token token) (\<lambda>_.
      and_then (sql_call env 0 ''record incomplete poll snapshot'') (\<lambda>_.
      and_then (require_current_poll env db account token) (\<lambda>meta.
      and_then (validate_terminal_time meta ''incomplete_at'' (ris_incomplete_at c)) (\<lambda>_.
      and_then (apply_seen_records env 0
                  \<lparr>seen_account = account,
                   seen_fence = \<lparr>fence_token = token, fence_snapshot_kind = IncompleteSnapshot,
                     fence_fenced_at = ris_incomplete_at c\<rparr>,
                   seen_observed_at = ris_incomplete_at c, seen_observed_sql = incomplete_at,
                   seen_bootstrap_completed = tm_bootstrap_completed meta,
                   seen_policy = ris_new_record_policy c\<rparr>
                  (ris_records c) (no_effects, db)) (\<lambda>(effects, db1).
      let failures = saturating_add (tm_failure_count meta) 1;
          next_poll = retry_next_poll_at (ris_retry_policy c) (ris_incomplete_at c) failures in
      and_then (command_integer ''next_poll_at'' next_poll) (\<lambda>next_sql.
      and_then (sql_execute env 0 ''consume incomplete poll token''
                  (meta_update account (token_matches token)
                    (incomplete_set incomplete_at (uint failures) next_sql c) db1))
        (\<lambda>(changed, db2).
      and_then (require_consumed env db2 changed account token) (\<lambda>_.
      and_then (sql_call env 0 ''commit incomplete poll snapshot'') (\<lambda>_.
      Inr (\<lparr>risr_token = token, risr_inserted = eff_inserted effects,
            risr_updated = eff_updated effects, risr_unchanged = eff_unchanged effects,
            risr_reactivated = eff_reactivated effects, risr_incomplete_at = ris_incomplete_at c,
            risr_failure_count = failures, risr_next_poll_at = next_poll\<rparr>, db2))))))))))))"

definition record_incomplete_snapshot ::
  "repo_env \<Rightarrow> record_incomplete_snapshot_command \<Rightarrow> database
    \<Rightarrow> record_incomplete_snapshot_result repository_result \<times> database" where
  "record_incomplete_snapshot env c = run_transaction (record_incomplete_body env c)"

subsection \<open>Complete snapshot\<close>

definition missing_where :: "string \<Rightarrow> snapshot_id \<Rightarrow> wanted_row \<Rightarrow> bool" where
  "missing_where account snapshot r \<longleftrightarrow>
     col_account_key r = account \<and> col_active r = 1 \<and>
     (case col_last_seen_snapshot_id r of None \<Rightarrow> True | Some s \<Rightarrow> s \<noteq> snapshot_id_str snapshot)"

definition deactivate_set :: "int \<Rightarrow> wanted_row \<Rightarrow> wanted_row" where
  "deactivate_set completed_at r =
     r\<lparr>col_revision := col_revision r + 1, col_active := 0, col_inactive_at := Some completed_at,
       col_schedulable := 0, col_blocked_reason := Some inactive_subscription_reason,
       col_execution_state := ''idle'', col_next_attempt_at := None, col_force_eligible_once := 0,
       col_claimed_operation := None, col_attempt_id := None, col_lease_until := None,
       col_updated_at := max (col_updated_at r) completed_at\<rparr>"

definition check_missing ::
  "repo_env \<Rightarrow> u64 \<Rightarrow> wanted_row \<Rightarrow> existing_record repository_result" where
  "check_missing env completed_at r =
     and_then (try_into_existing (env_sha env) r) (\<lambda>ex.
     if i64_max \<le> uint (revision_value (head_revision (det_head (ex_detail ex))))
     then Inl (CorruptData (''persisted missing subject '' @ col_subject_id r
            @ '' revision is exhausted at SQLite INTEGER max''))
     else if completed_at < obv_last_seen_at (pl_observation (det_payload (ex_detail ex)))
     then Inl (InvalidInput ''completed_at'' (''complete snapshot time '' @ u64_str completed_at
            @ '' precedes last observation ''
            @ u64_str (obv_last_seen_at (pl_observation (det_payload (ex_detail ex))))
            @ '' for missing subject '' @ col_subject_id r))
     else Inr ex)"

fun check_all_missing ::
  "repo_env \<Rightarrow> u64 \<Rightarrow> wanted_row list \<Rightarrow> existing_record list repository_result" where
  "check_all_missing env completed_at [] = Inr []"
| "check_all_missing env completed_at (r # rs) =
     and_then (check_missing env completed_at r) (\<lambda>ex.
     and_then (check_all_missing env completed_at rs) (\<lambda>exs. Inr (ex # exs)))"

definition load_missing_for_deactivation ::
  "repo_env \<Rightarrow> database \<Rightarrow> string \<Rightarrow> snapshot_id \<Rightarrow> u64 \<Rightarrow> existing_record list repository_result"
where
  "load_missing_for_deactivation env db account snapshot completed_at =
     and_then (sql_call env 0 ''prepare missing-row payload validation'') (\<lambda>_.
     and_then (sql_call env 0 ''query missing-row payload validation'') (\<lambda>_.
     and_then (sql_call env 0 ''decode missing-row detail'') (\<lambda>_.
     check_all_missing env completed_at
       (sort_key col_subject_id (filter (missing_where account snapshot) (db_rows db))))))"

definition supersede_missing ::
  "repo_env \<Rightarrow> poll_fence_context \<Rightarrow> existing_record \<Rightarrow> database \<Rightarrow> database repository_result" where
  "supersede_missing env fence ex db =
     and_then (running_attempt ex) (\<lambda>attempt.
     case attempt of
       None \<Rightarrow> Inr db
     | Some a \<Rightarrow>
         (let head = det_head (ex_detail ex) in
          and_then (increment_revision (head_revision head)) (\<lambda>revision.
          append_poll_supersede_audit env ex a fence MissingFromCompleteSnapshot
            \<lparr>after_revision = revision, after_active = False, after_execution_state = Idle,
             after_media_kind = head_media_kind head,
             after_blocked_reason = Some inactive_subscription_reason,
             after_target_title = prj_title (sum_projection (det_summary (ex_detail ex)))\<rparr> db)))"

fun supersede_all_missing ::
  "repo_env \<Rightarrow> poll_fence_context \<Rightarrow> existing_record list \<Rightarrow> database \<Rightarrow> database repository_result" where
  "supersede_all_missing env fence [] db = Inr db"
| "supersede_all_missing env fence (ex # exs) db =
     and_then (supersede_missing env fence ex db) (supersede_all_missing env fence exs)"

definition complete_set :: "int \<Rightarrow> int \<Rightarrow> string \<Rightarrow> meta_row \<Rightarrow> meta_row" where
  "complete_set completed_at next_poll snapshot m =
     (close_poll completed_at m)
       \<lparr>meta_bootstrap_completed := 1, meta_last_poll_success_at := Some completed_at,
        meta_poll_failure_count := 0, meta_next_poll_at := next_poll,
        meta_last_poll_error := None, meta_last_complete_snapshot_id := Some snapshot\<rparr>"

definition apply_complete_body ::
  "repo_env \<Rightarrow> apply_complete_snapshot_command \<Rightarrow> database
    \<Rightarrow> (apply_complete_snapshot_result \<times> database) repository_result" where
  "apply_complete_body env c db =
     (let account = acs_account_key c; token = acs_token c; snapshot = poll_snapshot_id token;
          fence = \<lparr>fence_token = token, fence_snapshot_kind = CompleteSnapshot,
                   fence_fenced_at = acs_completed_at c\<rparr> in
      and_then (command_integer ''completed_at'' (acs_completed_at c)) (\<lambda>completed_at.
      and_then (command_integer ''next_poll_at'' (acs_next_poll_at c)) (\<lambda>next_poll.
      if acs_next_poll_at c < acs_completed_at c
      then Inl (InvalidInput ''next_poll_at'' ''next poll time cannot precede completed_at'')
      else
      and_then (sql_token token) (\<lambda>_.
      and_then (sql_call env 0 ''apply complete poll snapshot'') (\<lambda>_.
      and_then (require_current_poll env db account token) (\<lambda>meta.
      and_then (validate_terminal_time meta ''completed_at'' (acs_completed_at c)) (\<lambda>_.
      and_then (apply_seen_records env 0
                  \<lparr>seen_account = account, seen_fence = fence,
                   seen_observed_at = acs_completed_at c, seen_observed_sql = completed_at,
                   seen_bootstrap_completed = tm_bootstrap_completed meta,
                   seen_policy = acs_new_record_policy c\<rparr>
                  (acs_records c) (no_effects, db)) (\<lambda>(effects, db1).
      and_then (load_missing_for_deactivation env db1 account snapshot (acs_completed_at c)) (\<lambda>missing.
      and_then (sql_execute env 0 ''deactivate subscriptions missing from snapshot''
                  (update_where (missing_where account snapshot) (deactivate_set completed_at) db1))
        (\<lambda>(deactivated, db2).
      if deactivated \<noteq> length missing
      then Inl (Internal (''missing-row deactivation changed '' @ decimal deactivated
             @ '' rows after loading '' @ decimal (length missing)))
      else
      and_then (supersede_all_missing env fence missing db2) (\<lambda>db3.
      and_then (sql_execute env 0 ''consume completed poll token''
                  (meta_update account (token_matches token)
                    (complete_set completed_at next_poll (snapshot_id_str snapshot)) db3))
        (\<lambda>(changed, db4).
      and_then (require_consumed env db4 changed account token) (\<lambda>_.
      and_then (sql_call env 0 ''commit complete poll snapshot'') (\<lambda>_.
      Inr (\<lparr>acsr_token = token, acsr_inserted = eff_inserted effects,
            acsr_updated = eff_updated effects, acsr_unchanged = eff_unchanged effects,
            acsr_reactivated = eff_reactivated effects, acsr_deactivated = deactivated,
            acsr_completed_at = acs_completed_at c, acsr_next_poll_at = acs_next_poll_at c\<rparr>,
           db4)))))))))))))))"

definition apply_complete_snapshot ::
  "repo_env \<Rightarrow> apply_complete_snapshot_command \<Rightarrow> database
    \<Rightarrow> apply_complete_snapshot_result repository_result \<times> database" where
  "apply_complete_snapshot env c = run_transaction (apply_complete_body env c)"

end
