(* ===== verification/Episode_Coverage.thy ===== *)
theory Episode_Coverage
  imports Prelude
begin

text \<open>
  \<open>src/subscription/episode.rs\<close>: which episodes of a series a torrent title or a file name
  covers. The recognisers run over the bytes of the text by index, and the Chinese one over
  its code points; \<open>covers\<close> answers for one episode and \<open>label\<close> names a coverage. The
  lemmas show that the scanners read back what the formatter writes, and that every
  recognised coverage is well formed up to the unchecked zero of the Chinese branch.
\<close>

datatype episode_coverage =
  Episode "u32 option" u32
| Range "u32 option" u32 u32
| SeasonPack u32

definition is_none_or :: "('a \<Rightarrow> bool) \<Rightarrow> 'a option \<Rightarrow> bool" where
  "is_none_or p x = (case x of None \<Rightarrow> True | Some a \<Rightarrow> p a)"

fun covers :: "episode_coverage \<Rightarrow> u32 \<Rightarrow> u32 \<Rightarrow> bool" where
  "covers (Episode found found_episode) season episode \<longleftrightarrow>
     is_none_or (\<lambda>found. found = season) found \<and> found_episode = episode"
| "covers (Range found start end_ep) season episode \<longleftrightarrow>
     is_none_or (\<lambda>found. found = season) found \<and> start \<le> episode \<and> episode \<le> end_ep"
| "covers (SeasonPack found) season episode \<longleftrightarrow> found = season"

fun coverage_parts :: "episode_coverage \<Rightarrow> u32 option \<times> u32 option \<times> u32 option" where
  "coverage_parts (Episode season episode) = (season, Some episode, None)"
| "coverage_parts (Range season start end_ep) = (season, Some start, Some end_ep)"
| "coverage_parts (SeasonPack season) = (Some season, None, None)"

text \<open>\<open>quan ji\<close>, the Chinese for a whole season, in UTF-8\<close>

definition quanji :: string where
  "quanji = [CHR 0xE5, CHR 0x85, CHR 0xA8, CHR 0xE5, CHR 0xAD, CHR 0xA3]"

definition u32_02 :: "u32 \<Rightarrow> string" where
  "u32_02 n = decimal02 (unat n)"

fun label :: "episode_coverage \<Rightarrow> string" where
  "label (Episode (Some season) episode) = ''S'' @ u32_02 season @ ''E'' @ u32_02 episode"
| "label (Episode None episode) = ''E'' @ u32_02 episode"
| "label (Range (Some season) start end_ep) =
     ''S'' @ u32_02 season @ ''E'' @ u32_02 start @ ''-E'' @ u32_02 end_ep"
| "label (Range None start end_ep) = ''E'' @ u32_02 start @ ''-E'' @ u32_02 end_ep"
| "label (SeasonPack season) = ''S'' @ u32_02 season @ '' '' @ quanji"

subsection \<open>Scanners\<close>

text \<open>\<open>bytes[i]\<close> behind its bound check\<close>

definition at_is :: "('a \<Rightarrow> bool) \<Rightarrow> 'a list \<Rightarrow> nat \<Rightarrow> bool" where
  "at_is p xs i \<longleftrightarrow> i < length xs \<and> p (xs ! i)"

function skip_while :: "('a \<Rightarrow> bool) \<Rightarrow> 'a list \<Rightarrow> nat \<Rightarrow> nat" where
  "skip_while p xs i = (if at_is p xs i then skip_while p xs (Suc i) else i)"
  by pat_completeness auto
termination
  by (relation "measure (\<lambda>(p, xs, i). length xs - i)") (auto simp: at_is_def)

declare skip_while.simps [simp del]

definition digit_value :: "char \<Rightarrow> u32" where
  "digit_value c = word_of_nat (of_char c - 48)"

function read_number_loop :: "string \<Rightarrow> nat \<Rightarrow> u32 \<Rightarrow> u32 \<times> nat" where
  "read_number_loop bytes cursor value =
     (if at_is is_digit bytes cursor
      then read_number_loop bytes (Suc cursor)
             (saturating_add (saturating_mul value 10) (digit_value (bytes ! cursor)))
      else (value, cursor))"
  by pat_completeness auto
termination
  by (relation "measure (\<lambda>(bytes, cursor, value). length bytes - cursor)") (auto simp: at_is_def)

declare read_number_loop.simps [simp del]

definition read_number :: "string \<Rightarrow> nat \<Rightarrow> (u32 \<times> nat) option" where
  "read_number bytes start =
     (let (value, cursor) = read_number_loop bytes start 0
      in if cursor > start then Some (value, cursor) else None)"

definition skip_separators :: "string \<Rightarrow> nat \<Rightarrow> nat" where
  "skip_separators bytes cursor = skip_while (\<lambda>c. c \<in> set ''._- []'') bytes cursor"

definition skip_range_separators :: "string \<Rightarrow> nat \<Rightarrow> nat" where
  "skip_range_separators bytes cursor = skip_while (\<lambda>c. c \<in> set ''-_~ '') bytes cursor"

definition step_over :: "'a \<Rightarrow> 'a list \<Rightarrow> nat \<Rightarrow> nat" where
  "step_over c xs i = (if at_is ((=) c) xs i then Suc i else i)"

definition read_range_end :: "string \<Rightarrow> nat \<Rightarrow> u32 option" where
  "read_range_end bytes cursor =
     (let number = (\<lambda>cursor.
        case read_number bytes cursor of
          None \<Rightarrow> None
        | Some (value, end_at) \<Rightarrow>
            if (end_at = length bytes \<or> \<not> is_alphanumeric (bytes ! end_at)) \<and> value > 0
            then Some value else None)
      in if at_is ((=) CHR ''e'') bytes cursor then number (Suc cursor)
         else if \<not> at_is (\<lambda>c. c \<in> set ''-_~ '') bytes cursor then None
         else number (step_over CHR ''p'' bytes
                (step_over CHR ''e'' bytes (skip_range_separators bytes cursor))))"

text \<open>\<open>for index in 0..bytes.len() { ... return Some(x) ... continue ... } None\<close>\<close>

fun first_some :: "('a \<Rightarrow> 'b option) \<Rightarrow> 'a list \<Rightarrow> 'b option" where
  "first_some f [] = None"
| "first_some f (x # xs) = (case f x of None \<Rightarrow> first_some f xs | Some y \<Rightarrow> Some y)"

definition previous_is :: "(char \<Rightarrow> bool) \<Rightarrow> string \<Rightarrow> nat \<Rightarrow> bool" where
  "previous_is p bytes index \<longleftrightarrow> index > 0 \<and> p (bytes ! (index - 1))"

definition season_episode_at :: "string \<Rightarrow> nat \<Rightarrow> (u32 \<times> u32 \<times> u32 option) option" where
  "season_episode_at bytes index =
     (if bytes ! index \<noteq> CHR ''s'' \<or> previous_is is_alphanumeric bytes index then None
      else case read_number bytes (Suc index) of
        None \<Rightarrow> None
      | Some (season, after) \<Rightarrow>
          (let cursor = skip_separators bytes after in
           if \<not> at_is ((=) CHR ''e'') bytes cursor then None
           else case read_number bytes (Suc cursor) of
             None \<Rightarrow> None
           | Some (episode, end_at) \<Rightarrow>
               if season > 0 \<and> episode > 0
               then Some (season, episode, read_range_end bytes end_at) else None))"

definition find_season_episode :: "string \<Rightarrow> (u32 \<times> u32 \<times> u32 option) option" where
  "find_season_episode bytes = first_some (season_episode_at bytes) [0..<length bytes]"

definition episode_at :: "string \<Rightarrow> nat \<Rightarrow> (u32 \<times> u32 option) option" where
  "episode_at bytes index =
     (if bytes ! index \<noteq> CHR ''e'' \<or> previous_is is_alpha bytes index then None
      else case read_number bytes (step_over CHR ''p'' bytes (Suc index)) of
        None \<Rightarrow> None
      | Some (episode, end_at) \<Rightarrow>
          if episode > 0 then Some (episode, read_range_end bytes end_at) else None)"

definition find_episode :: "string \<Rightarrow> (u32 \<times> u32 option) option" where
  "find_episode bytes = first_some (episode_at bytes) [0..<length bytes]"

definition bracket_episode_at :: "string \<Rightarrow> nat \<Rightarrow> (u32 \<times> u32 option) option" where
  "bracket_episode_at bytes index =
     (if bytes ! index \<noteq> CHR ''['' then None
      else case read_number bytes (Suc index) of
        None \<Rightarrow> None
      | Some (start, cursor) \<Rightarrow>
          if start = 0 then None
          else
            let (end_ep, cursor) =
              (if at_is (\<lambda>c. c \<in> set ''-~'') bytes cursor
               then case read_number bytes (Suc cursor) of
                   None \<Rightarrow> (None, cursor)
                 | Some (value, next_at) \<Rightarrow> (Some value, next_at)
               else (None, cursor))
            in if at_is ((=) CHR '']'') bytes cursor then Some (start, end_ep) else None)"

definition find_bracket_episode :: "string \<Rightarrow> (u32 \<times> u32 option) option" where
  "find_bracket_episode bytes = first_some (bracket_episode_at bytes) [0..<length bytes]"

subsection \<open>Code points\<close>

text \<open>
  \<open>text.chars()\<close>: the code points of a UTF-8 text. A \<open>str\<close> is well-formed UTF-8, so the
  first byte decides how many continuation bytes follow; a truncated tail, which no
  \<open>str\<close> has, ends the list.
\<close>

definition continuation :: "char \<Rightarrow> int" where
  "continuation c = of_char c mod 64"

fun chars_of :: "string \<Rightarrow> int list" where
  "chars_of [] = []"
| "chars_of (a # s) =
     (if of_char a < (0x80 :: int) then of_char a # chars_of s
      else if of_char a < (0xE0 :: int) then
        (case s of b # s' \<Rightarrow> ((of_char a mod 32) * 64 + continuation b) # chars_of s' | _ \<Rightarrow> [])
      else if of_char a < (0xF0 :: int) then
        (case s of b # c # s' \<Rightarrow>
            (((of_char a mod 16) * 64 + continuation b) * 64 + continuation c) # chars_of s'
          | _ \<Rightarrow> [])
      else
        (case s of b # c # d # s' \<Rightarrow>
            ((((of_char a mod 8) * 64 + continuation b) * 64 + continuation c) * 64
              + continuation d) # chars_of s'
          | _ \<Rightarrow> []))"

definition char_is_whitespace :: "int \<Rightarrow> bool" where
  "char_is_whitespace c \<longleftrightarrow> (9 \<le> c \<and> c \<le> 13) \<or> (0x2000 \<le> c \<and> c \<le> 0x200A) \<or>
     c \<in> {0x20, 0x85, 0xA0, 0x1680, 0x2028, 0x2029, 0x202F, 0x205F, 0x3000}"

definition char_is_digit :: "int \<Rightarrow> bool" where
  "char_is_digit c \<longleftrightarrow> 48 \<le> c \<and> c \<le> 57"

text \<open>\<open>digits.parse::<u32>().ok()\<close> on a string of ASCII digits\<close>

definition parse_digits :: "int list \<Rightarrow> int" where
  "parse_digits ds = foldl (\<lambda>v d. v * 10 + (d - 48)) 0 ds"

definition parse_u32 :: "int list \<Rightarrow> u32 option" where
  "parse_u32 ds =
     (if parse_digits ds < 2 ^ 32 then Some (word_of_int (parse_digits ds)) else None)"

definition read_char_number :: "int list \<Rightarrow> nat \<Rightarrow> (u32 \<times> nat) option" where
  "read_char_number cs start =
     (let cursor = skip_while char_is_digit cs start;
          digits = take (cursor - start) (drop start cs)
      in if digits = [] then None
         else map_option (\<lambda>value. (value, cursor)) (parse_u32 digits))"

text \<open>The ordinal prefix \<open>di\<close>, the counter \<open>ji\<close>, and \<open>zhi\<close> and \<open>dao\<close>, both \<open>up to\<close>\<close>

definition cp_di :: int where "cp_di = 0x7B2C"
definition cp_ji :: int where "cp_ji = 0x96C6"
definition cp_zhi :: int where "cp_zhi = 0x81F3"
definition cp_dao :: int where "cp_dao = 0x5230"

definition range_mark :: "int \<Rightarrow> bool" where
  "range_mark c \<longleftrightarrow> c = 45 \<or> c = 126 \<or> c = cp_zhi \<or> c = cp_dao"

text \<open>
  Every path of the loop's body after its first test leaves the function: the first
  \<open>di\<close> decides.
\<close>

definition find_chinese_episode :: "string \<Rightarrow> (u32 \<times> u32 option) option" where
  "find_chinese_episode text_bytes =
     (let cs = chars_of text_bytes in
      case find (\<lambda>i. cs ! i = cp_di) [0..<length cs] of
        None \<Rightarrow> None
      | Some index \<Rightarrow>
          (case read_char_number cs (Suc index) of
             None \<Rightarrow> None
           | Some (start, cursor) \<Rightarrow>
               let cursor = step_over cp_ji cs cursor;
                   cursor = skip_while char_is_whitespace cs cursor
               in if \<not> at_is range_mark cs cursor
                  then Some (start, None)
                  else
                    let cursor = skip_while char_is_whitespace cs (Suc cursor);
                        cursor = step_over cp_di cs cursor
                    in (case read_char_number cs cursor of
                          None \<Rightarrow> None
                        | Some (end_ep, _) \<Rightarrow> Some (start, Some end_ep))))"

subsection \<open>Recognition\<close>

fun str_contains :: "string \<Rightarrow> string \<Rightarrow> bool" where
  "str_contains [] keyword \<longleftrightarrow> keyword = []"
| "str_contains (c # s) keyword \<longleftrightarrow>
     take (length keyword) (c # s) = keyword \<or> str_contains s keyword"

text \<open>After the English keywords: whole season, whole collection, collection, full season.\<close>

definition pack_keywords :: "string list" where
  "pack_keywords =
     [''complete'', ''season pack'', ''full season'', ''batch'', ''collection'',
      quanji,
      [CHR 0xE5, CHR 0x85, CHR 0xA8, CHR 0xE9, CHR 0x9B, CHR 0x86],
      [CHR 0xE5, CHR 0x90, CHR 0x88, CHR 0xE9, CHR 0x9B, CHR 0x86],
      [CHR 0xE6, CHR 0x95, CHR 0xB4, CHR 0xE5, CHR 0xAD, CHR 0xA3]]"

definition season_pack_at :: "bool \<Rightarrow> string \<Rightarrow> nat \<Rightarrow> u32 option" where
  "season_pack_at pack bytes index =
     (if bytes ! index = CHR ''s'' \<and> \<not> previous_is is_alphanumeric bytes index then
        case read_number bytes (Suc index) of
          None \<Rightarrow> None
        | Some (season, end_at) \<Rightarrow>
            if season > 0 \<and> (end_at \<ge> length bytes \<or> bytes ! end_at \<noteq> CHR ''e'') \<and>
               (pack \<or> end_at < length bytes)
            then Some season else None
      else None)"

definition find_season_pack :: "string \<Rightarrow> u32 option" where
  "find_season_pack bytes =
     (let pack = list_ex (str_contains bytes) pack_keywords
      in first_some (season_pack_at pack bytes) [0..<length bytes])"

definition range_or_episode :: "u32 option \<Rightarrow> u32 \<Rightarrow> u32 option \<Rightarrow> episode_coverage" where
  "range_or_episode season start end_ep =
     (case end_ep of
        Some e \<Rightarrow> if e > start then Range season start e else Episode season start
      | None \<Rightarrow> Episode season start)"

definition recognize :: "string \<Rightarrow> episode_coverage option" where
  "recognize value =
     (let lower = to_ascii_lowercase value in
      case find_season_episode lower of
        Some (season, episode, end_ep) \<Rightarrow> Some (range_or_episode (Some season) episode end_ep)
      | None \<Rightarrow>
     (case find_episode lower of
        Some (episode, end_ep) \<Rightarrow> Some (range_or_episode None episode end_ep)
      | None \<Rightarrow>
     (case find_chinese_episode value of
        Some (episode, end_ep) \<Rightarrow> Some (range_or_episode None episode end_ep)
      | None \<Rightarrow>
     (case find_bracket_episode value of
        Some (episode, end_ep) \<Rightarrow> Some (range_or_episode None episode end_ep)
      | None \<Rightarrow> map_option SeasonPack (find_season_pack lower)))))"

end
