(* ===== verification/Mutation_Store.thy ===== *)
theory Mutation_Store
  imports Claim_Store Episode_Coverage
begin

text \<open>
  The mutations of \<open>src/storage/subscription_repo.rs\<close> that do not belong to an execution
  attempt: a manual torrent search, the confirmation or replacement of a torrent, a forced
  retry, the one-time backfill of metadata titles and the optimistic update of a detail.
  Each is one immediate transaction. The first three refuse a row that is running; the last
  writes it only where the attempt's gate does not look.
\<close>

subsection \<open>The next episode a series needs\<close>

text \<open>\<open>file\<close> covers \<open>episode\<close> of the season: \<open>(start..=end).contains(episode)\<close>\<close>

definition file_covers :: "u32 \<Rightarrow> u32 \<Rightarrow> link_file_payload \<Rightarrow> bool" where
  "file_covers season episode f \<longleftrightarrow>
     lkf_outcome f = LinkLinked \<and> lkf_season_number f = Some season \<and>
     (case lkf_episode_number f of
        None \<Rightarrow> False
      | Some start \<Rightarrow>
          start \<le> episode \<and>
          episode \<le> (case lkf_episode_end_number f of None \<Rightarrow> start | Some e \<Rightarrow> e))"

definition episode_linked :: "subscription_payload \<Rightarrow> u32 \<Rightarrow> u32 \<Rightarrow> bool" where
  "episode_linked p season episode \<longleftrightarrow>
     list_ex (\<lambda>lk. list_ex (file_covers season episode) (lk_files lk)) (art_links (pl_artifacts p))"

text \<open>\<open>start..=end\<close> over \<open>u32\<close>\<close>

definition u32_range :: "u32 \<Rightarrow> u32 \<Rightarrow> u32 list" where
  "u32_range start end_at = map word_of_nat [unat start..<Suc (unat end_at)]"

definition first_uncovered_episode :: "subscription_payload \<Rightarrow> tv_detail_payload \<Rightarrow> u32 option" where
  "first_uncovered_episode p tv =
     find (\<lambda>episode. \<not> episode_linked p (tv_season_number tv) episode)
       (u32_range (tv_target_start_episode tv) (tv_target_end_episode tv))"

subsection \<open>Manual search\<close>

text \<open>
  Earlier manual results are dropped unless the user or the selection holds on to them; at
  most 100 new ones follow, each torrent once.
\<close>

definition keeps_candidate :: "candidate_match_payload \<Rightarrow> bool" where
  "keeps_candidate c \<longleftrightarrow>
     match_selected c \<or> match_user_confirmed c \<or>
     cand_source (match_candidate c) \<notin> {''keyword'', ''manual_douban'', ''manual_imdb''}"

definition add_candidate ::
  "candidate_match_payload list \<Rightarrow> candidate_match_payload \<Rightarrow> candidate_match_payload list" where
  "add_candidate existing c =
     (if list_ex (\<lambda>e. cand_torrent_id (match_candidate e) = cand_torrent_id (match_candidate c)) existing
      then existing else existing @ [c])"

definition merge_manual_candidates ::
  "candidate_match_payload list \<Rightarrow> candidate_match_payload list \<Rightarrow> candidate_match_payload list" where
  "merge_manual_candidates existing new =
     foldl add_candidate (filter keeps_candidate existing) (take 100 new)"

definition write_candidates_set ::
  "subscription_payload json_text \<Rightarrow> int \<Rightarrow> wanted_row \<Rightarrow> wanted_row" where
  "write_candidates_set record now r =
     r\<lparr>col_revision := col_revision r + 1, col_record_json := record,
       col_updated_at := max (col_updated_at r) now\<rparr>"

definition add_manual_candidates_body ::
  "repo_env \<Rightarrow> subscription_key \<Rightarrow> u64 \<Rightarrow> candidate_match_payload list \<Rightarrow> u64 \<Rightarrow> database
    \<Rightarrow> (subscription_summary \<times> database) repository_result" where
  "add_manual_candidates_body env key expected_revision candidates now_unix db =
     and_then (sql_call env 0 ''begin manual candidate search'') (\<lambda>_.
     and_then (load_detail env 0 db key) (\<lambda>current.
     let head = det_head current in
     if head_execution_state head = Running then Inl (ExecutionGateConflict key)
     else if revision_value (head_revision head) \<noteq> expected_revision
         \<or> pl_replacement_pending (det_payload current) \<or> \<not> head_active head
         \<or> \<not> head_schedulable head \<or> head_blocked_reason head \<noteq> None
     then Inl (InvalidInput ''confirm_candidate.search'' ''subscription changed; refresh before searching'')
     else
     let p = (det_payload current)\<lparr>pl_candidates :=
               merge_manual_candidates (pl_candidates (det_payload current)) candidates\<rparr> in
     and_then (payload_validate_for (env_sha env) (account_key key) (subject_id key) p) (\<lambda>_.
     and_then (command_integer ''candidate_search.now'' now_unix) (\<lambda>now.
     and_then (sql_execute env 0 ''save manual search candidates''
                 (keyed_update key (\<lambda>_. True) (write_candidates_set (encode_payload env p) now) db))
       (\<lambda>(changed, db1).
     and_then (load_detail env 1 db1 key) (\<lambda>result.
     and_then (sql_call env 0 ''commit manual candidate search'') (\<lambda>_.
     Inr (det_summary result, db1))))))))"

definition add_manual_candidates ::
  "repo_env \<Rightarrow> subscription_key \<Rightarrow> u64 \<Rightarrow> candidate_match_payload list \<Rightarrow> u64 \<Rightarrow> database
    \<Rightarrow> subscription_summary repository_result \<times> database" where
  "add_manual_candidates env key expected_revision candidates now_unix =
     run_transaction (add_manual_candidates_body env key expected_revision candidates now_unix)"

subsection \<open>Confirmation and replacement\<close>

definition reusable_download_state :: "download_artifact_state \<Rightarrow> bool" where
  "reusable_download_state s \<longleftrightarrow> s \<in> {DlFailed, DlSuperseded, DlIgnored}"

definition confirm_tv_gate ::
  "subscription_payload \<Rightarrow> bool \<Rightarrow> candidate_match_payload \<Rightarrow> unit repository_result" where
  "confirm_tv_gate p replace_existing candidate =
     and_then (ok_or (InvalidInput ''confirm_candidate.tv'' ''TV metadata missing'') (pl_tv p)) (\<lambda>tv.
     let selection = (if replace_existing
           then p\<lparr>pl_artifacts := \<lparr>art_downloads = [], art_links = []\<rparr>\<rparr> else p) in
     and_then (ok_or (InvalidInput ''confirm_candidate.tv'' ''no uncovered TV episodes'')
                 (first_uncovered_episode selection tv)) (\<lambda>cursor.
     reject_if (is_none_or (\<lambda>c. \<not> covers c (tv_season_number tv) cursor)
                  (recognize (cand_title (match_candidate candidate))))
       (InvalidInput ''confirm_candidate.tv'' ''torrent does not cover the next required episode'')))"

definition select_candidate ::
  "string \<Rightarrow> candidate_match_payload \<Rightarrow> candidate_match_payload" where
  "select_candidate torrent_id c =
     (let chosen = (cand_torrent_id (match_candidate c) = torrent_id) in
      c\<lparr>match_user_confirmed := chosen, match_selected := chosen,
        match_excluded_reason := (if chosen then None else match_excluded_reason c)\<rparr>)"

definition confirm_clears_tag :: "attention_tag \<Rightarrow> bool" where
  "confirm_clears_tag t \<longleftrightarrow>
     t \<in> {NeedsConfirmation, WaitingRelease, Failed, RetryBlocked, Skipped}"

definition confirm_payload :: "string \<Rightarrow> bool \<Rightarrow> subscription_payload \<Rightarrow> subscription_payload" where
  "confirm_payload torrent_id replace_existing p =
     p\<lparr>pl_candidates := map (select_candidate torrent_id) (pl_candidates p),
       pl_skip_reason := None, pl_replacement_pending := replace_existing,
       pl_replacement_prepared := False\<rparr>"

definition confirm_set ::
  "int \<Rightarrow> attention_tag list json_text \<Rightarrow> subscription_payload json_text \<Rightarrow> wanted_row \<Rightarrow> wanted_row"
where
  "confirm_set now tags record r =
     r\<lparr>col_lifecycle_state := ''searching'', col_revision := col_revision r + 1,
       col_next_attempt_at := Some now, col_retry_count := 0, col_retry_blocked := 0,
       col_force_eligible_once := 1, col_attention_tags_json := tags, col_record_json := record,
       col_updated_at := max (col_updated_at r) now\<rparr>"

definition confirm_candidate_body ::
  "repo_env \<Rightarrow> subscription_key \<Rightarrow> string \<Rightarrow> u64 \<Rightarrow> u64 \<Rightarrow> bool \<Rightarrow> database
    \<Rightarrow> (subscription_summary \<times> database) repository_result" where
  "confirm_candidate_body env key torrent_id expected_revision now_unix replace_existing db =
     and_then (command_integer ''confirm_candidate.now'' now_unix) (\<lambda>now.
     and_then (sql_call env 0 ''begin candidate confirmation'') (\<lambda>_.
     and_then (load_detail env 0 db key) (\<lambda>current.
     let head = det_head current; p = det_payload current in
     if head_execution_state head = Running then Inl (ExecutionGateConflict key)
     else if revision_value (head_revision head) \<noteq> expected_revision
     then Inl (InvalidInput ''confirm_candidate.stale'' ''candidate list changed; refresh before selecting'')
     else if \<not> head_active head \<or> \<not> head_schedulable head \<or> head_blocked_reason head \<noteq> None
         \<or> (\<not> replace_existing \<and> head_lifecycle_state head \<noteq> Searching)
         \<or> pl_replacement_pending p
     then Inl (InvalidInput ''confirm_candidate.state'' ''subscription is not awaiting a torrent selection'')
     else
     and_then (command_integer ''confirm_candidate.revision'' (revision_value (head_revision head))) (\<lambda>rv.
     if rv = i64_max then Inl (InvalidInput ''confirm_candidate.revision'' ''revision exhausted'')
     else if \<not> replace_existing \<and> head_media_kind head \<noteq> Tv \<and>
         (art_downloads (pl_artifacts p) \<noteq> [] \<or> art_links (pl_artifacts p) \<noteq> [])
     then Inl (InvalidInput ''confirm_candidate.cleanup_required''
                 ''replacement requires explicit cleanup consent'')
     else
     and_then (ok_or (InvalidInput ''confirm_candidate.missing'' ''torrent is no longer in the candidate list'')
                 (find (\<lambda>c. cand_torrent_id (match_candidate c) = torrent_id \<and> \<not> is_blank torrent_id)
                   (pl_candidates p))) (\<lambda>candidate.
     if list_ex (\<lambda>d. dl_torrent_id d = torrent_id \<and> \<not> reusable_download_state (dl_state d))
          (art_downloads (pl_artifacts p))
     then Inl (InvalidInput ''confirm_candidate.used'' ''torrent was already downloaded'')
     else
     and_then (if head_media_kind head = Tv then confirm_tv_gate p replace_existing candidate
               else Inr ()) (\<lambda>_.
     let q = confirm_payload torrent_id replace_existing p in
     and_then (payload_validate_for (env_sha env) (account_key key) (subject_id key) q) (\<lambda>_.
     let tags = filter (\<lambda>t. \<not> replace_existing \<and> \<not> confirm_clears_tag t)
                  (sum_attention_tags (det_summary current)) in
     and_then (sql_execute env 0 ''confirm candidate''
                 (keyed_update key (\<lambda>_. True) (confirm_set now (Json tags) (encode_payload env q)) db))
       (\<lambda>(changed, db1).
     and_then (load_detail env 1 db1 key) (\<lambda>result.
     and_then (append_execution_audit env
       \<lparr>entry_account_key = account_key key, entry_created_at = now_unix,
        entry_action = ''confirm_subscription_candidate'', entry_target_id = subject_id key,
        entry_target_title = prj_title (sum_projection (det_summary current)),
        entry_summary = ''user confirmed a subscription torrent for download'',
        entry_related = JObject [(''torrent_id'', JString torrent_id),
          (''replace_existing'', JBool replace_existing),
          (''row_revision'', JNumber (uint (revision_value (head_revision (det_head result)))))]\<rparr> db1)
       (\<lambda>db2.
     and_then (sql_call env 0 ''commit candidate confirmation'') (\<lambda>_.
     Inr (det_summary result, db2))))))))))))"

definition confirm_candidate ::
  "repo_env \<Rightarrow> subscription_key \<Rightarrow> string \<Rightarrow> u64 \<Rightarrow> u64 \<Rightarrow> bool \<Rightarrow> database
    \<Rightarrow> subscription_summary repository_result \<times> database" where
  "confirm_candidate env key torrent_id expected_revision now_unix replace_existing =
     run_transaction
       (confirm_candidate_body env key torrent_id expected_revision now_unix replace_existing)"

subsection \<open>Forced retry\<close>

text \<open>
  A movie beyond its metadata restarts its torrent search, unless a replacement is pending;
  everything else is retried where it stands.
\<close>

definition restarts_movie :: "subscription_detail \<Rightarrow> bool" where
  "restarts_movie d \<longleftrightarrow>
     head_media_kind (det_head d) = Movie \<and> head_lifecycle_state (det_head d) \<noteq> Meta \<and>
     \<not> pl_replacement_pending (det_payload d)"

definition supersedable :: "download_artifact_payload \<Rightarrow> bool" where
  "supersedable d \<longleftrightarrow> dl_state d \<notin> {DlIgnored, DlSuperseded}"

definition supersede_downloads :: "download_artifact_payload list \<Rightarrow> download_artifact_payload list" where
  "supersede_downloads ds = map (\<lambda>d. if supersedable d then d\<lparr>dl_state := DlSuperseded\<rparr> else d) ds"

definition force_retry_payload :: "subscription_detail \<Rightarrow> subscription_payload" where
  "force_retry_payload d =
     (let p = (det_payload d)\<lparr>pl_skip_reason := None\<rparr> in
      if restarts_movie d
      then p\<lparr>pl_candidates := [], pl_issues := [],
             pl_artifacts := (pl_artifacts p)\<lparr>art_downloads :=
               supersede_downloads (art_downloads (pl_artifacts p))\<rparr>\<rparr>
      else p)"

definition force_retry_tags :: "subscription_detail \<Rightarrow> attention_tag list" where
  "force_retry_tags d =
     (if restarts_movie d then []
      else filter (\<lambda>t. t \<notin> {Skipped, RetryBlocked}) (sum_attention_tags (det_summary d)))"

definition force_retry_lifecycle :: "subscription_detail \<Rightarrow> lifecycle_state" where
  "force_retry_lifecycle d =
     (if restarts_movie d then Searching else head_lifecycle_state (det_head d))"

definition superseded_torrent_ids :: "subscription_detail \<Rightarrow> string list" where
  "superseded_torrent_ids d =
     (if restarts_movie d
      then map dl_torrent_id (filter supersedable (art_downloads (pl_artifacts (det_payload d))))
      else [])"

definition force_set ::
  "int \<Rightarrow> lifecycle_state \<Rightarrow> attention_tag list json_text \<Rightarrow> subscription_payload json_text
    \<Rightarrow> wanted_row \<Rightarrow> wanted_row" where
  "force_set now lifecycle tags record r =
     r\<lparr>col_revision := col_revision r + 1, col_next_attempt_at := Some now,
       col_lifecycle_state := lifecycle_as_str lifecycle, col_retry_count := 0,
       col_retry_blocked := 0, col_force_eligible_once := 1, col_attention_tags_json := tags,
       col_record_json := record, col_updated_at := max (col_updated_at r) now\<rparr>"

definition force_retry_audit ::
  "subscription_key \<Rightarrow> u64 \<Rightarrow> subscription_detail \<Rightarrow> subscription_head \<Rightarrow> execution_audit_entry" where
  "force_retry_audit key now_unix current result =
     \<lparr>entry_account_key = account_key key, entry_created_at = now_unix,
      entry_action = (if restarts_movie current then ''rerun_subscription'' else ''retry_subscription''),
      entry_target_id = subject_id key,
      entry_target_title = prj_title (sum_projection (det_summary current)),
      entry_summary = (if restarts_movie current then ''restarted movie torrent search''
        else ''scheduled a retry of the current subscription stage''),
      entry_related = JObject
        [(''schema_version'', JNumber 1),
         (''previous_lifecycle_state'',
           JString (lifecycle_as_str (head_lifecycle_state (det_head current)))),
         (''lifecycle_state'', JString (lifecycle_as_str (force_retry_lifecycle current))),
         (''previous_retry_count'', JNumber (uint (head_retry_count (det_head current)))),
         (''row_revision'', JNumber (uint (revision_value (head_revision result)))),
         (''superseded_torrent_ids'', JArray (map JString (superseded_torrent_ids current)))]\<rparr>"

definition force_retry_body ::
  "repo_env \<Rightarrow> subscription_key \<Rightarrow> u64 \<Rightarrow> database \<Rightarrow> (subscription_head \<times> database) repository_result"
where
  "force_retry_body env key now_unix db =
     and_then (command_integer ''force_retry.now'' now_unix) (\<lambda>now.
     and_then (sql_call env 0 ''begin force retry'') (\<lambda>_.
     and_then (load_detail env 0 db key) (\<lambda>current.
     let head = det_head current in
     if head_execution_state head = Running then Inl (ExecutionGateConflict key)
     else if \<not> head_active head \<or> \<not> head_schedulable head \<or> head_blocked_reason head \<noteq> None
     then Inl (InvalidInput ''force_retry'' ''subscription is inactive or blocked'')
     else if head_lifecycle_state head = Completed \<and> head_media_kind head = Tv
     then Inl (InvalidInput ''force_retry.completed_tv'' ''completed TV subscriptions cannot be rerun'')
     else
     and_then (command_integer ''force_retry.revision'' (revision_value (head_revision head))) (\<lambda>rv.
     if rv = i64_max
     then Inl (InvalidInput ''force_retry.revision''
            ''revision cannot be incremented beyond SQLite INTEGER range'')
     else
     let p = force_retry_payload current in
     and_then (payload_validate_for (env_sha env) (account_key key) (subject_id key) p) (\<lambda>_.
     and_then (sql_execute env 0 ''force_retry''
                 (keyed_update key (\<lambda>_. True)
                   (force_set now (force_retry_lifecycle current) (Json (force_retry_tags current))
                     (encode_payload env p)) db)) (\<lambda>(changed, db1).
     if changed \<noteq> 1
     then Inl (Internal (''force retry changed '' @ decimal changed
            @ '' rows for a composite primary key''))
     else
     and_then (get_head env db1 key) (\<lambda>result.
     and_then (append_execution_audit env (force_retry_audit key now_unix current result) db1) (\<lambda>db2.
     and_then (sql_call env 0 ''commit force retry'') (\<lambda>_.
     Inr (result, db2))))))))))"

definition force_retry ::
  "repo_env \<Rightarrow> subscription_key \<Rightarrow> u64 \<Rightarrow> database \<Rightarrow> subscription_head repository_result \<times> database"
where
  "force_retry env key now_unix = run_transaction (force_retry_body env key now_unix)"

subsection \<open>Metadata title backfill\<close>

text \<open>
  The SELECT: no \<open>detail_title\<close>, and an \<open>original_title\<close> that is a text and not blank
  after SQLite's \<open>trim\<close>. An undecodable record is known by the paths the query finds.
\<close>

definition backfill_where :: "wanted_row \<Rightarrow> bool" where
  "backfill_where r =
     (case col_record_json r of
        Json p \<Rightarrow> src_detail_title (pl_source p) = None \<and>
          (case src_original_title (pl_source p) of None \<Rightarrow> False | Some t \<Rightarrow> sql_not_blank t)
      | Undecodable _ hits \<Rightarrow>
          ''$.source.detail_title'' \<notin> set hits \<and> ''$.source.original_title'' \<in> set hits)"

definition backfill_set ::
  "string \<Rightarrow> subscription_payload json_text \<Rightarrow> wanted_row \<Rightarrow> wanted_row" where
  "backfill_set title record r =
     r\<lparr>col_title := title, col_record_json := record, col_revision := col_revision r + 1\<rparr>"

text \<open>
  One turn of the loop, the \<open>n\<close>-th. \<open>original_title.as_deref().unwrap()\<close> cannot panic: the
  query found the title in the record the detail was decoded from; an absent title is left
  alone here like a blank one.
\<close>

definition backfill_one ::
  "repo_env \<Rightarrow> nat \<Rightarrow> string \<times> string \<Rightarrow> nat \<times> database \<Rightarrow> (nat \<times> database) repository_result" where
  "backfill_one env n names state =
     (let (repaired, db) = state in
      and_then (subscription_key_try_new (fst names) (snd names)) (\<lambda>key.
      and_then (load_detail env n db key) (\<lambda>current.
      and_then (command_integer ''revision'' (revision_value (head_revision (det_head current)))) (\<lambda>rv.
      if rv = i64_max then Inl (corrupt ''metadata title backfill would overflow revision'')
      else
      let p = det_payload current;
          title = (case src_original_title (pl_source p) of None \<Rightarrow> [] | Some t \<Rightarrow> str_trim t) in
      if title = [] then Inr (repaired, db)
      else
      let q = p\<lparr>pl_source := (pl_source p)\<lparr>src_detail_title := Some title\<rparr>\<rparr> in
      and_then (projection_from_source (pl_source q)) (\<lambda>prj.
      and_then (sql_execute env n ''backfill metadata title''
                  (keyed_update key (\<lambda>r. col_revision r = rv)
                    (backfill_set (prj_title prj) (encode_payload env q)) db)) (\<lambda>(changed, db1).
      if changed \<noteq> 1 then Inl (corrupt ''metadata title backfill did not update exactly one row'')
      else Inr (repaired + changed, db1)))))))"

fun backfill_all ::
  "repo_env \<Rightarrow> nat \<Rightarrow> (string \<times> string) list \<Rightarrow> nat \<times> database \<Rightarrow> (nat \<times> database) repository_result"
where
  "backfill_all env n [] state = Inr state"
| "backfill_all env n (names # rest) state =
     and_then (backfill_one env n names state) (backfill_all env (Suc n) rest)"

definition backfill_body :: "repo_env \<Rightarrow> database \<Rightarrow> (nat \<times> database) repository_result" where
  "backfill_body env db =
     and_then (sql_call env 0 ''begin metadata title backfill'') (\<lambda>_.
     and_then (sql_call env 0 ''select legacy metadata titles'') (\<lambda>_.
     and_then (sql_call env 0 ''query legacy metadata titles'') (\<lambda>_.
     and_then (sql_call env 0 ''read legacy metadata title keys'') (\<lambda>_.
     and_then (backfill_all env 0
                 (map (\<lambda>r. (col_account_key r, col_subject_id r)) (filter backfill_where (db_rows db)))
                 (0, db)) (\<lambda>(repaired, db1).
     and_then (sql_call env 0 ''commit metadata title backfill'') (\<lambda>_.
     Inr (repaired, db1)))))))"

definition backfill_metadata_titles :: "repo_env \<Rightarrow> database \<Rightarrow> nat repository_result \<times> database" where
  "backfill_metadata_titles env = run_transaction (backfill_body env)"

subsection \<open>Optimistic update of a detail\<close>

definition update_detail_set ::
  "subscription_projection \<Rightarrow> int option \<Rightarrow> attention_tag list json_text \<Rightarrow> int
    \<Rightarrow> subscription_payload json_text \<Rightarrow> wanted_row \<Rightarrow> wanted_row" where
  "update_detail_set prj sort_time tags updated_at record r =
     r\<lparr>col_revision := col_revision r + 1, col_title := prj_title prj,
       col_release_year := map_option uint (prj_release_year prj),
       col_poster_url := prj_poster_url prj, col_category_text := prj_category_text prj,
       col_douban_sort_time := sort_time, col_attention_tags_json := tags,
       col_updated_at := max (col_updated_at r) updated_at, col_record_json := record\<rparr>"

text \<open>While an attempt runs, the tags and the skip reason belong to it.\<close>

definition gated_fields_differ :: "subscription_detail \<Rightarrow> update_subscription_detail_command \<Rightarrow> bool" where
  "gated_fields_differ current c \<longleftrightarrow>
     btree_list (sum_attention_tags (det_summary current)) \<noteq> btree_list (upd_attention_tags c) \<or>
     pl_skip_reason (det_payload current) \<noteq> pl_skip_reason (upd_payload c)"

text \<open>The error of an UPDATE that met no row of the expected revision.\<close>

definition update_miss_error ::
  "repo_env \<Rightarrow> database \<Rightarrow> update_subscription_detail_command \<Rightarrow> repository_error" where
  "update_miss_error env db c =
     (case env_fault env 0 ''resolve optimistic detail update miss'' of
        Some e \<Rightarrow> e
      | None \<Rightarrow>
          (case find_row db (upd_key c) of
             None \<Rightarrow> NotFound (upd_key c)
           | Some r \<Rightarrow>
               (case and_then (checked_u64 ''revision'' (col_revision r)) (\<lambda>v.
                       map_err (persisted_validation ''decode current revision'') (revision_try_new v)) of
                  Inl e \<Rightarrow> e
                | Inr actual \<Rightarrow>
                    RevisionConflict (upd_key c) (upd_expected_revision c) actual)))"

definition update_detail_body ::
  "repo_env \<Rightarrow> update_subscription_detail_command \<Rightarrow> database \<Rightarrow> (subscription_detail \<times> database) repository_result"
where
  "update_detail_body env c db =
     (let key = upd_key c; expected = upd_expected_revision c in
     and_then (command_integer ''expected_revision'' (revision_value expected)) (\<lambda>expected_sql.
     if expected_sql = i64_max
     then Inl (InvalidInput ''expected_revision''
            ''revision cannot be incremented beyond SQLite INTEGER range'')
     else
     and_then (command_integer ''updated_at'' (upd_updated_at c)) (\<lambda>updated_at.
     and_then (projection_from_source (pl_source (upd_payload c))) (\<lambda>prj.
     and_then (traverse_opt (command_integer ''payload.source.douban_sort_time'')
                 (prj_douban_sort_time prj)) (\<lambda>sort_time.
     and_then (sql_call env 0 ''begin optimistic detail update'') (\<lambda>_.
     and_then (load_detail env 0 db key) (\<lambda>current.
     if head_revision (det_head current) \<noteq> expected
     then Inl (RevisionConflict key expected (head_revision (det_head current)))
     else
     and_then (validate_payload_media_kind (head_media_kind (det_head current)) (upd_payload c)) (\<lambda>_.
     if head_execution_state (det_head current) = Running \<and> gated_fields_differ current c
     then Inl (ExecutionGateConflict key)
     else
     and_then (sql_execute env 0 ''optimistically update subscription detail''
                 (keyed_update key (\<lambda>r. col_revision r = expected_sql)
                   (update_detail_set prj sort_time (Json (upd_attention_tags c)) updated_at
                     (encode_payload env (upd_payload c))) db)) (\<lambda>(changed, db1).
     if changed = 0 then Inl (update_miss_error env db1 c)
     else if changed \<noteq> 1
     then Inl (Internal (''optimistic detail update changed '' @ decimal changed
            @ '' rows for a composite primary key''))
     else
     and_then (load_detail env 1 db1 key) (\<lambda>detail.
     and_then (sql_call env 0 ''commit optimistic detail update'') (\<lambda>_.
     Inr (detail, db1))))))))))))"

definition update_detail ::
  "repo_env \<Rightarrow> update_subscription_detail_command \<Rightarrow> database \<Rightarrow> subscription_detail repository_result \<times> database"
where
  "update_detail env c = run_transaction (update_detail_body env c)"

end
