(* ===== verification/Mutation_Facts.thy ===== *)
theory Mutation_Facts
  imports Mutation_Store Claim_Properties
begin

text \<open>
  Proofs about the mutations outside an attempt. \<open>row_write\<close> is one revision step of one
  row; the locale \<open>gated_mutation\<close> states what manual search, confirmation and forced retry
  share: they write an idle row only, and answer \<open>ExecutionGateConflict\<close> to a running one.
\<close>

subsection \<open>Reading a detail\<close>

definition detail_at ::
  "(string \<Rightarrow> string) \<Rightarrow> database \<Rightarrow> subscription_key \<Rightarrow> subscription_detail \<Rightarrow> bool" where
  "detail_at sha db key d \<longleftrightarrow> (\<exists>r. find_row db key = Some r \<and> try_into_detail sha r = Inr d)"

lemma load_detail_Inr:
  "load_detail env n db key = Inr d \<longleftrightarrow>
     env_fault env n ''read subscription detail by primary key'' = None \<and>
     detail_at (env_sha env) db key d"
  by (auto simp: load_detail_def detail_at_def and_then_Inr_iff sql_call_Inr)

lemma detail_at_columns:
  assumes "db_ok db"
  shows "detail_at sha db key d \<longleftrightarrow>
    (\<exists>r. find_row db key = Some r \<and> row_ok r \<and> detail_columns r d \<and> detail_read sha d)"
  using rows.lookup_valid [OF assms] by (auto simp: detail_at_def try_into_detail_Inr)

lemma readable_detail: "readable sha db key st \<Longrightarrow> detail_at sha db key (stored_detail st)"
  by (auto simp: readable_def detail_at_def)

lemma detail_at_unique: "detail_at sha db key d \<Longrightarrow> detail_at sha db key d' \<Longrightarrow> d = d'"
  by (auto simp: detail_at_def)

lemma detail_at_rows: "db_rows db' = db_rows db \<Longrightarrow> detail_at sha db' key d = detail_at sha db key d"
  by (simp add: detail_at_def find_row_def)

lemma command_integer_Inr [simp]:
  "command_integer c v = Inr i \<longleftrightarrow> uint v \<le> i64_max \<and> i = uint v"
  by (simp add: command_integer_def)

lemma command_integer_ok: "uint v \<le> i64_max \<Longrightarrow> command_integer c v = Inr (uint v)"
  by simp

subsection \<open>One write\<close>

definition row_write :: "subscription_key \<Rightarrow> database \<Rightarrow> database \<Rightarrow> bool" where
  "row_write key db db' \<longleftrightarrow>
     db_ok db' \<and>
     (\<exists>r r'. find_row db key = Some r \<and> find_row db' key = Some r' \<and>
        col_revision r' = col_revision r + 1) \<and>
     (\<forall>j. j \<noteq> key \<longrightarrow> find_row db' j = find_row db j) \<and>
     (\<exists>es. db_logs db' = db_logs db @ es)"

text \<open>The columns of a row that say what is to be executed, by whom and when.\<close>

definition schedule_columns :: "wanted_row \<Rightarrow>
  string \<times> string \<times> string option \<times> string option \<times> int option \<times> int option \<times> int \<times> int \<times> int" where
  "schedule_columns r =
     (col_lifecycle_state r, col_execution_state r, col_claimed_operation r, col_attempt_id r,
      col_lease_until r, col_next_attempt_at r, col_retry_count r, col_retry_blocked r,
      col_force_eligible_once r)"

lemma mutation_sets [simp]:
  "row_key (write_candidates_set rec now r) = row_key r"
  "row_key (confirm_set now tags rec r) = row_key r"
  "row_key (force_set now l tags rec r) = row_key r"
  "row_key (backfill_set title rec r) = row_key r"
  "row_key (update_detail_set prj st tags now rec r) = row_key r"
  "col_revision (write_candidates_set rec now r) = col_revision r + 1"
  "col_revision (confirm_set now tags rec r) = col_revision r + 1"
  "col_revision (force_set now l tags rec r) = col_revision r + 1"
  "col_revision (backfill_set title rec r) = col_revision r + 1"
  "col_revision (update_detail_set prj st tags now rec r) = col_revision r + 1"
  by (simp_all add: row_key_def write_candidates_set_def confirm_set_def force_set_def
      backfill_set_def update_detail_set_def)

text \<open>An update that met the row: its content before and after, and everything else kept.\<close>

lemma keyed_write:
  assumes ok: "db_ok db" and key: "\<And>r. row_key (f r) = row_key r"
    and rev: "\<And>r. col_revision (f r) = col_revision r + 1"
    and upd: "keyed_update key p f db = Inr (n, db1)"
    and row: "find_row db key = Some r" and hit: "p r"
    and same: "db_rows db2 = db_rows db1" and logs: "db_logs db2 = db_logs db1 @ es"
  shows "row_write key db db2" and "find_row db2 key = Some (f r)" and "row_ok (f r)"
proof -
  have r1: "find_row db1 key = Some (f r)" and n: "n = Suc 0"
    using rows.update_hit [OF ok key upd row] hit by auto
  have ok1: "db_ok db1" by (rule rows.update_ok [OF ok key upd])
  have "find_row db1 j = find_row db j" if "j \<noteq> key" for j
    by (rule rows.update_other [OF key upd that])
  moreover have "db_logs db1 = db_logs db"
    using keyed_update_Inr(1) [OF upd] by simp
  ultimately show "row_write key db db2"
    using row r1 rev ok1 same logs
    by (auto simp: row_write_def db_ok_rows [OF same] find_row_rows [OF same])
  show "find_row db2 key = Some (f r)"
    using r1 by (simp add: find_row_rows [OF same])
  show "row_ok (f r)"
    by (rule rows.lookup_valid [OF ok1 r1])
qed

text \<open>A statement without a guard after a successful read always meets the row.\<close>

lemma unguarded_write:
  assumes ok: "db_ok db" and key: "\<And>r. row_key (f r) = row_key r"
    and rev: "\<And>r. col_revision (f r) = col_revision r + 1"
    and upd: "keyed_update key (\<lambda>_. True) f db = Inr (n, db1)"
    and d: "detail_at sha db key d"
    and same: "db_rows db2 = db_rows db1" and logs: "db_logs db2 = db_logs db1 @ es"
  obtains r where "row_write key db db2" and "find_row db key = Some r"
    and "find_row db2 key = Some (f r)" and "row_ok r" and "row_ok (f r)" and "detail_columns r d"
proof -
  obtain r where r: "find_row db key = Some r" "row_ok r" "detail_columns r d"
    using d unfolding detail_at_columns [OF ok] by blast
  from keyed_write [OF ok key rev upd r(1) _ same logs] r that show ?thesis by blast
qed

subsection \<open>The gate as an interface\<close>

text \<open>A write of a row that was idle and readable as \<open>d\<close>.\<close>

definition idle_write ::
  "(string \<Rightarrow> string) \<Rightarrow> subscription_key \<Rightarrow> database \<Rightarrow> database \<Rightarrow> subscription_detail \<Rightarrow> bool" where
  "idle_write sha key db db' d \<longleftrightarrow>
     detail_at sha db key d \<and> head_execution_state (det_head d) = Idle \<and> row_write key db db'"

locale gated_mutation =
  fixes operation :: "repo_env \<Rightarrow> 'c \<Rightarrow> database \<Rightarrow> 'r repository_result \<times> database"
    and key_of :: "'c \<Rightarrow> subscription_key"
    and admissible :: "'c \<Rightarrow> bool"
  assumes success: "db_ok db \<Longrightarrow> operation env c db = (Inr x, db') \<Longrightarrow>
      \<exists>d. idle_write (env_sha env) (key_of c) db db' d"
    and rollback: "operation env c db = (Inl e, db') \<Longrightarrow> db' = db"
    and gate: "fault_free env \<Longrightarrow> admissible c \<Longrightarrow> detail_at (env_sha env) db (key_of c) d \<Longrightarrow>
      head_execution_state (det_head d) = Running \<Longrightarrow>
      operation env c db = (Inl (ExecutionGateConflict (key_of c)), db)"
begin

lemma write_or_nothing:
  assumes "db_ok db" and "operation env c db = (y, db')"
  shows "db' = db \<or> row_write (key_of c) db db'"
  using assms success [of db env c _ db'] rollback [of env c db _ db']
  by (cases y) (auto simp: idle_write_def)

text \<open>A running row is out of reach, whatever the environment.\<close>

lemma running_untouched:
  assumes "db_ok db" and "operation env c db = (y, db')"
    and "detail_at (env_sha env) db key d" and "head_execution_state (det_head d) = Running"
  shows "find_row db' key = find_row db key"
proof (cases y)
  case (Inl e)
  with assms(2) rollback show ?thesis by blast
next
  case (Inr x)
  with assms(1,2) obtain d' where d': "idle_write (env_sha env) (key_of c) db db' d'"
    using success by blast
  with assms(3,4) have "key \<noteq> key_of c"
    by (auto simp: idle_write_def dest: detail_at_unique)
  with d' show ?thesis by (simp add: idle_write_def row_write_def)
qed

end

subsection \<open>What each mutation writes\<close>

lemma not_running: "e \<noteq> Running \<longleftrightarrow> e = Idle"
  by (cases e) simp_all

lemma add_manual_body_Inr:
  assumes ok: "db_ok db"
    and run: "add_manual_candidates_body env key expected cs now_unix db = Inr (x, db')"
  obtains d r p where "idle_write (env_sha env) key db db' d"
    and "find_row db key = Some r" and "detail_columns r d" and "row_ok r"
    and "find_row db' key = Some (write_candidates_set (encode_payload env p) (uint now_unix) r)"
    and "p = (det_payload d)\<lparr>pl_candidates := merge_manual_candidates (pl_candidates (det_payload d)) cs\<rparr>"
    and "payload_validate_for (env_sha env) (account_key key) (subject_id key) p = Inr ()"
    and "revision_value (head_revision (det_head d)) = expected"
    and "row_ok (write_candidates_set (encode_payload env p) (uint now_unix) r)"
proof -
  obtain d n p where d: "detail_at (env_sha env) db key d"
      and idle: "head_execution_state (det_head d) = Idle"
      and rv: "revision_value (head_revision (det_head d)) = expected"
      and p: "p = (det_payload d)\<lparr>pl_candidates := merge_manual_candidates (pl_candidates (det_payload d)) cs\<rparr>"
        "payload_validate_for (env_sha env) (account_key key) (subject_id key) p = Inr ()"
      and upd: "keyed_update key (\<lambda>_. True) (write_candidates_set (encode_payload env p) (uint now_unix)) db
        = Inr (n, db')"
    using run unfolding add_manual_candidates_body_def Let_def
    by (clarsimp simp: sql_execute_Inr load_detail_Inr not_running split: prod.splits if_split_asm)
  show ?thesis
    by (rule unguarded_write [OF ok _ _ upd d, of db' "[]"])
       (use that [of d _ p] d idle rv p in \<open>simp_all add: idle_write_def\<close>)
qed

lemma confirm_body_Inr:
  assumes ok: "db_ok db"
    and run: "confirm_candidate_body env key torrent expected now_unix replace db = Inr (x, db')"
  obtains d r p tags where "idle_write (env_sha env) key db db' d"
    and "find_row db key = Some r" and "detail_columns r d" and "row_ok r"
    and "find_row db' key = Some (confirm_set (uint now_unix) (Json tags) (encode_payload env p) r)"
    and "row_ok (confirm_set (uint now_unix) (Json tags) (encode_payload env p) r)"
    and "p = confirm_payload torrent replace (det_payload d)"
    and "tags = filter (\<lambda>t. \<not> replace \<and> \<not> confirm_clears_tag t) (sum_attention_tags (det_summary d))"
    and "head_active (det_head d)" and "head_schedulable (det_head d)"
    and "\<exists>c \<in> set (pl_candidates (det_payload d)). cand_torrent_id (match_candidate c) = torrent"
    and "\<not> is_blank torrent" and "revision_value (head_revision (det_head d)) = expected"
    and "\<not> list_ex (\<lambda>a. dl_torrent_id a = torrent \<and> \<not> reusable_download_state (dl_state a))
           (art_downloads (pl_artifacts (det_payload d)))"
    and "\<exists>d'. detail_at (env_sha env) db' key d' \<and> x = det_summary d'"
proof -
  obtain d n p tags db1 d' e c where d: "detail_at (env_sha env) db key d"
      and idle: "head_execution_state (det_head d) = Idle"
      and rv: "revision_value (head_revision (det_head d)) = expected"
      and act: "head_active (det_head d)" "head_schedulable (det_head d)"
      and p: "p = confirm_payload torrent replace (det_payload d)"
      and tags: "tags = filter (\<lambda>t. \<not> replace \<and> \<not> confirm_clears_tag t) (sum_attention_tags (det_summary d))"
      and c: "find (\<lambda>c. cand_torrent_id (match_candidate c) = torrent \<and> \<not> is_blank torrent)
            (pl_candidates (det_payload d)) = Some c"
      and used: "\<not> list_ex (\<lambda>a. dl_torrent_id a = torrent \<and> \<not> reusable_download_state (dl_state a))
           (art_downloads (pl_artifacts (det_payload d)))"
      and upd: "keyed_update key (\<lambda>_. True) (confirm_set (uint now_unix) (Json tags) (encode_payload env p)) db
        = Inr (n, db1)"
      and d': "detail_at (env_sha env) db1 key d'" "x = det_summary d'"
      and audit: "append_execution_audit env e db1 = Inr db'"
    using run unfolding confirm_candidate_body_def Let_def
    by (clarsimp simp: sql_execute_Inr load_detail_Inr not_running split: prod.splits if_split_asm)
  from append_audit_Inr [OF audit] obtain l where same: "db_rows db' = db_rows db1"
      and l: "db_logs db' = db_logs db1 @ [l]" by blast
  have c': "\<exists>c \<in> set (pl_candidates (det_payload d)). cand_torrent_id (match_candidate c) = torrent"
      "\<not> is_blank torrent"
    using c by (auto simp: find_Some_iff)
  have x: "\<exists>d'. detail_at (env_sha env) db' key d' \<and> x = det_summary d'"
    using d' by (auto simp: detail_at_rows [OF same])
  show ?thesis
    by (rule unguarded_write [OF ok _ _ upd d same l])
       (use that [of d _ tags p] d idle rv p tags act c' used x in \<open>simp_all add: idle_write_def\<close>)
qed

lemma force_retry_body_Inr:
  assumes ok: "db_ok db" and run: "force_retry_body env key now_unix db = Inr (x, db')"
  obtains d r where "idle_write (env_sha env) key db db' d"
    and "find_row db key = Some r" and "detail_columns r d" and "row_ok r"
    and "find_row db' key = Some (force_set (uint now_unix) (force_retry_lifecycle d)
           (Json (force_retry_tags d)) (encode_payload env (force_retry_payload d)) r)"
    and "row_ok (force_set (uint now_unix) (force_retry_lifecycle d)
           (Json (force_retry_tags d)) (encode_payload env (force_retry_payload d)) r)"
    and "head_active (det_head d)" and "head_schedulable (det_head d)"
proof -
  obtain d n db1 e where d: "detail_at (env_sha env) db key d"
      and idle: "head_execution_state (det_head d) = Idle"
      and act: "head_active (det_head d)" "head_schedulable (det_head d)"
      and upd: "keyed_update key (\<lambda>_. True) (force_set (uint now_unix) (force_retry_lifecycle d)
           (Json (force_retry_tags d)) (encode_payload env (force_retry_payload d))) db = Inr (n, db1)"
      and audit: "append_execution_audit env e db1 = Inr db'"
    using run unfolding force_retry_body_def Let_def
    by (clarsimp simp: sql_execute_Inr load_detail_Inr not_running split: prod.splits if_split_asm)
  from append_audit_Inr [OF audit] obtain l where same: "db_rows db' = db_rows db1"
      and l: "db_logs db' = db_logs db1 @ [l]" by blast
  show ?thesis
    by (rule unguarded_write [OF ok _ _ upd d same l])
       (use that [of d] d idle act in \<open>simp_all add: idle_write_def\<close>)
qed

lemma update_detail_body_Inr:
  assumes ok: "db_ok db" and run: "update_detail_body env c db = Inr (x, db')"
  obtains d r prj so where "detail_at (env_sha env) db (upd_key c) d"
    and "head_revision (det_head d) = upd_expected_revision c"
    and "head_execution_state (det_head d) = Running \<longrightarrow> \<not> gated_fields_differ d c"
    and "find_row db (upd_key c) = Some r" and "detail_columns r d" and "row_ok r"
    and "row_write (upd_key c) db db'"
    and "find_row db' (upd_key c) = Some (update_detail_set prj so (Json (upd_attention_tags c))
           (uint (upd_updated_at c)) (encode_payload env (upd_payload c)) r)"
    and "detail_at (env_sha env) db' (upd_key c) x" and "db_logs db' = db_logs db"
proof -
  obtain d prj so where d: "detail_at (env_sha env) db (upd_key c) d"
      and rv: "head_revision (det_head d) = upd_expected_revision c"
      and gate: "head_execution_state (det_head d) = Running \<longrightarrow> \<not> gated_fields_differ d c"
      and upd: "keyed_update (upd_key c)
           (\<lambda>r. col_revision r = uint (revision_value (upd_expected_revision c)))
           (update_detail_set prj so (Json (upd_attention_tags c)) (uint (upd_updated_at c))
             (encode_payload env (upd_payload c))) db = Inr (Suc 0, db')"
      and x: "detail_at (env_sha env) db' (upd_key c) x"
    using run unfolding update_detail_body_def Let_def
    by (clarsimp simp: sql_execute_Inr load_detail_Inr split: prod.splits if_split_asm)
  obtain r where r: "find_row db (upd_key c) = Some r" "row_ok r" "detail_columns r d"
    using d unfolding detail_at_columns [OF ok] by blast
  then have "col_revision r = uint (revision_value (upd_expected_revision c))"
    using rv by (simp add: detail_columns_def summary_columns_def head_columns_def)
  note w = keyed_write [where p = "\<lambda>r. col_revision r = uint (revision_value (upd_expected_revision c))",
      OF ok _ _ upd r(1) this refl, of "[]"]
  have "db_logs db' = db_logs db"
    using keyed_update_Inr(1) [OF upd] by simp
  with that [of d r prj so] d rv gate r w x show ?thesis by simp
qed

subsection \<open>The backfill\<close>

text \<open>A row the backfill has nothing to do for: not selected, or blank for Rust's \<open>trim\<close>.\<close>

definition backfill_settled :: "(string \<Rightarrow> string) \<Rightarrow> wanted_row \<Rightarrow> bool" where
  "backfill_settled sha r \<longleftrightarrow> \<not> backfill_where r \<or>
     (\<exists>d. try_into_detail sha r = Inr d \<and>
          uint (revision_value (head_revision (det_head d))) < i64_max \<and>
          (case src_original_title (pl_source (det_payload d)) of
             None \<Rightarrow> True | Some t \<Rightarrow> is_blank t))"

definition names_of :: "wanted_row \<Rightarrow> string \<times> string" where
  "names_of r = (col_account_key r, col_subject_id r)"

lemma row_key_names: "row_key r = \<lparr>account_key = a, subject_id = s\<rparr> \<longleftrightarrow> names_of r = (a, s)"
  by (auto simp: row_key_def names_of_def)

lemma written_settled:
  "src_detail_title (pl_source p) \<noteq> None \<Longrightarrow>
     backfill_settled sha (backfill_set title (encode_payload env p) r)"
  by (auto simp: backfill_settled_def backfill_where_def backfill_set_def encode_payload_def
      map_payload_f64_def)

lemma backfill_one_cases:
  assumes run: "backfill_one env n (a, s) (k, db) = Inr (k', db')"
  obtains d where "detail_at (env_sha env) db \<lparr>account_key = a, subject_id = s\<rparr> d"
      "k' = k" "db' = db" "uint (revision_value (head_revision (det_head d))) < i64_max"
      "case src_original_title (pl_source (det_payload d)) of None \<Rightarrow> True | Some t \<Rightarrow> is_blank t"
  | d title p where "detail_at (env_sha env) db \<lparr>account_key = a, subject_id = s\<rparr> d"
      "k' = Suc k" "src_detail_title (pl_source p) \<noteq> None"
      "keyed_update \<lparr>account_key = a, subject_id = s\<rparr>
         (\<lambda>r. col_revision r = uint (revision_value (head_revision (det_head d))))
         (backfill_set title (encode_payload env p)) db = Inr (Suc 0, db')"
proof -
  let ?key = "\<lparr>account_key = a, subject_id = s\<rparr>"
  obtain d where key: "subscription_key_try_new a s = Inr ?key"
      and load: "load_detail env n db ?key = Inr d"
      and rv_sql: "command_integer ''revision'' (revision_value (head_revision (det_head d)))
        = Inr (uint (revision_value (head_revision (det_head d))))"
      and rv: "uint (revision_value (head_revision (det_head d))) < i64_max"
    using run by (auto simp: backfill_one_def and_then_Inr_iff split: if_split_asm)
  have d: "detail_at (env_sha env) db ?key d"
    using load by (simp add: load_detail_Inr)
  let ?p = "det_payload d"
  define title where "title = (case src_original_title (pl_source ?p) of None \<Rightarrow> [] | Some t \<Rightarrow> str_trim t)"
  define q where "q = ?p\<lparr>pl_source := (pl_source ?p)\<lparr>src_detail_title := Some title\<rparr>\<rparr>"
  have step: "(if title = [] then Inr (k, db)
      else and_then (projection_from_source (pl_source q)) (\<lambda>prj.
        and_then (sql_execute env n ''backfill metadata title''
          (keyed_update ?key (\<lambda>r. col_revision r = uint (revision_value (head_revision (det_head d))))
            (backfill_set (prj_title prj) (encode_payload env q)) db)) (\<lambda>(changed, db1).
        if changed \<noteq> 1 then Inl (corrupt ''metadata title backfill did not update exactly one row'')
        else Inr (k + changed, db1)))) = Inr (k', db')"
    using run rv
    by (simp add: backfill_one_def title_def q_def Let_def key load rv_sql
        del: projection_from_source_Inr subscription_key_try_new_Inr cong: if_cong split del: if_split)
  show thesis
  proof (cases "title = []")
    case True
    with step have "k' = k" "db' = db" by simp_all
    moreover have "case src_original_title (pl_source ?p) of None \<Rightarrow> True | Some t \<Rightarrow> is_blank t"
      using True by (simp add: title_def is_blank_def split: option.splits)
    ultimately show thesis using that(1) d rv by blast
  next
    case False
    with step obtain prj :: subscription_projection where upd: "keyed_update ?key
          (\<lambda>r. col_revision r = uint (revision_value (head_revision (det_head d))))
          (backfill_set (prj_title prj) (encode_payload env q)) db = Inr (Suc 0, db')" "k' = Suc k"
      by (auto simp: sql_execute_Inr simp del: projection_from_source_Inr split: if_split_asm prod.splits)
    show thesis
      by (rule that(2) [OF d upd(2) _ upd(1)]) (simp add: q_def)
  qed
qed

lemma backfill_one_Inr:
  assumes ok: "db_ok db" and run: "backfill_one env n (a, s) (k, db) = Inr (k', db')"
  shows "db_ok db'"
    and "r \<in> set (db_rows db') \<Longrightarrow>
      backfill_settled (env_sha env) r \<or> (r \<in> set (db_rows db) \<and> names_of r \<noteq> (a, s))"
proof -
  let ?key = "\<lparr>account_key = a, subject_id = s\<rparr>"
  show "db_ok db'"
    by (rule backfill_one_cases [OF run]) (use ok in \<open>auto elim!: rows.update_ok [OF ok, rotated]\<close>)
  show "backfill_settled (env_sha env) r \<or> (r \<in> set (db_rows db) \<and> names_of r \<noteq> (a, s))"
    if r: "r \<in> set (db_rows db')"
  proof (rule backfill_one_cases [OF run])
    fix d
    assume d: "detail_at (env_sha env) db ?key d" "db' = db"
      "uint (revision_value (head_revision (det_head d))) < i64_max"
      "case src_original_title (pl_source (det_payload d)) of None \<Rightarrow> True | Some t \<Rightarrow> is_blank t"
    show ?thesis
    proof (cases "names_of r = (a, s)")
      case True
      then have "find_row db ?key = Some r"
        using find_row_unique [OF ok, of r] r d(2) by (simp add: row_key_names [symmetric])
      with d show ?thesis by (auto simp: backfill_settled_def detail_at_def)
    qed (use r d in simp)
  next
    fix d title p
    assume d: "detail_at (env_sha env) db ?key d" "src_detail_title (pl_source p) \<noteq> None"
      and upd: "keyed_update ?key
        (\<lambda>r. col_revision r = uint (revision_value (head_revision (det_head d))))
        (backfill_set title (encode_payload env p)) db = Inr (Suc 0, db')"
    obtain r0 where r0: "find_row db ?key = Some r0"
        "find_row db' ?key = Some (backfill_set title (encode_payload env p) r0)"
      using guarded_update [OF ok _ upd] by simp blast
    have ok': "db_ok db'" using rows.update_ok [OF ok _ upd] by simp
    show ?thesis
    proof (cases "names_of r = (a, s)")
      case True
      then have "r = backfill_set title (encode_payload env p) r0"
        using find_row_unique [OF ok' r] r0 by (simp add: row_key_names [symmetric])
      with written_settled [OF d(2)] show ?thesis by simp
    next
      case False
      then have "find_row db (row_key r) = Some r"
        using find_row_unique [OF ok' r] rows.update_other [OF _ upd, of "row_key r"]
        by (auto simp: row_key_names)
      with False find_row_Some show ?thesis by blast
    qed
  qed
qed

lemma backfill_all_settles:
  assumes "backfill_all env n names (k, db) = Inr (k', db')" and "db_ok db"
    and "\<forall>r \<in> set (db_rows db). backfill_settled (env_sha env) r \<or> names_of r \<in> set names"
  shows "db_ok db' \<and> (\<forall>r \<in> set (db_rows db'). backfill_settled (env_sha env) r)"
  using assms
proof (induction names arbitrary: n k db)
  case (Cons x names)
  obtain a s where x: "x = (a, s)" by fastforce
  from Cons.prems(1) obtain k1 db1 where one: "backfill_one env n (a, s) (k, db) = Inr (k1, db1)"
      and rest: "backfill_all env (Suc n) names (k1, db1) = Inr (k', db')"
    by (auto simp: x)
  note step = backfill_one_Inr [OF Cons.prems(2) one]
  have "\<forall>r \<in> set (db_rows db1). backfill_settled (env_sha env) r \<or> names_of r \<in> set names"
    using step(2) Cons.prems(3) by (auto simp: x)
  from Cons.IH [OF rest step(1) this] show ?case .
qed simp

lemma settled_skipped:
  assumes ok: "db_ok db" and ff: "fault_free env" and r: "r \<in> set (db_rows db)"
    and settled: "backfill_settled (env_sha env) r" "backfill_where r"
  shows "backfill_one env n (names_of r) (k, db) = Inr (k, db)"
proof -
  obtain d where d: "try_into_detail (env_sha env) r = Inr d"
      "uint (revision_value (head_revision (det_head d))) < i64_max"
      "case src_original_title (pl_source (det_payload d)) of None \<Rightarrow> True | Some t \<Rightarrow> is_blank t"
    using settled by (auto simp: backfill_settled_def)
  have row: "find_row db (row_key r) = Some r" by (rule find_row_unique [OF ok r])
  then have "row_ok r" by (rule rows.lookup_valid [OF ok])
  with d(1) have "head_texts (det_head d)" "head_columns r (det_head d)"
    by (auto simp: try_into_detail_Inr detail_read_def dest: detail_columns_head)
  then have key: "subscription_key_try_new (col_account_key r) (col_subject_id r) = Inr (row_key r)"
    by (auto simp: head_texts_def head_columns_def row_key_def)
  have load: "load_detail env n db (row_key r) = Inr d"
    using row d(1) ff by (simp add: load_detail_def)
  have title: "(case src_original_title (pl_source (det_payload d)) of
      None \<Rightarrow> [] | Some t \<Rightarrow> str_trim t) = []"
    using d(3) by (simp add: is_blank_def split: option.splits)
  have rv: "command_integer ''revision'' (revision_value (head_revision (det_head d)))
      = Inr (uint (revision_value (head_revision (det_head d))))"
    using d(2) by simp
  show ?thesis
    using d(2) by (simp only: backfill_one_def names_of_def prod.case fst_conv snd_conv key
        and_then_simps load rv title Let_def) simp
qed

lemma settled_all_skipped:
  assumes "db_ok db" and "fault_free env"
    and "\<forall>r \<in> set rs. r \<in> set (db_rows db) \<and> backfill_where r \<and> backfill_settled (env_sha env) r"
  shows "backfill_all env n (map names_of rs) (k, db) = Inr (k, db)"
  using assms(3)
proof (induction rs arbitrary: n)
  case (Cons r rs)
  then show ?case using settled_skipped [OF assms(1,2)] by simp
qed simp

subsection \<open>The gate holds\<close>

fun manual_search ::
  "repo_env \<Rightarrow> subscription_key \<times> u64 \<times> candidate_match_payload list \<times> u64 \<Rightarrow> database
    \<Rightarrow> subscription_summary repository_result \<times> database" where
  "manual_search env (key, expected, cs, now_unix) db =
     add_manual_candidates env key expected cs now_unix db"

fun torrent_choice ::
  "repo_env \<Rightarrow> subscription_key \<times> string \<times> u64 \<times> u64 \<times> bool \<Rightarrow> database
    \<Rightarrow> subscription_summary repository_result \<times> database" where
  "torrent_choice env (key, torrent, expected, now_unix, replace) db =
     confirm_candidate env key torrent expected now_unix replace db"

fun retry_request ::
  "repo_env \<Rightarrow> subscription_key \<times> u64 \<Rightarrow> database \<Rightarrow> subscription_head repository_result \<times> database"
where
  "retry_request env (key, now_unix) db = force_retry env key now_unix db"

interpretation search: gated_mutation manual_search fst "\<lambda>_. True"
proof unfold_locales
  fix db env x db' and c :: "subscription_key \<times> u64 \<times> candidate_match_payload list \<times> u64"
  assume "db_ok db" "manual_search env c db = (Inr x, db')"
  then show "\<exists>d. idle_write (env_sha env) (fst c) db db' d"
    by (cases c) (auto simp: add_manual_candidates_def run_transaction_Inr elim: add_manual_body_Inr)
next
  fix env db e db' and c :: "subscription_key \<times> u64 \<times> candidate_match_payload list \<times> u64"
  show "manual_search env c db = (Inl e, db') \<Longrightarrow> db' = db"
    by (cases c) (simp add: add_manual_candidates_def run_transaction_Inl)
next
  fix env db d and c :: "subscription_key \<times> u64 \<times> candidate_match_payload list \<times> u64"
  assume "fault_free env" "detail_at (env_sha env) db (fst c) d"
    "head_execution_state (det_head d) = Running"
  then show "manual_search env c db = (Inl (ExecutionGateConflict (fst c)), db)"
    using load_detail_Inr [of env 0 db "fst c" d]
    by (cases c) (simp add: add_manual_candidates_def run_transaction_Inl fault_free_def
        add_manual_candidates_body_def sql_call_def)
qed

interpretation choice: gated_mutation torrent_choice fst "\<lambda>(_, _, _, now, _). uint now \<le> i64_max"
proof unfold_locales
  fix db env x db' and c :: "subscription_key \<times> string \<times> u64 \<times> u64 \<times> bool"
  assume "db_ok db" "torrent_choice env c db = (Inr x, db')"
  then show "\<exists>d. idle_write (env_sha env) (fst c) db db' d"
    by (cases c) (auto simp: confirm_candidate_def run_transaction_Inr elim: confirm_body_Inr)
next
  fix env db e db' and c :: "subscription_key \<times> string \<times> u64 \<times> u64 \<times> bool"
  show "torrent_choice env c db = (Inl e, db') \<Longrightarrow> db' = db"
    by (cases c) (simp add: confirm_candidate_def run_transaction_Inl)
next
  fix env db d and c :: "subscription_key \<times> string \<times> u64 \<times> u64 \<times> bool"
  assume "fault_free env" "detail_at (env_sha env) db (fst c) d"
    "head_execution_state (det_head d) = Running"
    "(\<lambda>(_, _, _, now, _). uint now \<le> i64_max) c"
  then show "torrent_choice env c db = (Inl (ExecutionGateConflict (fst c)), db)"
    using load_detail_Inr [of env 0 db "fst c" d]
    by (cases c) (simp add: confirm_candidate_def run_transaction_Inl fault_free_def
        confirm_candidate_body_def sql_call_def Let_def command_integer_ok)
qed

interpretation retry: gated_mutation retry_request fst "\<lambda>(_, now). uint now \<le> i64_max"
proof unfold_locales
  fix db env x db' and c :: "subscription_key \<times> u64"
  assume "db_ok db" "retry_request env c db = (Inr x, db')"
  then show "\<exists>d. idle_write (env_sha env) (fst c) db db' d"
    by (cases c) (auto simp: force_retry_def run_transaction_Inr elim: force_retry_body_Inr)
next
  fix env db e db' and c :: "subscription_key \<times> u64"
  show "retry_request env c db = (Inl e, db') \<Longrightarrow> db' = db"
    by (cases c) (simp add: force_retry_def run_transaction_Inl)
next
  fix env db d and c :: "subscription_key \<times> u64"
  assume "fault_free env" "detail_at (env_sha env) db (fst c) d"
    "head_execution_state (det_head d) = Running" "(\<lambda>(_, now). uint now \<le> i64_max) c"
  then show "retry_request env c db = (Inl (ExecutionGateConflict (fst c)), db)"
    using load_detail_Inr [of env 0 db "fst c" d]
    by (cases c) (simp add: force_retry_def run_transaction_Inl fault_free_def
        force_retry_body_def sql_call_def Let_def command_integer_ok)
qed

end
