(* ===== verification/Poll_Facts.thy ===== *)
theory Poll_Facts
  imports Poll_Operations Mutation_Facts Claim_History
begin

text \<open>
  Proofs about the poll store: what a row read before the merge says about its columns, the
  statements it adds to the table, and what the merge of one record and of a whole snapshot
  does to the rows, the attempts that run on them and the audit log.
\<close>

subsection \<open>The row before the merge\<close>

definition attempt_columns :: "wanted_row \<Rightarrow> existing_record \<Rightarrow> bool" where
  "attempt_columns r ex \<longleftrightarrow>
     col_claimed_operation r = map_option operation_as_str (ex_claimed_operation ex) \<and>
     col_attempt_id r = map_option attempt_id_str (ex_attempt_id ex) \<and>
     col_lease_until r = map_option uint (ex_lease_until ex)"

lemma existing_release_year_Inr:
  assumes "v \<le> 9999" and "existing_release_year v = Inr y"
  shows "v = uint y"
proof -
  have v: "v \<le> i64_max" using assms(1) by (simp add: i64_max_def)
  have w: "uint (word_of_int (uint x) :: u16) = uint x" if "uint x \<le> 9999" for x :: u64
    using that by (simp add: unsigned_ucast_eq take_bit_int_eq_self)
  show ?thesis
    using assms v w
    by (auto simp: existing_release_year_def and_then_Inr_iff checked_u64_Inr split: if_split_asm)
qed

lemma traverse_existing_year:
  "opt_all (\<lambda>v. v \<le> 9999) v \<Longrightarrow> traverse_opt existing_release_year v = Inr y \<Longrightarrow>
     v = map_option uint y"
  by (cases v) (auto simp: and_then_Inr_iff existing_release_year_Inr)

lemma traverse_operation_Inr:
  "traverse_opt (\<lambda>v. and_then (checked_required_text f v) operation_try_from_persisted) v = Inr x \<Longrightarrow>
     v = map_option operation_as_str x"
  by (cases v) (auto simp: and_then_Inr_iff operation_try_from_persisted_def split: if_split_asm)

lemma traverse_attempt_Inr:
  "traverse_opt (\<lambda>v. and_then (checked_required_text f v) (\<lambda>t. map_err g (attempt_id_try_new t))) v
     = Inr x \<Longrightarrow> v = map_option attempt_id_str x"
  by (cases v) (auto simp: and_then_Inr_iff map_err_Inr_iff attempt_id_try_new_def Let_def
      split: if_split_asm)

lemma existing_controls_Inr:
  assumes "integer_columns r" and "existing_controls r l e = Inr c"
  shows "col_claimed_operation r = map_option operation_as_str (fst c) \<and>
    col_attempt_id r = map_option attempt_id_str (fst (snd c)) \<and>
    col_lease_until r = map_option uint (snd (snd c)) \<and>
    (e = Idle \<longrightarrow> fst (snd c) = None)"
proof -
  obtain op a lease where c: "c = (op, a, lease)" by (cases c)
  have v: "opt_all (\<lambda>v. v \<le> i64_max) (col_lease_until r)"
    using assms(1) by (simp add: integer_columns_def)
  from assms(2) c have
      "traverse_opt (\<lambda>v. and_then (checked_required_text ''claimed_operation'' v)
         operation_try_from_persisted) (col_claimed_operation r) = Inr op"
      "traverse_opt (\<lambda>v. and_then (checked_required_text ''attempt_id'' v) (\<lambda>t.
         map_err (persisted_validation ''decode poll execution attempt ID'')
           (attempt_id_try_new t))) (col_attempt_id r) = Inr a"
      "checked_optional_u64 ''lease_until'' (col_lease_until r) = Inr lease"
      "\<not> (e = Idle \<and> (op \<noteq> None \<or> a \<noteq> None \<or> lease \<noteq> None))"
    unfolding existing_controls_def by (auto simp: and_then_Inr_iff reject_if_def split: if_split_asm)
  then show ?thesis
    using c traverse_operation_Inr traverse_attempt_Inr checked_optional_u64_Inr [OF v] by auto
qed

lemma try_into_existing_Inr:
  assumes ok: "row_ok r" and run: "try_into_existing sha r = Inr ex"
  shows "detail_columns r (ex_detail ex)" and "attempt_columns r ex"
    and "detail_wf sha (ex_detail ex)"
    and "head_execution_state (det_head (ex_detail ex)) = Idle \<Longrightarrow> ex_attempt_id ex = None"
proof -
  have ints: "integer_columns r" and cols: "column_checks r"
    using ok by (simp_all add: row_ok_def)
  have year: "opt_all (\<lambda>v. v \<le> 9999) (col_release_year r)"
    using cols by (cases "col_release_year r"; simp add: column_checks_def)
  have "col_revision r \<le> i64_max" "col_updated_at r \<le> i64_max" "col_retry_count r \<le> i64_max"
    "col_max_retries r \<le> i64_max" "opt_all (\<lambda>v. v \<le> i64_max) (col_inactive_at r)"
    "opt_all (\<lambda>v. v \<le> i64_max) (col_next_attempt_at r)"
    "opt_all (\<lambda>v. v \<le> i64_max) (col_douban_sort_time r)"
    using ints by (simp_all add: integer_columns_def)
  note dec = checked_u64_Inr [OF this(1)] checked_u64_Inr [OF this(2)] checked_u32_Inr [OF this(3)]
    checked_u32_Inr [OF this(4)] checked_optional_u64_Inr [OF this(5)]
    checked_optional_u64_Inr [OF this(6)] checked_optional_u64_Inr [OF this(7)] revision_column
    key_column traverse_snapshot_Inr traverse_blocked_Inr
  note run' = run [unfolded try_into_existing_def Let_def map_err_Inr_iff case_prod_beta]
  have "detail_columns r (ex_detail ex) \<and> attempt_columns r ex \<and> detail_wf sha (ex_detail ex) \<and>
    (head_execution_state (det_head (ex_detail ex)) = Idle \<longrightarrow> ex_attempt_id ex = None)"
    using run'
    apply (elim and_then_InrE)
    apply (simp only: dec map_err_Inr_iff checked_bool_Inr parse_media_kind_Inr
        parse_lifecycle_state_Inr parse_execution_state_Inr parse_attention_tags_Inr decode_json_Inr
        detail_try_new_Inr sum.inject)
    apply (elim conjE, hypsubst)
    apply (drule existing_controls_Inr [OF ints])
    apply (drule traverse_existing_year [OF year])
    apply (simp add: detail_columns_def summary_columns_def head_columns_def attempt_columns_def)
    done
  then show "detail_columns r (ex_detail ex)" and "attempt_columns r ex"
    and "detail_wf sha (ex_detail ex)"
    and "head_execution_state (det_head (ex_detail ex)) = Idle \<Longrightarrow> ex_attempt_id ex = None"
    by blast+
qed

subsection \<open>Statements on many rows\<close>

lemma update_where_Inr:
  assumes "update_where p f db = Inr (n, db')"
  shows "db' = db\<lparr>db_rows := map (\<lambda>r. if p r then f r else r) (db_rows db)\<rparr>"
    and "n = length (filter p (db_rows db))"
    and "\<forall>r \<in> set (db_rows db). p r \<longrightarrow> row_ok (f r)"
    and "distinct (attempt_ids (db_rows db'))"
  using assms by (auto simp: update_where_def Let_def list_ex_iff split: if_split_asm)

lemma find_row_update_where:
  assumes "\<And>r. row_key (f r) = row_key r" and "update_where p f db = Inr (n, db')"
  shows "find_row db' j = map_option (\<lambda>r. if p r then f r else r) (find_row db j)"
  using update_where_Inr(1) [OF assms(2)] assms(1) by (simp add: find_row_def find_map_same_key)

lemma update_where_ok:
  assumes ok: "db_ok db" and key: "\<And>r. row_key (f r) = row_key r"
    and upd: "update_where p f db = Inr (n, db')"
  shows "db_ok db'"
proof -
  have keys: "map row_key (map (\<lambda>r. if p r then f r else r) rs) = map row_key rs" for rs
    using key by (induction rs) simp_all
  have "\<forall>r \<in> set (db_rows db'). row_ok r"
    using ok update_where_Inr(1,3) [OF upd] by (auto simp: db_ok_def)
  then show ?thesis
    using ok update_where_Inr(1,4) [OF upd] keys [of "db_rows db"]
    by (simp add: db_ok_def del: map_map)
qed

lemma find_snoc: "find P (xs @ [x]) = (case find P xs of None \<Rightarrow> if P x then Some x else None | y \<Rightarrow> y)"
  by (induction xs) auto

lemma row_insert_Inr:
  assumes ok: "db_ok db" and ins: "row_insert r db = Inr (n, db')"
  shows "db' = db\<lparr>db_rows := db_rows db @ [r]\<rparr>" and "n = 1" and "row_ok r"
    and "find_row db (row_key r) = None" and "db_ok db'"
    and "find_row db' j = (if j = row_key r then Some r else find_row db j)"
    and "find_meta db (col_account_key r) \<noteq> None"
proof -
  from ins show db': "db' = db\<lparr>db_rows := db_rows db @ [r]\<rparr>" and "n = 1" and r: "row_ok r"
    and fresh: "find_row db (row_key r) = None" and "find_meta db (col_account_key r) \<noteq> None"
    by (auto simp: row_insert_def split: if_split_asm)
  from ins have "distinct (attempt_ids (db_rows db'))"
    by (auto simp: row_insert_def split: if_split_asm)
  moreover have "row_key r \<notin> row_key ` set (db_rows db)"
    using fresh by (auto simp: find_row_None)
  ultimately show "db_ok db'"
    using ok r by (simp add: db_ok_def db')
  show "find_row db' j = (if j = row_key r then Some r else find_row db j)"
  proof (cases "j = row_key r")
    case True
    then show ?thesis
      using fresh by (auto simp: find_row_def db' find_snoc)
  next
    case False
    then show ?thesis
      by (auto simp: find_row_def db' find_snoc split: option.split)
  qed
qed

subsection \<open>What a merge may do to a row\<close>

text \<open>The audit entry that names a superseded attempt.\<close>

definition superseded_entry :: "subscription_key \<Rightarrow> string \<Rightarrow> log_row \<Rightarrow> bool" where
  "superseded_entry key a e \<longleftrightarrow>
     log_account_key e = account_key key \<and> log_action e = ''supersede_attempt'' \<and>
     log_target_id e = Some (subject_id key) \<and>
     (\<exists>fields. log_related e = JObject fields \<and> (''attempt_id'', JString a) \<in> set fields)"

text \<open>An attempt on the row stays as it is, or it is gone and the audit log names it.\<close>

definition attempt_accounted ::
  "subscription_key \<Rightarrow> log_row list \<Rightarrow> wanted_row \<Rightarrow> wanted_row \<Rightarrow> bool" where
  "attempt_accounted key es r r' \<longleftrightarrow>
     (case col_attempt_id r of
        None \<Rightarrow> col_attempt_id r' = None
      | Some a \<Rightarrow>
          (col_attempt_id r' = Some a \<and> col_lease_until r' = col_lease_until r \<and>
           col_claimed_operation r' = col_claimed_operation r \<and>
           col_lifecycle_state r' = col_lifecycle_state r)
          \<or> (col_attempt_id r' = None \<and> (\<exists>e \<in> set es. superseded_entry key a e)))"

definition merged_row :: "subscription_key \<Rightarrow> log_row list \<Rightarrow> wanted_row \<Rightarrow> wanted_row \<Rightarrow> bool" where
  "merged_row key es r r' \<longleftrightarrow>
     attempt_accounted key es r r' \<and> later_row r r' \<and>
     (col_media_kind r' = col_media_kind r \<or> col_media_kind r' = ''tv'') \<and>
     (col_active r = 1 \<longrightarrow> col_media_kind r' = col_media_kind r \<longrightarrow>
        schedule_columns r' = schedule_columns r) \<and>
     col_attention_tags_json r' = col_attention_tags_json r \<and>
     (col_active r = 1 \<longrightarrow> col_active r' = 1)"

lemma merged_row_refl [simp]: "merged_row key es r r"
  by (auto simp: merged_row_def attempt_accounted_def later_row_def split: option.split)

lemma attempt_accounted_trans:
  "attempt_accounted key es r r' \<Longrightarrow> attempt_accounted key es' r' r'' \<Longrightarrow>
     attempt_accounted key (es @ es') r r''"
  by (auto simp: attempt_accounted_def split: option.splits)

lemma merged_row_trans:
  assumes "merged_row key es r r'" and "merged_row key es' r' r''"
  shows "merged_row key (es @ es') r r''"
proof -
  have "later_row r r''"
    using assms by (auto simp: merged_row_def later_row_def)
  then show ?thesis
    using assms attempt_accounted_trans [of key es r r' es' r'']
    by (auto simp: merged_row_def)
qed

text \<open>Any number of merges: the table stays valid, rows stay, the audit log grows.\<close>

definition merge_progress :: "database \<Rightarrow> database \<Rightarrow> bool" where
  "merge_progress db db' \<longleftrightarrow>
     db_ok db' \<and> db_meta db' = db_meta db \<and>
     (\<exists>es. db_logs db' = db_logs db @ es \<and>
        (\<forall>key r. find_row db key = Some r \<longrightarrow>
           (\<exists>r'. find_row db' key = Some r' \<and> merged_row key es r r'))) \<and>
     (\<forall>key r'. find_row db key = None \<longrightarrow> find_row db' key = Some r' \<longrightarrow> col_attempt_id r' = None)"

lemma merge_progress_refl: "db_ok db \<Longrightarrow> merge_progress db db"
  by (simp add: merge_progress_def)

lemma merge_progress_trans:
  assumes 1: "merge_progress db db1" and 2: "merge_progress db1 db2"
  shows "merge_progress db db2"
proof -
  obtain es where es: "db_logs db1 = db_logs db @ es"
      "\<And>key r. find_row db key = Some r \<Longrightarrow> \<exists>r'. find_row db1 key = Some r' \<and> merged_row key es r r'"
    using 1 by (auto simp: merge_progress_def)
  obtain es' where es': "db_logs db2 = db_logs db1 @ es'"
      "\<And>key r. find_row db1 key = Some r \<Longrightarrow> \<exists>r'. find_row db2 key = Some r' \<and> merged_row key es' r r'"
    using 2 by (auto simp: merge_progress_def)
  have "\<exists>r''. find_row db2 key = Some r'' \<and> merged_row key (es @ es') r r''"
    if "find_row db key = Some r" for key r
    using es(2) [OF that] es'(2) merged_row_trans by blast
  moreover have "col_attempt_id r'' = None" if "find_row db key = None" "find_row db2 key = Some r''" for key r''
  proof (cases "find_row db1 key")
    case None
    with 2 that show ?thesis by (simp add: merge_progress_def)
  next
    case (Some r')
    with 1 that have "col_attempt_id r' = None" by (simp add: merge_progress_def)
    with es'(2) [OF Some] that show ?thesis by (auto simp: merged_row_def attempt_accounted_def)
  qed
  ultimately show ?thesis
    using 1 2 es(1) es'(1) unfolding merge_progress_def by auto
qed

subsection \<open>One record that exists\<close>

lemma append_audit_meta:
  "append_execution_audit env entry db = Inr db' \<Longrightarrow> db_meta db' = db_meta db"
  by (auto simp: append_execution_audit_def Let_def and_then_Inr_iff)

lemma supersede_audit_Inr:
  assumes "append_poll_supersede_audit env ex attempt fence reason after db = Inr db'"
  obtains e where "db_rows db' = db_rows db" and "db_meta db' = db_meta db"
    and "db_logs db' = db_logs db @ [e]"
    and "superseded_entry (head_key (det_head (ex_detail ex)))
           (attempt_id_str (sea_attempt_id attempt)) e"
    and "head_execution_state (det_head (ex_detail ex)) = Running"
proof -
  obtain entry where run: "append_execution_audit env entry db = Inr db'"
      and entry: "entry_action entry = ''supersede_attempt''"
        "entry_account_key entry = account_key (head_key (det_head (ex_detail ex)))"
        "entry_target_id entry = subject_id (head_key (det_head (ex_detail ex)))"
        "\<exists>fields. entry_related entry = JObject fields \<and>
           (''attempt_id'', JString (attempt_id_str (sea_attempt_id attempt))) \<in> set fields"
      and running: "head_execution_state (det_head (ex_detail ex)) = Running"
    using assms unfolding append_poll_supersede_audit_def Let_def
    by (clarsimp simp: and_then_Inr_iff split: if_split_asm)
  obtain e where "db_logs db' = db_logs db @ [e]" "log_action e = entry_action entry"
      "log_account_key e = entry_account_key entry" "log_target_id e = Some (entry_target_id entry)"
      "log_related e = entry_related entry"
    using append_audit_Inr(2) [OF run] by blast
  moreover from this entry have
      "superseded_entry (head_key (det_head (ex_detail ex))) (attempt_id_str (sea_attempt_id attempt)) e"
    by (auto simp: superseded_entry_def)
  ultimately show ?thesis
    using that append_audit_Inr(1) [OF run] append_audit_meta [OF run] running by blast
qed

lemma running_attempt_Inr:
  "running_attempt ex = Inr x \<longleftrightarrow>
     (head_execution_state (det_head (ex_detail ex)) = Idle \<and> x = None) \<or>
     (head_execution_state (det_head (ex_detail ex)) = Running \<and>
      (\<exists>op a l. ex_claimed_operation ex = Some op \<and> ex_attempt_id ex = Some a \<and>
         ex_lease_until ex = Some l \<and>
         x = Some \<lparr>sea_operation = op, sea_attempt_id = a, sea_lease_until = l\<rparr>))"
  by (auto simp: running_attempt_def and_then_Inr_iff split: execution_state.split option.splits)

lemma increment_revision_Inr:
  "increment_revision rv = Inr rv' \<Longrightarrow> uint (revision_value rv') = uint (revision_value rv) + 1"
  by (auto simp: increment_revision_def uint_word_succ i64_max_def split: if_split_asm)

lemma existing_key:
  "find_row db key = Some r \<Longrightarrow> detail_columns r d \<Longrightarrow> head_key (det_head d) = key"
  by (drule find_row_Some)
    (auto simp: detail_columns_def summary_columns_def head_columns_def row_key_def
      intro: subscription_key.equality)

lemma seen_set_key [simp]: "row_key (seen_set h plan prj rec r) = row_key r"
  by (simp add: row_key_def seen_set_def)

text \<open>The row a refresh writes is a merge of the row it read.\<close>

lemma seen_set_merged:
  assumes cols: "detail_columns r (ex_detail ex)" "attempt_columns r ex"
    and ok: "row_ok r"
    and plan: "plan = seen_plan_of ex ob p observed_at"
    and rv: "uint (revision_value (head_revision h))
      = uint (revision_value (head_revision (det_head (ex_detail ex)))) + 1"
    and audited: "\<And>a. kind_changes ex ob \<Longrightarrow> ex_attempt_id ex = Some a \<Longrightarrow>
      \<exists>e \<in> set es. superseded_entry key (attempt_id_str a) e"
  shows "merged_row key es r (seen_set h plan prj rec r)"
proof -
  let ?d = "det_head (ex_detail ex)"
  have head: "head_columns r ?d" using cols(1) by (rule detail_columns_head)
  have "later_row r (seen_set h plan prj rec r)"
    using head rv by (simp add: later_row_def seen_set_def head_columns_def)
  moreover have "attempt_accounted key es r (seen_set h plan prj rec r)"
  proof (cases "kind_changes ex ob")
    case True
    then show ?thesis
      using cols(2) audited
      by (auto simp: attempt_accounted_def attempt_columns_def seen_set_def plan seen_plan_of_def
          Let_def split: option.split)
  next
    case False
    show ?thesis
    proof (cases "head_active ?d")
      case True
      with False show ?thesis
        using cols(2) head
        by (auto simp: attempt_accounted_def attempt_columns_def seen_set_def plan seen_plan_of_def
            Let_def head_columns_def split: option.split)
    next
      case inactive: False
      with head have "col_active r = 0" by (simp add: head_columns_def)
      with ok have "col_attempt_id r = None" by (auto simp: row_ok_def table_checks_def)
      with False inactive show ?thesis
        by (simp add: attempt_accounted_def seen_set_def plan seen_plan_of_def Let_def)
    qed
  qed
  moreover have "schedule_columns (seen_set h plan prj rec r) = schedule_columns r"
    if "col_active r = 1" "col_media_kind (seen_set h plan prj rec r) = col_media_kind r"
  proof -
    have "head_active ?d" using head that(1) by (simp add: head_columns_def)
    moreover have "plan_media_kind plan = merged_media_kind (head_media_kind ?d) (snap_media_kind ob)"
      by (simp add: plan seen_plan_of_def Let_def)
    with that(2) head have "\<not> kind_changes ex ob"
      by (simp add: kind_changes_def seen_set_def head_columns_def)
    ultimately show ?thesis
      using cols(2) head
      by (simp add: schedule_columns_def seen_set_def plan seen_plan_of_def Let_def
          attempt_columns_def head_columns_def)
  qed
  moreover have "col_media_kind (seen_set h plan prj rec r) = col_media_kind r
      \<or> col_media_kind (seen_set h plan prj rec r) = ''tv''"
    using head
    by (cases "head_media_kind ?d"; cases "snap_media_kind ob")
      (simp_all add: seen_set_def plan seen_plan_of_def Let_def head_columns_def merged_media_kind_def)
  ultimately show ?thesis
    by (simp add: merged_row_def seen_set_def)
qed

text \<open>A row the snapshot has been seen on.\<close>

definition seen_row :: "snapshot_id \<Rightarrow> wanted_row \<Rightarrow> bool" where
  "seen_row snapshot r \<longleftrightarrow>
     col_active r = 1 \<and> col_last_seen_snapshot_id r = Some (snapshot_id_str snapshot)"

text \<open>What the merge of one record does: its own row is merged and seen, the others stay.\<close>

definition record_merged ::
  "snapshot_id \<Rightarrow> subscription_key \<Rightarrow> database \<Rightarrow> database \<Rightarrow> bool" where
  "record_merged snapshot key db db' \<longleftrightarrow>
     merge_progress db db' \<and>
     (\<exists>r'. find_row db' key = Some r' \<and> seen_row snapshot r') \<and>
     (\<forall>j. j \<noteq> key \<longrightarrow> find_row db' j = find_row db j)"

lemma one_row_progress:
  assumes "db_ok db'" and "db_meta db' = db_meta db" and "db_logs db' = db_logs db @ es"
    and "find_row db key = Some r" and "find_row db' key = Some r'" and "merged_row key es r r'"
    and "\<forall>j. j \<noteq> key \<longrightarrow> find_row db' j = find_row db j"
  shows "merge_progress db db'"
  unfolding merge_progress_def
proof (intro conjI exI [of _ es] allI impI)
  fix j x assume x: "find_row db j = Some x"
  show "\<exists>r'. find_row db' j = Some r' \<and> merged_row j es x r'"
    using assms x by (cases "j = key") auto
next
  fix j x assume "find_row db j = None" "find_row db' j = Some x"
  with assms show "col_attempt_id x = None" by (cases "j = key") auto
qed (use assms in auto)

text \<open>The decisions of a refresh that writes.\<close>

lemma seen_update_steps:
  assumes run: "update_existing_seen env n account fence observed_at ob ex db = Inr (True, db')"
  shows "\<exists>p plan prj rv ua attempt db1. 
        (if kind_changes ex ob then running_attempt ex else Inr None) = Inr attempt \<and>
        plan = seen_plan_of ex ob p observed_at \<and>
        increment_revision (head_revision (det_head (ex_detail ex))) = Inr rv \<and>
        keyed_update \<lparr>account_key = account, subject_id = snap_subject_id ob\<rparr>
               (\<lambda>r. col_revision r = uint (revision_value (head_revision (det_head (ex_detail ex)))))
               (seen_set (seen_head ex (poll_snapshot_id (fence_token fence)) plan rv ua) plan prj (encode_payload env p)) db
             = Inr (Suc 0, db1) \<and>
        (case attempt of None \<Rightarrow> db' = db1
           | Some a \<Rightarrow> \<exists>after. append_poll_supersede_audit env ex a fence MediaKindChanged after db1 = Inr db')"
proof -
  let ?snap = "poll_snapshot_id (fence_token fence)"
  let ?ua = "seen_updated_at (head_updated_at (det_head (ex_detail ex))) observed_at"
  show ?thesis
    using run unfolding update_existing_seen_def Let_def case_prod_beta
    apply (elim and_then_InrE)
    apply (simp only: sum.inject prod.inject simp_thms split: if_split_asm)
     apply (elim and_then_InrE)
     subgoal for x p _ prj _ rv _ _ _ w
       by (rule exI [of _ p], rule exI [of _ "seen_plan_of ex ob p observed_at"], rule exI [of _ prj],
           rule exI [of _ rv], rule exI [of _ ?ua], rule exI [of _ x], rule exI [of _ "snd w"])
         (cases w, auto simp: sql_execute_Inr require_single_write_def split: option.splits if_split_asm)
    apply (elim and_then_InrE)
    subgoal for x p _ prj _ rv _ _ _ w
      by (rule exI [of _ p], rule exI [of _ "seen_plan_of ex ob p observed_at"], rule exI [of _ prj],
          rule exI [of _ rv], rule exI [of _ ?ua], rule exI [of _ None], rule exI [of _ "snd w"])
        (cases w, auto simp: sql_execute_Inr require_single_write_def split: option.splits if_split_asm)
    done
qed
lemma update_existing_seen_Inr:
  assumes ok: "db_ok db"
    and row: "find_row db \<lparr>account_key = account, subject_id = snap_subject_id ob\<rparr> = Some r"
    and ex: "try_into_existing (env_sha env) r = Inr ex"
    and run: "update_existing_seen env n account fence observed_at ob ex db = Inr (changed, db')"
  shows "record_merged (poll_snapshot_id (fence_token fence))
           \<lparr>account_key = account, subject_id = snap_subject_id ob\<rparr> db db'"
proof -
  let ?key = "\<lparr>account_key = account, subject_id = snap_subject_id ob\<rparr>"
  let ?snap = "poll_snapshot_id (fence_token fence)"
  let ?h = "det_head (ex_detail ex)"
  have rok: "row_ok r" by (rule rows.lookup_valid [OF ok row])
  note cols = try_into_existing_Inr [OF rok ex]
  have head: "head_columns r ?h" using cols(1) by (rule detail_columns_head)
  have key: "head_key ?h = ?key" by (rule existing_key [OF row cols(1)])
  show ?thesis
  proof (cases changed)
    case False
    with run have "db' = db" and "head_active ?h" "head_last_seen_snapshot_id ?h = Some ?snap"
      unfolding update_existing_seen_def Let_def seen_changed_def
      by (auto simp: and_then_Inr_iff split: if_split_asm option.splits)
    with row head merge_progress_refl [OF ok] show ?thesis
      by (auto simp: record_merged_def seen_row_def head_columns_def)
  next
    case True
    obtain p plan prj rv ua attempt db1 where
        attempt: "(if kind_changes ex ob then running_attempt ex else Inr None) = Inr attempt"
        and plan: "plan = seen_plan_of ex ob p observed_at"
        and rv: "increment_revision (head_revision ?h) = Inr rv"
        and upd: "keyed_update ?key
               (\<lambda>r. col_revision r = uint (revision_value (head_revision ?h)))
               (seen_set (seen_head ex ?snap plan rv ua) plan prj (encode_payload env p)) db
             = Inr (Suc 0, db1)"
        and audit: "(case attempt of None \<Rightarrow> db' = db1
           | Some a \<Rightarrow> \<exists>after. append_poll_supersede_audit env ex a fence MediaKindChanged after db1 = Inr db')"
      using seen_update_steps [OF run [unfolded eqTrueI [OF True]]] by (elim exE conjE) (rule that)
    let ?f = "seen_set (seen_head ex ?snap plan rv ua) plan prj (encode_payload env p)"
    obtain r0 where "find_row db ?key = Some r0" and r': "find_row db1 ?key = Some (?f r0)"
        and ok1: "db_ok db1" and others: "\<forall>j. j \<noteq> ?key \<longrightarrow> find_row db1 j = find_row db j"
        and logs: "db_logs db1 = db_logs db"
      using guarded_update [OF ok seen_set_key upd] by blast
    with row have r': "find_row db1 ?key = Some (?f r)" by simp
    have meta: "db_meta db1 = db_meta db"
      using keyed_update_Inr(1) [OF upd] by simp
    obtain es where es: "db_rows db' = db_rows db1" "db_meta db' = db_meta db1"
        "db_logs db' = db_logs db1 @ es"
        "\<And>a. kind_changes ex ob \<Longrightarrow> ex_attempt_id ex = Some a \<Longrightarrow>
           \<exists>e \<in> set es. superseded_entry ?key (attempt_id_str a) e"
    proof (cases attempt)
      case None
      have "ex_attempt_id ex = None" if "kind_changes ex ob"
        using attempt that None cols(4) by (auto simp: running_attempt_Inr)
      with that [of "[]"] audit None show ?thesis by auto
    next
      case (Some a)
      then obtain after where "append_poll_supersede_audit env ex a fence MediaKindChanged after db1 = Inr db'"
        using audit by auto
      from supersede_audit_Inr [OF this] obtain e where e: "db_rows db' = db_rows db1"
          "db_meta db' = db_meta db1" "db_logs db' = db_logs db1 @ [e]"
          "superseded_entry (head_key ?h) (attempt_id_str (sea_attempt_id a)) e" by metis
      have "ex_attempt_id ex = Some (sea_attempt_id a)"
        using attempt Some by (auto simp: running_attempt_Inr split: if_split_asm)
      with that [of "[e]"] e key show ?thesis by auto
    qed
    have merged: "merged_row ?key es r (?f r)"
      by (rule seen_set_merged [OF cols(1,2) rok plan])
        (use increment_revision_Inr [OF rv] es(4) in \<open>simp_all add: seen_head_def\<close>)
    have r'': "find_row db' ?key = Some (?f r)"
      and others': "\<forall>j. j \<noteq> ?key \<longrightarrow> find_row db' j = find_row db j"
      using r' others find_row_rows [OF es(1)] by simp_all
    have "merge_progress db db'"
      by (rule one_row_progress [OF _ _ _ row r'' merged others'])
        (use es ok1 meta logs db_ok_rows [OF es(1)] in simp_all)
    with r'' others' show ?thesis
      by (auto simp: record_merged_def seen_row_def seen_set_def seen_head_def)
  qed
qed

subsection \<open>One record, all records\<close>

lemma new_row_key:
  "row_key (new_row account snapshot at policy tags ob prj rec)
     = \<lparr>account_key = account, subject_id = snap_subject_id ob\<rparr>"
  by (simp add: row_key_def new_row_def)

lemma insert_new_seen_Inr:
  assumes ok: "db_ok db"
    and run: "insert_new_seen env n account snapshot observed_at at mode policy ob db = Inr db'"
  shows "record_merged snapshot \<lparr>account_key = account, subject_id = snap_subject_id ob\<rparr> db db'"
    and "find_row db \<lparr>account_key = account, subject_id = snap_subject_id ob\<rparr> = None"
proof -
  let ?key = "\<lparr>account_key = account, subject_id = snap_subject_id ob\<rparr>"
  obtain tags prj rec k where
      "row_insert (new_row account snapshot at policy tags ob prj rec) db = Inr (k, db')"
    using run unfolding insert_new_seen_def Let_def
    by (clarsimp simp: sql_execute_Inr simp del: projection_from_source_Inr split: prod.splits)
  note ins = row_insert_Inr [OF ok this, unfolded new_row_key]
  show none: "find_row db ?key = None" by (rule ins(4))
  have seen: "seen_row snapshot (new_row account snapshot at policy tags ob prj rec)"
    by (simp add: seen_row_def new_row_def)
  have "find_row db' j = find_row db j" if "j \<noteq> ?key" for j
    using ins(6) [of j] that by simp
  moreover have new: "find_row db' ?key = Some (new_row account snapshot at policy tags ob prj rec)"
    using ins(6) [of ?key] by simp
  moreover have "merge_progress db db'"
    unfolding merge_progress_def
  proof (intro conjI exI [of _ "[]"] allI impI)
    fix j r assume r: "find_row db j = Some r"
    with none have "j \<noteq> ?key" by auto
    with r show "\<exists>r'. find_row db' j = Some r' \<and> merged_row j [] r r'"
      using ins(6) [of j] by auto
  next
    fix j r assume "find_row db j = None" "find_row db' j = Some r"
    then show "col_attempt_id r = None"
      using ins(6) [of j] by (auto simp: new_row_def split: if_split_asm)
  qed (use ins(1,5) in auto)
  ultimately show "record_merged snapshot ?key db db'"
    using seen by (auto simp: record_merged_def)
qed

definition record_key :: "seen_context \<Rightarrow> snapshot_record \<Rightarrow> subscription_key" where
  "record_key cx ob = \<lparr>account_key = seen_account cx, subject_id = snap_subject_id ob\<rparr>"

definition context_snapshot :: "seen_context \<Rightarrow> snapshot_id" where
  "context_snapshot cx = poll_snapshot_id (fence_token (seen_fence cx))"

lemma apply_seen_record_Inr:
  assumes ok: "db_ok db" and run: "apply_seen_record env n cx ob (eff, db) = Inr (eff', db')"
  shows "record_merged (context_snapshot cx) (record_key cx ob) db db'"
    and "eff_inserted eff' + eff_updated eff' + eff_unchanged eff'
      = Suc (eff_inserted eff + eff_updated eff + eff_unchanged eff)"
proof -
  let ?key = "record_key cx ob"
  have "record_merged (context_snapshot cx) ?key db db' \<and>
    eff_inserted eff' + eff_updated eff' + eff_unchanged eff'
      = Suc (eff_inserted eff + eff_updated eff + eff_unchanged eff)"
  proof (cases "find_row db ?key")
    case None
    with run obtain u where "insert_new_seen env n (seen_account cx) (context_snapshot cx)
        (seen_observed_at cx) (seen_observed_sql cx) (\<not> seen_bootstrap_completed cx) (seen_policy cx)
        ob db = Inr db'" "eff' = eff\<lparr>eff_inserted := eff_inserted eff + 1\<rparr>"
      by (auto simp: apply_seen_record_def read_existing_def record_key_def context_snapshot_def
          and_then_Inr_iff)
    with insert_new_seen_Inr(1) [OF ok] show ?thesis
      by (simp add: record_key_def)
  next
    case (Some r)
    with run obtain ex changed where ex: "try_into_existing (env_sha env) r = Inr ex"
        and upd: "update_existing_seen env n (seen_account cx) (seen_fence cx) (seen_observed_at cx)
          ob ex db = Inr (changed, db')"
        and eff: "eff' = (if changed
               then eff\<lparr>eff_updated := eff_updated eff + 1,
                      eff_reactivated := eff_reactivated eff
                        + of_bool (\<not> head_active (det_head (ex_detail ex)))\<rparr>
               else eff\<lparr>eff_unchanged := eff_unchanged eff + 1\<rparr>)"
      by (auto simp: apply_seen_record_def read_existing_def record_key_def and_then_Inr_iff
          traverse_opt_Inr_iff split: option.splits)
    show ?thesis
      using update_existing_seen_Inr [OF ok Some [unfolded record_key_def] ex upd] eff
      by (simp add: record_key_def context_snapshot_def)
  qed
  then show "record_merged (context_snapshot cx) ?key db db'"
    and "eff_inserted eff' + eff_updated eff' + eff_unchanged eff'
      = Suc (eff_inserted eff + eff_updated eff + eff_unchanged eff)" by simp_all
qed

text \<open>The merge of a whole snapshot.\<close>

definition snapshot_merged ::
  "seen_context \<Rightarrow> snapshot_record list \<Rightarrow> database \<Rightarrow> database \<Rightarrow> bool" where
  "snapshot_merged cx obs db db' \<longleftrightarrow>
     merge_progress db db' \<and>
     (\<forall>ob \<in> set obs. \<exists>r'. find_row db' (record_key cx ob) = Some r' \<and>
        seen_row (context_snapshot cx) r') \<and>
     (\<forall>j. j \<notin> record_key cx ` set obs \<longrightarrow> find_row db' j = find_row db j)"

lemma apply_seen_records_Inr:
  "db_ok db \<Longrightarrow> apply_seen_records env n cx obs (eff, db) = Inr (eff', db') \<Longrightarrow>
     snapshot_merged cx obs db db' \<and>
     eff_inserted eff' + eff_updated eff' + eff_unchanged eff'
       = eff_inserted eff + eff_updated eff + eff_unchanged eff + length obs"
proof (induction obs arbitrary: n eff db)
  case Nil
  then show ?case by (simp add: snapshot_merged_def merge_progress_refl)
next
  case (Cons ob obs)
  from Cons.prems(2) obtain eff1 db1 where 1: "apply_seen_record env n cx ob (eff, db) = Inr (eff1, db1)"
      and 2: "apply_seen_records env (Suc n) cx obs (eff1, db1) = Inr (eff', db')"
    by (auto simp: and_then_Inr_iff)
  note step = apply_seen_record_Inr [OF Cons.prems(1) 1]
  then have "db_ok db1" by (simp add: record_merged_def merge_progress_def)
  note rest = Cons.IH [OF this 2]
  have "\<exists>r'. find_row db' (record_key cx ob) = Some r' \<and> seen_row (context_snapshot cx) r'"
  proof (cases "record_key cx ob \<in> record_key cx ` set obs")
    case True
    then obtain ob' where "ob' \<in> set obs" "record_key cx ob' = record_key cx ob" by (metis imageE)
    then show ?thesis using rest by (auto simp: snapshot_merged_def)
  next
    case False
    then show ?thesis using step rest by (auto simp: snapshot_merged_def record_merged_def)
  qed
  then show ?case
    using step rest merge_progress_trans [of db db1 db']
    by (auto simp: snapshot_merged_def record_merged_def)
qed

subsection \<open>The account row\<close>

definition metas_ok :: "database \<Rightarrow> bool" where
  "metas_ok db \<longleftrightarrow>
     (\<forall>m \<in> set (db_meta db). meta_ok m) \<and> distinct (map meta_account_key (db_meta db))"

lemma find_meta_Some: "find_meta db a = Some m \<Longrightarrow> m \<in> set (db_meta db) \<and> meta_account_key m = a"
  by (auto simp: find_meta_def find_Some_iff)

lemma meta_update_Inr:
  assumes "meta_update a p f db = Inr (n, db')"
  shows "db' = db\<lparr>db_meta := map (\<lambda>m. if meta_account_key m = a \<and> p m then f m else m) (db_meta db)\<rparr>"
    and "n = length (filter (\<lambda>m. meta_account_key m = a \<and> p m) (db_meta db))"
    and "\<forall>m \<in> set (db_meta db). meta_account_key m = a \<and> p m \<longrightarrow> meta_ok (f m)"
  using assms by (auto simp: meta_update_def Let_def list_ex_iff split: if_split_asm)

lemma find_map_meta:
  "(\<And>m. meta_account_key (g m) = meta_account_key m) \<Longrightarrow>
     find (\<lambda>m. meta_account_key m = a) (map g ms) = map_option g (find (\<lambda>m. meta_account_key m = a) ms)"
  by (induction ms) auto

lemma find_meta_update:
  assumes "\<And>m. meta_account_key (f m) = meta_account_key m" and "meta_update a p f db = Inr (n, db')"
  shows "find_meta db' b
    = map_option (\<lambda>m. if meta_account_key m = a \<and> p m then f m else m) (find_meta db b)"
  using meta_update_Inr(1) [OF assms(2)] assms(1) by (simp add: find_meta_def find_map_meta)

lemma length_filter_account:
  "distinct (map meta_account_key ms) \<Longrightarrow> m \<in> set ms \<Longrightarrow>
     length (filter (\<lambda>x. meta_account_key x = meta_account_key m \<and> p x) ms) = of_bool (p m)"
proof (induction ms)
  case (Cons x xs)
  show ?case
  proof (cases "x = m")
    case True
    have "filter (\<lambda>y. meta_account_key y = meta_account_key m \<and> p y) xs = []"
      using Cons.prems True by (auto simp: filter_empty_conv) (metis imageI)
    with True show ?thesis by simp
  next
    case False
    with Cons show ?thesis by auto
  qed
qed simp

text \<open>The account table is the same interface as the subscription table.\<close>

interpretation metas: keyed_table find_meta meta_update meta_account_key metas_ok meta_ok
proof unfold_locales
  fix db a p f n db' m
  show "find_meta db a = Some m \<Longrightarrow> meta_account_key m = a"
    by (simp add: find_meta_Some)
  show "metas_ok db \<Longrightarrow> find_meta db a = Some m \<Longrightarrow> meta_ok m"
    by (drule find_meta_Some) (simp add: metas_ok_def)
  show "meta_update a p f db = Inr (n, db') \<Longrightarrow> find_meta db a = None \<Longrightarrow> n = 0"
    by (drule meta_update_Inr(2)) (auto simp: find_meta_def find_None_iff filter_empty_conv)
next
  fix db a p f n db'
  assume ok: "metas_ok db" and key: "\<And>m. meta_account_key (f m) = meta_account_key m"
    and upd: "meta_update a p f db = Inr (n, db')"
  have "map meta_account_key (map (\<lambda>m. if meta_account_key m = a \<and> p m then f m else m) ms)
    = map meta_account_key ms" for ms
    using key by (induction ms) simp_all
  with ok meta_update_Inr(1,3) [OF upd] show "metas_ok db'"
    by (auto simp: metas_ok_def simp del: map_map)
next
  fix db a p f n db' m
  assume ok: "metas_ok db" and key: "\<And>m. meta_account_key (f m) = meta_account_key m"
    and upd: "meta_update a p f db = Inr (n, db')" and m: "find_meta db a = Some m"
  then show "n = of_bool (p m) \<and> find_meta db' a = Some (if p m then f m else m)"
    using find_meta_Some [OF m] meta_update_Inr(2) [OF upd] find_meta_update [OF key upd, of a]
      length_filter_account [of "db_meta db" m p]
    by (auto simp: metas_ok_def)
next
  fix f a p db n db' b
  assume key: "\<And>m. meta_account_key (f m) = meta_account_key m"
    and upd: "meta_update a p f db = Inr (n, db')" and b: "b \<noteq> a"
  then show "find_meta db' b = find_meta db b"
    using find_meta_update [OF key upd, of b] find_meta_Some [of db b]
    by (cases "find_meta db b") auto
qed

end
