(* ===== verification/Poll_Consumption.thy ===== *)
theory Poll_Consumption
  imports Poll_Facts
begin

text \<open>
  The life of a poll token. \<open>begin_poll\<close> opens a token of a new generation; the three
  transactions that end a poll need exactly that token and consume it, which the locale
  \<open>poll_terminal\<close> states once for all of them. Along every history of polls a consumed
  token never works again.
\<close>

subsection \<open>Open and spent tokens\<close>

definition poll_open :: "database \<Rightarrow> string \<Rightarrow> poll_attempt_token \<Rightarrow> bool" where
  "poll_open db account token \<longleftrightarrow>
     (\<exists>m. find_meta db account = Some m \<and> meta_current_token m = Inr (Some token))"

text \<open>The generation is over, or left behind.\<close>

definition poll_spent :: "database \<Rightarrow> string \<Rightarrow> int \<Rightarrow> bool" where
  "poll_spent db account g \<longleftrightarrow>
     (\<exists>m. find_meta db account = Some m \<and> g \<le> meta_poll_generation m \<and>
        (meta_poll_generation m = g \<longrightarrow> meta_open_poll_generation m = None))"

definition token_generation :: "poll_attempt_token \<Rightarrow> int" where
  "token_generation token = uint (generation_value (poll_generation token))"

lemma current_token_columns:
  assumes ok: "meta_ok m" and "meta_current_token m = Inr (Some token)"
  shows "meta_poll_generation m = token_generation token"
    and "meta_open_poll_generation m = Some (token_generation token)"
    and "meta_open_snapshot_id m = Some (snapshot_id_str (poll_snapshot_id token))"
proof -
  have g: "meta_poll_generation m \<le> i64_max"
    using ok by (simp add: meta_ok_def meta_integers_def)
  have o: "v = meta_poll_generation m" if "meta_open_poll_generation m = Some v" for v
    using ok that by (simp add: meta_ok_def)
  show "meta_poll_generation m = token_generation token"
    and "meta_open_poll_generation m = Some (token_generation token)"
    and "meta_open_snapshot_id m = Some (snapshot_id_str (poll_snapshot_id token))"
    using assms(2) o g
    by (auto simp: meta_current_token_def token_generation_def and_then_Inr_iff
        checked_u64_Inr [OF g] split: option.splits if_split_asm)
qed

lemma open_not_spent:
  assumes "metas_ok db" and "poll_open db account token"
  shows "\<not> poll_spent db account (token_generation token)"
proof -
  obtain m where m: "find_meta db account = Some m" "meta_current_token m = Inr (Some token)"
    using assms(2) by (auto simp: poll_open_def)
  with current_token_columns [OF metas.lookup_valid [OF assms(1) m(1)] m(2)] show ?thesis
    by (simp add: poll_spent_def)
qed

lemma require_current_open:
  "require_current_poll env db account token = Inr t \<Longrightarrow> poll_open db account token"
  by (auto simp: require_current_poll_def poll_open_def and_then_Inr_iff
      split: option.splits if_split_asm)

subsection \<open>Ending a poll\<close>

definition poll_ended :: "string \<Rightarrow> poll_attempt_token \<Rightarrow> database \<Rightarrow> database \<Rightarrow> bool" where
  "poll_ended account token db db' \<longleftrightarrow>
     poll_open db account token \<and> db_ok db' \<and> metas_ok db' \<and>
     (\<exists>m. find_meta db' account = Some m \<and> meta_poll_generation m = token_generation token \<and>
        meta_open_poll_generation m = None \<and> meta_open_snapshot_id m = None) \<and>
     (\<forall>a. a \<noteq> account \<longrightarrow> find_meta db' a = find_meta db a)"

lemma poll_ended_spent: "poll_ended account token db db' \<Longrightarrow> poll_spent db' account (token_generation token)"
  by (auto simp: poll_ended_def poll_spent_def)

lemma close_poll_columns [simp]:
  "meta_account_key (close_poll t m) = meta_account_key m"
  "meta_poll_generation (close_poll t m) = meta_poll_generation m"
  "meta_open_poll_generation (close_poll t m) = None"
  "meta_open_snapshot_id (close_poll t m) = None"
  by (simp_all add: close_poll_def)

definition closing :: "(meta_row \<Rightarrow> meta_row) \<Rightarrow> bool" where
  "closing f \<longleftrightarrow> (\<forall>m. meta_account_key (f m) = meta_account_key m \<and>
     meta_poll_generation (f m) = meta_poll_generation m \<and>
     meta_open_poll_generation (f m) = None \<and> meta_open_snapshot_id (f m) = None)"

lemma closing_sets:
  "closing (failure_set t k next text)" "closing (incomplete_set t k next c)"
  "closing (complete_set t next snapshot)"
  by (simp_all add: closing_def failure_set_def incomplete_set_def complete_set_def)

text \<open>The last statement of every ending, on a database that still has the token's account row.\<close>

lemma consumed_poll_ended:
  assumes opened: "poll_open db account token" and metas: "metas_ok db" and ok: "db_ok db1"
    and meta: "db_meta db1 = db_meta db" and f: "closing f"
    and upd: "meta_update account (token_matches token) f db1 = Inr (Suc 0, db')"
  shows "poll_ended account token db db'"
proof -
  obtain m where m: "find_meta db account = Some m" "meta_current_token m = Inr (Some token)"
    using opened by (auto simp: poll_open_def)
  note cols = current_token_columns [OF metas.lookup_valid [OF metas m(1)] m(2)]
  have key: "\<And>m. meta_account_key (f m) = meta_account_key m" using f by (simp add: closing_def)
  have metas1: "metas_ok db1" using metas meta by (simp add: metas_ok_def)
  have m1: "find_meta db1 a = find_meta db a" for a using meta by (simp add: find_meta_def)
  have hit: "token_matches token m"
    using cols by (simp add: token_matches_def token_generation_def)
  have "find_meta db' account = Some (f m)"
    using metas.update_hit [OF metas1 key upd, of m] m m1 hit by simp
  moreover have "db_ok db'"
    using ok meta_update_Inr(1) [OF upd] by (simp add: db_ok_def)
  ultimately show ?thesis
    using opened metas.update_ok [OF metas1 key upd] metas.update_other [OF key upd] m1 f
      cols(1)
    by (auto simp: poll_ended_def closing_def)
qed

lemma require_consumed_Inr: "require_consumed env db k account token = Inr () \<longleftrightarrow> k = 1"
  by (auto simp: require_consumed_def and_then_Inr_iff split: if_split_asm)

text \<open>The failure and the two snapshots.\<close>

lemma record_poll_failure_Inr:
  assumes "db_ok db" and "metas_ok db" and run: "record_poll_failure env c db = (Inr x, db')"
  shows "poll_ended (rpf_account_key c) (rpf_token c) db db'" and "db_rows db' = db_rows db"
    and "db_logs db' = db_logs db"
proof -
  obtain t at next_sql where t: "require_current_poll env db (rpf_account_key c) (rpf_token c) = Inr t"
    and upd: "meta_update (rpf_account_key c) (token_matches (rpf_token c))
      (failure_set at (uint (saturating_add (tm_failure_count t) 1)) next_sql (rpf_message c)) db
      = Inr (Suc 0, db')"
    using run unfolding record_poll_failure_def run_transaction_Inr record_poll_failure_body_def Let_def
    by (clarsimp simp: sql_execute_Inr require_consumed_Inr split: prod.splits)
  from consumed_poll_ended [OF require_current_open [OF t] assms(2,1) refl closing_sets(1) upd]
  show "poll_ended (rpf_account_key c) (rpf_token c) db db'" .
  show "db_rows db' = db_rows db" "db_logs db' = db_logs db"
    using meta_update_Inr(1) [OF upd] by simp_all
qed

text \<open>The contexts in which the two snapshots merge their records.\<close>

definition incomplete_context :: "record_incomplete_snapshot_command \<Rightarrow> terminal_meta \<Rightarrow> seen_context" where
  "incomplete_context c t =
     \<lparr>seen_account = ris_account_key c,
      seen_fence = \<lparr>fence_token = ris_token c, fence_snapshot_kind = IncompleteSnapshot,
        fence_fenced_at = ris_incomplete_at c\<rparr>,
      seen_observed_at = ris_incomplete_at c, seen_observed_sql = uint (ris_incomplete_at c),
      seen_bootstrap_completed = tm_bootstrap_completed t,
      seen_policy = ris_new_record_policy c\<rparr>"

definition complete_context :: "apply_complete_snapshot_command \<Rightarrow> terminal_meta \<Rightarrow> seen_context" where
  "complete_context c t =
     \<lparr>seen_account = acs_account_key c,
      seen_fence = \<lparr>fence_token = acs_token c, fence_snapshot_kind = CompleteSnapshot,
        fence_fenced_at = acs_completed_at c\<rparr>,
      seen_observed_at = acs_completed_at c, seen_observed_sql = uint (acs_completed_at c),
      seen_bootstrap_completed = tm_bootstrap_completed t,
      seen_policy = acs_new_record_policy c\<rparr>"

lemma context_fields [simp]:
  "seen_account (incomplete_context c t) = ris_account_key c"
  "context_snapshot (incomplete_context c t) = poll_snapshot_id (ris_token c)"
  "seen_account (complete_context d t) = acs_account_key d"
  "context_snapshot (complete_context d t) = poll_snapshot_id (acs_token d)"
  by (simp_all add: incomplete_context_def complete_context_def context_snapshot_def)

lemma record_incomplete_Inr:
  assumes ok: "db_ok db" and metas: "metas_ok db"
    and run: "record_incomplete_snapshot env c db = (Inr x, db')"
  obtains cx db1 where "poll_ended (ris_account_key c) (ris_token c) db db'"
    and "seen_account cx = ris_account_key c"
    and "context_snapshot cx = poll_snapshot_id (ris_token c)"
    and "snapshot_merged cx (ris_records c) db db1" and "db_rows db' = db_rows db1"
    and "db_logs db' = db_logs db1"
    and "risr_inserted x + risr_updated x + risr_unchanged x = length (ris_records c)"
proof -
  obtain t at k next_sql eff db1 where
      t: "require_current_poll env db (ris_account_key c) (ris_token c) = Inr t"
    and seen: "apply_seen_records env 0 (incomplete_context c t) (ris_records c) (no_effects, db) = Inr (eff, db1)"
    and upd: "meta_update (ris_account_key c) (token_matches (ris_token c))
      (incomplete_set at k next_sql c) db1 = Inr (Suc 0, db')"
    and x: "risr_inserted x = eff_inserted eff" "risr_updated x = eff_updated eff"
      "risr_unchanged x = eff_unchanged eff"
    using run unfolding record_incomplete_snapshot_def run_transaction_Inr record_incomplete_body_def
      Let_def
    by (clarsimp simp: sql_execute_Inr require_consumed_Inr incomplete_context_def split: prod.splits)
  note merged = apply_seen_records_Inr [OF ok seen]
  then have "db_ok db1" "db_meta db1 = db_meta db"
    by (simp_all add: snapshot_merged_def merge_progress_def)
  from consumed_poll_ended [OF require_current_open [OF t] metas this closing_sets(2) upd]
  show ?thesis
    using that [of "incomplete_context c t" db1] x merged meta_update_Inr(1) [OF upd] by (simp add: no_effects_def)
qed

subsection \<open>Deactivation\<close>

lemma deactivate_key [simp]: "row_key (deactivate_set at r) = row_key r"
  by (simp add: row_key_def deactivate_set_def)

lemma check_all_missing_Inr:
  "check_all_missing env at rs = Inr exs \<Longrightarrow>
     list_all2 (\<lambda>r ex. try_into_existing (env_sha env) r = Inr ex) rs exs"
proof (induction rs arbitrary: exs)
  case (Cons r rs)
  then show ?case
    by (auto simp: and_then_Inr_iff check_missing_def split: if_split_asm)
qed simp

lemma supersede_missing_Inr:
  assumes "supersede_missing env fence ex db = Inr db'"
  shows "\<exists>es. db_rows db' = db_rows db \<and> db_meta db' = db_meta db \<and> db_logs db' = db_logs db @ es \<and>
    (head_execution_state (det_head (ex_detail ex)) = Running \<longrightarrow>
       (\<exists>a. ex_attempt_id ex = Some a \<and>
          (\<exists>e \<in> set es. superseded_entry (head_key (det_head (ex_detail ex))) (attempt_id_str a) e)))"
proof -
  from assms obtain attempt where attempt: "running_attempt ex = Inr attempt"
      and rest: "case attempt of None \<Rightarrow> db' = db
        | Some a \<Rightarrow> \<exists>after. append_poll_supersede_audit env ex a fence MissingFromCompleteSnapshot after db
            = Inr db'"
    unfolding supersede_missing_def Let_def
    by (cases "running_attempt ex") (auto simp: and_then_Inr_iff split: option.splits)
  show ?thesis
  proof (cases attempt)
    case None
    with attempt rest show ?thesis by (intro exI [of _ "[]"]) (auto simp: running_attempt_Inr)
  next
    case (Some a)
    then obtain after where
      "append_poll_supersede_audit env ex a fence MissingFromCompleteSnapshot after db = Inr db'"
      using rest by auto
    from supersede_audit_Inr [OF this] obtain e where "db_rows db' = db_rows db"
        "db_meta db' = db_meta db" "db_logs db' = db_logs db @ [e]"
        "superseded_entry (head_key (det_head (ex_detail ex))) (attempt_id_str (sea_attempt_id a)) e"
      by metis
    with attempt Some show ?thesis by (intro exI [of _ "[e]"]) (auto simp: running_attempt_Inr)
  qed
qed

lemma supersede_all_missing_Inr:
  "supersede_all_missing env fence exs db = Inr db' \<Longrightarrow>
     \<exists>es. db_rows db' = db_rows db \<and> db_meta db' = db_meta db \<and> db_logs db' = db_logs db @ es \<and>
       (\<forall>ex \<in> set exs. head_execution_state (det_head (ex_detail ex)) = Running \<longrightarrow>
          (\<exists>a. ex_attempt_id ex = Some a \<and>
             (\<exists>e \<in> set es. superseded_entry (head_key (det_head (ex_detail ex))) (attempt_id_str a) e)))"
proof (induction exs arbitrary: db)
  case (Cons ex exs)
  from Cons.prems obtain db1 where 1: "supersede_missing env fence ex db = Inr db1"
      and 2: "supersede_all_missing env fence exs db1 = Inr db'"
    by (auto simp: and_then_Inr_iff)
  obtain es1 where es1: "db_rows db1 = db_rows db \<and> db_meta db1 = db_meta db \<and> db_logs db1 = db_logs db @ es1 \<and>
    (head_execution_state (det_head (ex_detail ex)) = Running \<longrightarrow>
       (\<exists>a. ex_attempt_id ex = Some a \<and>
          (\<exists>e \<in> set es1. superseded_entry (head_key (det_head (ex_detail ex))) (attempt_id_str a) e)))"
    using supersede_missing_Inr [OF 1] by blast
  obtain es2 where es2: "db_rows db' = db_rows db1 \<and> db_meta db' = db_meta db1 \<and> db_logs db' = db_logs db1 @ es2 \<and>
       (\<forall>ex \<in> set exs. head_execution_state (det_head (ex_detail ex)) = Running \<longrightarrow>
          (\<exists>a. ex_attempt_id ex = Some a \<and>
             (\<exists>e \<in> set es2. superseded_entry (head_key (det_head (ex_detail ex))) (attempt_id_str a) e)))"
    using Cons.IH [OF 2] by blast
  show ?case
    by (rule exI [of _ "es1 @ es2"]) (insert es1 es2, simp, blast)
qed (auto intro: exI [of _ "[]"])

subsection \<open>A complete snapshot\<close>

lemma list_all2_partner: "list_all2 P xs ys \<Longrightarrow> x \<in> set xs \<Longrightarrow> \<exists>y \<in> set ys. P x y"
  by (induction rule: list_all2_induct) auto

lemma missing_audits:
  assumes ok: "db_ok db" and checks: "list_all2 (\<lambda>r ex. try_into_existing sha r = Inr ex) rs exs"
    and rs: "set rs \<subseteq> set (db_rows db)" and r: "r \<in> set rs" and a: "col_attempt_id r = Some a"
    and audits: "\<forall>ex \<in> set exs. head_execution_state (det_head (ex_detail ex)) = Running \<longrightarrow>
      (\<exists>a. ex_attempt_id ex = Some a \<and>
         (\<exists>e \<in> set es. superseded_entry (head_key (det_head (ex_detail ex))) (attempt_id_str a) e))"
  shows "\<exists>e \<in> set es. superseded_entry (row_key r) a e"
proof -
  obtain ex where ex: "ex \<in> set exs" "try_into_existing sha r = Inr ex"
    using list_all2_partner [OF checks r] by blast
  have rok: "row_ok r" using ok rs r by (auto simp: db_ok_def)
  note cols = try_into_existing_Inr [OF rok ex(2)]
  have row: "find_row db (row_key r) = Some r"
    by (rule find_row_unique [OF ok]) (use rs r in auto)
  have "head_execution_state (det_head (ex_detail ex)) = Running"
    using cols(2,4) a by (cases "head_execution_state (det_head (ex_detail ex))")
      (auto simp: attempt_columns_def)
  with audits ex(1) obtain b e where "ex_attempt_id ex = Some b" "e \<in> set es"
      "superseded_entry (head_key (det_head (ex_detail ex))) (attempt_id_str b) e" by blast
  moreover have "attempt_id_str b = a"
    using cols(2) a calculation(1) by (simp add: attempt_columns_def)
  ultimately show ?thesis using existing_key [OF row cols(1)] by auto
qed

lemma apply_complete_Inr:
  assumes ok: "db_ok db" and metas: "metas_ok db"
    and run: "apply_complete_snapshot env c db = (Inr x, db')"
  obtains cx db1 at es where "poll_ended (acs_account_key c) (acs_token c) db db'"
    and "seen_account cx = acs_account_key c"
    and "context_snapshot cx = poll_snapshot_id (acs_token c)"
    and "snapshot_merged cx (acs_records c) db db1"
    and "\<And>j. find_row db' j = map_option (\<lambda>r.
           if missing_where (acs_account_key c) (poll_snapshot_id (acs_token c)) r
           then deactivate_set at r else r) (find_row db1 j)"
    and "db_logs db' = db_logs db1 @ es"
    and "\<And>r a. r \<in> set (db_rows db1) \<Longrightarrow>
           missing_where (acs_account_key c) (poll_snapshot_id (acs_token c)) r \<Longrightarrow>
           col_attempt_id r = Some a \<Longrightarrow> \<exists>e \<in> set es. superseded_entry (row_key r) a e"
    and "acsr_inserted x + acsr_updated x + acsr_unchanged x = length (acs_records c)"
proof -
  let ?missing = "missing_where (acs_account_key c) (poll_snapshot_id (acs_token c))"
  obtain t at next_sql eff db1 exs k db2 fence db3 where
      t: "require_current_poll env db (acs_account_key c) (acs_token c) = Inr t"
    and seen: "apply_seen_records env 0 (complete_context c t) (acs_records c) (no_effects, db) = Inr (eff, db1)"
    and missing: "load_missing_for_deactivation env db1 (acs_account_key c)
        (poll_snapshot_id (acs_token c)) (acs_completed_at c) = Inr exs"
    and deactivate: "update_where ?missing (deactivate_set at) db1 = Inr (k, db2)"
    and audits: "supersede_all_missing env fence exs db2 = Inr db3"
    and upd: "meta_update (acs_account_key c) (token_matches (acs_token c))
      (complete_set at next_sql (snapshot_id_str (poll_snapshot_id (acs_token c)))) db3
      = Inr (Suc 0, db')"
    and x: "acsr_inserted x = eff_inserted eff" "acsr_updated x = eff_updated eff"
      "acsr_unchanged x = eff_unchanged eff"
    using run unfolding apply_complete_snapshot_def run_transaction_Inr apply_complete_body_def Let_def
    by (clarsimp simp: sql_execute_Inr require_consumed_Inr complete_context_def
        split: prod.splits if_split_asm)
  note merged = apply_seen_records_Inr [OF ok seen]
  then have ok1: "db_ok db1" and meta1: "db_meta db1 = db_meta db"
    by (simp_all add: snapshot_merged_def merge_progress_def)
  obtain es where es: "db_rows db3 = db_rows db2" "db_meta db3 = db_meta db2"
      "db_logs db3 = db_logs db2 @ es"
      "\<forall>ex \<in> set exs. head_execution_state (det_head (ex_detail ex)) = Running \<longrightarrow>
          (\<exists>a. ex_attempt_id ex = Some a \<and>
             (\<exists>e \<in> set es. superseded_entry (head_key (det_head (ex_detail ex))) (attempt_id_str a) e))"
    using supersede_all_missing_Inr [OF audits] by blast
  have ok3: "db_ok db3"
    using update_where_ok [OF ok1 deactivate_key deactivate] db_ok_rows [OF es(1)] by simp
  have meta3: "db_meta db3 = db_meta db"
    using es(2) meta1 update_where_Inr(1) [OF deactivate] by simp
  have rows: "find_row db' j = map_option (\<lambda>r. if ?missing r then deactivate_set at r else r)
      (find_row db1 j)" for j
    using find_row_update_where [OF deactivate_key deactivate, of j] es(1) meta_update_Inr(1) [OF upd]
    by (simp add: find_row_def)
  have logs: "db_logs db' = db_logs db1 @ es"
    using es(3) update_where_Inr(1) [OF deactivate] meta_update_Inr(1) [OF upd] by simp
  have checks: "list_all2 (\<lambda>r ex. try_into_existing (env_sha env) r = Inr ex)
      (sort_key col_subject_id (filter ?missing (db_rows db1))) exs"
    using missing check_all_missing_Inr
    by (auto simp: load_missing_for_deactivation_def and_then_Inr_iff)
  have audit: "\<exists>e \<in> set es. superseded_entry (row_key r) a e"
    if "r \<in> set (db_rows db1)" "?missing r" "col_attempt_id r = Some a" for r a
    by (rule missing_audits [OF ok1 checks _ _ that(3) es(4)]) (use that in auto)
  from consumed_poll_ended [OF require_current_open [OF t] metas ok3 meta3 closing_sets(3) upd]
  show ?thesis
    using that [of "complete_context c t" db1 at es] x merged rows logs audit by (simp add: no_effects_def)
qed

end
