(* ===== verification/Poll_History.thy ===== *)
theory Poll_History
  imports Poll_Consumption
begin

text \<open>
  Opening a poll, and the locale \<open>poll_terminal\<close>: an operation that ends a poll succeeds only
  with the token that is open, leaves it spent, and changes nothing when it is refused. The
  failure and the two snapshots are its interpretations.
\<close>

subsection \<open>Opening a poll\<close>

lemma meta_insert_Inr:
  assumes metas: "metas_ok db" and ins: "meta_insert m db = Inr (k, db')"
  shows "db' = db\<lparr>db_meta := db_meta db @ [m]\<rparr>" and "find_meta db (meta_account_key m) = None"
    and "metas_ok db'"
    and "find_meta db' a = (if a = meta_account_key m then Some m else find_meta db a)"
proof -
  from ins show db': "db' = db\<lparr>db_meta := db_meta db @ [m]\<rparr>"
    and fresh: "find_meta db (meta_account_key m) = None"
    by (auto simp: meta_insert_def split: if_split_asm)
  from ins have "meta_ok m" by (auto simp: meta_insert_def split: if_split_asm)
  moreover from fresh have "meta_account_key m \<notin> meta_account_key ` set (db_meta db)"
    by (auto simp: find_meta_def find_None_iff)
  ultimately show "metas_ok db'"
    using metas by (auto simp: metas_ok_def db')
  show "find_meta db' a = (if a = meta_account_key m then Some m else find_meta db a)"
    using fresh by (auto simp: find_meta_def db' find_snoc split: option.split)
qed

lemma stable_snapshot_id_valid:
  "stable_snapshot_id sha account g = Inr s \<Longrightarrow> valid_text (snapshot_id_str s)"
  by (auto simp: stable_snapshot_id_def)

lemma poll_generation_Inr: "g \<noteq> 0 \<Longrightarrow> poll_generation_try_new g = Inr (PollGeneration g)"
  by simp

lemma snapshot_Inr: "valid_text x \<Longrightarrow> snapshot_id_try_new x = Inr (SnapshotId x)"
  by simp

lemma opened_token:
  assumes "0 < uint g" and "uint g \<le> i64_max" and "valid_text (snapshot_id_str s)"
    and "meta_poll_generation m = uint g" and "meta_open_poll_generation m = Some (uint g)"
    and "meta_open_snapshot_id m = Some (snapshot_id_str s)"
  shows "meta_current_token m
    = Inr (Some \<lparr>poll_generation = PollGeneration g, poll_snapshot_id = s\<rparr>)"
proof -
  have "g \<noteq> 0" using assms(1) by auto
  moreover have "checked_u64 f (uint g) = Inr g" for f
    using checked_u64_Inr [OF assms(2)] by simp
  ultimately show ?thesis
    using assms by (cases s) (simp add: meta_current_token_def poll_generation_Inr snapshot_Inr)
qed

lemma succ_generation:
  assumes "uint (w :: u64) < i64_max"
  shows "uint (w + 1) = uint w + 1" and "0 < uint (w + 1)" and "uint (w + 1) \<le> i64_max"
proof -
  show "uint (w + 1) = uint w + 1"
    using assms by (simp add: uint_word_succ)
  then show "0 < uint (w + 1)" and "uint (w + 1) \<le> i64_max"
    using assms by simp_all
qed

text \<open>What a successful begin did.\<close>

definition poll_begun :: "string \<Rightarrow> poll_attempt_token \<Rightarrow> database \<Rightarrow> database \<Rightarrow> bool" where
  "poll_begun account token db db' \<longleftrightarrow>
     poll_open db' account token \<and> metas_ok db' \<and> db_rows db' = db_rows db \<and>
     db_logs db' = db_logs db \<and> (\<forall>a. a \<noteq> account \<longrightarrow> find_meta db' a = find_meta db a) \<and>
     token_generation token
       = (case find_meta db account of None \<Rightarrow> 1 | Some m \<Rightarrow> meta_poll_generation m + 1)"

lemma begin_poll_Inr:
  assumes metas: "metas_ok db" and run: "begin_poll env c db = (Inr x, db')"
  shows "poll_begun (bpoll_account_key c) (bpollr_token x) db db'"
proof -
  let ?account = "bpoll_account_key c"
  obtain at g s p where at: "command_integer ''attempted_at'' (bpoll_attempted_at c) = Inr at"
    and body: "(case find_meta db ?account of
                 Some m \<Rightarrow> begin_existing env c at m db
               | None \<Rightarrow> begin_new env c at db) = Inr ((g, s), db')"
    and p: "poll_generation_try_new g = Inr p" "bpollr_token x = \<lparr>poll_generation = p, poll_snapshot_id = s\<rparr>"
    using run unfolding begin_poll_def run_transaction_Inr begin_poll_body_def case_prod_beta
    by (elim and_then_InrE) (cases "find_meta db ?account"; force)
  have token: "bpollr_token x = \<lparr>poll_generation = PollGeneration g, poll_snapshot_id = s\<rparr>"
    using p by (auto split: if_split_asm)
  show ?thesis
  proof (cases "find_meta db ?account")
    case None
    with body have s: "stable_snapshot_id (env_sha env) ?account 1 = Inr s" and g: "g = 1"
      and "\<exists>k. meta_insert (fresh_meta ?account at (snapshot_id_str s)) db = Inr (k, db')"
      by (auto simp: begin_new_def and_then_Inr_iff sql_execute_Inr split: prod.splits)
    then obtain k where "meta_insert (fresh_meta ?account at (snapshot_id_str s)) db = Inr (k, db')"
      by blast
    note ins = meta_insert_Inr [OF metas this]
    have "meta_current_token (fresh_meta ?account at (snapshot_id_str s)) = Inr (Some (bpollr_token x))"
      unfolding token g
      by (rule opened_token)
        (use stable_snapshot_id_valid [OF s] in \<open>simp_all add: fresh_meta_def i64_max_def\<close>)
    then show ?thesis
      using None ins(1,3,4) token g
      by (auto simp: poll_begun_def poll_open_def token_generation_def fresh_meta_def)
  next
    case (Some m)
    have bound: "meta_poll_generation m \<le> i64_max"
      using metas.lookup_valid [OF metas Some] by (simp add: meta_ok_def meta_integers_def)
    from Some body obtain w k where w: "meta_poll_generation m = uint w" "uint w < i64_max" "g = w + 1"
      and s: "stable_snapshot_id (env_sha env) ?account g = Inr s"
      and upd: "meta_update ?account (\<lambda>y. meta_poll_generation y = meta_poll_generation m)
        (begin_set at (uint g) (snapshot_id_str s)) db = Inr (k, db')"
      by (auto simp: begin_existing_def and_then_Inr_iff sql_execute_Inr Let_def checked_u64_Inr [OF bound]
          split: prod.splits if_split_asm)
    have key: "\<And>y. meta_account_key (begin_set at (uint g) (snapshot_id_str s) y) = meta_account_key y"
      by (simp add: begin_set_def)
    have row: "find_meta db' ?account = Some (begin_set at (uint g) (snapshot_id_str s) m)"
      using metas.update_hit [OF metas key upd Some] by simp
    have "meta_current_token (begin_set at (uint g) (snapshot_id_str s) m) = Inr (Some (bpollr_token x))"
      unfolding token
      by (rule opened_token)
        (use succ_generation [OF w(2)] w(3) stable_snapshot_id_valid [OF s] in
          \<open>simp_all add: begin_set_def\<close>)
    then show ?thesis
      using Some row w succ_generation(1) [OF w(2)] metas.update_ok [OF metas key upd]
        metas.update_other [OF key upd] meta_update_Inr(1) [OF upd] token
      by (auto simp: poll_begun_def poll_open_def token_generation_def)
  qed
qed

lemma begin_rollback: "begin_poll env c db = (Inl e, db') \<Longrightarrow> db' = db"
  by (simp add: begin_poll_def run_transaction_Inl)

subsection \<open>Ending a poll as an interface\<close>

locale poll_terminal =
  fixes operation :: "repo_env \<Rightarrow> 'c \<Rightarrow> database \<Rightarrow> 'r repository_result \<times> database"
    and account_of :: "'c \<Rightarrow> string"
    and token_of :: "'c \<Rightarrow> poll_attempt_token"
  assumes success: "db_ok db \<Longrightarrow> metas_ok db \<Longrightarrow> operation env c db = (Inr x, db') \<Longrightarrow>
      poll_ended (account_of c) (token_of c) db db'"
    and rollback: "operation env c db = (Inl e, db') \<Longrightarrow> db' = db"
begin

lemma spent_refused:
  assumes "db_ok db" and "metas_ok db"
    and spent: "poll_spent db (account_of c) (token_generation (token_of c))"
  obtains e where "operation env c db = (Inl e, db)"
proof -
  obtain y db' where run: "operation env c db = (y, db')" by fastforce
  show ?thesis
  proof (cases y)
    case (Inl e)
    with run rollback that show ?thesis by blast
  next
    case (Inr x)
    with run success [OF assms(1,2)] have "poll_open db (account_of c) (token_of c)"
      by (auto simp: poll_ended_def)
    with open_not_spent [OF assms(2)] spent show ?thesis by blast
  qed
qed

lemma invariant:
  assumes "db_ok db" and "metas_ok db"
  shows "db_ok (snd (operation env c db))" and "metas_ok (snd (operation env c db))"
proof -
  obtain y db' where run: "operation env c db = (y, db')" by fastforce
  have "db_ok db' \<and> metas_ok db'"
  proof (cases y)
    case (Inl e)
    with run rollback assms show ?thesis by blast
  next
    case (Inr x)
    with run success [OF assms] show ?thesis by (auto simp: poll_ended_def)
  qed
  with run show "db_ok (snd (operation env c db))" and "metas_ok (snd (operation env c db))"
    by simp_all
qed

text \<open>What is spent stays spent, whichever poll is ended.\<close>

lemma keeps_spent:
  assumes "db_ok db" and metas: "metas_ok db" and spent: "poll_spent db a g"
  shows "poll_spent (snd (operation env c db)) a g"
proof -
  obtain y db' where run: "operation env c db = (y, db')" by fastforce
  have "poll_spent db' a g"
  proof (cases y)
    case (Inl e)
    with run rollback spent show ?thesis by blast
  next
    case (Inr x)
    with run success [OF assms(1,2)] have ended: "poll_ended (account_of c) (token_of c) db db'" by blast
    show ?thesis
    proof (cases "a = account_of c")
      case False
      with ended spent show ?thesis by (auto simp: poll_ended_def poll_spent_def)
    next
      case True
      obtain m where m: "find_meta db a = Some m" "meta_current_token m = Inr (Some (token_of c))"
        using ended True by (auto simp: poll_ended_def poll_open_def)
      note cols = current_token_columns [OF metas.lookup_valid [OF metas m(1)] m(2)]
      from spent m(1) cols have "g < token_generation (token_of c)"
        by (auto simp: poll_spent_def order_le_less)
      with ended True show ?thesis by (auto simp: poll_ended_def poll_spent_def)
    qed
  qed
  with run show ?thesis by simp
qed

end

interpretation poll_failure: poll_terminal record_poll_failure rpf_account_key rpf_token
  by unfold_locales (auto dest: record_poll_failure_Inr(1) simp: record_poll_failure_def run_transaction_Inl)

interpretation incomplete: poll_terminal record_incomplete_snapshot ris_account_key ris_token
proof unfold_locales
  fix db env c x db'
  assume "db_ok db" "metas_ok db" "record_incomplete_snapshot env c db = (Inr x, db')"
  then show "poll_ended (ris_account_key c) (ris_token c) db db'"
    by (rule record_incomplete_Inr)
qed (simp add: record_incomplete_snapshot_def run_transaction_Inl)

interpretation complete: poll_terminal apply_complete_snapshot acs_account_key acs_token
proof unfold_locales
  fix db env c x db'
  assume "db_ok db" "metas_ok db" "apply_complete_snapshot env c db = (Inr x, db')"
  then show "poll_ended (acs_account_key c) (acs_token c) db db'"
    by (rule apply_complete_Inr)
qed (simp add: apply_complete_snapshot_def run_transaction_Inl)

end
