(* ===== verification/List_Store.thy ===== *)
theory List_Store
  imports Claim_Store
begin

text \<open>
  \<open>list_summaries\<close> of \<open>src/storage/subscription_repo.rs\<close>: one page of subscriptions,
  newest first, rows without a sort time last. The code splits the page over up to four
  bounded queries (active or not, sort time present or NULL), merges their results and cuts
  the page; the last item names the cursor of the next page.
\<close>

subsection \<open>Command and page\<close>

record list_cursor =
  cursor_sort_time :: "u64 option"
  cursor_subject_id :: string

definition list_cursor_try_new :: "u64 option \<Rightarrow> string \<Rightarrow> list_cursor repository_result" where
  "list_cursor_try_new sort_time subject =
     and_then (validated_text ''cursor.subject_id'' subject) (\<lambda>s.
     Inr \<lparr>cursor_sort_time = sort_time, cursor_subject_id = s\<rparr>)"

record list_filter =
  filter_active :: "bool option"
  filter_media_kind :: "media_kind option"
  filter_lifecycle_state :: "lifecycle_state option"
  filter_attention_tag :: "attention_tag option"

record list_command =
  list_account_key :: string
  list_filter :: list_filter
  list_cursor :: "list_cursor option"
  list_limit :: u32

definition list_limit_valid :: "u32 \<Rightarrow> bool" where
  "list_limit_valid limit \<longleftrightarrow> 1 \<le> limit \<and> limit \<le> 100"

definition list_command_try_new ::
  "string \<Rightarrow> list_filter \<Rightarrow> list_cursor option \<Rightarrow> u32 \<Rightarrow> list_command repository_result" where
  "list_command_try_new account flt cursor limit =
     (if \<not> list_limit_valid limit
      then Inl (InvalidInput ''limit'' ''list limit must be between 1 and 100'')
      else
      and_then (validated_text ''account_key'' account) (\<lambda>a.
      Inr \<lparr>list_account_key = a, list_filter = flt, list_cursor = cursor, list_limit = limit\<rparr>))"

record list_page =
  page_items :: "subscription_summary list"
  page_next_cursor :: "list_cursor option"

subsection \<open>Queries\<close>

datatype sort_segment =
    NonNull "(int \<times> string) option"
  | Null "string option"

definition segments_of :: "list_command \<Rightarrow> sort_segment list repository_result" where
  "segments_of command =
     (case list_cursor command of
        None \<Rightarrow> Inr [NonNull None, Null None]
      | Some cursor \<Rightarrow>
          (case cursor_sort_time cursor of
             None \<Rightarrow> Inr [Null (Some (cursor_subject_id cursor))]
           | Some t \<Rightarrow>
               and_then (ok_or (InvalidInput ''cursor.douban_sort_time''
                                  ''cursor sort time exceeds SQLite INTEGER range'') (i64_try_from t))
                 (\<lambda>sort_time. Inr [NonNull (Some (sort_time, cursor_subject_id cursor)), Null None])))"

definition active_partitions :: "list_filter \<Rightarrow> bool list" where
  "active_partitions flt =
     (case filter_active flt of None \<Rightarrow> [True, False] | Some active \<Rightarrow> [active])"

text \<open>The part of the WHERE clause a segment adds.\<close>

fun segment_where :: "sort_segment \<Rightarrow> wanted_row \<Rightarrow> bool" where
  "segment_where (NonNull cursor) r \<longleftrightarrow>
     (case col_douban_sort_time r of
        None \<Rightarrow> False
      | Some t \<Rightarrow>
          (case cursor of None \<Rightarrow> True
           | Some (sort_time, subject) \<Rightarrow>
               t < sort_time \<or> (t = sort_time \<and> col_subject_id r < subject)))"
| "segment_where (Null subject_before) r \<longleftrightarrow>
     col_douban_sort_time r = None \<and>
     (case subject_before of None \<Rightarrow> True | Some subject \<Rightarrow> col_subject_id r < subject)"

definition filter_where :: "list_command \<Rightarrow> wanted_row \<Rightarrow> bool" where
  "filter_where command r \<longleftrightarrow>
     opt_all (\<lambda>k. col_media_kind r = media_kind_as_str k) (filter_media_kind (list_filter command)) \<and>
     opt_all (\<lambda>l. col_lifecycle_state r = lifecycle_as_str l)
       (filter_lifecycle_state (list_filter command)) \<and>
     opt_all (\<lambda>t. tags_contain (attention_tag_label t) (col_attention_tags_json r))
       (filter_attention_tag (list_filter command))"

definition list_where :: "list_command \<Rightarrow> bool \<Rightarrow> sort_segment \<Rightarrow> wanted_row \<Rightarrow> bool" where
  "list_where command active segment r \<longleftrightarrow>
     col_account_key r = list_account_key command \<and> col_active r = of_bool active \<and>
     filter_where command r \<and> segment_where segment r"

text \<open>
  \<open>ORDER BY w.douban_sort_time DESC, w.subject_id DESC\<close>; in the NULL segment the first
  key is constant, which is \<open>ORDER BY w.subject_id DESC\<close>. Within one account the key of a
  row is unique, so the order of equal keys does not matter.
\<close>

definition desc :: "('a \<Rightarrow> 'k::linorder) \<Rightarrow> 'a list \<Rightarrow> 'a list" where
  "desc k xs = rev (sort_key k (rev xs))"

definition row_order :: "wanted_row \<Rightarrow> (bool \<times> int) \<times> string" where
  "row_order r =
     ((case col_douban_sort_time r of None \<Rightarrow> (False, 0) | Some t \<Rightarrow> (True, t)), col_subject_id r)"

definition select_segment :: "list_command \<Rightarrow> bool \<Rightarrow> sort_segment \<Rightarrow> database \<Rightarrow> wanted_row list" where
  "select_segment command active segment db =
     take (Suc (unat (list_limit command)))
       (desc row_order (filter (list_where command active segment) (db_rows db)))"

definition list_queries :: "list_command \<Rightarrow> sort_segment list \<Rightarrow> (bool \<times> sort_segment) list" where
  "list_queries command segments =
     concat (map (\<lambda>active. map (\<lambda>segment. (active, segment)) segments)
       (active_partitions (list_filter command)))"

subsection \<open>Reading and merging\<close>

text \<open>\<open>for row in rows { items.push(f(row)?) }\<close>\<close>

fun map_results :: "('a \<Rightarrow> 'e + 'b) \<Rightarrow> 'a list \<Rightarrow> 'e + 'b list" where
  "map_results f [] = Inr []"
| "map_results f (x # xs) = and_then (f x) (\<lambda>y. and_then (map_results f xs) (\<lambda>ys. Inr (y # ys)))"

definition read_list_segment ::
  "repo_env \<Rightarrow> nat \<Rightarrow> list_command \<Rightarrow> database \<Rightarrow> bool \<times> sort_segment
    \<Rightarrow> subscription_summary list repository_result" where
  "read_list_segment env n command db query =
     and_then (sql_call env n ''prepare subscription summary list segment'') (\<lambda>_.
     and_then (sql_call env n ''query subscription summary list segment'') (\<lambda>_.
     and_then (sql_call env n ''decode subscription summary row'') (\<lambda>_.
     map_results try_into_summary (select_segment command (fst query) (snd query) db))))"

fun read_segments ::
  "repo_env \<Rightarrow> nat \<Rightarrow> list_command \<Rightarrow> database \<Rightarrow> (bool \<times> sort_segment) list
    \<Rightarrow> subscription_summary list repository_result" where
  "read_segments env n command db [] = Inr []"
| "read_segments env n command db (query # queries) =
     and_then (read_list_segment env n command db query) (\<lambda>items.
     and_then (read_segments env (Suc n) command db queries) (\<lambda>rest. Inr (items @ rest)))"

text \<open>
  \<open>Option<u64>\<close> is ordered with \<open>None\<close> first, so the descending comparison of the merge
  puts it last.
\<close>

definition summary_order :: "subscription_summary \<Rightarrow> (bool \<times> int) \<times> string" where
  "summary_order s =
     ((case prj_douban_sort_time (sum_projection s) of None \<Rightarrow> (False, 0) | Some t \<Rightarrow> (True, uint t)),
      subject_id (head_key (sum_head s)))"

definition list_summaries ::
  "repo_env \<Rightarrow> list_command \<Rightarrow> database \<Rightarrow> list_page repository_result" where
  "list_summaries env command db =
     (let limit = unat (list_limit command) in
      if \<not> list_limit_valid (list_limit command)
      then Inl (InvalidInput ''limit'' ''list limit must be between 1 and 100'')
      else
      and_then (segments_of command) (\<lambda>segments.
      and_then (read_segments env 0 command db (list_queries command segments)) (\<lambda>items.
      let window = take (Suc limit) (desc summary_order items);
          has_more = limit < length window;
          page = (if has_more then take limit window else window) in
      and_then (if has_more
                then and_then (map_err (persisted_validation ''build list continuation cursor'')
                       (list_cursor_try_new (prj_douban_sort_time (sum_projection (last page)))
                         (subject_id (head_key (sum_head (last page)))))) (\<lambda>c. Inr (Some c))
                else Inr None) (\<lambda>next_cursor.
      Inr \<lparr>page_items = page, page_next_cursor = next_cursor\<rparr>))))"

end
