(* ===== verification/List_Theorems.thy ===== *)
theory List_Theorems
  imports List_Store Mutation_Facts Example_Data "HOL-Library.Multiset"
begin

text \<open>
  The page the list returns is the page of a reference list: all matching rows of the
  account in descending order, cut at the cursor. The merge of the bounded queries is that
  list, and following the cursors walks through it without a gap or a repetition.
\<close>

subsection \<open>Descending lists\<close>

definition descending :: "('a \<Rightarrow> 'k::linorder) \<Rightarrow> 'a list \<Rightarrow> bool" where
  "descending k xs \<longleftrightarrow> sorted_wrt (\<lambda>a b. k b < k a) xs"

lemma set_desc [simp]: "set (desc k xs) = set xs"
  by (simp add: desc_def)

lemma mset_desc: "mset (desc k xs) = mset xs"
  by (simp add: desc_def)

lemma length_desc [simp]: "length (desc k xs) = length xs"
  by (simp add: desc_def)

lemma descending_desc:
  assumes "distinct (map k xs)"
  shows "descending k (desc k xs)"
proof -
  have "distinct (map k (sort_key k (rev xs)))"
    using assms by (simp add: distinct_map inj_on_def)
  moreover have "sorted (map k (sort_key k (rev xs)))" by simp
  ultimately have "sorted_wrt (<) (map k (sort_key k (rev xs)))"
    by (simp add: strict_sorted_iff)
  then show ?thesis
    by (simp add: descending_def desc_def sorted_wrt_rev sorted_wrt_map)
qed

lemma descending_unique:
  "descending k xs \<Longrightarrow> descending k ys \<Longrightarrow> set xs = set ys \<Longrightarrow> xs = ys"
proof (induction xs arbitrary: ys)
  case (Cons x xs)
  from Cons.prems(3) obtain y ys' where ys: "ys = y # ys'" by (cases ys) auto
  have x: "\<forall>a \<in> set xs. k a < k x" and y: "\<forall>a \<in> set ys'. k a < k y"
    using Cons.prems ys by (simp_all add: descending_def)
  have "x = y"
    using Cons.prems(3) x y ys by (metis list.set_intros(1) order.asym set_ConsD)
  moreover have "set xs = set ys'"
  proof -
    have "x \<notin> set xs" "y \<notin> set ys'" using x y by auto
    with Cons.prems(3) ys \<open>x = y\<close> show ?thesis by auto
  qed
  moreover have "descending k xs" "descending k ys'"
    using Cons.prems ys by (simp_all add: descending_def)
  ultimately show ?case
    using Cons.IH ys by blast
qed simp

lemma descending_append:
  "descending k (xs @ ys) \<longleftrightarrow>
     descending k xs \<and> descending k ys \<and> (\<forall>x \<in> set xs. \<forall>y \<in> set ys. k y < k x)"
  by (auto simp: descending_def sorted_wrt_append)

lemma descending_filter: "descending k xs \<Longrightarrow> descending k (filter p xs)"
  by (simp add: descending_def sorted_wrt_filter)

lemma desc_split:
  assumes "distinct (map k (r # xs))"
  shows "desc k (r # xs) = filter (\<lambda>x. k r < k x) (desc k xs) @ r # filter (\<lambda>x. k x < k r) (desc k xs)"
proof (rule descending_unique)
  have d: "descending k (desc k xs)"
    using assms by (intro descending_desc) simp
  show "descending k (desc k (r # xs))" by (rule descending_desc [OF assms])
  show "descending k (filter (\<lambda>x. k r < k x) (desc k xs) @ r # filter (\<lambda>x. k x < k r) (desc k xs))"
    using descending_filter [OF d]
    by (auto simp: descending_append descending_def [of k "_ # _"] sorted_wrt_filter
        descending_def [of k "filter _ _"])
  have "k x \<noteq> k r" if "x \<in> set xs" for x
    using assms that by (auto simp: image_iff)
  then show "set (desc k (r # xs))
      = set (filter (\<lambda>x. k r < k x) (desc k xs) @ r # filter (\<lambda>x. k x < k r) (desc k xs))"
    by (auto simp: not_less order_less_le)
qed

text \<open>An element below \<open>m\<close> others does not show among the first \<open>m\<close>.\<close>

lemma take_desc_Cons:
  assumes "distinct (map k (r # xs))" and "m \<le> length (filter (\<lambda>x. k r < k x) xs)"
  shows "take m (desc k (r # xs)) = take m (desc k xs)"
proof -
  have d: "descending k (desc k xs)"
    using assms by (intro descending_desc) simp
  have "length (filter (\<lambda>x. k r < k x) (desc k xs)) = length (filter (\<lambda>x. k r < k x) xs)"
    by (metis mset_desc mset_filter size_mset)
  then have m: "m \<le> length (filter (\<lambda>x. k r < k x) (desc k xs))"
    using assms(2) by simp
  have "desc k xs = filter (\<lambda>x. k r < k x) (desc k xs) @ filter (\<lambda>x. k x < k r) (desc k xs)"
  proof (rule descending_unique [OF d])
    show "descending k (filter (\<lambda>x. k r < k x) (desc k xs) @ filter (\<lambda>x. k x < k r) (desc k xs))"
      using descending_filter [OF d] by (auto simp: descending_append)
    have "k x \<noteq> k r" if "x \<in> set xs" for x
      using assms(1) that by (auto simp: image_iff)
    then show "set (desc k xs)
        = set (filter (\<lambda>x. k r < k x) (desc k xs) @ filter (\<lambda>x. k x < k r) (desc k xs))"
      by (auto simp: not_less order_less_le)
  qed
  with m show ?thesis
    unfolding desc_split [OF assms(1)] by (metis append_take_drop_id take_append diff_is_0_eq take0)
qed

lemma desc_mset:
  assumes "distinct (map k xs)" and "mset xs = mset ys"
  shows "desc k xs = desc k ys"
proof (rule descending_unique)
  have "distinct (map k ys)"
    using assms by (metis mset_eq_imp_distinct_iff mset_map)
  then show "descending k (desc k ys)" by (rule descending_desc)
  show "descending k (desc k xs)" by (rule descending_desc [OF assms(1)])
  show "set (desc k xs) = set (desc k ys)"
    by (simp add: mset_eq_setD [OF assms(2)])
qed

lemma take_desc_drop_below:
  assumes "distinct (map k (rs @ xs))" and "\<forall>r \<in> set rs. m \<le> length (filter (\<lambda>x. k r < k x) xs)"
  shows "take m (desc k (rs @ xs)) = take m (desc k xs)"
  using assms
proof (induction rs)
  case (Cons r rs)
  have "m \<le> length (filter (\<lambda>x. k r < k x) (rs @ xs))"
    using Cons.prems(2) by simp
  then have "take m (desc k (r # rs @ xs)) = take m (desc k (rs @ xs))"
    using Cons.prems(1) by (intro take_desc_Cons) simp_all
  with Cons show ?case by simp
qed simp

text \<open>Bounding a part before the merge does not change the first \<open>m\<close> of the whole.\<close>

lemma take_desc_bounded:
  assumes dist: "distinct (map k (as @ bs))"
  shows "take m (desc k (take m (desc k as) @ bs)) = take m (desc k (as @ bs))"
proof -
  let ?d = "desc k as"
  have d: "descending k ?d"
    using dist by (intro descending_desc) simp
  have ms: "mset (drop m ?d @ take m ?d @ bs) = mset (as @ bs)"
    using mset_desc [of k as]
    by (metis append_take_drop_id mset_append union_commute union_assoc)
  then have dist': "distinct (map k (drop m ?d @ take m ?d @ bs))"
    using dist by (metis mset_eq_imp_distinct_iff mset_map)
  have "m \<le> length (filter (\<lambda>x. k r < k x) (take m ?d @ bs))" if r: "r \<in> set (drop m ?d)" for r
  proof -
    have "\<forall>x \<in> set (take m ?d). k r < k x"
      using d r descending_append [of k "take m ?d" "drop m ?d"] by simp
    then have "filter (\<lambda>x. k r < k x) (take m ?d) = take m ?d" by simp
    moreover have "m < length ?d" using r by (cases "length ?d \<le> m") auto
    ultimately show ?thesis by simp
  qed
  then have "take m (desc k (drop m ?d @ take m ?d @ bs)) = take m (desc k (take m ?d @ bs))"
    using dist' by (intro take_desc_drop_below) auto
  with desc_mset [OF dist' ms] show ?thesis by simp
qed

lemma distinct_keys_sub:
  assumes "distinct (map k (as @ xs @ bs))" and "distinct ys" and "set ys \<subseteq> set xs"
  shows "distinct (map k (as @ ys @ bs))"
  using assms unfolding distinct_map by (auto intro: inj_on_subset)

lemma take_desc_bounded_within:
  assumes dist: "distinct (map k (as @ xs @ bs))"
  shows "distinct (map k (as @ take m (desc k xs) @ bs))"
    and "take m (desc k (as @ take m (desc k xs) @ bs)) = take m (desc k (as @ xs @ bs))"
proof -
  have "distinct (map k xs)" using dist by simp
  then have "distinct (desc k xs)"
    by (metis distinct_map mset_desc mset_eq_imp_distinct_iff)
  then show dist_t: "distinct (map k (as @ take m (desc k xs) @ bs))"
    using dist by (intro distinct_keys_sub [OF dist])
      (auto, metis in_set_takeD set_desc)
  have "desc k (as @ take m (desc k xs) @ bs) = desc k (take m (desc k xs) @ as @ bs)"
    by (rule desc_mset [OF dist_t]) simp
  moreover have "desc k (as @ xs @ bs) = desc k (xs @ as @ bs)"
    by (rule desc_mset [OF dist]) simp
  moreover have "distinct (map k (xs @ as @ bs))"
    using dist by auto
  ultimately show "take m (desc k (as @ take m (desc k xs) @ bs)) = take m (desc k (as @ xs @ bs))"
    by (simp add: take_desc_bounded)
qed

lemma take_desc_parts:
  "distinct (map k (as @ concat xss)) \<Longrightarrow>
     take m (desc k (as @ concat (map (\<lambda>xs. take m (desc k xs)) xss)))
       = take m (desc k (as @ concat xss))"
proof (induction xss arbitrary: as)
  case (Cons xs xss)
  have dist: "distinct (map k (as @ xs @ concat xss))" using Cons.prems by simp
  note within = take_desc_bounded_within [OF dist, of m]
  have "take m (desc k ((as @ take m (desc k xs)) @ concat (map (\<lambda>xs. take m (desc k xs)) xss)))
      = take m (desc k ((as @ take m (desc k xs)) @ concat xss))"
    using within(1) by (intro Cons.IH) simp
  with within(2) show ?case by simp
qed simp

lemma map_sort_key: "map f (sort_key (k \<circ> f) xs) = sort_key k (map f xs)"
proof -
  have "map f (insort_key (k \<circ> f) x xs) = insort_key k (f x) (map f xs)" for x xs
    by (induction xs) simp_all
  then show ?thesis
    by (induction xs) simp_all
qed

lemma desc_map: "desc k (map f xs) = map f (desc (k \<circ> f) xs)"
  by (simp add: desc_def map_sort_key rev_map [symmetric])

lemma insort_key_agree:
  "\<forall>y \<in> set ys. k y = k' y \<Longrightarrow> k x = k' x \<Longrightarrow> insort_key k x ys = insort_key k' x ys"
  by (induction ys) simp_all

lemma sort_key_agree: "\<forall>x \<in> set xs. k x = k' x \<Longrightarrow> sort_key k xs = sort_key k' xs"
proof (induction xs)
  case (Cons x xs)
  have "insort_key k x (sort_key k' xs) = insort_key k' x (sort_key k' xs)"
    using Cons.prems by (intro insort_key_agree) simp_all
  with Cons show ?case by simp
qed simp

lemma desc_cong: "\<forall>x \<in> set xs. k x = k' x \<Longrightarrow> desc k xs = desc k' xs"
  unfolding desc_def using sort_key_agree [of "rev xs" k k'] by simp

subsection \<open>The reference list\<close>

definition cursor_order :: "list_cursor \<Rightarrow> (bool \<times> int) \<times> string" where
  "cursor_order c =
     ((case cursor_sort_time c of None \<Rightarrow> (False, 0) | Some t \<Rightarrow> (True, uint t)), cursor_subject_id c)"

definition list_matches :: "list_command \<Rightarrow> wanted_row \<Rightarrow> bool" where
  "list_matches command r \<longleftrightarrow>
     col_account_key r = list_account_key command \<and>
     opt_all (\<lambda>active. col_active r = of_bool active) (filter_active (list_filter command)) \<and>
     filter_where command r \<and>
     opt_all (\<lambda>c. row_order r < cursor_order c) (list_cursor command)"

definition reference_list :: "list_command \<Rightarrow> database \<Rightarrow> wanted_row list" where
  "reference_list command db = desc row_order (filter (list_matches command) (db_rows db))"

lemma mset_concat_filters:
  assumes "\<forall>x \<in> set xs. length (filter (\<lambda>q. P q x) qs) = of_bool (M x)"
  shows "mset (concat (map (\<lambda>q. filter (P q) xs) qs)) = mset (filter M xs)"
  using assms
proof (induction xs)
  case (Cons x xs)
  have "mset (concat (map (\<lambda>q. filter (P q) (x # xs)) qs))
      = mset (replicate (length (filter (\<lambda>q. P q x) qs)) x)
        + mset (concat (map (\<lambda>q. filter (P q) xs) qs))"
    by (induction qs) simp_all
  with Cons show ?case by simp
qed (simp add: map_replicate_const)

lemma one_query_matches:
  assumes "row_ok r" and "segments_of command = Inr segments"
  shows "length (filter (\<lambda>q. list_where command (fst q) (snd q) r) (list_queries command segments))
    = of_bool (list_matches command r)"
proof -
  have active: "col_active r = 0 \<or> col_active r = 1"
    using assms(1) by (auto simp: row_ok_def column_checks_def)
  have parts: "length (filter (\<lambda>s. segment_where s r) segments)
      = of_bool (opt_all (\<lambda>c. row_order r < cursor_order c) (list_cursor command))"
    using assms(2)
    by (cases "col_douban_sort_time r"; cases "list_cursor command")
      (auto simp: segments_of_def row_order_def cursor_order_def and_then_Inr_iff less_prod_def
        split: option.splits)
  have one: "length (filter (\<lambda>s. list_where command a s r) segments)
      = (if col_account_key r = list_account_key command \<and> col_active r = of_bool a \<and>
            filter_where command r
         then of_bool (opt_all (\<lambda>c. row_order r < cursor_order c) (list_cursor command)) else 0)" for a
    using parts by (auto simp: list_where_def filter_empty_conv)
  show ?thesis
    using active
    by (cases "filter_active (list_filter command)")
      (auto simp: list_queries_def active_partitions_def filter_map o_def one list_matches_def)
qed

lemma row_order_distinct:
  assumes "db_ok db"
  shows "distinct (map row_order (filter (list_matches command) (db_rows db)))"
proof -
  have "distinct (map row_key (filter (list_matches command) (db_rows db)))"
    using assms by (simp add: db_ok_def distinct_map_filter)
  moreover have "inj_on row_order (set (filter (list_matches command) (db_rows db)))"
    using calculation
    by (auto simp: distinct_map inj_on_def row_order_def row_key_def list_matches_def)
  ultimately show ?thesis
    by (simp add: distinct_map)
qed

subsection \<open>The page\<close>

definition summary_of :: "wanted_row \<Rightarrow> subscription_summary" where
  "summary_of r = projr (try_into_summary r)"

text \<open>Every row of the table decodes: the page cannot fail on a row.\<close>

definition rows_decode :: "database \<Rightarrow> bool" where
  "rows_decode db \<longleftrightarrow> list_all (\<lambda>r. is_ok (try_into_summary r)) (db_rows db)"

lemma map_results_ok: "\<forall>x \<in> set xs. is_ok (f x) \<Longrightarrow> map_results f xs = Inr (map (projr \<circ> f) xs)"
  by (induction xs) (auto simp: is_ok_iff simp del: unit_ok_iff)

lemma rows_decode_summary:
  "rows_decode db \<Longrightarrow> r \<in> set (db_rows db) \<Longrightarrow> try_into_summary r = Inr (summary_of r)"
  by (auto simp: rows_decode_def list_all_iff is_ok_iff summary_of_def simp del: unit_ok_iff)

lemma summary_order_of:
  assumes "db_ok db" and "rows_decode db" and "r \<in> set (db_rows db)"
  shows "summary_order (summary_of r) = row_order r"
proof -
  have "row_ok r" using assms(1,3) by (simp add: db_ok_def)
  with rows_decode_summary [OF assms(2,3)] have "summary_columns r (summary_of r)"
    by (simp add: try_into_summary_Inr)
  then show ?thesis
    by (auto simp: summary_columns_def head_columns_def summary_order_def row_order_def
        split: option.splits)
qed

lemma select_segment_rows: "set (select_segment command a s db) \<subseteq> set (db_rows db)"
proof
  fix r assume "r \<in> set (select_segment command a s db)"
  then have "r \<in> set (desc row_order (filter (list_where command a s) (db_rows db)))"
    unfolding select_segment_def by (rule in_set_takeD)
  then show "r \<in> set (db_rows db)" by simp
qed

lemma read_segments_ok:
  assumes "fault_free env" and "rows_decode db"
  shows "read_segments env n command db qs
    = Inr (map summary_of (concat (map (\<lambda>q. select_segment command (fst q) (snd q) db) qs)))"
proof (induction qs arbitrary: n)
  case (Cons q qs)
  have "\<forall>r \<in> set (select_segment command (fst q) (snd q) db). is_ok (try_into_summary r)"
    using select_segment_rows assms(2)
    by (fastforce simp: rows_decode_def list_all_iff simp del: unit_ok_iff)
  then have "read_list_segment env n command db q
      = Inr (map summary_of (select_segment command (fst q) (snd q) db))"
    using assms(1) by (simp add: read_list_segment_def map_results_ok summary_of_def o_def)
  with Cons show ?case by simp
qed simp

text \<open>The merged window is the beginning of the reference list.\<close>

lemma window_is_reference:
  assumes ok: "db_ok db" and dec: "rows_decode db" and seg: "segments_of command = Inr segments"
  shows "take (Suc (unat (list_limit command)))
      (desc summary_order (map summary_of
        (concat (map (\<lambda>q. select_segment command (fst q) (snd q) db) (list_queries command segments)))))
    = map summary_of (take (Suc (unat (list_limit command))) (reference_list command db))"
proof -
  let ?m = "Suc (unat (list_limit command))" and ?qs = "list_queries command segments"
  let ?part = "\<lambda>q. filter (list_where command (fst q) (snd q)) (db_rows db)"
  let ?xs = "concat (map (\<lambda>q. select_segment command (fst q) (snd q) db) ?qs)"
  have ms: "mset (concat (map ?part ?qs)) = mset (filter (list_matches command) (db_rows db))"
    using one_query_matches [OF _ seg] ok by (intro mset_concat_filters) (auto simp: db_ok_def)
  then have dist: "distinct (map row_order (concat (map ?part ?qs)))"
    using row_order_distinct [OF ok, of command] by (metis mset_eq_imp_distinct_iff mset_map)
  have "summary_order (summary_of r) = row_order r" if "r \<in> set ?xs" for r
    using that select_segment_rows summary_order_of [OF ok dec] by fastforce
  then have "desc (summary_order \<circ> summary_of) ?xs = desc row_order ?xs"
    by (intro desc_cong) simp
  moreover have "take ?m (desc row_order ?xs) = take ?m (reference_list command db)"
    using take_desc_parts [of row_order "[]" "map ?part ?qs" ?m] dist desc_mset [OF dist ms]
    by (simp add: select_segment_def reference_list_def o_def)
  ultimately show ?thesis
    by (simp add: desc_map take_map)
qed

lemma descending_reference: "db_ok db \<Longrightarrow> descending row_order (reference_list command db)"
  unfolding reference_list_def by (intro descending_desc row_order_distinct)

lemma set_reference:
  "set (reference_list command db) = {r \<in> set (db_rows db). list_matches command r}"
  by (auto simp: reference_list_def)

lemma descending_after:
  "descending k (xs @ x # ys) \<Longrightarrow> filter (\<lambda>y. k y < k x) (xs @ x # ys) = ys"
  by (auto simp: descending_def sorted_wrt_append filter_empty_conv filter_id_conv dest: order.asym)

text \<open>Moving the cursor to a row of the list leaves what follows that row.\<close>

lemma reference_after:
  assumes ok: "db_ok db" and split: "reference_list command db = xs @ r # ys"
    and cursor: "cursor_order c = row_order r"
  shows "reference_list (command\<lparr>list_cursor := Some c\<rparr>) db = ys"
proof (rule descending_unique)
  have d: "descending row_order (xs @ r # ys)"
    using descending_reference [OF ok, of command] by (simp add: split)
  then show "descending row_order ys"
    by (simp add: descending_def sorted_wrt_append)
  show "descending row_order (reference_list (command\<lparr>list_cursor := Some c\<rparr>) db)"
    by (rule descending_reference [OF ok])
  have r: "opt_all (\<lambda>c. row_order r < cursor_order c) (list_cursor command)"
    using set_reference [of command db] split by (auto simp: list_matches_def)
  have "list_matches (command\<lparr>list_cursor := Some c\<rparr>) x
      \<longleftrightarrow> list_matches command x \<and> row_order x < row_order r" for x
    using r by (auto simp: list_matches_def filter_where_def cursor opt_all_def split: option.splits)
  then have "set (reference_list (command\<lparr>list_cursor := Some c\<rparr>) db)
      = set (filter (\<lambda>x. row_order x < row_order r) (reference_list command db))"
    by (auto simp: set_reference)
  also have "\<dots> = set ys"
    unfolding split descending_after [OF d] ..
  finally show "set (reference_list (command\<lparr>list_cursor := Some c\<rparr>) db) = set ys" .
qed

definition command_valid :: "list_command \<Rightarrow> bool" where
  "command_valid command \<longleftrightarrow> list_limit_valid (list_limit command) \<and>
     opt_all (\<lambda>c. opt_all (\<lambda>t. uint t \<le> i64_max) (cursor_sort_time c)) (list_cursor command)"

lemma segments_ok: "command_valid command \<Longrightarrow> \<exists>segments. segments_of command = Inr segments"
  by (auto simp: command_valid_def segments_of_def i64_try_from_def split: option.splits)

lemma list_summaries_page:
  assumes ok: "db_ok db" and dec: "rows_decode db" and ff: "fault_free env" and cmd: "command_valid command"
  obtains page where "list_summaries env command db = Inr page"
    and "page_items page = map summary_of (take (unat (list_limit command)) (reference_list command db))"
    and "page_next_cursor page =
      (if unat (list_limit command) < length (reference_list command db)
       then Some \<lparr>cursor_sort_time = prj_douban_sort_time (sum_projection (last (page_items page))),
                  cursor_subject_id = subject_id (head_key (sum_head (last (page_items page))))\<rparr>
       else None)"
proof -
  let ?n = "unat (list_limit command)" and ?ref = "reference_list command db"
  obtain segments where seg: "segments_of command = Inr segments"
    using segments_ok [OF cmd] by blast
  let ?items = "map summary_of (concat (map (\<lambda>q. select_segment command (fst q) (snd q) db)
    (list_queries command segments)))"
  have win: "take (Suc ?n) (desc summary_order ?items) = map summary_of (take (Suc ?n) ?ref)"
    by (rule window_is_reference [OF ok dec seg])
  have lim: "list_limit_valid (list_limit command)" and pos: "0 < ?n"
    using cmd by (auto simp: command_valid_def list_limit_valid_def word_le_nat_alt)
  let ?page = "map summary_of (take ?n ?ref)"
  have cursor: "list_cursor_try_new (prj_douban_sort_time (sum_projection (last ?page)))
      (subject_id (head_key (sum_head (last ?page))))
    = Inr \<lparr>cursor_sort_time = prj_douban_sort_time (sum_projection (last ?page)),
           cursor_subject_id = subject_id (head_key (sum_head (last ?page)))\<rparr>" if "?n < length ?ref"
  proof -
    have "last ?page \<in> set ?page"
      using that pos by (intro last_in_set) auto
    then obtain r where "r \<in> set ?ref" "last ?page = summary_of r"
      by (auto dest: in_set_takeD)
    moreover from this have "r \<in> set (db_rows db)" by (simp add: set_reference)
    ultimately have "valid_text (subject_id (head_key (sum_head (last ?page))))"
      using rows_decode_summary [OF dec, of r] ok
      by (auto simp: db_ok_def try_into_summary_Inr head_texts_def)
    then show ?thesis by (simp add: list_cursor_try_new_def and_then_Inr_iff)
  qed
  have more: "?n < length (map summary_of (take (Suc ?n) ?ref)) \<longleftrightarrow> ?n < length ?ref"
    by auto
  have "list_summaries env command db = Inr \<lparr>page_items = ?page, page_next_cursor =
      (if ?n < length ?ref
       then Some \<lparr>cursor_sort_time = prj_douban_sort_time (sum_projection (last ?page)),
                  cursor_subject_id = subject_id (head_key (sum_head (last ?page)))\<rparr>
       else None)\<rparr>"
  proof (cases "?n < length ?ref")
    case True
    then show ?thesis
      unfolding list_summaries_def Let_def seg and_then_simps read_segments_ok [OF ff dec] win
      using cursor lim by (simp add: take_map)
  next
    case False
    then show ?thesis
      unfolding list_summaries_def Let_def seg and_then_simps read_segments_ok [OF ff dec] win
      using lim by simp
  qed
  then show thesis by (rule that) simp_all
qed

text \<open>C20. A page of the list is a page of one ordered list: for every filter, cursor and limit the
  code accepts, the bounded queries over the four index partitions merge into the first \<open>limit\<close> rows
  after the cursor of the account's matching rows in descending (sort time, subject) order with
  NULLs last, and the next cursor is present exactly when more rows follow.\<close>

theorem page_is_reference_prefix:
  assumes "db_ok db" and "rows_decode db" and "fault_free env" and "command_valid command"
  shows "\<exists>page. list_summaries env command db = Inr page \<and>
    page_items page = map summary_of (take (unat (list_limit command)) (reference_list command db)) \<and>
    (page_next_cursor page = None \<longleftrightarrow> length (reference_list command db) \<le> unat (list_limit command)) \<and>
    sorted_wrt (\<lambda>a b. row_order b < row_order a) (reference_list command db)"
  by (rule list_summaries_page [OF assms])
     (use descending_reference [OF assms(1), of command] in \<open>auto simp: descending_def\<close>)

definition list_sample :: list_command where
  "list_sample = \<lparr>list_account_key = ''acc'',
     list_filter = \<lparr>filter_active = None, filter_media_kind = Some Movie,
       filter_lifecycle_state = None, filter_attention_tag = None\<rparr>,
     list_cursor = None, list_limit = 1\<rparr>"

definition list_db :: database where
  "list_db = \<lparr>db_rows =
     [idle_row\<lparr>col_douban_sort_time := None, col_subject_id := ''s0''\<rparr>, idle_row,
      idle_row\<lparr>col_subject_id := ''s2''\<rparr>],
     db_meta = [], db_logs = [], db_log_sequence = 0\<rparr>"

lemma list_sample_ok: "db_ok list_db" "rows_decode list_db" "command_valid list_sample"
  by code_simp+

theorem page_is_reference_prefix_witness:
  "\<exists>page. list_summaries sample_env list_sample list_db = Inr page \<and>
     map (\<lambda>s. subject_id (head_key (sum_head s))) (page_items page) = [''s2'']"
proof -
  have "map (\<lambda>r. subject_id (head_key (sum_head (summary_of r))))
      (take 1 (reference_list list_sample list_db)) = [''s2'']"
    by code_simp
  moreover have "unat (list_limit list_sample) = 1" by code_simp
  ultimately show ?thesis
    using page_is_reference_prefix [OF list_sample_ok(1,2) sample_envs(1) list_sample_ok(3)]
    by (auto simp: o_def)
qed

subsection \<open>Walking the pages\<close>

text \<open>A client that follows the cursors, for at most \<open>n\<close> pages.\<close>

fun walk_pages ::
  "nat \<Rightarrow> repo_env \<Rightarrow> list_command \<Rightarrow> database \<Rightarrow> subscription_summary list option" where
  "walk_pages 0 env command db = None"
| "walk_pages (Suc n) env command db =
     (case list_summaries env command db of
        Inl _ \<Rightarrow> None
      | Inr page \<Rightarrow>
          (case page_next_cursor page of
             None \<Rightarrow> Some (page_items page)
           | Some c \<Rightarrow> map_option (\<lambda>rest. page_items page @ rest)
               (walk_pages n env (command\<lparr>list_cursor := Some c\<rparr>) db)))"

text \<open>The cursor of a page asks for what follows the page.\<close>

lemma cursor_after_page:
  assumes ok: "db_ok db" and dec: "rows_decode db" and valid: "command_valid command"
    and more: "unat (list_limit command) < length (reference_list command db)"
    and items: "items = map summary_of (take (unat (list_limit command)) (reference_list command db))"
    and c: "c = \<lparr>cursor_sort_time = prj_douban_sort_time (sum_projection (last items)),
      cursor_subject_id = subject_id (head_key (sum_head (last items)))\<rparr>"
  shows "reference_list (command\<lparr>list_cursor := Some c\<rparr>) db
      = drop (unat (list_limit command)) (reference_list command db)"
    and "command_valid (command\<lparr>list_cursor := Some c\<rparr>)"
proof -
  let ?ref = "reference_list command db" and ?k = "unat (list_limit command)"
  have pos: "0 < ?k" using valid by (auto simp: command_valid_def list_limit_valid_def word_le_nat_alt)
  define r where "r = ?ref ! (?k - 1)"
  have split: "?ref = take (?k - 1) ?ref @ r # drop ?k ?ref"
    using more pos id_take_nth_drop [of "?k - 1" ?ref] by (simp add: r_def)
  have last: "last items = summary_of r"
    using more pos by (subst last_conv_nth) (auto simp: items r_def min_def)
  have mem: "r \<in> set (db_rows db)"
    using more pos nth_mem [of "?k - 1" ?ref] set_reference [of command db] by (auto simp: r_def)
  have "cursor_order c = row_order r"
    using summary_order_of [OF ok dec mem] by (simp add: c cursor_order_def summary_order_def last)
  then show "reference_list (command\<lparr>list_cursor := Some c\<rparr>) db = drop ?k ?ref"
    by (rule reference_after [OF ok split])
  have "row_ok r" using ok mem by (simp add: db_ok_def)
  with rows_decode_summary [OF dec mem]
  have "opt_all (\<lambda>t. uint t \<le> i64_max) (prj_douban_sort_time (sum_projection (summary_of r)))"
    by (cases "prj_douban_sort_time (sum_projection (summary_of r))")
      (auto simp: try_into_summary_Inr summary_columns_def row_ok_def integer_columns_def)
  with valid show "command_valid (command\<lparr>list_cursor := Some c\<rparr>)" by (simp add: command_valid_def c last)
qed

text \<open>C21. The pages partition the list: following the cursors from the first page ends after at most
  one page per row and returns every matching row of the account exactly once, in order, without a
  gap or a repetition.\<close>

theorem pages_partition_the_list:
  assumes "db_ok db" and "rows_decode db" and "fault_free env" and "command_valid command"
    and "length (reference_list command db) < n"
  shows "walk_pages n env command db = Some (map summary_of (reference_list command db))"
  using assms(4,5)
proof (induction n arbitrary: command)
  case (Suc n)
  let ?ref = "reference_list command db" and ?k = "unat (list_limit command)"
  have pos: "0 < ?k"
    using Suc.prems(1) by (auto simp: command_valid_def list_limit_valid_def word_le_nat_alt)
  show ?case
  proof (rule list_summaries_page [OF assms(1-3) Suc.prems(1)])
    fix page :: list_page
    let ?c = "\<lparr>cursor_sort_time = prj_douban_sort_time (sum_projection (last (page_items page))),
      cursor_subject_id = subject_id (head_key (sum_head (last (page_items page))))\<rparr>"
    assume page: "list_summaries env command db = Inr page"
      "page_items page = map summary_of (take ?k ?ref)"
      "page_next_cursor page = (if ?k < length ?ref then Some ?c else None)"
    show ?case
    proof (cases "?k < length ?ref")
      case False
      with page show ?thesis by simp
    next
      case True
      note after = cursor_after_page [OF assms(1,2) Suc.prems(1) True page(2) refl]
      have "length (drop ?k ?ref) < n" using Suc.prems(2) True pos by simp
      with Suc.IH [OF after(2)] after(1)
      have "walk_pages n env (command\<lparr>list_cursor := Some ?c\<rparr>) db = Some (map summary_of (drop ?k ?ref))"
        by simp
      with page True show ?thesis by (simp add: map_append [symmetric] del: map_append)
    qed
  qed
qed simp

theorem pages_partition_the_list_witness:
  "map_option (map (\<lambda>s. subject_id (head_key (sum_head s)))) (walk_pages 4 sample_env list_sample list_db)
     = Some [''s2'', ''s1'', ''s0'']"
proof -
  have len: "length (reference_list list_sample list_db) < 4"
    and subjects: "map (\<lambda>r. subject_id (head_key (sum_head (summary_of r))))
      (reference_list list_sample list_db) = [''s2'', ''s1'', ''s0'']"
    by code_simp+
  show ?thesis
    unfolding pages_partition_the_list [OF list_sample_ok(1,2) sample_envs(1) list_sample_ok(3) len]
    using subjects by (simp add: o_def)
qed

end
