(* ===== verification/Operation_Logs.thy ===== *)
theory Operation_Logs
  imports List_Theorems
begin

text \<open>
  The operation log: \<open>src/subscription/operation_logs.rs\<close>,
  \<open>src/storage/subscription_repo/operation_logs.rs\<close> and the retention of
  \<open>src/storage/operation_log_retention.rs\<close>. An entry is appended and the log of its account cut
  in one transaction; a query pages over the newest entries first. SQLite's \<open>LIKE\<close> is a parameter.
\<close>

subsection \<open>Entries\<close>

record operation_log_entry =
  ole_id :: u64
  ole_account_key :: string
  ole_created_at :: u64
  ole_category :: string
  ole_action :: string
  ole_target_type :: string
  ole_target_id :: "string option"
  ole_target_title :: "string option"
  ole_status :: string
  ole_summary :: string
  ole_error :: "string option"
  ole_related :: json

record new_operation_log_entry =
  new_account_key :: string
  new_created_at :: u64
  new_category :: string
  new_action :: string
  new_target_type :: string
  new_target_id :: "string option"
  new_target_title :: "string option"
  new_status :: string
  new_summary :: string
  new_error :: "string option"
  new_related :: json

record operation_log_query =
  lq_account_key :: "string option"
  lq_category :: "string option"
  lq_status :: "string option"
  lq_q :: "string option"
  lq_page :: "u32 option"
  lq_page_size :: "u32 option"

record operation_log_page =
  lp_items :: "operation_log_entry list"
  lp_page :: u32
  lp_page_size :: u32
  lp_total :: u64
  lp_has_more :: bool

text \<open>\<open>RawOperationLog::try_into_entry\<close>; the JSON text of \<open>related\<close> is kept as what it denotes.\<close>

definition log_try_into_entry :: "log_row \<Rightarrow> operation_log_entry repository_result" where
  "log_try_into_entry r =
     and_then (checked_u64 ''operation_log.id'' (log_id r)) (\<lambda>i.
     and_then (checked_u64 ''operation_log.created_at'' (log_created_at r)) (\<lambda>created.
     Inr \<lparr>ole_id = i, ole_account_key = log_account_key r, ole_created_at = created,
          ole_category = log_category r, ole_action = log_action r, ole_target_type = log_target_type r,
          ole_target_id = log_target_id r, ole_target_title = log_target_title r,
          ole_status = log_status r, ole_summary = log_summary r, ole_error = log_error r,
          ole_related = log_related r\<rparr>))"

subsection \<open>Retention\<close>

record operation_log_retention =
  max_age_secs :: "u64 option"
  max_rows_per_account :: "u64 option"

definition retention_from_limits :: "u64 \<Rightarrow> u64 \<Rightarrow> operation_log_retention" where
  "retention_from_limits age rows =
     \<lparr>max_age_secs = (if 0 < age then Some age else None),
      max_rows_per_account = (if 0 < rows then Some rows else None)\<rparr>"

record operation_log_cleanup_report =
  deleted_by_age :: nat
  deleted_by_count :: nat

definition sqlite_integer :: "u64 \<Rightarrow> int" where
  "sqlite_integer v = (case i64_try_from v of None \<Rightarrow> i64_max | Some i \<Rightarrow> i)"

text \<open>\<open>DELETE FROM operation_logs WHERE p\<close>, with the number of deleted rows\<close>

definition delete_logs :: "(log_row \<Rightarrow> bool) \<Rightarrow> log_row list \<Rightarrow> nat \<times> log_row list" where
  "delete_logs p logs = (length (filter p logs), filter (\<lambda>r. \<not> p r) logs)"

definition log_order :: "log_row \<Rightarrow> int \<times> int" where
  "log_order r = (log_created_at r, log_id r)"

text \<open>\<open>WHERE account_key = ?1 ORDER BY created_at DESC, id DESC LIMIT ?2\<close>\<close>

definition newest_logs :: "string \<Rightarrow> int \<Rightarrow> log_row list \<Rightarrow> log_row list" where
  "newest_logs account limit logs =
     take (nat limit) (desc log_order (filter (\<lambda>r. log_account_key r = account) logs))"

definition expired_log :: "string \<Rightarrow> u64 \<Rightarrow> u64 \<Rightarrow> log_row \<Rightarrow> bool" where
  "expired_log account now age r \<longleftrightarrow>
     log_account_key r = account \<and> log_created_at r < sqlite_integer (if now \<le> age then 0 else now - age)"

definition surplus_log :: "string \<Rightarrow> u64 \<Rightarrow> log_row list \<Rightarrow> log_row \<Rightarrow> bool" where
  "surplus_log account limit logs r \<longleftrightarrow>
     log_account_key r = account \<and> log_id r \<notin> log_id ` set (newest_logs account (sqlite_integer limit) logs)"

text \<open>\<open>cleanup_operation_logs_for_account\<close>; its errors are mapped by the caller.\<close>

definition cleanup_operation_logs ::
  "repo_env \<Rightarrow> string \<Rightarrow> u64 \<Rightarrow> operation_log_retention \<Rightarrow> log_row list
    \<Rightarrow> (operation_log_cleanup_report \<times> log_row list) repository_result" where
  "cleanup_operation_logs env account now retention logs =
     (let call = (\<lambda>n. sql_call env n ''apply operation log retention'') in
      and_then (case max_age_secs retention of
          None \<Rightarrow> Inr (0, 0, logs)
        | Some age \<Rightarrow> and_then (call 0) (\<lambda>_. Inr (1, delete_logs (expired_log account now age) logs)))
        (\<lambda>(calls, by_age, kept).
      and_then (case max_rows_per_account retention of
          None \<Rightarrow> Inr (0, kept)
        | Some limit \<Rightarrow> and_then (call calls) (\<lambda>_. Inr (delete_logs (surplus_log account limit kept) kept)))
        (\<lambda>(by_count, kept').
      Inr (\<lparr>deleted_by_age = by_age, deleted_by_count = by_count\<rparr>, kept'))))"

subsection \<open>Appending\<close>

definition row_of_entry :: "int \<Rightarrow> int \<Rightarrow> new_operation_log_entry \<Rightarrow> log_row" where
  "row_of_entry i created e =
     \<lparr>log_id = i, log_account_key = new_account_key e, log_created_at = created,
      log_category = new_category e, log_action = new_action e, log_target_type = new_target_type e,
      log_target_id = new_target_id e, log_target_title = new_target_title e,
      log_status = new_status e, log_summary = new_summary e, log_error = new_error e,
      log_related = new_related e\<rparr>"

definition append_operation_log_body ::
  "repo_env \<Rightarrow> new_operation_log_entry \<Rightarrow> int \<Rightarrow> operation_log_retention \<Rightarrow> database
    \<Rightarrow> (operation_log_entry \<times> database) repository_result" where
  "append_operation_log_body env entry created retention db =
     and_then (sql_call env 0 ''begin operation log insert'') (\<lambda>_.
     and_then (sql_call env 0 ''insert operation log'') (\<lambda>_.
     let i = db_log_sequence db + 1; row = row_of_entry i created entry; logs = db_logs db @ [row] in
     and_then (sql_call env 0 ''reload inserted operation log'') (\<lambda>_.
     and_then (log_try_into_entry row) (\<lambda>inserted.
     and_then (cleanup_operation_logs env (ole_account_key inserted) (ole_created_at inserted) retention logs)
       (\<lambda>(report, kept).
     and_then (sql_call env 0 ''commit operation log insert'') (\<lambda>_.
     Inr (inserted, db\<lparr>db_log_sequence := i, db_logs := kept\<rparr>)))))))"

definition append_operation_log ::
  "repo_env \<Rightarrow> new_operation_log_entry \<Rightarrow> operation_log_retention \<Rightarrow> database
    \<Rightarrow> operation_log_entry repository_result \<times> database" where
  "append_operation_log env entry retention db =
     (case command_integer ''operation_log.created_at'' (new_created_at entry) of
        Inl e \<Rightarrow> (Inl e, db)
      | Inr created \<Rightarrow> run_transaction (append_operation_log_body env entry created retention) db)"

subsection \<open>Queries\<close>

text \<open>\<open>append_exact_filter\<close>: the value a column must have\<close>

definition exact_filter :: "string option \<Rightarrow> bool \<Rightarrow> string option" where
  "exact_filter v accepts_all =
     (case v of None \<Rightarrow> None
      | Some s \<Rightarrow>
          (let t = str_trim s in
           if t = [] \<or> (accepts_all \<and> t = ''all'') then None else Some t))"

definition matches_pattern :: "(string \<Rightarrow> string \<Rightarrow> bool) \<Rightarrow> string \<Rightarrow> log_row \<Rightarrow> bool" where
  "matches_pattern like pattern r \<longleftrightarrow>
     like pattern (log_summary r) \<or> like pattern (log_action r) \<or>
     (\<exists>s \<in> set_option (log_target_id r). like pattern s) \<or>
     (\<exists>s \<in> set_option (log_target_title r). like pattern s) \<or>
     (\<exists>s \<in> set_option (log_error r). like pattern s)"

definition log_where :: "(string \<Rightarrow> string \<Rightarrow> bool) \<Rightarrow> operation_log_query \<Rightarrow> log_row \<Rightarrow> bool" where
  "log_where like query r \<longleftrightarrow>
     is_none_or (\<lambda>v. log_account_key r = v) (exact_filter (lq_account_key query) False) \<and>
     is_none_or (\<lambda>v. log_category r = v) (exact_filter (lq_category query) True) \<and>
     is_none_or (\<lambda>v. log_status r = v) (exact_filter (lq_status query) True) \<and>
     (case lq_q query of None \<Rightarrow> True
      | Some q \<Rightarrow> str_trim q = [] \<or> matches_pattern like (CHR ''%'' # str_trim q @ ''%'') r)"

definition query_page :: "operation_log_query \<Rightarrow> u32" where
  "query_page query = max (case lq_page query of None \<Rightarrow> 1 | Some p \<Rightarrow> p) 1"

definition query_page_size :: "operation_log_query \<Rightarrow> u32" where
  "query_page_size query = min (max (case lq_page_size query of None \<Rightarrow> 30 | Some n \<Rightarrow> n) 1) 100"

definition query_offset :: "operation_log_query \<Rightarrow> u64" where
  "query_offset query = ucast (query_page query - 1) * ucast (query_page_size query)"

definition query_operation_logs ::
  "repo_env \<Rightarrow> (string \<Rightarrow> string \<Rightarrow> bool) \<Rightarrow> operation_log_query \<Rightarrow> database
    \<Rightarrow> operation_log_page repository_result" where
  "query_operation_logs env like query db =
     (let found = filter (log_where like query) (db_logs db);
          offset = query_offset query; page_size = query_page_size query in
      and_then (sql_call env 0 ''count operation logs'') (\<lambda>_.
      and_then (checked_u64 ''operation_logs.total'' (int (length found))) (\<lambda>total_rows.
      and_then (sql_call env 0 ''prepare operation log list'') (\<lambda>_.
      and_then (sql_call env 0 ''query operation log list'') (\<lambda>_.
      and_then (sql_call env 0 ''decode operation log list'') (\<lambda>_.
      and_then (map_results log_try_into_entry
          (take (unat page_size) (drop (unat offset) (desc log_order found)))) (\<lambda>items.
      let shown = saturating_add offset (of_nat (length items)) in
      Inr \<lparr>lp_items = items, lp_page = query_page query, lp_page_size = page_size,
           lp_total = total_rows, lp_has_more = (shown < total_rows)\<rparr>)))))))"

section \<open>Retention\<close>

text \<open>What the retention of the operation log keeps: the newest entries of each account.\<close>

text \<open>The identifiers that \<open>AUTOINCREMENT\<close> gave: distinct, and none above the sequence\<close>

definition logs_ok :: "database \<Rightarrow> bool" where
  "logs_ok db \<longleftrightarrow> distinct (map log_id (db_logs db)) \<and> (\<forall>r \<in> set (db_logs db). log_id r \<le> db_log_sequence db)"

lemma distinct_log_order: "distinct (map log_id logs) \<Longrightarrow> distinct (map log_order logs)"
  by (auto simp: distinct_map inj_on_def log_order_def)

lemma desc_filter: "distinct (map k xs) \<Longrightarrow> desc k (filter p xs) = filter p (desc k xs)"
  by (rule descending_unique)
    (auto intro!: descending_desc descending_filter simp: distinct_map intro: inj_on_subset)

lemma desc_kept:
  assumes "distinct (map k xs)"
  shows "desc k (filter (\<lambda>x. x \<in> set (take n (desc k xs))) xs) = take n (desc k xs)"
proof (rule descending_unique)
  show "descending k (desc k (filter (\<lambda>x. x \<in> set (take n (desc k xs))) xs))"
    using assms by (intro descending_desc) (auto simp: distinct_map intro: inj_on_subset)
  show "descending k (take n (desc k xs))"
    using descending_desc [OF assms] descending_append [of k "take n (desc k xs)" "drop n (desc k xs)"] by simp
  show "set (desc k (filter (\<lambda>x. x \<in> set (take n (desc k xs))) xs)) = set (take n (desc k xs))"
    using set_take_subset [of n "desc k xs"] by auto
qed

lemma same_log:
  "distinct (map log_id logs) \<Longrightarrow> r \<in> set logs \<Longrightarrow> set rs \<subseteq> set logs \<Longrightarrow> log_id r \<in> log_id ` set rs \<longleftrightarrow> r \<in> set rs"
  by (auto simp: distinct_map inj_on_def)

text \<open>The log of an account, newest first, and what the retention leaves of it\<close>

definition account_log :: "string \<Rightarrow> log_row list \<Rightarrow> log_row list" where
  "account_log account logs = desc log_order (filter (\<lambda>r. log_account_key r = account) logs)"

definition retained_log :: "operation_log_retention \<Rightarrow> u64 \<Rightarrow> log_row list \<Rightarrow> log_row list" where
  "retained_log retention now logs =
     (let young = filter (\<lambda>r. is_none_or
            (\<lambda>age. sqlite_integer (if now \<le> age then 0 else now - age) \<le> log_created_at r) (max_age_secs retention)) logs
      in case max_rows_per_account retention of None \<Rightarrow> young | Some n \<Rightarrow> take (nat (sqlite_integer n)) young)"

lemma cleanup_keeps_newest:
  assumes "cleanup_operation_logs env account now retention logs = Inr (report, kept)"
    and dist: "distinct (map log_id logs)"
  shows "account_log account kept = retained_log retention now (account_log account logs)"
    and "filter (\<lambda>r. log_account_key r \<noteq> account) kept = filter (\<lambda>r. log_account_key r \<noteq> account) logs"
    and "distinct (map log_id kept)" and "set kept \<subseteq> set logs"
proof -
  define young where "young = filter (\<lambda>r. \<not> (case max_age_secs retention of None \<Rightarrow> False
    | Some age \<Rightarrow> expired_log account now age r)) logs"
  have kept: "kept = (case max_rows_per_account retention of None \<Rightarrow> young
      | Some n \<Rightarrow> filter (\<lambda>r. \<not> surplus_log account n young r) young)"
    using assms(1) by (auto simp: cleanup_operation_logs_def Let_def young_def delete_logs_def split: option.splits)
  have dist_young: "distinct (map log_id young)"
    unfolding young_def by (rule distinct_map_filter [OF dist])
  show "distinct (map log_id kept)"
    using dist_young by (simp add: kept distinct_map_filter split: option.split)
  show "set kept \<subseteq> set logs"
    by (auto simp: kept young_def split: option.splits)
  show "filter (\<lambda>r. log_account_key r \<noteq> account) kept = filter (\<lambda>r. log_account_key r \<noteq> account) logs"
    by (auto simp: kept young_def surplus_log_def expired_log_def intro!: filter_cong split: option.splits)
  let ?mine = "filter (\<lambda>r. log_account_key r = account)"
  have order: "distinct (map log_order (?mine logs))" "distinct (map log_order (?mine young))"
    using dist dist_young by (simp_all add: distinct_log_order distinct_map_filter)
  have "?mine young = filter (\<lambda>r. is_none_or
      (\<lambda>age. sqlite_integer (if now \<le> age then 0 else now - age) \<le> log_created_at r) (max_age_secs retention)) (?mine logs)"
    by (auto simp: young_def expired_log_def is_none_or_def intro!: filter_cong split: option.splits)
  then have aged: "account_log account young = filter (\<lambda>r. is_none_or
      (\<lambda>age. sqlite_integer (if now \<le> age then 0 else now - age) \<le> log_created_at r) (max_age_secs retention))
      (account_log account logs)"
    using desc_filter [OF order(1)] by (simp add: account_log_def)
  show "account_log account kept = retained_log retention now (account_log account logs)"
  proof (cases "max_rows_per_account retention")
    case None
    then show ?thesis by (simp add: kept aged retained_log_def)
  next
    case (Some n)
    let ?newest = "newest_logs account (sqlite_integer n) young"
    have "set ?newest \<subseteq> set young"
      using set_take_subset by (fastforce simp: newest_logs_def)
    then have "?mine kept = filter (\<lambda>r. r \<in> set ?newest) (?mine young)"
      using same_log [OF dist_young] by (auto simp: kept Some surplus_log_def intro!: filter_cong)
    then have "account_log account kept = take (nat (sqlite_integer n)) (account_log account young)"
      using desc_kept [OF order(2)] by (simp add: account_log_def newest_logs_def)
    with Some aged show ?thesis by (simp add: retained_log_def)
  qed
qed

text \<open>C36. Appending an entry leaves of its account the newest entries that the limits allow, the new one among
  the candidates, keeps the log of every other account and every subscription as they are, and
  gives the entry an identifier that no entry has.\<close>

theorem retention_keeps_the_newest:
  assumes "append_operation_log env entry retention db = (Inr inserted, db')" and "logs_ok db"
  shows "logs_ok db' \<and> db_rows db' = db_rows db \<and> db_meta db' = db_meta db \<and>
    (let new_row = row_of_entry (db_log_sequence db + 1) (uint (new_created_at entry)) entry;
         account = new_account_key entry in
     log_id new_row \<notin> log_id ` set (db_logs db) \<and>
     account_log account (db_logs db') =
       retained_log retention (new_created_at entry) (account_log account (db_logs db @ [new_row])) \<and>
     filter (\<lambda>r. log_account_key r \<noteq> account) (db_logs db') = filter (\<lambda>r. log_account_key r \<noteq> account) (db_logs db))"
proof -
  let ?row = "row_of_entry (db_log_sequence db + 1) (uint (new_created_at entry)) entry"
  obtain report kept where cleanup: "cleanup_operation_logs env (new_account_key entry) (new_created_at entry) retention
        (db_logs db @ [?row]) = Inr (report, kept)"
    and db': "db' = db\<lparr>db_log_sequence := db_log_sequence db + 1, db_logs := kept\<rparr>"
    using assms(1)
    by (auto simp: append_operation_log_def append_operation_log_body_def run_transaction_def Let_def
        command_integer_def log_try_into_entry_def row_of_entry_def checked_u64_def and_then_Inr_iff
        split: sum.splits)
  have fresh: "log_id ?row \<notin> log_id ` set (db_logs db)" and "log_id ?row = db_log_sequence db + 1"
    using assms(2) by (auto simp: logs_ok_def row_of_entry_def)
  moreover from this assms(2) have "distinct (map log_id (db_logs db @ [?row]))" by (simp add: logs_ok_def)
  note kept = cleanup_keeps_newest [OF cleanup this]
  moreover have "log_id r \<le> db_log_sequence db + 1" if "r \<in> set kept" for r
    using kept(4) that assms(2) by (fastforce simp: logs_ok_def row_of_entry_def)
  ultimately show ?thesis
    using kept(1-3) by (simp add: db' Let_def logs_ok_def row_of_entry_def)
qed

definition sample_entry :: new_operation_log_entry where
  "sample_entry = \<lparr>new_account_key = ''acc'', new_created_at = 90, new_category = ''config'', new_action = ''save'',
     new_target_type = ''config'', new_target_id = None, new_target_title = None, new_status = ''success'',
     new_summary = ''saved'', new_error = None, new_related = JNull\<rparr>"

definition log_db :: database where
  "log_db = idle_db\<lparr>db_logs := map (\<lambda>i. (row_of_entry i (20 * i) sample_entry)) [1, 2, 3, 4], db_log_sequence := 4\<rparr>"

theorem retention_keeps_the_newest_witness:
  "map log_id (account_log ''acc'' (db_logs (snd (append_operation_log sample_env sample_entry
     (retention_from_limits 40 2) log_db)))) = [5, 4]"
proof -
  obtain inserted db' where appended: "append_operation_log sample_env sample_entry (retention_from_limits 40 2) log_db = (Inr inserted, db')"
    by (rule that, code_simp)
  have "logs_ok log_db" by code_simp
  from retention_keeps_the_newest [OF appended this]
  have "account_log ''acc'' (db_logs db') = retained_log (retention_from_limits 40 2) 90
      (account_log ''acc'' (db_logs log_db @ [row_of_entry 5 90 sample_entry]))"
    by (simp add: Let_def sample_entry_def log_db_def)
  also have "map log_id \<dots> = [5, 4]" by code_simp
  finally show ?thesis by (simp add: appended)
qed

end
