(* ===== verification/Repository_History.thy ===== *)
theory Repository_History
  imports Poll_History Operation_Logs
begin

text \<open>
  The whole repository as one step relation: the six execution transactions, the five
  mutations outside an attempt, the four poll transactions and the entry of the operation log
  with its retention, under any environment. Only a poll writes an account row, no transaction
  deletes a row, and the invariants of both tables hold along every history. The log alone
  shrinks: its retention deletes entries.
\<close>

subsection \<open>Who writes account rows\<close>

lemma keyed_update_meta: "keyed_update key p f db = Inr (n, db') \<Longrightarrow> db_meta db' = db_meta db"
  by (drule keyed_update_Inr(1)) simp

lemma allocate_attempt_meta:
  assumes "allocate_attempt env previous (claim_statement key rv op prev lease now) db ks = Inr (Some (a, db'))"
  shows "db_meta db' = db_meta db"
proof -
  have "claim_statement key rv op prev lease now a db = Inr (Inr (Suc 0, db'))"
    using allocate_attempt_Some [OF assms] by blast
  then show ?thesis
    by (auto simp: claim_statement_def Let_def and_then_Inr_iff dest!: keyed_update_meta
        split: option.splits if_split_asm)
qed

lemma persist_claim_meta:
  assumes "persist_claim env st e trigger now ttl db = Inr (claimed, db')"
  shows "db_meta db' = db_meta db"
  using assms unfolding persist_claim_def Let_def case_prod_beta append_claim_audit_def
  by (elim and_then_InrE) (auto split: if_split_asm execution_controls.splits dest!: allocate_attempt_meta append_audit_meta)

lemma claim_meta:
  "claim_due env c db = (Inr x, db') \<Longrightarrow> db_meta db' = db_meta db"
  "claim_one env d db = (Inr y, db') \<Longrightarrow> db_meta db' = db_meta db"
  unfolding claim_due_def claim_one_def run_transaction_Inr claim_due_body_def claim_one_body_def
  by (auto split: option.splits classification.splits if_split_asm dest!: persist_claim_meta)

text \<open>A body that ends, when it succeeds, in a database with the property \<open>Q\<close>.\<close>

definition leaves :: "(database \<Rightarrow> bool) \<Rightarrow> ('a \<times> database) repository_result \<Rightarrow> bool" where
  "leaves Q m \<longleftrightarrow> (\<forall>x db'. m = Inr (x, db') \<longrightarrow> Q db')"

abbreviation leaves_metas :: "meta_row list \<Rightarrow> ('a \<times> database) repository_result \<Rightarrow> bool" where
  "leaves_metas M \<equiv> leaves (\<lambda>db'. db_meta db' = M)"

named_theorems leaves_rules

lemma leaves_bind [leaves_rules]:
  "(\<And>x. m = Inr x \<Longrightarrow> leaves Q (k x)) \<Longrightarrow> leaves Q (and_then m k)"
  by (auto simp: leaves_def and_then_Inr_iff)

lemma leaves_error [leaves_rules]: "leaves Q (Inl e)"
  by (simp add: leaves_def)

lemma leaves_return [leaves_rules]: "Q db \<Longrightarrow> leaves Q (Inr (x, db))"
  by (simp add: leaves_def)

lemma leaves_if [leaves_rules]:
  "(b \<Longrightarrow> leaves Q m) \<Longrightarrow> (\<not> b \<Longrightarrow> leaves Q n) \<Longrightarrow> leaves Q (if b then m else n)"
  by simp

lemma leaves_prod [leaves_rules]:
  "(\<And>a b. p = (a, b) \<Longrightarrow> leaves Q (k a b)) \<Longrightarrow> leaves Q (case p of (a, b) \<Rightarrow> k a b)"
  by (cases p) simp

lemma leaves_option [leaves_rules]:
  "(v = None \<Longrightarrow> leaves Q m) \<Longrightarrow> (\<And>a. v = Some a \<Longrightarrow> leaves Q (k a)) \<Longrightarrow>
     leaves Q (case v of None \<Rightarrow> m | Some a \<Rightarrow> k a)"
  by (cases v) simp_all

lemma leaves_controls [leaves_rules]:
  "(v = ControlsIdle \<Longrightarrow> leaves Q m) \<Longrightarrow>
   (\<And>a. v = ControlsRunning a \<Longrightarrow> leaves Q (k a)) \<Longrightarrow>
     leaves Q (case v of ControlsIdle \<Rightarrow> m | ControlsRunning a \<Rightarrow> k a)"
  by (cases v) simp_all

lemma leaves_transaction: "leaves Q (body db) \<Longrightarrow> Q db \<Longrightarrow> Q (snd (run_transaction body db))"
  by (auto simp: leaves_def run_transaction_def split: sum.split)

lemma executed_meta:
  "sql_execute env n context (keyed_update key p f db) = Inr (k, db') \<Longrightarrow> db_meta db' = db_meta db"
  by (auto simp: sql_execute_Inr dest: keyed_update_meta)

lemma meta_transaction:
  "leaves_metas (db_meta db) (body db) \<Longrightarrow> db_meta (snd (run_transaction body db)) = db_meta db"
  by (rule leaves_transaction [where Q = "\<lambda>db'. db_meta db' = db_meta db"]) simp_all

lemma fenced_meta:
  "leaves_metas (db_meta db) (extend_lease_body env c1 db)"
  "leaves_metas (db_meta db) (finish_body env c2 db)"
  "leaves_metas (db_meta db) (fail_body env c3 db)"
  "leaves_metas (db_meta db) (release_body env c4 db)"
  unfolding extend_lease_body_def finish_body_def fail_body_def release_body_def Let_def
  by (intro leaves_rules; hypsubst?; drule append_audit_meta; drule executed_meta; simp)+

lemma mutation_meta:
  "leaves_metas (db_meta db) (confirm_candidate_body env key torrent expected now replace db)"
  "leaves_metas (db_meta db) (force_retry_body env key now db)"
  unfolding confirm_candidate_body_def force_retry_body_def Let_def
  by (intro leaves_rules; hypsubst?; drule append_audit_meta; drule executed_meta; simp)+

lemma unaudited_meta:
  "leaves_metas (db_meta db) (add_manual_candidates_body env key expected cs now db)"
  "leaves_metas (db_meta db) (update_detail_body env c db)"
  unfolding add_manual_candidates_body_def update_detail_body_def Let_def
  by (intro leaves_rules; hypsubst?; drule executed_meta; simp)+

lemma backfill_all_meta:
  "backfill_all env n names (k, db) = Inr (k', db') \<Longrightarrow> db_meta db' = db_meta db"
proof (induction names arbitrary: n k db)
  case (Cons x names)
  obtain a s where x: "x = (a, s)" by fastforce
  from Cons.prems obtain k1 db1 where one: "backfill_one env n (a, s) (k, db) = Inr (k1, db1)"
      and rest: "backfill_all env (Suc n) names (k1, db1) = Inr (k', db')"
    by (auto simp: x)
  have "db_meta db1 = db_meta db"
    by (rule backfill_one_cases [OF one]) (auto dest: keyed_update_meta)
  with Cons.IH [OF rest] show ?case by simp
qed simp

lemma backfill_meta: "leaves_metas (db_meta db) (backfill_body env db)"
  unfolding backfill_body_def leaves_def Let_def
  by (auto split: prod.splits dest: backfill_all_meta)

subsection \<open>Rows only grow older\<close>

definition grown_database :: "database \<Rightarrow> database \<Rightarrow> bool" where
  "grown_database db db' \<longleftrightarrow>
     (\<forall>key r. find_row db key = Some r \<longrightarrow> (\<exists>r'. find_row db' key = Some r' \<and> later_row r r'))"

lemma grown_refl [simp]: "grown_database db db"
  by (simp add: grown_database_def later_row_def)

lemma grown_trans: "grown_database a b \<Longrightarrow> grown_database b c \<Longrightarrow> grown_database a c"
proof -
  assume ab: "grown_database a b" and bc: "grown_database b c"
  then show ?thesis
    unfolding grown_database_def by (meson later_row_trans)
qed

lemma later_grown: "later_database db db' \<Longrightarrow> grown_database db db'"
  unfolding later_database_def grown_database_def by (metis option_rel_Some1)

lemma row_write_grown: "row_write key db db' \<Longrightarrow> grown_database db db'"
proof -
  assume w: "row_write key db db'"
  have "\<exists>r'. find_row db' j = Some r' \<and> later_row r r'" if "find_row db j = Some r" for j r
    using w that by (cases "j = key") (auto simp: row_write_def later_row_def)
  with w show ?thesis by (auto simp: grown_database_def row_write_def)
qed

lemma keyed_update_grown:
  assumes ok: "db_ok db" and key: "\<And>r. row_key (f r) = row_key r"
    and rev: "\<And>r. col_revision (f r) = col_revision r + 1"
    and upd: "keyed_update key p f db = Inr (Suc 0, db')"
  shows "grown_database db db'"
proof -
  obtain r where "find_row db key = Some r" "find_row db' key = Some (f r)" "db_ok db'"
      "\<forall>j. j \<noteq> key \<longrightarrow> find_row db' j = find_row db j" "db_logs db' = db_logs db"
    using guarded_update [OF ok key upd] by metis
  then show ?thesis
    by (intro row_write_grown [of key]) (auto simp: row_write_def rev)
qed

lemma backfill_all_grown:
  "db_ok db \<Longrightarrow> backfill_all env n names (k, db) = Inr (k', db') \<Longrightarrow>
     db_ok db' \<and> grown_database db db'"
proof (induction names arbitrary: n k db)
  case (Cons x names)
  obtain a s where x: "x = (a, s)" by fastforce
  from Cons.prems obtain k1 db1 where one: "backfill_one env n (a, s) (k, db) = Inr (k1, db1)"
      and rest: "backfill_all env (Suc n) names (k1, db1) = Inr (k', db')"
    by (auto simp: x)
  have "db_ok db1" by (rule backfill_one_Inr(1) [OF Cons.prems(1) one])
  moreover have "grown_database db db1"
  proof (rule backfill_one_cases [OF one])
    fix d title p
    assume upd: "keyed_update \<lparr>account_key = a, subject_id = s\<rparr>
         (\<lambda>r. col_revision r = uint (revision_value (head_revision (det_head d))))
         (backfill_set title (encode_payload env p)) db = Inr (Suc 0, db1)"
    show ?thesis by (rule keyed_update_grown [OF Cons.prems(1) _ _ upd]) simp_all
  qed simp
  ultimately show ?case
    using Cons.IH [OF _ rest] grown_trans by blast
qed simp

lemma merge_grown:
  assumes "merge_progress db db'"
  shows "grown_database db db'"
proof -
  obtain es where es: "db_logs db' = db_logs db @ es"
      "\<And>key r. find_row db key = Some r \<Longrightarrow> \<exists>r'. find_row db' key = Some r' \<and> merged_row key es r r'"
    using assms by (auto simp: merge_progress_def)
  have "\<exists>r'. find_row db' key = Some r' \<and> later_row r r'" if "find_row db key = Some r" for key r
    using es(2) [OF that] by (auto simp: merged_row_def)
  with es(1) show ?thesis by (auto simp: grown_database_def)
qed

lemma incomplete_grown:
  assumes "db_ok db" and "metas_ok db" and "record_incomplete_snapshot env c db = (Inr x, db')"
  shows "grown_database db db'"
proof (rule record_incomplete_Inr [OF assms])
  fix cx db1
  assume merged: "snapshot_merged cx (ris_records c) db db1" and rows: "db_rows db' = db_rows db1"
    and logs: "db_logs db' = db_logs db1"
  have "grown_database db db1"
    using merged by (simp add: snapshot_merged_def merge_grown)
  then show ?thesis
    by (simp add: grown_database_def find_row_rows [OF rows] logs)
qed

lemma complete_grown:
  assumes "db_ok db" and "metas_ok db" and "apply_complete_snapshot env c db = (Inr x, db')"
  shows "grown_database db db'"
proof (rule apply_complete_Inr [OF assms])
  fix cx db1 at es
  assume merged: "snapshot_merged cx (acs_records c) db db1"
    and rows: "\<And>j. find_row db' j = map_option (\<lambda>r.
           if missing_where (acs_account_key c) (poll_snapshot_id (acs_token c)) r
           then deactivate_set at r else r) (find_row db1 j)"
    and logs: "db_logs db' = db_logs db1 @ es"
  have "grown_database db1 db'"
    using rows logs by (auto simp: grown_database_def later_row_def deactivate_set_def)
  moreover have "grown_database db db1"
    using merged merge_grown by (simp add: snapshot_merged_def)
  ultimately show ?thesis by (rule grown_trans [rotated])
qed

subsection \<open>The repository\<close>

datatype repository_operation =
    Execution store_operation
  | SearchManually "subscription_key \<times> u64 \<times> candidate_match_payload list \<times> u64"
  | ChooseTorrent "subscription_key \<times> string \<times> u64 \<times> u64 \<times> bool"
  | RetryNow "subscription_key \<times> u64"
  | BackfillTitles
  | UpdateDetail update_subscription_detail_command
  | OpenPoll begin_poll_command
  | FailPoll record_poll_failure_command
  | EndIncomplete record_incomplete_snapshot_command
  | EndComplete apply_complete_snapshot_command
  | AppendLog "new_operation_log_entry \<times> operation_log_retention"

fun run_repository :: "repo_env \<Rightarrow> repository_operation \<Rightarrow> database \<Rightarrow> database" where
  "run_repository env (Execution op) db = run_operation env op db"
| "run_repository env (SearchManually c) db = snd (manual_search env c db)"
| "run_repository env (ChooseTorrent c) db = snd (torrent_choice env c db)"
| "run_repository env (RetryNow c) db = snd (retry_request env c db)"
| "run_repository env BackfillTitles db = snd (backfill_metadata_titles env db)"
| "run_repository env (UpdateDetail c) db = snd (update_detail env c db)"
| "run_repository env (OpenPoll c) db = snd (begin_poll env c db)"
| "run_repository env (FailPoll c) db = snd (record_poll_failure env c db)"
| "run_repository env (EndIncomplete c) db = snd (record_incomplete_snapshot env c db)"
| "run_repository env (EndComplete c) db = snd (apply_complete_snapshot env c db)"
| "run_repository env (AppendLog c) db = snd (append_operation_log env (fst c) (snd c) db)"

inductive repository_step :: "database \<Rightarrow> database \<Rightarrow> bool" where
  transaction: "repository_step db (run_repository env op db)"

inductive_cases repository_stepE: "repository_step db db'"

definition repository_ok :: "database \<Rightarrow> bool" where
  "repository_ok db \<longleftrightarrow> db_ok db \<and> metas_ok db"

text \<open>What every transaction keeps.\<close>

definition kept :: "database \<Rightarrow> database \<Rightarrow> bool" where
  "kept db db' \<longleftrightarrow>
     repository_ok db' \<and> grown_database db db' \<and>
     (\<forall>a g. poll_spent db a g \<longrightarrow> poll_spent db' a g)"

lemma kept_refl: "repository_ok db \<Longrightarrow> kept db db"
  by (simp add: kept_def)

lemma kept_trans: "kept a b \<Longrightarrow> kept b c \<Longrightarrow> kept a c"
  by (auto simp: kept_def intro: grown_trans)

lemma rows_only_kept:
  assumes "repository_ok db" and "db_ok db'" and "grown_database db db'" and "db_meta db' = db_meta db"
  shows "kept db db'"
  using assms by (simp add: kept_def repository_ok_def metas_ok_def poll_spent_def find_meta_def)

lemma backfill_kept:
  assumes ok: "repository_ok db"
  shows "kept db (snd (backfill_metadata_titles env db))"
proof (cases "backfill_body env db")
  case (Inl e)
  then show ?thesis
    using kept_refl [OF ok] by (simp add: backfill_metadata_titles_def run_transaction_def)
next
  case (Inr y)
  obtain n db' where y: "y = (n, db')" by fastforce
  from Inr y obtain names k where "backfill_all env 0 names (0, db) = Inr (k, db')"
    by (auto simp: backfill_body_def split: prod.splits)
  then have "db_ok db'" "grown_database db db'"
    using backfill_all_grown ok by (auto simp: repository_ok_def)
  moreover have "db_meta db' = db_meta db"
    using backfill_meta [of db env] Inr y by (simp add: leaves_def)
  ultimately show ?thesis
    using rows_only_kept [OF ok] Inr y by (simp add: backfill_metadata_titles_def run_transaction_def)
qed

lemma append_log_tables:
  "db_rows (snd (append_operation_log env entry retention db)) = db_rows db"
  "db_meta (snd (append_operation_log env entry retention db)) = db_meta db"
  by (auto simp: append_operation_log_def append_operation_log_body_def run_transaction_def Let_def
      and_then_Inr_iff split: sum.splits prod.splits)

lemma log_kept:
  assumes "repository_ok db"
  shows "kept db (snd (append_operation_log env entry retention db))"
proof -
  note tables = append_log_tables [of env entry retention db]
  have "find_row (snd (append_operation_log env entry retention db)) key = find_row db key" for key
    by (rule find_row_rows [OF tables(1)])
  then have "grown_database db (snd (append_operation_log env entry retention db))"
    by (simp add: grown_database_def later_row_def)
  moreover have "db_ok (snd (append_operation_log env entry retention db))"
    using assms db_ok_rows [OF tables(1)] by (simp add: repository_ok_def)
  ultimately show ?thesis by (intro rows_only_kept [OF assms] tables(2))
qed

lemma write_or_nothing_kept:
  assumes "repository_ok db" and "db' = db \<or> row_write key db db'" and "db_meta db' = db_meta db"
  shows "kept db db'"
proof (cases "db' = db")
  case True
  with kept_refl [OF assms(1)] show ?thesis by simp
next
  case False
  with assms(2) have w: "row_write key db db'" by simp
  then have "db_ok db'" by (simp add: row_write_def)
  from rows_only_kept [OF assms(1) this row_write_grown [OF w] assms(3)] show ?thesis .
qed

lemma execution_kept:
  assumes ok: "repository_ok db"
  shows "kept db (run_operation env op db)"
proof -
  have meta: "db_meta (run_operation env op db) = db_meta db"
  proof (cases op)
    case (ClaimDue c)
    obtain y db' where run: "claim_due env c db = (y, db')" by fastforce
    then show ?thesis
      using ClaimDue claim_meta(1) claim_rollback(1) by (cases y) (auto, metis)
  next
    case (ClaimOne c)
    obtain y db' where run: "claim_one env c db = (y, db')" by fastforce
    then show ?thesis
      using ClaimOne claim_meta(2) claim_rollback(2) by (cases y) (auto, metis)
  qed (simp_all add: extend_lease_def finish_def fail_execution_def release_def
        meta_transaction fenced_meta)
  have "db_ok db" using ok by (simp add: repository_ok_def)
  from operation_effect [OF this, of env op] show ?thesis
  proof
    assume "run_operation env op db = db"
    with kept_refl [OF ok] show ?thesis by simp
  next
    assume "\<exists>key. row_step key db (run_operation env op db)"
    then obtain key where step: "row_step key db (run_operation env op db)" by blast
    then have "db_ok (run_operation env op db)" by (simp add: row_step_def)
    from rows_only_kept [OF ok this later_grown [OF row_step_later [OF step]] meta] show ?thesis .
  qed
qed

lemma mutation_kept:
  assumes ok: "repository_ok db"
  shows "kept db (snd (manual_search env c1 db))" and "kept db (snd (torrent_choice env c2 db))"
    and "kept db (snd (retry_request env c3 db))" and "kept db (snd (update_detail env c4 db))"
proof -
  have dok: "db_ok db" using ok by (simp add: repository_ok_def)
  have "db_meta (snd (manual_search env c1 db)) = db_meta db"
    by (cases c1) (simp add: add_manual_candidates_def meta_transaction unaudited_meta)
  then show "kept db (snd (manual_search env c1 db))"
    by (rule write_or_nothing_kept [OF ok search.write_or_nothing [OF dok prod.collapse [symmetric]]])
  have "db_meta (snd (torrent_choice env c2 db)) = db_meta db"
    by (cases c2) (simp add: confirm_candidate_def meta_transaction mutation_meta)
  then show "kept db (snd (torrent_choice env c2 db))"
    by (rule write_or_nothing_kept [OF ok choice.write_or_nothing [OF dok prod.collapse [symmetric]]])
  have "db_meta (snd (retry_request env c3 db)) = db_meta db"
    by (cases c3) (simp add: force_retry_def meta_transaction mutation_meta)
  then show "kept db (snd (retry_request env c3 db))"
    by (rule write_or_nothing_kept [OF ok retry.write_or_nothing [OF dok prod.collapse [symmetric]]])
  have meta: "db_meta (snd (update_detail env c4 db)) = db_meta db"
    by (simp add: update_detail_def meta_transaction unaudited_meta)
  obtain y db' where run: "update_detail env c4 db = (y, db')" by fastforce
  have "db' = db \<or> row_write (upd_key c4) db db'"
  proof (cases y)
    case (Inl e)
    with run show ?thesis by (simp add: update_detail_def run_transaction_Inl)
  next
    case (Inr x)
    with run have "update_detail_body env c4 db = Inr (x, db')"
      by (simp add: update_detail_def run_transaction_Inr)
    then show ?thesis by (rule update_detail_body_Inr [OF dok]) simp
  qed
  with meta run show "kept db (snd (update_detail env c4 db))"
    by (intro write_or_nothing_kept [OF ok]) auto
qed

lemma begin_kept:
  assumes ok: "repository_ok db"
  shows "kept db (snd (begin_poll env c db))"
proof -
  obtain y db' where run: "begin_poll env c db = (y, db')" by fastforce
  have "kept db db'"
  proof (cases y)
    case (Inl e)
    with run begin_rollback kept_refl [OF ok] show ?thesis by blast
  next
    case (Inr x)
    let ?account = "bpoll_account_key c"
    have metas: "metas_ok db" using ok by (simp add: repository_ok_def)
    have begun: "poll_begun ?account (bpollr_token x) db db'"
      using begin_poll_Inr [OF metas] run Inr by blast
    then have rows: "db_rows db' = db_rows db" "db_logs db' = db_logs db" and metas': "metas_ok db'"
      by (simp_all add: poll_begun_def)
    have "poll_spent db' a g" if spent: "poll_spent db a g" for a g
    proof (cases "a = ?account")
      case False
      with begun spent show ?thesis by (auto simp: poll_begun_def poll_spent_def)
    next
      case True
      obtain m m' where m: "find_meta db a = Some m" "g \<le> meta_poll_generation m"
        and m': "find_meta db' a = Some m'" "meta_current_token m' = Inr (Some (bpollr_token x))"
        using begun spent True by (auto simp: poll_begun_def poll_spent_def poll_open_def)
      have "meta_poll_generation m' = meta_poll_generation m + 1"
        using begun m(1) True
          current_token_columns(1) [OF metas.lookup_valid [OF metas' m'(1)] m'(2)]
        by (simp add: poll_begun_def)
      with m m' show ?thesis by (simp add: poll_spent_def)
    qed
    moreover have "db_ok db'" "grown_database db db'"
      using ok rows by (simp_all add: repository_ok_def db_ok_rows [OF rows(1)] grown_database_def
          find_row_rows [OF rows(1)] later_row_def)
    ultimately show ?thesis using metas' by (simp add: kept_def repository_ok_def)
  qed
  with run show ?thesis by simp
qed

lemma poll_end_kept:
  assumes ok: "repository_ok db"
  shows "kept db (snd (record_poll_failure env c1 db))"
    and "kept db (snd (record_incomplete_snapshot env c2 db))"
    and "kept db (snd (apply_complete_snapshot env c3 db))"
proof -
  have *: "db_ok db" "metas_ok db" using ok by (simp_all add: repository_ok_def)
  have "grown_database db (snd (record_poll_failure env c1 db))"
  proof (cases "record_poll_failure env c1 db")
    case (Pair y db')
    have "db_rows db' = db_rows db \<and> db_logs db' = db_logs db"
      using Pair poll_failure.rollback record_poll_failure_Inr(2,3) [OF *] by (cases y) blast+
    with Pair show ?thesis
      by (simp add: grown_database_def later_row_def find_row_def)
  qed
  then show "kept db (snd (record_poll_failure env c1 db))"
    using poll_failure.invariant [OF *] poll_failure.keeps_spent [OF *]
    by (simp add: kept_def repository_ok_def)
  have "grown_database db (snd (record_incomplete_snapshot env c2 db))"
  proof (cases "record_incomplete_snapshot env c2 db")
    case (Pair y db')
    then have "db' = db \<or> grown_database db db'"
      using incomplete.rollback incomplete_grown [OF *] by (cases y) blast+
    with Pair show ?thesis by auto
  qed
  then show "kept db (snd (record_incomplete_snapshot env c2 db))"
    using incomplete.invariant [OF *] incomplete.keeps_spent [OF *]
    by (simp add: kept_def repository_ok_def)
  have "grown_database db (snd (apply_complete_snapshot env c3 db))"
  proof (cases "apply_complete_snapshot env c3 db")
    case (Pair y db')
    then have "db' = db \<or> grown_database db db'"
      using complete.rollback complete_grown [OF *] by (cases y) blast+
    with Pair show ?thesis by auto
  qed
  then show "kept db (snd (apply_complete_snapshot env c3 db))"
    using complete.invariant [OF *] complete.keeps_spent [OF *]
    by (simp add: kept_def repository_ok_def)
qed

lemma step_kept: "repository_step db db' \<Longrightarrow> repository_ok db \<Longrightarrow> kept db db'"
proof (elim repository_stepE)
  fix env op
  assume "repository_ok db" "db' = run_repository env op db"
  then show "kept db db'"
    by (cases op) (simp_all add: execution_kept mutation_kept backfill_kept begin_kept poll_end_kept log_kept)
qed

lemma history_kept:
  assumes "repository_step\<^sup>*\<^sup>* db db'" and "repository_ok db"
  shows "kept db db'"
  using assms
proof (induction rule: rtranclp_induct)
  case base
  then show ?case by (rule kept_refl)
next
  case (step y z)
  then show ?case using step_kept kept_trans by (metis kept_def)
qed

end
