(* ===== verification/Attempt_History.thy ===== *)
theory Attempt_History
  imports Repository_History Claim_Theorems
begin

text \<open>
  A token that was spent stays spent: no transaction but a claim puts an attempt on a row, and a
  claim only an identifier it has drawn. So an identifier that no row holds, and that no later claim
  draws again, is never found by the fence.
\<close>

subsection \<open>Attempts a table holds\<close>

definition held :: "database \<Rightarrow> string set" where
  "held db = {a. \<exists>r \<in> set (db_rows db). col_attempt_id r = Some a}"

definition drawn :: "repo_env \<Rightarrow> string set" where
  "drawn env = {attempt_id_str a | a n. env_attempt_id env n = Inr a}"

lemma held_rows: "db_rows db' = db_rows db \<Longrightarrow> held db' = held db"
  by (simp add: held_def)

lemma held_find: "db_ok db \<Longrightarrow> held db = {a. \<exists>key r. find_row db key = Some r \<and> col_attempt_id r = Some a}"
  unfolding held_def using find_row_Some find_row_unique by blast

lemma keyed_update_held:
  assumes "keyed_update key p f db = Inr (n, db')"
    and "\<And>r. col_attempt_id (f r) = None \<or> col_attempt_id (f r) = col_attempt_id r \<or> col_attempt_id (f r) \<in> Some ` A"
  shows "held db' \<subseteq> held db \<union> A"
proof
  fix a assume "a \<in> held db'"
  then obtain r where r: "r \<in> set (db_rows db)" "col_attempt_id (if row_key r = key \<and> p r then f r else r) = Some a"
    by (auto simp: held_def keyed_update_Inr(1) [OF assms(1)])
  with assms(2) [of r] show "a \<in> held db \<union> A" by (auto simp: held_def split: if_split_asm)
qed

lemma setters_attempt [simp]:
  "col_attempt_id (extend_set lease now r) = col_attempt_id r"
  "col_attempt_id (release_set now r) = None"
  "col_attempt_id (consume_set l next_at n b tags now record prj sort_time r) = None"
  "col_attempt_id (write_candidates_set record now r) = col_attempt_id r"
  "col_attempt_id (confirm_set now tags record r) = col_attempt_id r"
  "col_attempt_id (force_set now l tags record r) = col_attempt_id r"
  "col_attempt_id (backfill_set title record r) = col_attempt_id r"
  "col_attempt_id (update_detail_set prj sort_time tags now record r) = col_attempt_id r"
  "col_attempt_id (claim_idle_set op a lease now r) = Some a"
  "col_attempt_id (reclaim_set op a lease now r) = Some a"
  "col_attempt_id (deactivate_set now r) = None"
  by (simp_all add: extend_set_def release_set_def consume_set_def write_candidates_set_def confirm_set_def
      force_set_def backfill_set_def update_detail_set_def claim_idle_set_def reclaim_set_def deactivate_set_def)

abbreviation leaves_held :: "database \<Rightarrow> ('a \<times> database) repository_result \<Rightarrow> bool" where
  "leaves_held db \<equiv> leaves (\<lambda>db'. held db' \<subseteq> held db)"

lemma executed_held:
  assumes "sql_execute env n context (keyed_update key p f db) = Inr (k, db')"
    and "\<And>r. col_attempt_id (f r) = None \<or> col_attempt_id (f r) = col_attempt_id r"
  shows "held db' \<subseteq> held db"
  using keyed_update_held [of key p f db k db' "{}"] assms by (auto simp: sql_execute_Inr)

lemma audited_held: "append_execution_audit env entry db = Inr db' \<Longrightarrow> held db' = held db"
  by (rule held_rows [OF append_audit_Inr(1)])

lemma held_transaction:
  "leaves_held db (body db) \<Longrightarrow> held (snd (run_transaction body db)) \<subseteq> held db"
  by (rule leaves_transaction [where Q = "\<lambda>db'. held db' \<subseteq> held db"]) simp_all

lemma fenced_held:
  "leaves_held db (extend_lease_body env c1 db)"
  "leaves_held db (finish_body env c2 db)"
  "leaves_held db (fail_body env c3 db)"
  "leaves_held db (release_body env c4 db)"
  unfolding extend_lease_body_def finish_body_def fail_body_def release_body_def Let_def
  by (intro leaves_rules; hypsubst?; drule audited_held; drule executed_held; simp)+

lemma mutation_held:
  "leaves_held db (confirm_candidate_body env key torrent expected now replace db)"
  "leaves_held db (force_retry_body env key now db)"
  unfolding confirm_candidate_body_def force_retry_body_def Let_def
  by (intro leaves_rules; hypsubst?; drule audited_held; drule executed_held; simp)+

lemma unaudited_held:
  "leaves_held db (add_manual_candidates_body env key expected cs now db)"
  "leaves_held db (update_detail_body env c db)"
  unfolding add_manual_candidates_body_def update_detail_body_def Let_def
  by (intro leaves_rules; hypsubst?; drule executed_held; simp)+

lemma backfill_all_held: "backfill_all env n names (k, db) = Inr (k', db') \<Longrightarrow> held db' \<subseteq> held db"
proof (induction names arbitrary: n k db)
  case (Cons x names)
  obtain a s where x: "x = (a, s)" by fastforce
  from Cons.prems obtain k1 db1 where one: "backfill_one env n (a, s) (k, db) = Inr (k1, db1)"
      and rest: "backfill_all env (Suc n) names (k1, db1) = Inr (k', db')"
    by (auto simp: x)
  have "held db1 \<subseteq> held db"
    by (rule backfill_one_cases [OF one]) (auto dest!: keyed_update_held [where A = "{}"])
  with Cons.IH [OF rest] show ?case by blast
qed simp

lemma backfill_held: "leaves_held db (backfill_body env db)"
  unfolding backfill_body_def leaves_def Let_def
  by (auto split: prod.splits dest!: backfill_all_held)

subsection \<open>Claims\<close>

lemma allocate_attempt_drawn:
  "allocate_attempt env previous statement db ks = Inr (Some (a, db')) \<Longrightarrow> attempt_id_str a \<in> drawn env"
  by (induction ks) (auto simp: drawn_def split: if_splits sum.splits sql_constraint.splits, blast+)

lemma allocate_attempt_held:
  assumes "allocate_attempt env previous (claim_statement key rv op prev lease now) db ks = Inr (Some (a, db'))"
  shows "held db' \<subseteq> held db \<union> drawn env"
proof -
  have "claim_statement key rv op prev lease now a db = Inr (Inr (Suc 0, db'))"
    using allocate_attempt_Some [OF assms] by blast
  then have "held db' \<subseteq> held db \<union> {attempt_id_str a}"
    by (auto simp: claim_statement_def Let_def and_then_Inr_iff
        dest!: keyed_update_held [where A = "{attempt_id_str a}"] split: option.splits)
  with allocate_attempt_drawn [OF assms] show ?thesis by blast
qed

definition draws_only :: "repo_env \<Rightarrow> database \<Rightarrow> database \<Rightarrow> bool" where
  "draws_only env db db' \<longleftrightarrow> held db' \<subseteq> held db \<union> drawn env"

lemma allocate_draws:
  "allocate_attempt env previous (claim_statement key rv op prev lease now) db ks = Inr (Some (a, db')) \<Longrightarrow>
     draws_only env db db'"
  using allocate_attempt_held by (simp add: draws_only_def)

lemma audited_draws: "append_execution_audit env entry db1 = Inr db' \<Longrightarrow> draws_only env db db' = draws_only env db db1"
  using audited_held by (simp add: draws_only_def)

lemma persist_claim_draws:
  assumes "persist_claim env st e trigger now ttl db = Inr (claimed, db')"
  shows "draws_only env db db'"
  using assms unfolding persist_claim_def Let_def case_prod_beta append_claim_audit_def
  by (elim and_then_InrE)
    (auto split: if_split_asm execution_controls.splits dest!: allocate_draws simp: audited_draws)

lemma claim_draws:
  "claim_due env c db = (Inr x, db') \<Longrightarrow> draws_only env db db'"
  "claim_one env d db = (Inr y, db') \<Longrightarrow> draws_only env db db'"
proof -
  have same [simp]: "draws_only env d d" for d by (simp add: draws_only_def)
  show "claim_due env c db = (Inr x, db') \<Longrightarrow> draws_only env db db'"
    "claim_one env d db = (Inr y, db') \<Longrightarrow> draws_only env db db'"
    unfolding claim_due_def claim_one_def run_transaction_Inr claim_due_body_def claim_one_body_def
    by (auto split: option.splits classification.splits if_split_asm dest!: persist_claim_draws)
qed

lemma claim_held:
  "held (snd (claim_due env c db)) \<subseteq> held db \<union> drawn env"
  "held (snd (claim_one env d db)) \<subseteq> held db \<union> drawn env"
proof -
  show "held (snd (claim_due env c db)) \<subseteq> held db \<union> drawn env"
  proof (cases "claim_due env c db")
    case (Pair y db')
    with claim_draws(1) [of env c db _ db'] claim_rollback(1) [of env c db _ db'] show ?thesis
      by (cases y) (auto simp: draws_only_def)
  qed
  show "held (snd (claim_one env d db)) \<subseteq> held db \<union> drawn env"
  proof (cases "claim_one env d db")
    case (Pair y db')
    with claim_draws(2) [of env d db _ db'] claim_rollback(2) [of env d db _ db'] show ?thesis
      by (cases y) (auto simp: draws_only_def)
  qed
qed

subsection \<open>Polls\<close>

lemma merge_held:
  assumes "merge_progress db db'" and "db_ok db"
  shows "held db' \<subseteq> held db"
proof -
  obtain es where ok: "db_ok db'"
    and rows: "\<And>key r. find_row db key = Some r \<Longrightarrow> \<exists>r'. find_row db' key = Some r' \<and> merged_row key es r r'"
    and fresh: "\<And>key r'. find_row db key = None \<Longrightarrow> find_row db' key = Some r' \<Longrightarrow> col_attempt_id r' = None"
    using assms(1) by (auto simp: merge_progress_def)
  have "\<exists>r. find_row db key = Some r \<and> col_attempt_id r = Some a"
    if "find_row db' key = Some r'" "col_attempt_id r' = Some a" for key r' a
    using that fresh [of key r'] rows [of key]
    by (cases "find_row db key") (auto simp: merged_row_def attempt_accounted_def split: option.splits)
  then show ?thesis unfolding held_find [OF ok] held_find [OF assms(2)] by blast
qed

lemma polls_held:
  assumes "repository_ok db"
  shows "held (snd (begin_poll env c1 db)) \<subseteq> held db"
    and "held (snd (record_poll_failure env c2 db)) \<subseteq> held db"
    and "held (snd (record_incomplete_snapshot env c3 db)) \<subseteq> held db"
    and "held (snd (apply_complete_snapshot env c4 db)) \<subseteq> held db"
proof -
  have ok: "db_ok db" "metas_ok db" using assms by (simp_all add: repository_ok_def)
  show "held (snd (begin_poll env c1 db)) \<subseteq> held db"
  proof (cases "begin_poll env c1 db")
    case (Pair y db')
    then have "db' = db \<or> db_rows db' = db_rows db"
      using begin_rollback begin_poll_Inr [OF ok(2)] by (cases y) (auto simp: poll_begun_def)
    with Pair show ?thesis by (auto simp: held_def)
  qed
  show "held (snd (record_poll_failure env c2 db)) \<subseteq> held db"
  proof (cases "record_poll_failure env c2 db")
    case (Pair y db')
    then have "db' = db \<or> db_rows db' = db_rows db"
      using poll_failure.rollback record_poll_failure_Inr(2) [OF ok] by (cases y) blast+
    with Pair show ?thesis by (auto simp: held_def)
  qed
  show "held (snd (record_incomplete_snapshot env c3 db)) \<subseteq> held db"
  proof (cases "record_incomplete_snapshot env c3 db")
    case (Pair y db')
    have "held db' \<subseteq> held db" if "y = Inr x" for x
    proof (rule record_incomplete_Inr [OF ok Pair [unfolded that]])
      fix cx db1
      assume "snapshot_merged cx (ris_records c3) db db1" and rows: "db_rows db' = db_rows db1"
      then have "merge_progress db db1" by (simp add: snapshot_merged_def)
      from merge_held [OF this ok(1)] show ?thesis by (simp add: held_rows [OF rows])
    qed
    with Pair incomplete.rollback [of env c3 db _ db'] show ?thesis by (cases y) auto
  qed
  show "held (snd (apply_complete_snapshot env c4 db)) \<subseteq> held db"
  proof (cases "apply_complete_snapshot env c4 db")
    case (Pair y db')
    have "held db' \<subseteq> held db" if "y = Inr x" for x
    proof (rule apply_complete_Inr [OF ok Pair [unfolded that]])
      fix cx db1 at
      assume ended: "poll_ended (acs_account_key c4) (acs_token c4) db db'"
        and "snapshot_merged cx (acs_records c4) db db1"
        and rows: "\<And>j. find_row db' j = map_option (\<lambda>r.
           if missing_where (acs_account_key c4) (poll_snapshot_id (acs_token c4)) r
           then deactivate_set at r else r) (find_row db1 j)"
      then have merged: "merge_progress db db1" by (simp add: snapshot_merged_def)
      then have ok1: "db_ok db1" by (simp add: merge_progress_def)
      have "db_ok db'" using ended by (simp add: poll_ended_def)
      moreover have "find_row db1 key = Some r" if "find_row db' key = Some r" "col_attempt_id r = Some a" for key r a
        using that rows [of key] by (auto split: if_split_asm dest: arg_cong [where f = col_attempt_id])
      ultimately have "held db' \<subseteq> held db1" using held_find ok1 by blast
      with merge_held [OF merged ok(1)] show ?thesis by blast
    qed
    with Pair complete.rollback [of env c4 db _ db'] show ?thesis by (cases y) auto
  qed
qed

subsection \<open>Every transaction\<close>

lemma transaction_held:
  assumes "repository_ok db"
  shows "held (run_repository env op db) \<subseteq> held db \<union> drawn env"
proof (cases op)
  case (Execution x)
  have "held (snd (extend_lease env c1 db)) \<subseteq> held db" "held (snd (finish env c2 db)) \<subseteq> held db"
    "held (snd (fail_execution env c3 db)) \<subseteq> held db" "held (snd (release env c4 db)) \<subseteq> held db"
    for c1 c2 c3 c4
    unfolding extend_lease_def finish_def fail_execution_def release_def by (rule held_transaction, rule fenced_held)+
  with Execution claim_held show ?thesis by (cases x) (simp_all add: le_supI1)
next
  case (SearchManually c)
  have "held (snd (manual_search env c db)) \<subseteq> held db"
    by (cases c) (simp add: add_manual_candidates_def held_transaction unaudited_held)
  with SearchManually show ?thesis by auto
next
  case (ChooseTorrent c)
  have "held (snd (torrent_choice env c db)) \<subseteq> held db"
    by (cases c) (simp add: confirm_candidate_def held_transaction mutation_held)
  with ChooseTorrent show ?thesis by auto
next
  case (RetryNow c)
  have "held (snd (retry_request env c db)) \<subseteq> held db"
    by (cases c) (simp add: force_retry_def held_transaction mutation_held)
  with RetryNow show ?thesis by auto
next
  case BackfillTitles
  have "held (snd (backfill_metadata_titles env db)) \<subseteq> held db"
    by (simp add: backfill_metadata_titles_def held_transaction backfill_held)
  with BackfillTitles show ?thesis by auto
next
  case (UpdateDetail c)
  have "held (snd (update_detail env c db)) \<subseteq> held db"
    by (simp add: update_detail_def held_transaction unaudited_held)
  with UpdateDetail show ?thesis by auto
next
  case (AppendLog c)
  then show ?thesis by (simp add: held_rows [OF append_log_tables(1)])
qed (simp_all add: polls_held [OF assms] le_supI1)

text \<open>A transaction in which no claim draws the identifier\<close>

inductive other_step :: "execution_attempt_id \<Rightarrow> database \<Rightarrow> database \<Rightarrow> bool" for a where
  other: "(\<forall>n. env_attempt_id env n \<noteq> Inr a) \<Longrightarrow> other_step a db (run_repository env op db)"

inductive_cases other_stepE: "other_step a db db'"

lemma other_not_drawn: "(\<forall>n. env_attempt_id env n \<noteq> Inr a) \<Longrightarrow> attempt_id_str a \<notin> drawn env"
  by (auto simp: drawn_def dest: execution_attempt_id.expand)

lemma never_held:
  assumes "(other_step a)\<^sup>*\<^sup>* db db'" and "repository_ok db" and "attempt_id_str a \<notin> held db"
  shows "repository_ok db' \<and> attempt_id_str a \<notin> held db'"
  using assms
proof (induction rule: rtranclp_induct)
  case (step y z)
  then have y: "repository_ok y" "attempt_id_str a \<notin> held y" by simp_all
  from step(2) obtain env op where z: "z = run_repository env op y"
    and new: "\<forall>n. env_attempt_id env n \<noteq> Inr a" by (rule other_stepE)
  have "repository_ok z"
    using step_kept [OF repository_step.transaction y(1)] z by (simp add: kept_def)
  with transaction_held [OF y(1), of env op] other_not_drawn [OF new] y(2) z show ?case by blast
qed simp

subsection \<open>The fence after a terminal operation\<close>

lemma running_holds:
  assumes "db_ok db" and "readable sha db key st" and "stored_controls st = ControlsRunning cur"
  shows "\<exists>r. find_row db key = Some r \<and> col_attempt_id r = Some (attempt_id_str (token_attempt_id (persisted_token cur)))"
  using assms readable_columns [OF assms(1)] by (auto simp: controls_columns_def)

lemma terminal_not_held:
  assumes ok: "db_ok db" and op: "is_terminal op" "presented_token op = Some t" "operation_error env op db = None"
  shows "attempt_id_str (token_attempt_id t) \<notin> held (run_operation env op db)"
proof
  let ?db1 = "run_operation env op db" and ?a = "attempt_id_str (token_attempt_id t)"
  obtain now st cur post where fence: "fenced_step env t db ?db1 now st cur post"
    using fence_passed [OF ok op(2,3)] by blast
  then have ok1: "db_ok ?db1" and other: "\<And>j. j \<noteq> token_key t \<Longrightarrow> find_row ?db1 j = find_row db j"
    by (auto simp: fenced_step_def)
  obtain r where r: "find_row db (token_key t) = Some r" "col_attempt_id r = Some ?a"
    using running_holds [OF ok, of "env_sha env" "token_key t" st cur] fence by (auto simp: fenced_step_def)
  obtain after where after: "readable (env_sha env) ?db1 (token_key t) after" "stored_controls after = ControlsIdle"
    using terminal_consumes [OF ok op(2,1,3)] by blast
  then have idle: "col_attempt_id r' = None" if "find_row ?db1 (token_key t) = Some r'" for r'
    using that by (auto simp: readable_columns [OF ok1] controls_columns_def)
  assume "?a \<in> held ?db1"
  then obtain key r' where r': "find_row ?db1 key = Some r'" "col_attempt_id r' = Some ?a"
    using held_find [OF ok1] by auto
  with idle have key: "key \<noteq> token_key t" by auto
  with other r' have "find_row db key = Some r'" by simp
  with r r'(2) have "r = r'"
    using attempt_ids_unique [of "db_rows db" r r' ?a] ok find_row_Some by (auto simp: db_ok_def)
  with r(1) \<open>find_row db key = Some r'\<close> key show False using find_row_Some by metis
qed

lemma unheld_refused:
  assumes ok: "db_ok db" and "attempt_id_str (token_attempt_id t) \<notin> held db" and "presented_token op = Some t"
  shows "operation_error env op db \<noteq> None \<and> run_operation env op db = db"
proof -
  have "operation_error env op db \<noteq> None"
  proof
    assume "operation_error env op db = None"
    then obtain now st cur post where "fenced_step env t db (run_operation env op db) now st cur post"
      using fence_passed [OF ok assms(3)] by blast
    then have "attempt_id_str (token_attempt_id t) \<in> held db"
      using running_holds [OF ok, of "env_sha env" "token_key t" st cur] held_find [OF ok]
      by (auto simp: fenced_step_def)
    with assms(2) show False by simp
  qed
  with assms(3) show ?thesis
    using extend.rollback finish.rollback failure.rollback release.rollback
    by (cases op) (auto simp: error_of_def split: sum.splits prod.splits, (metis prod.collapse)+)
qed

text \<open>C1. An attempt is consumed once. After a successful finish, fail or release, whatever transactions
  the repository runs in between - claims, manual changes, polls, log entries, with any clock and any
  faults, as long as no claim draws the same identifier again - every operation that presents the
  token fails and changes nothing. If nothing else is wrong the answer is \<open>StaleAttempt\<close>, with the
  attempt that the row runs by then, if any. A worker that lost the acknowledgement cannot apply its
  result twice.\<close>

theorem attempt_consumed_once:
  assumes "repository_ok db" and "is_terminal op" and "presented_token op = Some t"
    and "operation_error env op db = None"
    and "(other_step (token_attempt_id t))\<^sup>*\<^sup>* (run_operation env op db) db'"
    and "presented_token op' = Some t"
  shows "operation_error env' op' db' \<noteq> None \<and> run_operation env' op' db' = db' \<and>
    (fault_free env' \<longrightarrow> clock_in_range env' now' \<longrightarrow> readable (env_sha env') db' (token_key t) st \<longrightarrow>
      operation_error env' op' db' = Some (StaleAttempt t
        (case stored_controls st of ControlsIdle \<Rightarrow> None | ControlsRunning cur \<Rightarrow> Some (persisted_token cur))))"
proof -
  have ok: "db_ok db" using assms(1) by (simp add: repository_ok_def)
  have "repository_ok (run_operation env op db)"
    using execution_kept [OF assms(1)] by (simp add: kept_def)
  from never_held [OF assms(5) this terminal_not_held [OF ok assms(2-4)]]
  have ok': "db_ok db'" and gone: "attempt_id_str (token_attempt_id t) \<notin> held db'"
    by (simp_all add: repository_ok_def)
  have "operation_error env' op' db' = Some (StaleAttempt t
        (case stored_controls st of ControlsIdle \<Rightarrow> None | ControlsRunning cur \<Rightarrow> Some (persisted_token cur)))"
    if env: "fault_free env'" "clock_in_range env' now'" and st: "readable (env_sha env') db' (token_key t) st"
  proof -
    have "persisted_token cur \<noteq> t" if "stored_controls st = ControlsRunning cur" for cur
      using running_holds [OF ok' st that] gone held_find [OF ok'] by auto
    then have "require_live_attempt st t now' = Inl (StaleAttempt t
        (case stored_controls st of ControlsIdle \<Rightarrow> None | ControlsRunning cur \<Rightarrow> Some (persisted_token cur)))"
      by (auto simp: require_live_attempt_def split: execution_controls.splits)
    from fence_refuses [OF env assms(6) st this] show ?thesis by simp
  qed
  with unheld_refused [OF ok' gone assms(6)] show ?thesis by blast
qed

text \<open>The subscription is retried and claimed again in between; the old worker is told of the new attempt.\<close>

theorem attempt_consumed_once_witness:
  "\<exists>db'. (other_step (token_attempt_id sample_token))\<^sup>*\<^sup>*
       (run_operation sample_env (FinishAttempt finish_sample) running_db) db' \<and>
     operation_error late_env (FailAttempt fail_sample) db' =
       Some (StaleAttempt sample_token (Some (sample_token\<lparr>token_attempt_id := ExecutionAttemptId ''a2''\<rparr>))) \<and>
     run_operation late_env (FailAttempt fail_sample) db' = db'"
proof -
  let ?db1 = "run_operation sample_env (FinishAttempt finish_sample) running_db"
  let ?db2 = "run_repository late_env (RetryNow (sample_key, 5000)) ?db1"
  let ?db3 = "run_repository late_env (Execution (ClaimDue due_command)) ?db2"
  have new: "\<forall>n. env_attempt_id late_env n \<noteq> Inr (token_attempt_id sample_token)"
    by (simp add: late_env_def sample_env_def sample_token_def)
  have later: "(other_step (token_attempt_id sample_token))\<^sup>*\<^sup>* ?db1 ?db3"
    using other_step.other [OF new, of ?db1 "RetryNow (sample_key, 5000)"]
      other_step.other [OF new, of ?db2 "Execution (ClaimDue due_command)"] by simp
  have ok: "repository_ok running_db"
    using sample_dbs_ok by (simp add: repository_ok_def) code_simp
  have "is_terminal (FinishAttempt finish_sample)" "presented_token (FinishAttempt finish_sample) = Some sample_token"
      "presented_token (FailAttempt fail_sample) = Some sample_token"
    by (simp_all add: is_terminal_def finish_sample_def fail_sample_def)
  moreover have "operation_error sample_env (FinishAttempt finish_sample) running_db = None" by code_simp
  ultimately have "run_operation late_env (FailAttempt fail_sample) ?db3 = ?db3"
    using attempt_consumed_once [OF ok _ _ _ later, of "FailAttempt fail_sample" late_env] by blast
  moreover have "operation_error late_env (FailAttempt fail_sample) ?db3 =
      Some (StaleAttempt sample_token (Some (sample_token\<lparr>token_attempt_id := ExecutionAttemptId ''a2''\<rparr>)))"
    by code_simp
  ultimately show ?thesis using later by blast
qed

end
