(* ===== verification/Terminal_Theorems.thy ===== *)
theory Terminal_Theorems
  imports Example_Data
begin

text \<open>
  What each operation of a live attempt leaves behind, and that finishing and failing succeed.
\<close>

text \<open>C13. A successful finish: the attempt's delta was merged into the payload the row held at that
  moment, the parent issue of the operation was cleared, the row is idle in the lifecycle state
  the disposition names, due after the disposition's delay (never again once completed), with
  its retries reset, its forced run spent, and the waiting, failed and blocked tags replaced.\<close>

theorem finish_moves_lifecycle:
  assumes "db_ok db" and "finish env c db = (Inr x, db')"
  shows "\<exists>now st post merged. env_clock env = Inr now \<and>
    readable (env_sha env) db (token_key (finish_token c)) st \<and>
    readable (env_sha env) db' (token_key (finish_token c)) post \<and>
    finished_detail x = stored_detail post \<and> stored_controls post = ControlsIdle \<and>
    apply_to_latest (env_sha env) (finish_delta c) (token_key (finish_token c))
      (det_payload (stored_detail st)) = Inr merged \<and>
    payload_eq (det_payload (stored_detail post))
      (clear_execution_issue (token_operation (finish_token c)) merged) \<and>
    head_lifecycle_state (stored_head post) = next_lifecycle (finish_disposition c) \<and>
    schedule_from_repository_now now (next_delay (finish_disposition c))
      = Inr (head_next_attempt_at (stored_head post)) \<and>
    head_retry_count (stored_head post) = 0 \<and> \<not> head_force_eligible_once (stored_head post) \<and>
    {Failed, RetryBlocked, NeedsReconciliation} \<inter> set (sum_attention_tags (det_summary (stored_detail post))) = {}"
  by (rule finish_body_Inr [OF assms(1) assms(2) [unfolded finish_def run_transaction_Inr]])
    (fastforce simp: fenced_step_def finish_attention_tags_def terminal_attention_tags_def
      is_terminal_tag_def Let_def split: if_splits)

theorem finish_moves_lifecycle_witness:
  "\<exists>x db'. finish sample_env finish_sample running_db = (Inr x, db') \<and>
    head_lifecycle_state (det_head (finished_detail x)) = Downloading"
proof -
  have "is_ok (fst (finish sample_env finish_sample running_db))" by code_simp
  then obtain x db' where run: "finish sample_env finish_sample running_db = (Inr x, db')"
    by (cases "finish sample_env finish_sample running_db") (auto simp: is_ok_iff)
  from finish_moves_lifecycle [OF sample_dbs_ok(2) run] run show ?thesis
    by (auto simp: finish_sample_def)
qed

lemma payload_eq_issues: "payload_eq p q \<Longrightarrow> pl_issues p = pl_issues q"
proof -
  have "pl_issues (map_payload_f64 g p) = pl_issues p" for g p
    by (simp add: map_payload_f64_def)
  then show "payload_eq p q \<Longrightarrow> pl_issues p = pl_issues q"
    unfolding payload_eq_def by metis
qed

lemma replaced_issues:
  "filter (\<lambda>i. issue_owner i = OwnerParent \<and>
       (\<exists>v. issue_operation i = Some v \<and> execution_issue_matches op v))
     (pl_issues (replace_execution_issue op t m at p))
   = [\<lparr>issue_owner = OwnerParent, issue_operation = Some (operation_as_str op),
       issue_error_type = Some t, issue_message = m, issue_occurred_at = Some at\<rparr>]"
  by (auto simp: replace_execution_issue_def clear_execution_issue_def Let_def filter_empty_conv
      execution_issue_matches_def split: option.splits)

text \<open>A recorded failure: the lifecycle state stays, the retry counter grows by one without
  wrapping, the row is blocked exactly when a positive limit is reached and is then not due at
  all, else it is due after the command's delay; the forced run is spent, the error replaces
  the operation's earlier parent issue, and the row carries the failed tag.\<close>

theorem failure_counts_retry:
  assumes "db_ok db" and "fail_execution env c db = (Inr x, db')"
  shows "\<exists>now st post. env_clock env = Inr now \<and>
    readable (env_sha env) db (token_key (fail_token c)) st \<and>
    readable (env_sha env) db' (token_key (fail_token c)) post \<and>
    failed_detail x = stored_detail post \<and> stored_controls post = ControlsIdle \<and>
    head_lifecycle_state (stored_head post) = head_lifecycle_state (stored_head st) \<and>
    uint (head_retry_count (stored_head post)) = uint (head_retry_count (stored_head st)) + 1 \<and>
    (head_retry_blocked (stored_head post) \<longleftrightarrow> 0 < head_max_retries (stored_head st) \<and>
       head_max_retries (stored_head st) \<le> head_retry_count (stored_head post)) \<and>
    (if head_retry_blocked (stored_head post) then head_next_attempt_at (stored_head post) = None
     else schedule_from_repository_now now (Some (fail_retry_after c))
            = Inr (head_next_attempt_at (stored_head post))) \<and>
    \<not> head_force_eligible_once (stored_head post) \<and>
    Failed \<in> set (sum_attention_tags (det_summary (stored_detail post))) \<and>
    filter (\<lambda>i. issue_owner i = OwnerParent \<and>
        (\<exists>v. issue_operation i = Some v \<and> execution_issue_matches (token_operation (fail_token c)) v))
      (pl_issues (det_payload (stored_detail post)))
      = [\<lparr>issue_owner = OwnerParent,
          issue_operation = Some (operation_as_str (token_operation (fail_token c))),
          issue_error_type = Some (fail_error_type c), issue_message = fail_message c,
          issue_occurred_at = Some now\<rparr>]"
proof (rule fail_body_Inr [OF assms(1) assms(2) [unfolded fail_execution_def run_transaction_Inr]])
  fix now st cur post merged p
  assume *: "fenced_step env (fail_token c) db db' now st cur post"
    "x = \<lparr>failed_detail = stored_detail post, failed_attempt = fail_token c, failed_at = now\<rparr>"
    "stored_controls post = ControlsIdle"
    "p = replace_execution_issue (token_operation (fail_token c)) (fail_error_type c)
               (fail_message c) now merged"
    "payload_eq (det_payload (stored_detail post)) p"
    "checked_add (head_retry_count (stored_head st)) 1 = Some (head_retry_count (stored_head post))"
    "head_max_retries (stored_head post) = head_max_retries (stored_head st)"
    "head_lifecycle_state (stored_head post) = head_lifecycle_state (stored_head st)"
    "(if head_retry_blocked (stored_head post) then Inr None
            else schedule_from_repository_now now (Some (fail_retry_after c)))
           = Inr (head_next_attempt_at (stored_head post))"
    "\<not> head_force_eligible_once (stored_head post)"
    "sum_attention_tags (det_summary (stored_detail post))
           = terminal_attention_tags (sum_attention_tags (det_summary (stored_detail st)))
               False True (head_retry_blocked (stored_head post))"
  have post: "readable (env_sha env) db' (token_key (fail_token c)) post" "db_ok db'"
    using *(1) by (simp_all add: fenced_step_def)
  have wf: "head_wf (stored_head post)"
    using post(1) unfolding readable_columns [OF post(2)] by (auto simp: detail_read_def detail_wf_def)
  have "uint (head_retry_count (stored_head post)) = uint (head_retry_count (stored_head st)) + 1"
    using uint_checked_add [OF *(6)] by simp
  moreover have "head_retry_blocked (stored_head post) \<longleftrightarrow> 0 < head_max_retries (stored_head st) \<and>
       head_max_retries (stored_head st) \<le> head_retry_count (stored_head post)"
    using wf *(7) by (simp add: head_wf_def)
  moreover have "if head_retry_blocked (stored_head post) then head_next_attempt_at (stored_head post) = None
     else schedule_from_repository_now now (Some (fail_retry_after c))
            = Inr (head_next_attempt_at (stored_head post))"
    using *(9) by (simp split: if_splits)
  moreover have "Failed \<in> set (sum_attention_tags (det_summary (stored_detail post)))"
    using *(11) by (simp add: terminal_attention_tags_def)
  moreover note replaced_issues [of "token_operation (fail_token c)" "fail_error_type c"
      "fail_message c" now merged, folded *(4), folded payload_eq_issues [OF *(5)]]
  moreover have "failed_detail x = stored_detail post" using *(2) by simp
  moreover have "env_clock env = Inr now" "readable (env_sha env) db (token_key (fail_token c)) st"
    using *(1) by (simp_all add: fenced_step_def)
  ultimately show ?thesis
    using *(3,8,10) post(1) by blast
qed

theorem failure_counts_retry_witness:
  "\<exists>x db'. fail_execution sample_env fail_sample running_db = (Inr x, db') \<and>
    uint (head_retry_count (det_head (failed_detail x))) = 1 \<and>
    Failed \<in> set (sum_attention_tags (det_summary (failed_detail x)))"
proof -
  have "is_ok (fst (fail_execution sample_env fail_sample running_db))" by code_simp
  then obtain x db' where run: "fail_execution sample_env fail_sample running_db = (Inr x, db')"
    by (cases "fail_execution sample_env fail_sample running_db") (auto simp: is_ok_iff)
  obtain st post where post: "readable (env_sha sample_env) running_db (token_key (fail_token fail_sample)) st"
      "failed_detail x = stored_detail post"
      "uint (head_retry_count (stored_head post)) = uint (head_retry_count (stored_head st)) + 1"
      "Failed \<in> set (sum_attention_tags (det_summary (stored_detail post)))"
    using failure_counts_retry [OF sample_dbs_ok(2) run] by blast
  have "st = running_stored"
    using post(1) sample_readable(2) by (auto simp: fail_sample_def dest: readable_unique)
  with post run show ?thesis
    by (simp add: running_stored_def sample_detail_def sample_head_def)
qed

text \<open>A release gives the attempt back untouched: lifecycle, schedule, retry counter, the forced
  run, the payload, the projection and the tags are what they were; only the attempt is gone.\<close>

theorem release_preserves_subscription:
  assumes "db_ok db" and "release env c db = (Inr x, db')"
  shows "\<exists>st post. readable (env_sha env) db (token_key (release_token c)) st \<and>
    readable (env_sha env) db' (token_key (release_token c)) post \<and>
    stored_controls post = ControlsIdle \<and>
    head_lifecycle_state (stored_head post) = head_lifecycle_state (stored_head st) \<and>
    head_next_attempt_at (stored_head post) = head_next_attempt_at (stored_head st) \<and>
    head_retry_count (stored_head post) = head_retry_count (stored_head st) \<and>
    head_force_eligible_once (stored_head post) = head_force_eligible_once (stored_head st) \<and>
    payload_eq (det_payload (stored_detail st)) (det_payload (stored_detail post)) \<and>
    sum_projection (det_summary (stored_detail post)) = sum_projection (det_summary (stored_detail st)) \<and>
    sum_attention_tags (det_summary (stored_detail post)) = sum_attention_tags (det_summary (stored_detail st))"
  by (rule release_body_Inr [OF assms(1) assms(2) [unfolded release_def run_transaction_Inr]])
    (unfold fenced_step_def verify_preserved_detail_def reject_if_Inr_iff, metis)

theorem release_preserves_subscription_witness:
  "\<exists>x db' post. release sample_env \<lparr>release_token = sample_token\<rparr> running_db = (Inr x, db') \<and>
    readable (env_sha sample_env) db' sample_key post \<and> stored_controls post = ControlsIdle \<and>
    head_next_attempt_at (stored_head post) = Some 900"
proof -
  have "is_ok (fst (release sample_env \<lparr>release_token = sample_token\<rparr> running_db))" by code_simp
  then obtain x db' where run: "release sample_env \<lparr>release_token = sample_token\<rparr> running_db = (Inr x, db')"
    by (cases "release sample_env \<lparr>release_token = sample_token\<rparr> running_db") (auto simp: is_ok_iff)
  have "head_next_attempt_at (stored_head st) = Some 900"
    if "readable (env_sha sample_env) running_db sample_key st" for st
    using readable_unique [OF that sample_readable(2)]
    by (simp add: running_stored_def sample_detail_def sample_head_def)
  with release_preserves_subscription [OF sample_dbs_ok(2) run] run show ?thesis by fastforce
qed

text \<open>An extension moves the lease forward only: the same attempt stays on the row, its new lease
  ends the asked time after the clock and strictly later than before, and the lifecycle,
  payload, projection and tags are what they were.\<close>

theorem extension_moves_lease_forward:
  assumes "db_ok db" and "extend_lease env c db = (Inr x, db')"
  shows "\<exists>now st cur post. env_clock env = Inr now \<and>
    readable (env_sha env) db (token_key (extend_token c)) st \<and>
    stored_controls st = ControlsRunning cur \<and> persisted_token cur = extend_token c \<and>
    readable (env_sha env) db' (token_key (extend_token c)) post \<and>
    stored_controls post = ControlsRunning \<lparr>persisted_token = extend_token c,
      persisted_lease_until = current_lease_until (extended_attempt x)\<rparr> \<and>
    persisted_lease_until cur < current_lease_until (extended_attempt x) \<and>
    uint (current_lease_until (extended_attempt x)) = uint now + uint (extend_lease_ttl c) \<and>
    head_lifecycle_state (stored_head post) = head_lifecycle_state (stored_head st) \<and>
    payload_eq (det_payload (stored_detail st)) (det_payload (stored_detail post))"
  by (rule extend_lease_body_Inr [OF assms(1) assms(2) [unfolded extend_lease_def run_transaction_Inr]])
    (auto simp: fenced_step_def verify_preserved_detail_def dest: lease_boundary_Inr)

theorem extension_moves_lease_forward_witness:
  "\<exists>x db'. extend_lease sample_env \<lparr>extend_token = sample_token, extend_lease_ttl = 3000\<rparr> running_db
      = (Inr x, db') \<and> uint (current_lease_until (extended_attempt x)) = 4000"
proof -
  have "is_ok (fst (extend_lease sample_env \<lparr>extend_token = sample_token, extend_lease_ttl = 3000\<rparr> running_db))"
    by code_simp
  then obtain x db' where run: "extend_lease sample_env
      \<lparr>extend_token = sample_token, extend_lease_ttl = 3000\<rparr> running_db = (Inr x, db')"
    by (cases "extend_lease sample_env \<lparr>extend_token = sample_token, extend_lease_ttl = 3000\<rparr> running_db")
      (auto simp: is_ok_iff)
  from extension_moves_lease_forward [OF sample_dbs_ok(2) run] run show ?thesis
    by (auto simp: sample_env_def)
qed

text \<open>C12. Finishing returns: when no call faults, the attempt is live, the delta applies to the stored
  payload and the result can be written (\<open>writable\<close>: the source projects, the numbers fit
  SQLite's INTEGER, the JSON codec keeps the payload's floats), the transaction commits. None
  of its post-write checks, CHECK constraints or index can refuse it.\<close>

theorem finish_returns:
  assumes "db_ok db" and "fault_free env" and "clock_in_range env now"
    and "readable (env_sha env) db (token_key (finish_token c)) st"
    and "require_live_attempt st (finish_token c) now = Inr cur"
    and "apply_to_latest (env_sha env) (finish_delta c) (token_key (finish_token c))
          (det_payload (stored_detail st)) = Inr merged"
    and "writable env st now (next_delay (finish_disposition c)) merged"
  shows "\<exists>x db'. finish env c db = (Inr x, db')"
  by (rule finish_succeeds [OF assms])

lemma sample_live: "require_live_attempt running_stored sample_token 1000 = Inr sample_attempt"
  by (simp add: require_live_attempt_def running_stored_def sample_attempt_def)

lemma sample_delta:
  "apply_to_latest (env_sha sample_env) (DeltaSearch None []) sample_key
     (det_payload (stored_detail running_stored)) = Inr sample_payload"
  by code_simp

lemma sample_writable:
  "writable sample_env running_stored 1000 (Some 0) sample_payload"
  "writable sample_env running_stored 1000 (Some 60) sample_payload"
proof -
  have "projection_texts (projection_of (pl_source sample_payload))" by code_simp
  moreover have "valid_text ''Film''" by (simp add: valid_text_def trim_simps)
  ultimately show "writable sample_env running_stored 1000 (Some 0) sample_payload"
    and "writable sample_env running_stored 1000 (Some 60) sample_payload"
    by (simp_all add: writable_def source_wf_def sample_payload_def sample_source_def i64_max_def
        running_stored_def sample_detail_def sample_head_def sample_env_def payload_f64s_def
        contains_nul_def opt_all_def)
qed

theorem finish_returns_witness: "\<exists>x db'. finish sample_env finish_sample running_db = (Inr x, db')"
  using finish_returns [of running_db sample_env 1000 finish_sample running_stored sample_attempt
      sample_payload] sample_dbs_ok(2) sample_envs sample_readable(2) sample_live sample_delta
    sample_writable(1)
  by (simp add: finish_sample_def)

text \<open>Recording a failure returns under the same conditions, for a valid error and a retry counter
  that is not exhausted: a worker can always report that its attempt failed.\<close>

theorem failure_returns:
  assumes "db_ok db" and "fault_free env" and "clock_in_range env now"
    and "readable (env_sha env) db (token_key (fail_token c)) st"
    and "require_live_attempt st (fail_token c) now = Inr cur"
    and "apply_to_latest (env_sha env) (fail_delta c) (token_key (fail_token c))
          (det_payload (stored_detail st)) = Inr merged"
    and "valid_text (fail_error_type c)" and "valid_text (fail_message c)"
    and "checked_add (head_retry_count (stored_head st)) 1 = Some rc"
    and "writable env st now (Some (fail_retry_after c)) merged"
  shows "\<exists>x db'. fail_execution env c db = (Inr x, db')"
  by (rule fail_succeeds [OF assms])

theorem failure_returns_witness: "\<exists>x db'. fail_execution sample_env fail_sample running_db = (Inr x, db')"
proof -
  have "checked_add (head_retry_count (stored_head running_stored)) 1 = Some 1" by code_simp
  moreover have "valid_text ''net''" "valid_text ''down''" by (simp_all add: valid_text_def trim_simps)
  ultimately show ?thesis
    using failure_returns [of running_db sample_env 1000 fail_sample running_stored sample_attempt
        sample_payload 1] sample_dbs_ok(2) sample_envs sample_readable(2) sample_live sample_delta
      sample_writable(2)
    by (simp add: fail_sample_def)
qed

end
