(* ===== verification/Effects_Properties.thy ===== *)
theory Effects_Properties
  imports Effects_Domain
begin

text \<open>
  Facts about external effects: the encoding behind the effect keys is injective, a request
  built by \<open>try_new\<close> always gets a decision, an add is decided only when no matching task
  exists, and a hardlink plan keeps every path and never overwrites a target.
\<close>

subsection \<open>Injectivity of the key encoding\<close>

lemma digits_determine:
  fixes n m b :: nat
  assumes "\<And>i. i < k \<Longrightarrow> n div b ^ i mod b = m div b ^ i mod b"
  shows "n mod b ^ k = m mod b ^ k"
  using assms by (induction k) (simp_all add: mod_mult2_eq mult.commute [of b])

lemma be64_inj:
  assumes "be64 n = be64 m" and "n < 2 ^ 64" and "m < 2 ^ 64"
  shows "n = m"
proof -
  have positions: "i \<in> set [7, 6, 5, 4, 3, 2, 1, 0]" if "i < 8" for i :: nat
    using that by simp presburger
  have chars: "char_of (n div 256 ^ i mod 256) = (char_of (m div 256 ^ i mod 256) :: char)" if "i < 8" for i
    using assms(1) positions [OF that] unfolding be64_def map_eq_conv by blast
  have "n div 256 ^ i mod 256 = m div 256 ^ i mod 256" if "i < 8" for i
    using arg_cong [OF chars [OF that], of "of_char :: char \<Rightarrow> nat"] by simp
  then have "n mod 256 ^ 8 = m mod 256 ^ 8" by (rule digits_determine)
  with assms(2,3) show ?thesis by simp
qed

lemma length_be64 [simp]: "length (be64 n) = 8"
  by (simp add: be64_def)

definition frameable :: "string \<Rightarrow> bool" where
  "frameable c \<longleftrightarrow> length c < 2 ^ 64"

lemma framed_inj:
  assumes "framed c @ u = framed d @ v" and "frameable c" and "frameable d"
  shows "c = d \<and> u = v"
proof -
  have "be64 (length c) = be64 (length d)" and rest: "c @ u = d @ v"
    using assms(1) by (simp_all add: framed_def)
  with assms(2,3) have "length c = length d" by (auto simp: frameable_def intro: be64_inj)
  with rest show ?thesis by simp
qed

lemma framed_all_inj:
  "framed_all cs = framed_all ds \<Longrightarrow> length cs = length ds \<Longrightarrow> list_all frameable cs \<Longrightarrow>
     list_all frameable ds \<Longrightarrow> cs = ds"
proof (induction cs arbitrary: ds)
  case (Cons c cs)
  then obtain d ds' where ds: "ds = d # ds'" by (cases ds) auto
  with Cons.prems have "c = d \<and> framed_all cs = framed_all ds'"
    by (intro framed_inj) (auto simp: framed_all_def)
  with Cons ds show ?case by auto
qed simp

lemma hex_digit_inj: "a < 16 \<Longrightarrow> b < 16 \<Longrightarrow> hex_digit a = hex_digit b \<Longrightarrow> a = b"
proof -
  assume *: "a < 16" "b < 16" "hex_digit a = hex_digit b"
  have code: "of_char (hex_digit d) = (if d < 10 then 48 + d else 87 + d)" if "d < 16" for d :: nat
    using that by (simp add: hex_digit_def)
  have "(of_char (hex_digit a) :: nat) = of_char (hex_digit b)"
    using *(3) by simp
  then show "a = b"
    using *(1,2) by (simp add: code split: if_splits)
qed

lemma hex02_inj: "hex02 c = hex02 d \<Longrightarrow> c = d"
proof -
  assume *: "hex02 c = hex02 d"
  have small: "(of_char e :: nat) div 16 < 16" for e :: char
    using nat_of_char_less_256 [of e] by (simp add: less_mult_imp_div_less)
  have "(of_char c :: nat) div 16 = of_char d div 16" "(of_char c :: nat) mod 16 = of_char d mod 16"
    using * hex_digit_inj [OF small small]
      hex_digit_inj [of "of_char c mod 16" "of_char d mod 16"] by (auto simp: hex02_def Let_def)
  then have "(of_char c :: nat) = of_char d" by (metis div_mult_mod_eq)
  then show "c = d" by simp
qed

lemma hex_bytes_inj: "hex_bytes u = hex_bytes v \<Longrightarrow> u = v"
proof (induction u arbitrary: v)
  case Nil
  then show ?case by (cases v) (auto simp: hex_bytes_def hex02_def Let_def)
next
  case (Cons c u)
  then obtain d w where v: "v = d # w"
    by (cases v) (auto simp: hex_bytes_def hex02_def Let_def)
  with Cons.prems have "hex02 c = hex02 d" "hex_bytes u = hex_bytes w"
    by (simp_all add: hex_bytes_def hex02_def Let_def)
  with Cons.IH v hex02_inj show ?case by auto
qed

lemma effect_operation_as_str_inj [simp]:
  "effect_operation_as_str a = effect_operation_as_str b \<longleftrightarrow> a = b"
  by (cases a; cases b) simp_all

lemma frameable_operation [simp]: "frameable (effect_operation_as_str op)"
  by (cases op) (simp_all add: frameable_def)

text \<open>Two identities with the same key are equal, or SHA-256 collides on their encodings.\<close>

lemma effect_key_collision:
  assumes key: "stable_effect_key sha a s t op = stable_effect_key sha a' s' t' op'"
    and short: "list_all frameable [a, s, t, a', s', t']"
  shows "(a, s, t, op) = (a', s', t', op') \<or> (\<exists>x y. x \<noteq> y \<and> sha x = sha y)"
proof -
  let ?f = "\<lambda>a s t op. effect_key_domain @ framed_all [a, s, t, effect_operation_as_str op]"
  have op: "op = op'"
    using key by (cases op; cases op')
      (simp_all add: stable_effect_key_def download_effect_key_prefix_def link_effect_key_prefix_def)
  with key have "sha (?f a s t op) = sha (?f a' s' t' op')"
    by (simp add: stable_effect_key_def hex_bytes_inj)
  moreover have "(a, s, t, op) = (a', s', t', op')" if "?f a s t op = ?f a' s' t' op'"
    using framed_all_inj [of "[a, s, t, effect_operation_as_str op]"
        "[a', s', t', effect_operation_as_str op']"] that short by simp
  ultimately show ?thesis by blast
qed

subsection \<open>Reconciliation\<close>

text \<open>What \<open>try_new\<close> builds: a normalized hash comes with its source.\<close>

definition request_wf :: "qb_reconcile_request \<Rightarrow> bool" where
  "request_wf r \<longleftrightarrow> (authoritative_hash r = None \<longleftrightarrow> hash_source r = None)"

lemma request_try_new_wf:
  "qb_reconcile_request_try_new sha a s t stored selected = Inr r \<Longrightarrow> request_wf r"
  by (auto simp: qb_reconcile_request_try_new_def request_wf_def split: option.splits if_splits)

lemma set_tagged [simp]:
  "set (tagged_hashes tag obs) = {obs_hash ob | ob. ob \<in> set obs \<and> has_exact_tag ob tag}"
  by (auto simp: tagged_hashes_def)

lemma tagged_distinct [simp]: "distinct (tagged_hashes tag obs)"
  by (simp add: tagged_hashes_def)

lemma tagged_Nil: "tagged_hashes tag obs = [] \<longleftrightarrow> (\<forall>ob \<in> set obs. \<not> has_exact_tag ob tag)"
  unfolding set_empty [symmetric] set_tagged by auto

lemma observation_Some:
  "observation_by_hash obs h = Some ob \<Longrightarrow> ob \<in> set obs \<and> obs_hash ob = h"
  by (auto simp: observation_by_hash_def find_Some_iff)

lemma observation_None:
  "observation_by_hash obs h = None \<longleftrightarrow> (\<forall>ob \<in> set obs. obs_hash ob \<noteq> h)"
  by (auto simp: observation_by_hash_def find_None_iff)

lemma tagged_observed: "tagged_hashes tag obs = h # hs \<Longrightarrow> \<exists>ob. observation_by_hash obs h = Some ob"
proof -
  assume "tagged_hashes tag obs = h # hs"
  then have "h \<in> set (tagged_hashes tag obs)" by simp
  then have "observation_by_hash obs h \<noteq> None" unfolding set_tagged observation_None by auto
  then show ?thesis by blast
qed

lemma reconcile_no_panic:
  "request_wf r \<Longrightarrow> reconcile_qb_torrent_checked r obs = Some (reconcile_qb_torrent r obs)"
  unfolding reconcile_qb_torrent_def
  by (cases "tagged_hashes (effect_key_str (request_key r)) obs"; cases "authoritative_hash r")
    (auto simp: reconcile_qb_torrent_checked_def Let_def request_wf_def dest: tagged_observed
      split: list.splits option.splits qb_hash_source.splits)

lemma reconcile_Add:
  assumes "request_wf r" and "reconcile_qb_torrent r obs = Add"
  shows "\<forall>ob \<in> set obs. \<not> has_exact_tag ob (effect_key_str (request_key r)) \<and>
           authoritative_hash r \<noteq> Some (obs_hash ob)"
proof -
  let ?tag = "effect_key_str (request_key r)"
  have add: "reconcile_qb_torrent_checked r obs = Some Add"
    using assms reconcile_no_panic by simp
  have absent: "observation_by_hash obs h = None" if "authoritative_hash r = Some h" for h
    using add that
    by (auto simp: reconcile_qb_torrent_checked_def Let_def
        split: list.splits option.splits if_splits qb_hash_source.splits)
  have "tagged_hashes ?tag obs = []"
  proof (rule ccontr)
    assume "tagged_hashes ?tag obs \<noteq> []"
    then obtain h hs where tagged: "tagged_hashes ?tag obs = h # hs" by (cases "tagged_hashes ?tag obs") auto
    from tagged_observed [OF this] add absent show False
      by (auto simp: reconcile_qb_torrent_checked_def Let_def tagged
          split: list.splits option.splits if_splits)
  qed
  with absent show ?thesis by (auto simp: tagged_Nil observation_None)
qed

lemma reconcile_UseExisting:
  assumes "request_wf r" and "reconcile_qb_torrent r obs = UseExisting ob why"
  shows "ob \<in> set obs \<and> (authoritative_hash r = Some (obs_hash ob) \<or>
    authoritative_hash r = None \<and>
      (\<exists>o' \<in> set obs. obs_hash o' = obs_hash ob \<and> has_exact_tag o' (effect_key_str (request_key r)))) \<and>
    (\<forall>o' \<in> set obs. has_exact_tag o' (effect_key_str (request_key r)) \<longrightarrow> obs_hash o' = obs_hash ob)"
proof -
  let ?tag = "effect_key_str (request_key r)"
  have use: "reconcile_qb_torrent_checked r obs = Some (UseExisting ob why)"
    using assms reconcile_no_panic by simp
  obtain tagged where tagged: "tagged_hashes ?tag obs = tagged" by blast
  have short: "tagged = [] \<or> (\<exists>h. tagged = [h])"
    using use by (auto simp: reconcile_qb_torrent_checked_def Let_def tagged split: list.splits)
  have all: "{obs_hash ob | ob. ob \<in> set obs \<and> has_exact_tag ob ?tag} = set tagged"
    using set_tagged [of ?tag obs] tagged by simp
  show ?thesis
  proof (cases "authoritative_hash r")
    case None
    with use short obtain h where h: "tagged = [h]" "observation_by_hash obs h = Some ob"
      by (auto simp: reconcile_qb_torrent_checked_def Let_def tagged split: option.splits)
    have "h \<in> {obs_hash ob | ob. ob \<in> set obs \<and> has_exact_tag ob ?tag}"
      unfolding all using h(1) by simp
    then obtain o' where "o' \<in> set obs" "obs_hash o' = h" "has_exact_tag o' ?tag" by blast
    moreover have "\<forall>o' \<in> set obs. has_exact_tag o' ?tag \<longrightarrow> obs_hash o' = h"
      using all h(1) by auto
    ultimately show ?thesis
      using None observation_Some [OF h(2)] by auto
  next
    case (Some a)
    with use short have "observation_by_hash obs a = Some ob \<and> (tagged = [] \<or> tagged = [a])"
      by (auto simp: reconcile_qb_torrent_checked_def Let_def tagged
          split: option.splits if_splits qb_hash_source.splits)
    with all Some observation_Some show ?thesis by auto
  qed
qed

subsection \<open>At most one add\<close>

lemma ensure_Add:
  "port_inspect port p (effect_key_str (request_key r)) (authoritative_hash r) = (Inr obs, p1) \<Longrightarrow>
   reconcile_qb_torrent r obs = Add \<Longrightarrow>
   ensure_qb_torrent port p r =
     (case port_add port p1 (qb_add_request_of r) of
        (Inl e, p2) \<Rightarrow> (Inl (Port e), p2) | (Inr _, p2) \<Rightarrow> (Inr (Added (request_key r)), p2))"
  by (simp add: ensure_qb_torrent_def)

lemma distinct_singleton: "distinct xs \<Longrightarrow> set xs = {a} \<Longrightarrow> xs = [a]"
  by (cases xs rule: remdups_adj.cases) auto

text \<open>A port that shows one task for the key, of the expected hash, gets no add.\<close>

lemma reconcile_observed:
  assumes wf: "request_wf r" and ob: "ob \<in> set obs" "has_exact_tag ob (effect_key_str (request_key r))"
    and unique: "\<forall>o' \<in> set obs. has_exact_tag o' (effect_key_str (request_key r)) \<longrightarrow> obs_hash o' = obs_hash ob"
    and hash: "\<forall>h. authoritative_hash r = Some h \<longrightarrow> obs_hash ob = h"
  shows "\<exists>t why. reconcile_qb_torrent r obs = UseExisting t why"
proof (cases "reconcile_qb_torrent r obs")
  case Add
  with reconcile_Add [OF wf Add] ob show ?thesis by auto
next
  case (Conflict c)
  let ?tag = "effect_key_str (request_key r)"
  have conflict: "reconcile_qb_torrent_checked r obs = Some (Conflict c)"
    using Conflict reconcile_no_panic [OF wf] by simp
  have "set (tagged_hashes ?tag obs) = {obs_hash ob}"
    unfolding set_tagged using ob unique by (intro equalityI subsetI) blast+
  then have tagged: "tagged_hashes ?tag obs = [obs_hash ob]"
    by (rule distinct_singleton [OF tagged_distinct])
  then obtain t where t: "observation_by_hash obs (obs_hash ob) = Some t"
    using tagged_observed by blast
  have False
  proof (cases "authoritative_hash r")
    case None
    with conflict tagged t show False by (simp add: reconcile_qb_torrent_checked_def)
  next
    case (Some a)
    with hash have "a = obs_hash ob" by simp
    with Some conflict tagged t show False by (simp add: reconcile_qb_torrent_checked_def)
  qed
  then show ?thesis ..
qed blast

subsection \<open>Hardlink plans\<close>

lemma plan_link_files_Inr:
  "plan_link_files targets fps = Inr planned \<longleftrightarrow>
     distinct (map (\<lambda>(f, p). path_components (effect_target_path f)) fps) \<and>
     set targets \<inter> set (map (\<lambda>(f, p). path_components (effect_target_path f)) fps) = {} \<and>
     planned = map (\<lambda>(f, p). \<lparr>planned_source_path = effect_source_path f,
       planned_target_path = effect_target_path f, planned_action = link_action f p\<rparr>) fps"
  by (induction targets fps arbitrary: planned rule: plan_link_files.induct)
    (auto simp: and_then_Inr_iff)

lemma link_action_Create: "link_action f p = Create \<longleftrightarrow> probe_source p \<noteq> None \<and> probe_target p = None"
  by (auto simp: link_action_def split: option.splits)

lemma link_action_linked:
  "action_outcome (link_action f p) = LinkLinked \<longleftrightarrow>
     probe_target p \<noteq> None \<and> probe_source p = probe_target p"
  by (auto simp: link_action_def split: option.splits)

section \<open>Properties of the decisions\<close>

text \<open>
  The properties of the external-effect rules: keys that name one identity, reconciliation
  that never authorizes a second add, and hardlink retries that never overwrite.
\<close>

text \<open>The stable effect key names one identity: two (account, subject, torrent, operation)
  tuples with the same key are equal, unless SHA-256 itself maps two different byte strings to
  the same digest. The length framing rules out every other collision, and a download key is
  never a link key.\<close>

theorem effect_key_names_identity:
  assumes "stable_effect_key sha a s t op = stable_effect_key sha a' s' t' op'"
    and "list_all frameable [a, s, t, a', s', t']"
  shows "(a, s, t, op) = (a', s', t', op') \<or> (\<exists>x y. x \<noteq> y \<and> sha x = sha y)"
  by (rule effect_key_collision [OF assms])

theorem effect_key_names_identity_witness:
  "(''a'', ''b'', ''c'', QbAddTorrent) = (''a'', ''b'', ''c'', QbAddTorrent)
   \<or> (\<exists>x y. x \<noteq> y \<and> (\<lambda>u :: string. u) x = (\<lambda>u. u) y)"
  by (rule effect_key_names_identity [OF refl]) (simp add: frameable_def)

text \<open>Reconciliation never reaches its \<open>expect\<close> or \<open>unreachable!\<close>: every request that
  \<open>QbReconcileRequest::try_new\<close> builds gets a decision for every list of observations.\<close>

theorem reconcile_always_decides:
  assumes "qb_reconcile_request_try_new sha account subject torrent stored selected = Inr request"
  shows "reconcile_qb_torrent_checked request obs \<noteq> None"
  using reconcile_no_panic [OF request_try_new_wf [OF assms]] by simp

definition sample_request :: qb_reconcile_request where
  "sample_request = \<lparr>request_key = EffectIdempotencyKey ''download:v1:'', request_torrent_id = ''t'',
     authoritative_hash = None, hash_source = None\<rparr>"

lemma sample_request_built:
  "qb_reconcile_request_try_new (\<lambda>_. []) ''a'' ''s'' ''t'' None None = Inr sample_request"
  by code_simp

theorem reconcile_always_decides_witness: "reconcile_qb_torrent_checked sample_request [] \<noteq> None"
  by (rule reconcile_always_decides [OF sample_request_built])

text \<open>An add is decided only when nothing matches: no observed task carries the stable tag, and
  none has the stored or selected hash. A task whose tag is ambiguous or disagrees with the
  hash is never answered with a second add.\<close>

theorem add_only_when_absent:
  assumes "qb_reconcile_request_try_new sha account subject torrent stored selected = Inr request"
    and "reconcile_qb_torrent request obs = Add" and "ob \<in> set obs"
  shows "\<not> has_exact_tag ob (effect_key_str (request_key request)) \<and>
         authoritative_hash request \<noteq> Some (obs_hash ob)"
  using reconcile_Add [OF request_try_new_wf [OF assms(1)] assms(2)] assms(3) by blast

definition foreign_task :: qb_torrent_observation where
  "foreign_task = \<lparr>obs_hash = ''ff'', obs_name = ''n'', obs_tags = [''other'']\<rparr>"

theorem add_only_when_absent_witness:
  "\<not> has_exact_tag foreign_task (effect_key_str (request_key sample_request)) \<and>
   authoritative_hash sample_request \<noteq> Some (obs_hash foreign_task)"
proof (rule add_only_when_absent [OF sample_request_built])
  show "reconcile_qb_torrent sample_request [foreign_task] = Add" by code_simp
qed simp

text \<open>A reused task is the right one: it was observed, it has the authoritative hash or, without
  one, the hash of a task that carries the stable tag; every tagged task has its hash.\<close>

theorem reused_task_matches:
  assumes "qb_reconcile_request_try_new sha account subject torrent stored selected = Inr request"
    and "reconcile_qb_torrent request obs = UseExisting ob why"
  shows "ob \<in> set obs \<and>
    (authoritative_hash request = Some (obs_hash ob) \<or>
     authoritative_hash request = None \<and>
       (\<exists>o' \<in> set obs. obs_hash o' = obs_hash ob \<and>
          has_exact_tag o' (effect_key_str (request_key request)))) \<and>
    (\<forall>o' \<in> set obs. has_exact_tag o' (effect_key_str (request_key request)) \<longrightarrow> obs_hash o' = obs_hash ob)"
  by (rule reconcile_UseExisting [OF request_try_new_wf [OF assms(1)] assms(2)])

definition tagged_task :: qb_torrent_observation where
  "tagged_task = \<lparr>obs_hash = ''aa'', obs_name = ''n'', obs_tags = [''download:v1:'']\<rparr>"

theorem reused_task_matches_witness:
  "tagged_task \<in> set [foreign_task, tagged_task] \<and>
   (\<exists>o' \<in> set [foreign_task, tagged_task]. obs_hash o' = obs_hash tagged_task \<and>
      has_exact_tag o' (effect_key_str (request_key sample_request)))"
proof -
  have "reconcile_qb_torrent sample_request [foreign_task, tagged_task] = UseExisting tagged_task StableTag"
    by code_simp
  from reused_task_matches [OF sample_request_built this] show ?thesis
    by (simp add: sample_request_def)
qed

text \<open>A lost response does not add twice: when qBittorrent accepted an add but its answer was
  lost, and the next inspection shows the added task under the stable tag (and no other task
  under it, and the expected hash if one is known), the retry reconciles with that task and
  issues no second add.\<close>

theorem lost_response_adds_once:
  assumes built: "qb_reconcile_request_try_new sha account subject torrent stored selected = Inr request"
    and first: "port_inspect port p (effect_key_str (request_key request)) (authoritative_hash request)
        = (Inr obs, p1)" "reconcile_qb_torrent request obs = Add"
    and lost: "port_add port p1 (qb_add_request_of request) = (Inl e, p2)"
    and second: "port_inspect port p2 (effect_key_str (request_key request)) (authoritative_hash request)
        = (Inr obs', p3)"
    and added: "ob \<in> set obs'" "has_exact_tag ob (effect_key_str (request_key request))"
      "\<forall>o' \<in> set obs'. has_exact_tag o' (effect_key_str (request_key request)) \<longrightarrow> obs_hash o' = obs_hash ob"
      "\<forall>h. authoritative_hash request = Some h \<longrightarrow> obs_hash ob = h"
  shows "ensure_qb_torrent port p request = (Inl (Port e), p2) \<and>
    (\<exists>torrent why. ensure_qb_torrent port p2 request = (Inr (Reconciled torrent why), p3))"
proof -
  obtain torrent why where "reconcile_qb_torrent request obs' = UseExisting torrent why"
    using reconcile_observed [OF request_try_new_wf [OF built] added] by blast
  with first lost second show ?thesis by (simp add: ensure_qb_torrent_def)
qed

text \<open>A port over the number of adds it has seen, whose responses to an add are lost.\<close>

definition losing_port :: "(nat, string) qb_effect_port" where
  "losing_port =
     \<lparr>port_inspect = (\<lambda>n tag hash. (Inr (if n = 0 then [] else [tagged_task]), n)),
      port_add = (\<lambda>n request. (Inl ''lost'', Suc n))\<rparr>"

theorem lost_response_adds_once_witness:
  "ensure_qb_torrent losing_port 0 sample_request = (Inl (Port ''lost''), 1) \<and>
   (\<exists>torrent why. ensure_qb_torrent losing_port 1 sample_request = (Inr (Reconciled torrent why), 1))"
proof (rule lost_response_adds_once [OF sample_request_built, where ob = tagged_task and obs' = "[tagged_task]"])
  show "reconcile_qb_torrent sample_request [] = Add" by code_simp
qed (simp_all add: losing_port_def has_exact_tag_def tagged_task_def sample_request_def)

text \<open>A hardlink plan is exactly one action per file, on the file's own paths, and no two files
  share a target; it creates a link only where the source exists and nothing is at the target,
  and reports a file as linked only when both paths are the same inode. Nothing is ever
  overwritten.\<close>

theorem link_plan_is_nondestructive:
  assumes "plan_link_retry files probes = Inr planned" and "i < length files"
  shows "length probes = length files \<and> length planned = length files \<and>
    distinct (map (\<lambda>f. path_components (effect_target_path f)) files) \<and>
    planned_source_path (planned ! i) = effect_source_path (files ! i) \<and>
    planned_target_path (planned ! i) = effect_target_path (files ! i) \<and>
    (planned_action (planned ! i) = Create \<longleftrightarrow>
       probe_source (probes ! i) \<noteq> None \<and> probe_target (probes ! i) = None) \<and>
    (resulting_outcome (planned ! i) = LinkLinked \<longleftrightarrow>
       probe_target (probes ! i) \<noteq> None \<and> probe_source (probes ! i) = probe_target (probes ! i))"
proof -
  have len: "length probes = length files"
    and plan: "plan_link_files [] (zip files probes) = Inr planned"
    using assms(1) by (auto simp: plan_link_retry_def split: if_splits)
  have "map (\<lambda>(f, p). path_components (effect_target_path f)) (zip files probes)
      = map (\<lambda>f. path_components (effect_target_path f)) files"
    using len by (simp add: list_eq_iff_nth_eq)
  with plan have distinct: "distinct (map (\<lambda>f. path_components (effect_target_path f)) files)"
    and planned: "planned = map (\<lambda>(f, p). \<lparr>planned_source_path = effect_source_path f,
       planned_target_path = effect_target_path f, planned_action = link_action f p\<rparr>) (zip files probes)"
    by (simp_all add: plan_link_files_Inr)
  show ?thesis
    using len distinct assms(2)
    by (simp add: planned link_action_Create resulting_outcome_def link_action_linked)
qed

theorem link_plan_is_nondestructive_witness:
  "\<exists>planned. plan_link_retry
      [\<lparr>effect_source_path = ''a'', effect_target_path = ''b'', effect_persisted_outcome = LinkFailed\<rparr>]
      [\<lparr>probe_source = Some \<lparr>identity_namespace = 1, identity_object = 2\<rparr>, probe_target = None\<rparr>]
      = Inr planned \<and> planned_action (planned ! 0) = Create"
proof -
  let ?fs = "[\<lparr>effect_source_path = ''a'', effect_target_path = ''b'', effect_persisted_outcome = LinkFailed\<rparr>]"
  let ?ps = "[\<lparr>probe_source = Some \<lparr>identity_namespace = 1, identity_object = 2\<rparr>, probe_target = None\<rparr>]"
  obtain planned where plan: "plan_link_retry ?fs ?ps = Inr planned"
    by (simp add: plan_link_retry_def)
  from link_plan_is_nondestructive [OF plan, of 0] plan show ?thesis by auto
qed

end
