(* ===== verification/Contract_Theorems.thy ===== *)
theory Contract_Theorems
  imports Poll_Contract Example_Data
begin

text \<open>
  The properties of the domain contract: validation, decoding, payload deltas and the merge
  of an upstream observation.
\<close>

text \<open>C16. The payload validator decides well-formedness: \<open>validate_for\<close> accepts exactly the
  payloads whose identities are unique, whose links and issues refer to what the payload holds,
  whose link states are the ones their files give, whose progress lies in the unit interval and
  whose artifact keys are the stable ones of the subscription. Its order of checks adds and
  loses nothing.\<close>

theorem validator_decides_wellformedness:
  "payload_validate_for sha account subject p = Inr () \<longleftrightarrow>
     valid_text account \<and> valid_text subject \<and> payload_wf p \<and> keys_stable sha account subject p"
  by (rule payload_validate_for_Inr)

text \<open>C17. Decoding is the inverse of the column encoding: a row that passes the table's CHECKs decodes
  to a detail exactly when its columns are the encodings of the detail's parts and the detail
  satisfies its invariant; in particular a row has at most one reading.\<close>

theorem decoding_inverts_encoding:
  assumes "row_ok r"
  shows "try_into_detail sha r = Inr d \<longleftrightarrow> detail_columns r d \<and> detail_read sha d"
  by (rule try_into_detail_Inr [OF assms])

theorem decoding_inverts_encoding_witness:
  "try_into_detail (\<lambda>_. ''d'') idle_row = Inr (sample_detail sample_head) \<longleftrightarrow>
     detail_columns idle_row (sample_detail sample_head) \<and>
     detail_read (\<lambda>_. ''d'') (sample_detail sample_head)"
proof (rule decoding_inverts_encoding)
  show "row_ok idle_row" by code_simp
qed

lemma delta_merge_fields:
  assumes "delta_merge delta p = Inr q" and "delta \<noteq> DeltaReplacementCleaned"
  shows "\<exists>artifacts. q = p
      \<lparr>pl_replacement_prepared :=
         (case delta of DeltaReplacementPrepared _ \<Rightarrow> True | _ \<Rightarrow> pl_replacement_prepared p),
       pl_source := (case delta of
           DeltaMovieMeta source \<Rightarrow> merge_source_observation (pl_source p) source
         | DeltaTvMeta _ (Some source) \<Rightarrow> merge_source_observation (pl_source p) source
         | _ \<Rightarrow> pl_source p),
       pl_candidates := (case delta of DeltaSearch (Some cs) _ \<Rightarrow> cs | _ \<Rightarrow> pl_candidates p),
       pl_tv := (case delta of DeltaTvMeta tv _ \<Rightarrow> Some tv | _ \<Rightarrow> pl_tv p),
       pl_artifacts := artifacts\<rparr>"
  using assms
  by (intro exI [of _ "pl_artifacts q"]; cases delta) (auto split: option.splits)

text \<open>C15. A delta writes exactly its updates: whatever it is applied to, the merged payload is valid,
  carries every updated download and link as given, keeps every artifact whose key the delta
  does not name, and holds no artifact from elsewhere. Its candidates are those of a search that
  brings some, its series that of the metadata of a series, its source the stored one merged with the
  metadata's, its replacement is prepared by the delta that says so, and every other field is the
  stored one. Only the cleanup of a replacement removes artifacts.\<close>

theorem delta_writes_exactly_its_updates:
  assumes "apply_to_latest sha delta key latest = Inr q" and "delta \<noteq> DeltaReplacementCleaned"
  shows "payload_wf q \<and>
    set (delta_downloads delta) \<subseteq> set (art_downloads (pl_artifacts q)) \<and>
    set (delta_links delta) \<subseteq> set (art_links (pl_artifacts q)) \<and>
    (\<forall>d \<in> set (art_downloads (pl_artifacts latest)).
       dl_idempotency_key d \<notin> dl_idempotency_key ` set (delta_downloads delta) \<longrightarrow>
       d \<in> set (art_downloads (pl_artifacts q))) \<and>
    (\<forall>l \<in> set (art_links (pl_artifacts latest)).
       lk_idempotency_key l \<notin> lk_idempotency_key ` set (delta_links delta) \<longrightarrow>
       l \<in> set (art_links (pl_artifacts q))) \<and>
    set (art_downloads (pl_artifacts q))
      \<subseteq> set (art_downloads (pl_artifacts latest)) \<union> set (delta_downloads delta) \<and>
    set (art_links (pl_artifacts q)) \<subseteq> set (art_links (pl_artifacts latest)) \<union> set (delta_links delta) \<and>
    (\<exists>artifacts. q = latest
      \<lparr>pl_replacement_prepared :=
         (case delta of DeltaReplacementPrepared _ \<Rightarrow> True | _ \<Rightarrow> pl_replacement_prepared latest),
       pl_source := (case delta of
           DeltaMovieMeta source \<Rightarrow> merge_source_observation (pl_source latest) source
         | DeltaTvMeta _ (Some source) \<Rightarrow> merge_source_observation (pl_source latest) source
         | _ \<Rightarrow> pl_source latest),
       pl_candidates := (case delta of DeltaSearch (Some cs) _ \<Rightarrow> cs | _ \<Rightarrow> pl_candidates latest),
       pl_tv := (case delta of DeltaTvMeta tv _ \<Rightarrow> Some tv | _ \<Rightarrow> pl_tv latest),
       pl_artifacts := artifacts\<rparr>)"
proof -
  have shape: "delta_validate_shape delta = Inr ()" and merged: "delta_merge delta latest = Inr q"
    and wf: "payload_wf q"
    using assms(1) by (simp_all add: apply_to_latest_Inr)
  have "distinct (map dl_idempotency_key (delta_downloads delta))"
    and "distinct (map lk_idempotency_key (delta_links delta))"
    using shape by (cases delta; auto)+
  then show ?thesis
    using wf delta_merge_artifacts [OF merged assms(2)] delta_merge_fields [OF merged assms(2)]
      downloads.merge_applied downloads.merge_untouched downloads.merge_subset
      links.merge_applied links.merge_untouched links.merge_subset
    by auto
qed

definition delta_sample_download :: "string \<Rightarrow> download_artifact_state \<Rightarrow> download_artifact_payload" where
  "delta_sample_download torrent state =
     \<lparr>dl_idempotency_key = stable_download_artifact_key (\<lambda>_. ''d'') ''acc'' ''s1'' torrent, dl_torrent_id = torrent,
      dl_torrent_title = ''Film 2026'', dl_qb_server_id = ''qb'', dl_qb_server_name = None, dl_qb_category = ''films'',
      dl_qb_save_dir_name = ''films'', dl_qb_identifier = None, dl_qb_hash = None, dl_qb_name = None, dl_qb_state = None,
      dl_torrent_download_url = None, dl_mteam_torrent_url = None, dl_state = state, dl_progress = None,
      dl_total_size = None, dl_files = [], dl_pushed_at = Some 900, dl_checked_at = None, dl_completed_at = None\<rparr>"

text \<open>The progress of a download\<close>

theorem delta_writes_exactly_its_updates_witness:
  "\<exists>q. apply_to_latest (\<lambda>_. ''d'') (DeltaProgress [delta_sample_download ''42'' DlDownloaded]) sample_key
         (sample_payload\<lparr>pl_artifacts := \<lparr>art_downloads = [delta_sample_download ''42'' DlPushed], art_links = []\<rparr>\<rparr>) = Inr q \<and>
       set (art_downloads (pl_artifacts q)) \<supseteq> {delta_sample_download ''42'' DlDownloaded} \<and>
       pl_candidates q = pl_candidates sample_payload \<and> pl_issues q = pl_issues sample_payload"
proof -
  let ?latest = "sample_payload\<lparr>pl_artifacts := \<lparr>art_downloads = [delta_sample_download ''42'' DlPushed], art_links = []\<rparr>\<rparr>"
  have "is_ok (apply_to_latest (\<lambda>_. ''d'') (DeltaProgress [delta_sample_download ''42'' DlDownloaded]) sample_key ?latest)"
    by code_simp
  then obtain q where
    q: "apply_to_latest (\<lambda>_. ''d'') (DeltaProgress [delta_sample_download ''42'' DlDownloaded]) sample_key ?latest = Inr q"
    by (auto simp: is_ok_iff)
  from delta_writes_exactly_its_updates [OF this] q show ?thesis by auto
qed

text \<open>A delta can be applied again: a payload that carries a delta's result takes the same delta
  without change, so a result reported twice is reported once. The cleanup of a replacement is
  the exception.\<close>

theorem delta_is_idempotent:
  assumes "apply_to_latest sha delta key latest = Inr q" and "delta \<noteq> DeltaReplacementCleaned"
  shows "apply_to_latest sha delta key q = Inr q"
proof -
  have "delta_merge delta q = Inr q"
    using assms
    by (intro delta_merge_again [of delta latest])
      (auto simp: apply_to_latest_Inr payload_wf_def artifacts_wf_def)
  with assms(1) show ?thesis by (simp add: apply_to_latest_Inr)
qed

theorem delta_is_idempotent_witness:
  "\<exists>q. apply_to_latest (\<lambda>_. ''d'') (DeltaMovieMeta sample_source) sample_key sample_payload = Inr q \<and>
       apply_to_latest (\<lambda>_. ''d'') (DeltaMovieMeta sample_source) sample_key q = Inr q"
proof -
  have "is_ok (apply_to_latest (\<lambda>_. ''d'') (DeltaMovieMeta sample_source) sample_key sample_payload)"
    by code_simp
  then obtain q where
    "apply_to_latest (\<lambda>_. ''d'') (DeltaMovieMeta sample_source) sample_key sample_payload = Inr q"
    by (auto simp: is_ok_iff)
  with delta_is_idempotent [OF this] show ?thesis by simp
qed

text \<open>Observing a snapshot again changes nothing: merging an upstream observation gives a valid
  payload whose source can be projected, keeps everything but the source and the time of the
  last observation, and merging the same observation at the same time once more gives the same
  payload. A poll that is retried does not drift.\<close>

theorem snapshot_merge_is_stable:
  assumes "merge_snapshot_observation p source at = Inr q"
  shows "payload_wf q \<and> projection_from_source (pl_source q) = Inr (projection_of (pl_source q)) \<and>
    q = p\<lparr>pl_source := merge_source_observation (pl_source p) source,
          pl_observation := (pl_observation p)\<lparr>obv_last_seen_at := at\<rparr>\<rparr> \<and>
    merge_snapshot_observation q source at = Inr q"
proof -
  let ?m = "merge_source_observation (pl_source p) source"
  have q: "q = p\<lparr>pl_source := ?m, pl_observation := (pl_observation p)\<lparr>obv_last_seen_at := at\<rparr>\<rparr>"
    and valid: "payload_validate q = Inr ()" and src: "source_wf source" "source_wf ?m"
    using assms by (auto simp: merge_snapshot_observation_def Let_def and_then_Inr_iff)
  have again: "merge_source_observation (pl_source q) source = ?m"
    by (simp add: q merge_source_idem)
  have "q\<lparr>pl_source := ?m, pl_observation := (pl_observation q)\<lparr>obv_last_seen_at := at\<rparr>\<rparr> = q"
    by (simp add: q)
  moreover have "projection_from_source source = Inr (projection_of source)"
      "projection_from_source ?m = Inr (projection_of ?m)"
    using src by simp_all
  moreover have "\<not> at < obv_last_seen_at (pl_observation q)"
    by (simp add: q)
  ultimately have "merge_snapshot_observation q source at = Inr q"
    using again valid
    by (simp add: merge_snapshot_observation_def Let_def del: projection_from_source_Inr)
  with valid src q show ?thesis by (simp add: payload_validate_Inr)
qed

theorem snapshot_merge_is_stable_witness:
  "\<exists>q. merge_snapshot_observation sample_payload sample_source 5 = Inr q \<and>
       merge_snapshot_observation q sample_source 5 = Inr q"
proof -
  have "is_ok (merge_snapshot_observation sample_payload sample_source 5)" by code_simp
  then obtain q where "merge_snapshot_observation sample_payload sample_source 5 = Inr q"
    by (auto simp: is_ok_iff)
  with snapshot_merge_is_stable [OF this] show ?thesis by blast
qed

text \<open>The state of a link artifact tells what happened to its files: completed when all are
  linked, partial when some are, planned when none is settled, failed when none is linked and
  one has failed, is missing or is in conflict.\<close>

theorem link_state_of_files:
  "derive_link_state files =
     (if list_all (\<lambda>f. lkf_outcome f = LinkLinked) files then StCompleted
      else if list_ex (\<lambda>f. lkf_outcome f = LinkLinked) files then StPartial
      else if list_ex (\<lambda>f. lkf_outcome f \<noteq> LinkPending) files then StFailed else StPlanned)"
  using derive_link_state_cases [of files]
  by (cases "derive_link_state files") (auto simp: list_all_iff list_ex_iff)

end
