(* ===== verification/Mutation_Theorems.thy ===== *)
theory Mutation_Theorems
  imports Mutation_Facts Example_Data
begin

text \<open>
  What a mutation leaves behind: a confirmed torrent and a forced retry are claimable at
  once, an optimistic update keeps the attempt and refuses a stale revision, the backfill
  settles every row, and the manual search keeps what the user holds on to.
\<close>

lemma labels_flipped [simp]:
  "''idle'' = execution_as_str e \<longleftrightarrow> e = Idle" "''searching'' = lifecycle_as_str l \<longleftrightarrow> l = Searching"
  by ((cases e; simp), (cases l; simp))

lemma idle_readable:
  assumes "db_ok db" and d: "detail_at sha db key d" and idle: "head_execution_state (det_head d) = Idle"
  shows "readable sha db key \<lparr>stored_detail = d, stored_controls = ControlsIdle\<rparr>"
proof -
  obtain r where r: "find_row db key = Some r" "row_ok r" "detail_columns r d" "detail_read sha d"
    using d unfolding detail_at_columns [OF assms(1)] by blast
  with idle have "controls_columns r key \<lparr>stored_detail = d, stored_controls = ControlsIdle\<rparr>"
    by (auto simp: controls_columns_def row_ok_def table_checks_def detail_columns_def
        summary_columns_def head_columns_def)
  with r show ?thesis
    unfolding readable_columns [OF assms(1)] by auto
qed

text \<open>A readable idle row whose one-shot flag is set is eligible, whatever the clock says.\<close>

lemma forced_eligible:
  assumes "db_ok db" and st: "readable sha db key st" and row: "find_row db key = Some r"
    and force: "col_force_eligible_once r = 1" and idle: "col_execution_state r = ''idle''"
  obtains op where "classify st now = Inr (Eligible (EligForced op))"
    and "operation_for_lifecycle (head_lifecycle_state (stored_head st)) = Some op"
proof -
  let ?h = "stored_head st"
  have r: "row_ok r" "detail_columns r (stored_detail st)" "controls_columns r key st"
    using st row unfolding readable_columns [OF assms(1)] by auto
  then have "head_columns r ?h" and checks: "col_active r = 1" "col_schedulable r = 1"
      "col_lifecycle_state r \<noteq> ''completed''"
    using force by (simp_all add: row_ok_def table_checks_def detail_columns_head)
  then have h: "head_active ?h" "head_schedulable ?h" "head_lifecycle_state ?h \<noteq> Completed"
      "head_force_eligible_once ?h" "head_execution_state ?h = Idle"
    using force idle by (auto simp: head_columns_def)
  then obtain op where op: "operation_for_lifecycle (head_lifecycle_state ?h) = Some op"
    by (cases "head_lifecycle_state ?h") auto
  moreover have "stored_controls st = ControlsIdle"
    using r(3) h(5) by (auto simp: controls_columns_def split: execution_controls.splits)
  ultimately show ?thesis
    using that h by (simp add: classify_def Let_def)
qed

subsection \<open>Confirming a torrent\<close>

definition chosen_only :: "string \<Rightarrow> candidate_match_payload list \<Rightarrow> bool" where
  "chosen_only torrent cs \<longleftrightarrow>
     list_ex (\<lambda>c. cand_torrent_id (match_candidate c) = torrent) cs \<and>
     list_all (\<lambda>c. (match_user_confirmed c \<longleftrightarrow> cand_torrent_id (match_candidate c) = torrent) \<and>
                   (match_selected c \<longleftrightarrow> cand_torrent_id (match_candidate c) = torrent)) cs"

lemma confirm_chosen_only:
  "\<exists>c \<in> set (pl_candidates p). cand_torrent_id (match_candidate c) = torrent \<Longrightarrow>
     chosen_only torrent (pl_candidates (confirm_payload torrent replace p))"
  by (auto simp: chosen_only_def confirm_payload_def select_candidate_def Let_def list_ex_iff
      list_all_iff)

lemma confirmed_state:
  assumes ok: "db_ok db" and run: "confirm_candidate env key torrent expected now replace db = (Inr x, db')"
  obtains st where "readable (env_sha env) db' key st"
    and "classify st t = Inr (Eligible (EligForced OpSearch))"
    and "chosen_only torrent (pl_candidates (det_payload (stored_detail st)))"
    and "det_summary (stored_detail st) = x" and "row_write key db db'"
    and "pl_replacement_pending (det_payload (stored_detail st)) = replace"
    and "head_retry_count (stored_head st) = 0"
proof -
  from run have body: "confirm_candidate_body env key torrent expected now replace db = Inr (x, db')"
    by (simp add: confirm_candidate_def run_transaction_Inr)
  show thesis
  proof (rule confirm_body_Inr [OF ok body])
    fix d r p tags
    assume w: "idle_write (env_sha env) key db db' d"
      and r': "find_row db' key = Some (confirm_set (uint now) (Json tags) (encode_payload env p) r)"
      and row: "find_row db key = Some r" "detail_columns r d" "row_ok r"
      and p: "p = confirm_payload torrent replace (det_payload d)"
      and c: "\<exists>c \<in> set (pl_candidates (det_payload d)). cand_torrent_id (match_candidate c) = torrent"
      and x: "\<exists>d'. detail_at (env_sha env) db' key d' \<and> x = det_summary d'"
    have ok': "db_ok db'" using w by (simp add: idle_write_def row_write_def)
    obtain d' where d': "detail_at (env_sha env) db' key d'" "x = det_summary d'" using x by blast
    have idle: "col_execution_state r = ''idle''"
      using w row by (auto simp: idle_write_def detail_at_columns [OF ok] detail_columns_def
          summary_columns_def head_columns_def)
    have cols: "detail_columns (confirm_set (uint now) (Json tags) (encode_payload env p) r) d'"
      using d' r' unfolding detail_at_columns [OF ok'] by auto
    then have h: "head_execution_state (det_head d') = Idle"
        "head_lifecycle_state (det_head d') = Searching" "head_retry_count (det_head d') = 0"
        "det_payload d' = map_payload_f64 (env_f64_reparse env) p"
      using idle
      by (auto simp: detail_columns_def summary_columns_def head_columns_def confirm_set_def
          encode_payload_def word_uint_eq_iff)
    let ?st = "\<lparr>stored_detail = d', stored_controls = ControlsIdle\<rparr>"
    have st: "readable (env_sha env) db' key ?st"
      by (rule idle_readable [OF ok' d'(1) h(1)])
    obtain op where "classify ?st t = Inr (Eligible (EligForced op))"
        "operation_for_lifecycle (head_lifecycle_state (stored_head ?st)) = Some op"
      by (rule forced_eligible [OF ok' st r', of t]) (simp_all add: confirm_set_def idle)
    with st h d' w c p confirm_chosen_only [OF c, of replace] show thesis
      by (intro that [of ?st])
        (simp_all add: map_payload_f64_def idle_write_def confirm_payload_def)
  qed
qed

text \<open>The sample movie with one torrent found, waiting for the user's choice.\<close>

definition sample_candidate :: candidate_match_payload where
  "sample_candidate =
     \<lparr>match_candidate = \<lparr>cand_torrent_id = ''t1'', cand_title = ''Film 2160p'', cand_subtitle = [],
        cand_source = ''keyword'', cand_search_query = ''Film'', cand_size = None,
        cand_seeders = None, cand_leechers = None, cand_uploaded_at = None\<rparr>,
      match_selected = False, match_user_confirmed = False, match_matched_rule_name = None,
      match_matched_priority = None, match_matched_keywords = [],
      match_excluded_reason = Some ''r'', match_rule_evaluations = []\<rparr>"

definition choice_db :: database where
  "choice_db = database_of (idle_row\<lparr>col_record_json :=
     Json (sample_payload\<lparr>pl_candidates := [sample_candidate]\<rparr>),
     col_attention_tags_json := Json [NeedsConfirmation]\<rparr>)"

lemma choice_db_ok: "db_ok choice_db"
  by code_simp

text \<open>C18. Confirming a torrent: after a successful confirmation or replacement the row is idle in
  \<open>searching\<close>, a claim at any time classifies it as forced work for the search, exactly the
  chosen torrent is selected and authorised for download, the retry count restarts, and no other
  row has changed.\<close>

theorem confirmed_torrent_is_claimable:
  assumes "db_ok db" and "confirm_candidate env key torrent expected now replace db = (Inr x, db')"
  shows "\<exists>st. readable (env_sha env) db' key st \<and>
    classify st later = Inr (Eligible (EligForced OpSearch)) \<and>
    chosen_only torrent (pl_candidates (det_payload (stored_detail st))) \<and>
    pl_replacement_pending (det_payload (stored_detail st)) = replace \<and>
    head_retry_count (stored_head st) = 0 \<and> row_write key db db'"
  by (rule confirmed_state [OF assms, of later]) blast

theorem confirmed_torrent_is_claimable_witness:
  "\<exists>x db' st. confirm_candidate sample_env sample_key ''t1'' 1 1000 False choice_db = (Inr x, db') \<and>
     readable (env_sha sample_env) db' sample_key st \<and>
     classify st 0 = Inr (Eligible (EligForced OpSearch))"
proof -
  have "is_ok (fst (confirm_candidate sample_env sample_key ''t1'' 1 1000 False choice_db))"
    by code_simp
  then obtain x db' where run:
      "confirm_candidate sample_env sample_key ''t1'' 1 1000 False choice_db = (Inr x, db')"
    by (metis is_ok_iff prod.collapse)
  from confirmed_torrent_is_claimable [OF choice_db_ok run, of 0] run show ?thesis
    by blast
qed

subsection \<open>Forced retry\<close>

text \<open>A forced retry overrides the schedule: after it the row, once read, is eligible as forced
  work for its lifecycle's operation at any time, with no retry counted; the lifecycle is the
  search for a movie that restarts and the old one otherwise.\<close>

theorem forced_retry_is_eligible:
  assumes ok: "db_ok db" and run: "force_retry env key now db = (Inr h, db')"
    and st: "readable (env_sha env) db' key st" and before: "detail_at (env_sha env) db key d"
  shows "\<exists>op. classify st later = Inr (Eligible (EligForced op)) \<and>
    operation_for_lifecycle (force_retry_lifecycle d) = Some op \<and>
    head_lifecycle_state (stored_head st) = force_retry_lifecycle d \<and>
    head_retry_count (stored_head st) = 0 \<and> row_write key db db'"
proof -
  from run have body: "force_retry_body env key now db = Inr (h, db')"
    by (simp add: force_retry_def run_transaction_Inr)
  show ?thesis
  proof (rule force_retry_body_Inr [OF ok body])
    fix d' r
    let ?r = "force_set (uint now) (force_retry_lifecycle d') (Json (force_retry_tags d'))
      (encode_payload env (force_retry_payload d')) r"
    assume w: "idle_write (env_sha env) key db db' d'" and r': "find_row db' key = Some ?r"
      and row: "find_row db key = Some r" "detail_columns r d'"
    have ok': "db_ok db'" using w by (simp add: idle_write_def row_write_def)
    have d': "d' = d" using w before by (auto simp: idle_write_def dest: detail_at_unique)
    have idle: "col_execution_state ?r = ''idle''"
      using w detail_columns_head [OF row(2)] by (simp add: idle_write_def head_columns_def force_set_def)
    have "head_columns ?r (stored_head st)"
      using st r' unfolding readable_columns [OF ok'] by (auto dest: detail_columns_head)
    then have h: "head_lifecycle_state (stored_head st) = force_retry_lifecycle d"
        "head_retry_count (stored_head st) = 0"
      by (simp_all add: head_columns_def force_set_def d' word_uint_eq_iff)
    obtain op where "classify st later = Inr (Eligible (EligForced op))"
        "operation_for_lifecycle (head_lifecycle_state (stored_head st)) = Some op"
      by (rule forced_eligible [OF ok' st r' _ idle, of later]) (simp_all add: force_set_def)
    with h w show ?thesis by (auto simp: idle_write_def)
  qed
qed

theorem forced_retry_is_eligible_witness:
  "\<exists>h db' st. force_retry sample_env sample_key 1000 choice_db = (Inr h, db') \<and>
     readable (env_sha sample_env) db' sample_key st \<and>
     classify st 0 = Inr (Eligible (EligForced OpSearch))"
proof -
  let ?db = "snd (force_retry sample_env sample_key 1000 choice_db)"
  have "is_ok (fst (force_retry sample_env sample_key 1000 choice_db)) \<and>
      is_ok (load_stored_subscription sample_env 0 ?db sample_key) \<and>
      is_ok (load_detail sample_env 0 choice_db sample_key)"
    by code_simp
  then obtain h st d where run: "force_retry sample_env sample_key 1000 choice_db = (Inr h, ?db)"
      and st: "load_stored_subscription sample_env 0 ?db sample_key = Inr st"
      and d: "load_detail sample_env 0 choice_db sample_key = Inr d"
    by (metis is_ok_iff prod.collapse)
  have "map_option force_retry_lifecycle
      (case load_detail sample_env 0 choice_db sample_key of Inr d \<Rightarrow> Some d | Inl _ \<Rightarrow> None)
      = Some Searching"
    by code_simp
  then have "force_retry_lifecycle d = Searching"
    by (simp add: d)
  moreover have "detail_at (env_sha sample_env) choice_db sample_key d"
    using d by (simp add: load_detail_Inr)
  ultimately show ?thesis
    using forced_retry_is_eligible [OF choice_db_ok run load_stored_readable [OF st], of d 0] run
      load_stored_readable [OF st] by auto
qed

subsection \<open>Optimistic updates\<close>

text \<open>A detail update is optimistic and leaves the schedule alone: it succeeds only on the
  revision the caller read, writes that row alone, keeps its attempt, lease, lifecycle, retries and
  due time, and while an attempt runs the tags and the skip reason are those the attempt saw.\<close>

theorem update_keeps_schedule:
  assumes ok: "db_ok db" and run: "update_detail env c db = (Inr x, db')"
  shows "\<exists>d r r'. detail_at (env_sha env) db (upd_key c) d \<and>
    head_revision (det_head d) = upd_expected_revision c \<and>
    (head_execution_state (det_head d) = Running \<longrightarrow>
       set (upd_attention_tags c) = set (sum_attention_tags (det_summary d)) \<and>
       pl_skip_reason (upd_payload c) = pl_skip_reason (det_payload d)) \<and>
    find_row db (upd_key c) = Some r \<and> find_row db' (upd_key c) = Some r' \<and>
    schedule_columns r' = schedule_columns r \<and> row_write (upd_key c) db db'"
proof -
  from run have body: "update_detail_body env c db = Inr (x, db')"
    by (simp add: update_detail_def run_transaction_Inr)
  show ?thesis
  proof (rule update_detail_body_Inr [OF ok body])
    fix d r prj so
    assume d: "detail_at (env_sha env) db (upd_key c) d" "head_revision (det_head d) = upd_expected_revision c"
      and gate: "head_execution_state (det_head d) = Running \<longrightarrow> \<not> gated_fields_differ d c"
      and r: "find_row db (upd_key c) = Some r" "row_write (upd_key c) db db'"
      and r': "find_row db' (upd_key c) = Some (update_detail_set prj so (Json (upd_attention_tags c))
        (uint (upd_updated_at c)) (encode_payload env (upd_payload c)) r)"
    have "\<not> gated_fields_differ d c \<Longrightarrow>
        set (upd_attention_tags c) = set (sum_attention_tags (det_summary d)) \<and>
        pl_skip_reason (upd_payload c) = pl_skip_reason (det_payload d)"
      by (auto simp: gated_fields_differ_def) (metis set_btree_list)+
    moreover have "schedule_columns (update_detail_set prj so (Json (upd_attention_tags c))
        (uint (upd_updated_at c)) (encode_payload env (upd_payload c)) r) = schedule_columns r"
      by (simp add: schedule_columns_def update_detail_set_def)
    ultimately show ?thesis
      using d gate r r' by blast
  qed
qed

definition update_sample :: update_subscription_detail_command where
  "update_sample = \<lparr>upd_key = sample_key, upd_expected_revision = Revision 1, upd_updated_at = 1000,
     upd_attention_tags = [], upd_payload = sample_payload\<rparr>"

theorem update_keeps_schedule_witness:
  "\<exists>x db' r r'. update_detail sample_env update_sample running_db = (Inr x, db') \<and>
     find_row running_db sample_key = Some r \<and> find_row db' sample_key = Some r' \<and>
     schedule_columns r' = schedule_columns r"
proof -
  have "is_ok (fst (update_detail sample_env update_sample running_db))"
    by code_simp
  then obtain x db' where run: "update_detail sample_env update_sample running_db = (Inr x, db')"
    by (metis is_ok_iff prod.collapse)
  from update_keeps_schedule [OF sample_dbs_ok(2) run] run show ?thesis
    by (auto simp: update_sample_def)
qed

lemma integer_of_revision:
  assumes "db_ok db" and "detail_at sha db key d"
  shows "uint (revision_value (head_revision (det_head d))) \<le> i64_max"
  using assms unfolding detail_at_columns [OF assms(1)]
  by (auto simp: row_ok_def integer_columns_def detail_columns_def summary_columns_def head_columns_def)

text \<open>A stale update is refused: when the row has moved on from the revision the caller
  presents, the answer is \<open>RevisionConflict\<close> with both revisions and nothing is written; with the
  gated fields changed under a running attempt it is \<open>ExecutionGateConflict\<close>.\<close>

theorem stale_update_refused:
  assumes ok: "db_ok db" and ff: "fault_free env" and d: "detail_at (env_sha env) db (upd_key c) d"
    and cmd: "uint (revision_value (upd_expected_revision c)) < i64_max" "uint (upd_updated_at c) \<le> i64_max"
      "source_wf (pl_source (upd_payload c))"
      "opt_all (\<lambda>v. uint v \<le> i64_max) (src_douban_sort_time (pl_source (upd_payload c)))"
  shows "(head_revision (det_head d) \<noteq> upd_expected_revision c \<longrightarrow>
      update_detail env c db = (Inl (RevisionConflict (upd_key c) (upd_expected_revision c)
        (head_revision (det_head d))), db)) \<and>
    (head_revision (det_head d) = upd_expected_revision c \<and>
     head_execution_state (det_head d) = Running \<and> gated_fields_differ d c \<and>
     validate_payload_media_kind (head_media_kind (det_head d)) (upd_payload c) = Inr () \<longrightarrow>
      update_detail env c db = (Inl (ExecutionGateConflict (upd_key c)), db))"
proof -
  have load: "load_detail env 0 db (upd_key c) = Inr d"
    using d ff by (simp add: load_detail_Inr fault_free_def)
  have src: "projection_from_source (pl_source (upd_payload c)) = Inr (projection_of (pl_source (upd_payload c)))"
    using cmd(3) by simp
  have sort: "traverse_opt (command_integer ''payload.source.douban_sort_time'')
      (prj_douban_sort_time (projection_of (pl_source (upd_payload c))))
      = Inr (map_option uint (src_douban_sort_time (pl_source (upd_payload c))))"
    using cmd(4) by (cases "src_douban_sort_time (pl_source (upd_payload c))")
      (simp_all add: projection_of_def command_integer_ok)
  show ?thesis
    using cmd by (auto simp: update_detail_def run_transaction_Inl update_detail_body_def Let_def
        command_integer_ok src sort load ff simp del: traverse_opt_simps projection_from_source_Inr)
qed

theorem stale_update_refused_witness:
  "update_detail sample_env (update_sample\<lparr>upd_expected_revision := Revision 7\<rparr>) running_db
     = (Inl (RevisionConflict sample_key (Revision 7) (Revision 1)), running_db)"
proof -
  have "detail_at (env_sha sample_env) running_db sample_key (stored_detail running_stored)"
    by (rule readable_detail [OF sample_readable(2)])
  moreover have "head_revision (det_head (stored_detail running_stored)) = Revision 1"
    by code_simp
  moreover have "source_wf sample_source" "src_douban_sort_time sample_source = Some 7"
    by code_simp+
  ultimately show ?thesis
    using stale_update_refused [OF sample_dbs_ok(2) sample_envs(1),
        of "update_sample\<lparr>upd_expected_revision := Revision 7\<rparr>" "stored_detail running_stored"]
    by (simp add: update_sample_def i64_max_def sample_payload_def)
qed

subsection \<open>Backfill\<close>

text \<open>The title backfill is idempotent: whatever it repaired, running it again finds nothing to
  repair and leaves the database as it is.\<close>

theorem backfill_is_idempotent:
  assumes ok: "db_ok db" and run: "backfill_metadata_titles env db = (Inr n, db')"
    and ff: "fault_free env'" and sha: "env_sha env' = env_sha env"
  shows "backfill_metadata_titles env' db' = (Inr 0, db')"
proof -
  have "backfill_all env 0 (map names_of (filter backfill_where (db_rows db))) (0, db) = Inr (n, db')"
    using run by (auto simp: backfill_metadata_titles_def run_transaction_Inr backfill_body_def
        names_of_def [abs_def])
  then have settled: "db_ok db'" "\<forall>r \<in> set (db_rows db'). backfill_settled (env_sha env) r"
    using backfill_all_settles [OF _ ok] by (auto simp: backfill_settled_def)
  have "backfill_all env' 0 (map names_of (filter backfill_where (db_rows db'))) (0, db') = Inr (0, db')"
    by (rule settled_all_skipped [OF settled(1) ff]) (use settled(2) sha in auto)
  then show ?thesis
    by (simp add: backfill_metadata_titles_def run_transaction_Inr backfill_body_def ff
        names_of_def [abs_def])
qed

definition untitled_db :: database where
  "untitled_db = database_of (idle_row\<lparr>col_record_json :=
     Json (sample_payload\<lparr>pl_source := sample_source\<lparr>src_original_title := Some '' Film ''\<rparr>\<rparr>)\<rparr>)"

theorem backfill_is_idempotent_witness:
  "\<exists>db'. backfill_metadata_titles sample_env untitled_db = (Inr 1, db') \<and>
     backfill_metadata_titles late_env db' = (Inr 0, db')"
proof -
  have "db_ok untitled_db" by code_simp
  moreover have "fst (backfill_metadata_titles sample_env untitled_db) = Inr 1" by code_simp
  then obtain db' where "backfill_metadata_titles sample_env untitled_db = (Inr 1, db')"
    by (metis prod.collapse)
  ultimately show ?thesis
    using backfill_is_idempotent [of untitled_db sample_env 1 db' late_env] sample_envs(2)
    by (auto simp: late_env_def)
qed

subsection \<open>The next episode\<close>

lemma set_u32_range: "set (u32_range a b) = {a..b}"
proof -
  have "x \<in> set (u32_range a b) \<longleftrightarrow> a \<le> x \<and> x \<le> b" for x :: u32
  proof
    assume "x \<in> set (u32_range a b)"
    then obtain n where n: "x = word_of_nat n" "unat a \<le> n" "n \<le> unat b"
      by (auto simp: u32_range_def)
    moreover have "n < 2 ^ 32"
      using n(3) order_le_less_trans [OF _ unsigned_less [of b]] by fastforce
    ultimately show "a \<le> x \<and> x \<le> b"
      by (simp add: word_le_nat_alt unat_of_nat take_bit_nat_eq_self)
  next
    assume "a \<le> x \<and> x \<le> b"
    then have m: "unat x \<in> set [unat a..<Suc (unat b)]"
      by (auto simp: word_le_nat_alt simp del: upt_Suc)
    have e: "x = word_of_nat (unat x)" by simp
    show "x \<in> set (u32_range a b)"
      unfolding u32_range_def set_map using e m by (rule image_eqI)
  qed
  then show ?thesis unfolding set_eq_iff atLeastAtMost_iff by blast
qed

lemma nth_u32_range: "i < length (u32_range a b) \<Longrightarrow> unat (u32_range a b ! i) = unat a + i"
proof -
  assume i: "i < length (u32_range a b)"
  then have "unat a + i \<le> unat b" by (simp add: u32_range_def del: upt_Suc)
  moreover have "unat b < 2 ^ 32" by (rule order_less_le_trans [OF unsigned_less]) simp
  moreover have "u32_range a b ! i = word_of_nat (unat a + i)"
    using i by (simp add: u32_range_def del: upt_Suc of_nat_add)
  ultimately show ?thesis
    by (simp add: unat_of_nat take_bit_nat_eq_self del: of_nat_add)
qed

text \<open>The episodes of a season that the linked files of a payload hold: a file holds the interval from
  its episode to its last episode, or its episode alone.\<close>

definition linked_episodes :: "subscription_payload \<Rightarrow> u32 \<Rightarrow> u32 set" where
  "linked_episodes p season =
     (\<Union>l \<in> set (art_links (pl_artifacts p)). \<Union>f \<in> {f \<in> set (lk_files l).
        lkf_outcome f = LinkLinked \<and> lkf_season_number f = Some season}.
        \<Union>start \<in> set_option (lkf_episode_number f).
          {start..(case lkf_episode_end_number f of None \<Rightarrow> start | Some e \<Rightarrow> e)})"

lemma file_covers_iff:
  "file_covers season episode f \<longleftrightarrow>
     lkf_outcome f = LinkLinked \<and> lkf_season_number f = Some season \<and>
     (\<exists>start \<in> set_option (lkf_episode_number f).
        episode \<in> {start..(case lkf_episode_end_number f of None \<Rightarrow> start | Some e \<Rightarrow> e)})"
  by (cases "lkf_episode_number f") (auto simp: file_covers_def)

lemma episode_linked_iff: "episode_linked p season episode \<longleftrightarrow> episode \<in> linked_episodes p season"
  unfolding episode_linked_def linked_episodes_def list_ex_iff file_covers_iff UN_iff mem_Collect_eq by blast

text \<open>C19. The cursor of a series is the least gap: \<open>first_uncovered_episode\<close> returns an episode
  exactly when it lies in the target range, no file that is linked and marked with the season holds
  it, and such files hold every earlier episode of the range; it returns nothing exactly when they
  hold the whole range.\<close>

theorem first_uncovered_is_least_gap:
  "(first_uncovered_episode p tv = Some e \<longleftrightarrow>
     e \<in> {tv_target_start_episode tv..tv_target_end_episode tv} - linked_episodes p (tv_season_number tv) \<and>
     {x. tv_target_start_episode tv \<le> x \<and> x < e} \<subseteq> linked_episodes p (tv_season_number tv))
   \<and> (first_uncovered_episode p tv = None \<longleftrightarrow>
     {tv_target_start_episode tv..tv_target_end_episode tv} \<subseteq> linked_episodes p (tv_season_number tv))"
proof (rule conjI)
  let ?a = "tv_target_start_episode tv" and ?b = "tv_target_end_episode tv"
  let ?L = "\<lambda>x. x \<in> linked_episodes p (tv_season_number tv)" and ?xs = "u32_range ?a ?b"
  show "first_uncovered_episode p tv = None \<longleftrightarrow> {?a..?b} \<subseteq> linked_episodes p (tv_season_number tv)"
    by (auto simp: first_uncovered_episode_def episode_linked_iff find_None_iff set_u32_range)
  show "first_uncovered_episode p tv = Some e \<longleftrightarrow>
     e \<in> {?a..?b} - linked_episodes p (tv_season_number tv) \<and>
     {x. ?a \<le> x \<and> x < e} \<subseteq> linked_episodes p (tv_season_number tv)"
  proof
    assume "first_uncovered_episode p tv = Some e"
    then obtain i where i: "i < length ?xs" "\<not> ?L (?xs ! i)" "e = ?xs ! i" "\<forall>j<i. ?L (?xs ! j)"
      by (auto simp: first_uncovered_episode_def episode_linked_iff find_Some_iff)
    have "?L x" if x: "?a \<le> x" "x < e" for x
    proof -
      have "x \<in> set ?xs"
        using x i(1,3) nth_mem [OF i(1)] by (auto simp: set_u32_range)
      then obtain j where j: "j < length ?xs" "x = ?xs ! j"
        by (auto simp: in_set_conv_nth)
      with x(2) i nth_u32_range [OF i(1)] nth_u32_range [OF j(1)] have "j < i"
        by (simp add: word_less_nat_alt)
      with i(4) j show ?thesis by simp
    qed
    with i nth_mem [OF i(1)] show "e \<in> {?a..?b} - linked_episodes p (tv_season_number tv) \<and>
     {x. ?a \<le> x \<and> x < e} \<subseteq> linked_episodes p (tv_season_number tv)"
      by (auto simp: set_u32_range)
  next
    assume e: "e \<in> {?a..?b} - linked_episodes p (tv_season_number tv) \<and>
     {x. ?a \<le> x \<and> x < e} \<subseteq> linked_episodes p (tv_season_number tv)"
    then have "e \<in> set ?xs" by (simp add: set_u32_range)
    then obtain i where i: "i < length ?xs" "e = ?xs ! i"
      by (auto simp: in_set_conv_nth)
    have "?L (?xs ! j)" if "j < i" for j
    proof -
      have j: "j < length ?xs" using that i(1) by simp
      then have "?xs ! j < e" "?a \<le> ?xs ! j"
        using that i nth_u32_range [OF i(1)] nth_u32_range [OF j]
        by (simp_all add: word_less_nat_alt word_le_nat_alt)
      with e show ?thesis by auto
    qed
    with i e show "first_uncovered_episode p tv = Some e"
      by (auto simp: first_uncovered_episode_def episode_linked_iff find_Some_iff)
  qed
qed

end
