(* ===== verification/Episode_Theorems.thy ===== *)
theory Episode_Theorems
  imports Episode_Coverage
begin

text \<open>
  The scanners of \<open>Episode_Coverage\<close> read back the numbers the formatter writes, hence the
  label of every well-formed coverage is recognised as that coverage; and whatever is
  recognised is well formed, the Chinese notation's zero apart.
\<close>

subsection \<open>Reading decimal numbers\<close>

lemma at_is_append [simp]: "at_is p (pre @ x # post) (length pre) \<longleftrightarrow> p x"
  by (simp add: at_is_def)

lemma at_is_length [simp]: "\<not> at_is p xs (length xs)"
  by (simp add: at_is_def)

lemma skip_while_stop: "\<not> at_is p xs i \<Longrightarrow> skip_while p xs i = i"
  by (subst skip_while.simps) simp

lemma skip_while_step: "at_is p xs i \<Longrightarrow> skip_while p xs i = skip_while p xs (Suc i)"
  by (subst skip_while.simps) simp

definition push_digit :: "u32 \<Rightarrow> char \<Rightarrow> u32" where
  "push_digit value c = saturating_add (saturating_mul value 10) (digit_value c)"

lemma read_number_loop_run:
  assumes "list_all is_digit ds" and "post = [] \<or> \<not> is_digit (hd post)"
  shows "read_number_loop (pre @ ds @ post) (length pre) v =
           (foldl push_digit v ds, length pre + length ds)"
  using assms
proof (induction ds arbitrary: pre v)
  case Nil
  then have "\<not> at_is is_digit (pre @ post) (length pre)"
    by (cases post) auto
  then show ?case
    by (subst read_number_loop.simps) simp
next
  case (Cons d ds)
  from Cons.IH [of "pre @ [d]" "push_digit v d"] Cons.prems show ?case
    by (subst read_number_loop.simps) (simp add: push_digit_def [symmetric])
qed

lemma digit_char_digit: "d < 10 \<Longrightarrow> is_digit (digit_char d)"
  by (simp add: is_digit_def digit_char_def less_eq_char_def)

lemma decimal_digits: "list_all is_digit (decimal n)"
  by (induction n rule: decimal.induct) (subst decimal.simps, simp add: digit_char_digit)

lemma decimal02_digits: "list_all is_digit (decimal02 n)"
  by (simp add: decimal02_def decimal_digits is_digit_def)

lemma digit_value_char: "d < 10 \<Longrightarrow> digit_value (digit_char d) = word_of_nat d"
  by (simp add: digit_value_def digit_char_def)

lemma push_digit_exact:
  assumes bound: "uint v * 10 + int d < 2 ^ 32" and "d < 10"
  shows "push_digit v (digit_char d) = word_of_int (uint v * 10 + int d)"
proof (rule word_uint_eqI)
  have "uint (word_of_nat d :: u32) = int d"
    using \<open>d < 10\<close> by (simp add: uint_nat unat_of_nat take_bit_nat_eq_self)
  moreover have "0 \<le> uint v" "uint v * 10 < 2 ^ 32"
    using bound by (simp, linarith)
  ultimately have "uint (push_digit v (digit_char d)) = uint v * 10 + int d"
    using bound \<open>d < 10\<close>
    by (simp add: push_digit_def uint_saturating_add uint_saturating_mul digit_value_char min_def)
  moreover have "uint (word_of_int (uint v * 10 + int d) :: u32) = uint v * 10 + int d"
    using bound \<open>0 \<le> uint v\<close> by (simp only: uint_word_of_int) (simp add: take_bit_int_eq_self)
  ultimately show
    "uint (push_digit v (digit_char d)) = uint (word_of_int (uint v * 10 + int d) :: u32)"
    by simp
qed

lemma foldl_decimal: "n < 2 ^ 32 \<Longrightarrow> foldl push_digit 0 (decimal n) = word_of_nat n"
proof (induction n rule: decimal.induct)
  case (1 n)
  show ?case
  proof (cases "n < 10")
    case True
    then show ?thesis
      by (subst decimal.simps) (simp add: push_digit_exact)
  next
    case False
    let ?q = "n div 10" and ?r = "n mod 10"
    have "uint (word_of_nat ?q :: u32) = int ?q"
      using 1 by (simp add: uint_nat unat_of_nat take_bit_nat_eq_self)
    moreover have split: "int ?q * 10 + int ?r = int n"
      by presburger
    ultimately have "push_digit (word_of_nat ?q) (digit_char ?r) = word_of_nat n"
      using 1 by (subst push_digit_exact) simp_all
    with False 1 show ?thesis
      by (subst decimal.simps) simp
  qed
qed

lemma foldl_decimal02: "n < 2 ^ 32 \<Longrightarrow> foldl push_digit 0 (decimal02 n) = word_of_nat n"
proof -
  have "push_digit 0 CHR ''0'' = 0"
    by (simp add: push_digit_def digit_value_def saturating_add_def saturating_mul_def)
  then show "n < 2 ^ 32 \<Longrightarrow> foldl push_digit 0 (decimal02 n) = word_of_nat n"
    by (simp add: decimal02_def foldl_decimal)
qed

lemma decimal02_nonempty [simp]: "decimal02 n \<noteq> []"
  by (simp add: decimal02_def)

lemma read_number_u32:
  assumes "post = [] \<or> \<not> is_digit (hd post)"
  shows "read_number (pre @ u32_02 n @ post) (length pre) =
           Some (n, length pre + length (u32_02 n))"
proof -
  have "unat n < 2 ^ 32"
    by (rule order_less_le_trans [OF unsigned_less]) simp
  then show ?thesis
    using assms
    by (simp add: read_number_def u32_02_def read_number_loop_run decimal02_digits foldl_decimal02)
qed

subsection \<open>Reading labels\<close>

lemma read_number_at:
  assumes "bytes = pre @ u32_02 n @ post" and "i = length pre"
    and "post = [] \<or> \<not> is_digit (hd post)"
  shows "read_number bytes i = Some (n, i + length (u32_02 n))"
  using assms by (simp add: read_number_u32)

lemma u32_02_digits: "list_all is_digit (u32_02 n)"
  by (simp add: u32_02_def decimal02_digits)

lemma u32_02_Cons: "\<exists>d ds. u32_02 n = d # ds \<and> is_digit d"
  using u32_02_digits [of n] by (cases "u32_02 n") (auto simp: u32_02_def)

lemma letters_not_digits [simp]:
  "\<not> is_digit CHR ''e''" "\<not> is_digit CHR ''p''" "\<not> is_digit CHR ''s''" "\<not> is_digit CHR ''-''"
  "\<not> is_digit CHR '' ''" "\<not> is_digit CHR ''[''"
  by (simp_all add: is_digit_def less_eq_char_def)

lemma step_over_number:
  assumes "bytes = pre @ u32_02 n @ post" and "i = length pre" and "c = CHR ''p'' \<or> c = CHR ''e''"
  shows "step_over c bytes i = i"
  using assms u32_02_Cons [of n] letters_not_digits by (auto simp: step_over_def)

lemma read_range_end_label:
  assumes "m > 0"
  shows "read_range_end (pre @ ''-e'' @ u32_02 m) (length pre) = Some m"
proof -
  let ?b = "pre @ ''-e'' @ u32_02 m" and ?i = "length pre"
  have sep: "skip_range_separators ?b ?i = Suc ?i"
    using at_is_append [of "\<lambda>c. c \<in> set ''-_~ ''" "pre @ ''-''" "CHR ''e''" "u32_02 m"]
    by (simp add: skip_range_separators_def skip_while_step [of _ _ ?i] skip_while_stop)
  have e: "step_over CHR ''e'' ?b (Suc ?i) = Suc (Suc ?i)"
    using at_is_append [of "(=) CHR ''e''" "pre @ ''-''" "CHR ''e''" "u32_02 m"]
    by (simp add: step_over_def)
  have p: "step_over CHR ''p'' ?b (Suc (Suc ?i)) = Suc (Suc ?i)"
    by (rule step_over_number [where pre = "pre @ ''-e''" and n = m and post = "[]"]) simp_all
  have n: "read_number ?b (Suc (Suc ?i)) = Some (m, length ?b)"
    using read_number_at [of ?b "pre @ ''-e''" m "[]"] by simp
  from assms show ?thesis
    unfolding read_range_end_def Let_def sep e p n by simp
qed

lemma read_range_end_end [simp]: "read_range_end pre (length pre) = None"
  by (simp add: read_range_end_def)

lemma first_some_zero: "0 < n \<Longrightarrow> f 0 = Some y \<Longrightarrow> first_some f [0..<n] = Some y"
  by (simp add: upt_conv_Cons)

lemma first_some_None: "first_some f xs = None \<longleftrightarrow> (\<forall>x \<in> set xs. f x = None)"
  by (induction xs) (auto split: option.splits)

lemma first_some_Some: "first_some f xs = Some y \<Longrightarrow> \<exists>x \<in> set xs. f x = Some y"
  by (induction xs) (auto split: option.splits)

lemma find_season_episode_label:
  assumes "s > 0" "e > 0" "post = [] \<or> \<not> is_digit (hd post)"
    and b: "b = ''s'' @ u32_02 s @ ''e'' @ u32_02 e @ post"
    and k: "k = length (''s'' @ u32_02 s @ ''e'' @ u32_02 e)"
  shows "find_season_episode b = Some (s, e, read_range_end b k)"
proof -
  let ?c = "Suc (length (u32_02 s))"
  have s: "read_number b (Suc 0) = Some (s, ?c)"
    using read_number_at [of b "''s''" s "''e'' @ u32_02 e @ post"] by (simp add: b is_digit_def)
  have split: "b = (''s'' @ u32_02 s) @ CHR ''e'' # u32_02 e @ post"
    by (simp add: b)
  have at_e: "at_is p b ?c \<longleftrightarrow> p CHR ''e''" for p
    using at_is_append [of p "''s'' @ u32_02 s" "CHR ''e''" "u32_02 e @ post"] split by simp
  have sep: "skip_separators b ?c = ?c"
    by (simp add: skip_separators_def skip_while_stop at_e)
  have e: "read_number b (Suc ?c) = Some (e, k)"
    using read_number_at [of b "''s'' @ u32_02 s @ ''e''" e post] assms(3) by (simp add: b k)
  have "season_episode_at b 0 = Some (s, e, read_range_end b k)"
    using assms(1,2) s e sep at_e by (simp add: season_episode_at_def previous_is_def) (simp add: b)
  then show ?thesis
    unfolding find_season_episode_def by (intro first_some_zero) (simp_all add: b)
qed

lemma find_episode_label:
  assumes "e > 0" "post = [] \<or> \<not> is_digit (hd post)"
    and b: "b = ''e'' @ u32_02 e @ post" and k: "k = length (''e'' @ u32_02 e)"
  shows "find_episode b = Some (e, read_range_end b k)"
proof -
  have p: "step_over CHR ''p'' b (Suc 0) = Suc 0"
    by (rule step_over_number [where pre = "''e''" and n = e and post = post]) (simp_all add: b)
  have e: "read_number b (Suc 0) = Some (e, k)"
    using read_number_at [of b "''e''" e post] assms(2) by (simp add: b k)
  have "episode_at b 0 = Some (e, read_range_end b k)"
    using assms(1) e p by (simp add: episode_at_def previous_is_def) (simp add: b)
  then show ?thesis
    unfolding find_episode_def by (intro first_some_zero) (simp_all add: b)
qed

lemma absent_in_number: "\<not> is_digit c \<Longrightarrow> c \<notin> set (u32_02 n)"
  using u32_02_digits [of n] by (auto simp: list_all_iff)

lemma lower_number [simp]: "map to_lower (u32_02 n) = u32_02 n"
proof (rule map_idI)
  fix c assume "c \<in> set (u32_02 n)"
  with u32_02_digits [of n] have "is_digit c"
    by (auto simp: list_all_iff)
  then show "to_lower c = c"
    by (auto simp: to_lower_def is_digit_def less_eq_char_def)
qed

lemma nth_absent: "c \<notin> set bytes \<Longrightarrow> i < length bytes \<Longrightarrow> bytes ! i \<noteq> c"
  by (metis nth_mem)

lemma find_season_episode_absent: "CHR ''s'' \<notin> set bytes \<Longrightarrow> find_season_episode bytes = None"
  by (auto simp: find_season_episode_def first_some_None season_episode_at_def nth_absent)

lemma find_episode_absent: "CHR ''e'' \<notin> set bytes \<Longrightarrow> find_episode bytes = None"
  by (auto simp: find_episode_def first_some_None episode_at_def nth_absent)

lemma find_bracket_absent: "CHR ''['' \<notin> set bytes \<Longrightarrow> find_bracket_episode bytes = None"
  by (auto simp: find_bracket_episode_def first_some_None bracket_episode_at_def nth_absent)

lemma chars_of_ascii:
  "list_all (\<lambda>c. of_char c < (0x80 :: int)) u \<Longrightarrow> chars_of (u @ v) = map of_char u @ chars_of v"
  by (induction u) auto

lemma find_chinese_absent:
  assumes "cp_di \<notin> set (chars_of bytes)"
  shows "find_chinese_episode bytes = None"
proof -
  have "find (\<lambda>i. chars_of bytes ! i = cp_di) [0..<length (chars_of bytes)] = None"
    using assms nth_absent [of cp_di "chars_of bytes"] by (auto simp: find_None_iff)
  then show ?thesis
    by (simp add: find_chinese_episode_def)
qed

lemma number_ascii: "list_all (\<lambda>c. of_char c < (0x80 :: int)) (u32_02 n)"
proof -
  have "is_digit c \<Longrightarrow> of_char c < (0x80 :: int)" for c
    by (auto simp: is_digit_def less_eq_char_def of_char_def)
  with u32_02_digits [of n] show ?thesis
    by (auto simp: list_all_iff)
qed

lemma number_code_points: "cp_di \<notin> of_char ` set (u32_02 n)"
  using number_ascii [of n] by (auto simp: list_all_iff cp_di_def)

lemma str_contains_append: "str_contains v w \<Longrightarrow> str_contains (u @ v) w"
  by (induction u) auto

lemma str_contains_refl: "str_contains w w"
  by (cases w) auto

subsection \<open>The label of a coverage\<close>

text \<open>What a coverage taken from a text always satisfies, and with it the zero excluded\<close>

fun coverage_shaped :: "episode_coverage \<Rightarrow> bool" where
  "coverage_shaped (Episode season episode) \<longleftrightarrow> season \<noteq> Some 0"
| "coverage_shaped (Range season start end_ep) \<longleftrightarrow> season \<noteq> Some 0 \<and> start < end_ep"
| "coverage_shaped (SeasonPack season) \<longleftrightarrow> season \<noteq> 0"

definition coverage_valid :: "episode_coverage \<Rightarrow> bool" where
  "coverage_valid c \<longleftrightarrow> coverage_shaped c \<and> fst (snd (coverage_parts c)) \<noteq> Some 0"

lemma to_lower_letters [simp]:
  "to_lower CHR ''S'' = CHR ''s''" "to_lower CHR ''E'' = CHR ''e''" "to_lower CHR ''-'' = CHR ''-''"
  "to_lower CHR '' '' = CHR '' ''" "map to_lower quanji = quanji"
  by code_simp+

lemma lower_label: "map to_lower (''S'' @ x) = ''s'' @ map to_lower x"
  "map to_lower (''E'' @ x) = ''e'' @ map to_lower x"
  "map to_lower (''-E'' @ x) = ''-e'' @ map to_lower x"
  by simp_all

lemma u32_positive: "(n :: u32) \<noteq> 0 \<Longrightarrow> n > 0"
  by (simp add: word_neq_0_conv)

lemma recognize_season_label:
  assumes "s \<noteq> 0" "e \<noteq> 0" "post = [] \<or> \<not> is_digit (hd post)" "map to_lower post = lower_post"
    and "k = length (''s'' @ u32_02 s @ ''e'' @ u32_02 e)"
  shows "recognize (''S'' @ u32_02 s @ ''E'' @ u32_02 e @ post) =
     Some (range_or_episode (Some s) e
       (read_range_end (''s'' @ u32_02 s @ ''e'' @ u32_02 e @ lower_post) k))"
proof -
  have "lower_post = [] \<or> \<not> is_digit (hd lower_post)"
    using assms(3,4) by (cases post) (auto simp: to_lower_def is_digit_def less_eq_char_def split: if_splits)
  then show ?thesis
    using assms find_season_episode_label [of s e lower_post _ k]
    by (simp add: recognize_def to_ascii_lowercase_def u32_positive)
qed

lemma recognize_plain_label:
  assumes "e \<noteq> 0" "post = [] \<or> \<not> is_digit (hd post)" "map to_lower post = lower_post"
    and "CHR ''s'' \<notin> set lower_post" and "k = length (''e'' @ u32_02 e)"
  shows "recognize (''E'' @ u32_02 e @ post) =
     Some (range_or_episode None e (read_range_end (''e'' @ u32_02 e @ lower_post) k))"
proof -
  have "lower_post = [] \<or> \<not> is_digit (hd lower_post)"
    using assms(2,3) by (cases post) (auto simp: to_lower_def is_digit_def less_eq_char_def split: if_splits)
  then show ?thesis
    using assms find_episode_label [of e lower_post _ k]
      find_season_episode_absent [of "''e'' @ u32_02 e @ lower_post"]
      absent_in_number [of "CHR ''s''" e]
    by (simp add: recognize_def to_ascii_lowercase_def u32_positive)
qed

lemma recognize_pack_label:
  assumes "s \<noteq> 0"
  shows "recognize (''S'' @ u32_02 s @ '' '' @ quanji) = Some (SeasonPack s)"
proof -
  let ?b = "''s'' @ u32_02 s @ '' '' @ quanji" and ?v = "''S'' @ u32_02 s @ '' '' @ quanji"
  have quanji: "quanji = CHR 0xE5 # tl quanji" "c \<in> set quanji \<Longrightarrow> \<not> is_digit c" for c
    by (auto simp: quanji_def is_digit_def less_eq_char_def)
  have s: "read_number ?b (Suc 0) = Some (s, Suc (length (u32_02 s)))"
    using read_number_at [of ?b "''s''" s "'' '' @ quanji"] by simp
  have "?b = (''s'' @ u32_02 s @ '' '') @ CHR 0xE5 # tl quanji"
    using quanji(1) by simp
  then have at_q: "at_is p ?b (Suc (Suc (length (u32_02 s)))) \<longleftrightarrow> p CHR 0xE5" for p
    using at_is_append [of p "''s'' @ u32_02 s @ '' ''" "CHR 0xE5" "tl quanji"] by simp
  have at_sp: "at_is p ?b (Suc (length (u32_02 s))) \<longleftrightarrow> p CHR '' ''" for p
    using at_is_append [of p "''s'' @ u32_02 s" "CHR '' ''" quanji] by simp
  have sep: "skip_separators ?b (Suc (length (u32_02 s))) = Suc (Suc (length (u32_02 s)))"
    using at_q at_sp by (simp add: skip_separators_def skip_while_step [of _ _ "Suc (length (u32_02 s))"]
        skip_while_stop)
  have rest: "?b ! i \<noteq> CHR ''s''" if "0 < i" "i < length ?b" for i
    using that nth_absent [of "CHR ''s''" "u32_02 s @ '' '' @ quanji" "i - 1"]
      absent_in_number [of "CHR ''s''" s] by (cases i) (auto simp: quanji_def)
  have "season_episode_at ?b i = None" if "i < length ?b" for i
    using that rest [of i] s sep at_q by (cases "i = 0") (simp_all add: season_episode_at_def)
  then have "find_season_episode ?b = None"
    by (simp only: find_season_episode_def first_some_None) simp
  moreover have "find_episode ?b = None"
    using absent_in_number [of "CHR ''e''" s]
    by (intro find_episode_absent) (simp add: quanji_def)
  moreover have "find_bracket_episode ?v = None"
    using absent_in_number [of "CHR ''[''" s]
    by (intro find_bracket_absent) (simp add: quanji_def)
  moreover have "chars_of ?v = of_char CHR ''S'' # map of_char (u32_02 s) @ chars_of ('' '' @ quanji)"
    using chars_of_ascii [OF number_ascii [of s]] by (simp del: append_Cons append_Nil) simp
  then have "find_chinese_episode ?v = None"
    using number_code_points [of s]
    by (intro find_chinese_absent) (simp add: quanji_def cp_di_def continuation_def)
  moreover have "str_contains ?b quanji"
    using str_contains_append [OF str_contains_refl, of "''s'' @ u32_02 s @ '' ''" quanji] by simp
  then have "list_ex (str_contains ?b) pack_keywords"
    by (simp add: pack_keywords_def)
  then have "season_pack_at (list_ex (str_contains ?b) pack_keywords) ?b 0 = Some s"
    using assms s at_sp [of "(=) CHR ''e''"]
    by (simp add: season_pack_at_def previous_is_def u32_positive at_is_def)
  then have "find_season_pack ?b = Some s"
    unfolding find_season_pack_def Let_def by (intro first_some_zero) simp_all
  ultimately show ?thesis
    by (simp add: recognize_def to_ascii_lowercase_def)
qed

text \<open>C22. Round trip: the label of a well-formed coverage (positive season and episode numbers,
  a range that ascends) is recognised as exactly that coverage, for every 32-bit season and
  episode number and every shape: with and without a season, single, range and season pack.
\<close>

theorem label_recognized:
  assumes "coverage_valid c"
  shows "recognize (label c) = Some c"
proof -
  have ascends: "a < m \<Longrightarrow> m > 0" for a m :: u32
    by (rule le_less_trans [OF word_zero_le])
  have range: "m > 0 \<Longrightarrow> read_range_end (x @ ''-e'' @ u32_02 m) (length x) = Some m" for m x
    by (rule read_range_end_label)
  show ?thesis
  proof (cases c rule: label.cases)
    case (1 s e)
    with assms recognize_season_label [of s e "[]"]
      read_range_end_end [of "''s'' @ u32_02 s @ ''e'' @ u32_02 e"] show ?thesis
      by (simp add: coverage_valid_def range_or_episode_def)
  next
    case (2 e)
    with assms recognize_plain_label [of e "[]"] read_range_end_end [of "''e'' @ u32_02 e"]
    show ?thesis
      by (simp add: coverage_valid_def range_or_episode_def)
  next
    case (3 s a m)
    with assms have "s \<noteq> 0 \<and> a \<noteq> 0 \<and> a < m \<and> m > 0"
      by (auto simp: coverage_valid_def dest: ascends)
    with 3 recognize_season_label [of s a "''-E'' @ u32_02 m"]
      range [of m "''s'' @ u32_02 s @ ''e'' @ u32_02 a"] show ?thesis
      by (simp add: range_or_episode_def)
  next
    case (4 a m)
    with assms have "a \<noteq> 0 \<and> a < m \<and> m > 0"
      by (auto simp: coverage_valid_def dest: ascends)
    with 4 recognize_plain_label [of a "''-E'' @ u32_02 m"]
      range [of m "''e'' @ u32_02 a"] absent_in_number [of "CHR ''s''" m] show ?thesis
      by (simp add: range_or_episode_def)
  next
    case (5 s)
    with assms recognize_pack_label [of s] show ?thesis
      by (simp add: coverage_valid_def)
  qed
qed

theorem label_recognized_witness:
  "recognize (label (Range (Some 2) 3 120)) = Some (Range (Some 2) 3 120) \<and>
   label (Range (Some 2) 3 120) = ''S02E03-E120''"
proof -
  have "coverage_valid (Range (Some 2) 3 120)" by code_simp
  then have "recognize (label (Range (Some 2) 3 120)) = Some (Range (Some 2) 3 120)"
    by (rule label_recognized)
  moreover have "label (Range (Some 2) 3 120) = ''S02E03-E120''" by code_simp
  ultimately show ?thesis ..
qed

subsection \<open>What is recognised\<close>

lemma season_episode_positive:
  assumes "find_season_episode bytes = Some (season, episode, end_ep)"
  shows "season \<noteq> 0 \<and> episode \<noteq> 0"
proof -
  from assms obtain i where "season_episode_at bytes i = Some (season, episode, end_ep)"
    unfolding find_season_episode_def by (blast dest: first_some_Some)
  then show ?thesis
    by (auto simp: season_episode_at_def Let_def split: if_splits option.splits)
qed

lemma episode_positive: "find_episode bytes = Some (episode, end_ep) \<Longrightarrow> episode \<noteq> 0"
  unfolding find_episode_def
  by (drule first_some_Some) (auto simp: episode_at_def split: if_splits option.splits)

lemma bracket_positive: "find_bracket_episode bytes = Some (episode, end_ep) \<Longrightarrow> episode \<noteq> 0"
  unfolding find_bracket_episode_def
  by (drule first_some_Some)
     (auto simp: bracket_episode_at_def Let_def split: if_splits option.splits prod.splits)

lemma season_pack_positive: "find_season_pack bytes = Some season \<Longrightarrow> season \<noteq> 0"
  unfolding find_season_pack_def Let_def
  by (drule first_some_Some) (auto simp: season_pack_at_def split: if_splits option.splits)

lemma range_or_episode_shaped:
  "season \<noteq> Some 0 \<Longrightarrow> coverage_shaped (range_or_episode season start end_ep)"
  "fst (snd (coverage_parts (range_or_episode season start end_ep))) = Some start"
  by (auto simp: range_or_episode_def split: option.splits)

text \<open>Safety of the recogniser: a recognised season is never zero and a recognised range
  ascends, whatever the text; an episode number is positive as well, unless it was read
  from the Chinese notation, whose zero the code does not exclude.
\<close>

theorem recognized_coverage_is_wellformed:
  assumes "recognize value = Some c"
  shows "coverage_shaped c \<and> (find_chinese_episode value = None \<longrightarrow> coverage_valid c)"
  using assms
  by (auto simp: recognize_def Let_def coverage_valid_def range_or_episode_shaped
      split: option.splits prod.splits
      dest: season_episode_positive episode_positive bracket_positive season_pack_positive)

theorem recognized_coverage_is_wellformed_witness:
  "coverage_valid (Range None 7 9)"
proof -
  have "recognize ''Show.EP07-EP09'' = Some (Range None 7 9)"
    "find_chinese_episode ''Show.EP07-EP09'' = None"
    by code_simp+
  with recognized_coverage_is_wellformed [of "''Show.EP07-EP09''"] show ?thesis
    by simp
qed

end
