(* ===== verification/Poll_Theorems.thy ===== *)
theory Poll_Theorems
  imports Repository_History Example_Data
begin

text \<open>
  What a poll of the wanted list leaves behind: the active rows after a complete snapshot are
  the snapshot, an incomplete one removes nothing, no attempt disappears without an audit
  entry, and a token works once, whatever the repository does in between.
\<close>

subsection \<open>An account with an open poll\<close>

definition sample_poll_token :: poll_attempt_token where
  "sample_poll_token = \<lparr>poll_generation = PollGeneration 1,
     poll_snapshot_id = SnapshotId ''wanted-poll-v1-64''\<rparr>"

definition poll_db :: database where
  "poll_db = running_db\<lparr>db_meta := [fresh_meta ''acc'' 1000 ''wanted-poll-v1-64'']\<rparr>"

definition other_source :: wanted_source_payload where
  "other_source = sample_source\<lparr>src_title := ''Other''\<rparr>"

definition sample_records :: "snapshot_record list" where
  "sample_records = [\<lparr>snap_subject_id = ''s2'', snap_media_kind = Movie, snap_schedulable = True,
     snap_blocked_reason = None, snap_source = other_source\<rparr>]"

definition sample_policy :: new_record_policy where
  "sample_policy = \<lparr>policy_max_retries = 3, policy_bootstrap_existing_as_skipped = False\<rparr>"

definition complete_sample :: apply_complete_snapshot_command where
  "complete_sample = \<lparr>acs_account_key = ''acc'', acs_token = sample_poll_token,
     acs_completed_at = 1000, acs_next_poll_at = 2000, acs_new_record_policy = sample_policy,
     acs_records = sample_records\<rparr>"

definition sample_retry_policy :: poll_retry_policy where
  "sample_retry_policy = \<lparr>retry_initial_delay_secs = 60, retry_max_delay_secs = 600\<rparr>"

definition incomplete_sample :: record_incomplete_snapshot_command where
  "incomplete_sample = \<lparr>ris_account_key = ''acc'', ris_token = sample_poll_token,
     ris_incomplete_at = 1000, ris_fetched_pages = 1, ris_truncated_by_limit = False,
     ris_end_observed = False, ris_reason = EndNotObserved,
     ris_new_record_policy = sample_policy, ris_records = sample_records,
     ris_retry_policy = sample_retry_policy\<rparr>"

definition failure_sample :: record_poll_failure_command where
  "failure_sample = \<lparr>rpf_account_key = ''acc'', rpf_token = sample_poll_token,
     rpf_failed_at = 1000, rpf_message = ''down'', rpf_retry_policy = sample_retry_policy\<rparr>"

lemma poll_db_ok: "repository_ok poll_db"
proof -
  have "db_ok poll_db" by code_simp
  moreover have "metas_ok poll_db" by code_simp
  ultimately show ?thesis by (simp add: repository_ok_def)
qed

definition succeeds :: "'a repository_result \<times> database \<Rightarrow> bool" where
  "succeeds y \<longleftrightarrow> (case fst y of Inl _ \<Rightarrow> False | Inr _ \<Rightarrow> True)"

lemma succeeds_run: "succeeds y \<Longrightarrow> \<exists>x. y = (Inr x, snd y)"
  by (cases y) (auto simp: succeeds_def split: sum.splits)

lemma succeeds_error: "succeeds y \<Longrightarrow> error_of (fst y) = None"
  by (cases "fst y") (simp_all add: succeeds_def)

lemma sample_polls_succeed:
  "succeeds (apply_complete_snapshot sample_env complete_sample poll_db)"
  "succeeds (record_incomplete_snapshot sample_env incomplete_sample poll_db)"
  "succeeds (record_poll_failure sample_env failure_sample poll_db)"
  by code_simp+

subsection \<open>Histories\<close>

text \<open>C4. Whatever the repository runs, in any order, with any clock, identifiers and faults - claims and
  the other transactions of an attempt, the mutations outside one, polls, and entries of the operation
  log with their retention: the CHECKs and unique indexes of both tables hold, no row of the list is
  ever deleted, its revision never falls, and a row whose revision is the same is the same row, so a
  revision names the content a client read. Entries of the log may go, rows never do.\<close>

theorem history_keeps_repository:
  assumes "repository_step\<^sup>*\<^sup>* db db'" and "repository_ok db"
  shows "repository_ok db' \<and> grown_database db db'"
  using history_kept [OF assms] by (simp add: kept_def)

theorem history_keeps_repository_witness:
  "repository_ok (run_repository late_env (OpenPoll \<lparr>bpoll_account_key = ''acc'', bpoll_attempted_at = 5000\<rparr>)
       (run_repository sample_env (AppendLog (sample_entry, retention_from_limits 40 2))
         (run_repository sample_env (EndComplete complete_sample) poll_db))) \<and>
   grown_database poll_db
     (run_repository late_env (OpenPoll \<lparr>bpoll_account_key = ''acc'', bpoll_attempted_at = 5000\<rparr>)
       (run_repository sample_env (AppendLog (sample_entry, retention_from_limits 40 2))
         (run_repository sample_env (EndComplete complete_sample) poll_db)))"
  by (rule history_keeps_repository [OF _ poll_db_ok])
    (meson repository_step.transaction rtranclp.rtrancl_into_rtrancl rtranclp.rtrancl_refl)

subsection \<open>Tokens\<close>

text \<open>The poll an operation ends, and its error.\<close>

fun poll_end_of :: "repository_operation \<Rightarrow> (string \<times> poll_attempt_token) option" where
  "poll_end_of (FailPoll c) = Some (rpf_account_key c, rpf_token c)"
| "poll_end_of (EndIncomplete c) = Some (ris_account_key c, ris_token c)"
| "poll_end_of (EndComplete c) = Some (acs_account_key c, acs_token c)"
| "poll_end_of _ = None"

fun poll_error :: "repo_env \<Rightarrow> repository_operation \<Rightarrow> database \<Rightarrow> repository_error option" where
  "poll_error env (FailPoll c) db = error_of (fst (record_poll_failure env c db))"
| "poll_error env (EndIncomplete c) db = error_of (fst (record_incomplete_snapshot env c db))"
| "poll_error env (EndComplete c) db = error_of (fst (apply_complete_snapshot env c db))"
| "poll_error env _ db = None"

lemma ended_spent:
  assumes "repository_ok db" and "poll_end_of op = Some (account, token)"
    and "poll_error env op db = None"
  shows "poll_spent (run_repository env op db) account (token_generation token)"
proof -
  have ok: "db_ok db" "metas_ok db" using assms(1) by (simp_all add: repository_ok_def)
  have "poll_ended account token db (run_repository env op db)"
  proof (cases op)
    case (FailPoll c)
    with assms show ?thesis
      using poll_failure.success [OF ok, of env c]
      by (cases "record_poll_failure env c db") (auto simp: error_of_None)
  next
    case (EndIncomplete c)
    with assms show ?thesis
      using incomplete.success [OF ok, of env c]
      by (cases "record_incomplete_snapshot env c db") (auto simp: error_of_None)
  next
    case (EndComplete c)
    with assms show ?thesis
      using complete.success [OF ok, of env c]
      by (cases "apply_complete_snapshot env c db") (auto simp: error_of_None)
  qed (use assms(2) in simp_all)
  then show ?thesis by (rule poll_ended_spent)
qed

lemma spent_end_refused:
  assumes "repository_ok db" and "poll_end_of op = Some (account, token)"
    and spent: "poll_spent db account (token_generation token)"
  shows "poll_error env op db \<noteq> None \<and> run_repository env op db = db"
proof -
  have ok: "db_ok db" "metas_ok db" using assms(1) by (simp_all add: repository_ok_def)
  show ?thesis
  proof (cases op)
    case (FailPoll c)
    with assms obtain e where "record_poll_failure env c db = (Inl e, db)"
      using poll_failure.spent_refused [OF ok, of c env] by auto
    with FailPoll show ?thesis by simp
  next
    case (EndIncomplete c)
    with assms obtain e where "record_incomplete_snapshot env c db = (Inl e, db)"
      using incomplete.spent_refused [OF ok, of c env] by auto
    with EndIncomplete show ?thesis by simp
  next
    case (EndComplete c)
    with assms obtain e where "apply_complete_snapshot env c db = (Inl e, db)"
      using complete.spent_refused [OF ok, of c env] by auto
    with EndComplete show ?thesis by simp
  qed (use assms(2) in simp_all)
qed

text \<open>C5. A poll token works once: after a complete snapshot, an incomplete one or a failure has
  been accepted with it, no operation that presents it is accepted, and none changes anything,
  however many transactions of the repository, new polls included, run in between.\<close>

theorem poll_token_consumed_once:
  assumes ok: "repository_ok db" and first: "poll_end_of op = Some (account, token)"
    and accepted: "poll_error env op db = None"
    and later: "repository_step\<^sup>*\<^sup>* (run_repository env op db) db'"
    and second: "poll_end_of op' = Some (account, token)"
  shows "poll_error env' op' db' \<noteq> None \<and> run_repository env' op' db' = db'"
proof -
  have "repository_ok (run_repository env op db)"
    using step_kept [OF repository_step.transaction ok] by (simp add: kept_def)
  then have "kept (run_repository env op db) db'"
    by (rule history_kept [OF later])
  with ended_spent [OF ok first accepted] show ?thesis
    by (intro spent_end_refused [OF _ second]) (auto simp: kept_def)
qed

theorem poll_token_consumed_once_witness:
  "poll_error sample_env (EndIncomplete incomplete_sample)
     (run_repository sample_env (EndComplete complete_sample) poll_db) \<noteq> None \<and>
   run_repository sample_env (EndIncomplete incomplete_sample)
     (run_repository sample_env (EndComplete complete_sample) poll_db)
     = run_repository sample_env (EndComplete complete_sample) poll_db"
proof (rule poll_token_consumed_once [OF poll_db_ok _ _ rtranclp.rtrancl_refl])
  show "poll_error sample_env (EndComplete complete_sample) poll_db = None"
    using succeeds_error [OF sample_polls_succeed(1)] by simp
qed (simp_all add: complete_sample_def incomplete_sample_def)

text \<open>A begin opens a fresh generation: its token is the only one the account accepts from then
  on, its generation is the successor of the account's last one (one for a new account), and no
  subscription, log entry or other account changes.\<close>

theorem begin_poll_opens_generation:
  assumes "repository_ok db" and "begin_poll env c db = (Inr x, db')"
  shows "poll_begun (bpoll_account_key c) (bpollr_token x) db db' \<and>
    {token. poll_open db' (bpoll_account_key c) token} = {bpollr_token x}"
proof -
  have begun: "poll_begun (bpoll_account_key c) (bpollr_token x) db db'"
    using assms begin_poll_Inr by (simp add: repository_ok_def)
  then show ?thesis by (auto simp: poll_begun_def poll_open_def)
qed

definition begin_sample :: begin_poll_command where
  "begin_sample = \<lparr>bpoll_account_key = ''acc'', bpoll_attempted_at = 1500\<rparr>"

lemma begin_sample_succeeds: "succeeds (begin_poll sample_env begin_sample poll_db)"
  by code_simp

theorem begin_poll_opens_generation_witness:
  "\<exists>token. poll_begun ''acc'' token poll_db (snd (begin_poll sample_env begin_sample poll_db))"
proof -
  obtain x where "begin_poll sample_env begin_sample poll_db
      = (Inr x, snd (begin_poll sample_env begin_sample poll_db))"
    using succeeds_run [OF begin_sample_succeeds] by blast
  from begin_poll_opens_generation [OF poll_db_ok this] show ?thesis
    by (auto simp: begin_sample_def)
qed

subsection \<open>Snapshots\<close>

lemma record_key_image: "j \<in> record_key cx ` set obs \<longleftrightarrow>
    account_key j = seen_account cx \<and> subject_id j \<in> snap_subject_id ` set obs"
  by (cases j) (auto simp: record_key_def)

lemma row_key_fields: "row_key r = key \<longleftrightarrow> col_account_key r = account_key key \<and> col_subject_id r = subject_id key"
  by (cases key) (simp add: row_key_def)

text \<open>The subjects an account is following.\<close>

definition active_subjects :: "database \<Rightarrow> string \<Rightarrow> string set" where
  "active_subjects db account =
     {col_subject_id r | r. r \<in> set (db_rows db) \<and> col_account_key r = account \<and> col_active r = 1}"

definition fresh_snapshot :: "database \<Rightarrow> string \<Rightarrow> snapshot_id \<Rightarrow> bool" where
  "fresh_snapshot db account snapshot \<longleftrightarrow>
     list_all (\<lambda>r. col_account_key r = account \<longrightarrow>
       col_last_seen_snapshot_id r \<noteq> Some (snapshot_id_str snapshot)) (db_rows db)"

text \<open>What a complete snapshot leaves, one direction at a time\<close>

lemma complete_lists_seen:
  assumes ok: "repository_ok db" and run: "apply_complete_snapshot env c db = (Inr x, db')"
  shows "snap_subject_id ` set (acs_records c) \<subseteq> active_subjects db' (acs_account_key c)"
proof -
  have ok': "db_ok db" "metas_ok db" using ok by (simp_all add: repository_ok_def)
  show ?thesis
  proof (rule apply_complete_Inr [OF ok' run], rule subsetI)
    fix cx db1 at s
    assume cx: "seen_account cx = acs_account_key c" "context_snapshot cx = poll_snapshot_id (acs_token c)"
      and merged: "snapshot_merged cx (acs_records c) db db1"
      and rows: "\<And>j. find_row db' j = map_option (\<lambda>r.
             if missing_where (acs_account_key c) (poll_snapshot_id (acs_token c)) r
             then deactivate_set at r else r) (find_row db1 j)"
      and "s \<in> snap_subject_id ` set (acs_records c)"
    then obtain ob r where ob: "s = snap_subject_id ob"
        and r: "find_row db1 (record_key cx ob) = Some r" "seen_row (poll_snapshot_id (acs_token c)) r"
      by (fastforce simp: snapshot_merged_def)
    then have "find_row db' (record_key cx ob) = Some r"
      by (simp add: rows seen_row_def missing_where_def)
    with find_row_Some [OF this] r ob cx show "s \<in> active_subjects db' (acs_account_key c)"
      by (auto simp: active_subjects_def seen_row_def row_key_fields record_key_def intro!: exI [of _ r])
  qed
qed

lemma complete_active_seen:
  assumes ok: "repository_ok db" and run: "apply_complete_snapshot env c db = (Inr x, db')"
    and fresh: "fresh_snapshot db (acs_account_key c) (poll_snapshot_id (acs_token c))"
  shows "active_subjects db' (acs_account_key c) \<subseteq> snap_subject_id ` set (acs_records c)"
proof -
  have ok': "db_ok db" "metas_ok db" using ok by (simp_all add: repository_ok_def)
  show ?thesis
  proof (rule apply_complete_Inr [OF ok' run], rule subsetI)
    fix cx db1 at s
    assume ended: "poll_ended (acs_account_key c) (acs_token c) db db'"
      and cx: "seen_account cx = acs_account_key c" "context_snapshot cx = poll_snapshot_id (acs_token c)"
      and merged: "snapshot_merged cx (acs_records c) db db1"
      and rows: "\<And>j. find_row db' j = map_option (\<lambda>r.
             if missing_where (acs_account_key c) (poll_snapshot_id (acs_token c)) r
             then deactivate_set at r else r) (find_row db1 j)"
      and "s \<in> active_subjects db' (acs_account_key c)"
    then obtain r where r: "r \<in> set (db_rows db')" "col_account_key r = acs_account_key c" "col_active r = 1"
        "s = col_subject_id r"
      by (auto simp: active_subjects_def)
    have "db_ok db'" using ended by (simp add: poll_ended_def)
    from find_row_unique [OF this r(1)] rows [of "row_key r"] obtain r1 where
        r1: "find_row db1 (row_key r) = Some r1"
          "r = (if missing_where (acs_account_key c) (poll_snapshot_id (acs_token c)) r1
                then deactivate_set at r1 else r1)"
      by auto
    with r(2,3) have "r1 = r" "col_last_seen_snapshot_id r = Some (snapshot_id_str (poll_snapshot_id (acs_token c)))"
      by (auto simp: deactivate_set_def missing_where_def split: if_split_asm option.splits)
    show "s \<in> snap_subject_id ` set (acs_records c)"
    proof (rule ccontr)
      assume "s \<notin> snap_subject_id ` set (acs_records c)"
      with r(4) merged have "find_row db (row_key r) = Some r"
        using r1(1) \<open>r1 = r\<close> by (simp add: record_key_image row_key_def snapshot_merged_def)
      with fresh r(2) \<open>col_last_seen_snapshot_id r = _\<close> show False
        by (auto simp: fresh_snapshot_def list_all_iff dest!: find_row_Some)
    qed
  qed
qed

lemma complete_keeps_rows:
  assumes ok: "repository_ok db" and run: "apply_complete_snapshot env c db = (Inr x, db')"
  shows "find_row db j \<noteq> None \<Longrightarrow> find_row db' j \<noteq> None"
    and "account_key j \<noteq> acs_account_key c \<Longrightarrow> find_row db' j = find_row db j"
    and "acsr_inserted x + acsr_updated x + acsr_unchanged x = length (acs_records c)"
proof -
  have ok': "db_ok db" "metas_ok db" using ok by (simp_all add: repository_ok_def)
  obtain cx db1 at where cx: "seen_account cx = acs_account_key c"
      and merged: "snapshot_merged cx (acs_records c) db db1"
      and rows: "\<And>j. find_row db' j = map_option (\<lambda>r.
             if missing_where (acs_account_key c) (poll_snapshot_id (acs_token c)) r
             then deactivate_set at r else r) (find_row db1 j)"
      and count: "acsr_inserted x + acsr_updated x + acsr_unchanged x = length (acs_records c)"
    by (rule apply_complete_Inr [OF ok' run]) (rule that, assumption+)
  show "find_row db' j \<noteq> None" if "find_row db j \<noteq> None"
    using that merged by (cases "j \<in> record_key cx ` set (acs_records c)") (auto simp: rows snapshot_merged_def)
  show "find_row db' j = find_row db j" if j: "account_key j \<noteq> acs_account_key c"
  proof -
    have "find_row db1 j = find_row db j" using j cx merged by (simp add: record_key_image snapshot_merged_def)
    moreover have "\<not> missing_where (acs_account_key c) (poll_snapshot_id (acs_token c)) r"
      if "find_row db1 j = Some r" for r
      using find_row_Some [OF that] j by (auto simp: missing_where_def row_key_fields)
    ultimately show ?thesis by (cases "find_row db j") (simp_all add: rows)
  qed
  show "acsr_inserted x + acsr_updated x + acsr_unchanged x = length (acs_records c)" by (rule count)
qed

text \<open>C6. A complete snapshot is the list: when it has been applied, the subjects the account
  follows are exactly those of the snapshot, every other row of the account is inactive, no row
  is deleted, the rows of other accounts are untouched, and the counters add up to the records.
  The snapshot identifier is one no row of the account has been seen in before.\<close>

theorem complete_snapshot_is_the_list:
  assumes ok: "repository_ok db" and run: "apply_complete_snapshot env c db = (Inr x, db')"
    and fresh: "fresh_snapshot db (acs_account_key c) (poll_snapshot_id (acs_token c))"
  shows "active_subjects db' (acs_account_key c) = snap_subject_id ` set (acs_records c) \<and>
    {j. find_row db j \<noteq> None} \<subseteq> {j. find_row db' j \<noteq> None} \<and>
    {j. account_key j \<noteq> acs_account_key c} \<subseteq> {j. find_row db' j = find_row db j} \<and>
    acsr_inserted x + acsr_updated x + acsr_unchanged x = length (acs_records c)"
  using complete_lists_seen [OF ok run] complete_active_seen [OF ok run fresh]
    complete_keeps_rows [OF ok run] by blast

theorem complete_snapshot_is_the_list_witness:
  "active_subjects (snd (apply_complete_snapshot sample_env complete_sample poll_db)) ''acc'' = {''s2''} \<and>
   active_subjects poll_db ''acc'' = {''s1''}"
proof
  obtain x where run: "apply_complete_snapshot sample_env complete_sample poll_db
      = (Inr x, snd (apply_complete_snapshot sample_env complete_sample poll_db))"
    using succeeds_run [OF sample_polls_succeed(1)] by blast
  have "fresh_snapshot poll_db (acs_account_key complete_sample)
      (poll_snapshot_id (acs_token complete_sample))"
    by code_simp
  from complete_snapshot_is_the_list [OF poll_db_ok run this]
  show "active_subjects (snd (apply_complete_snapshot sample_env complete_sample poll_db)) ''acc'' = {''s2''}"
    by (simp add: complete_sample_def sample_records_def)
  show "active_subjects poll_db ''acc'' = {''s1''}"
    by (auto simp: active_subjects_def poll_db_def running_db_def database_of_def running_row_def
        idle_row_def)
qed

text \<open>The rows an incomplete snapshot leaves\<close>

lemma incomplete_rows:
  assumes ok: "repository_ok db" and run: "record_incomplete_snapshot env c db = (Inr x, db')"
  shows "db_ok db'"
    and "ob \<in> set (ris_records c) \<Longrightarrow>
      \<exists>r. find_row db' \<lparr>account_key = ris_account_key c, subject_id = snap_subject_id ob\<rparr> = Some r \<and> col_active r = 1"
    and "(account_key j = ris_account_key c \<longrightarrow> subject_id j \<notin> snap_subject_id ` set (ris_records c)) \<Longrightarrow>
      find_row db' j = find_row db j"
    and "find_row db j = Some r \<Longrightarrow> col_active r = 1 \<Longrightarrow> \<exists>r'. find_row db' j = Some r' \<and> col_active r' = 1"
    and "risr_inserted x + risr_updated x + risr_unchanged x = length (ris_records c)"
proof -
  have ok': "db_ok db" "metas_ok db" using ok by (simp_all add: repository_ok_def)
  obtain cx db1 where ended: "poll_ended (ris_account_key c) (ris_token c) db db'"
      and cx: "seen_account cx = ris_account_key c"
      and merged: "snapshot_merged cx (ris_records c) db db1" and same: "db_rows db' = db_rows db1"
      and count: "risr_inserted x + risr_updated x + risr_unchanged x = length (ris_records c)"
    by (rule record_incomplete_Inr [OF ok' run]) (rule that, assumption+)
  note rows = find_row_rows [OF same]
  show "db_ok db'" using ended by (simp add: poll_ended_def)
  show "\<exists>r. find_row db' \<lparr>account_key = ris_account_key c, subject_id = snap_subject_id ob\<rparr> = Some r \<and> col_active r = 1"
    if "ob \<in> set (ris_records c)"
    using merged that cx by (fastforce simp: snapshot_merged_def rows record_key_def seen_row_def)
  show "find_row db' j = find_row db j"
    if "account_key j = ris_account_key c \<longrightarrow> subject_id j \<notin> snap_subject_id ` set (ris_records c)"
    using merged that cx by (auto simp: snapshot_merged_def rows record_key_image)
  show "\<exists>r'. find_row db' j = Some r' \<and> col_active r' = 1"
    if row: "find_row db j = Some r" "col_active r = 1"
  proof -
    have "merge_progress db db1" using merged by (simp add: snapshot_merged_def)
    then obtain es r' where "find_row db1 j = Some r'" "merged_row j es r r'"
      using row(1) unfolding merge_progress_def by blast
    with row(2) show ?thesis by (auto simp: merged_row_def rows)
  qed
  show "risr_inserted x + risr_updated x + risr_unchanged x = length (ris_records c)" by (rule count)
qed

text \<open>An account follows a subject when its row is active.\<close>

lemma active_subjects_iff:
  assumes "db_ok db"
  shows "s \<in> active_subjects db a \<longleftrightarrow>
    (\<exists>r. find_row db \<lparr>account_key = a, subject_id = s\<rparr> = Some r \<and> col_active r = 1)"
  using find_row_unique [OF assms] find_row_Some [of db]
  by (fastforce simp: active_subjects_def row_key_def)

text \<open>C8. An incomplete snapshot removes nothing: the account follows afterwards what it followed
  before and what the snapshot named, every row the snapshot does not name is untouched, and the
  counters add up to the records.\<close>

theorem incomplete_snapshot_removes_nothing:
  assumes ok: "repository_ok db" and run: "record_incomplete_snapshot env c db = (Inr x, db')"
  shows "active_subjects db' (ris_account_key c)
      = active_subjects db (ris_account_key c) \<union> snap_subject_id ` set (ris_records c) \<and>
    {j. account_key j = ris_account_key c \<longrightarrow> subject_id j \<notin> snap_subject_id ` set (ris_records c)}
      \<subseteq> {j. find_row db' j = find_row db j} \<and>
    risr_inserted x + risr_updated x + risr_unchanged x = length (ris_records c)"
proof -
  note rows = incomplete_rows [OF ok run]
  have "db_ok db" using ok by (simp add: repository_ok_def)
  note active = active_subjects_iff [OF this] active_subjects_iff [OF rows(1)]
  have "s \<in> active_subjects db' (ris_account_key c) \<longleftrightarrow>
      s \<in> active_subjects db (ris_account_key c) \<union> snap_subject_id ` set (ris_records c)" for s
  proof (cases "s \<in> snap_subject_id ` set (ris_records c)")
    case True
    with rows(2) show ?thesis by (auto simp: active)
  next
    case False
    with rows(3) [of "\<lparr>account_key = ris_account_key c, subject_id = s\<rparr>"] show ?thesis by (simp add: active)
  qed
  with rows(3,5) show ?thesis by blast
qed

theorem incomplete_snapshot_removes_nothing_witness:
  "active_subjects (snd (record_incomplete_snapshot sample_env incomplete_sample poll_db)) ''acc''
     = {''s1'', ''s2''}"
proof -
  obtain x where run: "record_incomplete_snapshot sample_env incomplete_sample poll_db
      = (Inr x, snd (record_incomplete_snapshot sample_env incomplete_sample poll_db))"
    using succeeds_run [OF sample_polls_succeed(2)] by blast
  have "active_subjects poll_db ''acc'' = {''s1''}"
    by (auto simp: active_subjects_def poll_db_def running_db_def database_of_def running_row_def
        idle_row_def)
  with incomplete_snapshot_removes_nothing [OF poll_db_ok run] show ?thesis
    by (auto simp: incomplete_sample_def sample_records_def)
qed

subsection \<open>Attempts and schedules\<close>

text \<open>
  A running attempt stays on its row or is named by an audit entry, and a row that stays active
  with its media kind keeps its lifecycle, attempt and schedule.
\<close>

definition attempts_respected :: "log_row list \<Rightarrow> database \<Rightarrow> database \<Rightarrow> bool" where
  "attempts_respected es db db' \<longleftrightarrow>
     (\<forall>key r. find_row db key = Some r \<longrightarrow>
        (\<exists>r'. find_row db' key = Some r' \<and> attempt_accounted key es r r' \<and>
           (col_active r = 1 \<and> col_active r' = 1 \<and> col_media_kind r' = col_media_kind r \<longrightarrow>
              schedule_columns r' = schedule_columns r)))"

lemma merged_respected:
  assumes "snapshot_merged cx obs db db1"
  obtains es where "db_logs db1 = db_logs db @ es"
    "\<And>key r. find_row db key = Some r \<Longrightarrow> \<exists>r'. find_row db1 key = Some r' \<and> merged_row key es r r'"
  using assms that unfolding snapshot_merged_def merge_progress_def by blast

lemma deactivated_accounted:
  assumes merged: "merged_row key es1 r r1"
    and audit: "\<And>a. gone \<Longrightarrow> col_attempt_id r1 = Some a \<Longrightarrow> \<exists>e \<in> set es. superseded_entry key a e"
    and r': "r' = (if gone then deactivate_set t r1 else r1)"
  shows "attempt_accounted key (es1 @ es) r r' \<and>
    (col_active r = 1 \<and> col_active r' = 1 \<and> col_media_kind r' = col_media_kind r \<longrightarrow>
       schedule_columns r' = schedule_columns r)"
proof -
  have "attempt_accounted key es r1 r'"
    using audit by (auto simp: r' attempt_accounted_def deactivate_set_def split: option.splits)
  then have "attempt_accounted key (es1 @ es) r r'"
    using attempt_accounted_trans merged by (auto simp: merged_row_def)
  with merged show ?thesis by (auto simp: r' merged_row_def deactivate_set_def)
qed

lemma complete_respects_attempts:
  assumes ok: "repository_ok db" and run: "apply_complete_snapshot env c db = (Inr x, db')"
  shows "\<exists>es. db_logs db' = db_logs db @ es \<and> attempts_respected es db db'"
proof -
  have ok': "db_ok db" "metas_ok db" using ok by (simp_all add: repository_ok_def)
  let ?gone = "missing_where (acs_account_key c) (poll_snapshot_id (acs_token c))"
  show ?thesis
  proof (rule apply_complete_Inr [OF ok' run])
    fix cx db1 at es
    assume merged: "snapshot_merged cx (acs_records c) db db1"
      and rows: "\<And>j. find_row db' j = map_option (\<lambda>r. if ?gone r then deactivate_set at r else r) (find_row db1 j)"
      and logs: "db_logs db' = db_logs db1 @ es"
      and audit: "\<And>r a. r \<in> set (db_rows db1) \<Longrightarrow> ?gone r \<Longrightarrow> col_attempt_id r = Some a \<Longrightarrow>
             \<exists>e \<in> set es. superseded_entry (row_key r) a e"
    obtain es1 where es1: "db_logs db1 = db_logs db @ es1"
        "\<And>key r. find_row db key = Some r \<Longrightarrow> \<exists>r'. find_row db1 key = Some r' \<and> merged_row key es1 r r'"
      using merged_respected [OF merged] by blast
    have "attempts_respected (es1 @ es) db db'"
      unfolding attempts_respected_def
    proof (intro allI impI)
      fix key r assume "find_row db key = Some r"
      then obtain r1 where r1: "find_row db1 key = Some r1" "merged_row key es1 r r1" using es1(2) by blast
      then have "\<exists>e \<in> set es. superseded_entry key a e" if "?gone r1" "col_attempt_id r1 = Some a" for a
        using audit [of r1 a] find_row_Some [OF r1(1)] that by auto
      from deactivated_accounted [OF r1(2) this refl] r1(1)
      show "\<exists>r'. find_row db' key = Some r' \<and> attempt_accounted key (es1 @ es) r r' \<and>
          (col_active r = 1 \<and> col_active r' = 1 \<and> col_media_kind r' = col_media_kind r \<longrightarrow>
            schedule_columns r' = schedule_columns r)"
        by (simp add: rows del: if_split)
    qed
    with logs es1(1) show ?thesis by auto
  qed
qed

lemma incomplete_respects_attempts:
  assumes ok: "repository_ok db" and run: "record_incomplete_snapshot env c db = (Inr x, db')"
  shows "\<exists>es. db_logs db' = db_logs db @ es \<and> attempts_respected es db db'"
proof -
  have ok': "db_ok db" "metas_ok db" using ok by (simp_all add: repository_ok_def)
  show ?thesis
  proof (rule record_incomplete_Inr [OF ok' run])
    fix cx db1
    assume merged: "snapshot_merged cx (ris_records c) db db1" and same: "db_rows db' = db_rows db1"
      and logs: "db_logs db' = db_logs db1"
    from merged_respected [OF merged] show ?thesis
      unfolding attempts_respected_def find_row_rows [OF same] logs merged_row_def by metis
  qed
qed

text \<open>C7. A poll accounts for every attempt: after a complete or an incomplete snapshot each row
  that ran an attempt still runs it with the same lease, operation and lifecycle, or it runs none and
  an audit entry \<open>supersede_attempt\<close> that names the attempt was appended; and no other attempt
  appears on a row that was there. A row that stays active and keeps its media kind keeps its whole
  schedule. (A row that returns to the list, or whose kind changes, starts a new one.)\<close>

theorem polls_account_for_attempts:
  assumes ok: "repository_ok db"
    and run: "(\<exists>x. apply_complete_snapshot env c db = (Inr x, db')) \<or>
              (\<exists>x. record_incomplete_snapshot env c' db = (Inr x, db'))"
  shows "\<exists>es. db_logs db' = db_logs db @ es \<and> attempts_respected es db db'"
  using run complete_respects_attempts [OF ok] incomplete_respects_attempts [OF ok] by blast

theorem polls_account_for_attempts_witness:
  "\<exists>es. db_logs (snd (apply_complete_snapshot sample_env complete_sample poll_db)) = db_logs poll_db @ es \<and>
     attempts_respected es poll_db (snd (apply_complete_snapshot sample_env complete_sample poll_db))"
proof (rule polls_account_for_attempts [OF poll_db_ok])
  show "(\<exists>x. apply_complete_snapshot sample_env complete_sample poll_db
        = (Inr x, snd (apply_complete_snapshot sample_env complete_sample poll_db))) \<or>
      (\<exists>x. record_incomplete_snapshot sample_env incomplete_sample poll_db
        = (Inr x, snd (apply_complete_snapshot sample_env complete_sample poll_db)))"
    using succeeds_run [OF sample_polls_succeed(1)] by blast
qed

subsection \<open>A failure can always be recorded\<close>

lemma checked_in_range: "0 \<le> v \<Longrightarrow> v \<le> i64_max \<Longrightarrow> checked_u64 f v = Inr (word_of_int v)"
  by (simp add: checked_u64_Inr uint_word_of_int_eq take_bit_int_eq_self i64_max_def)

lemma uint_in_range: "0 \<le> v \<Longrightarrow> v \<le> i64_max \<Longrightarrow> uint (word_of_int v :: u64) = v"
  by (simp add: uint_word_of_int_eq take_bit_int_eq_self i64_max_def)

lemma meta_update_succeeds:
  assumes metas: "metas_ok db" and m: "find_meta db a = Some m" and "p m" and "meta_ok (f m)"
  shows "\<exists>db'. meta_update a p f db = Inr (Suc 0, db')"
proof -
  have "y = m" if "y \<in> set (db_meta db)" "meta_account_key y = a" for y
    using metas find_meta_Some [OF m] that by (auto simp: metas_ok_def distinct_map inj_on_def)
  then have "\<not> list_ex (\<lambda>y. (meta_account_key y = a \<and> p y) \<and> \<not> meta_ok (f y)) (db_meta db)"
    using assms(4) by (auto simp: list_ex_iff)
  moreover have "length (filter (\<lambda>y. meta_account_key y = a \<and> p y) (db_meta db)) = Suc 0"
    using length_filter_account [of "db_meta db" m p] metas find_meta_Some [OF m] assms(3)
    by (auto simp: metas_ok_def)
  ultimately show ?thesis by (simp add: meta_update_def Let_def)
qed

lemma failure_set_ok:
  assumes ok: "meta_ok m" and attempt: "meta_last_poll_attempt_at m = Some attempted"
    and order: "opt_all (\<lambda>s. s \<le> attempted) (meta_last_poll_success_at m)"
    and at: "0 \<le> at" "at \<le> i64_max" and k: "0 < k" "k \<le> i64_max"
    and next_at: "0 \<le> next_at" "next_at \<le> i64_max" and message: "sql_not_blank message"
  shows "meta_ok (failure_set at k next_at message m)"
  using assms
  by (cases "meta_last_poll_success_at m")
    (auto simp: meta_ok_def meta_integers_def failure_set_def close_poll_def max_def)

text \<open>The open poll of a row is found and read back by its token.\<close>

lemma open_poll_read:
  fixes failures :: u32
  assumes ff: "fault_free env" and m: "find_meta db account = Some m" and mok: "meta_ok m"
    and token: "meta_current_token m = Inr (Some tok)"
    and version: "meta_state_version m = state_version"
    and attempt: "meta_last_poll_attempt_at m = Some attempted"
    and count: "meta_poll_failure_count m = uint failures"
    and now: "meta_updated_at m \<le> uint now"
  shows "\<exists>t. require_current_poll env db account tok = Inr t \<and> tm_failure_count t = failures \<and>
    validate_terminal_time t ''failed_at'' now = Inr ()"
proof -
  note cols = current_token_columns [OF mok token]
  have range: "0 \<le> meta_created_at m" "meta_created_at m \<le> meta_updated_at m"
      "meta_updated_at m \<le> i64_max" "0 \<le> attempted" "attempted \<le> meta_updated_at m"
      "meta_bootstrap_completed m \<in> {0, 1}"
    using mok attempt cols by (auto simp: meta_ok_def meta_integers_def)
  obtain b where b: "meta_bootstrap_completed m = of_bool b"
    using range(6) by (metis insertE of_bool_eq singletonD)
  let ?t = "\<lparr>tm_created_at = word_of_int (meta_created_at m), tm_updated_at = word_of_int (meta_updated_at m),
      tm_last_poll_attempt_at = word_of_int attempted, tm_failure_count = failures,
      tm_bootstrap_completed = b\<rparr>"
  have counters: "checked_u32 ''poll_failure_count'' (uint failures) = Inr failures"
      "checked_bool ''bootstrap_completed'' (of_bool b) = Inr b"
    using uint_lt2p [of failures] by (simp_all add: checked_u32_Inr i64_max_def)
  have "checked_u64 f (meta_created_at m) = Inr (word_of_int (meta_created_at m))"
      "checked_u64 f (meta_updated_at m) = Inr (word_of_int (meta_updated_at m))"
      "checked_u64 f attempted = Inr (word_of_int attempted)" for f
    by (rule checked_in_range; use range in linarith)+
  note decoded = this counters
  have "require_current_poll env db account tok = Inr ?t"
    using ff m token version attempt count b
    by (simp add: require_current_poll_def validate_state_version_def decoded
        del: of_bool_eq_iff
        split del: split_of_bool)
  moreover have "validate_terminal_time ?t ''failed_at'' now = Inr ()"
    using range now by (simp add: validate_terminal_time_def Let_def reject_if_def word_less_def uint_in_range max_def)
  ultimately show ?thesis by simp
qed

text \<open>C9. A failure can be recorded: when no call faults, the token is the account's open one, the
  account row is readable and the failure is not in its past, the failure commits, schedules the
  next poll after the backoff for one more failure, and the token is spent.\<close>

theorem poll_failure_returns:
  fixes failures :: u32
  assumes ok: "repository_ok db" and ff: "fault_free env"
    and m: "find_meta db (rpf_account_key c) = Some m"
    and token: "meta_current_token m = Inr (Some (rpf_token c))"
    and version: "meta_state_version m = state_version"
    and attempt: "meta_last_poll_attempt_at m = Some attempted"
    and order: "opt_all (\<lambda>s. s \<le> attempted) (meta_last_poll_success_at m)"
    and count: "meta_poll_failure_count m = uint failures"
    and time: "meta_updated_at m \<le> uint (rpf_failed_at c)" "uint (rpf_failed_at c) \<le> i64_max"
    and message: "valid_text (rpf_message c)"
    and bound: "uint (retry_next_poll_at (rpf_retry_policy c) (rpf_failed_at c)
      (saturating_add failures 1)) \<le> i64_max"
  shows "\<exists>x db'. record_poll_failure env c db = (Inr x, db') \<and>
    rpfr_failure_count x = saturating_add failures 1 \<and>
    rpfr_next_poll_at x = retry_next_poll_at (rpf_retry_policy c) (rpf_failed_at c)
      (saturating_add failures 1) \<and>
    poll_spent db' (rpf_account_key c) (token_generation (rpf_token c))"
proof -
  let ?next = "retry_next_poll_at (rpf_retry_policy c) (rpf_failed_at c) (saturating_add failures 1)"
  let ?f = "failure_set (uint (rpf_failed_at c)) (uint (saturating_add failures 1)) (uint ?next)
    (rpf_message c)"
  have metas: "metas_ok db" and dok: "db_ok db" using ok by (simp_all add: repository_ok_def)
  have mok: "meta_ok m" by (rule metas.lookup_valid [OF metas m])
  note cols = current_token_columns [OF mok token]
  have gen: "token_generation (rpf_token c) \<le> i64_max" and small: "uint k \<le> i64_max" for k :: u32
    using mok cols uint_lt2p [of k] by (auto simp: meta_ok_def meta_integers_def i64_max_def)
  obtain t where current: "require_current_poll env db (rpf_account_key c) (rpf_token c) = Inr t"
      "tm_failure_count t = failures" "validate_terminal_time t ''failed_at'' (rpf_failed_at c) = Inr ()"
    using open_poll_read [OF ff m mok token version attempt count time(1)] by blast
  have generation: "sql_token (rpf_token c)
      = Inr (uint (generation_value (poll_generation (rpf_token c))), snapshot_id_str (poll_snapshot_id (rpf_token c)))"
    using gen by (simp add: sql_token_def token_generation_def command_integer_ok)
  have positive: "0 < uint (saturating_add failures 1)"
    by (auto simp: saturating_add_def checked_add_def uint_word_ariths split: option.splits if_splits)
  have "meta_ok (?f m)"
    by (rule failure_set_ok [OF mok attempt order _ time(2) positive small _ bound])
      (use message in \<open>simp_all add: sql_not_blank_text\<close>)
  moreover have "token_matches (rpf_token c) m"
    using cols by (simp add: token_matches_def token_generation_def)
  ultimately obtain db' where upd: "meta_update (rpf_account_key c) (token_matches (rpf_token c)) ?f db
      = Inr (Suc 0, db')"
    using meta_update_succeeds [OF metas m] by blast
  have "record_poll_failure env c db
      = (Inr \<lparr>rpfr_token = rpf_token c, rpfr_failure_count = saturating_add failures 1,
              rpfr_next_poll_at = ?next\<rparr>, db')"
    unfolding record_poll_failure_def run_transaction_Inr record_poll_failure_body_def Let_def
    using ff time(2) bound upd
    by (simp add: current generation command_integer_ok sql_execute_def require_consumed_def)
  moreover from record_poll_failure_Inr(1) [OF dok metas this]
  have "poll_spent db' (rpf_account_key c) (token_generation (rpf_token c))"
    by (rule poll_ended_spent)
  ultimately show ?thesis by auto
qed

theorem poll_failure_returns_witness:
  "\<exists>x db'. record_poll_failure sample_env failure_sample poll_db = (Inr x, db') \<and>
     rpfr_failure_count x = 1 \<and> rpfr_next_poll_at x = 1060"
proof -
  have m: "find_meta poll_db ''acc'' = Some (fresh_meta ''acc'' 1000 ''wanted-poll-v1-64'')"
    by code_simp
  have token: "meta_current_token (fresh_meta ''acc'' 1000 ''wanted-poll-v1-64'') = Inr (Some sample_poll_token)"
    by code_simp
  have delay: "retry_next_poll_at sample_retry_policy 1000 1 = 1060" "saturating_add (0 :: u32) 1 = 1"
    "valid_text ''down''"
    by code_simp+
  show ?thesis
    using poll_failure_returns [of poll_db sample_env failure_sample
        "fresh_meta ''acc'' 1000 ''wanted-poll-v1-64''" 1000 0] poll_db_ok sample_envs(1) m token delay
    by (auto simp: failure_sample_def fresh_meta_def state_version_def i64_max_def)
qed

end
