(* ===== verification/Rust_Text.thy ===== *)
theory Rust_Text
  imports Episode_Coverage Effects_Domain
begin

text \<open>
  The part of Rust's \<open>str\<close> interface that the configuration, the redactor, the worker and
  the effects use, over the UTF-8 bytes of a text. A pattern made of ASCII bytes occurs in
  the bytes of a text exactly where it occurs in its characters, so searches for an ASCII
  pattern work on bytes; the operations on characters go through \<open>char_width\<close> or
  \<open>chars_of\<close>.
\<close>

subsection \<open>Characters\<close>

text \<open>The UTF-8 encoding of a code point, and of a text given by its code points\<close>

definition byte :: "int \<Rightarrow> char" where
  "byte n = char_of (nat n)"

definition utf8_char :: "int \<Rightarrow> string" where
  "utf8_char c =
     (if c < 0x80 then [byte c]
      else if c < 0x800 then [byte (0xC0 + c div 64), byte (0x80 + c mod 64)]
      else if c < 0x10000 then
        [byte (0xE0 + c div 4096), byte (0x80 + c div 64 mod 64), byte (0x80 + c mod 64)]
      else [byte (0xF0 + c div 262144), byte (0x80 + c div 4096 mod 64),
            byte (0x80 + c div 64 mod 64), byte (0x80 + c mod 64)])"

definition utf8 :: "int list \<Rightarrow> string" where
  "utf8 cs = concat (map utf8_char cs)"

text \<open>The number of bytes of the character that starts with a given byte\<close>

definition char_width :: "char \<Rightarrow> nat" where
  "char_width c =
     (if of_char c < (0x80 :: int) then 1
      else if of_char c < (0xE0 :: int) then 2
      else if of_char c < (0xF0 :: int) then 3 else 4)"

lemma char_width_pos [simp]: "0 < char_width c"
  by (simp add: char_width_def)

text \<open>The characters of a text, each as its bytes: \<open>chars()\<close> where the bytes are kept\<close>

function char_chunks :: "string \<Rightarrow> string list" where
  "char_chunks [] = []"
| "char_chunks (c # s) =
     (c # take (char_width c - 1) s) # char_chunks (drop (char_width c - 1) s)"
  by pat_completeness auto
termination by (relation "measure length") auto

lemma concat_char_chunks [simp]: "concat (char_chunks s) = s"
  by (induction s rule: char_chunks.induct) simp_all

lemma length_char_chunks: "length (char_chunks s) \<le> length s"
  by (induction s rule: char_chunks.induct) (auto intro: le_trans)

text \<open>\<open>s.chars().take(n).collect()\<close> and \<open>s.chars().count()\<close>\<close>

definition take_chars :: "nat \<Rightarrow> string \<Rightarrow> string" where
  "take_chars n s = concat (take n (char_chunks s))"

definition char_count :: "string \<Rightarrow> nat" where
  "char_count s = length (char_chunks s)"

subsection \<open>Searching\<close>

text \<open>\<open>s.starts_with(p)\<close>, \<open>s.ends_with(p)\<close>, \<open>s.find(p)\<close> and \<open>s.find(|c| ..)\<close>\<close>

definition has_prefix :: "string \<Rightarrow> string \<Rightarrow> bool" where
  "has_prefix p s \<longleftrightarrow> take (length p) s = p"

definition has_suffix :: "string \<Rightarrow> string \<Rightarrow> bool" where
  "has_suffix p s \<longleftrightarrow> has_prefix (rev p) (rev s)"

fun str_find :: "string \<Rightarrow> string \<Rightarrow> nat option" where
  "str_find p [] = (if p = [] then Some 0 else None)"
| "str_find p (c # s) =
     (if has_prefix p (c # s) then Some 0 else map_option Suc (str_find p s))"

fun find_byte :: "(char \<Rightarrow> bool) \<Rightarrow> string \<Rightarrow> nat option" where
  "find_byte p [] = None"
| "find_byte p (c # s) = (if p c then Some 0 else map_option Suc (find_byte p s))"

text \<open>\<open>s.rfind(c)\<close>\<close>

definition rfind_byte :: "(char \<Rightarrow> bool) \<Rightarrow> string \<Rightarrow> nat option" where
  "rfind_byte p s = map_option (\<lambda>i. length s - Suc i) (find_byte p (rev s))"

lemma has_prefix_iff: "has_prefix p s \<longleftrightarrow> (\<exists>t. s = p @ t)"
  unfolding has_prefix_def by (metis append_take_drop_id append_eq_conv_conj)

lemma has_prefix_append [simp]: "has_prefix p (p @ t)"
  by (auto simp: has_prefix_iff)

lemma has_suffix_iff: "has_suffix p s \<longleftrightarrow> (\<exists>t. s = t @ p)"
  unfolding has_suffix_def has_prefix_iff by (metis rev_append rev_rev_ident)

lemma find_byte_Some:
  "find_byte p s = Some i \<longleftrightarrow> i < length s \<and> p (s ! i) \<and> (\<forall>j < i. \<not> p (s ! j))"
proof (induction s arbitrary: i)
  case (Cons c s)
  then show ?case
    by (cases i) (auto simp: less_Suc_eq_0_disj)
qed simp

lemma find_byte_None: "find_byte p s = None \<longleftrightarrow> (\<forall>c \<in> set s. \<not> p c)"
  by (induction s) auto

lemma str_find_Some: "str_find p s = Some i \<Longrightarrow> i \<le> length s \<and> has_prefix p (drop i s)"
proof (induction s arbitrary: i)
  case (Cons c s)
  then show ?case by (cases i) (auto split: if_splits)
qed (auto simp: has_prefix_def split: if_splits)

subsection \<open>Splitting and trimming\<close>

text \<open>\<open>s.split(c)\<close> and \<open>s.split_once(c)\<close>\<close>

definition split_char :: "char \<Rightarrow> string \<Rightarrow> string list" where
  "split_char c s = split_on c [] s"

definition split_once :: "char \<Rightarrow> string \<Rightarrow> (string \<times> string) option" where
  "split_once c s =
     (case find_byte ((=) c) s of None \<Rightarrow> None | Some i \<Rightarrow> Some (take i s, drop (Suc i) s))"

text \<open>\<open>s.trim_matches(c)\<close>\<close>

definition trim_matches :: "char \<Rightarrow> string \<Rightarrow> string" where
  "trim_matches c s = rev (dropWhile ((=) c) (rev (dropWhile ((=) c) s)))"

text \<open>\<open>parts.join(sep)\<close>\<close>

fun join_with :: "string \<Rightarrow> string list \<Rightarrow> string" where
  "join_with sep [] = []"
| "join_with sep [x] = x"
| "join_with sep (x # y # xs) = x @ sep @ join_with sep (y # xs)"

text \<open>\<open>s.split_whitespace()\<close>: the maximal runs of characters that are not white space\<close>

fun chunk_is_space :: "string \<Rightarrow> bool" where
  "chunk_is_space [a] = ws1 a"
| "chunk_is_space [a, b] = ws2 a b"
| "chunk_is_space [a, b, c] = ws3 a b c"
| "chunk_is_space _ = False"

fun words_of :: "string \<Rightarrow> string list \<Rightarrow> string list" where
  "words_of acc [] = (if acc = [] then [] else [acc])"
| "words_of acc (x # xs) =
     (if chunk_is_space x then (if acc = [] then words_of [] xs else acc # words_of [] xs)
      else words_of (acc @ x) xs)"

definition split_whitespace :: "string \<Rightarrow> string list" where
  "split_whitespace s = words_of [] (char_chunks s)"

text \<open>\<open>s.replace(c, "")\<close> for one ASCII character\<close>

definition remove_char :: "char \<Rightarrow> string \<Rightarrow> string" where
  "remove_char c s = filter (\<lambda>x. x \<noteq> c) s"

text \<open>\<open>text.as_bytes().windows(n)\<close>\<close>

definition windows :: "nat \<Rightarrow> 'a list \<Rightarrow> 'a list list" where
  "windows n xs = map (\<lambda>i. take n (drop i xs)) [0..<Suc (length xs) - n]"

text \<open>\<open>iter.find_map(f)\<close>\<close>

fun find_map :: "('a \<Rightarrow> 'b option) \<Rightarrow> 'a list \<Rightarrow> 'b option" where
  "find_map f [] = None"
| "find_map f (x # xs) = (case f x of Some y \<Rightarrow> Some y | None \<Rightarrow> find_map f xs)"

lemma find_map_Some: "find_map f xs = Some y \<Longrightarrow> \<exists>x \<in> set xs. f x = Some y"
  by (induction xs) (auto split: option.splits)

lemma find_map_None [simp]: "find_map f xs = None \<longleftrightarrow> (\<forall>x \<in> set xs. f x = None)"
  by (induction xs) (auto split: option.splits)

text \<open>\<open>iter.filter_map(f)\<close> is the list function \<open>List.map_filter\<close>.\<close>

text \<open>The value of a byte string of ASCII digits\<close>

definition digits_value :: "string \<Rightarrow> int" where
  "digits_value ds = parse_digits (map of_char ds)"

text \<open>
  The words of a text without repetitions, trimmed and not empty: the loop of
  \<open>normalized_tags\<close> and of \<open>normalize_keyword_list\<close>.
\<close>

fun distinct_trimmed :: "string list \<Rightarrow> string list \<Rightarrow> string list" where
  "distinct_trimmed out [] = out"
| "distinct_trimmed out (v # vs) =
     (let item = str_trim v in
      if item \<noteq> [] \<and> item \<notin> set out then distinct_trimmed (out @ [item]) vs
      else distinct_trimmed out vs)"

definition trimmed :: "string \<Rightarrow> bool" where
  "trimmed s \<longleftrightarrow> s \<noteq> [] \<and> str_trim s = s"

lemma trimmed_str_trim [simp]: "trimmed (str_trim s) \<longleftrightarrow> \<not> is_blank s"
  by (simp add: trimmed_def is_blank_def)

lemma distinct_trimmed_invariant:
  "distinct out \<Longrightarrow> list_all trimmed out \<Longrightarrow>
     distinct (distinct_trimmed out vs) \<and> list_all trimmed (distinct_trimmed out vs)"
  by (induction out vs rule: distinct_trimmed.induct) (auto simp: Let_def is_blank_def)

lemma distinct_trimmed_fixed:
  "list_all trimmed vs \<Longrightarrow> distinct (out @ vs) \<Longrightarrow> distinct_trimmed out vs = out @ vs"
  by (induction out vs rule: distinct_trimmed.induct) (auto simp: Let_def trimmed_def)

lemma distinct_trimmed_idem:
  "distinct_trimmed [] (distinct_trimmed [] vs) = distinct_trimmed [] vs"
  using distinct_trimmed_invariant [of "[]" vs] distinct_trimmed_fixed [of "distinct_trimmed [] vs" "[]"]
  by simp

section \<open>Splitting and concatenation\<close>

text \<open>Facts on the splitting of a text at a byte, for paths and for the pairs of a cookie.\<close>

lemma split_on_append: "split_on sep acc (u @ sep # v) = split_on sep acc u @ split_on sep [] v"
  by (induction u arbitrary: acc) auto

lemma split_on_plain: "sep \<notin> set n \<Longrightarrow> split_on sep acc n = [rev acc @ n]"
  by (induction n arbitrary: acc) auto

lemma split_on_sep: "sep \<notin> set u \<Longrightarrow> split_on sep acc (u @ sep # v) = (rev acc @ u) # split_on sep [] v"
  by (simp add: split_on_append split_on_plain)

lemma split_on_nonempty: "split_on sep acc s \<noteq> []"
  by (induction s arbitrary: acc) auto

lemma split_on_no_sep: "n \<in> set (split_on sep acc s) \<Longrightarrow> sep \<notin> set acc \<Longrightarrow> sep \<notin> set n"
  by (induction s arbitrary: acc) (fastforce split: if_splits)+

end
