(* ===== verification/Config_Model.thy ===== *)
theory Config_Model
  imports Rust_Text
begin

text \<open>
  The values of \<open>src/config.rs\<close>: the configuration file as records, its defaults, its
  validation, and the normalization of a loaded file. \<open>reqwest::Url::parse\<close> is a parameter
  \<open>url\<close>; the parser of \<open>std::net::IpAddr\<close> is written out.
\<close>

subsection \<open>Data\<close>

record qb_server_entry =
  qbs_id :: string
  qbs_name :: string
  qbs_base_url :: string
  qbs_username :: string
  qbs_password :: string
  qbs_insecure_tls :: bool

record subscription_category =
  cat_name :: string
  cat_wanted_tag :: string
  cat_qb_server_id :: string
  cat_qb_category :: string
  cat_qb_save_dir_name :: string
  cat_download_dir :: string
  cat_link_target_dir :: string

record watcher_config =
  watch_enabled :: bool
  watch_dry_run :: bool
  watch_poll_interval_secs :: u64
  watch_library_limit :: u64
  watch_max_retries :: u32
  watch_search_interval_secs :: u64
  watch_progress_interval_secs :: u64
  watch_link_retry_interval_secs :: u64
  watch_system_retry_interval_secs :: u64
  watch_bootstrap_existing_as_skipped :: bool

record management_config =
  mgmt_admin_token :: string
  mgmt_allowed_origins :: "string list"
  mgmt_secure_cookie :: bool

datatype rule_match_mode = MatchAll | MatchAny

record torrent_match_rule =
  rule_name :: string
  rule_priority :: i32
  rule_mode :: rule_match_mode
  rule_title_keywords :: "string list"
  rule_resolution_keywords :: "string list"
  rule_source_keywords :: "string list"

record file_config =
  cfg_listen_ip :: string
  cfg_listen_port :: u16
  cfg_tmdb_api_key :: string
  cfg_mteam_api_key :: string
  cfg_douban_cookie :: string
  cfg_qb_servers :: "qb_server_entry list"
  cfg_categories :: "subscription_category list"
  cfg_watcher :: watcher_config
  cfg_match_rules :: "torrent_match_rule list"
  cfg_management :: management_config

definition default_watcher :: watcher_config where
  "default_watcher =
     \<lparr>watch_enabled = False, watch_dry_run = True, watch_poll_interval_secs = 3600,
      watch_library_limit = 200, watch_max_retries = 3, watch_search_interval_secs = 1800,
      watch_progress_interval_secs = 5, watch_link_retry_interval_secs = 900,
      watch_system_retry_interval_secs = 600, watch_bootstrap_existing_as_skipped = True\<rparr>"

definition default_management :: management_config where
  "default_management =
     \<lparr>mgmt_admin_token = [], mgmt_allowed_origins = [], mgmt_secure_cookie = False\<rparr>"

definition default_listen_ip :: string where
  "default_listen_ip = ''127.0.0.1''"

definition default_config :: file_config where
  "default_config =
     \<lparr>cfg_listen_ip = default_listen_ip, cfg_listen_port = 8787, cfg_tmdb_api_key = [],
      cfg_mteam_api_key = [], cfg_douban_cookie = [], cfg_qb_servers = [], cfg_categories = [],
      cfg_watcher = default_watcher, cfg_match_rules = [], cfg_management = default_management\<rparr>"

text \<open>An \<open>io::Error\<close> made here is its kind and its message.\<close>

datatype io_kind = InvalidInputKind | InvalidDataKind | AlreadyExistsKind | NotFoundKind | OtherKind

type_synonym io_error = "io_kind \<times> string"

subsection \<open>Addresses\<close>

text \<open>
  \<open>std::net::IpAddr::from_str\<close>. A reader takes the rest of the text and returns a value and
  what follows, or nothing. \<open>read_number\<close> of the standard library takes a radix, a limit on
  the digits, and whether a leading zero is allowed.
\<close>

datatype ip_addr = V4 "nat list" | V6 "nat list"

definition hex_value :: "char \<Rightarrow> nat" where
  "hex_value c =
     (let n = of_char c :: nat in
      if n < 58 then n - 48 else if n < 71 then n - 55 else n - 87)"

fun read_digits :: "(char \<Rightarrow> bool) \<Rightarrow> string \<Rightarrow> string \<times> string" where
  "read_digits p [] = ([], [])"
| "read_digits p (c # s) =
     (if p c then (let (ds, rest) = read_digits p s in (c # ds, rest)) else ([], c # s))"

definition read_ip_number ::
  "nat \<Rightarrow> (char \<Rightarrow> bool) \<Rightarrow> nat \<Rightarrow> bool \<Rightarrow> nat \<Rightarrow> string \<Rightarrow> (nat \<times> string) option" where
  "read_ip_number radix is_radix_digit max_digits allow_zero_prefix limit s =
     (let (ds, rest) = read_digits is_radix_digit s;
          value = foldl (\<lambda>v d. v * radix + hex_value d) 0 ds in
      if ds = [] \<or> max_digits < length ds \<or> limit \<le> value then None
      else if \<not> allow_zero_prefix \<and> hd ds = CHR ''0'' \<and> 1 < length ds then None
      else Some (value, rest))"

definition read_octet :: "string \<Rightarrow> (nat \<times> string) option" where
  "read_octet = read_ip_number 10 is_digit 3 False 256"

definition read_group :: "string \<Rightarrow> (nat \<times> string) option" where
  "read_group = read_ip_number 16 is_hexdigit 4 True 65536"

definition read_given :: "char \<Rightarrow> string \<Rightarrow> string option" where
  "read_given c s = (case s of x # rest \<Rightarrow> if x = c then Some rest else None | [] \<Rightarrow> None)"

definition read_separator ::
  "char \<Rightarrow> nat \<Rightarrow> (string \<Rightarrow> ('a \<times> string) option) \<Rightarrow> string \<Rightarrow> ('a \<times> string) option" where
  "read_separator sep index inner s =
     (if 0 < index then Option.bind (read_given sep s) inner else inner s)"

fun read_octets :: "nat \<Rightarrow> nat \<Rightarrow> string \<Rightarrow> (nat list \<times> string) option" where
  "read_octets 0 i s = Some ([], s)"
| "read_octets (Suc n) i s =
     Option.bind (read_separator CHR ''.'' i read_octet s) (\<lambda>(octet, rest).
     map_option (\<lambda>(octets, rest'). (octet # octets, rest')) (read_octets n (Suc i) rest))"

definition read_ipv4 :: "string \<Rightarrow> (nat list \<times> string) option" where
  "read_ipv4 s = read_octets 4 0 s"

text \<open>
  \<open>read_groups\<close>: up to \<open>limit\<close> groups, the last two of which may be an IPv4 address; the
  groups read, whether an IPv4 address ended them, and the rest.
\<close>

fun read_groups :: "nat \<Rightarrow> nat \<Rightarrow> nat \<Rightarrow> string \<Rightarrow> nat list \<times> bool \<times> string" where
  "read_groups 0 limit i s = ([], False, s)"
| "read_groups (Suc n) limit i s =
     (case (if i + 1 < limit then read_separator CHR '':'' i read_ipv4 s else None) of
        Some (octets, rest) \<Rightarrow>
          ([octets ! 0 * 256 + octets ! 1, octets ! 2 * 256 + octets ! 3], True, rest)
      | None \<Rightarrow>
          (case read_separator CHR '':'' i read_group s of
             None \<Rightarrow> ([], False, s)
           | Some (piece, rest) \<Rightarrow>
               let (more, v4, rest') = read_groups n limit (Suc i) rest
               in (piece # more, v4, rest')))"

definition read_ipv6 :: "string \<Rightarrow> (nat list \<times> string) option" where
  "read_ipv6 s =
     (let (head, head_v4, rest) = read_groups 8 8 0 s in
      if length head = 8 then Some (head, rest)
      else if head_v4 then None
      else Option.bind (read_given CHR '':'' rest) (\<lambda>rest.
           Option.bind (read_given CHR '':'' rest) (\<lambda>rest.
           let limit = 8 - (length head + 1);
               (tail, _, rest) = read_groups limit limit 0 rest
           in Some (head @ replicate (8 - length head - length tail) 0 @ tail, rest))))"

definition parse_ip_addr :: "string \<Rightarrow> ip_addr option" where
  "parse_ip_addr s =
     (case read_ipv4 s of
        Some (octets, []) \<Rightarrow> Some (V4 octets)
      | Some (_, _ # _) \<Rightarrow> None
      | None \<Rightarrow>
          (case read_ipv6 s of
             Some (gs, []) \<Rightarrow> Some (V6 gs)
           | _ \<Rightarrow> None))"

fun is_loopback :: "ip_addr \<Rightarrow> bool" where
  "is_loopback (V4 octets) \<longleftrightarrow> octets ! 0 = 127"
| "is_loopback (V6 gs) \<longleftrightarrow> gs = [0, 0, 0, 0, 0, 0, 0, 1]"

definition listen_addr :: "file_config \<Rightarrow> io_error + (ip_addr \<times> u16)" where
  "listen_addr cfg =
     (let trimmed_ip = str_trim (cfg_listen_ip cfg);
          raw = (if trimmed_ip = [] then default_listen_ip else trimmed_ip) in
      case parse_ip_addr raw of
        None \<Rightarrow> Inl (InvalidInputKind, ''listen_ip '' @ (utf8 [0x5FC5, 0x987B, 0x662F, 0x5408, 0x6CD5]) @ '' IP '' @ (utf8 [0x5730, 0x5740]) @
                  '': invalid IP address syntax'')
      | Some ip \<Rightarrow> Inr (ip, cfg_listen_port cfg))"

subsection \<open>Validation\<close>

text \<open>The parts of a parsed URL that the validation reads\<close>

record parsed_url =
  url_scheme :: string
  url_host :: "string option"
  url_username :: string
  url_password :: "string option"
  url_path :: string
  url_query :: "string option"
  url_fragment :: "string option"

type_synonym url_parser = "string \<Rightarrow> parsed_url option"

definition is_http :: "parsed_url \<Rightarrow> bool" where
  "is_http u \<longleftrightarrow> url_scheme u = ''http'' \<or> url_scheme u = ''https''"

definition has_userinfo :: "parsed_url \<Rightarrow> bool" where
  "has_userinfo u \<longleftrightarrow> url_username u \<noteq> [] \<or> url_password u \<noteq> None"

definition origin_error :: io_error where
  "origin_error = (InvalidInputKind,
     ''management.allowed_origins '' @ (utf8 [0x53EA, 0x5141, 0x8BB8, 0x4E0D, 0x542B]) @ '' userinfo'' @ (utf8 [0x3001]) @ ''path'' @ (utf8 [0x3001]) @
     ''query '' @ (utf8 [0x6216]) @ '' fragment '' @ (utf8 [0x7684, 0x5B8C, 0x6574]) @ '' http(s) origin'')"

definition validate_management_origin :: "url_parser \<Rightarrow> string \<Rightarrow> io_error + unit" where
  "validate_management_origin url origin =
     (let raw = str_trim origin in
      if raw \<noteq> origin \<or> raw = [] \<or> (\<exists>c \<in> set raw. of_char c \<ge> (0x80 :: int)) \<or> raw = ''*'' \<or>
         to_ascii_lowercase raw = ''null'' \<or> CHR ''*'' \<in> set raw \<or> last raw = CHR ''/''
      then Inl origin_error
      else case url raw of
        None \<Rightarrow> Inl origin_error
      | Some u \<Rightarrow>
          reject_if (\<not> is_http u \<or> url_host u = None \<or> has_userinfo u \<or> url_path u \<noteq> ''/'' \<or>
            url_query u \<noteq> None \<or> url_fragment u \<noteq> None) origin_error)"

definition token_error :: io_error where
  "token_error = (InvalidInputKind,
     ''management.admin_token '' @ (utf8 [0x81F3, 0x5C11, 0x9700, 0x8981]) @ '' 24 '' @ (utf8 [0x4E2A, 0x5B57, 0x7B26]))"

definition validate_management :: "url_parser \<Rightarrow> management_config \<Rightarrow> io_error + unit" where
  "validate_management url m =
     (let token = str_trim (mgmt_admin_token m) in
      if token \<noteq> [] \<and> char_count token < 24 then Inl token_error
      else for_each (validate_management_origin url) (mgmt_allowed_origins m))"

definition exposure_error :: io_error where
  "exposure_error = (InvalidInputKind,
     (utf8 [0x975E]) @ '' loopback '' @ (utf8 [0x76D1, 0x542C, 0x5FC5, 0x987B, 0x8BBE, 0x7F6E]) @ '' management.admin_token'' @ (utf8 [0xFF1B, 0x8BF7, 0x6539, 0x7528]) @
     '' 127.0.0.1'' @ (utf8 [0xFF0C, 0x6216, 0x914D, 0x7F6E, 0x81F3, 0x5C11]) @ '' 24 '' @ (utf8 [0x5B57, 0x7B26, 0x7684, 0x9AD8, 0x71B5]) @ '' admin_token '' @
     (utf8 [0x540E, 0x518D, 0x5F00, 0x653E, 0x76D1, 0x542C]))"

definition validate_config :: "url_parser \<Rightarrow> file_config \<Rightarrow> io_error + unit" where
  "validate_config url cfg =
     and_then (listen_addr cfg) (\<lambda>(ip, _).
     and_then (validate_management url (cfg_management cfg)) (\<lambda>_.
     reject_if (\<not> is_loopback ip \<and> is_blank (mgmt_admin_token (cfg_management cfg))) exposure_error))"

subsection \<open>Download servers\<close>

text \<open>A \<open>ConfigValidationError\<close> is its message.\<close>

definition validate_qb_base_url :: "url_parser \<Rightarrow> string \<Rightarrow> string + unit" where
  "validate_qb_base_url url base_url =
     (if base_url = [] then Inl (''qB base_url '' @ (utf8 [0x4E0D, 0x80FD, 0x4E3A, 0x7A7A]))
      else case url base_url of
        None \<Rightarrow> Inl (''qB base_url '' @ (utf8 [0x5FC5, 0x987B, 0x662F, 0x5408, 0x6CD5, 0x7684]) @ '' http/https URL'')
      | Some u \<Rightarrow>
          if \<not> is_http u \<or> url_host u = None
          then Inl (''qB base_url '' @ (utf8 [0x5FC5, 0x987B, 0x662F, 0x5408, 0x6CD5, 0x7684]) @ '' http/https URL'')
          else reject_if (has_userinfo u)
            (''qB base_url '' @ (utf8 [0x7981, 0x6B62, 0x5305, 0x542B]) @ '' userinfo'' @ (utf8 [0xFF0C, 0x8BF7, 0x4F7F, 0x7528, 0x72EC, 0x7ACB]) @
             '' username/password '' @ (utf8 [0x5B57, 0x6BB5])))"

text \<open>
  \<open>sanitize_qb_server_id\<close>: a character outside ASCII is neither alphanumeric nor \<open>_\<close>, so
  like any other separator it becomes one dash, however many bytes it has.
\<close>

fun sanitize_loop :: "string \<Rightarrow> bool \<Rightarrow> string list \<Rightarrow> string" where
  "sanitize_loop out last_dash [] = out"
| "sanitize_loop out last_dash (ch # chs) =
     (case ch of
        [c] \<Rightarrow>
          if is_alphanumeric c then sanitize_loop (out @ [to_lower c]) False chs
          else if c = CHR ''_'' then
            (if out \<noteq> [] then sanitize_loop (out @ [c]) False chs
             else sanitize_loop out last_dash chs)
          else if \<not> last_dash \<and> out \<noteq> [] then sanitize_loop (out @ ''-'') True chs
          else sanitize_loop out last_dash chs
      | _ \<Rightarrow>
          if \<not> last_dash \<and> out \<noteq> [] then sanitize_loop (out @ ''-'') True chs
          else sanitize_loop out last_dash chs)"

definition sanitize_qb_server_id :: "string \<Rightarrow> string" where
  "sanitize_qb_server_id raw =
     trim_matches CHR ''-'' (sanitize_loop [] False (char_chunks (str_trim raw)))"

definition stable_qb_server_hash :: "qb_server_entry \<Rightarrow> u64" where
  "stable_qb_server_hash server =
     foldl (\<lambda>hash b. (xor hash (word_of_int (of_char b))) * 0x100000001b3) 0xcbf29ce484222325
       (str_trim (qbs_name server) @ [CHR 0x0A] @ str_trim (qbs_base_url server) @ [CHR 0x0A] @
        str_trim (qbs_username server))"

text \<open>\<open>{:x}\<close> of an unsigned number\<close>

fun lower_hex :: "nat \<Rightarrow> string" where
  "lower_hex n = (if n < 16 then [hex_digit n] else lower_hex (n div 16) @ [hex_digit (n mod 16)])"

declare lower_hex.simps [simp del]

definition qb_server_id_base :: "qb_server_entry \<Rightarrow> string" where
  "qb_server_id_base server =
     (case find (\<lambda>s. s \<noteq> []) (map sanitize_qb_server_id
              [qbs_id server, qbs_name server, qbs_base_url server]) of
        Some sanitized \<Rightarrow> sanitized
      | None \<Rightarrow> ''qb-'' @ lower_hex (unat (stable_qb_server_hash server)))"

definition suffixed_id :: "string \<Rightarrow> nat \<Rightarrow> string" where
  "suffixed_id base suffix = base @ ''-'' @ decimal suffix"

text \<open>
  The loop \<open>for suffix in 2..\<close>, which the source leaves only with an identifier. That it
  does leave is \<open>unique_suffix_returns\<close> in \<open>Config_Facts\<close>, with the bound on the suffix
  that keeps the source's \<open>i32\<close> counter in range.
\<close>

partial_function (option) unique_suffix :: "string \<Rightarrow> string list \<Rightarrow> nat \<Rightarrow> string option" where
  "unique_suffix base used suffix =
     (if suffixed_id base suffix \<notin> set used then Some (suffixed_id base suffix)
      else unique_suffix base used (Suc suffix))"

definition unique_qb_server_id :: "qb_server_entry \<Rightarrow> string list \<Rightarrow> string option" where
  "unique_qb_server_id server used =
     (let base = qb_server_id_base server in
      if base \<notin> set used then Some base else unique_suffix base used 2)"

definition normalized_qb_server :: "string \<Rightarrow> qb_server_entry \<Rightarrow> qb_server_entry" where
  "normalized_qb_server server_id server =
     server\<lparr>qbs_id := server_id, qbs_name := str_trim (qbs_name server),
       qbs_base_url := str_trim (qbs_base_url server),
       qbs_username := str_trim (qbs_username server)\<rparr>"

text \<open>\<open>None\<close>: the call does not return.\<close>

fun normalize_qb_servers_from ::
  "url_parser \<Rightarrow> string list \<Rightarrow> qb_server_entry list \<Rightarrow> (string + qb_server_entry list) option" where
  "normalize_qb_servers_from url used [] = Some (Inr [])"
| "normalize_qb_servers_from url used (server # servers) =
     (case unique_qb_server_id server used of
        None \<Rightarrow> None
      | Some server_id \<Rightarrow>
          (case validate_qb_base_url url (str_trim (qbs_base_url server)) of
             Inl e \<Rightarrow> Some (Inl e)
           | Inr _ \<Rightarrow>
               map_option (\<lambda>r. and_then r (\<lambda>out. Inr (normalized_qb_server server_id server # out)))
                 (normalize_qb_servers_from url (server_id # used) servers)))"

definition normalize_qb_servers ::
  "url_parser \<Rightarrow> qb_server_entry list \<Rightarrow> (string + qb_server_entry list) option" where
  "normalize_qb_servers url servers = normalize_qb_servers_from url [] servers"

subsection \<open>Categories\<close>

definition category_label :: "string \<Rightarrow> string" where
  "category_label name = (utf8 [0x8BA2, 0x9605, 0x5206, 0x7C7B]) @ '' '' @ name"

definition normalized_category :: "string \<Rightarrow> subscription_category \<Rightarrow> subscription_category" where
  "normalized_category server_id c =
     \<lparr>cat_name = str_trim (cat_name c), cat_wanted_tag = str_trim (cat_wanted_tag c),
      cat_qb_server_id = server_id, cat_qb_category = str_trim (cat_qb_category c),
      cat_qb_save_dir_name = str_trim (cat_qb_save_dir_name c),
      cat_download_dir = str_trim (cat_download_dir c),
      cat_link_target_dir = str_trim (cat_link_target_dir c)\<rparr>"

text \<open>The checks on one normalized category, in the source's order\<close>

definition validate_category ::
  "string list \<Rightarrow> string list \<Rightarrow> string list \<Rightarrow> nat \<Rightarrow> subscription_category \<Rightarrow> string + unit" where
  "validate_category server_ids names tags n c =
     (let lbl = category_label (cat_name c) in
      if cat_name c = [] then
        Inl ((utf8 [0x8BA2, 0x9605, 0x5206, 0x7C7B]) @ '' #'' @ decimal n @ '' '' @ (utf8 [0x7F3A, 0x5C11, 0x5206, 0x7C7B, 0x540D]))
      else if cat_wanted_tag c = [] then Inl (lbl @ '' '' @ (utf8 [0x7F3A, 0x5C11, 0x60F3, 0x770B, 0x6807, 0x7B7E, 0x6587, 0x672C]))
      else if length (split_whitespace (cat_wanted_tag c)) \<noteq> 1 then
        Inl (lbl @ '' '' @ (utf8 [0x7684, 0x60F3, 0x770B, 0x6807, 0x7B7E, 0x4E0D, 0x80FD, 0x5305, 0x542B,
            0x7A7A, 0x767D, 0x5B57, 0x7B26]))
      else if cat_qb_category c = [] then
        Inl (lbl @ '' '' @ (utf8 [0x7F3A, 0x5C11]) @ '' qB '' @ (utf8 [0x4E0B, 0x8F7D, 0x5206, 0x7C7B]))
      else if cat_qb_save_dir_name c = [] then
        Inl (lbl @ '' '' @ (utf8 [0x7F3A, 0x5C11]) @ '' qB '' @ (utf8 [0x4FDD, 0x5B58, 0x76EE, 0x5F55, 0x540D]))
      else if cat_qb_server_id c \<notin> set server_ids then
        Inl (lbl @ '' '' @ (utf8 [0x7ED1, 0x5B9A, 0x7684]) @ '' qB '' @ (utf8 [0x670D, 0x52A1, 0x5668, 0x4E0D, 0x5B58, 0x5728]) @ '': '' @ cat_qb_server_id c)
      else if cat_download_dir c = [] then Inl (lbl @ '' '' @ (utf8 [0x7F3A, 0x5C11, 0x771F, 0x5B9E, 0x4E0B, 0x8F7D, 0x76EE, 0x5F55]))
      else if cat_link_target_dir c = [] then Inl (lbl @ '' '' @ (utf8 [0x7F3A, 0x5C11, 0x786C, 0x94FE, 0x63A5, 0x76EE, 0x6807, 0x76EE, 0x5F55]))
      else if cat_name c \<in> set names then Inl ((utf8 [0x8BA2, 0x9605, 0x5206, 0x7C7B, 0x540D, 0x91CD, 0x590D]) @ '': '' @ cat_name c)
      else if cat_wanted_tag c \<in> set tags then
        Inl ((utf8 [0x60F3, 0x770B, 0x6807, 0x7B7E, 0x6587, 0x672C, 0x91CD, 0x590D]) @ '': '' @ cat_wanted_tag c)
      else Inr ())"

definition category_server_id ::
  "string option \<Rightarrow> subscription_category \<Rightarrow> string + string" where
  "category_server_id default_id c =
     (let own = str_trim (cat_qb_server_id c) in
      if own = [] then
        ok_or (category_label (str_trim (cat_name c)) @ '' '' @ (utf8 [0x7F3A, 0x5C11]) @ '' qB '' @
               (utf8 [0x670D, 0x52A1, 0x5668, 0xFF0C, 0x8BF7, 0x5148, 0x914D, 0x7F6E]) @ '' qB '' @ (utf8 [0x670D, 0x52A1, 0x5668])) default_id
      else Inr own)"

fun normalize_categories_from ::
  "string list \<Rightarrow> string option \<Rightarrow> string list \<Rightarrow> string list \<Rightarrow> nat \<Rightarrow> subscription_category list
    \<Rightarrow> string + subscription_category list" where
  "normalize_categories_from server_ids default_id names tags n [] = Inr []"
| "normalize_categories_from server_ids default_id names tags n (c # cs) =
     and_then (category_server_id default_id c) (\<lambda>server_id.
     let normalized = normalized_category server_id c in
     and_then (validate_category server_ids names tags n normalized) (\<lambda>_.
     and_then (normalize_categories_from server_ids default_id (cat_name normalized # names)
                 (cat_wanted_tag normalized # tags) (Suc n) cs) (\<lambda>out.
     Inr (normalized # out))))"

definition server_ids_of :: "qb_server_entry list \<Rightarrow> string list" where
  "server_ids_of servers = filter (\<lambda>i. i \<noteq> []) (map (\<lambda>s. str_trim (qbs_id s)) servers)"

definition default_server_id :: "qb_server_entry list \<Rightarrow> string option" where
  "default_server_id servers =
     (case servers of [] \<Rightarrow> None | s # _ \<Rightarrow> non_empty (qbs_id s))"

definition normalize_subscription_categories ::
  "subscription_category list \<Rightarrow> qb_server_entry list \<Rightarrow> string + subscription_category list" where
  "normalize_subscription_categories categories servers =
     normalize_categories_from (server_ids_of servers) (default_server_id servers) [] [] 1 categories"

subsection \<open>Watcher and rules\<close>

definition clamp :: "'a::linorder \<Rightarrow> 'a \<Rightarrow> 'a \<Rightarrow> 'a" where
  "clamp lo hi v = (if v < lo then lo else if hi < v then hi else v)"

definition normalize_subscription_watcher :: "watcher_config \<Rightarrow> watcher_config" where
  "normalize_subscription_watcher cfg =
     cfg\<lparr>watch_poll_interval_secs := clamp 60 86400 (watch_poll_interval_secs cfg),
       watch_library_limit := clamp 1 1200 (watch_library_limit cfg),
       watch_max_retries := clamp 1 20 (watch_max_retries cfg),
       watch_search_interval_secs := max (watch_search_interval_secs cfg) 30,
       watch_progress_interval_secs := max (watch_progress_interval_secs cfg) 1,
       watch_link_retry_interval_secs := max (watch_link_retry_interval_secs cfg) 30,
       watch_system_retry_interval_secs := max (watch_system_retry_interval_secs cfg) 30\<rparr>"

definition normalize_keyword_list :: "string list \<Rightarrow> string list" where
  "normalize_keyword_list values = distinct_trimmed [] values"

definition normalized_rule :: "torrent_match_rule \<Rightarrow> torrent_match_rule" where
  "normalized_rule r =
     r\<lparr>rule_name := str_trim (rule_name r),
       rule_title_keywords := normalize_keyword_list (rule_title_keywords r),
       rule_resolution_keywords := normalize_keyword_list (rule_resolution_keywords r),
       rule_source_keywords := normalize_keyword_list (rule_source_keywords r)\<rparr>"

definition has_keywords :: "torrent_match_rule \<Rightarrow> bool" where
  "has_keywords r \<longleftrightarrow> rule_title_keywords r \<noteq> [] \<or> rule_resolution_keywords r \<noteq> [] \<or>
     rule_source_keywords r \<noteq> []"

fun normalize_rules_from ::
  "string list \<Rightarrow> nat \<Rightarrow> torrent_match_rule list \<Rightarrow> string + torrent_match_rule list" where
  "normalize_rules_from names n [] = Inr []"
| "normalize_rules_from names n (r # rs) =
     (let normalized = normalized_rule r in
      if rule_name normalized = [] then
        Inl ((utf8 [0x79CD, 0x5B50, 0x5339, 0x914D, 0x89C4, 0x5219]) @ '' #'' @ decimal n @ '' '' @ (utf8 [0x7F3A, 0x5C11, 0x89C4, 0x5219, 0x540D]))
      else if rule_name normalized \<in> set names then
        Inl ((utf8 [0x79CD, 0x5B50, 0x5339, 0x914D, 0x89C4, 0x5219, 0x540D, 0x91CD, 0x590D]) @ '': '' @ rule_name normalized)
      else if \<not> has_keywords normalized then
        Inl ((utf8 [0x79CD, 0x5B50, 0x5339, 0x914D, 0x89C4, 0x5219]) @ '' '' @ rule_name normalized @ '' '' @ (utf8 [0x81F3, 0x5C11, 0x9700, 0x8981, 0x4E00, 0x4E2A, 0x5173, 0x952E, 0x8BCD]))
      else and_then (normalize_rules_from (rule_name normalized # names) (Suc n) rs) (\<lambda>out.
           Inr (normalized # out)))"

text \<open>\<open>sort_by\<close> on descending priority, then name, as the sort key of a stable sort\<close>

definition rule_order :: "torrent_match_rule \<Rightarrow> int \<times> string" where
  "rule_order r = (- sint (rule_priority r), rule_name r)"

definition normalize_torrent_match_rules ::
  "torrent_match_rule list \<Rightarrow> string + torrent_match_rule list" where
  "normalize_torrent_match_rules rules =
     and_then (normalize_rules_from [] 1 rules) (\<lambda>out. Inr (sort_key rule_order out))"

subsection \<open>The whole file\<close>

definition normalize_loaded_file_config ::
  "url_parser \<Rightarrow> file_config \<Rightarrow> (string + file_config) option" where
  "normalize_loaded_file_config url cfg =
     map_option (\<lambda>r.
       and_then r (\<lambda>servers.
       and_then (normalize_subscription_categories (cfg_categories cfg) servers) (\<lambda>categories.
       and_then (normalize_torrent_match_rules (cfg_match_rules cfg)) (\<lambda>rules.
       let normalized = cfg\<lparr>cfg_qb_servers := servers, cfg_categories := categories,
             cfg_watcher := normalize_subscription_watcher (cfg_watcher cfg),
             cfg_match_rules := rules\<rparr> in
       and_then (map_err snd (validate_config url normalized)) (\<lambda>_. Inr normalized)))))
       (normalize_qb_servers url (cfg_qb_servers cfg))"

end
