(* ===== verification/Config_Store.thy ===== *)
theory Config_Store
  imports Config_Model
begin

text \<open>
  The configuration on disk and in memory, after \<open>src/config.rs\<close>: the atomic write, the
  backup, loading, and \<open>ConfigManager\<close>. The disk is a map from paths to files; an operation
  returns its result with the disks it passed through, so a property can speak of a crash
  between two steps. TOML is a pair of parameters, the operating system's refusals a record.
\<close>

subsection \<open>Disk\<close>

text \<open>A path as it is written: the directory before the file name, empty for a bare name, and the file name.\<close>

type_synonym path = "string \<times> string"

definition display_path :: "path \<Rightarrow> string" where
  "display_path p = (if fst p = [] then snd p else fst p @ ''/'' @ snd p)"

text \<open>A bare file name lies in the directory \<open>.\<close>.\<close>

definition non_empty_parent :: "path \<Rightarrow> string" where
  "non_empty_parent p = (if fst p = [] then ''.'' else fst p)"

record disk_file =
  file_bytes :: string
  file_secret :: bool

type_synonym disk = "path \<Rightarrow> disk_file option"
type_synonym 'a io = "disk \<Rightarrow> (io_error + 'a) \<times> disk list"

definition final_disk :: "disk \<Rightarrow> disk list \<Rightarrow> disk" where
  "final_disk d trace = last (d # trace)"

definition io_return :: "'a \<Rightarrow> 'a io" where
  "io_return x d = (Inr x, [])"

definition io_fail :: "io_error \<Rightarrow> 'a io" where
  "io_fail e d = (Inl e, [])"

definition io_bind :: "'a io \<Rightarrow> ('a \<Rightarrow> 'b io) \<Rightarrow> 'b io" where
  "io_bind m k d =
     (case m d of
        (Inl e, trace) \<Rightarrow> (Inl e, trace)
      | (Inr x, trace) \<Rightarrow> (let (r, trace') = k x (final_disk d trace) in (r, trace @ trace')))"

text \<open>A call that may be refused, one that changes the disk, and \<open>map_err\<close> of the kind kept\<close>

definition io_try :: "io_error option \<Rightarrow> unit io" where
  "io_try fault d = (case fault of Some e \<Rightarrow> (Inl e, []) | None \<Rightarrow> (Inr (), []))"

definition io_change :: "(disk \<Rightarrow> disk) \<Rightarrow> unit io" where
  "io_change f d = (Inr (), [f d])"

definition io_context :: "string \<Rightarrow> 'a io \<Rightarrow> 'a io" where
  "io_context prefix m d =
     (let (r, trace) = m d in (map_err (\<lambda>(kind, message). (kind, prefix @ message)) r, trace))"

text \<open>
  What the operating system may refuse. \<open>os_write\<close> is the error of \<open>write_all\<close> with the
  number of bytes written before it.
\<close>

record os_env =
  os_create_dir :: "io_error option"
  os_open :: "path \<Rightarrow> io_error option"
  os_permissions :: "path \<Rightarrow> io_error option"
  os_write :: "(io_error \<times> nat) option"
  os_sync :: "io_error option"
  os_rename :: "io_error option"
  os_remove :: bool
  os_sync_parent :: "io_error option"
  os_read :: "path \<Rightarrow> io_error option"
  os_not_found :: string
  os_nanos :: nat
  os_process_id :: nat
  os_seconds :: nat

definition quiet_os :: os_env where
  "quiet_os =
     \<lparr>os_create_dir = None, os_open = (\<lambda>_. None), os_permissions = (\<lambda>_. None), os_write = None,
      os_sync = None, os_rename = None, os_remove = True, os_sync_parent = None,
      os_read = (\<lambda>_. None), os_not_found = ''No such file or directory (os error 2)'',
      os_nanos = 7, os_process_id = 1, os_seconds = 100\<rparr>"

text \<open>\<open>let _ = fs::remove_file(path)\<close>\<close>

definition remove_quietly :: "os_env \<Rightarrow> path \<Rightarrow> unit io" where
  "remove_quietly os p = io_change (\<lambda>d. if os_remove os then d(p := None) else d)"

text \<open>\<open>OpenOptions::new().write(true).create_new(true).mode(0o600).open(path)\<close>\<close>

definition open_new_secret :: "os_env \<Rightarrow> path \<Rightarrow> unit io" where
  "open_new_secret os p d =
     (if d p \<noteq> None then (Inl (AlreadyExistsKind, ''File exists (os error 17)''), [])
      else case os_open os p of
        Some e \<Rightarrow> (Inl e, [])
      | None \<Rightarrow> (Inr (), [d(p \<mapsto> \<lparr>file_bytes = [], file_secret = True\<rparr>)]))"

definition write_all :: "os_env \<Rightarrow> path \<Rightarrow> string \<Rightarrow> unit io" where
  "write_all os p bytes d =
     (case os_write os of
        None \<Rightarrow> (Inr (), [d(p \<mapsto> \<lparr>file_bytes = bytes, file_secret = True\<rparr>)])
      | Some (e, n) \<Rightarrow> (Inl e, [d(p \<mapsto> \<lparr>file_bytes = take n bytes, file_secret = True\<rparr>)]))"

definition read_file :: "os_env \<Rightarrow> path \<Rightarrow> string io" where
  "read_file os p d =
     (case os_read os p of
        Some e \<Rightarrow> (Inl e, [])
      | None \<Rightarrow>
          (case d p of
             None \<Rightarrow> (Inl (NotFoundKind, os_not_found os), [])
           | Some f \<Rightarrow> (Inr (file_bytes f), [])))"

definition rename_file :: "os_env \<Rightarrow> path \<Rightarrow> path \<Rightarrow> unit io" where
  "rename_file os src dst =
     io_bind (io_try (os_rename os)) (\<lambda>_. io_change (\<lambda>d. (d(dst := d src))(src := None)))"

subsection \<open>Atomic write\<close>

definition temp_path :: "os_env \<Rightarrow> path \<Rightarrow> nat \<Rightarrow> path" where
  "temp_path os p attempt =
     (non_empty_parent p, ''.'' @ snd p @ ''.tmp.'' @ decimal (os_process_id os) @ ''.'' @
       decimal (os_nanos os) @ ''.'' @ decimal attempt)"

text \<open>The loop over \<open>0..100\<close>; the number of attempts left is the first argument.\<close>

fun create_temp_from :: "nat \<Rightarrow> os_env \<Rightarrow> path \<Rightarrow> nat \<Rightarrow> path io" where
  "create_temp_from 0 os p attempt =
     io_fail (AlreadyExistsKind, (utf8 [0x65E0, 0x6CD5, 0x4E3A, 0x914D, 0x7F6E, 0x6587, 0x4EF6]) @ '' '' @ display_path p @ '' '' @
       (utf8 [0x521B, 0x5EFA, 0x552F, 0x4E00, 0x4E34, 0x65F6, 0x6587, 0x4EF6]))"
| "create_temp_from (Suc n) os p attempt =
     (\<lambda>d. let tmp = temp_path os p attempt in
      case open_new_secret os tmp d of
        (Inr _, trace) \<Rightarrow>
          (case os_permissions os tmp of
             None \<Rightarrow> (Inr tmp, trace)
           | Some e \<Rightarrow>
               (Inl e, trace @ snd (remove_quietly os tmp (final_disk d trace))))
      | (Inl (kind, message), trace) \<Rightarrow>
          if kind = AlreadyExistsKind then create_temp_from n os p (Suc attempt) d
          else (Inl (kind, (utf8 [0x521B, 0x5EFA, 0x914D, 0x7F6E, 0x4E34, 0x65F6, 0x6587, 0x4EF6]) @ '' '' @ display_path tmp @ '' '' @ (utf8 [0x5931, 0x8D25]) @ '': '' @
                      message), trace))"

definition create_secret_temp_file :: "os_env \<Rightarrow> path \<Rightarrow> path io" where
  "create_secret_temp_file os p = create_temp_from 100 os p 0"

text \<open>The closure of \<open>atomic_write_secret_with_ops\<close>: everything up to the commit point\<close>

definition write_and_rename :: "os_env \<Rightarrow> path \<Rightarrow> path \<Rightarrow> string \<Rightarrow> unit io" where
  "write_and_rename os tmp p bytes =
     io_bind (write_all os tmp bytes) (\<lambda>_.
     io_bind (io_try (os_sync os)) (\<lambda>_.
     rename_file os tmp p))"

definition atomic_write_secret :: "os_env \<Rightarrow> path \<Rightarrow> string \<Rightarrow> unit io" where
  "atomic_write_secret os p bytes =
     io_bind (io_context ((utf8 [0x521B, 0x5EFA, 0x914D, 0x7F6E, 0x76EE, 0x5F55]) @ '' '' @ non_empty_parent p @ '' '' @ (utf8 [0x5931, 0x8D25]) @ '': '')
                (io_try (os_create_dir os))) (\<lambda>_.
     io_bind (create_secret_temp_file os p) (\<lambda>tmp d.
       case write_and_rename os tmp p bytes d of
         (Inl (kind, message), trace) \<Rightarrow>
           (Inl (kind, (utf8 [0x539F, 0x5B50, 0x5199, 0x5165, 0x914D, 0x7F6E, 0x6587, 0x4EF6]) @ '' '' @ display_path p @ '' '' @ (utf8 [0x5931, 0x8D25]) @ '': '' @ message),
            trace @ snd (remove_quietly os tmp (final_disk d trace)))
       | (Inr _, trace) \<Rightarrow> (Inr (), trace)))"

subsection \<open>Backup\<close>

definition write_new_secret_file :: "os_env \<Rightarrow> path \<Rightarrow> string \<Rightarrow> unit io" where
  "write_new_secret_file os p bytes =
     io_bind (open_new_secret os p) (\<lambda>_ d.
       case io_bind (io_try (os_permissions os p)) (\<lambda>_.
            io_bind (write_all os p bytes) (\<lambda>_. io_try (os_sync os))) d of
         (Inl e, trace) \<Rightarrow> (Inl e, trace @ snd (remove_quietly os p (final_disk d trace)))
       | (Inr _, trace) \<Rightarrow> (Inr (), trace))"

definition backup_path :: "os_env \<Rightarrow> path \<Rightarrow> nat \<Rightarrow> path" where
  "backup_path os p suffix =
     (non_empty_parent p, snd p @ ''.bak.'' @ decimal (os_seconds os) @
       (if suffix = 0 then [] else ''.'' @ decimal suffix))"

fun backup_from :: "nat \<Rightarrow> os_env \<Rightarrow> path \<Rightarrow> string \<Rightarrow> nat \<Rightarrow> path io" where
  "backup_from 0 os p bytes suffix =
     io_fail (AlreadyExistsKind, (utf8 [0x65E0, 0x6CD5, 0x4E3A, 0x914D, 0x7F6E, 0x6587, 0x4EF6]) @ '' '' @ display_path p @ '' '' @
       (utf8 [0x521B, 0x5EFA, 0x552F, 0x4E00, 0x5907, 0x4EFD]))"
| "backup_from (Suc n) os p bytes suffix =
     (\<lambda>d. let backup = backup_path os p suffix in
      case write_new_secret_file os backup bytes d of
        (Inr _, trace) \<Rightarrow>
          (let (r, trace') =
             io_bind (read_file os backup) (\<lambda>persisted.
               if persisted \<noteq> bytes then
                 io_bind (remove_quietly os backup) (\<lambda>_.
                 io_fail (InvalidDataKind, (utf8 [0x914D, 0x7F6E, 0x5907, 0x4EFD, 0x6821, 0x9A8C, 0x5931, 0x8D25]) @ '': '' @ display_path backup))
               else io_bind (io_try (os_sync_parent os)) (\<lambda>_. io_return backup))
             (final_disk d trace)
           in (r, trace @ trace'))
      | (Inl (kind, message), trace) \<Rightarrow>
          if kind = AlreadyExistsKind then
            (let (r, trace') = backup_from n os p bytes (Suc suffix) (final_disk d trace)
             in (r, trace @ trace'))
          else (Inl (kind, message), trace))"

definition create_timestamped_backup :: "os_env \<Rightarrow> path \<Rightarrow> path io" where
  "create_timestamped_backup os p =
     io_bind (io_context ((utf8 [0x8BFB, 0x53D6, 0x5F85, 0x5907, 0x4EFD, 0x914D, 0x7F6E]) @ '' '' @ display_path p @ '' '' @ (utf8 [0x5931, 0x8D25]) @ '': '')
                (read_file os p)) (\<lambda>bytes.
     backup_from 100 os p bytes 0)"

subsection \<open>Load and save\<close>

record toml =
  toml_print :: "file_config \<Rightarrow> string + string"
  toml_parse :: "string \<Rightarrow> string + file_config"

text \<open>\<open>url\<close>, TOML and the operating system, and the path of the file\<close>

record config_env =
  ce_url :: url_parser
  ce_toml :: toml
  ce_os :: os_env
  ce_path :: path

definition io_result :: "io_error + 'a \<Rightarrow> 'a io" where
  "io_result r d = (r, [])"

definition serialize_config :: "config_env \<Rightarrow> file_config \<Rightarrow> io_error + string" where
  "serialize_config env cfg =
     map_err (\<lambda>e. (OtherKind, (utf8 [0x5E8F, 0x5217, 0x5316, 0x914D, 0x7F6E, 0x5931, 0x8D25]) @ '': '' @ e)) (toml_print (ce_toml env) cfg)"

definition save_config :: "config_env \<Rightarrow> file_config \<Rightarrow> unit io" where
  "save_config env cfg =
     io_bind (io_result (validate_config (ce_url env) cfg)) (\<lambda>_.
     io_bind (io_result (serialize_config env cfg)) (\<lambda>raw.
     atomic_write_secret (ce_os env) (ce_path env) raw))"

definition persist_normalized_if_changed ::
  "config_env \<Rightarrow> file_config \<Rightarrow> file_config \<Rightarrow> path option io" where
  "persist_normalized_if_changed env original normalized =
     (if original = normalized then io_return None
      else
        io_bind (io_result (validate_config (ce_url env) normalized)) (\<lambda>_.
        io_bind (io_result (serialize_config env normalized)) (\<lambda>raw.
        io_bind (create_timestamped_backup (ce_os env) (ce_path env)) (\<lambda>backup.
        io_bind (io_context ((utf8 [0x5199, 0x5165, 0x89C4, 0x8303, 0x5316, 0x914D, 0x7F6E]) @ '' '' @ display_path (ce_path env) @ '' '' @
                   (utf8 [0x5931, 0x8D25, 0xFF08, 0x539F, 0x914D, 0x7F6E, 0x5907, 0x4EFD, 0x4FDD,
            0x7559, 0x5728]) @ '' '' @ display_path backup @ (utf8 [0xFF09]) @ '': '')
                   (atomic_write_secret (ce_os env) (ce_path env) raw)) (\<lambda>_.
        io_return (Some backup))))))"

definition load_or_create :: "config_env \<Rightarrow> file_config io" where
  "load_or_create env d =
     (if d (ce_path env) \<noteq> None then
        io_bind (io_context ((utf8 [0x8BFB, 0x53D6, 0x914D, 0x7F6E, 0x6587, 0x4EF6]) @ '' '' @ display_path (ce_path env) @ '' '' @ (utf8 [0x5931, 0x8D25]) @ '': '')
                   (read_file (ce_os env) (ce_path env))) (\<lambda>raw.
        io_bind (io_result (map_err (\<lambda>e. (InvalidDataKind, (utf8 [0x89E3, 0x6790, 0x914D, 0x7F6E, 0x6587, 0x4EF6]) @ '' '' @
                     display_path (ce_path env) @ '' '' @ (utf8 [0x5931, 0x8D25]) @ '': '' @ e))
                   (toml_parse (ce_toml env) raw))) (\<lambda>cfg.
        io_bind (io_result (validate_config (ce_url env) cfg)) (\<lambda>_. io_return cfg))) d
      else
        io_bind (save_config env default_config) (\<lambda>_. io_return default_config) d)"

text \<open>\<open>None\<close>: the call does not return.\<close>

definition load_normalized_file_config ::
  "config_env \<Rightarrow> disk \<Rightarrow> ((io_error + file_config) \<times> disk list) option" where
  "load_normalized_file_config env d =
     (case load_or_create env d of
        (Inl e, trace) \<Rightarrow> Some (Inl e, trace)
      | (Inr loaded, trace) \<Rightarrow>
          (case normalize_loaded_file_config (ce_url env) loaded of
             None \<Rightarrow> None
           | Some (Inl e) \<Rightarrow>
               Some (Inl (InvalidDataKind, (utf8 [0x914D, 0x7F6E, 0x6821, 0x9A8C, 0x5931, 0x8D25]) @ '': '' @ e), trace)
           | Some (Inr normalized) \<Rightarrow>
               (let (r, trace') =
                  io_bind (persist_normalized_if_changed env loaded normalized)
                    (\<lambda>_. io_return normalized) (final_disk d trace)
                in Some (r, trace @ trace'))))"

subsection \<open>Manager\<close>

record config_snapshot =
  snapshot_revision :: u64
  snapshot_value :: file_config

datatype config_update_error =
  Stale u64 u64
| Mutation string
| Persist io_error

definition manager_new :: "file_config \<Rightarrow> config_snapshot" where
  "manager_new value = \<lparr>snapshot_revision = 1, snapshot_value = value\<rparr>"

text \<open>The body of \<open>update\<close> after the revision check\<close>

definition manager_apply ::
  "config_env \<Rightarrow> string option \<Rightarrow> (file_config \<Rightarrow> string + file_config) \<Rightarrow> config_snapshot
    \<Rightarrow> disk \<Rightarrow> (config_update_error + config_snapshot) \<times> config_snapshot \<times> disk list" where
  "manager_apply env executor mutate current d =
     (case mutate (snapshot_value current) of
        Inl message \<Rightarrow> (Inl (Mutation message), current, [])
      | Inr next_value \<Rightarrow>
     (case validate_config (ce_url env) next_value of
        Inl e \<Rightarrow> (Inl (Mutation (snd e)), current, [])
      | Inr _ \<Rightarrow>
          if next_value = snapshot_value current then (Inr current, current, [])
          else (case executor of
             Some message \<Rightarrow> (Inl (Persist (OtherKind, message)), current, [])
           | None \<Rightarrow>
               (case save_config env next_value d of
                  (Inl e, trace) \<Rightarrow> (Inl (Persist e), current, trace)
                | (Inr _, trace) \<Rightarrow>
                    (let next_state = \<lparr>snapshot_revision = saturating_add (snapshot_revision current) 1,
                           snapshot_value = next_value\<rparr>
                     in (Inr next_state, next_state, trace))))))"

text \<open>
  \<open>ConfigManager::update\<close>. The update gate is held from the first read to the end, so the
  state read again before the assignment is the state read first. \<open>executor\<close> is the error of
  the blocking pool, \<open>mutate\<close> the caller's closure on a copy of the value. The result comes
  with the state left in memory and the disks passed through.
\<close>

definition manager_update ::
  "config_env \<Rightarrow> string option \<Rightarrow> u64 option \<Rightarrow> (file_config \<Rightarrow> string + file_config)
    \<Rightarrow> config_snapshot \<Rightarrow> disk
    \<Rightarrow> (config_update_error + config_snapshot) \<times> config_snapshot \<times> disk list" where
  "manager_update env executor expected mutate current d =
     (case expected of
        Some e \<Rightarrow>
          if e \<noteq> snapshot_revision current
          then (Inl (Stale e (snapshot_revision current)), current, [])
          else manager_apply env executor mutate current d
      | None \<Rightarrow> manager_apply env executor mutate current d)"

definition patch_douban_cookie ::
  "config_env \<Rightarrow> string option \<Rightarrow> string \<Rightarrow> config_snapshot \<Rightarrow> disk
    \<Rightarrow> (config_update_error + config_snapshot) \<times> config_snapshot \<times> disk list" where
  "patch_douban_cookie env executor cookie =
     manager_update env executor None (\<lambda>cfg. Inr (cfg\<lparr>cfg_douban_cookie := cookie\<rparr>))"

end
