(* ===== verification/Config_Facts.thy ===== *)
theory Config_Facts
  imports Config_Model
begin

text \<open>
  Facts on \<open>Config_Model\<close>: the search for a server identifier ends, its results are
  distinct, and the result of each normalization is left unchanged by a second one.
\<close>

subsection \<open>Identifiers\<close>

lemma of_char_digit_char: "d < 10 \<Longrightarrow> of_char (digit_char d) = (48 + int d :: int)"
proof -
  assume "d < 10"
  then have "of_char (digit_char d) = 48 + d" by (simp add: digit_char_def)
  then have "int (of_char (digit_char d)) = 48 + int d" by simp
  then show ?thesis by (simp only: of_nat_of_char)
qed

lemma digits_value_decimal: "digits_value (decimal n) = int n"
proof (induction n rule: decimal.induct)
  case (1 n)
  show ?case
  proof (cases "n < 10")
    case True
    then show ?thesis
      by (simp add: decimal.simps [of n] digits_value_def parse_digits_def of_char_digit_char)
  next
    case False
    then have "digits_value (decimal n) = digits_value (decimal (n div 10)) * 10 + int (n mod 10)"
      by (simp add: decimal.simps [of n] digits_value_def parse_digits_def of_char_digit_char)
    with 1 [OF False] show ?thesis by (simp add: zdiv_int zmod_int)
  qed
qed

lemma decimal_inject: "decimal m = decimal n \<longleftrightarrow> m = n"
  using digits_value_decimal by (metis of_nat_eq_iff)

lemma suffixed_id_inject: "suffixed_id base m = suffixed_id base n \<longleftrightarrow> m = n"
  by (simp add: suffixed_id_def decimal_inject)

lemma free_suffix: "\<exists>n. k \<le> n \<and> n \<le> k + length used \<and> suffixed_id base n \<notin> set used"
proof (rule ccontr)
  assume "\<not> ?thesis"
  then have "suffixed_id base ` {k..k + length used} \<subseteq> set used"
    by auto
  then have "card (suffixed_id base ` {k..k + length used}) \<le> card (set used)"
    by (simp add: card_mono)
  moreover have "card (suffixed_id base ` {k..k + length used}) = Suc (length used)"
    by (subst card_image) (auto simp: inj_on_def suffixed_id_inject)
  ultimately show False
    using card_length [of used] by simp
qed

lemma unique_suffix_returns:
  "suffixed_id base n \<notin> set used \<Longrightarrow> k \<le> n \<Longrightarrow>
     \<exists>m. k \<le> m \<and> m \<le> n \<and> suffixed_id base m \<notin> set used \<and>
         unique_suffix base used k = Some (suffixed_id base m)"
proof (induction "n - k" arbitrary: k)
  case 0
  then show ?case by (auto simp: unique_suffix.simps intro!: exI [where x = n])
next
  case (Suc d)
  show ?case
  proof (cases "suffixed_id base k \<in> set used")
    case True
    with Suc have "k \<noteq> n" by auto
    with Suc have "Suc k \<le> n" by simp
    moreover have "d = n - Suc k" using Suc.hyps(2) by simp
    ultimately obtain m where "Suc k \<le> m" "m \<le> n" "suffixed_id base m \<notin> set used"
      "unique_suffix base used (Suc k) = Some (suffixed_id base m)"
      using Suc.hyps(1) [of "Suc k"] Suc.prems by auto
    with True show ?thesis
      by (subst unique_suffix.simps) (auto intro!: exI [where x = m])
  next
    case False
    with Suc show ?thesis by (auto simp: unique_suffix.simps intro!: exI [where x = k])
  qed
qed

lemma unique_suffix_bound:
  "\<exists>n. k \<le> n \<and> n \<le> k + length used \<and> suffixed_id base n \<notin> set used \<and>
     unique_suffix base used k = Some (suffixed_id base n)"
  using free_suffix [of k used base] unique_suffix_returns [of base _ used k] by (meson le_trans)

text \<open>What \<open>unique_qb_server_id\<close> returns: the base, or the base with a suffix.\<close>

lemma unique_qb_server_id_cases:
  obtains (base) "qb_server_id_base server \<notin> set used"
      "unique_qb_server_id server used = Some (qb_server_id_base server)"
  | (suffix) n where "2 \<le> n" "n \<le> 2 + length used"
      "suffixed_id (qb_server_id_base server) n \<notin> set used"
      "unique_qb_server_id server used = Some (suffixed_id (qb_server_id_base server) n)"
  using unique_suffix_bound [of 2 used "qb_server_id_base server"]
  unfolding unique_qb_server_id_def Let_def by (metis (full_types))

lemma unique_qb_server_id_fresh: "unique_qb_server_id server used = Some i \<Longrightarrow> i \<notin> set used"
  by (rule unique_qb_server_id_cases [of server used]) auto

lemma unique_qb_server_id_returns: "\<exists>i. unique_qb_server_id server used = Some i"
  by (rule unique_qb_server_id_cases [of server used]) auto

lemma normalize_qb_servers_returns: "\<exists>r. normalize_qb_servers_from url used servers = Some r"
proof (induction servers arbitrary: used)
  case (Cons s servers)
  obtain i where "unique_qb_server_id s used = Some i"
    using unique_qb_server_id_returns by blast
  moreover obtain r where "normalize_qb_servers_from url (i # used) servers = Some r"
    using Cons by blast
  ultimately show ?case by (auto split: sum.splits)
qed simp

subsection \<open>Sanitized identifiers\<close>

text \<open>Visible ASCII bytes: trimming and splitting into characters leave them alone.\<close>

definition visible :: "char \<Rightarrow> bool" where
  "visible c \<longleftrightarrow> of_char c \<in> {0x21..0x7E :: int}"

lemma visible_not_space: "visible c \<Longrightarrow> \<not> ws1 c \<and> \<not> ws2 c d \<and> \<not> ws3 c d e \<and> \<not> ws2 d c \<and> \<not> ws3 d e c"
  by (auto simp: visible_def ws1_def ws2_def ws3_def)

lemma strip_start_visible:
  assumes "\<And>c d e. visible c \<Longrightarrow> \<not> p c \<and> \<not> q c d \<and> \<not> r c d e" and "list_all visible s"
  shows "strip_start p q r s = s"
  using assms by (cases "(p, q, r, s)" rule: strip_start.cases) auto

lemma str_trim_visible: "list_all visible s \<Longrightarrow> str_trim s = s"
  by (simp add: str_trim_def trim_start_def trim_end_def strip_start_visible visible_not_space)

lemma char_chunks_visible: "list_all visible s \<Longrightarrow> char_chunks s = map (\<lambda>c. [c]) s"
  by (induction s) (auto simp: visible_def char_width_def)

text \<open>
  An identifier that the sanitizer leaves alone: lower case letters, digits, \<open>_\<close> and single
  dashes, the first byte a letter or a digit, no dash at the end.
\<close>

definition id_byte :: "char \<Rightarrow> bool" where
  "id_byte c \<longleftrightarrow> is_alphanumeric c \<and> to_lower c = c"

definition id_char :: "char \<Rightarrow> bool" where
  "id_char c \<longleftrightarrow> id_byte c \<or> c = CHR ''_'' \<or> c = CHR ''-''"

definition single_dash :: "char \<Rightarrow> char \<Rightarrow> bool" where
  "single_dash a b \<longleftrightarrow> \<not> (a = CHR ''-'' \<and> b = CHR ''-'')"

definition id_body :: "string \<Rightarrow> bool" where
  "id_body s \<longleftrightarrow> s \<noteq> [] \<and> id_byte (hd s) \<and> list_all id_char s \<and> successively single_dash s"

definition clean_id :: "string \<Rightarrow> bool" where
  "clean_id s \<longleftrightarrow> id_body s \<and> last s \<noteq> CHR ''-''"

definition code :: "char \<Rightarrow> nat" where
  "code c = of_char c"

lemma code_char_of [simp]: "code (char_of n) = n mod 256"
  by (simp add: code_def)

lemma code_literals [simp]:
  "code CHR ''0'' = 48" "code CHR ''9'' = 57" "code CHR ''A'' = 65" "code CHR ''Z'' = 90"
  "code CHR ''_'' = 95" "code CHR ''a'' = 97" "code CHR ''z'' = 122" "code CHR ''-'' = 45"
  by (simp_all add: code_def)

lemma code_eq: "c = d \<longleftrightarrow> code c = code d"
  by (simp add: code_def)

lemma code_le: "c \<le> d \<longleftrightarrow> code c \<le> code d"
  by (simp add: code_def less_eq_char_def)

lemma to_lower_code: "to_lower c = (if 65 \<le> code c \<and> code c \<le> 90 then char_of (code c + 32) else c)"
  unfolding to_lower_def code_le by (simp add: code_def)

lemma alphanumeric_code:
  "is_alphanumeric c \<longleftrightarrow> (97 \<le> code c \<and> code c \<le> 122) \<or> (65 \<le> code c \<and> code c \<le> 90) \<or>
     (48 \<le> code c \<and> code c \<le> 57)"
  by (auto simp: is_alphanumeric_def is_alpha_def is_digit_def code_le)

lemma id_byte_code: "id_byte c \<longleftrightarrow> (48 \<le> code c \<and> code c \<le> 57) \<or> (97 \<le> code c \<and> code c \<le> 122)"
  by (auto simp: id_byte_def alphanumeric_code to_lower_code code_eq)

lemma id_byte_lower: "is_alphanumeric c \<Longrightarrow> id_byte (to_lower c)"
  by (auto simp: id_byte_code to_lower_code alphanumeric_code)

lemma id_byte_not_mark: "id_byte c \<Longrightarrow> c \<noteq> CHR ''-'' \<and> c \<noteq> CHR ''_''"
  by (auto simp: id_byte_code)

lemma visible_code: "visible c \<longleftrightarrow> 33 \<le> code c \<and> code c \<le> 126"
proof -
  have "of_char c = int (code c)" by (simp only: code_def of_nat_of_char)
  then show ?thesis by (auto simp: visible_def)
qed

lemma id_char_visible: "id_char c \<Longrightarrow> visible c"
  by (auto simp: id_char_def visible_code id_byte_code)

text \<open>The loop keeps a well-formed beginning of an identifier.\<close>

definition id_state :: "string \<Rightarrow> bool \<Rightarrow> bool" where
  "id_state out last_dash \<longleftrightarrow>
     (if out = [] then \<not> last_dash else id_body out \<and> (last_dash \<longleftrightarrow> last out = CHR ''-''))"

lemma id_body_snoc:
  "id_body out \<Longrightarrow> id_char c \<Longrightarrow> single_dash (last out) c \<Longrightarrow> id_body (out @ [c])"
  by (auto simp: id_body_def successively_append_iff)

lemma sanitize_loop_step:
  assumes state: "id_state out last_dash"
  obtains out' last_dash' where "id_state out' last_dash'"
    "sanitize_loop out last_dash (ch # chs) = sanitize_loop out' last_dash' chs"
proof -
  have lower: "id_state (out @ [to_lower c]) False" if "is_alphanumeric c" for c
    using id_byte_lower [OF that] state id_body_snoc [of out "to_lower c"]
    by (auto simp: id_state_def id_body_def id_char_def single_dash_def dest: id_byte_not_mark
        split: if_splits)
  have bar: "id_state (out @ ''_'') False" if "out \<noteq> []"
    using that state id_body_snoc [of out "CHR ''_''"]
    by (auto simp: id_state_def id_char_def single_dash_def)
  have dash: "id_state (out @ ''-'') True" if "out \<noteq> []" "\<not> last_dash"
    using that state id_body_snoc [of out "CHR ''-''"]
    by (auto simp: id_state_def id_char_def single_dash_def)
  have other: "sanitize_loop out last_dash (ch # chs) =
      (if \<not> last_dash \<and> out \<noteq> [] then sanitize_loop (out @ ''-'') True chs
       else sanitize_loop out last_dash chs)"
    if "\<not> (\<exists>c. ch = [c] \<and> (is_alphanumeric c \<or> c = CHR ''_''))"
    using that by (auto split: list.splits)
  consider c where "ch = [c]" "is_alphanumeric c"
    | "ch = ''_''" "\<not> is_alphanumeric CHR ''_''" | "\<not> (\<exists>c. ch = [c] \<and> (is_alphanumeric c \<or> c = CHR ''_''))"
    by (metis (full_types))
  then show thesis
  proof cases
    case 1
    then show thesis using that [OF lower] by simp
  next
    case 2
    then show thesis using that [OF bar] that [OF state] by (cases "out = []") auto
  next
    case 3
    show thesis
    proof (cases "\<not> last_dash \<and> out \<noteq> []")
      case True
      with that [OF dash] other [OF 3] show thesis by simp
    next
      case False
      with that [OF state] other [OF 3] show thesis by auto
    qed
  qed
qed

lemma sanitize_loop_state:
  "id_state out last_dash \<Longrightarrow> \<exists>last_dash'. id_state (sanitize_loop out last_dash chs) last_dash'"
proof (induction chs arbitrary: out last_dash)
  case (Cons ch chs)
  obtain out' last_dash' where "id_state out' last_dash'"
    "sanitize_loop out last_dash (ch # chs) = sanitize_loop out' last_dash' chs"
    using Cons.prems by (rule sanitize_loop_step)
  with Cons.IH show ?case by simp
qed auto

lemma trim_matches_fixed:
  assumes "s \<noteq> []" "hd s \<noteq> c" "last s \<noteq> c"
  shows "trim_matches c s = s"
proof -
  have "dropWhile ((=) c) s = s" "dropWhile ((=) c) (rev s) = rev s"
    using assms by (auto simp: dropWhile_eq_self_iff hd_rev)
  then show ?thesis by (simp add: trim_matches_def)
qed

lemma clean_id_ends: "clean_id s \<Longrightarrow> s \<noteq> [] \<and> hd s \<noteq> CHR ''-'' \<and> last s \<noteq> CHR ''-''"
  by (auto simp: clean_id_def id_body_def dest: id_byte_not_mark)

lemma trim_id_body:
  assumes "id_body s"
  shows "clean_id (trim_matches CHR ''-'' s)"
proof (cases "last s = CHR ''-''")
  case False
  with assms show ?thesis
    using trim_matches_fixed [of s "CHR ''-''"] id_byte_not_mark [of "hd s"]
    by (auto simp: clean_id_def id_body_def)
next
  case True
  define t where "t = butlast s"
  have s: "s = t @ ''-''"
    using True assms append_butlast_last_id [of s] by (simp add: t_def id_body_def)
  have "t \<noteq> []" using assms id_byte_not_mark [of "CHR ''-''"] by (auto simp: s id_body_def)
  then have clean: "clean_id t"
    using assms by (auto simp: s clean_id_def id_body_def successively_append_iff single_dash_def)
  have "hd s \<noteq> CHR ''-''" using clean_id_ends [OF clean] \<open>t \<noteq> []\<close> by (simp add: s)
  then have "dropWhile ((=) CHR ''-'') s = s" by (simp add: dropWhile_eq_self_iff)
  moreover have "dropWhile ((=) CHR ''-'') (rev t) = rev t"
    using clean_id_ends [OF clean] by (auto simp: dropWhile_eq_self_iff hd_rev)
  ultimately have "trim_matches CHR ''-'' s = t"
    by (simp add: trim_matches_def s)
  with clean show ?thesis by simp
qed

lemma sanitized_clean: "sanitize_qb_server_id raw \<noteq> [] \<Longrightarrow> clean_id (sanitize_qb_server_id raw)"
proof -
  assume nonempty: "sanitize_qb_server_id raw \<noteq> []"
  let ?s = "sanitize_loop [] False (char_chunks (str_trim raw))"
  obtain d where "id_state ?s d"
    using sanitize_loop_state [of "[]" False] by (auto simp: id_state_def)
  moreover have "?s \<noteq> []"
    using nonempty by (auto simp: sanitize_qb_server_id_def trim_matches_def)
  ultimately show ?thesis
    unfolding sanitize_qb_server_id_def by (intro trim_id_body) (simp add: id_state_def)
qed

lemma sanitize_loop_fixed:
  "id_body (out @ s) \<Longrightarrow> (last_dash \<longrightarrow> out \<noteq> [] \<and> last out = CHR ''-'') \<Longrightarrow>
     sanitize_loop out last_dash (map (\<lambda>c. [c]) s) = out @ s"
proof (induction s arbitrary: out last_dash)
  case (Cons c s)
  have body: "id_body ((out @ [c]) @ s)" using Cons.prems by simp
  have "id_char c" using Cons.prems by (simp add: id_body_def)
  moreover have "out \<noteq> []" if "\<not> id_byte c"
    using Cons.prems that by (auto simp: id_body_def)
  moreover have "\<not> last_dash" if "c = CHR ''-''"
    using Cons.prems that by (auto simp: id_body_def successively_append_iff single_dash_def)
  ultimately consider "id_byte c" | "c = CHR ''_''" "out \<noteq> []"
    | "c = CHR ''-''" "out \<noteq> []" "\<not> last_dash"
    using id_byte_not_mark [of c] by (auto simp: id_char_def)
  then show ?case
  proof cases
    case 1
    with Cons.IH [OF body, of False] show ?thesis by (simp add: id_byte_def)
  next
    case 2
    with Cons.IH [OF body, of False] show ?thesis by (simp add: alphanumeric_code)
  next
    case 3
    with Cons.IH [OF body, of True] show ?thesis by (simp add: alphanumeric_code)
  qed
qed simp

lemma clean_id_visible: "clean_id s \<Longrightarrow> list_all visible s"
  by (auto simp: clean_id_def id_body_def list_all_iff id_char_visible)

lemma sanitize_clean: "clean_id s \<Longrightarrow> sanitize_qb_server_id s = s"
  using sanitize_loop_fixed [of "[]" s False] trim_matches_fixed [of s "CHR ''-''"] clean_id_ends [of s]
  by (simp add: sanitize_qb_server_id_def str_trim_visible char_chunks_visible clean_id_visible)
    (simp add: clean_id_def)

lemma id_byte_hex_digit: "d < 16 \<Longrightarrow> id_byte (hex_digit d)"
  by (auto simp: id_byte_code hex_digit_def)

lemma clean_append:
  assumes "clean_id s" and "list_all id_byte t" and "t \<noteq> []"
  shows "clean_id (s @ ''-'' @ t)"
proof -
  have "successively single_dash t"
    using assms(2) by (induction t rule: induct_list012)
      (auto simp: single_dash_def dest: id_byte_not_mark)
  moreover have "list_all id_char t"
    using assms(2) by (auto simp: list_all_iff id_char_def)
  moreover have "last t \<noteq> CHR ''-''" "hd t \<noteq> CHR ''-''"
    using assms(2,3) id_byte_not_mark by (auto simp: list_all_iff)
  ultimately show ?thesis
    using assms(1,3) by (auto simp: clean_id_def id_body_def successively_append_iff successively_Cons
        single_dash_def id_char_def)
qed

lemma lower_hex_bytes: "list_all id_byte (lower_hex n) \<and> lower_hex n \<noteq> []"
  by (induction n rule: lower_hex.induct) (subst (1 2) lower_hex.simps, simp add: id_byte_hex_digit)

lemma id_byte_digit_char: "d < 10 \<Longrightarrow> id_byte (digit_char d)"
  by (auto simp: id_byte_code digit_char_def)

lemma decimal_bytes: "list_all id_byte (decimal n)"
  by (induction n rule: decimal.induct) (subst decimal.simps, simp add: id_byte_digit_char)

lemma suffixed_clean: "clean_id base \<Longrightarrow> clean_id (suffixed_id base n)"
  unfolding suffixed_id_def by (intro clean_append decimal_bytes) auto

lemma base_clean: "clean_id (qb_server_id_base server)"
proof (cases "find (\<lambda>s. s \<noteq> []) (map sanitize_qb_server_id [qbs_id server, qbs_name server, qbs_base_url server])")
  case None
  have "clean_id ''qb''"
    by (simp add: clean_id_def id_body_def id_char_def id_byte_def single_dash_def is_alphanumeric_def
        is_alpha_def to_lower_def less_eq_char_def)
  from clean_append [OF this] lower_hex_bytes None show ?thesis
    by (simp add: qb_server_id_base_def)
next
  case (Some i)
  then obtain raw where "i = sanitize_qb_server_id raw" "i \<noteq> []"
    by (auto simp: find_Some_iff2 split: if_splits) 
  with Some sanitized_clean show ?thesis
    by (simp add: qb_server_id_base_def del: find.simps)
qed

lemma unique_qb_server_id_clean: "unique_qb_server_id server used = Some i \<Longrightarrow> clean_id i"
  by (rule unique_qb_server_id_cases [of server used])
    (auto simp: base_clean suffixed_clean)

lemma base_of_clean: "clean_id (qbs_id server) \<Longrightarrow> qb_server_id_base server = qbs_id server"
  using clean_id_ends [of "qbs_id server"] by (simp add: qb_server_id_base_def sanitize_clean)

subsection \<open>Servers\<close>

definition server_normal :: "url_parser \<Rightarrow> qb_server_entry \<Rightarrow> bool" where
  "server_normal url s \<longleftrightarrow> clean_id (qbs_id s) \<and> str_trim (qbs_name s) = qbs_name s \<and>
     str_trim (qbs_base_url s) = qbs_base_url s \<and> str_trim (qbs_username s) = qbs_username s \<and>
     validate_qb_base_url url (qbs_base_url s) = Inr ()"

lemma normalize_qb_servers_normal:
  "normalize_qb_servers_from url used servers = Some (Inr out) \<Longrightarrow>
     list_all (server_normal url) out \<and> distinct (map qbs_id out) \<and>
     set (map qbs_id out) \<inter> set used = {}"
proof (induction servers arbitrary: used out)
  case (Cons s servers)
  then obtain i rest where i: "unique_qb_server_id s used = Some i"
    and ok: "validate_qb_base_url url (str_trim (qbs_base_url s)) = Inr ()"
    and rest: "normalize_qb_servers_from url (i # used) servers = Some (Inr rest)"
    and out: "out = normalized_qb_server i s # rest"
    by (auto split: option.splits sum.splits)
  from unique_qb_server_id_clean [OF i] ok have "server_normal url (normalized_qb_server i s)"
    by (simp add: server_normal_def normalized_qb_server_def)
  with Cons.IH [OF rest] unique_qb_server_id_fresh [OF i] show ?case
    by (auto simp: out normalized_qb_server_def)
qed simp

lemma normalize_normal_servers:
  "list_all (server_normal url) out \<Longrightarrow> distinct (map qbs_id out) \<Longrightarrow>
     set (map qbs_id out) \<inter> set used = {} \<Longrightarrow>
     normalize_qb_servers_from url used out = Some (Inr out)"
proof (induction out arbitrary: used)
  case (Cons s out)
  have "normalized_qb_server (qbs_id s) s = s"
    using Cons.prems by (simp add: server_normal_def normalized_qb_server_def)
  moreover have "unique_qb_server_id s used = Some (qbs_id s)"
    using Cons.prems by (simp add: unique_qb_server_id_def server_normal_def base_of_clean)
  moreover have "normalize_qb_servers_from url (qbs_id s # used) out = Some (Inr out)"
    using Cons.prems by (intro Cons.IH) auto
  ultimately show ?case
    using Cons.prems by (simp add: server_normal_def)
qed simp

subsection \<open>Categories\<close>

definition category_normal :: "subscription_category \<Rightarrow> bool" where
  "category_normal c \<longleftrightarrow> normalized_category (cat_qb_server_id c) c = c \<and>
     str_trim (cat_qb_server_id c) = cat_qb_server_id c \<and> cat_qb_server_id c \<noteq> []"

text \<open>The checks of a category against the names and tags before it\<close>

fun categories_valid ::
  "string list \<Rightarrow> string list \<Rightarrow> string list \<Rightarrow> nat \<Rightarrow> subscription_category list \<Rightarrow> bool" where
  "categories_valid ids names tags n [] = True"
| "categories_valid ids names tags n (c # cs) =
     (category_normal c \<and> validate_category ids names tags n c = Inr () \<and>
      categories_valid ids (cat_name c # names) (cat_wanted_tag c # tags) (Suc n) cs)"

lemma normalized_category_fields [simp]:
  "cat_name (normalized_category i c) = str_trim (cat_name c)"
  "cat_wanted_tag (normalized_category i c) = str_trim (cat_wanted_tag c)"
  "cat_qb_server_id (normalized_category i c) = i"
  "normalized_category j (normalized_category i c) = normalized_category j c"
  by (simp_all add: normalized_category_def)

lemma category_server_id_trimmed:
  assumes "category_server_id default_id c = Inr i"
    and "default_id \<noteq> None \<longrightarrow> str_trim (the default_id) = the default_id \<and> the default_id \<noteq> []"
  shows "str_trim i = i \<and> i \<noteq> []"
  using assms by (auto simp: category_server_id_def Let_def ok_or_def split: if_splits option.splits)

lemma normalize_categories_valid:
  assumes default: "default_id \<noteq> None \<longrightarrow> str_trim (the default_id) = the default_id \<and> the default_id \<noteq> []"
  shows "normalize_categories_from ids default_id names tags n cs = Inr out \<Longrightarrow>
     categories_valid ids names tags n out"
proof (induction cs arbitrary: names tags n out)
  case (Cons c cs)
  then obtain i rest where i: "category_server_id default_id c = Inr i"
    and ok: "validate_category ids names tags n (normalized_category i c) = Inr ()"
    and rest: "normalize_categories_from ids default_id (str_trim (cat_name c) # names)
        (str_trim (cat_wanted_tag c) # tags) (Suc n) cs = Inr rest"
    and out: "out = normalized_category i c # rest"
    by (auto simp: Let_def)
  have "category_normal (normalized_category i c)"
    using category_server_id_trimmed [OF i default] by (simp add: category_normal_def)
  with ok Cons.IH [OF rest] show ?case by (simp add: out)
qed simp

lemma normalize_valid_categories:
  "categories_valid ids names tags n cs \<Longrightarrow>
     normalize_categories_from ids default_id names tags n cs = Inr cs"
proof (induction cs arbitrary: names tags n)
  case (Cons c cs)
  have "category_server_id default_id c = Inr (cat_qb_server_id c)"
    "normalized_category (cat_qb_server_id c) c = c"
    using Cons.prems by (auto simp: category_normal_def category_server_id_def Let_def)
  moreover from this(2) have "str_trim (cat_name c) = cat_name c"
    "str_trim (cat_wanted_tag c) = cat_wanted_tag c"
    using normalized_category_fields(1,2) by metis+
  ultimately show ?case using Cons by (simp add: Let_def)
qed simp

lemma default_server_id_trimmed:
  "default_server_id servers \<noteq> None \<longrightarrow>
     str_trim (the (default_server_id servers)) = the (default_server_id servers) \<and>
     the (default_server_id servers) \<noteq> []"
  by (auto simp: default_server_id_def non_empty_eq is_blank_def split: list.splits)

lemma validate_category_Inr:
  "validate_category ids names tags n c = Inr u \<longleftrightarrow>
     cat_name c \<noteq> [] \<and> cat_wanted_tag c \<noteq> [] \<and> length (split_whitespace (cat_wanted_tag c)) = 1 \<and>
     cat_qb_category c \<noteq> [] \<and> cat_qb_save_dir_name c \<noteq> [] \<and> cat_qb_server_id c \<in> set ids \<and>
     cat_download_dir c \<noteq> [] \<and> cat_link_target_dir c \<noteq> [] \<and> cat_name c \<notin> set names \<and>
     cat_wanted_tag c \<notin> set tags"
  by (simp add: validate_category_def Let_def)

lemma categories_valid_distinct:
  "categories_valid ids names tags n cs \<Longrightarrow>
     distinct (map cat_wanted_tag cs) \<and> set (map cat_wanted_tag cs) \<inter> set tags = {} \<and>
     distinct (map cat_name cs) \<and> set (map cat_name cs) \<inter> set names = {} \<and>
     (\<forall>c \<in> set cs. cat_qb_server_id c \<in> set ids)"
proof (induction cs arbitrary: names tags n)
  case (Cons c cs)
  from Cons.IH [of "cat_name c # names" "cat_wanted_tag c # tags" "Suc n"] Cons.prems show ?case
    by (auto simp: validate_category_Inr)
qed simp

subsection \<open>Watcher and rules\<close>

lemma clamp_idem [simp]: "lo \<le> hi \<Longrightarrow> clamp lo hi (clamp lo hi v) = clamp lo hi v"
  by (auto simp: clamp_def)

lemma clamp_bounds: "lo \<le> hi \<Longrightarrow> lo \<le> clamp lo hi v \<and> clamp lo hi v \<le> hi"
  by (auto simp: clamp_def)

lemma normalize_watcher_idem [simp]:
  "normalize_subscription_watcher (normalize_subscription_watcher w) = normalize_subscription_watcher w"
  by (simp add: normalize_subscription_watcher_def)

lemma normalized_rule_idem [simp]: "normalized_rule (normalized_rule r) = normalized_rule r"
  by (simp add: normalized_rule_def normalize_keyword_list_def distinct_trimmed_idem)

definition rule_normal :: "torrent_match_rule \<Rightarrow> bool" where
  "rule_normal r \<longleftrightarrow> normalized_rule r = r \<and> rule_name r \<noteq> [] \<and> has_keywords r"

lemma normalize_rules_normal:
  "normalize_rules_from names n rs = Inr out \<Longrightarrow>
     list_all rule_normal out \<and> distinct (map rule_name out) \<and>
     set (map rule_name out) \<inter> set names = {}"
proof (induction rs arbitrary: names n out)
  case (Cons r rs)
  then obtain rest where normal: "rule_normal (normalized_rule r)"
    and fresh: "rule_name (normalized_rule r) \<notin> set names"
    and rest: "normalize_rules_from (rule_name (normalized_rule r) # names) (Suc n) rs = Inr rest"
    and out: "out = normalized_rule r # rest"
    by (auto simp: Let_def rule_normal_def split: if_splits)
  from normal fresh Cons.IH [OF rest] show ?case by (auto simp: out)
qed simp

lemma normalize_normal_rules:
  "list_all rule_normal rs \<Longrightarrow> distinct (map rule_name rs) \<Longrightarrow>
     set (map rule_name rs) \<inter> set names = {} \<Longrightarrow> normalize_rules_from names n rs = Inr rs"
proof (induction rs arbitrary: names n)
  case (Cons r rs)
  have "normalize_rules_from (rule_name r # names) (Suc n) rs = Inr rs"
    using Cons.prems by (intro Cons.IH) auto
  with Cons.prems show ?case by (simp add: rule_normal_def Let_def)
qed simp

lemma normalize_rules_idem:
  assumes "normalize_torrent_match_rules rs = Inr out"
  shows "normalize_torrent_match_rules out = Inr out"
proof -
  obtain raw where raw: "normalize_rules_from [] 1 rs = Inr raw" and out: "out = sort_key rule_order raw"
    using assms by (auto simp: normalize_torrent_match_rules_def)
  have "distinct (map rule_name out)"
    using normalize_rules_normal [OF raw] by (simp add: out distinct_map)
  moreover have "list_all rule_normal out"
    using normalize_rules_normal [OF raw] by (simp add: out list_all_iff)
  ultimately have "normalize_rules_from [] 1 out = Inr out"
    by (intro normalize_normal_rules) auto
  then show ?thesis
    by (simp add: normalize_torrent_match_rules_def out sort_key_id_if_sorted)
qed

subsection \<open>The whole file\<close>

lemma normalize_loaded_Inr:
  "normalize_loaded_file_config url cfg = Some (Inr out) \<longleftrightarrow>
     (\<exists>servers categories rules.
        normalize_qb_servers url (cfg_qb_servers cfg) = Some (Inr servers) \<and>
        normalize_subscription_categories (cfg_categories cfg) servers = Inr categories \<and>
        normalize_torrent_match_rules (cfg_match_rules cfg) = Inr rules \<and>
        out = cfg\<lparr>cfg_qb_servers := servers, cfg_categories := categories,
          cfg_watcher := normalize_subscription_watcher (cfg_watcher cfg), cfg_match_rules := rules\<rparr> \<and>
        validate_config url out = Inr ())"
  by (auto simp: normalize_loaded_file_config_def and_then_Inr_iff Let_def)

lemma normalize_loaded_idem:
  assumes "normalize_loaded_file_config url cfg = Some (Inr out)"
  shows "normalize_loaded_file_config url out = Some (Inr out)"
proof -
  obtain servers categories rules where
    servers: "normalize_qb_servers_from url [] (cfg_qb_servers cfg) = Some (Inr servers)"
    and categories: "normalize_subscription_categories (cfg_categories cfg) servers = Inr categories"
    and rules: "normalize_torrent_match_rules (cfg_match_rules cfg) = Inr rules"
    and out: "out = cfg\<lparr>cfg_qb_servers := servers, cfg_categories := categories,
          cfg_watcher := normalize_subscription_watcher (cfg_watcher cfg), cfg_match_rules := rules\<rparr>"
    and valid: "validate_config url out = Inr ()"
    using assms by (auto simp: normalize_loaded_Inr normalize_qb_servers_def)
  have "normalize_qb_servers url servers = Some (Inr servers)"
    unfolding normalize_qb_servers_def
    using normalize_qb_servers_normal [OF servers] by (intro normalize_normal_servers) auto
  moreover have "normalize_subscription_categories categories servers = Inr categories"
    using categories normalize_categories_valid [OF default_server_id_trimmed]
    unfolding normalize_subscription_categories_def by (intro normalize_valid_categories) blast
  ultimately show ?thesis
    using normalize_rules_idem [OF rules] valid by (simp add: normalize_loaded_Inr out)
qed

end
