(* ===== verification/Config_Durability.thy ===== *)
theory Config_Durability
  imports Config_Store Config_Facts
begin

text \<open>
  What the file operations of \<open>Config_Store\<close> leave on disk, on every disk they pass through:
  the atomic write, the backup, the load, and the updates of the manager.
\<close>

lemma final_disk_simps [simp]:
  "final_disk d [] = d" "final_disk d (t @ [x]) = x" "final_disk d [x] = x"
  "final_disk d (x # t) = final_disk x t"
  "final_disk d (t @ t') = final_disk (final_disk d t) t'"
  by (cases t'; simp add: final_disk_def)+

lemma io_simps [simp]:
  "io_return x d = (Inr x, [])" "io_fail e d = (Inl e, [])" "io_change f d = (Inr (), [f d])"
  "io_try None d = (Inr (), [])" "io_try (Some e) d = (Inl e, [])" "io_result r d = (r, [])"
  by (simp_all add: io_return_def io_fail_def io_change_def io_try_def io_result_def)

lemma io_bind_cases:
  assumes "io_bind m k d = (r, trace)"
  obtains (refused) e where "m d = (Inl e, trace)" "r = Inl e"
  | (through) x t t' where "m d = (Inr x, t)" "k x (final_disk d t) = (r, t')" "trace = t @ t'"
  using assms by (auto simp: io_bind_def split: prod.splits sum.splits)

lemma io_bind_Inr: "m d = (Inr x, t) \<Longrightarrow> io_bind m k d = (let (r, t') = k x (final_disk d t) in (r, t @ t'))"
  by (simp add: io_bind_def)

lemma io_bind_Inl: "m d = (Inl e, t) \<Longrightarrow> io_bind m k d = (Inl e, t)"
  by (simp add: io_bind_def)

lemma io_context_eq: "io_context prefix m d = (r, trace) \<longleftrightarrow>
    (\<exists>r'. m d = (r', trace) \<and> r = map_err (\<lambda>(kind, message). (kind, prefix @ message)) r')"
  by (auto simp: io_context_def split: prod.splits)

subsection \<open>The atomic write\<close>

definition written :: "string \<Rightarrow> disk_file" where
  "written bytes = \<lparr>file_bytes = bytes, file_secret = True\<rparr>"

lemma temp_path_other [simp]: "temp_path os p k \<noteq> p" "p \<noteq> temp_path os p k"
proof -
  have "length (snd (temp_path os p k)) \<noteq> length (snd p)" by (simp add: temp_path_def)
  then show "temp_path os p k \<noteq> p" "p \<noteq> temp_path os p k" by metis+
qed

lemma backup_path_other [simp]: "backup_path os p k \<noteq> p" "p \<noteq> backup_path os p k"
proof -
  have "length (snd (backup_path os p k)) \<noteq> length (snd p)" by (simp add: backup_path_def)
  then show "backup_path os p k \<noteq> p" "p \<noteq> backup_path os p k" by metis+
qed

lemma open_new_secret_cases:
  obtains (refused) kind message where "open_new_secret os tmp d = (Inl (kind, message), [])"
  | (opened) "open_new_secret os tmp d = (Inr (), [d(tmp \<mapsto> written [])])" "d tmp = None"
proof (cases "d tmp = None \<and> os_open os tmp = None")
  case True
  then show thesis using opened by (simp add: open_new_secret_def written_def)
next
  case False
  then show thesis
    using refused by (cases "d tmp"; cases "os_open os tmp") (auto simp: open_new_secret_def)
qed

text \<open>How the loop for a temporary file ends: with the file, without it, or with it removed\<close>

definition temp_outcome :: "os_env \<Rightarrow> path \<Rightarrow> disk \<Rightarrow> io_error + path \<Rightarrow> disk list \<Rightarrow> bool" where
  "temp_outcome os p d r trace \<longleftrightarrow>
     (case r of
        Inr tmp \<Rightarrow> d tmp = None \<and> tmp \<noteq> p \<and> trace = [d(tmp \<mapsto> written [])]
      | Inl e \<Rightarrow> trace = [] \<or> (\<exists>tmp. d tmp = None \<and> tmp \<noteq> p \<and>
          trace = [d(tmp \<mapsto> written []), if os_remove os then d else d(tmp \<mapsto> written [])]))"

lemma create_temp_outcome:
  "create_temp_from n os p a d = (r, trace) \<Longrightarrow> temp_outcome os p d r trace"
proof (induction n arbitrary: a)
  case 0
  then show ?case by (auto simp: temp_outcome_def)
next
  case (Suc n)
  show ?case
  proof (rule open_new_secret_cases [of os "temp_path os p a" d])
    fix kind message
    assume "open_new_secret os (temp_path os p a) d = (Inl (kind, message), [])"
    with Suc show ?thesis
      by (cases "kind = AlreadyExistsKind") (auto simp: Let_def temp_outcome_def)
  next
    assume "open_new_secret os (temp_path os p a) d = (Inr (), [d(temp_path os p a \<mapsto> written [])])"
      "d (temp_path os p a) = None"
    with Suc.prems show ?thesis
      by (cases "os_permissions os (temp_path os p a)"; cases "os_remove os")
        (auto simp: Let_def temp_outcome_def remove_quietly_def fun_upd_idem
          simp del: split_paired_Ex intro!: exI [where x = "temp_path os p a"])
  qed
qed

lemma write_and_rename_cases:
  assumes "write_and_rename os tmp p bytes d = (r, trace)" and "tmp \<noteq> p"
  shows "(\<forall>d' \<in> set trace. d' p = d p \<or> d' p = Some (written bytes)) \<and>
     (\<forall>d' \<in> set trace. \<forall>q. q \<noteq> p \<longrightarrow> q \<noteq> tmp \<longrightarrow> d' q = d q) \<and>
     (if r = Inr () then final_disk d trace = d(p \<mapsto> written bytes, tmp := None)
      else final_disk d trace p = d p)"
  using assms
  by (auto simp: write_and_rename_def io_bind_def write_all_def io_try_def rename_file_def
      written_def fun_upd_twist split: prod.splits sum.splits option.splits)

lemma atomic_write_cases:
  assumes run: "atomic_write_secret os p bytes d = (r, trace)"
  obtains (refused) e where "r = Inl e" "trace = []"
  | (no_file) e where "r = Inl e" "temp_outcome os p d (Inl e) trace"
  | (committed) tmp t where "d tmp = None" "tmp \<noteq> p" "r = Inr ()"
      "write_and_rename os tmp p bytes (d(tmp \<mapsto> written [])) = (Inr (), t)"
      "trace = d(tmp \<mapsto> written []) # t"
  | (failed) tmp t e e' where "d tmp = None" "tmp \<noteq> p" "r = Inl e"
      "write_and_rename os tmp p bytes (d(tmp \<mapsto> written [])) = (Inl e', t)"
      "trace = d(tmp \<mapsto> written []) # t @ [if os_remove os
          then (final_disk (d(tmp \<mapsto> written [])) t)(tmp := None)
          else final_disk (d(tmp \<mapsto> written [])) t]"
proof (cases "os_create_dir os")
  case (Some e)
  then show thesis
    using run refused by (cases e) (auto simp: atomic_write_secret_def io_bind_def io_context_def)
next
  case None
  obtain r1 t1 where temp: "create_temp_from 100 os p 0 d = (r1, t1)" by fastforce
  note outcome = create_temp_outcome [OF temp]
  show thesis
  proof (cases r1)
    case (Inl e)
    with run None temp outcome no_file show thesis
      by (cases e) (auto simp: atomic_write_secret_def io_bind_def io_context_def create_secret_temp_file_def)
  next
    case (Inr tmp)
    then have made: "d tmp = None" "tmp \<noteq> p" and t1: "t1 = [d(tmp \<mapsto> written [])]"
      using outcome by (auto simp: temp_outcome_def)
    obtain r2 t2 where step: "write_and_rename os tmp p bytes (d(tmp \<mapsto> written [])) = (r2, t2)"
      by fastforce
    note unfolded = run [unfolded atomic_write_secret_def]
    show thesis
    proof (cases r2)
      case (Inl e')
      have "\<exists>e. r = Inl e \<and> trace = d(tmp \<mapsto> written []) # t2 @ [if os_remove os
          then (final_disk (d(tmp \<mapsto> written [])) t2)(tmp := None)
          else final_disk (d(tmp \<mapsto> written [])) t2]"
        using unfolded None temp step Inr t1 Inl
        by (cases "os_remove os"; cases e')
          (auto simp: io_bind_def io_context_def create_secret_temp_file_def remove_quietly_def)
      then obtain e where result: "r = Inl e" "trace = d(tmp \<mapsto> written []) # t2 @ [if os_remove os
          then (final_disk (d(tmp \<mapsto> written [])) t2)(tmp := None)
          else final_disk (d(tmp \<mapsto> written [])) t2]"
        by blast
      show thesis by (rule failed [OF made result(1) step [unfolded Inl] result(2)])
    next
      case (Inr u)
      with unfolded None temp step \<open>r1 = Inr tmp\<close> made t1 committed show thesis
        by (auto simp: io_bind_def io_context_def create_secret_temp_file_def)
    qed
  qed
qed

lemma atomic_write:
  assumes run: "atomic_write_secret os p bytes d = (r, trace)"
  shows "(\<forall>d' \<in> set trace. d' p = d p \<or> d' p = Some (written bytes)) \<and>
     final_disk d trace p = (if r = Inr () then Some (written bytes) else d p) \<and>
     (\<forall>d' \<in> set trace. \<forall>q. q \<noteq> p \<longrightarrow> d q \<noteq> None \<longrightarrow> d' q = d q) \<and>
     (os_remove os \<or> r = Inr () \<longrightarrow> (\<forall>q. q \<noteq> p \<longrightarrow> final_disk d trace q = d q))"
  using run
proof (cases rule: atomic_write_cases)
  case (no_file e)
  then show ?thesis
    by (cases "os_remove os") (auto simp: temp_outcome_def)
next
  case (committed tmp t)
  define d1 where "d1 = d(tmp \<mapsto> written [])"
  have outcome: "\<forall>d' \<in> set t. d' p = d1 p \<or> d' p = Some (written bytes)"
    "\<forall>d' \<in> set t. \<forall>q. q \<noteq> p \<longrightarrow> q \<noteq> tmp \<longrightarrow> d' q = d1 q"
    "final_disk d1 t = d1(p \<mapsto> written bytes, tmp := None)"
    using write_and_rename_cases [OF committed(4,2)] by (auto simp: d1_def)
  have d1: "d1 p = d p" "\<And>q. q \<noteq> tmp \<Longrightarrow> d1 q = d q"
    using committed by (auto simp: d1_def)
  have trace: "trace = d1 # t" "r = Inr ()" using committed by (auto simp: d1_def)
  have "\<forall>d' \<in> set trace. d' p = d p \<or> d' p = Some (written bytes)"
    using outcome(1) d1(1) by (auto simp: trace)
  moreover have "final_disk d trace p = Some (written bytes)"
    using committed(2) by (auto simp: trace outcome(3))
  moreover have "d' q = d q" if "d' \<in> set trace" "q \<noteq> p" "d q \<noteq> None" for d' q
  proof -
    have "q \<noteq> tmp" using that(3) committed(1) by auto
    with that(1,2) outcome(2) d1(2) [of q] show ?thesis
      by (auto simp: trace simp del: split_paired_All)
  qed
  moreover have "final_disk d trace q = d q" if "q \<noteq> p" for q
    using that committed(1) d1(2) [of q] by (auto simp: trace outcome(3))
  ultimately show ?thesis
    using trace(2) by (simp del: split_paired_All)
next
  case (failed tmp t e e')
  define d1 where "d1 = d(tmp \<mapsto> written [])"
  have outcome: "\<forall>d' \<in> set t. d' p = d1 p \<or> d' p = Some (written bytes)"
    "\<forall>d' \<in> set t. \<forall>q. q \<noteq> p \<longrightarrow> q \<noteq> tmp \<longrightarrow> d' q = d1 q" "final_disk d1 t p = d1 p"
    using write_and_rename_cases [OF failed(4,2)] by (auto simp: d1_def)
  have rest: "final_disk d1 t q = d1 q" if "q \<noteq> p" "q \<noteq> tmp" for q
    using outcome(2) that by (cases t rule: rev_cases) (auto simp del: split_paired_All)
  have d1: "d1 p = d p" "\<And>q. q \<noteq> tmp \<Longrightarrow> d1 q = d q"
    using failed by (auto simp: d1_def)
  define d2 where "d2 = (if os_remove os then (final_disk d1 t)(tmp := None) else final_disk d1 t)"
  have trace: "trace = d1 # t @ [d2]" "r = Inl e" using failed by (simp_all add: d1_def d2_def)
  have d2: "d2 p = d p" "\<And>q. q \<noteq> p \<Longrightarrow> q \<noteq> tmp \<Longrightarrow> d2 q = d q"
    using failed(2) outcome(3) rest d1 by (simp_all add: d2_def)
  have "\<forall>d' \<in> set trace. d' p = d p \<or> d' p = Some (written bytes)"
    using outcome(1) d1(1) d2(1) by (auto simp: trace)
  moreover have "final_disk d trace p = d p"
    using d2(1) by (simp add: trace)
  moreover have "d' q = d q" if "d' \<in> set trace" "q \<noteq> p" "d q \<noteq> None" for d' q
  proof -
    have "q \<noteq> tmp" using that(3) failed(1) by auto
    with that(1,2) outcome(2) d1(2) [of q] d2(2) [of q] show ?thesis
      by (auto simp: trace simp del: split_paired_All)
  qed
  moreover have "final_disk d trace q = d q" if "q \<noteq> p" "os_remove os" for q
    using that d2(2) [of q] failed(1) by (cases "q = tmp") (auto simp: trace d2_def)
  ultimately show ?thesis
    using trace(2) by (simp del: split_paired_All)
qed simp

lemma atomic_write_keeps:
  assumes "atomic_write_secret os p bytes d = (r, trace)" "d' \<in> set trace" "q \<noteq> p" "d q = Some f"
  shows "d' q = Some f"
  using conjunct1 [OF conjunct2 [OF conjunct2 [OF atomic_write [OF assms(1)]]]] assms(2-4)
  by (metis option.distinct(1))

subsection \<open>The backup\<close>

text \<open>Every file of the first disk is still there, unchanged.\<close>

definition keeps_files :: "disk \<Rightarrow> disk \<Rightarrow> bool" where
  "keeps_files d d' \<longleftrightarrow> (\<forall>q. d q \<noteq> None \<longrightarrow> d' q = d q)"

lemma keeps_files_refl [simp]: "keeps_files d d"
  by (simp add: keeps_files_def)

lemma keeps_files_trans: "keeps_files d d' \<Longrightarrow> keeps_files d' d'' \<Longrightarrow> keeps_files d d''"
  unfolding keeps_files_def by metis

lemma keeps_filesD: "keeps_files d d' \<Longrightarrow> d q = Some f \<Longrightarrow> d' q = Some f"
  by (simp add: keeps_files_def del: split_paired_All)

lemma keeps_files_new [simp]: "d q = None \<Longrightarrow> keeps_files d (d(q := f))"
  by (auto simp: keeps_files_def)

lemma keeps_files_set: "keeps_files d d' \<Longrightarrow> d q = None \<Longrightarrow> keeps_files d (d'(q := f))"
  by (auto simp: keeps_files_def)

lemma keeps_files_final: "\<forall>d' \<in> set trace. keeps_files d d' \<Longrightarrow> keeps_files d (final_disk d trace)"
  by (cases trace rule: rev_cases) auto

lemma write_new_secret:
  assumes "write_new_secret_file os b bytes d = (r, trace)"
  shows "(\<forall>d' \<in> set trace. keeps_files d d') \<and>
     (r = Inr () \<longrightarrow> final_disk d trace = d(b \<mapsto> written bytes))"
proof (rule open_new_secret_cases [of os b d])
  fix kind message
  assume "open_new_secret os b d = (Inl (kind, message), [])"
  with assms show ?thesis by (auto simp: write_new_secret_file_def io_bind_def)
next
  assume "open_new_secret os b d = (Inr (), [d(b \<mapsto> written [])])" and absent: "d b = None"
  with assms show ?thesis
    by (cases "os_permissions os b"; cases "os_write os"; cases "os_sync os"; cases "os_remove os")
      (auto simp: write_new_secret_file_def io_bind_def write_all_def written_def remove_quietly_def)
qed

lemma backup_outcome:
  "backup_from n os p bytes k d = (r, trace) \<Longrightarrow>
     (\<forall>d' \<in> set trace. keeps_files d d') \<and>
     (\<forall>b. r = Inr b \<longrightarrow> b \<noteq> p \<and> final_disk d trace b = Some (written bytes))"
proof (induction n arbitrary: k d trace)
  case 0
  then show ?case by auto
next
  case (Suc n)
  let ?b = "backup_path os p k"
  obtain r1 t1 where step: "write_new_secret_file os ?b bytes d = (r1, t1)" by fastforce
  note kept = write_new_secret [OF step]
  show ?case
  proof (cases r1)
    case (Inr u)
    then have final: "final_disk d t1 = d(?b \<mapsto> written bytes)" using kept by simp
    have "read_file os ?b (d(?b \<mapsto> written bytes)) =
        (case os_read os ?b of Some e \<Rightarrow> (Inl e, []) | None \<Rightarrow> (Inr bytes, []))"
      by (simp add: read_file_def written_def split: option.split)
    with Suc.prems step Inr kept final show ?thesis
      by (cases "os_read os ?b"; cases "os_sync_parent os") (auto simp: Let_def io_bind_def)
  next
    case (Inl e)
    obtain kind message where e: "e = (kind, message)" by (cases e)
    show ?thesis
    proof (cases "kind = AlreadyExistsKind")
      case True
      obtain t2 where rest: "backup_from n os p bytes (Suc k) (final_disk d t1) = (r, t2)"
        and trace: "trace = t1 @ t2"
        using Suc.prems step Inl e True by (auto simp: Let_def split: prod.splits)
      have "keeps_files d (final_disk d t1)"
        using kept by (intro keeps_files_final) simp
      with Suc.IH [OF rest] kept show ?thesis
        by (auto simp: trace intro: keeps_files_trans simp del: split_paired_All)
    next
      case False
      with Suc.prems step Inl e kept show ?thesis by (auto simp: Let_def)
    qed
  qed
qed

lemma create_backup:
  assumes "create_timestamped_backup os p d = (r, trace)"
  shows "(\<forall>d' \<in> set trace. keeps_files d d') \<and>
     (\<forall>b. r = Inr b \<longrightarrow> (\<exists>f. d p = Some f \<and> b \<noteq> p \<and>
        final_disk d trace b = Some (written (file_bytes f))))"
proof (cases "os_read os p")
  case (Some e)
  with assms show ?thesis
    by (cases e) (auto simp: create_timestamped_backup_def io_bind_def io_context_def read_file_def)
next
  case None
  show ?thesis
  proof (cases "d p")
    case None
    with \<open>os_read os p = None\<close> assms show ?thesis
      by (auto simp: create_timestamped_backup_def io_bind_def io_context_def read_file_def)
  next
    case (Some f)
    with \<open>os_read os p = None\<close> assms
    have "backup_from 100 os p (file_bytes f) 0 d = (r, trace)"
      by (auto simp: create_timestamped_backup_def io_bind_def io_context_def read_file_def
          split: prod.splits)
    from backup_outcome [OF this] Some show ?thesis
      by (simp del: split_paired_All)
  qed
qed

lemma persist_normalized_cases:
  assumes run: "persist_normalized_if_changed env original normalized d = (r, trace)"
  obtains (same) "original = normalized" "trace = []"
  | (refused) e where "original \<noteq> normalized" "r = Inl e" "\<forall>d' \<in> set trace. keeps_files d d'"
  | (replaced) f raw b t r2 t2 where "original \<noteq> normalized" "d (ce_path env) = Some f"
      "serialize_config env normalized = Inr raw" "b \<noteq> ce_path env"
      "\<forall>d' \<in> set t. keeps_files d d'" "final_disk d t b = Some (written (file_bytes f))"
      "atomic_write_secret (ce_os env) (ce_path env) raw (final_disk d t) = (r2, t2)"
      "trace = t @ t2" "is_ok r \<longleftrightarrow> r2 = Inr ()"
proof (cases "original = normalized")
  case True
  with run same show thesis by (simp add: persist_normalized_if_changed_def)
next
  case changed: False
  show thesis
  proof (cases "validate_config (ce_url env) normalized")
    case (Inl e)
    with run changed refused show thesis
      by (cases e) (auto simp: persist_normalized_if_changed_def io_bind_def)
  next
    case valid: (Inr u)
    show thesis
    proof (cases "serialize_config env normalized")
      case (Inl e)
      with run changed valid refused show thesis
        by (cases e) (auto simp: persist_normalized_if_changed_def io_bind_def)
    next
      case raw: (Inr raw)
      obtain rb t where backup: "create_timestamped_backup (ce_os env) (ce_path env) d = (rb, t)"
        by fastforce
      note kept = create_backup [OF backup]
      show thesis
      proof (cases rb)
        case (Inl e)
        with run changed valid raw backup kept refused show thesis
          by (cases e) (auto simp: persist_normalized_if_changed_def io_bind_def)
      next
        case (Inr b)
        obtain r2 t2 where atomic:
          "atomic_write_secret (ce_os env) (ce_path env) raw (final_disk d t) = (r2, t2)"
          by fastforce
        obtain f where f: "d (ce_path env) = Some f" "b \<noteq> ce_path env"
          "final_disk d t b = Some (written (file_bytes f))"
          using kept Inr by blast
        have "trace = t @ t2 \<and> (is_ok r \<longleftrightarrow> r2 = Inr ())"
          using run changed valid raw backup Inr atomic
          by (cases r2) (auto simp: persist_normalized_if_changed_def io_bind_def io_context_def)
        with replaced [OF changed f(1) raw f(2) _ f(3) atomic] kept show thesis by blast
      qed
    qed
  qed
qed

lemma original_survives:
  assumes run: "persist_normalized_if_changed env original normalized d = (r, trace)"
    and original: "d (ce_path env) = Some f" and visited: "d' \<in> set trace"
  shows "d' (ce_path env) = Some f \<or>
     (\<exists>b. b \<noteq> ce_path env \<and> d' b = Some (written (file_bytes f)))"
  using run
proof (cases rule: persist_normalized_cases)
  case same
  with visited show ?thesis by simp
next
  case (refused e)
  with visited original show ?thesis using keeps_filesD by blast
next
  case (replaced g raw b t r2 t2)
  then have "g = f" using original by simp
  show ?thesis
  proof (cases "d' \<in> set t")
    case True
    with replaced original show ?thesis using keeps_filesD by blast
  next
    case False
    then have "d' b = Some (written (file_bytes g))"
      using atomic_write_keeps [OF replaced(7) _ replaced(4,6)] visited replaced(8) by simp
    with replaced(4) \<open>g = f\<close> show ?thesis by blast
  qed
qed

lemma persist_normalized_Inr:
  assumes run: "persist_normalized_if_changed env original normalized d = (Inr x, trace)"
  shows "if original = normalized then trace = [] else
     \<exists>raw. serialize_config env normalized = Inr raw \<and>
       final_disk d trace (ce_path env) = Some (written raw)"
  using run
proof (cases rule: persist_normalized_cases)
  case (replaced f raw b t r2 t2)
  then show ?thesis using atomic_write [OF replaced(7)] by simp
qed simp_all

subsection \<open>Loading\<close>

text \<open>The file holds a text that parses to the configuration.\<close>

definition on_disk :: "config_env \<Rightarrow> disk \<Rightarrow> file_config \<Rightarrow> bool" where
  "on_disk env d cfg \<longleftrightarrow>
     (\<exists>f. d (ce_path env) = Some f \<and> toml_parse (ce_toml env) (file_bytes f) = Inr cfg)"

text \<open>\<open>toml::from_str\<close> reads what \<open>toml::to_string_pretty\<close> printed.\<close>

definition toml_roundtrip :: "toml \<Rightarrow> bool" where
  "toml_roundtrip t \<longleftrightarrow> (\<forall>cfg raw. toml_print t cfg = Inr raw \<longrightarrow> toml_parse t raw = Inr cfg)"

lemma save_config_Inr:
  assumes "save_config env cfg d = (Inr u, trace)"
  obtains raw where "validate_config (ce_url env) cfg = Inr ()" "toml_print (ce_toml env) cfg = Inr raw"
    "atomic_write_secret (ce_os env) (ce_path env) raw d = (Inr (), trace)"
  using assms
  by (auto simp: save_config_def io_bind_def serialize_config_def split: sum.splits prod.splits)

lemma saved_on_disk:
  assumes "toml_roundtrip (ce_toml env)" and save: "save_config env cfg d = (Inr u, trace)"
  shows "on_disk env (final_disk d trace) cfg"
  using save
proof (rule save_config_Inr)
  fix raw
  assume raw: "toml_print (ce_toml env) cfg = Inr raw"
    and "atomic_write_secret (ce_os env) (ce_path env) raw d = (Inr (), trace)"
  with atomic_write [OF this(2)] assms(1) show ?thesis
    by (simp add: on_disk_def toml_roundtrip_def written_def)
qed

lemma save_config_Inl:
  assumes "save_config env cfg d = (Inl e, trace)"
  shows "final_disk d trace (ce_path env) = d (ce_path env)"
proof -
  consider "trace = []" | raw e' where
    "atomic_write_secret (ce_os env) (ce_path env) raw d = (Inl e', trace)"
    using assms by (auto simp: save_config_def io_bind_def split: sum.splits prod.splits)
  then show ?thesis
    by cases (auto dest: atomic_write)
qed

lemma load_or_create_Inr:
  assumes law: "toml_roundtrip (ce_toml env)" and load: "load_or_create env d = (Inr cfg, trace)"
  shows "on_disk env (final_disk d trace) cfg \<and> validate_config (ce_url env) cfg = Inr ()"
proof (cases "d (ce_path env)")
  case None
  with load obtain u where save: "save_config env default_config d = (Inr u, trace)" and "cfg = default_config"
    by (auto simp: load_or_create_def io_bind_def split: sum.splits prod.splits)
  with saved_on_disk [OF law save] save_config_Inr [OF save] show ?thesis by metis
next
  case (Some f)
  with load show ?thesis
    by (auto simp: load_or_create_def io_bind_def io_context_def read_file_def on_disk_def
        split: sum.splits prod.splits option.splits)
qed

lemma load_on_disk:
  assumes "on_disk env d cfg" "validate_config (ce_url env) cfg = Inr ()"
    "os_read (ce_os env) (ce_path env) = None"
  shows "load_or_create env d = (Inr cfg, [])"
  using assms by (auto simp: on_disk_def load_or_create_def io_bind_def io_context_def read_file_def)

lemma load_normalized_Inr:
  assumes law: "toml_roundtrip (ce_toml env)"
    and load: "load_normalized_file_config env d = Some (Inr cfg, trace)"
  shows "on_disk env (final_disk d trace) cfg \<and>
     normalize_loaded_file_config (ce_url env) cfg = Some (Inr cfg)"
proof -
  obtain loaded t where first: "load_or_create env d = (Inr loaded, t)"
    using load by (auto simp: load_normalized_file_config_def split: prod.splits sum.splits)
  obtain normalized where norm: "normalize_loaded_file_config (ce_url env) loaded = Some (Inr normalized)"
    using load first by (auto simp: load_normalized_file_config_def split: option.splits sum.splits)
  obtain x t' where persist: "persist_normalized_if_changed env loaded normalized (final_disk d t) = (Inr x, t')"
    and cfg: "cfg = normalized" "trace = t @ t'"
    using load first norm
    by (auto simp: load_normalized_file_config_def io_bind_def split: prod.splits sum.splits)
  have "on_disk env (final_disk d trace) cfg"
  proof (cases "loaded = normalized")
    case True
    with persist_normalized_Inr [OF persist] load_or_create_Inr [OF law first] show ?thesis
      by (simp add: cfg)
  next
    case False
    then obtain raw where "toml_print (ce_toml env) normalized = Inr raw"
      "final_disk (final_disk d t) t' (ce_path env) = Some (written raw)"
      using persist_normalized_Inr [OF persist] by (auto simp: serialize_config_def)
    with law show ?thesis
      by (simp add: cfg on_disk_def toml_roundtrip_def written_def)
  qed
  with normalize_loaded_idem [OF norm] show ?thesis by (simp add: cfg)
qed

end
