(* ===== verification/Config_Theorems.thy ===== *)
theory Config_Theorems
  imports Config_Durability
begin

text \<open>
  Properties of the configuration: what a loaded file is after normalization, when it may
  listen beyond the loopback interface, what a crash leaves on disk, and that no update of
  the manager is lost.
\<close>

subsection \<open>Sample values\<close>

text \<open>A TOML pair given by a table, with the law the properties assume\<close>

definition table_toml :: "(file_config \<times> string) list \<Rightarrow> toml" where
  "table_toml tbl =
     \<lparr>toml_print = (\<lambda>cfg. case find (\<lambda>(c, _). c = cfg) tbl of
          Some (_, raw) \<Rightarrow> Inr raw | None \<Rightarrow> Inl ''unsupported''),
      toml_parse = (\<lambda>raw. case find (\<lambda>(_, t). t = raw) tbl of
          Some (cfg, _) \<Rightarrow> Inr cfg | None \<Rightarrow> Inl ''expected a table'')\<rparr>"

lemma table_toml_roundtrip: "distinct (map snd tbl) \<Longrightarrow> toml_roundtrip (table_toml tbl)"
proof -
  assume distinct: "distinct (map snd tbl)"
  have "find (\<lambda>(_, t). t = raw) tbl = Some (cfg, raw)"
    if "find (\<lambda>(c, _). c = cfg) tbl = Some (c', raw)" for cfg c' raw
  proof -
    have "(cfg, raw) \<in> set tbl"
      using that by (auto simp: find_Some_iff dest: nth_mem)
    with distinct show ?thesis
      by (induction tbl) (auto simp: rev_image_eqI)
  qed
  then show ?thesis
    by (auto simp: toml_roundtrip_def table_toml_def split: option.splits prod.splits)
qed

definition sample_url :: url_parser where
  "sample_url s =
     (if s = ''http://qb'' then Some \<lparr>url_scheme = ''http'', url_host = Some ''qb'', url_username = [],
        url_password = None, url_path = ''/'', url_query = None, url_fragment = None\<rparr> else None)"

definition sample_server :: qb_server_entry where
  "sample_server = \<lparr>qbs_id = [], qbs_name = ''QB 1'', qbs_base_url = ''http://qb '',
     qbs_username = ''u'', qbs_password = ''p'', qbs_insecure_tls = False\<rparr>"

definition sample_config :: file_config where
  "sample_config = default_config\<lparr>cfg_qb_servers := [sample_server, sample_server]\<rparr>"

definition normal_config :: file_config where
  "normal_config = default_config\<lparr>cfg_qb_servers :=
     [sample_server\<lparr>qbs_id := ''qb-1'', qbs_base_url := ''http://qb''\<rparr>,
      sample_server\<lparr>qbs_id := ''qb-1-2'', qbs_base_url := ''http://qb''\<rparr>]\<rparr>"

definition sample_path :: path where
  "sample_path = (''data'', ''config.toml'')"

definition sample_config_env :: config_env where
  "sample_config_env = \<lparr>ce_url = sample_url,
     ce_toml = table_toml [(sample_config, ''a''), (normal_config, ''b''), (default_config, ''c'')],
     ce_os = quiet_os, ce_path = sample_path\<rparr>"

definition sample_disk :: disk where
  "sample_disk = [sample_path \<mapsto> \<lparr>file_bytes = ''a'', file_secret = False\<rparr>]"

lemma sample_server_values:
  "qb_server_id_base sample_server = ''qb-1''" "suffixed_id ''qb-1'' 2 = ''qb-1-2''"
  "str_trim (qbs_name sample_server) = ''QB 1''" "str_trim (qbs_username sample_server) = ''u''"
  "str_trim (qbs_base_url sample_server) = ''http://qb''"
  "validate_qb_base_url sample_url ''http://qb'' = Inr ()"
  by code_simp+

lemma sample_servers_normalized:
  "normalize_qb_servers sample_url [sample_server, sample_server] =
     Some (Inr (cfg_qb_servers normal_config))"
  by (simp add: normalize_qb_servers_def unique_qb_server_id_def unique_suffix.simps
      sample_server_values normalized_qb_server_def normal_config_def)
    (simp add: sample_server_def)

lemma loopback_validates:
  assumes "cfg_listen_ip cfg = default_listen_ip" "cfg_management cfg = default_management"
  shows "validate_config url cfg = Inr ()"
proof -
  have ip: "str_trim default_listen_ip = default_listen_ip" "default_listen_ip \<noteq> []"
    "parse_ip_addr default_listen_ip = Some (V4 [127, 0, 0, 1])"
    by code_simp+
  have management: "validate_management url default_management = Inr ()" by code_simp
  have "listen_addr cfg = Inr (V4 [127, 0, 0, 1], cfg_listen_port cfg)"
    by (simp add: listen_addr_def assms(1) ip Let_def)
  then show ?thesis
    by (simp add: validate_config_def assms(2) management)
qed

lemma sample_fields [simp]:
  "cfg_listen_ip sample_config = default_listen_ip" "cfg_listen_ip normal_config = default_listen_ip"
  "cfg_listen_ip default_config = default_listen_ip"
  "cfg_management sample_config = default_management"
  "cfg_management normal_config = default_management"
  "cfg_management default_config = default_management"
  "cfg_qb_servers sample_config = [sample_server, sample_server]"
  "cfg_categories sample_config = []" "cfg_match_rules sample_config = []"
  "cfg_watcher sample_config = default_watcher"
  by (simp_all add: sample_config_def normal_config_def default_config_def)

lemma default_watcher_normal: "normalize_subscription_watcher default_watcher = default_watcher"
  by (simp add: default_watcher_def normalize_subscription_watcher_def clamp_def)

lemma normal_config_eq:
  "normal_config = sample_config\<lparr>cfg_qb_servers := cfg_qb_servers normal_config, cfg_categories := [],
     cfg_watcher := default_watcher, cfg_match_rules := []\<rparr>"
  by (simp add: normal_config_def sample_config_def default_config_def)

lemma sample_normalized:
  "normalize_loaded_file_config sample_url sample_config = Some (Inr normal_config)"
  unfolding normalize_loaded_Inr
  by (rule exI [where x = "cfg_qb_servers normal_config"], rule exI [where x = "[]"],
      rule exI [where x = "[]"])
    (simp add: sample_servers_normalized normalize_subscription_categories_def
      normalize_torrent_match_rules_def loopback_validates default_watcher_normal
      flip: normal_config_eq)

subsection \<open>Normalization\<close>

text \<open>The unbounded search for an unused server identifier ends: \<open>unique_qb_server_id\<close> returns the
  base or the base with one of the first suffixes, at most one more than there are
  identifiers in use, and never an identifier in use.\<close>

theorem server_id_search_ends:
  "unique_qb_server_id server used \<in>
     Some ` (insert (qb_server_id_base server)
       (suffixed_id (qb_server_id_base server) ` {2..2 + length used}) - set used)"
  by (rule unique_qb_server_id_cases [of server used]) auto

text \<open>
  A configuration as the rest of the program relies on it: every server under one clean
  identifier, every category bound to one of them under a name and a tag of its own, rules in
  order of priority, the intervals within their bounds, and the whole validated.
\<close>

definition watcher_wf :: "watcher_config \<Rightarrow> bool" where
  "watcher_wf w \<longleftrightarrow> 60 \<le> watch_poll_interval_secs w \<and> watch_poll_interval_secs w \<le> 86400 \<and>
     1 \<le> watch_library_limit w \<and> watch_library_limit w \<le> 1200 \<and>
     1 \<le> watch_max_retries w \<and> watch_max_retries w \<le> 20 \<and> 30 \<le> watch_search_interval_secs w \<and>
     1 \<le> watch_progress_interval_secs w \<and> 30 \<le> watch_link_retry_interval_secs w \<and>
     30 \<le> watch_system_retry_interval_secs w"

definition config_wf :: "url_parser \<Rightarrow> file_config \<Rightarrow> bool" where
  "config_wf url cfg \<longleftrightarrow>
     distinct (map qbs_id (cfg_qb_servers cfg)) \<and> list_all (server_normal url) (cfg_qb_servers cfg) \<and>
     cat_qb_server_id ` set (cfg_categories cfg) \<subseteq> qbs_id ` set (cfg_qb_servers cfg) \<and>
     distinct (map cat_name (cfg_categories cfg)) \<and> distinct (map cat_wanted_tag (cfg_categories cfg)) \<and>
     sorted (map rule_order (cfg_match_rules cfg)) \<and> distinct (map rule_name (cfg_match_rules cfg)) \<and>
     list_all has_keywords (cfg_match_rules cfg) \<and> watcher_wf (cfg_watcher cfg) \<and>
     validate_config url cfg = Inr ()"

lemma normalized_watcher_wf: "watcher_wf (normalize_subscription_watcher w)"
  by (simp add: watcher_wf_def normalize_subscription_watcher_def clamp_bounds)

lemma clean_id_trimmed: "clean_id s \<Longrightarrow> str_trim s = s"
  by (simp add: str_trim_visible clean_id_visible)

lemma server_ids_of_normal: "list_all (server_normal url) servers \<Longrightarrow> set (server_ids_of servers) \<subseteq> qbs_id ` set servers"
  by (auto simp: server_ids_of_def list_all_iff server_normal_def clean_id_trimmed)

lemma rules_wf:
  assumes "normalize_torrent_match_rules rs = Inr out"
  shows "sorted (map rule_order out) \<and> distinct (map rule_name out) \<and> list_all has_keywords out"
proof -
  obtain raw where raw: "normalize_rules_from [] 1 rs = Inr raw" and out: "out = sort_key rule_order raw"
    using assms by (auto simp: normalize_torrent_match_rules_def)
  from normalize_rules_normal [OF raw] show ?thesis
    by (simp add: out distinct_map list_all_iff rule_normal_def)
qed

text \<open>C25.
  Normalization returns well-formed configurations only: distinct clean server identifiers,
  categories that refer to them with distinct names and tags, ordered rules with keywords,
  intervals within bounds.\<close>

theorem normalized_config_wf:
  assumes "normalize_loaded_file_config url cfg = Some (Inr out)"
  shows "config_wf url out"
proof -
  obtain servers categories rules where
    servers: "normalize_qb_servers_from url [] (cfg_qb_servers cfg) = Some (Inr servers)"
    and categories: "normalize_subscription_categories (cfg_categories cfg) servers = Inr categories"
    and rules: "normalize_torrent_match_rules (cfg_match_rules cfg) = Inr rules"
    and out: "out = cfg\<lparr>cfg_qb_servers := servers, cfg_categories := categories,
          cfg_watcher := normalize_subscription_watcher (cfg_watcher cfg), cfg_match_rules := rules\<rparr>"
    and valid: "validate_config url out = Inr ()"
    using assms by (auto simp: normalize_loaded_Inr normalize_qb_servers_def)
  note normal = normalize_qb_servers_normal [OF servers]
  have "categories_valid (server_ids_of servers) [] [] 1 categories"
    using categories normalize_categories_valid [OF default_server_id_trimmed]
    unfolding normalize_subscription_categories_def by blast
  from categories_valid_distinct [OF this] server_ids_of_normal [of url servers] normal
  have "cat_qb_server_id ` set categories \<subseteq> qbs_id ` set servers \<and>
      distinct (map cat_name categories) \<and> distinct (map cat_wanted_tag categories)"
    by blast
  with normal rules_wf [OF rules] valid show ?thesis
    by (simp add: config_wf_def out normalized_watcher_wf)
qed

theorem normalized_config_wf_witness: "config_wf sample_url normal_config"
  by (rule normalized_config_wf [OF sample_normalized])

text \<open>A normalized configuration is a fixed point of normalization, so a file written back by the
  normalization is not rewritten at the next start.\<close>

theorem normalized_config_stable:
  assumes "normalize_loaded_file_config url cfg = Some (Inr out)"
  shows "normalize_loaded_file_config url out = Some (Inr out)"
  using assms by (rule normalize_loaded_idem)

theorem normalized_config_stable_witness:
  "normalize_loaded_file_config sample_url normal_config = Some (Inr normal_config)"
  by (rule normalized_config_stable [OF sample_normalized])

subsection \<open>Exposure\<close>

text \<open>A validated configuration that listens beyond the loopback interface has an administration
  token of at least 24 characters.\<close>

theorem exposed_config_needs_token:
  assumes "validate_config url cfg = Inr ()" and "listen_addr cfg = Inr (ip, port)"
    and "\<not> is_loopback ip"
  shows "24 \<le> char_count (str_trim (mgmt_admin_token (cfg_management cfg)))"
  using assms
  by (auto simp: validate_config_def validate_management_def is_blank_def Let_def not_less
      split: if_splits)

definition exposed_config :: file_config where
  "exposed_config = default_config\<lparr>cfg_listen_ip := ''0.0.0.0'',
     cfg_management := default_management\<lparr>mgmt_admin_token := replicate 24 CHR ''x''\<rparr>\<rparr>"

lemma exposed_token:
  "str_trim (replicate 24 CHR ''x'') = replicate 24 CHR ''x''"
  "char_count (replicate 24 CHR ''x'') = 24"
proof -
  have "visible CHR ''x''" by (simp add: visible_def)
  then have visible: "list_all visible (replicate n CHR ''x'')" for n
    by (simp add: list_all_iff)
  show "str_trim (replicate 24 CHR ''x'') = replicate 24 CHR ''x''"
    by (rule str_trim_visible) (rule visible)
  show "char_count (replicate 24 CHR ''x'') = 24"
    unfolding char_count_def char_chunks_visible [OF visible] by (simp only: length_map length_replicate)
qed

lemma exposed_address: "listen_addr exposed_config = Inr (V4 [0, 0, 0, 0], 8787)"
proof -
  have "str_trim ''0.0.0.0'' = ''0.0.0.0''" "parse_ip_addr ''0.0.0.0'' = Some (V4 [0, 0, 0, 0])"
    by code_simp+
  then show ?thesis by (simp add: listen_addr_def exposed_config_def default_config_def)
qed

theorem exposed_config_needs_token_witness:
  "24 \<le> char_count (str_trim (mgmt_admin_token (cfg_management exposed_config)))"
proof (rule exposed_config_needs_token [OF _ exposed_address])
  show "validate_config sample_url exposed_config = Inr ()"
    unfolding validate_config_def exposed_address
    by (simp add: validate_management_def exposed_token is_blank_def exposed_config_def
        default_management_def Let_def)
  show "\<not> is_loopback (V4 [0, 0, 0, 0])" by simp
qed

end
