(* ===== verification/Config_Manager.thy ===== *)
theory Config_Manager
  imports Config_Theorems
begin

text \<open>
  Properties of the configuration file and of \<open>ConfigManager\<close> over histories of updates: what
  a crash may leave on disk, that the original of a rewritten file survives, that a second
  start writes nothing, and that no update is lost.
\<close>

subsection \<open>Writing\<close>

text \<open>On a quiet operating system the writes succeed.\<close>

lemma quiet_atomic_write:
  assumes "d (temp_path quiet_os p 0) = None"
  shows "\<exists>trace. atomic_write_secret quiet_os p bytes d = (Inr (), trace)"
proof -
  have "create_secret_temp_file quiet_os p d =
      (Inr (temp_path quiet_os p 0), [d(temp_path quiet_os p 0 \<mapsto> written [])])"
    using assms
    by (simp add: create_secret_temp_file_def eval_nat_numeral open_new_secret_def quiet_os_def
        written_def Let_def)
  then show ?thesis
    by (simp add: atomic_write_secret_def io_bind_def io_context_def write_and_rename_def
        write_all_def rename_file_def quiet_os_def)
qed

lemma quiet_backup:
  assumes "d p = Some f" and "d (backup_path quiet_os p 0) = None"
  shows "create_timestamped_backup quiet_os p d =
     (Inr (backup_path quiet_os p 0),
      [d(backup_path quiet_os p 0 \<mapsto> written []),
       d(backup_path quiet_os p 0 \<mapsto> written (file_bytes f))])"
proof -
  have "write_new_secret_file quiet_os (backup_path quiet_os p 0) (file_bytes f) d =
      (Inr (), [d(backup_path quiet_os p 0 \<mapsto> written []),
        d(backup_path quiet_os p 0 \<mapsto> written (file_bytes f))])"
    using assms(2)
    by (simp add: write_new_secret_file_def open_new_secret_def io_bind_def write_all_def
        quiet_os_def written_def)
  moreover have "os_read quiet_os q = None" "os_sync_parent quiet_os = None" for q
    by (simp_all add: quiet_os_def)
  ultimately have "backup_from 100 quiet_os p (file_bytes f) 0 d =
     (Inr (backup_path quiet_os p 0),
      [d(backup_path quiet_os p 0 \<mapsto> written []),
       d(backup_path quiet_os p 0 \<mapsto> written (file_bytes f))])"
    by (simp add: eval_nat_numeral Let_def io_bind_def read_file_def) (simp add: written_def)
  with assms(1) show ?thesis
    by (simp add: create_timestamped_backup_def io_bind_def io_context_def read_file_def
        quiet_os_def)
qed

lemma sample_disk_simps [simp]:
  "sample_disk sample_path = Some \<lparr>file_bytes = ''a'', file_secret = False\<rparr>"
  "sample_disk (temp_path os sample_path k) = None"
  "sample_disk (backup_path os sample_path k) = None"
  "temp_path os sample_path k \<noteq> backup_path os' sample_path k'"
  by (simp_all add: sample_disk_def temp_path_def backup_path_def sample_path_def)

lemmas sample_disk_temp = sample_disk_simps(2) [of quiet_os 0]

lemma sample_env_simps [simp]:
  "ce_url sample_config_env = sample_url" "ce_os sample_config_env = quiet_os"
  "ce_path sample_config_env = sample_path"
  by (simp_all add: sample_config_env_def)

lemma sample_configs_differ [simp]: "sample_config \<noteq> normal_config" "sample_config \<noteq> default_config"
  "normal_config \<noteq> default_config" "normal_config \<noteq> sample_config"
  by (simp_all add: sample_config_def normal_config_def default_config_def sample_server_def)

lemma sample_toml:
  "toml_print (ce_toml sample_config_env) sample_config = Inr ''a''"
  "toml_print (ce_toml sample_config_env) normal_config = Inr ''b''"
  "toml_print (ce_toml sample_config_env) default_config = Inr ''c''"
  "toml_parse (ce_toml sample_config_env) ''a'' = Inr sample_config"
  using sample_configs_differ
  by (simp_all add: sample_config_env_def table_toml_def del: sample_configs_differ)

lemma sample_toml_law: "toml_roundtrip (ce_toml sample_config_env)"
  by (simp add: sample_config_env_def table_toml_roundtrip)

lemma sample_persist:
  "\<exists>trace. persist_normalized_if_changed sample_config_env sample_config normal_config sample_disk =
     (Inr (Some (backup_path quiet_os sample_path 0)), trace) \<and> trace \<noteq> []"
proof -
  let ?b = "backup_path quiet_os sample_path 0"
  let ?d = "sample_disk(?b \<mapsto> written ''a'')"
  obtain trace where "atomic_write_secret quiet_os sample_path ''b'' ?d = (Inr (), trace)"
    using quiet_atomic_write [of ?d sample_path] by auto
  moreover have "create_timestamped_backup quiet_os sample_path sample_disk =
      (Inr ?b, [sample_disk(?b \<mapsto> written []), ?d])"
    using quiet_backup [of sample_disk sample_path] by simp
  ultimately show ?thesis
    by (simp add: persist_normalized_if_changed_def io_bind_def io_context_def serialize_config_def
        sample_toml loopback_validates)
qed

text \<open>C23.
  The atomic write never tears the file: on every disk it passes through the file is the old
  one or the new one, in the end the new one exactly if the write succeeded, and no other
  file that existed is touched.\<close>

theorem config_write_is_atomic:
  assumes "atomic_write_secret os p bytes d = (r, trace)"
  shows "(\<lambda>d'. d' p) ` set trace \<subseteq> {d p, Some (written bytes)} \<and>
     final_disk d trace p = (if r = Inr () then Some (written bytes) else d p) \<and>
     (\<forall>d' \<in> set trace. \<forall>q. q \<noteq> p \<longrightarrow> d q \<noteq> None \<longrightarrow> d' q = d q)"
  using atomic_write [OF assms] by (auto simp del: split_paired_All)

theorem config_write_is_atomic_witness:
  "\<exists>trace. atomic_write_secret quiet_os sample_path ''b'' sample_disk = (Inr (), trace) \<and>
     final_disk sample_disk trace sample_path = Some (written ''b'')"
proof -
  obtain trace where run: "atomic_write_secret quiet_os sample_path ''b'' sample_disk = (Inr (), trace)"
    using quiet_atomic_write sample_disk_temp by blast
  from config_write_is_atomic [OF run] run show ?thesis by auto
qed

text \<open>Rewriting a file in normalized form never loses the original text: on every disk it passes
  through, the file itself or a backup beside it holds it.\<close>

theorem original_config_survives:
  assumes "persist_normalized_if_changed env original normalized d = (r, trace)"
    and "d (ce_path env) = Some f" and "d' \<in> set trace"
  shows "file_bytes f \<in> file_bytes ` ran d'"
proof -
  have "d' (ce_path env) = Some f \<or>
      (\<exists>b. b \<noteq> ce_path env \<and> d' b = Some (written (file_bytes f)))"
    using assms by (rule original_survives)
  then have "\<exists>q g. d' q = Some g \<and> file_bytes g = file_bytes f"
    unfolding written_def by (metis disk_file.select_convs(1))
  then show ?thesis by (metis ranI image_eqI)
qed

theorem original_config_survives_witness:
  "\<exists>r trace. persist_normalized_if_changed sample_config_env sample_config normal_config sample_disk =
     (r, trace) \<and> trace \<noteq> [] \<and> (\<forall>d' \<in> set trace. ''a'' \<in> file_bytes ` ran d')"
proof -
  obtain r trace where run: "persist_normalized_if_changed sample_config_env sample_config
      normal_config sample_disk = (r, trace)" and "trace \<noteq> []"
    using sample_persist by blast
  moreover have "''a'' \<in> file_bytes ` ran d'" if "d' \<in> set trace" for d'
    using original_config_survives [OF run _ that] by simp
  ultimately show ?thesis by blast
qed

subsection \<open>Starting again\<close>

text \<open>After a start that loaded a configuration, a start on the disk it left loads the same
  configuration and writes nothing.\<close>

theorem restart_writes_nothing:
  assumes "toml_roundtrip (ce_toml env)"
    and "load_normalized_file_config env d = Some (Inr cfg, trace)"
    and "os_read os' (ce_path env) = None"
  shows "load_normalized_file_config (env\<lparr>ce_os := os'\<rparr>) (final_disk d trace) = Some (Inr cfg, [])"
proof -
  let ?env = "env\<lparr>ce_os := os'\<rparr>"
  note loaded = load_normalized_Inr [OF assms(1,2)]
  then have "validate_config (ce_url env) cfg = Inr ()"
    by (auto simp: normalize_loaded_Inr)
  with loaded assms(3) have "load_or_create ?env (final_disk d trace) = (Inr cfg, [])"
    by (intro load_on_disk) (auto simp: on_disk_def)
  with loaded show ?thesis
    by (simp add: load_normalized_file_config_def persist_normalized_if_changed_def io_bind_def)
qed

lemma sample_load:
  "\<exists>trace. load_normalized_file_config sample_config_env sample_disk = Some (Inr normal_config, trace)"
proof -
  have "load_or_create sample_config_env sample_disk = (Inr sample_config, [])"
    by (rule load_on_disk)
      (simp_all add: on_disk_def sample_toml loopback_validates, simp add: quiet_os_def)
  with sample_persist show ?thesis
    by (auto simp: load_normalized_file_config_def sample_normalized io_bind_def)
qed

theorem restart_writes_nothing_witness:
  "\<exists>trace. load_normalized_file_config sample_config_env sample_disk = Some (Inr normal_config, trace) \<and>
     load_normalized_file_config (sample_config_env\<lparr>ce_os := quiet_os\<rparr>) (final_disk sample_disk trace) =
       Some (Inr normal_config, [])"
proof -
  obtain trace where load: "load_normalized_file_config sample_config_env sample_disk =
      Some (Inr normal_config, trace)"
    using sample_load by blast
  have "os_read quiet_os (ce_path sample_config_env) = None" by (simp add: quiet_os_def)
  from restart_writes_nothing [OF sample_toml_law load this] load show ?thesis by blast
qed

subsection \<open>Histories of updates\<close>

record config_change =
  change_os :: os_env
  change_executor :: "string option"
  change_expected :: "u64 option"
  change_mutate :: "file_config \<Rightarrow> string + file_config"

definition change_outcome ::
  "config_env \<Rightarrow> config_change \<Rightarrow> config_snapshot \<Rightarrow> disk
    \<Rightarrow> (config_update_error + config_snapshot) \<times> config_snapshot \<times> disk list" where
  "change_outcome env c =
     manager_update (env\<lparr>ce_os := change_os c\<rparr>) (change_executor c) (change_expected c)
       (change_mutate c)"

text \<open>The state in memory after a sequence of updates, and the disks it passed through\<close>

fun run_changes ::
  "config_env \<Rightarrow> config_change list \<Rightarrow> config_snapshot \<Rightarrow> disk \<Rightarrow> config_snapshot \<times> disk list" where
  "run_changes env [] s d = (s, [])"
| "run_changes env (c # cs) s d =
     (let (_, s', trace) = change_outcome env c s d;
          (s'', trace') = run_changes env cs s' (final_disk d trace)
      in (s'', trace @ trace'))"

text \<open>What one update does, whatever it returns\<close>

lemma manager_update_cases:
  assumes run: "manager_update env executor expected mutate s d = (r, s', trace)"
  obtains (quiet) "s' = s" "trace = []"
  | (refused) e cfg where "s' = s" "save_config env cfg d = (Inl e, trace)"
  | (changed) cfg where "s' = \<lparr>snapshot_revision = saturating_add (snapshot_revision s) 1, snapshot_value = cfg\<rparr>"
      "save_config env cfg d = (Inr (), trace)" "r = Inr s'"
      "expected = None \<or> expected = Some (snapshot_revision s)" "cfg \<noteq> snapshot_value s"
proof -
  consider "manager_apply env executor mutate s d = (r, s', trace)"
      "expected = None \<or> expected = Some (snapshot_revision s)"
    | "s' = s" "trace = []"
    using run by (auto simp: manager_update_def split: option.splits if_splits)
  then show thesis
  proof cases
    case 1
    then show thesis
      using quiet refused changed
      by (auto simp: manager_apply_def Let_def split: sum.splits if_splits option.splits prod.splits)
  qed (use quiet in auto)
qed

definition in_sync :: "config_env \<Rightarrow> config_snapshot \<Rightarrow> disk \<Rightarrow> bool" where
  "in_sync env s d \<longleftrightarrow> on_disk env d (snapshot_value s) \<and>
     validate_config (ce_url env) (snapshot_value s) = Inr ()"

text \<open>The disk holds some validated configuration.\<close>

definition loadable :: "config_env \<Rightarrow> disk \<Rightarrow> bool" where
  "loadable env d \<longleftrightarrow> (\<exists>cfg. on_disk env d cfg \<and> validate_config (ce_url env) cfg = Inr ())"

lemma on_disk_same: "d' (ce_path env) = d (ce_path env) \<Longrightarrow> on_disk env d' cfg = on_disk env d cfg"
  by (simp add: on_disk_def)

lemma saved_loadable:
  assumes law: "toml_roundtrip (ce_toml env)" and save: "save_config env cfg d = (r, trace)"
    and ok: "loadable env d" and visited: "d' \<in> set trace"
  shows "loadable env d'"
proof -
  consider "trace = []"
    | raw where "toml_print (ce_toml env) cfg = Inr raw" "validate_config (ce_url env) cfg = Inr ()"
        "atomic_write_secret (ce_os env) (ce_path env) raw d = (r, trace)"
    using save
    by (auto simp: save_config_def io_bind_def serialize_config_def split: sum.splits prod.splits)
  then show ?thesis
  proof cases
    case (2 raw)
    then have "d' (ce_path env) = d (ce_path env) \<or> d' (ce_path env) = Some (written raw)"
      using atomic_write visited by blast
    then show ?thesis
    proof
      assume "d' (ce_path env) = d (ce_path env)"
      with ok show ?thesis by (simp add: loadable_def on_disk_def)
    next
      assume "d' (ce_path env) = Some (written raw)"
      with 2 law show ?thesis
        by (auto simp: loadable_def on_disk_def toml_roundtrip_def written_def)
    qed
  qed (use visited in simp)
qed

lemma change_in_sync:
  assumes law: "toml_roundtrip (ce_toml env)" and sync: "in_sync env s d"
    and run: "change_outcome env c s d = (r, s', trace)"
  shows "in_sync env s' (final_disk d trace)" and "\<forall>d' \<in> set trace. loadable env d'"
proof -
  let ?env = "env\<lparr>ce_os := change_os c\<rparr>"
  have same: "loadable ?env = loadable env" "on_disk ?env = on_disk env"
    by (simp_all add: loadable_def on_disk_def fun_eq_iff)
  have ok: "loadable ?env d" using sync same by (auto simp: in_sync_def loadable_def)
  have law': "toml_roundtrip (ce_toml ?env)" using law by simp
  have run': "manager_update ?env (change_executor c) (change_expected c) (change_mutate c) s d = (r, s', trace)"
    using run by (simp add: change_outcome_def)
  show "in_sync env s' (final_disk d trace)"
    using run'
  proof (cases rule: manager_update_cases)
    case (refused e cfg)
    with save_config_Inl [OF refused(2)] sync show ?thesis
      by (simp add: in_sync_def on_disk_def)
  next
    case (changed cfg)
    with saved_on_disk [OF law' changed(2)] save_config_Inr [OF changed(2)] same show ?thesis
      by (auto simp: in_sync_def)
  qed (use sync in simp)
  show "\<forall>d' \<in> set trace. loadable env d'"
    using run'
  proof (cases rule: manager_update_cases)
    case (refused e cfg)
    with saved_loadable [OF law' refused(2) ok] same show ?thesis by simp
  next
    case (changed cfg)
    with saved_loadable [OF law' changed(2) ok] same show ?thesis by simp
  qed simp
qed

lemma changes_survive:
  assumes "toml_roundtrip (ce_toml env)" and "in_sync env s d"
    and "run_changes env changes s d = (s', trace)"
  shows "in_sync env s' (final_disk d trace) \<and> set trace \<subseteq> {d'. loadable env d'}"
  using assms(2,3)
proof (induction changes arbitrary: s d s' trace)
  case (Cons c cs)
  obtain r s1 t1 where first: "change_outcome env c s d = (r, s1, t1)"
    by (cases "change_outcome env c s d") auto
  obtain s2 t2 where rest: "run_changes env cs s1 (final_disk d t1) = (s2, t2)" by fastforce
  have result: "s' = s2" "trace = t1 @ t2" using Cons.prems(2) first rest by simp_all
  from Cons.IH [OF change_in_sync(1) [OF assms(1) Cons.prems(1) first] rest]
    change_in_sync(2) [OF assms(1) Cons.prems(1) first]
  show ?case by (auto simp: result)
qed simp

lemma changes_in_sync:
  "toml_roundtrip (ce_toml env) \<Longrightarrow> in_sync env s d \<Longrightarrow> run_changes env cs s d = (s', trace) \<Longrightarrow>
     in_sync env s' (final_disk d trace)"
  using changes_survive by blast

text \<open>Whatever sequence of updates runs, with whatever failures of the disk, the file and the
  memory agree at its end, and a crash at any moment leaves a validated configuration on disk.\<close>

theorem config_survives_crashes:
  assumes "toml_roundtrip (ce_toml env)" and "in_sync env s d"
    and "run_changes env changes s d = (s', trace)"
  shows "in_sync env s' (final_disk d trace) \<and> set trace \<subseteq> {d'. loadable env d'}"
  by (rule changes_survive [OF assms])

text \<open>Two updates that expect the first revision\<close>

definition sample_change :: "file_config \<Rightarrow> config_change" where
  "sample_change cfg = \<lparr>change_os = quiet_os, change_executor = None, change_expected = Some 1,
     change_mutate = (\<lambda>_. Inr cfg)\<rparr>"

lemma sample_change_runs:
  "\<exists>trace. change_outcome sample_config_env (sample_change default_config) (manager_new sample_config)
     sample_disk = (Inr \<lparr>snapshot_revision = 2, snapshot_value = default_config\<rparr>,
       \<lparr>snapshot_revision = 2, snapshot_value = default_config\<rparr>, trace)"
proof -
  obtain trace where "atomic_write_secret quiet_os sample_path ''c'' sample_disk = (Inr (), trace)"
    using quiet_atomic_write sample_disk_temp by blast
  then have "save_config sample_config_env default_config sample_disk = (Inr (), trace)"
    by (simp add: save_config_def io_bind_def serialize_config_def sample_toml loopback_validates)
  then show ?thesis
    using sample_configs_differ
    by (simp add: change_outcome_def sample_change_def manager_update_def manager_apply_def
        manager_new_def loopback_validates saturating_add_def Let_def save_config_def
        serialize_config_def io_bind_def sample_toml del: sample_configs_differ)
qed

theorem config_survives_crashes_witness:
  "\<exists>s' trace. run_changes sample_config_env
       [sample_change default_config, sample_change normal_config] (manager_new sample_config) sample_disk =
       (s', trace) \<and> in_sync sample_config_env s' (final_disk sample_disk trace)"
proof -
  obtain s' trace where run: "run_changes sample_config_env
       [sample_change default_config, sample_change normal_config] (manager_new sample_config) sample_disk =
       (s', trace)"
    by fastforce
  have "in_sync sample_config_env (manager_new sample_config) sample_disk"
    by (simp add: in_sync_def on_disk_def sample_toml loopback_validates manager_new_def)
  from config_survives_crashes [OF sample_toml_law this run] run show ?thesis by blast
qed

lemma revision_grows:
  assumes "change_outcome env c s d = (r, s', trace)"
  shows "s' = s \<or> snapshot_revision s' = saturating_add (snapshot_revision s) 1"
  using assms unfolding change_outcome_def
  by (cases rule: manager_update_cases) auto

lemma revisions_grow:
  "run_changes env cs s d = (s', trace) \<Longrightarrow> snapshot_revision s \<le> snapshot_revision s'"
proof (induction cs arbitrary: s d s' trace)
  case (Cons c cs)
  obtain r s1 t1 where first: "change_outcome env c s d = (r, s1, t1)"
    by (cases "change_outcome env c s d") auto
  obtain s2 t2 where rest: "run_changes env cs s1 (final_disk d t1) = (s2, t2)" by fastforce
  have "snapshot_revision s \<le> snapshot_revision s1"
    using revision_grows [OF first] uint_lt2p [of "snapshot_revision s"]
    by (auto simp: word_le_def uint_saturating_add)
  with Cons.IH [OF rest] Cons.prems first rest show ?case by simp
qed simp

text \<open>The changes that were accepted, in the order they held the update gate, and what one does to the
  configuration it finds\<close>

fun accepted_changes ::
  "config_env \<Rightarrow> config_change list \<Rightarrow> config_snapshot \<Rightarrow> disk \<Rightarrow> config_change list" where
  "accepted_changes env [] s d = []"
| "accepted_changes env (c # cs) s d =
     (let (r, s', trace) = change_outcome env c s d
      in (case r of Inl _ \<Rightarrow> [] | Inr _ \<Rightarrow> [c]) @ accepted_changes env cs s' (final_disk d trace))"

definition changed_config :: "file_config \<Rightarrow> config_change \<Rightarrow> file_config" where
  "changed_config cfg c = (case change_mutate c cfg of Inl _ \<Rightarrow> cfg | Inr cfg' \<Rightarrow> cfg')"

lemma change_effect:
  assumes "change_outcome env c s d = (r, s', trace)"
  shows "snapshot_value s' = (case r of Inl _ \<Rightarrow> snapshot_value s | Inr _ \<Rightarrow> changed_config (snapshot_value s) c)"
  using assms unfolding change_outcome_def manager_update_def manager_apply_def changed_config_def Let_def
  by (auto split: option.splits sum.splits if_splits prod.splits)

lemma accepted_fold:
  "run_changes env cs s d = (s', trace) \<Longrightarrow>
     snapshot_value s' = foldl changed_config (snapshot_value s) (accepted_changes env cs s d)"
proof (induction cs arbitrary: s d s' trace)
  case (Cons c cs)
  obtain r s1 t1 where first: "change_outcome env c s d = (r, s1, t1)"
    by (cases "change_outcome env c s d") auto
  obtain s2 t2 where rest: "run_changes env cs s1 (final_disk d t1) = (s2, t2)" by fastforce
  from Cons.IH [OF rest] change_effect [OF first] Cons.prems first rest show ?case
    by (cases r) simp_all
qed simp

text \<open>Until the revision saturates, a state with the same revision is the same state.\<close>

lemma same_revision:
  "run_changes env cs s d = (s', trace) \<Longrightarrow> snapshot_revision s' = snapshot_revision s \<Longrightarrow>
     snapshot_revision s \<noteq> - 1 \<Longrightarrow> s' = s"
proof (induction cs arbitrary: s d s' trace)
  case (Cons c cs)
  obtain r s1 t1 where first: "change_outcome env c s d = (r, s1, t1)"
    by (cases "change_outcome env c s d") auto
  obtain s2 t2 where rest: "run_changes env cs s1 (final_disk d t1) = (s2, t2)" by fastforce
  have s2: "s' = s2" using Cons.prems(1) first rest by simp
  show ?case
  proof (cases "s1 = s")
    case True
    with Cons.IH [OF rest] Cons.prems s2 show ?thesis by simp
  next
    case False
    then have "snapshot_revision s1 = saturating_add (snapshot_revision s) 1"
      using revision_grows [OF first] by simp
    moreover have "uint (snapshot_revision s) < 2 ^ 64 - 1"
      using Cons.prems(3) uint_lt2p [of "snapshot_revision s"] by (simp add: word_uint_eq_iff uint_max_word)
    ultimately have "uint (snapshot_revision s) < uint (snapshot_revision s1)" by (simp add: uint_saturating_add)
    with revisions_grow [OF rest] Cons.prems(2) s2 show ?thesis by (simp add: word_le_def)
  qed
qed simp

text \<open>C24.
  No update is lost. However many updates run, in the order in which they hold the update gate and
  with whatever failures of the disk, the published configuration is the one that the accepted updates
  make of the first, each applied to the result of the one before, and it is the configuration on
  disk. An update that expects the first revision is refused once the configuration has changed, and
  changes neither memory nor disk.\<close>

theorem no_lost_config_update:
  assumes "toml_roundtrip (ce_toml env)" and "in_sync env s d"
    and "run_changes env changes s d = (s', trace)"
  shows "snapshot_value s' = foldl changed_config (snapshot_value s) (accepted_changes env changes s d) \<and>
    on_disk env (final_disk d trace) (snapshot_value s') \<and>
    (snapshot_value s' \<noteq> snapshot_value s \<and> snapshot_revision s \<noteq> - 1 \<longrightarrow>
      (\<forall>late d'. change_expected late = Some (snapshot_revision s) \<longrightarrow>
        change_outcome env late s' d' = (Inl (Stale (snapshot_revision s) (snapshot_revision s')), s', [])))"
proof (intro conjI impI allI)
  show "snapshot_value s' = foldl changed_config (snapshot_value s) (accepted_changes env changes s d)"
    by (rule accepted_fold [OF assms(3)])
  show "on_disk env (final_disk d trace) (snapshot_value s')"
    using changes_in_sync [OF assms] by (simp add: in_sync_def)
next
  fix late :: config_change and d'
  assume moved: "snapshot_value s' \<noteq> snapshot_value s \<and> snapshot_revision s \<noteq> - 1"
    and "change_expected late = Some (snapshot_revision s)"
  moreover have "snapshot_revision s \<noteq> snapshot_revision s'"
    using same_revision [OF assms(3)] moved by metis
  ultimately show "change_outcome env late s' d' =
      (Inl (Stale (snapshot_revision s) (snapshot_revision s')), s', [])"
    by (simp add: change_outcome_def manager_update_def)
qed

text \<open>Two updates that expect the same revision: the first is accepted, the second is not.\<close>

theorem no_lost_config_update_witness:
  "\<exists>s' trace. run_changes sample_config_env [sample_change default_config, sample_change normal_config]
       (manager_new sample_config) sample_disk = (s', trace) \<and>
     snapshot_value s' = default_config \<and>
     on_disk sample_config_env (final_disk sample_disk trace) default_config"
proof -
  let ?s1 = "\<lparr>snapshot_revision = 2, snapshot_value = default_config\<rparr>"
  obtain t1 where first: "change_outcome sample_config_env (sample_change default_config)
      (manager_new sample_config) sample_disk = (Inr ?s1, ?s1, t1)"
    using sample_change_runs by blast
  have second: "change_outcome sample_config_env (sample_change normal_config) ?s1 (final_disk sample_disk t1) =
      (Inl (Stale 1 2), ?s1, [])"
    by (simp add: change_outcome_def sample_change_def manager_update_def)
  have run: "run_changes sample_config_env [sample_change default_config, sample_change normal_config]
       (manager_new sample_config) sample_disk = (?s1, t1)"
    by (simp add: first second)
  have "accepted_changes sample_config_env [sample_change default_config, sample_change normal_config]
       (manager_new sample_config) sample_disk = [sample_change default_config]"
    by (simp add: first second)
  moreover have "in_sync sample_config_env (manager_new sample_config) sample_disk"
    by (simp add: in_sync_def on_disk_def sample_toml loopback_validates manager_new_def)
  ultimately show ?thesis
    using no_lost_config_update [OF sample_toml_law _ run] run
    by (auto simp: changed_config_def sample_change_def)
qed

end
