(* ===== verification/Redaction.thy ===== *)
theory Redaction
  imports Config_Model
begin

text \<open>
  \<open>src/app/redaction.rs\<close>: the redactor of diagnostics. It removes user information and secret
  query values from every URL in a text, then the configured secrets, and bounds the result.
\<close>

definition redacted_mark :: string where
  "redacted_mark = ''[REDACTED]''"

definition max_diagnostic_chars :: nat where
  "max_diagnostic_chars = 1000"

subsection \<open>Configured secrets\<close>

text \<open>\<open>SubscriptionDiagnosticRedactor\<close> is its list of secrets.\<close>

type_synonym redactor = "string list"

definition add_configured_secret :: "string \<Rightarrow> string list" where
  "add_configured_secret value =
     (let t = str_trim value in
      (if value \<noteq> [] then [value] else []) @ (if t \<noteq> [] \<and> t \<noteq> value then [t] else []))"

definition cookie_secret :: "string \<Rightarrow> string list" where
  "cookie_secret component =
     (case split_once CHR ''='' component of
        None \<Rightarrow> []
      | Some (_, value) \<Rightarrow>
          (let v = trim_matches CHR 0x22 (str_trim value) in
           if 4 \<le> char_count v then [v] else []))"

definition secret_order :: "string \<Rightarrow> int \<times> string" where
  "secret_order s = (- int (length s), s)"

definition redactor_from_config :: "file_config \<Rightarrow> redactor" where
  "redactor_from_config cfg =
     remdups_adj (sort_key secret_order
       (concat (map add_configured_secret
          ([cfg_tmdb_api_key cfg, cfg_mteam_api_key cfg, cfg_douban_cookie cfg,
            mgmt_admin_token (cfg_management cfg)] @ map qbs_password (cfg_qb_servers cfg))) @
        concat (map cookie_secret (split_char CHR '';'' (cfg_douban_cookie cfg)))))"

text \<open>
  The loop of \<open>redact_configured_secrets\<close> on the text that remains. No secret is empty, so
  each round consumes at least one byte; the source takes a whole character where the model
  takes its bytes one by one, and no secret starts inside a character.
\<close>

function redact_secrets :: "string list \<Rightarrow> string \<Rightarrow> string" where
  "redact_secrets secrets [] = []"
| "redact_secrets secrets (c # s) =
     (case find (\<lambda>secret. has_prefix secret (c # s)) secrets of
        Some secret \<Rightarrow> redacted_mark @ redact_secrets secrets (drop (max 1 (length secret)) (c # s))
      | None \<Rightarrow> c # redact_secrets secrets s)"
  by pat_completeness auto
termination by (relation "measure (length \<circ> snd)") auto

subsection \<open>URLs\<close>

definition is_scheme_byte :: "char \<Rightarrow> bool" where
  "is_scheme_byte c \<longleftrightarrow> is_alphanumeric c \<or> c \<in> {CHR ''+'', CHR ''-'', CHR ''.''}"

fun scheme_back :: "string \<Rightarrow> nat \<Rightarrow> nat" where
  "scheme_back bytes 0 = 0"
| "scheme_back bytes (Suc n) = (if is_scheme_byte (bytes ! n) then scheme_back bytes n else Suc n)"

definition url_scheme_start :: "string \<Rightarrow> nat \<Rightarrow> nat option" where
  "url_scheme_start value delimiter =
     (let start = scheme_back value delimiter in
      if start < delimiter \<and> is_alpha (value ! start) then Some start else None)"

fun ends_url :: "string \<Rightarrow> bool" where
  "ends_url chunk \<longleftrightarrow> chunk_is_space chunk \<or>
     chunk \<in> {[CHR 0x22], [CHR 0x27], [CHR 0x3C], [CHR 0x3E]}"

definition url_end :: "string \<Rightarrow> nat \<Rightarrow> nat" where
  "url_end value start =
     start + length (concat (takeWhile (\<lambda>chunk. \<not> ends_url chunk) (char_chunks (drop start value))))"

fun trim_suffix_from :: "string \<Rightarrow> nat \<Rightarrow> nat \<Rightarrow> nat" where
  "trim_suffix_from value start 0 = 0"
| "trim_suffix_from value start (Suc n) =
     (if start < Suc n \<and> value ! n \<in> set '',.)]}'' then trim_suffix_from value start n else Suc n)"

definition trim_url_suffix :: "string \<Rightarrow> nat \<Rightarrow> nat \<Rightarrow> nat \<times> nat" where
  "trim_url_suffix value start end_at = (trim_suffix_from value start end_at, end_at)"

text \<open>\<open>percent_decode_ascii\<close>: a decoded byte becomes the character of that number.\<close>

fun percent_decode_ascii :: "string \<Rightarrow> string" where
  "percent_decode_ascii (a # b # c # s) =
     (if a = CHR 0x25 \<and> is_hexdigit b \<and> is_hexdigit c
      then utf8_char (int (hex_value b * 16 + hex_value c)) @ percent_decode_ascii s
      else a # percent_decode_ascii (b # c # s))"
| "percent_decode_ascii s = s"

definition secret_keys :: "string list" where
  "secret_keys =
     [''key'', ''apikey'', ''api_key'', ''passkey'', ''password'', ''passwd'', ''pwd'', ''secret'',
      ''client_secret'', ''token'', ''access_token'', ''refresh_token'', ''id_token'', ''auth'',
      ''authorization'', ''cookie'', ''session'', ''session_id'', ''signature'', ''sig'']"

definition compact_secret_keys :: "string list" where
  "compact_secret_keys =
     [''apikey'', ''passkey'', ''password'', ''clientsecret'', ''token'', ''accesstoken'',
      ''refreshtoken'', ''idtoken'', ''authtoken'', ''authorization'', ''sessionid'', ''signature'']"

definition is_secret_query_key :: "string \<Rightarrow> bool" where
  "is_secret_query_key key =
     (let normalized = map (\<lambda>c. if c = CHR ''-'' \<or> c = CHR ''.'' then CHR ''_'' else c)
            (to_ascii_lowercase (str_trim (percent_decode_ascii key)));
          compact = remove_char CHR ''_'' normalized in
      normalized \<in> set secret_keys \<or>
      has_suffix ''_key'' normalized \<or> has_suffix ''_token'' normalized \<or>
      has_suffix ''_secret'' normalized \<or> has_suffix ''_password'' normalized \<or>
      str_contains normalized ''credential'' \<or> str_contains normalized ''signature'' \<or>
      str_contains normalized ''authorization'' \<or>
      has_prefix ''x_amz_security_token'' normalized \<or>
      compact \<in> set compact_secret_keys \<or>
      has_suffix ''token'' compact \<or> has_suffix ''secret'' compact \<or> has_suffix ''password'' compact)"

definition redact_query_component :: "string \<Rightarrow> string" where
  "redact_query_component component =
     (case split_once CHR ''='' component of
        None \<Rightarrow> component
      | Some (key, _) \<Rightarrow>
          if is_secret_query_key key then key @ ''='' @ redacted_mark else component)"

text \<open>The components between \<open>&\<close> and \<open>;\<close>, the delimiters kept; the accumulator is the
  component being read.\<close>

fun redact_query_from :: "string \<Rightarrow> string \<Rightarrow> string" where
  "redact_query_from component [] = redact_query_component component"
| "redact_query_from component (c # s) =
     (if c = CHR ''&'' \<or> c = CHR '';''
      then redact_query_component component @ c # redact_query_from [] s
      else redact_query_from (component @ [c]) s)"

definition redact_query :: "string \<Rightarrow> string" where
  "redact_query query = redact_query_from [] query"

text \<open>The part of a text before the first byte with a property, and the rest\<close>

definition split_at :: "(char \<Rightarrow> bool) \<Rightarrow> string \<Rightarrow> string \<times> string" where
  "split_at p s = (takeWhile (\<lambda>c. \<not> p c) s, dropWhile (\<lambda>c. \<not> p c) s)"

definition redact_authority :: "string \<Rightarrow> string" where
  "redact_authority authority =
     (case rfind_byte ((=) CHR 0x40) authority of
        Some at \<Rightarrow> redacted_mark @ [CHR 0x40] @ drop (Suc at) authority
      | None \<Rightarrow> authority)"

definition redact_remainder :: "string \<Rightarrow> string" where
  "redact_remainder remainder =
     (case split_at ((=) CHR 0x3F) remainder of
        (_, []) \<Rightarrow> remainder
      | (path, mark # rest) \<Rightarrow>
          (let (query, fragment) = split_at ((=) CHR 0x23) rest
           in path @ [mark] @ redact_query query @ fragment))"

definition redact_url :: "string \<Rightarrow> string" where
  "redact_url value =
     (case str_find ''://'' value of
        None \<Rightarrow> value
      | Some offset \<Rightarrow>
          (let scheme_end = offset + 3;
               (authority, remainder) =
                 split_at (\<lambda>c. c \<in> {CHR 0x2F, CHR 0x3F, CHR 0x23}) (drop scheme_end value)
           in take scheme_end value @ redact_authority authority @ redact_remainder remainder))"

lemma str_find_url_room: "str_find ''://'' s = Some i \<Longrightarrow> i + 3 \<le> length s"
  using str_find_Some [of "''://''" s i] by (auto simp: has_prefix_iff dest: arg_cong [where f = length])

text \<open>
  The loop of \<open>redact_embedded_urls\<close>; \<open>search_from\<close> grows in every round, the measure is the
  text beyond it.
\<close>

function embedded_loop :: "string \<Rightarrow> nat \<Rightarrow> nat \<Rightarrow> string" where
  "embedded_loop value copied_until search_from =
     (case str_find ''://'' (drop search_from value) of
        None \<Rightarrow> drop copied_until value
      | Some offset \<Rightarrow>
          (let delimiter = search_from + offset in
           case url_scheme_start value delimiter of
             None \<Rightarrow> embedded_loop value copied_until (delimiter + 3)
           | Some start \<Rightarrow>
               (let end_at = url_end value (delimiter + 3);
                    (url_end_at, suffix_start) = trim_url_suffix value start end_at
                in take (start - copied_until) (drop copied_until value) @
                   redact_url (take (url_end_at - start) (drop start value)) @
                   take (suffix_start - url_end_at) (drop url_end_at value) @
                   embedded_loop value suffix_start suffix_start)))"
  by pat_completeness auto

termination embedded_loop
proof (relation "measure (\<lambda>(u :: string, _ :: nat, search_from :: nat). length u - search_from)", goal_cases)
  case (2 u copied_until search_from offset delimiter)
  then show ?case using str_find_url_room [OF 2(1)] by simp
next
  case (3 u copied_until search_from offset delimiter start end_at x url_end_at suffix_start)
  then show ?case
    using str_find_url_room [OF 3(1)] by (simp add: trim_url_suffix_def url_end_def)
qed simp

declare embedded_loop.simps [simp del]

definition redact_embedded_urls :: "string \<Rightarrow> string" where
  "redact_embedded_urls value = embedded_loop value 0 0"

subsection \<open>Redaction\<close>

definition redact :: "redactor \<Rightarrow> string \<Rightarrow> string" where
  "redact secrets value =
     take_chars max_diagnostic_chars
       (str_trim (redact_secrets secrets (redact_embedded_urls value)))"

definition redact_or :: "redactor \<Rightarrow> string \<Rightarrow> string \<Rightarrow> string" where
  "redact_or secrets value fallback =
     (let redacted = redact secrets value in if redacted = [] then fallback else redacted)"

end
