(* ===== verification/Poll_Service.thy ===== *)
theory Poll_Service
  imports Poll_Operations Redaction
begin

text \<open>
  The application service and the background worker of \<open>src/subscription/worker.rs\<close>: one poll
  of the wanted list from the open token to its terminal, and the worker's schedule. The
  source of the list and the clock are parameters; the repository is \<open>Poll_Operations\<close>.
\<close>

subsection \<open>The account behind a cookie\<close>

text \<open>\<open>normalize_cookie_header\<close>, \<open>has_auth_cookie\<close>, \<open>require_auth_cookie\<close>, \<open>cookie_value\<close> and
  \<open>auth_cache_key_fragment\<close> of \<open>src/douban.rs\<close>; a \<open>DoubanError\<close> is its message.\<close>

definition auth_cookie_name :: string where
  "auth_cookie_name = ''dbcl2''"

definition strip_prefix :: "string \<Rightarrow> string \<Rightarrow> string option" where
  "strip_prefix p s = (if has_prefix p s then Some (drop (length p) s) else None)"

definition normalize_cookie_header :: "string \<Rightarrow> string" where
  "normalize_cookie_header raw =
     (let v = str_trim raw;
          v = (case strip_prefix ''Cookie:'' v of
                 Some rest \<Rightarrow> str_trim rest
               | None \<Rightarrow> (case strip_prefix ''cookie:'' v of Some rest \<Rightarrow> str_trim rest | None \<Rightarrow> v))
      in join_with ''; '' (filter (\<lambda>part. part \<noteq> []) (map str_trim (split_char CHR '';'' v))))"

definition cookie_pairs :: "string \<Rightarrow> (string \<times> string) list" where
  "cookie_pairs header =
     List.map_filter (\<lambda>part. split_once CHR ''='' (str_trim part)) (split_char CHR '';'' header)"

definition has_auth_cookie :: "string \<Rightarrow> bool" where
  "has_auth_cookie header \<longleftrightarrow>
     (\<exists>(n, v) \<in> set (cookie_pairs header). str_trim n = auth_cookie_name \<and> str_trim v \<noteq> [])"

definition require_auth_cookie :: "string \<Rightarrow> string + string" where
  "require_auth_cookie header =
     (let normalized = normalize_cookie_header header in
      if normalized = [] then
        Inl ((utf8 [0x8BF7, 0x5148, 0x5728, 0x8BBE, 0x7F6E, 0x4E2D, 0x586B, 0x5199, 0x8C46,
            0x74E3]) @ '' Cookie'' @ (utf8 [0xFF0C, 0x6216, 0x7528]) @ '' QR '' @ (utf8 [0x767B, 0x5F55, 0x81EA, 0x52A8, 0x83B7, 0x53D6]))
      else if \<not> has_auth_cookie normalized then
        Inl ((utf8 [0x8C46, 0x74E3]) @ '' Cookie '' @ (utf8 [0x4E2D, 0x7F3A, 0x5C11]) @ '' '' @ auth_cookie_name @ (utf8 [0xFF0C, 0x8BF7, 0x91CD, 0x65B0, 0x586B, 0x5199, 0x6216]) @
             '' QR '' @ (utf8 [0x767B, 0x5F55]))
      else Inr normalized)"

definition cookie_value :: "string \<Rightarrow> string \<Rightarrow> string option" where
  "cookie_value header name =
     find_map (\<lambda>(n, v). if str_trim n = name then Some (str_trim v) else None) (cookie_pairs header)"

definition auth_cache_key_fragment :: "string \<Rightarrow> string + string" where
  "auth_cache_key_fragment header =
     and_then (require_auth_cookie header) (\<lambda>normalized.
     case cookie_value normalized auth_cookie_name of
       None \<Rightarrow> Inr ''current''
     | Some v \<Rightarrow>
         (let account_id = filter (\<lambda>c. is_alphanumeric c \<or> c = CHR ''_'' \<or> c = CHR ''-'')
                (hd (split_char CHR '':'' (trim_matches CHR 0x22 v)))
          in Inr (if account_id = [] then ''current'' else account_id)))"

subsection \<open>Snapshots of the source\<close>

datatype wanted_completeness = WantedComplete | WantedPartial

record wanted_metadata =
  wanted_completeness :: wanted_completeness
  wanted_fetched_pages :: u64
  wanted_truncated_by_limit :: bool
  wanted_end_observed :: bool

record wanted_item =
  item_subject_id :: string
  item_title :: string
  item_abstract_text :: string
  item_abstract_2 :: string
  item_cover_url :: string
  item_poster_url :: string
  item_date :: string
  item_tags :: "string list"

record wanted_snapshot =
  wanted_items :: "wanted_item list"
  wanted_meta :: wanted_metadata

definition metadata_is_complete :: "wanted_metadata \<Rightarrow> bool" where
  "metadata_is_complete m \<longleftrightarrow> wanted_completeness m = WantedComplete \<and> wanted_end_observed m"

definition douban_library_max_pages :: u64 where
  "douban_library_max_pages = 80"

datatype snapshot_terminal =
  TerminalComplete
| TerminalIncomplete incomplete_snapshot_observation

definition incomplete_observation :: "wanted_metadata \<Rightarrow> string + incomplete_snapshot_observation" where
  "incomplete_observation m =
     (if wanted_end_observed m
      then Inl ''an incomplete source snapshot cannot claim that its end was observed''
      else
        let reason = (if wanted_truncated_by_limit m then ItemLimitReached
                      else if douban_library_max_pages \<le> wanted_fetched_pages m
                      then MaximumPageCountReached else EndNotObserved) in
        if uint (wanted_fetched_pages m) > u32_max
        then Inl ''incomplete source snapshot page count exceeds the persisted range''
        else map_err display_error
               (incomplete_observation_try_new (ucast (wanted_fetched_pages m))
                  (wanted_truncated_by_limit m) (wanted_end_observed m) reason))"

definition validated_snapshot_terminal :: "wanted_metadata \<Rightarrow> string + snapshot_terminal" where
  "validated_snapshot_terminal m =
     (case wanted_completeness m of
        WantedComplete \<Rightarrow>
          if \<not> metadata_is_complete m
          then Inl ''a complete source snapshot must prove that its end was observed''
          else if wanted_truncated_by_limit m
          then Inl ''a complete source snapshot cannot also be truncated by the item limit''
          else Inr TerminalComplete
      | WantedPartial \<Rightarrow>
          and_then (incomplete_observation m) (\<lambda>ob. Inr (TerminalIncomplete ob)))"

subsection \<open>Records\<close>

text \<open>\<open>str::parse\<close> of ASCII digits into an integer of a given width\<close>

definition parse_unsigned :: "int \<Rightarrow> string \<Rightarrow> int option" where
  "parse_unsigned limit ds =
     (if ds \<noteq> [] \<and> list_all is_digit ds \<and> digits_value ds < limit then Some (digits_value ds) else None)"

definition douban_date_sort_key :: "string \<Rightarrow> u64 option" where
  "douban_date_sort_key raw =
     (let digits = filter is_digit raw in
      if length digits < 4 then None
      else map_option word_of_int (parse_unsigned (2 ^ 64) (take 14 digits)))"

definition release_year_from_text :: "string \<Rightarrow> u16 option" where
  "release_year_from_text s =
     find_map (\<lambda>digits.
        case parse_unsigned (2 ^ 16) digits of
          None \<Rightarrow> None
        | Some year \<Rightarrow> if 1888 \<le> year \<and> year \<le> 2200 then Some (word_of_int year) else None)
       (windows 4 s)"

definition release_year_from_item :: "wanted_item \<Rightarrow> u16 option" where
  "release_year_from_item item =
     find_map release_year_from_text
       [item_abstract_text item, item_abstract_2 item, item_date item]"

definition normalized_tags :: "string list \<Rightarrow> string list" where
  "normalized_tags tags = distinct_trimmed [] tags"

text \<open>\<open>WantedSourcePayload::default()\<close>\<close>

definition default_source :: wanted_source_payload where
  "default_source =
     \<lparr>src_title = [], src_detail_title = None, src_release_year = None, src_poster_url = [],
      src_cover_url = [], src_original_title = None, src_aka = [], src_languages = [],
      src_countries = [], src_genres = [], src_directors = [], src_actors = [],
      src_date_published = None, src_duration = None, src_summary = None, src_rating_value = None,
      src_rating_count = None, src_category_text = None, src_tags = [], src_douban_date = None,
      src_douban_sort_time = None, src_douban_return_order = None\<rparr>"

definition snapshot_source :: "wanted_item \<Rightarrow> nat \<Rightarrow> wanted_source_payload" where
  "snapshot_source item return_order =
     (let tags = normalized_tags (item_tags item); douban_date = non_empty (item_date item) in
      default_source\<lparr>src_title := str_trim (item_title item),
        src_release_year := release_year_from_item item,
        src_poster_url := str_trim (item_poster_url item),
        src_cover_url := str_trim (item_cover_url item),
        src_category_text := (case tags of [] \<Rightarrow> None | t # _ \<Rightarrow> Some t),
        src_tags := tags,
        src_douban_sort_time := Option.bind douban_date douban_date_sort_key,
        src_douban_date := douban_date,
        src_douban_return_order := Some (word_of_nat (min return_order 4294967295))\<rparr>)"

definition snapshot_record_of :: "wanted_item \<Rightarrow> nat \<Rightarrow> snapshot_record repository_result" where
  "snapshot_record_of item return_order =
     snapshot_record_try_new (item_subject_id item)
       (media_kind_from_tags (normalized_tags (item_tags item))) True None
       (snapshot_source item return_order)"

fun snapshot_records_from :: "nat \<Rightarrow> wanted_item list \<Rightarrow> snapshot_record list repository_result" where
  "snapshot_records_from index [] = Inr []"
| "snapshot_records_from index (item # items) =
     and_then (snapshot_record_of item index) (\<lambda>r.
     and_then (snapshot_records_from (Suc index) items) (\<lambda>rs. Inr (r # rs)))"

definition snapshot_records :: "wanted_item list \<Rightarrow> snapshot_record list repository_result" where
  "snapshot_records items = snapshot_records_from 0 items"

subsection \<open>One poll\<close>

datatype poll_error_kind = PollValidation | PollUpstream | PollConflict | PollUnavailable | PollInternal

record subscription_poll_error =
  perr_kind :: poll_error_kind
  perr_message :: string
  perr_next_poll_at :: "u64 option"

record subscription_poll_outcome =
  out_snapshot_id :: string
  out_snapshot_complete :: bool
  out_fetched_items :: nat
  out_inserted :: nat
  out_updated :: nat
  out_unchanged :: nat
  out_reactivated :: nat
  out_deactivated :: nat
  out_failure_count :: u32
  out_next_poll_at :: u64
  out_polled_at :: u64

definition poll_error_new :: "poll_error_kind \<Rightarrow> string \<Rightarrow> subscription_poll_error" where
  "poll_error_new kind message =
     \<lparr>perr_kind = kind, perr_message = message, perr_next_poll_at = None\<rparr>"

fun poll_error_kind_of :: "repository_error \<Rightarrow> poll_error_kind" where
  "poll_error_kind_of (StalePoll _ _ _) = PollConflict"
| "poll_error_kind_of (UnsupportedSchema _ _) = PollUnavailable"
| "poll_error_kind_of (Unavailable _) = PollUnavailable"
| "poll_error_kind_of _ = PollInternal"

definition poll_error_repository :: "repository_error \<Rightarrow> subscription_poll_error" where
  "poll_error_repository e = poll_error_new (poll_error_kind_of e) (display_error e)"

record subscription_poll_policy =
  poll_account_key :: string
  poll_cookie_header :: string
  poll_library_limit :: u64
  poll_interval_secs :: u64
  poll_new_record_policy :: new_record_policy
  poll_retry_policy_of :: poll_retry_policy
  poll_redactor :: redactor

text \<open>
  What a poll meets outside the program: the clock at its first and its second reading, the
  source's answer (an error is its message), the faults of the two transactions, and what
  the other clients of the repository did to it while the source answered.
\<close>

record poll_env =
  pe_started_at :: u64
  pe_answered_at :: u64
  pe_source :: "string \<Rightarrow> u64 \<Rightarrow> string + wanted_snapshot"
  pe_begin :: repo_env
  pe_end :: repo_env
  pe_meanwhile :: "database \<Rightarrow> database"

definition valid_poll_failure_message :: "string \<Rightarrow> string \<Rightarrow> string" where
  "valid_poll_failure_message message fallback =
     (let m = remove_char CHR 0x00 message in if is_blank m then fallback else m)"

type_synonym poll_result = "(subscription_poll_error + subscription_poll_outcome) \<times> database"

text \<open>\<open>persist_failure\<close> and \<open>fail_open_poll\<close>\<close>

definition persist_failure ::
  "poll_env \<Rightarrow> string \<Rightarrow> poll_attempt_token \<Rightarrow> u64 \<Rightarrow> string \<Rightarrow> poll_retry_policy \<Rightarrow> database
    \<Rightarrow> (subscription_poll_error + u64) \<times> database" where
  "persist_failure env account token at_time message retry db =
     (case record_poll_failure_command_try_new account token at_time message retry of
        Inl e \<Rightarrow> (Inl (poll_error_repository e), db)
      | Inr c \<Rightarrow>
          (let (r, db') = record_poll_failure (pe_end env) c db
           in (map_err poll_error_repository (and_then r (\<lambda>x. Inr (rpfr_next_poll_at x))), db')))"

definition fail_open_poll ::
  "poll_env \<Rightarrow> string \<Rightarrow> poll_attempt_token \<Rightarrow> u64 \<Rightarrow> poll_error_kind \<Rightarrow> string
    \<Rightarrow> poll_retry_policy \<Rightarrow> database \<Rightarrow> poll_result" where
  "fail_open_poll env account token at_time kind message retry db =
     (case persist_failure env account token at_time message retry db of
        (Inl e, db') \<Rightarrow> (Inl e, db')
      | (Inr next_poll_at, db') \<Rightarrow>
          (Inl ((poll_error_new kind message)\<lparr>perr_next_poll_at := Some next_poll_at\<rparr>), db'))"

definition finish_complete_poll ::
  "poll_env \<Rightarrow> subscription_poll_policy \<Rightarrow> poll_attempt_token \<Rightarrow> u64 \<Rightarrow> snapshot_record list
    \<Rightarrow> database \<Rightarrow> poll_result" where
  "finish_complete_poll env policy token terminal_at records db =
     (let account = poll_account_key policy;
          next_poll_at = saturating_add terminal_at (poll_interval_secs policy) in
      case apply_complete_command_try_new account token terminal_at next_poll_at
             (poll_new_record_policy policy) records of
        Inl e \<Rightarrow> fail_open_poll env account token terminal_at PollInternal
          ''wanted subscription source returned invalid complete snapshot records''
          (poll_retry_policy_of policy) db
      | Inr c \<Rightarrow>
          (case apply_complete_snapshot (pe_end env) c db of
             (Inl e, db') \<Rightarrow> (Inl (poll_error_repository e), db')
           | (Inr x, db') \<Rightarrow>
               (Inr \<lparr>out_snapshot_id = snapshot_id_str (poll_snapshot_id token),
                     out_snapshot_complete = True, out_fetched_items = length records,
                     out_inserted = acsr_inserted x, out_updated = acsr_updated x,
                     out_unchanged = acsr_unchanged x, out_reactivated = acsr_reactivated x,
                     out_deactivated = acsr_deactivated x, out_failure_count = 0,
                     out_next_poll_at = acsr_next_poll_at x,
                     out_polled_at = acsr_completed_at x\<rparr>, db')))"

definition finish_incomplete_poll ::
  "poll_env \<Rightarrow> subscription_poll_policy \<Rightarrow> poll_attempt_token \<Rightarrow> u64
    \<Rightarrow> incomplete_snapshot_observation \<Rightarrow> snapshot_record list \<Rightarrow> database \<Rightarrow> poll_result" where
  "finish_incomplete_poll env policy token terminal_at ob records db =
     (let account = poll_account_key policy in
      case record_incomplete_command_try_new account token terminal_at ob
             (poll_new_record_policy policy) records (poll_retry_policy_of policy) of
        Inl e \<Rightarrow> fail_open_poll env account token terminal_at PollInternal
          ''wanted subscription source returned invalid incomplete snapshot records''
          (poll_retry_policy_of policy) db
      | Inr c \<Rightarrow>
          (case record_incomplete_snapshot (pe_end env) c db of
             (Inl e, db') \<Rightarrow> (Inl (poll_error_repository e), db')
           | (Inr x, db') \<Rightarrow>
               (Inr \<lparr>out_snapshot_id = snapshot_id_str (poll_snapshot_id token),
                     out_snapshot_complete = False, out_fetched_items = length records,
                     out_inserted = risr_inserted x, out_updated = risr_updated x,
                     out_unchanged = risr_unchanged x, out_reactivated = risr_reactivated x,
                     out_deactivated = 0, out_failure_count = risr_failure_count x,
                     out_next_poll_at = risr_next_poll_at x,
                     out_polled_at = risr_incomplete_at x\<rparr>, db')))"

text \<open>The rest of \<open>poll\<close> once the token is open and the source has answered\<close>

definition poll_failure_fallback :: string where
  "poll_failure_fallback = ''wanted subscription Poll failed''"

definition end_poll ::
  "poll_env \<Rightarrow> subscription_poll_policy \<Rightarrow> poll_attempt_token \<Rightarrow> database \<Rightarrow> poll_result" where
  "end_poll env policy token db =
     (let account = poll_account_key policy; retry = poll_retry_policy_of policy;
          later = max (pe_answered_at env) (pe_started_at env) in
      case pe_source env (poll_cookie_header policy) (poll_library_limit policy) of
        Inl message \<Rightarrow> fail_open_poll env account token later PollUpstream
          (valid_poll_failure_message (redact_or (poll_redactor policy) message poll_failure_fallback)
             poll_failure_fallback) retry db
      | Inr source \<Rightarrow>
     (case validated_snapshot_terminal (wanted_meta source) of
        Inl _ \<Rightarrow> fail_open_poll env account token later PollInternal
          ''wanted subscription source returned inconsistent snapshot metadata'' retry db
      | Inr terminal \<Rightarrow>
     (case snapshot_records (wanted_items source) of
        Inl _ \<Rightarrow> fail_open_poll env account token later PollInternal
          ''wanted subscription source returned invalid records'' retry db
      | Inr records \<Rightarrow>
     (case terminal of
        TerminalComplete \<Rightarrow> finish_complete_poll env policy token later records db
      | TerminalIncomplete ob \<Rightarrow> finish_incomplete_poll env policy token later ob records db))))"

definition poll :: "poll_env \<Rightarrow> subscription_poll_policy \<Rightarrow> database \<Rightarrow> poll_result" where
  "poll env policy db =
     (case begin_poll_command_try_new (poll_account_key policy) (pe_started_at env) of
        Inl e \<Rightarrow> (Inl (poll_error_repository e), db)
      | Inr c \<Rightarrow>
          (case begin_poll (pe_begin env) c db of
             (Inl e, db') \<Rightarrow> (Inl (poll_error_repository e), db')
           | (Inr begun, db') \<Rightarrow> end_poll env policy (bpollr_token begun) (pe_meanwhile env db')))"

definition poll_service_next_poll_at ::
  "repo_env \<Rightarrow> subscription_poll_policy \<Rightarrow> database \<Rightarrow> subscription_poll_error + u64 option" where
  "poll_service_next_poll_at env policy db =
     map_err poll_error_repository (load_poll_schedule env (poll_account_key policy) db)"

subsection \<open>Policies\<close>

definition watcher_new_record_policy :: "watcher_config \<Rightarrow> subscription_poll_error + new_record_policy" where
  "watcher_new_record_policy w =
     map_err poll_error_repository
       (new_record_policy_try_new (watch_max_retries w) (watch_bootstrap_existing_as_skipped w))"

definition watcher_retry_policy :: "watcher_config \<Rightarrow> subscription_poll_error + poll_retry_policy" where
  "watcher_retry_policy w =
     (let maximum = max (watch_poll_interval_secs w) 1;
          initial = clamp 1 maximum (watch_system_retry_interval_secs w)
      in map_err poll_error_repository (poll_retry_policy_try_new initial maximum))"

definition subscription_poll_policy_of ::
  "file_config \<Rightarrow> subscription_poll_error + subscription_poll_policy" where
  "subscription_poll_policy_of cfg =
     (let redactor = redactor_from_config cfg; w = cfg_watcher cfg in
      and_then (map_err (\<lambda>e. poll_error_new PollValidation
                  (redact_or redactor e ''Douban authentication is not configured''))
                (auth_cache_key_fragment (cfg_douban_cookie cfg))) (\<lambda>account.
      and_then (watcher_new_record_policy w) (\<lambda>records.
      and_then (watcher_retry_policy w) (\<lambda>retry.
      Inr \<lparr>poll_account_key = account, poll_cookie_header = cfg_douban_cookie cfg,
           poll_library_limit = watch_library_limit w,
           poll_interval_secs = watch_poll_interval_secs w,
           poll_new_record_policy = records, poll_retry_policy_of = retry,
           poll_redactor = redactor\<rparr>))))"

end
