(* ===== verification/Execution_Service.thy ===== *)
theory Execution_Service
  imports Repository_History Rust_Text
begin

text \<open>
  The execution service of \<open>src/subscription/execution.rs\<close>: a batch claims due subscriptions
  while a slot is free, runs their effects concurrently, and writes one terminal for each.
  Tasks end and are joined in any order, so a batch is a step relation; the effects are a
  parameter here and modelled in \<open>Execution_Effects\<close>.
\<close>

subsection \<open>Policies\<close>

record execution_qb_server =
  xqb_id :: string
  xqb_name :: string
  xqb_base_url :: string
  xqb_username :: string
  xqb_password :: string
  xqb_insecure_tls :: bool

record execution_category =
  xcat_name :: string
  xcat_wanted_tag :: string
  xcat_qb_server_id :: string
  xcat_qb_category :: string
  xcat_qb_save_dir_name :: string
  xcat_download_dir :: string
  xcat_link_target_dir :: string

datatype execution_match_mode = ModeAll | ModeAny

record execution_match_rule =
  xrule_name :: string
  xrule_priority :: i32
  xrule_mode :: execution_match_mode
  xrule_title_keywords :: "string list"
  xrule_resolution_keywords :: "string list"
  xrule_source_keywords :: "string list"

record execution_effect_policy =
  ep_douban_cookie :: string
  ep_tmdb_api_key :: string
  ep_mteam_api_key :: string
  ep_qb_servers :: "execution_qb_server list"
  ep_categories :: "execution_category list"
  ep_match_rules :: "execution_match_rule list"
  ep_search_interval_secs :: u64
  ep_progress_interval_secs :: u64
  ep_link_retry_interval_secs :: u64
  ep_system_retry_interval_secs :: u64

record execution_policy =
  xp_enabled :: bool
  xp_dry_run :: bool
  xp_account_key :: string
  xp_effects :: execution_effect_policy

subsection \<open>Results\<close>

datatype execution_effect_result =
  EffectFinished finish_execution_disposition execution_payload_delta
| EffectFailed string string u64 execution_payload_delta

datatype execution_terminal = TerminalFinished | TerminalFailed

datatype execution_batch_mode = BatchActive | BatchDisabled | BatchDryRun

record execution_batch_outcome =
  ob_mode :: execution_batch_mode
  ob_claimed :: nat
  ob_finished :: nat
  ob_failed :: nat
  ob_terminal_errors :: nat
  ob_exhausted :: bool

definition outcome_active :: execution_batch_outcome where
  "outcome_active = \<lparr>ob_mode = BatchActive, ob_claimed = 0, ob_finished = 0, ob_failed = 0,
     ob_terminal_errors = 0, ob_exhausted = False\<rparr>"

definition outcome_disabled :: execution_batch_outcome where
  "outcome_disabled = outcome_active\<lparr>ob_mode := BatchDisabled\<rparr>"

definition outcome_dry_run :: execution_batch_outcome where
  "outcome_dry_run = outcome_active\<lparr>ob_mode := BatchDryRun\<rparr>"

datatype subscription_execution_error =
  InvalidConfiguration string
| ExecutionRepository repository_error

fun display_execution_error :: "subscription_execution_error \<Rightarrow> string" where
  "display_execution_error (InvalidConfiguration message) = message"
| "display_execution_error (ExecutionRepository e) = ''subscription repository: '' @ display_error e"

subsection \<open>One claimed attempt\<close>

definition safe_terminal_text :: "string \<Rightarrow> string \<Rightarrow> string" where
  "safe_terminal_text value fallback =
     (let v = remove_char CHR 0x00 value in if is_blank v then fallback else v)"

type_synonym terminal_result = "(subscription_execution_error + execution_terminal) \<times> database"

definition execute_claimed ::
  "repo_env \<Rightarrow> claimed_subscription \<Rightarrow> execution_effect_result \<Rightarrow> database \<Rightarrow> terminal_result" where
  "execute_claimed env claimed result db =
     (let token = current_token (claimed_attempt claimed) in
      case result of
        EffectFinished disposition delta \<Rightarrow>
          (case finish_command_try_new token disposition delta of
             Inl e \<Rightarrow> (Inl (ExecutionRepository e), db)
           | Inr c \<Rightarrow>
               (let (r, db') = finish env c db
                in (map_err ExecutionRepository (and_then r (\<lambda>_. Inr TerminalFinished)), db')))
      | EffectFailed error_type message retry_after delta \<Rightarrow>
          (case fail_command_try_new token (safe_terminal_text error_type ''execution_error'')
                  (safe_terminal_text message ''subscription execution failed'') retry_after delta of
             Inl e \<Rightarrow> (Inl (ExecutionRepository e), db)
           | Inr c \<Rightarrow>
               (let (r, db') = fail_execution env c db
                in (map_err ExecutionRepository (and_then r (\<lambda>_. Inr TerminalFailed)), db'))))"

subsection \<open>Batches\<close>

text \<open>A task of the \<open>JoinSet\<close>: still at its effects, or ended, possibly by a panic.\<close>

datatype batch_task =
  Executing claimed_subscription
| Ended "subscription_execution_error + execution_terminal"
| Panicked

datatype batch_phase =
  Filling
| Draining
| BatchDone "subscription_execution_error + execution_batch_outcome"

record batch =
  bt_db :: database
  bt_outcome :: execution_batch_outcome
  bt_tasks :: "batch_task list"
  bt_no_more_due :: bool
  bt_phase :: batch_phase

record batch_params =
  bp_batch_size :: nat
  bp_max_concurrency :: nat
  bp_account_key :: string
  bp_lease_ttl :: u64
  bp_metadata_only :: bool

text \<open>The checks of \<open>run_batch\<close> before its loop\<close>

definition validate_batch :: "batch_params \<Rightarrow> subscription_execution_error + unit" where
  "validate_batch p =
     (if bp_batch_size p = 0
      then Inl (InvalidConfiguration ''execution batch size must be greater than zero'')
      else if bp_max_concurrency p = 0 \<or> bp_batch_size p < bp_max_concurrency p
      then Inl (InvalidConfiguration ''execution concurrency must be between one and the batch size'')
      else if is_blank (bp_account_key p)
      then Inl (InvalidConfiguration ''Douban authentication is not configured'')
      else Inr ())"

definition batch_start :: "batch_params \<Rightarrow> database \<Rightarrow> batch" where
  "batch_start p db =
     \<lparr>bt_db = db, bt_outcome = outcome_active, bt_tasks = [], bt_no_more_due = False,
      bt_phase = (case validate_batch p of Inl e \<Rightarrow> BatchDone (Inl e) | Inr _ \<Rightarrow> Filling)\<rparr>"

text \<open>The condition of the inner loop\<close>

definition may_claim :: "batch_params \<Rightarrow> batch \<Rightarrow> bool" where
  "may_claim p b \<longleftrightarrow> \<not> bt_no_more_due b \<and> length (bt_tasks b) < bp_max_concurrency p \<and>
     ob_claimed (bt_outcome b) < bp_batch_size p"

definition claim_command :: "batch_params \<Rightarrow> claim_due_command repository_result" where
  "claim_command p =
     and_then (claim_due_command_try_new (bp_account_key p) (bp_lease_ttl p) 1) (\<lambda>c.
     Inr (if bp_metadata_only p then metadata_only c else c))"

text \<open>One round of the inner loop. An error returns at once, and dropping the set aborts the
  tasks in it.\<close>

definition batch_claim :: "batch_params \<Rightarrow> repo_env \<Rightarrow> batch \<Rightarrow> batch" where
  "batch_claim p env b =
     (let (r, db') = (case claim_command p of
            Inl e \<Rightarrow> (Inl e, bt_db b) | Inr c \<Rightarrow> claim_due env c (bt_db b)) in
      case r of
        Inl e \<Rightarrow> b\<lparr>bt_db := db', bt_tasks := [], bt_phase := BatchDone (Inl (ExecutionRepository e))\<rparr>
      | Inr None \<Rightarrow> b\<lparr>bt_db := db', bt_no_more_due := True\<rparr>
      | Inr (Some claimed) \<Rightarrow>
          b\<lparr>bt_db := db', bt_tasks := bt_tasks b @ [Executing claimed],
            bt_outcome := (bt_outcome b)\<lparr>ob_claimed := Suc (ob_claimed (bt_outcome b))\<rparr>\<rparr>)"

text \<open>A task writes its terminal, or panics.\<close>

definition batch_end :: "repo_env \<Rightarrow> nat \<Rightarrow> claimed_subscription \<Rightarrow> execution_effect_result option \<Rightarrow> batch \<Rightarrow> batch"
where
  "batch_end env i claimed result b =
     (case result of
        None \<Rightarrow> b\<lparr>bt_tasks := (bt_tasks b)[i := Panicked]\<rparr>
      | Some r \<Rightarrow>
          (let (t, db') = execute_claimed env claimed r (bt_db b)
           in b\<lparr>bt_db := db', bt_tasks := (bt_tasks b)[i := Ended t]\<rparr>))"

text \<open>\<open>tasks.join_next()\<close> and the count of what it returned\<close>

definition count_joined :: "batch_task \<Rightarrow> execution_batch_outcome \<Rightarrow> execution_batch_outcome" where
  "count_joined t ob =
     (case t of
        Ended (Inr TerminalFinished) \<Rightarrow> ob\<lparr>ob_finished := Suc (ob_finished ob)\<rparr>
      | Ended (Inr TerminalFailed) \<Rightarrow> ob\<lparr>ob_failed := Suc (ob_failed ob)\<rparr>
      | _ \<Rightarrow> ob\<lparr>ob_terminal_errors := Suc (ob_terminal_errors ob)\<rparr>)"

fun joinable :: "batch_task \<Rightarrow> bool" where
  "joinable (Executing _) = False"
| "joinable _ = True"

definition remove_nth :: "nat \<Rightarrow> 'a list \<Rightarrow> 'a list" where
  "remove_nth i xs = take i xs @ drop (Suc i) xs"

definition batch_join :: "batch_params \<Rightarrow> nat \<Rightarrow> batch \<Rightarrow> batch" where
  "batch_join p i b =
     (let ob = count_joined (bt_tasks b ! i) (bt_outcome b) in
      b\<lparr>bt_outcome := ob, bt_tasks := remove_nth i (bt_tasks b),
        bt_phase := (if bt_phase b = Filling \<and> ob_claimed ob < bp_batch_size p
                     then Filling else Draining)\<rparr>)"

definition batch_finish :: "batch \<Rightarrow> batch" where
  "batch_finish b =
     b\<lparr>bt_phase := BatchDone (Inr ((bt_outcome b)\<lparr>ob_exhausted := bt_no_more_due b\<rparr>))\<rparr>"

text \<open>
  Other clients of the repository (the HTTP handlers, the poll worker) run their transactions
  between two steps of a batch: \<open>db\<close> is the database a step finds.
\<close>

inductive batch_step :: "batch_params \<Rightarrow> batch \<Rightarrow> batch \<Rightarrow> bool" for p where
  step_claim: "bt_phase b = Filling \<Longrightarrow> may_claim p b \<Longrightarrow> repository_step\<^sup>*\<^sup>* (bt_db b) db \<Longrightarrow>
    batch_step p b (batch_claim p env (b\<lparr>bt_db := db\<rparr>))"
| step_end: "bt_phase b \<in> {Filling, Draining} \<Longrightarrow> i < length (bt_tasks b) \<Longrightarrow>
    bt_tasks b ! i = Executing claimed \<Longrightarrow> repository_step\<^sup>*\<^sup>* (bt_db b) db \<Longrightarrow>
    batch_step p b (batch_end env i claimed result (b\<lparr>bt_db := db\<rparr>))"
| step_join: "bt_phase b = Draining \<or> bt_phase b = Filling \<and> \<not> may_claim p b \<Longrightarrow>
    i < length (bt_tasks b) \<Longrightarrow> joinable (bt_tasks b ! i) \<Longrightarrow> batch_step p b (batch_join p i b)"
| step_empty: "bt_phase b = Filling \<Longrightarrow> \<not> may_claim p b \<Longrightarrow> bt_tasks b = [] \<Longrightarrow>
    batch_step p b (b\<lparr>bt_phase := Draining\<rparr>)"
| step_done: "bt_phase b = Draining \<Longrightarrow> bt_tasks b = [] \<Longrightarrow> batch_step p b (batch_finish b)"

inductive_cases batch_stepE: "batch_step p b b'"

text \<open>\<open>run_due_batch\<close> answers at once when the policy forbids effects; otherwise, like
  \<open>run_metadata_batch\<close> always, it starts a batch.\<close>

definition run_due_batch_start ::
  "execution_policy \<Rightarrow> nat \<Rightarrow> nat \<Rightarrow> u64 \<Rightarrow> execution_batch_outcome + batch_params" where
  "run_due_batch_start policy batch_size max_concurrency ttl =
     (if \<not> xp_enabled policy then Inl outcome_disabled
      else if xp_dry_run policy then Inl outcome_dry_run
      else Inr \<lparr>bp_batch_size = batch_size, bp_max_concurrency = max_concurrency,
                bp_account_key = xp_account_key policy, bp_lease_ttl = ttl,
                bp_metadata_only = False\<rparr>)"

definition run_metadata_batch_start ::
  "execution_policy \<Rightarrow> nat \<Rightarrow> nat \<Rightarrow> u64 \<Rightarrow> batch_params" where
  "run_metadata_batch_start policy batch_size max_concurrency ttl =
     \<lparr>bp_batch_size = batch_size, bp_max_concurrency = max_concurrency,
      bp_account_key = xp_account_key policy, bp_lease_ttl = ttl, bp_metadata_only = True\<rparr>"

end
