(* ===== verification/Poll_Worker.thy ===== *)
theory Poll_Worker
  imports Poll_Service Execution_Service
begin

text \<open>
  The background worker of \<open>src/subscription/worker.rs\<close>: the policies it takes from the
  configuration, and one pass of its loop over the metadata batch, the poll, the due batch and
  the wait. The batches are the step relation of \<open>Execution_Service\<close>, so a pass is a relation.
\<close>

subsection \<open>Options and policies\<close>

record worker_options =
  wo_batch_size :: nat
  wo_concurrency :: nat
  wo_idle_interval_secs :: u64
  wo_jitter_secs :: u64

definition worker_options_try_new :: "nat \<Rightarrow> nat \<Rightarrow> u64 \<Rightarrow> u64 \<Rightarrow> string + worker_options" where
  "worker_options_try_new batch_size concurrency idle jitter =
     (if batch_size = 0 then Inl ''execution batch size must be greater than zero''
      else if concurrency = 0 \<or> batch_size < concurrency
      then Inl ''execution concurrency must be between one and the batch size''
      else if idle = 0 then Inl ''idle execution interval must be greater than zero''
      else Inr \<lparr>wo_batch_size = batch_size, wo_concurrency = concurrency,
                wo_idle_interval_secs = idle, wo_jitter_secs = jitter\<rparr>)"

definition execution_server_of :: "qb_server_entry \<Rightarrow> execution_qb_server" where
  "execution_server_of s =
     \<lparr>xqb_id = qbs_id s, xqb_name = qbs_name s, xqb_base_url = qbs_base_url s,
      xqb_username = qbs_username s, xqb_password = qbs_password s,
      xqb_insecure_tls = qbs_insecure_tls s\<rparr>"

definition execution_category_of :: "subscription_category \<Rightarrow> execution_category" where
  "execution_category_of c =
     \<lparr>xcat_name = cat_name c, xcat_wanted_tag = cat_wanted_tag c,
      xcat_qb_server_id = cat_qb_server_id c, xcat_qb_category = cat_qb_category c,
      xcat_qb_save_dir_name = cat_qb_save_dir_name c, xcat_download_dir = cat_download_dir c,
      xcat_link_target_dir = cat_link_target_dir c\<rparr>"

definition execution_rule_of :: "torrent_match_rule \<Rightarrow> execution_match_rule" where
  "execution_rule_of r =
     \<lparr>xrule_name = rule_name r, xrule_priority = rule_priority r,
      xrule_mode = (case rule_mode r of MatchAll \<Rightarrow> ModeAll | MatchAny \<Rightarrow> ModeAny),
      xrule_title_keywords = rule_title_keywords r,
      xrule_resolution_keywords = rule_resolution_keywords r,
      xrule_source_keywords = rule_source_keywords r\<rparr>"

definition execution_policy_of :: "file_config \<Rightarrow> execution_policy" where
  "execution_policy_of cfg =
     (let w = cfg_watcher cfg in
      \<lparr>xp_enabled = watch_enabled w, xp_dry_run = watch_dry_run w,
       xp_account_key =
         (case auth_cache_key_fragment (cfg_douban_cookie cfg) of Inl _ \<Rightarrow> [] | Inr key \<Rightarrow> key),
       xp_effects =
         \<lparr>ep_douban_cookie = cfg_douban_cookie cfg, ep_tmdb_api_key = cfg_tmdb_api_key cfg,
          ep_mteam_api_key = cfg_mteam_api_key cfg,
          ep_qb_servers = map execution_server_of (cfg_qb_servers cfg),
          ep_categories = map execution_category_of (cfg_categories cfg),
          ep_match_rules = map execution_rule_of (cfg_match_rules cfg),
          ep_search_interval_secs = watch_search_interval_secs w,
          ep_progress_interval_secs = watch_progress_interval_secs w,
          ep_link_retry_interval_secs = watch_link_retry_interval_secs w,
          ep_system_retry_interval_secs = watch_system_retry_interval_secs w\<rparr>\<rparr>)"

subsection \<open>Waiting\<close>

text \<open>\<open>bounded_jitter\<close>; the argument is the nanosecond part of a clock after the epoch\<close>

definition bounded_jitter :: "nat option \<Rightarrow> u64 \<Rightarrow> u64" where
  "bounded_jitter nanos maximum =
     (if maximum = 0 then 0
      else case nanos of
        None \<Rightarrow> 0
      | Some n \<Rightarrow> word_of_nat n mod saturating_add maximum 1)"

text \<open>The sleep of \<open>wait_or_cancel\<close>\<close>

definition wait_secs :: "u64 \<Rightarrow> u64" where
  "wait_secs seconds = max seconds 1"

definition saturating_sub :: "u64 \<Rightarrow> u64 \<Rightarrow> u64" where
  "saturating_sub a b = (if b \<le> a then a - b else 0)"

definition worker_delay ::
  "worker_options \<Rightarrow> watcher_config \<Rightarrow> u64 option \<Rightarrow> execution_batch_outcome option \<Rightarrow> u64
    \<Rightarrow> nat option \<Rightarrow> u64" where
  "worker_delay options w next_poll_at execution now nanos =
     (let until_poll = (case next_poll_at of
            Some due \<Rightarrow> max (saturating_sub due now) 1
          | None \<Rightarrow> max (watch_poll_interval_secs w) 1);
          queue_busy = (case execution of
            None \<Rightarrow> False | Some ob \<Rightarrow> ob_claimed ob = wo_batch_size options);
          execution_delay = (if queue_busy then 1 else wo_idle_interval_secs options);
          jitter = bounded_jitter nanos (wo_jitter_secs options)
      in max (min until_poll (saturating_add execution_delay jitter)) 1)"

subsection \<open>One pass\<close>

text \<open>What a pass meets: the configuration, the faults of the schedule query, the poll's
  environment, the readings of the clock before the poll, after its failure and before the
  wait, and the clock of the jitter.\<close>

record worker_env =
  we_config :: file_config
  we_schedule :: repo_env
  we_poll :: poll_env
  we_now :: u64
  we_failed_now :: u64
  we_end_now :: u64
  we_nanos :: "nat option"
  we_lease_ttl :: u64

text \<open>A call of \<open>run_due_batch\<close> or \<open>run_metadata_batch\<close> that returns\<close>

inductive worker_batch ::
  "execution_batch_outcome + batch_params \<Rightarrow> database
    \<Rightarrow> subscription_execution_error + execution_batch_outcome \<Rightarrow> database \<Rightarrow> bool" where
  batch_refused: "worker_batch (Inl outcome) db (Inr outcome) db"
| batch_returns: "(batch_step p)\<^sup>*\<^sup>* (batch_start p db) b \<Longrightarrow> bt_phase b = BatchDone r \<Longrightarrow>
    worker_batch (Inr p) db r (bt_db b)"

text \<open>The metadata batch at the top of the loop, skipped without an account\<close>

inductive worker_metadata :: "worker_env \<Rightarrow> worker_options \<Rightarrow> database \<Rightarrow> database \<Rightarrow> bool" for env options where
  no_account: "is_blank (xp_account_key (execution_policy_of (we_config env))) \<Longrightarrow>
    worker_metadata env options db db"
| drained: "\<not> is_blank (xp_account_key (execution_policy_of (we_config env))) \<Longrightarrow>
    worker_batch (Inr (run_metadata_batch_start (execution_policy_of (we_config env))
      (wo_batch_size options) (wo_concurrency options) (we_lease_ttl env))) db r db' \<Longrightarrow>
    worker_metadata env options db db'"

text \<open>The poll, if it is due, with the schedule the worker remembers afterwards\<close>

definition worker_poll ::
  "worker_env \<Rightarrow> subscription_poll_policy \<Rightarrow> u64 option \<Rightarrow> database \<Rightarrow> u64 option \<times> database" where
  "worker_poll env policy next_poll_at db =
     (if (case next_poll_at of None \<Rightarrow> True | Some due \<Rightarrow> due \<le> we_now env) then
        (case poll (we_poll env) policy db of
           (Inr out, db') \<Rightarrow> (Some (out_next_poll_at out), db')
         | (Inl e, db') \<Rightarrow>
             (Some (case perr_next_poll_at e of
                Some at \<Rightarrow> at
              | None \<Rightarrow> saturating_add (we_failed_now env)
                  (max (watch_system_retry_interval_secs (cfg_watcher (we_config env))) 1)), db'))
      else (next_poll_at, db))"

text \<open>The due batch, with what the wait needs of its outcome\<close>

inductive worker_due ::
  "worker_env \<Rightarrow> worker_options \<Rightarrow> database \<Rightarrow> execution_batch_outcome option \<Rightarrow> database \<Rightarrow> bool"
  for env options where
  dry: "watch_dry_run (cfg_watcher (we_config env)) \<Longrightarrow> worker_due env options db None db"
| due: "\<not> watch_dry_run (cfg_watcher (we_config env)) \<Longrightarrow>
    worker_batch (run_due_batch_start (execution_policy_of (we_config env)) (wo_batch_size options)
      (wo_concurrency options) (we_lease_ttl env)) db r db' \<Longrightarrow>
    worker_due env options db (case r of Inl _ \<Rightarrow> None | Inr ob \<Rightarrow> Some ob) db'"

text \<open>The schedule a pass works with: the remembered one, or the persisted one\<close>

definition worker_schedule ::
  "worker_env \<Rightarrow> subscription_poll_policy \<Rightarrow> u64 option \<Rightarrow> database \<Rightarrow> subscription_poll_error + u64 option" where
  "worker_schedule env policy next_poll_at db =
     (case next_poll_at of
        None \<Rightarrow> poll_service_next_poll_at (we_schedule env) policy db
      | Some due \<Rightarrow> Inr (Some due))"

text \<open>One pass: the remembered schedule and the database before it and after it, with the
  seconds the worker waits\<close>

inductive worker_pass ::
  "worker_env \<Rightarrow> worker_options \<Rightarrow> u64 option \<times> database \<Rightarrow> u64 \<Rightarrow> u64 option \<times> database \<Rightarrow> bool"
  for env options where
  disabled: "worker_metadata env options db db1 \<Longrightarrow> \<not> watch_enabled (cfg_watcher (we_config env)) \<Longrightarrow>
    worker_pass env options (remembered, db) (wait_secs (wo_idle_interval_secs options)) (None, db1)"
| misconfigured: "worker_metadata env options db db1 \<Longrightarrow> watch_enabled (cfg_watcher (we_config env)) \<Longrightarrow>
    subscription_poll_policy_of (we_config env) = Inl e \<Longrightarrow>
    worker_pass env options (remembered, db)
      (wait_secs (max (watch_system_retry_interval_secs (cfg_watcher (we_config env))) 1))
      (remembered, db1)"
| unscheduled: "worker_metadata env options db db1 \<Longrightarrow> watch_enabled (cfg_watcher (we_config env)) \<Longrightarrow>
    subscription_poll_policy_of (we_config env) = Inr policy \<Longrightarrow>
    worker_schedule env policy remembered db1 = Inl e' \<Longrightarrow>
    worker_pass env options (remembered, db)
      (wait_secs (max (watch_system_retry_interval_secs (cfg_watcher (we_config env))) 1))
      (remembered, db1)"
| scheduled: "worker_metadata env options db db1 \<Longrightarrow> watch_enabled (cfg_watcher (we_config env)) \<Longrightarrow>
    subscription_poll_policy_of (we_config env) = Inr policy \<Longrightarrow>
    worker_schedule env policy remembered db1 = Inr next_poll_at \<Longrightarrow>
    worker_poll env policy next_poll_at db1 = (next', db2) \<Longrightarrow>
    worker_due env options db2 execution db3 \<Longrightarrow>
    worker_pass env options (remembered, db)
      (wait_secs (worker_delay options (cfg_watcher (we_config env)) next' execution
        (we_end_now env) (we_nanos env)))
      (next', db3)"

inductive_cases worker_passE: "worker_pass env options s wait s'"

end
