(* ===== verification/Batch_Theorems.thy ===== *)
theory Batch_Theorems
  imports Execution_Service Claim_Theorems
begin

text \<open>
  Properties of the execution batches of \<open>src/subscription/execution.rs\<close>: a batch ends, its
  counters account for every claim, it respects its limits, and a metadata batch runs metadata
  only, whatever the other clients of the repository do in between.
\<close>

subsection \<open>Ending\<close>

text \<open>What is left of a batch: three for a claim it may still make, two for a task at its
  effects, one for a task to be joined, and the phases.\<close>

fun task_rest :: "batch_task \<Rightarrow> nat" where
  "task_rest (Executing _) = 2"
| "task_rest _ = 1"

fun phase_rest :: "batch_phase \<Rightarrow> nat" where
  "phase_rest Filling = 2"
| "phase_rest Draining = 1"
| "phase_rest (BatchDone _) = 0"

definition batch_rest :: "batch_params \<Rightarrow> batch \<Rightarrow> nat" where
  "batch_rest p b =
     3 * (bp_batch_size p - ob_claimed (bt_outcome b)) + sum_list (map task_rest (bt_tasks b)) +
     (if bt_no_more_due b then 0 else 1) + phase_rest (bt_phase b)"

lemma remove_nth_split: "i < length xs \<Longrightarrow> sum_list (map f xs) = f (xs ! i) + sum_list (map f (remove_nth i xs))"
  for f :: "'a \<Rightarrow> nat"
proof -
  assume "i < length xs"
  then have "map f xs = map f (take i xs) @ f (xs ! i) # map f (drop (Suc i) xs)"
    by (metis id_take_nth_drop list.simps(9) map_append)
  then show ?thesis by (simp only: remove_nth_def map_append sum_list_append sum_list.Cons)
qed

lemma task_rest_end:
  assumes i: "i < length ts" and "ts ! i = Executing c" and "joinable t"
  shows "sum_list (map task_rest (ts[i := t])) + 1 = sum_list (map task_rest ts)"
proof -
  have "remove_nth i (ts[i := t]) = remove_nth i ts" by (simp add: remove_nth_def)
  moreover have "task_rest t = 1" using assms(3) by (cases t) simp_all
  ultimately show ?thesis
    using assms(2) i remove_nth_split [of i ts task_rest] remove_nth_split [of i "ts[i := t]" task_rest]
    by simp
qed

lemma count_joined_claimed [simp]: "ob_claimed (count_joined t ob) = ob_claimed ob"
  by (auto simp: count_joined_def split: batch_task.splits sum.splits execution_terminal.splits)

lemma batch_end_fields:
  shows "bt_outcome (batch_end env i c r b) = bt_outcome b"
    and "bt_no_more_due (batch_end env i c r b) = bt_no_more_due b"
    and "bt_phase (batch_end env i c r b) = bt_phase b"
    and "\<exists>t. joinable t \<and> bt_tasks (batch_end env i c r b) = (bt_tasks b)[i := t]"
proof -
  show "\<exists>t. joinable t \<and> bt_tasks (batch_end env i c r b) = (bt_tasks b)[i := t]"
  proof (cases r)
    case None
    then show ?thesis by (intro exI [of _ Panicked]) (simp add: batch_end_def)
  next
    case (Some x)
    then show ?thesis
      by (intro exI [of _ "Ended (fst (execute_claimed env c x (bt_db b)))"])
        (simp add: batch_end_def split: prod.splits)
  qed
qed (auto simp: batch_end_def split: option.splits prod.splits)

lemma batch_step_decreases: "batch_step p b b' \<Longrightarrow> batch_rest p b' < batch_rest p b"
proof (induction rule: batch_step.induct)
  case (step_claim b db env)
  then show ?case
    by (auto simp: batch_claim_def batch_rest_def may_claim_def Let_def
        split: sum.splits prod.splits option.splits)
next
  case (step_end b i c db env r)
  obtain t where "joinable t"
    "bt_tasks (batch_end env i c r (b\<lparr>bt_db := db\<rparr>)) = (bt_tasks b)[i := t]"
    using batch_end_fields(4) [of env i c r "b\<lparr>bt_db := db\<rparr>"] by auto
  with task_rest_end [OF step_end(2,3), of t] show ?case
    by (simp add: batch_rest_def batch_end_fields)
next
  case (step_join b i)
  then have "0 < task_rest (bt_tasks b ! i)" by (cases "bt_tasks b ! i") simp_all
  with step_join remove_nth_split [OF step_join(2), of task_rest] show ?case
    by (auto simp: batch_rest_def batch_join_def Let_def)
qed (auto simp: batch_rest_def batch_finish_def)

lemma batch_progress: "(\<exists>b'. batch_step p b b') \<longleftrightarrow> bt_phase b \<in> {Filling, Draining}"
proof
  assume "\<exists>b'. batch_step p b b'"
  then show "bt_phase b \<in> {Filling, Draining}" by (auto elim: batch_stepE)
next
  assume live: "bt_phase b \<in> {Filling, Draining}"
  consider "bt_phase b = Filling" "may_claim p b"
    | i c where "i < length (bt_tasks b)" "bt_tasks b ! i = Executing c"
    | "bt_phase b = Filling \<longrightarrow> \<not> may_claim p b" "bt_tasks b = []"
    | "bt_phase b = Filling \<longrightarrow> \<not> may_claim p b" "0 < length (bt_tasks b)" "joinable (bt_tasks b ! 0)"
    by (cases "bt_phase b = Filling \<and> may_claim p b"; cases "bt_tasks b"; cases "hd (bt_tasks b)") force+
  then show "\<exists>b'. batch_step p b b'"
    using live by cases (auto intro: batch_step.intros)
qed

text \<open>C26.
  Every batch ends: no batch makes infinitely many steps, whatever the effects and the other
  clients do, and the batches that cannot make a step are exactly those that have returned.\<close>

theorem batch_ends:
  "wfP (\<lambda>b' b. batch_step p b b') \<and>
   {b. \<nexists>b'. batch_step p b b'} = {b. bt_phase b \<in> range BatchDone}"
proof
  show "wfP (\<lambda>b' b. batch_step p b b')"
    unfolding wfp_def
    by (rule wf_subset [OF wf_measure [of "batch_rest p"]]) (auto intro: batch_step_decreases)
  show "{b. \<nexists>b'. batch_step p b b'} = {b. bt_phase b \<in> range BatchDone}"
    unfolding batch_progress
    by (auto, metis batch_phase.exhaust rangeI)
qed

subsection \<open>Accounting\<close>

definition outcome_terminals :: "execution_batch_outcome \<Rightarrow> nat" where
  "outcome_terminals ob = ob_finished ob + ob_failed ob + ob_terminal_errors ob"

definition batch_accounts :: "batch_params \<Rightarrow> batch \<Rightarrow> bool" where
  "batch_accounts p b =
     (length (bt_tasks b) \<le> bp_max_concurrency p \<and> ob_claimed (bt_outcome b) \<le> bp_batch_size p \<and>
      (case bt_phase b of
         BatchDone (Inl _) \<Rightarrow> True
       | BatchDone (Inr ob) \<Rightarrow> ob_claimed ob = outcome_terminals ob \<and> ob_claimed ob \<le> bp_batch_size p
       | _ \<Rightarrow> ob_claimed (bt_outcome b) = outcome_terminals (bt_outcome b) + length (bt_tasks b)))"

lemma joined_terminals [simp]: "outcome_terminals (count_joined t ob) = Suc (outcome_terminals ob)"
  by (auto simp: count_joined_def outcome_terminals_def
      split: batch_task.splits sum.splits execution_terminal.splits)

lemma batch_step_accounts: "batch_step p b b' \<Longrightarrow> batch_accounts p b \<Longrightarrow> batch_accounts p b'"
proof (induction rule: batch_step.induct)
  case (step_claim b db env)
  then show ?case
    by (auto simp: batch_claim_def batch_accounts_def may_claim_def Let_def outcome_terminals_def
        split: sum.splits prod.splits option.splits)
next
  case (step_end b i c db env r)
  then show ?case
    using batch_end_fields [of env i c r "b\<lparr>bt_db := db\<rparr>"]
    by (auto simp: batch_accounts_def split: batch_phase.splits sum.splits)
next
  case (step_join b i)
  then show ?case
    by (auto simp: batch_accounts_def batch_join_def Let_def remove_nth_def)
qed (auto simp: batch_accounts_def batch_finish_def outcome_terminals_def)

text \<open>A batch never holds more tasks than its concurrency nor more claims than its size, and the
  outcome it returns counts every claim exactly once, as finished, failed or in error.\<close>

theorem batch_accounts_for_claims:
  assumes "(batch_step p)\<^sup>*\<^sup>* (batch_start p db) b"
  shows "batch_accounts p b"
  using assms
proof (induction rule: rtranclp_induct)
  case base
  then show ?case
    by (auto simp: batch_start_def batch_accounts_def outcome_active_def outcome_terminals_def
        split: sum.splits)
qed (rule batch_step_accounts)

subsection \<open>Metadata batches\<close>

text \<open>The operations of the attempts a batch is executing\<close>

definition batch_operations :: "batch \<Rightarrow> execution_operation set" where
  "batch_operations b =
     {token_operation (current_token (claimed_attempt c)) | c. Executing c \<in> set (bt_tasks b)}"

lemma claim_step_kept: "repository_ok db \<Longrightarrow> kept db (snd (claim_due env c db))"
  using execution_kept [of db env "ClaimDue c"] by simp

lemma terminal_kept: "repository_ok db \<Longrightarrow> kept db (snd (execute_claimed env claimed r db))"
  using execution_kept [of db env "FinishAttempt c"  for c] execution_kept [of db env "FailAttempt c" for c]
  by (auto simp: execute_claimed_def Let_def kept_refl split: execution_effect_result.splits sum.splits
      prod.splits) (metis run_operation.simps(4,5) snd_conv)+

lemma others_ok: "repository_step\<^sup>*\<^sup>* d d' \<Longrightarrow> repository_ok d \<Longrightarrow> repository_ok d'"
  using history_kept by (auto simp: kept_def)

lemma batch_step_ok: "batch_step p b b' \<Longrightarrow> repository_ok (bt_db b) \<Longrightarrow> repository_ok (bt_db b')"
proof (induction rule: batch_step.induct)
  case (step_claim b db env)
  then have ok: "repository_ok db" using others_ok by blast
  have "repository_ok (snd (claim_due env c db))" for c
    using claim_step_kept [OF ok] by (simp add: kept_def)
  with ok show ?case
    by (auto simp: batch_claim_def Let_def split: sum.splits prod.splits option.splits)
      (metis snd_conv)+
next
  case (step_end b i c db env r)
  then have ok: "repository_ok db" using others_ok by blast
  have "repository_ok (snd (execute_claimed env c x db))" for x
    using terminal_kept [OF ok] by (simp add: kept_def)
  with ok show ?case
    by (auto simp: batch_end_def split: option.splits prod.splits) (metis snd_conv)+
qed (auto simp: batch_join_def batch_finish_def Let_def)

lemma claimed_metadata:
  assumes "db_ok db" and "claim_due env c db = (Inr (Some claimed), db')" and "cdue_metadata_only c"
  shows "token_operation (current_token (claimed_attempt claimed)) = OpMeta"
  using metadata_claim_is_metadata [OF assms] by blast

lemma metadata_step:
  assumes "batch_step p b b'" and "bp_metadata_only p" and "repository_ok (bt_db b)"
    and "batch_operations b \<subseteq> {OpMeta}"
  shows "batch_operations b' \<subseteq> {OpMeta}"
  using assms
proof (induction rule: batch_step.induct)
  case (step_claim b db env)
  then have ok: "db_ok db" using others_ok by (auto simp: repository_ok_def)
  have "token_operation (current_token (claimed_attempt claimed)) = OpMeta"
    if "claim_command p = Inr c" "claim_due env c db = (Inr (Some claimed), db')" for c claimed db'
    using claimed_metadata [OF ok that(2)] that(1) step_claim.prems(1)
    by (auto simp: claim_command_def and_then_Inr_iff metadata_only_def)
  with step_claim.prems(3) show ?case
    by (auto simp: batch_claim_def batch_operations_def Let_def split: sum.splits prod.splits option.splits)
next
  case (step_end b i c db env r)
  obtain t where t: "joinable t" "bt_tasks (batch_end env i c r (b\<lparr>bt_db := db\<rparr>)) = (bt_tasks b)[i := t]"
    using batch_end_fields(4) [of env i c r "b\<lparr>bt_db := db\<rparr>"] by auto
  then have "Executing c' \<in> set (bt_tasks b)" if "Executing c' \<in> set ((bt_tasks b)[i := t])" for c'
    using set_update_subset_insert [of "bt_tasks b" i t] that by auto
  with t(2) step_end.prems(3) show ?case by (auto simp: batch_operations_def)
next
  case (step_join b i)
  then show ?case
    using set_take_subset [of i "bt_tasks b"] set_drop_subset [of "Suc i" "bt_tasks b"]
    by (auto simp: batch_join_def batch_operations_def remove_nth_def Let_def)
qed (auto simp: batch_operations_def batch_finish_def)

text \<open>While automatic downloads are disabled only metadata runs: every attempt that a metadata batch
  executes is a metadata attempt, whatever the other clients of the repository do.\<close>

theorem metadata_batch_runs_metadata:
  assumes "(batch_step p)\<^sup>*\<^sup>* (batch_start p db) b" and "bp_metadata_only p" and "repository_ok db"
  shows "batch_operations b \<subseteq> {OpMeta}"
proof -
  have "repository_ok (bt_db b) \<and> batch_operations b \<subseteq> {OpMeta}"
    using assms(1)
  proof (induction rule: rtranclp_induct)
    case base
    show ?case using assms(3) by (simp add: batch_start_def batch_operations_def)
  next
    case (step b b')
    then show ?case using batch_step_ok metadata_step assms(2) by blast
  qed
  then show ?thesis by simp
qed

subsection \<open>Runs\<close>

definition sample_batch :: batch_params where
  "sample_batch = \<lparr>bp_batch_size = 2, bp_max_concurrency = 2, bp_account_key = ''acc'',
     bp_lease_ttl = 60, bp_metadata_only = True\<rparr>"

lemma sample_batch_claims:
  "\<exists>b. (batch_step sample_batch)\<^sup>*\<^sup>* (batch_start sample_batch queued_db) b \<and>
     ob_claimed (bt_outcome b) = 1 \<and> batch_operations b \<noteq> {}"
proof -
  let ?b0 = "batch_start sample_batch queued_db"
  have "bt_phase ?b0 = Filling" "may_claim sample_batch ?b0"
    by (simp_all add: batch_start_def validate_batch_def sample_batch_def may_claim_def
        outcome_active_def is_blank_def) code_simp+
  then have step: "batch_step sample_batch ?b0 (batch_claim sample_batch sample_env (?b0\<lparr>bt_db := bt_db ?b0\<rparr>))"
    by (intro step_claim) simp_all
  have "ob_claimed (bt_outcome (batch_claim sample_batch sample_env ?b0)) = 1"
    "list_ex (\<lambda>t. \<not> joinable t) (bt_tasks (batch_claim sample_batch sample_env ?b0))"
    by code_simp+
  moreover have "batch_operations b \<noteq> {}" if "list_ex (\<lambda>t. \<not> joinable t) (bt_tasks b)" for b
  proof -
    from that obtain t where t: "t \<in> set (bt_tasks b)" "\<not> joinable t" unfolding list_ex_iff by blast
    then obtain c where "t = Executing c" by (metis joinable.elims(3))
    with t show ?thesis by (auto simp: batch_operations_def)
  qed
  moreover have "?b0\<lparr>bt_db := bt_db ?b0\<rparr> = ?b0" by simp
  ultimately show ?thesis using step by (metis r_into_rtranclp)
qed

theorem batch_accounts_for_claims_witness:
  "\<exists>b. (batch_step sample_batch)\<^sup>*\<^sup>* (batch_start sample_batch queued_db) b \<and>
     ob_claimed (bt_outcome b) = 1 \<and> batch_accounts sample_batch b"
  using sample_batch_claims batch_accounts_for_claims by blast

theorem metadata_batch_runs_metadata_witness:
  "\<exists>b. (batch_step sample_batch)\<^sup>*\<^sup>* (batch_start sample_batch queued_db) b \<and>
     batch_operations b = {OpMeta}"
proof -
  obtain b where b: "(batch_step sample_batch)\<^sup>*\<^sup>* (batch_start sample_batch queued_db) b"
      "batch_operations b \<noteq> {}"
    using sample_batch_claims by blast
  have "repository_ok queued_db" by (simp add: repository_ok_def) code_simp
  moreover have "bp_metadata_only sample_batch" by (simp add: sample_batch_def)
  ultimately have "batch_operations b \<subseteq> {OpMeta}" using metadata_batch_runs_metadata [OF b(1)] by blast
  with b show ?thesis by blast
qed

end
