(* ===== verification/Poll_Service_Theorems.thy ===== *)
theory Poll_Service_Theorems
  imports Poll_Worker Poll_Theorems Batch_Theorems
begin

text \<open>
  Properties of the poll service and the worker of \<open>src/subscription/worker.rs\<close>: what a poll
  reports is what it stored, only a list proven complete removes a subscription, and the worker
  wakes up for the next poll.
\<close>

subsection \<open>The account row after an ending\<close>

lemma ending_row:
  assumes opened: "poll_open db account token" and metas: "metas_ok db" and meta: "db_meta db1 = db_meta db"
    and f: "closing f" and upd: "meta_update account (token_matches token) f db1 = Inr (Suc 0, db')"
  shows "\<exists>m. find_meta db account = Some m \<and> find_meta db' account = Some (f m)"
proof -
  obtain m where m: "find_meta db account = Some m" "meta_current_token m = Inr (Some token)"
    using opened by (auto simp: poll_open_def)
  have "find_meta db1 account = Some m" "metas_ok db1"
    using m(1) metas meta by (simp_all add: metas_ok_def find_meta_def)
  moreover have "token_matches token m"
    using current_token_columns [OF metas.lookup_valid [OF metas m(1)] m(2)]
    by (simp add: token_matches_def token_generation_def)
  moreover have "\<And>m. meta_account_key (f m) = meta_account_key m" using f by (simp add: closing_def)
  ultimately show ?thesis using metas.update_hit [OF _ _ upd, of m] m(1) by auto
qed

definition account_scheduled :: "database \<Rightarrow> string \<Rightarrow> u64 \<Rightarrow> bool" where
  "account_scheduled db account at \<longleftrightarrow>
     (\<exists>m. find_meta db account = Some m \<and> meta_next_poll_at m = uint at \<and>
        meta_open_poll_generation m = None)"

lemma failure_scheduled:
  assumes "metas_ok db" and run: "record_poll_failure env c db = (Inr x, db')"
  shows "account_scheduled db' (rpf_account_key c) (rpfr_next_poll_at x)"
proof -
  obtain t at k where t: "require_current_poll env db (rpf_account_key c) (rpf_token c) = Inr t"
    and upd: "meta_update (rpf_account_key c) (token_matches (rpf_token c))
      (failure_set at k (uint (rpfr_next_poll_at x)) (rpf_message c)) db = Inr (Suc 0, db')"
    using run unfolding record_poll_failure_def run_transaction_Inr record_poll_failure_body_def Let_def
    by (clarsimp simp: sql_execute_Inr require_consumed_Inr command_integer_Inr split: prod.splits)
  from ending_row [OF require_current_open [OF t] assms(1) refl closing_sets(1) upd]
  show ?thesis by (auto simp: account_scheduled_def failure_set_def)
qed

lemma incomplete_scheduled:
  assumes ok: "db_ok db" and metas: "metas_ok db"
    and run: "record_incomplete_snapshot env c db = (Inr x, db')"
  shows "account_scheduled db' (ris_account_key c) (risr_next_poll_at x)"
proof -
  obtain t at k eff db1 where
      t: "require_current_poll env db (ris_account_key c) (ris_token c) = Inr t"
    and seen: "apply_seen_records env 0 (incomplete_context c t) (ris_records c) (no_effects, db) = Inr (eff, db1)"
    and upd: "meta_update (ris_account_key c) (token_matches (ris_token c))
      (incomplete_set at k (uint (risr_next_poll_at x)) c) db1 = Inr (Suc 0, db')"
    using run unfolding record_incomplete_snapshot_def run_transaction_Inr record_incomplete_body_def
      Let_def
    by (clarsimp simp: sql_execute_Inr require_consumed_Inr incomplete_context_def command_integer_Inr
        split: prod.splits)
  have "db_meta db1 = db_meta db"
    using apply_seen_records_Inr [OF ok seen] by (simp add: snapshot_merged_def merge_progress_def)
  from ending_row [OF require_current_open [OF t] metas this closing_sets(2) upd]
  show ?thesis by (auto simp: account_scheduled_def incomplete_set_def failure_set_def)
qed

lemma complete_scheduled:
  assumes ok: "db_ok db" and metas: "metas_ok db"
    and run: "apply_complete_snapshot env c db = (Inr x, db')"
  shows "account_scheduled db' (acs_account_key c) (acsr_next_poll_at x)"
proof -
  let ?snap = "poll_snapshot_id (acs_token c)"
  obtain t at eff db1 exs k db2 fence db3 where
      t: "require_current_poll env db (acs_account_key c) (acs_token c) = Inr t"
    and seen: "apply_seen_records env 0 (complete_context c t) (acs_records c) (no_effects, db) = Inr (eff, db1)"
    and deactivate: "update_where (missing_where (acs_account_key c) ?snap) (deactivate_set at) db1 = Inr (k, db2)"
    and audits: "supersede_all_missing env fence exs db2 = Inr db3"
    and upd: "meta_update (acs_account_key c) (token_matches (acs_token c))
      (complete_set at (uint (acsr_next_poll_at x)) (snapshot_id_str ?snap)) db3 = Inr (Suc 0, db')"
    using run unfolding apply_complete_snapshot_def run_transaction_Inr apply_complete_body_def Let_def
    by (clarsimp simp: sql_execute_Inr require_consumed_Inr complete_context_def command_integer_Inr
        split: prod.splits if_split_asm)
  have "db_meta db1 = db_meta db"
    using apply_seen_records_Inr [OF ok seen] by (simp add: snapshot_merged_def merge_progress_def)
  moreover have "db_meta db3 = db_meta db2" using supersede_all_missing_Inr [OF audits] by blast
  ultimately have "db_meta db3 = db_meta db" using update_where_Inr(1) [OF deactivate] by simp
  from ending_row [OF require_current_open [OF t] metas this closing_sets(3) upd]
  show ?thesis by (auto simp: account_scheduled_def complete_set_def)
qed

subsection \<open>What a poll reports\<close>

text \<open>The next poll time a caller of \<open>poll\<close> is told\<close>

definition reported_schedule :: "subscription_poll_error + subscription_poll_outcome \<Rightarrow> u64 option" where
  "reported_schedule r =
     (case r of Inl e \<Rightarrow> perr_next_poll_at e | Inr out \<Rightarrow> Some (out_next_poll_at out))"

lemma repository_error_reports_nothing [simp]: "perr_next_poll_at (poll_error_repository e) = None"
  by (simp add: poll_error_repository_def poll_error_new_def)

lemma rolled_back:
  "record_poll_failure env c1 db = (Inl e, db') \<Longrightarrow> db' = db"
  "record_incomplete_snapshot env c2 db = (Inl e, db') \<Longrightarrow> db' = db"
  "apply_complete_snapshot env c3 db = (Inl e, db') \<Longrightarrow> db' = db"
  "begin_poll env c4 db = (Inl e, db') \<Longrightarrow> db' = db"
  by (simp_all add: record_poll_failure_def record_incomplete_snapshot_def apply_complete_snapshot_def
      begin_poll_def run_transaction_Inl)

text \<open>What a failed ending does to the database\<close>

lemma fail_open_poll_cases:
  assumes run: "fail_open_poll env account token at kind message retry db = (r, db')"
  obtains (refused) e where "r = Inl e" "perr_next_poll_at e = None" "db' = db"
  | (recorded) e c x where "r = Inl e" "perr_next_poll_at e = Some (rpfr_next_poll_at x)"
      "record_poll_failure (pe_end env) c db = (Inr x, db')" "rpf_account_key c = account"
proof (cases "record_poll_failure_command_try_new account token at message retry")
  case (Inl e)
  with run have "r = Inl (poll_error_repository e)" "db' = db"
    by (simp_all add: fail_open_poll_def persist_failure_def)
  with refused show thesis by simp
next
  case (Inr c)
  then have account: "rpf_account_key c = account"
    by (auto simp: record_poll_failure_command_try_new_def and_then_Inr_iff)
  obtain x d where ended: "record_poll_failure (pe_end env) c db = (x, d)" by fastforce
  show thesis
  proof (cases x)
    case (Inl e)
    with run ended \<open>_ = Inr c\<close> have "r = Inl (poll_error_repository e)" "db' = d"
      by (simp_all add: fail_open_poll_def persist_failure_def)
    moreover have "d = db" using ended Inl rolled_back(1) by blast
    ultimately show thesis using refused by simp
  next
    case (Inr y)
    with run ended \<open>_ = Inr c\<close> have "r = Inl ((poll_error_new kind message)
        \<lparr>perr_next_poll_at := Some (rpfr_next_poll_at y)\<rparr>)" "db' = d"
      by (simp_all add: fail_open_poll_def persist_failure_def)
    with recorded [of _ y c] ended Inr account show thesis by simp
  qed
qed

lemma finish_incomplete_cases:
  assumes run: "finish_incomplete_poll env policy token at ob records db = (r, db')"
  obtains (fails) kind message where "fail_open_poll env (poll_account_key policy) token at kind message
        (poll_retry_policy_of policy) db = (r, db')"
  | (refused) e where "r = Inl e" "perr_next_poll_at e = None" "db' = db"
  | (ended) out c x where "r = Inr out" "out_next_poll_at out = risr_next_poll_at x"
      "record_incomplete_snapshot (pe_end env) c db = (Inr x, db')"
      "ris_account_key c = poll_account_key policy"
proof (cases "record_incomplete_command_try_new (poll_account_key policy) token at ob
    (poll_new_record_policy policy) records (poll_retry_policy_of policy)")
  case (Inl e)
  with run fails show thesis by (simp add: finish_incomplete_poll_def)
next
  case (Inr c)
  then have account: "ris_account_key c = poll_account_key policy"
    by (auto simp: record_incomplete_command_try_new_def and_then_Inr_iff Let_def)
  obtain x d where "record_incomplete_snapshot (pe_end env) c db = (x, d)" by fastforce
  with run Inr account refused ended rolled_back(2) show thesis
    by (cases x) (auto simp: finish_incomplete_poll_def)
qed

lemma finish_complete_cases:
  assumes run: "finish_complete_poll env policy token at records db = (r, db')"
  obtains (fails) kind message where "fail_open_poll env (poll_account_key policy) token at kind message
        (poll_retry_policy_of policy) db = (r, db')"
  | (refused) e where "r = Inl e" "perr_next_poll_at e = None" "db' = db"
  | (ended) out c x where "r = Inr out" "out_next_poll_at out = acsr_next_poll_at x"
      "apply_complete_snapshot (pe_end env) c db = (Inr x, db')"
      "acs_account_key c = poll_account_key policy" "acs_records c = records"
proof (cases "apply_complete_command_try_new (poll_account_key policy) token at
    (saturating_add at (poll_interval_secs policy)) (poll_new_record_policy policy) records")
  case (Inl e)
  with run fails show thesis by (simp add: finish_complete_poll_def)
next
  case (Inr c)
  then have account: "acs_account_key c = poll_account_key policy" "acs_records c = records"
    by (auto simp: apply_complete_command_try_new_def and_then_Inr_iff)
  obtain x d where "apply_complete_snapshot (pe_end env) c db = (x, d)" by fastforce
  with run Inr account refused ended rolled_back(3) show thesis
    by (cases x) (auto simp: finish_complete_poll_def)
qed

text \<open>The ways a poll ends\<close>

lemma end_poll_cases:
  assumes run: "end_poll env policy token db = (r, db')"
  obtains (refused) e where "r = Inl e" "perr_next_poll_at e = None" "db' = db"
  | (failed) e c x where "r = Inl e" "perr_next_poll_at e = Some (rpfr_next_poll_at x)"
      "record_poll_failure (pe_end env) c db = (Inr x, db')"
      "rpf_account_key c = poll_account_key policy"
  | (incomplete) out c x where "r = Inr out" "out_next_poll_at out = risr_next_poll_at x"
      "record_incomplete_snapshot (pe_end env) c db = (Inr x, db')"
      "ris_account_key c = poll_account_key policy"
  | (complete) snap out c x where "r = Inr out" "out_next_poll_at out = acsr_next_poll_at x"
      "apply_complete_snapshot (pe_end env) c db = (Inr x, db')"
      "acs_account_key c = poll_account_key policy"
      "pe_source env (poll_cookie_header policy) (poll_library_limit policy) = Inr snap"
      "validated_snapshot_terminal (wanted_meta snap) = Inr TerminalComplete"
      "snapshot_records (wanted_items snap) = Inr (acs_records c)"
proof -
  have fails: thesis
    if "fail_open_poll env (poll_account_key policy) token at kind message
        (poll_retry_policy_of policy) db = (r, db')"
    for at kind message
    using that by (cases rule: fail_open_poll_cases) (rule refused failed; assumption)+
  let ?at = "max (pe_answered_at env) (pe_started_at env)"
  consider
      at kind message where "fail_open_poll env (poll_account_key policy) token at kind message
        (poll_retry_policy_of policy) db = (r, db')"
    | ob records where "finish_incomplete_poll env policy token ?at ob records db = (r, db')"
    | snap records where "finish_complete_poll env policy token ?at records db = (r, db')"
        "pe_source env (poll_cookie_header policy) (poll_library_limit policy) = Inr snap"
        "validated_snapshot_terminal (wanted_meta snap) = Inr TerminalComplete"
        "snapshot_records (wanted_items snap) = Inr records"
    using run unfolding end_poll_def Let_def
    by (auto split: sum.splits snapshot_terminal.splits)
  then show thesis
  proof cases
    case (1 at kind message)
    then show thesis by (rule fails)
  next
    case (2 ob records)
    then show thesis
      by (cases rule: finish_incomplete_cases)
        (rule fails, assumption, rule refused, assumption+, rule incomplete, assumption+)
  next
    case (3 snap records)
    from 3(1) show thesis
    proof (cases rule: finish_complete_cases)
      case (ended out c x)
      with 3 complete show thesis by blast
    qed (rule fails, assumption, rule refused, assumption+)
  qed
qed

text \<open>The next poll time that \<open>poll\<close> reports, with its outcome or with its error, is the one stored
  for the account, whose poll is closed, so a restart loads the schedule the worker follows;
  the other clients of the repository may do anything while the source answers.\<close>

theorem poll_reports_stored_schedule:
  assumes "repository_ok db" and "\<And>d. repository_step\<^sup>*\<^sup>* d (pe_meanwhile env d)"
    and "poll env policy db = (r, db')" and "reported_schedule r = Some at"
  shows "account_scheduled db' (poll_account_key policy) at"
proof -
  have "\<exists>c begun db1. begin_poll (pe_begin env) c db = (Inr begun, db1) \<and>
      end_poll env policy (bpollr_token begun) (pe_meanwhile env db1) = (r, db')"
    using assms(3,4)
    by (auto simp: poll_def reported_schedule_def split: sum.splits prod.splits)
  then obtain c begun db1 where begun: "begin_poll (pe_begin env) c db = (Inr begun, db1)"
      and ended: "end_poll env policy (bpollr_token begun) (pe_meanwhile env db1) = (r, db')"
    by blast
  have "repository_ok db1"
    using begin_kept [OF assms(1), of "pe_begin env" c] begun by (simp add: kept_def)
  then have "repository_ok (pe_meanwhile env db1)"
    using history_kept [OF assms(2)] by (simp add: kept_def)
  then have ok: "db_ok (pe_meanwhile env db1)" "metas_ok (pe_meanwhile env db1)"
    by (simp_all add: repository_ok_def)
  from ended show ?thesis
  proof (cases rule: end_poll_cases)
    case (refused e)
    with assms(4) show ?thesis by (simp add: reported_schedule_def)
  next
    case (failed e c x)
    with failure_scheduled [OF ok(2) failed(3)] assms(4) show ?thesis
      by (simp add: reported_schedule_def)
  next
    case (incomplete out c x)
    with incomplete_scheduled [OF ok incomplete(3)] assms(4) show ?thesis
      by (simp add: reported_schedule_def)
  next
    case (complete snap out c x)
    with complete_scheduled [OF ok complete(3)] assms(4) show ?thesis
      by (simp add: reported_schedule_def)
  qed
qed

subsection \<open>Removals\<close>

lemma merge_keeps_active:
  assumes "db_ok db" and merged: "snapshot_merged cx obs db db1" and rows: "db_rows db' = db_rows db1"
  shows "active_subjects db account \<subseteq> active_subjects db' account"
proof
  fix s assume "s \<in> active_subjects db account"
  then obtain r where r: "r \<in> set (db_rows db)" "col_account_key r = account" "col_active r = 1"
      "s = col_subject_id r"
    by (auto simp: active_subjects_def)
  have "find_row db (row_key r) = Some r" by (rule find_row_unique [OF assms(1) r(1)])
  then obtain es r' where r': "find_row db1 (row_key r) = Some r'" "merged_row (row_key r) es r r'"
    using merged unfolding snapshot_merged_def merge_progress_def by blast
  then have "r' \<in> set (db_rows db')" "row_key r' = row_key r"
    using find_row_Some [of db1] rows by auto
  moreover have "col_active r' = 1" using r'(2) r(3) by (simp add: merged_row_def)
  ultimately show "s \<in> active_subjects db' account"
    using r by (auto simp: active_subjects_def row_key_def intro!: exI [of _ r'])
qed

lemma active_subjects_rows: "db_rows db' = db_rows db \<Longrightarrow> active_subjects db' a = active_subjects db a"
  by (simp add: active_subjects_def)

text \<open>Only a list proven complete removes a subscription: when an account follows fewer subjects
  after the ending of a poll, the poll succeeded, and the source had answered with a complete
  list whose end it observed and which no item limit cut.\<close>

theorem poll_removes_only_on_proof:
  assumes "repository_ok db" and "end_poll env policy token db = (r, db')"
    and "\<not> active_subjects db account \<subseteq> active_subjects db' account"
  shows "\<exists>snap out. r = Inr out \<and>
    pe_source env (poll_cookie_header policy) (poll_library_limit policy) = Inr snap \<and>
    metadata_is_complete (wanted_meta snap) \<and> \<not> wanted_truncated_by_limit (wanted_meta snap)"
proof -
  have ok: "db_ok db" "metas_ok db" using assms(1) by (simp_all add: repository_ok_def)
  from assms(2) show ?thesis
  proof (cases rule: end_poll_cases)
    case (refused e)
    with assms(3) show ?thesis by simp
  next
    case (failed e c x)
    with record_poll_failure_Inr(2) [OF ok failed(3)] assms(3) active_subjects_rows show ?thesis
      by blast
  next
    case (incomplete out c x)
    have "active_subjects db account \<subseteq> active_subjects db' account"
      by (rule record_incomplete_Inr [OF ok incomplete(3)]) (rule merge_keeps_active [OF ok(1)])
    with assms(3) show ?thesis by blast
  next
    case (complete snap out c x)
    then show ?thesis
      by (auto simp: validated_snapshot_terminal_def and_then_Inr_iff
          split: wanted_completeness.splits if_splits)
  qed
qed

subsection \<open>Waking up\<close>

lemma uint_max_word64: "uint (max a b :: u64) = max (uint a) (uint b)"
  by (simp add: max_def word_le_def)

lemma uint_min_word64: "uint (min a b :: u64) = min (uint a) (uint b)"
  by (simp add: min_def word_le_def)

lemma uint_saturating_sub: "uint (saturating_sub a b :: u64) = max (uint a - uint b) 0"
  by (auto simp: saturating_sub_def word_le_def uint_sub_if')

lemma bounded_jitter_le: "bounded_jitter nanos maximum \<le> maximum"
proof (cases "maximum = 0 \<or> nanos = None")
  case False
  then obtain n where n: "nanos = Some n" "maximum \<noteq> 0" by auto
  have "0 < uint (saturating_add maximum 1)" "uint (saturating_add maximum 1) \<le> uint maximum + 1"
    by (simp_all add: uint_saturating_add)
  then have "uint (word_of_nat n :: u64) mod uint (saturating_add maximum 1) \<le> uint maximum"
    using pos_mod_bound [of "uint (saturating_add maximum 1)" "uint (word_of_nat n :: u64)"] by linarith
  then have "uint (word_of_nat n mod saturating_add maximum 1 :: u64) \<le> uint maximum"
    by (simp only: uint_mod)
  with n show ?thesis by (simp add: bounded_jitter_def word_le_def)
qed (auto simp: bounded_jitter_def)

text \<open>The worker wakes up in time: a pass always waits at least a second, and when it has a next
  poll time it does not sleep past it, nor past the idle interval and its jitter.\<close>

theorem worker_wakes_for_poll:
  assumes "worker_pass env options s wait (Some due, db')"
    and "watch_enabled (cfg_watcher (we_config env))"
    and "subscription_poll_policy_of (we_config env) = Inr policy"
  shows "1 \<le> wait \<and> uint (we_end_now env) + uint wait \<le> max (uint due) (uint (we_end_now env) + 1) \<and>
    uint wait \<le> max 1 (uint (wo_idle_interval_secs options)) + uint (wo_jitter_secs options)"
proof -
  obtain next' execution where wait: "wait = wait_secs (worker_delay options (cfg_watcher (we_config env))
      (Some due) execution (we_end_now env) (we_nanos env))"
    using assms by (auto elim: worker_passE simp: worker_schedule_def split: option.splits)
  define busy where "busy = (case execution of None \<Rightarrow> False | Some ob \<Rightarrow> ob_claimed ob = wo_batch_size options)"
  define idle where "idle = (if busy then 1 else wo_idle_interval_secs options)"
  let ?jitter = "bounded_jitter (we_nanos env) (wo_jitter_secs options)"
  have end_now: "uint (we_end_now env) + max (max (uint due - uint (we_end_now env)) 0) 1
      = max (uint due) (uint (we_end_now env) + 1)"
    by linarith
  have later: "uint (saturating_add idle ?jitter) = min (uint idle + uint ?jitter) (2 ^ 64 - 1)"
    by (simp add: uint_saturating_add)
  have "wait = max (max (min (max (saturating_sub due (we_end_now env)) 1) (saturating_add idle ?jitter)) 1) 1"
    by (simp only: wait worker_delay_def wait_secs_def idle_def busy_def Let_def option.case)
  then have "uint wait = max (min (max (max (uint due - uint (we_end_now env)) 0) 1)
      (min (uint idle + uint ?jitter) (2 ^ 64 - 1))) 1"
    by (simp only: uint_max_word64 uint_min_word64 uint_saturating_sub later uint_1 max.assoc max.idem)
  moreover have "uint ?jitter \<le> uint (wo_jitter_secs options)"
    using bounded_jitter_le by (simp only: word_le_def)
  moreover have "uint idle \<le> max 1 (uint (wo_idle_interval_secs options))"
    by (simp add: idle_def)
  moreover have "0 \<le> uint (wo_jitter_secs options)" by simp
  ultimately show ?thesis
    unfolding end_now [symmetric] by (simp only: word_le_def uint_1) linarith
qed

subsection \<open>Runs\<close>

text \<open>A poll whose source contradicts itself, and one whose source answers an empty list\<close>

definition sample_poll_policy :: subscription_poll_policy where
  "sample_poll_policy = \<lparr>poll_account_key = ''acc'', poll_cookie_header = ''dbcl2=acc'',
     poll_library_limit = 200, poll_interval_secs = 3600, poll_new_record_policy = sample_policy,
     poll_retry_policy_of = sample_retry_policy,
     poll_redactor = redactor_from_config default_config\<rparr>"

definition sample_poll_env :: "bool \<Rightarrow> poll_env" where
  "sample_poll_env ended = \<lparr>pe_started_at = 1100, pe_answered_at = 1200,
     pe_source = (\<lambda>_ _. Inr \<lparr>wanted_items = [], wanted_meta =
       \<lparr>wanted_completeness = WantedComplete, wanted_fetched_pages = 1,
        wanted_truncated_by_limit = False, wanted_end_observed = ended\<rparr>\<rparr>),
     pe_begin = sample_env, pe_end = sample_env, pe_meanwhile = id\<rparr>"

theorem poll_reports_stored_schedule_witness:
  "\<exists>at. reported_schedule (fst (poll (sample_poll_env False) sample_poll_policy poll_db)) = Some at \<and>
     account_scheduled (snd (poll (sample_poll_env False) sample_poll_policy poll_db)) ''acc'' at"
proof -
  let ?run = "poll (sample_poll_env False) sample_poll_policy poll_db"
  have "reported_schedule (fst ?run) \<noteq> None" by code_simp
  then obtain at where at: "reported_schedule (fst ?run) = Some at" by blast
  have run: "?run = (fst ?run, snd ?run)" by simp
  have "repository_step\<^sup>*\<^sup>* d (pe_meanwhile (sample_poll_env False) d)" for d
    by (simp add: sample_poll_env_def)
  from poll_reports_stored_schedule [OF poll_db_ok this run at] at show ?thesis
    by (auto simp: sample_poll_policy_def)
qed

theorem poll_removes_only_on_proof_witness:
  "\<exists>out. fst (end_poll (sample_poll_env True) sample_poll_policy sample_poll_token poll_db) = Inr out"
proof -
  let ?run = "end_poll (sample_poll_env True) sample_poll_policy sample_poll_token poll_db"
  have "list_all (\<lambda>r. col_active r = 0) (db_rows (snd ?run))" by code_simp
  then have "active_subjects (snd ?run) ''acc'' = {}"
    by (auto simp: active_subjects_def list_all_iff)
  moreover have "''s1'' \<in> active_subjects poll_db ''acc''"
    by (auto simp: active_subjects_def poll_db_def running_db_def database_of_def running_row_def
        idle_row_def)
  ultimately have removed: "\<not> active_subjects poll_db ''acc'' \<subseteq> active_subjects (snd ?run) ''acc''" by blast
  have run: "?run = (fst ?run, snd ?run)" by simp
  from poll_removes_only_on_proof [OF poll_db_ok run removed] show ?thesis by blast
qed

lemma batch_can_return: "\<exists>b r. (batch_step p)\<^sup>*\<^sup>* b0 b \<and> bt_phase b = BatchDone r"
proof (induction b0 rule: measure_induct_rule [of "batch_rest p"])
  case (less b0)
  show ?case
  proof (cases "\<exists>b'. batch_step p b0 b'")
    case True
    then obtain b' where "batch_step p b0 b'" by blast
    with less [OF batch_step_decreases [OF this]] show ?thesis
      by (meson converse_rtranclp_into_rtranclp)
  next
    case False
    then have "bt_phase b0 \<notin> {Filling, Draining}" unfolding batch_progress .
    then obtain r where "bt_phase b0 = BatchDone r" by (cases "bt_phase b0") auto
    then show ?thesis by blast
  qed
qed

definition sample_worker_config :: file_config where
  "sample_worker_config = default_config\<lparr>cfg_douban_cookie := ''dbcl2=acc'',
     cfg_watcher := default_watcher\<lparr>watch_enabled := True\<rparr>\<rparr>"

definition sample_worker_env :: worker_env where
  "sample_worker_env = \<lparr>we_config = sample_worker_config, we_schedule = sample_env,
     we_poll = sample_poll_env True, we_now = 1000, we_failed_now = 1000, we_end_now = 1000,
     we_nanos = Some 3, we_lease_ttl = 60\<rparr>"

definition sample_worker_options :: worker_options where
  "sample_worker_options = \<lparr>wo_batch_size = 2, wo_concurrency = 1, wo_idle_interval_secs = 15,
     wo_jitter_secs = 5\<rparr>"

theorem worker_wakes_for_poll_witness:
  "\<exists>wait db. worker_pass sample_worker_env sample_worker_options (Some 1010, poll_db) wait (Some 1010, db) \<and>
     uint wait \<le> 10"
proof -
  have account: "\<not> is_blank (xp_account_key (execution_policy_of (we_config sample_worker_env)))"
    by code_simp
  have "(case subscription_poll_policy_of sample_worker_config of Inl _ \<Rightarrow> False | Inr _ \<Rightarrow> True)"
    by code_simp
  then obtain policy where policy: "subscription_poll_policy_of (we_config sample_worker_env) = Inr policy"
    by (auto simp: sample_worker_env_def split: sum.splits)
  have enabled: "watch_enabled (cfg_watcher (we_config sample_worker_env))"
      "watch_dry_run (cfg_watcher (we_config sample_worker_env))"
    by (simp_all add: sample_worker_env_def sample_worker_config_def default_watcher_def)
  obtain db r where "worker_batch (Inr (run_metadata_batch_start
      (execution_policy_of (we_config sample_worker_env)) (wo_batch_size sample_worker_options)
      (wo_concurrency sample_worker_options) (we_lease_ttl sample_worker_env))) poll_db r db"
    using batch_can_return batch_returns by metis
  then have "worker_metadata sample_worker_env sample_worker_options poll_db db"
    by (rule drained [OF account])
  moreover have "worker_schedule sample_worker_env policy (Some 1010) db = Inr (Some 1010)"
    "worker_poll sample_worker_env policy (Some 1010) db = (Some 1010, db)"
    by (simp_all add: worker_schedule_def worker_poll_def sample_worker_env_def)
  moreover have "worker_due sample_worker_env sample_worker_options db None db"
    by (rule dry [OF enabled(2)])
  ultimately have "\<exists>wait. worker_pass sample_worker_env sample_worker_options (Some 1010, poll_db) wait (Some 1010, db)"
    using scheduled [OF _ enabled(1) policy] by blast
  then obtain wait where pass: "worker_pass sample_worker_env sample_worker_options (Some 1010, poll_db) wait (Some 1010, db)"
    by blast
  from worker_wakes_for_poll [OF pass enabled(1) policy] pass show ?thesis
    by (auto simp: sample_worker_env_def)
qed

end
