(* ===== verification/Effect_Adapters.thy ===== *)
theory Effect_Adapters
  imports Rust_Text Config_Model Payload_Model
begin

text \<open>
  The runtime adapters of \<open>src/subscription/effect_adapters.rs\<close>: \<open>QbEffectAdapter::ensure\<close>
  over a qB transport, and the hardlink batch over a file tree. The transport and what the
  operating system refuses are parameters; \<open>QbTorrentInfo\<close> and \<open>QbTorrentFile\<close> are of
  \<open>src/clients/qbittorrent.rs\<close>.
\<close>

subsection \<open>Torrents of a qB server\<close>

record qb_torrent_info =
  ti_hash :: string
  ti_name :: string
  ti_category :: string
  ti_tags :: string
  ti_save_path :: string
  ti_content_path :: string
  ti_progress :: f64
  ti_size :: u64
  ti_downloaded :: u64
  ti_completion_on :: int
  ti_state :: string

record qb_torrent_file =
  tf_name :: string
  tf_size :: u64
  tf_progress :: f64
  tf_priority :: int

text \<open>\<open>x >= c\<close> for a positive \<open>c\<close>: the bit patterns of the positive numbers are ordered as the
  numbers are, up to infinity.\<close>

definition f64_at_least :: "f64 \<Rightarrow> f64 \<Rightarrow> bool" where
  "f64_at_least c x \<longleftrightarrow> c \<le> x \<and> x \<le> 0x7FF0000000000000"

definition torrent_is_complete :: "qb_torrent_info \<Rightarrow> bool" where
  "torrent_is_complete t \<longleftrightarrow> f64_at_least 0x3FEFFFFDE7210BE9 (ti_progress t) \<or> 0 < ti_completion_on t"

text \<open>\<open>x.clamp(0.0, 1.0)\<close>: a NaN and the negative zero stay what they are.\<close>

definition f64_clamp_unit :: "f64 \<Rightarrow> f64" where
  "f64_clamp_unit x =
     (if 0x8000000000000000 < x \<and> x \<le> 0xFFF0000000000000 then 0
      else if 0x3FF0000000000000 < x \<and> x \<le> 0x7FF0000000000000 then 0x3FF0000000000000
      else x)"

subsection \<open>The qB transport\<close>

datatype qb_torrent_input = InputUrl string | InputBytes string string

datatype qb_add_input_error = EmptyUrl | EmptyTorrentFile

fun display_add_input_error :: "qb_add_input_error \<Rightarrow> string" where
  "display_add_input_error EmptyUrl = ''qB torrent URL must not be empty''"
| "display_add_input_error EmptyTorrentFile = ''qB torrent file must not be empty''"

definition input_from_url :: "string \<Rightarrow> qb_add_input_error + qb_torrent_input" where
  "input_from_url url =
     (let t = str_trim url in if t = [] then Inl EmptyUrl else Inr (InputUrl t))"

definition input_from_bytes :: "string \<Rightarrow> string \<Rightarrow> qb_add_input_error + qb_torrent_input" where
  "input_from_bytes filename bytes =
     (if bytes = [] then Inl EmptyTorrentFile
      else Inr (InputBytes (if is_blank filename then ''download.torrent'' else str_trim filename) bytes))"

record qb_add_spec =
  spec_input :: qb_torrent_input
  spec_category :: "string option"
  spec_save_path :: "string option"

definition normalized_optional :: "string option \<Rightarrow> string option" where
  "normalized_optional v =
     (case v of None \<Rightarrow> None | Some s \<Rightarrow> if str_trim s = [] then None else Some (str_trim s))"

definition add_spec_new :: "qb_torrent_input \<Rightarrow> string option \<Rightarrow> string option \<Rightarrow> qb_add_spec" where
  "add_spec_new input category save_path =
     \<lparr>spec_input = input, spec_category = normalized_optional category,
      spec_save_path = normalized_optional save_path\<rparr>"

record qb_add_command =
  cmd_input :: qb_torrent_input
  cmd_category :: "string option"
  cmd_save_path :: "string option"
  cmd_stable_tag :: string

text \<open>The trait \<open>QbEffectTransport\<close>; its methods act on the server's state \<open>'s\<close>, and an error
  is its message.\<close>

record 's qb_transport =
  by_exact_tag :: "string \<Rightarrow> 's \<Rightarrow> (string + qb_torrent_info list) \<times> 's"
  by_hash :: "string \<Rightarrow> 's \<Rightarrow> (string + qb_torrent_info list) \<times> 's"
  add_torrent :: "qb_add_command \<Rightarrow> 's \<Rightarrow> (string + unit) \<times> 's"

datatype qb_effect_stage = InspectTag | InspectHash | AddStage

fun display_stage :: "qb_effect_stage \<Rightarrow> string" where
  "display_stage InspectTag = ''inspect exact tag''"
| "display_stage InspectHash = ''inspect authoritative hash''"
| "display_stage AddStage = ''add torrent''"

datatype qb_adapter_error =
  TransportError qb_effect_stage string
| InvalidObservation effect_identity_error
| AdapterConflict qb_reconciliation_conflict

text \<open>\<open>{:?}\<close> of a conflict. The hashes are lower-case hexadecimal, so no character is escaped.\<close>

definition debug_str :: "string \<Rightarrow> string" where
  "debug_str s = [CHR 0x22] @ s @ [CHR 0x22]"

fun debug_conflict :: "qb_reconciliation_conflict \<Rightarrow> string" where
  "debug_conflict (DuplicateStableTag hashes) =
     ''DuplicateStableTag { hashes: ['' @ join_with '', '' (map debug_str hashes) @ ''] }''"
| "debug_conflict (HashAndTagDisagree auth tagged) =
     ''HashAndTagDisagree { authoritative_hash: '' @ debug_str auth @ '', tagged_hash: ''
       @ debug_str tagged @ '' }''"

fun display_adapter_error :: "qb_adapter_error \<Rightarrow> string" where
  "display_adapter_error (TransportError stage source) =
     ''qB effect failed during '' @ display_stage stage @ '': '' @ source"
| "display_adapter_error (InvalidObservation e) =
     ''qB returned an invalid torrent observation: '' @ display_identity_error e"
| "display_adapter_error (AdapterConflict c) = ''qB reconciliation conflict: '' @ debug_conflict c"

subsection \<open>Observations\<close>

definition parse_qb_tags :: "string \<Rightarrow> string list" where
  "parse_qb_tags tags =
     btree_list (filter (\<lambda>t. t \<noteq> []) (map str_trim (split_char CHR '','' tags)))"

text \<open>A \<open>BTreeMap\<close> from hashes to a name and tags: the first name that is not empty, and the tags
  of all\<close>

type_synonym merged_torrents = "(string \<times> string \<times> string list) list"

fun merge_observation :: "string \<Rightarrow> string \<Rightarrow> string list \<Rightarrow> merged_torrents \<Rightarrow> merged_torrents" where
  "merge_observation hash name tags [] = [(hash, name, tags)]"
| "merge_observation hash name tags ((h, n, ts) # ms) =
     (if h = hash then (h, (if n = [] then name else n), ts @ tags) # ms
      else (h, n, ts) # merge_observation hash name tags ms)"

fun merge_infos :: "merged_torrents \<Rightarrow> qb_torrent_info list \<Rightarrow> effect_identity_error + merged_torrents" where
  "merge_infos ms [] = Inr ms"
| "merge_infos ms (info # infos) =
     (let tags = parse_qb_tags (ti_tags info) in
      and_then (qb_observation_try_new (ti_hash info) (ti_name info) tags) (\<lambda>ob.
      merge_infos (merge_observation (obs_hash ob) (obs_name ob) tags ms) infos))"

fun observations_from :: "merged_torrents \<Rightarrow> effect_identity_error + qb_torrent_observation list" where
  "observations_from [] = Inr []"
| "observations_from ((h, n, ts) # ms) =
     and_then (qb_observation_try_new h n ts) (\<lambda>ob.
     and_then (observations_from ms) (\<lambda>obs. Inr (ob # obs)))"

definition merge_qb_observations ::
  "qb_torrent_info list \<Rightarrow> qb_torrent_info list \<Rightarrow> effect_identity_error + qb_torrent_observation list"
where
  "merge_qb_observations tagged hashed =
     and_then (merge_infos [] (tagged @ hashed)) (\<lambda>ms. observations_from (sort_key fst ms))"

subsection \<open>The adapter\<close>

text \<open>The first half of \<open>ensure\<close>: both listings, merged\<close>

definition adapter_inspect ::
  "'s qb_transport \<Rightarrow> 's \<Rightarrow> string \<Rightarrow> string option
    \<Rightarrow> (qb_adapter_error + qb_torrent_observation list) \<times> 's" where
  "adapter_inspect tr s tag hash =
     (case by_exact_tag tr tag s of
        (Inl e, s1) \<Rightarrow> (Inl (TransportError InspectTag e), s1)
      | (Inr tagged, s1) \<Rightarrow>
          (let (r, s2) = (case hash of
                 None \<Rightarrow> (Inr [], s1)
               | Some h \<Rightarrow> (let (r, s2) = by_hash tr h s1 in (map_err (TransportError InspectHash) r, s2)))
           in (and_then r (\<lambda>hashed. map_err InvalidObservation (merge_qb_observations tagged hashed)), s2)))"

definition adapter_ensure ::
  "'s qb_transport \<Rightarrow> qb_reconcile_request \<Rightarrow> qb_add_spec \<Rightarrow> 's
    \<Rightarrow> (qb_adapter_error + ensure_qb_torrent_outcome) \<times> 's" where
  "adapter_ensure tr request spec s =
     (case adapter_inspect tr s (effect_key_str (request_key request)) (authoritative_hash request) of
        (Inl e, s1) \<Rightarrow> (Inl e, s1)
      | (Inr obs, s1) \<Rightarrow>
          (case reconcile_qb_torrent request obs of
             UseExisting torrent by_what \<Rightarrow> (Inr (Reconciled torrent by_what), s1)
           | Conflict c \<Rightarrow> (Inl (AdapterConflict c), s1)
           | Add \<Rightarrow>
               (let command = \<lparr>cmd_input = spec_input spec, cmd_category = spec_category spec,
                      cmd_save_path = spec_save_path spec,
                      cmd_stable_tag = effect_key_str (request_key request)\<rparr>;
                    (r, s2) = add_torrent tr command s1
                in (and_then (map_err (TransportError AddStage) r) (\<lambda>_. Inr (Added (request_key request))),
                    s2))))"

end
