(* ===== verification/Hardlink_Adapter.thy ===== *)
theory Hardlink_Adapter
  imports Effect_Adapters
begin

text \<open>
  The hardlink batch of \<open>src/subscription/effect_adapters.rs\<close> (Linux): probing, the plan of
  \<open>Effects_Domain\<close>, and \<open>create_hardlink\<close>. A file tree gives what \<open>lstat\<close> answers for a path
  by its components; what the operating system refuses, and what other processes do between
  the probe and the link, is the environment.
\<close>

subsection \<open>File trees\<close>

datatype file_node = RegularFile file_identity | SymbolicLink | DirectoryNode | OtherNode

type_synonym components = "bool \<times> string list"
type_synonym file_tree = "components \<Rightarrow> file_node option"

text \<open>The name of an \<open>io::ErrorKind\<close>\<close>

type_synonym io_kind_name = string

datatype hardlink_operation = ProbeSource | ProbeTarget | CreateParent | CreateLink | VerifyCreatedLink

datatype hardlink_failure_kind =
  IoFailure io_kind_name
| SymlinkFailure
| NonRegularFile
| UnsafePath
| SourceChanged

datatype hardlink_failure = HardlinkFailure (failure_operation: hardlink_operation) (failure_kind: hardlink_failure_kind)

datatype hardlink_status =
  StatusCreated
| StatusSkippedVerified
| StatusAcceptedExisting
| StatusMissing
| StatusConflict file_identity file_identity
| StatusFailed hardlink_failure

fun status_outcome :: "hardlink_status \<Rightarrow> link_file_outcome" where
  "status_outcome StatusCreated = LinkLinked"
| "status_outcome StatusSkippedVerified = LinkLinked"
| "status_outcome StatusAcceptedExisting = LinkLinked"
| "status_outcome StatusMissing = LinkMissing"
| "status_outcome (StatusConflict _ _) = LinkConflict"
| "status_outcome (StatusFailed _) = LinkFailed"

record hardlink_file_result =
  hl_source_path :: string
  hl_target_path :: string
  hl_outcome :: link_file_outcome
  hl_status :: hardlink_status

text \<open>
  The kinds of error the kernel gives other than for a missing path: \<open>le_probe\<close> for \<open>lstat\<close> of
  a path, \<open>le_source\<close> for opening or examining the source, \<open>le_directory\<close> for opening or making a
  directory, \<open>le_link\<close> for \<open>linkat\<close>, \<open>le_verify\<close> for the last \<open>fstatat\<close>; \<open>le_not_directory\<close> is
  the kind of opening something that is no directory. \<open>le_meanwhile n\<close> is what other processes
  do before the \<open>n\<close>-th action.
\<close>

record link_env =
  le_probe :: "string \<Rightarrow> io_kind_name option"
  le_source :: "string \<Rightarrow> io_kind_name option"
  le_directory :: "components \<Rightarrow> io_kind_name option"
  le_not_directory :: io_kind_name
  le_link :: "string \<Rightarrow> io_kind_name option"
  le_verify :: "string \<Rightarrow> io_kind_name option"
  le_meanwhile :: "nat \<Rightarrow> file_tree \<Rightarrow> file_tree"

subsection \<open>Probing\<close>

record path_probe =
  probe_identity :: "file_identity option"
  probe_failure :: "hardlink_failure option"

definition probe_regular_path :: "link_env \<Rightarrow> hardlink_operation \<Rightarrow> string \<Rightarrow> file_tree \<Rightarrow> path_probe" where
  "probe_regular_path env op p tree =
     (case le_probe env p of
        Some kind \<Rightarrow> \<lparr>probe_identity = None, probe_failure = Some (HardlinkFailure op (IoFailure kind))\<rparr>
      | None \<Rightarrow>
     (case tree (path_components p) of
        None \<Rightarrow> \<lparr>probe_identity = None, probe_failure = None\<rparr>
      | Some SymbolicLink \<Rightarrow>
          \<lparr>probe_identity = None, probe_failure = Some (HardlinkFailure op SymlinkFailure)\<rparr>
      | Some (RegularFile i) \<Rightarrow> \<lparr>probe_identity = Some i, probe_failure = None\<rparr>
      | Some _ \<Rightarrow> \<lparr>probe_identity = None, probe_failure = Some (HardlinkFailure op NonRegularFile)\<rparr>))"

subsection \<open>Creating a link\<close>

definition has_nul :: "string \<Rightarrow> bool" where
  "has_nul s \<longleftrightarrow> CHR 0x00 \<in> set s"

text \<open>\<open>open_stable_source\<close>\<close>

definition open_stable_source :: "link_env \<Rightarrow> string \<Rightarrow> file_identity \<Rightarrow> file_tree \<Rightarrow> hardlink_status + unit" where
  "open_stable_source env source expected tree =
     (let fails = (\<lambda>kind. Inl (StatusFailed (HardlinkFailure ProbeSource kind))) in
      if has_nul source then Inl (StatusFailed (HardlinkFailure CreateLink UnsafePath))
      else case le_source env source of
        Some kind \<Rightarrow> fails (IoFailure kind)
      | None \<Rightarrow>
          (case tree (path_components source) of
             None \<Rightarrow> Inl StatusMissing
           | Some SymbolicLink \<Rightarrow> fails SymlinkFailure
           | Some (RegularFile actual) \<Rightarrow> if actual \<noteq> expected then fails SourceChanged else Inr ()
           | Some _ \<Rightarrow> fails NonRegularFile))"

text \<open>The walk of \<open>safe_parent\<close> over the components of the parent: each directory is opened
  without following a link, and made where it is missing.\<close>

fun walk_parent ::
  "link_env \<Rightarrow> components \<Rightarrow> string list \<Rightarrow> file_tree \<Rightarrow> (hardlink_failure + unit) \<times> file_tree" where
  "walk_parent env prefix [] tree = (Inr (), tree)"
| "walk_parent env prefix (c # cs) tree =
     (let fails = (\<lambda>kind. Inl (HardlinkFailure CreateParent kind));
          here = (fst prefix, snd prefix @ [c]) in
      if c = ''.'' then walk_parent env here cs tree
      else if c = ''..'' \<or> has_nul c then (fails UnsafePath, tree)
      else case le_directory env here of
        Some kind \<Rightarrow> (fails (IoFailure kind), tree)
      | None \<Rightarrow>
          (case tree here of
             None \<Rightarrow> walk_parent env here cs (tree(here \<mapsto> DirectoryNode))
           | Some DirectoryNode \<Rightarrow> walk_parent env here cs tree
           | Some _ \<Rightarrow> (fails (IoFailure (le_not_directory env)), tree)))"

definition safe_parent :: "link_env \<Rightarrow> string \<Rightarrow> file_tree \<Rightarrow> (hardlink_failure + unit) \<times> file_tree" where
  "safe_parent env target tree =
     (let (absolute, names) = path_components target in
      if names = [] \<or> last names \<in> {''.'', ''..''} then (Inl (HardlinkFailure CreateParent UnsafePath), tree)
      else if has_nul (last names) then (Inl (HardlinkFailure CreateLink UnsafePath), tree)
      else case le_directory env (absolute, []) of
        Some kind \<Rightarrow> (Inl (HardlinkFailure CreateParent (IoFailure kind)), tree)
      | None \<Rightarrow> walk_parent env (absolute, []) (butlast names) tree)"

text \<open>\<open>probe_target_at\<close> and the answers \<open>create_hardlink\<close> gives to it. \<open>missing\<close> is the failure when
  nothing is there, \<open>fresh\<close> the status of a target with the expected identity.\<close>

definition verify_target ::
  "link_env \<Rightarrow> string \<Rightarrow> file_identity \<Rightarrow> hardlink_failure \<Rightarrow> hardlink_status \<Rightarrow> file_tree \<Rightarrow> hardlink_status"
where
  "verify_target env target expected missing fresh tree =
     (case le_verify env target of
        Some kind \<Rightarrow> StatusFailed (HardlinkFailure VerifyCreatedLink (IoFailure kind))
      | None \<Rightarrow>
          (case tree (path_components target) of
             None \<Rightarrow> StatusFailed missing
           | Some (RegularFile i) \<Rightarrow> if i = expected then fresh else StatusConflict expected i
           | Some SymbolicLink \<Rightarrow> StatusFailed (HardlinkFailure VerifyCreatedLink SymlinkFailure)
           | Some _ \<Rightarrow> StatusFailed (HardlinkFailure VerifyCreatedLink NonRegularFile)))"

definition create_hardlink ::
  "link_env \<Rightarrow> string \<Rightarrow> string \<Rightarrow> file_identity \<Rightarrow> file_tree \<Rightarrow> hardlink_status \<times> file_tree" where
  "create_hardlink env source target expected tree =
     (case open_stable_source env source expected tree of
        Inl status \<Rightarrow> (status, tree)
      | Inr _ \<Rightarrow>
     (case safe_parent env target tree of
        (Inl failure, tree1) \<Rightarrow> (StatusFailed failure, tree1)
      | (Inr _, tree1) \<Rightarrow>
          if tree1 (path_components target) \<noteq> None then
            (verify_target env target expected
               (HardlinkFailure CreateLink (IoFailure ''AlreadyExists'')) StatusAcceptedExisting tree1, tree1)
          else case le_link env target of
            Some kind \<Rightarrow> (StatusFailed (HardlinkFailure CreateLink (IoFailure kind)), tree1)
          | None \<Rightarrow>
              (let tree2 = tree1(path_components target \<mapsto> RegularFile expected) in
               (verify_target env target expected
                  (HardlinkFailure VerifyCreatedLink (IoFailure ''NotFound'')) StatusCreated tree2, tree2))))"

text \<open>\<open>execute_link_action\<close>. The \<open>expect\<close> on the probed identity is the first case of
  \<open>Create\<close>; a plan from the same probes does not reach it.\<close>

definition execute_link_action ::
  "link_env \<Rightarrow> planned_link_file \<Rightarrow> path_probe \<Rightarrow> file_tree \<Rightarrow> hardlink_status \<times> file_tree" where
  "execute_link_action env planned source tree =
     (case planned_action planned of
        SkipVerified \<Rightarrow> (StatusSkippedVerified, tree)
      | AcceptExisting \<Rightarrow> (StatusAcceptedExisting, tree)
      | Fail SourceMissing \<Rightarrow> (StatusMissing, tree)
      | Fail (TargetConflict s t) \<Rightarrow> (StatusConflict s t, tree)
      | Create \<Rightarrow>
          (case probe_identity source of
             None \<Rightarrow> (StatusMissing, tree)
           | Some expected \<Rightarrow>
               create_hardlink env (planned_source_path planned) (planned_target_path planned) expected tree))"

subsection \<open>A batch\<close>

record link_probe =
  lp_source :: path_probe
  lp_target :: path_probe

definition probe_file :: "link_env \<Rightarrow> file_tree \<Rightarrow> link_file_effect \<Rightarrow> link_probe" where
  "probe_file env tree f =
     \<lparr>lp_source = probe_regular_path env ProbeSource (effect_source_path f) tree,
      lp_target = probe_regular_path env ProbeTarget (effect_target_path f) tree\<rparr>"

definition domain_probe :: "link_probe \<Rightarrow> link_file_probe" where
  "domain_probe p =
     \<lparr>probe_source = probe_identity (lp_source p), probe_target = probe_identity (lp_target p)\<rparr>"

definition apply_planned ::
  "link_env \<Rightarrow> planned_link_file \<Rightarrow> link_probe \<Rightarrow> file_tree \<Rightarrow> hardlink_file_result \<times> file_tree" where
  "apply_planned env planned observed tree =
     (let (status, tree') =
        (case probe_failure (lp_source observed) of
           Some failure \<Rightarrow> (StatusFailed failure, tree)
         | None \<Rightarrow>
        (case probe_failure (lp_target observed) of
           Some failure \<Rightarrow> (StatusFailed failure, tree)
         | None \<Rightarrow> execute_link_action env planned (lp_source observed) tree))
      in (\<lparr>hl_source_path = planned_source_path planned, hl_target_path = planned_target_path planned,
           hl_outcome = status_outcome status, hl_status = status\<rparr>, tree'))"

fun apply_all ::
  "link_env \<Rightarrow> nat \<Rightarrow> (planned_link_file \<times> link_probe) list \<Rightarrow> file_tree
    \<Rightarrow> hardlink_file_result list \<times> file_tree" where
  "apply_all env n [] tree = ([], tree)"
| "apply_all env n ((planned, observed) # rest) tree =
     (let (r, tree1) = apply_planned env planned observed (le_meanwhile env n tree);
          (rs, tree2) = apply_all env (Suc n) rest tree1
      in (r # rs, tree2))"

definition apply_hardlinks ::
  "link_env \<Rightarrow> link_file_effect list \<Rightarrow> file_tree
    \<Rightarrow> (link_plan_error + hardlink_file_result list) \<times> file_tree" where
  "apply_hardlinks env files tree =
     (let observed = map (probe_file env tree) files in
      case plan_link_retry files (map domain_probe observed) of
        Inl e \<Rightarrow> (Inl e, tree)
      | Inr planned \<Rightarrow>
          (let (rs, tree') = apply_all env 0 (zip planned observed) tree in (Inr rs, tree')))"

subsection \<open>Cleanup\<close>

text \<open>\<open>verify_cleanup_link\<close>; the first message is the kernel's.\<close>

definition verify_cleanup_link ::
  "link_env \<Rightarrow> string \<Rightarrow> string \<Rightarrow> link_file_outcome \<Rightarrow> file_tree \<Rightarrow> string + unit" where
  "verify_cleanup_link env source target outcome tree =
     (case le_probe env target of
        Some kind \<Rightarrow> Inl kind
      | None \<Rightarrow>
     (case tree (path_components target) of
        None \<Rightarrow> Inr ()
      | Some target_node \<Rightarrow>
          if outcome \<notin> {LinkLinked, LinkPending} then Inl (utf8 [0x94FE, 0x63A5, 0x76EE, 0x6807, 0x4E0D, 0x662F, 0x672C, 0x4EFB, 0x52A1,
            0x521B, 0x5EFA, 0x6216, 0x9A8C, 0x8BC1, 0x7684, 0x786C, 0x94FE, 0x63A5,
            0xFF0C, 0x5DF2, 0x505C, 0x6B62, 0x6E05, 0x7406])
          else case le_probe env source of
            Some kind \<Rightarrow> Inl kind
          | None \<Rightarrow>
              (case (tree (path_components source), target_node) of
                 (None, _) \<Rightarrow> Inl ''No such file or directory (os error 2)''
               | (Some (RegularFile s), RegularFile t) \<Rightarrow>
                   if s = t then Inr () else Inl (utf8 [0x94FE, 0x63A5, 0x6587, 0x4EF6, 0x5DF2, 0x88AB, 0x66FF, 0x6362, 0xFF0C,
            0x5DF2, 0x505C, 0x6B62, 0x6E05, 0x7406])
               | _ \<Rightarrow> Inl (utf8 [0x94FE, 0x63A5, 0x6587, 0x4EF6, 0x5DF2, 0x88AB, 0x66FF, 0x6362, 0xFF0C,
            0x5DF2, 0x505C, 0x6B62, 0x6E05, 0x7406]))))"

end
