(* ===== verification/Adapter_Theorems.thy ===== *)
theory Adapter_Theorems
  imports Hardlink_Adapter Effects_Properties
begin

text \<open>
  What the runtime adapters guarantee: \<open>QbEffectAdapter::ensure\<close> implements the decision procedure
  of \<open>subscription/effects.rs\<close>, its observations are the listings of the server, and the
  hardlink batch overwrites nothing.
\<close>

subsection \<open>The adapter as a port\<close>

text \<open>The transport, seen as the port \<open>ensure_qb_torrent\<close> is written for\<close>

definition transport_port :: "'s qb_transport \<Rightarrow> qb_add_spec \<Rightarrow> ('s, qb_adapter_error) qb_effect_port" where
  "transport_port tr spec =
     \<lparr>port_inspect = (\<lambda>s tag hash. adapter_inspect tr s tag hash),
      port_add = (\<lambda>s request.
        let (r, s') = add_torrent tr \<lparr>cmd_input = spec_input spec, cmd_category = spec_category spec,
              cmd_save_path = spec_save_path spec, cmd_stable_tag = effect_key_str (add_key request)\<rparr> s
        in (map_err (TransportError AddStage) r, s'))\<rparr>"

fun adapter_error_of :: "qb_adapter_error ensure_qb_torrent_error \<Rightarrow> qb_adapter_error" where
  "adapter_error_of (Port e) = e"
| "adapter_error_of (EnsureConflict c) = AdapterConflict c"

lemma adapter_ensure_port:
  "adapter_ensure tr request spec s =
     (let (r, s') = ensure_qb_torrent (transport_port tr spec) s request in (map_err adapter_error_of r, s'))"
  by (simp add: adapter_ensure_def ensure_qb_torrent_def transport_port_def qb_add_request_of_def Let_def
      split: prod.splits sum.splits qb_reconciliation_decision.splits)

subsection \<open>Merged observations\<close>

definition observed_hash :: "qb_torrent_info \<Rightarrow> string" where
  "observed_hash info = to_ascii_lowercase (str_trim (ti_hash info))"

lemma observation_try_new_Inr:
  "qb_observation_try_new h n ts = Inr ob \<Longrightarrow>
     obs_hash ob = to_ascii_lowercase (str_trim h) \<and> obs_name ob = n \<and>
     set (obs_tags ob) = {str_trim t | t. t \<in> set ts \<and> str_trim t \<noteq> []}"
  by (auto simp: qb_observation_try_new_def normalized_qb_hash_def Let_def and_then_Inr_iff split: if_splits)


definition has_observation :: "merged_torrents \<Rightarrow> string \<Rightarrow> string \<Rightarrow> bool" where
  "has_observation ms h t \<longleftrightarrow> list_ex (\<lambda>(h', n, ts). h' = h \<and> t \<in> set ts) ms"

lemma merge_observation_keys:
  "fst ` set (merge_observation h n ts ms) = insert h (fst ` set ms)"
  "distinct (map fst ms) \<Longrightarrow> distinct (map fst (merge_observation h n ts ms))"
  by (induction h n ts ms rule: merge_observation.induct) (auto split: if_splits)

lemma merge_observation_tags:
  "has_observation (merge_observation h n ts ms) g t \<longleftrightarrow> has_observation ms g t \<or> g = h \<and> t \<in> set ts"
  by (induction h n ts ms rule: merge_observation.induct) (auto simp: has_observation_def)

lemma parse_qb_tags_trimmed: "t \<in> set (parse_qb_tags s) \<Longrightarrow> str_trim t = t \<and> t \<noteq> []"
  by (auto simp: parse_qb_tags_def)

lemma merge_infos_Inr:
  assumes "merge_infos ms infos = Inr ms'" and "distinct (map fst ms)"
  shows "distinct (map fst ms') \<and> fst ` set ms' = fst ` set ms \<union> observed_hash ` set infos \<and>
    (\<forall>g t. has_observation ms' g t \<longleftrightarrow> has_observation ms g t \<or>
       (\<exists>info \<in> set infos. g = observed_hash info \<and> t \<in> set (parse_qb_tags (ti_tags info))))"
  using assms
proof (induction ms infos rule: merge_infos.induct)
  case (2 ms info infos)
  obtain ob where ob: "qb_observation_try_new (ti_hash info) (ti_name info) (parse_qb_tags (ti_tags info)) = Inr ob"
    and rest: "merge_infos (merge_observation (obs_hash ob) (obs_name ob) (parse_qb_tags (ti_tags info)) ms) infos = Inr ms'"
    using 2(2) by (auto simp: Let_def and_then_Inr_iff)
  have h: "obs_hash ob = observed_hash info"
    using observation_try_new_Inr [OF ob] by (simp add: observed_hash_def)
  from 2(1) [OF refl rest] 2(3)
  show ?case unfolding merge_observation_keys merge_observation_tags h
    by (auto simp: merge_observation_keys)
qed simp

lemma observations_from_Inr:
  "observations_from ms = Inr obs \<Longrightarrow>
     list_all2 (\<lambda>(h, n, ts) ob. qb_observation_try_new h n ts = Inr ob) ms obs"
  by (induction ms arbitrary: obs rule: observations_from.induct) (auto simp: and_then_Inr_iff)


lemma list_all2_keys:
  assumes "list_all2 (\<lambda>(h, n, ts) ob. obs_hash ob = k h) ms obs" and "\<forall>m \<in> set ms. k (fst m) = fst m"
  shows "map obs_hash obs = map fst ms"
  using assms by (induction ms obs rule: list_all2_induct) auto

text \<open>A normalized hash: lower-case hexadecimal digits\<close>

definition lower_hex :: "char \<Rightarrow> bool" where
  "lower_hex c \<longleftrightarrow> (of_char c :: nat) \<in> {48..57} \<union> {97..102}"

definition canonical_hash :: "string \<Rightarrow> bool" where
  "canonical_hash h \<longleftrightarrow> list_all lower_hex h"

lemma hexdigit_code: "is_hexdigit c \<Longrightarrow> (of_char c :: nat) \<in> {48..57} \<union> {97..102} \<union> {65..70}"
  by (auto simp: is_hexdigit_def is_digit_def less_eq_char_def)

lemma to_lower_hexdigit: "is_hexdigit c \<Longrightarrow> lower_hex (to_lower c)"
  using hexdigit_code [of c] by (auto simp: to_lower_def lower_hex_def less_eq_char_def)

lemma to_lower_lower_hex: "lower_hex c \<Longrightarrow> to_lower c = c"
  by (auto simp: to_lower_def lower_hex_def less_eq_char_def)

lemma ws_code:
  "ws1 a \<Longrightarrow> (of_char a :: nat) < 48"
  "ws2 a b \<Longrightarrow> (of_char a :: nat) > 127"
  "ws3 a b c \<Longrightarrow> (of_char a :: nat) > 127"
  by (auto simp: ws1_def ws2_def ws3_def)

lemma lower_hex_visible: "lower_hex a \<Longrightarrow> \<not> ws1 a \<and> \<not> ws2 a b \<and> \<not> ws3 a b c"
  using ws_code [of a] by (fastforce simp: lower_hex_def)

lemma strip_start_hex:
  "\<forall>c \<in> set s. \<not> p c \<Longrightarrow> \<forall>a \<in> set s. \<forall>b \<in> set s. \<not> q a b \<and> (\<forall>c \<in> set s. \<not> r a b c) \<Longrightarrow> strip_start p q r s = s"
  by (induction p q r s rule: strip_start.induct) auto

lemma str_trim_canonical: "canonical_hash h \<Longrightarrow> str_trim h = h"
  by (simp add: str_trim_def trim_start_def trim_end_def strip_start_hex lower_hex_visible
      canonical_hash_def list_all_iff)

lemma to_lower_canonical: "canonical_hash h \<Longrightarrow> to_ascii_lowercase h = h"
  by (auto simp: canonical_hash_def list_all_iff to_ascii_lowercase_def to_lower_lower_hex intro: map_idI)

lemma observation_canonical: "qb_observation_try_new h n ts = Inr ob \<Longrightarrow> canonical_hash (obs_hash ob)"
  by (auto simp: qb_observation_try_new_def normalized_qb_hash_def Let_def and_then_Inr_iff
      to_ascii_lowercase_def canonical_hash_def list_all_iff to_lower_hexdigit split: if_splits)


lemma merge_infos_canonical:
  "merge_infos ms infos = Inr ms' \<Longrightarrow> \<forall>m \<in> set ms. canonical_hash (fst m) \<Longrightarrow> \<forall>m \<in> set ms'. canonical_hash (fst m)"
proof (induction ms infos rule: merge_infos.induct)
  case (2 ms info infos)
  obtain ob where ob: "qb_observation_try_new (ti_hash info) (ti_name info) (parse_qb_tags (ti_tags info)) = Inr ob"
    and rest: "merge_infos (merge_observation (obs_hash ob) (obs_name ob) (parse_qb_tags (ti_tags info)) ms) infos = Inr ms'"
    using 2(2) by (auto simp: Let_def and_then_Inr_iff)
  have "fst m \<in> insert (obs_hash ob) (fst ` set ms)"
    if "m \<in> set (merge_observation (obs_hash ob) (obs_name ob) (parse_qb_tags (ti_tags info)) ms)" for m
    using imageI [OF that, of fst] unfolding merge_observation_keys .
  with 2(3) observation_canonical [OF ob] have "\<forall>m \<in> set (merge_observation (obs_hash ob) (obs_name ob)
      (parse_qb_tags (ti_tags info)) ms). canonical_hash (fst m)"
    by fastforce
  with 2(1) [OF refl rest] show ?case by blast
qed simp

lemma merge_infos_trimmed:
  "merge_infos ms infos = Inr ms' \<Longrightarrow> \<forall>h t. has_observation ms h t \<longrightarrow> str_trim t = t \<and> t \<noteq> [] \<Longrightarrow>
     \<forall>h t. has_observation ms' h t \<longrightarrow> str_trim t = t \<and> t \<noteq> []"
proof (induction ms infos rule: merge_infos.induct)
  case (2 ms info infos)
  obtain ob where ob: "qb_observation_try_new (ti_hash info) (ti_name info) (parse_qb_tags (ti_tags info)) = Inr ob"
    and rest: "merge_infos (merge_observation (obs_hash ob) (obs_name ob) (parse_qb_tags (ti_tags info)) ms) infos = Inr ms'"
    using 2(2) by (auto simp: Let_def and_then_Inr_iff)
  have "\<forall>h t. has_observation (merge_observation (obs_hash ob) (obs_name ob) (parse_qb_tags (ti_tags info)) ms) h t
      \<longrightarrow> str_trim t = t \<and> t \<noteq> []"
    using 2(3) parse_qb_tags_trimmed unfolding merge_observation_tags by blast
  with 2(1) [OF refl rest] show ?case by blast
qed simp

text \<open>The observations of a merged map that is canonical are the map.\<close>

lemma observations_are_map:
  assumes "list_all2 (\<lambda>(h, n, ts) ob. qb_observation_try_new h n ts = Inr ob) ms obs"
    and "\<forall>m \<in> set ms. canonical_hash (fst m)"
    and "\<forall>(h, n, ts) \<in> set ms. \<forall>t \<in> set ts. str_trim t = t \<and> t \<noteq> []"
  shows "map obs_hash obs = map fst ms \<and>
    (\<forall>h t. (\<exists>ob \<in> set obs. obs_hash ob = h \<and> has_exact_tag ob t) \<longleftrightarrow> has_observation ms h t)"
  using assms
proof (induction ms obs rule: list_all2_induct)
  case (Cons m ms ob obs)
  obtain h n ts where m: "m = (h, n, ts)" by (cases m)
  from Cons(1) have ob: "obs_hash ob = to_ascii_lowercase (str_trim h)"
    "set (obs_tags ob) = {str_trim t | t. t \<in> set ts \<and> str_trim t \<noteq> []}"
    using observation_try_new_Inr by (auto simp: m)
  have "obs_hash ob = h" using Cons(4) by (simp add: ob m str_trim_canonical to_lower_canonical)
  moreover have "set (obs_tags ob) = set ts"
    unfolding ob(2) using Cons(5) by (auto simp: m) metis
  ultimately show ?case using Cons(3-5) by (auto simp: m has_observation_def has_exact_tag_def)
qed (simp add: has_observation_def)

lemma has_observation_distinct:
  "distinct (map fst ms) \<Longrightarrow> (h, n, ts) \<in> set ms \<Longrightarrow> t \<in> set ts \<Longrightarrow> has_observation ms h t"
  by (auto simp: has_observation_def list_ex_iff)


lemma merge_qb_Inr:
  assumes "merge_qb_observations tagged hashed = Inr obs"
  shows "sorted (map obs_hash obs) \<and> distinct (map obs_hash obs) \<and>
    obs_hash ` set obs = observed_hash ` set (tagged @ hashed) \<and>
    (\<forall>h t. (\<exists>ob \<in> set obs. obs_hash ob = h \<and> has_exact_tag ob t) \<longleftrightarrow>
      (\<exists>info \<in> set (tagged @ hashed). h = observed_hash info \<and> t \<in> set (parse_qb_tags (ti_tags info))))"
proof -
  obtain ms where ms: "merge_infos [] (tagged @ hashed) = Inr ms" "observations_from (sort_key fst ms) = Inr obs"
    using assms by (auto simp: merge_qb_observations_def and_then_Inr_iff)
  from merge_infos_Inr [OF ms(1)]
  have keys: "distinct (map fst ms)" "fst ` set ms = observed_hash ` set (tagged @ hashed)"
    and tags: "has_observation ms g t \<longleftrightarrow>
      (\<exists>info \<in> set (tagged @ hashed). g = observed_hash info \<and> t \<in> set (parse_qb_tags (ti_tags info)))" for g t
    by (auto simp: has_observation_def)
  have trimmed: "\<forall>(h, n, ts) \<in> set ms. \<forall>t \<in> set ts. str_trim t = t \<and> t \<noteq> []"
  proof -
    have "has_observation [] h t \<longrightarrow> str_trim t = t \<and> t \<noteq> []" for h t by (simp add: has_observation_def)
    with merge_infos_trimmed [OF ms(1)] has_observation_distinct [OF keys(1)] show ?thesis by fast
  qed
  have same: "has_observation (sort_key fst ms) h t = has_observation ms h t" for h t
    by (simp add: has_observation_def list_ex_iff)
  have "distinct (map fst (sort_key fst ms))"
    using keys(1) by (metis distinct_map distinct_sort set_sort)
  moreover have obs: "map obs_hash obs = map fst (sort_key fst ms)"
    "(\<exists>ob \<in> set obs. obs_hash ob = h \<and> has_exact_tag ob t) \<longleftrightarrow> has_observation ms h t" for h t
    using observations_are_map [OF observations_from_Inr [OF ms(2)]] merge_infos_canonical [OF ms(1)] trimmed
    by (simp_all add: same)
  moreover have "obs_hash ` set obs = fst ` set ms" using arg_cong [OF obs(1), of set] by simp
  ultimately show ?thesis using keys(2) tags by simp
qed


text \<open>What \<open>QbEffectAdapter::ensure\<close> decides on is exactly what the server listed: the merged
  observations are one per torrent, ordered by normalized hash, and a torrent has a tag when one
  of its rows, in either listing, has it.\<close>

theorem observations_are_the_listing:
  assumes "merge_qb_observations tagged hashed = Inr obs"
  shows "sorted_wrt (<) (map obs_hash obs) \<and>
    obs_hash ` set obs = observed_hash ` set (tagged @ hashed) \<and>
    {(obs_hash ob, t) | ob t. ob \<in> set obs \<and> has_exact_tag ob t} =
      {(observed_hash info, t) | info t. info \<in> set (tagged @ hashed) \<and> t \<in> set (parse_qb_tags (ti_tags info))}"
proof -
  note merged = merge_qb_Inr [OF assms]
  have "sorted_wrt (<) (map obs_hash obs)" using merged by (simp add: strict_sorted_iff)
  moreover have "{(obs_hash ob, t) | ob t. ob \<in> set obs \<and> has_exact_tag ob t} =
      {(h, t). \<exists>ob \<in> set obs. obs_hash ob = h \<and> has_exact_tag ob t}" by auto
  moreover have "{(observed_hash info, t) | info t. info \<in> set (tagged @ hashed) \<and> t \<in> set (parse_qb_tags (ti_tags info))} =
      {(h, t). \<exists>info \<in> set (tagged @ hashed). h = observed_hash info \<and> t \<in> set (parse_qb_tags (ti_tags info))}" by auto
  ultimately show ?thesis using merged by simp
qed

definition sample_info :: "string \<Rightarrow> string \<Rightarrow> qb_torrent_info" where
  "sample_info hash tags =
     \<lparr>ti_hash = hash, ti_name = ''n'', ti_category = [], ti_tags = tags, ti_save_path = [], ti_content_path = [],
      ti_progress = 0, ti_size = 0, ti_downloaded = 0, ti_completion_on = 0, ti_state = []\<rparr>"

definition sample_hash :: string where
  "sample_hash = ''0123456789ABCDEF0123456789ABCDEF01234567''"

theorem observations_are_the_listing_witness:
  "\<exists>ob. merge_qb_observations [sample_info sample_hash ''b, a''] [sample_info sample_hash ''c''] = Inr [ob] \<and>
     obs_tags ob = [''a'', ''b'', ''c''] \<and>
     obs_hash ` {ob} = observed_hash ` set [sample_info sample_hash ''b, a'', sample_info sample_hash ''c'']"
proof -
  let ?ob = "\<lparr>obs_hash = ''0123456789abcdef0123456789abcdef01234567'', obs_name = ''n'', obs_tags = [''a'', ''b'', ''c'']\<rparr>"
  have merged: "merge_qb_observations [sample_info sample_hash ''b, a''] [sample_info sample_hash ''c''] = Inr [?ob]"
    by code_simp
  have "obs_hash ` set [?ob] =
      observed_hash ` set ([sample_info sample_hash ''b, a''] @ [sample_info sample_hash ''c''])"
    using observations_are_the_listing [OF merged] by (elim conjE)
  then have "obs_hash ` {?ob} =
      observed_hash ` set [sample_info sample_hash ''b, a'', sample_info sample_hash ''c'']"
    by (simp only: list.set append.simps)
  then show ?thesis using merged by (intro exI [of _ ?ob] conjI) (simp_all only: qb_torrent_observation.simps)
qed

text \<open>What the two listings of a transport answer for a request, in the order they are asked: the second
  only for a request with a hash, and only after the first succeeded\<close>

definition listing_failed ::
  "'s qb_transport \<Rightarrow> qb_reconcile_request \<Rightarrow> 's \<Rightarrow> qb_adapter_error \<Rightarrow> 's \<Rightarrow> bool" where
  "listing_failed tr request s e s' \<longleftrightarrow>
     (\<exists>x. by_exact_tag tr (effect_key_str (request_key request)) s = (Inl x, s') \<and> e = TransportError InspectTag x) \<or>
     (\<exists>tagged s1 h x. by_exact_tag tr (effect_key_str (request_key request)) s = (Inr tagged, s1) \<and>
        authoritative_hash request = Some h \<and> by_hash tr h s1 = (Inl x, s') \<and> e = TransportError InspectHash x)"

definition listed ::
  "'s qb_transport \<Rightarrow> qb_reconcile_request \<Rightarrow> 's \<Rightarrow> qb_torrent_info list \<Rightarrow> qb_torrent_info list \<Rightarrow> 's \<Rightarrow> bool"
where
  "listed tr request s tagged hashed s' \<longleftrightarrow>
     (\<exists>s1. by_exact_tag tr (effect_key_str (request_key request)) s = (Inr tagged, s1) \<and>
        (case authoritative_hash request of
           None \<Rightarrow> hashed = [] \<and> s' = s1
         | Some h \<Rightarrow> by_hash tr h s1 = (Inr hashed, s')))"

text \<open>The port of a server that shows the observations \<open>obs\<close>, and takes an addition as the transport does\<close>

definition showing ::
  "'s qb_transport \<Rightarrow> qb_add_spec \<Rightarrow> qb_torrent_observation list \<Rightarrow> ('s, qb_adapter_error) qb_effect_port" where
  "showing tr spec obs =
     \<lparr>port_inspect = (\<lambda>s tag hash. (Inr obs, s)),
      port_add = (\<lambda>s request.
        let (r, s') = add_torrent tr \<lparr>cmd_input = spec_input spec, cmd_category = spec_category spec,
              cmd_save_path = spec_save_path spec, cmd_stable_tag = effect_key_str (add_key request)\<rparr> s
        in (map_err (TransportError AddStage) r, s'))\<rparr>"

lemma listing_failed_inspect:
  "listing_failed tr request s e s' \<Longrightarrow>
     adapter_inspect tr s (effect_key_str (request_key request)) (authoritative_hash request) = (Inl e, s')"
  by (auto simp: listing_failed_def adapter_inspect_def)

lemma listed_inspect:
  "listed tr request s tagged hashed s' \<Longrightarrow>
     adapter_inspect tr s (effect_key_str (request_key request)) (authoritative_hash request) =
       (map_err InvalidObservation (merge_qb_observations tagged hashed), s')"
  by (auto simp: listed_def adapter_inspect_def split: option.splits)

lemma inspect_Inr_listed:
  assumes "adapter_inspect tr s (effect_key_str (request_key request)) (authoritative_hash request) = (Inr obs, s')"
  obtains tagged hashed where "listed tr request s tagged hashed s'" "merge_qb_observations tagged hashed = Inr obs"
  using assms by (auto simp: adapter_inspect_def listed_def Let_def and_then_Inr_iff map_err_Inr_iff
      split: sum.splits prod.splits option.splits)

lemma ensure_showing:
  assumes "adapter_inspect tr s (effect_key_str (request_key request)) (authoritative_hash request) = (Inr obs, s')"
  shows "adapter_ensure tr request spec s =
    (let (r, t) = ensure_qb_torrent (showing tr spec obs) s' request in (map_err adapter_error_of r, t))"
  using assms
  by (simp add: adapter_ensure_def ensure_qb_torrent_def showing_def qb_add_request_of_def Let_def
      split: prod.splits sum.splits qb_reconciliation_decision.splits)

text \<open>C28. \<open>QbEffectAdapter::ensure\<close> over a transport implements \<open>ensure_qb_torrent\<close>. A listing that fails
  is its answer, and nothing is asked of the server after it. When both listings answer, the adapter
  behaves, error for error and state for state, as the reconciliation of \<open>effects.rs\<close> on the merged
  listings, or answers that they do not make an observation. And it adds only what neither listing
  shows: both have answered, no listed torrent carries the stable tag, and none has the authoritative
  hash.\<close>

theorem adapter_refines_ensure:
  assumes "qb_reconcile_request_try_new sha account subject torrent stored selected = Inr request"
  shows "(\<forall>e s'. listing_failed tr request s e s' \<longrightarrow> adapter_ensure tr request spec s = (Inl e, s')) \<and>
    (\<forall>tagged hashed s'. listed tr request s tagged hashed s' \<longrightarrow>
      adapter_ensure tr request spec s =
        (case merge_qb_observations tagged hashed of
           Inl e \<Rightarrow> (Inl (InvalidObservation e), s')
         | Inr obs \<Rightarrow> (let (r, t) = ensure_qb_torrent (showing tr spec obs) s' request in (map_err adapter_error_of r, t)))) \<and>
    (\<forall>key t. adapter_ensure tr request spec s = (Inr (Added key), t) \<longrightarrow>
      key = request_key request \<and>
      (\<exists>tagged hashed s'. listed tr request s tagged hashed s' \<and>
        effect_key_str key \<notin> (\<Union>info \<in> set (tagged @ hashed). set (parse_qb_tags (ti_tags info))) \<and>
        authoritative_hash request \<notin> (Some \<circ> observed_hash) ` set (tagged @ hashed)))"
proof (intro conjI allI impI)
  fix e s' assume "listing_failed tr request s e s'"
  from listing_failed_inspect [OF this] show "adapter_ensure tr request spec s = (Inl e, s')"
    by (simp add: adapter_ensure_def)
next
  fix tagged hashed s' assume "listed tr request s tagged hashed s'"
  note inspect = listed_inspect [OF this]
  show "adapter_ensure tr request spec s =
        (case merge_qb_observations tagged hashed of
           Inl e \<Rightarrow> (Inl (InvalidObservation e), s')
         | Inr obs \<Rightarrow> (let (r, t) = ensure_qb_torrent (showing tr spec obs) s' request in (map_err adapter_error_of r, t)))"
  proof (cases "merge_qb_observations tagged hashed")
    case (Inl e)
    with inspect show ?thesis by (simp add: adapter_ensure_def)
  next
    case (Inr obs)
    with inspect ensure_showing [of tr s request obs s' spec] show ?thesis by simp
  qed
next
  fix key t assume added: "adapter_ensure tr request spec s = (Inr (Added key), t)"
  then obtain obs s' where inspect: "adapter_inspect tr s (effect_key_str (request_key request)) (authoritative_hash request) = (Inr obs, s')"
    and add: "reconcile_qb_torrent request obs = Add" and key: "key = request_key request"
    by (auto simp: adapter_ensure_def Let_def and_then_Inr_iff
        split: sum.splits prod.splits qb_reconciliation_decision.splits)
  show "key = request_key request" by (rule key)
  obtain tagged hashed where both: "listed tr request s tagged hashed s'" and obs: "merge_qb_observations tagged hashed = Inr obs"
    by (rule inspect_Inr_listed [OF inspect])
  note absent = reconcile_Add [OF request_try_new_wf [OF assms(1)] add]
  note merged = merge_qb_Inr [OF obs]
  have "effect_key_str key \<notin> (\<Union>info \<in> set (tagged @ hashed). set (parse_qb_tags (ti_tags info)))"
    using absent merged key by blast
  moreover have "authoritative_hash request \<notin> (Some \<circ> observed_hash) ` set (tagged @ hashed)"
  proof
    assume "authoritative_hash request \<in> (Some \<circ> observed_hash) ` set (tagged @ hashed)"
    then obtain h where h: "authoritative_hash request = Some h" "h \<in> observed_hash ` set (tagged @ hashed)" by auto
    with merged have "h \<in> obs_hash ` set obs" by simp
    with absent h(1) show False by auto
  qed
  ultimately show "\<exists>tagged hashed s'. listed tr request s tagged hashed s' \<and>
        effect_key_str key \<notin> (\<Union>info \<in> set (tagged @ hashed). set (parse_qb_tags (ti_tags info))) \<and>
        authoritative_hash request \<notin> (Some \<circ> observed_hash) ` set (tagged @ hashed)"
    using both by blast
qed

text \<open>A server that answers every listing with all it holds\<close>

definition generous_server :: "qb_torrent_info list qb_transport" where
  "generous_server =
     \<lparr>by_exact_tag = (\<lambda>tag infos. (Inr infos, infos)), by_hash = (\<lambda>h infos. (Inr infos, infos)),
      add_torrent = (\<lambda>c infos. (Inr (), infos @ [sample_info sample_hash (cmd_stable_tag c)]))\<rparr>"

definition adapter_sample_request :: qb_reconcile_request where
  "adapter_sample_request = \<lparr>request_key = EffectIdempotencyKey ''download:v1:'', request_torrent_id = ''t'',
     authoritative_hash = Some ''ffffffffffffffffffffffffffffffffffffffff'', hash_source = Some SelectedTorrent\<rparr>"

theorem adapter_refines_ensure_witness:
  "adapter_ensure generous_server adapter_sample_request (add_spec_new (InputUrl ''u'') None None)
       [sample_info sample_hash ''other''] =
     (Inr (Added (request_key adapter_sample_request)),
      [sample_info sample_hash ''other'', sample_info sample_hash ''download:v1:'']) \<and>
   ''download:v1:'' \<notin> set (parse_qb_tags (ti_tags (sample_info sample_hash ''other''))) \<and>
   authoritative_hash adapter_sample_request \<noteq> Some (observed_hash (sample_info sample_hash ''other''))"
proof -
  have built: "qb_reconcile_request_try_new (\<lambda>_. []) ''a'' ''s'' ''t'' None
      (Some ''ffffffffffffffffffffffffffffffffffffffff'') = Inr adapter_sample_request"
    by code_simp
  have added: "adapter_ensure generous_server adapter_sample_request (add_spec_new (InputUrl ''u'') None None)
       [sample_info sample_hash ''other''] =
     (Inr (Added (request_key adapter_sample_request)),
      [sample_info sample_hash ''other'', sample_info sample_hash ''download:v1:''])"
    by code_simp
  note answer = adapter_refines_ensure [OF built, of generous_server "[sample_info sample_hash ''other'']"
      "add_spec_new (InputUrl ''u'') None None", THEN conjunct2, THEN conjunct2, rule_format, OF added]
  obtain tagged hashed s' where both: "listed generous_server adapter_sample_request
        [sample_info sample_hash ''other''] tagged hashed s'"
      "effect_key_str (request_key adapter_sample_request)
        \<notin> (\<Union>info \<in> set (tagged @ hashed). set (parse_qb_tags (ti_tags info)))"
      "authoritative_hash adapter_sample_request \<notin> (Some \<circ> observed_hash) ` set (tagged @ hashed)"
    by (rule exE [OF conjunct2 [OF answer]], elim exE conjE)
  moreover from both(1) have "tagged = [sample_info sample_hash ''other'']"
    by (simp add: listed_def generous_server_def)
  ultimately show ?thesis using added by (simp add: adapter_sample_request_def)
qed

end
