(* ===== verification/Hardlink_Theorems.thy ===== *)
theory Hardlink_Theorems
  imports Hardlink_Adapter Effects_Properties "HOL-Library.Sublist"
begin

text \<open>
  The hardlink batch only adds: directories on the way to a target, and at a target the
  inode of its source. A file reported as linked is one inode under both paths.
\<close>

subsection \<open>One step\<close>

definition inside :: "components \<Rightarrow> components \<Rightarrow> bool" where
  "inside p target \<longleftrightarrow> fst p = fst target \<and> strict_prefix (snd p) (snd target)"

text \<open>\<open>grows ok t t'\<close>: nothing is lost or changed, and every new node is \<open>ok\<close>.\<close>

definition grows :: "(components \<Rightarrow> file_node \<Rightarrow> bool) \<Rightarrow> file_tree \<Rightarrow> file_tree \<Rightarrow> bool" where
  "grows ok t t' \<longleftrightarrow> t \<subseteq>\<^sub>m t' \<and> (\<forall>p node. t' p = Some node \<longrightarrow> t p = Some node \<or> ok p node)"

lemma grows_refl [simp, intro]: "grows ok t t"
  by (simp add: grows_def)

lemma grows_trans: "grows ok t u \<Longrightarrow> grows ok u v \<Longrightarrow> grows ok t v"
  unfolding grows_def using map_le_trans by blast

lemma grows_mono: "grows ok t t' \<Longrightarrow> (\<And>p node. ok p node \<Longrightarrow> ok' p node) \<Longrightarrow> grows ok' t t'"
  unfolding grows_def by blast

lemma grows_le: "grows ok t t' \<Longrightarrow> t \<subseteq>\<^sub>m t'"
  by (simp add: grows_def)

lemma grows_keeps: "grows ok t t' \<Longrightarrow> t p = Some x \<Longrightarrow> t' p = Some x"
  unfolding grows_def map_le_def by (metis domI)

lemma grows_new: "t p = None \<Longrightarrow> ok p x \<Longrightarrow> grows ok t (t(p \<mapsto> x))"
  unfolding grows_def by (auto simp: map_le_def)

definition directory_inside :: "components \<Rightarrow> components \<Rightarrow> file_node \<Rightarrow> bool" where
  "directory_inside target p node \<longleftrightarrow> node = DirectoryNode \<and> inside p target"

lemma walk_parent_grows:
  "walk_parent env base cs tree = (r, tree') \<Longrightarrow> rest \<noteq> [] \<Longrightarrow>
     grows (directory_inside (fst base, snd base @ cs @ rest)) tree tree'"
proof (induction env base cs tree rule: walk_parent.induct)
  case (2 env base c cs tree)
  let ?here = "(fst base, snd base @ [c])"
  let ?ok = "directory_inside (fst base, snd base @ (c # cs) @ rest)"
  show ?case
  proof (cases "c = ''.''")
    case True
    with 2(4) have walk: "walk_parent env ?here cs tree = (r, tree')" by simp
    from 2(1) [OF refl refl True walk 2(5)] show ?thesis by simp
  next
    case relative: False
    show ?thesis
  proof (cases "c = ''..'' \<or> has_nul c \<or> le_directory env ?here \<noteq> None")
    case True
    with relative 2(4) show ?thesis by (auto simp: Let_def split: option.splits if_splits)
  next
    case False
    with relative have go: "c \<noteq> ''.''" "c \<noteq> ''..''" "\<not> has_nul c" "le_directory env ?here = None" by auto
    show ?thesis
    proof (cases "tree ?here")
      case None
      with 2(4) go have walk: "walk_parent env ?here cs (tree(?here \<mapsto> DirectoryNode)) = (r, tree')"
        by (simp add: Let_def)
      have "grows ?ok (tree(?here \<mapsto> DirectoryNode)) tree'"
        using 2(2) [OF refl refl _ _ go(4) None walk 2(5)] go by (simp add: fun_upd_def)
      moreover have "grows ?ok tree (tree(?here \<mapsto> DirectoryNode))"
        using None 2(5) by (intro grows_new) (auto simp: directory_inside_def inside_def strict_prefix_def)
      ultimately show ?thesis using grows_trans by blast
    next
      case (Some node)
      show ?thesis
      proof (cases "node = DirectoryNode")
        case True
        with Some 2(4) go have walk: "walk_parent env ?here cs tree = (r, tree')"
          by (simp add: Let_def)
        from 2(3) [OF refl refl _ _ go(4) Some True walk 2(5)] go show ?thesis by simp
      next
        case False
        with Some 2(4) go show ?thesis by (auto simp: Let_def split: file_node.splits)
      qed
    qed
  qed
  qed
qed simp

lemma safe_parent_grows:
  "safe_parent env target tree = (r, tree') \<Longrightarrow> grows (directory_inside (path_components target)) tree tree'"
  using walk_parent_grows [of env "(fst (path_components target), [])" "butlast (snd (path_components target))"
      tree r tree' "[last (snd (path_components target))]"]
  by (cases "path_components target") (auto simp: safe_parent_def split: if_splits option.splits)

lemma verify_target_linked:
  "status_outcome (verify_target env target expected missing fresh tree) = LinkLinked \<Longrightarrow>
     tree (path_components target) = Some (RegularFile expected)"
  by (auto simp: verify_target_def split: option.splits file_node.splits if_splits)

text \<open>The nodes one file may add\<close>

definition link_or_directory :: "string \<Rightarrow> file_identity \<Rightarrow> components \<Rightarrow> file_node \<Rightarrow> bool" where
  "link_or_directory target i p node \<longleftrightarrow>
     directory_inside (path_components target) p node \<or> p = path_components target \<and> node = RegularFile i"

lemma create_hardlink_grows:
  assumes "create_hardlink env source target expected tree = (status, tree')"
  shows "grows (link_or_directory target expected) tree tree' \<and>
    (status_outcome status = LinkLinked \<longrightarrow> tree' (path_components target) = Some (RegularFile expected))"
proof (cases "open_stable_source env source expected tree")
  case (Inl s)
  have "status_outcome s \<noteq> LinkLinked"
    using Inl by (auto simp: open_stable_source_def Let_def split: if_splits option.splits file_node.splits)
  with Inl assms show ?thesis by (auto simp: create_hardlink_def)
next
  case (Inr u)
  obtain r tree1 where parent: "safe_parent env target tree = (r, tree1)" by fastforce
  have grown: "grows (link_or_directory target expected) tree tree1"
    by (rule grows_mono [OF safe_parent_grows [OF parent]]) (simp add: link_or_directory_def)
  show ?thesis
  proof (cases r)
    case (Inl f)
    with Inr parent assms grown show ?thesis by (auto simp: create_hardlink_def)
  next
    case ok: (Inr v)
    show ?thesis
    proof (cases "tree1 (path_components target) = None \<and> le_link env target = None")
      case False
      with Inr ok parent assms grown show ?thesis
        by (auto simp: create_hardlink_def dest!: verify_target_linked split: if_splits option.splits)
    next
      case True
      let ?tree2 = "tree1(path_components target \<mapsto> RegularFile expected)"
      have "grows (link_or_directory target expected) tree1 ?tree2"
        using True by (intro grows_new) (auto simp: link_or_directory_def)
      with True Inr ok parent assms grown show ?thesis
        by (auto simp: create_hardlink_def Let_def dest: grows_trans)
    qed
  qed
qed


lemma probe_identity_node:
  "probe_identity (probe_regular_path env op p tree) = Some i \<Longrightarrow> tree (path_components p) = Some (RegularFile i)"
  by (auto simp: probe_regular_path_def split: option.splits file_node.splits)

subsection \<open>The batch\<close>

text \<open>What one planned file does, planned on the tree \<open>tree0\<close>\<close>

definition planned_from :: "link_env \<Rightarrow> file_tree \<Rightarrow> link_file_effect \<Rightarrow> planned_link_file" where
  "planned_from env tree0 f =
     \<lparr>planned_source_path = effect_source_path f, planned_target_path = effect_target_path f,
      planned_action = link_action f (domain_probe (probe_file env tree0 f))\<rparr>"

definition is_linked :: "file_tree \<Rightarrow> file_tree \<Rightarrow> link_file_effect \<Rightarrow> bool" where
  "is_linked tree0 tree f \<longleftrightarrow>
     (\<exists>i. tree0 (path_components (effect_source_path f)) = Some (RegularFile i) \<and>
        tree (path_components (effect_target_path f)) = Some (RegularFile i))"

definition link_of :: "file_tree \<Rightarrow> link_file_effect \<Rightarrow> components \<Rightarrow> file_node \<Rightarrow> bool" where
  "link_of tree0 f p node \<longleftrightarrow>
     directory_inside (path_components (effect_target_path f)) p node \<or>
     p = path_components (effect_target_path f) \<and> tree0 (path_components (effect_source_path f)) = Some node"

lemma is_linked_le: "is_linked tree0 t f \<Longrightarrow> t \<subseteq>\<^sub>m t' \<Longrightarrow> is_linked tree0 t' f"
  unfolding is_linked_def map_le_def by (metis domI)

lemma apply_planned_grows:
  assumes "apply_planned env (planned_from env tree0 f) (probe_file env tree0 f) tree = (r, tree')"
    and "tree0 \<subseteq>\<^sub>m tree"
  shows "grows (link_of tree0 f) tree tree' \<and> (hl_outcome r = LinkLinked \<longrightarrow> is_linked tree0 tree' f)"
proof -
  let ?probe = "probe_file env tree0 f"
  obtain status where exec: "(status, tree') = (if probe_failure (lp_source ?probe) = None \<and> probe_failure (lp_target ?probe) = None
      then execute_link_action env (planned_from env tree0 f) (lp_source ?probe) tree
      else (StatusFailed (the (case probe_failure (lp_source ?probe) of Some x \<Rightarrow> Some x | None \<Rightarrow> probe_failure (lp_target ?probe))), tree))"
    and r: "hl_outcome r = status_outcome status"
    using assms(1) by (auto simp: apply_planned_def Let_def split: option.splits prod.splits)
  show ?thesis
  proof (cases "probe_failure (lp_source ?probe) = None \<and> probe_failure (lp_target ?probe) = None")
    case False
    with exec r show ?thesis by auto
  next
    case True
    with exec have act: "execute_link_action env (planned_from env tree0 f) (lp_source ?probe) tree = (status, tree')" by simp
    have nodes: "tree0 (path_components (effect_source_path f)) = Some (RegularFile i)"
      if "probe_identity (lp_source ?probe) = Some i" for i
      using that by (auto simp: probe_file_def intro: probe_identity_node)
    have target: "tree (path_components (effect_target_path f)) = Some (RegularFile i)"
      if "probe_identity (lp_target ?probe) = Some i" for i
    proof -
      have "tree0 (path_components (effect_target_path f)) = Some (RegularFile i)"
        using that by (auto simp: probe_file_def intro: probe_identity_node)
      with assms(2) show ?thesis unfolding map_le_def by (metis domI)
    qed
    show ?thesis
    proof (cases "planned_action (planned_from env tree0 f) = Create")
      case False
      with act have same: "tree' = tree"
        by (auto simp: execute_link_action_def split: link_file_action.splits link_file_failure.splits)
      from False act r show ?thesis unfolding same
        by (auto simp: execute_link_action_def planned_from_def link_action_def domain_probe_def is_linked_def
            nodes target split: option.splits if_splits)
    next
      case create: True
      then obtain i where i: "probe_identity (lp_source ?probe) = Some i"
        by (auto simp: planned_from_def link_action_Create domain_probe_def)
      with create act have "create_hardlink env (effect_source_path f) (effect_target_path f) i tree = (status, tree')"
        by (auto simp: execute_link_action_def planned_from_def)
      from create_hardlink_grows [OF this] nodes [OF i] r show ?thesis
        by (auto simp: is_linked_def link_of_def link_or_directory_def elim: grows_mono)
    qed
  qed
qed

lemma apply_all_grows:
  assumes "apply_all env n (map (\<lambda>f. (planned_from env tree0 f, probe_file env tree0 f)) files) tree = (rs, tree')"
    and "tree0 \<subseteq>\<^sub>m tree" and "\<And>n t. t \<subseteq>\<^sub>m le_meanwhile env n t"
  shows "tree \<subseteq>\<^sub>m tree' \<and> list_all2 (\<lambda>f r. hl_outcome r = LinkLinked \<longrightarrow> is_linked tree0 tree' f) files rs \<and>
    (le_meanwhile env = (\<lambda>n t. t) \<longrightarrow> grows (\<lambda>p node. \<exists>f \<in> set files. link_of tree0 f p node) tree tree')"
  using assms(1,2)
proof (induction files arbitrary: n tree rs)
  case (Cons f files)
  obtain r tree1 rs' where one: "apply_planned env (planned_from env tree0 f) (probe_file env tree0 f)
      (le_meanwhile env n tree) = (r, tree1)"
    and rest: "apply_all env (Suc n) (map (\<lambda>f. (planned_from env tree0 f, probe_file env tree0 f)) files) tree1 = (rs', tree')"
    and rs: "rs = r # rs'"
    using Cons(2) by (auto simp: Let_def split: prod.splits)
  have mid: "tree0 \<subseteq>\<^sub>m le_meanwhile env n tree" using Cons(3) assms(3) map_le_trans by blast
  note step = apply_planned_grows [OF one mid]
  then have "le_meanwhile env n tree \<subseteq>\<^sub>m tree1" by (blast dest: grows_le)
  with mid assms(3) have le: "tree0 \<subseteq>\<^sub>m tree1" "tree \<subseteq>\<^sub>m tree1" using map_le_trans by blast+
  note tail = Cons(1) [OF rest le(1)]
  have "grows (\<lambda>p node. \<exists>f \<in> set (f # files). link_of tree0 f p node) tree tree'" if "le_meanwhile env = (\<lambda>n t. t)"
  proof -
    have "grows (\<lambda>p node. \<exists>f \<in> set (f # files). link_of tree0 f p node) tree tree1"
      using step that by (auto elim: grows_mono)
    moreover have "grows (\<lambda>p node. \<exists>f \<in> set (f # files). link_of tree0 f p node) tree1 tree'"
      using tail that by (auto elim: grows_mono)
    ultimately show ?thesis by (rule grows_trans)
  qed
  with tail step le(2) rs show ?case by (auto intro: map_le_trans is_linked_le)
qed simp

lemma plan_link_retry_probed:
  "plan_link_retry files (map domain_probe (map (probe_file env tree) files)) = Inr planned \<Longrightarrow>
     zip planned (map (probe_file env tree) files) = map (\<lambda>f. (planned_from env tree f, probe_file env tree f)) files"
  by (auto simp: plan_link_retry_def plan_link_files_Inr planned_from_def list_eq_iff_nth_eq split: if_splits)

text \<open>C29. The hardlink batch overwrites and removes nothing, whatever the kernel refuses and whatever other
  processes add between its steps; a file it reports as linked is one inode under its source and
  its target. When no one else writes, the only new nodes are directories on the way to a target
  and, at a target, the node of its source.\<close>

theorem hardlinks_overwrite_nothing:
  assumes "apply_hardlinks env files tree = (result, tree')"
    and "\<forall>n t. t \<subseteq>\<^sub>m le_meanwhile env n t"
  shows "tree \<subseteq>\<^sub>m tree' \<and>
    (\<forall>rs. result = Inr rs \<longrightarrow>
       list_all2 (\<lambda>f r. hl_outcome r = LinkLinked \<longrightarrow> is_linked tree tree' f) files rs) \<and>
    (le_meanwhile env = (\<lambda>n t. t) \<longrightarrow>
       (\<forall>p node. tree p = None \<and> tree' p = Some node \<longrightarrow> (\<exists>f \<in> set files. link_of tree f p node)))"
proof (cases "plan_link_retry files (map domain_probe (map (probe_file env tree) files))")
  case (Inl e)
  with assms(1) show ?thesis by (auto simp: apply_hardlinks_def Let_def)
next
  case (Inr planned)
  with assms(1) obtain rs where all: "result = Inr rs"
    "apply_all env 0 (map (\<lambda>f. (planned_from env tree f, probe_file env tree f)) files) tree = (rs, tree')"
    by (auto simp: apply_hardlinks_def Let_def plan_link_retry_probed [OF Inr] split: prod.splits)
  from apply_all_grows [OF all(2) map_le_refl] assms(2) show ?thesis
    unfolding grows_def all(1) by (auto dest!: spec)
qed

definition sample_link_env :: link_env where
  "sample_link_env =
     \<lparr>le_probe = (\<lambda>_. None), le_source = (\<lambda>_. None), le_directory = (\<lambda>_. None), le_not_directory = ''NotADirectory'',
      le_link = (\<lambda>_. None), le_verify = (\<lambda>_. None), le_meanwhile = (\<lambda>n t. t)\<rparr>"

definition sample_tree :: file_tree where
  "sample_tree = [(True, [''d'']) \<mapsto> DirectoryNode,
     (True, [''d'', ''a'']) \<mapsto> RegularFile \<lparr>identity_namespace = 1, identity_object = 2\<rparr>]"

definition sample_effect :: link_file_effect where
  "sample_effect = \<lparr>effect_source_path = ''/d/a'', effect_target_path = ''/m/b'', effect_persisted_outcome = LinkPending\<rparr>"

theorem hardlinks_overwrite_nothing_witness:
  "\<exists>rs tree'. apply_hardlinks sample_link_env [sample_effect] sample_tree = (Inr rs, tree') \<and>
     map hl_outcome rs = [LinkLinked] \<and> is_linked sample_tree tree' sample_effect"
proof -
  obtain result tree' where run: "apply_hardlinks sample_link_env [sample_effect] sample_tree = (result, tree')"
    by fastforce
  have "map_sum id (map hl_outcome) (fst (apply_hardlinks sample_link_env [sample_effect] sample_tree)) = Inr [LinkLinked]"
    by code_simp
  with run obtain rs where rs: "result = Inr rs" "map hl_outcome rs = [LinkLinked]"
    by (cases result) auto
  from hardlinks_overwrite_nothing [OF run] rs(1)
  have "list_all2 (\<lambda>f r. hl_outcome r = LinkLinked \<longrightarrow> is_linked sample_tree tree' f) [sample_effect] rs"
    by (simp add: sample_link_env_def)
  with rs run show ?thesis by (cases rs) auto
qed

end
