(* ===== verification/Candidate_Matching.thy ===== *)
theory Candidate_Matching
  imports Execution_Service Poll_Service
begin

text \<open>
  Search results and their selection: \<open>src/subscription/execution_effects/mteam.rs\<close>, and the
  selection functions of \<open>src/subscription/execution_effects.rs\<close>. What the Unicode tables say
  of a character, and \<open>str::to_lowercase\<close>, are parameters.
\<close>

subsection \<open>Responses\<close>

text \<open>
  \<open>serde_json::Value\<close>. A number is known by its text and by \<open>as_u64\<close>; the fields of an object are
  in the order of the map, and their names differ.
\<close>

datatype json_value =
  VNull
| VBool bool
| VNumber string "u64 option"
| VString string
| VArray "json_value list"
| VObject "(string \<times> json_value) list"

fun value_get :: "json_value \<Rightarrow> string \<Rightarrow> json_value option" where
  "value_get (VObject entries) key = map_of entries key"
| "value_get _ key = None"

fun value_as_u64 :: "json_value \<Rightarrow> u64 option" where
  "value_as_u64 (VNumber text n) = n"
| "value_as_u64 _ = None"

fun value_as_array :: "json_value \<Rightarrow> json_value list option" where
  "value_as_array (VArray items) = Some items"
| "value_as_array _ = None"

fun value_along :: "json_value \<Rightarrow> string list \<Rightarrow> json_value option" where
  "value_along v [] = Some v"
| "value_along v (part # parts) =
     (case value_get v part of None \<Rightarrow> None | Some w \<Rightarrow> value_along w parts)"

definition value_at_path :: "json_value \<Rightarrow> string \<Rightarrow> json_value option" where
  "value_at_path v path = value_along v (split_char CHR ''.'' path)"

definition search_page_size :: u64 where "search_page_size = 100"

definition value_of_u64 :: "u64 \<Rightarrow> json_value" where
  "value_of_u64 n = VNumber (decimal (unat n)) (Some n)"

text \<open>A \<open>serde_json::Map\<close> is ordered by its keys.\<close>

definition search_body :: "string \<Rightarrow> string \<Rightarrow> json_value" where
  "search_body field v =
     VObject (sort_key fst
       [(''pageNumber'', value_of_u64 1), (''pageSize'', value_of_u64 search_page_size),
        (''sortField'', VString ''SEEDERS''), (''sortDirection'', VString ''DESC''), (field, VString v)])"

subsection \<open>Candidates\<close>

definition candidate_identity :: "candidate_payload \<Rightarrow> string" where
  "candidate_identity c =
     (if cand_torrent_id c = [] then ''title:'' @ cand_title c else ''id:'' @ cand_torrent_id c)"

text \<open>\<open>append_candidates\<close> on the candidates so far and the identities seen\<close>

fun append_candidates ::
  "candidate_payload list \<times> string list \<Rightarrow> candidate_payload list \<Rightarrow> candidate_payload list \<times> string list"
where
  "append_candidates (out, seen) [] = (out, seen)"
| "append_candidates (out, seen) (c # cs) =
     append_candidates
       (if candidate_identity c \<in> set seen then (out, seen)
        else (out @ [c], candidate_identity c # seen)) cs"

definition identity_keys :: "string list" where
  "identity_keys = [''id'', ''torrentId'', ''torrent_id'', ''tid'']"

definition title_keys :: "string list" where
  "title_keys = [''name'', ''title'', ''smallDescr'', ''small_descr'']"

definition is_candidate_object :: "(string \<times> json_value) list \<Rightarrow> bool" where
  "is_candidate_object entries \<longleftrightarrow>
     list_ex (\<lambda>k. map_of entries k \<noteq> None) identity_keys \<and> list_ex (\<lambda>k. map_of entries k \<noteq> None) title_keys"

fun candidate_objects :: "json_value \<Rightarrow> json_value list" where
  "candidate_objects (VArray items) = concat (map candidate_objects items)"
| "candidate_objects (VObject entries) =
     (if is_candidate_object entries then [VObject entries]
      else concat (map (\<lambda>(_, v). candidate_objects v) entries))"
| "candidate_objects _ = []"

fun string_of_value :: "json_value \<Rightarrow> string option" where
  "string_of_value (VString s) = non_empty s"
| "string_of_value (VNumber text n) = Some text"
| "string_of_value _ = None"

text \<open>\<open>text.parse()\<close> to an unsigned integer below \<open>limit\<close>\<close>

definition parse_plus_unsigned :: "int \<Rightarrow> string \<Rightarrow> int option" where
  "parse_plus_unsigned limit s =
     parse_unsigned limit (case s of [] \<Rightarrow> [] | c # r \<Rightarrow> if c = CHR ''+'' then r else s)"

fun u64_of_value :: "json_value \<Rightarrow> u64 option" where
  "u64_of_value (VNumber text n) = n"
| "u64_of_value (VString s) = map_option word_of_int (parse_plus_unsigned (2 ^ 64) (str_trim s))"
| "u64_of_value _ = None"

definition first_along :: "(json_value \<Rightarrow> 'a option) \<Rightarrow> json_value \<Rightarrow> string list \<Rightarrow> 'a option" where
  "first_along read v paths =
     find_map read (List.map_filter (value_at_path v) paths)"

definition first_string :: "json_value \<Rightarrow> string list \<Rightarrow> string option" where
  "first_string = first_along string_of_value"

definition first_u64 :: "json_value \<Rightarrow> string list \<Rightarrow> u64 option" where
  "first_u64 = first_along u64_of_value"

definition or_empty :: "string option \<Rightarrow> string" where
  "or_empty v = (case v of None \<Rightarrow> [] | Some s \<Rightarrow> s)"

definition candidate_from_value :: "string \<Rightarrow> string \<Rightarrow> json_value \<Rightarrow> candidate_payload option" where
  "candidate_from_value source query v =
     (case first_string v title_keys of
        None \<Rightarrow> None
      | Some title \<Rightarrow> Some
          \<lparr>cand_torrent_id = or_empty (first_string v identity_keys), cand_title = title,
           cand_subtitle = or_empty (first_string v
             [''smallDescr'', ''small_descr'', ''description'', ''descr'', ''subTitle'', ''subtitle'']),
           cand_source = source, cand_search_query = query,
           cand_size = first_string v [''size'', ''sizeStr'', ''size_str''],
           cand_seeders = first_u64 v [''seeders'', ''seeder'', ''seed'', ''status.seeders''],
           cand_leechers = first_u64 v [''leechers'', ''leecher'', ''leech'', ''status.leechers''],
           cand_uploaded_at = first_string v [''createdDate'', ''created_date'', ''added'', ''date'']\<rparr>)"

definition candidates_from_response :: "json_value \<Rightarrow> string \<Rightarrow> string \<Rightarrow> candidate_payload list" where
  "candidates_from_response response source query =
     List.map_filter (candidate_from_value source query) (candidate_objects response)"

text \<open>The order of \<open>search_candidates\<close>: most seeders first, then the torrent ID\<close>

definition seeder_order :: "candidate_payload \<Rightarrow> int \<times> string" where
  "seeder_order c =
     (- (case cand_seeders c of None \<Rightarrow> 0 | Some n \<Rightarrow> uint n), cand_torrent_id c)"

subsection \<open>Rules\<close>

record unicode =
  uc_lower :: "int \<Rightarrow> int list"
  uc_alphanumeric :: "int \<Rightarrow> bool"
  uc_lowercase :: "string \<Rightarrow> string"

definition rule_checks :: "execution_match_rule \<Rightarrow> (string \<times> string) list" where
  "rule_checks r =
     concat (map (\<lambda>(tag, values).
         map (\<lambda>v. (tag @ '':'' @ v, v)) (List.map_filter non_empty values))
       [(''title'', xrule_title_keywords r), (''resolution'', xrule_resolution_keywords r),
        (''source'', xrule_source_keywords r)])"

definition evaluate_rule ::
  "unicode \<Rightarrow> candidate_payload \<Rightarrow> execution_match_rule \<Rightarrow> candidate_rule_evaluation_payload" where
  "evaluate_rule uc c r =
     (let searchable = uc_lowercase uc (cand_title c @ [CHR 0x0A] @ cand_subtitle c);
          found = (\<lambda>(_, v). str_contains searchable (uc_lowercase uc v));
          matched_keywords = map fst (filter found (rule_checks r));
          missing_keywords = map fst (filter (\<lambda>x. \<not> found x) (rule_checks r));
          matched = matched_keywords \<noteq> [] \<and>
            (case xrule_mode r of ModeAll \<Rightarrow> missing_keywords = [] | ModeAny \<Rightarrow> True)
      in \<lparr>eval_rule_name = xrule_name r, eval_priority = xrule_priority r,
          eval_mode = (case xrule_mode r of ModeAll \<Rightarrow> ''all'' | ModeAny \<Rightarrow> ''any''),
          eval_matched = matched, eval_matched_keywords = matched_keywords,
          eval_missing_keywords = missing_keywords,
          eval_excluded_reason = (if matched then None else Some ''rule keywords did not match'')\<rparr>)"

text \<open>Without rules the first candidate with an ID is selected.\<close>

fun default_matches :: "bool \<Rightarrow> candidate_payload list \<Rightarrow> candidate_match_payload list" where
  "default_matches selected [] = []"
| "default_matches selected (c # cs) =
     (let eligible = cand_torrent_id c \<noteq> []; row_selected = (eligible \<and> \<not> selected) in
      \<lparr>match_candidate = c, match_selected = row_selected, match_user_confirmed = False,
       match_matched_rule_name = (if row_selected then Some ''default_first_candidate'' else None),
       match_matched_priority = (if row_selected then Some 0 else None),
       match_matched_keywords = [],
       match_excluded_reason =
         (if row_selected then None
          else if eligible then Some ''an earlier candidate was selected''
          else Some ''torrent ID is missing''),
       match_rule_evaluations = []\<rparr> # default_matches (selected \<or> row_selected) cs)"

definition execution_rule_order :: "execution_match_rule \<Rightarrow> int \<times> string" where
  "execution_rule_order r = (- sint (xrule_priority r), xrule_name r)"

definition ruled_match ::
  "unicode \<Rightarrow> execution_match_rule list \<Rightarrow> candidate_payload \<Rightarrow> candidate_match_payload" where
  "ruled_match uc rules c =
     (let evaluations = map (evaluate_rule uc c) rules;
          matched = find eval_matched evaluations
      in \<lparr>match_candidate = c, match_selected = False, match_user_confirmed = False,
          match_matched_rule_name = map_option eval_rule_name matched,
          match_matched_priority = map_option eval_priority matched,
          match_matched_keywords = (case matched of None \<Rightarrow> [] | Some e \<Rightarrow> eval_matched_keywords e),
          match_excluded_reason = (if cand_torrent_id c = [] then Some ''torrent ID is missing'' else None),
          match_rule_evaluations = evaluations\<rparr>)"

definition has_torrent_id :: "candidate_match_payload \<Rightarrow> bool" where
  "has_torrent_id m \<longleftrightarrow> cand_torrent_id (match_candidate m) \<noteq> []"

definition best_priority :: "candidate_match_payload list \<Rightarrow> int option" where
  "best_priority ms =
     (case List.map_filter match_matched_priority (filter has_torrent_id ms) of
        [] \<Rightarrow> None
      | p # ps \<Rightarrow> Some (foldl max (sint p) (map sint ps)))"

text \<open>\<open>iter_mut().find(p)\<close> and an update of what it finds\<close>

fun update_first :: "('a \<Rightarrow> bool) \<Rightarrow> ('a \<Rightarrow> 'a) \<Rightarrow> 'a list \<Rightarrow> 'a list" where
  "update_first p f [] = []"
| "update_first p f (x # xs) = (if p x then f x # xs else x # update_first p f xs)"

definition select_best :: "candidate_match_payload list \<Rightarrow> candidate_match_payload list" where
  "select_best ms =
     (case best_priority ms of
        None \<Rightarrow> ms
      | Some p \<Rightarrow> update_first
          (\<lambda>m. has_torrent_id m \<and> map_option sint (match_matched_priority m) = Some p)
          (\<lambda>m. m\<lparr>match_selected := True, match_excluded_reason := None\<rparr>) ms)"

definition explain_exclusion :: "candidate_match_payload \<Rightarrow> candidate_match_payload" where
  "explain_exclusion m =
     (if match_selected m \<or> match_excluded_reason m \<noteq> None then m
      else m\<lparr>match_excluded_reason := Some
        (if match_matched_priority m \<noteq> None then ''a higher-priority or earlier candidate was selected''
         else ''no rule matched'')\<rparr>)"

definition match_candidates ::
  "unicode \<Rightarrow> candidate_payload list \<Rightarrow> execution_match_rule list \<Rightarrow> candidate_match_payload list" where
  "match_candidates uc cs rules =
     (if rules = [] then default_matches False cs
      else map explain_exclusion
        (select_best (map (ruled_match uc (sort_key execution_rule_order rules)) cs)))"

subsection \<open>Keyword results of a movie\<close>

definition normalized_title :: "unicode \<Rightarrow> string \<Rightarrow> string" where
  "normalized_title uc value =
     join_with '' '' (split_whitespace
       (utf8 (map (\<lambda>c. if uc_alphanumeric uc c then c else 32)
         (concat (map (uc_lower uc) (chars_of value))))))"

text \<open>\<open>value.match_indices(title)\<close>, for a \<open>title\<close> that is not empty\<close>

function match_indices :: "string \<Rightarrow> string \<Rightarrow> nat \<Rightarrow> nat list" where
  "match_indices title value start =
     (if title = [] then []
      else case str_find title (drop start value) of
        None \<Rightarrow> []
      | Some i \<Rightarrow> (start + i) # match_indices title value (start + i + length title))"
  by pat_completeness auto

lemma str_find_room: "str_find p s = Some i \<Longrightarrow> i + length p \<le> length s"
  using str_find_Some [of p s i] by (auto simp: has_prefix_iff dest: arg_cong [where f = length])

termination match_indices
proof (relation "measure (\<lambda>(title :: string, value :: string, start :: nat). length value - start)", goal_cases)
  case (2 title body start i)
  then show ?case using str_find_room [OF 2(2)] by (cases title) auto
qed simp

declare match_indices.simps [simp del]

definition contains_complete_title :: "string \<Rightarrow> string \<Rightarrow> bool" where
  "contains_complete_title value title \<longleftrightarrow>
     list_ex (\<lambda>start.
       let end_at = start + length title in
       (start = 0 \<or> value ! (start - 1) = CHR '' '') \<and>
       (end_at = length value \<or> value ! end_at = CHR '' '')) (match_indices title value 0)"

definition matches_movie_keyword :: "unicode \<Rightarrow> candidate_payload \<Rightarrow> wanted_source_payload \<Rightarrow> bool" where
  "matches_movie_keyword uc c source \<longleftrightarrow>
     (let title = normalized_title uc (cand_title c);
          subtitle = normalized_title uc (cand_subtitle c);
          aliases = filter (\<lambda>a. a \<noteq> []) (map (normalized_title uc)
            (split_char CHR ''/'' (src_title source) @
             (case src_original_title source of None \<Rightarrow> [] | Some t \<Rightarrow> [t]) @
             concat (map (split_char CHR ''/'') (src_aka source))))
      in list_ex (\<lambda>a. contains_complete_title title a \<or> contains_complete_title subtitle a) aliases \<and>
         is_none_or (\<lambda>year. decimal (unat year) \<in> set (split_whitespace title @ split_whitespace subtitle))
           (src_release_year source))"

end
