(* ===== verification/Candidate_Selection.thy ===== *)
theory Candidate_Selection
  imports Candidate_Matching
begin

text \<open>
  What \<open>src/subscription/execution_effects.rs\<close> selects: the category and the server of a
  subscription, its current download, and the candidate to push. Only an authorized candidate
  is ever selected.
\<close>

subsection \<open>Configuration of a subscription\<close>

definition category_for_source ::
  "string list \<Rightarrow> execution_category list \<Rightarrow> string + execution_category" where
  "category_for_source tags categories =
     (case filter (\<lambda>c. xcat_wanted_tag c \<in> set tags) categories of
        [] \<Rightarrow> Inl ''subscription tags do not match a configured category''
      | [c] \<Rightarrow> Inr c
      | _ \<Rightarrow> Inl ''subscription tags match more than one configured category'')"

definition qb_server :: "execution_qb_server list \<Rightarrow> string \<Rightarrow> string + execution_qb_server" where
  "qb_server servers server_id =
     (case filter (\<lambda>s. xqb_id s = server_id) servers of
        [] \<Rightarrow> Inl (''configured qB server does not exist: '' @ server_id)
      | [s] \<Rightarrow> Inr s
      | _ \<Rightarrow> Inl (''configured qB server ID is ambiguous: '' @ server_id))"

definition current_download :: "subscription_payload \<Rightarrow> download_artifact_payload option" where
  "current_download p =
     find (\<lambda>d. dl_state d \<notin> {DlIgnored, DlSuperseded}) (rev (art_downloads (pl_artifacts p)))"

subsection \<open>Selections\<close>

definition needs_manual_selection :: string where
  "needs_manual_selection = (utf8 [0x6B64, 0x5019, 0x9009, 0x9700, 0x8981, 0x624B, 0x52A8, 0x9009, 0x4E2D,
            0x540E, 0x4E0B, 0x8F7D])"

definition authorized_selection ::
  "candidate_match_payload list \<Rightarrow> candidate_match_payload list \<times> candidate_match_payload option" where
  "authorized_selection ms =
     (let ms' = map (\<lambda>m. if download_authorized m then m
            else m\<lparr>match_selected := False, match_excluded_reason := Some needs_manual_selection\<rparr>) ms
      in (ms', find (\<lambda>m. match_selected m \<and> download_authorized m) ms'))"

definition retry_selection ::
  "subscription_payload \<Rightarrow> (candidate_match_payload list \<times> candidate_match_payload) option" where
  "retry_selection p =
     (case current_download p of
        None \<Rightarrow> None
      | Some artifact \<Rightarrow>
          if dl_state artifact \<noteq> DlFailed then None
          else case find (\<lambda>m. cand_torrent_id (match_candidate m) = dl_torrent_id artifact) (pl_candidates p) of
            None \<Rightarrow> None
          | Some selected \<Rightarrow>
              if \<not> download_authorized selected then None
              else Some
                (map (\<lambda>m. if cand_torrent_id (match_candidate m) = dl_torrent_id artifact
                    then m\<lparr>match_selected := True, match_excluded_reason := None\<rparr>
                    else m\<lparr>match_selected := False\<rparr>) (pl_candidates p), selected))"

text \<open>The torrents a subscription has used: a failed, superseded or ignored download does not count.\<close>

definition uses_torrent :: "download_artifact_payload \<Rightarrow> bool" where
  "uses_torrent d \<longleftrightarrow> dl_state d \<notin> {DlFailed, DlSuperseded, DlIgnored}"

definition used_torrents :: "download_artifact_payload list \<Rightarrow> string list" where
  "used_torrents ds = map dl_torrent_id (filter uses_torrent ds)"

definition confirmed_selection ::
  "subscription_payload \<Rightarrow> (candidate_match_payload list \<times> candidate_match_payload) option" where
  "confirmed_selection p =
     map_option (\<lambda>m. (pl_candidates p, m))
       (find (\<lambda>m. match_user_confirmed m \<and>
            cand_torrent_id (match_candidate m) \<notin> set (used_torrents (art_downloads (pl_artifacts p))))
          (pl_candidates p))"

subsection \<open>The candidate of an episode\<close>

definition title_covers :: "u32 \<Rightarrow> u32 \<Rightarrow> candidate_match_payload \<Rightarrow> bool" where
  "title_covers season episode m \<longleftrightarrow>
     (case recognize (cand_title (match_candidate m)) of
        None \<Rightarrow> False
      | Some coverage \<Rightarrow> covers coverage season episode)"

definition tv_eligible ::
  "u32 \<Rightarrow> u32 \<Rightarrow> execution_match_rule list \<Rightarrow> string list \<Rightarrow> candidate_match_payload \<Rightarrow> bool" where
  "tv_eligible season episode rules used m \<longleftrightarrow>
     has_torrent_id m \<and> download_authorized m \<and>
     cand_torrent_id (match_candidate m) \<notin> set used \<and>
     (match_user_confirmed m \<or> rules = [] \<or> match_matched_priority m \<noteq> None) \<and>
     title_covers season episode m"

definition tv_priority :: "candidate_match_payload \<Rightarrow> int" where
  "tv_priority m =
     (if match_user_confirmed m then 2147483647
      else case match_matched_priority m of None \<Rightarrow> 0 | Some p \<Rightarrow> sint p)"

text \<open>The loop over the candidates: the index and the priority of the best one so far\<close>

fun pick_candidate ::
  "(candidate_match_payload \<Rightarrow> bool) \<Rightarrow> nat \<Rightarrow> (nat \<times> int) option \<Rightarrow> candidate_match_payload list
    \<Rightarrow> (nat \<times> int) option" where
  "pick_candidate eligible i best [] = best"
| "pick_candidate eligible i best (m # ms) =
     pick_candidate eligible (Suc i)
       (if eligible m \<and> (case best of None \<Rightarrow> True | Some (_, p) \<Rightarrow> p < tv_priority m)
        then Some (i, tv_priority m) else best) ms"

definition mark_candidate ::
  "u32 \<Rightarrow> u32 \<Rightarrow> string list \<Rightarrow> nat option \<Rightarrow> nat \<Rightarrow> candidate_match_payload \<Rightarrow> candidate_match_payload"
where
  "mark_candidate season episode used chosen i m =
     (let m' = m\<lparr>match_selected := (chosen = Some i)\<rparr> in
      if chosen = Some i then m'\<lparr>match_excluded_reason := None\<rparr>
      else if \<not> download_authorized m then m'\<lparr>match_excluded_reason := Some needs_manual_selection\<rparr>
      else if cand_torrent_id (match_candidate m) \<in> set used
      then m'\<lparr>match_excluded_reason := Some ''torrent was already pushed for this TV subscription''\<rparr>
      else if \<not> title_covers season episode m
      then m'\<lparr>match_excluded_reason := Some
             (''torrent does not cover S'' @ u32_02 season @ ''E'' @ u32_02 episode)\<rparr>
      else m')"

definition select_tv_candidate ::
  "u32 \<Rightarrow> u32 \<Rightarrow> execution_match_rule list \<Rightarrow> download_artifact_payload list \<Rightarrow> candidate_match_payload list
    \<Rightarrow> candidate_match_payload list \<times> candidate_match_payload option" where
  "select_tv_candidate season episode rules downloads ms =
     (let used = used_torrents downloads;
          chosen = map_option fst (pick_candidate (tv_eligible season episode rules used) 0 None ms);
          ms' = map (\<lambda>(i, m). mark_candidate season episode used chosen i m) (enumerate 0 ms)
      in (ms', map_option (\<lambda>i. ms' ! i) chosen))"

section \<open>The best candidate\<close>

text \<open>The candidate an episode of a series gets: the first of the best eligible ones.\<close>

text \<open>The best candidate so far is the first one with the highest priority among the eligible.\<close>

definition best_of ::
  "(candidate_match_payload \<Rightarrow> bool) \<Rightarrow> candidate_match_payload list \<Rightarrow> (nat \<times> int) option \<Rightarrow> bool" where
  "best_of eligible ms best \<longleftrightarrow>
     (case best of
        None \<Rightarrow> \<forall>m \<in> set ms. \<not> eligible m
      | Some (i, p) \<Rightarrow>
          i < length ms \<and> eligible (ms ! i) \<and> p = tv_priority (ms ! i) \<and>
          (\<forall>j < length ms. eligible (ms ! j) \<longrightarrow>
             tv_priority (ms ! j) \<le> p \<and> (j < i \<longrightarrow> tv_priority (ms ! j) < p)))"

lemma best_of_step:
  assumes "best_of eligible ms best"
  shows "best_of eligible (ms @ [m])
    (if eligible m \<and> (case best of None \<Rightarrow> True | Some (_, p) \<Rightarrow> p < tv_priority m)
     then Some (length ms, tv_priority m) else best)"
proof (cases best)
  case None
  with assms show ?thesis by (auto simp: best_of_def nth_append)
next
  case (Some b)
  then show ?thesis
    using assms by (cases b) (fastforce simp: best_of_def nth_append less_Suc_eq)
qed

lemma pick_best:
  "best_of eligible seen best \<Longrightarrow> best_of eligible (seen @ ms) (pick_candidate eligible (length seen) best ms)"
proof (induction ms arbitrary: seen best)
  case (Cons m ms)
  from Cons.IH [OF best_of_step [OF Cons.prems, of m]] show ?case by simp
qed simp

text \<open>C34. Among the candidates that are authorized, not used, matched by a rule and named for the episode,
  the selection takes one of the highest priority, the first of them in the order of the search, marks
  that candidate and no other, and takes none only if none is eligible.\<close>

theorem episode_gets_best_candidate:
  "let eligible = tv_eligible season episode rules (used_torrents downloads);
       (ms', selected) = select_tv_candidate season episode rules downloads ms in
   map match_candidate ms' = map match_candidate ms \<and>
   (case selected of
      None \<Rightarrow> (\<forall>m \<in> set ms. \<not> eligible m) \<and> (\<forall>m \<in> set ms'. \<not> match_selected m)
    | Some m \<Rightarrow> \<exists>i < length ms.
        m = ms' ! i \<and> eligible (ms ! i) \<and>
        (\<forall>j < length ms. eligible (ms ! j) \<longrightarrow>
           tv_priority (ms ! j) \<le> tv_priority (ms ! i) \<and>
           (j < i \<longrightarrow> tv_priority (ms ! j) < tv_priority (ms ! i))) \<and>
        (\<forall>j < length ms. match_selected (ms' ! j) \<longleftrightarrow> j = i))"
proof -
  let ?eligible = "tv_eligible season episode rules (used_torrents downloads)"
  let ?best = "pick_candidate ?eligible 0 None ms"
  let ?mark = "mark_candidate season episode (used_torrents downloads) (map_option fst ?best)"
  have best: "best_of ?eligible ms ?best"
    using pick_best [of ?eligible "[]" None ms] by (simp add: best_of_def)
  have candidate: "match_candidate (?mark i m) = match_candidate m"
    and marked: "match_selected (?mark i m) \<longleftrightarrow> map_option fst ?best = Some i" for i m
    by (simp_all add: mark_candidate_def Let_def)
  let ?ms' = "map (\<lambda>(i, m). ?mark i m) (enumerate 0 ms)"
  have nth: "?ms' ! j = ?mark j (ms ! j)" if "j < length ms" for j
    using that by (simp add: nth_enumerate_eq)
  have "map match_candidate ?ms' = map match_candidate ms"
    by (rule nth_equalityI) (simp_all add: nth_enumerate_eq candidate)
  moreover have "\<not> match_selected m" if "?best = None" "m \<in> set ?ms'" for m
    using that marked by auto
  moreover have sel: "select_tv_candidate season episode rules downloads ms = (?ms', map_option (\<lambda>i. ?ms' ! i) (map_option fst ?best))"
    by (simp add: select_tv_candidate_def Let_def)
  ultimately show ?thesis
  proof (cases ?best)
    case None
    with best \<open>map match_candidate ?ms' = map match_candidate ms\<close> marked show ?thesis
      unfolding sel Let_def by (auto simp: best_of_def)
  next
    case (Some b)
    then obtain i p where b: "?best = Some (i, p)" by (cases b) auto
    with best have i: "i < length ms" "?eligible (ms ! i)"
      "\<forall>j < length ms. ?eligible (ms ! j) \<longrightarrow> tv_priority (ms ! j) \<le> tv_priority (ms ! i) \<and>
         (j < i \<longrightarrow> tv_priority (ms ! j) < tv_priority (ms ! i))"
      by (auto simp: best_of_def)
    have chosen: "\<forall>j < length ms. match_selected (?ms' ! j) \<longleftrightarrow> j = i"
      using nth marked b by auto
    have "map_option (\<lambda>i. ?ms' ! i) (map_option fst ?best) = Some (?ms' ! i)" using b by simp
    with i chosen \<open>map match_candidate ?ms' = map match_candidate ms\<close> show ?thesis
      unfolding sel Let_def by (simp only: prod.case option.case) blast
  qed
qed

definition offered :: "string \<Rightarrow> string \<Rightarrow> i32 \<Rightarrow> candidate_match_payload" where
  "offered torrent title priority =
     \<lparr>match_candidate = \<lparr>cand_torrent_id = torrent, cand_title = title, cand_subtitle = [], cand_source = ''douban'',
        cand_search_query = [], cand_size = None, cand_seeders = None, cand_leechers = None, cand_uploaded_at = None\<rparr>,
      match_selected = False, match_user_confirmed = False, match_matched_rule_name = None,
      match_matched_priority = Some priority, match_matched_keywords = [], match_excluded_reason = None,
      match_rule_evaluations = []\<rparr>"

definition offers :: "candidate_match_payload list" where
  "offers = [offered ''1'' ''A S01E01'' 9, offered ''2'' ''A S01E02'' 1, offered ''3'' ''A S01E02'' 5]"

text \<open>The best candidate of another episode and the worse one of this episode are not taken.\<close>

theorem episode_gets_best_candidate_witness:
  "\<exists>ms' m. select_tv_candidate 1 2 [] [] offers = (ms', Some m) \<and> cand_torrent_id (match_candidate m) = ''3'' \<and>
     map match_candidate ms' = map match_candidate offers"
proof -
  have chosen: "map_option (\<lambda>m. cand_torrent_id (match_candidate m)) (snd (select_tv_candidate 1 2 [] [] offers)) = Some ''3''"
    by code_simp
  then obtain ms' m where run: "select_tv_candidate 1 2 [] [] offers = (ms', Some m)"
    by (cases "select_tv_candidate 1 2 [] [] offers") auto
  moreover have "map match_candidate ms' = map match_candidate offers"
    using episode_gets_best_candidate [of 1 2 "[]" "[]" offers] by (simp add: run Let_def)
  ultimately show ?thesis using chosen by auto
qed

end
