(* ===== verification/Link_Plans.thy ===== *)
theory Link_Plans
  imports Hardlink_Adapter Candidate_Selection
begin

text \<open>
  The layout of linked files, \<open>src/subscription/execution_effects/link.rs\<close>, and the episode
  markers of files from \<open>src/subscription/execution_effects.rs\<close>. Paths are Unix paths; a safe
  relative path is the list of its names.
\<close>

subsection \<open>Paths\<close>

text \<open>\<open>root.join(path)\<close>\<close>

definition path_join :: "string \<Rightarrow> string \<Rightarrow> string" where
  "path_join root p =
     (if fst (path_components p) then p
      else if root = [] \<or> last root = CHR ''/'' then root @ p
      else root @ ''/'' @ p)"

definition path_string :: "string list \<Rightarrow> string" where
  "path_string names = join_with ''/'' names"

text \<open>\<open>path.parent()\<close> of a path that ends in a name after a single separator\<close>

definition path_parent :: "string \<Rightarrow> string" where
  "path_parent p = rev (drop 1 (dropWhile (\<lambda>c. c \<noteq> CHR ''/'') (rev p)))"

definition safe_relative_path :: "string \<Rightarrow> string list option" where
  "safe_relative_path s =
     (let (absolute, names) = path_components (str_trim s);
          safe = filter (\<lambda>n. n \<noteq> ''.'') names in
      if str_trim s = [] \<or> absolute \<or> ''..'' \<in> set names \<or> safe = [] then None else Some safe)"

text \<open>\<open>char::is_control\<close>: the category Cc\<close>

fun chunk_is_control :: "string \<Rightarrow> bool" where
  "chunk_is_control [a] \<longleftrightarrow> of_char a < (32 :: int) \<or> of_char a = (127 :: int)"
| "chunk_is_control [a, b] \<longleftrightarrow> a = CHR 0xC2 \<and> of_char b < (0xA0 :: int)"
| "chunk_is_control _ \<longleftrightarrow> False"

definition reserved_characters :: string where
  "reserved_characters = [CHR ''/'', CHR 0x5C, CHR '':'', CHR ''*'', CHR ''?'', CHR 0x22, CHR ''<'', CHR ''>'', CHR 0x7C]"

definition safe_chunk :: "string \<Rightarrow> string option" where
  "safe_chunk x =
     (if length x = 1 \<and> hd x \<in> set reserved_characters then Some '' ''
      else if chunk_is_control x then None else Some x)"

definition safe_title_component :: "string \<Rightarrow> string" where
  "safe_title_component v =
     join_with '' '' (split_whitespace (concat (List.map_filter safe_chunk (char_chunks (str_trim v)))))"

definition common_top_level_directory :: "string list list \<Rightarrow> string option" where
  "common_top_level_directory paths =
     (case paths of
        (first # _) # _ \<Rightarrow>
          if list_all (\<lambda>p. case p of a # _ # _ \<Rightarrow> a = first | _ \<Rightarrow> False) paths then Some first else None
      | _ \<Rightarrow> None)"

definition link_target_root :: "execution_category \<Rightarrow> string \<Rightarrow> u16 \<Rightarrow> u32 option \<Rightarrow> string" where
  "link_target_root c title year season =
     (let root = path_join (str_trim (xcat_link_target_dir c)) (title @ ''.'' @ decimal (unat year)) in
      case season of None \<Rightarrow> root | Some n \<Rightarrow> path_join root (''Season '' @ u32_02 n))"

subsection \<open>Plans\<close>

record link_plan =
  plan_source_path :: string
  plan_target_path :: string
  plan_size :: u64
  plan_persisted_outcome :: link_file_outcome

definition directory_title :: "subscription_payload \<Rightarrow> string" where
  "directory_title p =
     (case pl_tv p of
        Some tv \<Rightarrow> (let t = str_trim (tv_localized_title tv) in if t = [] then src_title (pl_source p) else t)
      | None \<Rightarrow> src_title (pl_source p))"

text \<open>A later file of the same target overrides an earlier one.\<close>

definition previous_outcomes ::
  "subscription_payload \<Rightarrow> download_artifact_payload \<Rightarrow> string \<Rightarrow> link_file_outcome option" where
  "previous_outcomes p d =
     (case find (\<lambda>l. ref_artifact_id (lk_download l) = dl_idempotency_key d) (art_links (pl_artifacts p)) of
        None \<Rightarrow> Map.empty
      | Some l \<Rightarrow> map_of (rev (map (\<lambda>f. (lkf_target_path f, lkf_outcome f)) (lk_files l))))"

definition link_plan_of ::
  "string \<Rightarrow> string \<Rightarrow> string option \<Rightarrow> (string \<Rightarrow> link_file_outcome option) \<Rightarrow> u64 \<Rightarrow> string list \<Rightarrow> link_plan"
where
  "link_plan_of source_root target_root torrent_root previous bytes relative =
     (let target_relative = (case torrent_root of
            Some root \<Rightarrow> if hd relative = root then tl relative else relative
          | None \<Rightarrow> relative);
          target = path_join target_root (path_string target_relative)
      in \<lparr>plan_source_path = path_join source_root (path_string relative), plan_target_path = target,
          plan_size = bytes,
          plan_persisted_outcome = (case previous target of None \<Rightarrow> LinkPending | Some r \<Rightarrow> r)\<rparr>)"

definition link_plans ::
  "subscription_payload \<Rightarrow> execution_category \<Rightarrow> download_artifact_payload \<Rightarrow> qb_torrent_file list
    \<Rightarrow> string + link_plan list" where
  "link_plans p c d fs =
     (let title = safe_title_component (directory_title p) in
      if title = [] then Inl ''subscription title cannot form a safe link directory''
      else and_then (ok_or ''subscription release year is required for link layout''
             (src_release_year (pl_source p))) (\<lambda>year.
      let source_root = str_trim (xcat_download_dir c);
          target_root = link_target_root c title year (map_option tv_season_number (pl_tv p)) in
      if source_root = [] \<or> target_root = [] then Inl ''subscription category link paths are empty''
      else
        (let relative = List.map_filter (\<lambda>f. map_option (Pair (tf_size f)) (safe_relative_path (tf_name f))) fs;
             torrent_root = common_top_level_directory (map snd relative);
             plans = map (\<lambda>(bytes, r).
               link_plan_of source_root target_root torrent_root (previous_outcomes p d) bytes r) relative
         in if plans = [] then Inl ''qB file list has no safe relative files to link'' else Inr plans)))"

subsection \<open>Errors of a file\<close>

fun debug_operation :: "hardlink_operation \<Rightarrow> string" where
  "debug_operation ProbeSource = ''ProbeSource''"
| "debug_operation ProbeTarget = ''ProbeTarget''"
| "debug_operation CreateParent = ''CreateParent''"
| "debug_operation CreateLink = ''CreateLink''"
| "debug_operation VerifyCreatedLink = ''VerifyCreatedLink''"

fun debug_failure_kind :: "hardlink_failure_kind \<Rightarrow> string" where
  "debug_failure_kind (IoFailure kind) = ''Io('' @ kind @ '')''"
| "debug_failure_kind SymlinkFailure = ''Symlink''"
| "debug_failure_kind NonRegularFile = ''NonRegularFile''"
| "debug_failure_kind UnsafePath = ''UnsafePath''"
| "debug_failure_kind SourceChanged = ''SourceChanged''"

fun hardlink_error :: "hardlink_status \<Rightarrow> string option" where
  "hardlink_error StatusCreated = None"
| "hardlink_error StatusSkippedVerified = None"
| "hardlink_error StatusAcceptedExisting = None"
| "hardlink_error StatusMissing = Some ''source file is missing''"
| "hardlink_error (StatusConflict _ _) = Some ''deterministic target belongs to another file''"
| "hardlink_error (StatusFailed f) =
     Some (''filesystem '' @ debug_operation (failure_operation f) @ '' failed: ''
       @ debug_failure_kind (failure_kind f))"

subsection \<open>Episodes of files\<close>

text \<open>\<open>Path::extension\<close>, empty where there is none\<close>

definition path_extension :: "string \<Rightarrow> string" where
  "path_extension p =
     (let names = snd (path_components p) in
      if names = [] \<or> last names = ''..'' then []
      else case rfind_byte ((=) CHR ''.'') (last names) of
        None \<Rightarrow> []
      | Some i \<Rightarrow> if i = 0 then [] else drop (Suc i) (last names))"

definition video_extensions :: "string list" where
  "video_extensions =
     [''mkv'', ''mp4'', ''avi'', ''ts'', ''m2ts'', ''mov'', ''wmv'', ''webm'', ''mpg'', ''mpeg'']"

definition is_video_file :: "string \<Rightarrow> bool" where
  "is_video_file name \<longleftrightarrow> to_ascii_lowercase (path_extension name) \<in> set video_extensions"

type_synonym episode_marker = "u32 option \<times> u32 option \<times> u32 option \<times> string option"

definition file_episode_marker :: "string \<Rightarrow> tv_detail_payload option \<Rightarrow> episode_marker" where
  "file_episode_marker name tv =
     (if \<not> is_video_file name then (None, None, None, None)
      else case recognize name of
        None \<Rightarrow> (None, None, None, None)
      | Some coverage \<Rightarrow>
          (let (season, episode, end_ep) = coverage_parts coverage in
           (if season = None then map_option tv_season_number tv else season, episode, end_ep,
            Some (label coverage))))"

definition tv_complete_after_link ::
  "subscription_payload \<Rightarrow> tv_detail_payload \<Rightarrow> link_file_payload list \<Rightarrow> bool" where
  "tv_complete_after_link p tv current =
     list_all (\<lambda>episode.
         list_ex (file_covers (tv_season_number tv) episode)
           (concat (map lk_files (art_links (pl_artifacts p))) @ current))
       (u32_range (tv_target_start_episode tv) (tv_target_end_episode tv))"

end
