(* ===== verification/Effect_Metadata.thy ===== *)
theory Effect_Metadata
  imports Candidate_Selection
begin

text \<open>
  The metadata functions of \<open>src/subscription/execution_effects.rs\<close>: a source enriched from a
  Douban detail, the season and the series title a name carries, and the TV detail built from a
  Douban or a TMDB answer. \<open>DoubanSubjectDetail\<close> and \<open>DoubanTvSeason\<close> are of \<open>src/douban.rs\<close>,
  with the fields the effects read.
\<close>

subsection \<open>Douban\<close>

record douban_subject_detail =
  dd_title :: string
  dd_imdb_id :: "string option"
  dd_original_title :: string
  dd_aka :: "string list"
  dd_languages :: "string list"
  dd_countries :: "string list"
  dd_image :: string
  dd_poster_url :: string
  dd_directors :: "string list"
  dd_actors :: "string list"
  dd_genres :: "string list"
  dd_date_published :: string
  dd_duration :: string
  dd_summary :: string
  dd_rating_value :: "f64 option"
  dd_rating_count :: "u64 option"
  dd_episodes_count :: "u32 option"

record douban_tv_season =
  ds_id :: string
  ds_title :: string

definition release_year_from_metadata :: "string option \<Rightarrow> u16 option" where
  "release_year_from_metadata value =
     (case value of
        None \<Rightarrow> None
      | Some v \<Rightarrow> find_map (\<lambda>digits.
          case parse_unsigned (2 ^ 16) digits of
            None \<Rightarrow> None
          | Some year \<Rightarrow> if 1 \<le> year \<and> year \<le> 9999 then Some (word_of_int year) else None)
          (windows 4 v))"

definition observed_or :: "'a list \<Rightarrow> 'a list \<Rightarrow> 'a list" where
  "observed_or observed current = (if observed = [] then current else observed)"

definition tv_source_from_detail ::
  "wanted_source_payload \<Rightarrow> douban_subject_detail \<Rightarrow> wanted_source_payload" where
  "tv_source_from_detail current d =
     (let date = opt_or (non_empty (dd_date_published d)) (src_date_published current) in
      current\<lparr>
        src_title := (if is_blank (dd_title d) then src_title current else str_trim (dd_title d)),
        src_detail_title := (if is_blank (dd_title d) then src_detail_title current else Some (str_trim (dd_title d))),
        src_poster_url := (if is_blank (dd_poster_url d) then src_poster_url current else str_trim (dd_poster_url d)),
        src_cover_url := (if is_blank (dd_image d) then src_cover_url current else str_trim (dd_image d)),
        src_original_title := opt_or (non_empty (dd_original_title d)) (src_original_title current),
        src_aka := observed_or (dd_aka d) (src_aka current),
        src_languages := observed_or (dd_languages d) (src_languages current),
        src_countries := observed_or (dd_countries d) (src_countries current),
        src_genres := observed_or (dd_genres d) (src_genres current),
        src_directors := observed_or (dd_directors d) (src_directors current),
        src_actors := observed_or (dd_actors d) (src_actors current),
        src_date_published := date,
        src_duration := opt_or (non_empty (dd_duration d)) (src_duration current),
        src_summary := opt_or (non_empty (dd_summary d)) (src_summary current),
        src_rating_value := opt_or (dd_rating_value d) (src_rating_value current),
        src_rating_count := opt_or (dd_rating_count d) (src_rating_count current),
        src_release_year := opt_or (release_year_from_metadata date) (src_release_year current)\<rparr>)"

definition source_from_detail ::
  "wanted_source_payload \<Rightarrow> douban_subject_detail \<Rightarrow> media_kind \<Rightarrow> wanted_source_payload" where
  "source_from_detail current d kind =
     (let source = tv_source_from_detail current d in
      if kind = Movie
      then source\<lparr>src_release_year := opt_or (src_release_year current) (src_release_year source)\<rparr>
      else source)"

definition movie_source_from_detail ::
  "wanted_source_payload \<Rightarrow> douban_subject_detail \<Rightarrow> wanted_source_payload" where
  "movie_source_from_detail current d = source_from_detail current d Movie"

subsection \<open>Season numbers in titles\<close>

definition leading_number :: "string \<Rightarrow> u32 option" where
  "leading_number s = map_option word_of_int (parse_unsigned (2 ^ 32) (takeWhile is_digit s))"

text \<open>\<open>s.split(marker).nth(1)\<close>\<close>

definition second_part :: "string \<Rightarrow> string \<Rightarrow> string option" where
  "second_part marker s =
     (case str_find marker s of
        None \<Rightarrow> None
      | Some i \<Rightarrow>
          (let rest = drop (i + length marker) s in
           Some (case str_find marker rest of None \<Rightarrow> rest | Some j \<Rightarrow> take j rest)))"

definition season_markers :: "string list" where
  "season_markers = [''season '', ''season.'', ''season_'', ''season-'']"

definition cp_season :: int where "cp_season = 0x5B63"
definition cp_ten :: int where "cp_ten = 0x5341"

definition chinese_digits :: "(int \<times> u32) list" where
  "chinese_digits =
     [(0x96F6, 0), (0x3007, 0), (0x4E00, 1), (0x4E8C, 2), (0x4E24, 2), (0x4E09, 3), (0x56DB, 4),
      (0x4E94, 5), (0x516D, 6), (0x4E03, 7), (0x516B, 8), (0x4E5D, 9)]"

definition chinese_digit :: "int \<Rightarrow> u32 option" where
  "chinese_digit c = map_of chinese_digits c"

fun chinese_number_of :: "int list \<Rightarrow> u32 option" where
  "chinese_number_of [a] = (if a = cp_ten then Some 10 else chinese_digit a)"
| "chinese_number_of [a, b] =
     (if a = cp_ten then map_option (\<lambda>ones. 10 + ones) (chinese_digit b)
      else if b = cp_ten then map_option (\<lambda>tens. tens * 10) (chinese_digit a)
      else None)"
| "chinese_number_of [a, b, c] =
     (if b \<noteq> cp_ten then None
      else case (chinese_digit a, chinese_digit c) of
        (Some tens, Some ones) \<Rightarrow> Some (tens * 10 + ones)
      | _ \<Rightarrow> None)"
| "chinese_number_of _ = None"

definition parse_chinese_number :: "string \<Rightarrow> u32 option" where
  "parse_chinese_number s =
     (case chinese_number_of (chars_of (str_trim s)) of
        Some n \<Rightarrow> if 0 < n then Some n else None
      | None \<Rightarrow> None)"

definition chinese_season_at :: "int list \<Rightarrow> nat \<Rightarrow> u32 option" where
  "chinese_season_at cs i =
     (if cs ! i \<noteq> cp_di \<or> cp_season \<notin> set (drop (Suc i) cs) then None
      else
        (let number = utf8 (takeWhile (\<lambda>c. c \<noteq> cp_season) (drop (Suc i) cs)) in
         case parse_plus_unsigned (2 ^ 32) number of
           Some n \<Rightarrow> Some (word_of_int n)
         | None \<Rightarrow> parse_chinese_number number))"

definition season_number_from_title :: "string \<Rightarrow> u32 option" where
  "season_number_from_title title =
     (case find_map (\<lambda>marker.
          case second_part marker (to_ascii_lowercase title) of
            None \<Rightarrow> None
          | Some rest \<Rightarrow> leading_number rest) season_markers of
        Some n \<Rightarrow> Some n
      | None \<Rightarrow> (let cs = chars_of title in find_map (chinese_season_at cs) [0..<length cs]))"

definition first_mark :: "string \<Rightarrow> nat option" where
  "first_mark plain =
     (let lower = to_ascii_lowercase plain;
          english = List.map_filter (\<lambda>m. str_find m lower) (map (\<lambda>m. '' '' @ m) season_markers);
          chinese = (case str_find (utf8 [cp_di]) plain of
            Some i \<Rightarrow> if str_contains (drop i plain) (utf8 [cp_season]) then [i] else []
          | None \<Rightarrow> [])
      in case english @ chinese of [] \<Rightarrow> None | x # xs \<Rightarrow> Some (foldl min x xs))"

definition tv_series_search_title :: "string \<Rightarrow> string" where
  "tv_series_search_title title =
     (let plain = str_trim title in
      case first_mark plain of
        None \<Rightarrow> plain
      | Some i \<Rightarrow> (let t = str_trim (take i plain) in if t = [] then plain else t))"

text \<open>\<open>resolve_tv_season_number\<close> on the seasons Douban lists, or its failure\<close>

definition listed_season :: "string \<Rightarrow> string \<Rightarrow> douban_tv_season list \<Rightarrow> u32 option" where
  "listed_season subject title seasons =
     (case (case find (\<lambda>s. ds_id s = subject) seasons of
              None \<Rightarrow> None
            | Some s \<Rightarrow> season_number_from_title (ds_title s)) of
        Some n \<Rightarrow> Some n
      | None \<Rightarrow>
          if 1 < length seasons then
            (case season_number_from_title title of
               Some n \<Rightarrow> if list_ex (\<lambda>s. season_number_from_title (ds_title s) = Some n) seasons
                         then Some n else None
             | None \<Rightarrow> None)
          else None)"

definition tv_season_number_of :: "string \<Rightarrow> string \<Rightarrow> (string + douban_tv_season list) \<Rightarrow> u32" where
  "tv_season_number_of subject title result =
     (let fallback = (case season_number_from_title title of None \<Rightarrow> 1 | Some n \<Rightarrow> n) in
      case result of
        Inl _ \<Rightarrow> fallback
      | Inr seasons \<Rightarrow> (case listed_season subject title seasons of None \<Rightarrow> fallback | Some n \<Rightarrow> n))"

subsection \<open>TV details\<close>

definition target_episodes :: "u32 \<Rightarrow> u32 \<Rightarrow> tv_episode_detail_payload list" where
  "target_episodes season episode_total =
     map (\<lambda>episode. \<lparr>ep_season_number = season, ep_episode_number = episode,
            ep_label = ''S'' @ u32_02 season @ ''E'' @ u32_02 episode, ep_intent = IntentTarget\<rparr>)
       (u32_range 1 episode_total)"

definition whole_season :: "string \<Rightarrow> u32 \<Rightarrow> u32 \<Rightarrow> tv_detail_payload" where
  "whole_season title season episode_total =
     \<lparr>tv_localized_title = title, tv_season_number = season, tv_episode_total = episode_total,
      tv_target_start_episode = 1, tv_target_end_episode = episode_total, tv_episodes = target_episodes season episode_total\<rparr>"

definition tv_detail_from_douban :: "u32 \<Rightarrow> u32 \<Rightarrow> string \<Rightarrow> tv_detail_payload" where
  "tv_detail_from_douban episodes_count season title = whole_season (str_trim title) season episodes_count"

definition json_u64_field :: "string \<Rightarrow> json_value \<Rightarrow> u64 option" where
  "json_u64_field key v = (case value_get v key of None \<Rightarrow> None | Some w \<Rightarrow> value_as_u64 w)"

text \<open>The season asked for, or the last one of the highest number with episodes\<close>

definition regular_season :: "json_value \<Rightarrow> bool" where
  "regular_season s \<longleftrightarrow>
     (case json_u64_field ''season_number'' s of None \<Rightarrow> False | Some n \<Rightarrow> 0 < n) \<and>
     (case json_u64_field ''episode_count'' s of None \<Rightarrow> False | Some n \<Rightarrow> 0 < n)"

definition season_field :: "json_value \<Rightarrow> u64" where
  "season_field s = (case json_u64_field ''season_number'' s of None \<Rightarrow> 0 | Some n \<Rightarrow> n)"

definition episode_field :: "json_value \<Rightarrow> u64" where
  "episode_field s = (case json_u64_field ''episode_count'' s of None \<Rightarrow> 0 | Some n \<Rightarrow> n)"

definition last_season :: "json_value list \<Rightarrow> json_value option" where
  "last_season seasons =
     (case filter regular_season seasons of
        [] \<Rightarrow> None
      | s # ss \<Rightarrow> Some (foldl (\<lambda>b s. if season_field b \<le> season_field s then s else b) s ss))"

definition chosen_season :: "u32 option \<Rightarrow> json_value list \<Rightarrow> json_value option" where
  "chosen_season requested seasons =
     (case (case requested of
              None \<Rightarrow> None
            | Some r \<Rightarrow> find (\<lambda>s. json_u64_field ''season_number'' s = Some (ucast r)) seasons) of
        Some s \<Rightarrow> Some s
      | None \<Rightarrow> last_season seasons)"

definition u32_try_from :: "u64 \<Rightarrow> u32 option" where
  "u32_try_from n = (if uint n < 2 ^ 32 then Some (ucast n) else None)"

definition first_result_id :: "string \<Rightarrow> json_value \<Rightarrow> string + u64" where
  "first_result_id title response =
     and_then (ok_or (''TMDB did not find TV metadata for '' @ title)
       (case Option.bind (value_get response ''results'') value_as_array of
          Some (r # _) \<Rightarrow> Some r
        | _ \<Rightarrow> None)) (\<lambda>result.
     ok_or ''TMDB TV search result has no ID'' (json_u64_field ''id'' result))"

definition tv_detail_of_seasons :: "u32 option \<Rightarrow> string \<Rightarrow> json_value \<Rightarrow> string + tv_detail_payload" where
  "tv_detail_of_seasons requested localized detail =
     and_then (ok_or ''TMDB TV detail has no seasons''
       (Option.bind (value_get detail ''seasons'') value_as_array)) (\<lambda>seasons.
     and_then (ok_or ''TMDB TV detail has no regular season'' (chosen_season requested seasons)) (\<lambda>season.
     and_then (ok_or ''TMDB season number is too large'' (u32_try_from (season_field season))) (\<lambda>number.
     and_then (ok_or ''TMDB episode count is too large'' (u32_try_from (episode_field season))) (\<lambda>episode_total.
     and_then (reject_if (number = 0 \<or> episode_total = 0) ''TMDB selected season has no episodes'') (\<lambda>_.
     and_then (reject_if (is_blank localized) ''Douban rexxar TV detail has no localized title'') (\<lambda>_.
     Inr (whole_season (str_trim localized) number episode_total)))))))"

end
