(* ===== verification/Effect_Environment.thy ===== *)
theory Effect_Environment
  imports Link_Plans Effect_Metadata
begin

text \<open>
  What the effects of \<open>src/subscription/execution_effects.rs\<close> act on: the remote services
  (Douban, TMDB, M-Team, qBittorrent, the poster cache), whose methods act on a state \<open>'q\<close> of
  their own and fail with a message, and the local files.
\<close>

subsection \<open>Services\<close>

record mteam_torrent =
  mt_info_hash :: string
  mt_bytes :: string

text \<open>
  \<open>sv_blocking\<close> is the refusal of the blocking executor; \<open>sv_remove_file\<close> and
  \<open>sv_remove_dir\<close> what the kernel refuses to remove, other than a path that is not there (a
  directory that is not empty, say). \<open>sv_others\<close> is what other processes, qBittorrent among them,
  have done to the files by the time a call returns.
\<close>

record 'q effect_services =
  sv_subject_detail :: "string \<Rightarrow> string \<Rightarrow> 'q \<Rightarrow> (string + douban_subject_detail) \<times> 'q"
  sv_tv_seasons :: "string \<Rightarrow> string \<Rightarrow> 'q \<Rightarrow> (string + douban_tv_season list) \<times> 'q"
  sv_tmdb :: "string \<Rightarrow> string \<Rightarrow> (string \<times> string) list \<Rightarrow> 'q \<Rightarrow> (string + json_value) \<times> 'q"
  sv_mteam_search :: "string \<Rightarrow> json_value \<Rightarrow> 'q \<Rightarrow> (string + json_value) \<times> 'q"
  sv_fetch_torrent :: "string \<Rightarrow> string \<Rightarrow> 'q \<Rightarrow> (string + mteam_torrent) \<times> 'q"
  sv_cache_poster :: "string \<Rightarrow> string \<Rightarrow> 'q \<Rightarrow> (string + string) \<times> 'q"
  sv_qb :: "execution_qb_server \<Rightarrow> 'q qb_transport"
  sv_torrent_files :: "execution_qb_server \<Rightarrow> string \<Rightarrow> 'q \<Rightarrow> (string + qb_torrent_file list) \<times> 'q"
  sv_delete_torrent :: "execution_qb_server \<Rightarrow> string \<Rightarrow> 'q \<Rightarrow> (string + unit) \<times> 'q"
  sv_now :: "'q \<Rightarrow> u64"
  sv_blocking :: "'q \<Rightarrow> string option"
  sv_sha :: "string \<Rightarrow> string"
  sv_unicode :: unicode
  sv_links :: link_env
  sv_remove_file :: "string \<Rightarrow> string option"
  sv_remove_dir :: "file_tree \<Rightarrow> components \<Rightarrow> bool"
  sv_others :: "'q \<Rightarrow> file_tree \<Rightarrow> file_tree"

record 'q effect_world =
  ew_remote :: 'q
  ew_files :: file_tree

definition remote ::
  "'q effect_services \<Rightarrow> ('q \<Rightarrow> 'a \<times> 'q) \<Rightarrow> 'q effect_world \<Rightarrow> 'a \<times> 'q effect_world" where
  "remote sv call w =
     (let (r, q) = call (ew_remote w)
      in (r, \<lparr>ew_remote = q, ew_files = sv_others sv q (ew_files w)\<rparr>))"

definition world_now :: "'q effect_services \<Rightarrow> 'q effect_world \<Rightarrow> u64" where
  "world_now sv w = sv_now sv (ew_remote w)"

text \<open>A call with its error branch, and the same for a pure result: \<open>match .. { Ok(x) => .., Err(e) =>
  return .. }\<close>\<close>

definition attempt ::
  "('w \<Rightarrow> ('e + 'a) \<times> 'w) \<Rightarrow> ('e \<Rightarrow> 'r) \<Rightarrow> ('a \<Rightarrow> 'w \<Rightarrow> 'r \<times> 'w) \<Rightarrow> 'w \<Rightarrow> 'r \<times> 'w" where
  "attempt call fail k w =
     (case call w of (Inl e, w') \<Rightarrow> (fail e, w') | (Inr x, w') \<Rightarrow> k x w')"

definition require :: "'e + 'a \<Rightarrow> ('e \<Rightarrow> 'r) \<Rightarrow> ('a \<Rightarrow> 'w \<Rightarrow> 'r \<times> 'w) \<Rightarrow> 'w \<Rightarrow> 'r \<times> 'w" where
  "require m fail k w = (case m of Inl e \<Rightarrow> (fail e, w) | Inr x \<Rightarrow> k x w)"

subsection \<open>Results\<close>

text \<open>\<open>schedule_delay\<close>; its \<open>expect\<close> fails beyond \<open>i64::MAX\<close>, which the clamped intervals of a
  normalized configuration do not reach.\<close>

definition schedule_delay :: "u64 \<Rightarrow> u64" where
  "schedule_delay seconds = seconds"

fun empty_delta :: "execution_operation \<Rightarrow> execution_payload_delta" where
  "empty_delta OpMeta = DeltaMeta"
| "empty_delta OpSearch = DeltaSearch None []"
| "empty_delta OpProgress = DeltaProgress []"
| "empty_delta OpLink = DeltaLink [] []"

definition effect_failed :: "execution_operation \<Rightarrow> string \<Rightarrow> u64 \<Rightarrow> string \<Rightarrow> execution_effect_result" where
  "effect_failed operation error_type retry_after message =
     EffectFailed error_type message retry_after (empty_delta operation)"

definition failed_search_with_candidates ::
  "candidate_match_payload list \<Rightarrow> download_artifact_payload list \<Rightarrow> string \<Rightarrow> u64 \<Rightarrow> string
    \<Rightarrow> execution_effect_result" where
  "failed_search_with_candidates candidates updates error_type retry_after message =
     EffectFailed error_type message retry_after (DeltaSearch (Some candidates) updates)"

subsection \<open>A recorded download at its server\<close>

fun insert_row :: "(string \<times> qb_torrent_info) list \<Rightarrow> qb_torrent_info list \<Rightarrow> (string \<times> qb_torrent_info) list" where
  "insert_row rows [] = rows"
| "insert_row rows (t # ts) =
     (let h = to_ascii_lowercase (ti_hash t) in
      insert_row (if h \<in> fst ` set rows then rows else rows @ [(h, t)]) ts)"

definition merge_qb_rows ::
  "qb_torrent_info list \<Rightarrow> qb_torrent_info list \<Rightarrow> (string \<times> qb_torrent_info) list" where
  "merge_qb_rows tagged hashed = sort_key fst (insert_row [] (tagged @ hashed))"

fun row_observations :: "qb_torrent_info list \<Rightarrow> string + qb_torrent_observation list" where
  "row_observations [] = Inr []"
| "row_observations (t # ts) =
     and_then (map_err display_identity_error (qb_observation_try_new (ti_hash t) (ti_name t)
       (filter (\<lambda>x. x \<noteq> []) (map str_trim (split_char CHR '','' (ti_tags t)))))) (\<lambda>ob.
     and_then (row_observations ts) (\<lambda>obs. Inr (ob # obs)))"

definition observed_torrent ::
  "qb_reconcile_request \<Rightarrow> qb_torrent_info list \<Rightarrow> qb_torrent_info list \<Rightarrow> string + qb_torrent_info option" where
  "observed_torrent request tagged hashed =
     (let rows = merge_qb_rows tagged hashed in
      and_then (row_observations (map snd rows)) (\<lambda>obs.
      case reconcile_qb_torrent request obs of
        UseExisting torrent by_what \<Rightarrow> Inr (map_of rows (obs_hash torrent))
      | Add \<Rightarrow> Inr None
      | Conflict c \<Rightarrow> Inl (''qB reconciliation conflict: '' @ debug_conflict c)))"

definition observe_download ::
  "'q effect_services \<Rightarrow> execution_qb_server \<Rightarrow> subscription_key \<Rightarrow> download_artifact_payload
    \<Rightarrow> 'q effect_world \<Rightarrow> (string + qb_torrent_info option) \<times> 'q effect_world" where
  "observe_download sv server key artifact =
     require (qb_reconcile_request_try_new (sv_sha sv) (account_key key) (subject_id key)
         (dl_torrent_id artifact) (dl_qb_hash artifact) None) (Inl \<circ> display_identity_error) (\<lambda>request.
     attempt (remote sv (by_exact_tag (sv_qb sv server) (effect_key_str (request_key request)))) Inl (\<lambda>tagged.
     attempt (case authoritative_hash request of
         None \<Rightarrow> Pair (Inr [])
       | Some h \<Rightarrow> remote sv (by_hash (sv_qb sv server) h)) Inl (\<lambda>hashed w.
     (observed_torrent request tagged hashed, w))))"

definition downloaded_file :: "tv_detail_payload option \<Rightarrow> qb_torrent_file \<Rightarrow> download_file_payload" where
  "downloaded_file tv f =
     (let (season, episode, end_ep, episode_label) = file_episode_marker (tf_name f) tv in
      \<lparr>dlf_name = tf_name f, dlf_size = tf_size f, dlf_progress = f64_clamp_unit (tf_progress f),
       dlf_priority = tf_priority f, dlf_season_number = season, dlf_episode_number = episode,
       dlf_episode_end_number = end_ep, dlf_episode_label = episode_label\<rparr>)"

definition updated_download ::
  "download_artifact_payload \<Rightarrow> qb_torrent_info \<Rightarrow> qb_torrent_file list \<Rightarrow> tv_detail_payload option \<Rightarrow> u64
    \<Rightarrow> download_artifact_payload" where
  "updated_download existing t fs tv now =
     existing\<lparr>
       dl_qb_hash := Some (to_ascii_lowercase (ti_hash t)),
       dl_qb_name := non_empty (ti_name t),
       dl_qb_state := non_empty (ti_state t),
       dl_state := (if torrent_is_complete t then DlDownloaded else DlDownloading),
       dl_progress := Some (f64_clamp_unit (ti_progress t)),
       dl_total_size := Some (ti_size t),
       dl_files := map (downloaded_file tv) fs,
       dl_checked_at := Some now,
       dl_completed_at := opt_or (if torrent_is_complete t then Some now else None) (dl_completed_at existing)\<rparr>"

end
