(* ===== verification/Replacement_Effects.thy ===== *)
theory Replacement_Effects
  imports Effect_Environment
begin

text \<open>
  The replacement of a confirmed torrent, \<open>src/subscription/execution_effects/replacement.rs\<close>:
  a first attempt records the old content, a later one removes the links, then the old tasks,
  and reports success only when their files are gone.
\<close>

subsection \<open>Checks\<close>

definition require_owned_torrent :: "qb_torrent_info \<Rightarrow> string \<Rightarrow> string + unit" where
  "require_owned_torrent t key =
     (let tags = map str_trim (split_char CHR '','' (ti_tags t)) in
      reject_if (key \<notin> set tags \<or> list_ex (\<lambda>x. has_prefix ''download:v1:'' x \<and> x \<noteq> key) tags)
        (utf8 [0x65E7, 0x20, 0x71, 0x42, 0x20, 0x4EFB, 0x52A1, 0x5F52, 0x5C5E, 0x4E0D,
            0x660E, 0x786E, 0x6216, 0x88AB, 0x5176, 0x4ED6, 0x8BA2, 0x9605, 0x5171,
            0x7528, 0xFF0C, 0x5DF2, 0x505C, 0x6B62, 0x6362, 0x79CD]))"

text \<open>The parents of a path and the path, from the root: none may be a symbolic link.\<close>

definition check_ancestor :: "link_env \<Rightarrow> file_tree \<Rightarrow> string list \<Rightarrow> string + unit" where
  "check_ancestor env tree names =
     (case le_probe env (''/'' @ path_string names) of
        Some kind \<Rightarrow> Inl kind
      | None \<Rightarrow> reject_if (tree (True, names) = Some SymbolicLink) (utf8 [0x6E05, 0x7406, 0x8DEF, 0x5F84, 0x5305, 0x542B, 0x7B26, 0x53F7, 0x94FE,
            0x63A5]))"

definition strip_names :: "string list \<Rightarrow> string list \<Rightarrow> string list option" where
  "strip_names root names = (if take (length root) names = root then Some (drop (length root) names) else None)"

definition checked_path :: "link_env \<Rightarrow> file_tree \<Rightarrow> string \<Rightarrow> string \<Rightarrow> string + string" where
  "checked_path env tree root p =
     (let (root_absolute, root_names) = path_components root; (absolute, names) = path_components p in
      and_then (reject_if (\<not> root_absolute \<or> \<not> absolute) (utf8 [0x6E05, 0x7406, 0x76EE, 0x5F55, 0x5FC5, 0x987B, 0x4F7F, 0x7528, 0x7EDD,
            0x5BF9, 0x8DEF, 0x5F84])) (\<lambda>_.
      and_then (ok_or (utf8 [0x6E05, 0x7406, 0x6587, 0x4EF6, 0x4E0D, 0x5728, 0x914D, 0x7F6E, 0x76EE,
            0x5F55, 0x5185]) (strip_names root_names names)) (\<lambda>relative.
      and_then (reject_if (relative = [] \<or> ''..'' \<in> set relative) (utf8 [0x6E05, 0x7406, 0x6587, 0x4EF6, 0x8DEF, 0x5F84, 0x4E0D, 0x5B89, 0x5168])) (\<lambda>_.
      and_then (for_each (\<lambda>n. check_ancestor env tree (take n names)) [0..<Suc (length names)]) (\<lambda>_.
      Inr p)))))"

definition source_to_clean ::
  "link_env \<Rightarrow> file_tree \<Rightarrow> execution_category \<Rightarrow> download_file_payload \<Rightarrow> string + string" where
  "source_to_clean env tree c f =
     (let (absolute, names) = path_components (dlf_name f) in
      and_then (reject_if (absolute \<or> ''..'' \<in> set names) (utf8 [0x4E0B, 0x8F7D, 0x6587, 0x4EF6, 0x8DEF, 0x5F84, 0x4E0D, 0x5B89, 0x5168,
            0xFF0C, 0x5DF2, 0x505C, 0x6B62, 0x6362, 0x79CD])) (\<lambda>_.
      checked_path env tree (xcat_download_dir c) (path_join (xcat_download_dir c) (dlf_name f))))"

text \<open>The target and the source of a recorded link\<close>

definition link_to_clean ::
  "link_env \<Rightarrow> file_tree \<Rightarrow> execution_category \<Rightarrow> link_file_payload \<Rightarrow> string + (string \<times> string)" where
  "link_to_clean env tree c f =
     and_then (checked_path env tree (xcat_link_target_dir c) (lkf_target_path f)) (\<lambda>target.
     and_then (checked_path env tree (xcat_download_dir c) (lkf_source_path f)) (\<lambda>source.
     and_then (verify_cleanup_link env source target (lkf_outcome f) tree) (\<lambda>_.
     Inr (target, source))))"

fun collect_all :: "('a \<Rightarrow> 'e + 'b) \<Rightarrow> 'a list \<Rightarrow> 'e + 'b list" where
  "collect_all f [] = Inr []"
| "collect_all f (x # xs) = and_then (f x) (\<lambda>y. and_then (collect_all f xs) (\<lambda>ys. Inr (y # ys)))"

subsection \<open>Removal\<close>

definition remove_file_if_present ::
  "'q effect_services \<Rightarrow> string \<Rightarrow> file_tree \<Rightarrow> (string + unit) \<times> file_tree" where
  "remove_file_if_present sv p tree =
     (case tree (path_components p) of
        None \<Rightarrow> (Inr (), tree)
      | Some node \<Rightarrow>
          (case sv_remove_file sv p of
             Some message \<Rightarrow> (Inl message, tree)
           | None \<Rightarrow>
               if node = DirectoryNode then (Inl ''Is a directory (os error 21)'', tree)
               else (Inr (), tree(path_components p := None))))"

text \<open>The loop of \<open>remove_empty_parents\<close>, on the names of a directory from the last to the first\<close>

fun remove_parents ::
  "'q effect_services \<Rightarrow> components \<Rightarrow> bool \<Rightarrow> string list \<Rightarrow> file_tree \<Rightarrow> file_tree" where
  "remove_parents sv root absolute [] tree = tree"
| "remove_parents sv root absolute (n # ns) tree =
     (let directory = (absolute, rev (n # ns)) in
      if directory = root \<or> absolute \<noteq> fst root \<or> strip_names (snd root) (snd directory) = None then tree
      else case tree directory of
        None \<Rightarrow> remove_parents sv root absolute ns tree
      | Some DirectoryNode \<Rightarrow>
          if sv_remove_dir sv tree directory then tree
          else remove_parents sv root absolute ns (tree(directory := None))
      | Some _ \<Rightarrow> tree)"

definition remove_empty_parents :: "'q effect_services \<Rightarrow> string \<Rightarrow> string \<Rightarrow> file_tree \<Rightarrow> file_tree" where
  "remove_empty_parents sv p root tree =
     (let (absolute, names) = path_components p
      in remove_parents sv (path_components root) absolute (tl (rev names)) tree)"

fun remove_links ::
  "'q effect_services \<Rightarrow> string \<Rightarrow> string list \<Rightarrow> file_tree \<Rightarrow> (string + unit) \<times> file_tree" where
  "remove_links sv root [] tree = (Inr (), tree)"
| "remove_links sv root (target # targets) tree =
     attempt (remove_file_if_present sv target) Inl
       (\<lambda>_ tree'. remove_links sv root targets (remove_empty_parents sv target root tree')) tree"

text \<open>The first blocking section: what is to be removed is checked as a whole before anything is.\<close>

definition clean_links ::
  "'q effect_services \<Rightarrow> execution_category \<Rightarrow> artifact_payload \<Rightarrow> file_tree
    \<Rightarrow> (string + string list) \<times> file_tree" where
  "clean_links sv c artifacts tree =
     require (collect_all (source_to_clean (sv_links sv) tree c) (concat (map dl_files (art_downloads artifacts))))
       Inl (\<lambda>sources.
     require (collect_all (link_to_clean (sv_links sv) tree c) (concat (map lk_files (art_links artifacts))))
       Inl (\<lambda>links.
     attempt (remove_links sv (xcat_link_target_dir c) (map fst links)) Inl (\<lambda>_ tree'.
       (Inr (sources @ map snd links), tree')))) tree"

definition still_there :: "link_env \<Rightarrow> file_tree \<Rightarrow> string \<Rightarrow> string + unit" where
  "still_there env tree p =
     (case le_probe env p of
        Some kind \<Rightarrow> Inl kind
      | None \<Rightarrow> reject_if (tree (path_components p) \<noteq> None)
          ((utf8 [0x65E7, 0x4E0B, 0x8F7D, 0x6587, 0x4EF6, 0x5C1A, 0x672A, 0x5220, 0x9664,
            0xFF0C, 0x8BF7, 0x68C0, 0x67E5, 0x20, 0x71, 0x42, 0x20, 0x6587, 0x4EF6,
            0x5220, 0x9664, 0x7ED3, 0x679C, 0xFF1A]) @ p))"

subsection \<open>The replacement\<close>

text \<open>One old task: its server and what is there, and the download to record on the first attempt\<close>

definition inspect_download ::
  "'q effect_services \<Rightarrow> execution_effect_policy \<Rightarrow> subscription_key \<Rightarrow> subscription_payload
    \<Rightarrow> download_artifact_payload \<Rightarrow> 'q effect_world
    \<Rightarrow> (string + download_artifact_payload \<times> execution_qb_server \<times> qb_torrent_info option) \<times> 'q effect_world"
where
  "inspect_download sv policy key p d =
     require (qb_server (ep_qb_servers policy) (dl_qb_server_id d)) Inl (\<lambda>server.
     attempt (observe_download sv server key d) Inl (\<lambda>found.
     require (case found of None \<Rightarrow> Inr () | Some t \<Rightarrow> require_owned_torrent t (dl_idempotency_key d)) Inl (\<lambda>_.
     case found of
       Some t \<Rightarrow>
         (if pl_replacement_prepared p then Pair (Inr (d, server, found))
          else attempt (remote sv (sv_torrent_files sv server (ti_hash t))) Inl (\<lambda>fs w.
            (Inr (updated_download d t fs (pl_tv p) (world_now sv w), server, found), w)))
     | None \<Rightarrow> Pair (Inr (d, server, found)))))"

fun inspect_downloads ::
  "'q effect_services \<Rightarrow> execution_effect_policy \<Rightarrow> subscription_key \<Rightarrow> subscription_payload
    \<Rightarrow> download_artifact_payload list \<Rightarrow> 'q effect_world
    \<Rightarrow> (string + (download_artifact_payload \<times> execution_qb_server \<times> qb_torrent_info option) list)
        \<times> 'q effect_world"
where
  "inspect_downloads sv policy key p [] w = (Inr [], w)"
| "inspect_downloads sv policy key p (d # ds) w =
     attempt (inspect_download sv policy key p d) Inl (\<lambda>x.
     attempt (inspect_downloads sv policy key p ds) Inl (\<lambda>xs w'. (Inr (x # xs), w'))) w"

fun delete_torrents ::
  "'q effect_services \<Rightarrow> (execution_qb_server \<times> qb_torrent_info option) list \<Rightarrow> 'q effect_world
    \<Rightarrow> (string + unit) \<times> 'q effect_world"
where
  "delete_torrents sv [] w = (Inr (), w)"
| "delete_torrents sv ((server, None) # ts) w = delete_torrents sv ts w"
| "delete_torrents sv ((server, Some t) # ts) w =
     attempt (remote sv (sv_delete_torrent sv server (ti_hash t))) Inl (\<lambda>_.
     attempt (remote sv (by_hash (sv_qb sv server) (ti_hash t))) Inl (\<lambda>rows.
     require (reject_if (rows \<noteq> []) (utf8 [0x71, 0x42, 0x20, 0x6B63, 0x5728, 0x5220, 0x9664, 0x65E7, 0x4EFB, 0x52A1,
            0xFF0C, 0x7A0D, 0x540E, 0x7EE7, 0x7EED, 0x6E05, 0x7406])) Inl (\<lambda>_.
     delete_torrents sv ts))) w"

definition files_step :: "(file_tree \<Rightarrow> 'a \<times> file_tree) \<Rightarrow> 'q effect_world \<Rightarrow> 'a \<times> 'q effect_world" where
  "files_step step w = (let (r, tree) = step (ew_files w) in (r, w\<lparr>ew_files := tree\<rparr>))"

definition replace_torrent ::
  "'q effect_services \<Rightarrow> execution_effect_policy \<Rightarrow> subscription_key \<Rightarrow> subscription_payload
    \<Rightarrow> 'q effect_world \<Rightarrow> (string + execution_payload_delta) \<times> 'q effect_world" where
  "replace_torrent sv policy key p =
     require (category_for_source (src_tags (pl_source p)) (ep_categories policy)) Inl (\<lambda>c.
     attempt (inspect_downloads sv policy key p (art_downloads (pl_artifacts p))) Inl (\<lambda>inspected.
     if \<not> pl_replacement_prepared p
     then Pair (Inr (DeltaReplacementPrepared (map fst inspected)))
     else
     attempt (files_step (clean_links sv c (pl_artifacts p))) Inl (\<lambda>paths.
     attempt (delete_torrents sv (map snd inspected)) Inl (\<lambda>_ w.
     require (for_each (still_there (sv_links sv) (ew_files w))
         (concat (map (\<lambda>q. [q, q @ ''.!qB'']) paths))) Inl (\<lambda>_.
     Pair (Inr DeltaReplacementCleaned)) w))))"

definition execute_replacement ::
  "'q effect_services \<Rightarrow> execution_effect_policy \<Rightarrow> claimed_subscription \<Rightarrow> 'q effect_world
    \<Rightarrow> execution_effect_result \<times> 'q effect_world" where
  "execute_replacement sv policy claimed =
     attempt (replace_torrent sv policy (head_key (det_head (claimed_detail claimed)))
         (det_payload (claimed_detail claimed)))
       (effect_failed OpSearch ''replacement_cleanup'' (ep_system_retry_interval_secs policy))
       (\<lambda>delta. Pair (EffectFinished (SearchWaiting (schedule_delay 1)) delta))"

end
