(* ===== verification/Execution_Effects.thy ===== *)
theory Execution_Effects
  imports Replacement_Effects
begin

text \<open>
  The four effects of \<open>src/subscription/execution_effects.rs\<close>: metadata, search, progress and
  link, each with every early return, and their dispatch.
\<close>

subsection \<open>Metadata\<close>

definition cache_source_poster ::
  "'q effect_services \<Rightarrow> string \<Rightarrow> wanted_source_payload \<Rightarrow> 'q effect_world
    \<Rightarrow> (string + wanted_source_payload) \<times> 'q effect_world" where
  "cache_source_poster sv subject source =
     (let url = (if src_poster_url source = [] then src_cover_url source else src_poster_url source) in
      if url = [] then Pair (Inr source)
      else attempt (remote sv (sv_cache_poster sv subject url)) Inl (\<lambda>local_url w.
        (Inr (source\<lparr>src_poster_url := local_url, src_cover_url := local_url\<rparr>), w)))"

definition load_tv_detail ::
  "'q effect_services \<Rightarrow> string \<Rightarrow> string \<Rightarrow> u32 option \<Rightarrow> string \<Rightarrow> 'q effect_world
    \<Rightarrow> (string + tv_detail_payload) \<times> 'q effect_world" where
  "load_tv_detail sv api_key title requested localized =
     attempt (remote sv (sv_tmdb sv api_key ''/search/tv''
         [(''query'', tv_series_search_title title), (''language'', ''zh-CN'')])) Inl (\<lambda>response.
     require (first_result_id title response) Inl (\<lambda>i.
     attempt (remote sv (sv_tmdb sv api_key (''/tv/'' @ decimal (unat i)) [(''language'', ''zh-CN'')])) Inl
       (\<lambda>detail w. (tv_detail_of_seasons requested localized detail, w))))"

definition meta_ready :: "execution_payload_delta \<Rightarrow> execution_effect_result" where
  "meta_ready delta = EffectFinished MetaReady delta"

definition execute_movie_meta ::
  "'q effect_services \<Rightarrow> execution_effect_policy \<Rightarrow> claimed_subscription \<Rightarrow> 'q effect_world
    \<Rightarrow> execution_effect_result \<times> 'q effect_world" where
  "execute_movie_meta sv policy claimed =
     (let subject = subject_id (head_key (det_head (claimed_detail claimed)));
          fails = (\<lambda>error_type. effect_failed OpMeta error_type (ep_system_retry_interval_secs policy)) in
      attempt (remote sv (sv_subject_detail sv (ep_douban_cookie policy) subject)) (fails ''movie_metadata'') (\<lambda>d.
      attempt (cache_source_poster sv subject
          (movie_source_from_detail (pl_source (det_payload (claimed_detail claimed))) d)) (fails ''poster_cache'')
        (\<lambda>source. Pair (meta_ready (DeltaMovieMeta source)))))"

text \<open>The episodes Douban counts, where it counts any\<close>

definition douban_episodes :: "(string + douban_subject_detail) \<Rightarrow> (u32 \<times> string) option" where
  "douban_episodes result =
     (case result of
        Inl _ \<Rightarrow> None
      | Inr d \<Rightarrow> (case dd_episodes_count d of
          None \<Rightarrow> None
        | Some n \<Rightarrow> if 0 < n then Some (n, dd_title d) else None))"

definition from_detail :: "(string + douban_subject_detail) \<Rightarrow> (douban_subject_detail \<Rightarrow> string) \<Rightarrow> string option" where
  "from_detail result part = (case result of Inl _ \<Rightarrow> None | Inr d \<Rightarrow> non_empty (part d))"

definition some_or :: "'a option \<Rightarrow> 'a \<Rightarrow> 'a" where
  "some_or v d = (case v of None \<Rightarrow> d | Some x \<Rightarrow> x)"

text \<open>The TMDB fallback of a series\<close>

definition tmdb_meta ::
  "'q effect_services \<Rightarrow> execution_effect_policy \<Rightarrow> wanted_source_payload \<Rightarrow> (string + douban_subject_detail)
    \<Rightarrow> wanted_source_payload \<Rightarrow> 'q effect_world \<Rightarrow> execution_effect_result \<times> 'q effect_world" where
  "tmdb_meta sv policy source result enriched =
     (let fails = (\<lambda>error_type. effect_failed OpMeta error_type (ep_system_retry_interval_secs policy)) in
      if is_blank (ep_tmdb_api_key policy)
      then Pair (fails ''configuration'' ''TMDB API credential is required when Douban TV data is insufficient'')
      else
        (let lookup_title = some_or (opt_or (from_detail result dd_original_title) (src_original_title source))
               (src_title source);
             localized = some_or (from_detail result dd_title) (src_title source);
             requested = opt_or (season_number_from_title (src_title source))
               (opt_or (season_number_from_title localized) (season_number_from_title lookup_title))
         in attempt (load_tv_detail sv (str_trim (ep_tmdb_api_key policy)) lookup_title requested localized)
              (fails ''tv_metadata'') (\<lambda>tv. Pair (meta_ready (DeltaTvMeta tv (Some enriched))))))"

definition douban_tv_meta ::
  "'q effect_services \<Rightarrow> execution_effect_policy \<Rightarrow> string \<Rightarrow> wanted_source_payload \<Rightarrow> u32 \<Rightarrow> string
    \<Rightarrow> wanted_source_payload \<Rightarrow> 'q effect_world \<Rightarrow> execution_effect_result \<times> 'q effect_world" where
  "douban_tv_meta sv policy subject source n title enriched w =
     (let (seasons, w') = remote sv (sv_tv_seasons sv (ep_douban_cookie policy) subject) w
      in (meta_ready (DeltaTvMeta
            (tv_detail_from_douban n (tv_season_number_of subject (src_title source) seasons) title)
            (Some enriched)), w'))"

text \<open>\<open>execute_meta\<close> of a series, after Douban's answer\<close>

definition tv_meta_of ::
  "'q effect_services \<Rightarrow> execution_effect_policy \<Rightarrow> string \<Rightarrow> wanted_source_payload
    \<Rightarrow> (string + douban_subject_detail) \<Rightarrow> 'q effect_world \<Rightarrow> execution_effect_result \<times> 'q effect_world"
where
  "tv_meta_of sv policy subject source result =
     attempt (cache_source_poster sv subject
         (case result of Inl _ \<Rightarrow> source | Inr d \<Rightarrow> tv_source_from_detail source d))
       (effect_failed OpMeta ''poster_cache'' (ep_system_retry_interval_secs policy)) (\<lambda>enriched.
     case douban_episodes result of
       Some (n, title) \<Rightarrow> douban_tv_meta sv policy subject source n title enriched
     | None \<Rightarrow> tmdb_meta sv policy source result enriched)"

definition execute_tv_meta ::
  "'q effect_services \<Rightarrow> execution_effect_policy \<Rightarrow> claimed_subscription \<Rightarrow> 'q effect_world
    \<Rightarrow> execution_effect_result \<times> 'q effect_world" where
  "execute_tv_meta sv policy claimed w =
     (let subject = subject_id (head_key (det_head (claimed_detail claimed)));
          (result, w') = remote sv (sv_subject_detail sv (ep_douban_cookie policy) subject) w
      in tv_meta_of sv policy subject (pl_source (det_payload (claimed_detail claimed))) result w')"

definition execute_meta ::
  "'q effect_services \<Rightarrow> execution_effect_policy \<Rightarrow> claimed_subscription \<Rightarrow> 'q effect_world
    \<Rightarrow> execution_effect_result \<times> 'q effect_world" where
  "execute_meta sv policy claimed =
     (if head_media_kind (det_head (claimed_detail claimed)) = Movie
      then execute_movie_meta sv policy claimed else execute_tv_meta sv policy claimed)"

subsection \<open>Candidates\<close>

definition keyword_candidates ::
  "'q effect_services \<Rightarrow> string \<Rightarrow> string \<Rightarrow> wanted_source_payload option
    \<Rightarrow> candidate_payload list \<times> string list \<Rightarrow> 'q effect_world
    \<Rightarrow> (string + candidate_payload list) \<times> 'q effect_world" where
  "keyword_candidates sv api_key title movie found =
     (if fst found = [] \<and> \<not> is_blank title
      then attempt (remote sv (sv_mteam_search sv api_key (search_body ''keyword'' (str_trim title)))) Inl
        (\<lambda>response. Pair (Inr (sort_key seeder_order (fst (append_candidates found
           (filter (\<lambda>c. is_none_or (matches_movie_keyword (sv_unicode sv) c) movie)
             (candidates_from_response response ''keyword'' title)))))))
      else Pair (Inr (sort_key seeder_order (fst found))))"

definition should_try_imdb_fallback :: "candidate_payload list \<Rightarrow> string \<Rightarrow> bool" where
  "should_try_imdb_fallback candidates subject \<longleftrightarrow> candidates = [] \<and> \<not> is_blank subject"

definition imdb_candidates ::
  "'q effect_services \<Rightarrow> string \<Rightarrow> string \<Rightarrow> string \<Rightarrow> string \<Rightarrow> wanted_source_payload option
    \<Rightarrow> candidate_payload list \<times> string list \<Rightarrow> 'q effect_world
    \<Rightarrow> (string + candidate_payload list) \<times> 'q effect_world" where
  "imdb_candidates sv api_key cookie subject title movie found w =
     (if \<not> should_try_imdb_fallback (fst found) subject then keyword_candidates sv api_key title movie found w
      else case remote sv (sv_subject_detail sv cookie (str_trim subject)) w of
        (Inl _, w1) \<Rightarrow> keyword_candidates sv api_key title movie found w1
      | (Inr d, w1) \<Rightarrow>
          (case dd_imdb_id d of
             None \<Rightarrow> keyword_candidates sv api_key title movie found w1
           | Some imdb \<Rightarrow>
               attempt (remote sv (sv_mteam_search sv api_key
                   (search_body ''imdb'' (''https://www.imdb.com/title/'' @ imdb @ ''/'')))) Inl (\<lambda>response.
                 keyword_candidates sv api_key title movie
                   (append_candidates found (candidates_from_response response ''imdb'' imdb))) w1))"

definition search_candidates ::
  "'q effect_services \<Rightarrow> string \<Rightarrow> string \<Rightarrow> string \<Rightarrow> string \<Rightarrow> wanted_source_payload option
    \<Rightarrow> 'q effect_world \<Rightarrow> (string + candidate_payload list) \<times> 'q effect_world" where
  "search_candidates sv api_key cookie subject title movie =
     (if is_blank subject then imdb_candidates sv api_key cookie subject title movie ([], [])
      else attempt (remote sv (sv_mteam_search sv api_key
          (search_body ''douban'' (''https://movie.douban.com/subject/'' @ str_trim subject @ ''/'')))) Inl
        (\<lambda>response. imdb_candidates sv api_key cookie subject title movie
          (append_candidates ([], []) (candidates_from_response response ''douban'' subject))))"

definition search_title :: "subscription_payload \<Rightarrow> string" where
  "search_title p =
     (case Option.bind (pl_tv p) (\<lambda>tv. map_option (Pair tv) (first_uncovered_episode p tv)) of
        None \<Rightarrow> src_title (pl_source p)
      | Some (tv, episode) \<Rightarrow>
          (case src_original_title (pl_source p) of
             Some t \<Rightarrow> if is_blank t then src_title (pl_source p) else t
           | None \<Rightarrow> src_title (pl_source p))
          @ '' S'' @ u32_02 (tv_season_number tv) @ ''E'' @ u32_02 episode)"

subsection \<open>Search\<close>

definition search_waiting ::
  "execution_effect_policy \<Rightarrow> candidate_match_payload list \<Rightarrow> execution_effect_result" where
  "search_waiting policy ms =
     EffectFinished (SearchWaiting (schedule_delay (ep_search_interval_secs policy))) (DeltaSearch (Some ms) [])"

definition pushed_artifact ::
  "'q effect_services \<Rightarrow> subscription_key \<Rightarrow> execution_category \<Rightarrow> execution_qb_server
    \<Rightarrow> candidate_match_payload \<Rightarrow> download_artifact_payload option \<Rightarrow> qb_reconcile_request \<Rightarrow> u64
    \<Rightarrow> download_artifact_state \<times> string option \<times> string option \<Rightarrow> download_artifact_payload" where
  "pushed_artifact sv key c server selected existing request now outcome =
     (let torrent_id = cand_torrent_id (match_candidate selected); (state, qb_hash, qb_name) = outcome in
      \<lparr>dl_idempotency_key = stable_download_artifact_key (sv_sha sv) (account_key key) (subject_id key) torrent_id,
       dl_torrent_id = torrent_id, dl_torrent_title = cand_title (match_candidate selected),
       dl_qb_server_id = xqb_id server, dl_qb_server_name = non_empty (xqb_name server),
       dl_qb_category = xcat_qb_category c, dl_qb_save_dir_name = xcat_qb_save_dir_name c,
       dl_qb_identifier = Some (effect_key_str (request_key request)), dl_qb_hash = qb_hash, dl_qb_name = qb_name,
       dl_qb_state = None, dl_torrent_download_url = None,
       dl_mteam_torrent_url = Some (''https://kp.m-team.cc/detail/'' @ torrent_id),
       dl_state = state, dl_progress = None, dl_total_size = None, dl_files = [],
       dl_pushed_at = Some (case Option.bind existing dl_pushed_at of None \<Rightarrow> now | Some t \<Rightarrow> t),
       dl_checked_at = Some now, dl_completed_at = None\<rparr>)"

text \<open>What the adapter's answer leaves in the artifact, and its error\<close>

definition ensured_outcome ::
  "string \<Rightarrow> download_artifact_payload option \<Rightarrow> (qb_adapter_error + ensure_qb_torrent_outcome)
    \<Rightarrow> (download_artifact_state \<times> string option \<times> string option) \<times> string option" where
  "ensured_outcome torrent_hash existing r =
     (case r of
        Inr (Added _) \<Rightarrow> ((DlPushed, Some torrent_hash, None), None)
      | Inr (Reconciled t _) \<Rightarrow> ((DlPushed, Some (obs_hash t), Some (obs_name t)), None)
      | Inl e \<Rightarrow> ((DlFailed, Some torrent_hash, Option.bind existing dl_qb_name), Some (display_adapter_error e)))"

definition send_torrent ::
  "'q effect_services \<Rightarrow> execution_effect_policy \<Rightarrow> subscription_key \<Rightarrow> execution_category \<Rightarrow> execution_qb_server
    \<Rightarrow> candidate_match_payload list \<Rightarrow> candidate_match_payload \<Rightarrow> download_artifact_payload option
    \<Rightarrow> mteam_torrent \<Rightarrow> qb_reconcile_request \<Rightarrow> qb_torrent_input
    \<Rightarrow> 'q effect_world \<Rightarrow> execution_effect_result \<times> 'q effect_world" where
  "send_torrent sv policy key c server ms selected existing torrent request input w =
     (let now = world_now sv w;
          (ensured, w') = remote sv (adapter_ensure (sv_qb sv server) request
            (add_spec_new input (Some (xcat_qb_category c)) (Some (xcat_qb_save_dir_name c)))) w;
          (outcome, problem) = ensured_outcome (mt_info_hash torrent) existing ensured;
          delta = DeltaSearch (Some ms) [pushed_artifact sv key c server selected existing request now outcome]
      in (case problem of
            Some message \<Rightarrow> EffectFailed ''qb_add'' message (ep_system_retry_interval_secs policy) delta
          | None \<Rightarrow> EffectFinished SearchPushed delta, w'))"

text \<open>The second half of \<open>execute_search\<close>: the selected candidate is fetched and pushed.\<close>

definition push_selected ::
  "'q effect_services \<Rightarrow> execution_effect_policy \<Rightarrow> subscription_key \<Rightarrow> subscription_payload
    \<Rightarrow> execution_category \<Rightarrow> execution_qb_server \<Rightarrow> candidate_match_payload list \<Rightarrow> candidate_match_payload
    \<Rightarrow> 'q effect_world \<Rightarrow> execution_effect_result \<times> 'q effect_world" where
  "push_selected sv policy key p c server ms selected =
     (let torrent_id = cand_torrent_id (match_candidate selected);
          fails = (\<lambda>error_type. failed_search_with_candidates ms [] error_type (ep_system_retry_interval_secs policy));
          existing = find (\<lambda>d. dl_idempotency_key d =
            stable_download_artifact_key (sv_sha sv) (account_key key) (subject_id key) torrent_id)
            (art_downloads (pl_artifacts p)) in
      if \<not> download_authorized selected
      then Pair (failed_search_with_candidates ms [] ''candidate_confirmation'' (ep_search_interval_secs policy)
        (utf8 [0x79CD, 0x5B50, 0x5C1A, 0x672A, 0x83B7, 0x5F97, 0x4E0B, 0x8F7D, 0x786E,
            0x8BA4]))
      else
      attempt (remote sv (sv_fetch_torrent sv (str_trim (ep_mteam_api_key policy)) torrent_id))
        (fails ''mteam_download'') (\<lambda>torrent.
      require (qb_reconcile_request_try_new (sv_sha sv) (account_key key) (subject_id key) torrent_id
          (Option.bind existing dl_qb_hash) (Some (mt_info_hash torrent)))
        (fails ''qb_identity'' \<circ> display_identity_error) (\<lambda>request.
      require (input_from_bytes (torrent_id @ ''.torrent'') (mt_bytes torrent))
        (fails ''mteam_download'' \<circ> display_add_input_error) (\<lambda>input.
      send_torrent sv policy key c server ms selected existing torrent request input))))"

text \<open>The choice: a series takes the best candidate of its next episode.\<close>

definition choose_candidate ::
  "'q effect_services \<Rightarrow> execution_effect_policy \<Rightarrow> subscription_key \<Rightarrow> subscription_payload \<Rightarrow> bool
    \<Rightarrow> execution_category \<Rightarrow> execution_qb_server
    \<Rightarrow> candidate_match_payload list \<times> candidate_match_payload option
    \<Rightarrow> 'q effect_world \<Rightarrow> execution_effect_result \<times> 'q effect_world" where
  "choose_candidate sv policy key p is_tv c server found =
     (let push = (\<lambda>(ms, selected).
            case selected of
              None \<Rightarrow> Pair (search_waiting policy ms)
            | Some m \<Rightarrow> push_selected sv policy key p c server ms m) in
      if \<not> is_tv then push found
      else case pl_tv p of
        None \<Rightarrow> Pair (effect_failed OpSearch ''tv_metadata'' (ep_system_retry_interval_secs policy)
          ''TV episode metadata is missing'')
      | Some tv \<Rightarrow>
          (case first_uncovered_episode p tv of
             None \<Rightarrow> Pair (search_waiting policy (fst found))
           | Some cursor \<Rightarrow> push (select_tv_candidate (tv_season_number tv) cursor (ep_match_rules policy)
               (art_downloads (pl_artifacts p)) (fst found))))"

definition execute_search ::
  "'q effect_services \<Rightarrow> execution_effect_policy \<Rightarrow> claimed_subscription \<Rightarrow> 'q effect_world
    \<Rightarrow> execution_effect_result \<times> 'q effect_world" where
  "execute_search sv policy claimed =
     (let detail = claimed_detail claimed; p = det_payload detail; key = head_key (det_head detail);
          is_tv = (head_media_kind (det_head detail) = Tv);
          misconfigured = effect_failed OpSearch ''configuration'' (ep_search_interval_secs policy) in
      if pl_replacement_pending p then execute_replacement sv policy claimed
      else
      require (category_for_source (src_tags (pl_source p)) (ep_categories policy)) misconfigured (\<lambda>c.
      require (qb_server (ep_qb_servers policy) (xcat_qb_server_id c)) misconfigured (\<lambda>server.
      if is_blank (ep_mteam_api_key policy)
      then Pair (misconfigured ''M-Team API key is not configured'')
      else case opt_or (confirmed_selection p) (retry_selection p) of
        Some (ms, selected) \<Rightarrow> choose_candidate sv policy key p is_tv c server (ms, Some selected)
      | None \<Rightarrow>
          attempt (search_candidates sv (str_trim (ep_mteam_api_key policy)) (ep_douban_cookie policy)
              (subject_id key) (search_title p) (if is_tv then None else Some (pl_source p)))
            (effect_failed OpSearch ''mteam_search'' (ep_system_retry_interval_secs policy)) (\<lambda>candidates.
          choose_candidate sv policy key p is_tv c server
            (authorized_selection (match_candidates (sv_unicode sv) candidates (ep_match_rules policy)))))))"

subsection \<open>Progress\<close>

definition missing_download :: string where
  "missing_download = ''subscription has no current download artifact''"

definition missing_task :: string where
  "missing_task = ''qB task is missing for the stable subscription effect''"

definition execute_progress ::
  "'q effect_services \<Rightarrow> execution_effect_policy \<Rightarrow> claimed_subscription \<Rightarrow> 'q effect_world
    \<Rightarrow> execution_effect_result \<times> 'q effect_world" where
  "execute_progress sv policy claimed =
     (let p = det_payload (claimed_detail claimed); key = head_key (det_head (claimed_detail claimed));
          retry = ep_system_retry_interval_secs policy;
          fails = (\<lambda>error_type. effect_failed OpProgress error_type retry) in
      require (ok_or missing_download (current_download p)) (fails ''missing_download_artifact'') (\<lambda>existing.
      require (qb_server (ep_qb_servers policy) (dl_qb_server_id existing)) (fails ''configuration'') (\<lambda>server.
      attempt (observe_download sv server key existing) (fails ''qb_inspect'') (\<lambda>found.
      case found of
        None \<Rightarrow> (\<lambda>w. (EffectFailed ''qb_missing'' missing_task retry
          (DeltaProgress [existing\<lparr>dl_state := DlMissing, dl_checked_at := Some (world_now sv w)\<rparr>]), w))
      | Some t \<Rightarrow>
          attempt (remote sv (sv_torrent_files sv server (ti_hash t))) (fails ''qb_files'') (\<lambda>fs w.
          (EffectFinished
             (if torrent_is_complete t then ProgressDownloaded
              else ProgressPending (schedule_delay (ep_progress_interval_secs policy)))
             (DeltaProgress [updated_download existing t fs (pl_tv p) (world_now sv w)]), w))))))"

subsection \<open>Link\<close>

definition maps_target_episode :: "tv_detail_payload \<Rightarrow> download_file_payload list \<Rightarrow> bool" where
  "maps_target_episode tv fs \<longleftrightarrow>
     list_ex (\<lambda>f. dlf_season_number f = Some (tv_season_number tv) \<and>
       (case dlf_episode_number f of
          None \<Rightarrow> False
        | Some start \<Rightarrow> start \<le> tv_target_end_episode tv \<and>
            tv_target_start_episode tv \<le> some_or (dlf_episode_end_number f) start)) fs"

definition linked_file ::
  "tv_detail_payload option \<Rightarrow> link_plan \<Rightarrow> hardlink_file_result \<Rightarrow> link_file_payload" where
  "linked_file tv plan result =
     (let (season, episode, end_ep, episode_label) = file_episode_marker (plan_source_path plan) tv in
      \<lparr>lkf_source_path = plan_source_path plan, lkf_target_path = plan_target_path plan,
       lkf_size = plan_size plan, lkf_outcome = hl_outcome result,
       lkf_season_number = season, lkf_episode_number = episode, lkf_episode_end_number = end_ep,
       lkf_episode_label = episode_label, lkf_error = hardlink_error (hl_status result)\<rparr>)"

definition all_linked :: "link_file_payload list \<Rightarrow> bool" where
  "all_linked fs \<longleftrightarrow> list_all (\<lambda>f. lkf_outcome f = LinkLinked) fs"

definition link_artifact ::
  "'q effect_services \<Rightarrow> subscription_key \<Rightarrow> execution_category \<Rightarrow> download_artifact_payload \<Rightarrow> link_plan list
    \<Rightarrow> link_file_payload list \<Rightarrow> u64 \<Rightarrow> link_artifact_payload" where
  "link_artifact sv key c download plans fs now =
     \<lparr>lk_idempotency_key = stable_resolved_link_artifact_key (sv_sha sv) (account_key key) (subject_id key)
        (dl_idempotency_key download),
      lk_download = \<lparr>ref_artifact_id = dl_idempotency_key download\<rparr>,
      lk_state = (if all_linked fs then StCompleted
        else if list_ex (\<lambda>f. lkf_outcome f = LinkLinked) fs then StPartial else StFailed),
      lk_source_path = Some (xcat_download_dir c),
      lk_target_dir = (case plans of [] \<Rightarrow> None | plan # _ \<Rightarrow> Some (path_parent (plan_target_path plan))),
      lk_checked_at = now, lk_completed_at = (if all_linked fs then Some now else None), lk_files = fs\<rparr>"

fun display_link_plan_error :: "link_plan_error \<Rightarrow> string" where
  "display_link_plan_error EmptySourcePath = ''hardlink source path must not be empty''"
| "display_link_plan_error EmptyTargetPath = ''hardlink target path must not be empty''"
| "display_link_plan_error SourceEqualsTarget = ''hardlink source and target paths must differ''"
| "display_link_plan_error (ObservationCountMismatch files probes) =
     ''hardlink retry requires one filesystem probe per file ('' @ decimal files @ '' files, ''
       @ decimal probes @ '' probes)''"
| "display_link_plan_error (DuplicateTarget target) =
     ''hardlink artifact contains duplicate deterministic target '' @ target"

text \<open>\<open>HardlinkEffectAdapter::apply\<close> through the blocking executor\<close>

definition apply_links ::
  "'q effect_services \<Rightarrow> link_file_effect list \<Rightarrow> 'q effect_world
    \<Rightarrow> (string + hardlink_file_result list) \<times> 'q effect_world" where
  "apply_links sv effects w =
     (case sv_blocking sv (ew_remote w) of
        Some message \<Rightarrow> (Inl (''hardlink blocking task failed: '' @ message), w)
      | None \<Rightarrow>
          files_step (\<lambda>tree.
            let (r, tree') = apply_hardlinks (sv_links sv) effects tree
            in (map_err (\<lambda>e. ''hardlink retry plan is invalid: '' @ display_link_plan_error e) r, tree')) w)"

definition link_disposition ::
  "execution_effect_policy \<Rightarrow> subscription_detail \<Rightarrow> link_file_payload list \<Rightarrow> finish_execution_disposition" where
  "link_disposition policy detail fs =
     (if all_linked fs then
        (if head_media_kind (det_head detail) = Tv \<and>
            (case pl_tv (det_payload detail) of
               None \<Rightarrow> False
             | Some tv \<Rightarrow> \<not> tv_complete_after_link (det_payload detail) tv fs)
         then LinkMoreRequired else LinkCompleted)
      else LinkPlanned (schedule_delay (ep_link_retry_interval_secs policy)))"

text \<open>A title recorded before titles were localized is read again before the links are planned.\<close>

definition refresh_title ::
  "'q effect_services \<Rightarrow> execution_effect_policy \<Rightarrow> string \<Rightarrow> subscription_payload \<Rightarrow> 'q effect_world
    \<Rightarrow> (string + subscription_payload) \<times> 'q effect_world" where
  "refresh_title sv policy subject p =
     (case pl_tv p of
        None \<Rightarrow> Pair (Inr p)
      | Some tv \<Rightarrow>
          if \<not> is_blank (tv_localized_title tv) then Pair (Inr p)
          else attempt (remote sv (sv_subject_detail sv (ep_douban_cookie policy) subject)) Inl (\<lambda>d w.
            (and_then (reject_if (is_blank (dd_title d)) ''Douban rexxar TV detail has no localized title'') (\<lambda>_.
               Inr (p\<lparr>pl_tv := Some (tv\<lparr>tv_localized_title := str_trim (dd_title d)\<rparr>)\<rparr>)), w)))"

text \<open>The end of \<open>execute_link\<close>, for a torrent that is complete and maps a target\<close>

definition link_download ::
  "'q effect_services \<Rightarrow> execution_effect_policy \<Rightarrow> subscription_detail \<Rightarrow> execution_category
    \<Rightarrow> download_artifact_payload \<Rightarrow> download_artifact_payload \<Rightarrow> qb_torrent_file list \<Rightarrow> u64
    \<Rightarrow> 'q effect_world \<Rightarrow> execution_effect_result \<times> 'q effect_world" where
  "link_download sv policy detail c existing updated fs now =
     (let p = det_payload detail; key = head_key (det_head detail);
          fails = (\<lambda>error_type retry message.
            EffectFailed error_type message (retry policy) (DeltaLink [updated] [])) in
      attempt (refresh_title sv policy (subject_id key) p) (fails ''tv_metadata'' ep_system_retry_interval_secs) (\<lambda>q.
      require (link_plans q c existing fs) (fails ''link_plan'' ep_link_retry_interval_secs) (\<lambda>plans.
      require (map_err display_link_plan_error (collect_all (\<lambda>plan.
          link_file_effect_try_new (plan_source_path plan) (plan_target_path plan) (plan_persisted_outcome plan)) plans))
        (fails ''link_plan'' ep_link_retry_interval_secs) (\<lambda>effects.
      attempt (apply_links sv effects) (fails ''hardlink_executor'' ep_link_retry_interval_secs) (\<lambda>results.
      let linked = map2 (linked_file (pl_tv p)) plans results in
      Pair (EffectFinished (link_disposition policy detail linked)
        (DeltaLink [updated] [link_artifact sv key c existing plans linked now])))))))"

definition execute_link ::
  "'q effect_services \<Rightarrow> execution_effect_policy \<Rightarrow> claimed_subscription \<Rightarrow> 'q effect_world
    \<Rightarrow> execution_effect_result \<times> 'q effect_world" where
  "execute_link sv policy claimed =
     (let detail = claimed_detail claimed; p = det_payload detail; key = head_key (det_head detail);
          fails = (\<lambda>error_type. effect_failed OpLink error_type (ep_system_retry_interval_secs policy)) in
      require (ok_or missing_download (current_download p)) (fails ''missing_download_artifact'') (\<lambda>existing.
      require (category_for_source (src_tags (pl_source p)) (ep_categories policy)) (fails ''configuration'') (\<lambda>c.
      require (qb_server (ep_qb_servers policy) (dl_qb_server_id existing)) (fails ''configuration'') (\<lambda>server.
      attempt (observe_download sv server key existing) (fails ''qb_inspect'') (\<lambda>found.
      require (ok_or missing_task found) (fails ''qb_missing'') (\<lambda>t.
      attempt (remote sv (sv_torrent_files sv server (ti_hash t))) (fails ''qb_files'') (\<lambda>fs w.
      let now = world_now sv w; updated = updated_download existing t fs (pl_tv p) now in
      if \<not> torrent_is_complete t
      then (EffectFinished (LinkPendingDownload (schedule_delay (ep_progress_interval_secs policy)))
              (DeltaLink [updated] []), w)
      else if (case pl_tv p of None \<Rightarrow> False | Some tv \<Rightarrow> \<not> maps_target_episode tv (dl_files updated))
      then (EffectFinished LinkMoreRequired (DeltaLink [updated\<lparr>dl_state := DlIgnored\<rparr>] []), w)
      else link_download sv policy detail c existing updated fs now w)))))))"

subsection \<open>Dispatch\<close>

text \<open>\<open>LatestSubscriptionExecutionEffects::execute_claimed\<close>\<close>

definition execute_effects ::
  "'q effect_services \<Rightarrow> execution_effect_policy \<Rightarrow> claimed_subscription \<Rightarrow> 'q effect_world
    \<Rightarrow> execution_effect_result \<times> 'q effect_world" where
  "execute_effects sv policy claimed =
     (case token_operation (current_token (claimed_attempt claimed)) of
        OpMeta \<Rightarrow> execute_meta sv policy claimed
      | OpSearch \<Rightarrow> execute_search sv policy claimed
      | OpProgress \<Rightarrow> execute_progress sv policy claimed
      | OpLink \<Rightarrow> execute_link sv policy claimed)"

end
