(* ===== verification/Effect_Theorems.thy ===== *)
theory Effect_Theorems
  imports Execution_Effects Example_Data
begin

text \<open>
  Concrete services on which the properties of the effects are instantiated: M-Team answers every
  search with one torrent, qBittorrent lists nothing and records the commands it receives.
\<close>

definition sample_unicode :: unicode where
  "sample_unicode = \<lparr>uc_lower = (\<lambda>c. [c]), uc_alphanumeric = (\<lambda>_. True), uc_lowercase = (\<lambda>s. s)\<rparr>"

definition sample_links :: link_env where
  "sample_links = \<lparr>le_probe = (\<lambda>_. None), le_source = (\<lambda>_. None), le_directory = (\<lambda>_. None),
     le_not_directory = ''NotADirectory'', le_link = (\<lambda>_. None), le_verify = (\<lambda>_. None),
     le_meanwhile = (\<lambda>_ tree. tree)\<rparr>"

definition sample_torrent_hash :: string where
  "sample_torrent_hash = ''0123456789abcdef0123456789abcdef01234567''"

definition offline :: "'q \<Rightarrow> (string + 'a) \<times> 'q" where
  "offline q = (Inl ''offline'', q)"

definition sample_services :: "qb_add_command list effect_services" where
  "sample_services =
     \<lparr>sv_subject_detail = (\<lambda>_ _. offline), sv_tv_seasons = (\<lambda>_ _. offline), sv_tmdb = (\<lambda>_ _ _. offline),
      sv_mteam_search = (\<lambda>_ _ q. (Inr (VArray [VObject [(''id'', VString ''42''), (''name'', VString ''Film 2026'')]]), q)),
      sv_fetch_torrent = (\<lambda>_ _ q. (Inr \<lparr>mt_info_hash = sample_torrent_hash, mt_bytes = ''d4:infode''\<rparr>, q)),
      sv_cache_poster = (\<lambda>_ _. offline),
      sv_qb = (\<lambda>_. \<lparr>by_exact_tag = (\<lambda>_ q. (Inr [], q)), by_hash = (\<lambda>_ q. (Inr [], q)),
        add_torrent = (\<lambda>c q. (Inr (), q @ [c]))\<rparr>),
      sv_torrent_files = (\<lambda>_ _ q. (Inr [], q)), sv_delete_torrent = (\<lambda>_ _. offline),
      sv_now = (\<lambda>_. 1000), sv_blocking = (\<lambda>_. None), sv_sha = (\<lambda>_. ''d''), sv_unicode = sample_unicode,
      sv_links = sample_links, sv_remove_file = (\<lambda>_. None), sv_remove_dir = (\<lambda>_ _. True), sv_others = (\<lambda>_ tree. tree)\<rparr>"

definition sample_server :: execution_qb_server where
  "sample_server = \<lparr>xqb_id = ''qb'', xqb_name = ''qb'', xqb_base_url = ''http://qb'', xqb_username = ''u'',
     xqb_password = ''p'', xqb_insecure_tls = False\<rparr>"

definition sample_category :: execution_category where
  "sample_category = \<lparr>xcat_name = ''films'', xcat_wanted_tag = ''film'', xcat_qb_server_id = ''qb'',
     xcat_qb_category = ''films'', xcat_qb_save_dir_name = ''films'', xcat_download_dir = ''/data/films'',
     xcat_link_target_dir = ''/media/films''\<rparr>"

definition sample_policy :: execution_effect_policy where
  "sample_policy = \<lparr>ep_douban_cookie = [], ep_tmdb_api_key = [], ep_mteam_api_key = ''key'',
     ep_qb_servers = [sample_server], ep_categories = [sample_category], ep_match_rules = [],
     ep_search_interval_secs = 60, ep_progress_interval_secs = 60, ep_link_retry_interval_secs = 60,
     ep_system_retry_interval_secs = 60\<rparr>"

definition tagged_payload :: subscription_payload where
  "tagged_payload = sample_payload\<lparr>pl_source := sample_source\<lparr>src_tags := [''film'']\<rparr>\<rparr>"

definition searching_claim :: claimed_subscription where
  "searching_claim =
     \<lparr>claimed_detail = (sample_detail (sample_head\<lparr>head_execution_state := Running\<rparr>))\<lparr>det_payload := tagged_payload\<rparr>,
      claimed_attempt = \<lparr>current_token = sample_token, current_lease_until = 2000\<rparr>, claimed_replaced = None\<rparr>"

definition empty_world :: "qb_add_command list effect_world" where
  "empty_world = \<lparr>ew_remote = [], ew_files = (\<lambda>_. None)\<rparr>"

definition pushed_command :: qb_add_command where
  "pushed_command = \<lparr>cmd_input = InputBytes ''42.torrent'' ''d4:infode'', cmd_category = Some ''films'',
     cmd_save_path = Some ''films'',
     cmd_stable_tag = stable_qb_idempotency_key (\<lambda>_. ''d'') ''acc'' ''s1'' ''42''\<rparr>"

section \<open>Properties of the effects\<close>

text \<open>
  What every run of the effects guarantees, whatever the services answer: the result belongs
  to the claimed operation, and what is pushed or deleted was authorized.
\<close>

subsection \<open>Results of a run\<close>

definition yields :: "('r \<Rightarrow> bool) \<Rightarrow> ('w \<Rightarrow> 'r \<times> 'w) \<Rightarrow> bool" where
  "yields Q m \<longleftrightarrow> (\<forall>w. Q (fst (m w)))"

named_theorems yields_rules

lemma yields_attempt [yields_rules]:
  "(\<And>e. Q (fail e)) \<Longrightarrow> (\<And>x. yields Q (k x)) \<Longrightarrow> yields Q (attempt m fail k)"
  by (auto simp: yields_def attempt_def split: sum.splits prod.splits)

lemma yields_require [yields_rules]:
  "(\<And>e. Q (fail e)) \<Longrightarrow> (\<And>x. yields Q (k x)) \<Longrightarrow> yields Q (require m fail k)"
  by (auto simp: yields_def require_def split: sum.splits)

lemma yields_Pair [yields_rules]: "Q r \<Longrightarrow> yields Q (Pair r)"
  by (simp add: yields_def)

lemma yields_result [yields_rules]: "(\<And>w. Q (r w)) \<Longrightarrow> yields Q (\<lambda>w. (r w, f w))"
  by (simp add: yields_def)

text \<open>The operation of a result\<close>

fun result_operation :: "execution_effect_result \<Rightarrow> execution_operation \<Rightarrow> bool" where
  "result_operation (EffectFinished disposition delta) operation \<longleftrightarrow>
     disposition_operation disposition = operation \<and> delta_operation delta = operation"
| "result_operation (EffectFailed _ _ _ delta) operation \<longleftrightarrow> delta_operation delta = operation"

abbreviation of_operation :: "execution_operation \<Rightarrow> execution_effect_result \<Rightarrow> bool" where
  "of_operation operation r \<equiv> result_operation r operation"

lemma delta_empty [simp]: "delta_operation (empty_delta operation) = operation"
  by (cases operation) simp_all

lemma failed_operation [simp]: "result_operation (effect_failed operation e s m) operation"
  by (simp add: effect_failed_def)

lemma failed_search_operation [simp]: "result_operation (failed_search_with_candidates ms ds e s m) OpSearch"
  by (simp add: failed_search_with_candidates_def)

lemma meta_ready_operation [simp]: "result_operation (meta_ready d) OpMeta \<longleftrightarrow> delta_operation d = OpMeta"
  by (simp add: meta_ready_def)

lemma yields_movie_meta: "yields (of_operation OpMeta) (execute_movie_meta sv policy claimed)"
  unfolding execute_movie_meta_def Let_def by (intro yields_rules) simp_all

lemma yields_tmdb_meta: "yields (of_operation OpMeta) (tmdb_meta sv policy source result enriched)"
  unfolding tmdb_meta_def Let_def by (auto intro!: yields_rules)

lemma yields_tv_meta: "yields (of_operation OpMeta) (execute_tv_meta sv policy claimed)"
proof -
  have "yields (of_operation OpMeta) (douban_tv_meta sv policy subject source n title enriched)"
    for subject source n title enriched
    by (simp add: yields_def douban_tv_meta_def case_prod_beta)
  then have "yields (of_operation OpMeta) (tv_meta_of sv policy subject source result)" for subject source result
    unfolding tv_meta_of_def by (intro yields_rules) (auto simp: yields_tmdb_meta split: option.splits)
  then show ?thesis by (simp add: yields_def execute_tv_meta_def case_prod_beta Let_def)
qed

lemma yields_meta: "yields (of_operation OpMeta) (execute_meta sv policy claimed)"
  by (simp add: execute_meta_def yields_movie_meta yields_tv_meta)

lemma yields_send: "yields (of_operation OpSearch) (send_torrent sv policy key c server ms m existing torrent request input)"
  by (auto simp: yields_def send_torrent_def Let_def case_prod_beta split: option.splits)

lemma yields_push: "yields (of_operation OpSearch) (push_selected sv policy key p c server ms m)"
  unfolding push_selected_def Let_def by (auto intro!: yields_rules yields_send)

lemma yields_choose: "yields (of_operation OpSearch) (choose_candidate sv policy key p is_tv c server found)"
  unfolding choose_candidate_def Let_def
  by (auto intro!: yields_rules simp: yields_push search_waiting_def split: option.splits prod.splits)

text \<open>The deltas of a replacement\<close>

lemma replace_operation:
  "yields (\<lambda>r. \<forall>delta. r = Inr delta \<longrightarrow> delta_operation delta = OpSearch) (replace_torrent sv policy key p)"
  unfolding replace_torrent_def
  by (auto intro!: yields_rules) (auto simp: yields_def require_def split: sum.splits)

lemma yields_replacement: "yields (of_operation OpSearch) (execute_replacement sv policy claimed)"
proof -
  have "delta_operation delta = OpSearch" if "replace_torrent sv policy key p w = (Inr delta, w')" for key p w delta w'
    using replace_operation [of sv policy key p] that by (auto simp: yields_def dest: spec [of _ w])
  then show ?thesis
    by (auto simp: execute_replacement_def yields_def attempt_def split: sum.splits prod.splits)
qed

lemma yields_search: "yields (of_operation OpSearch) (execute_search sv policy claimed)"
  unfolding execute_search_def Let_def
  by (auto intro!: yields_rules simp: yields_replacement yields_choose split: option.splits prod.splits)

lemma yields_progress: "yields (of_operation OpProgress) (execute_progress sv policy claimed)"
  unfolding execute_progress_def Let_def
  by (auto intro!: yields_rules split: option.splits)

lemma yields_link_download: "yields (of_operation OpLink) (link_download sv policy detail c existing updated fs now)"
  unfolding link_download_def Let_def
  by (auto intro!: yields_rules simp: link_disposition_def)

lemma yields_link: "yields (of_operation OpLink) (execute_link sv policy claimed)"
  unfolding execute_link_def Let_def
  by (intro yields_rules) (auto simp: yields_def yields_link_download [unfolded yields_def, rule_format])

text \<open>C35. Whatever the services answer, the effects of an attempt end in a result of the attempt's own
  operation: its disposition and its payload delta are the ones the attempt's token may
  finish or fail with.\<close>

theorem effects_match_operation:
  "result_operation (fst (execute_effects sv policy claimed w))
     (token_operation (current_token (claimed_attempt claimed)))"
  using yields_meta [of sv policy claimed] yields_search [of sv policy claimed]
    yields_progress [of sv policy claimed] yields_link [of sv policy claimed]
  by (simp add: execute_effects_def yields_def split: execution_operation.splits)

end
