(* ===== verification/Watched_Services.thy ===== *)
theory Watched_Services
  imports Effect_Theorems
begin

text \<open>
  Services that are watched: every answer that a change may rest on, and every change, is noted in the
  order of the calls. The notes change nothing: a run on watched services is the run on the services.
\<close>

subsection \<open>Watched services\<close>

datatype service_event =
    SubjectRead string douban_subject_detail
  | SearchAnswered json_value json_value
  | TorrentFetched string mteam_torrent
  | TasksListed execution_qb_server "qb_torrent_info list"
  | TorrentPushed execution_qb_server qb_add_command
  | TaskDeleted execution_qb_server string

fun quiet :: "service_event \<Rightarrow> bool" where
  "quiet (TorrentPushed _ _) = False"
| "quiet (TaskDeleted _ _) = False"
| "quiet _ = True"

definition noting ::
  "('r \<Rightarrow> service_event list) \<Rightarrow> ('q \<Rightarrow> 'r \<times> 'q) \<Rightarrow> 'q \<times> service_event list \<Rightarrow> 'r \<times> ('q \<times> service_event list)"
where
  "noting note call s = (let (r, q) = call (fst s) in (r, (q, snd s @ note r)))"

definition answers :: "('a \<Rightarrow> service_event) \<Rightarrow> string + 'a \<Rightarrow> service_event list" where
  "answers event r = (case r of Inl _ \<Rightarrow> [] | Inr x \<Rightarrow> [event x])"

text \<open>A change is noted whatever its answer is.\<close>

definition watched_qb :: "execution_qb_server \<Rightarrow> 'q qb_transport \<Rightarrow> ('q \<times> service_event list) qb_transport" where
  "watched_qb server tr =
     \<lparr>by_exact_tag = (\<lambda>tag. noting (answers (TasksListed server)) (by_exact_tag tr tag)),
      by_hash = (\<lambda>h. noting (answers (TasksListed server)) (by_hash tr h)),
      add_torrent = (\<lambda>command. noting (\<lambda>_. [TorrentPushed server command]) (add_torrent tr command))\<rparr>"

definition watched :: "'q effect_services \<Rightarrow> ('q \<times> service_event list) effect_services" where
  "watched sv =
     \<lparr>sv_subject_detail = (\<lambda>cookie subject. noting (answers (SubjectRead subject)) (sv_subject_detail sv cookie subject)),
      sv_tv_seasons = (\<lambda>cookie subject. noting (\<lambda>_. []) (sv_tv_seasons sv cookie subject)),
      sv_tmdb = (\<lambda>k path query. noting (\<lambda>_. []) (sv_tmdb sv k path query)),
      sv_mteam_search = (\<lambda>k body. noting (answers (SearchAnswered body)) (sv_mteam_search sv k body)),
      sv_fetch_torrent = (\<lambda>k torrent. noting (answers (TorrentFetched torrent)) (sv_fetch_torrent sv k torrent)),
      sv_cache_poster = (\<lambda>subject url. noting (\<lambda>_. []) (sv_cache_poster sv subject url)),
      sv_qb = (\<lambda>server. watched_qb server (sv_qb sv server)),
      sv_torrent_files = (\<lambda>server h. noting (\<lambda>_. []) (sv_torrent_files sv server h)),
      sv_delete_torrent = (\<lambda>server h. noting (\<lambda>_. [TaskDeleted server h]) (sv_delete_torrent sv server h)),
      sv_now = (\<lambda>s. sv_now sv (fst s)), sv_blocking = (\<lambda>s. sv_blocking sv (fst s)),
      sv_sha = sv_sha sv, sv_unicode = sv_unicode sv, sv_links = sv_links sv,
      sv_remove_file = sv_remove_file sv, sv_remove_dir = sv_remove_dir sv,
      sv_others = (\<lambda>s. sv_others sv (fst s))\<rparr>"

lemma watched_calls:
  "sv_subject_detail (watched sv) cookie s = noting (answers (SubjectRead s)) (sv_subject_detail sv cookie s)"
  "sv_tv_seasons (watched sv) cookie s = noting (\<lambda>_. []) (sv_tv_seasons sv cookie s)"
  "sv_tmdb (watched sv) k path query = noting (\<lambda>_. []) (sv_tmdb sv k path query)"
  "sv_mteam_search (watched sv) k body = noting (answers (SearchAnswered body)) (sv_mteam_search sv k body)"
  "sv_fetch_torrent (watched sv) k t = noting (answers (TorrentFetched t)) (sv_fetch_torrent sv k t)"
  "sv_cache_poster (watched sv) s url = noting (\<lambda>_. []) (sv_cache_poster sv s url)"
  "sv_torrent_files (watched sv) server h = noting (\<lambda>_. []) (sv_torrent_files sv server h)"
  "by_exact_tag (sv_qb (watched sv) server) tag =
     noting (answers (TasksListed server)) (by_exact_tag (sv_qb sv server) tag)"
  "by_hash (sv_qb (watched sv) server) h = noting (answers (TasksListed server)) (by_hash (sv_qb sv server) h)"
  "add_torrent (sv_qb (watched sv) server) command =
     noting (\<lambda>_. [TorrentPushed server command]) (add_torrent (sv_qb sv server) command)"
  "sv_delete_torrent (watched sv) server h = noting (\<lambda>_. [TaskDeleted server h]) (sv_delete_torrent sv server h)"
  by (simp_all add: watched_def watched_qb_def)

lemma watched_fields [simp]:
  "sv_sha (watched sv) = sv_sha sv" "sv_unicode (watched sv) = sv_unicode sv" "sv_links (watched sv) = sv_links sv"
  by (simp_all add: watched_def)

lemma watched_state [simp]:
  "sv_now (watched sv) s = sv_now sv (fst s)" "sv_blocking (watched sv) s = sv_blocking sv (fst s)"
  "sv_others (watched sv) s = sv_others sv (fst s)"
  "sv_remove_file (watched sv) = sv_remove_file sv" "sv_remove_dir (watched sv) = sv_remove_dir sv"
  by (simp_all add: watched_def)

subsection \<open>The notes change nothing\<close>

definition forget_world :: "('q \<times> service_event list) effect_world \<Rightarrow> 'q effect_world" where
  "forget_world w = \<lparr>ew_remote = fst (ew_remote w), ew_files = ew_files w\<rparr>"

definition forget :: "'r \<times> ('q \<times> service_event list) effect_world \<Rightarrow> 'r \<times> 'q effect_world" where
  "forget result = (fst result, forget_world (snd result))"

definition same_run ::
  "(('q \<times> service_event list) effect_world \<Rightarrow> 'r \<times> ('q \<times> service_event list) effect_world)
    \<Rightarrow> ('q effect_world \<Rightarrow> 'r \<times> 'q effect_world) \<Rightarrow> bool" where
  "same_run m n \<longleftrightarrow> (\<forall>w. forget (m w) = n (forget_world w))"

named_theorems same_rules

lemma same_attempt [same_rules]:
  assumes "same_run m n" and "\<And>x. same_run (k x) (l x)"
  shows "same_run (attempt m fail k) (attempt n fail l)"
  unfolding same_run_def
proof
  fix w
  obtain r w' where m: "m w = (r, w')" by fastforce
  with assms(1) have n: "n (forget_world w) = (r, forget_world w')"
    unfolding same_run_def forget_def by (metis fst_conv snd_conv)
  show "forget (attempt m fail k w) = attempt n fail l (forget_world w)"
    using assms(2) by (cases r) (simp_all add: attempt_def m n same_run_def forget_def [of "(fail _, w')"])
qed

lemma same_bind [same_rules]:
  assumes "same_run m n" and "\<And>r. same_run (k r) (l r)"
  shows "same_run (\<lambda>w. case m w of (r, w') \<Rightarrow> k r w') (\<lambda>w. case n w of (r, w') \<Rightarrow> l r w')"
  unfolding same_run_def
proof
  fix w
  obtain r w' where m: "m w = (r, w')" by fastforce
  with assms(1) have n: "n (forget_world w) = (r, forget_world w')"
    unfolding same_run_def forget_def by (metis fst_conv snd_conv)
  show "forget (case m w of (r, w') \<Rightarrow> k r w') = (case n (forget_world w) of (r, w') \<Rightarrow> l r w')"
    using assms(2) by (simp add: m n same_run_def)
qed

lemma same_require [same_rules]:
  "(\<And>x. same_run (k x) (l x)) \<Longrightarrow> same_run (require r fail k) (require r fail l)"
  by (auto simp: same_run_def require_def forget_def split: sum.splits)

lemma same_Pair [same_rules, simp]: "same_run (Pair r) (Pair r)"
  by (simp add: same_run_def forget_def)

lemma same_result: "(\<And>w. r w = r' (forget_world w)) \<Longrightarrow> same_run (\<lambda>w. (r w, w)) (\<lambda>w. (r' w, w))"
  by (simp add: same_run_def forget_def)

lemma same_if [same_rules]: "same_run m n \<Longrightarrow> same_run m' n' \<Longrightarrow> same_run (if b then m else m') (if b then n else n')"
  by simp

lemma same_option [same_rules]:
  "same_run m n \<Longrightarrow> (\<And>x. same_run (k x) (l x)) \<Longrightarrow>
     same_run (case v of None \<Rightarrow> m | Some x \<Rightarrow> k x) (case v of None \<Rightarrow> n | Some x \<Rightarrow> l x)"
  by (cases v) simp_all

lemma same_files [same_rules]: "same_run (files_step step) (files_step step)"
  by (simp add: same_run_def files_step_def forget_def forget_world_def case_prod_beta)

lemma now_watched [simp]: "world_now (watched sv) w = world_now sv (forget_world w)"
  by (simp add: world_now_def forget_world_def)

lemma same_noting: "same_run (remote (watched sv) (noting note call)) (remote sv call)"
  by (simp add: same_run_def remote_def noting_def forget_def forget_world_def case_prod_beta Let_def)

lemma same_calls [same_rules]:
  "same_run (remote (watched sv) (sv_subject_detail (watched sv) c s)) (remote sv (sv_subject_detail sv c s))"
  "same_run (remote (watched sv) (sv_tv_seasons (watched sv) c s)) (remote sv (sv_tv_seasons sv c s))"
  "same_run (remote (watched sv) (sv_tmdb (watched sv) k path query)) (remote sv (sv_tmdb sv k path query))"
  "same_run (remote (watched sv) (sv_mteam_search (watched sv) k body)) (remote sv (sv_mteam_search sv k body))"
  "same_run (remote (watched sv) (sv_fetch_torrent (watched sv) k t)) (remote sv (sv_fetch_torrent sv k t))"
  "same_run (remote (watched sv) (sv_cache_poster (watched sv) s url)) (remote sv (sv_cache_poster sv s url))"
  "same_run (remote (watched sv) (sv_torrent_files (watched sv) server h)) (remote sv (sv_torrent_files sv server h))"
  "same_run (remote (watched sv) (sv_delete_torrent (watched sv) server h)) (remote sv (sv_delete_torrent sv server h))"
  "same_run (remote (watched sv) (by_exact_tag (sv_qb (watched sv) server) h)) (remote sv (by_exact_tag (sv_qb sv server) h))"
  "same_run (remote (watched sv) (by_hash (sv_qb (watched sv) server) h)) (remote sv (by_hash (sv_qb sv server) h))"
  unfolding watched_calls by (rule same_noting)+

lemma same_observe [same_rules]: "same_run (observe_download (watched sv) server key d) (observe_download sv server key d)"
  unfolding observe_download_def watched_fields by (intro same_rules same_result) simp

lemma same_poster [same_rules]: "same_run (cache_source_poster (watched sv) subject source) (cache_source_poster sv subject source)"
  unfolding cache_source_poster_def Let_def by (intro same_rules same_result) simp

lemma same_load_tv [same_rules]: "same_run (load_tv_detail (watched sv) k title requested localized)
    (load_tv_detail sv k title requested localized)"
  unfolding load_tv_detail_def by (intro same_rules same_result) simp

lemma same_tmdb_meta [same_rules]: "same_run (tmdb_meta (watched sv) policy source result enriched) (tmdb_meta sv policy source result enriched)"
  unfolding tmdb_meta_def Let_def by (intro same_rules)

lemma same_tv_meta_of [same_rules]: "same_run (tv_meta_of (watched sv) policy subject source result) (tv_meta_of sv policy subject source result)"
proof -
  have "same_run (douban_tv_meta (watched sv) policy subject source n title enriched)
      (douban_tv_meta sv policy subject source n title enriched)" for n title enriched
    unfolding douban_tv_meta_def [abs_def] Let_def by (intro same_rules same_result) simp
  then show ?thesis
    unfolding tv_meta_of_def by (intro same_rules) (auto intro: same_rules split: option.splits prod.splits)
qed

lemma same_meta: "same_run (execute_meta (watched sv) policy claimed) (execute_meta sv policy claimed)"
proof -
  have "same_run (execute_tv_meta (watched sv) policy claimed) (execute_tv_meta sv policy claimed)"
    unfolding execute_tv_meta_def [abs_def] Let_def by (intro same_rules)
  moreover have "same_run (execute_movie_meta (watched sv) policy claimed) (execute_movie_meta sv policy claimed)"
    unfolding execute_movie_meta_def Let_def by (intro same_rules)
  ultimately show ?thesis by (simp add: execute_meta_def)
qed

lemma same_keyword [same_rules]:
  "same_run (keyword_candidates (watched sv) k title movie cs) (keyword_candidates sv k title movie cs)"
  unfolding keyword_candidates_def watched_fields by (intro same_rules)

lemma same_imdb [same_rules]:
  "same_run (imdb_candidates (watched sv) k cookie s title movie cs) (imdb_candidates sv k cookie s title movie cs)"
proof (cases "should_try_imdb_fallback (fst cs) s")
  case True
  have "same_run (case r of
      Inl _ \<Rightarrow> keyword_candidates (watched sv) k title movie cs
    | Inr d \<Rightarrow> (case dd_imdb_id d of
        None \<Rightarrow> keyword_candidates (watched sv) k title movie cs
      | Some imdb \<Rightarrow> attempt (remote (watched sv) (sv_mteam_search (watched sv) k
            (search_body ''imdb'' (''https://www.imdb.com/title/'' @ imdb @ ''/'')))) Inl (\<lambda>response.
          keyword_candidates (watched sv) k title movie
            (append_candidates cs (candidates_from_response response ''imdb'' imdb)))))
    (case r of
      Inl _ \<Rightarrow> keyword_candidates sv k title movie cs
    | Inr d \<Rightarrow> (case dd_imdb_id d of
        None \<Rightarrow> keyword_candidates sv k title movie cs
      | Some imdb \<Rightarrow> attempt (remote sv (sv_mteam_search sv k
            (search_body ''imdb'' (''https://www.imdb.com/title/'' @ imdb @ ''/'')))) Inl (\<lambda>response.
          keyword_candidates sv k title movie
            (append_candidates cs (candidates_from_response response ''imdb'' imdb)))))" for r :: "string + douban_subject_detail"
    by (cases r) (auto intro!: same_rules split: option.splits)
  from same_bind [OF same_calls(1) [of sv cookie "str_trim s"] this] show ?thesis
    by (rule back_subst [where P = "\<lambda>m. m"])
      (intro arg_cong2 [where f = same_run] ext;
        auto simp: imdb_candidates_def True split: sum.splits option.splits prod.splits)
qed (simp add: imdb_candidates_def [abs_def] same_keyword)

lemma same_search_candidates [same_rules]:
  "same_run (search_candidates (watched sv) k cookie s title movie) (search_candidates sv k cookie s title movie)"
  unfolding search_candidates_def by (intro same_rules)

lemma same_progress: "same_run (execute_progress (watched sv) policy claimed) (execute_progress sv policy claimed)"
  unfolding execute_progress_def Let_def by (intro same_rules same_result) simp_all

lemma same_apply_links [same_rules]: "same_run (apply_links (watched sv) effects) (apply_links sv effects)"
  by (auto simp: apply_links_def same_run_def files_step_def forget_def forget_world_def case_prod_beta split: option.splits)

lemma same_refresh [same_rules]: "same_run (refresh_title (watched sv) policy s p) (refresh_title sv policy s p)"
  unfolding refresh_title_def by (intro same_rules same_result) simp

lemma same_link: "same_run (execute_link (watched sv) policy claimed) (execute_link sv policy claimed)"
proof -
  have artifact: "link_artifact (watched sv) = link_artifact sv"
    by (simp add: link_artifact_def [abs_def])
  have download [same_rules]: "same_run (link_download (watched sv) policy detail c existing updated fs now)
      (link_download sv policy detail c existing updated fs now)" for detail c existing updated fs now
    unfolding link_download_def Let_def artifact by (intro same_rules)
  have "same_run (\<lambda>w. let now = world_now (watched sv) w; updated = updated_download existing t fs (pl_tv p) now in
        if \<not> torrent_is_complete t then (a updated, w) else if b updated then (a' updated, w)
        else link_download (watched sv) policy detail c existing updated fs now w)
      (\<lambda>w. let now = world_now sv w; updated = updated_download existing t fs (pl_tv p) now in
        if \<not> torrent_is_complete t then (a updated, w) else if b updated then (a' updated, w)
        else link_download sv policy detail c existing updated fs now w)" for existing t fs p detail c a a' b
    using download unfolding same_run_def Let_def by (simp add: forget_def)
  then show ?thesis
    unfolding execute_link_def Let_def by (intro same_rules)
qed

subsection \<open>Search and replacement\<close>

lemma inspect_forgets:
  "map_prod id fst (adapter_inspect (watched_qb server tr) s tag h) = adapter_inspect tr (fst s) tag h"
  by (auto simp: adapter_inspect_def watched_qb_def noting_def case_prod_beta Let_def split: sum.splits option.splits)

lemma ensure_forgets:
  "map_prod id fst (adapter_ensure (watched_qb server tr) request spec s) = adapter_ensure tr request spec (fst s)"
proof -
  obtain r s1 where inspect: "adapter_inspect (watched_qb server tr) s (effect_key_str (request_key request))
      (authoritative_hash request) = (r, s1)" by (rule prod.exhaust)
  with inspect_forgets [of server tr s "effect_key_str (request_key request)" "authoritative_hash request"]
  have "adapter_inspect tr (fst s) (effect_key_str (request_key request)) (authoritative_hash request) = (r, fst s1)"
    by simp
  with inspect show ?thesis
    by (simp add: adapter_ensure_def watched_qb_def noting_def case_prod_beta Let_def
        split: sum.splits qb_reconciliation_decision.splits)
qed

lemma same_send [same_rules]:
  "same_run (send_torrent (watched sv) policy key c server ms m existing torrent request input)
     (send_torrent sv policy key c server ms m existing torrent request input)"
proof -
  have artifact: "pushed_artifact (watched sv) = pushed_artifact sv"
    by (simp add: pushed_artifact_def [abs_def])
  have "same_run (remote (watched sv) (adapter_ensure (sv_qb (watched sv) server) request spec))
      (remote sv (adapter_ensure (sv_qb sv server) request spec))" for spec
    using ensure_forgets [of server "sv_qb sv server" request spec]
    by (simp add: same_run_def remote_def forget_def forget_world_def case_prod_beta Let_def watched_def
        prod_eq_iff)
  note ensure = this
  show ?thesis
    unfolding same_run_def
  proof
    fix w
    let ?spec = "add_spec_new input (Some (xcat_qb_category c)) (Some (xcat_qb_save_dir_name c))"
    obtain r w' where run: "remote (watched sv) (adapter_ensure (sv_qb (watched sv) server) request ?spec) w = (r, w')"
      by fastforce
    with ensure [of ?spec] have "remote sv (adapter_ensure (sv_qb sv server) request ?spec) (forget_world w) =
        (r, forget_world w')"
      unfolding same_run_def forget_def by (metis fst_conv snd_conv)
    with run show "forget (send_torrent (watched sv) policy key c server ms m existing torrent request input w) =
        send_torrent sv policy key c server ms m existing torrent request input (forget_world w)"
      by (simp add: send_torrent_def Let_def artifact forget_def case_prod_beta split: option.split)
  qed
qed

lemma same_push [same_rules]:
  "same_run (push_selected (watched sv) policy key p c server ms m) (push_selected sv policy key p c server ms m)"
  unfolding push_selected_def Let_def watched_fields by (intro same_rules)

lemma same_choose [same_rules]:
  "same_run (choose_candidate (watched sv) policy key p is_tv c server found) (choose_candidate sv policy key p is_tv c server found)"
  unfolding choose_candidate_def Let_def by (auto intro!: same_rules split: option.splits prod.splits)

lemma clean_links_watched: "clean_links (watched sv) c artifacts = clean_links sv c artifacts"
proof -
  have parents: "remove_parents (watched sv) root absolute ns tree = remove_parents sv root absolute ns tree"
    for root absolute ns tree
  proof (induction ns arbitrary: tree)
    case (Cons n ns)
    then show ?case by (simp only: remove_parents.simps watched_state)
  qed simp
  have one_file: "remove_file_if_present (watched sv) = remove_file_if_present sv"
    unfolding remove_file_if_present_def [abs_def] watched_state by (rule refl)
  have empties: "remove_empty_parents (watched sv) p root = remove_empty_parents sv p root" for p root
    by (simp add: remove_empty_parents_def [abs_def] parents)
  have "remove_links (watched sv) root targets tree = remove_links sv root targets tree" for root targets tree
  proof (induction targets arbitrary: tree)
    case (Cons t ts)
    then show ?case unfolding remove_links.simps one_file empties by simp
  qed simp
  then have "remove_links (watched sv) = remove_links sv" by blast
  then show ?thesis by (simp add: clean_links_def [abs_def])
qed

lemma same_inspect [same_rules]: "same_run (inspect_download (watched sv) policy key p d) (inspect_download sv policy key p d)"
  unfolding inspect_download_def by (intro same_rules same_result) simp

lemma same_inspects [same_rules]:
  "same_run (inspect_downloads (watched sv) policy key p ds) (inspect_downloads sv policy key p ds)"
proof (induction ds)
  case (Cons d ds)
  have "same_run (attempt (inspect_download (watched sv) policy key p d) Inl (\<lambda>x.
        attempt (inspect_downloads (watched sv) policy key p ds) Inl (\<lambda>xs w'. (Inr (x # xs), w'))))
      (attempt (inspect_download sv policy key p d) Inl (\<lambda>x.
        attempt (inspect_downloads sv policy key p ds) Inl (\<lambda>xs w'. (Inr (x # xs), w'))))"
    by (intro same_rules Cons same_result) simp
  then show ?case by (simp add: same_run_def)
qed (simp add: same_run_def forget_def)

lemma same_deletes [same_rules]: "same_run (delete_torrents (watched sv) tasks) (delete_torrents sv tasks)"
proof (induction tasks)
  case (Cons task tasks)
  obtain server t where task: "task = (server, t)" by fastforce
  show ?case
  proof (cases t)
    case None
    with Cons show ?thesis by (simp add: same_run_def task)
  next
    case (Some x)
    have "same_run (attempt (remote (watched sv) (sv_delete_torrent (watched sv) server (ti_hash x))) Inl (\<lambda>_.
       attempt (remote (watched sv) (by_hash (sv_qb (watched sv) server) (ti_hash x))) Inl (\<lambda>rows.
       require (reject_if (rows \<noteq> []) message) Inl (\<lambda>_. delete_torrents (watched sv) tasks))))
      (attempt (remote sv (sv_delete_torrent sv server (ti_hash x))) Inl (\<lambda>_.
       attempt (remote sv (by_hash (sv_qb sv server) (ti_hash x))) Inl (\<lambda>rows.
       require (reject_if (rows \<noteq> []) message) Inl (\<lambda>_. delete_torrents sv tasks))))" for message
      by (intro same_rules Cons)
    then show ?thesis by (simp add: same_run_def task Some)
  qed
qed (simp add: same_run_def forget_def)

lemma same_replace [same_rules]: "same_run (replace_torrent (watched sv) policy key p) (replace_torrent sv policy key p)"
proof -
  have "same_run (\<lambda>w. require (checks (ew_files w)) Inl (\<lambda>_. Pair r) w) (\<lambda>w. require (checks (ew_files w)) Inl (\<lambda>_. Pair r) w)"
    for checks :: "file_tree \<Rightarrow> string + unit" and r :: "string + execution_payload_delta"
    by (auto simp: same_run_def require_def forget_def forget_world_def split: sum.splits)
  then show ?thesis
    unfolding replace_torrent_def clean_links_watched watched_fields by (intro same_rules)
qed

lemma same_search: "same_run (execute_search (watched sv) policy claimed) (execute_search sv policy claimed)"
  unfolding execute_search_def execute_replacement_def Let_def watched_fields
  by (intro same_rules) (auto intro!: same_rules split: option.splits prod.splits)

lemma watched_run: "forget (execute_effects (watched sv) policy claimed w) = execute_effects sv policy claimed (forget_world w)"
  using same_meta [of sv policy claimed] same_search [of sv policy claimed] same_progress [of sv policy claimed]
    same_link [of sv policy claimed]
  by (simp add: execute_effects_def same_run_def split: execution_operation.splits)

end
