(* ===== verification/Effect_Authorization.thy ===== *)
theory Effect_Authorization
  imports Watched_Services
begin

text \<open>
  What the effects may change on the remote services. The services of a run are watched: every
  answer that a change may rest on, and every change, is noted in the order of the calls, and each
  change is held against the notes before it. A torrent is pushed only when it is the selected
  candidate of the subscription, and a task is deleted only when a server listed it and it is owned
  by a recorded download of a prepared replacement.
\<close>

subsection \<open>Candidates and their origin\<close>

lemma append_candidates_subset:
  "set (fst (append_candidates found cs)) \<subseteq> set (fst found) \<union> set cs"
  by (induction found cs rule: append_candidates.induct) auto

lemma map_filter_mem: "y \<in> set (List.map_filter f xs) \<Longrightarrow> \<exists>x \<in> set xs. f x = Some y"
  by (auto simp: List.map_filter_def)

lemma response_source: "c \<in> set (candidates_from_response response source query) \<Longrightarrow> cand_source c = source"
  by (auto simp: candidates_from_response_def candidate_from_value_def dest!: map_filter_mem split: option.splits)

lemma default_matches_candidates:
  "map match_candidate (default_matches selected cs) = cs"
  "list_all (\<lambda>m. \<not> match_user_confirmed m) (default_matches selected cs)"
  by (induction selected cs rule: default_matches.induct) (simp_all only: default_matches.simps Let_def list.map
      list.pred_inject candidate_match_payload.simps simp_thms)

lemma default_matches_mem:
  "m \<in> set (default_matches selected cs) \<Longrightarrow> match_candidate m \<in> set cs \<and> \<not> match_user_confirmed m"
  using default_matches_candidates [where selected = selected and cs = cs]
    imageI [where f = match_candidate and x = m and A = "set (default_matches selected cs)"]
  by (auto simp: list_all_iff simp flip: set_map)

lemma update_first_mem: "y \<in> set (update_first p f xs) \<Longrightarrow> \<exists>x \<in> set xs. y = x \<or> y = f x"
  by (induction p f xs rule: update_first.induct) (auto split: if_splits)

lemma match_candidates_mem:
  "m \<in> set (match_candidates uc cs rules) \<Longrightarrow> match_candidate m \<in> set cs \<and> \<not> match_user_confirmed m"
  unfolding match_candidates_def select_best_def
  by (auto simp: explain_exclusion_def ruled_match_def Let_def dest!: default_matches_mem update_first_mem
      split: if_splits option.splits)

text \<open>What a selection keeps of a candidate\<close>

definition same_candidate :: "candidate_match_payload \<Rightarrow> candidate_match_payload \<Rightarrow> bool" where
  "same_candidate m m' \<longleftrightarrow>
     match_candidate m = match_candidate m' \<and> match_user_confirmed m = match_user_confirmed m'"

lemma same_authorized: "same_candidate m m' \<Longrightarrow> download_authorized m \<longleftrightarrow> download_authorized m'"
  by (simp add: same_candidate_def download_authorized_def)

lemma same_refl [simp]: "same_candidate m m"
  by (simp add: same_candidate_def)

lemma authorized_selection_mem:
  "authorized_selection ms = (ms', sel) \<Longrightarrow>
     (\<forall>m' \<in> set ms'. \<exists>m \<in> set ms. same_candidate m m') \<and>
     (\<forall>s. sel = Some s \<longrightarrow> (\<exists>m \<in> set ms. same_candidate m s))"
  by (auto simp: authorized_selection_def Let_def same_candidate_def find_Some_iff)
    (metis nth_mem)+

lemma mark_same: "same_candidate m (mark_candidate season episode used chosen i m)"
  by (auto simp: mark_candidate_def same_candidate_def Let_def)

lemma pick_candidate_index:
  "pick_candidate eligible i best ms = Some (j, p) \<Longrightarrow>
     best = Some (j, p) \<or> i \<le> j \<and> j < i + length ms \<and> eligible (ms ! (j - i)) \<and> p = tv_priority (ms ! (j - i))"
proof (induction eligible i best ms rule: pick_candidate.induct)
  case (2 eligible i best m ms)
  then show ?case
    by (auto simp: nth_Cons' Suc_diff_le le_Suc_eq split: if_splits)
qed simp


lemma select_tv_mem:
  assumes "select_tv_candidate season episode rules downloads ms = (ms', sel)"
  shows "(\<forall>m' \<in> set ms'. \<exists>m \<in> set ms. same_candidate m m') \<and>
    (\<forall>s. sel = Some s \<longrightarrow> s \<in> set ms')"
proof -
  obtain chosen where ms': "ms' = map (\<lambda>(i, m). mark_candidate season episode (used_torrents downloads) chosen i m)
      (enumerate 0 ms)"
    and sel: "sel = map_option (\<lambda>i. ms' ! i) chosen"
    and chosen: "chosen = map_option fst (pick_candidate (tv_eligible season episode rules (used_torrents downloads)) 0 None ms)"
    using assms by (auto simp: select_tv_candidate_def Let_def)
  have "s \<in> set ms'" if "sel = Some s" for s
  proof -
    from that sel obtain i where i: "chosen = Some i" "s = ms' ! i" by auto
    with chosen obtain q where "pick_candidate (tv_eligible season episode rules (used_torrents downloads)) 0 None ms = Some (i, q)"
      by (cases "pick_candidate (tv_eligible season episode rules (used_torrents downloads)) 0 None ms") auto
    from pick_candidate_index [OF this] have "i < length ms'" by (simp add: ms')
    with i show ?thesis by simp
  qed
  moreover have "\<exists>m \<in> set ms. same_candidate m m'" if "m' \<in> set ms'" for m'
    using that unfolding ms' by (auto simp: in_set_enumerate_eq intro: mark_same)
  ultimately show ?thesis by blast
qed

subsection \<open>Notes\<close>

definition events :: "('q \<times> service_event list) effect_world \<Rightarrow> service_event list" where
  "events w = snd (ew_remote w)"

text \<open>The notes of a run of the effects on services in state \<open>q\<close> and files \<open>tree\<close>\<close>

definition run_events ::
  "'q effect_services \<Rightarrow> execution_effect_policy \<Rightarrow> claimed_subscription \<Rightarrow> 'q \<Rightarrow> file_tree \<Rightarrow> service_event list"
where
  "run_events sv policy claimed q tree =
     events (snd (execute_effects (watched sv) policy claimed \<lparr>ew_remote = (q, []), ew_files = tree\<rparr>))"

text \<open>Every event is allowed by the events before it.\<close>

fun justified :: "(service_event list \<Rightarrow> service_event \<Rightarrow> bool) \<Rightarrow> service_event list \<Rightarrow> service_event list \<Rightarrow> bool" where
  "justified ok before [] = True"
| "justified ok before (e # es) \<longleftrightarrow> ok before e \<and> justified ok (before @ [e]) es"

subsection \<open>What justifies a change\<close>

abbreviation claimed_payload :: "claimed_subscription \<Rightarrow> subscription_payload" where
  "claimed_payload claimed \<equiv> det_payload (claimed_detail claimed)"

abbreviation claimed_key :: "claimed_subscription \<Rightarrow> subscription_key" where
  "claimed_key claimed \<equiv> head_key (det_head (claimed_detail claimed))"

abbreviation searches :: "claimed_subscription \<Rightarrow> bool" where
  "searches claimed \<equiv> token_operation (current_token (claimed_attempt claimed)) = OpSearch"

text \<open>M-Team answered with the candidate: the search for the Douban page of the subject, the search for
  the IMDb page that Douban names for the subject, or the search for a title. The source of the
  candidate tells which.\<close>

definition found_by_douban :: "string \<Rightarrow> service_event list \<Rightarrow> candidate_payload \<Rightarrow> bool" where
  "found_by_douban subject before c \<longleftrightarrow>
     (\<exists>response.
        SearchAnswered (search_body ''douban'' (''https://movie.douban.com/subject/'' @ str_trim subject @ ''/''))
          response \<in> set before \<and>
        c \<in> set (candidates_from_response response ''douban'' subject))"

definition found_by_imdb :: "string \<Rightarrow> service_event list \<Rightarrow> candidate_payload \<Rightarrow> bool" where
  "found_by_imdb subject before c \<longleftrightarrow>
     (\<exists>d imdb response.
        SubjectRead (str_trim subject) d \<in> set before \<and> dd_imdb_id d = Some imdb \<and>
        SearchAnswered (search_body ''imdb'' (''https://www.imdb.com/title/'' @ imdb @ ''/'')) response \<in> set before \<and>
        c \<in> set (candidates_from_response response ''imdb'' imdb))"

definition found_by_title :: "string \<Rightarrow> service_event list \<Rightarrow> candidate_payload \<Rightarrow> bool" where
  "found_by_title title before c \<longleftrightarrow>
     (\<exists>response. SearchAnswered (search_body ''keyword'' (str_trim title)) response \<in> set before \<and>
        c \<in> set (candidates_from_response response ''keyword'' title))"

definition answered_with :: "string \<Rightarrow> string \<Rightarrow> service_event list \<Rightarrow> candidate_payload \<Rightarrow> bool" where
  "answered_with subject title before c \<longleftrightarrow>
     found_by_douban subject before c \<or> found_by_imdb subject before c \<or> found_by_title title before c"

text \<open>The candidates a search chooses from, with its own choice: the recorded selection, or what M-Team
  answered, ruled and narrowed to what is authorized.\<close>

definition offered_choice ::
  "'q effect_services \<Rightarrow> execution_effect_policy \<Rightarrow> claimed_subscription \<Rightarrow> service_event list
    \<Rightarrow> candidate_match_payload list \<times> candidate_match_payload option \<Rightarrow> bool" where
  "offered_choice sv policy claimed before choice \<longleftrightarrow>
     (let p = claimed_payload claimed in
      case opt_or (confirmed_selection p) (retry_selection p) of
        Some (ms, m) \<Rightarrow> choice = (ms, Some m)
      | None \<Rightarrow> \<exists>cs.
          list_all (answered_with (subject_id (claimed_key claimed)) (search_title p) before) cs \<and>
          choice = authorized_selection (match_candidates (sv_unicode sv) cs (ep_match_rules policy)))"

text \<open>The selected candidate: of a series, the one for its next uncovered episode\<close>

definition chosen_match ::
  "'q effect_services \<Rightarrow> execution_effect_policy \<Rightarrow> claimed_subscription \<Rightarrow> service_event list
    \<Rightarrow> candidate_match_payload \<Rightarrow> bool" where
  "chosen_match sv policy claimed before m \<longleftrightarrow>
     (\<exists>ms selected. offered_choice sv policy claimed before (ms, selected) \<and>
        (if head_media_kind (det_head (claimed_detail claimed)) \<noteq> Tv then selected = Some m
         else \<exists>tv cursor.
           pl_tv (claimed_payload claimed) = Some tv \<and>
           first_uncovered_episode (claimed_payload claimed) tv = Some cursor \<and>
           snd (select_tv_candidate (tv_season_number tv) cursor (ep_match_rules policy)
             (art_downloads (pl_artifacts (claimed_payload claimed))) ms) = Some m))"

text \<open>The torrent is one that the payload records, or M-Team named it for the Douban or the IMDb identity.\<close>

definition authorized_origin ::
  "claimed_subscription \<Rightarrow> service_event list \<Rightarrow> candidate_match_payload \<Rightarrow> bool" where
  "authorized_origin claimed before m \<longleftrightarrow>
     (\<exists>r \<in> set (pl_candidates (claimed_payload claimed)). same_candidate r m) \<or>
     found_by_douban (subject_id (claimed_key claimed)) before (match_candidate m) \<or>
     found_by_imdb (subject_id (claimed_key claimed)) before (match_candidate m)"

definition push_justified ::
  "'q effect_services \<Rightarrow> execution_effect_policy \<Rightarrow> claimed_subscription \<Rightarrow> service_event list
    \<Rightarrow> execution_qb_server \<Rightarrow> qb_add_command \<Rightarrow> bool" where
  "push_justified sv policy claimed before server command \<longleftrightarrow>
     searches claimed \<and> \<not> pl_replacement_pending (claimed_payload claimed) \<and>
     (\<exists>m c torrent.
        chosen_match sv policy claimed before m \<and> download_authorized m \<and> authorized_origin claimed before m \<and>
        category_for_source (src_tags (pl_source (claimed_payload claimed))) (ep_categories policy) = Inr c \<and>
        qb_server (ep_qb_servers policy) (xcat_qb_server_id c) = Inr server \<and>
        TorrentFetched (cand_torrent_id (match_candidate m)) torrent \<in> set before \<and>
        (\<exists>name. cmd_input command = InputBytes name (mt_bytes torrent)) \<and>
        cmd_category command = normalized_optional (Some (xcat_qb_category c)) \<and>
        cmd_save_path command = normalized_optional (Some (xcat_qb_save_dir_name c)) \<and>
        cmd_stable_tag command = stable_qb_idempotency_key (sv_sha sv) (account_key (claimed_key claimed))
          (subject_id (claimed_key claimed)) (cand_torrent_id (match_candidate m)))"

text \<open>The task was listed by the server of a recorded download and carries the key of that download and of
  no other.\<close>

definition owned_task ::
  "execution_effect_policy \<Rightarrow> subscription_payload \<Rightarrow> service_event list \<Rightarrow> execution_qb_server
    \<Rightarrow> qb_torrent_info \<Rightarrow> bool" where
  "owned_task policy p before server t \<longleftrightarrow>
     (\<exists>d \<in> set (art_downloads (pl_artifacts p)). \<exists>rows.
        qb_server (ep_qb_servers policy) (dl_qb_server_id d) = Inr server \<and>
        TasksListed server rows \<in> set before \<and> t \<in> set rows \<and>
        require_owned_torrent t (dl_idempotency_key d) = Inr ())"

definition delete_justified ::
  "execution_effect_policy \<Rightarrow> claimed_subscription \<Rightarrow> service_event list \<Rightarrow> execution_qb_server \<Rightarrow> string \<Rightarrow> bool"
where
  "delete_justified policy claimed before server h \<longleftrightarrow>
     searches claimed \<and> pl_replacement_pending (claimed_payload claimed) \<and>
     pl_replacement_prepared (claimed_payload claimed) \<and>
     (\<exists>t. owned_task policy (claimed_payload claimed) before server t \<and> h = ti_hash t)"

fun permitted ::
  "'q effect_services \<Rightarrow> execution_effect_policy \<Rightarrow> claimed_subscription \<Rightarrow> service_event list
    \<Rightarrow> service_event \<Rightarrow> bool" where
  "permitted sv policy claimed before (TorrentPushed server command) \<longleftrightarrow>
     push_justified sv policy claimed before server command"
| "permitted sv policy claimed before (TaskDeleted server h) \<longleftrightarrow>
     delete_justified policy claimed before server h"
| "permitted sv policy claimed before _ \<longleftrightarrow> True"

subsection \<open>Justified runs\<close>

lemma justified_append: "justified ok before (es @ es') \<longleftrightarrow> justified ok before es \<and> justified ok (before @ es) es'"
  by (induction es arbitrary: before) auto

definition reads_only ::
  "(('q \<times> service_event list) effect_world \<Rightarrow> 'r \<times> ('q \<times> service_event list) effect_world) \<Rightarrow> bool" where
  "reads_only m \<longleftrightarrow> (\<forall>w. \<exists>es. events (snd (m w)) = events w @ es \<and> list_all quiet es)"

definition allowed ::
  "(service_event list \<Rightarrow> service_event \<Rightarrow> bool)
    \<Rightarrow> (('q \<times> service_event list) effect_world \<Rightarrow> 'r \<times> ('q \<times> service_event list) effect_world)
    \<Rightarrow> ('q \<times> service_event list) effect_world \<Rightarrow> bool" where
  "allowed ok m w \<longleftrightarrow> (\<exists>es. events (snd (m w)) = events w @ es \<and> justified ok (events w) es)"

lemma quiet_permitted: "quiet e \<Longrightarrow> permitted sv policy claimed before e"
  by (cases e) simp_all

lemma quiet_justified: "list_all quiet es \<Longrightarrow> justified (permitted sv policy claimed) before es"
  by (induction es arbitrary: before) (auto simp: quiet_permitted)

lemma reads_allowed: "reads_only m \<Longrightarrow> allowed (permitted sv policy claimed) m w"
  unfolding reads_only_def allowed_def using quiet_justified by metis

lemma reads_grow: "reads_only m \<Longrightarrow> m w = (r, w') \<Longrightarrow> set (events w) \<subseteq> set (events w')"
  unfolding reads_only_def by (metis Un_upper1 set_append snd_conv)

named_theorems reads_rules

lemma reads_attempt [reads_rules]:
  assumes "reads_only m" and "\<And>x w w'. m w = (Inr x, w') \<Longrightarrow> reads_only (k x)"
  shows "reads_only (attempt m fail k)"
  unfolding reads_only_def
proof
  fix w
  obtain r w1 where m: "m w = (r, w1)" by fastforce
  with assms(1) obtain es where es: "events w1 = events w @ es" "list_all quiet es"
    unfolding reads_only_def by (metis snd_conv)
  show "\<exists>es. events (snd (attempt m fail k w)) = events w @ es \<and> list_all quiet es"
  proof (cases r)
    case (Inr x)
    with assms(2) m obtain fs where "events (snd (k x w1)) = events w1 @ fs" "list_all quiet fs"
      unfolding reads_only_def by metis
    with es show ?thesis by (auto simp: attempt_def m Inr)
  qed (use es in \<open>auto simp: attempt_def m\<close>)
qed

lemma reads_require [reads_rules]:
  "(\<And>x. m = Inr x \<Longrightarrow> reads_only (k x)) \<Longrightarrow> reads_only (require m fail k)"
  by (auto simp: reads_only_def require_def split: sum.splits)

lemma reads_Pair [reads_rules, simp]: "reads_only (Pair r)"
  by (simp add: reads_only_def)

lemma reads_result [reads_rules]: "reads_only (\<lambda>w. (r w, w))"
  by (simp add: reads_only_def)

lemma reads_files [reads_rules]: "reads_only (files_step step)"
  by (simp add: reads_only_def files_step_def case_prod_beta events_def)

lemma allowed_attempt:
  assumes "allowed ok m w" and "\<And>x w'. m w = (Inr x, w') \<Longrightarrow> allowed ok (k x) w'"
  shows "allowed ok (attempt m fail k) w"
proof -
  obtain r w1 where m: "m w = (r, w1)" by fastforce
  with assms(1) obtain es where es: "events w1 = events w @ es" "justified ok (events w) es"
    by (auto simp: allowed_def)
  show ?thesis
  proof (cases r)
    case (Inr x)
    with assms(2) m obtain fs where "events (snd (k x w1)) = events w1 @ fs" "justified ok (events w1) fs"
      unfolding allowed_def by metis
    with es show ?thesis by (auto simp: allowed_def attempt_def m Inr justified_append)
  qed (use es in \<open>auto simp: allowed_def attempt_def m\<close>)
qed

lemma allowed_require:
  "(\<And>x. m = Inr x \<Longrightarrow> allowed ok (k x) w) \<Longrightarrow> allowed ok (require m fail k) w"
  by (auto simp: allowed_def require_def split: sum.splits)

lemma allowed_Pair [simp]: "allowed ok (Pair r) w"
  by (simp add: allowed_def)

lemma reads_bind:
  assumes "reads_only m" and "\<And>r. reads_only (k r)"
  shows "reads_only (\<lambda>w. case m w of (r, w') \<Rightarrow> k r w')"
  unfolding reads_only_def
proof
  fix w
  obtain r w1 where m: "m w = (r, w1)" by fastforce
  from assms(1) m obtain es where es: "events w1 = events w @ es" "list_all quiet es"
    unfolding reads_only_def by (metis snd_conv)
  from assms(2) obtain fs where "events (snd (k r w1)) = events w1 @ fs" "list_all quiet fs"
    unfolding reads_only_def by metis
  with es m show "\<exists>es. events (snd (case m w of (r, w') \<Rightarrow> k r w')) = events w @ es \<and> list_all quiet es"
    by simp
qed

subsection \<open>Notes of a call\<close>

lemma snd_noting: "snd (snd (noting note call s)) = snd s @ note (fst (noting note call s))"
  by (simp add: noting_def case_prod_beta)

lemma events_remote:
  "events (snd (remote (watched sv) (noting note call) w)) =
     events w @ note (fst (remote (watched sv) (noting note call) w))"
  by (simp add: remote_def events_def case_prod_beta Let_def snd_noting)

lemma reads_noting: "(\<And>r. list_all quiet (note r)) \<Longrightarrow> reads_only (remote (watched sv) (noting note call))"
  by (auto simp: reads_only_def events_remote)

lemma quiet_answers [simp]: "(\<And>x. quiet (event x)) \<Longrightarrow> list_all quiet (answers event r)"
  by (simp add: answers_def split: sum.splits)

lemma reads:
  "reads_only (remote (watched sv) (sv_subject_detail (watched sv) c s))"
  "reads_only (remote (watched sv) (sv_tv_seasons (watched sv) c s))"
  "reads_only (remote (watched sv) (sv_tmdb (watched sv) k path query))"
  "reads_only (remote (watched sv) (sv_mteam_search (watched sv) k body))"
  "reads_only (remote (watched sv) (sv_fetch_torrent (watched sv) k t))"
  "reads_only (remote (watched sv) (sv_cache_poster (watched sv) s url))"
  "reads_only (remote (watched sv) (sv_torrent_files (watched sv) server h))"
  "reads_only (remote (watched sv) (by_exact_tag (sv_qb (watched sv) server) h))"
  "reads_only (remote (watched sv) (by_hash (sv_qb (watched sv) server) h))"
  unfolding watched_calls by (rule reads_noting, simp)+

text \<open>What an answer notes\<close>

lemma noted_answer:
  "remote (watched sv) (noting (answers event) call) w = (Inr x, w') \<Longrightarrow> event x \<in> set (events w')"
  using events_remote [of sv "answers event" call w] by (simp add: answers_def)

lemma noted:
  "remote (watched sv) (sv_subject_detail (watched sv) c s) w = (Inr d, w') \<Longrightarrow> SubjectRead s d \<in> set (events w')"
  "remote (watched sv) (sv_mteam_search (watched sv) k body) w = (Inr v, w') \<Longrightarrow> SearchAnswered body v \<in> set (events w')"
  "remote (watched sv) (sv_fetch_torrent (watched sv) k t) w = (Inr torrent, w') \<Longrightarrow>
     TorrentFetched t torrent \<in> set (events w')"
  "remote (watched sv) (by_exact_tag (sv_qb (watched sv) server) tag) w = (Inr rows, w') \<Longrightarrow>
     TasksListed server rows \<in> set (events w')"
  "remote (watched sv) (by_hash (sv_qb (watched sv) server) h) w = (Inr rows, w') \<Longrightarrow>
     TasksListed server rows \<in> set (events w')"
  unfolding watched_calls by (erule noted_answer)+

lemmas read_steps = reads_rules reads

subsection \<open>Reading effects\<close>

lemma reads_observe: "reads_only (observe_download (watched sv) server key d)"
  unfolding observe_download_def by (intro read_steps) (auto intro: read_steps split: option.splits)

lemma reads_poster: "reads_only (cache_source_poster (watched sv) subject source)"
  unfolding cache_source_poster_def Let_def by (auto intro!: read_steps)

lemma reads_load_tv: "reads_only (load_tv_detail (watched sv) k title requested localized)"
  unfolding load_tv_detail_def by (intro read_steps)

lemma reads_tmdb_meta: "reads_only (tmdb_meta (watched sv) policy source result enriched)"
  unfolding tmdb_meta_def Let_def by (auto intro!: read_steps reads_load_tv)

lemma reads_tv_meta_of: "reads_only (tv_meta_of (watched sv) policy subject source result)"
proof -
  have "reads_only (douban_tv_meta (watched sv) policy subject source n title enriched)" for n title enriched
    unfolding douban_tv_meta_def [abs_def] Let_def by (intro reads_bind read_steps)
  then show ?thesis unfolding tv_meta_of_def
    by (intro reads_rules) (auto intro: reads_poster reads_tmdb_meta split: option.splits)
qed

lemma reads_meta: "reads_only (execute_meta (watched sv) policy claimed)"
proof -
  have "reads_only (execute_tv_meta (watched sv) policy claimed)"
    unfolding execute_tv_meta_def [abs_def] Let_def by (intro reads_bind read_steps reads_tv_meta_of)
  moreover have "reads_only (execute_movie_meta (watched sv) policy claimed)"
    unfolding execute_movie_meta_def Let_def by (intro read_steps reads_poster)
  ultimately show ?thesis by (simp add: execute_meta_def)
qed

lemma reads_keyword: "reads_only (keyword_candidates (watched sv) k title movie cs)"
  unfolding keyword_candidates_def by (auto intro!: read_steps)

lemma reads_imdb: "reads_only (imdb_candidates (watched sv) k cookie subject title movie cs)"
proof (cases "should_try_imdb_fallback (fst cs) subject")
  case True
  have "reads_only (case r of
      Inl _ \<Rightarrow> keyword_candidates (watched sv) k title movie cs
    | Inr d \<Rightarrow> (case dd_imdb_id d of
        None \<Rightarrow> keyword_candidates (watched sv) k title movie cs
      | Some imdb \<Rightarrow> attempt (remote (watched sv) (sv_mteam_search (watched sv) k
            (search_body ''imdb'' (''https://www.imdb.com/title/'' @ imdb @ ''/'')))) Inl (\<lambda>response.
          keyword_candidates (watched sv) k title movie
            (append_candidates cs (candidates_from_response response ''imdb'' imdb)))))" for r :: "string + douban_subject_detail"
    by (auto intro!: read_steps reads_keyword split: sum.splits option.splits)
  from reads_bind [OF reads(1) [of sv cookie "str_trim subject"] this] show ?thesis
    by (rule back_subst [where P = reads_only])
      (auto simp: imdb_candidates_def True fun_eq_iff split: sum.splits option.splits prod.splits)
qed (auto simp: imdb_candidates_def [abs_def] reads_keyword)

lemma reads_search_candidates: "reads_only (search_candidates (watched sv) k cookie subject title movie)"
  unfolding search_candidates_def by (auto intro!: read_steps reads_imdb)

lemma reads_progress: "reads_only (execute_progress (watched sv) policy claimed)"
  unfolding execute_progress_def Let_def
  by (auto intro!: read_steps reads_observe split: option.splits)

lemma reads_apply_links: "reads_only (apply_links (watched sv) effects)"
  unfolding apply_links_def [abs_def] reads_only_def
  by (auto simp: files_step_def events_def case_prod_beta split: option.splits)

lemma reads_refresh: "reads_only (refresh_title (watched sv) policy subject p)"
  unfolding refresh_title_def by (auto intro!: read_steps split: option.splits)

lemma reads_link: "reads_only (execute_link (watched sv) policy claimed)"
proof -
  have "reads_only (link_download (watched sv) policy detail c existing updated fs now)" for detail c existing updated fs now
    unfolding link_download_def Let_def
    by (intro read_steps reads_refresh reads_apply_links)
  then show ?thesis
    unfolding execute_link_def Let_def
    by (intro read_steps reads_observe) (simp add: reads_only_def)
qed

subsection \<open>Where candidates come from\<close>

lemma attempt_Inr:
  "attempt m Inl k w = (Inr x, w') \<longleftrightarrow> (\<exists>y w1. m w = (Inr y, w1) \<and> k y w1 = (Inr x, w'))"
  by (auto simp: attempt_def split: prod.splits sum.splits)

lemma require_Inr:
  "require m Inl k w = (Inr x, w') \<longleftrightarrow> (\<exists>y. m = Inr y \<and> k y w = (Inr x, w'))"
  by (auto simp: require_def split: sum.splits)

lemma answered_later: "answered_with s t before c \<Longrightarrow> set before \<subseteq> set after \<Longrightarrow> answered_with s t after c"
  unfolding answered_with_def found_by_douban_def found_by_imdb_def found_by_title_def by blast

lemma answered_all_later:
  "list_all (answered_with s t before) cs \<Longrightarrow> set before \<subseteq> set after \<Longrightarrow> list_all (answered_with s t after) cs"
  by (auto simp: list_all_iff intro: answered_later)

text \<open>A merge of two lists of which M-Team answered both\<close>

lemma appended_answered:
  "list_all Q (fst cs) \<Longrightarrow> (\<And>c. c \<in> set ds \<Longrightarrow> Q c) \<Longrightarrow> list_all Q (fst (append_candidates cs ds))"
  using append_candidates_subset [of cs ds] by (auto simp: list_all_iff)

lemma keyword_answered:
  assumes "keyword_candidates (watched sv) k title movie cs w = (Inr ds, w')"
    and "list_all (answered_with s title (events w)) (fst cs)"
  shows "list_all (answered_with s title (events w')) ds"
proof -
  have later: "list_all (answered_with s title (events w')) (fst cs)"
    by (rule answered_all_later [OF assms(2) reads_grow [OF reads_keyword assms(1)]])
  show ?thesis
  proof (cases "fst cs = [] \<and> \<not> is_blank title")
    case True
    with assms(1) obtain response where
      asked: "remote (watched sv) (sv_mteam_search (watched sv) k (search_body ''keyword'' (str_trim title))) w =
        (Inr response, w')"
      and ds: "ds = sort_key seeder_order (fst (append_candidates cs
        (filter (\<lambda>c. is_none_or (matches_movie_keyword (sv_unicode sv) c) movie)
          (candidates_from_response response ''keyword'' title))))"
      by (auto simp: keyword_candidates_def attempt_Inr)
    have "list_all (answered_with s title (events w')) (fst (append_candidates cs
        (filter (\<lambda>c. is_none_or (matches_movie_keyword (sv_unicode sv) c) movie)
          (candidates_from_response response ''keyword'' title))))"
      by (rule appended_answered [OF later])
        (use noted(2) [OF asked] in \<open>auto simp: answered_with_def found_by_title_def\<close>)
    then show ?thesis by (simp add: ds list_all_iff)
  next
    case False
    with assms(1) later show ?thesis by (auto simp: keyword_candidates_def list_all_iff)
  qed
qed

lemma imdb_answered:
  assumes "imdb_candidates (watched sv) k cookie s title movie cs w = (Inr ds, w')"
    and "list_all (answered_with s title (events w)) (fst cs)"
  shows "list_all (answered_with s title (events w')) ds"
proof (cases "should_try_imdb_fallback (fst cs) s")
  case False
  with assms show ?thesis by (auto simp: imdb_candidates_def intro: keyword_answered)
next
  case True
  obtain r w1 where detail: "remote (watched sv) (sv_subject_detail (watched sv) cookie (str_trim s)) w = (r, w1)"
    by fastforce
  have known: "list_all (answered_with s title (events w1)) (fst cs)"
    by (rule answered_all_later [OF assms(2) reads_grow [OF reads(1) detail]])
  consider (keyword) "keyword_candidates (watched sv) k title movie cs w1 = (Inr ds, w')"
    | (imdb) d imdb response w2 where "r = Inr d" "dd_imdb_id d = Some imdb"
        "remote (watched sv) (sv_mteam_search (watched sv) k
          (search_body ''imdb'' (''https://www.imdb.com/title/'' @ imdb @ ''/''))) w1 = (Inr response, w2)"
        "keyword_candidates (watched sv) k title movie
           (append_candidates cs (candidates_from_response response ''imdb'' imdb)) w2 = (Inr ds, w')"
    using assms(1) True unfolding imdb_candidates_def detail
    by (auto simp: attempt_Inr split: if_splits sum.splits option.splits)
  then show ?thesis
  proof cases
    case keyword
    from keyword_answered [OF this known] show ?thesis .
  next
    case imdb
    note grown = reads_grow [OF reads(4) imdb(3)]
    have "SubjectRead (str_trim s) d \<in> set (events w2)"
      using noted(1) detail imdb(1) grown by blast
    then have "list_all (answered_with s title (events w2))
        (fst (append_candidates cs (candidates_from_response response ''imdb'' imdb)))"
      using noted(2) [OF imdb(3)] imdb(2)
      by (intro appended_answered answered_all_later [OF known grown])
        (auto simp: answered_with_def found_by_imdb_def)
    from keyword_answered [OF imdb(4) this] show ?thesis .
  qed
qed

lemma search_answered:
  assumes "search_candidates (watched sv) k cookie s title movie w = (Inr ds, w')"
  shows "list_all (answered_with s title (events w')) ds"
proof (cases "is_blank s")
  case True
  with assms show ?thesis by (auto simp: search_candidates_def intro: imdb_answered)
next
  case False
  with assms obtain response w1 where
    asked: "remote (watched sv) (sv_mteam_search (watched sv) k
      (search_body ''douban'' (''https://movie.douban.com/subject/'' @ str_trim s @ ''/''))) w = (Inr response, w1)"
    and rest: "imdb_candidates (watched sv) k cookie s title movie
      (append_candidates ([], []) (candidates_from_response response ''douban'' s)) w1 = (Inr ds, w')"
    by (auto simp: search_candidates_def attempt_Inr)
  have "list_all (answered_with s title (events w1))
      (fst (append_candidates ([], []) (candidates_from_response response ''douban'' s)))"
    using noted(2) [OF asked] by (intro appended_answered) (auto simp: answered_with_def found_by_douban_def)
  from imdb_answered [OF rest this] show ?thesis .
qed


subsection \<open>Pushing\<close>

text \<open>The choice of a series\<close>

definition tv_choice ::
  "execution_effect_policy \<Rightarrow> subscription_payload \<Rightarrow> candidate_match_payload list \<Rightarrow> candidate_match_payload \<Rightarrow> bool"
where
  "tv_choice policy p ms m \<longleftrightarrow>
     (\<exists>tv cursor. pl_tv p = Some tv \<and> first_uncovered_episode p tv = Some cursor \<and>
        snd (select_tv_candidate (tv_season_number tv) cursor (ep_match_rules policy)
          (art_downloads (pl_artifacts p)) ms) = Some m)"

lemma offered_later:
  "offered_choice sv policy claimed before choice \<Longrightarrow> set before \<subseteq> set after \<Longrightarrow> offered_choice sv policy claimed after choice"
  unfolding offered_choice_def Let_def by (auto split: option.splits prod.splits intro: answered_all_later)

lemma chosen_match_alt:
  "chosen_match sv policy claimed before m \<longleftrightarrow>
     (\<exists>ms selected. offered_choice sv policy claimed before (ms, selected) \<and>
        (if head_media_kind (det_head (claimed_detail claimed)) \<noteq> Tv then selected = Some m
         else tv_choice policy (claimed_payload claimed) ms m))"
  by (simp add: chosen_match_def tv_choice_def)

lemma chosen_later:
  "chosen_match sv policy claimed before m \<Longrightarrow> set before \<subseteq> set after \<Longrightarrow> chosen_match sv policy claimed after m"
  unfolding chosen_match_alt by (blast intro: offered_later)

lemma recorded_selection:
  assumes "opt_or (confirmed_selection p) (retry_selection p) = Some (ms, selected)"
  shows "(\<forall>m \<in> set ms. \<exists>r \<in> set (pl_candidates p). same_candidate r m) \<and>
    (\<exists>r \<in> set (pl_candidates p). same_candidate r selected)"
proof -
  have find_mem: "m \<in> set xs" if "find q xs = Some m" for q and xs :: "candidate_match_payload list" and m
    using that by (auto simp: find_Some_iff)
  show ?thesis
    using assms
    by (auto simp: opt_or_def confirmed_selection_def retry_selection_def same_candidate_def
        dest!: find_mem split: option.splits if_splits) blast+
qed

lemma answered_origin:
  assumes "answered_with s t before c" and "cand_source c \<in> {''douban'', ''imdb''}"
  shows "found_by_douban s before c \<or> found_by_imdb s before c"
  using assms unfolding answered_with_def found_by_title_def by (auto dest: response_source)

lemma same_origin: "same_candidate m m' \<Longrightarrow> authorized_origin claimed before m \<Longrightarrow> authorized_origin claimed before m'"
  unfolding authorized_origin_def same_candidate_def by (auto intro: bexI)

text \<open>What is offered and may be downloaded is recorded, or found by an identity.\<close>

lemma offered_origin:
  assumes "offered_choice sv policy claimed before (ms, selected)"
    and "m \<in> set ms \<or> selected = Some m" and "download_authorized m"
  shows "authorized_origin claimed before m"
proof (cases "opt_or (confirmed_selection (claimed_payload claimed)) (retry_selection (claimed_payload claimed))")
  case (Some choice)
  with assms recorded_selection [of "claimed_payload claimed"] show ?thesis
    by (cases choice) (auto simp: offered_choice_def authorized_origin_def)
next
  case None
  with assms(1) obtain cs where
    cs: "list_all (answered_with (subject_id (claimed_key claimed)) (search_title (claimed_payload claimed)) before) cs"
    and choice: "authorized_selection (match_candidates (sv_unicode sv) cs (ep_match_rules policy)) = (ms, selected)"
    by (auto simp: offered_choice_def Let_def)
  from authorized_selection_mem [OF choice] assms(2) obtain n where
    n: "n \<in> set (match_candidates (sv_unicode sv) cs (ep_match_rules policy))" "same_candidate n m" by auto
  from match_candidates_mem [OF n(1)] have "match_candidate n \<in> set cs" "\<not> match_user_confirmed n" by auto
  with n(2) cs assms(3) show ?thesis
    using answered_origin by (fastforce simp: same_candidate_def download_authorized_def authorized_origin_def list_all_iff)
qed

lemma chosen_origin:
  assumes "chosen_match sv policy claimed before m" and "download_authorized m"
  shows "authorized_origin claimed before m"
proof -
  obtain ms selected where offer: "offered_choice sv policy claimed before (ms, selected)"
    and choice: "selected = Some m \<or> tv_choice policy (claimed_payload claimed) ms m"
    using assms(1) by (auto simp: chosen_match_alt split: if_splits)
  from choice show ?thesis
  proof
    assume "selected = Some m"
    with offered_origin [OF offer] assms(2) show ?thesis by blast
  next
    assume "tv_choice policy (claimed_payload claimed) ms m"
    then obtain season cursor ms' where
      "select_tv_candidate season cursor (ep_match_rules policy) (art_downloads (pl_artifacts (claimed_payload claimed))) ms
        = (ms', Some m)"
      unfolding tv_choice_def by (metis prod.collapse)
    from select_tv_mem [OF this] obtain n where n: "n \<in> set ms" "same_candidate n m" by blast
    with offered_origin [OF offer, of n] assms(2) same_authorized [OF n(2)] same_origin [OF n(2)] show ?thesis by blast
  qed
qed

lemma effect_key_stable:
  "effect_key_try_new sha a s t operation = Inr key \<Longrightarrow> key = stable_effect_key sha a s t operation"
  by (auto simp: effect_key_try_new_def validated_identity_component_def and_then_Inr_iff split: if_splits)

lemma request_key_stable:
  "qb_reconcile_request_try_new sha a s t stored selected = Inr request \<Longrightarrow>
     effect_key_str (request_key request) = stable_qb_idempotency_key sha a s t"
  unfolding qb_reconcile_request_try_new_def stable_qb_idempotency_key_def
  by (elim and_then_InrE) (auto dest: effect_key_stable split: option.splits if_splits)

lemma torrent_bytes: "input_from_bytes n bytes = Inr input \<Longrightarrow> \<exists>name. input = InputBytes name bytes"
  by (auto simp: input_from_bytes_def split: if_splits)

text \<open>The adapter lists, and adds at most once.\<close>

lemma inspect_notes:
  "\<exists>es. snd (snd (adapter_inspect (sv_qb (watched sv) server) s tag h)) = snd s @ es \<and> list_all quiet es"
  by (auto simp: adapter_inspect_def watched_calls noting_def answers_def case_prod_beta Let_def
      split: sum.splits option.splits)

lemma ensure_notes:
  assumes "ok = permitted sv policy claimed"
    and "\<And>es. list_all quiet es \<Longrightarrow> push_justified sv policy claimed (snd s @ es) server
      \<lparr>cmd_input = spec_input spec, cmd_category = spec_category spec, cmd_save_path = spec_save_path spec,
       cmd_stable_tag = effect_key_str (request_key request)\<rparr>"
  shows "\<exists>es. snd (snd (adapter_ensure (sv_qb (watched sv) server) request spec s)) = snd s @ es \<and>
    justified ok (snd s) es"
proof -
  obtain r s1 where inspect: "adapter_inspect (sv_qb (watched sv) server) s (effect_key_str (request_key request))
      (authoritative_hash request) = (r, s1)" by (rule prod.exhaust)
  with inspect_notes [of sv server s] obtain es where es: "snd s1 = snd s @ es" "list_all quiet es"
    by (metis snd_conv)
  have read: "justified ok (snd s) es" using quiet_justified [OF es(2)] assms(1) by simp
  show ?thesis
  proof (cases "\<exists>obs. r = Inr obs \<and> reconcile_qb_torrent request obs = Add")
    case True
    let ?command = "\<lparr>cmd_input = spec_input spec, cmd_category = spec_category spec, cmd_save_path = spec_save_path spec,
       cmd_stable_tag = effect_key_str (request_key request)\<rparr>"
    have "snd (snd (adapter_ensure (sv_qb (watched sv) server) request spec s)) =
        snd s @ (es @ [TorrentPushed server ?command])"
      using True es(1)
      by (auto simp: adapter_ensure_def inspect watched_calls noting_def case_prod_beta Let_def)
    moreover have "justified ok (snd s) (es @ [TorrentPushed server ?command])"
      using read assms(2) [OF es(2)] assms(1) by (simp add: justified_append)
    ultimately show ?thesis by blast
  next
    case False
    then have "snd (adapter_ensure (sv_qb (watched sv) server) request spec s) = s1"
      by (auto simp: adapter_ensure_def inspect split: sum.splits qb_reconciliation_decision.splits)
    with es(1) read show ?thesis by auto
  qed
qed

lemma push_allowed:
  assumes op: "searches claimed" "\<not> pl_replacement_pending (claimed_payload claimed)"
    and place: "category_for_source (src_tags (pl_source (claimed_payload claimed))) (ep_categories policy) = Inr c"
      "qb_server (ep_qb_servers policy) (xcat_qb_server_id c) = Inr server"
    and chosen: "chosen_match sv policy claimed (events w) m"
  shows "allowed (permitted sv policy claimed)
    (push_selected (watched sv) policy (claimed_key claimed) (claimed_payload claimed) c server ms m) w"
proof (cases "download_authorized m")
  case False
  then show ?thesis by (simp add: push_selected_def)
next
  case True
  let ?t = "cand_torrent_id (match_candidate m)"
  have send: "allowed (permitted sv policy claimed)
      (send_torrent (watched sv) policy (claimed_key claimed) c server ms m existing torrent request input) w1"
    if fetched: "remote (watched sv) (sv_fetch_torrent (watched sv) k ?t) w = (Inr torrent, w1)"
      and request: "qb_reconcile_request_try_new (sv_sha sv) (account_key (claimed_key claimed))
        (subject_id (claimed_key claimed)) ?t stored selected = Inr request"
      and input: "input_from_bytes (?t @ ''.torrent'') (mt_bytes torrent) = Inr input"
    for k existing torrent request input stored selected w1
  proof -
    let ?spec = "add_spec_new input (Some (xcat_qb_category c)) (Some (xcat_qb_save_dir_name c))"
    have grown: "set (events w) \<subseteq> set (events w1 @ es)" for es
      using reads_grow [OF reads(5) fetched] by auto
    have "push_justified sv policy claimed (snd (ew_remote w1) @ es) server
      \<lparr>cmd_input = spec_input ?spec, cmd_category = spec_category ?spec, cmd_save_path = spec_save_path ?spec,
       cmd_stable_tag = effect_key_str (request_key request)\<rparr>" for es
      unfolding push_justified_def
      using op place True chosen_later [OF chosen grown] chosen_origin [OF chosen_later [OF chosen grown] True]
        noted(3) [OF fetched] request_key_stable [OF request] torrent_bytes [OF input]
      by (auto simp: add_spec_new_def simp flip: events_def)
    from ensure_notes [OF refl this] show ?thesis
      by (simp add: allowed_def send_torrent_def remote_def events_def Let_def case_prod_beta)
  qed
  show ?thesis
    unfolding push_selected_def Let_def
    using True by (auto intro!: allowed_attempt allowed_require reads_allowed [OF reads(5)] send)
qed

lemma choose_allowed:
  assumes op: "searches claimed" "\<not> pl_replacement_pending (claimed_payload claimed)"
    and place: "category_for_source (src_tags (pl_source (claimed_payload claimed))) (ep_categories policy) = Inr c"
      "qb_server (ep_qb_servers policy) (xcat_qb_server_id c) = Inr server"
    and offer: "offered_choice sv policy claimed (events w) choice"
    and kind: "is_tv \<longleftrightarrow> head_media_kind (det_head (claimed_detail claimed)) = Tv"
  shows "allowed (permitted sv policy claimed)
    (choose_candidate (watched sv) policy (claimed_key claimed) (claimed_payload claimed) is_tv c server choice) w"
proof (cases choice)
  case (Pair ms selected)
  have film: "chosen_match sv policy claimed (events w) m" if "\<not> is_tv" "selected = Some m" for m
    using that offer kind unfolding chosen_match_alt Pair by auto
  have series: "chosen_match sv policy claimed (events w) m"
    if "is_tv" "pl_tv (claimed_payload claimed) = Some tv"
      "first_uncovered_episode (claimed_payload claimed) tv = Some cursor"
      "select_tv_candidate (tv_season_number tv) cursor (ep_match_rules policy)
        (art_downloads (pl_artifacts (claimed_payload claimed))) ms = (ms', Some m)" for tv cursor ms' m
    using that offer kind unfolding chosen_match_alt tv_choice_def Pair by (metis snd_conv)
  show ?thesis
    unfolding choose_candidate_def Let_def Pair
    by (auto intro!: push_allowed [OF op place] intro: film series split: prod.splits option.splits)
qed

subsection \<open>Deleting\<close>

lemma owned_later: "owned_task policy p before server t \<Longrightarrow> set before \<subseteq> set after \<Longrightarrow> owned_task policy p after server t"
  unfolding owned_task_def by blast

lemma reads_inspect: "reads_only (inspect_download (watched sv) policy key p d)"
  unfolding inspect_download_def
  by (auto intro!: read_steps reads_observe split: option.splits)

lemma reads_inspects: "reads_only (inspect_downloads (watched sv) policy key p ds)"
proof (induction ds)
  case (Cons d ds)
  have "reads_only (attempt (inspect_download (watched sv) policy key p d) Inl (\<lambda>x.
     attempt (inspect_downloads (watched sv) policy key p ds) Inl (\<lambda>xs w'. (Inr (x # xs), w'))))"
    using Cons by (intro reads_rules reads_inspect) (auto simp: reads_only_def)
  then show ?case by (simp add: reads_only_def)
qed (simp add: reads_only_def)

lemma set_insert_row: "x \<in> set (insert_row rows ts) \<Longrightarrow> x \<in> set rows \<or> snd x \<in> set ts"
  by (induction rows ts rule: insert_row.induct) (auto simp: Let_def split: if_splits)

lemma observed_row:
  assumes "observed_torrent request tagged hashed = Inr (Some t)"
  shows "t \<in> set tagged \<union> set hashed"
proof -
  obtain h where "map_of (merge_qb_rows tagged hashed) h = Some t"
    using assms that unfolding observed_torrent_def Let_def and_then_Inr_iff
    by (elim exE conjE) (simp split: qb_reconciliation_decision.split_asm)
  then have "(h, t) \<in> set (insert_row [] (tagged @ hashed))"
    by (auto simp: merge_qb_rows_def dest: map_of_SomeD)
  from set_insert_row [OF this] show ?thesis by auto
qed

lemma observed_listed:
  assumes "observe_download (watched sv) server key d w = (Inr (Some t), w')"
  shows "\<exists>rows. TasksListed server rows \<in> set (events w') \<and> t \<in> set rows"
proof -
  from assms obtain request tagged hashed w1 where
    tagged: "remote (watched sv) (by_exact_tag (sv_qb (watched sv) server) (effect_key_str (request_key request))) w =
      (Inr tagged, w1)"
    and hashed: "(case authoritative_hash request of None \<Rightarrow> Pair (Inr [])
       | Some h \<Rightarrow> remote (watched sv) (by_hash (sv_qb (watched sv) server) h)) w1 = (Inr hashed, w')"
    and row: "observed_torrent request tagged hashed = Inr (Some t)"
    by (auto simp: observe_download_def attempt_Inr require_def split: sum.splits)
  have "TasksListed server tagged \<in> set (events w') \<and> (hashed \<noteq> [] \<longrightarrow> TasksListed server hashed \<in> set (events w'))"
    using noted(4) [OF tagged] hashed noted(5) [of sv server _ w1 hashed w'] reads_grow [OF reads(9), of sv server _ w1 "Inr hashed" w']
    by (auto split: option.splits)
  with observed_row [OF row] show ?thesis by (cases hashed) auto
qed

lemma inspected_owned:
  "inspect_downloads (watched sv) policy key p ds w = (Inr xs, w') \<Longrightarrow> set ds \<subseteq> set (art_downloads (pl_artifacts p)) \<Longrightarrow>
     (server, Some t) \<in> set (map snd xs) \<Longrightarrow> owned_task policy p (events w') server t"
proof (induction ds arbitrary: w xs)
  case (Cons d ds)
  then obtain x w1 xs' where one: "inspect_download (watched sv) policy key p d w = (Inr x, w1)"
    and rest: "inspect_downloads (watched sv) policy key p ds w1 = (Inr xs', w')" and xs: "xs = x # xs'"
    by (auto simp: attempt_Inr)
  have "owned_task policy p (events w1) server t" if x: "snd x = (server, Some t)"
  proof -
    from one x obtain w0 where here: "qb_server (ep_qb_servers policy) (dl_qb_server_id d) = Inr server"
      and seen: "observe_download (watched sv) server key d w = (Inr (Some t), w0)"
      and owned: "require_owned_torrent t (dl_idempotency_key d) = Inr ()"
      and w1: "set (events w0) \<subseteq> set (events w1)"
      by (auto simp: inspect_download_def attempt_Inr require_Inr
          dest: reads_grow [OF reads(7)] split: option.splits if_splits)
    from observed_listed [OF seen] w1 here owned Cons.prems(2) show ?thesis
      unfolding owned_task_def by (auto intro!: bexI [of _ d])
  qed
  with Cons.IH [OF rest] Cons.prems(2,3) xs owned_later [OF _ reads_grow [OF reads_inspects rest]] show ?case by auto
qed simp

lemma delete_allowed:
  assumes op: "searches claimed" "pl_replacement_pending (claimed_payload claimed)"
      "pl_replacement_prepared (claimed_payload claimed)"
  shows "(\<And>server t. (server, Some t) \<in> set tasks \<Longrightarrow> owned_task policy (claimed_payload claimed) (events w) server t) \<Longrightarrow>
    allowed (permitted sv policy claimed) (delete_torrents (watched sv) tasks) w"
proof (induction tasks arbitrary: w)
  case (Cons task tasks)
  obtain server found where task: "task = (server, found)" by (cases task)
  show ?case
  proof (cases found)
    case None
    have "allowed (permitted sv policy claimed) (delete_torrents (watched sv) tasks) w"
      using Cons by auto
    with None show ?thesis by (simp add: task allowed_def)
  next
    case (Some t)
    have delete: "allowed (permitted sv policy claimed)
        (remote (watched sv) (sv_delete_torrent (watched sv) server (ti_hash t))) w"
      unfolding allowed_def watched_calls events_remote
      using op Cons.prems [of server t] by (auto simp: task Some delete_justified_def)
    have rest: "allowed (permitted sv policy claimed) (delete_torrents (watched sv) tasks) w2"
      if "remote (watched sv) (sv_delete_torrent (watched sv) server (ti_hash t)) w = (Inr u, w1)"
        and "remote (watched sv) (by_hash (sv_qb (watched sv) server) (ti_hash t)) w1 = (Inr rows, w2)" for u w1 rows w2
    proof (rule Cons.IH)
      fix server' t'
      assume "(server', Some t') \<in> set tasks"
      then have "owned_task policy (claimed_payload claimed) (events w) server' t'" using Cons.prems by auto
      moreover have "set (events w) \<subseteq> set (events w1)"
        using that(1) events_remote [of sv "\<lambda>_. [TaskDeleted server (ti_hash t)]" "sv_delete_torrent sv server (ti_hash t)" w]
        by (auto simp: watched_calls)
      ultimately show "owned_task policy (claimed_payload claimed) (events w2) server' t'"
        using reads_grow [OF reads(9) that(2)] by (blast intro: owned_later)
    qed
    have "allowed (permitted sv policy claimed) (attempt (remote (watched sv) (sv_delete_torrent (watched sv) server (ti_hash t))) Inl (\<lambda>_.
       attempt (remote (watched sv) (by_hash (sv_qb (watched sv) server) (ti_hash t))) Inl (\<lambda>rows.
       require (reject_if (rows \<noteq> []) message) Inl (\<lambda>_. delete_torrents (watched sv) tasks)))) w" for message
      by (intro allowed_attempt allowed_require delete reads_allowed [OF reads(9)] rest)
    then show ?thesis by (simp add: task Some allowed_def)
  qed
qed (simp add: allowed_def)

lemma replace_allowed:
  fixes sv :: "'q effect_services"
  assumes op: "searches claimed" "pl_replacement_pending (claimed_payload claimed)"
  shows "allowed (permitted sv policy claimed)
    (replace_torrent (watched sv) policy (claimed_key claimed) (claimed_payload claimed)) w"
proof -
  have still: "allowed (permitted sv policy claimed) (\<lambda>w. require (checks w) Inl (\<lambda>_. Pair r) w) w'"
    for checks :: "('q \<times> service_event list) effect_world \<Rightarrow> string + unit" and r :: "string + execution_payload_delta" and w'
    by (auto simp: allowed_def require_def split: sum.splits)
  have clean: "allowed (permitted sv policy claimed) (attempt (files_step f) Inl (\<lambda>paths.
      attempt (delete_torrents (watched sv) (map snd inspected)) Inl
        (\<lambda>_ w. require (checks paths w) Inl (\<lambda>_. Pair r) w))) w'"
    if inspected: "inspect_downloads (watched sv) policy (claimed_key claimed) (claimed_payload claimed)
        (art_downloads (pl_artifacts (claimed_payload claimed))) w = (Inr inspected, w')"
      and prepared: "pl_replacement_prepared (claimed_payload claimed)"
    for f :: "file_tree \<Rightarrow> (string + string list) \<times> file_tree" and inspected w'
      and checks :: "string list \<Rightarrow> ('q \<times> service_event list) effect_world \<Rightarrow> string + unit"
      and r :: "string + execution_payload_delta"
  proof (rule allowed_attempt [OF reads_allowed [OF reads_files]], rule allowed_attempt [OF delete_allowed [OF op prepared] still])
    fix paths w'' server t
    assume step: "files_step f w' = (Inr paths, w'')" and task: "(server, Some t) \<in> set (map snd inspected)"
    show "owned_task policy (claimed_payload claimed) (events w'') server t"
      by (rule owned_later [OF inspected_owned [OF inspected _ task] reads_grow [OF reads_files step]]) simp
  qed
  show ?thesis
    unfolding replace_torrent_def
    by (rule allowed_require, rule allowed_attempt [OF reads_allowed [OF reads_inspects]])
      (simp add: clean)
qed

subsection \<open>All effects\<close>

lemma search_allowed:
  assumes op: "searches claimed"
  shows "allowed (permitted sv policy claimed) (execute_search (watched sv) policy claimed) w"
proof (cases "pl_replacement_pending (claimed_payload claimed)")
  case True
  show ?thesis
    using replace_allowed [OF op True, of sv policy] True
    by (auto simp: execute_search_def execute_replacement_def Let_def intro!: allowed_attempt)
next
  case False
  have recorded: "offered_choice sv policy claimed before (ms, Some m)"
    if "opt_or (confirmed_selection (claimed_payload claimed)) (retry_selection (claimed_payload claimed)) = Some (ms, m)"
    for ms m before
    using that by (simp add: offered_choice_def)
  have searched: "offered_choice sv policy claimed (events w')
      (authorized_selection (match_candidates (sv_unicode sv) cs (ep_match_rules policy)))"
    if "opt_or (confirmed_selection (claimed_payload claimed)) (retry_selection (claimed_payload claimed)) = None"
      and "search_candidates (watched sv) k cookie (subject_id (claimed_key claimed)) (search_title (claimed_payload claimed))
        movie w = (Inr cs, w')" for k cookie movie cs w'
    using that(1) search_answered [OF that(2)] by (auto simp: offered_choice_def)
  show ?thesis
    unfolding execute_search_def Let_def
    using False op
    by (auto intro!: allowed_require allowed_attempt choose_allowed reads_allowed [OF reads_search_candidates]
        recorded searched split: option.splits)
qed

text \<open>C30. Whatever the services answer, what an attempt changes on them is justified by what they answered
  before. It pushes a torrent only in a search that replaces nothing, and then the selected candidate:
  the recorded selection, or the one that the rules select of what M-Team answered, for a series the
  one of its next uncovered episode. That candidate is recorded in the payload as confirmed or
  authorized, or M-Team answered with it to the search for the subject's Douban page or for the IMDb
  page that Douban names for the subject; the command carries the bytes fetched for it, its stable key,
  and the category of the subscription, and goes to the server of that category. It deletes a task
  only in a prepared replacement, and only one that the server of a recorded download has listed and
  that carries the key of that download and no other. The notes of the services are all that is added
  to the run: its result, the services and the files are those of the run without them.\<close>

theorem remote_changes_are_authorized:
  "justified (permitted sv policy claimed) [] (run_events sv policy claimed q tree) \<and>
   forget (execute_effects (watched sv) policy claimed \<lparr>ew_remote = (q, []), ew_files = tree\<rparr>) =
     execute_effects sv policy claimed \<lparr>ew_remote = q, ew_files = tree\<rparr>"
proof -
  have "allowed (permitted sv policy claimed) (execute_effects (watched sv) policy claimed) w" for w
    using reads_allowed [OF reads_meta] search_allowed reads_allowed [OF reads_progress] reads_allowed [OF reads_link]
    by (cases "token_operation (current_token (claimed_attempt claimed))") (simp_all add: execute_effects_def [abs_def])
  from this [of "\<lparr>ew_remote = (q, []), ew_files = tree\<rparr>"] show ?thesis
    by (auto simp: allowed_def run_events_def events_def watched_run forget_world_def)
qed

text \<open>A search that M-Team answers pushes one torrent.\<close>

theorem remote_changes_are_authorized_witness:
  "TorrentPushed sample_server pushed_command \<in> set (run_events sample_services sample_policy searching_claim [] (\<lambda>_. None)) \<and>
   justified (permitted sample_services sample_policy searching_claim) []
     (run_events sample_services sample_policy searching_claim [] (\<lambda>_. None))"
proof
  show "TorrentPushed sample_server pushed_command \<in> set (run_events sample_services sample_policy searching_claim [] (\<lambda>_. None))"
    by code_simp
qed (rule remote_changes_are_authorized [THEN conjunct1])

end
