(* ===== verification/Link_Theorems.thy ===== *)
theory Link_Theorems
  imports Effect_Theorems Hardlink_Theorems Mutation_Theorems
begin

text \<open>
  What a finished link attempt means: every planned file is one inode under its source and its
  target, a series has all its target episodes, and every target lies in the directory of the
  category.
\<close>

subsection \<open>A run that succeeds\<close>

lemma attempt_result:
  "attempt m fail k w = (r, w') \<Longrightarrow> (\<And>e. fail e \<noteq> r) \<Longrightarrow> (\<And>x w1. m w = (Inr x, w1) \<Longrightarrow> k x w1 = (r, w') \<Longrightarrow> thesis) \<Longrightarrow> thesis"
  by (auto simp: attempt_def split: prod.splits sum.splits)

lemma require_result:
  "require m fail k w = (r, w') \<Longrightarrow> (\<And>e. fail e \<noteq> r) \<Longrightarrow> (\<And>x. m = Inr x \<Longrightarrow> k x w = (r, w') \<Longrightarrow> thesis) \<Longrightarrow> thesis"
  by (auto simp: require_def split: sum.splits)

lemma collect_all_Inr: "collect_all f xs = Inr ys \<longleftrightarrow> list_all2 (\<lambda>x y. f x = Inr y) xs ys"
  by (induction xs arbitrary: ys) (auto simp: and_then_Inr_iff list_all2_Cons1)

lemma plans_nonempty: "link_plans p c d fs = Inr plans \<Longrightarrow> plans \<noteq> []"
  by (auto simp: link_plans_def Let_def and_then_Inr_iff split: if_splits)

text \<open>The planned files of an attempt are the same inode at both ends.\<close>

definition both_ends :: "file_tree \<Rightarrow> link_file_payload \<Rightarrow> bool" where
  "both_ends tree f \<longleftrightarrow>
     (\<exists>i. tree (path_components (lkf_source_path f)) = Some (RegularFile i) \<and>
        tree (path_components (lkf_target_path f)) = Some (RegularFile i))"

lemma linked_files_real:
  assumes effects: "collect_all (\<lambda>plan. link_file_effect_try_new (plan_source_path plan) (plan_target_path plan)
      (plan_persisted_outcome plan)) plans = Inr effects"
    and applied: "apply_hardlinks env effects tree = (Inr results, tree')"
    and grows: "\<forall>n t. t \<subseteq>\<^sub>m le_meanwhile env n t"
  shows "length results = length plans"
    and "f \<in> set (map2 (linked_file tv) plans results) \<Longrightarrow> lkf_outcome f = LinkLinked \<Longrightarrow> both_ends tree' f"
proof -
  obtain planned rs where plan: "plan_link_retry effects (map domain_probe (map (probe_file env tree) effects)) = Inr planned"
    and all: "apply_all env 0 (map (\<lambda>f. (planned_from env tree f, probe_file env tree f)) effects) tree = (results, tree')"
    using applied by (auto simp: apply_hardlinks_def Let_def plan_link_retry_probed split: sum.splits prod.splits)
  from apply_all_grows [OF all map_le_refl] grows
  have le: "tree \<subseteq>\<^sub>m tree'" and linked: "list_all2 (\<lambda>f r. hl_outcome r = LinkLinked \<longrightarrow> is_linked tree tree' f) effects results"
    by auto
  have same: "list_all2 (\<lambda>plan e. effect_source_path e = plan_source_path plan \<and> effect_target_path e = plan_target_path plan)
      plans effects"
    using effects unfolding collect_all_Inr
    by (rule list_all2_mono) (auto simp: link_file_effect_try_new_def split: if_splits)
  show len: "length results = length plans"
    using linked same by (simp add: list_all2_lengthD)
  assume f: "f \<in> set (map2 (linked_file tv) plans results)" and outcome: "lkf_outcome f = LinkLinked"
  from f obtain i where i: "i < length plans" "f = linked_file tv (plans ! i) (results ! i)"
    using len by (auto simp: in_set_conv_nth)
  with outcome linked same len have "is_linked tree tree' (effects ! i)"
    "effect_source_path (effects ! i) = plan_source_path (plans ! i)"
    "effect_target_path (effects ! i) = plan_target_path (plans ! i)"
    by (auto simp: list_all2_conv_all_nth linked_file_def Let_def split: prod.splits)
  then show "both_ends tree' f"
    using i le unfolding both_ends_def is_linked_def
    by (auto simp: linked_file_def Let_def map_le_def split: prod.splits) (metis domI)
qed

text \<open>The files a complete torrent of the download was listed with\<close>

definition listed_files ::
  "'q effect_services \<Rightarrow> execution_effect_policy \<Rightarrow> download_artifact_payload \<Rightarrow> qb_torrent_file list \<Rightarrow> bool" where
  "listed_files sv policy existing fs \<longleftrightarrow>
     (\<exists>server t q q'. qb_server (ep_qb_servers policy) (dl_qb_server_id existing) = Inr server \<and>
        torrent_is_complete t \<and> sv_torrent_files sv server (ti_hash t) q = (Inr fs, q'))"

lemma execute_link_completed:
  assumes "execute_link sv policy claimed w = (EffectFinished LinkCompleted delta, w')"
  obtains c existing updated fs now w1 where
    "current_download (det_payload (claimed_detail claimed)) = Some existing"
    "category_for_source (src_tags (pl_source (det_payload (claimed_detail claimed)))) (ep_categories policy) = Inr c"
    "listed_files sv policy existing fs"
    "link_download sv policy (claimed_detail claimed) c existing updated fs now w1 = (EffectFinished LinkCompleted delta, w')"
proof -
  let ?p = "det_payload (claimed_detail claimed)"
  from assms obtain c existing server t fs w1 w2 updated now where
      existing: "current_download ?p = Some existing"
    and c: "category_for_source (src_tags (pl_source ?p)) (ep_categories policy) = Inr c"
    and server: "qb_server (ep_qb_servers policy) (dl_qb_server_id existing) = Inr server"
    and files: "remote sv (sv_torrent_files sv server (ti_hash t)) w1 = (Inr fs, w2)"
    and complete: "torrent_is_complete t"
    and link: "link_download sv policy (claimed_detail claimed) c existing updated fs now w2
      = (EffectFinished LinkCompleted delta, w')"
    unfolding execute_link_def Let_def
    by (elim attempt_result require_result) (auto simp: effect_failed_def split: if_splits option.splits)
  from files have "sv_torrent_files sv server (ti_hash t) (ew_remote w1) = (Inr fs, ew_remote w2)"
    by (auto simp: remote_def Let_def split: prod.splits)
  with server complete have "listed_files sv policy existing fs"
    unfolding listed_files_def by blast
  from that [OF existing c this link] show thesis .
qed

text \<open>A payload whose series has at most its title read again\<close>

definition retitled :: "subscription_payload \<Rightarrow> subscription_payload \<Rightarrow> bool" where
  "retitled p q \<longleftrightarrow> q = p \<or>
     (\<exists>tv title. pl_tv p = Some tv \<and> is_blank (tv_localized_title tv) \<and>
        q = p\<lparr>pl_tv := Some (tv\<lparr>tv_localized_title := title\<rparr>)\<rparr>)"

lemma refresh_title_retitled: "refresh_title sv policy subject p w = (Inr q, w') \<Longrightarrow> retitled p q"
  unfolding refresh_title_def retitled_def
  by (auto simp: attempt_def and_then_Inr_iff split: option.splits if_splits sum.splits prod.splits)

text \<open>A recorded file stands for its plan.\<close>

definition records_plan :: "link_plan \<Rightarrow> link_file_payload \<Rightarrow> bool" where
  "records_plan plan f \<longleftrightarrow> lkf_source_path f = plan_source_path plan \<and>
     lkf_target_path f = plan_target_path plan \<and> lkf_size f = plan_size plan"

lemma linked_files_plans:
  "length results = length plans \<Longrightarrow> list_all2 records_plan plans (map2 (linked_file tv) plans results)"
  by (auto simp: list_all2_conv_all_nth records_plan_def linked_file_def Let_def split: prod.splits)

text \<open>The episodes of the target that no linked file covers\<close>

definition episode_held :: "subscription_payload \<Rightarrow> tv_detail_payload \<Rightarrow> link_file_payload list \<Rightarrow> u32 \<Rightarrow> bool" where
  "episode_held p tv fs episode \<longleftrightarrow>
     (\<exists>f \<in> (\<Union>l \<in> set (art_links (pl_artifacts p)). set (lk_files l)) \<union> set fs.
        file_covers (tv_season_number tv) episode f)"

lemma tv_complete_iff:
  "tv_complete_after_link p tv fs \<longleftrightarrow>
     (\<forall>episode \<in> {tv_target_start_episode tv..tv_target_end_episode tv}. episode_held p tv fs episode)"
  by (simp add: tv_complete_after_link_def list_all_iff list_ex_iff set_u32_range episode_held_def)

lemma link_download_completed:
  assumes run: "link_download sv policy detail c existing updated fs now w = (EffectFinished LinkCompleted delta, w')"
    and grows: "\<forall>n t. t \<subseteq>\<^sub>m le_meanwhile (sv_links sv) n t"
  shows "\<exists>artifact q plans. delta = DeltaLink [updated] [artifact] \<and> retitled (det_payload detail) q \<and>
    link_plans q c existing fs = Inr plans \<and> plans \<noteq> [] \<and> list_all2 records_plan plans (lk_files artifact) \<and>
    lk_state artifact = StCompleted \<and>
    (\<forall>f \<in> set (lk_files artifact). lkf_outcome f = LinkLinked \<and> both_ends (ew_files w') f) \<and>
    (head_media_kind (det_head detail) = Tv \<longrightarrow> (\<forall>tv. pl_tv (det_payload detail) = Some tv \<longrightarrow>
       (\<forall>episode \<in> {tv_target_start_episode tv..tv_target_end_episode tv}.
          episode_held (det_payload detail) tv (lk_files artifact) episode)))"
proof -
  let ?p = "det_payload detail"
  from run obtain q plans effects results w1 w0 where
      title: "refresh_title sv policy (subject_id (head_key (det_head detail))) ?p w = (Inr q, w0)"
    and plans: "link_plans q c existing fs = Inr plans"
    and effects: "collect_all (\<lambda>plan. link_file_effect_try_new (plan_source_path plan) (plan_target_path plan)
        (plan_persisted_outcome plan)) plans = Inr effects"
    and applied: "apply_links sv effects w1 = (Inr results, w')"
    and disposition: "link_disposition policy detail (map2 (linked_file (pl_tv ?p)) plans results) = LinkCompleted"
    and delta: "delta = DeltaLink [updated] [link_artifact sv (head_key (det_head detail)) c existing plans
        (map2 (linked_file (pl_tv ?p)) plans results) now]"
    unfolding link_download_def Let_def
    by (elim attempt_result require_result) (auto)
  let ?files = "map2 (linked_file (pl_tv ?p)) plans results"
  from applied obtain tree' where hard: "apply_hardlinks (sv_links sv) effects (ew_files w1) = (Inr results, tree')"
    and w': "ew_files w' = tree'"
    by (auto simp: apply_links_def files_step_def Let_def split: option.splits prod.splits)
  note real = linked_files_real [OF effects hard grows]
  note recorded = linked_files_plans [OF real(1)]
  have linked: "all_linked ?files"
    and complete: "head_media_kind (det_head detail) = Tv \<Longrightarrow> pl_tv ?p = Some tv \<Longrightarrow> tv_complete_after_link ?p tv ?files" for tv
    using disposition by (auto simp: link_disposition_def split: if_splits)
  moreover have "lkf_outcome f = LinkLinked \<and> both_ends (ew_files w') f" if "f \<in> set ?files" for f
    using real(2) [OF that] linked that w' by (auto simp: all_linked_def list_all_iff)
  moreover have "episode_held ?p tv ?files episode"
    if "head_media_kind (det_head detail) = Tv" "pl_tv ?p = Some tv"
      "episode \<in> {tv_target_start_episode tv..tv_target_end_episode tv}" for tv episode
    using complete [OF that(1,2)] that(3) unfolding tv_complete_iff by blast
  moreover define artifact where "artifact =
    link_artifact sv (head_key (det_head detail)) c existing plans ?files now"
  then have "lk_files artifact = ?files" "lk_state artifact = StCompleted"
    using linked by (simp_all add: link_artifact_def)
  ultimately show ?thesis
    unfolding delta artifact_def [symmetric]
    using refresh_title_retitled [OF title] plans plans_nonempty [OF plans] recorded
    by (intro exI [of _ artifact] exI [of _ q] exI [of _ plans] conjI ballI impI allI refl) simp_all
qed

lemma only_links_complete:
  assumes "execute_effects sv policy claimed w = (EffectFinished LinkCompleted delta, w')"
  shows "execute_link sv policy claimed w = (EffectFinished LinkCompleted delta, w')"
  using assms yields_meta [of sv policy claimed] yields_search [of sv policy claimed] yields_progress [of sv policy claimed]
  by (auto simp: execute_effects_def yields_def split: execution_operation.splits dest!: spec [of _ w])

text \<open>C31. When an attempt ends with the subscription completed, it has linked every file it planned: the
  files it records stand one for one, in order, for the plans made of the files qBittorrent listed for the
  complete torrent of the current download; every recorded file is one inode under its source and its
  target; and every target episode of a series is covered by a linked file, as long as no one removes
  files while the links are made.\<close>

theorem completion_is_real:
  assumes "execute_effects sv policy claimed w = (EffectFinished LinkCompleted delta, w')"
    and "\<forall>n t. t \<subseteq>\<^sub>m le_meanwhile (sv_links sv) n t"
  shows "\<exists>updated artifact c existing fs q plans. delta = DeltaLink [updated] [artifact] \<and>
    current_download (det_payload (claimed_detail claimed)) = Some existing \<and>
    category_for_source (src_tags (pl_source (det_payload (claimed_detail claimed)))) (ep_categories policy) = Inr c \<and>
    listed_files sv policy existing fs \<and> retitled (det_payload (claimed_detail claimed)) q \<and>
    link_plans q c existing fs = Inr plans \<and> plans \<noteq> [] \<and> list_all2 records_plan plans (lk_files artifact) \<and>
    lk_state artifact = StCompleted \<and>
    (\<forall>f \<in> set (lk_files artifact). lkf_outcome f = LinkLinked \<and> both_ends (ew_files w') f) \<and>
    (head_media_kind (det_head (claimed_detail claimed)) = Tv \<longrightarrow>
       (\<forall>tv. pl_tv (det_payload (claimed_detail claimed)) = Some tv \<longrightarrow>
          (\<forall>episode \<in> {tv_target_start_episode tv..tv_target_end_episode tv}.
             episode_held (det_payload (claimed_detail claimed)) tv (lk_files artifact) episode)))"
proof (rule execute_link_completed [OF only_links_complete [OF assms(1)]])
  fix c existing updated fs now w1
  assume "current_download (det_payload (claimed_detail claimed)) = Some existing"
    "category_for_source (src_tags (pl_source (det_payload (claimed_detail claimed)))) (ep_categories policy) = Inr c"
    "listed_files sv policy existing fs"
    "link_download sv policy (claimed_detail claimed) c existing updated fs now w1 = (EffectFinished LinkCompleted delta, w')"
  with link_download_completed [OF this(4) assms(2)] show ?thesis by blast
qed

text \<open>A complete torrent of one file\<close>

definition sample_key_tag :: string where
  "sample_key_tag = stable_qb_idempotency_key (\<lambda>_. ''d'') ''acc'' ''s1'' ''42''"

definition sample_download :: download_artifact_payload where
  "sample_download =
     \<lparr>dl_idempotency_key = ''k'', dl_torrent_id = ''42'', dl_torrent_title = ''Film 2026'', dl_qb_server_id = ''qb'',
      dl_qb_server_name = None, dl_qb_category = ''films'', dl_qb_save_dir_name = ''films'', dl_qb_identifier = None,
      dl_qb_hash = None, dl_qb_name = None, dl_qb_state = None, dl_torrent_download_url = None,
      dl_mteam_torrent_url = None, dl_state = DlDownloaded, dl_progress = None, dl_total_size = None, dl_files = [],
      dl_pushed_at = Some 900, dl_checked_at = None, dl_completed_at = None\<rparr>"

definition linking_claim :: claimed_subscription where
  "linking_claim = searching_claim
     \<lparr>claimed_detail := (claimed_detail searching_claim)\<lparr>det_payload := tagged_payload
        \<lparr>pl_artifacts := \<lparr>art_downloads = [sample_download], art_links = []\<rparr>\<rparr>\<rparr>,
      claimed_attempt := \<lparr>current_token = sample_token\<lparr>token_operation := OpLink\<rparr>, current_lease_until = 2000\<rparr>\<rparr>"

definition seeding_services :: "unit effect_services" where
  "seeding_services =
     \<lparr>sv_subject_detail = (\<lambda>_ _. offline), sv_tv_seasons = (\<lambda>_ _. offline), sv_tmdb = (\<lambda>_ _ _. offline),
      sv_mteam_search = (\<lambda>_ _. offline), sv_fetch_torrent = (\<lambda>_ _. offline), sv_cache_poster = (\<lambda>_ _. offline),
      sv_qb = (\<lambda>_. \<lparr>by_exact_tag = (\<lambda>tag q. (Inr [\<lparr>ti_hash = sample_torrent_hash, ti_name = ''Film 2026'',
          ti_category = [], ti_tags = tag, ti_save_path = [], ti_content_path = [], ti_progress = 0x3FF0000000000000,
          ti_size = 7, ti_downloaded = 7, ti_completion_on = 950, ti_state = ''uploading''\<rparr>], q)),
        by_hash = (\<lambda>_ q. (Inr [], q)), add_torrent = (\<lambda>_. offline)\<rparr>),
      sv_torrent_files = (\<lambda>_ _ q. (Inr [\<lparr>tf_name = ''Film.2026/Film.iso'', tf_size = 7,
        tf_progress = 0x3FF0000000000000, tf_priority = 1\<rparr>], q)),
      sv_delete_torrent = (\<lambda>_ _. offline), sv_now = (\<lambda>_. 1000), sv_blocking = (\<lambda>_. None), sv_sha = (\<lambda>_. ''d''),
      sv_unicode = sample_unicode, sv_links = sample_links, sv_remove_file = (\<lambda>_. None),
      sv_remove_dir = (\<lambda>_ _. True), sv_others = (\<lambda>_ tree. tree)\<rparr>"

definition seeded_world :: "unit effect_world" where
  "seeded_world = \<lparr>ew_remote = (), ew_files =
     [(True, [''data'', ''films'', ''Film.2026'', ''Film.iso'']) \<mapsto>
        RegularFile \<lparr>identity_namespace = 1, identity_object = 7\<rparr>]\<rparr>"

fun finished_delta :: "execution_effect_result \<Rightarrow> finish_execution_disposition \<Rightarrow> execution_payload_delta option" where
  "finished_delta (EffectFinished d delta) expected = (if d = expected then Some delta else None)"
| "finished_delta _ _ = None"

fun linked_targets :: "execution_payload_delta \<Rightarrow> string list" where
  "linked_targets (DeltaLink _ artifacts) = concat (map (\<lambda>a. map lkf_target_path (lk_files a)) artifacts)"
| "linked_targets _ = []"

theorem completion_is_real_witness:
  "\<exists>delta w' i. execute_effects seeding_services sample_policy linking_claim seeded_world = (EffectFinished LinkCompleted delta, w') \<and>
     linked_targets delta = [''/media/films/Film.2026/Film.iso''] \<and>
     ew_files w' (path_components ''/media/films/Film.2026/Film.iso'') = Some (RegularFile i)"
proof -
  let ?run = "execute_effects seeding_services sample_policy linking_claim seeded_world"
  have "map_option linked_targets (finished_delta (fst ?run) LinkCompleted) = Some [''/media/films/Film.2026/Film.iso'']"
    by code_simp
  then obtain delta w' where run: "?run = (EffectFinished LinkCompleted delta, w')"
    and targets: "linked_targets delta = [''/media/films/Film.2026/Film.iso'']"
    by (cases "fst ?run"; cases ?run) (auto split: if_splits)
  have "\<forall>n t. t \<subseteq>\<^sub>m le_meanwhile (sv_links seeding_services) n t"
    by (simp add: seeding_services_def sample_links_def)
  from completion_is_real [OF run this] obtain updated artifact where artifact: "delta = DeltaLink [updated] [artifact]"
    and ends: "\<forall>f \<in> set (lk_files artifact). lkf_outcome f = LinkLinked \<and> both_ends (ew_files w') f"
    by metis
  from targets artifact obtain f where f: "f \<in> set (lk_files artifact)" "lkf_target_path f = ''/media/films/Film.2026/Film.iso''"
    by (cases "lk_files artifact") auto
  with ends obtain i where "ew_files w' (path_components ''/media/films/Film.2026/Film.iso'') = Some (RegularFile i)"
    by (auto simp: both_ends_def)
  with run targets show ?thesis by blast
qed

end
