(* ===== verification/Link_Layout.thy ===== *)
theory Link_Layout
  imports Link_Plans Rust_Text
begin

text \<open>
  Where the planned links lie: below the link directory of the category, and their sources below its
  download directory, whatever the names of the torrent's files are.
\<close>

subsection \<open>Joined paths\<close>

text \<open>A name that is one component of a path\<close>

definition plain_name :: "string \<Rightarrow> bool" where
  "plain_name n \<longleftrightarrow> n \<noteq> [] \<and> CHR ''/'' \<notin> set n \<and> n \<noteq> ''.'' \<and> n \<noteq> ''..''"

abbreviation plain_names :: "string list \<Rightarrow> bool" where
  "plain_names ns \<equiv> ns \<noteq> [] \<and> (\<forall>n \<in> set ns. plain_name n)"

lemma split_path_string: "plain_names ns \<Longrightarrow> split_on CHR ''/'' [] (path_string ns) = ns"
  unfolding path_string_def
  by (induction "''/''" ns rule: join_with.induct)
    (auto simp: plain_name_def split_on_plain split_on_append)

lemma path_string_head: "plain_names ns \<Longrightarrow> \<exists>c s. path_string ns = c # s \<and> c \<noteq> CHR ''/''"
  unfolding path_string_def
  by (cases ns rule: remdups_adj.cases; cases "hd ns") (auto simp: plain_name_def)

definition is_real_part :: "string \<Rightarrow> bool" where
  "is_real_part p \<longleftrightarrow> p \<noteq> [] \<and> p \<noteq> ''.''"

lemma path_components_parts:
  "path_components s =
     (let absolute = (case s of c # _ \<Rightarrow> c = CHR ''/'' | [] \<Rightarrow> False); parts = split_on CHR ''/'' [] s in
      (absolute, (if \<not> absolute \<and> hd parts = ''.'' then [hd parts] else []) @
        filter is_real_part (if \<not> absolute \<and> hd parts = ''.'' then tl parts else parts)))"
  using split_on_nonempty [of "CHR ''/''" "[]" s]
  by (cases "split_on CHR ''/'' [] s") (auto simp: path_components_def Let_def is_real_part_def [abs_def])

lemma real_plain: "plain_names ns \<Longrightarrow> filter is_real_part ns = ns"
  by (auto simp: plain_name_def is_real_part_def)

lemma last_out: "xs \<noteq> [] \<Longrightarrow> last xs = c \<Longrightarrow> xs @ ys = butlast xs @ c # ys"
  by (induction xs) auto

lemma path_join_components:
  assumes "plain_names ns"
  shows "path_components (path_join root (path_string ns)) =
    (fst (path_components root), snd (path_components root) @ ns)"
proof -
  obtain c s where head: "path_string ns = c # s" "c \<noteq> CHR ''/''" using path_string_head [OF assms] by blast
  have relative: "\<not> fst (path_components (path_string ns))"
    by (simp add: path_components_parts Let_def head)
  have first: "hd ns \<noteq> ''.''" using assms by (cases ns) (auto simp: plain_name_def)
  note parts = split_path_string [OF assms] real_plain [OF assms]
  show ?thesis
  proof (cases "root = []")
    case True
    then have "path_join root (path_string ns) = path_string ns"
      using relative by (simp add: path_join_def)
    moreover have "path_components [] = (False, [])" by (simp add: path_components_def)
    moreover have "path_components (path_string ns) = (False, ns)"
      unfolding path_components_parts [of "path_string ns"] Let_def parts(1) using first parts(2) by (simp add: head)
    ultimately show ?thesis using True by simp
  next
    case False
    then obtain u where root: "root = u \<and> last u \<noteq> CHR ''/'' \<or> root = u @ ''/''"
      by (metis append_butlast_last_id)
    have nonempty: "\<exists>P Ps. split_on CHR ''/'' [] v = P # Ps" for v
      using split_on_nonempty by (cases "split_on CHR ''/'' [] v") auto
    have joined: "path_join root (path_string ns) = (if last root = CHR ''/'' then root else root @ ''/'') @ path_string ns"
      using False relative by (simp add: path_join_def)
    have split: "split_on CHR ''/'' [] (path_join root (path_string ns)) =
        (if last root = CHR ''/'' then split_on CHR ''/'' [] (butlast root) else split_on CHR ''/'' [] root) @ ns"
    proof (cases "last root = CHR ''/''")
      case True
      then have "path_join root (path_string ns) = butlast root @ CHR ''/'' # path_string ns"
        using last_out [OF False True] by (simp add: joined)
      with True show ?thesis by (simp add: split_on_append parts(1))
    qed (simp add: joined split_on_append parts(1))
    have trailing: "split_on CHR ''/'' [] root = split_on CHR ''/'' [] (butlast root) @ [[]]" if "last root = CHR ''/''"
      using last_out [OF False that, of "[]"] split_on_append [of "CHR ''/''" "[]" "butlast root" "[]"] by simp
    have same_head: "(case path_join root (path_string ns) of c # _ \<Rightarrow> c = CHR ''/'' | [] \<Rightarrow> False) =
        (case root of c # _ \<Rightarrow> c = CHR ''/'' | [] \<Rightarrow> False)"
      unfolding joined using False by (cases root) auto
    obtain P Ps where P: "split_on CHR ''/'' [] (if last root = CHR ''/'' then butlast root else root) = P # Ps"
      using nonempty by blast
    have left: "split_on CHR ''/'' [] root = P # Ps @ (if last root = CHR ''/'' then [[]] else [])"
      using P trailing by (cases "last root = CHR ''/''") auto
    have right: "split_on CHR ''/'' [] (path_join root (path_string ns)) = P # Ps @ ns"
      using P split by (cases "last root = CHR ''/''") auto
    show ?thesis
      unfolding path_components_parts [of root] path_components_parts [of "path_join root (path_string ns)"] left right
        same_head Let_def
      using parts(2) by (auto simp: is_real_part_def [of "[]"])
  qed
qed

subsection \<open>Titles and file names\<close>

text \<open>A text whose characters of several bytes contain no separator, as every UTF-8 text\<close>

definition utf8_text :: "string \<Rightarrow> bool" where
  "utf8_text s \<longleftrightarrow> (\<forall>x \<in> set (char_chunks s). length x = 1 \<or> CHR ''/'' \<notin> set x)"

lemma set_join_with: "c \<in> set (join_with sep ps) \<Longrightarrow> c \<in> set sep \<or> (\<exists>p \<in> set ps. c \<in> set p)"
  by (induction sep ps rule: join_with.induct) auto

lemma set_words_of: "w \<in> set (words_of acc xs) \<Longrightarrow> c \<in> set w \<Longrightarrow> c \<in> set acc \<or> (\<exists>x \<in> set xs. c \<in> set x)"
  by (induction acc xs rule: words_of.induct) (force split: if_splits)+

lemma set_split_whitespace: "w \<in> set (split_whitespace s) \<Longrightarrow> c \<in> set w \<Longrightarrow> c \<in> set s"
proof -
  assume "w \<in> set (split_whitespace s)" "c \<in> set w"
  from set_words_of [OF this [unfolded split_whitespace_def]] have "c \<in> set (concat (char_chunks s))"
    unfolding set_concat by auto
  then show ?thesis by simp
qed

lemma safe_title_no_sep:
  assumes "utf8_text (str_trim v)"
  shows "CHR ''/'' \<notin> set (safe_title_component v)"
proof
  assume "CHR ''/'' \<in> set (safe_title_component v)"
  then have "CHR ''/'' \<in> set (concat (List.map_filter safe_chunk (char_chunks (str_trim v))))"
    unfolding safe_title_component_def by (auto dest!: set_join_with set_split_whitespace)
  then obtain x y where x: "x \<in> set (char_chunks (str_trim v))" "safe_chunk x = Some y" "CHR ''/'' \<in> set y"
    by (auto simp: List.map_filter_def)
  then have "y = x" "\<not> (length x = 1 \<and> hd x \<in> set reserved_characters)"
    by (auto simp: safe_chunk_def split: if_splits)
  with x assms show False
    by (auto simp: utf8_text_def reserved_characters_def length_Suc_conv)
qed

lemma no_sep_in_component: "n \<in> set (snd (path_components s)) \<Longrightarrow> n \<noteq> [] \<and> CHR ''/'' \<notin> set n"
proof -
  assume "n \<in> set (snd (path_components s))"
  then have "n \<in> set (split_on CHR ''/'' [] s) \<and> (n = ''.'' \<or> is_real_part n)"
    using split_on_nonempty [of "CHR ''/''" "[]" s]
    by (auto simp: path_components_parts Let_def split: if_splits intro: list.set_sel(2)) (metis hd_in_set)
  with split_on_no_sep [of n "CHR ''/''" "[]" s] show ?thesis by (auto simp: is_real_part_def)
qed

lemma safe_relative_plain: "safe_relative_path s = Some ns \<Longrightarrow> plain_names ns"
proof -
  assume "safe_relative_path s = Some ns"
  then have ns: "ns = filter (\<lambda>n. n \<noteq> ''.'') (snd (path_components (str_trim s)))" "ns \<noteq> []"
    and up: "''..'' \<notin> set (snd (path_components (str_trim s)))"
    by (simp_all add: safe_relative_path_def case_prod_beta Let_def split: if_splits)
  have "plain_name n" if "n \<in> set ns" for n
    using that ns(1) up no_sep_in_component [of n "str_trim s"] by (auto simp: plain_name_def)
  with ns(2) show ?thesis by blast
qed

lemma decimal_plain: "c \<in> set (decimal n) \<Longrightarrow> is_digit c"
  by (induction n rule: decimal.induct)
    (subst (asm) (2) decimal.simps, auto simp: is_digit_def digit_char_def less_eq_char_def split: if_splits)

lemma no_sep_decimal: "CHR ''/'' \<notin> set (decimal n)"
  using decimal_plain [of "CHR ''/''" n] by (auto simp: is_digit_def less_eq_char_def)

lemma title_year_plain: "CHR ''/'' \<notin> set t \<Longrightarrow> t \<noteq> [] \<Longrightarrow> plain_name (t @ ''.'' @ decimal n)"
proof -
  assume t: "CHR ''/'' \<notin> set t" "t \<noteq> []"
  have "2 < length (t @ ''.'' @ decimal n)"
    using t(2) decimal_nonempty [of n] by (cases t; cases "decimal n") simp_all
  moreover have "CHR ''/'' \<notin> set (t @ ''.'' @ decimal n)" using t(1) no_sep_decimal by simp
  ultimately show ?thesis unfolding plain_name_def by (auto dest!: arg_cong [where f = length])
qed

lemma season_plain: "plain_name (''Season '' @ u32_02 n)"
  using no_sep_decimal by (simp add: plain_name_def u32_02_def decimal02_def)

subsection \<open>Plans\<close>

text \<open>The directories of a title under the link directory of its category\<close>

definition title_directories :: "subscription_payload \<Rightarrow> u16 \<Rightarrow> string list" where
  "title_directories p year =
     (safe_title_component (directory_title p) @ ''.'' @ decimal (unat year)) #
     (case pl_tv p of None \<Rightarrow> [] | Some tv \<Rightarrow> [''Season '' @ u32_02 (tv_season_number tv)])"

lemma path_join_name: "plain_name n \<Longrightarrow> path_components (path_join root n) =
    (fst (path_components root), snd (path_components root) @ [n])"
  using path_join_components [of "[n]" root] by (simp add: path_string_def)

lemma target_root_components:
  assumes "utf8_text (str_trim (directory_title p))" and "safe_title_component (directory_title p) \<noteq> []"
  shows "path_components (link_target_root c (safe_title_component (directory_title p)) year
      (map_option tv_season_number (pl_tv p))) =
    (fst (path_components (str_trim (xcat_link_target_dir c))),
     snd (path_components (str_trim (xcat_link_target_dir c))) @ title_directories p year)"
proof -
  note title = path_join_name [OF title_year_plain [OF safe_title_no_sep [OF assms(1)] assms(2)]]
  have two: "(xs @ [a]) @ [b] = xs @ [a, b]" for xs and a b :: string by simp
  show ?thesis
    unfolding link_target_root_def Let_def title_directories_def
    by (cases "pl_tv p") (simp_all only: option.map option.case path_join_name [OF season_plain] title
        fst_conv snd_conv two)
qed

text \<open>All files of the torrent lie in one directory.\<close>

definition in_one_directory :: "string list list \<Rightarrow> bool" where
  "in_one_directory paths \<longleftrightarrow> (\<exists>first. \<forall>names \<in> set paths. hd names = first \<and> tl names \<noteq> [])"

lemma common_directory:
  assumes "names \<in> set paths" and "[] \<notin> set paths"
  shows "(case common_top_level_directory paths of
      Some root \<Rightarrow> if hd names = root then tl names else names | None \<Rightarrow> names) =
    (if in_one_directory paths then tl names else names)"
proof -
  obtain first rest more where paths: "paths = (first # rest) # more"
    using assms by (cases paths; cases "hd paths") auto
  have same: "(case ns of a # _ # _ \<Rightarrow> a = first | _ \<Rightarrow> False) \<longleftrightarrow> hd ns = first \<and> tl ns \<noteq> []"
    if "ns \<in> set paths" for ns
    using that assms(2) by (cases ns rule: remdups_adj.cases) auto
  have "list_all (\<lambda>p. case p of a # _ # _ \<Rightarrow> a = first | _ \<Rightarrow> False) paths \<longleftrightarrow>
      (\<forall>ns \<in> set paths. hd ns = first \<and> tl ns \<noteq> [])"
    unfolding list_all_iff using same by blast
  moreover have "\<dots> \<longleftrightarrow> in_one_directory paths"
    using paths by (fastforce simp: in_one_directory_def)
  ultimately have common: "common_top_level_directory paths = (if in_one_directory paths then Some first else None)"
    by (simp add: common_top_level_directory_def paths del: list.pred_inject)
  show ?thesis
  proof (cases "in_one_directory paths")
    case True
    then have "hd names = first" using assms(1) paths by (auto simp: in_one_directory_def)
    with True common show ?thesis by simp
  qed (simp add: common)
qed

text \<open>A plan for a file: its source is the file under the download directory, by the names of the torrent;
  its target lies under the directories of the title, by the same names, or without the first if all
  files of the torrent lie in one directory.\<close>

definition safe_names :: "qb_torrent_file list \<Rightarrow> string list list" where
  "safe_names fs = List.map_filter (\<lambda>f. safe_relative_path (tf_name f)) fs"

definition plans_file ::
  "subscription_payload \<Rightarrow> execution_category \<Rightarrow> u16 \<Rightarrow> bool \<Rightarrow> qb_torrent_file \<Rightarrow> link_plan \<Rightarrow> bool" where
  "plans_file p c year shared f plan \<longleftrightarrow>
     (\<exists>names. safe_relative_path (tf_name f) = Some names \<and>
        plain_names names \<and> plain_names (if shared then tl names else names) \<and> plan_size plan = tf_size f \<and>
        path_components (plan_source_path plan) =
          (fst (path_components (str_trim (xcat_download_dir c))),
           snd (path_components (str_trim (xcat_download_dir c))) @ names) \<and>
        path_components (plan_target_path plan) =
          (fst (path_components (str_trim (xcat_link_target_dir c))),
           snd (path_components (str_trim (xcat_link_target_dir c))) @ title_directories p year @
           (if shared then tl names else names)))"

lemma list_all2_map_filter:
  "(\<And>x y. x \<in> set xs \<Longrightarrow> g x = Some y \<Longrightarrow> P x (f y)) \<Longrightarrow>
     list_all2 P (filter (\<lambda>x. g x \<noteq> None) xs) (map f (List.map_filter g xs))"
  by (induction xs) (auto simp: List.map_filter_simps)

text \<open>C32. Whatever the names of the torrent's files are, every file with a safe name has a plan, in order,
  and nothing else has: its source is the file under the download directory of the category, and its
  target lies below the directory of the title and its year, and of the season for a series, under the
  link directory of the category. No name leads out of them, and there is at least one file.\<close>

theorem link_plans_stay_inside:
  assumes "link_plans p c d fs = Inr plans" and "utf8_text (str_trim (directory_title p))"
  shows "plans \<noteq> [] \<and> (\<exists>year. src_release_year (pl_source p) = Some year \<and>
    list_all2 (plans_file p c year (in_one_directory (safe_names fs)))
      (filter (\<lambda>f. safe_relative_path (tf_name f) \<noteq> None) fs) plans)"
proof -
  let ?entry = "\<lambda>f. map_option (Pair (tf_size f)) (safe_relative_path (tf_name f))"
  let ?relative = "List.map_filter ?entry fs"
  obtain year where title: "safe_title_component (directory_title p) \<noteq> []"
    and year: "src_release_year (pl_source p) = Some year"
    and plans: "plans = map (\<lambda>(bytes, r). link_plan_of (str_trim (xcat_download_dir c))
        (link_target_root c (safe_title_component (directory_title p)) year (map_option tv_season_number (pl_tv p)))
        (common_top_level_directory (map snd ?relative)) (previous_outcomes p d) bytes r) ?relative"
      "plans \<noteq> []"
    using assms(1) by (auto simp: link_plans_def Let_def and_then_Inr_iff split: if_splits)
  note root = target_root_components [OF assms(2) title]
  have relative: "map snd ?relative = safe_names fs"
    by (induction fs) (auto simp: safe_names_def List.map_filter_simps split: option.splits)
  have plain: "plain_names names" if "names \<in> set (safe_names fs)" for names
    using that safe_relative_plain by (auto simp: safe_names_def List.map_filter_def)
  let ?shared = "in_one_directory (safe_names fs)"
  have "plans_file p c year ?shared f (link_plan_of (str_trim (xcat_download_dir c))
        (link_target_root c (safe_title_component (directory_title p)) year (map_option tv_season_number (pl_tv p)))
        (common_top_level_directory (safe_names fs)) (previous_outcomes p d) (tf_size f) names)"
    if f: "f \<in> set fs" and names: "safe_relative_path (tf_name f) = Some names" for f names
  proof -
    have listed: "names \<in> set (safe_names fs)" using f names by (force simp: safe_names_def List.map_filter_def)
    have "[] \<notin> set (safe_names fs)" using plain by blast
    note shown = common_directory [OF listed this]
    have target: "plain_names (if ?shared then tl names else names)"
      using plain [OF listed] listed by (auto simp: in_one_directory_def dest: list.set_sel(2))
    show ?thesis
      using names plain [OF listed] target
      by (simp add: plans_file_def link_plan_of_def Let_def shown path_join_components root)
  qed
  then have "list_all2 (plans_file p c year ?shared) (filter (\<lambda>f. ?entry f \<noteq> None) fs) plans"
    unfolding plans(1) relative by (intro list_all2_map_filter) auto
  then have "list_all2 (plans_file p c year ?shared) (filter (\<lambda>f. safe_relative_path (tf_name f) \<noteq> None) fs) plans"
    by simp
  with year plans(2) show ?thesis by blast
qed

definition hostile_files :: "qb_torrent_file list" where
  "hostile_files = map (\<lambda>name. \<lparr>tf_name = name, tf_size = 7, tf_progress = 0, tf_priority = 1\<rparr>)
     [''../etc'', ''F/./a.mkv'']"

definition layout_category :: execution_category where
  "layout_category = \<lparr>xcat_name = ''films'', xcat_wanted_tag = ''film'', xcat_qb_server_id = ''qb'',
     xcat_qb_category = ''films'', xcat_qb_save_dir_name = ''films'', xcat_download_dir = ''/data/films/'',
     xcat_link_target_dir = '' /media/films''\<rparr>"

definition layout_payload :: subscription_payload where
  "layout_payload =
     \<lparr>pl_replacement_pending = False, pl_replacement_prepared = False,
      pl_source = \<lparr>src_title = ''../F'', src_detail_title = None, src_release_year = Some 2026,
        src_poster_url = ''p'', src_cover_url = [], src_original_title = None, src_aka = [],
        src_languages = [], src_countries = [], src_genres = [], src_directors = [],
        src_actors = [], src_date_published = None, src_duration = None, src_summary = None,
        src_rating_value = None, src_rating_count = None, src_category_text = None,
        src_tags = [], src_douban_date = None, src_douban_sort_time = Some 7, src_douban_return_order = None\<rparr>,
      pl_observation = \<lparr>obv_created_at = 1, obv_first_seen_at = 1, obv_last_seen_at = 1\<rparr>,
      pl_issues = [], pl_skip_reason = None, pl_candidates = [], pl_tv = None,
      pl_artifacts = \<lparr>art_downloads = [], art_links = []\<rparr>\<rparr>"

definition layout_download :: download_artifact_payload where
  "layout_download =
     \<lparr>dl_idempotency_key = ''k'', dl_torrent_id = ''42'', dl_torrent_title = ''Film'', dl_qb_server_id = ''qb'',
      dl_qb_server_name = None, dl_qb_category = [], dl_qb_save_dir_name = [], dl_qb_identifier = None,
      dl_qb_hash = None, dl_qb_name = None, dl_qb_state = None, dl_torrent_download_url = None,
      dl_mteam_torrent_url = None, dl_state = DlDownloaded, dl_progress = None, dl_total_size = None, dl_files = [],
      dl_pushed_at = None, dl_checked_at = None, dl_completed_at = None\<rparr>"

theorem link_plans_stay_inside_witness:
  "\<exists>plans year. link_plans layout_payload layout_category layout_download hostile_files = Inr plans \<and>
     map plan_target_path plans = [''/media/films/.. F.2026/a.mkv''] \<and>
     list_all2 (plans_file layout_payload layout_category year True) (tl hostile_files) plans"
proof -
  let ?plans = "link_plans layout_payload layout_category layout_download hostile_files"
  have "map_option (map plan_target_path) (case ?plans of Inl _ \<Rightarrow> None | Inr plans \<Rightarrow> Some plans)
      = Some [''/media/films/.. F.2026/a.mkv'']"
    by code_simp
  then obtain plans where plans: "?plans = Inr plans"
    and targets: "map plan_target_path plans = [''/media/films/.. F.2026/a.mkv'']"
    by (cases ?plans) auto
  have "utf8_text (str_trim (directory_title layout_payload))" by code_simp
  moreover have "filter (\<lambda>f. safe_relative_path (tf_name f) \<noteq> None) hostile_files = tl hostile_files"
    by code_simp
  moreover have "safe_names hostile_files = [[''F'', ''a.mkv'']]" by code_simp
  then have "in_one_directory (safe_names hostile_files)" by (simp add: in_one_directory_def)
  ultimately obtain year where "list_all2 (plans_file layout_payload layout_category year True) (tl hostile_files) plans"
    using link_plans_stay_inside [OF plans] by auto
  with plans targets show ?thesis by (intro exI conjI)
qed

end
