(* ===== verification/Login_Guard.thy ===== *)
theory Login_Guard
  imports Config_Model Poll_Service
begin

text \<open>
  Management access: the login rate limiter of \<open>src/app/auth_security.rs\<close> and the authentication,
  session cookie and cross-site checks of \<open>src/http/auth.rs\<close>. SHA-256 is a parameter that gives
  32 bytes; comparing in constant time is equality. An \<open>Instant\<close> is its nanoseconds.
\<close>

subsection \<open>Rate limiter\<close>

definition failure_window :: nat where "failure_window = 5 * 60 * 10 ^ 9"

definition block_duration :: nat where "block_duration = 15 * 60 * 10 ^ 9"

definition max_failures_per_window :: u32 where "max_failures_per_window = 5"

datatype login_rate_limit_decision = Allowed | RetryAfter nat

record login_attempt_state =
  window_started :: nat
  failures :: u32
  blocked_until :: "nat option"

type_synonym login_attempts = "ip_addr \<rightharpoonup> login_attempt_state"

definition still_remembered :: "nat \<Rightarrow> login_attempt_state \<Rightarrow> bool" where
  "still_remembered now s \<longleftrightarrow>
     (case blocked_until s of None \<Rightarrow> False | Some b \<Rightarrow> now < b) \<or>
     now - window_started s \<le> failure_window + block_duration"

definition retain_attempts :: "nat \<Rightarrow> login_attempts \<Rightarrow> login_attempts" where
  "retain_attempts now attempts p =
     (case attempts p of None \<Rightarrow> None | Some s \<Rightarrow> if still_remembered now s then Some s else None)"

definition check_at :: "ip_addr \<Rightarrow> nat \<Rightarrow> login_attempts \<Rightarrow> login_rate_limit_decision \<times> login_attempts" where
  "check_at peer now attempts =
     (let retained = retain_attempts now attempts in
      case retained peer of
        None \<Rightarrow> (Allowed, retained)
      | Some s \<Rightarrow>
          (case blocked_until s of
             Some b \<Rightarrow>
               if now < b then (RetryAfter (max ((b - now) div 10 ^ 9) 1), retained)
               else (Allowed, retained(peer \<mapsto> \<lparr>window_started = now, failures = 0, blocked_until = None\<rparr>))
           | None \<Rightarrow>
               if failure_window < now - window_started s
               then (Allowed, retained(peer \<mapsto> s\<lparr>failures := 0, window_started := now\<rparr>))
               else (Allowed, retained)))"

definition count_failure :: "nat \<Rightarrow> login_attempt_state \<Rightarrow> login_attempt_state" where
  "count_failure now s =
     (let s1 = if failure_window < now - window_started s
               then \<lparr>window_started = now, failures = 0, blocked_until = None\<rparr> else s;
          s2 = s1\<lparr>failures := saturating_add (failures s1) 1\<rparr>
      in if max_failures_per_window \<le> failures s2 then s2\<lparr>blocked_until := Some (now + block_duration)\<rparr> else s2)"

definition record_failure_at :: "ip_addr \<Rightarrow> nat \<Rightarrow> login_attempts \<Rightarrow> login_attempts" where
  "record_failure_at peer now attempts =
     attempts(peer \<mapsto> count_failure now
       (case attempts peer of
          None \<Rightarrow> \<lparr>window_started = now, failures = 0, blocked_until = None\<rparr>
        | Some s \<Rightarrow> s))"

definition record_success :: "ip_addr \<Rightarrow> login_attempts \<Rightarrow> login_attempts" where
  "record_success peer attempts = attempts(peer := None)"

subsection \<open>Tokens and cookies\<close>

text \<open>The first value of each header, by its lower-case name; \<open>to_str\<close> accepts visible ASCII and tabs.\<close>

type_synonym header_map = "string \<Rightarrow> string option"

definition visible_ascii :: "char \<Rightarrow> bool" where
  "visible_ascii c \<longleftrightarrow> (32 \<le> (of_char c :: nat) \<and> (of_char c :: nat) < 127) \<or> of_char c = (9 :: nat)"

definition header_text :: "header_map \<Rightarrow> string \<Rightarrow> string option" where
  "header_text headers name =
     (case headers name of None \<Rightarrow> None | Some v \<Rightarrow> if list_all visible_ascii v then Some v else None)"

definition eq_ignore_ascii_case :: "string \<Rightarrow> string \<Rightarrow> bool" where
  "eq_ignore_ascii_case a b \<longleftrightarrow> to_ascii_lowercase a = to_ascii_lowercase b"

definition session_cookie_name :: string where
  "session_cookie_name = ''tmdb_mteam_admin_session''"

definition digest_hex :: "string \<Rightarrow> string" where
  "digest_hex digest = concat (map hex02 digest)"

definition login_token_matches :: "(string \<Rightarrow> string) \<Rightarrow> string \<Rightarrow> string \<Rightarrow> bool" where
  "login_token_matches sha candidate configured \<longleftrightarrow> sha candidate = sha configured"

definition session_matches :: "(string \<Rightarrow> string) \<Rightarrow> string \<Rightarrow> string \<Rightarrow> bool" where
  "session_matches sha candidate configured \<longleftrightarrow>
     (let expected = digest_hex (sha configured)
      in length candidate = length expected \<and> candidate = expected)"

definition session_cookie :: "(string \<Rightarrow> string) \<Rightarrow> string \<Rightarrow> bool \<Rightarrow> string" where
  "session_cookie sha configured secure =
     session_cookie_name @ ''='' @ digest_hex (sha configured) @
     ''; Path=/api; HttpOnly; SameSite=Strict'' @ (if secure then ''; Secure'' else [])"

definition expired_session_cookie :: "bool \<Rightarrow> string" where
  "expired_session_cookie secure =
     session_cookie_name @ ''=; Path=/api; HttpOnly; SameSite=Strict; Max-Age=0'' @
     (if secure then ''; Secure'' else [])"

definition bearer_token :: "header_map \<Rightarrow> string option" where
  "bearer_token headers =
     (case header_text headers ''authorization'' of None \<Rightarrow> None
      | Some v \<Rightarrow>
          (case split_once CHR '' '' v of None \<Rightarrow> None
           | Some (scheme, token) \<Rightarrow>
               if eq_ignore_ascii_case scheme ''bearer'' \<and> str_trim token \<noteq> [] then Some (str_trim token)
               else None))"

definition session_cookie_value :: "header_map \<Rightarrow> string option" where
  "session_cookie_value headers =
     (case header_text headers ''cookie'' of None \<Rightarrow> None
      | Some v \<Rightarrow>
          map_option snd (find (\<lambda>(name, _). name = session_cookie_name)
            (List.map_filter (\<lambda>pair. split_once CHR ''='' (str_trim pair)) (split_char CHR '';'' v))))"

subsection \<open>Authentication\<close>

datatype authentication_kind = Bearer | Cookie | Bootstrap | Unauthenticated

definition from_loopback :: "ip_addr option \<Rightarrow> bool" where
  "from_loopback peer \<longleftrightarrow> (case peer of None \<Rightarrow> False | Some p \<Rightarrow> is_loopback p)"

definition authentication_kind_of ::
  "(string \<Rightarrow> string) \<Rightarrow> management_config \<Rightarrow> header_map \<Rightarrow> ip_addr option \<Rightarrow> authentication_kind" where
  "authentication_kind_of sha management headers peer =
     (let configured = str_trim (mgmt_admin_token management) in
      if configured = [] then (if from_loopback peer then Bootstrap else Unauthenticated)
      else if (case bearer_token headers of None \<Rightarrow> False | Some t \<Rightarrow> login_token_matches sha t configured) then Bearer
      else if (case session_cookie_value headers of None \<Rightarrow> False | Some v \<Rightarrow> session_matches sha v configured)
      then Cookie
      else Unauthenticated)"

definition is_safe_method :: "string \<Rightarrow> bool" where
  "is_safe_method verb \<longleftrightarrow> verb \<in> {''GET'', ''HEAD'', ''OPTIONS''}"

definition origin_matches_host :: "header_map \<Rightarrow> bool" where
  "origin_matches_host headers \<longleftrightarrow>
     (case header_text headers ''origin'' of None \<Rightarrow> True
      | Some origin \<Rightarrow>
          (case header_text headers ''host'' of None \<Rightarrow> False
           | Some host \<Rightarrow>
               (let authority = (case strip_prefix ''https://'' origin of Some rest \<Rightarrow> rest
                  | None \<Rightarrow> (case strip_prefix ''http://'' origin of Some rest \<Rightarrow> rest | None \<Rightarrow> origin))
                in eq_ignore_ascii_case authority host)))"

definition cookie_mutation_is_same_origin :: "header_map \<Rightarrow> bool" where
  "cookie_mutation_is_same_origin headers \<longleftrightarrow>
     (case header_text headers ''sec-fetch-site'' of
        Some v \<Rightarrow> eq_ignore_ascii_case v ''same-origin''
      | None \<Rightarrow> origin_matches_host headers)"

definition bootstrap_mutation_is_cross_site :: "header_map \<Rightarrow> bool" where
  "bootstrap_mutation_is_cross_site headers \<longleftrightarrow>
     (case header_text headers ''sec-fetch-site'' of
        Some v \<Rightarrow> eq_ignore_ascii_case v ''same-site'' \<or> eq_ignore_ascii_case v ''cross-site''
      | None \<Rightarrow> \<not> origin_matches_host headers)"

text \<open>What the middleware does with a request\<close>

datatype guard_answer = RunNext | UnauthorizedAnswer | CsrfRejected

definition require_management_auth ::
  "(string \<Rightarrow> string) \<Rightarrow> management_config \<Rightarrow> string \<Rightarrow> header_map \<Rightarrow> ip_addr option \<Rightarrow> guard_answer" where
  "require_management_auth sha management verb headers peer =
     (case authentication_kind_of sha management headers peer of
        Unauthenticated \<Rightarrow> UnauthorizedAnswer
      | Cookie \<Rightarrow>
          if \<not> is_safe_method verb \<and> \<not> cookie_mutation_is_same_origin headers then CsrfRejected else RunNext
      | Bootstrap \<Rightarrow>
          if \<not> is_safe_method verb \<and> bootstrap_mutation_is_cross_site headers then CsrfRejected else RunNext
      | Bearer \<Rightarrow> RunNext)"

subsection \<open>Status, login and logout\<close>

record auth_status =
  status_authenticated :: bool
  status_token_configured :: bool
  status_bootstrap_allowed :: bool

text \<open>An answer with its \<open>Set-Cookie\<close> header, if any\<close>

datatype auth_answer =
  StatusAnswer auth_status "string option"
| LoginUnauthorized
| RateLimited nat

definition authentication_status ::
  "(string \<Rightarrow> string) \<Rightarrow> management_config \<Rightarrow> header_map \<Rightarrow> ip_addr option \<Rightarrow> auth_status" where
  "authentication_status sha management headers peer =
     (let configured = str_trim (mgmt_admin_token management) in
      \<lparr>status_authenticated = (authentication_kind_of sha management headers peer \<noteq> Unauthenticated),
       status_token_configured = (configured \<noteq> []),
       status_bootstrap_allowed = (configured = [] \<and> from_loopback peer)\<rparr>)"

text \<open>\<open>login\<close>; \<open>checked\<close> and \<open>failed\<close> are the instants at which the limiter is asked and told of a
  failure.\<close>

definition login ::
  "(string \<Rightarrow> string) \<Rightarrow> management_config \<Rightarrow> ip_addr option \<Rightarrow> string \<Rightarrow> nat \<Rightarrow> nat
    \<Rightarrow> login_attempts \<Rightarrow> auth_answer \<times> login_attempts" where
  "login sha management peer token checked failed attempts =
     (let configured = str_trim (mgmt_admin_token management);
          peer_ip = (case peer of None \<Rightarrow> V4 [0, 0, 0, 0] | Some p \<Rightarrow> p);
          bootstrap = (configured = [] \<and> from_loopback peer) in
      if configured = []
      then (if bootstrap
            then StatusAnswer \<lparr>status_authenticated = True, status_token_configured = False,
                   status_bootstrap_allowed = True\<rparr> None
            else LoginUnauthorized, attempts)
      else case check_at peer_ip checked attempts of
        (RetryAfter seconds, attempts1) \<Rightarrow> (RateLimited seconds, attempts1)
      | (Allowed, attempts1) \<Rightarrow>
          if \<not> login_token_matches sha (str_trim token) configured
          then (LoginUnauthorized, record_failure_at peer_ip failed attempts1)
          else (StatusAnswer \<lparr>status_authenticated = True, status_token_configured = True,
                  status_bootstrap_allowed = False\<rparr>
                  (Some (session_cookie sha configured (mgmt_secure_cookie management))),
                record_success peer_ip attempts1))"

definition logout :: "management_config \<Rightarrow> ip_addr option \<Rightarrow> auth_answer" where
  "logout management peer =
     (let token_configured = (str_trim (mgmt_admin_token management) \<noteq> []);
          bootstrap = (\<not> token_configured \<and> from_loopback peer)
      in StatusAnswer \<lparr>status_authenticated = bootstrap, status_token_configured = token_configured,
           status_bootstrap_allowed = bootstrap\<rparr>
           (Some (expired_session_cookie (mgmt_secure_cookie management))))"

end
