(* ===== verification/Login_Theorems.thy ===== *)
theory Login_Theorems
  imports Login_Guard Effects_Properties
begin

text \<open>
  What the limiter and the guard promise: the number of tokens a peer can try, who gets past the
  guard, and that the session cookie of a login is accepted.
\<close>

subsection \<open>Attempts that are left\<close>

text \<open>A state of the limiter: only a blocked peer has used up its failures, and it is blocked for
  at least \<open>block_duration\<close> after its window began.\<close>

definition attempt_ok :: "nat \<Rightarrow> login_attempt_state \<Rightarrow> bool" where
  "attempt_ok now s \<longleftrightarrow>
     window_started s \<le> now \<and>
     (case blocked_until s of
        None \<Rightarrow> unat (failures s) < 5
      | Some b \<Rightarrow> 5 \<le> unat (failures s) \<and> window_started s + block_duration \<le> b)"

definition limiter_ok :: "nat \<Rightarrow> login_attempts \<Rightarrow> bool" where
  "limiter_ok now attempts \<longleftrightarrow> (\<forall>p s. attempts p = Some s \<longrightarrow> attempt_ok now s)"

text \<open>The failures a peer may still have counted until \<open>until\<close>\<close>

definition attempts_left :: "nat \<Rightarrow> nat \<Rightarrow> login_attempt_state option \<Rightarrow> nat" where
  "attempts_left until now so =
     (case so of
        None \<Rightarrow> 5 + 5 * ((until - now) div failure_window)
      | Some s \<Rightarrow> (5 - unat (failures s)) + 5 * ((until - window_started s) div failure_window))"

lemma windows_pos [simp]: "0 < failure_window" "failure_window < block_duration"
  by (simp_all add: failure_window_def block_duration_def)

lemma next_window: "start + failure_window \<le> now \<Longrightarrow> now \<le> until \<Longrightarrow>
    5 + 5 * ((until - now) div failure_window) \<le> 5 * ((until - start) div failure_window)"
proof -
  assume *: "start + failure_window \<le> now" "now \<le> until"
  have "Suc ((until - now) div failure_window) = (until - now + failure_window) div failure_window"
    using windows_pos(1) by (metis Suc_eq_plus1 div_add_self2 less_not_refl)
  also have "\<dots> \<le> (until - start) div failure_window"
    using * by (intro div_le_mono) linarith
  finally show ?thesis by simp
qed

lemma unat_next: "unat (x :: u32) < 5 \<Longrightarrow> unat (saturating_add x 1) = Suc (unat x)"
proof -
  assume few: "unat x < 5"
  have same: "uint x = int (unat x)" by simp
  then have "uint x < 5" using few by linarith
  then have "uint (saturating_add x 1) = uint x + 1"
    by (simp add: uint_saturating_add)
  then have "uint (saturating_add x 1) = int (Suc (unat x))" using same by linarith
  then show ?thesis by (simp only: unat_eq_nat_uint nat_int)
qed

lemma five_le: "max_failures_per_window \<le> x \<longleftrightarrow> 5 \<le> unat x"
  by (simp add: max_failures_per_window_def word_le_nat_alt)

subsection \<open>One check, one failure\<close>

lemma check_keeps:
  assumes "limiter_ok now attempts" and "check_at peer now attempts = (d, attempts')"
  shows "limiter_ok now attempts'"
    and "\<And>p. now \<le> until \<Longrightarrow> attempts_left until now (attempts' p) \<le> attempts_left until now (attempts p)"
    and "d = Allowed \<Longrightarrow> (case attempts' peer of None \<Rightarrow> True | Some s \<Rightarrow> blocked_until s = None)"
proof -
  have retained: "attempts_left until now (retain_attempts now attempts p) \<le> attempts_left until now (attempts p)"
    if "now \<le> until" for p
  proof (cases "attempts p")
    case (Some s)
    show ?thesis
    proof (cases "still_remembered now s")
      case False
      then have "window_started s + failure_window \<le> now"
        by (auto simp: still_remembered_def)
      from next_window [OF this that] show ?thesis
        using Some False by (simp add: retain_attempts_def attempts_left_def)
    qed (simp add: Some retain_attempts_def)
  qed (simp add: retain_attempts_def)
  have ok: "limiter_ok now (retain_attempts now attempts)"
    using assms(1) by (auto simp: limiter_ok_def retain_attempts_def split: option.splits if_splits)
  have fresh: "attempt_ok now \<lparr>window_started = now, failures = 0, blocked_until = None\<rparr>"
    by (simp add: attempt_ok_def)
  consider (same) "attempts' = retain_attempts now attempts"
      "d = Allowed \<Longrightarrow> (case attempts' peer of None \<Rightarrow> True | Some s \<Rightarrow> blocked_until s = None)"
    | (reset) s s' where "attempts' = (retain_attempts now attempts)(peer \<mapsto> s')"
        "retain_attempts now attempts peer = Some s" "window_started s + failure_window \<le> now"
        "window_started s' = now" "failures s' = 0" "blocked_until s' = None"
  proof (cases "retain_attempts now attempts peer")
    case None
    then show ?thesis using that(1) assms(2) by (simp add: check_at_def)
  next
    case (Some s)
    then have ok_s: "attempt_ok now s" using ok by (simp add: limiter_ok_def)
    show ?thesis
    proof (cases "blocked_until s")
      case None
      with Some assms(2) that show ?thesis
        by (cases "failure_window < now - window_started s") (auto simp: check_at_def)
    next
      case (Some b)
      then have "window_started s + failure_window \<le> b"
        using ok_s less_imp_le_nat [OF windows_pos(2)] by (auto simp: attempt_ok_def simp del: windows_pos)
      with Some \<open>retain_attempts now attempts peer = Some s\<close> assms(2) that show ?thesis
        by (cases "now < b") (auto simp: check_at_def)
    qed
  qed
  note cases = this
  show "limiter_ok now attempts'"
    using cases
  proof cases
    case (reset s s')
    with ok show ?thesis by (auto simp: limiter_ok_def attempt_ok_def)
  qed (use ok in simp)
  show "attempts_left until now (attempts' p) \<le> attempts_left until now (attempts p)" if "now \<le> until" for p
    using cases
  proof cases
    case same
    with retained [OF that] show ?thesis by simp
  next
    case (reset s s')
    have "attempts_left until now (attempts' p) \<le> attempts_left until now (retain_attempts now attempts p)"
      using reset next_window [OF reset(3) that] by (simp add: attempts_left_def)
    from order_trans [OF this retained [OF that]] show ?thesis .
  qed
  show "d = Allowed \<Longrightarrow> (case attempts' peer of None \<Rightarrow> True | Some s \<Rightarrow> blocked_until s = None)"
    using cases by cases auto
qed

lemma failure_counts:
  assumes "attempt_ok now s" and "blocked_until s = None" and "now \<le> until"
  shows "attempt_ok now (count_failure now s)"
    and "Suc (attempts_left until now (Some (count_failure now s))) \<le> attempts_left until now (Some s)"
proof -
  have few: "unat (failures s) < 5" and started: "window_started s \<le> now"
    using assms(1,2) by (simp_all add: attempt_ok_def)
  have "attempt_ok now (count_failure now s) \<and>
      Suc (attempts_left until now (Some (count_failure now s))) \<le> attempts_left until now (Some s)"
  proof (cases "failure_window < now - window_started s")
    case True
    then have "window_started s + failure_window \<le> now" by simp
    from next_window [OF this assms(3)] True few show ?thesis
      using unat_next [of 0] by (simp add: count_failure_def five_le attempts_left_def attempt_ok_def)
  next
    case False
    then show ?thesis
      using few started assms(2) unat_next [OF few]
      by (auto simp: count_failure_def Let_def five_le attempts_left_def attempt_ok_def)
  qed
  then show "attempt_ok now (count_failure now s)"
    and "Suc (attempts_left until now (Some (count_failure now s))) \<le> attempts_left until now (Some s)"
    by simp_all
qed

subsection \<open>Histories\<close>

text \<open>Logins one after the other: the peer, its token, and the instants of the check and of the
  failure\<close>

type_synonym login_attempt = "ip_addr option \<times> string \<times> nat \<times> nat"

definition peer_ip :: "ip_addr option \<Rightarrow> ip_addr" where
  "peer_ip peer = (case peer of None \<Rightarrow> V4 [0, 0, 0, 0] | Some p \<Rightarrow> p)"

fun timeline :: "nat \<Rightarrow> nat \<Rightarrow> login_attempt list \<Rightarrow> bool" where
  "timeline now until [] \<longleftrightarrow> now \<le> until"
| "timeline now until ((peer, token, checked, failed) # rest) \<longleftrightarrow>
     now \<le> checked \<and> checked \<le> failed \<and> timeline failed until rest"

text \<open>The tokens of a peer that were compared and found wrong\<close>

fun wrong_guesses ::
  "(string \<Rightarrow> string) \<Rightarrow> management_config \<Rightarrow> ip_addr \<Rightarrow> login_attempt list \<Rightarrow> login_attempts \<Rightarrow> nat" where
  "wrong_guesses sha management p [] attempts = 0"
| "wrong_guesses sha management p ((peer, token, checked, failed) # rest) attempts =
     (let (answer, attempts') = login sha management peer token checked failed attempts in
      of_bool (peer_ip peer = p \<and> answer = LoginUnauthorized) + wrong_guesses sha management p rest attempts')"

lemma attempt_ok_later: "attempt_ok now s \<Longrightarrow> now \<le> later \<Longrightarrow> attempt_ok later s"
  by (auto simp: attempt_ok_def split: option.splits)

lemma limiter_ok_later: "limiter_ok now attempts \<Longrightarrow> now \<le> later \<Longrightarrow> limiter_ok later attempts"
  by (auto simp: limiter_ok_def intro: attempt_ok_later)

lemma left_later: "now \<le> later \<Longrightarrow> attempts_left until later so \<le> attempts_left until now so"
  by (auto simp: attempts_left_def div_le_mono split: option.splits)

lemma timeline_until: "timeline now until events \<Longrightarrow> now \<le> until"
  by (induction now until events rule: timeline.induct) auto

lemma record_failure_counts:
  assumes ok: "limiter_ok now attempts" and "now \<le> until"
    and unblocked: "case attempts peer of None \<Rightarrow> True | Some s \<Rightarrow> blocked_until s = None"
  shows "limiter_ok now (record_failure_at peer now attempts)"
    and "Suc (attempts_left until now (record_failure_at peer now attempts peer))
           \<le> attempts_left until now (attempts peer)"
proof -
  obtain s where s: "attempt_ok now s" "blocked_until s = None"
    and recorded: "record_failure_at peer now attempts = attempts(peer \<mapsto> count_failure now s)"
    and left: "attempts_left until now (Some s) = attempts_left until now (attempts peer)"
  proof (cases "attempts peer")
    case None
    then show ?thesis
      using that [of "\<lparr>window_started = now, failures = 0, blocked_until = None\<rparr>"]
      by (simp add: attempt_ok_def record_failure_at_def attempts_left_def)
  next
    case (Some s)
    with ok unblocked that [of s] show ?thesis
      by (simp add: limiter_ok_def record_failure_at_def)
  qed
  from failure_counts [OF s assms(2)] ok show "limiter_ok now (record_failure_at peer now attempts)"
    by (simp add: recorded limiter_ok_def)
  from failure_counts(2) [OF s assms(2)] left
  show "Suc (attempts_left until now (record_failure_at peer now attempts peer)) \<le> attempts_left until now (attempts peer)"
    by (simp add: recorded)
qed

lemma login_counts:
  assumes token: "str_trim (mgmt_admin_token management) \<noteq> []"
    and times: "now \<le> checked" "checked \<le> failed" "failed \<le> until"
    and ok: "limiter_ok now attempts"
    and wrong: "peer_ip peer = p \<Longrightarrow> \<not> login_token_matches sha (str_trim given) (str_trim (mgmt_admin_token management))"
    and result: "login sha management peer given checked failed attempts = (answer, attempts')"
  shows "limiter_ok failed attempts' \<and>
    of_bool (peer_ip peer = p \<and> answer = LoginUnauthorized) + attempts_left until failed (attempts' p)
      \<le> attempts_left until now (attempts p)"
proof -
  obtain d attempts1 where check: "check_at (peer_ip peer) checked attempts = (d, attempts1)" by fastforce
  note kept = check_keeps [OF limiter_ok_later [OF ok times(1)] check]
  have until: "checked \<le> until" using times by simp
  have ok1: "limiter_ok failed attempts1" by (rule limiter_ok_later [OF kept(1) times(2)])
  have "attempts_left until failed (attempts1 p) \<le> attempts_left until checked (attempts p)"
    using left_later [OF times(2)] kept(2) [OF until] by (rule order_trans)
  then have left: "attempts_left until failed (attempts1 p) \<le> attempts_left until now (attempts p)"
    using left_later [OF times(1)] by (rule order_trans)
  show ?thesis
  proof (cases d)
    case (RetryAfter n)
    with check token result ok1 left show ?thesis
      by (auto simp: login_def Let_def peer_ip_def)
  next
    case Allowed
    show ?thesis
    proof (cases "login_token_matches sha (str_trim given) (str_trim (mgmt_admin_token management))")
      case True
      with Allowed check token result wrong have "attempts' = attempts1(peer_ip peer := None)" "peer_ip peer \<noteq> p"
        "answer \<noteq> LoginUnauthorized"
        by (auto simp: login_def Let_def peer_ip_def record_success_def)
      with ok1 left show ?thesis by (auto simp: limiter_ok_def)
    next
      case False
      with Allowed check token result have after: "attempts' = record_failure_at (peer_ip peer) failed attempts1"
        by (auto simp: login_def Let_def peer_ip_def)
      note counted = record_failure_counts [OF ok1 times(3) kept(3) [OF Allowed]]
      show ?thesis
      proof (cases "peer_ip peer = p")
        case True
        with counted left after show ?thesis by auto
      next
        case False
        then have "attempts' p = attempts1 p" by (simp add: after record_failure_at_def)
        with counted(1) left after False show ?thesis by simp
      qed
    qed
  qed
qed

lemma wrong_guesses_left:
  assumes "str_trim (mgmt_admin_token management) \<noteq> []"
  shows "timeline now until events \<Longrightarrow> limiter_ok now attempts \<Longrightarrow>
    \<forall>(peer, given, times) \<in> set events. peer_ip peer = p \<longrightarrow>
      \<not> login_token_matches sha (str_trim given) (str_trim (mgmt_admin_token management)) \<Longrightarrow>
    wrong_guesses sha management p events attempts \<le> attempts_left until now (attempts p)"
proof (induction now until events arbitrary: attempts rule: timeline.induct)
  case (2 now until peer given checked failed rest)
  obtain answer attempts' where result: "login sha management peer given checked failed attempts = (answer, attempts')"
    by fastforce
  have "limiter_ok failed attempts' \<and>
      of_bool (peer_ip peer = p \<and> answer = LoginUnauthorized) + attempts_left until failed (attempts' p)
        \<le> attempts_left until now (attempts p)"
    using 2(2-4) timeline_until [of failed until rest] by (intro login_counts [OF assms _ _ _ _ _ result]) auto
  moreover from this have "wrong_guesses sha management p rest attempts' \<le> attempts_left until failed (attempts' p)"
    using 2(2,4) by (intro 2(1)) auto
  ultimately show ?case by (simp add: result)
qed simp

text \<open>C38. However logins of all peers follow each other, a peer that does not know the token has at most
  five guesses compared with it for each five minutes that begin.\<close>

theorem guesses_are_bounded:
  assumes "str_trim (mgmt_admin_token management) \<noteq> []"
    and "timeline start until events"
    and "\<forall>(peer, given, times) \<in> set events. peer_ip peer = p \<longrightarrow>
      \<not> login_token_matches sha (str_trim given) (str_trim (mgmt_admin_token management))"
  shows "wrong_guesses sha management p events Map.empty
    \<le> 5 * ((until - start) div (5 * 60 * 10 ^ 9) + 1)"
  using wrong_guesses_left [OF assms(1,2) _ assms(3), of Map.empty]
  by (simp add: limiter_ok_def attempts_left_def failure_window_def)

definition sample_management :: management_config where
  "sample_management = \<lparr>mgmt_admin_token = ''secret'', mgmt_allowed_origins = [], mgmt_secure_cookie = True\<rparr>"

definition six_guesses :: "login_attempt list" where
  "six_guesses =
     (let e = (Some (V4 [10, 0, 0, 7]), ''guess'', 0, 0) in [e, e, e, e, e, e])"

text \<open>Six guesses within a second: the sixth is not compared.\<close>

theorem guesses_are_bounded_witness:
  "wrong_guesses (\<lambda>s. s) sample_management (V4 [10, 0, 0, 7])
      six_guesses Map.empty \<le> 5 \<and>
   wrong_guesses (\<lambda>s. s) sample_management (V4 [10, 0, 0, 7])
      six_guesses Map.empty = 5"
proof -
  let ?events = six_guesses
  have token: "str_trim (mgmt_admin_token sample_management) = ''secret''" and guess: "str_trim ''guess'' = ''guess''"
    by code_simp+
  have "timeline 0 0 ?events" by code_simp
  moreover have "\<forall>(peer, given, times) \<in> set ?events. peer_ip peer = V4 [10, 0, 0, 7] \<longrightarrow>
      \<not> login_token_matches (\<lambda>s. s) (str_trim given) (str_trim (mgmt_admin_token sample_management))"
    by (simp add: token guess login_token_matches_def six_guesses_def Let_def)
  ultimately have "wrong_guesses (\<lambda>s. s) sample_management (V4 [10, 0, 0, 7]) ?events Map.empty \<le> 5"
    using guesses_are_bounded [of sample_management 0 0 ?events "V4 [10, 0, 0, 7]" "\<lambda>s. s"] token by simp
  moreover have "wrong_guesses (\<lambda>s. s) sample_management (V4 [10, 0, 0, 7]) ?events Map.empty = 5"
    using token guess
    by (simp add: login_def check_at_def retain_attempts_def still_remembered_def record_failure_at_def
        count_failure_def login_token_matches_def peer_ip_def failure_window_def block_duration_def
        five_le saturating_add_def Let_def six_guesses_def)
  ultimately show ?thesis by simp
qed

section \<open>The session cookie\<close>

text \<open>
  The session cookie: what a login sets is what the guard accepts, until the token changes; and no
  request gets past the guard without the token, a session or a loopback peer.
\<close>

subsection \<open>Cookie headers\<close>

text \<open>The pairs of a \<open>Cookie\<close> header, one after the other\<close>

definition cookie_parts :: "string list \<Rightarrow> string list" where
  "cookie_parts pairs = (case pairs of [] \<Rightarrow> [[]] | p # ps \<Rightarrow> p # map ((#) CHR '' '') ps)"

lemma split_joined:
  assumes "\<forall>p \<in> set pairs. CHR '';'' \<notin> set p"
  shows "split_char CHR '';'' (join_with ''; '' pairs) = cookie_parts pairs"
proof -
  have lead: "split_on CHR '';'' acc (CHR '' '' # s) = split_on CHR '';'' (CHR '' '' # acc) s" for acc s
    by simp
  have "split_on CHR '';'' acc (join_with ''; '' pairs) =
      (case pairs of [] \<Rightarrow> [rev acc] | p # ps \<Rightarrow> (rev acc @ p) # map ((#) CHR '' '') ps)" for acc
    using assms
  proof (induction "''; ''" pairs arbitrary: acc rule: join_with.induct)
    case (3 x y xs)
    then show ?case
      by (simp only: join_with.simps append_Cons append_Nil list.case split_on_sep lead list.set_intros)
        (simp add: split_on_sep)
  qed (auto simp: split_on_plain)
  then show ?thesis by (cases pairs) (simp_all add: split_char_def cookie_parts_def)
qed

definition plain_char :: "char \<Rightarrow> bool" where
  "plain_char c \<longleftrightarrow> 33 \<le> (of_char c :: nat) \<and> (of_char c :: nat) < 127"

lemma plain_not_space: "plain_char c \<Longrightarrow> \<not> ws1 c \<and> \<not> ws2 c b \<and> \<not> ws2 b c \<and> \<not> ws3 c b d \<and> \<not> ws3 b d c"
  by (auto simp: plain_char_def ws1_def ws2_def ws3_def)

lemma strip_start_fixed:
  "\<not> p a \<Longrightarrow> (\<And>b. \<not> q a b) \<Longrightarrow> (\<And>b c. \<not> r a b c) \<Longrightarrow> strip_start p q r (a # s) = a # s"
proof (cases s)
  case (Cons b t)
  assume "\<not> p a" "\<And>b. \<not> q a b" "\<And>b c. \<not> r a b c"
  then show ?thesis using Cons by (cases t) simp_all
qed simp

lemma trim_plain:
  assumes "s \<noteq> []" and "plain_char (hd s)" and "plain_char (last s)"
  shows "str_trim s = s"
proof -
  from assms(1) obtain a t where s: "s = a # t" by (cases s) auto
  from assms(1) obtain u z where z: "s = u @ [z]" by (cases s rule: rev_cases) auto
  have "trim_start s = s"
    using plain_not_space assms(2) unfolding trim_start_def s by (intro strip_start_fixed) auto
  moreover have "rev s = z # rev u" by (simp add: z)
  then have "trim_end s = s"
    using plain_not_space assms(3) z unfolding trim_end_def
    by (simp, subst strip_start_fixed) (auto simp: z)
  ultimately show ?thesis by (simp add: str_trim_def)
qed

lemma trim_lead: "str_trim (CHR '' '' # s) = str_trim s"
  by (simp add: str_trim_def trim_start_def strip_start_drop ws1_def)

lemma hex02_chars: "c \<in> set (hex02 d) \<Longrightarrow> plain_char c \<and> c \<noteq> CHR '';''"
proof -
  have "plain_char (hex_digit n) \<and> hex_digit n \<noteq> CHR '';''" if "n < 16" for n
    using that by (auto simp: hex_digit_def plain_char_def dest!: arg_cong [where f = "of_char :: char \<Rightarrow> nat"])
  moreover have "of_char d div 16 < (16 :: nat)" "of_char d mod 16 < (16 :: nat)"
    using nat_of_char_less_256 [of d] by (auto simp: less_mult_imp_div_less)
  ultimately show "c \<in> set (hex02 d) \<Longrightarrow> plain_char c \<and> c \<noteq> CHR '';''"
    by (auto simp: hex02_def Let_def)
qed

lemma digest_hex_chars: "c \<in> set (digest_hex d) \<Longrightarrow> plain_char c \<and> c \<noteq> CHR '';''"
  using hex02_chars by (auto simp: digest_hex_def)

lemma digest_hex_inj: "digest_hex d = digest_hex e \<longleftrightarrow> d = e"
  using hex_bytes_inj [of d e] by (auto simp: digest_hex_def hex_bytes_def)

subsection \<open>Sessions\<close>

text \<open>A pair of a cookie header that is another cookie's\<close>

definition other_cookie :: "string \<Rightarrow> bool" where
  "other_cookie pair \<longleftrightarrow>
     list_all visible_ascii pair \<and> CHR '';'' \<notin> set pair \<and>
     (case split_once CHR ''='' (str_trim pair) of None \<Rightarrow> True | Some (name, _) \<Rightarrow> name \<noteq> session_cookie_name)"

text \<open>What a browser sends back of a \<open>Set-Cookie\<close> header: the text before the first semicolon\<close>

definition cookie_pair :: "string \<Rightarrow> string" where
  "cookie_pair cookie = takeWhile (\<lambda>c. c \<noteq> CHR '';'') cookie"

lemma name_chars: "c \<in> set session_cookie_name \<Longrightarrow> plain_char c \<and> c \<noteq> CHR '';'' \<and> c \<noteq> CHR ''=''"
  by (auto simp: session_cookie_name_def plain_char_def)

lemma name_nonempty: "session_cookie_name \<noteq> []"
  by (simp add: session_cookie_name_def)

lemma session_pair: "cookie_pair (session_cookie sha configured secure) =
    session_cookie_name @ CHR ''='' # digest_hex (sha configured)"
proof -
  have "takeWhile (\<lambda>c. c \<noteq> CHR '';'') (u @ CHR '';'' # v) = u" if "\<forall>c \<in> set u. c \<noteq> CHR '';''" for u v
    using that by (simp add: takeWhile_append2)
  from this [of "session_cookie_name @ ''='' @ digest_hex (sha configured)"] show ?thesis
    using name_chars digest_hex_chars by (auto simp: cookie_pair_def session_cookie_def)
qed

lemma split_once_name: "split_once CHR ''='' (session_cookie_name @ CHR ''='' # v) = Some (session_cookie_name, v)"
proof -
  have "find_byte ((=) CHR ''='') (session_cookie_name @ CHR ''='' # v) = Some (length session_cookie_name)"
    unfolding find_byte_Some using name_chars [OF nth_mem] by (force simp: nth_append)
  then show ?thesis by (simp add: split_once_def)
qed

lemma trim_pair: "str_trim (session_cookie_name @ CHR ''='' # digest_hex d) = session_cookie_name @ CHR ''='' # digest_hex d"
proof (rule trim_plain)
  show "plain_char (hd (session_cookie_name @ CHR ''='' # digest_hex d))"
    by (simp add: session_cookie_name_def plain_char_def)
  show "plain_char (last (session_cookie_name @ CHR ''='' # digest_hex d))"
    using digest_hex_chars [OF last_in_set, of d] by (cases "digest_hex d = []") (auto simp: plain_char_def)
qed (simp add: name_nonempty)

lemma find_pairs:
  assumes "\<forall>p \<in> set before. (case f p of None \<Rightarrow> True | Some x \<Rightarrow> \<not> g x)" and "f p = Some x" and "g x"
  shows "find g (List.map_filter f (before @ p # after)) = Some x"
  using assms by (induction before) (auto simp: List.map_filter_def split: option.splits)

lemma join_chars: "list_all P sep \<Longrightarrow> \<forall>p \<in> set pairs. list_all P p \<Longrightarrow> list_all P (join_with sep pairs)"
  by (induction sep pairs rule: join_with.induct) auto

lemma session_value_found:
  assumes "headers ''cookie'' = Some (join_with ''; '' (before @ (session_cookie_name @ CHR ''='' # digest_hex d) # after))"
    and "\<forall>p \<in> set before \<union> set after. other_cookie p"
  shows "session_cookie_value headers = Some (digest_hex d)"
proof -
  let ?pair = "session_cookie_name @ CHR ''='' # digest_hex d" and ?read = "\<lambda>pair. split_once CHR ''='' (str_trim pair)"
  let ?pairs = "before @ ?pair # after"
  have "visible_ascii c" if "plain_char c" for c using that by (auto simp: plain_char_def visible_ascii_def)
  then have "list_all visible_ascii ?pair"
    using name_chars digest_hex_chars by (auto simp: list_all_iff visible_ascii_def)
  then have "list_all visible_ascii (join_with ''; '' ?pairs)"
    using assms(2) by (intro join_chars) (auto simp: other_cookie_def visible_ascii_def)
  then have readable: "header_text headers ''cookie'' = Some (join_with ''; '' ?pairs)"
    by (simp add: header_text_def assms(1))
  have "\<forall>p \<in> set ?pairs. CHR '';'' \<notin> set p"
    using assms(2) name_chars digest_hex_chars by (auto simp: other_cookie_def)
  then have split: "split_char CHR '';'' (join_with ''; '' ?pairs) = cookie_parts ?pairs"
    by (rule split_joined)
  have read_lead: "?read (CHR '' '' # p) = ?read p" for p by (simp add: trim_lead)
  have "List.map_filter ?read (cookie_parts ps) = List.map_filter ?read ps" if "ps \<noteq> []" for ps
    using that read_lead by (cases ps) (simp_all add: cookie_parts_def List.map_filter_def o_def filter_map)
  then have "List.map_filter ?read (cookie_parts ?pairs) = List.map_filter ?read ?pairs" by simp
  moreover have "find (\<lambda>(name, _). name = session_cookie_name) (List.map_filter ?read ?pairs)
      = Some (session_cookie_name, digest_hex d)"
    using assms(2) by (intro find_pairs) (auto simp: other_cookie_def trim_pair split_once_name split: option.splits)
  ultimately show ?thesis
    by (simp add: session_cookie_value_def readable split)
qed

text \<open>C39. The cookie that a login sets authenticates the browser that sends it back, among whatever other
  cookies, for as long as the configured token has the same digest: after a change of the token it
  is worth nothing.\<close>

theorem session_cookie_round_trip:
  assumes "login sha management peer given checked failed attempts = (StatusAnswer status (Some cookie), attempts')"
    and "headers ''cookie'' = Some (join_with ''; '' (before @ cookie_pair cookie # after))"
    and "\<forall>p \<in> set before \<union> set after. other_cookie p"
    and "headers ''authorization'' = None"
    and "str_trim (mgmt_admin_token later) \<noteq> []"
  shows "authentication_kind_of sha later headers client =
    (if sha (str_trim (mgmt_admin_token later)) = sha (str_trim (mgmt_admin_token management))
     then Cookie else Unauthenticated)"
proof -
  have cookie: "cookie = session_cookie sha (str_trim (mgmt_admin_token management)) (mgmt_secure_cookie management)"
    using assms(1) by (auto simp: login_def Let_def split: if_splits prod.splits login_rate_limit_decision.splits)
  have "session_cookie_value headers = Some (digest_hex (sha (str_trim (mgmt_admin_token management))))"
    using assms(2,3) by (intro session_value_found) (simp_all add: cookie session_pair)
  moreover have "bearer_token headers = None"
    by (simp add: bearer_token_def header_text_def assms(4))
  ultimately show ?thesis
    using assms(5) by (auto simp: authentication_kind_of_def session_matches_def Let_def digest_hex_inj)
qed

definition cookie_headers :: header_map where
  "cookie_headers = [''cookie'' \<mapsto> ''theme=dark; tmdb_mteam_admin_session=736563726574'']"

theorem session_cookie_round_trip_witness:
  "authentication_kind_of (\<lambda>s. s) sample_management cookie_headers None = Cookie \<and>
   authentication_kind_of (\<lambda>s. s) (sample_management\<lparr>mgmt_admin_token := ''other''\<rparr>) cookie_headers None = Unauthenticated"
proof -
  let ?cookie = "session_cookie (\<lambda>s. s) ''secret'' True"
  let ?status = "\<lparr>status_authenticated = True, status_token_configured = True, status_bootstrap_allowed = False\<rparr>"
  have token: "str_trim (mgmt_admin_token sample_management) = ''secret''" "str_trim ''secret'' = ''secret''"
      "str_trim ''other'' = ''other''"
    by code_simp+
  have logged_in: "login (\<lambda>s. s) sample_management None ''secret'' 0 0 Map.empty =
      (StatusAnswer ?status (Some ?cookie), Map.empty)"
    using token by (simp add: login_def check_at_def retain_attempts_def login_token_matches_def record_success_def
        sample_management_def fun_eq_iff)
  have pair: "cookie_headers ''cookie'' = Some (join_with ''; '' ([''theme=dark''] @ cookie_pair ?cookie # []))"
    unfolding session_pair by code_simp
  have others: "\<forall>p \<in> set [''theme=dark''] \<union> set []. other_cookie p" by code_simp
  have plain: "cookie_headers ''authorization'' = None" by (simp add: cookie_headers_def)
  show ?thesis
    using session_cookie_round_trip [OF logged_in pair others plain, of sample_management None]
      session_cookie_round_trip [OF logged_in pair others plain, of "sample_management\<lparr>mgmt_admin_token := ''other''\<rparr>" None]
      token by simp
qed

text \<open>What the two checks of the headers of a change accept, in terms of the headers: the browser calls the
  request same-origin, or, where it does not say, the \<open>Origin\<close> header is missing or names the host.\<close>

definition origin_names_host :: "header_map \<Rightarrow> bool" where
  "origin_names_host headers \<longleftrightarrow>
     header_text headers ''origin'' = None \<or>
     (\<exists>origin host scheme rest. header_text headers ''origin'' = Some origin \<and> header_text headers ''host'' = Some host \<and>
        scheme \<in> {''https://'', ''http://'', []} \<and> origin = scheme @ rest \<and>
        to_ascii_lowercase rest = to_ascii_lowercase host)"

definition site_is :: "header_map \<Rightarrow> string set \<Rightarrow> bool" where
  "site_is headers names \<longleftrightarrow>
     (case header_text headers ''sec-fetch-site'' of
        None \<Rightarrow> origin_names_host headers
      | Some site \<Rightarrow> to_ascii_lowercase site \<in> names)"

lemma origin_matches: "origin_matches_host headers \<Longrightarrow> origin_names_host headers"
  unfolding origin_matches_host_def origin_names_host_def Let_def
  by (auto simp: strip_prefix_def has_prefix_iff eq_ignore_ascii_case_def split: option.splits if_splits)

lemma cookie_same_site: "cookie_mutation_is_same_origin headers \<Longrightarrow> site_is headers {''same-origin''}"
proof -
  assume same: "cookie_mutation_is_same_origin headers"
  have "to_ascii_lowercase ''same-origin'' = ''same-origin''" by code_simp
  with same origin_matches show ?thesis
    by (auto simp: cookie_mutation_is_same_origin_def site_is_def eq_ignore_ascii_case_def split: option.splits)
qed

lemma bootstrap_same_site:
  "\<not> bootstrap_mutation_is_cross_site headers \<Longrightarrow> site_is headers (- {''same-site'', ''cross-site''})"
proof -
  assume same: "\<not> bootstrap_mutation_is_cross_site headers"
  have "to_ascii_lowercase ''same-site'' = ''same-site''" "to_ascii_lowercase ''cross-site'' = ''cross-site''"
    by code_simp+
  with same origin_matches show ?thesis
    by (auto simp: bootstrap_mutation_is_cross_site_def site_is_def eq_ignore_ascii_case_def split: option.splits)
qed

text \<open>A bearer token and a session cookie as they stand in their headers\<close>

definition sends_bearer :: "header_map \<Rightarrow> string \<Rightarrow> bool" where
  "sends_bearer headers token \<longleftrightarrow>
     (\<exists>scheme rest. header_text headers ''authorization'' = Some (scheme @ '' '' @ rest) \<and>
        to_ascii_lowercase scheme = ''bearer'' \<and> str_trim rest = token \<and> token \<noteq> [])"

definition sends_session :: "header_map \<Rightarrow> string \<Rightarrow> bool" where
  "sends_session headers session \<longleftrightarrow>
     (\<exists>cookies. header_text headers ''cookie'' = Some cookies \<and>
        ''tmdb_mteam_admin_session='' @ session \<in> str_trim ` set (split_char CHR '';'' cookies))"

lemma split_once_Some: "split_once c s = Some (a, b) \<Longrightarrow> s = a @ [c] @ b"
  unfolding split_once_def
  by (auto simp: find_byte_Some id_take_nth_drop split: option.splits)

lemma session_sent: "session_cookie_value headers = Some v \<Longrightarrow> sends_session headers v"
proof -
  assume "session_cookie_value headers = Some v"
  then obtain cookies found where cookies: "header_text headers ''cookie'' = Some cookies"
    and found: "find (\<lambda>(name, _). name = session_cookie_name)
      (List.map_filter (\<lambda>pair. split_once CHR ''='' (str_trim pair)) (split_char CHR '';'' cookies)) = Some found"
    and v: "snd found = v"
    by (auto simp: session_cookie_value_def split: option.splits)
  have "found \<in> set (List.map_filter (\<lambda>pair. split_once CHR ''='' (str_trim pair)) (split_char CHR '';'' cookies))"
    and "fst found = session_cookie_name"
    using found nth_mem by (fastforce simp: find_Some_iff)+
  with v have "(session_cookie_name, v) \<in>
      set (List.map_filter (\<lambda>pair. split_once CHR ''='' (str_trim pair)) (split_char CHR '';'' cookies))"
    by (metis prod.collapse)
  then obtain pair where "pair \<in> set (split_char CHR '';'' cookies)"
      "split_once CHR ''='' (str_trim pair) = Some (session_cookie_name, v)"
    by (auto simp: List.map_filter_def)
  with cookies split_once_Some [of "CHR ''=''" "str_trim pair" session_cookie_name v] show ?thesis
    by (force simp: sends_session_def session_cookie_name_def)
qed

lemma bearer_sent: "bearer_token headers = Some t \<Longrightarrow> sends_bearer headers t"
proof -
  have "to_ascii_lowercase ''bearer'' = ''bearer''" by code_simp
  then show "bearer_token headers = Some t \<Longrightarrow> sends_bearer headers t"
    by (fastforce simp: bearer_token_def sends_bearer_def eq_ignore_ascii_case_def
        dest: split_once_Some split: option.splits if_splits)
qed

text \<open>C37. Nothing gets past the guard of the management API but a request with the digest of the
  configured token, as a bearer or as a session, or, while no token is configured, a request of a
  loopback peer. A request with a session that is not a \<open>GET\<close>, \<open>HEAD\<close> or \<open>OPTIONS\<close> passes only when the
  browser calls it same-origin or, where it does not say, its origin names the host; one from loopback
  only when the browser does not call it same-site or cross-site, or its origin names the host. Reads
  with the session cookie are not held back; the cookie itself is \<open>SameSite=Strict\<close>.\<close>

theorem guard_admits_only_authorized:
  assumes "require_management_auth sha management verb headers peer = RunNext"
  shows "if str_trim (mgmt_admin_token management) = []
    then (\<exists>p. peer = Some p \<and> is_loopback p) \<and>
      (verb \<in> {''GET'', ''HEAD'', ''OPTIONS''} \<or> site_is headers (- {''same-site'', ''cross-site''}))
    else (\<exists>t. sends_bearer headers t \<and> sha t = sha (str_trim (mgmt_admin_token management))) \<or>
      sends_session headers (digest_hex (sha (str_trim (mgmt_admin_token management)))) \<and>
      (verb \<in> {''GET'', ''HEAD'', ''OPTIONS''} \<or> site_is headers {''same-origin''})"
proof -
  have "is_safe_method verb \<longleftrightarrow> verb \<in> {''GET'', ''HEAD'', ''OPTIONS''}" by (simp add: is_safe_method_def)
  with assms cookie_same_site [of headers] bootstrap_same_site [of headers] bearer_sent session_sent show ?thesis
    by (auto simp: require_management_auth_def authentication_kind_of_def Let_def login_token_matches_def session_matches_def
        from_loopback_def split: if_splits option.splits)
qed

theorem guard_admits_only_authorized_witness:
  "require_management_auth (\<lambda>s. s) sample_management ''PUT''
      (cookie_headers(''sec-fetch-site'' \<mapsto> ''same-origin'')) None = RunNext \<and>
   site_is (cookie_headers(''sec-fetch-site'' \<mapsto> ''same-origin'')) {''same-origin''}"
proof -
  let ?headers = "cookie_headers(''sec-fetch-site'' \<mapsto> ''same-origin'')"
  have admitted: "require_management_auth (\<lambda>s. s) sample_management ''PUT'' ?headers None = RunNext"
    by code_simp
  have "str_trim (mgmt_admin_token sample_management) \<noteq> []" by code_simp
  moreover have "header_text ?headers ''authorization'' = None"
    by (simp add: header_text_def cookie_headers_def)
  then have "\<not> sends_bearer ?headers t" for t by (simp add: sends_bearer_def)
  ultimately have "site_is ?headers {''same-origin''}"
    using guard_admits_only_authorized [OF admitted] by auto
  with admitted show ?thesis by simp
qed

end
