(* ===== verification/Torrent_Metainfo.thy ===== *)
theory Torrent_Metainfo
  imports Poll_Service
begin

text \<open>
  The metainfo parser of \<open>src/clients/torrent.rs\<close>: a torrent file is accepted when it is one bencoded
  dictionary with one \<open>info\<close> dictionary, and is identified by the SHA-1 of that dictionary's bytes.
  The parser's state is what is left to read; a loop over the elements of a list or dictionary
  has the length of what is left as its fuel, and each element takes at least one byte of it.
  SHA-1 is a parameter.
\<close>

subsection \<open>Strings and numbers\<close>

text \<open>\<open>while self.peek()?.is_ascii_digit()\<close>\<close>

definition take_digits :: "string \<Rightarrow> (string \<times> string) option" where
  "take_digits rest =
     (let after = dropWhile is_digit rest in
      if after = [] then None else Some (takeWhile is_digit rest, after))"

definition leading_zero :: "string \<Rightarrow> bool" where
  "leading_zero digits \<longleftrightarrow> 1 < length digits \<and> hd digits = CHR ''0''"

definition bencode_string :: "string \<Rightarrow> (string \<times> string) option" where
  "bencode_string rest =
     (case take_digits rest of
        None \<Rightarrow> None
      | Some (digits, after) \<Rightarrow>
          if digits = [] \<or> leading_zero digits \<or> hd after \<noteq> CHR '':'' then None
          else case parse_unsigned (2 ^ 64) digits of
            None \<Rightarrow> None
          | Some n \<Rightarrow>
              if nat n \<le> length (tl after) then Some (take (nat n) (tl after), drop (nat n) (tl after)) else None)"

definition bencode_number :: "string \<Rightarrow> string option" where
  "bencode_number rest =
     (case rest of
        [] \<Rightarrow> None
      | c # r \<Rightarrow>
          (let signed = (c = CHR ''-'') in
           case take_digits (if signed then r else rest) of
             None \<Rightarrow> None
           | Some (digits, after) \<Rightarrow>
               if digits = [] \<or> leading_zero digits \<or> (signed \<and> digits = ''0'') \<or> hd after \<noteq> CHR ''e'' then None
               else Some (tl after)))"

subsection \<open>Values\<close>

fun bencode_items :: "nat \<Rightarrow> bool \<Rightarrow> (string \<Rightarrow> string option) \<Rightarrow> string \<Rightarrow> string option" where
  "bencode_items 0 dictionary element rest = None"
| "bencode_items (Suc fuel) dictionary element rest =
     (case rest of
        [] \<Rightarrow> None
      | c # r \<Rightarrow>
          if c = CHR ''e'' then Some r
          else case (if dictionary then map_option snd (bencode_string rest) else Some rest) of
            None \<Rightarrow> None
          | Some start \<Rightarrow>
              (case element start of
                 None \<Rightarrow> None
               | Some next_rest \<Rightarrow> bencode_items fuel dictionary element next_rest))"

text \<open>\<open>value(depth)\<close>, by the depth that is left of 64\<close>

primrec bencode_value :: "nat \<Rightarrow> string \<Rightarrow> string option" where
  "bencode_value 0 rest = None"
| "bencode_value (Suc depth_left) rest =
     (case rest of
        [] \<Rightarrow> None
      | c # r \<Rightarrow>
          if c = CHR ''d'' \<or> c = CHR ''l''
          then bencode_items (Suc (length r)) (c = CHR ''d'') (bencode_value depth_left) r
          else if c = CHR ''i'' then bencode_number r
          else if is_digit c then map_option snd (bencode_string rest)
          else None)"

subsection \<open>The info dictionary\<close>

text \<open>The loop over the outer dictionary, up to its closing byte\<close>

fun metainfo_entries :: "nat \<Rightarrow> string option \<Rightarrow> string \<Rightarrow> (string option \<times> string) option" where
  "metainfo_entries 0 info rest = None"
| "metainfo_entries (Suc fuel) info rest =
     (case rest of
        [] \<Rightarrow> None
      | c # r \<Rightarrow>
          if c = CHR ''e'' then Some (info, rest)
          else case bencode_string rest of
            None \<Rightarrow> None
          | Some (key, start) \<Rightarrow>
              if key = ''info'' \<and> (info \<noteq> None \<or> start = [] \<or> hd start \<noteq> CHR ''d'') then None
              else case bencode_value 64 start of
                None \<Rightarrow> None
              | Some next_rest \<Rightarrow>
                  (let size_read = length start - length next_rest in
                   if key = ''info''
                   then (if size_read \<le> 2 then None
                         else metainfo_entries fuel (Some (take size_read start)) next_rest)
                   else metainfo_entries fuel info next_rest))"

definition info_hash :: "(string \<Rightarrow> string) \<Rightarrow> string \<Rightarrow> string option" where
  "info_hash sha1 bytes =
     (case bytes of
        [] \<Rightarrow> None
      | c # r \<Rightarrow>
          if c \<noteq> CHR ''d'' then None
          else case metainfo_entries (Suc (length r)) None r of
            None \<Rightarrow> None
          | Some (info, rest) \<Rightarrow>
              if tl rest \<noteq> [] then None
              else map_option (\<lambda>dictionary. hex_bytes (sha1 dictionary)) info)"

end
