(* ===== verification/Torrent_Theorems.thy ===== *)
theory Torrent_Theorems
  imports Torrent_Metainfo Config_Facts
begin

text \<open>
  What the metainfo parser accepts: exactly the canonical encodings of dictionaries with one \<open>info\<close>
  dictionary, of which it hashes the bytes.
\<close>

subsection \<open>Bencoding\<close>

datatype bencode = BInt int | BStr string | BList "bencode list" | BDict "(string \<times> bencode) list"

definition encode_string :: "string \<Rightarrow> string" where
  "encode_string s = decimal (length s) @ CHR '':'' # s"

definition encode_int :: "int \<Rightarrow> string" where
  "encode_int i = (if i < 0 then CHR ''-'' # decimal (nat (- i)) else decimal (nat i))"

fun encode :: "bencode \<Rightarrow> string" where
  "encode (BInt i) = CHR ''i'' # encode_int i @ ''e''"
| "encode (BStr s) = encode_string s"
| "encode (BList vs) = CHR ''l'' # concat (map encode vs) @ ''e''"
| "encode (BDict entries) = CHR ''d'' # concat (map (\<lambda>(k, v). encode_string k @ encode v) entries) @ ''e''"

text \<open>Nesting of at most \<open>d\<close> values\<close>

fun within_depth :: "nat \<Rightarrow> bencode \<Rightarrow> bool" where
  "within_depth 0 v = False"
| "within_depth (Suc d) (BList vs) = list_all (within_depth d) vs"
| "within_depth (Suc d) (BDict entries) = list_all (\<lambda>(_, v). within_depth d v) entries"
| "within_depth (Suc d) _ = True"

subsection \<open>Decimal texts\<close>

lemma decimal_zero: "decimal 0 = ''0''"
  by code_simp

lemma digit_cases: "is_digit c \<Longrightarrow> \<exists>d < 10. c = digit_char d"
proof -
  assume "is_digit c"
  then have "48 \<le> (of_char c :: nat)" "(of_char c :: nat) \<le> 57" by (simp_all add: is_digit_def less_eq_char_def)
  then have "c = digit_char (of_char c - 48)" "of_char c - 48 < (10 :: nat)" by (simp_all add: digit_char_def)
  then show ?thesis by blast
qed

lemma decimal_is_digits: "list_all is_digit (decimal n)"
proof (induction n rule: decimal.induct)
  case (1 n)
  have "is_digit (digit_char d)" if "d < 10" for d
    using that by (simp add: is_digit_def digit_char_def less_eq_char_def)
  with 1 show ?case by (subst decimal.simps) simp
qed

lemma decimal_head: "0 < n \<Longrightarrow> hd (decimal n) \<noteq> CHR ''0''"
proof (induction n rule: decimal.induct)
  case (1 n)
  have "digit_char d \<noteq> CHR ''0''" if "0 < d" "d < 10" for d
    using that by (auto simp: digit_char_def dest: arg_cong [where f = "of_char :: char \<Rightarrow> nat"])
  with 1 show ?case by (subst decimal.simps) (auto simp: hd_append)
qed

lemma decimal_canonical: "\<not> leading_zero (decimal n)"
  using decimal_head [of n] by (cases "n = 0") (auto simp: leading_zero_def decimal_zero)

lemma canonical_decimal:
  "ds \<noteq> [] \<Longrightarrow> list_all is_digit ds \<Longrightarrow> \<not> leading_zero ds \<Longrightarrow> \<exists>n. ds = decimal n"
proof (induction ds rule: rev_induct)
  case (snoc c ds)
  from snoc.prems obtain d where d: "d < 10" "c = digit_char d" using digit_cases [of c] by auto
  show ?case
  proof (cases "ds = []")
    case True
    with d show ?thesis by (intro exI [of _ d]) (simp add: decimal.simps [of d])
  next
    case False
    with snoc.prems have head: "hd ds \<noteq> CHR ''0''" by (auto simp: leading_zero_def)
    with False snoc.prems snoc.IH obtain n where n: "ds = decimal n" by (auto simp: leading_zero_def)
    with head have "0 < n" by (cases n) (auto simp: decimal_zero)
    with d n show ?thesis by (intro exI [of _ "n * 10 + d"]) (simp add: decimal.simps [of "n * 10 + d"])
  qed
qed simp

lemma take_digits_decimal:
  "r \<noteq> [] \<Longrightarrow> \<not> is_digit (hd r) \<Longrightarrow> take_digits (decimal n @ r) = Some (decimal n, r)"
  using decimal_is_digits [of n]
  by (cases r) (auto simp: take_digits_def list_all_iff takeWhile_append2 dropWhile_append2)

lemma take_digits_Some:
  "take_digits rest = Some (ds, after) \<Longrightarrow> rest = ds @ after \<and> list_all is_digit ds \<and> after \<noteq> []"
  by (auto simp: take_digits_def Let_def list_all_iff dest: set_takeWhileD split: if_splits)

subsection \<open>Strings and numbers\<close>

lemma bencode_string_iff:
  assumes "length rest < 2 ^ 64"
  shows "bencode_string rest = Some (key, after) \<longleftrightarrow> rest = encode_string key @ after"
proof
  assume "rest = encode_string key @ after"
  moreover from this assms have "int (length key) < 2 ^ 64" by (simp add: encode_string_def)
  moreover have "take_digits (decimal (length key) @ CHR '':'' # key @ after) = Some (decimal (length key), CHR '':'' # key @ after)"
    by (rule take_digits_decimal) (simp_all add: is_digit_def less_eq_char_def)
  ultimately show "bencode_string rest = Some (key, after)"
    by (simp add: bencode_string_def encode_string_def parse_unsigned_def decimal_is_digits decimal_canonical
        digits_value_decimal)
next
  assume "bencode_string rest = Some (key, after)"
  then obtain ds r m where *: "take_digits rest = Some (ds, r)" "ds \<noteq> []" "\<not> leading_zero ds" "hd r = CHR '':''"
      "parse_unsigned (2 ^ 64) ds = Some m" "nat m \<le> length (tl r)" "key = take (nat m) (tl r)" "after = drop (nat m) (tl r)"
    by (auto simp: bencode_string_def split: option.splits prod.splits if_splits)
  note read = take_digits_Some [OF *(1)]
  from canonical_decimal [OF *(2) _ *(3)] read obtain n where n: "ds = decimal n" by blast
  with *(5) have "m = int n" by (simp add: parse_unsigned_def digits_value_decimal split: if_splits)
  moreover have "r = CHR '':'' # tl r" using read *(4) by (cases r) auto
  ultimately show "rest = encode_string key @ after"
    using read n *(6-8) by (simp add: encode_string_def)
qed

lemma bencode_number_iff: "bencode_number rest = Some after \<longleftrightarrow> (\<exists>i. rest = encode_int i @ CHR ''e'' # after)"
proof
  have digits: "take_digits (decimal n @ CHR ''e'' # after) = Some (decimal n, CHR ''e'' # after)" for n
    by (rule take_digits_decimal) (simp_all add: is_digit_def less_eq_char_def)
  assume "\<exists>i. rest = encode_int i @ CHR ''e'' # after"
  then obtain i where i: "rest = encode_int i @ CHR ''e'' # after" ..
  show "bencode_number rest = Some after"
  proof (cases "i < 0")
    case True
    have "decimal (nat (- i)) \<noteq> ''0''"
      using decimal_inject [of "nat (- i)" 0] True by (simp add: decimal_zero)
    with True i digits show ?thesis
      by (simp add: bencode_number_def encode_int_def decimal_canonical)
  next
    case False
    obtain c r where cr: "decimal (nat i) @ CHR ''e'' # after = c # r" by (cases "decimal (nat i)") auto
    then have "is_digit c" using decimal_is_digits [of "nat i"] by (cases "decimal (nat i)") auto
    then have "c \<noteq> CHR ''-''" by (auto simp: is_digit_def less_eq_char_def)
    with False i cr digits [of "nat i"] show ?thesis
      by (simp add: bencode_number_def encode_int_def decimal_canonical)
  qed
next
  assume "bencode_number rest = Some after"
  then obtain c r ds r1 where *: "rest = c # r" "take_digits (if c = CHR ''-'' then r else rest) = Some (ds, r1)"
      "ds \<noteq> []" "\<not> leading_zero ds" "\<not> (c = CHR ''-'' \<and> ds = ''0'')" "hd r1 = CHR ''e''" "after = tl r1"
    by (auto simp: bencode_number_def Let_def split: list.splits option.splits prod.splits if_splits)
  note read = take_digits_Some [OF *(2)]
  from canonical_decimal [OF *(3) _ *(4)] read obtain n where n: "ds = decimal n" by blast
  have tail: "r1 = CHR ''e'' # after" using read *(6,7) by (cases r1) auto
  show "\<exists>i. rest = encode_int i @ CHR ''e'' # after"
  proof (cases "c = CHR ''-''")
    case True
    with *(5) n have "0 < n" by (cases n) (auto simp: decimal_zero)
    with True read n tail *(1) show ?thesis by (intro exI [of _ "- int n"]) (simp add: encode_int_def)
  next
    case False
    with read n tail show ?thesis by (intro exI [of _ "int n"]) (simp add: encode_int_def)
  qed
qed

subsection \<open>Values\<close>

text \<open>An element of a dictionary, or of a list, where the key is empty\<close>

definition part :: "bool \<Rightarrow> string \<times> bencode \<Rightarrow> string" where
  "part dictionary e = (if dictionary then encode_string (fst e) else []) @ encode (snd e)"

definition parts_of :: "bool \<Rightarrow> (bencode \<Rightarrow> bool) \<Rightarrow> (string \<times> bencode) list \<Rightarrow> bool" where
  "parts_of dictionary P es \<longleftrightarrow> (\<forall>(k, v) \<in> set es. P v \<and> (\<not> dictionary \<longrightarrow> k = []))"

lemma parts_of_simps [simp]:
  "parts_of dictionary P []"
  "parts_of dictionary P (e # es) \<longleftrightarrow> P (snd e) \<and> (\<not> dictionary \<longrightarrow> fst e = []) \<and> parts_of dictionary P es"
  by (auto simp: parts_of_def)

lemma decimal_Cons: "\<exists>c r. decimal n = c # r \<and> is_digit c"
  using decimal_is_digits [of n] by (cases "decimal n") auto

lemma not_digit: "\<not> is_digit CHR ''e''" "\<not> is_digit CHR ''d''" "\<not> is_digit CHR ''l''" "\<not> is_digit CHR ''i''"
  by (simp_all add: is_digit_def less_eq_char_def)

lemma encode_string_head: "\<exists>c r. encode_string k = c # r \<and> is_digit c"
  using decimal_Cons [of "length k"] by (auto simp: encode_string_def)

lemma part_head: "\<exists>c r. part dictionary e = c # r \<and> c \<noteq> CHR ''e''"
proof -
  have "\<exists>c r. encode v = c # r \<and> c \<noteq> CHR ''e''" for v
    using encode_string_head not_digit(1) by (cases v) (auto, metis)
  moreover have "\<exists>c r. encode_string k = c # r \<and> c \<noteq> CHR ''e''" for k
    using encode_string_head [of k] not_digit(1) by metis
  ultimately show ?thesis
    by (cases dictionary) (auto simp: part_def, metis append_Cons)
qed

text \<open>What a value parser promises\<close>

definition parses :: "(bencode \<Rightarrow> bool) \<Rightarrow> (string \<Rightarrow> string option) \<Rightarrow> bool" where
  "parses P element \<longleftrightarrow>
     (\<forall>rest after. length rest < 2 ^ 64 \<longrightarrow>
        (element rest = Some after \<longleftrightarrow> (\<exists>v. P v \<and> rest = encode v @ after)))"

text \<open>The start of an element: after its key, when it has one\<close>

lemma element_start_iff:
  assumes "length rest < 2 ^ 64" and "parses P element"
  shows "(\<exists>start. (if dictionary then map_option snd (bencode_string rest) else Some rest) = Some start \<and>
            element start = Some after) \<longleftrightarrow>
         (\<exists>e. P (snd e) \<and> (\<not> dictionary \<longrightarrow> fst e = []) \<and> rest = part dictionary e @ after)"
proof (cases dictionary)
  case True
  have short: "length start < 2 ^ 64" if "rest = encode_string key @ start" for key start
    using assms(1) that by simp
  show ?thesis
    using True bencode_string_iff [OF assms(1)] assms(2) short
    by (auto simp: part_def parses_def) (metis append_assoc)+
next
  case False
  then show ?thesis
    using assms by (auto simp: part_def parses_def)
qed

lemma items_iff:
  assumes "parses P element"
  shows "length rest < 2 ^ 64 \<Longrightarrow> length rest < fuel \<Longrightarrow>
    bencode_items fuel dictionary element rest = Some after \<longleftrightarrow>
      (\<exists>es. parts_of dictionary P es \<and> rest = concat (map (part dictionary) es) @ CHR ''e'' # after)"
proof (induction fuel arbitrary: rest)
  case (Suc fuel)
  show ?case
  proof (cases "rest = [] \<or> hd rest = CHR ''e''")
    case True
    have "es = []" if "rest = concat (map (part dictionary) es) @ CHR ''e'' # after" for es
    proof (cases es)
      case (Cons e es')
      with that True part_head [of dictionary e] show ?thesis by auto
    qed
    with True show ?thesis
      by (cases rest) (auto intro!: exI [of _ "[]"], fastforce)
  next
    case False
    then obtain c r where c: "rest = c # r" "c \<noteq> CHR ''e''" by (cases rest) auto
    have next_items: "bencode_items fuel dictionary element after1 = Some after \<longleftrightarrow>
        (\<exists>es. parts_of dictionary P es \<and> after1 = concat (map (part dictionary) es) @ CHR ''e'' # after)"
      if "rest = part dictionary e @ after1" for e after1
    proof (rule Suc.IH)
      have "0 < length (part dictionary e)" using part_head [of dictionary e] by auto
      with that have "length after1 < length rest" by simp
      with Suc.prems show "length after1 < 2 ^ 64" "length after1 < fuel" by simp_all
    qed
    have "bencode_items (Suc fuel) dictionary element rest = Some after \<longleftrightarrow>
        (\<exists>after1. (\<exists>start. (if dictionary then map_option snd (bencode_string rest) else Some rest) = Some start \<and>
            element start = Some after1) \<and> bencode_items fuel dictionary element after1 = Some after)"
      using c by (auto split: option.splits)
    also have "\<dots> \<longleftrightarrow> (\<exists>after1 e. P (snd e) \<and> (\<not> dictionary \<longrightarrow> fst e = []) \<and> rest = part dictionary e @ after1 \<and>
        bencode_items fuel dictionary element after1 = Some after)"
      unfolding element_start_iff [OF Suc.prems(1) assms] by blast
    also have "\<dots> \<longleftrightarrow> (\<exists>e es. P (snd e) \<and> (\<not> dictionary \<longrightarrow> fst e = []) \<and> parts_of dictionary P es \<and>
        rest = part dictionary e @ concat (map (part dictionary) es) @ CHR ''e'' # after)"
      using next_items by blast
    also have "\<dots> \<longleftrightarrow> (\<exists>es. parts_of dictionary P es \<and> rest = concat (map (part dictionary) es) @ CHR ''e'' # after)"
      (is "_ \<longleftrightarrow> (\<exists>es. ?Q es)")
    proof -
      have "\<not> ?Q []" using c by simp
      then have "(\<exists>es. ?Q es) \<longleftrightarrow> (\<exists>e es. ?Q (e # es))" by (metis neq_Nil_conv)
      then show ?thesis by (simp add: conj_assoc)
    qed
    finally show ?thesis .
  qed
qed simp

lemma encode_list: "concat (map (part False) es) = concat (map encode (map snd es))"
  by (induction es) (simp_all add: part_def)

lemma encode_dict: "concat (map (part True) es) = concat (map (\<lambda>(k, v). encode_string k @ encode v) es)"
  by (induction es) (auto simp: part_def)

lemma encode_head:
  "encode v = CHR ''d'' # r \<longleftrightarrow> (\<exists>es. v = BDict es \<and> r = concat (map (part True) es) @ ''e'')"
  "encode v = CHR ''l'' # r \<longleftrightarrow> (\<exists>vs. v = BList vs \<and> r = concat (map encode vs) @ ''e'')"
  "encode v = CHR ''i'' # r \<longleftrightarrow> (\<exists>i. v = BInt i \<and> r = encode_int i @ ''e'')"
  "is_digit c \<Longrightarrow> encode v = c # r \<longleftrightarrow> (\<exists>s. v = BStr s \<and> c # r = encode_string s)"
  using not_digit encode_string_head [of "case v of BStr s \<Rightarrow> s | _ \<Rightarrow> []"]
  by (cases v; force simp: encode_dict)+

lemma encode_cases:
  "\<exists>c r. encode v = c # r \<and> (c \<in> {CHR ''d'', CHR ''l'', CHR ''i''} \<or> is_digit c)"
proof (cases v)
  case (BStr s)
  then show ?thesis using encode_string_head [of s] by (simp, blast)
qed simp_all

lemma encode_nonempty [simp]: "encode v \<noteq> []"
  using encode_cases [of v] by auto

lemma ex_built:
  "(\<exists>v. W v \<and> (\<exists>t. (\<exists>x. v = F x \<and> t = X x) \<and> r = t @ after)) \<longleftrightarrow> (\<exists>x. W (F x) \<and> r = X x @ after)"
  by blast

lemma value_parses: "parses (within_depth d) (bencode_value d)"
proof (induction d)
  case (Suc d)
  have "bencode_value (Suc d) rest = Some after \<longleftrightarrow> (\<exists>v. within_depth (Suc d) v \<and> rest = encode v @ after)"
    if short: "length rest < 2 ^ 64" for rest after
  proof (cases rest)
    case Nil
    then show ?thesis by simp
  next
    case (Cons c r)
    have starts: "rest = encode v @ after \<longleftrightarrow> (\<exists>t. encode v = c # t \<and> r = t @ after)" for v
      using encode_cases [of v] Cons by auto
    have items: "bencode_items (Suc (length r)) dictionary (bencode_value d) r = Some after \<longleftrightarrow>
        (\<exists>es. parts_of dictionary (within_depth d) es \<and> r = concat (map (part dictionary) es) @ CHR ''e'' # after)"
      for dictionary
      using short Cons by (intro items_iff [OF Suc.IH]) simp_all
    consider (dict) "c = CHR ''d''" | (list) "c = CHR ''l''" | (number) "c = CHR ''i''" | (str) "is_digit c"
      | (other) "c \<notin> {CHR ''d'', CHR ''l'', CHR ''i''}" "\<not> is_digit c"
      by blast
    then show ?thesis
    proof cases
      case dict
      have "parts_of True (within_depth d) es \<longleftrightarrow> within_depth (Suc d) (BDict es)" for es
        by (auto simp: parts_of_def list_all_iff)
      moreover have "bencode_value (Suc d) rest = Some after \<longleftrightarrow>
          (\<exists>es. parts_of True (within_depth d) es \<and> r = concat (map (part True) es) @ CHR ''e'' # after)"
        by (simp add: Cons dict items del: bencode_items.simps)
      ultimately show ?thesis unfolding starts dict encode_head ex_built by simp
    next
      case list
      have "parts_of False (within_depth d) (map (Pair []) vs) \<longleftrightarrow> within_depth (Suc d) (BList vs)" for vs
        by (auto simp: parts_of_def list_all_iff)
      moreover have "es = map (Pair []) (map snd es)" if "parts_of False (within_depth d) es" for es
        using that by (induction es) auto
      moreover have "map snd (map (Pair []) vs) = vs" for vs :: "bencode list" by (simp add: o_def)
      ultimately have "(\<exists>es. parts_of False (within_depth d) es \<and> r = concat (map encode (map snd es)) @ CHR ''e'' # after) \<longleftrightarrow>
          (\<exists>vs. within_depth (Suc d) (BList vs) \<and> r = concat (map encode vs) @ CHR ''e'' # after)"
        by metis
      moreover have "bencode_value (Suc d) rest = Some after \<longleftrightarrow>
          (\<exists>es. parts_of False (within_depth d) es \<and> r = concat (map encode (map snd es)) @ CHR ''e'' # after)"
        by (simp add: Cons list items encode_list del: bencode_items.simps map_map)
      ultimately show ?thesis unfolding starts list encode_head ex_built by simp
    next
      case number
      have "bencode_value (Suc d) rest = Some after \<longleftrightarrow> (\<exists>i. r = encode_int i @ CHR ''e'' # after)"
        by (simp add: Cons number bencode_number_iff)
      then show ?thesis unfolding starts number encode_head ex_built by simp
    next
      case str
      with not_digit have "c \<noteq> CHR ''d''" "c \<noteq> CHR ''l''" "c \<noteq> CHR ''i''" by auto
      moreover have "map_option snd (bencode_string rest) = Some after \<longleftrightarrow> (\<exists>s. rest = encode_string s @ after)"
        using bencode_string_iff [OF short] by auto
      ultimately have "bencode_value (Suc d) rest = Some after \<longleftrightarrow> (\<exists>s. c # r = encode_string s @ after)"
        using str Cons by simp
      moreover have "(\<exists>v. within_depth (Suc d) v \<and> rest = encode v @ after) \<longleftrightarrow> (\<exists>s. rest = encode_string s @ after)"
      proof
        assume "\<exists>v. within_depth (Suc d) v \<and> rest = encode v @ after"
        then obtain v t where "encode v = c # t" "r = t @ after" unfolding starts by blast
        with encode_head(4) [OF str] Cons show "\<exists>s. rest = encode_string s @ after" by (metis append_Cons)
      next
        assume "\<exists>s. rest = encode_string s @ after"
        then obtain s where "rest = encode (BStr s) @ after" by auto
        then show "\<exists>v. within_depth (Suc d) v \<and> rest = encode v @ after"
          by (metis within_depth.simps(5))
      qed
      ultimately show ?thesis using Cons by simp
    next
      case other
      then have "encode v \<noteq> c # t" for v t using encode_cases [of v] by auto
      with other show ?thesis unfolding starts by (simp add: Cons)
    qed
  qed
  then show ?case by (simp add: parses_def)
qed (simp add: parses_def)

subsection \<open>The info dictionary\<close>

fun nonempty_dict :: "bencode \<Rightarrow> bool" where
  "nonempty_dict (BDict (e # es)) = True"
| "nonempty_dict _ = False"

text \<open>The info dictionary after some more entries: the only one, and not empty\<close>

fun info_after :: "string option \<Rightarrow> (string \<times> bencode) list \<Rightarrow> string option option" where
  "info_after info [] = Some info"
| "info_after info ((k, v) # es) =
     (if k = ''info'' then (if info = None \<and> nonempty_dict v then info_after (Some (encode v)) es else None)
      else info_after info es)"

lemma encode_short: "length (encode (BDict es)) \<le> 2 \<longleftrightarrow> es = []"
  using part_head [of True "hd es"] by (cases es) (auto simp: part_def)

lemma nonempty_dict_iff:
  "nonempty_dict v \<longleftrightarrow> hd (encode v @ after) = CHR ''d'' \<and> \<not> length (encode v) \<le> 2"
proof -
  obtain c r where c: "encode v = c # r" using encode_cases by blast
  show ?thesis
  proof (cases "c = CHR ''d''")
    case True
    with c obtain es where es: "v = BDict es" by (auto simp: encode_head)
    have "nonempty_dict (BDict es) \<longleftrightarrow> es \<noteq> []" by (cases es) auto
    with es c True encode_short [of es] show ?thesis by (simp del: encode.simps)
  next
    case False
    moreover from this c have "\<not> nonempty_dict v" by (auto elim!: nonempty_dict.elims)
    ultimately show ?thesis using c by simp
  qed
qed

lemma entry_step:
  assumes "length (c # r) < 2 ^ 64" and "c \<noteq> CHR ''e''"
  shows "metainfo_entries (Suc fuel) info (c # r) = Some out \<longleftrightarrow>
    (\<exists>k v after. within_depth 64 v \<and> c # r = part True (k, v) @ after \<and>
       (if k = ''info'' then info = None \<and> nonempty_dict v \<and> metainfo_entries fuel (Some (encode v)) after = Some out
        else metainfo_entries fuel info after = Some out))"
    (is "?run \<longleftrightarrow> (\<exists>k v after. ?entry k v after)")
proof
  assume ?run
  with assms(2) obtain key start next_rest where key: "bencode_string (c # r) = Some (key, start)"
    and v: "bencode_value 64 start = Some next_rest"
    and checks: "key = ''info'' \<Longrightarrow> info = None \<and> hd start = CHR ''d'' \<and> \<not> length start - length next_rest \<le> 2"
    and more: "metainfo_entries fuel
        (if key = ''info'' then Some (take (length start - length next_rest) start) else info) next_rest = Some out"
    by (auto simp: Let_def split: option.splits if_splits)
  from key bencode_string_iff [OF assms(1)] have start: "c # r = encode_string key @ start" by simp
  moreover from this assms(1) have "length start < 2 ^ 64" by (metis length_append le_add2 le_less_trans)
  with v value_parses [of 64] obtain x where x: "within_depth 64 x" "start = encode x @ next_rest"
    by (auto simp: parses_def)
  ultimately have "?entry key x next_rest"
    using checks more nonempty_dict_iff [of x next_rest] by (auto simp: part_def)
  then show "\<exists>k v after. ?entry k v after" by blast
next
  assume "\<exists>k v after. ?entry k v after"
  then obtain k v after where entry: "?entry k v after" by blast
  then have start: "c # r = encode_string k @ encode v @ after" by (simp add: part_def)
  then have key: "bencode_string (c # r) = Some (k, encode v @ after)"
    using bencode_string_iff [OF assms(1)] by simp
  from start assms(1) have "length (encode v @ after) < 2 ^ 64" by (metis length_append le_add2 le_less_trans)
  with entry value_parses [of 64] have parsed: "bencode_value 64 (encode v @ after) = Some after"
    by (auto simp: parses_def)
  have "metainfo_entries (Suc fuel) info (c # r) =
      (if k = ''info''
       then (if info \<noteq> None \<or> hd (encode v @ after) \<noteq> CHR ''d'' \<or> length (encode v) \<le> 2 then None
             else metainfo_entries fuel (Some (encode v)) after)
       else metainfo_entries fuel info after)"
    using assms(2) by (auto simp: key parsed Let_def)
  with entry nonempty_dict_iff [of v after] show ?run by (auto split: if_splits)
qed

lemma entries_iff:
  "length rest < 2 ^ 64 \<Longrightarrow> length rest < fuel \<Longrightarrow>
    metainfo_entries fuel info rest = Some (info', out) \<longleftrightarrow>
      (\<exists>es after. list_all (\<lambda>(_, v). within_depth 64 v) es \<and> rest = concat (map (part True) es) @ CHR ''e'' # after \<and>
         out = CHR ''e'' # after \<and> info_after info es = Some info')"
    (is "_ \<Longrightarrow> _ \<Longrightarrow> _ \<longleftrightarrow> (\<exists>es after. ?entries rest info es after)")
proof (induction fuel arbitrary: info rest)
  case (Suc fuel)
  show ?case
  proof (cases "rest = [] \<or> hd rest = CHR ''e''")
    case True
    have "es = []" if "rest = concat (map (part True) es) @ CHR ''e'' # after" for es after
    proof (cases es)
      case (Cons e es')
      with that True part_head [of True e] show ?thesis by auto
    qed
    then have "(\<exists>es after. ?entries rest info es after) \<longleftrightarrow> (\<exists>after. ?entries rest info [] after)" by blast
    with True show ?thesis by (cases rest) auto
  next
    case False
    then obtain c r where c: "rest = c # r" "c \<noteq> CHR ''e''" by (cases rest) auto
    have IH: "metainfo_entries fuel info1 after1 = Some (info', out) \<longleftrightarrow> (\<exists>es after. ?entries after1 info1 es after)"
      if "rest = part True e @ after1" for e after1 info1
    proof (rule Suc.IH)
      have "0 < length (part True e)" using part_head [of True e] by auto
      with that have "length after1 < length rest" by simp
      with Suc.prems show "length after1 < 2 ^ 64" "length after1 < fuel" by simp_all
    qed
    have "metainfo_entries (Suc fuel) info rest = Some (info', out) \<longleftrightarrow>
      (\<exists>k v after1. within_depth 64 v \<and> rest = part True (k, v) @ after1 \<and>
        (if k = ''info'' then info = None \<and> nonempty_dict v \<and> (\<exists>es after. ?entries after1 (Some (encode v)) es after)
         else (\<exists>es after. ?entries after1 info es after)))"
      unfolding c(1) entry_step [OF Suc.prems(1) [unfolded c(1)] c(2)]
      by (intro iff_exI conj_cong refl if_cong) (use IH [unfolded c(1)] in blast)+
    also have "\<dots> \<longleftrightarrow> (\<exists>k v es after. ?entries rest info ((k, v) # es) after)"
      (is "?left = ?right")
    proof
      assume ?left
      then obtain k v after1 where e: "within_depth 64 v" "rest = part True (k, v) @ after1"
        and more: "if k = ''info'' then info = None \<and> nonempty_dict v \<and> (\<exists>es after. ?entries after1 (Some (encode v)) es after)
          else (\<exists>es after. ?entries after1 info es after)"
        by blast
      from more obtain es after where es: "?entries after1 (if k = ''info'' then Some (encode v) else info) es after"
        and ok: "k = ''info'' \<Longrightarrow> info = None \<and> nonempty_dict v"
        by (auto split: if_splits)
      from e es ok have "?entries rest info ((k, v) # es) after" by (auto split: if_splits)
      then show ?right by blast
    next
      assume ?right
      then obtain k v es after where es: "?entries rest info ((k, v) # es) after" by blast
      let ?after1 = "concat (map (part True) es) @ CHR ''e'' # after"
      from es have "within_depth 64 v" "rest = part True (k, v) @ ?after1"
        and more: "?entries ?after1 (if k = ''info'' then Some (encode v) else info) es after"
        and "k = ''info'' \<Longrightarrow> info = None \<and> nonempty_dict v"
        by (auto split: if_splits)
      then show ?left by (cases "k = ''info''") (simp, blast, simp, blast)
    qed
    also have "\<dots> \<longleftrightarrow> (\<exists>es after. ?entries rest info es after)"
    proof -
      have "\<not> ?entries rest info [] after" for after using c by simp
      then show ?thesis by (metis neq_Nil_conv surj_pair)
    qed
    finally show ?thesis .
  qed
qed simp

lemma ex_closed:
  "(\<exists>x out. (\<exists>es after. A es \<and> r = F es @ CHR ''e'' # after \<and> out = CHR ''e'' # after \<and> I es x) \<and> tl out = [] \<and> H x)
     \<longleftrightarrow> (\<exists>x es. A es \<and> r = F es @ ''e'' \<and> I es x \<and> H x)"
proof
  assume "\<exists>x es. A es \<and> r = F es @ ''e'' \<and> I es x \<and> H x"
  then show "\<exists>x out. (\<exists>es after. A es \<and> r = F es @ CHR ''e'' # after \<and> out = CHR ''e'' # after \<and> I es x) \<and> tl out = [] \<and> H x"
    by (metis list.sel(3))
qed fastforce

lemma info_after_iff:
  "info_after info es = Some (Some text_bytes) \<longleftrightarrow>
     (info = Some text_bytes \<and> filter (\<lambda>(k, _). k = ''info'') es = [] \<or>
      info = None \<and> (\<exists>v. filter (\<lambda>(k, _). k = ''info'') es = [(''info'', v)] \<and> nonempty_dict v \<and> text_bytes = encode v))"
  by (induction info es rule: info_after.induct) auto

text \<open>C40. A torrent file is accepted exactly when it is the canonical bencoding of a dictionary, nested at
  most 64 deep, with one entry \<open>info\<close>, a dictionary that is not empty; its hash is the SHA-1 of that
  dictionary's own encoding.\<close>

theorem info_hash_iff_bencoded:
  assumes "length bytes < 2 ^ 64"
  shows "info_hash sha1 bytes = Some h \<longleftrightarrow>
    (\<exists>entries info.
       bytes = encode (BDict entries) \<and> list_all (\<lambda>(_, v). within_depth 64 v) entries \<and>
       filter (\<lambda>(k, _). k = ''info'') entries = [(''info'', BDict info)] \<and> info \<noteq> [] \<and>
       h = hex_bytes (sha1 (encode (BDict info))))"
proof (cases bytes)
  case (Cons c r)
  have dict: "nonempty_dict v \<longleftrightarrow> (\<exists>info. v = BDict info \<and> info \<noteq> [])" for v
    by (cases v rule: nonempty_dict.cases) auto
  have "info_hash sha1 bytes = Some h \<longleftrightarrow>
      c = CHR ''d'' \<and> (\<exists>dictionary out. metainfo_entries (Suc (length r)) None r = Some (Some dictionary, out) \<and>
        tl out = [] \<and> h = hex_bytes (sha1 dictionary))"
    by (auto simp: info_hash_def Cons split: option.splits simp del: metainfo_entries.simps)
  also have "\<dots> \<longleftrightarrow> c = CHR ''d'' \<and> (\<exists>dictionary es. list_all (\<lambda>(_, v). within_depth 64 v) es \<and>
      r = concat (map (part True) es) @ ''e'' \<and> info_after None es = Some (Some dictionary) \<and>
      h = hex_bytes (sha1 dictionary))"
  proof -
    have "metainfo_entries (Suc (length r)) None r = Some (Some dictionary, out) \<longleftrightarrow>
        (\<exists>es after. list_all (\<lambda>(_, v). within_depth 64 v) es \<and> r = concat (map (part True) es) @ CHR ''e'' # after \<and>
          out = CHR ''e'' # after \<and> info_after None es = Some (Some dictionary))" for dictionary out
      using assms Cons by (intro entries_iff) simp_all
    then show ?thesis unfolding ex_closed by (simp only: ex_closed)
  qed
  also have "\<dots> \<longleftrightarrow> (\<exists>es v. bytes = encode (BDict es) \<and> list_all (\<lambda>(_, v). within_depth 64 v) es \<and>
      filter (\<lambda>(k, _). k = ''info'') es = [(''info'', v)] \<and> nonempty_dict v \<and> h = hex_bytes (sha1 (encode v)))"
    by (auto simp: Cons info_after_iff encode_dict)
  finally show ?thesis unfolding dict by auto
qed (simp add: info_hash_def)

definition sample_torrent :: bencode where
  "sample_torrent = BDict [(''announce'', BStr ''u''), (''info'', BDict [(''length'', BInt 7)])]"

theorem info_hash_iff_bencoded_witness:
  "info_hash (\<lambda>s. s) ''d8:announce1:u4:infod6:lengthi7eee'' = Some (hex_bytes ''d6:lengthi7ee'') \<and>
   info_hash (\<lambda>s. s) ''d8:announce1:u4:infod6:lengthi07eee'' = None"
proof -
  let ?bytes = "''d8:announce1:u4:infod6:lengthi7eee''"
  have "?bytes = encode sample_torrent" "''d6:lengthi7ee'' = encode (BDict [(''length'', BInt 7)])" by code_simp+
  moreover have "list_all (\<lambda>(_, v). within_depth 64 v)
      [(''announce'', BStr ''u''), (''info'', BDict [(''length'', BInt 7)])]" by code_simp
  moreover have short: "length ?bytes < 2 ^ 64" by simp
  moreover have "filter (\<lambda>(k, _). k = ''info'') [(''announce'', BStr ''u''), (''info'', BDict [(''length'', BInt 7)])] =
      [(''info'', BDict [(''length'', BInt 7)])]" by simp
  ultimately have "info_hash (\<lambda>s. s) ?bytes = Some (hex_bytes ''d6:lengthi7ee'')"
    unfolding info_hash_iff_bencoded [OF short] sample_torrent_def by (metis list.distinct(1))
  moreover have "info_hash (\<lambda>s. s) ''d8:announce1:u4:infod6:lengthi07eee'' = None" by code_simp
  ultimately show ?thesis by simp
qed

end
