(* ===== verification/Html_Scan.thy ===== *)
theory Html_Scan
  imports Candidate_Matching Poll_Service
begin

text \<open>
  The HTML scanner of \<open>src/douban.rs\<close>. Tags are found by searching for bytes; a scan keeps what is
  left of the text where the code keeps an offset. \<open>attr_value\<close> finds the attribute in the
  lower-case copy of a tag and slices the tag itself at that offset: a slice outside the tag or
  inside a character is the panic \<open>Inl BadSlice\<close>, and a loop that does not move on is \<open>Inl NoProgress\<close>.
\<close>

subsection \<open>Text\<close>

datatype slice_panic = BadSlice | NoProgress

text \<open>\<open>str::is_char_boundary\<close>: what a slice needs of its ends\<close>

definition char_boundary :: "string \<Rightarrow> nat \<Rightarrow> bool" where
  "char_boundary s i \<longleftrightarrow>
     i = length s \<or> (i < length s \<and> \<not> (0x80 \<le> (of_char (s ! i) :: nat) \<and> (of_char (s ! i) :: nat) < 0xC0))"

text \<open>\<open>s.replace(from, to)\<close>, for a \<open>from\<close> that is not empty\<close>

function str_replace :: "string \<Rightarrow> string \<Rightarrow> string \<Rightarrow> string" where
  "str_replace from_text to_text s =
     (if from_text = [] then s
      else case str_find from_text s of
        None \<Rightarrow> s
      | Some i \<Rightarrow> take i s @ to_text @ str_replace from_text to_text (drop (i + length from_text) s))"
  by pat_completeness auto
termination
proof (relation "measure (\<lambda>(from_text :: string, to_text :: string, s :: string). length s)", goal_cases)
  case (2 from_text to_text s i)
  then show ?case using str_find_room [OF 2(2)] by (cases from_text) auto
qed simp

declare str_replace.simps [simp del]

definition html_unescape :: "string \<Rightarrow> string" where
  "html_unescape s =
     foldl (\<lambda>t (entity, plain). str_replace entity plain t) s
       [(''&nbsp;'', '' ''), (''&amp;'', ''&''), (''&quot;'', [CHR 0x22]), (''&#34;'', [CHR 0x22]),
        (''&#39;'', [CHR 0x27]), (''&lt;'', ''<''), (''&gt;'', ''>'')]"

definition normalize_ws :: "string \<Rightarrow> string" where
  "normalize_ws s = join_with '' '' (split_whitespace s)"

fun outside_tags :: "bool \<Rightarrow> string \<Rightarrow> string" where
  "outside_tags in_tag [] = []"
| "outside_tags in_tag (c # s) =
     (if c = CHR ''<'' then outside_tags True s
      else if c = CHR ''>'' then outside_tags False s
      else if in_tag then outside_tags in_tag s
      else c # outside_tags in_tag s)"

definition strip_html :: "string \<Rightarrow> string" where
  "strip_html s = html_unescape (normalize_ws (outside_tags False s))"

text \<open>What follows the next \<open>>\<close>, and the text up to there\<close>

definition after_tag :: "string \<Rightarrow> string option" where
  "after_tag s = map_option (\<lambda>i. drop (Suc i) s) (find_byte ((=) CHR ''>'') s)"

definition text_before :: "string \<Rightarrow> string \<Rightarrow> string" where
  "text_before s rest = take (length s - length rest) s"

text \<open>\<open>s.rfind(p)\<close>\<close>

definition str_rfind :: "string \<Rightarrow> string \<Rightarrow> nat option" where
  "str_rfind p s = find (\<lambda>i. has_prefix p (drop i s)) (rev [0..<Suc (length s)])"

lemma after_tag_shorter [termination_simp]: "after_tag s = Some rest \<Longrightarrow> length rest < length s"
  by (auto simp: after_tag_def find_byte_Some)

subsection \<open>Attributes\<close>

text \<open>The loop of \<open>attr_value\<close> from an offset in the lower-case tag\<close>

function attr_value_from :: "string \<Rightarrow> string \<Rightarrow> string \<Rightarrow> nat \<Rightarrow> slice_panic + string option" where
  "attr_value_from lower tag attr offset =
     (if attr = [] then Inr None
      else if \<not> char_boundary lower offset then Inl BadSlice
      else case str_find attr (drop offset lower) of
        None \<Rightarrow> Inr None
      | Some i \<Rightarrow>
          (let after_attr = offset + i + length attr in
           if \<not> char_boundary tag after_attr then Inl BadSlice
           else
             (let rest = drop after_attr tag; rest_trimmed = trim_start rest;
                  value_start = after_attr + (length rest - length rest_trimmed) + 1 in
              if \<not> has_prefix ''='' rest_trimmed then attr_value_from lower tag attr after_attr
              else case trim_start (drop value_start tag) of
                [] \<Rightarrow> Inr None
              | quote # _ \<Rightarrow>
                  if quote \<noteq> CHR 0x22 \<and> quote \<noteq> CHR 0x27 then attr_value_from lower tag attr value_start
                  else if \<not> char_boundary tag (Suc value_start) then Inl BadSlice
                  else
                    (let inner = drop (Suc value_start) tag in
                     Inr (map_option (\<lambda>e. html_unescape (take e inner)) (find_byte ((=) quote) inner))))))"
  by pat_completeness auto
termination
proof (relation "measure (\<lambda>(lower :: string, tag :: string, attr :: string, offset). Suc (length lower) - offset)",
    goal_cases)
  case 1
  then show ?case by simp
next
  case (2 lower tag attr offset i after_attr rest rest_trimmed value_start)
  then have "offset \<le> length lower" by (auto simp: char_boundary_def)
  then show ?case using 2 str_find_room [OF 2(3)] by (cases attr) auto
next
  case (3 lower tag attr offset i after_attr rest rest_trimmed value_start)
  then have "offset \<le> length lower" by (auto simp: char_boundary_def)
  then show ?case using 3 str_find_room [OF 3(3)] by (cases attr) auto
qed

declare attr_value_from.simps [simp del]

definition attr_value :: "unicode \<Rightarrow> string \<Rightarrow> string \<Rightarrow> slice_panic + string option" where
  "attr_value uc tag attr = attr_value_from (uc_lowercase uc tag) tag attr 0"

definition tag_has_class :: "unicode \<Rightarrow> string \<Rightarrow> string \<Rightarrow> slice_panic + bool" where
  "tag_has_class uc tag class_name =
     and_then (attr_value uc tag ''class'') (\<lambda>v.
     Inr (case v of None \<Rightarrow> False | Some names \<Rightarrow> class_name \<in> set (split_whitespace names)))"

definition tag_name :: "string \<Rightarrow> string option" where
  "tag_name tag =
     (case strip_prefix ''<'' tag of
        None \<Rightarrow> None
      | Some rest \<Rightarrow>
          (let name = takeWhile (\<lambda>c. is_alphanumeric c \<or> c = CHR ''-'') (trim_start rest) in
           if name = [] then None else Some name))"

text \<open>\<open>first_tag_attr_by_marker\<close>\<close>

definition first_tag_attr_by_marker :: "unicode \<Rightarrow> string \<Rightarrow> string \<Rightarrow> string \<Rightarrow> slice_panic + string option" where
  "first_tag_attr_by_marker uc html marker attr =
     (let lower = uc_lowercase uc html in
      case str_find (uc_lowercase uc marker) lower of
        None \<Rightarrow> Inr None
      | Some i \<Rightarrow>
          if \<not> char_boundary html i then Inl BadSlice
          else case (if has_prefix ''<'' (drop i lower) then Some i
                     else rfind_byte ((=) CHR ''<'') (take i html)) of
            None \<Rightarrow> Inr None
          | Some start \<Rightarrow>
              (case after_tag (drop start html) of
                 None \<Rightarrow> Inr None
               | Some rest \<Rightarrow>
                   and_then (attr_value uc (text_before (drop start html) rest) attr) (\<lambda>v.
                   Inr (case v of None \<Rightarrow> None | Some s \<Rightarrow> if s = [] then None else Some s))))"

subsection \<open>Elements\<close>

text \<open>The next tag of a \<open>div\<close>, whether it opens one, and where it is\<close>

definition next_div :: "string \<Rightarrow> (bool \<times> nat) option" where
  "next_div rest =
     (case (str_find ''<div'' rest, str_find ''</div'' rest) of
        (None, None) \<Rightarrow> None
      | (Some open_at, Some close_at) \<Rightarrow>
          Some (if open_at < close_at then (True, open_at) else (False, close_at))
      | (None, Some close_at) \<Rightarrow> Some (False, close_at)
      | (Some open_at, None) \<Rightarrow> Some (True, open_at))"

text \<open>\<open>matching_div_end\<close> on what is left, with what follows the end of the element\<close>

function after_matching_div :: "nat \<Rightarrow> string \<Rightarrow> string option" where
  "after_matching_div depth rest =
     (case next_div rest of
        None \<Rightarrow> None
      | Some (open_at, i) \<Rightarrow>
          (case after_tag (drop i rest) of
             None \<Rightarrow> None
           | Some after \<Rightarrow>
               if open_at then after_matching_div (Suc depth) after
               else if depth - 1 = 0 then Some after
               else after_matching_div (depth - 1) after))"
  by pat_completeness auto
termination
  by (relation "measure (\<lambda>(depth :: nat, rest :: string). length rest)")
    (auto dest!: after_tag_shorter)

declare after_matching_div.simps [simp del]

lemma after_matching_div_shorter:
  "after_matching_div depth rest = Some outer \<Longrightarrow> length outer < length rest"
proof (induction depth rest rule: after_matching_div.induct)
  case (1 depth rest)
  from "1.prems" obtain open_at i after
    where nx: "next_div rest = Some (open_at, i)" "after_tag (drop i rest) = Some after"
    by (subst (asm) after_matching_div.simps) (auto split: option.splits)
  then have "length after < length rest" using after_tag_shorter [OF nx(2)] by simp
  moreover have "length outer \<le> length after"
    using "1.prems" "1.IH" [OF nx(1) refl nx(2)]
    by (subst (asm) after_matching_div.simps) (fastforce simp: nx split: if_splits)
  ultimately show ?case by simp
qed

end
