(* ===== verification/Http_Client.thy ===== *)
theory Http_Client
  imports Effect_Environment Torrent_Metainfo
begin

text \<open>
  The bounded HTTP client of \<open>src/clients/http.rs\<close> as its callers see it: its errors and a response.
  \<open>reqwest\<close>, which sends a request, is a parameter acting on a state \<open>'q\<close>; the multipart and JSON
  encodings of a body are kept as what they encode.
\<close>

subsection \<open>Errors\<close>

datatype client_error =
  ClientInvalidRequest string string
| ClientTimeout string
| ClientBodyTooLarge string nat
| ClientAuthentication string
| ClientRateLimited string
| ClientProtocol string string
| ClientUnavailable string string

definition client_error_for_status :: "string \<Rightarrow> u16 \<Rightarrow> client_error" where
  "client_error_for_status provider status =
     (if status = 401 \<or> status = 403 then ClientAuthentication provider
      else if status = 429 then ClientRateLimited provider
      else if 500 \<le> status \<and> status \<le> 599
      then ClientUnavailable provider (''upstream returned HTTP '' @ decimal (unat status))
      else ClientProtocol provider (''unexpected upstream HTTP '' @ decimal (unat status)))"

fun display_client_error :: "client_error \<Rightarrow> string" where
  "display_client_error (ClientInvalidRequest provider message) = provider @ '': '' @ message"
| "display_client_error (ClientTimeout provider) = provider @ '' request timed out''"
| "display_client_error (ClientBodyTooLarge provider limit) =
     provider @ '' response exceeded the '' @ decimal limit @ ''-byte limit''"
| "display_client_error (ClientAuthentication provider) = provider @ '' rejected authentication''"
| "display_client_error (ClientRateLimited provider) = provider @ '' rate limited the request''"
| "display_client_error (ClientProtocol provider message) = provider @ '': '' @ message"
| "display_client_error (ClientUnavailable provider message) = provider @ '': '' @ message"

subsection \<open>Responses\<close>

record client_response =
  resp_status :: u16
  resp_final_url :: string
  resp_content_type :: "string option"
  resp_body :: string

definition is_success :: "client_response \<Rightarrow> bool" where
  "is_success r \<longleftrightarrow> 200 \<le> resp_status r \<and> resp_status r < 300"

text \<open>The answer of a request that was sent, or the error of its status\<close>

definition expect_success :: "string \<Rightarrow> client_error + client_response \<Rightarrow> client_error + client_response" where
  "expect_success provider answer =
     and_then answer (\<lambda>r.
     and_then (reject_if (\<not> is_success r) (client_error_for_status provider (resp_status r))) (\<lambda>_. Inr r))"

datatype request_body = EmptyBody | JsonBody json_value | MultipartBody "(string \<times> string) list"

record http_request =
  req_verb :: string
  req_url :: string
  req_headers :: "(string \<times> string) list"
  req_body :: request_body

type_synonym 'q http_client = "http_request \<Rightarrow> 'q \<Rightarrow> (client_error + client_response) \<times> 'q"

section \<open>The M-Team client\<close>

text \<open>
  The M-Team client, \<open>src/clients/mteam.rs\<close>: a search, the token of a download, and the download
  of a torrent file, which is accepted only when it parses. \<open>serde_json::from_slice\<close>, \<open>Url::parse\<close>,
  here with the scheme it finds, and SHA-1 are parameters.
\<close>

record mteam_client =
  mc_base_url :: string
  mc_json :: "string \<Rightarrow> json_value option"
  mc_url_scheme :: "string \<Rightarrow> string option"
  mc_sha1 :: "string \<Rightarrow> string"

definition mteam_provider :: string where
  "mteam_provider = ''M-Team''"

definition mteam_user_agent :: string where
  "mteam_user_agent = ''Mozilla/5.0 (Windows NT 10.0; Win64; x64) tmdb-mteam-hub/0.1''"

definition with_http_client ::
  "string \<Rightarrow> (string \<Rightarrow> json_value option) \<Rightarrow> (string \<Rightarrow> string option) \<Rightarrow> (string \<Rightarrow> string) \<Rightarrow> mteam_client" where
  "with_http_client base_url json scheme_of sha1 =
     \<lparr>mc_base_url = rev (dropWhile ((=) CHR ''/'') (rev base_url)), mc_json = json,
      mc_url_scheme = scheme_of, mc_sha1 = sha1\<rparr>"

definition search_request :: "mteam_client \<Rightarrow> string \<Rightarrow> json_value \<Rightarrow> http_request" where
  "search_request c api_key body =
     \<lparr>req_verb = ''POST'', req_url = mc_base_url c @ ''/api/torrent/search'',
      req_headers = [(''Accept'', ''application/json, text/plain, */*''), (''Content-Type'', ''application/json''),
        (''x-api-key'', str_trim api_key), (''Origin'', ''https://kp.m-team.cc/''), (''User-Agent'', mteam_user_agent)],
      req_body = JsonBody body\<rparr>"

definition parsed_json :: "mteam_client \<Rightarrow> client_response \<Rightarrow> client_error + json_value" where
  "parsed_json c r = ok_or (ClientProtocol mteam_provider ''invalid JSON response'') (mc_json c (resp_body r))"

definition mteam_search ::
  "'q http_client \<Rightarrow> mteam_client \<Rightarrow> string \<Rightarrow> json_value \<Rightarrow> 'q \<Rightarrow> (client_error + json_value) \<times> 'q" where
  "mteam_search http c api_key body =
     require (reject_if (is_blank api_key) (ClientInvalidRequest mteam_provider ''API key is required'')) Inl (\<lambda>_ q.
     let (answer, q') = http (search_request c api_key body) q in
     (and_then (expect_success mteam_provider answer) (parsed_json c), q'))"

definition token_request :: "mteam_client \<Rightarrow> string \<Rightarrow> string \<Rightarrow> http_request" where
  "token_request c api_key torrent_id =
     \<lparr>req_verb = ''POST'', req_url = mc_base_url c @ ''/api/torrent/genDlToken'',
      req_headers = [(''Accept'', ''application/json, text/plain, */*''), (''x-api-key'', str_trim api_key),
        (''Origin'', ''https://kp.m-team.cc/''), (''User-Agent'', mteam_user_agent)],
      req_body = MultipartBody [(''id'', torrent_id)]\<rparr>"

definition accepted_code :: "json_value \<Rightarrow> bool" where
  "accepted_code v \<longleftrightarrow>
     (case value_get v ''code'' of
        Some (VString code) \<Rightarrow> code \<in> {''0'', ''200''}
      | Some (VNumber shown n) \<Rightarrow> n \<in> {Some 0, Some 200}
      | _ \<Rightarrow> False)"

definition download_url_of :: "json_value \<Rightarrow> client_error + string" where
  "download_url_of v =
     and_then (reject_if (\<not> accepted_code v)
       (ClientProtocol mteam_provider ''download token request was rejected'')) (\<lambda>_.
     and_then (ok_or (ClientProtocol mteam_provider ''download URL is missing'') (value_get v ''data'')) (\<lambda>data.
     ok_or (ClientProtocol mteam_provider ''download URL is invalid'')
       (case data of VString s \<Rightarrow> non_empty s | _ \<Rightarrow> None)))"

definition fetch_download_url ::
  "'q http_client \<Rightarrow> mteam_client \<Rightarrow> string \<Rightarrow> string \<Rightarrow> 'q \<Rightarrow> (client_error + string) \<times> 'q" where
  "fetch_download_url http c api_key torrent_id =
     require (and_then
         (reject_if (is_blank torrent_id) (ClientInvalidRequest mteam_provider ''torrent id is required'')) (\<lambda>_.
       reject_if (is_blank api_key) (ClientInvalidRequest mteam_provider ''API key is required''))) Inl (\<lambda>_ q.
     let (answer, q') = http (token_request c api_key (str_trim torrent_id)) q in
     (and_then (and_then (expect_success mteam_provider answer) (parsed_json c)) download_url_of, q'))"

definition download_request :: "string \<Rightarrow> http_request" where
  "download_request url =
     \<lparr>req_verb = ''GET'', req_url = url,
      req_headers = [(''User-Agent'', mteam_user_agent), (''Referer'', ''https://kp.m-team.cc/''),
        (''Accept'', ''application/x-bittorrent, application/octet-stream'')],
      req_body = EmptyBody\<rparr>"

definition torrent_of_response :: "mteam_client \<Rightarrow> client_response \<Rightarrow> client_error + mteam_torrent" where
  "torrent_of_response c r =
     and_then (ok_or (ClientProtocol mteam_provider
         ''download did not return a complete torrent file (site error, download limit or invalid response)'')
       (info_hash (mc_sha1 c) (resp_body r))) (\<lambda>hash.
     Inr \<lparr>mt_info_hash = hash, mt_bytes = resp_body r\<rparr>)"

definition fetch_torrent ::
  "'q http_client \<Rightarrow> mteam_client \<Rightarrow> string \<Rightarrow> string \<Rightarrow> 'q \<Rightarrow> (client_error + mteam_torrent) \<times> 'q" where
  "fetch_torrent http c api_key torrent_id =
     attempt (fetch_download_url http c api_key torrent_id) Inl (\<lambda>url.
     require (ok_or (ClientProtocol mteam_provider ''invalid torrent download URL'') (mc_url_scheme c url)) Inl
       (\<lambda>scheme.
     require (reject_if (scheme \<notin> {''http'', ''https''})
       (ClientProtocol mteam_provider ''torrent download URL must use HTTP or HTTPS'')) Inl (\<lambda>_ q.
     let (answer, q') = http (download_request url) q in
     (and_then (expect_success mteam_provider answer) (torrent_of_response c), q'))))"

subsection \<open>The API key\<close>

text \<open>A client that sends with \<open>http\<close> and keeps what it sent\<close>

definition recording :: "'q http_client \<Rightarrow> ('q \<times> http_request list) http_client" where
  "recording http r s = (let (answer, q) = http r (fst s) in (answer, (q, snd s @ [r])))"

definition carries_key :: "http_request \<Rightarrow> bool" where
  "carries_key r \<longleftrightarrow> (\<exists>v. (''x-api-key'', v) \<in> set (req_headers r))"

lemma download_carries_no_key [simp]: "\<not> carries_key (download_request url)"
  by (simp add: carries_key_def download_request_def)

lemma fetch_download_url_sends:
  "fetch_download_url (recording http) c api_key torrent_id (q, sent) = (r, q', sent') \<Longrightarrow>
     sent' = sent \<or> sent' = sent @ [token_request c api_key (str_trim torrent_id)]"
  by (auto simp: fetch_download_url_def require_def recording_def Let_def split: sum.splits prod.splits)

lemma fetch_torrent_sends:
  assumes "fetch_torrent (recording http) c api_key torrent_id (q, []) = (r, q', sent)"
  shows "set sent \<subseteq> insert (token_request c api_key (str_trim torrent_id)) (range download_request)"
  using assms fetch_download_url_sends [of http c api_key torrent_id q "[]"]
  by (auto simp: fetch_torrent_def attempt_def require_def recording_def Let_def split: sum.splits prod.splits)

theorem api_key_stays_home:
  assumes "fetch_torrent (recording http) c api_key torrent_id (q, []) = (r, q', sent)"
    and "m \<in> set sent" and "carries_key m"
  shows "req_url m = mc_base_url c @ ''/api/torrent/genDlToken''"
  using fetch_torrent_sends [OF assms(1)] assms(2,3) by (auto simp: token_request_def)

end
