(* ===== verification/Douban_Images.thy ===== *)
theory Douban_Images
  imports Html_Scan Http_Client Effect_Environment
begin

text \<open>
  The image URLs of \<open>src/douban.rs\<close>: cleaning, the choice of the best one, the variants of a
  download and the download itself. The \<open>url\<close> crate is a parameter over its own type \<open>'u\<close>; the
  client is a parameter that acts on a state \<open>'q\<close>.
\<close>

subsection \<open>Cleaning\<close>

record 'u url_library =
  ul_parse :: "string \<Rightarrow> 'u option"
  ul_scheme :: "'u \<Rightarrow> string"
  ul_host :: "'u \<Rightarrow> string option"
  ul_path :: "'u \<Rightarrow> string"
  ul_query :: "'u \<Rightarrow> string option"
  ul_query_pairs :: "'u \<Rightarrow> (string \<times> string) list"
  ul_set_query :: "string option \<Rightarrow> 'u \<Rightarrow> 'u"
  ul_clear_fragment :: "'u \<Rightarrow> 'u"
  ul_text :: "'u \<Rightarrow> string"

definition is_allowed_query_part :: "string \<Rightarrow> bool" where
  "is_allowed_query_part part \<longleftrightarrow>
     (if has_prefix ''imageView2/'' part
      then list_all (\<lambda>c. is_alphanumeric c \<or> c \<in> set ''/-_.'') part
      else case split_once CHR ''='' part of
        None \<Rightarrow> False
      | Some (key, v) \<Rightarrow> key \<in> {''sa_cv'', ''sa_ct''} \<and> v \<noteq> [] \<and> list_all is_hexdigit v)"

definition is_allowed_douban_image_query :: "string \<Rightarrow> bool" where
  "is_allowed_douban_image_query query \<longleftrightarrow> list_all is_allowed_query_part (split_char CHR ''&'' query)"

definition is_allowed_douban_image_url :: "'u url_library \<Rightarrow> 'u \<Rightarrow> bool" where
  "is_allowed_douban_image_url ul url \<longleftrightarrow>
     ul_scheme ul url = ''https'' \<and>
     (case ul_host ul url of
        None \<Rightarrow> False
      | Some raw_host \<Rightarrow>
          (let host = to_ascii_lowercase raw_host in
           (host = ''doubanio.com'' \<or> has_suffix ''.doubanio.com'' host) \<and>
           str_contains (ul_path ul url) ''/view/photo/''))"

definition unescape_slashes :: "string \<Rightarrow> string" where
  "unescape_slashes s =
     str_replace (CHR 0x5C # ''u002F'') ''/'' (str_replace [CHR 0x5C, CHR ''/''] ''/'' s)"

definition quote_characters :: string where
  "quote_characters = [CHR 0x22, CHR 0x27, CHR '' '', CHR 0x0A, CHR 0x0D, CHR 0x09]"

definition trim_quotes :: "string \<Rightarrow> string" where
  "trim_quotes s =
     rev (dropWhile (\<lambda>c. c \<in> set quote_characters) (rev (dropWhile (\<lambda>c. c \<in> set quote_characters) s)))"

definition with_https :: "string \<Rightarrow> string" where
  "with_https s =
     (if has_prefix ''//'' s then ''https:'' @ s
      else case strip_prefix ''http://'' s of Some rest \<Rightarrow> ''https://'' @ rest | None \<Rightarrow> s)"

definition clean_douban_image_url :: "'u url_library \<Rightarrow> string \<Rightarrow> string option" where
  "clean_douban_image_url ul raw =
     (case ul_parse ul (with_https (trim_quotes (unescape_slashes (html_unescape (str_trim raw))))) of
        None \<Rightarrow> None
      | Some url \<Rightarrow>
          (let query = (case ul_query ul url of
                 None \<Rightarrow> None | Some q \<Rightarrow> if is_allowed_douban_image_query q then Some q else None);
               cleaned = ul_clear_fragment ul (ul_set_query ul query url)
           in if is_allowed_douban_image_url ul cleaned then Some (ul_text ul cleaned) else None))"

subsection \<open>Candidates\<close>

definition push_unique_url :: "string list \<Rightarrow> string \<Rightarrow> string list" where
  "push_unique_url out v = (if v \<in> set out then out else out @ [v])"

definition push_clean_image_url :: "'u url_library \<Rightarrow> string list \<Rightarrow> string \<Rightarrow> string list" where
  "push_clean_image_url ul out raw =
     (case clean_douban_image_url ul raw of None \<Rightarrow> out | Some url \<Rightarrow> push_unique_url out url)"

definition ends_image_url :: "string \<Rightarrow> bool" where
  "ends_image_url c \<longleftrightarrow>
     chunk_is_space c \<or>
     (length c = 1 \<and> hd c \<in> {CHR 0x22, CHR 0x27, CHR ''<'', CHR ''>'', CHR '')'', CHR ''('', CHR '','', CHR '']''})"

text \<open>The length of the image URL a text begins with\<close>

definition image_url_length :: "string \<Rightarrow> nat" where
  "image_url_length s = length (concat (takeWhile (\<lambda>c. \<not> ends_image_url c) (char_chunks s)))"

text \<open>
  The loop of \<open>collect_image_urls_from_text\<close> for one prefix. It goes on one byte after the end of a
  URL, which is inside a character when a white space of several bytes ends it.
\<close>

function collect_prefixed :: "'u url_library \<Rightarrow> string \<Rightarrow> string list \<Rightarrow> string \<Rightarrow> slice_panic + string list" where
  "collect_prefixed ul lead out decoded =
     (if lead = [] then Inr out
      else case str_find lead decoded of
        None \<Rightarrow> Inr out
      | Some i \<Rightarrow>
          (let rest = drop i decoded; n = image_url_length rest;
               out' = push_clean_image_url ul out (take n rest) in
           if length rest \<le> n then Inr out'
           else if \<not> char_boundary rest (Suc n) then Inl BadSlice
           else collect_prefixed ul lead out' (drop (Suc n) rest)))"
  by pat_completeness auto
termination
  by (relation "measure (\<lambda>(ul, lead, out, decoded :: string). length decoded)") auto

declare collect_prefixed.simps [simp del]

fun collect_each :: "(string list \<Rightarrow> 'a \<Rightarrow> 'e + string list) \<Rightarrow> string list \<Rightarrow> 'a list \<Rightarrow> 'e + string list" where
  "collect_each f out [] = Inr out"
| "collect_each f out (x # xs) = and_then (f out x) (\<lambda>out'. collect_each f out' xs)"

definition collect_image_urls_from_text ::
  "'u url_library \<Rightarrow> string list \<Rightarrow> string \<Rightarrow> slice_panic + string list" where
  "collect_image_urls_from_text ul out s =
     (let decoded = html_unescape (unescape_slashes s) in
      collect_each (\<lambda>out lead. collect_prefixed ul lead out decoded) out
        [''https://img'', ''http://img'', ''//img''])"

text \<open>\<open>push_clean_image_url\<close>, then \<open>collect_image_urls_from_text\<close>\<close>

definition collect_image ::
  "'u url_library \<Rightarrow> string list \<Rightarrow> string \<Rightarrow> slice_panic + string list" where
  "collect_image ul out s = collect_image_urls_from_text ul (push_clean_image_url ul out s) s"

text \<open>The texts of a JSON value in the order \<open>collect_image_urls_from_value\<close> meets them\<close>

fun value_texts :: "json_value \<Rightarrow> string list" where
  "value_texts (VString s) = [s]"
| "value_texts (VArray items) = concat (map value_texts items)"
| "value_texts (VObject entries) = concat (map (\<lambda>(_, v). value_texts v) entries)"
| "value_texts _ = []"

definition collect_image_urls_from_value ::
  "'u url_library \<Rightarrow> string list \<Rightarrow> json_value \<Rightarrow> slice_panic + string list" where
  "collect_image_urls_from_value ul out v = collect_each (collect_image ul) out (value_texts v)"

definition priority_image_fields :: "string list" where
  "priority_image_fields = [''cover_url'', ''poster_url'', ''image'', ''img'', ''pic'', ''cover'', ''thumbnail'']"

definition collect_priority_image_fields ::
  "'u url_library \<Rightarrow> string list \<Rightarrow> json_value \<Rightarrow> slice_panic + string list" where
  "collect_priority_image_fields ul out v =
     collect_each (collect_image_urls_from_value ul) out (List.map_filter (value_get v) priority_image_fields)"

text \<open>
  The loop of \<open>collect_tag_attr_images\<close> from an offset in the lower-case text. When the lower-case
  text is longer than the text, a marker found at its very end leaves the offset where it was.
\<close>

function collect_tag_images ::
  "unicode \<Rightarrow> 'u url_library \<Rightarrow> string \<Rightarrow> string \<Rightarrow> string \<Rightarrow> string \<Rightarrow> string list \<Rightarrow> nat
    \<Rightarrow> slice_panic + string list" where
  "collect_tag_images uc ul html lower marker attr out offset =
     (if \<not> char_boundary lower offset then Inl BadSlice
      else case str_find marker (drop offset lower) of
        None \<Rightarrow> Inr out
      | Some i \<Rightarrow>
          (let at = offset + i in
           if \<not> char_boundary html at then Inl BadSlice
           else
             (let start = (case rfind_byte ((=) CHR ''<'') (take at html) of None \<Rightarrow> at | Some j \<Rightarrow> j);
                  end_at = (case find_byte ((=) CHR ''>'') (drop at html) of
                    None \<Rightarrow> length html | Some j \<Rightarrow> Suc (at + j)) in
              case and_then (attr_value uc (drop start (take end_at html)) attr) (\<lambda>v.
                   case v of None \<Rightarrow> Inr out | Some s \<Rightarrow> collect_image ul out s) of
                Inl p \<Rightarrow> Inl p
              | Inr out' \<Rightarrow>
                  if end_at \<le> offset then Inl NoProgress
                  else collect_tag_images uc ul html lower marker attr out' end_at)))"
  by pat_completeness auto
termination
proof (relation "measure (\<lambda>(uc, ul, html, lower :: string, marker, attr, out, offset). Suc (length lower) - offset)",
    goal_cases)
  case 1
  then show ?case by simp
next
  case (2 uc ul html lower marker attr out offset i at start end_at out')
  then have "offset \<le> length lower" by (auto simp: char_boundary_def)
  then show ?case using 2 by auto
qed

declare collect_tag_images.simps [simp del]

definition collect_tag_attr_images ::
  "unicode \<Rightarrow> 'u url_library \<Rightarrow> string \<Rightarrow> string list \<Rightarrow> string \<times> string \<Rightarrow> slice_panic + string list" where
  "collect_tag_attr_images uc ul html out x =
     (let (marker, attr) = x in
      collect_tag_images uc ul html (uc_lowercase uc html) (uc_lowercase uc marker) attr out 0)"

subsection \<open>The best image\<close>

definition image_path :: "'u url_library \<Rightarrow> string \<Rightarrow> string" where
  "image_path ul url = (case ul_parse ul url of None \<Rightarrow> url | Some u \<Rightarrow> ul_path ul u)"

definition image_score :: "'u url_library \<Rightarrow> string \<Rightarrow> int" where
  "image_score ul url =
     (let path = image_path ul url in
      (if str_contains path ''/l_ratio_poster/'' then 80
       else if str_contains path ''/m_ratio_poster/'' then 60
       else if str_contains path ''/s_ratio_poster/'' then 40
       else if str_contains path ''_ratio_poster'' then 35
       else if str_contains path ''/l/public/'' then 30
       else if str_contains path ''/m/public/'' then 20
       else if str_contains path ''/s/public/'' then 10
       else 0) +
      (if str_contains path ''/public/p'' then 10 else 0) +
      (if has_suffix ''.jpg'' path \<or> has_suffix ''.jpeg'' path then 2 else 0))"

text \<open>The loop of \<open>choose_best_image_url\<close>: the cleaned URLs seen, and the best with its score\<close>

fun choose_image ::
  "'u url_library \<Rightarrow> string list \<Rightarrow> (int \<times> string) option \<Rightarrow> string list \<Rightarrow> string option" where
  "choose_image ul seen best [] = map_option snd best"
| "choose_image ul seen best (c # cs) =
     (case clean_douban_image_url ul c of
        None \<Rightarrow> choose_image ul seen best cs
      | Some cleaned \<Rightarrow>
          if cleaned \<in> set seen then choose_image ul seen best cs
          else
            (let score = image_score ul cleaned in
             choose_image ul (seen @ [cleaned])
               (case best of
                  None \<Rightarrow> Some (score, cleaned)
                | Some (best_score, _) \<Rightarrow> if best_score < score then Some (score, cleaned) else best) cs))"

definition choose_best_image_url :: "'u url_library \<Rightarrow> string list \<Rightarrow> string option" where
  "choose_best_image_url ul candidates = choose_image ul [] None candidates"

definition best_image_url_from_value :: "'u url_library \<Rightarrow> json_value \<Rightarrow> slice_panic + string option" where
  "best_image_url_from_value ul v =
     and_then (collect_priority_image_fields ul [] v) (\<lambda>out.
     and_then (collect_image_urls_from_value ul out v) (\<lambda>out'.
     Inr (choose_best_image_url ul out')))"

definition image_markers :: "(string \<times> string) list" where
  "image_markers =
     (let quoted = (\<lambda>key name. [key @ CHR 0x22 # name @ [CHR 0x22], key @ CHR 0x27 # name @ [CHR 0x27]]) in
      map (\<lambda>m. (m, ''content'')) (quoted ''property='' ''og:image'') @
      map (\<lambda>m. (m, ''src'')) (quoted ''rel='' ''v:image'') @
      concat (map (\<lambda>m. [(m, ''src''), (m, ''content'')]) (quoted ''itemprop='' ''image'')))"

text \<open>\<open>best_subject_image_url\<close> without a JSON value, as the library page calls it\<close>

definition best_subject_image_url :: "unicode \<Rightarrow> 'u url_library \<Rightarrow> string \<Rightarrow> slice_panic + string option" where
  "best_subject_image_url uc ul html =
     and_then (collect_each (collect_tag_attr_images uc ul html) [] image_markers) (\<lambda>out.
     and_then (collect_image_urls_from_text ul out html) (\<lambda>out'.
     Inr (choose_best_image_url ul out')))"

definition is_unreserved :: "char \<Rightarrow> bool" where
  "is_unreserved c \<longleftrightarrow> is_alphanumeric c \<or> c \<in> set ''-_.~''"

definition percent_encode_query_component :: "string \<Rightarrow> string" where
  "percent_encode_query_component s =
     concat (map (\<lambda>c. if is_unreserved c then [c]
       else (let n = of_char c :: nat in [CHR ''%'', ''0123456789ABCDEF'' ! (n div 16), ''0123456789ABCDEF'' ! (n mod 16)])) s)"

definition proxied_image_url :: "'u url_library \<Rightarrow> string \<Rightarrow> string option" where
  "proxied_image_url ul raw =
     map_option (\<lambda>clean. ''/api/douban/image?url='' @ percent_encode_query_component clean)
       (clean_douban_image_url ul raw)"

end
