(* ===== verification/Douban_Library.thy ===== *)
theory Douban_Library
  imports Douban_Images
begin

text \<open>
  The list of wanted or watched subjects of an account: \<open>library\<close> of \<open>src/douban.rs\<close> with its page
  scanner, and the source of the poll over it, \<open>src/subscription/wanted_source.rs\<close>. The list ends at
  the first empty page; \<open>reqwest\<close> is the parameter \<open>http\<close>.
\<close>

subsection \<open>Pages\<close>

datatype douban_error = DoubanBadRequest string | DoubanUpstream string

fun douban_error_message :: "douban_error \<Rightarrow> string" where
  "douban_error_message (DoubanBadRequest m) = m"
| "douban_error_message (DoubanUpstream m) = m"

definition douban_client_error :: "client_error \<Rightarrow> douban_error" where
  "douban_client_error e = DoubanUpstream (display_client_error e)"

definition douban_provider :: string where
  "douban_provider = ''Douban''"

definition accept_language :: "string \<times> string" where
  "accept_language = (''Accept-Language'', ''zh-CN,zh;q=0.9,en;q=0.8'')"

definition html_request :: "string \<Rightarrow> string \<Rightarrow> string \<Rightarrow> http_request" where
  "html_request url cookie referer =
     \<lparr>req_verb = ''GET'', req_url = url,
      req_headers = [(''Accept'', ''text/html,application/xhtml+xml,application/xml;q=0.9,*/*;q=0.8''),
        accept_language, (''Referer'', referer), (''Cookie'', cookie)],
      req_body = EmptyBody\<rparr>"

text \<open>\<open>std::str::from_utf8\<close>\<close>

definition byte_in :: "nat \<Rightarrow> nat \<Rightarrow> char \<Rightarrow> bool" where
  "byte_in low high c \<longleftrightarrow> low \<le> (of_char c :: nat) \<and> (of_char c :: nat) \<le> high"

fun utf8_chunk :: "string \<Rightarrow> bool" where
  "utf8_chunk [a] \<longleftrightarrow> byte_in 0 0x7F a"
| "utf8_chunk [a, b] \<longleftrightarrow> byte_in 0xC2 0xDF a \<and> byte_in 0x80 0xBF b"
| "utf8_chunk [a, b, c] \<longleftrightarrow>
     byte_in 0x80 0xBF c \<and>
     (if a = CHR 0xE0 then byte_in 0xA0 0xBF b
      else if a = CHR 0xED then byte_in 0x80 0x9F b
      else byte_in 0xE1 0xEF a \<and> byte_in 0x80 0xBF b)"
| "utf8_chunk [a, b, c, d] \<longleftrightarrow>
     byte_in 0x80 0xBF c \<and> byte_in 0x80 0xBF d \<and>
     (if a = CHR 0xF0 then byte_in 0x90 0xBF b
      else if a = CHR 0xF4 then byte_in 0x80 0x8F b
      else byte_in 0xF1 0xF3 a \<and> byte_in 0x80 0xBF b)"
| "utf8_chunk _ \<longleftrightarrow> False"

definition is_utf8 :: "string \<Rightarrow> bool" where
  "is_utf8 s \<longleftrightarrow> list_all utf8_chunk (char_chunks s)"

definition response_text :: "string \<Rightarrow> client_response \<Rightarrow> client_error + string" where
  "response_text provider r =
     and_then (reject_if (\<not> is_utf8 (resp_body r))
       (ClientProtocol provider ''upstream response was not UTF-8'')) (\<lambda>_. Inr (resp_body r))"

definition ensure_html_success :: "u16 \<Rightarrow> string \<Rightarrow> douban_error + unit" where
  "ensure_html_success status final_url =
     (if str_contains final_url ''accounts.douban.com'' \<or> str_contains final_url ''/passport/login''
      then Inl (DoubanBadRequest ((utf8 [0x8C46, 0x74E3, 0x8BF7, 0x6C42, 0x88AB, 0x91CD, 0x5B9A, 0x5411, 0x5230,
            0x767B, 0x5F55, 0x9875, 0xFF0C, 0x8BF7, 0x66F4, 0x65B0]) @ '' Cookie''))
      else if str_contains final_url ''sec.douban.com''
      then Inl (DoubanBadRequest (utf8 [0x8C46, 0x74E3, 0x8BF7, 0x6C42, 0x88AB, 0x91CD, 0x5B9A, 0x5411, 0x5230,
            0x5B89, 0x5168, 0x9A8C, 0x8BC1, 0x9875, 0xFF0C, 0x8BF7, 0x7A0D, 0x540E,
            0x91CD, 0x8BD5, 0x6216, 0x91CD, 0x65B0, 0x767B, 0x5F55]))
      else if \<not> (200 \<le> status \<and> status < 300)
      then Inl (DoubanUpstream ((utf8 [0x8C46, 0x74E3, 0x9875, 0x9762]) @ '' HTTP '' @ decimal (unat status)))
      else Inr ())"

definition fetch_html ::
  "'q http_client \<Rightarrow> string \<Rightarrow> string \<Rightarrow> string \<Rightarrow> 'q \<Rightarrow> (douban_error + string) \<times> 'q" where
  "fetch_html http url cookie referer q =
     (let (answer, q') = http (html_request url cookie referer) q in
      (and_then (map_err douban_client_error answer) (\<lambda>r.
       and_then (map_err douban_client_error (response_text douban_provider r)) (\<lambda>page.
       and_then (ensure_html_success (resp_status r) (resp_final_url r)) (\<lambda>_. Inr page))), q'))"

subsection \<open>The items of a page\<close>

datatype douban_library_status = LibraryWish | LibraryCollect

fun library_status_as_str :: "douban_library_status \<Rightarrow> string" where
  "library_status_as_str LibraryWish = ''wish''"
| "library_status_as_str LibraryCollect = ''collect''"

fun library_status_label :: "douban_library_status \<Rightarrow> string" where
  "library_status_label LibraryWish = (utf8 [0x60F3, 0x770B])"
| "library_status_label LibraryCollect = (utf8 [0x770B, 0x8FC7])"

record douban_library_item =
  li_id :: string
  li_subject_id :: string
  li_title :: string
  li_url :: string
  li_abstract_text :: string
  li_abstract_2 :: string
  li_cover_url :: string
  li_poster_url :: string
  li_status :: string
  li_status_label :: string
  li_date :: string
  li_comment :: string
  li_tags :: "string list"
  li_user_rating :: "u8 option"

text \<open>\<open>div_blocks_with_class\<close> on what is left\<close>

function div_blocks_with_class :: "unicode \<Rightarrow> string \<Rightarrow> string \<Rightarrow> slice_panic + string list" where
  "div_blocks_with_class uc class_name html =
     (case str_find ''<div'' html of
        None \<Rightarrow> Inr []
      | Some i \<Rightarrow>
          (let block = drop i html in
           case after_tag block of
             None \<Rightarrow> Inr []
           | Some content \<Rightarrow>
               (case tag_has_class uc (text_before block content) class_name of
                  Inl p \<Rightarrow> Inl p
                | Inr False \<Rightarrow> div_blocks_with_class uc class_name content
                | Inr True \<Rightarrow>
                    (case after_matching_div 1 content of
                       None \<Rightarrow> Inr []
                     | Some rest \<Rightarrow>
                         and_then (div_blocks_with_class uc class_name rest) (\<lambda>blocks.
                         Inr (text_before block rest # blocks))))))"
  by pat_completeness auto
termination
  by (relation "measure (\<lambda>(uc, class_name, html :: string). length html)") (auto dest!: after_tag_shorter after_matching_div_shorter)

declare div_blocks_with_class.simps [simp del]

definition subject_url :: "string \<Rightarrow> string" where
  "subject_url subject = ''https://movie.douban.com/subject/'' @ subject @ ''/''"

definition first_subject_id_in_text :: "string \<Rightarrow> string option" where
  "first_subject_id_in_text s =
     (case str_find ''/subject/'' s of
        None \<Rightarrow> None
      | Some i \<Rightarrow>
          (let found = takeWhile is_digit (drop (i + 9) s) in if found = [] then None else Some found))"

text \<open>The loop of \<open>extract_subject_anchor_text\<close> from an offset\<close>

function anchor_text_from :: "string \<Rightarrow> string \<Rightarrow> nat \<Rightarrow> string option" where
  "anchor_text_from needle block offset =
     (if needle = [] then None
      else case str_find needle (drop offset block) of
        None \<Rightarrow> None
      | Some i \<Rightarrow>
          (let at = offset + i;
               shown = (case str_rfind ''<a'' (take at block) of
                 None \<Rightarrow> []
               | Some start \<Rightarrow>
                   (case after_tag (drop start block) of
                      None \<Rightarrow> []
                    | Some inner \<Rightarrow>
                        (case str_find ''</a>'' inner of None \<Rightarrow> [] | Some e \<Rightarrow> strip_html (take e inner))))
           in if shown \<noteq> [] then Some shown else anchor_text_from needle block (at + length needle)))"
  by pat_completeness auto
termination
proof (relation "measure (\<lambda>(needle :: string, block :: string, offset). length block - offset)", goal_cases)
  case (2 needle block offset i)
  then show ?case using str_find_room [OF 2(2)] by (cases needle) auto
qed simp

declare anchor_text_from.simps [simp del]

definition extract_subject_anchor_text :: "string \<Rightarrow> string \<Rightarrow> string option" where
  "extract_subject_anchor_text block subject = anchor_text_from (''/subject/'' @ subject) block 0"

text \<open>\<open>first_element_text_by_class\<close> on what is left\<close>

function first_element_text_by_class :: "unicode \<Rightarrow> string \<Rightarrow> string \<Rightarrow> slice_panic + string option" where
  "first_element_text_by_class uc class_name html =
     (case find_byte ((=) CHR ''<'') html of
        None \<Rightarrow> Inr None
      | Some i \<Rightarrow>
          (let element = drop i html in
           if has_prefix ''</'' element \<or> has_prefix ''<!--'' element
           then first_element_text_by_class uc class_name (drop (Suc i) html)
           else case after_tag element of
             None \<Rightarrow> Inr None
           | Some content \<Rightarrow>
               (case tag_name (text_before element content) of
                  None \<Rightarrow> first_element_text_by_class uc class_name content
                | Some name \<Rightarrow>
                    (case tag_has_class uc (text_before element content) class_name of
                       Inl p \<Rightarrow> Inl p
                     | Inr False \<Rightarrow> first_element_text_by_class uc class_name content
                     | Inr True \<Rightarrow>
                         (let shown = (case str_find (''</'' @ name @ ''>'') content of
                            None \<Rightarrow> [] | Some e \<Rightarrow> strip_html (take e content))
                          in if shown \<noteq> [] then Inr (Some shown)
                             else first_element_text_by_class uc class_name content)))))"
  by pat_completeness auto
termination
  by (relation "measure (\<lambda>(uc, class_name, html :: string). length html)")
    (auto dest!: after_tag_shorter simp: find_byte_Some)

declare first_element_text_by_class.simps [simp del]

text \<open>The mark of the user: a number in a hidden field, or the class of the stars\<close>

definition stars_of_text :: "string \<Rightarrow> u8 option" where
  "stars_of_text s =
     (case parse_plus_unsigned (2 ^ 8) (str_trim s) of
        None \<Rightarrow> None
      | Some n \<Rightarrow> if 1 \<le> n \<and> n \<le> 5 then Some (word_of_int n) else None)"

definition rating_field :: "char \<Rightarrow> string" where
  "rating_field quote = ''id='' @ quote # ''n_rating'' @ [quote]"

definition extract_user_rating :: "unicode \<Rightarrow> string \<Rightarrow> slice_panic + u8 option" where
  "extract_user_rating uc block =
     and_then (first_tag_attr_by_marker uc block (rating_field CHR 0x22) ''value'') (\<lambda>first.
     and_then (case first of
         Some v \<Rightarrow> Inr (Some v)
       | None \<Rightarrow> first_tag_attr_by_marker uc block (rating_field CHR 0x27) ''value'') (\<lambda>v.
     Inr (case Option.bind v stars_of_text of
        Some n \<Rightarrow> Some n
      | None \<Rightarrow> map_option fst (find (\<lambda>(n, digit). str_contains block (''rating'' @ digit # ''-t''))
          [(5, CHR ''5''), (4, CHR ''4''), (3, CHR ''3''), (2, CHR ''2''), (1, CHR ''1'')]))))"

text \<open>\<open>s.trim_start_matches(p)\<close>, for a \<open>p\<close> that is not empty\<close>

function trim_start_matches :: "string \<Rightarrow> string \<Rightarrow> string" where
  "trim_start_matches p s =
     (if p = [] \<or> \<not> has_prefix p s then s else trim_start_matches p (drop (length p) s))"
  by pat_completeness auto
termination
  by (relation "measure (\<lambda>(p :: string, s :: string). length s)") (auto simp: has_prefix_iff)

declare trim_start_matches.simps [simp del]

definition library_tags :: "string option \<Rightarrow> string list" where
  "library_tags shown =
     (case shown of
        None \<Rightarrow> []
      | Some s \<Rightarrow> filter (\<lambda>t. t \<noteq> []) (map str_trim (split_whitespace
          (trim_start_matches (utf8 [0x6807, 0x7B7E, 0xFF1A]) (trim_start_matches ((utf8 [0x6807, 0x7B7E]) @ '':'') s)))))"

definition library_item_of ::
  "unicode \<Rightarrow> 'u url_library \<Rightarrow> douban_library_status \<Rightarrow> string \<Rightarrow> string
    \<Rightarrow> slice_panic + douban_library_item" where
  "library_item_of uc ul status block subject =
     and_then (first_element_text_by_class uc ''intro'' block) (\<lambda>intro.
     and_then (first_element_text_by_class uc ''date'' block) (\<lambda>date_text.
     and_then (first_element_text_by_class uc ''comment'' block) (\<lambda>comment_text.
     and_then (first_element_text_by_class uc ''tags'' block) (\<lambda>tags.
     and_then (best_subject_image_url uc ul block) (\<lambda>image.
     and_then (extract_user_rating uc block) (\<lambda>stars.
     let cover = or_empty (Option.bind image (proxied_image_url ul)) in
     Inr \<lparr>li_id = subject, li_subject_id = subject,
          li_title = (case extract_subject_anchor_text block subject of
            None \<Rightarrow> subject | Some t \<Rightarrow> if t = [] then subject else t),
          li_url = subject_url subject, li_abstract_text = or_empty intro,
          li_abstract_2 = join_with ('' '' @ (utf8 [0xB7]) @ '' '')
            (filter (\<lambda>s. s \<noteq> []) [or_empty date_text, or_empty comment_text]),
          li_cover_url = cover, li_poster_url = cover, li_status = library_status_as_str status,
          li_status_label = library_status_label status, li_date = or_empty date_text,
          li_comment = or_empty comment_text, li_tags = library_tags tags, li_user_rating = stars\<rparr>))))))"

fun library_items_of ::
  "unicode \<Rightarrow> 'u url_library \<Rightarrow> douban_library_status \<Rightarrow> string list
    \<Rightarrow> slice_panic + douban_library_item list" where
  "library_items_of uc ul status [] = Inr []"
| "library_items_of uc ul status (block # blocks) =
     (case first_subject_id_in_text block of
        None \<Rightarrow> library_items_of uc ul status blocks
      | Some subject \<Rightarrow>
          and_then (library_item_of uc ul status block subject) (\<lambda>item.
          and_then (library_items_of uc ul status blocks) (\<lambda>items. Inr (item # items))))"

definition extract_library_items ::
  "unicode \<Rightarrow> 'u url_library \<Rightarrow> string \<Rightarrow> douban_library_status \<Rightarrow> slice_panic + douban_library_item list" where
  "extract_library_items uc ul html status =
     and_then (div_blocks_with_class uc ''item'' html) (library_items_of uc ul status)"

subsection \<open>Pagination\<close>

definition library_page_size :: nat where "library_page_size = 15"

definition library_max_pages :: nat where "library_max_pages = 80"

datatype library_page_decision = PageContinue | PageComplete | PagePartial

record library_pagination =
  pg_limit :: nat
  pg_items :: "douban_library_item list"
  pg_seen :: "string list"
  pg_fetched_pages :: nat
  pg_truncated_by_limit :: bool
  pg_end_observed :: bool

definition pagination_new :: "nat \<Rightarrow> library_pagination" where
  "pagination_new limit =
     \<lparr>pg_limit = limit, pg_items = [], pg_seen = [], pg_fetched_pages = 0,
      pg_truncated_by_limit = False, pg_end_observed = False\<rparr>"

text \<open>The loop of \<open>push_page\<close>, with whether the limit was reached\<close>

fun push_items :: "library_pagination \<Rightarrow> douban_library_item list \<Rightarrow> bool \<times> library_pagination" where
  "push_items pg [] = (False, pg)"
| "push_items pg (item # items) =
     (if li_subject_id item \<in> set (pg_seen pg) then push_items pg items
      else
        (let pg' = pg\<lparr>pg_seen := li_subject_id item # pg_seen pg, pg_items := pg_items pg @ [item]\<rparr> in
         if pg_limit pg \<le> length (pg_items pg') then (True, pg'\<lparr>pg_truncated_by_limit := True\<rparr>)
         else push_items pg' items))"

definition push_page ::
  "library_pagination \<Rightarrow> douban_library_item list \<Rightarrow> library_page_decision \<times> library_pagination" where
  "push_page pg items =
     (let pg1 = pg\<lparr>pg_fetched_pages := Suc (pg_fetched_pages pg)\<rparr> in
      if items = [] then (PageComplete, pg1\<lparr>pg_end_observed := True\<rparr>)
      else
        (let (full, pg2) = push_items pg1 items in
         if full then (PagePartial, pg2)
         else if length (pg_items pg2) = length (pg_items pg) \<or> library_max_pages \<le> pg_fetched_pages pg2
         then (PagePartial, pg2)
         else (PageContinue, pg2)))"

record snapshot_metadata =
  sm_complete :: bool
  sm_fetched_pages :: nat
  sm_truncated_by_limit :: bool
  sm_end_observed :: bool

definition pagination_snapshot :: "library_pagination \<Rightarrow> library_page_decision \<Rightarrow> snapshot_metadata" where
  "pagination_snapshot pg decision =
     \<lparr>sm_complete = (decision = PageComplete \<and> pg_end_observed pg),
      sm_fetched_pages = pg_fetched_pages pg, sm_truncated_by_limit = pg_truncated_by_limit pg,
      sm_end_observed = pg_end_observed pg\<rparr>"

subsection \<open>The list\<close>

record douban_library_list =
  ll_status :: string
  ll_label :: string
  ll_items :: "douban_library_item list"
  ll_snapshot :: snapshot_metadata

text \<open>What ends a scan: an error, or a panic\<close>

datatype library_stop = LibraryFailed douban_error | LibraryPanicked slice_panic

definition library_page_url :: "douban_library_status \<Rightarrow> nat \<Rightarrow> string" where
  "library_page_url status start =
     ''https://movie.douban.com/mine?status='' @ library_status_as_str status @ ''&sort=time&start='' @
     decimal start @ ''&filter=all&mode=grid''"

definition library_page ::
  "'q http_client \<Rightarrow> unicode \<Rightarrow> 'u url_library \<Rightarrow> string \<Rightarrow> douban_library_status \<Rightarrow> nat \<Rightarrow> 'q
    \<Rightarrow> (library_stop + douban_library_item list) \<times> 'q" where
  "library_page http uc ul cookie status start =
     attempt (fetch_html http (library_page_url status start) cookie ''https://movie.douban.com/'')
       (Inl \<circ> LibraryFailed) (\<lambda>html.
     Pair (map_err LibraryPanicked (extract_library_items uc ul html status)))"

text \<open>The loop of \<open>library\<close>, over the pages that are left of \<open>library_max_pages\<close>; \<open>read start\<close> reads a page.\<close>

primrec library_pages ::
  "(nat \<Rightarrow> 'q \<Rightarrow> (library_stop + douban_library_item list) \<times> 'q) \<Rightarrow> nat \<Rightarrow> nat
    \<Rightarrow> library_page_decision \<Rightarrow> library_pagination \<Rightarrow> 'q
    \<Rightarrow> (library_stop + library_page_decision \<times> library_pagination) \<times> 'q" where
  "library_pages read 0 start decision pg = Pair (Inr (decision, pg))"
| "library_pages read (Suc pages_left) start decision pg =
     attempt (read start) Inl (\<lambda>items.
     let (decision', pg') = push_page pg items in
     if decision' \<noteq> PageContinue then Pair (Inr (decision', pg'))
     else library_pages read pages_left (start + library_page_size) decision' pg')"

definition library ::
  "'q http_client \<Rightarrow> unicode \<Rightarrow> 'u url_library \<Rightarrow> string \<Rightarrow> douban_library_status \<Rightarrow> nat \<Rightarrow> 'q
    \<Rightarrow> (library_stop + douban_library_list) \<times> 'q" where
  "library http uc ul cookie_header status limit =
     require (map_err (LibraryFailed \<circ> DoubanBadRequest) (require_auth_cookie cookie_header)) Inl (\<lambda>cookie.
     attempt (library_pages (library_page http uc ul cookie status) library_max_pages 0 PagePartial
         (pagination_new (min (max limit 1) (library_page_size * library_max_pages)))) Inl
       (\<lambda>(decision, pg). Pair (Inr
         \<lparr>ll_status = library_status_as_str status, ll_label = library_status_label status,
          ll_items = pg_items pg, ll_snapshot = pagination_snapshot pg decision\<rparr>)))"

subsection \<open>The source of the poll\<close>

definition wanted_item_of :: "douban_library_item \<Rightarrow> wanted_item" where
  "wanted_item_of item =
     \<lparr>item_subject_id = li_subject_id item, item_title = li_title item,
      item_abstract_text = li_abstract_text item, item_abstract_2 = li_abstract_2 item,
      item_cover_url = li_cover_url item, item_poster_url = li_poster_url item,
      item_date = li_date item, item_tags = li_tags item\<rparr>"

definition wanted_snapshot_of :: "douban_library_list \<Rightarrow> wanted_snapshot" where
  "wanted_snapshot_of l =
     (let sm = ll_snapshot l in
      \<lparr>wanted_items = map wanted_item_of (ll_items l),
       wanted_meta =
         \<lparr>wanted_completeness = (if sm_complete sm then WantedComplete else WantedPartial),
          wanted_fetched_pages = of_nat (sm_fetched_pages sm),
          wanted_truncated_by_limit = sm_truncated_by_limit sm,
          wanted_end_observed = sm_end_observed sm\<rparr>\<rparr>)"

text \<open>\<open>fetch_wanted\<close>: the snapshot, the message of an error, or a panic\<close>

datatype wanted_stop = WantedSourceError string | WantedPanicked slice_panic

fun wanted_stop_of :: "library_stop \<Rightarrow> wanted_stop" where
  "wanted_stop_of (LibraryFailed e) = WantedSourceError (douban_error_message e)"
| "wanted_stop_of (LibraryPanicked p) = WantedPanicked p"

definition fetch_wanted ::
  "'q http_client \<Rightarrow> unicode \<Rightarrow> 'u url_library \<Rightarrow> string \<Rightarrow> u64 \<Rightarrow> 'q
    \<Rightarrow> (wanted_stop + wanted_snapshot) \<times> 'q" where
  "fetch_wanted http uc ul cookie_header limit q =
     (let (r, q') = library http uc ul cookie_header LibraryWish (unat limit) q in
      (map_err wanted_stop_of (and_then r (\<lambda>l. Inr (wanted_snapshot_of l))), q'))"

end
