(* ===== verification/Wanted_Theorems.thy ===== *)
theory Wanted_Theorems
  imports Douban_Library Poll_Service_Theorems
begin

text \<open>
  What a complete list of the account proves: its pages were read to an empty one, and every
  subject they show is on the list once, where it was first shown.
\<close>

subsection \<open>Reading pages\<close>

text \<open>The pages from an offset, one after the other\<close>

primrec read_pages ::
  "(nat \<Rightarrow> 'q \<Rightarrow> ('e + 'a list) \<times> 'q) \<Rightarrow> nat \<Rightarrow> nat \<Rightarrow> 'q \<Rightarrow> ('e + 'a list list) \<times> 'q" where
  "read_pages read 0 start = Pair (Inr [])"
| "read_pages read (Suc n) start =
     attempt (read start) Inl (\<lambda>items.
     attempt (read_pages read n (start + library_page_size)) Inl (\<lambda>pages. Pair (Inr (items # pages))))"

text \<open>The first of the elements with each key, in order\<close>

fun first_of_each :: "('a \<Rightarrow> 'k) \<Rightarrow> 'k set \<Rightarrow> 'a list \<Rightarrow> 'a list" where
  "first_of_each key seen [] = []"
| "first_of_each key seen (x # xs) =
     (if key x \<in> seen then first_of_each key seen xs
      else x # first_of_each key (insert (key x) seen) xs)"

lemma first_of_each_append:
  "first_of_each key seen (xs @ ys) =
     first_of_each key seen xs @ first_of_each key (seen \<union> key ` set xs) ys"
  by (induction xs arbitrary: seen) (auto simp: insert_absorb)

lemma first_of_each_keys: "seen \<union> key ` set (first_of_each key seen xs) = seen \<union> key ` set xs"
proof (induction xs arbitrary: seen)
  case (Cons x xs)
  from Cons [of seen] Cons [of "insert (key x) seen"] show ?case by auto
qed simp

definition follows :: "library_pagination \<Rightarrow> douban_library_item list list \<Rightarrow> bool" where
  "follows pg pages \<longleftrightarrow>
     pg_items pg = first_of_each li_subject_id {} (concat pages) \<and>
     set (pg_seen pg) = li_subject_id ` set (concat pages) \<and>
     pg_fetched_pages pg = length pages \<and> \<not> pg_truncated_by_limit pg \<and> \<not> pg_end_observed pg \<and>
     (pages = [] \<or> length (pg_items pg) < pg_limit pg) \<and> [] \<notin> set pages"

lemma push_items_follow:
  assumes "push_items pg items = (False, pg')"
  shows "pg_items pg' = pg_items pg @ first_of_each li_subject_id (set (pg_seen pg)) items \<and>
    set (pg_seen pg') = set (pg_seen pg) \<union> li_subject_id ` set items \<and>
    pg_fetched_pages pg' = pg_fetched_pages pg \<and> pg_truncated_by_limit pg' = pg_truncated_by_limit pg \<and>
    pg_end_observed pg' = pg_end_observed pg \<and> pg_limit pg' = pg_limit pg \<and>
    (length (pg_items pg') < pg_limit pg \<or> pg_items pg' = pg_items pg)"
  using assms
proof (induction items arbitrary: pg)
  case (Cons item items)
  show ?case
  proof (cases "li_subject_id item \<in> set (pg_seen pg)")
    case True
    with Cons.prems Cons.IH [of pg] show ?thesis by auto
  next
    case False
    define pg1 where "pg1 = pg\<lparr>pg_seen := li_subject_id item # pg_seen pg, pg_items := pg_items pg @ [item]\<rparr>"
    from Cons.prems False have *: "push_items pg1 items = (False, pg')" "length (pg_items pg1) < pg_limit pg"
      by (auto simp: pg1_def Let_def split: if_splits)
    from Cons.IH [OF *(1)] *(2) False show ?thesis by (auto simp: pg1_def)
  qed
qed simp

lemma push_page_continues:
  assumes "follows pg pages" and "push_page pg items = (PageContinue, pg')"
  shows "follows pg' (pages @ [items]) \<and> pg_limit pg' = pg_limit pg \<and> Suc (length pages) < library_max_pages"
proof -
  let ?pg1 = "pg\<lparr>pg_fetched_pages := Suc (pg_fetched_pages pg)\<rparr>"
  from assms(2) have "items \<noteq> []" and "push_items ?pg1 items = (False, pg')"
      and more: "length (pg_items pg') \<noteq> length (pg_items pg)" "pg_fetched_pages pg' < library_max_pages"
    by (auto simp: push_page_def Let_def split: if_splits prod.splits)
  with push_items_follow [OF this(2)] assms(1) show ?thesis
    by (auto simp: follows_def first_of_each_append)
qed

lemma push_page_completes:
  assumes "follows pg pages" and "push_page pg items = (PageComplete, pg')"
  shows "items = [] \<and> pg' = pg\<lparr>pg_fetched_pages := Suc (length pages), pg_end_observed := True\<rparr>"
  using assms by (auto simp: push_page_def follows_def Let_def split: if_splits prod.splits)

lemma library_pages_read:
  assumes "library_pages read n start d pg q = (Inr (PageComplete, pg'), q')"
    and "follows pg pages" and "d \<noteq> PageComplete"
  shows "\<exists>new q1. read_pages read (length new) start q = (Inr new, q1) \<and>
    read (start + library_page_size * length new) q1 = (Inr [], q') \<and>
    pg_items pg' = first_of_each li_subject_id {} (concat (pages @ new)) \<and>
    [] \<notin> set new \<and> length new < n \<and> pg_fetched_pages pg' = Suc (length (pages @ new)) \<and>
    \<not> pg_truncated_by_limit pg' \<and> pg_end_observed pg' \<and>
    (pages @ new = [] \<or> length (pg_items pg') < pg_limit pg)"
  using assms
proof (induction n arbitrary: start d pg q pages)
  case (Suc n)
  obtain items q1 where read: "read start q = (Inr items, q1)"
    using Suc.prems(1) by (auto simp: attempt_def split: prod.splits sum.splits)
  obtain d1 pg1 where push: "push_page pg items = (d1, pg1)" by fastforce
  show ?case
  proof (cases "d1 = PageContinue")
    case False
    with Suc.prems(1) read push have stop: "d1 = PageComplete" "pg' = pg1" "q' = q1"
      by (auto simp: attempt_def)
    from push_page_completes [OF Suc.prems(2)] push stop
    have "items = []" "pg' = pg\<lparr>pg_fetched_pages := Suc (length pages), pg_end_observed := True\<rparr>" by auto
    with read stop Suc.prems(2) show ?thesis
      by (intro exI [of _ "[]"] exI [of _ q]) (auto simp: follows_def)
  next
    case True
    with Suc.prems(1) read push
    have rest: "library_pages read n (start + library_page_size) PageContinue pg1 q1 = (Inr (PageComplete, pg'), q')"
      by (simp add: attempt_def)
    have more: "follows pg1 (pages @ [items])" "pg_limit pg1 = pg_limit pg"
      using push_page_continues [OF Suc.prems(2)] push True by auto
    from Suc.IH [OF rest more(1)] obtain new q2 where new:
        "read_pages read (length new) (start + library_page_size) q1 = (Inr new, q2)"
        "read (start + library_page_size + library_page_size * length new) q2 = (Inr [], q')"
        "pg_items pg' = first_of_each li_subject_id {} (concat ((pages @ [items]) @ new))"
        "[] \<notin> set new" "length new < n" "pg_fetched_pages pg' = Suc (length ((pages @ [items]) @ new))"
        "\<not> pg_truncated_by_limit pg'" "pg_end_observed pg'" "length (pg_items pg') < pg_limit pg1"
      by auto
    moreover have "items \<noteq> []" using more(1) by (auto simp: follows_def)
    ultimately show ?thesis
      using read more(2)
      by (intro exI [of _ "items # new"] exI [of _ q2]) (simp add: attempt_def algebra_simps)
  qed
qed simp

subsection \<open>The list\<close>

text \<open>The pages of a list, from the first to the empty one that ends it\<close>

definition library_shows ::
  "'q http_client \<Rightarrow> unicode \<Rightarrow> 'u url_library \<Rightarrow> string \<Rightarrow> douban_library_status \<Rightarrow> 'q
    \<Rightarrow> douban_library_item list list \<Rightarrow> 'q \<Rightarrow> bool" where
  "library_shows http uc ul cookie status q pages q' \<longleftrightarrow>
     (\<exists>q1. read_pages (library_page http uc ul cookie status) (length pages) 0 q = (Inr pages, q1) \<and>
        library_page http uc ul cookie status (library_page_size * length pages) q1 = (Inr [], q'))"

lemma library_complete:
  assumes "library http uc ul cookie_header status limit q = (Inr l, q')"
    and "sm_complete (ll_snapshot l)"
  shows "\<exists>cookie pages. require_auth_cookie cookie_header = Inr cookie \<and>
    library_shows http uc ul cookie status q pages q' \<and> length pages < library_max_pages \<and>
    ll_items l = first_of_each li_subject_id {} (concat pages) \<and>
    li_subject_id ` set (ll_items l) = li_subject_id ` set (concat pages) \<and>
    ll_snapshot l = \<lparr>sm_complete = True, sm_fetched_pages = Suc (length pages),
      sm_truncated_by_limit = False, sm_end_observed = True\<rparr>"
proof -
  let ?pg = "pagination_new (min (max limit 1) (library_page_size * library_max_pages))"
  obtain cookie d pg where cookie: "require_auth_cookie cookie_header = Inr cookie"
      and run: "library_pages (library_page http uc ul cookie status) library_max_pages 0 PagePartial ?pg q
        = (Inr (d, pg), q')"
      and l: "ll_items l = pg_items pg" "ll_snapshot l = pagination_snapshot pg d"
    using assms(1) by (auto simp: library_def require_def attempt_def map_err_def split: sum.splits prod.splits)
  have "d = PageComplete" using assms(2) l(2) by (simp add: pagination_snapshot_def)
  moreover have "follows ?pg []" by (simp add: follows_def pagination_new_def)
  ultimately obtain pages q1 where
      "read_pages (library_page http uc ul cookie status) (length pages) 0 q = (Inr pages, q1)"
      "library_page http uc ul cookie status (library_page_size * length pages) q1 = (Inr [], q')"
      "pg_items pg = first_of_each li_subject_id {} (concat pages)" "length pages < library_max_pages"
      "pg_fetched_pages pg = Suc (length pages)" "\<not> pg_truncated_by_limit pg" "pg_end_observed pg"
    using library_pages_read [of _ _ _ _ ?pg _ _ _ "[]"] run by fastforce
  with cookie l \<open>d = PageComplete\<close> first_of_each_keys [of "{}" li_subject_id "concat pages"] show ?thesis
    by (intro exI [of _ cookie] exI [of _ pages])
      (auto simp: library_shows_def pagination_snapshot_def)
qed

text \<open>C33. A complete list is the whole list: when \<open>library\<close> answers with a list it calls complete, the
  pages were read one after the other up to an empty page, within the eighty pages it allows itself; the
  list holds every subject these pages show, once, as and where it was first shown; it was not cut
  by the limit; and it counts the pages it read.\<close>

theorem complete_library_is_whole:
  assumes "library http uc ul cookie_header status limit q = (Inr l, q')"
    and "sm_complete (ll_snapshot l)"
  shows "\<exists>cookie pages. require_auth_cookie cookie_header = Inr cookie \<and>
    library_shows http uc ul cookie status q pages q' \<and> length pages < library_max_pages \<and>
    ll_items l = first_of_each li_subject_id {} (concat pages) \<and>
    li_subject_id ` set (ll_items l) = li_subject_id ` set (concat pages) \<and>
    ll_snapshot l = \<lparr>sm_complete = True, sm_fetched_pages = Suc (length pages),
      sm_truncated_by_limit = False, sm_end_observed = True\<rparr>"
  using library_complete [OF assms] .

text \<open>A list of one page with one item, then an empty page\<close>

definition sample_unicode :: unicode where
  "sample_unicode = \<lparr>uc_lower = (\<lambda>c. [c]), uc_alphanumeric = (\<lambda>c. True), uc_lowercase = (\<lambda>s. s)\<rparr>"

definition no_urls :: "unit url_library" where
  "no_urls = \<lparr>ul_parse = (\<lambda>_. None), ul_scheme = (\<lambda>_. []), ul_host = (\<lambda>_. None), ul_path = (\<lambda>_. []),
     ul_query = (\<lambda>_. None), ul_query_pairs = (\<lambda>_. []), ul_set_query = (\<lambda>_ u. u),
     ul_clear_fragment = (\<lambda>u. u), ul_text = (\<lambda>_. [])\<rparr>"

definition sample_page :: string where
  "sample_page = ''<div class='' @ CHR 0x22 # ''item'' @ CHR 0x22 # ''><a href='' @ CHR 0x22 # ''/subject/4/'' @
     CHR 0x22 # ''>F</a></div>''"

definition sample_http :: "nat http_client" where
  "sample_http r n = (Inr \<lparr>resp_status = 200, resp_final_url = req_url r, resp_content_type = None,
     resp_body = (if n = 0 then sample_page else [])\<rparr>, Suc n)"

lemma sample_library:
  obtains l where "library sample_http sample_unicode no_urls ''dbcl2=acc'' LibraryWish 200 0 = (Inr l, 2)"
    "sm_complete (ll_snapshot l)" "map li_title (ll_items l) = [''F'']"
    "wanted_snapshot_of l = \<lparr>wanted_items = [\<lparr>item_subject_id = ''4'', item_title = ''F'',
         item_abstract_text = [], item_abstract_2 = [], item_cover_url = [], item_poster_url = [],
         item_date = [], item_tags = []\<rparr>],
       wanted_meta = \<lparr>wanted_completeness = WantedComplete, wanted_fetched_pages = 2,
         wanted_truncated_by_limit = False, wanted_end_observed = True\<rparr>\<rparr>"
proof -
  have "case library sample_http sample_unicode no_urls ''dbcl2=acc'' LibraryWish 200 0 of
      (Inl _, _) \<Rightarrow> False
    | (Inr l, n) \<Rightarrow> n = 2 \<and> sm_complete (ll_snapshot l) \<and> map li_title (ll_items l) = [''F''] \<and>
        wanted_snapshot_of l = \<lparr>wanted_items = [\<lparr>item_subject_id = ''4'', item_title = ''F'',
          item_abstract_text = [], item_abstract_2 = [], item_cover_url = [], item_poster_url = [],
          item_date = [], item_tags = []\<rparr>],
        wanted_meta = \<lparr>wanted_completeness = WantedComplete, wanted_fetched_pages = 2,
          wanted_truncated_by_limit = False, wanted_end_observed = True\<rparr>\<rparr>"
    by code_simp
  with that show thesis by (simp split: prod.split_asm sum.split_asm)
qed

theorem complete_library_is_whole_witness:
  "\<exists>pages. library_shows sample_http sample_unicode no_urls ''dbcl2=acc'' LibraryWish 0 pages 2 \<and>
     map li_title (first_of_each li_subject_id {} (concat pages)) = [''F'']"
proof -
  obtain l where l: "library sample_http sample_unicode no_urls ''dbcl2=acc'' LibraryWish 200 0 = (Inr l, 2)"
      "sm_complete (ll_snapshot l)" "map li_title (ll_items l) = [''F'']"
    by (rule sample_library)
  have "require_auth_cookie ''dbcl2=acc'' = Inr ''dbcl2=acc''" by code_simp
  with complete_library_is_whole [OF l(1,2)] l(3) show ?thesis by auto
qed

section \<open>From the list to the rows\<close>

text \<open>
  The poll over the Douban list, from the pages to the rows: a subscription is removed only when its
  subject is on no page of a list that was read to its end.
\<close>

lemma snapshot_records_subjects:
  "snapshot_records_from i items = Inr records \<Longrightarrow> map snap_subject_id records = map item_subject_id items"
  by (induction items arbitrary: i records)
    (auto simp: and_then_Inr_iff snapshot_record_of_def snapshot_record_try_new_def Let_def)

lemma wanted_snapshot_of_library:
  assumes "fetch_wanted http uc ul cookie_header limit q = (Inr snap, q')"
  obtains l where "library http uc ul cookie_header LibraryWish (unat limit) q = (Inr l, q')"
    "snap = wanted_snapshot_of l"
  using assms by (auto simp: fetch_wanted_def map_err_def and_then_def split: prod.splits sum.splits)

lemma complete_wanted_shows:
  assumes fetched: "fetch_wanted http uc ul cookie_header limit q = (Inr snap, q')"
    and complete: "wanted_completeness (wanted_meta snap) = WantedComplete"
  obtains cookie pages where "require_auth_cookie cookie_header = Inr cookie"
    "library_shows http uc ul cookie LibraryWish q pages q'"
    "item_subject_id ` set (wanted_items snap) = li_subject_id ` set (concat pages)"
proof -
  obtain l where l: "library http uc ul cookie_header LibraryWish (unat limit) q = (Inr l, q')"
      "snap = wanted_snapshot_of l"
    by (rule wanted_snapshot_of_library [OF fetched])
  then have "sm_complete (ll_snapshot l)"
    using complete by (auto simp: wanted_snapshot_of_def Let_def split: if_splits)
  from library_complete [OF l(1) this] obtain cookie pages where
      "require_auth_cookie cookie_header = Inr cookie"
      "library_shows http uc ul cookie LibraryWish q pages q'"
      "li_subject_id ` set (ll_items l) = li_subject_id ` set (concat pages)"
    by blast
  moreover have "item_subject_id ` set (wanted_items snap) = li_subject_id ` set (ll_items l)"
    by (simp add: l(2) wanted_snapshot_of_def Let_def wanted_item_of_def image_image)
  ultimately show thesis using that by metis
qed

text \<open>C27. From the pages to the rows: when the source of a poll is the Douban list and a subject the account
  followed is no longer followed after the ending of the poll, then the pages of the list were read one
  after the other up to an empty page, and the subject is on none of them.\<close>

theorem poll_removes_what_no_page_shows:
  assumes ok: "repository_ok db" and run: "end_poll env policy token db = (r, db')"
    and gone: "s \<in> active_subjects db (poll_account_key policy)" "s \<notin> active_subjects db' (poll_account_key policy)"
    and source: "fst (fetch_wanted http uc ul (poll_cookie_header policy) (poll_library_limit policy) q)
      = map_err WantedSourceError (pe_source env (poll_cookie_header policy) (poll_library_limit policy))"
  shows "\<exists>cookie pages q'. require_auth_cookie (poll_cookie_header policy) = Inr cookie \<and>
    library_shows http uc ul cookie LibraryWish q pages q' \<and> s \<notin> li_subject_id ` set (concat pages)"
proof -
  have ok': "db_ok db" "metas_ok db" using ok by (simp_all add: repository_ok_def)
  from run show ?thesis
  proof (cases rule: end_poll_cases)
    case (refused e)
    with gone show ?thesis by simp
  next
    case (failed e c x)
    with record_poll_failure_Inr(2) [OF ok' failed(3)] gone active_subjects_rows show ?thesis by blast
  next
    case (incomplete out c x)
    have "active_subjects db (poll_account_key policy) \<subseteq> active_subjects db' (poll_account_key policy)"
      by (rule record_incomplete_Inr [OF ok' incomplete(3)]) (rule merge_keeps_active [OF ok'(1)])
    with gone show ?thesis by blast
  next
    case (complete snap out c x)
    obtain q' where "fetch_wanted http uc ul (poll_cookie_header policy) (poll_library_limit policy) q = (Inr snap, q')"
      using source complete(5) by (metis map_err_simps(2) prod.collapse)
    moreover have "wanted_completeness (wanted_meta snap) = WantedComplete"
      using complete(6) by (auto simp: validated_snapshot_terminal_def and_then_Inr_iff split: wanted_completeness.splits)
    ultimately obtain cookie pages where pages: "require_auth_cookie (poll_cookie_header policy) = Inr cookie"
        "library_shows http uc ul cookie LibraryWish q pages q'"
        "item_subject_id ` set (wanted_items snap) = li_subject_id ` set (concat pages)"
      by (rule complete_wanted_shows)
    have "s \<notin> snap_subject_id ` set (acs_records c)"
      using complete_lists_seen [OF ok complete(3)] complete(4) gone(2) by auto
    moreover have "map snap_subject_id (acs_records c) = map item_subject_id (wanted_items snap)"
      using complete(7) by (auto simp: snapshot_records_def intro: snapshot_records_subjects)
    ultimately have "s \<notin> li_subject_id ` set (concat pages)"
      using pages(3) by (metis list.set_map)
    with pages show ?thesis by blast
  qed
qed

definition wanted_poll_env :: poll_env where
  "wanted_poll_env = (sample_poll_env True)\<lparr>pe_source := \<lambda>_ _. Inr
     \<lparr>wanted_items = [\<lparr>item_subject_id = ''4'', item_title = ''F'', item_abstract_text = [],
        item_abstract_2 = [], item_cover_url = [], item_poster_url = [], item_date = [], item_tags = []\<rparr>],
      wanted_meta = \<lparr>wanted_completeness = WantedComplete, wanted_fetched_pages = 2,
        wanted_truncated_by_limit = False, wanted_end_observed = True\<rparr>\<rparr>\<rparr>"

lemma sample_fetch_wanted:
  "fst (fetch_wanted sample_http sample_unicode no_urls (poll_cookie_header sample_poll_policy)
      (poll_library_limit sample_poll_policy) 0)
    = map_err WantedSourceError (pe_source wanted_poll_env (poll_cookie_header sample_poll_policy)
      (poll_library_limit sample_poll_policy))"
proof -
  have policy: "poll_cookie_header sample_poll_policy = ''dbcl2=acc''" "poll_library_limit sample_poll_policy = 200"
    by (simp_all add: sample_poll_policy_def)
  have source: "pe_source wanted_poll_env c n = Inr
     \<lparr>wanted_items = [\<lparr>item_subject_id = ''4'', item_title = ''F'', item_abstract_text = [],
        item_abstract_2 = [], item_cover_url = [], item_poster_url = [], item_date = [], item_tags = []\<rparr>],
      wanted_meta = \<lparr>wanted_completeness = WantedComplete, wanted_fetched_pages = 2,
        wanted_truncated_by_limit = False, wanted_end_observed = True\<rparr>\<rparr>" for c n
    unfolding wanted_poll_env_def by simp
  have limit: "unat (200 :: u64) = 200" by simp
  show ?thesis
  proof (rule sample_library)
    fix l assume l: "library sample_http sample_unicode no_urls ''dbcl2=acc'' LibraryWish 200 0 = (Inr l, 2)"
      and snap: "wanted_snapshot_of l = \<lparr>wanted_items = [\<lparr>item_subject_id = ''4'', item_title = ''F'',
         item_abstract_text = [], item_abstract_2 = [], item_cover_url = [], item_poster_url = [],
         item_date = [], item_tags = []\<rparr>],
       wanted_meta = \<lparr>wanted_completeness = WantedComplete, wanted_fetched_pages = 2,
         wanted_truncated_by_limit = False, wanted_end_observed = True\<rparr>\<rparr>"
    show ?thesis
      unfolding policy source fetch_wanted_def limit l Let_def prod.case
      by (simp add: snap)
  qed
qed

lemma sample_wanted_record:
  "snapshot_records [\<lparr>item_subject_id = ''4'', item_title = ''F'', item_abstract_text = [],
      item_abstract_2 = [], item_cover_url = [], item_poster_url = [], item_date = [], item_tags = []\<rparr>]
    = Inr [\<lparr>snap_subject_id = ''4'', snap_media_kind = Movie, snap_schedulable = True, snap_blocked_reason = None,
        snap_source = default_source\<lparr>src_title := ''F'', src_douban_return_order := Some 0\<rparr>\<rparr>]"
proof -
  have order: "word_of_nat (min 0 4294967295) = (0 :: u32)" by simp
  have "snapshot_source \<lparr>item_subject_id = ''4'', item_title = ''F'', item_abstract_text = [],
      item_abstract_2 = [], item_cover_url = [], item_poster_url = [], item_date = [], item_tags = []\<rparr> 0
    = default_source\<lparr>src_title := ''F'', src_douban_return_order := Some 0\<rparr>"
    unfolding snapshot_source_def order by code_simp
  moreover have "snapshot_record_try_new ''4'' Movie True None
      (default_source\<lparr>src_title := ''F'', src_douban_return_order := Some 0\<rparr>)
    = Inr \<lparr>snap_subject_id = ''4'', snap_media_kind = Movie, snap_schedulable = True, snap_blocked_reason = None,
        snap_source = default_source\<lparr>src_title := ''F'', src_douban_return_order := Some 0\<rparr>\<rparr>"
    by code_simp
  moreover have "media_kind_from_tags (normalized_tags []) = Movie" by code_simp
  ultimately show ?thesis by (simp add: snapshot_records_def snapshot_record_of_def)
qed

lemma wanted_poll_run:
  "end_poll wanted_poll_env sample_poll_policy sample_poll_token poll_db
    = finish_complete_poll wanted_poll_env sample_poll_policy sample_poll_token 1200
        [\<lparr>snap_subject_id = ''4'', snap_media_kind = Movie, snap_schedulable = True, snap_blocked_reason = None,
          snap_source = default_source\<lparr>src_title := ''F'', src_douban_return_order := Some 0\<rparr>\<rparr>] poll_db"
proof -
  have source: "pe_source wanted_poll_env c n = Inr
     \<lparr>wanted_items = [\<lparr>item_subject_id = ''4'', item_title = ''F'', item_abstract_text = [],
        item_abstract_2 = [], item_cover_url = [], item_poster_url = [], item_date = [], item_tags = []\<rparr>],
      wanted_meta = \<lparr>wanted_completeness = WantedComplete, wanted_fetched_pages = 2,
        wanted_truncated_by_limit = False, wanted_end_observed = True\<rparr>\<rparr>" for c n
    unfolding wanted_poll_env_def by simp
  have later: "max (pe_answered_at wanted_poll_env) (pe_started_at wanted_poll_env) = 1200"
    by (simp add: wanted_poll_env_def sample_poll_env_def)
  have "validated_snapshot_terminal \<lparr>wanted_completeness = WantedComplete, wanted_fetched_pages = 2,
        wanted_truncated_by_limit = False, wanted_end_observed = True\<rparr> = Inr TerminalComplete"
    by code_simp
  then show ?thesis
    unfolding end_poll_def Let_def source later by (simp add: sample_wanted_record)
qed

theorem poll_removes_what_no_page_shows_witness:
  "\<exists>pages q'. library_shows sample_http sample_unicode no_urls ''dbcl2=acc'' LibraryWish 0 pages q' \<and>
     ''s1'' \<notin> li_subject_id ` set (concat pages)"
proof -
  let ?run = "end_poll wanted_poll_env sample_poll_policy sample_poll_token poll_db"
  have "list_all (\<lambda>r. col_active r = 1 \<longrightarrow> col_subject_id r = ''4'') (db_rows (snd ?run))"
    unfolding wanted_poll_run by code_simp
  then have "''s1'' \<notin> active_subjects (snd ?run) ''acc''" by (auto simp: active_subjects_def list_all_iff)
  moreover have "''s1'' \<in> active_subjects poll_db ''acc''"
    by (auto simp: active_subjects_def poll_db_def running_db_def database_of_def running_row_def idle_row_def)
  ultimately have gone: "''s1'' \<in> active_subjects poll_db (poll_account_key sample_poll_policy)"
      "''s1'' \<notin> active_subjects (snd ?run) (poll_account_key sample_poll_policy)"
    by (simp_all add: sample_poll_policy_def)
  have run: "?run = (fst ?run, snd ?run)" by simp
  have policy: "poll_cookie_header sample_poll_policy = ''dbcl2=acc''" by (simp add: sample_poll_policy_def)
  have "require_auth_cookie ''dbcl2=acc'' = Inr ''dbcl2=acc''" by code_simp
  with poll_removes_what_no_page_shows [OF poll_db_ok run gone sample_fetch_wanted] show ?thesis
    unfolding policy by simp
qed

end
