(* ===== verification/Spec2Isabelle.thy ===== *)
theory Spec2Isabelle
  imports Claim_Theorems Attempt_History Terminal_Theorems Effects_Properties Contract_Theorems
    Mutation_Theorems List_Theorems Episode_Theorems Poll_Theorems Config_Theorems
    Config_Durability Config_Manager Redaction Poll_Service_Theorems Batch_Theorems
    Adapter_Theorems Hardlink_Theorems Effect_Theorems Effect_Authorization Link_Theorems
    Link_Layout Candidate_Selection Operation_Logs Login_Theorems Torrent_Theorems
    Wanted_Theorems Http_Client
begin

text \<open>
  A verification library for tmdb-mteam-hub, a service that follows the "wanted" list of a Douban
  account, looks for torrents of what is on it at M-Team, hands them to qBittorrent, and links the
  finished files into a media library. The model is of the Rust code under \<open>src/src/\<close>; the web
  client is not part of it. Definitions keep the names of the functions and types they translate,
  and the comment before a group names the source file.

  \<^bold>\<open>The program and how its parts interact.\<close> A subscription is one row of a SQLite table: an
  indexed head (lifecycle, schedule, lease) and a JSON payload (source, candidates, downloads, links).
  Three clients change it. The poll worker (\<open>subscription/worker.rs\<close>) reads the list of the account
  and merges it into the rows. The execution service (\<open>subscription/execution.rs\<close>) claims due rows
  under a lease, runs one effect (\<open>subscription/execution_effects.rs\<close>) on the remote services and the
  files, and reports the result with the token of its attempt. The HTTP API changes rows outside an
  attempt. All of them go through the transactions of \<open>storage/subscription_repo\<close>, which are the
  only writers of the tables. Around them: the configuration (\<open>config.rs\<close>), management access
  (\<open>http/auth.rs\<close>, \<open>app/auth_security.rs\<close>), the operation log, the redaction of diagnostics, and the
  clients of Douban and M-Team.

  \<^bold>\<open>Theories and sources.\<close>
  \<^item> \<open>Prelude\<close>, \<open>Rust_Text\<close>: \<open>Result\<close> as a sum with \<open>and_then\<close>, machine integers, byte strings and the
    part of \<open>str\<close> the code uses; the lemma collections \<open>result_simps\<close>, \<open>trim_simps\<close>, \<open>codec_simps\<close> and the generic
    lemmas on keyed lists.
  \<^item> Domain: \<open>Domain_Model\<close> (\<open>subscription/model.rs\<close>), \<open>Repository_Core\<close>, \<open>Repository_Domain\<close>,
    \<open>Execution_Contract\<close>, \<open>Poll_Contract\<close> (\<open>subscription/repository.rs\<close>), \<open>Payload_Model\<close>
    (\<open>subscription/repository/payload.rs\<close>), \<open>Episode_Coverage\<close> (\<open>subscription/episode.rs\<close>). Properties:
    \<open>Contract_Theorems\<close>, \<open>Episode_Theorems\<close>.
  \<^item> Storage: \<open>Schema_Rows\<close> (\<open>storage/schema_v5.rs\<close>: both tables with their CHECKs), \<open>Sql_Store\<close>
    (statements and transactions over a database value), \<open>Row_Codec\<close> (what a decoded row says of its
    columns).
  \<^item> Execution store (\<open>storage/subscription_repo/claim.rs\<close>): \<open>Claim_Store\<close>, \<open>Claim_Operations\<close>,
    \<open>Claim_Terminal\<close>; facts in \<open>Claim_Facts\<close> (the fence), \<open>Claim_Properties\<close> (claims),
    \<open>Claim_History\<close> (histories), \<open>Claim_Liveness\<close> (terminal operations succeed); properties in
    \<open>Claim_Theorems\<close>, \<open>Terminal_Theorems\<close>, \<open>Attempt_History\<close>.
  \<^item> Mutations and the list (\<open>storage/subscription_repo.rs\<close>): \<open>Mutation_Store\<close>, \<open>Mutation_Facts\<close>,
    \<open>Mutation_Theorems\<close>; \<open>List_Store\<close>, \<open>List_Theorems\<close>. The operation log
    (\<open>storage/subscription_repo/operation_logs.rs\<close>): \<open>Operation_Logs\<close>.
  \<^item> Poll store (\<open>storage/subscription_repo/poll.rs\<close>): \<open>Poll_Store\<close>, \<open>Poll_Merge\<close>, \<open>Poll_Operations\<close>;
    \<open>Poll_Facts\<close>, \<open>Poll_Consumption\<close>, \<open>Poll_History\<close>; \<open>Repository_History\<close> joins every transaction of
    the repository into one step relation; properties in \<open>Poll_Theorems\<close>.
  \<^item> Poll worker (\<open>subscription/worker.rs\<close>): \<open>Poll_Service\<close>, \<open>Poll_Worker\<close>, \<open>Poll_Service_Theorems\<close>. Its page
    source (\<open>clients/douban.rs\<close>, \<open>douban.rs\<close>, \<open>subscription/wanted_source.rs\<close>): \<open>Html_Scan\<close>,
    \<open>Douban_Images\<close>, \<open>Douban_Library\<close>, \<open>Wanted_Theorems\<close>.
  \<^item> Execution service: \<open>Execution_Service\<close>, \<open>Batch_Theorems\<close>. Effects: \<open>Candidate_Matching\<close>,
    \<open>Candidate_Selection\<close>, \<open>Link_Plans\<close>, \<open>Effect_Metadata\<close>, \<open>Effect_Environment\<close>,
    \<open>Replacement_Effects\<close>, \<open>Execution_Effects\<close>; their adapters (\<open>subscription/effects.rs\<close>,
    \<open>subscription/effect_adapters.rs\<close>): \<open>Effects_Domain\<close>, \<open>Effect_Adapters\<close>, \<open>Hardlink_Adapter\<close>; the M-Team
    client and HTTP errors: \<open>Http_Client\<close>, \<open>Torrent_Metainfo\<close>. Properties: \<open>Effects_Properties\<close>,
    \<open>Adapter_Theorems\<close>, \<open>Hardlink_Theorems\<close>, \<open>Effect_Theorems\<close>, \<open>Watched_Services\<close> and \<open>Effect_Authorization\<close>, \<open>Link_Theorems\<close>,
    \<open>Link_Layout\<close>, \<open>Torrent_Theorems\<close>.
  \<^item> Configuration (\<open>config.rs\<close>): \<open>Config_Model\<close>, \<open>Config_Store\<close>; \<open>Config_Facts\<close>, \<open>Config_Durability\<close>,
    \<open>Config_Theorems\<close>, \<open>Config_Manager\<close>. Redaction: \<open>Redaction\<close>. Management access: \<open>Login_Guard\<close>,
    \<open>Login_Theorems\<close>.
  \<^item> \<open>Example_Data\<close>, and the sample definitions of the property theories: the concrete inputs of the
    witnesses.

  \<^bold>\<open>Interfaces.\<close> Each contract that several operations share is a locale, interpreted on the code's
  own operations: \<open>keyed_table\<close> (a table with a lookup and a guarded update; \<open>rows\<close>, \<open>metas\<close>),
  \<open>fenced_operation\<close> and \<open>terminal_operation\<close> (what presents a token succeeds only for the live
  attempt; \<open>extend\<close>, \<open>finish\<close>, \<open>failure\<close>, \<open>release\<close>), \<open>keyed_merge\<close> (\<open>downloads\<close>, \<open>links\<close>),
  \<open>gated_mutation\<close> (\<open>search\<close>, \<open>choice\<close>, \<open>retry\<close>) and \<open>poll_terminal\<close> (\<open>poll_failure\<close>, \<open>incomplete\<close>,
  \<open>complete\<close>).

  \<^bold>\<open>What the lemma groups show.\<close>
  \<^item> Attempts: only the live owner of a lease changes its row, a token is spent by its first terminal
    operation for good, a due scan hands out the first eligible row and misses none, and finishing or
    failing a live attempt commits.
  \<^item> The repository as a whole: along every sequence of transactions, under any clock, identifiers
    and faults, CHECKs and indexes hold, rows are not deleted, and a revision names its content.
  \<^item> Polls: a complete list becomes the active rows, an incomplete one removes nothing, attempts
    are kept or audited, and a token is accepted once; through the client, a row is removed only
    after every page of the list was read.
  \<^item> Payloads: the validators accept exactly the well-formed payloads, rows decode to what they
    encode, and a delta writes what it brings.
  \<^item> The list: a page is the prefix of one sorted list, and pages partition it.
  \<^item> Effects: results fit the operation, every push and deletion is justified by what the services
    answered before, the adapter refines the reconciliation, links overwrite nothing, and a completed
    subscription has all its links.
  \<^item> Configuration: writes are atomic, normalisation is total and yields well-formed values, accepted
    updates are all there. Access: the guard, the cookie, and a bound on guesses.

  \<^bold>\<open>Decisions of the model.\<close> SQLite INTEGER is \<open>int\<close> with the CHECKs and conversions written out, Rust's
  integers are words, TEXT and \<open>String\<close> are byte strings, \<open>f64\<close> is its bits. An error is the left side
  of a sum; a transaction returns the old database with it. Time is \<open>u64\<close> seconds of the clock a
  transaction reads, or nanoseconds where the code uses \<open>Instant\<close>. Paths are compared by components,
  as \<open>PathBuf\<close> does; the file tree maps components to inodes, and other processes may change it
  between any two calls (\<open>le_meanwhile\<close>, \<open>sv_others\<close>). A slice that would panic is an error value
  (\<open>BadSlice\<close>). A batch of the execution service is a step relation, so that its attempts interleave
  with each other and with every other client. Updates of the configuration and logins are taken in
  the order in which they hold their lock.

  \<^bold>\<open>Parameters.\<close> What is not under \<open>src/\<close> is an argument of the definitions: SHA-256 and SHA-1, the
  clock, random identifiers, faults of SQLite at every call and its LIKE (\<open>repo_env\<close>), the kernel
  (\<open>link_env\<close>, \<open>os_env\<close>), the TOML codec and \<open>Url::parse\<close> (\<open>config_env\<close>), the Unicode tables (\<open>unicode\<close>),
  Douban, TMDB, M-Team, qBittorrent and the poster cache with a state of their own
  (\<open>effect_services\<close>, \<open>qb_transport\<close>), \<open>reqwest\<close> and \<open>serde_json\<close>. A property that relies on one of
  them says so in a hypothesis, and its witness instantiates it.

  \<^bold>\<open>Bounds and fuel.\<close> The bencode parser has the length of its input as fuel, and each element takes a
  byte of it; its depth is at most 64, as in the code. The list of an account is read for at most 80
  pages. An attempt identifier is drawn at most 8 times. The backoff loop counts down its number of
  failures. The search for a free server identifier is a \<open>partial_function\<close>, shown to end. The
  scanner of pages recurses on a shorter rest at every tag.

  \<^bold>\<open>Not modelled.\<close> The web client; axum handlers and their DTOs; opening the database, its
  migration from older schemas, the blocking pool and file locks; the requests of the qBittorrent
  and TMDB clients; Douban search, subject pages, QR login and image download; poster caching. They
  are input and output around the logic above, or calls of libraries.
\<close>

end
